(* ===== verification/Go_Prelude.thy ===== *)
theory Go_Prelude
  imports Complex_Main "HOL-Library.AList" "HOL-Library.Char_ord" "HOL-Library.List_Lexorder"
begin

text \<open>
  Shared vocabulary of the development: the parts of the Go language and of its standard
  library that the modelled packages use, and the generic lemmas the component theories
  share.

  \<^item> A Go \<open>string\<close> is a HOL \<open>string\<close> (a list of bytes); \<open>sort.Strings\<close> is \<open>sort\<close>
    over the bytewise lexicographic order.
  \<^item> A Go \<open>map[K]V\<close> is an association list with distinct keys (\<open>gm_inv\<close>). Reading an
    absent key gives the zero value of \<open>V\<close> (\<open>gm_get\<close>); ranging over the map visits the
    list from left to right, so a theorem about every association list is a theorem about
    every iteration order of the run-time.
  \<^item> \<open>time.Time\<close> is a number of nanoseconds since Go's zero time, so that \<open>IsZero\<close> is
    equality with 0; \<open>time.Duration\<close> is an \<open>int\<close> whose 64-bit wrap-around (or, for
    \<open>Time.Sub\<close>, saturation) is written out at each operation.
  \<^item> \<open>float64\<close> is a datatype with the three special values and the finite values as
    rationals; arithmetic rounds to the nearest double, ties to even.
\<close>

section \<open>Fact collections\<close>

named_theorems go_simps \<open>unfolding rules for the Go library operations\<close>
named_theorems gm_simps \<open>lookup laws of Go maps\<close>
named_theorems gm_intros \<open>well-formedness of Go maps\<close>

section \<open>Maps\<close>

type_synonym ('k, 'v) gomap = "('k \<times> 'v) list"

text \<open>A \<open>map[K]struct{}\<close> or \<open>map[K]bool\<close> used as a set is the list of its keys.\<close>

type_synonym 'k goset = "'k list"

definition gm_empty :: "('k, 'v) gomap" where
  "gm_empty = []"

definition gm_inv :: "('k, 'v) gomap \<Rightarrow> bool" where
  "gm_inv m \<longleftrightarrow> distinct (map fst m)"

definition gm_lookup :: "('k, 'v) gomap \<Rightarrow> 'k \<Rightarrow> 'v option" where
  "gm_lookup m = map_of m"

text \<open>\<open>m[k]\<close> as an expression: the zero value \<open>z\<close> where the key is absent.\<close>

definition gm_get :: "'v \<Rightarrow> ('k, 'v) gomap \<Rightarrow> 'k \<Rightarrow> 'v" where
  "gm_get z m k = (case gm_lookup m k of None \<Rightarrow> z | Some v \<Rightarrow> v)"

definition gm_set :: "'k \<Rightarrow> 'v \<Rightarrow> ('k, 'v) gomap \<Rightarrow> ('k, 'v) gomap" where
  "gm_set = AList.update"

definition gm_delete :: "'k \<Rightarrow> ('k, 'v) gomap \<Rightarrow> ('k, 'v) gomap" where
  "gm_delete = AList.delete"

definition gm_keys :: "('k, 'v) gomap \<Rightarrow> 'k list" where
  "gm_keys m = map fst m"

text \<open>Adding a key to a map used as a set.\<close>

definition gs_add :: "'k \<Rightarrow> 'k goset \<Rightarrow> 'k goset" where
  "gs_add k s = (if k \<in> set s then s else s @ [k])"

lemma gm_lookup_empty [simp]: "gm_lookup gm_empty k = None"
  by (simp add: gm_lookup_def gm_empty_def)

lemma gm_lookup_Nil [simp]: "gm_lookup [] k = None"
  by (simp add: gm_lookup_def)

lemma gm_lookup_Cons [simp]:
  "gm_lookup ((k', v) # m) k = (if k = k' then Some v else gm_lookup m k)"
  by (simp add: gm_lookup_def)

lemma gm_lookup_set [simp]:
  "gm_lookup (gm_set k v m) k' = (if k' = k then Some v else gm_lookup m k')"
  by (simp add: gm_lookup_def gm_set_def update_conv')

lemma gm_lookup_delete [simp]:
  "gm_lookup (gm_delete k m) k' = (if k' = k then None else gm_lookup m k')"
  by (simp add: gm_lookup_def gm_delete_def delete_conv')

lemma gm_inv_empty [simp, gm_intros]: "gm_inv gm_empty"
  by (simp add: gm_inv_def gm_empty_def)

lemma gm_inv_Nil [simp]: "gm_inv []"
  by (simp add: gm_inv_def)

lemma gm_inv_set [simp, gm_intros]: "gm_inv m \<Longrightarrow> gm_inv (gm_set k v m)"
  by (simp add: gm_inv_def gm_set_def distinct_update)

lemma gm_inv_delete [simp, gm_intros]: "gm_inv m \<Longrightarrow> gm_inv (gm_delete k m)"
  by (simp add: gm_inv_def gm_delete_def distinct_delete)

lemma gm_get_empty [simp]: "gm_get z [] k = z"
  by (simp add: gm_get_def)

lemma gm_get_set [simp]: "gm_get z (gm_set k v m) k' = (if k' = k then v else gm_get z m k')"
  by (simp add: gm_get_def)

lemma gm_get_delete [simp]: "gm_get z (gm_delete k m) k' = (if k' = k then z else gm_get z m k')"
  by (simp add: gm_get_def)

lemma gm_set_Nil [simp]: "gm_set k v [] = [(k, v)]"
  by (simp add: gm_set_def)

lemma gm_set_Cons [simp]:
  "gm_set k v ((k', v') # m) = (if k = k' then (k, v) # m else (k', v') # gm_set k v m)"
  by (simp add: gm_set_def)

lemma gm_delete_Nil [simp]: "gm_delete k [] = []"
  by (simp add: gm_delete_def)

lemma gm_delete_Cons [simp]:
  "gm_delete k ((k', v') # m) = (if k = k' then gm_delete k m else (k', v') # gm_delete k m)"
  by (simp add: gm_delete_def)

lemma gm_lookup_None_iff: "gm_lookup m k = None \<longleftrightarrow> k \<notin> set (gm_keys m)"
  by (simp add: gm_lookup_def gm_keys_def map_of_eq_None_iff)

lemma gm_key_iff: "k \<in> set (gm_keys m) \<longleftrightarrow> gm_lookup m k \<noteq> None"
  using gm_lookup_None_iff [of m k] by auto

lemma set_gm_keys_set [simp]: "set (gm_keys (gm_set k v m)) = insert k (set (gm_keys m))"
  by (auto simp: gm_key_iff split: if_splits)

lemma set_gm_keys_delete [simp]: "set (gm_keys (gm_delete k m)) = set (gm_keys m) - {k}"
  by (auto simp: gm_key_iff split: if_splits)

lemma gm_keys_Nil [simp]: "gm_keys [] = []"
  by (simp add: gm_keys_def)

lemma gm_keys_Cons [simp]: "gm_keys (p # m) = fst p # gm_keys m"
  by (simp add: gm_keys_def)

lemma gm_lookup_Some_key: "gm_lookup m k = Some v \<Longrightarrow> k \<in> set (gm_keys m)"
  using gm_lookup_None_iff [of m k] by auto

lemma gm_lookup_in: "gm_inv m \<Longrightarrow> (k, v) \<in> set m \<longleftrightarrow> gm_lookup m k = Some v"
  by (simp add: gm_lookup_def gm_inv_def)

lemma gm_lookup_mem: "gm_lookup m k = Some v \<Longrightarrow> (k, v) \<in> set m"
  by (simp add: gm_lookup_def map_of_SomeD)

lemma gm_lookup_map_snd:
  "gm_lookup (map (\<lambda>(k, v). (k, f v)) m) k = map_option f (gm_lookup m k)"
  by (induction m) auto

lemma gm_inv_map_snd: "gm_inv (map (\<lambda>(k, v). (k, f v)) m) = gm_inv m"
proof -
  have "map (fst \<circ> (\<lambda>(k, v). (k, f v))) m = map fst m" by (induction m) auto
  then show ?thesis unfolding gm_inv_def by (simp only: map_map)
qed

lemma gm_inv_filter: "gm_inv m \<Longrightarrow> gm_inv (filter P m)"
  by (simp add: gm_inv_def distinct_map_filter)

lemma gm_lookup_filter_Some:
  "gm_inv m \<Longrightarrow> gm_lookup (filter P m) k = Some v \<Longrightarrow> gm_lookup m k = Some v"
  by (metis filter_is_subset gm_inv_filter gm_lookup_in subset_iff)

lemma set_gs_add [simp]: "set (gs_add k s) = insert k (set s)"
  by (auto simp: gs_add_def)

lemma distinct_gs_add [simp]: "distinct s \<Longrightarrow> distinct (gs_add k s)"
  by (simp add: gs_add_def)

text \<open>
  The interface every component relies on: what a map answers after each operation, and
  that operations keep the keys distinct. It is the contract of the Go run-time's map and
  is interpreted on the association lists above.
\<close>

locale go_map =
  fixes lookup :: "'m \<Rightarrow> 'k \<Rightarrow> 'v option"
    and assign :: "'k \<Rightarrow> 'v \<Rightarrow> 'm \<Rightarrow> 'm"
    and remove :: "'k \<Rightarrow> 'm \<Rightarrow> 'm"
    and ok :: "'m \<Rightarrow> bool"
  assumes lookup_assign: "lookup (assign k v m) k' = (if k' = k then Some v else lookup m k')"
    and lookup_remove: "lookup (remove k m) k' = (if k' = k then None else lookup m k')"
    and ok_assign: "ok m \<Longrightarrow> ok (assign k v m)"
    and ok_remove: "ok m \<Longrightarrow> ok (remove k m)"
begin

lemma assign_all_other:
  "k \<notin> fst ` set ps \<Longrightarrow> lookup (fold (\<lambda>(k, v). assign k v) ps m) k = lookup m k"
  by (induction ps arbitrary: m) (auto simp: lookup_assign)

lemma assign_all_ok: "ok m \<Longrightarrow> ok (fold (\<lambda>(k, v). assign k v) ps m)"
  by (induction ps arbitrary: m) (auto simp: ok_assign)

lemma assign_all_map_of:
  "lookup (fold (\<lambda>(k, v). assign k v) ps m) k =
     (case map_of (rev ps) k of None \<Rightarrow> lookup m k | Some v \<Rightarrow> Some v)"
  by (induction ps arbitrary: m) (auto simp: lookup_assign map_add_def split: option.splits)

lemma assign_all_distinct:
  assumes "distinct (map fst ps)" and "(k, v) \<in> set ps"
  shows "lookup (fold (\<lambda>(k, v). assign k v) ps m) k = Some v"
proof -
  have "map_of (rev ps) k = Some v"
    using assms by (intro map_of_is_SomeI) (simp_all flip: rev_map)
  then show ?thesis
    by (simp add: assign_all_map_of)
qed

lemma remove_all_lookup:
  "lookup (fold remove ks m) k = (if k \<in> set ks then None else lookup m k)"
  by (induction ks arbitrary: m) (auto simp: lookup_remove)

end

interpretation gomap: go_map gm_lookup gm_set gm_delete gm_inv
  by unfold_locales simp_all

section \<open>Strings\<close>

definition hasPrefix :: "string \<Rightarrow> string \<Rightarrow> bool" where
  "hasPrefix s p \<longleftrightarrow> take (length p) s = p"

lemma hasPrefix_append [simp]: "hasPrefix (p @ s) p"
  by (simp add: hasPrefix_def)

text \<open>\<open>strings.Cut(s, sep)\<close> for a one-byte separator: before, after, found.\<close>

fun cut :: "string \<Rightarrow> char \<Rightarrow> string \<times> string \<times> bool" where
  "cut [] c = ([], [], False)"
| "cut (x # xs) c =
     (if x = c then ([], xs, True)
      else (let (before, after, found) = cut xs c in (x # before, after, found)))"

lemma cut_found: "c \<notin> set a \<Longrightarrow> cut (a @ c # b) c = (a, b, True)"
  by (induction a) auto

lemma cut_not_found: "c \<notin> set a \<Longrightarrow> cut a c = (a, [], False)"
  by (induction a) auto

text \<open>
  \<open>strings.TrimSpace\<close> on ASCII text: the leading and trailing tab, newline, vertical tab,
  form feed, carriage return and space are removed.
\<close>

definition asciiSpace :: "char \<Rightarrow> bool" where
  "asciiSpace c \<longleftrightarrow> c \<in> {CHR 0x09, CHR 0x0A, CHR 0x0B, CHR 0x0C, CHR 0x0D, CHR 0x20}"

definition trimSpace :: "string \<Rightarrow> string" where
  "trimSpace s = rev (dropWhile asciiSpace (rev (dropWhile asciiSpace s)))"

lemma trimSpace_Nil [simp]: "trimSpace [] = []"
  by (simp add: trimSpace_def)

text \<open>\<open>strings.Join\<close>.\<close>

fun join :: "string list \<Rightarrow> string \<Rightarrow> string" where
  "join [] sep = []"
| "join [x] sep = x"
| "join (x # y # ys) sep = x @ sep @ join (y # ys) sep"

section \<open>Time and duration\<close>

type_synonym gotime = int
type_synonym duration = int

definition wrap64 :: "int \<Rightarrow> int" where
  "wrap64 x = (x + 2 ^ 63) mod 2 ^ 64 - 2 ^ 63"

definition second :: duration where "second = 1000000000"
definition minute :: duration where "minute = 60 * second"
definition hour :: duration where "hour = 60 * minute"

definition isZero :: "gotime \<Rightarrow> bool" where
  "isZero t \<longleftrightarrow> t = 0"

text \<open>\<open>Time.Add\<close>, \<open>Time.Sub\<close> (which saturates), and negation of a duration (which wraps).\<close>

definition time_add :: "gotime \<Rightarrow> duration \<Rightarrow> gotime" where
  "time_add t d = t + d"

definition time_sub :: "gotime \<Rightarrow> gotime \<Rightarrow> duration" where
  "time_sub t u = max (- (2 ^ 63)) (min (2 ^ 63 - 1) (t - u))"

definition dur_neg :: "duration \<Rightarrow> duration" where
  "dur_neg d = wrap64 (- d)"

definition dur_add :: "duration \<Rightarrow> duration \<Rightarrow> duration" where
  "dur_add d e = wrap64 (d + e)"

definition int64 :: "int \<Rightarrow> bool" where
  "int64 x \<longleftrightarrow> - (2 ^ 63) \<le> x \<and> x < 2 ^ 63"

lemma wrap64_id: "int64 x \<Longrightarrow> wrap64 x = x"
  by (simp add: int64_def wrap64_def)

lemma wrap64_range: "int64 (wrap64 x)"
  by (simp add: wrap64_def int64_def)

lemma dur_neg_nonneg: "int64 d \<Longrightarrow> 0 \<le> d \<Longrightarrow> dur_neg d = - d"
  by (simp add: dur_neg_def wrap64_def int64_def)

lemma time_sub_exact: "int64 (t - u) \<Longrightarrow> time_sub t u = t - u"
  by (simp add: time_sub_def int64_def)

lemma time_sub_ge: "int64 d \<Longrightarrow> 0 \<le> d \<Longrightarrow> d \<le> time_sub t u \<longleftrightarrow> d \<le> t - u"
  by (auto simp: time_sub_def int64_def)

lemma time_sub_less: "int64 d \<Longrightarrow> 0 \<le> d \<Longrightarrow> time_sub t u < d \<longleftrightarrow> t - u < d"
  using time_sub_ge [of d t u] by linarith

lemma time_sub_le: "0 \<le> d \<Longrightarrow> d < 2 ^ 63 - 1 \<Longrightarrow> time_sub t u \<le> d \<longleftrightarrow> t - u \<le> d"
  by (auto simp: time_sub_def int64_def)

section \<open>Floating point\<close>

datatype float64 = NaN | PosInf | NegInf | Fin rat

definition isNaN :: "float64 \<Rightarrow> bool" where
  "isNaN x \<longleftrightarrow> x = NaN"

definition isInf :: "float64 \<Rightarrow> bool" where
  "isInf x \<longleftrightarrow> x = PosInf \<or> x = NegInf"

text \<open>Comparison: false as soon as one side is NaN.\<close>

fun f_less :: "float64 \<Rightarrow> float64 \<Rightarrow> bool" where
  "f_less NaN y = False"
| "f_less x NaN = False"
| "f_less NegInf y = (y \<noteq> NegInf)"
| "f_less x NegInf = False"
| "f_less x PosInf = (x \<noteq> PosInf)"
| "f_less PosInf y = False"
| "f_less (Fin a) (Fin b) = (a < b)"

fun f_eq :: "float64 \<Rightarrow> float64 \<Rightarrow> bool" where
  "f_eq NaN y = False"
| "f_eq x NaN = False"
| "f_eq x y = (x = y)"

text \<open>
  Rounding to binary64, nearest with ties to even: \<open>q\<close> is the exponent of the last place
  (at least \<open>-1074\<close>, where subnormals sit), the significand is \<open>x\<close> divided by \<open>2\<close> to the
  power \<open>q\<close> and rounded to an integer; beyond the largest finite value
  \<open>(2 ^ 53 - 1) * 2 ^ 971\<close> the result is an infinity. The arithmetic is on the integer
  numerator and denominator of \<open>x\<close>.
\<close>

definition roundDiv :: "int \<Rightarrow> int \<Rightarrow> int" where
  "roundDiv n d =
     (let q = n div d; r = n mod d in
      if 2 * r < d then q else if d < 2 * r then q + 1 else if even q then q else q + 1)"

fun nbits :: "nat \<Rightarrow> nat" where
  "nbits n = (if n = 0 then 0 else Suc (nbits (n div 2)))"

declare nbits.simps [simp del]

text \<open>The exponent \<open>e\<close> with \<open>2 ^ e \<le> n / d < 2 ^ (e + 1)\<close>.\<close>

definition binExp :: "int \<Rightarrow> int \<Rightarrow> int" where
  "binExp n d =
     (let e = int (nbits (nat n)) - int (nbits (nat d));
          below = (if 0 \<le> e then n < d * 2 ^ nat e else n * 2 ^ nat (- e) < d)
      in if below then e - 1 else e)"

definition significand :: "int \<Rightarrow> int \<Rightarrow> int \<Rightarrow> int" where
  "significand q n d =
     (if 0 \<le> q then roundDiv n (d * 2 ^ nat q) else roundDiv (n * 2 ^ nat (- q)) d)"

definition scale :: "int \<Rightarrow> int \<Rightarrow> rat" where
  "scale q s = (if 0 \<le> q then of_int (s * 2 ^ nat q) else Fract s (2 ^ nat (- q)))"

definition f_round :: "rat \<Rightarrow> float64" where
  "f_round x =
     (if x = 0 then Fin 0
      else case quotient_of \<bar>x\<bar> of (n, d) \<Rightarrow>
        let q = max (binExp n d - 52) (- 1074);
            s = significand q n d
        in if 971 < q \<or> q = 971 \<and> 2 ^ 53 \<le> s then (if x < 0 then NegInf else PosInf)
           else Fin (if x < 0 then - scale q s else scale q s))"

fun f_sub :: "float64 \<Rightarrow> float64 \<Rightarrow> float64" where
  "f_sub NaN y = NaN"
| "f_sub x NaN = NaN"
| "f_sub PosInf PosInf = NaN"
| "f_sub NegInf NegInf = NaN"
| "f_sub PosInf y = PosInf"
| "f_sub NegInf y = NegInf"
| "f_sub (Fin a) PosInf = NegInf"
| "f_sub (Fin a) NegInf = PosInf"
| "f_sub (Fin a) (Fin b) = f_round (a - b)"

lemma roundDiv_nonneg: "0 \<le> n \<Longrightarrow> 0 < d \<Longrightarrow> 0 \<le> roundDiv n d"
  by (simp add: roundDiv_def Let_def pos_imp_zdiv_nonneg_iff add_nonneg_nonneg)

lemma scale_nonneg: "0 \<le> n \<Longrightarrow> 0 < d \<Longrightarrow> 0 \<le> scale q (significand q n d)"
  by (simp add: scale_def significand_def roundDiv_nonneg zero_le_Fract_iff)

lemma scale_quotient_nonneg:
  assumes "quotient_of y = (n, d)" and "0 \<le> y"
  shows "0 \<le> scale q (significand q n d)"
proof (rule scale_nonneg)
  show d: "0 < d" using quotient_of_denom_pos [OF assms(1)] .
  have "y = of_int n / of_int d" using quotient_of_div [OF assms(1)] .
  then have "0 \<le> of_int n / (of_int d :: rat)" using assms(2) by simp
  then show "0 \<le> n" using d by (simp add: zero_le_divide_iff)
qed

lemma f_round_zero [simp]: "f_round 0 = Fin 0"
  by (simp add: f_round_def)

lemma f_round_nonneg: "0 \<le> x \<Longrightarrow> \<not> f_less (f_round x) (Fin 0)"
  by (auto simp: f_round_def Let_def not_less split: prod.splits intro: scale_quotient_nonneg)

lemma f_round_neg_le: "x < 0 \<Longrightarrow> \<not> f_less (Fin 0) (f_round x)"
  by (auto simp: f_round_def Let_def not_less split: prod.splits intro: scale_quotient_nonneg)

lemma f_less_irrefl [simp]: "\<not> f_less x x"
  by (cases x) auto

lemma f_less_asym: "f_less x y \<Longrightarrow> \<not> f_less y x"
  by (cases x; cases y) auto

section \<open>Binary search\<close>

text \<open>\<open>sort.Search\<close>: binary search for the least index in \<open>[i, j)\<close> at which \<open>f\<close> holds.\<close>

function searchLoop :: "(nat \<Rightarrow> bool) \<Rightarrow> nat \<Rightarrow> nat \<Rightarrow> nat" where
  "searchLoop f i j =
     (if i < j then let h = (i + j) div 2 in if \<not> f h then searchLoop f (h + 1) j else searchLoop f i h
      else i)"
  by pat_completeness auto
termination
  by (relation "measure (\<lambda>(f, i, j). j - i)") (auto simp: Let_def)

declare searchLoop.simps [simp del]

definition sortSearch :: "nat \<Rightarrow> (nat \<Rightarrow> bool) \<Rightarrow> nat" where
  "sortSearch n f = searchLoop f 0 n"

lemma searchLoop_stop: "\<not> i < j \<Longrightarrow> searchLoop f i j = i"
  by (subst searchLoop.simps) simp

lemma searchLoop_spec:
  assumes "i \<le> j" and mono: "\<And>a b. a \<le> b \<Longrightarrow> b < j \<Longrightarrow> f a \<Longrightarrow> f b"
  shows "i \<le> searchLoop f i j \<and> searchLoop f i j \<le> j \<and>
    (\<forall>k. i \<le> k \<and> k < searchLoop f i j \<longrightarrow> \<not> f k) \<and> (searchLoop f i j < j \<longrightarrow> f (searchLoop f i j))"
  using assms
proof (induction f i j rule: searchLoop.induct)
  case (1 f i j)
  show ?case
  proof (cases "i < j")
    case False
    with 1(3) show ?thesis by (auto simp: searchLoop_stop)
  next
    case True
    define h where "h = (i + j) div 2"
    have h: "i \<le> h" "h < j" using True by (auto simp: h_def)
    show ?thesis
    proof (cases "f h")
      case fh: True
      have eq: "searchLoop f i j = searchLoop f i h"
        using True fh by (simp add: searchLoop.simps [of f i j] h_def Let_def)
      have "i \<le> searchLoop f i h \<and> searchLoop f i h \<le> h \<and>
          (\<forall>k. i \<le> k \<and> k < searchLoop f i h \<longrightarrow> \<not> f k) \<and> (searchLoop f i h < h \<longrightarrow> f (searchLoop f i h))"
        by (rule "1.IH"(2) [OF True h_def]) (use fh h "1.prems"(2) in auto)
      then show ?thesis using h fh by (auto simp: eq le_less)
    next
      case fh: False
      have eq: "searchLoop f i j = searchLoop f (h + 1) j"
        using True fh by (simp add: searchLoop.simps [of f i j] h_def Let_def)
      have IH: "h + 1 \<le> searchLoop f (h + 1) j \<and> searchLoop f (h + 1) j \<le> j \<and>
          (\<forall>k. h + 1 \<le> k \<and> k < searchLoop f (h + 1) j \<longrightarrow> \<not> f k) \<and>
          (searchLoop f (h + 1) j < j \<longrightarrow> f (searchLoop f (h + 1) j))"
        using "1.IH"(1) [OF True h_def fh] h "1.prems"(2) by auto
      have "\<not> f k" if "k \<le> h" for k
        using "1.prems"(2) [of k h] h fh that by blast
      then show ?thesis using IH h by (auto simp: eq) (metis not_less_eq_eq)+
    qed
  qed
qed

text \<open>
  On a predicate that stays true once it is true, \<open>sort.Search\<close> counts the leading
  positions where it is false.
\<close>

lemma sortSearch_takeWhile:
  assumes mono: "\<And>a b. a \<le> b \<Longrightarrow> b < length xs \<Longrightarrow> P (xs ! a) \<Longrightarrow> P (xs ! b)"
  shows "sortSearch (length xs) (\<lambda>i. P (xs ! i)) = length (takeWhile (\<lambda>x. \<not> P x) xs)"
proof -
  let ?n = "sortSearch (length xs) (\<lambda>i. P (xs ! i))"
  have n: "?n \<le> length xs \<and> (\<forall>k < ?n. \<not> P (xs ! k)) \<and> (?n < length xs \<longrightarrow> P (xs ! ?n))"
    using searchLoop_spec [of 0 "length xs" "\<lambda>i. P (xs ! i)"] mono by (simp add: sortSearch_def)
  then have "takeWhile (\<lambda>x. \<not> P x) xs = take ?n xs"
    by (intro takeWhile_eq_take_P_nth) auto
  with n show ?thesis by simp
qed

end
