(* ===== verification/Scraper.thy ===== *)
theory Scraper
  imports Go_Prelude
begin

text \<open>
  The data of the metrics scraper (\<open>monitoring/gpu-metrics-collector/internal/scraper\<close>):
  a scraped metric, a scrape target with its availability windows, and the outcome of one
  scrape of a target. Fields carry the initial of their Go type.
\<close>

record metric =
  mName :: string
  mLabels :: "(string, string) gomap"
  mValue :: float64
  mTimestamp :: gotime

record scrapeTarget =
  tName :: string
  tURL :: string
  tRequired :: bool
  tAvailabilityCondition :: string
  tUnavailableFor :: duration
  tAvailableFor :: duration

definition defaultUnavailableFor :: duration where
  "defaultUnavailableFor = 2 * minute"

definition defaultAvailableFor :: duration where
  "defaultAvailableFor = 1 * minute"

definition unavailableWindow :: "scrapeTarget \<Rightarrow> duration" where
  "unavailableWindow t = (if tUnavailableFor t > 0 then tUnavailableFor t else defaultUnavailableFor)"

definition availableWindow :: "scrapeTarget \<Rightarrow> duration" where
  "availableWindow t = (if tAvailableFor t > 0 then tAvailableFor t else defaultAvailableFor)"

record targetStatus =
  sTarget :: scrapeTarget
  sOK :: bool
  sSafeURL :: string
  sErr :: string

record scrapeResult =
  srMetrics :: "metric list"
  srStatuses :: "targetStatus list"

text \<open>
  One target's outcome as it leaves the channel of \<open>Scrape\<close>: the metrics, or the error
  already redacted (\<open>SafeURL\<close> and \<open>redactError\<close> rest on \<open>net/url\<close> and are arguments).
\<close>

record scrapeOutcome =
  oTarget :: scrapeTarget
  oMetrics :: "metric list"
  oErr :: "string option"

text \<open>
  The collecting loop of \<open>Scrape\<close>, over the outcomes in the order in which the
  goroutines sent them.
\<close>

definition scrapeStep :: "(string \<Rightarrow> string) \<Rightarrow> scrapeOutcome \<Rightarrow> scrapeResult \<Rightarrow> scrapeResult" where
  "scrapeStep safeURL r out =
     (let status = \<lparr>sTarget = oTarget r, sOK = (oErr r = None), sSafeURL = safeURL (tURL (oTarget r)),
                    sErr = (case oErr r of None \<Rightarrow> [] | Some msg \<Rightarrow> msg)\<rparr> in
      \<lparr>srMetrics = (case oErr r of None \<Rightarrow> srMetrics out @ oMetrics r | Some msg \<Rightarrow> srMetrics out),
       srStatuses = srStatuses out @ [status]\<rparr>)"

definition scrape :: "(string \<Rightarrow> string) \<Rightarrow> scrapeOutcome list \<Rightarrow> scrapeResult" where
  "scrape safeURL outcomes =
     fold (scrapeStep safeURL) outcomes \<lparr>srMetrics = [], srStatuses = []\<rparr>"

definition maxErrorLength :: nat where
  "maxErrorLength = 200"

definition truncate :: "string \<Rightarrow> nat \<Rightarrow> string" where
  "truncate s n = (if length s \<le> n then s else take n s @ ''...'')"

lemma unavailableWindow_pos: "0 < unavailableWindow t"
  by (simp add: unavailableWindow_def defaultUnavailableFor_def minute_def second_def)

lemma availableWindow_pos: "0 < availableWindow t"
  by (simp add: availableWindow_def defaultAvailableFor_def minute_def second_def)

lemma scrape_fold_statuses:
  "map sTarget (srStatuses (fold (scrapeStep su) outs r)) = map sTarget (srStatuses r) @ map oTarget outs"
  by (induction outs arbitrary: r) (simp_all add: scrapeStep_def Let_def)

lemma scrape_fold_metrics:
  "srMetrics (fold (scrapeStep su) outs r) =
     srMetrics r @ concat (map oMetrics (filter (\<lambda>o'. oErr o' = None) outs))"
  by (induction outs arbitrary: r) (simp_all add: scrapeStep_def Let_def split: option.splits)

lemma scrape_fold_ok:
  "map sOK (srStatuses (fold (scrapeStep su) outs r)) =
     map sOK (srStatuses r) @ map (\<lambda>o'. oErr o' = None) outs"
  by (induction outs arbitrary: r) (simp_all add: scrapeStep_def Let_def)

lemma truncate_length: "length (truncate s n) \<le> n + 3"
  by (simp add: truncate_def)

end
