(* ===== verification/Rules_Engine.thy ===== *)
theory Rules_Engine
  imports Scraper
begin

text \<open>
  The alert-rule engine of the GPU metrics collector
  (\<open>monitoring/gpu-metrics-collector/internal/rules/rules.go\<close>): the rules, the sample
  history per metric series, the continuity breaks of counter rules, the pending
  conditions, and one evaluation cycle. The engine's mutex makes each exported operation
  atomic, so an operation is a function from engine to engine; \<open>time.Now()\<close> is the
  argument \<open>now\<close>.

  The texts built with \<open>fmt.Sprintf\<close> are values of \<open>message\<close>: one constructor per format,
  with the format's arguments.
\<close>

section \<open>Data\<close>

record rule =
  rName :: string
  rMetricName :: string
  rMetricNames :: "string list option"  \<comment> \<open>\<open>None\<close>: the nil slice\<close>
  rLabels :: "(string, string) gomap"
  rConditionType :: string
  rMode :: string
  rThreshold :: float64
  rWindow :: duration
  rFor :: duration
  rMinSamples :: int
  rSampleLabel :: string
  rRequiredSampleValues :: "string list"
  rMaxSampleAge :: duration

definition metricNames :: "rule \<Rightarrow> string list" where
  "metricNames r = (case rMetricNames r of None \<Rightarrow> [] | Some ns \<Rightarrow> ns)"

definition metricSources :: "rule \<Rightarrow> string list" where
  "metricSources r = (if length (metricNames r) > 0 then metricNames r else [rMetricName r])"

datatype message =
    NoMessage
  | ValueExceedsThreshold
  | RateExceedsThreshold
  | CoverageUnavailable string nat int
  | FamiliesDisagree nat int nat
  | HistoryUnavailable string
  | UnsupportedMode
  | TargetClearing string string duration duration
  | TargetReachable string string
  | TargetUnavailable string string duration string
  | TargetFailing string string duration duration string
  | TrackingRemoved

record result =
  resConditionType :: string
  resFiring :: bool
  resUnknown :: bool
  resReason :: string
  resMessage :: message

definition defaultMaxSampleAge :: duration where
  "defaultMaxSampleAge = 2 * minute"

record sample =
  saTime :: gotime
  saValue :: float64
  saCycle :: nat

record engine =
  eRules :: "rule list"
  eHistoryMetricNames :: "string goset"
  eHistory :: "(string, sample list) gomap"
  eRateBreaks :: "(nat, (string, nat) gomap) gomap"
  ePending :: "(string, gotime) gomap"
  eEvalCounter :: nat
  eRetention :: duration

section \<open>Construction\<close>

definition newEngine :: "rule list \<Rightarrow> engine" where
  "newEngine rules =
     (let maxWindow = fold (\<lambda>r w. if rWindow r > w then rWindow r else w) rules 0;
          names = fold (\<lambda>r s. if rMode r = ''rate'' then fold gs_add (metricSources r) s else s) rules [];
          retention = dur_add maxWindow (1 * minute);
          retention' = (if retention < 15 * minute then 15 * minute else retention)
      in \<lparr>eRules = rules, eHistoryMetricNames = names, eHistory = [], eRateBreaks = [],
          ePending = [], eEvalCounter = 0, eRetention = retention'\<rparr>)"

section \<open>Series keys and matching\<close>

definition metricKey :: "string \<Rightarrow> (string, string) gomap \<Rightarrow> string" where
  "metricKey name labels =
     (if length labels = 0 then name
      else fold (\<lambda>k key. key @ ''|'' @ k @ ''='' @ gm_get [] labels k) (sort (gm_keys labels)) name)"

definition metricNameFromKey :: "string \<Rightarrow> string" where
  "metricNameFromKey key = fst (cut key (CHR ''|''))"

definition ruleUsesMetricKey :: "rule \<Rightarrow> string \<Rightarrow> bool" where
  "ruleUsesMetricKey r key =
     list_ex (\<lambda>name. key = name \<or> hasPrefix key (name @ ''|'')) (metricSources r)"

definition labelsMatch :: "(string, string) gomap \<Rightarrow> (string, string) gomap \<Rightarrow> bool" where
  "labelsMatch have_labels want = list_all (\<lambda>(k, v). gm_get [] have_labels k = v) want"

definition indexMetrics :: "metric list \<Rightarrow> (string, metric list) gomap" where
  "indexMetrics metrics =
     fold (\<lambda>m idx. gm_set (mName m) (gm_get [] idx (mName m) @ [m]) idx) metrics []"

definition matchMetrics ::
  "(string, metric list) gomap \<Rightarrow> string \<Rightarrow> (string, string) gomap \<Rightarrow> metric list" where
  "matchMetrics idx name labels =
     (let candidates = gm_get [] idx name in
      if length labels = 0 then candidates
      else filter (\<lambda>m. labelsMatch (mLabels m) labels) candidates)"

section \<open>History and continuity\<close>

definition pruneHistory :: "string \<Rightarrow> gotime \<Rightarrow> duration \<Rightarrow> engine \<Rightarrow> engine" where
  "pruneHistory key now maxAge e =
     (let samples = gm_get [] (eHistory e) key;
          cutoff = time_add now (dur_neg maxAge);
          i = length (takeWhile (\<lambda>s. saTime s < cutoff) samples)
      in if i > 0 then e\<lparr>eHistory := gm_set key (drop i samples) (eHistory e)\<rparr> else e)"

definition recordMetric :: "gotime \<Rightarrow> nat \<Rightarrow> metric \<Rightarrow> engine \<Rightarrow> engine" where
  "recordMetric now cycle m e =
     (if mName m \<notin> set (eHistoryMetricNames e) then e
      else let key = metricKey (mName m) (mLabels m) in
        if isNaN (mValue m) \<or> isInf (mValue m) then e\<lparr>eHistory := gm_delete key (eHistory e)\<rparr>
        else let observedAt = (if \<not> isZero (mTimestamp m) then mTimestamp m else now);
                 history = gm_get [] (eHistory e) key;
                 notAfter = (history \<noteq> [] \<and> \<not> observedAt > saTime (last history));
                 new = \<lparr>saTime = observedAt, saValue = mValue m, saCycle = cycle\<rparr>
             in if notAfter \<and> observedAt = saTime (last history) \<and> f_eq (mValue m) (saValue (last history))
                then e
                else let h1 = (if notAfter then gm_delete key (eHistory e) else eHistory e);
                         h2 = gm_set key (gm_get [] h1 key @ [new]) h1
                     in pruneHistory key now (eRetention e) (e\<lparr>eHistory := h2\<rparr>))"

definition recordMetrics :: "metric list \<Rightarrow> gotime \<Rightarrow> nat \<Rightarrow> engine \<Rightarrow> engine" where
  "recordMetrics metrics now cycle e = fold (recordMetric now cycle) metrics e"

definition breakRateContinuity :: "nat \<Rightarrow> rule \<Rightarrow> string \<Rightarrow> engine \<Rightarrow> engine" where
  "breakRateContinuity ruleIndex r key e =
     (if rMode r \<noteq> ''rate'' \<or> rMinSamples r = 0 then e
      else e\<lparr>eRateBreaks := gm_set ruleIndex
               (gm_set key (eEvalCounter e) (gm_get [] (eRateBreaks e) ruleIndex)) (eRateBreaks e)\<rparr>)"

definition breakUsingRules :: "string \<Rightarrow> engine \<Rightarrow> engine" where
  "breakUsingRules key e =
     fold (\<lambda>(ruleIndex, r) e. if ruleUsesMetricKey r key then breakRateContinuity ruleIndex r key e else e)
       (enumerate 0 (eRules e)) e"

definition breakMissingRateContinuity :: "metric list \<Rightarrow> engine \<Rightarrow> engine" where
  "breakMissingRateContinuity metrics e =
     (let present = fold (\<lambda>m s. if mName m \<notin> set (eHistoryMetricNames e) then s
                                else gs_add (metricKey (mName m) (mLabels m)) s) metrics []
      in fold (\<lambda>key e. if key \<in> set present then e else breakUsingRules key e) (gm_keys (eHistory e)) e)"

definition cleanupStaleHistory :: "gotime \<Rightarrow> duration \<Rightarrow> engine \<Rightarrow> engine" where
  "cleanupStaleHistory now maxAge e =
     (let cutoff = time_add now (dur_neg maxAge) in
      fold (\<lambda>(key, samples) e.
              if samples = [] \<or> saTime (last samples) < cutoff
              then e\<lparr>eHistory := gm_delete key (eHistory e),
                     eRateBreaks := filter (\<lambda>(ruleIndex, breaks). breaks \<noteq> [])
                       (map (\<lambda>(ruleIndex, breaks). (ruleIndex, gm_delete key breaks)) (eRateBreaks e))\<rparr>
              else e) (eHistory e) e)"

section \<open>Rate of a counter\<close>

text \<open>The samples a coverage rule may use: after the last break and after the last gap.\<close>

definition continuousFrom :: "nat \<Rightarrow> string \<Rightarrow> duration \<Rightarrow> sample list \<Rightarrow> engine \<Rightarrow> sample list" where
  "continuousFrom ruleIndex key maxAge samples e =
     (let start = (case gm_lookup (eRateBreaks e) ruleIndex of
                     None \<Rightarrow> 0
                   | Some breaks \<Rightarrow> length (takeWhile (\<lambda>s. saCycle s \<le> gm_get 0 breaks key) samples));
          start' = fold (\<lambda>i start.
                     if time_sub (saTime (samples ! i)) (saTime (samples ! (i - 1))) > maxAge then i else start)
                     [start + 1..<length samples] start
      in drop start' samples)"

text \<open>The increase between the oldest sample inside the window and the latest sample.\<close>

definition windowRate :: "gotime \<Rightarrow> sample list \<Rightarrow> float64 \<times> bool" where
  "windowRate cutoff samples =
     (if length samples < 2 then (Fin 0, False)
      else let oldestIndex = sortSearch (length samples) (\<lambda>i. \<not> saTime (samples ! i) < cutoff)
           in if oldestIndex = length samples then (Fin 0, False)
              else let oldest = samples ! oldestIndex;
                       latest = samples ! (length samples - 1)
                   in if \<not> saTime latest > saTime oldest then (Fin 0, False)
                      else let increase = f_sub (saValue latest) (saValue oldest)
                           in if f_less increase (Fin 0) then (saValue latest, True)
                              else (increase, True))"

definition computeRate ::
  "nat \<Rightarrow> string \<Rightarrow> duration \<Rightarrow> gotime \<Rightarrow> bool \<Rightarrow> duration \<Rightarrow> engine \<Rightarrow> float64 \<times> bool" where
  "computeRate ruleIndex key window now requireCoverage maxAge e =
     (let samples = gm_get [] (eHistory e) key;
          samples' = (if requireCoverage then continuousFrom ruleIndex key maxAge samples e else samples)
      in windowRate (time_add now (dur_neg window)) samples')"

section \<open>Evaluating one rule\<close>

text \<open>What one source (one metric family) contributes while its matched series are scanned.\<close>

record sourceScan =
  scEngine :: engine
  scIdentities :: "string goset"
  scValidCount :: nat
  scEligibleCount :: nat
  scValid :: "metric list"

definition ruleMaxAge :: "rule \<Rightarrow> duration" where
  "ruleMaxAge r = (if rMaxSampleAge r = 0 then defaultMaxSampleAge else rMaxSampleAge r)"

definition sampleIdentity :: "rule \<Rightarrow> metric \<Rightarrow> string" where
  "sampleIdentity r m = (if rSampleLabel r \<noteq> [] then gm_get [] (mLabels m) (rSampleLabel r) else [])"

definition scanMetric :: "nat \<Rightarrow> rule \<Rightarrow> gotime \<Rightarrow> metric \<Rightarrow> sourceScan \<Rightarrow> sourceScan" where
  "scanMetric ruleIndex r now m sc =
     (let key = metricKey (mName m) (mLabels m);
          identity = sampleIdentity r m;
          maxAge = ruleMaxAge r;
          broken = sc\<lparr>scEngine := breakRateContinuity ruleIndex r key (scEngine sc),
                      scEligibleCount := scEligibleCount sc + 1\<rparr>
      in if rSampleLabel r \<noteq> [] \<and> length (rRequiredSampleValues r) > 0 \<and> identity \<noteq> []
            \<and> identity \<notin> set (rRequiredSampleValues r) then sc
         else if isNaN (mValue m) \<or> isInf (mValue m) then broken
         else if rMinSamples r > 0 \<and> \<not> isZero (mTimestamp m) \<and>
              (mTimestamp m < time_add now (dur_neg maxAge) \<or> mTimestamp m > time_add now maxAge) then broken
         else if rSampleLabel r \<noteq> [] \<and> identity = [] then broken
         else sc\<lparr>scIdentities := (if rSampleLabel r \<noteq> [] then gs_add identity (scIdentities sc)
                                   else scIdentities sc),
                 scValidCount := scValidCount sc + 1,
                 scEligibleCount := scEligibleCount sc + 1,
                 scValid := scValid sc @ [m]\<rparr>)"

text \<open>The variables of \<open>evaluateRule\<close> that live across the loop over the metric sources.\<close>

record ruleScan =
  rsEngine :: engine
  rsValid :: "metric list"
  rsCommon :: "string goset"
  rsMatched :: nat
  rsResult :: result

definition scanSource ::
  "nat \<Rightarrow> rule \<Rightarrow> (string, metric list) gomap \<Rightarrow> gotime \<Rightarrow> nat \<times> string \<Rightarrow> ruleScan \<Rightarrow> ruleScan" where
  "scanSource ruleIndex r idx now src st =
     (let (sourceIndex, name) = src;
          sc = fold (scanMetric ruleIndex r now) (matchMetrics idx name (rLabels r))
                 \<lparr>scEngine = rsEngine st, scIdentities = [], scValidCount = 0, scEligibleCount = 0,
                  scValid = rsValid st\<rparr>;
          observed = (if rSampleLabel r \<noteq> [] then length (scIdentities sc) else scValidCount sc);
          common = (if rSampleLabel r \<noteq> []
                    then (if sourceIndex = 0 then scIdentities sc
                          else filter (\<lambda>i. i \<in> set (scIdentities sc)) (rsCommon st))
                    else rsCommon st);
          res = (if rMinSamples r > 0 \<and>
                    (int observed < rMinSamples r \<or> scValidCount sc \<noteq> scEligibleCount sc)
                 then (rsResult st)\<lparr>resUnknown := True, resReason := ''MetricCoverageUnavailable'',
                        resMessage := CoverageUnavailable name observed (rMinSamples r)\<rparr>
                 else rsResult st)
      in \<lparr>rsEngine = scEngine sc, rsValid = scValid sc, rsCommon = common,
          rsMatched = rsMatched st + scEligibleCount sc, rsResult = res\<rparr>)"

definition initialResult :: "rule \<Rightarrow> result" where
  "initialResult r =
     \<lparr>resConditionType = rConditionType r, resFiring = False, resUnknown = False,
      resReason = (if rMinSamples r > 0 then rConditionType r @ ''Observed'' else rConditionType r @ ''Ok''),
      resMessage = NoMessage\<rparr>"

definition scanSources ::
  "nat \<Rightarrow> rule \<Rightarrow> (string, metric list) gomap \<Rightarrow> gotime \<Rightarrow> engine \<Rightarrow> ruleScan" where
  "scanSources ruleIndex r idx now e =
     fold (scanSource ruleIndex r idx now) (enumerate 0 (metricSources r))
       \<lparr>rsEngine = e, rsValid = [], rsCommon = [], rsMatched = 0, rsResult = initialResult r\<rparr>"

text \<open>The check that all families of a multi-family rule cover the same identities.\<close>

definition familyCheck :: "rule \<Rightarrow> ruleScan \<Rightarrow> result" where
  "familyCheck r st =
     (if \<not> resUnknown (rsResult st) \<and> length (metricNames r) > 1
         \<and> int (length (rsCommon st)) < rMinSamples r
      then (rsResult st)\<lparr>resUnknown := True, resReason := ''MetricCoverageUnavailable'',
             resMessage := FamiliesDisagree (length (metricNames r)) (rMinSamples r) (length (rsCommon st))\<rparr>
      else rsResult st)"

text \<open>The two evaluation modes: whether the rule fires on the valid samples.\<close>

definition instantFiring :: "rule \<Rightarrow> metric list \<Rightarrow> bool" where
  "instantFiring r valid = list_ex (\<lambda>m. f_less (rThreshold r) (mValue m)) valid"

definition rateStep :: "nat \<Rightarrow> rule \<Rightarrow> gotime \<Rightarrow> engine \<Rightarrow> metric \<Rightarrow> bool \<times> result \<Rightarrow> bool \<times> result" where
  "rateStep ruleIndex r now e m acc =
     (let (firing, res) = acc;
          key = metricKey (mName m) (mLabels m);
          (increase, known) = computeRate ruleIndex key (rWindow r) now (rMinSamples r > 0) (ruleMaxAge r) e
      in if \<not> known \<and> rMinSamples r > 0
         then (firing, res\<lparr>resUnknown := True, resReason := ''MetricHistoryUnavailable'',
                           resMessage := HistoryUnavailable (mName m)\<rparr>)
         else (if f_less (rThreshold r) increase then (True, res) else (firing, res)))"

definition deletePending :: "string \<Rightarrow> engine \<Rightarrow> engine" where
  "deletePending c e = e\<lparr>ePending := gm_delete c (ePending e)\<rparr>"

text \<open>The tail of \<open>evaluateRule\<close>: the \<open>for\<close> duration, then the firing result.\<close>

definition concludeRule :: "rule \<Rightarrow> gotime \<Rightarrow> bool \<Rightarrow> result \<Rightarrow> engine \<Rightarrow> engine \<times> result" where
  "concludeRule r now firing res e =
     (if \<not> firing then (deletePending (rConditionType r) e, res)
      else let fired = res\<lparr>resFiring := True, resUnknown := False, resReason := rConditionType r,
                 resMessage := (if rMode r = ''rate'' then RateExceedsThreshold else resMessage res)\<rparr>
           in if rFor r > 0
              then (case gm_lookup (ePending e) (rConditionType r) of
                      None \<Rightarrow> (e\<lparr>ePending := gm_set (rConditionType r) now (ePending e)\<rparr>, res)
                    | Some firstSeen \<Rightarrow>
                        if time_sub now firstSeen < rFor r then (e, res) else (e, fired))
              else (e, fired))"

definition evaluateRule ::
  "nat \<Rightarrow> rule \<Rightarrow> (string, metric list) gomap \<Rightarrow> gotime \<Rightarrow> engine \<Rightarrow> engine \<times> result" where
  "evaluateRule ruleIndex r idx now e =
     (let st = scanSources ruleIndex r idx now e;
          e' = rsEngine st;
          res = familyCheck r st
      in if rsMatched st = 0
         then ((if rMinSamples r > 0 then deletePending (rConditionType r) e' else e'), res)
         else if rMode r = ''instant''
         then (if instantFiring r (rsValid st)
               then concludeRule r now True (res\<lparr>resMessage := ValueExceedsThreshold\<rparr>) e'
               else concludeRule r now False res e')
         else if rMode r = ''rate''
         then (let (firing, res') = fold (rateStep ruleIndex r now e') (rsValid st) (False, res)
               in concludeRule r now firing res' e')
         else (deletePending (rConditionType r) e',
               (if rMinSamples r > 0
                then res\<lparr>resUnknown := True, resReason := ''InvalidRuleMode'', resMessage := UnsupportedMode\<rparr>
                else res)))"

section \<open>One evaluation cycle\<close>

definition evaluateStep ::
  "(string, metric list) gomap \<Rightarrow> gotime \<Rightarrow> nat \<times> rule \<Rightarrow> engine \<times> result list \<Rightarrow> engine \<times> result list" where
  "evaluateStep idx now ir acc =
     (let p = evaluateRule (fst ir) (snd ir) idx now (fst acc) in (fst p, snd acc @ [snd p]))"

definition evaluateRules ::
  "(string, metric list) gomap \<Rightarrow> gotime \<Rightarrow> engine \<Rightarrow> engine \<times> result list" where
  "evaluateRules idx now e = fold (evaluateStep idx now) (enumerate 0 (eRules e)) (e, [])"

definition evaluate :: "metric list \<Rightarrow> gotime \<Rightarrow> engine \<Rightarrow> engine \<times> result list" where
  "evaluate metrics now e =
     (let e1 = e\<lparr>eEvalCounter := eEvalCounter e + 1\<rparr>;
          e2 = breakMissingRateContinuity metrics e1;
          e3 = recordMetrics metrics now (eEvalCounter e2) e2;
          e4 = (if eEvalCounter e3 mod 60 = 0 then cleanupStaleHistory now (1 * hour) e3 else e3)
      in evaluateRules (indexMetrics metrics) now e4)"

section \<open>Persisting the engine\<close>

record stateSample =
  ssTime :: gotime
  ssValue :: float64

definition exportState ::
  "engine \<Rightarrow> (string, stateSample list) gomap \<times> (string, gotime) gomap" where
  "exportState e =
     (map (\<lambda>(k, samples). (k, map (\<lambda>s. \<lparr>ssTime = saTime s, ssValue = saValue s\<rparr>) samples)) (eHistory e),
      ePending e)"

definition restoreSeries :: "gotime \<Rightarrow> string \<times> stateSample list \<Rightarrow> engine \<Rightarrow> engine" where
  "restoreSeries now ks e =
     (let (k, samples) = ks in
      if metricNameFromKey k \<notin> set (eHistoryMetricNames e) then e
      else let restored = map (\<lambda>s. \<lparr>saTime = ssTime s, saValue = ssValue s, saCycle = eEvalCounter e\<rparr>)
                            (filter (\<lambda>s. time_sub now (ssTime s) \<le> eRetention e) samples)
           in if length restored > 0
              then fold (\<lambda>(ruleIndex, r) e. if rMinSamples r > 0 \<and> ruleUsesMetricKey r k
                                            then breakRateContinuity ruleIndex r k e else e)
                     (enumerate 0 (eRules e)) (e\<lparr>eHistory := gm_set k restored (eHistory e)\<rparr>)
              else e)"

definition restorePending :: "string \<times> gotime \<Rightarrow> engine \<Rightarrow> engine" where
  "restorePending kv e =
     (let (k, v) = kv;
          required = list_ex (\<lambda>r. rMinSamples r > 0 \<and> rConditionType r = k) (eRules e)
      in if required then e else e\<lparr>ePending := gm_set k v (ePending e)\<rparr>)"

definition restoreState ::
  "(string, stateSample list) gomap \<Rightarrow> (string, gotime) gomap \<Rightarrow> gotime \<Rightarrow> engine \<Rightarrow> engine" where
  "restoreState history pending now e =
     fold restorePending pending (fold (restoreSeries now) history e)"

end
