(* ===== verification/Rules_Engine_Props.thy ===== *)
theory Rules_Engine_Props
  imports Rules_Engine
begin

text \<open>
  Correctness of the rule engine: the invariant of the sample history and of the engine's
  maps and its preservation by every operation, the binary search and the rate it feeds,
  the coverage guarantee of rules with \<open>minSamples\<close>, the \<open>for\<close> delay, and what a restart
  may and may not carry over.
\<close>

section \<open>Invariant\<close>

definition series_inv :: "nat \<Rightarrow> sample list \<Rightarrow> bool" where
  "series_inv c ss \<longleftrightarrow>
     sorted_wrt (\<lambda>a b. saTime a < saTime b) ss \<and>
     (\<forall>s \<in> set ss. saCycle s \<le> c \<and> \<not> isNaN (saValue s) \<and> \<not> isInf (saValue s))"

definition engine_inv :: "engine \<Rightarrow> bool" where
  "engine_inv e \<longleftrightarrow>
     gm_inv (eHistory e) \<and> gm_inv (eRateBreaks e) \<and> gm_inv (ePending e) \<and>
     (\<forall>k ss. gm_lookup (eHistory e) k = Some ss \<longrightarrow> series_inv (eEvalCounter e) ss) \<and>
     (\<forall>i b. gm_lookup (eRateBreaks e) i = Some b \<longrightarrow> gm_inv b)"

lemma engine_invI:
  assumes "gm_inv (eHistory e)" "gm_inv (eRateBreaks e)" "gm_inv (ePending e)"
    and "\<And>k ss. gm_lookup (eHistory e) k = Some ss \<Longrightarrow> series_inv (eEvalCounter e) ss"
    and "\<And>i b. gm_lookup (eRateBreaks e) i = Some b \<Longrightarrow> gm_inv b"
  shows "engine_inv e"
  using assms by (auto simp: engine_inv_def)

lemma engine_invD:
  assumes "engine_inv e"
  shows "gm_inv (eHistory e)" "gm_inv (eRateBreaks e)" "gm_inv (ePending e)"
    and "gm_lookup (eHistory e) k = Some ss \<Longrightarrow> series_inv (eEvalCounter e) ss"
    and "gm_lookup (eRateBreaks e) i = Some b \<Longrightarrow> gm_inv b"
  using assms by (auto simp: engine_inv_def)

lemma series_inv_Nil [simp]: "series_inv c []"
  by (simp add: series_inv_def)

lemma series_inv_get: "engine_inv e \<Longrightarrow> series_inv (eEvalCounter e) (gm_get [] (eHistory e) k)"
  by (auto simp: gm_get_def engine_inv_def split: option.splits)

lemma series_inv_drop: "series_inv c ss \<Longrightarrow> series_inv c (drop n ss)"
  by (auto simp: series_inv_def sorted_wrt_drop dest: in_set_dropD)

lemma series_inv_mono: "series_inv c ss \<Longrightarrow> c \<le> c' \<Longrightarrow> series_inv c' ss"
  by (auto simp: series_inv_def)

lemma sorted_times_last:
  assumes "sorted_wrt (\<lambda>a b. saTime a < saTime b) ss" and "s \<in> set ss"
  shows "saTime s \<le> saTime (last ss)"
  using assms by (induction ss) (auto simp: less_imp_le)

lemma series_inv_snoc:
  assumes "series_inv c ss" and "ss \<noteq> [] \<Longrightarrow> saTime (last ss) < saTime s"
    and "saCycle s \<le> c" "\<not> isNaN (saValue s)" "\<not> isInf (saValue s)"
  shows "series_inv c (ss @ [s])"
proof -
  have "saTime x < saTime s" if "x \<in> set ss" for x
    using sorted_times_last [of ss x] assms(1,2) that
    by (metis empty_iff list.set(1) order_le_less_trans series_inv_def)
  then show ?thesis
    using assms by (auto simp: series_inv_def sorted_wrt_append)
qed

section \<open>Frame: what each step leaves alone\<close>

definition engine_static :: "engine \<Rightarrow> rule list \<times> string goset \<times> nat \<times> duration" where
  "engine_static e = (eRules e, eHistoryMetricNames e, eEvalCounter e, eRetention e)"

definition engine_frame :: "engine \<Rightarrow> (rule list \<times> string goset \<times> nat \<times> duration) \<times> (string, sample list) gomap" where
  "engine_frame e = (engine_static e, eHistory e)"

named_theorems frame_simps \<open>fields an engine operation does not change\<close>

lemma engine_frameD:
  assumes "engine_frame e = engine_frame e'"
  shows "eRules e = eRules e'" "eHistoryMetricNames e = eHistoryMetricNames e'"
    "eEvalCounter e = eEvalCounter e'" "eRetention e = eRetention e'" "eHistory e = eHistory e'"
  using assms by (simp_all add: engine_frame_def engine_static_def)

lemma breakRateContinuity_frame [frame_simps]: "engine_frame (breakRateContinuity i r k e) = engine_frame e"
  by (simp add: breakRateContinuity_def engine_frame_def engine_static_def)

lemma breakRateContinuity_pending [frame_simps]: "ePending (breakRateContinuity i r k e) = ePending e"
  by (simp add: breakRateContinuity_def)

lemma deletePending_frame [frame_simps]: "engine_frame (deletePending c e) = engine_frame e"
  by (simp add: deletePending_def engine_frame_def engine_static_def)

lemma fold_frame:
  assumes "\<And>x e. g (f x e) = g e"
  shows "g (fold f xs e) = g e"
  using assms by (induction xs arbitrary: e) simp_all

lemma breakUsingRules_frame [frame_simps]: "engine_frame (breakUsingRules k e) = engine_frame e"
  unfolding breakUsingRules_def by (rule fold_frame) (auto simp: frame_simps)

lemma breakMissing_frame [frame_simps]:
  "engine_frame (breakMissingRateContinuity ms e) = engine_frame e"
  unfolding breakMissingRateContinuity_def Let_def by (rule fold_frame) (auto simp: frame_simps)

lemma scanMetric_frame [frame_simps]:
  "engine_frame (scEngine (scanMetric i r now m sc)) = engine_frame (scEngine sc)"
  by (simp add: scanMetric_def Let_def frame_simps)

lemma scanMetrics_frame [frame_simps]:
  "engine_frame (scEngine (fold (scanMetric i r now) ms sc)) = engine_frame (scEngine sc)"
  by (rule fold_frame) (rule scanMetric_frame)

lemma scanSource_frame [frame_simps]:
  "engine_frame (rsEngine (scanSource i r idx now src st)) = engine_frame (rsEngine st)"
  by (simp add: scanSource_def Let_def frame_simps split: prod.splits)

lemma scanSources_frame [frame_simps]:
  "engine_frame (rsEngine (scanSources i r idx now e)) = engine_frame e"
proof -
  have "engine_frame (rsEngine (fold (scanSource i r idx now) srcs st)) = engine_frame (rsEngine st)" for srcs st
    by (rule fold_frame) (rule scanSource_frame)
  then show ?thesis by (simp add: scanSources_def)
qed

lemma concludeRule_frame [frame_simps]:
  "engine_frame (fst (concludeRule r now f res e)) = engine_frame e"
  by (auto simp: concludeRule_def Let_def frame_simps engine_frame_def engine_static_def deletePending_def
      split: option.splits)

lemma evaluateRule_frame [frame_simps]:
  "engine_frame (fst (evaluateRule i r idx now e)) = engine_frame e"
  by (simp add: evaluateRule_def Let_def frame_simps split: prod.splits)

lemma evaluateRules_frame [frame_simps]: "engine_frame (fst (evaluateRules idx now e)) = engine_frame e"
proof -
  have "engine_frame (fst (fold (evaluateStep idx now) irs acc)) = engine_frame (fst acc)" for irs acc
    by (rule fold_frame) (simp add: evaluateStep_def Let_def frame_simps)
  then show ?thesis by (simp add: evaluateRules_def)
qed

section \<open>Every operation keeps the invariant\<close>

text \<open>
  The operations that touch only breaks and pending conditions keep the invariant as soon
  as they keep the frame and the well-formedness of these two maps.
\<close>

definition side_inv :: "engine \<Rightarrow> bool" where
  "side_inv e \<longleftrightarrow> gm_inv (eRateBreaks e) \<and> gm_inv (ePending e) \<and>
     (\<forall>i b. gm_lookup (eRateBreaks e) i = Some b \<longrightarrow> gm_inv b)"

lemma engine_inv_side:
  "engine_inv e \<longleftrightarrow> side_inv e \<and> gm_inv (eHistory e) \<and>
     (\<forall>k ss. gm_lookup (eHistory e) k = Some ss \<longrightarrow> series_inv (eEvalCounter e) ss)"
  by (auto simp: engine_inv_def side_inv_def)

lemma engine_inv_frame:
  assumes "engine_inv e" "engine_frame e' = engine_frame e" "side_inv e'"
  shows "engine_inv e'"
  using assms engine_frameD(3,5) [OF assms(2)] by (simp add: engine_inv_side)

lemma breakRateContinuity_side: "side_inv e \<Longrightarrow> side_inv (breakRateContinuity i r k e)"
  by (auto simp: side_inv_def breakRateContinuity_def gm_get_def split: option.splits)

lemma deletePending_side: "side_inv e \<Longrightarrow> side_inv (deletePending c e)"
  by (simp add: side_inv_def deletePending_def)

lemma fold_side:
  assumes "\<And>x e. side_inv (g e) \<Longrightarrow> side_inv (g (f x e))" and "side_inv (g e)"
  shows "side_inv (g (fold f xs e))"
  using assms(2) by (induction xs arbitrary: e) (simp_all add: assms(1))

lemma breakUsingRules_side: "side_inv e \<Longrightarrow> side_inv (breakUsingRules k e)"
  unfolding breakUsingRules_def
  by (rule fold_side [where g = "\<lambda>e. e"]) (auto intro: breakRateContinuity_side split: prod.splits)

lemma breakMissing_side: "side_inv e \<Longrightarrow> side_inv (breakMissingRateContinuity ms e)"
  unfolding breakMissingRateContinuity_def Let_def
  by (rule fold_side [where g = "\<lambda>e. e"]) (auto intro: breakUsingRules_side)

lemma scanMetric_side: "side_inv (scEngine sc) \<Longrightarrow> side_inv (scEngine (scanMetric i r now m sc))"
  by (simp add: scanMetric_def Let_def breakRateContinuity_side)

lemma scanSource_side: "side_inv (rsEngine st) \<Longrightarrow> side_inv (rsEngine (scanSource i r idx now src st))"
  by (auto simp: scanSource_def Let_def intro: fold_side [where g = scEngine] scanMetric_side split: prod.splits)

lemma scanSources_side: "side_inv e \<Longrightarrow> side_inv (rsEngine (scanSources i r idx now e))"
  unfolding scanSources_def by (rule fold_side [where g = rsEngine]) (auto intro: scanSource_side)

lemma concludeRule_side: "side_inv e \<Longrightarrow> side_inv (fst (concludeRule r now f res e))"
  by (auto simp: concludeRule_def Let_def deletePending_side split: option.splits)
    (simp add: side_inv_def)

lemma evaluateRule_side: "side_inv e \<Longrightarrow> side_inv (fst (evaluateRule i r idx now e))"
  by (auto simp: evaluateRule_def Let_def intro: concludeRule_side deletePending_side scanSources_side
      split: prod.splits)

lemma evaluateRules_side: "side_inv e \<Longrightarrow> side_inv (fst (evaluateRules idx now e))"
  unfolding evaluateRules_def
  by (rule fold_side [where g = fst]) (auto simp: evaluateStep_def Let_def intro: evaluateRule_side)

lemma evaluateRules_inv: "engine_inv e \<Longrightarrow> engine_inv (fst (evaluateRules idx now e))"
  by (rule engine_inv_frame) (auto simp: frame_simps engine_inv_side intro: evaluateRules_side)

lemma breakMissing_inv: "engine_inv e \<Longrightarrow> engine_inv (breakMissingRateContinuity ms e)"
  by (rule engine_inv_frame) (auto simp: frame_simps engine_inv_side intro: breakMissing_side)

text \<open>The operations that change the history.\<close>

lemma engine_inv_history:
  assumes "engine_inv e" "gm_inv h"
    and "\<And>k ss. gm_lookup h k = Some ss \<Longrightarrow> series_inv (eEvalCounter e) ss"
  shows "engine_inv (e\<lparr>eHistory := h\<rparr>)"
  using assms by (auto simp: engine_inv_def)

lemma engine_inv_history_set:
  assumes "engine_inv e" "series_inv (eEvalCounter e) ss"
  shows "engine_inv (e\<lparr>eHistory := gm_set k ss (eHistory e)\<rparr>)"
  using assms by (intro engine_inv_history) (auto dest: engine_invD split: if_splits)

lemma engine_inv_history_delete:
  assumes "engine_inv e"
  shows "engine_inv (e\<lparr>eHistory := gm_delete k (eHistory e)\<rparr>)"
  using assms by (intro engine_inv_history) (auto dest: engine_invD split: if_splits)

lemma pruneHistory_inv: "engine_inv e \<Longrightarrow> engine_inv (pruneHistory k now d e)"
  by (auto simp: pruneHistory_def Let_def intro!: engine_inv_history_set series_inv_drop series_inv_get)

lemma pruneHistory_static [frame_simps]: "engine_static (pruneHistory k now d e) = engine_static e"
  by (simp add: pruneHistory_def Let_def engine_static_def)

lemma recordMetric_static [frame_simps]: "engine_static (recordMetric now c m e) = engine_static e"
  by (simp add: recordMetric_def Let_def frame_simps) (simp add: engine_static_def)

lemma recordMetric_inv:
  assumes inv: "engine_inv e" and c: "c \<le> eEvalCounter e"
  shows "engine_inv (recordMetric now c m e)"
proof -
  define key where "key = metricKey (mName m) (mLabels m)"
  define t where "t = (if \<not> isZero (mTimestamp m) then mTimestamp m else now)"
  define h where "h = gm_get [] (eHistory e) key"
  define s where "s = \<lparr>saTime = t, saValue = mValue m, saCycle = c\<rparr>"
  have app: "engine_inv (pruneHistory key now (eRetention e)
      (e\<lparr>eHistory := gm_set key (gm_get [] (eHistory e) key @ [s]) (eHistory e)\<rparr>))"
    if "h \<noteq> [] \<longrightarrow> saTime (last h) < t" "\<not> isNaN (mValue m)" "\<not> isInf (mValue m)"
    using that c inv
    by (intro pruneHistory_inv engine_inv_history_set series_inv_snoc series_inv_get)
      (simp_all add: h_def s_def)
  have restart: "engine_inv (pruneHistory key now (eRetention e)
      (e\<lparr>eHistory := gm_set key (gm_get [] (gm_delete key (eHistory e)) key @ [s]) (gm_delete key (eHistory e))\<rparr>))"
    if "\<not> isNaN (mValue m)" "\<not> isInf (mValue m)"
  proof -
    have "engine_inv ((e\<lparr>eHistory := gm_delete key (eHistory e)\<rparr>)\<lparr>eHistory :=
        gm_set key [s] (eHistory (e\<lparr>eHistory := gm_delete key (eHistory e)\<rparr>))\<rparr>)"
      using that c inv
      by (intro engine_inv_history_set engine_inv_history_delete)
        (simp_all add: series_inv_def s_def)
    then show ?thesis by (intro pruneHistory_inv) simp
  qed
  show ?thesis
    using app restart engine_inv_history_delete [OF inv, of key] inv
    by (auto simp: recordMetric_def Let_def h_def t_def s_def key_def not_less)
qed

lemma recordMetrics_inv:
  assumes "engine_inv e" "c \<le> eEvalCounter e"
  shows "engine_inv (recordMetrics ms now c e) \<and> engine_static (recordMetrics ms now c e) = engine_static e"
  unfolding recordMetrics_def
proof (rule fold_invariant [where Q = "\<lambda>_. True"])
  fix m s
  assume "engine_inv s \<and> engine_static s = engine_static e"
  then show "engine_inv (recordMetric now c m s) \<and> engine_static (recordMetric now c m s) = engine_static e"
    using assms(2) by (simp add: recordMetric_static recordMetric_inv) (simp add: engine_static_def recordMetric_inv)
qed (use assms in auto)

lemma cleanup_step_inv:
  assumes "engine_inv e"
  shows "engine_inv (e\<lparr>eHistory := gm_delete key (eHistory e),
           eRateBreaks := filter (\<lambda>(i, breaks). breaks \<noteq> [])
             (map (\<lambda>(i, breaks). (i, gm_delete key breaks)) (eRateBreaks e))\<rparr>)"
proof -
  let ?m = "map (\<lambda>(i, breaks). (i, gm_delete key breaks)) (eRateBreaks e)"
  have inv: "gm_inv ?m" using engine_invD(2) [OF assms] by (simp add: gm_inv_map_snd)
  show ?thesis
  proof (rule engine_invI, goal_cases)
    case (5 i b)
    then have "gm_lookup ?m i = Some b"
      by (auto intro: gm_lookup_filter_Some [OF inv])
    then show ?case
      by (auto simp: gm_lookup_map_snd dest: engine_invD(5) [OF assms])
  qed (use inv assms in \<open>auto simp: gm_inv_filter dest: engine_invD split: if_splits\<close>)
qed

lemma cleanup_inv: "engine_inv e \<Longrightarrow> engine_inv (cleanupStaleHistory now d e)"
  unfolding cleanupStaleHistory_def Let_def
  by (rule fold_invariant [where Q = "\<lambda>_. True" and P = engine_inv])
    (auto split: prod.splits if_splits intro: cleanup_step_inv)

lemma evaluate_inv: "engine_inv e \<Longrightarrow> engine_inv (fst (evaluate ms now e))"
proof -
  assume inv: "engine_inv e"
  have "engine_inv (e\<lparr>eEvalCounter := eEvalCounter e + 1\<rparr>)"
    using inv by (fastforce simp: engine_inv_def intro: series_inv_mono)
  then have "engine_inv (breakMissingRateContinuity ms (e\<lparr>eEvalCounter := eEvalCounter e + 1\<rparr>))"
    by (rule breakMissing_inv)
  note recordMetrics_inv [OF this order.refl]
  then show ?thesis
    by (auto simp: evaluate_def Let_def intro!: evaluateRules_inv cleanup_inv)
qed

lemma newEngine_inv: "engine_inv (newEngine rules)"
  by (simp add: newEngine_def Let_def engine_inv_def)

section \<open>The rate of a counter\<close>

text \<open>
  The reference for the rate: among the samples inside the window, the difference between
  the last and the first one, or the last value where the counter was reset; unknown unless
  two samples lie in the window.
\<close>

definition rateSpec :: "gotime \<Rightarrow> sample list \<Rightarrow> float64 \<times> bool" where
  "rateSpec cutoff samples =
     (let w = filter (\<lambda>s. cutoff \<le> saTime s) samples in
      if length w < 2 then (Fin 0, False)
      else let increase = f_sub (saValue (last w)) (saValue (hd w)) in
           (if f_less increase (Fin 0) then saValue (last w) else increase, True))"

lemma sorted_window_drop:
  assumes "sorted_wrt (\<lambda>a b. saTime a < saTime b) ss"
  shows "drop (length (takeWhile (\<lambda>s. saTime s < c) ss)) ss = filter (\<lambda>s. c \<le> saTime s) ss"
  using assms
proof (induction ss)
  case (Cons a ss)
  have "filter (\<lambda>s. c \<le> saTime s) ss = ss" if "c \<le> saTime a"
    using Cons.prems that by (auto intro!: filter_True)
  with Cons show ?case by (auto simp: not_less)
qed simp

lemma windowRate_rateSpec:
  assumes sorted: "sorted_wrt (\<lambda>a b. saTime a < saTime b) ss"
  shows "windowRate c ss = rateSpec c ss"
proof -
  define w where "w = filter (\<lambda>s. c \<le> saTime s) ss"
  define n where "n = length (takeWhile (\<lambda>s. saTime s < c) ss)"
  have mono: "saTime (ss ! a) \<le> saTime (ss ! b)" if "a \<le> b" "b < length ss" for a b
    using sorted_wrt_nth_less [OF sorted, of a b] that by (cases "a = b") auto
  have search: "sortSearch (length ss) (\<lambda>i. \<not> saTime (ss ! i) < c) = n"
  proof -
    have "\<not> saTime (ss ! b) < c" if "a \<le> b" "b < length ss" "\<not> saTime (ss ! a) < c" for a b
      using mono [OF that(1,2)] that(3) by linarith
    from sortSearch_takeWhile [of ss "\<lambda>s. \<not> saTime s < c", OF this] show ?thesis
      by (simp add: n_def)
  qed
  have w: "w = drop n ss" by (simp add: w_def n_def sorted_window_drop [OF sorted])
  have n: "n \<le> length ss" by (simp add: n_def length_takeWhile_le)
  have spec: "rateSpec c ss = (if length w < 2 then (Fin 0, False)
      else (if f_less (f_sub (saValue (last w)) (saValue (hd w))) (Fin 0) then saValue (last w)
            else f_sub (saValue (last w)) (saValue (hd w)), True))"
    by (simp add: rateSpec_def Let_def w_def)
  show ?thesis
  proof (cases "length w < 2")
    case True
    then consider "n = length ss" | "n < length ss" "n = length ss - 1"
      using w n by fastforce
    then show ?thesis
      using True by cases (simp_all add: windowRate_def search spec Let_def)
  next
    case False
    then have l: "n + 2 \<le> length ss" using w by simp
    have hd: "hd w = ss ! n" using l by (simp add: w hd_drop_conv_nth)
    have last: "last w = ss ! (length ss - 1)"
      using l by (simp add: w last_drop last_conv_nth)
    have lt: "saTime (ss ! n) < saTime (ss ! (length ss - 1))"
      using sorted_wrt_nth_less [OF sorted, of n "length ss - 1"] l by simp
    show ?thesis
      using False l lt by (simp add: windowRate_def search spec Let_def hd last)
  qed
qed

lemma continuousFrom_series: "series_inv c ss \<Longrightarrow> series_inv c (continuousFrom i key d ss e)"
  by (simp add: continuousFrom_def Let_def series_inv_drop)

lemma computeRate_rateSpec:
  assumes inv: "engine_inv e"
  shows "computeRate i key window now cov maxAge e =
    rateSpec (time_add now (dur_neg window))
      (if cov then continuousFrom i key maxAge (gm_get [] (eHistory e) key) e else gm_get [] (eHistory e) key)"
proof -
  let ?all = "gm_get [] (eHistory e) key"
  have "series_inv (eEvalCounter e) ?all" by (rule series_inv_get [OF inv])
  then have "series_inv (eEvalCounter e) (if cov then continuousFrom i key maxAge ?all e else ?all)"
    by (simp add: continuousFrom_series)
  then show ?thesis
    unfolding computeRate_def Let_def series_inv_def by (intro windowRate_rateSpec) (rule conjunct1)
qed

section \<open>Coverage of rules with \<open>minSamples\<close>\<close>

text \<open>
  What the scan of one source computes, stated without the scan's state: the eligible
  series (those whose identity the rule asks for), the valid ones among them, and the
  identities they cover.
\<close>

definition eligible :: "rule \<Rightarrow> metric \<Rightarrow> bool" where
  "eligible r m \<longleftrightarrow>
     \<not> (rSampleLabel r \<noteq> [] \<and> rRequiredSampleValues r \<noteq> [] \<and> sampleIdentity r m \<noteq> [] \<and>
        sampleIdentity r m \<notin> set (rRequiredSampleValues r))"

definition validSample :: "rule \<Rightarrow> gotime \<Rightarrow> metric \<Rightarrow> bool" where
  "validSample r now m \<longleftrightarrow>
     \<not> isNaN (mValue m) \<and> \<not> isInf (mValue m) \<and>
     (rMinSamples r > 0 \<and> mTimestamp m \<noteq> 0 \<longrightarrow>
        time_add now (dur_neg (ruleMaxAge r)) \<le> mTimestamp m \<and> mTimestamp m \<le> time_add now (ruleMaxAge r)) \<and>
     (rSampleLabel r \<noteq> [] \<longrightarrow> sampleIdentity r m \<noteq> [])"

definition usable :: "rule \<Rightarrow> gotime \<Rightarrow> metric list \<Rightarrow> metric list" where
  "usable r now ms = filter (\<lambda>m. eligible r m \<and> validSample r now m) ms"

definition sourceIdentities :: "rule \<Rightarrow> gotime \<Rightarrow> metric list \<Rightarrow> string set" where
  "sourceIdentities r now ms = sampleIdentity r ` set (usable r now ms)"

definition observedCount :: "rule \<Rightarrow> gotime \<Rightarrow> metric list \<Rightarrow> nat" where
  "observedCount r now ms =
     (if rSampleLabel r \<noteq> [] then card (sourceIdentities r now ms) else length (usable r now ms))"

definition covered :: "rule \<Rightarrow> gotime \<Rightarrow> metric list \<Rightarrow> bool" where
  "covered r now ms \<longleftrightarrow>
     rMinSamples r \<le> int (observedCount r now ms) \<and> (\<forall>m \<in> set ms. eligible r m \<longrightarrow> validSample r now m)"

lemma scanMetric_cases:
  "scanMetric i r now m sc =
     (if \<not> eligible r m then sc
      else if \<not> validSample r now m
      then sc\<lparr>scEngine := breakRateContinuity i r (metricKey (mName m) (mLabels m)) (scEngine sc),
              scEligibleCount := scEligibleCount sc + 1\<rparr>
      else sc\<lparr>scIdentities := (if rSampleLabel r \<noteq> [] then gs_add (sampleIdentity r m) (scIdentities sc)
                               else scIdentities sc),
              scValidCount := scValidCount sc + 1, scEligibleCount := scEligibleCount sc + 1,
              scValid := scValid sc @ [m]\<rparr>)"
  by (auto simp: scanMetric_def Let_def eligible_def validSample_def isZero_def)

lemma scanMetrics_valid:
  "scValid (fold (scanMetric i r now) ms sc) = scValid sc @ usable r now ms"
  by (induction ms arbitrary: sc) (simp_all add: usable_def scanMetric_cases)

lemma scanMetrics_counts:
  "scValidCount (fold (scanMetric i r now) ms sc) = scValidCount sc + length (usable r now ms)"
  "scEligibleCount (fold (scanMetric i r now) ms sc) = scEligibleCount sc + length (filter (eligible r) ms)"
  by (induction ms arbitrary: sc) (simp_all add: usable_def scanMetric_cases)

lemma scanMetrics_identities:
  assumes "distinct (scIdentities sc)"
  shows "distinct (scIdentities (fold (scanMetric i r now) ms sc)) \<and>
    set (scIdentities (fold (scanMetric i r now) ms sc)) =
      set (scIdentities sc) \<union> (if rSampleLabel r \<noteq> [] then sourceIdentities r now ms else {})"
  using assms
proof (induction ms arbitrary: sc)
  case (Cons m ms)
  have "distinct (scIdentities (scanMetric i r now m sc))"
    using Cons.prems by (simp add: scanMetric_cases)
  from Cons.IH [OF this] show ?case
    by (auto simp: scanMetric_cases sourceIdentities_def usable_def)
qed (simp add: sourceIdentities_def usable_def)

lemma usable_all_iff:
  "length (usable r now ms) = length (filter (eligible r) ms) \<longleftrightarrow>
     (\<forall>m \<in> set ms. eligible r m \<longrightarrow> validSample r now m)"
proof (induction ms)
  case (Cons m ms)
  have "length (usable r now ms) \<le> length (filter (eligible r) ms)"
    by (induction ms) (auto simp: usable_def)
  with Cons show ?case by (auto simp: usable_def)
qed (simp add: usable_def)

text \<open>One source raises \<open>Unknown\<close> exactly when it is not covered.\<close>

lemma scanSource_unknown:
  "resUnknown (rsResult (scanSource i r idx now (k, name) st)) \<longleftrightarrow>
     resUnknown (rsResult st) \<or> (rMinSamples r > 0 \<and> \<not> covered r now (matchMetrics idx name (rLabels r)))"
proof -
  let ?ms = "matchMetrics idx name (rLabels r)"
  let ?sc = "fold (scanMetric i r now) ?ms
    \<lparr>scEngine = rsEngine st, scIdentities = [], scValidCount = 0, scEligibleCount = 0, scValid = rsValid st\<rparr>"
  have ids: "distinct (scIdentities ?sc)"
    "set (scIdentities ?sc) = (if rSampleLabel r \<noteq> [] then sourceIdentities r now ?ms else {})"
    using scanMetrics_identities [of "\<lparr>scEngine = rsEngine st, scIdentities = [], scValidCount = 0,
        scEligibleCount = 0, scValid = rsValid st\<rparr>"] by auto
  have obs: "(if rSampleLabel r \<noteq> [] then length (scIdentities ?sc) else scValidCount ?sc) = observedCount r now ?ms"
    using ids(2) distinct_card [OF ids(1)]
    by (cases "rSampleLabel r = []") (simp_all add: observedCount_def scanMetrics_counts)
  have all: "scValidCount ?sc = scEligibleCount ?sc \<longleftrightarrow> (\<forall>m \<in> set ?ms. eligible r m \<longrightarrow> validSample r now m)"
    by (simp add: scanMetrics_counts usable_all_iff)
  show ?thesis
    by (simp add: scanSource_def Let_def obs all covered_def not_le) blast
qed

lemma scanSource_common:
  assumes "rSampleLabel r \<noteq> []"
  shows "set (rsCommon (scanSource i r idx now (k, name) st)) =
      (if k = 0 then sourceIdentities r now (matchMetrics idx name (rLabels r))
       else set (rsCommon st) \<inter> sourceIdentities r now (matchMetrics idx name (rLabels r)))"
    and "(k \<noteq> 0 \<longrightarrow> distinct (rsCommon st)) \<longrightarrow> distinct (rsCommon (scanSource i r idx now (k, name) st))"
  using assms scanMetrics_identities [of "\<lparr>scEngine = rsEngine st, scIdentities = [], scValidCount = 0,
        scEligibleCount = 0, scValid = rsValid st\<rparr>" i r now "matchMetrics idx name (rLabels r)"]
  by (auto simp: scanSource_def Let_def)

lemma scanSource_valid:
  "rsValid (scanSource i r idx now (k, name) st) =
     rsValid st @ usable r now (matchMetrics idx name (rLabels r))"
  by (simp add: scanSource_def Let_def scanMetrics_valid)

lemma scanSources_unknown:
  "resUnknown (rsResult (scanSources i r idx now e)) \<longleftrightarrow>
     rMinSamples r > 0 \<and> (\<exists>name \<in> set (metricSources r). \<not> covered r now (matchMetrics idx name (rLabels r)))"
proof -
  have step: "resUnknown (rsResult (fold (scanSource i r idx now) srcs st)) \<longleftrightarrow>
      resUnknown (rsResult st) \<or>
      (rMinSamples r > 0 \<and> (\<exists>name \<in> snd ` set srcs. \<not> covered r now (matchMetrics idx name (rLabels r))))" for srcs st
  proof (induction srcs arbitrary: st)
    case (Cons s srcs)
    show ?case by (cases s) (simp add: Cons.IH scanSource_unknown, blast)
  qed simp
  have enum: "snd ` set (enumerate 0 (metricSources r)) = set (metricSources r)"
    by (simp flip: list.set_map)
  show ?thesis
    unfolding scanSources_def step enum by (simp add: initialResult_def)
qed

lemma scanSources_valid:
  "rsValid (scanSources i r idx now e) =
     concat (map (\<lambda>name. usable r now (matchMetrics idx name (rLabels r))) (metricSources r))"
proof -
  have "rsValid (fold (scanSource i r idx now) srcs st) = rsValid st @
      concat (map (\<lambda>name. usable r now (matchMetrics idx name (rLabels r))) (map snd srcs))" for srcs st
    by (induction srcs arbitrary: st) (auto simp: scanSource_valid)
  then show ?thesis by (simp add: scanSources_def del: map_map)
qed

lemma scanSources_matched:
  "rsMatched (scanSources i r idx now e) =
     sum_list (map (\<lambda>name. length (filter (eligible r) (matchMetrics idx name (rLabels r)))) (metricSources r))"
proof -
  have "rsMatched (fold (scanSource i r idx now) srcs st) = rsMatched st +
      sum_list (map (\<lambda>name. length (filter (eligible r) (matchMetrics idx name (rLabels r)))) (map snd srcs))" for srcs st
    by (induction srcs arbitrary: st) (auto simp: scanSource_def Let_def scanMetrics_counts)
  then show ?thesis by (simp add: scanSources_def del: map_map)
qed

lemma scanSources_common_fold:
  assumes "rSampleLabel r \<noteq> []" and "0 < n"
  shows "set (rsCommon (fold (scanSource i r idx now) (enumerate n names) st)) =
      set (rsCommon st) \<inter> (\<Inter>name \<in> set names. sourceIdentities r now (matchMetrics idx name (rLabels r)))"
    and "distinct (rsCommon st) \<Longrightarrow>
      distinct (rsCommon (fold (scanSource i r idx now) (enumerate n names) st))"
  using assms by (induction names arbitrary: n st) (auto simp: scanSource_common)

lemma scanSources_common:
  assumes "rSampleLabel r \<noteq> []" "metricSources r \<noteq> []"
  shows "length (rsCommon (scanSources i r idx now e)) =
      card (\<Inter>name \<in> set (metricSources r). sourceIdentities r now (matchMetrics idx name (rLabels r)))"
proof -
  obtain name names where src: "metricSources r = name # names"
    using assms(2) by (cases "metricSources r") auto
  let ?st = "scanSource i r idx now (0, name)
    \<lparr>rsEngine = e, rsValid = [], rsCommon = [], rsMatched = 0, rsResult = initialResult r\<rparr>"
  have eq: "scanSources i r idx now e = fold (scanSource i r idx now) (enumerate 1 names) ?st"
    by (simp add: scanSources_def src)
  have "distinct (rsCommon (scanSources i r idx now e))"
    unfolding eq by (rule scanSources_common_fold(2)) (use assms scanSource_common(2) in auto)
  moreover have "set (rsCommon (scanSources i r idx now e)) =
      (\<Inter>name \<in> set (metricSources r). sourceIdentities r now (matchMetrics idx name (rLabels r)))"
    unfolding eq by (subst scanSources_common_fold(1)) (use assms src in \<open>auto simp: scanSource_common(1)\<close>)
  ultimately show ?thesis by (metis distinct_card)
qed

section \<open>Outcome of a rule\<close>

lemma familyCheck_unknown:
  "resUnknown (familyCheck r st) \<longleftrightarrow>
     resUnknown (rsResult st) \<or> (length (metricNames r) > 1 \<and> int (length (rsCommon st)) < rMinSamples r)"
  by (auto simp: familyCheck_def)

lemma scanSources_firing: "\<not> resFiring (rsResult (scanSources i r idx now e))"
proof -
  have "resFiring (rsResult (fold (scanSource i r idx now) srcs st)) = resFiring (rsResult st)" for srcs st
    by (induction srcs arbitrary: st) (auto simp: scanSource_def Let_def split: prod.splits)
  then show ?thesis by (simp add: scanSources_def initialResult_def)
qed

lemma scanSources_type: "resConditionType (rsResult (scanSources i r idx now e)) = rConditionType r"
proof -
  have "resConditionType (rsResult (fold (scanSource i r idx now) srcs st)) = resConditionType (rsResult st)" for srcs st
    by (induction srcs arbitrary: st) (auto simp: scanSource_def Let_def split: prod.splits)
  then show ?thesis by (simp add: scanSources_def initialResult_def)
qed

lemma familyCheck_keeps:
  "resFiring (familyCheck r st) = resFiring (rsResult st)"
  "resConditionType (familyCheck r st) = resConditionType (rsResult st)"
  by (simp_all add: familyCheck_def)

definition rateKnown :: "nat \<Rightarrow> rule \<Rightarrow> gotime \<Rightarrow> engine \<Rightarrow> metric \<Rightarrow> bool" where
  "rateKnown i r now e m \<longleftrightarrow>
     snd (computeRate i (metricKey (mName m) (mLabels m)) (rWindow r) now (rMinSamples r > 0) (ruleMaxAge r) e)"

lemma rateStep_fold:
  defines "res acc \<equiv> snd acc"
  shows "resUnknown (res (fold (rateStep i r now e) ms acc)) \<longleftrightarrow>
      resUnknown (res acc) \<or> (rMinSamples r > 0 \<and> (\<exists>m \<in> set ms. \<not> rateKnown i r now e m))"
    and "resFiring (res (fold (rateStep i r now e) ms acc)) = resFiring (res acc)"
    and "resConditionType (res (fold (rateStep i r now e) ms acc)) = resConditionType (res acc)"
  unfolding res_def
  by (induction ms arbitrary: acc)
    (auto simp: rateStep_def rateKnown_def Let_def split: prod.splits if_splits)

lemma concludeRule_result:
  assumes "\<not> resFiring res"
  shows "resFiring (snd (concludeRule r now f res e)) \<longleftrightarrow>
      f \<and> (rFor r > 0 \<longrightarrow>
        (\<exists>t. gm_lookup (ePending e) (rConditionType r) = Some t \<and> \<not> time_sub now t < rFor r))"
    and "resFiring (snd (concludeRule r now f res e)) \<Longrightarrow> \<not> resUnknown (snd (concludeRule r now f res e))"
    and "\<not> resFiring (snd (concludeRule r now f res e)) \<Longrightarrow> snd (concludeRule r now f res e) = res"
    and "resConditionType (snd (concludeRule r now f res e)) = resConditionType res"
  using assms by (auto simp: concludeRule_def Let_def split: option.splits if_splits)

text \<open>
  A rule fires or not, and is unknown or not, according to this case distinction: the four
  ways out of \<open>evaluateRule\<close>.
\<close>

lemma evaluateRule_cases:
  fixes i r idx now e
  defines "st \<equiv> scanSources i r idx now e" and "out \<equiv> evaluateRule i r idx now e"
  shows "rsMatched st = 0 \<Longrightarrow> snd out = familyCheck r st"
    and "rsMatched st \<noteq> 0 \<Longrightarrow> rMode r = ''instant'' \<Longrightarrow>
      \<exists>f res. out = concludeRule r now f res (rsEngine st) \<and> resUnknown res = resUnknown (familyCheck r st) \<and>
        \<not> resFiring res \<and> resConditionType res = rConditionType r"
    and "rsMatched st \<noteq> 0 \<Longrightarrow> rMode r = ''rate'' \<Longrightarrow>
      \<exists>f res. out = concludeRule r now f res (rsEngine st) \<and>
        (resUnknown res \<longleftrightarrow> resUnknown (familyCheck r st) \<or>
          (rMinSamples r > 0 \<and> (\<exists>m \<in> set (rsValid st). \<not> rateKnown i r now (rsEngine st) m))) \<and>
        \<not> resFiring res \<and> resConditionType res = rConditionType r"
    and "rsMatched st \<noteq> 0 \<Longrightarrow> rMode r \<noteq> ''instant'' \<Longrightarrow> rMode r \<noteq> ''rate'' \<Longrightarrow>
      \<not> resFiring (snd out) \<and> (rMinSamples r > 0 \<longrightarrow> resUnknown (snd out)) \<and>
      resConditionType (snd out) = rConditionType r"
proof -
  have f: "\<not> resFiring (familyCheck r st)" and t: "resConditionType (familyCheck r st) = rConditionType r"
    by (simp_all add: familyCheck_keeps st_def scanSources_firing scanSources_type)
  show "rsMatched st = 0 \<Longrightarrow> snd out = familyCheck r st"
    by (simp add: out_def st_def evaluateRule_def Let_def)
  show "\<exists>f res. out = concludeRule r now f res (rsEngine st) \<and> resUnknown res = resUnknown (familyCheck r st) \<and>
      \<not> resFiring res \<and> resConditionType res = rConditionType r"
    if m: "rsMatched st \<noteq> 0" "rMode r = ''instant''"
  proof (cases "instantFiring r (rsValid st)")
    case True
    with m have "out = concludeRule r now True ((familyCheck r st)\<lparr>resMessage := ValueExceedsThreshold\<rparr>) (rsEngine st)"
      by (simp add: out_def evaluateRule_def Let_def flip: st_def)
    with f t show ?thesis
      by (intro exI [of _ True] exI [of _ "(familyCheck r st)\<lparr>resMessage := ValueExceedsThreshold\<rparr>"]) simp
  next
    case False
    with m have "out = concludeRule r now False (familyCheck r st) (rsEngine st)"
      by (simp add: out_def evaluateRule_def Let_def flip: st_def)
    with f t show ?thesis by blast
  qed
  show "\<exists>f res. out = concludeRule r now f res (rsEngine st) \<and>
      (resUnknown res \<longleftrightarrow> resUnknown (familyCheck r st) \<or>
        (rMinSamples r > 0 \<and> (\<exists>m \<in> set (rsValid st). \<not> rateKnown i r now (rsEngine st) m))) \<and>
      \<not> resFiring res \<and> resConditionType res = rConditionType r"
    if m: "rsMatched st \<noteq> 0" "rMode r = ''rate''"
  proof -
    let ?acc = "fold (rateStep i r now (rsEngine st)) (rsValid st) (False, familyCheck r st)"
    have "out = concludeRule r now (fst ?acc) (snd ?acc) (rsEngine st)"
      using m by (simp add: out_def evaluateRule_def Let_def case_prod_beta flip: st_def)
    with f t show ?thesis
      by (intro exI [of _ "fst ?acc"] exI [of _ "snd ?acc"]) (simp add: rateStep_fold)
  qed
  show "\<not> resFiring (snd out) \<and> (rMinSamples r > 0 \<longrightarrow> resUnknown (snd out)) \<and>
      resConditionType (snd out) = rConditionType r"
    if "rsMatched st \<noteq> 0" "rMode r \<noteq> ''instant''" "rMode r \<noteq> ''rate''"
    using that f t by (simp add: out_def evaluateRule_def Let_def flip: st_def)
qed

lemma evaluateRule_type: "resConditionType (snd (evaluateRule i r idx now e)) = rConditionType r"
  using evaluateRule_cases [of i r idx now e]
  by (metis concludeRule_result(4) familyCheck_keeps(2) scanSources_type)

lemma evaluateRule_firing_known:
  "resFiring (snd (evaluateRule i r idx now e)) \<Longrightarrow> \<not> resUnknown (snd (evaluateRule i r idx now e))"
  using evaluateRule_cases [of i r idx now e]
  by (metis concludeRule_result(2) familyCheck_keeps(1) scanSources_firing)

lemma breakRate_pending_scan: "ePending (rsEngine (scanSources i r idx now e)) = ePending e"
proof -
  have m: "ePending (scEngine (fold (scanMetric i r now) ms sc)) = ePending (scEngine sc)" for ms sc
    by (rule fold_frame) (simp add: scanMetric_cases frame_simps)
  have "ePending (rsEngine (fold (scanSource i r idx now) srcs st)) = ePending (rsEngine st)" for srcs st
    by (rule fold_frame) (simp add: scanSource_def Let_def m split: prod.splits)
  then show ?thesis by (simp add: scanSources_def)
qed

lemma evaluateRule_firing_for:
  assumes "resFiring (snd (evaluateRule i r idx now e))" and "0 < rFor r"
  obtains t where "gm_lookup (ePending e) (rConditionType r) = Some t" "\<not> time_sub now t < rFor r"
proof -
  let ?st = "scanSources i r idx now e"
  have "\<not> resFiring (familyCheck r ?st)" by (simp add: familyCheck_keeps scanSources_firing)
  then obtain f res where "evaluateRule i r idx now e = concludeRule r now f res (rsEngine ?st)" "\<not> resFiring res"
    using assms(1) evaluateRule_cases [of i r idx now e] by metis
  then show thesis
    using that assms concludeRule_result(1) [of res r now f "rsEngine ?st"]
    by (auto simp: breakRate_pending_scan)
qed

lemma evaluateRule_not_healthy:
  assumes "0 < rMinSamples r"
    and "\<not> resFiring (snd (evaluateRule i r idx now e))" "\<not> resUnknown (snd (evaluateRule i r idx now e))"
  shows "name \<in> set (metricSources r) \<Longrightarrow> covered r now (matchMetrics idx name (rLabels r))"
    and "rMode r = ''rate'' \<Longrightarrow> name \<in> set (metricSources r) \<Longrightarrow>
      m \<in> set (usable r now (matchMetrics idx name (rLabels r))) \<Longrightarrow>
      rateKnown i r now (rsEngine (scanSources i r idx now e)) m"
    and "length (metricNames r) > 1 \<Longrightarrow> rSampleLabel r \<noteq> [] \<Longrightarrow>
      rMinSamples r \<le> int (card (\<Inter>name \<in> set (metricSources r).
        sourceIdentities r now (matchMetrics idx name (rLabels r))))"
proof -
  let ?st = "scanSources i r idx now e"
  have known: "\<not> resUnknown (familyCheck r ?st)"
    using assms evaluateRule_cases [of i r idx now e] concludeRule_result(3) by metis
  show cov: "covered r now (matchMetrics idx name (rLabels r))" if "name \<in> set (metricSources r)" for name
    using known assms(1) that by (auto simp: familyCheck_unknown scanSources_unknown)
  show "rateKnown i r now (rsEngine ?st) m"
    if "rMode r = ''rate''" "name \<in> set (metricSources r)" "m \<in> set (usable r now (matchMetrics idx name (rLabels r)))"
  proof (cases "rsMatched ?st = 0")
    case False
    from evaluateRule_cases(3) [OF False that(1)] obtain f res
      where "evaluateRule i r idx now e = concludeRule r now f res (rsEngine ?st)"
      "resUnknown res \<longleftrightarrow> resUnknown (familyCheck r ?st) \<or>
        (rMinSamples r > 0 \<and> (\<exists>m \<in> set (rsValid ?st). \<not> rateKnown i r now (rsEngine ?st) m))" "\<not> resFiring res"
      by blast
    then have "\<forall>m \<in> set (rsValid ?st). rateKnown i r now (rsEngine ?st) m"
      using assms concludeRule_result(3) by metis
    then show ?thesis using that(2,3) by (auto simp: scanSources_valid)
  next
    case True
    then have "length (filter (eligible r) (matchMetrics idx name (rLabels r))) = 0"
      using that(2) by (simp add: scanSources_matched)
    then show ?thesis using that(3) by (auto simp: usable_def filter_empty_conv)
  qed
  show "rMinSamples r \<le> int (card (\<Inter>name \<in> set (metricSources r).
      sourceIdentities r now (matchMetrics idx name (rLabels r))))"
    if "length (metricNames r) > 1" "rSampleLabel r \<noteq> []"
  proof -
    have "metricSources r \<noteq> []" by (simp add: metricSources_def)
    then show ?thesis
      using known that by (auto simp: familyCheck_unknown scanSources_common)
  qed
qed

section \<open>Restarts\<close>

lemma fold_breaks_lookup:
  fixes k :: string and irs :: "(nat \<times> rule) list"
  defines "f \<equiv> \<lambda>(i, r) e. if rMinSamples r > 0 \<and> ruleUsesMetricKey r k then breakRateContinuity i r k e else e"
  shows "engine_frame (fold f irs e) = engine_frame e"
    and "ePending (fold f irs e) = ePending e"
    and "gm_lookup (gm_get [] (eRateBreaks (fold f irs e)) i) k' =
      (if k' = k \<and> (\<exists>r. (i, r) \<in> set irs \<and> rMinSamples r > 0 \<and> ruleUsesMetricKey r k \<and> rMode r = ''rate'')
       then Some (eEvalCounter e) else gm_lookup (gm_get [] (eRateBreaks e) i) k')"
proof -
  show frame: "engine_frame (fold f irs e) = engine_frame e" for irs e
    by (rule fold_frame) (auto simp: f_def frame_simps)
  show "ePending (fold f irs e) = ePending e"
    by (rule fold_frame) (auto simp: f_def frame_simps)
  show "gm_lookup (gm_get [] (eRateBreaks (fold f irs e)) i) k' =
      (if k' = k \<and> (\<exists>r. (i, r) \<in> set irs \<and> rMinSamples r > 0 \<and> ruleUsesMetricKey r k \<and> rMode r = ''rate'')
       then Some (eEvalCounter e) else gm_lookup (gm_get [] (eRateBreaks e) i) k')"
  proof (induction irs arbitrary: e)
    case (Cons ir irs)
    obtain j r where ir: "ir = (j, r)" by force
    have "eEvalCounter (f ir e) = eEvalCounter e"
      using engine_frameD(3) [OF frame [of "[ir]" e]] by simp
    moreover have "gm_lookup (gm_get [] (eRateBreaks (f ir e)) i) k' =
        (if k' = k \<and> i = j \<and> rMinSamples r > 0 \<and> ruleUsesMetricKey r k \<and> rMode r = ''rate''
         then Some (eEvalCounter e) else gm_lookup (gm_get [] (eRateBreaks e) i) k')"
      by (simp add: f_def ir breakRateContinuity_def)
    ultimately show ?case
      using Cons.IH [of "f ir e"] ir by auto
  qed simp
qed

text \<open>
  After a restore, every series present carries the cycle of the restore, and every
  coverage rule that reads it as a counter has its continuity broken at that cycle.
\<close>

definition restored_inv :: "engine \<Rightarrow> bool" where
  "restored_inv e \<longleftrightarrow>
     (\<forall>k ss. gm_lookup (eHistory e) k = Some ss \<longrightarrow>
        (\<forall>s \<in> set ss. saCycle s = eEvalCounter e) \<and>
        (\<forall>i r. (i, r) \<in> set (enumerate 0 (eRules e)) \<and> rMinSamples r > 0 \<and> rMode r = ''rate'' \<and>
           ruleUsesMetricKey r k \<longrightarrow>
           gm_lookup (gm_get [] (eRateBreaks e) i) k = Some (eEvalCounter e)))"

lemma restoreSeries_restored_inv:
  assumes "restored_inv e"
  shows "restored_inv (restoreSeries now ks e)"
proof -
  obtain k samples where ks: "ks = (k, samples)" by force
  define kept where "kept = filter (\<lambda>s. time_sub now (ssTime s) \<le> eRetention e) samples"
  define restored where "restored = map (\<lambda>s. \<lparr>saTime = ssTime s, saValue = ssValue s, saCycle = eEvalCounter e\<rparr>) kept"
  define e1 where "e1 = e\<lparr>eHistory := gm_set k restored (eHistory e)\<rparr>"
  define e2 where "e2 = fold (\<lambda>(i, r) e. if rMinSamples r > 0 \<and> ruleUsesMetricKey r k
      then breakRateContinuity i r k e else e) (enumerate 0 (eRules e)) e1"
  have eq: "restoreSeries now ks e = e \<or> restoreSeries now ks e = e2"
    by (simp add: ks restoreSeries_def Let_def e2_def e1_def restored_def kept_def)
  have frame: "engine_frame e2 = engine_frame e1"
    unfolding e2_def by (rule fold_breaks_lookup(1))
  have breaks: "gm_lookup (gm_get [] (eRateBreaks e2) i) k' =
      (if k' = k \<and> (\<exists>r. (i, r) \<in> set (enumerate 0 (eRules e)) \<and> rMinSamples r > 0 \<and> ruleUsesMetricKey r k \<and>
          rMode r = ''rate'')
       then Some (eEvalCounter e) else gm_lookup (gm_get [] (eRateBreaks e) i) k')" for i k'
    unfolding e2_def by (subst fold_breaks_lookup(3)) (auto simp: e1_def)
  have "restored_inv e2"
    unfolding restored_inv_def
  proof (intro allI impI conjI)
    fix k' ss
    assume l: "gm_lookup (eHistory e2) k' = Some ss"
    then have l1: "(if k' = k then Some restored else gm_lookup (eHistory e) k') = Some ss"
      by (simp add: engine_frameD(5) [OF frame]) (auto simp: e1_def split: if_splits)
    have c: "eEvalCounter e2 = eEvalCounter e" "eRules e2 = eRules e"
      using engine_frameD [OF frame] by (simp_all add: e1_def)
    show "\<forall>s \<in> set ss. saCycle s = eEvalCounter e2"
      using l1 assms by (auto simp: c restored_def restored_inv_def split: if_splits)
    fix i r
    assume r: "(i, r) \<in> set (enumerate 0 (eRules e2)) \<and> rMinSamples r > 0 \<and> rMode r = ''rate'' \<and> ruleUsesMetricKey r k'"
    show "gm_lookup (gm_get [] (eRateBreaks e2) i) k' = Some (eEvalCounter e2)"
    proof (cases "k' = k")
      case True
      then show ?thesis using r by (simp add: breaks c) blast
    next
      case False
      then show ?thesis using r l1 assms unfolding restored_inv_def by (simp add: breaks c) blast
    qed
  qed
  then show ?thesis using eq assms by auto
qed

lemma restorePending_frame: "engine_frame (restorePending kv e) = engine_frame e \<and>
    eRateBreaks (restorePending kv e) = eRateBreaks e"
  by (simp add: restorePending_def Let_def engine_frame_def engine_static_def split: prod.splits)

lemma restored_inv_frame:
  assumes "restored_inv e" "engine_frame e' = engine_frame e" "eRateBreaks e' = eRateBreaks e"
  shows "restored_inv e'"
  using assms engine_frameD [OF assms(2)] by (simp add: restored_inv_def)

lemma restoreState_restored_inv:
  assumes "restored_inv e"
  shows "restored_inv (restoreState history pending now e)"
proof -
  have "restored_inv (fold (restoreSeries now) history e)"
    by (rule fold_invariant [where Q = "\<lambda>_. True"]) (use assms in \<open>auto intro: restoreSeries_restored_inv\<close>)
  then show ?thesis
    unfolding restoreState_def
    by (rule fold_invariant [where Q = "\<lambda>_. True", rotated])
      (use restorePending_frame in \<open>auto intro: restored_inv_frame\<close>)
qed

lemma restored_no_continuity:
  assumes "restored_inv e" "i < length (eRules e)" "rMinSamples (eRules e ! i) > 0"
    "rMode (eRules e ! i) = ''rate''" "ruleUsesMetricKey (eRules e ! i) k"
  shows "continuousFrom i k d (gm_get [] (eHistory e) k) e = []"
proof (cases "gm_lookup (eHistory e) k")
  case None
  then show ?thesis by (simp add: gm_get_def continuousFrom_def Let_def)
next
  case (Some ss)
  have "(i, eRules e ! i) \<in> set (enumerate 0 (eRules e))"
    using assms(2) by (simp add: in_set_enumerate_eq)
  with Some assms have c: "\<forall>s \<in> set ss. saCycle s = eEvalCounter e"
    and b: "gm_lookup (gm_get [] (eRateBreaks e) i) k = Some (eEvalCounter e)"
    unfolding restored_inv_def by blast+
  then obtain breaks where br: "gm_lookup (eRateBreaks e) i = Some breaks"
    by (cases "gm_lookup (eRateBreaks e) i") (auto simp: gm_get_def)
  have "length (takeWhile (\<lambda>s. saCycle s \<le> eEvalCounter e) ss) = length ss"
    using c by (metis order.refl takeWhile_eq_all_conv)
  moreover have "gm_get 0 breaks k = eEvalCounter e"
    using b br by (simp add: gm_get_def)
  ultimately show ?thesis
    using Some br by (simp add: continuousFrom_def Let_def gm_get_def [of "[]"])
qed

lemma restore_series_engine_inv:
  assumes "engine_inv e" and "series_inv (eEvalCounter e) (map (\<lambda>s. \<lparr>saTime = ssTime s, saValue = ssValue s,
      saCycle = eEvalCounter e\<rparr>) samples)"
  shows "engine_inv (restoreSeries now (k, samples) e) \<and> eEvalCounter (restoreSeries now (k, samples) e) = eEvalCounter e
    \<and> eRules (restoreSeries now (k, samples) e) = eRules e"
proof -
  let ?mk = "\<lambda>s. \<lparr>saTime = ssTime s, saValue = ssValue s, saCycle = eEvalCounter e\<rparr>"
  let ?kept = "filter (\<lambda>s. time_sub now (ssTime s) \<le> eRetention e) samples"
  let ?e1 = "e\<lparr>eHistory := gm_set k (map ?mk ?kept) (eHistory e)\<rparr>"
  let ?f = "\<lambda>(i, r) e. if rMinSamples r > 0 \<and> ruleUsesMetricKey r k then breakRateContinuity i r k e else e"
  have "series_inv (eEvalCounter e) (map ?mk ?kept)"
    using assms(2) by (auto simp: series_inv_def sorted_wrt_map sorted_wrt_filter)
  then have e1: "engine_inv ?e1" by (rule engine_inv_history_set [OF assms(1)])
  have "side_inv (fold ?f (enumerate 0 (eRules e)) ?e1)"
    by (rule fold_side [where g = "\<lambda>e. e"])
      (use e1 in \<open>auto simp: engine_inv_side intro: breakRateContinuity_side split: prod.splits\<close>)
  with e1 have "engine_inv (fold ?f (enumerate 0 (eRules e)) ?e1)"
    by (intro engine_inv_frame [OF e1] fold_breaks_lookup(1))
  then show ?thesis
    using assms(1) engine_frameD(1,3) [OF fold_breaks_lookup(1) [of k "enumerate 0 (eRules e)" ?e1]]
    by (auto simp: restoreSeries_def Let_def)
qed

lemma restoreState_engine_inv:
  assumes "engine_inv e"
    and "\<And>k samples. (k, samples) \<in> set history \<Longrightarrow>
      sorted_wrt (\<lambda>a b. ssTime a < ssTime b) samples \<and>
      (\<forall>s \<in> set samples. \<not> isNaN (ssValue s) \<and> \<not> isInf (ssValue s))"
  shows "engine_inv (restoreState history pending now e) \<and> eRules (restoreState history pending now e) = eRules e"
proof -
  have series: "engine_inv (fold (restoreSeries now) history e) \<and> eRules (fold (restoreSeries now) history e) = eRules e"
  proof (rule fold_invariant [where Q = "\<lambda>ks. ks \<in> set history" and P = "\<lambda>x. engine_inv x \<and> eRules x = eRules e"])
    fix ks x
    assume "ks \<in> set history" and "engine_inv x \<and> eRules x = eRules e"
    then show "engine_inv (restoreSeries now ks x) \<and> eRules (restoreSeries now ks x) = eRules e"
      using assms(2) [of "fst ks" "snd ks"] restore_series_engine_inv [of x "snd ks" now "fst ks"]
      by (simp add: series_inv_def sorted_wrt_map)
  qed (use assms in auto)
  have inv: "engine_inv (restorePending kv x)" if "engine_inv x" for kv x
    using that by (auto simp: restorePending_def Let_def engine_inv_def split: prod.splits)
  have rules: "eRules (restorePending kv x) = eRules x" for kv x
    using restorePending_frame [of kv x] by (simp add: engine_frame_def engine_static_def)
  show ?thesis
    unfolding restoreState_def
    by (rule fold_invariant [where Q = "\<lambda>_. True" and P = "\<lambda>x. engine_inv x \<and> eRules x = eRules e"])
      (simp_all add: series inv rules)
qed

lemma exportState_history:
  "gm_lookup (fst (exportState e)) k =
     map_option (map (\<lambda>s. \<lparr>ssTime = saTime s, ssValue = saValue s\<rparr>)) (gm_lookup (eHistory e) k)"
  by (simp add: exportState_def gm_lookup_map_snd)

lemma exportState_sorted:
  assumes "engine_inv e" "(k, samples) \<in> set (fst (exportState e))"
  shows "sorted_wrt (\<lambda>a b. ssTime a < ssTime b) samples \<and>
      (\<forall>s \<in> set samples. \<not> isNaN (ssValue s) \<and> \<not> isInf (ssValue s))"
proof -
  have "gm_inv (fst (exportState e))"
    using engine_invD(1) [OF assms(1)] by (simp add: exportState_def gm_inv_map_snd)
  then have "gm_lookup (fst (exportState e)) k = Some samples"
    using assms(2) by (simp add: gm_lookup_in)
  then obtain ss where "gm_lookup (eHistory e) k = Some ss"
    and "samples = map (\<lambda>s. \<lparr>ssTime = saTime s, ssValue = saValue s\<rparr>) ss"
    by (auto simp: exportState_history)
  then show ?thesis
    using engine_invD(4) [OF assms(1)] by (auto simp: series_inv_def sorted_wrt_map)
qed

text \<open>
  The engines a collector with a fixed rule list can reach: a fresh engine, one more
  evaluation, or a restart that reloads the exported state into a fresh engine.
\<close>

inductive engine_reach :: "rule list \<Rightarrow> engine \<Rightarrow> bool" for rules where
  start: "engine_reach rules (newEngine rules)"
| cycle: "engine_reach rules e \<Longrightarrow> engine_reach rules (fst (evaluate metrics now e))"
| restart: "engine_reach rules e \<Longrightarrow>
    engine_reach rules (restoreState (fst (exportState e)) (snd (exportState e)) now (newEngine rules))"

lemma newEngine_rules: "eRules (newEngine rules) = rules"
  by (simp add: newEngine_def Let_def)

lemma cleanup_static [frame_simps]: "engine_static (cleanupStaleHistory now d e) = engine_static e"
  unfolding cleanupStaleHistory_def Let_def by (rule fold_frame) (auto simp: engine_static_def)

lemma recordMetrics_static [frame_simps]: "engine_static (recordMetrics ms now c e) = engine_static e"
  unfolding recordMetrics_def by (rule fold_frame) (rule recordMetric_static)

lemma evaluate_static:
  "engine_static (fst (evaluate ms now e)) = engine_static (e\<lparr>eEvalCounter := eEvalCounter e + 1\<rparr>)"
proof -
  let ?e1 = "e\<lparr>eEvalCounter := eEvalCounter e + 1\<rparr>"
  have "engine_static (breakMissingRateContinuity ms ?e1) = engine_static ?e1"
    using breakMissing_frame [of ms ?e1] by (simp add: engine_frame_def)
  moreover have "engine_static (fst (evaluateRules idx now x)) = engine_static x" for idx x
    using evaluateRules_frame [of idx now x] by (simp add: engine_frame_def)
  ultimately show ?thesis
    by (simp add: evaluate_def Let_def frame_simps)
qed

lemma engine_reach_inv: "engine_reach rules e \<Longrightarrow> engine_inv e \<and> eRules e = rules"
proof (induction rule: engine_reach.induct)
  case start
  show ?case by (simp add: newEngine_inv newEngine_rules)
next
  case (cycle e metrics now)
  then show ?case
    using evaluate_inv [of e metrics now] evaluate_static [of metrics now e] by (simp add: engine_static_def)
next
  case (restart e now)
  then show ?case
    using restoreState_engine_inv [of "newEngine rules" "fst (exportState e)" "snd (exportState e)" now]
      exportState_sorted [of e] by (simp add: newEngine_rules newEngine_inv)
qed

section \<open>The \<open>for\<close> delay over a run\<close>

text \<open>Whether the valid samples of this evaluation violate the rule's threshold.\<close>

definition ruleViolated :: "nat \<Rightarrow> rule \<Rightarrow> (string, metric list) gomap \<Rightarrow> gotime \<Rightarrow> engine \<Rightarrow> bool" where
  "ruleViolated i r idx now e \<longleftrightarrow>
     (let st = scanSources i r idx now e in
      rsMatched st \<noteq> 0 \<and>
      (rMode r = ''instant'' \<and> instantFiring r (rsValid st) \<or>
       rMode r = ''rate'' \<and> fst (fold (rateStep i r now (rsEngine st)) (rsValid st) (False, familyCheck r st))))"

lemma concludeRule_pending:
  "ePending (fst (concludeRule r now f res e)) =
     (if \<not> f then gm_delete (rConditionType r) (ePending e)
      else if rFor r > 0 \<and> gm_lookup (ePending e) (rConditionType r) = None
      then gm_set (rConditionType r) now (ePending e) else ePending e)"
  by (auto simp: concludeRule_def Let_def deletePending_def split: option.splits)

lemma evaluateRule_pending_other:
  "c \<noteq> rConditionType r \<Longrightarrow>
     gm_lookup (ePending (fst (evaluateRule i r idx now e))) c = gm_lookup (ePending e) c"
  by (simp add: evaluateRule_def Let_def concludeRule_pending deletePending_def breakRate_pending_scan case_prod_beta)

lemma evaluateRule_pending_self:
  assumes "0 < rMinSamples r" "0 < rFor r"
  shows "gm_lookup (ePending (fst (evaluateRule i r idx now e))) (rConditionType r) =
    (if ruleViolated i r idx now e
     then Some (case gm_lookup (ePending e) (rConditionType r) of None \<Rightarrow> now | Some t \<Rightarrow> t) else None)"
  using assms
  by (auto simp: evaluateRule_def ruleViolated_def Let_def concludeRule_pending deletePending_def
      breakRate_pending_scan case_prod_beta split: option.splits)

lemma evaluateRule_firing_violated:
  assumes "resFiring (snd (evaluateRule i r idx now e))"
  shows "ruleViolated i r idx now e"
proof -
  let ?st = "scanSources i r idx now e"
  have f: "\<not> resFiring (familyCheck r ?st)" by (simp add: familyCheck_keeps scanSources_firing)
  have g: "\<not> resFiring (snd (fold (rateStep i r now (rsEngine ?st)) (rsValid ?st) (False, familyCheck r ?st)))"
    using f by (simp add: rateStep_fold)
  show ?thesis
    using assms f g
    by (auto simp: evaluateRule_def ruleViolated_def Let_def case_prod_beta concludeRule_result(1) split: if_splits)
qed

text \<open>The engine at the moment rule number \<open>i\<close> has its turn in an evaluation.\<close>

definition prepared :: "metric list \<Rightarrow> gotime \<Rightarrow> engine \<Rightarrow> engine" where
  "prepared ms now e =
     (let e2 = breakMissingRateContinuity ms (e\<lparr>eEvalCounter := eEvalCounter e + 1\<rparr>);
          e3 = recordMetrics ms now (eEvalCounter e2) e2
      in if eEvalCounter e3 mod 60 = 0 then cleanupStaleHistory now (1 * hour) e3 else e3)"

definition turn :: "metric list \<Rightarrow> gotime \<Rightarrow> engine \<Rightarrow> nat \<Rightarrow> engine" where
  "turn ms now e i =
     fst (fold (evaluateStep (indexMetrics ms) now) (take i (enumerate 0 (eRules e))) (prepared ms now e, []))"

definition violatedAt :: "nat \<Rightarrow> metric list \<Rightarrow> gotime \<Rightarrow> engine \<Rightarrow> bool" where
  "violatedAt i ms now e = ruleViolated i (eRules e ! i) (indexMetrics ms) now (turn ms now e i)"

lemma evaluate_prepared: "evaluate ms now e = evaluateRules (indexMetrics ms) now (prepared ms now e)"
  by (simp add: evaluate_def prepared_def Let_def)

lemma prepared_rules: "eRules (prepared ms now e) = eRules e"
proof -
  have "eRules (breakMissingRateContinuity ms x) = eRules x" for x
    using breakMissing_frame [of ms x] by (simp add: engine_frame_def engine_static_def)
  moreover have "eRules (recordMetrics ms now c x) = eRules x" for c x
    using recordMetrics_static [of ms now c x] by (simp add: engine_static_def)
  moreover have "eRules (cleanupStaleHistory now d x) = eRules x" for d x
    using cleanup_static [of now d x] by (simp add: engine_static_def)
  ultimately show ?thesis by (simp add: prepared_def Let_def)
qed

lemma prepared_pending: "ePending (prepared ms now e) = ePending e"
proof -
  have b: "ePending (breakMissingRateContinuity ms x) = ePending x" for x
    unfolding breakMissingRateContinuity_def Let_def
    by (rule fold_frame) (auto simp: breakUsingRules_def frame_simps intro!: fold_frame)
  have r: "ePending (recordMetrics ms now c x) = ePending x" for c x
    unfolding recordMetrics_def
    by (rule fold_frame) (simp add: recordMetric_def Let_def pruneHistory_def)
  have c: "ePending (cleanupStaleHistory now d x) = ePending x" for d x
    unfolding cleanupStaleHistory_def Let_def by (rule fold_frame) auto
  show ?thesis by (simp add: prepared_def Let_def b r c)
qed

lemma evaluateSteps_length:
  "length (snd (fold (evaluateStep idx now) irs acc)) = length (snd acc) + length irs"
  by (induction irs arbitrary: acc) (auto simp: evaluateStep_def Let_def)

lemma evaluateSteps_prefix:
  "n < length (snd acc) \<Longrightarrow> snd (fold (evaluateStep idx now) irs acc) ! n = snd acc ! n"
  by (induction irs arbitrary: acc) (auto simp: evaluateStep_def Let_def nth_append)

lemma evaluateSteps_pending_other:
  "\<forall>(i, r) \<in> set irs. rConditionType r \<noteq> c \<Longrightarrow>
     gm_lookup (ePending (fst (fold (evaluateStep idx now) irs acc))) c = gm_lookup (ePending (fst acc)) c"
  by (induction irs arbitrary: acc)
    (auto simp: evaluateStep_def Let_def evaluateRule_pending_other)

lemma enumerate_split:
  assumes "i < length rules"
  shows "enumerate 0 rules =
    take i (enumerate 0 rules) @ (i, rules ! i) # drop (Suc i) (enumerate 0 rules)"
  using id_take_nth_drop [of i "enumerate 0 rules"] assms by (simp add: nth_enumerate_eq)

lemma evaluate_nth:
  assumes "i < length (eRules e)"
  shows "snd (evaluate ms now e) ! i =
    snd (evaluateRule i (eRules e ! i) (indexMetrics ms) now (turn ms now e i))"
proof -
  let ?irs = "enumerate 0 (eRules e)"
  let ?acc = "fold (evaluateStep (indexMetrics ms) now) (take i ?irs) (prepared ms now e, [])"
  have len: "length (snd ?acc) = i" using assms by (simp add: evaluateSteps_length)
  have "snd (evaluate ms now e) = snd (fold (evaluateStep (indexMetrics ms) now) (drop (Suc i) ?irs)
      (evaluateStep (indexMetrics ms) now (i, eRules e ! i) ?acc))"
    by (simp add: evaluate_prepared evaluateRules_def prepared_rules)
      (subst enumerate_split [OF assms], simp)
  also have "\<dots> ! i = snd (evaluateStep (indexMetrics ms) now (i, eRules e ! i) ?acc) ! i"
    by (rule evaluateSteps_prefix) (simp add: evaluateStep_def Let_def len)
  also have "\<dots> = snd (evaluateRule i (eRules e ! i) (indexMetrics ms) now (turn ms now e i))"
    by (simp add: evaluateStep_def Let_def turn_def nth_append len)
  finally show ?thesis .
qed

text \<open>Rule \<open>i\<close> is the only rule for its condition.\<close>

definition soleOwner :: "rule list \<Rightarrow> nat \<Rightarrow> bool" where
  "soleOwner rules i \<longleftrightarrow>
     i < length rules \<and> (\<forall>j < length rules. rConditionType (rules ! j) = rConditionType (rules ! i) \<longrightarrow> j = i)"

lemma soleOwner_others:
  assumes "soleOwner rules i" "(j, r) \<in> set (take i (enumerate 0 rules)) \<union> set (drop (Suc i) (enumerate 0 rules))"
  shows "rConditionType r \<noteq> rConditionType (rules ! i)"
proof -
  consider "(j, r) \<in> set (take i (enumerate 0 rules))" | "(j, r) \<in> set (drop (Suc i) (enumerate 0 rules))"
    using assms(2) by blast
  then obtain n where "n < length rules" "n \<noteq> i" "(j, r) = enumerate 0 rules ! n"
  proof cases
    case 1
    then obtain m where "m < length (take i (enumerate 0 rules))" "take i (enumerate 0 rules) ! m = (j, r)"
      by (metis in_set_conv_nth)
    then show ?thesis using that [of m] by simp
  next
    case 2
    then obtain m where "m < length (drop (Suc i) (enumerate 0 rules))" "drop (Suc i) (enumerate 0 rules) ! m = (j, r)"
      by (metis in_set_conv_nth)
    then show ?thesis using that [of "Suc i + m"] by simp
  qed
  then show ?thesis using assms(1) by (auto simp: soleOwner_def nth_enumerate_eq)
qed

lemma turn_pending:
  assumes "soleOwner (eRules e) i"
  shows "gm_lookup (ePending (turn ms now e i)) (rConditionType (eRules e ! i)) =
    gm_lookup (ePending e) (rConditionType (eRules e ! i))"
  unfolding turn_def
  by (subst evaluateSteps_pending_other) (use soleOwner_others [OF assms] in \<open>auto simp: prepared_pending\<close>)

lemma evaluate_pending:
  assumes "soleOwner (eRules e) i" "0 < rMinSamples (eRules e ! i)" "0 < rFor (eRules e ! i)"
  shows "gm_lookup (ePending (fst (evaluate ms now e))) (rConditionType (eRules e ! i)) =
    (if violatedAt i ms now e
     then Some (case gm_lookup (ePending e) (rConditionType (eRules e ! i)) of None \<Rightarrow> now | Some t \<Rightarrow> t) else None)"
proof -
  let ?irs = "enumerate 0 (eRules e)"
  let ?acc = "fold (evaluateStep (indexMetrics ms) now) (take i ?irs) (prepared ms now e, [])"
  let ?acc' = "evaluateStep (indexMetrics ms) now (i, eRules e ! i) ?acc"
  have i: "i < length (eRules e)" using assms(1) by (simp add: soleOwner_def)
  have "fst (evaluate ms now e) = fst (fold (evaluateStep (indexMetrics ms) now) (drop (Suc i) ?irs) ?acc')"
    by (simp add: evaluate_prepared evaluateRules_def prepared_rules) (subst enumerate_split [OF i], simp)
  then have "gm_lookup (ePending (fst (evaluate ms now e))) (rConditionType (eRules e ! i)) =
      gm_lookup (ePending (fst ?acc')) (rConditionType (eRules e ! i))"
    by (simp add: evaluateSteps_pending_other) (use soleOwner_others [OF assms(1)] in \<open>auto intro!: evaluateSteps_pending_other\<close>)
  also have "fst ?acc' = fst (evaluateRule i (eRules e ! i) (indexMetrics ms) now (turn ms now e i))"
    by (simp add: evaluateStep_def Let_def turn_def)
  finally show ?thesis
    using assms(2,3) by (simp add: evaluateRule_pending_self violatedAt_def turn_pending [OF assms(1)])
qed

end
