(* ===== verification/Rules_Correct.thy ===== *)
theory Rules_Correct
  imports Rules_Engine_Props
begin

text \<open>
  What the alert-rule engine promises: its results per rule, when a rule fires, when it
  may claim to be healthy, what a restart may reuse, and the identity of a metric series.
\<close>

section \<open>When a rule is violated\<close>







lemma evaluate_types: "map resConditionType (snd (evaluate ms now e)) = map rConditionType (eRules e)"
proof (rule nth_equalityI)
  have len: "length (snd (evaluate ms now e)) = length (eRules e)"
    by (simp add: evaluate_prepared evaluateRules_def evaluateSteps_length prepared_rules)
  then show "length (map resConditionType (snd (evaluate ms now e))) = length (map rConditionType (eRules e))"
    by simp
  show "map resConditionType (snd (evaluate ms now e)) ! i = map rConditionType (eRules e) ! i"
    if "i < length (map resConditionType (snd (evaluate ms now e)))" for i
    using that len by (simp add: evaluate_nth evaluateRule_type)
qed

section \<open>Runs\<close>

definition runEngine :: "(metric list \<times> gotime) list \<Rightarrow> engine \<Rightarrow> engine" where
  "runEngine tr e = fold (\<lambda>p e. fst (evaluate (fst p) (snd p) e)) tr e"

lemma runEngine_snoc: "runEngine (tr @ [p]) e = fst (evaluate (fst p) (snd p) (runEngine tr e))"
  by (simp add: runEngine_def)

lemma runEngine_rules: "eRules (runEngine tr e) = eRules e"
  by (induction tr rule: rev_induct)
    (use evaluate_static in \<open>auto simp: runEngine_def engine_static_def\<close>)

lemma pending_since:
  assumes own: "soleOwner (eRules e) i" "0 < rMinSamples (eRules e ! i)" "0 < rFor (eRules e ! i)"
    and none: "gm_lookup (ePending e) (rConditionType (eRules e ! i)) = None"
    and some: "gm_lookup (ePending (runEngine tr e)) (rConditionType (eRules e ! i)) = Some t"
  shows "\<exists>k < length tr. snd (tr ! k) = t \<and>
    (\<forall>j. k \<le> j \<and> j < length tr \<longrightarrow> violatedAt i (fst (tr ! j)) (snd (tr ! j)) (runEngine (take j tr) e))"
  using some
proof (induction tr arbitrary: t rule: rev_induct)
  case Nil
  then show ?case using none by (simp add: runEngine_def)
next
  case (snoc p tr)
  let ?e = "runEngine tr e" and ?c = "rConditionType (eRules e ! i)"
  have "gm_lookup (ePending (fst (evaluate (fst p) (snd p) ?e))) ?c =
      (if violatedAt i (fst p) (snd p) ?e
       then Some (case gm_lookup (ePending ?e) ?c of None \<Rightarrow> snd p | Some t \<Rightarrow> t) else None)"
    using evaluate_pending [of ?e i] own by (simp add: runEngine_rules)
  then have v: "violatedAt i (fst p) (snd p) ?e"
    and t: "t = (case gm_lookup (ePending ?e) ?c of None \<Rightarrow> snd p | Some t \<Rightarrow> t)"
    using snoc.prems by (simp_all add: runEngine_snoc split: if_splits)
  show ?case
  proof (cases "gm_lookup (ePending ?e) ?c")
    case None
    then show ?thesis
      using t v by (intro exI [of _ "length tr"]) (auto simp: nth_append)
  next
    case (Some u)
    from snoc.IH [OF Some] obtain k where k: "k < length tr" "snd (tr ! k) = u"
      and all: "\<forall>j. k \<le> j \<and> j < length tr \<longrightarrow> violatedAt i (fst (tr ! j)) (snd (tr ! j)) (runEngine (take j tr) e)"
      by blast
    have "violatedAt i (fst ((tr @ [p]) ! j)) (snd ((tr @ [p]) ! j)) (runEngine (take j (tr @ [p])) e)"
      if "k \<le> j" "j < length (tr @ [p])" for j
      using that all v by (cases "j = length tr") (auto simp: nth_append)
    then show ?thesis
      using k t Some by (intro exI [of _ k]) (auto simp: nth_append)
  qed
qed

lemma restored_pending_none:
  assumes "i < length rules" "0 < rMinSamples (rules ! i)"
  shows "gm_lookup (ePending (restoreState history pending now (newEngine rules))) (rConditionType (rules ! i)) = None"
proof -
  let ?c = "rConditionType (rules ! i)"
  have s: "ePending (restoreSeries now ks x) = ePending x" for ks x
    using fold_breaks_lookup(2) by (simp add: restoreSeries_def Let_def split: prod.splits)
  have r: "eRules (restoreSeries now ks x) = eRules x" for ks x
    using engine_frameD(1) [OF fold_breaks_lookup(1)] by (simp add: restoreSeries_def Let_def split: prod.splits)
  have p: "gm_lookup (ePending (restorePending kv x)) ?c = gm_lookup (ePending x) ?c \<and> eRules (restorePending kv x) = rules"
    if "eRules x = rules" for kv x
    using that assms by (auto simp: restorePending_def Let_def list_ex_iff split: prod.splits)
  let ?e = "fold (restoreSeries now) history (newEngine rules)"
  have "eRules ?e = rules \<and> ePending ?e = []"
    by (rule fold_invariant [where Q = "\<lambda>_. True"]) (simp_all add: s r newEngine_def Let_def)
  moreover have "eRules (fold restorePending pending x) = rules \<and>
      gm_lookup (ePending (fold restorePending pending x)) ?c = gm_lookup (ePending x) ?c" if "eRules x = rules" for x
    by (rule fold_invariant [where Q = "\<lambda>_. True"]) (use that p in auto)
  ultimately show ?thesis by (simp add: restoreState_def)
qed

lemma restoreState_rules: "eRules (restoreState history pending now e) = eRules e"
proof -
  have r: "eRules (restoreSeries now ks x) = eRules x" for ks x
    using engine_frameD(1) [OF fold_breaks_lookup(1)] by (simp add: restoreSeries_def Let_def split: prod.splits)
  have p: "eRules (restorePending kv x) = eRules x" for kv x
    using restorePending_frame [of kv x] by (simp add: engine_frame_def engine_static_def)
  show ?thesis
    unfolding restoreState_def by (simp add: fold_frame [where g = eRules, OF p] fold_frame [where g = eRules, OF r])
qed

section \<open>The identity of a series\<close>

text \<open>Label sets and names in which the separators of \<open>metricKey\<close> do not occur.\<close>

definition cleanLabels :: "(string, string) gomap \<Rightarrow> bool" where
  "cleanLabels labels \<longleftrightarrow>
     gm_inv labels \<and>
     list_all (\<lambda>(k, v). CHR ''|'' \<notin> set k \<and> CHR ''='' \<notin> set k \<and> CHR ''|'' \<notin> set v) labels"

definition encodeLabels :: "(string \<times> string) list \<Rightarrow> string" where
  "encodeLabels ps = concat (map (\<lambda>(k, v). ''|'' @ k @ ''='' @ v) ps)"

lemma metricKey_encode:
  "metricKey name labels = name @ encodeLabels (map (\<lambda>k. (k, gm_get [] labels k)) (sort (gm_keys labels)))"
proof -
  have "fold (\<lambda>k key. key @ ''|'' @ k @ ''='' @ f k) ks acc = acc @ encodeLabels (map (\<lambda>k. (k, f k)) ks)"
    for f :: "string \<Rightarrow> string" and ks acc
    by (induction ks arbitrary: acc) (simp_all add: encodeLabels_def)
  then show ?thesis by (simp add: metricKey_def encodeLabels_def gm_keys_def)
qed

lemma split_at_unique:
  assumes "c \<notin> set a" "c \<notin> set b" "a @ x = b @ y" "x = [] \<or> hd x = c" "y = [] \<or> hd y = c"
  shows "a = b \<and> x = y"
  using assms
proof (induction a arbitrary: b)
  case Nil
  then show ?case by (cases b) auto
next
  case (Cons z a)
  then show ?case by (cases b) auto
qed

lemma encodeLabels_shape: "encodeLabels ps = [] \<or> hd (encodeLabels ps) = CHR ''|''"
  by (cases ps) (auto simp: encodeLabels_def)

lemma encodeLabels_inj:
  assumes "\<forall>(k, v) \<in> set ps. CHR ''|'' \<notin> set k \<and> CHR ''='' \<notin> set k \<and> CHR ''|'' \<notin> set v"
    and "\<forall>(k, v) \<in> set qs. CHR ''|'' \<notin> set k \<and> CHR ''='' \<notin> set k \<and> CHR ''|'' \<notin> set v"
    and "encodeLabels ps = encodeLabels qs"
  shows "ps = qs"
  using assms
proof (induction ps arbitrary: qs)
  case Nil
  then show ?case by (cases qs) (auto simp: encodeLabels_def)
next
  case (Cons p ps)
  obtain k v where p: "p = (k, v)" by force
  from Cons.prems(3) obtain k' v' qs' where q: "qs = (k', v') # qs'"
    by (cases qs) (auto simp: encodeLabels_def p)
  have "(k @ ''='' @ v) @ encodeLabels ps = (k' @ ''='' @ v') @ encodeLabels qs'"
    using Cons.prems(3) by (simp add: p q encodeLabels_def)
  then have "k @ ''='' @ v = k' @ ''='' @ v' \<and> encodeLabels ps = encodeLabels qs'"
    using Cons.prems(1,2) encodeLabels_shape
    by (intro split_at_unique [where c = "CHR ''|''"]) (auto simp: p q)
  moreover from this have "k = k' \<and> ''='' @ v = ''='' @ v'"
    using Cons.prems(1,2) by (intro split_at_unique [where c = "CHR ''=''"]) (auto simp: p q)
  ultimately show ?case
    using Cons.IH [of qs'] Cons.prems(1,2) by (simp add: p q)
qed

lemma labels_of_sorted:
  fixes labels :: "(string, string) gomap"
  assumes "gm_inv labels"
  shows "gm_lookup (map (\<lambda>k. (k, gm_get [] labels k)) (sort (gm_keys labels))) = gm_lookup labels"
proof
  fix k
  have "gm_lookup (map (\<lambda>k. (k, f k)) ks) k = (if k \<in> set ks then Some (f k) else None)"
    for f :: "string \<Rightarrow> string" and ks
    by (induction ks) auto
  then show "gm_lookup (map (\<lambda>k. (k, gm_get [] labels k)) (sort (gm_keys labels))) k = gm_lookup labels k"
    by (auto simp: gm_key_iff gm_get_def)
qed

lemma metricKey_injective:
  assumes n: "CHR ''|'' \<notin> set name" "CHR ''|'' \<notin> set name'"
    and l: "cleanLabels labels" "cleanLabels labels'"
    and eq: "metricKey name labels = metricKey name' labels'"
  shows "name = name' \<and> gm_lookup labels = gm_lookup labels'"
proof -
  let ?ps = "\<lambda>labels. map (\<lambda>k. (k, gm_get [] labels k)) (sort (gm_keys labels))"
  have clean: "\<forall>(k, v) \<in> set (?ps labels). CHR ''|'' \<notin> set k \<and> CHR ''='' \<notin> set k \<and> CHR ''|'' \<notin> set v"
    if c: "cleanLabels labels" for labels
  proof -
    have "(k, gm_get [] labels k) \<in> set labels" if "k \<in> set (gm_keys labels)" for k
      using that by (auto simp: gm_key_iff gm_get_def dest: gm_lookup_mem)
    with c show ?thesis by (fastforce simp: cleanLabels_def list_all_iff)
  qed
  have "name = name' \<and> encodeLabels (?ps labels) = encodeLabels (?ps labels')"
    using eq n encodeLabels_shape unfolding metricKey_encode
    by (intro split_at_unique [where c = "CHR ''|''"]) auto
  then have "name = name'" "?ps labels = ?ps labels'"
    using encodeLabels_inj clean l by auto
  moreover have "gm_inv labels" "gm_inv labels'" using l by (simp_all add: cleanLabels_def)
  ultimately show ?thesis using labels_of_sorted by metis
qed

section \<open>What a restart keeps\<close>

definition isCoverageCondition :: "rule list \<Rightarrow> string \<Rightarrow> bool" where
  "isCoverageCondition rules c \<longleftrightarrow> (\<exists>r \<in> set rules. rMinSamples r > 0 \<and> rConditionType r = c)"

definition keptSamples :: "engine \<Rightarrow> gotime \<Rightarrow> stateSample list \<Rightarrow> sample list" where
  "keptSamples e now samples =
     map (\<lambda>s. \<lparr>saTime = ssTime s, saValue = ssValue s, saCycle = eEvalCounter e\<rparr>)
       (filter (\<lambda>s. time_sub now (ssTime s) \<le> eRetention e) samples)"

lemma restoreSeries_history:
  "gm_lookup (eHistory (restoreSeries now (k, samples) e)) k' =
     (if k' = k \<and> metricNameFromKey k \<in> set (eHistoryMetricNames e) \<and> keptSamples e now samples \<noteq> []
      then Some (keptSamples e now samples) else gm_lookup (eHistory e) k')"
  using engine_frameD(5) [OF fold_breaks_lookup(1)]
  by (auto simp: restoreSeries_def Let_def keptSamples_def)

lemma restoreSeries_static: "engine_static (restoreSeries now ks e) = engine_static e"
proof -
  have "engine_static (fold (\<lambda>(i, r) e. if rMinSamples r > 0 \<and> ruleUsesMetricKey r k
      then breakRateContinuity i r k e else e) irs x) = engine_static x" for irs x k
    using fold_breaks_lookup(1) [of k irs x] by (simp add: engine_frame_def)
  then show ?thesis by (simp add: restoreSeries_def Let_def engine_static_def split: prod.splits)
qed

lemma keptSamples_static: "engine_static e = engine_static e' \<Longrightarrow> keptSamples e now ss = keptSamples e' now ss"
  by (simp add: keptSamples_def engine_static_def)

lemma restoreSeries_fold_history:
  assumes "distinct (map fst history)"
  shows "gm_lookup (eHistory (fold (restoreSeries now) history e)) k =
    (case map_of history k of
       None \<Rightarrow> gm_lookup (eHistory e) k
     | Some samples \<Rightarrow>
         if metricNameFromKey k \<in> set (eHistoryMetricNames e) \<and> keptSamples e now samples \<noteq> []
         then Some (keptSamples e now samples) else gm_lookup (eHistory e) k)"
  using assms
proof (induction history arbitrary: e)
  case (Cons ks history)
  obtain k' samples where ks: "ks = (k', samples)" by force
  let ?e = "restoreSeries now ks e"
  have st: "eHistoryMetricNames ?e = eHistoryMetricNames e" "keptSamples ?e now ss = keptSamples e now ss" for ss
    using restoreSeries_static [of now ks e] keptSamples_static [of ?e e]
    by (simp_all add: engine_static_def)
  have n: "map_of history k' = None" using Cons.prems by (simp add: ks map_of_eq_None_iff)
  have h: "gm_lookup (eHistory ?e) k =
      (if k = k' \<and> metricNameFromKey k' \<in> set (eHistoryMetricNames e) \<and> keptSamples e now samples \<noteq> []
       then Some (keptSamples e now samples) else gm_lookup (eHistory e) k)"
    unfolding ks by (rule restoreSeries_history)
  have "distinct (map fst history)" using Cons.prems by simp
  from Cons.IH [OF this, of ?e] show ?case
    using n unfolding st h by (cases "k = k'") (simp_all add: ks)
qed simp

lemma restorePending_fold:
  assumes "distinct (map fst pending)"
  shows "gm_lookup (ePending (fold restorePending pending e)) c =
    (case map_of pending c of
       Some t \<Rightarrow> if isCoverageCondition (eRules e) c then gm_lookup (ePending e) c else Some t
     | None \<Rightarrow> gm_lookup (ePending e) c)"
  using assms
proof (induction pending arbitrary: e)
  case (Cons kv pending)
  obtain k v where kv: "kv = (k, v)" by force
  have "eRules (restorePending kv e) = eRules e"
    using restorePending_frame [of kv e] by (simp add: engine_frame_def engine_static_def)
  moreover have "gm_lookup (ePending (restorePending kv e)) c =
      (if c = k \<and> \<not> isCoverageCondition (eRules e) k then Some v else gm_lookup (ePending e) c)"
    by (auto simp: kv restorePending_def Let_def isCoverageCondition_def list_ex_iff)
  moreover have "map_of pending k = None" using Cons.prems by (simp add: kv map_of_eq_None_iff)
  ultimately show ?case
    using Cons.IH [of "restorePending kv e"] Cons.prems by (auto simp: kv split: option.splits)
qed simp

lemma reach_static:
  "engine_reach rules e \<Longrightarrow>
     eRetention e = eRetention (newEngine rules) \<and> eHistoryMetricNames e = eHistoryMetricNames (newEngine rules)"
proof (induction rule: engine_reach.induct)
  case (cycle e metrics now)
  then show ?case using evaluate_static [of metrics now e] by (simp add: engine_static_def)
next
  case (restart e now)
  have p: "engine_static (restorePending kv x) = engine_static x" for kv x
    using restorePending_frame [of kv x] by (simp add: engine_frame_def)
  have "engine_static (restoreState h q now (newEngine rules)) = engine_static (newEngine rules)" for h q
    unfolding restoreState_def
    by (simp add: fold_frame [where g = engine_static, OF p] fold_frame [where g = engine_static, OF restoreSeries_static])
  then show ?case by (simp add: engine_static_def)
qed simp

lemma restart_lookup:
  fixes now :: gotime
  assumes "engine_reach rules e"
  defines "e' \<equiv> restoreState (fst (exportState e)) (snd (exportState e)) now (newEngine rules)"
  shows "gm_lookup (eHistory e') k =
      (case gm_lookup (eHistory e) k of
         None \<Rightarrow> None
       | Some ss \<Rightarrow>
           (let kept = filter (\<lambda>s. time_sub now (saTime s) \<le> eRetention e) ss in
            if metricNameFromKey k \<in> set (eHistoryMetricNames e) \<and> kept \<noteq> []
            then Some (map (\<lambda>s. s\<lparr>saCycle := 0\<rparr>) kept) else None))"
    and "gm_lookup (ePending e') c =
      (if isCoverageCondition rules c then None else gm_lookup (ePending e) c)"
proof -
  have inv: "engine_inv e" and rules: "eRules e = rules" using engine_reach_inv [OF assms(1)] by auto
  let ?h = "fst (exportState e)" and ?p = "snd (exportState e)" and ?n = "newEngine rules"
  have d: "distinct (map fst ?h)"
    using engine_invD(1) [OF inv] gm_inv_map_snd [of _ "eHistory e"] by (simp add: exportState_def gm_inv_def)
  have dp: "distinct (map fst ?p)"
    using engine_invD(3) [OF inv] by (simp add: exportState_def gm_inv_def)
  have hist: "eHistory e' = eHistory (fold (restoreSeries now) ?h ?n)"
    unfolding e'_def restoreState_def by (rule fold_frame) (use restorePending_frame engine_frameD(5) in blast)
  have st: "eRetention e = eRetention ?n" "eHistoryMetricNames e = eHistoryMetricNames ?n" "eHistory ?n = []"
    "ePending ?n = []" "eEvalCounter ?n = 0"
    using reach_static [OF assms(1)] by (simp_all add: newEngine_def Let_def)
  have kept: "keptSamples ?n now (map (\<lambda>s. \<lparr>ssTime = saTime s, ssValue = saValue s\<rparr>) ss) =
      map (\<lambda>s. s\<lparr>saCycle := 0\<rparr>) (filter (\<lambda>s. time_sub now (saTime s) \<le> eRetention e) ss)" for ss
    by (simp add: keptSamples_def st filter_map comp_def)
  show "gm_lookup (eHistory e') k = (case gm_lookup (eHistory e) k of None \<Rightarrow> None | Some ss \<Rightarrow>
      (let kept = filter (\<lambda>s. time_sub now (saTime s) \<le> eRetention e) ss in
       if metricNameFromKey k \<in> set (eHistoryMetricNames e) \<and> kept \<noteq> []
       then Some (map (\<lambda>s. s\<lparr>saCycle := 0\<rparr>) kept) else None))"
    unfolding hist restoreSeries_fold_history [OF d] gm_lookup_def [of ?h, symmetric] exportState_history
    by (simp add: kept st Let_def split: option.split)
  have rp: "ePending (restoreSeries now ks x) = ePending x" for ks x
    using fold_breaks_lookup(2) by (simp add: restoreSeries_def Let_def split: prod.splits)
  have "ePending (fold (restoreSeries now) ?h ?n) = []"
    by (simp add: fold_frame [where g = ePending, OF rp] st)
  moreover have "eRules (fold (restoreSeries now) ?h ?n) = rules"
  proof -
    have "engine_static (fold (restoreSeries now) ?h ?n) = engine_static ?n"
      by (rule fold_frame) (rule restoreSeries_static)
    then show ?thesis by (simp add: engine_static_def newEngine_rules)
  qed
  ultimately show "gm_lookup (ePending e') c =
      (if isCoverageCondition rules c then None else gm_lookup (ePending e) c)"
    unfolding e'_def restoreState_def restorePending_fold [OF dp]
    by (simp add: exportState_def gm_lookup_def split: option.splits)
qed

section \<open>Example inputs\<close>

text \<open>
  The rules and scrapes at which the properties below are instantiated: an instant rule
  with a delay, and a counter rule that requires two link counters.
\<close>

definition tempRule :: rule where
  "tempRule = \<lparr>rName = ''temp'', rMetricName = ''T'', rMetricNames = None, rLabels = [],
     rConditionType = ''Hot'', rMode = ''instant'', rThreshold = Fin 80, rWindow = 0, rFor = minute,
     rMinSamples = 1, rSampleLabel = [], rRequiredSampleValues = [], rMaxSampleAge = 0\<rparr>"

definition linkRule :: rule where
  "linkRule = \<lparr>rName = ''link'', rMetricName = ''L'', rMetricNames = None, rLabels = [],
     rConditionType = ''LinkDown'', rMode = ''rate'', rThreshold = Fin 0, rWindow = 5 * minute, rFor = 0,
     rMinSamples = 1, rSampleLabel = ''dev'', rRequiredSampleValues = [], rMaxSampleAge = 0\<rparr>"

definition hotMetric :: metric where
  "hotMetric = \<lparr>mName = ''T'', mLabels = [], mValue = Fin 90, mTimestamp = 0\<rparr>"

definition linkMetric :: "rat \<Rightarrow> metric" where
  "linkMetric v = \<lparr>mName = ''L'', mLabels = [(''dev'', ''a'')], mValue = Fin v, mTimestamp = 0\<rparr>"

definition linkEngine :: engine where
  "linkEngine = runEngine [([linkMetric 3], minute), ([linkMetric 5], 2 * minute)] (newEngine [linkRule])"

lemmas example_simps = tempRule_def linkRule_def hotMetric_def linkMetric_def linkEngine_def
  minute_def second_def

section \<open>Properties\<close>

text \<open>
  Every engine that a collector can reach by evaluations and restarts is well formed:
  its maps have distinct keys, every series is strictly increasing in time, holds finite
  values only and carries cycle numbers that do not exceed the current cycle.
\<close>

theorem engine_reachable_well_formed:
  assumes "engine_reach rules e"
  shows "engine_inv e"
  using engine_reach_inv [OF assms] by simp

theorem engine_reachable_well_formed_witness:
  "engine_inv (fst (evaluate [linkMetric 5] minute (newEngine [linkRule])))"
  by (rule engine_reachable_well_formed [OF engine_reach.cycle [OF engine_reach.start]])

text \<open>
  One evaluation returns exactly one result per configured rule, in the order of the
  rules and under the rule's condition type, whatever was scraped.
\<close>

theorem evaluate_one_result_per_rule:
  "map resConditionType (snd (evaluate ms now e)) = map rConditionType (eRules e)"
  by (rule evaluate_types)



text \<open>
  C11. The \<open>for\<close> delay is honoured over a whole run, for a rule that demands metric coverage, has a
  positive delay and is the only rule of its condition: when it fires, an earlier evaluation of
  the same process, at least the delay ago, already saw the violation, and so did every
  evaluation in between. A restart clears the delay of such a rule: time before it never counts.
  (The timers of rules without coverage survive a restart.)
\<close>

theorem evaluate_firing_sustained:
  assumes "soleOwner rules i" "0 < rMinSamples (rules ! i)" "0 < rFor (rules ! i)" "int64 (rFor (rules ! i))"
    and e: "e = restoreState history pending t (newEngine rules)"
    and firing: "resFiring (snd (evaluate ms now (runEngine tr e)) ! i)"
  shows "\<exists>k < length tr. rFor (rules ! i) \<le> now - snd (tr ! k) \<and>
    violatedAt i ms now (runEngine tr e) \<and>
    (\<forall>j. k \<le> j \<and> j < length tr \<longrightarrow> violatedAt i (fst (tr ! j)) (snd (tr ! j)) (runEngine (take j tr) e))"
proof -
  let ?e = "runEngine tr e"
  have rules: "eRules e = rules" "eRules ?e = rules"
    by (simp_all add: e runEngine_rules restoreState_rules newEngine_rules)
  have i: "i < length rules" using assms(1) by (simp add: soleOwner_def)
  have none: "gm_lookup (ePending e) (rConditionType (rules ! i)) = None"
    unfolding e by (rule restored_pending_none [OF i assms(2)])
  have f: "resFiring (snd (evaluateRule i (rules ! i) (indexMetrics ms) now (turn ms now ?e i)))"
    using firing evaluate_nth [of i ?e ms now] i rules by simp
  have v: "violatedAt i ms now ?e"
    using evaluateRule_firing_violated [OF f] by (simp add: violatedAt_def rules)
  obtain u where u: "gm_lookup (ePending (turn ms now ?e i)) (rConditionType (rules ! i)) = Some u"
    "\<not> time_sub now u < rFor (rules ! i)"
    by (rule evaluateRule_firing_for [OF f assms(3)])
  then have "gm_lookup (ePending ?e) (rConditionType (rules ! i)) = Some u"
    using turn_pending [of ?e i ms now] assms(1) rules by simp
  from pending_since [of e i tr u] this none assms(1-3) obtain k where "k < length tr" "snd (tr ! k) = u"
    "\<forall>j. k \<le> j \<and> j < length tr \<longrightarrow> violatedAt i (fst (tr ! j)) (snd (tr ! j)) (runEngine (take j tr) e)"
    by (auto simp: rules)
  moreover have "rFor (rules ! i) \<le> now - u"
    using u(2) time_sub_less [of "rFor (rules ! i)" now u] assms(3,4) by simp
  ultimately show ?thesis using v by blast
qed

lemma hot_fires:
  "resFiring (snd (evaluate [hotMetric] (3 * minute)
     (runEngine [([hotMetric], 2 * minute)] (restoreState [] [] 0 (newEngine [tempRule])))) ! 0)"
  unfolding example_simps by code_simp

theorem evaluate_firing_sustained_witness:
  "\<exists>k < 1. minute \<le> 3 * minute - snd ([([hotMetric], 2 * minute)] ! k)"
proof -
  let ?e = "restoreState [] [] 0 (newEngine [tempRule])"
  have "soleOwner [tempRule] 0" by (simp add: soleOwner_def)
  moreover have "0 < rMinSamples ([tempRule] ! 0)" "0 < rFor ([tempRule] ! 0)" "int64 (rFor ([tempRule] ! 0))"
    by (simp_all add: example_simps int64_def)
  ultimately have "\<exists>k < length [([hotMetric], 2 * minute)].
      rFor ([tempRule] ! 0) \<le> 3 * minute - snd ([([hotMetric], 2 * minute)] ! k)"
    using evaluate_firing_sustained [OF _ _ _ _ refl hot_fires] by blast
  then show ?thesis by (simp add: tempRule_def)
qed

text \<open>
  C7. A rule that demands metric coverage never reports healthy on missing data. When its
  result is neither firing nor Unknown, every metric source had at least \<open>minSamples\<close> valid
  samples or identities and no eligible sample was invalid or stale; the families of a
  multi-family rule share at least \<open>minSamples\<close> identities; and in rate mode every usable
  series had a known rate.
\<close>

theorem evaluate_no_false_healthy:
  fixes i ms now e
  defines "r \<equiv> eRules e ! i" and "idx \<equiv> indexMetrics ms" and "res \<equiv> snd (evaluate ms now e) ! i"
  assumes "i < length (eRules e)" "0 < rMinSamples r" "\<not> resFiring res" "\<not> resUnknown res"
  shows "(\<forall>name \<in> set (metricSources r). covered r now (matchMetrics idx name (rLabels r))) \<and>
    (length (metricNames r) > 1 \<and> rSampleLabel r \<noteq> [] \<longrightarrow>
      rMinSamples r \<le> int (card (\<Inter>name \<in> set (metricSources r).
        sourceIdentities r now (matchMetrics idx name (rLabels r))))) \<and>
    (rMode r = ''rate'' \<longrightarrow>
      (\<forall>name \<in> set (metricSources r). \<forall>m \<in> set (usable r now (matchMetrics idx name (rLabels r))).
         rateKnown i r now (rsEngine (scanSources i r idx now (turn ms now e i))) m))"
proof -
  have res: "res = snd (evaluateRule i r idx now (turn ms now e i))"
    unfolding res_def r_def idx_def by (rule evaluate_nth [OF assms(4)])
  note h = evaluateRule_not_healthy [OF assms(5) assms(6) [unfolded res] assms(7) [unfolded res]]
  show ?thesis using h by blast
qed

theorem evaluate_no_false_healthy_witness:
  "covered linkRule (3 * minute) (matchMetrics (indexMetrics [linkMetric 5]) ''L'' [])"
proof -
  have rules: "eRules linkEngine = [linkRule]" by (simp add: linkEngine_def runEngine_rules newEngine_rules)
  have f: "\<not> resFiring (snd (evaluate [linkMetric 5] (3 * minute)
      (runEngine [([linkMetric 5], 2 * minute)] (newEngine [linkRule]))) ! 0)"
    "\<not> resUnknown (snd (evaluate [linkMetric 5] (3 * minute)
      (runEngine [([linkMetric 5], 2 * minute)] (newEngine [linkRule]))) ! 0)"
    unfolding example_simps by code_simp+
  have "metricSources linkRule = [''L'']" "rLabels linkRule = []" "0 < rMinSamples linkRule"
    by (simp_all add: metricSources_def metricNames_def linkRule_def)
  then show ?thesis
    using evaluate_no_false_healthy [of 0 "runEngine [([linkMetric 5], 2 * minute)] (newEngine [linkRule])"
        "[linkMetric 5]" "3 * minute"] f
    by (simp add: runEngine_rules newEngine_rules)
qed

text \<open>
  C37. On every reachable engine the binary search of \<open>computeRate\<close> computes the specified
  rate: the difference between the last and the first sample inside the window (the last
  value after a counter reset), and it is unknown unless two samples lie in the window. For
  a coverage rule only the samples after the last break and the last gap count.
\<close>

theorem computeRate_is_window_increase:
  assumes "engine_reach rules e"
  shows "computeRate i key window now cov maxAge e =
    rateSpec (time_add now (dur_neg window))
      (if cov then continuousFrom i key maxAge (gm_get [] (eHistory e) key) e else gm_get [] (eHistory e) key)"
  using engine_reach_inv [OF assms] computeRate_rateSpec by blast

lemma linkEngine_reach: "engine_reach [linkRule] linkEngine"
  unfolding linkEngine_def runEngine_def by (auto intro: engine_reach.intros)

theorem computeRate_is_window_increase_witness:
  "rateSpec (- 2 * minute) (gm_get [] (eHistory linkEngine) ''L|dev=a'') = (Fin 2, True)"
proof -
  have "computeRate 0 ''L|dev=a'' (5 * minute) (3 * minute) False 0 linkEngine = (Fin 2, True)"
    unfolding example_simps by code_simp
  moreover have "time_add (3 * minute) (dur_neg (5 * minute)) = - 2 * minute"
    by (simp add: time_add_def dur_neg_def wrap64_def minute_def second_def)
  ultimately show ?thesis
    using computeRate_is_window_increase [OF linkEngine_reach, of 0 "''L|dev=a''" "5 * minute" "3 * minute" False 0]
    by simp
qed

text \<open>
  The rate of a counter whose recorded values are non-negative is never negative, also
  across counter resets, so a reset cannot hide behind a negative increase.
\<close>

theorem computeRate_nonneg:
  assumes "engine_reach rules e"
    and "\<forall>s \<in> set (gm_get [] (eHistory e) key). \<not> f_less (saValue s) (Fin 0)"
  shows "\<not> f_less (fst (computeRate i key window now cov maxAge e)) (Fin 0)"
proof -
  let ?ss = "if cov then continuousFrom i key maxAge (gm_get [] (eHistory e) key) e else gm_get [] (eHistory e) key"
  let ?w = "filter (\<lambda>s. time_add now (dur_neg window) \<le> saTime s) ?ss"
  have "set ?ss \<subseteq> set (gm_get [] (eHistory e) key)"
    by (auto simp: continuousFrom_def Let_def dest: in_set_dropD)
  then have "\<not> f_less (saValue (last ?w)) (Fin 0)" if "2 \<le> length ?w"
    using that assms(2) last_in_set [of ?w] by fastforce
  then show ?thesis
    unfolding computeRate_rateSpec [OF conjunct1 [OF engine_reach_inv [OF assms(1)]]] rateSpec_def Let_def
    by (auto simp: not_less)
qed

theorem computeRate_nonneg_witness:
  "\<not> f_less (fst (computeRate 0 ''L|dev=a'' (5 * minute) (3 * minute) True minute linkEngine)) (Fin 0)"
proof (rule computeRate_nonneg [OF linkEngine_reach])
  show "\<forall>s \<in> set (gm_get [] (eHistory linkEngine) ''L|dev=a''). \<not> f_less (saValue s) (Fin 0)"
    unfolding example_simps by code_simp
qed

text \<open>
  After a restart no restored sample counts as a baseline for a coverage rule in rate
  mode: until new samples arrive, the rate of every series of such a rule is unknown,
  whatever the state file holds.
\<close>

theorem restored_baseline_unknown:
  assumes "i < length rules" "0 < rMinSamples (rules ! i)" "rMode (rules ! i) = ''rate''"
    "ruleUsesMetricKey (rules ! i) key"
  shows "computeRate i key window now True maxAge (restoreState history pending t (newEngine rules)) = (Fin 0, False)"
proof -
  let ?e = "restoreState history pending t (newEngine rules)"
  have "restored_inv (newEngine rules)" by (simp add: restored_inv_def newEngine_def Let_def)
  then have "restored_inv ?e" by (rule restoreState_restored_inv)
  then have "continuousFrom i key maxAge (gm_get [] (eHistory ?e) key) ?e = []"
    using assms by (intro restored_no_continuity) (simp_all add: restoreState_rules newEngine_rules)
  then show ?thesis by (simp add: computeRate_def windowRate_def Let_def)
qed

theorem restored_baseline_unknown_witness:
  "computeRate 0 ''L|dev=a'' (5 * minute) (3 * minute) True minute
     (restoreState [(''L|dev=a'', [\<lparr>ssTime = minute, ssValue = Fin 3\<rparr>, \<lparr>ssTime = 2 * minute, ssValue = Fin 5\<rparr>])] []
        (3 * minute) (newEngine [linkRule])) = (Fin 0, False)"
  by (rule restored_baseline_unknown) (simp_all add: linkRule_def ruleUsesMetricKey_def metricSources_def
      metricNames_def hasPrefix_def)

text \<open>
  C39. Saving and reloading the engine loses nothing it may keep: a restarted engine holds,
  for every series of a counter metric, exactly the saved samples younger than the
  retention, and exactly the pending timers of conditions without a coverage rule.
\<close>

theorem export_restore_roundtrip:
  assumes "engine_reach rules e"
  shows "gm_lookup (eHistory (restoreState (fst (exportState e)) (snd (exportState e)) now (newEngine rules))) k =
      (case gm_lookup (eHistory e) k of
         None \<Rightarrow> None
       | Some ss \<Rightarrow>
           (let kept = filter (\<lambda>s. time_sub now (saTime s) \<le> eRetention e) ss in
            if metricNameFromKey k \<in> set (eHistoryMetricNames e) \<and> kept \<noteq> []
            then Some (map (\<lambda>s. s\<lparr>saCycle := 0\<rparr>) kept) else None)) \<and>
    gm_lookup (ePending (restoreState (fst (exportState e)) (snd (exportState e)) now (newEngine rules))) c =
      (if isCoverageCondition rules c then None else gm_lookup (ePending e) c)"
  using restart_lookup [OF assms] by blast

theorem export_restore_roundtrip_witness:
  "gm_lookup (eHistory (restoreState (fst (exportState linkEngine)) (snd (exportState linkEngine)) (3 * minute)
     (newEngine [linkRule]))) ''L|dev=a'' =
   Some [\<lparr>saTime = minute, saValue = Fin 3, saCycle = 0\<rparr>, \<lparr>saTime = 2 * minute, saValue = Fin 5, saCycle = 0\<rparr>]"
proof -
  have "(case gm_lookup (eHistory linkEngine) ''L|dev=a'' of
         None \<Rightarrow> None
       | Some ss \<Rightarrow>
           (let kept = filter (\<lambda>s. time_sub (3 * minute) (saTime s) \<le> eRetention linkEngine) ss in
            if metricNameFromKey ''L|dev=a'' \<in> set (eHistoryMetricNames linkEngine) \<and> kept \<noteq> []
            then Some (map (\<lambda>s. s\<lparr>saCycle := 0\<rparr>) kept) else None)) =
     Some [\<lparr>saTime = minute, saValue = Fin 3, saCycle = 0\<rparr>, \<lparr>saTime = 2 * minute, saValue = Fin 5, saCycle = 0\<rparr>]"
    unfolding example_simps by code_simp
  then show ?thesis
    using export_restore_roundtrip [OF linkEngine_reach, of "3 * minute" "''L|dev=a''" "''x''"] by simp
qed

text \<open>
  Distinct series have distinct history keys, as long as metric names, label names and
  label values are free of the separators: equal keys come from equal names and equal
  label maps, in whatever order the labels were parsed.
\<close>

theorem metricKey_separates_series:
  assumes "CHR ''|'' \<notin> set name" "CHR ''|'' \<notin> set name'" "cleanLabels labels" "cleanLabels labels'"
    and "metricKey name labels = metricKey name' labels'"
  shows "name = name' \<and> gm_lookup labels = gm_lookup labels'"
  by (rule metricKey_injective [OF assms])

theorem metricKey_separates_series_witness:
  "gm_lookup [(''a'', ''1''), (''b'', ''2'')] = gm_lookup [(''b'', ''2''), (''a'', ''1'')]"
  using metricKey_separates_series [of "''m''" "''m''" "[(''a'', ''1''), (''b'', ''2'')]" "[(''b'', ''2''), (''a'', ''1'')]"]
  by (simp add: cleanLabels_def gm_inv_def metricKey_def gm_get_def)

text \<open>
  A label value that contains the separator makes two different series share one
  history key.
\<close>

theorem metricKey_collision:
  "metricKey ''m'' [(''a'', ''1|b=2'')] = metricKey ''m'' [(''a'', ''1''), (''b'', ''2'')] \<and>
   gm_lookup [(''a'', ''1|b=2'')] \<noteq> gm_lookup [(''a'', ''1''), (''b'', ''2'')]"
proof
  show "metricKey ''m'' [(''a'', ''1|b=2'')] = metricKey ''m'' [(''a'', ''1''), (''b'', ''2'')]"
    by (simp add: metricKey_def gm_get_def)
  have "gm_lookup [(''a'', ''1|b=2'')] ''b'' \<noteq> gm_lookup [(''a'', ''1''), (''b'', ''2'')] ''b''" by simp
  then show "gm_lookup [(''a'', ''1|b=2'')] \<noteq> gm_lookup [(''a'', ''1''), (''b'', ''2'')]" by metis
qed

end
