(* ===== verification/Availability.thy ===== *)
theory Availability
  imports Rules_Engine
begin

text \<open>
  The availability tracker of the GPU metrics collector
  (\<open>monitoring/gpu-metrics-collector/internal/availability/availability.go\<close>): per scrape
  target, the instants since which it has been failing or healthy, whether its condition
  fires, and whether anything has been established yet. A pointer in \<open>t.states\<close> is the map
  entry itself, since every \<open>*targetState\<close> is reached through one key only.
\<close>

section \<open>Data and operations\<close>

record targetState =
  tsFailingSince :: gotime
  tsHealthySince :: gotime
  tsFiring :: bool
  tsEstablished :: bool

record tracker =
  trStates :: "(string, targetState) gomap"
  trReserved :: "string goset"
  trOrphans :: "string list"

text \<open>\<open>state.Availability\<close>, the persisted form.\<close>

record savedAvailability =
  saFailingSince :: gotime
  saHealthySince :: gotime
  saFiring :: bool
  saEstablished :: bool

definition zeroTargetState :: targetState where
  "zeroTargetState = \<lparr>tsFailingSince = 0, tsHealthySince = 0, tsFiring = False, tsEstablished = False\<rparr>"

definition newTracker :: "scrapeTarget list \<Rightarrow> string list \<Rightarrow> tracker" where
  "newTracker targets ruleConditions =
     \<lparr>trStates = fold (\<lambda>t m. if tAvailabilityCondition t = [] then m
                             else gm_set (tAvailabilityCondition t) zeroTargetState m) targets [],
      trReserved = fold (\<lambda>c s. if c \<noteq> [] then gs_add c s else s) ruleConditions [],
      trOrphans = []\<rparr>"

definition tracked :: "tracker \<Rightarrow> nat" where
  "tracked t = length (trStates t)"

text \<open>\<open>Duration.Round(time.Second)\<close> for a non-negative duration: half up, saturating.\<close>

definition roundDuration :: "duration \<Rightarrow> duration" where
  "roundDuration d =
     (if d < 0 then 0
      else let r = d mod second in
           if r + r < second then d - r
           else if d + second - r < 2 ^ 63 then d + second - r else 2 ^ 63 - 1)"

text \<open>The first half of \<open>evaluateTarget\<close>: the new state of the target.\<close>

definition advanceTarget :: "targetState \<Rightarrow> targetStatus \<Rightarrow> gotime \<Rightarrow> targetState" where
  "advanceTarget st status now =
     (if sOK status
      then let since = (if isZero (tsHealthySince st) then now else tsHealthySince st);
               st1 = st\<lparr>tsFailingSince := 0, tsHealthySince := since\<rparr>
           in if time_sub now since \<ge> availableWindow (sTarget status)
              then st1\<lparr>tsFiring := False, tsEstablished := True\<rparr> else st1
      else let since = (if isZero (tsFailingSince st) then now else tsFailingSince st);
               st1 = st\<lparr>tsHealthySince := 0, tsFailingSince := since\<rparr>
           in if time_sub now since \<ge> unavailableWindow (sTarget status)
              then st1\<lparr>tsFiring := True, tsEstablished := True\<rparr> else st1)"

text \<open>The second half: the published result, if anything is established.\<close>

definition targetMessage :: "targetState \<Rightarrow> targetStatus \<Rightarrow> gotime \<Rightarrow> message" where
  "targetMessage st status now =
     (let target = sTarget status;
          healthyFor = roundDuration (time_sub now (tsHealthySince st));
          failingFor = roundDuration (time_sub now (tsFailingSince st))
      in if sOK status \<and> tsFiring st
         then TargetClearing (tName target) (sSafeURL status) healthyFor (availableWindow target)
         else if sOK status then TargetReachable (tName target) (sSafeURL status)
         else if tsFiring st then TargetUnavailable (tName target) (sSafeURL status) failingFor (sErr status)
         else TargetFailing (tName target) (sSafeURL status) failingFor (unavailableWindow target) (sErr status))"

definition evaluateTarget :: "targetState \<Rightarrow> targetStatus \<Rightarrow> gotime \<Rightarrow> targetState \<times> result option" where
  "evaluateTarget st status now =
     (let st' = advanceTarget st status now;
          cond = tAvailabilityCondition (sTarget status)
      in (st', if \<not> tsEstablished st' then None
               else Some \<lparr>resConditionType = cond, resFiring = tsFiring st', resUnknown = False,
                          resReason = (if tsFiring st' then cond else cond @ ''Ok''),
                          resMessage = targetMessage st' status now\<rparr>))"

definition orphanResult :: "string \<Rightarrow> result" where
  "orphanResult cond =
     \<lparr>resConditionType = cond, resFiring = False, resUnknown = False, resReason = cond @ ''Ok'',
      resMessage = TrackingRemoved\<rparr>"

definition trackStatus :: "gotime \<Rightarrow> targetStatus \<Rightarrow> tracker \<times> result list \<Rightarrow> tracker \<times> result list" where
  "trackStatus now status acc =
     (let t = fst acc;
          cond = tAvailabilityCondition (sTarget status)
      in if cond = [] then acc
         else let p = evaluateTarget (gm_get zeroTargetState (trStates t) cond) status now
              in (t\<lparr>trStates := gm_set cond (fst p) (trStates t)\<rparr>,
                  snd acc @ (case snd p of None \<Rightarrow> [] | Some r \<Rightarrow> [r])))"

definition trackerEvaluate :: "targetStatus list \<Rightarrow> gotime \<Rightarrow> tracker \<Rightarrow> tracker \<times> result list" where
  "trackerEvaluate statuses now t =
     (let p = fold (trackStatus now) statuses (t, [])
      in ((fst p)\<lparr>trOrphans := []\<rparr>, snd p @ map orphanResult (trOrphans (fst p))))"

definition saveTarget :: "targetState \<Rightarrow> savedAvailability" where
  "saveTarget st = \<lparr>saFailingSince = tsFailingSince st, saHealthySince = tsHealthySince st,
                    saFiring = tsFiring st, saEstablished = tsEstablished st\<rparr>"

definition trackerExportState :: "tracker \<Rightarrow> (string, savedAvailability) gomap" where
  "trackerExportState t = map (\<lambda>(cond, st). (cond, saveTarget st)) (trStates t)"

definition shift :: "gotime \<Rightarrow> duration \<Rightarrow> gotime" where
  "shift t gap = (if isZero t then t else time_add t gap)"

definition restoreTarget :: "savedAvailability \<Rightarrow> duration \<Rightarrow> targetState" where
  "restoreTarget s gap =
     \<lparr>tsFailingSince = shift (saFailingSince s) gap, tsHealthySince = shift (saHealthySince s) gap,
      tsFiring = saFiring s, tsEstablished = saEstablished s\<rparr>"

definition restoreEntry :: "duration \<Rightarrow> string \<times> savedAvailability \<Rightarrow> tracker \<Rightarrow> tracker" where
  "restoreEntry gap entry t =
     (let (cond, s) = entry in
      case gm_lookup (trStates t) cond of
        None \<Rightarrow> if cond \<notin> set (trReserved t) then t\<lparr>trOrphans := trOrphans t @ [cond]\<rparr> else t
      | Some st \<Rightarrow> t\<lparr>trStates := gm_set cond (restoreTarget s gap) (trStates t)\<rparr>)"

definition restoreGap :: "gotime \<Rightarrow> gotime \<Rightarrow> duration" where
  "restoreGap savedAt now =
     (let gap = time_sub now savedAt in if gap < 0 \<or> isZero savedAt then 0 else gap)"

definition trackerRestoreState ::
  "(string, savedAvailability) gomap \<Rightarrow> gotime \<Rightarrow> gotime \<Rightarrow> tracker \<Rightarrow> tracker" where
  "trackerRestoreState saved savedAt now t =
     (let t' = fold (restoreEntry (restoreGap savedAt now)) saved t
      in t'\<lparr>trOrphans := sort (trOrphans t')\<rparr>)"

section \<open>The invariant of a target's state\<close>

definition targetState_inv :: "targetState \<Rightarrow> bool" where
  "targetState_inv st \<longleftrightarrow>
     (tsFailingSince st = 0 \<or> tsHealthySince st = 0) \<and> (tsFiring st \<longrightarrow> tsEstablished st)"

definition tracker_inv :: "tracker \<Rightarrow> bool" where
  "tracker_inv t \<longleftrightarrow>
     gm_inv (trStates t) \<and> (\<forall>c st. gm_lookup (trStates t) c = Some st \<longrightarrow> targetState_inv st)"

lemma zeroTargetState_inv: "targetState_inv zeroTargetState"
  by (simp add: targetState_inv_def zeroTargetState_def)

lemma advanceTarget_inv: "targetState_inv st \<Longrightarrow> targetState_inv (advanceTarget st status now)"
  by (auto simp: targetState_inv_def advanceTarget_def Let_def)

lemma trackStatus_inv: "tracker_inv (fst acc) \<Longrightarrow> tracker_inv (fst (trackStatus now status acc))"
proof -
  assume inv: "tracker_inv (fst acc)"
  have "targetState_inv (gm_get zeroTargetState (trStates (fst acc)) c)" for c
    using inv zeroTargetState_inv by (auto simp: tracker_inv_def gm_get_def split: option.split)
  then show ?thesis
    using inv by (auto simp: trackStatus_def tracker_inv_def Let_def evaluateTarget_def advanceTarget_inv)
qed

lemma trackStatuses_inv:
  "tracker_inv (fst acc) \<Longrightarrow> tracker_inv (fst (fold (trackStatus now) statuses acc))"
  by (induction statuses arbitrary: acc) (simp_all add: trackStatus_inv)

lemma trackerEvaluate_inv: "tracker_inv t \<Longrightarrow> tracker_inv (fst (trackerEvaluate statuses now t))"
  using trackStatuses_inv [of "(t, [])" now statuses]
  by (simp add: trackerEvaluate_def Let_def tracker_inv_def)

lemma newTracker_inv: "tracker_inv (newTracker targets conds)"
proof -
  let ?f = "\<lambda>t m. if tAvailabilityCondition t = [] then m
                  else gm_set (tAvailabilityCondition t) zeroTargetState m"
  have "gm_inv (fold ?f targets m) \<and>
      (\<forall>c st. gm_lookup (fold ?f targets m) c = Some st \<longrightarrow> gm_lookup m c = Some st \<or> st = zeroTargetState)"
    if "gm_inv m" for m
    using that
  proof (induction targets arbitrary: m)
    case (Cons a targets)
    have "gm_inv (?f a m)" using Cons.prems by simp
    from Cons.IH [OF this] show ?case by (auto split: if_splits)
  qed simp
  from this [of "[]"] show ?thesis
    using zeroTargetState_inv by (auto simp: newTracker_def tracker_inv_def)
qed

section \<open>Hysteresis over a sequence of scrapes\<close>

text \<open>
  The specification reads the observations of one target newest first. \<open>since\<close> is the
  instant at which the current streak (of successes or of failures) began; an observation
  settles the condition when its streak has lasted for the window of its kind; the verdict
  is the one of the newest observation that settled it.
\<close>

type_synonym observation = "targetStatus \<times> gotime"

fun since :: "observation list \<Rightarrow> gotime" where
  "since [] = 0"
| "since [p] = snd p"
| "since (p # q # ps) = (if sOK (fst p) = sOK (fst q) then since (q # ps) else snd p)"

definition windowOf :: "targetStatus \<Rightarrow> duration" where
  "windowOf status =
     (if sOK status then availableWindow (sTarget status) else unavailableWindow (sTarget status))"

fun verdict :: "observation list \<Rightarrow> bool option" where
  "verdict [] = None"
| "verdict (p # ps) =
     (if windowOf (fst p) \<le> snd p - since (p # ps) then Some (\<not> sOK (fst p)) else verdict ps)"

definition runTarget :: "observation list \<Rightarrow> targetState" where
  "runTarget tr = fold (\<lambda>p st. advanceTarget st (fst p) (snd p)) tr zeroTargetState"

definition timed :: "observation list \<Rightarrow> bool" where
  "timed tr = list_all (\<lambda>p. 0 < snd p \<and> int64 (availableWindow (sTarget (fst p))) \<and>
                            int64 (unavailableWindow (sTarget (fst p)))) tr"

lemma since_pos: "list_all (\<lambda>p. 0 < snd p) ps \<Longrightarrow> ps \<noteq> [] \<Longrightarrow> 0 < since ps"
  by (induction ps rule: since.induct) auto

lemma windowOf_pos: "0 < windowOf status"
  by (simp add: windowOf_def availableWindow_pos unavailableWindow_pos)

lemma runTarget_spec:
  assumes "timed tr"
  shows "(tr \<noteq> [] \<longrightarrow>
      tsHealthySince (runTarget tr) = (if sOK (fst (last tr)) then since (rev tr) else 0) \<and>
      tsFailingSince (runTarget tr) = (if sOK (fst (last tr)) then 0 else since (rev tr))) \<and>
    tsEstablished (runTarget tr) = (verdict (rev tr) \<noteq> None) \<and>
    tsFiring (runTarget tr) = (verdict (rev tr) = Some True)"
  using assms
proof (induction tr rule: rev_induct)
  case Nil
  show ?case by (simp add: runTarget_def zeroTargetState_def)
next
  case (snoc p tr)
  let ?st = "runTarget tr"
  have IH: "(tr \<noteq> [] \<longrightarrow>
      tsHealthySince ?st = (if sOK (fst (last tr)) then since (rev tr) else 0) \<and>
      tsFailingSince ?st = (if sOK (fst (last tr)) then 0 else since (rev tr)))"
    "tsEstablished ?st = (verdict (rev tr) \<noteq> None)" "tsFiring ?st = (verdict (rev tr) = Some True)"
    using snoc by (auto simp: timed_def)
  have step: "runTarget (tr @ [p]) = advanceTarget ?st (fst p) (snd p)" by (simp add: runTarget_def)
  have pos: "0 < snd p" and w: "int64 (windowOf (fst p))"
    using snoc.prems by (auto simp: timed_def windowOf_def)
  have s: "since (p # rev tr) = (if tr \<noteq> [] \<and> sOK (fst (last tr)) = sOK (fst p) then since (rev tr) else snd p)"
    by (cases tr rule: rev_cases) auto
  have sp: "0 < since (rev tr)" if "tr \<noteq> []"
    using that snoc.prems by (intro since_pos) (auto simp: timed_def list_all_iff)
  have zero: "tr = [] \<Longrightarrow> tsHealthySince ?st = 0 \<and> tsFailingSince ?st = 0"
    by (simp add: runTarget_def zeroTargetState_def)
  have h: "(if isZero (tsHealthySince ?st) then snd p else tsHealthySince ?st) = since (p # rev tr)" if "sOK (fst p)"
    using that IH(1) sp zero unfolding s by (cases "tr = []") (auto simp: isZero_def)
  have f: "(if isZero (tsFailingSince ?st) then snd p else tsFailingSince ?st) = since (p # rev tr)" if "\<not> sOK (fst p)"
    using that IH(1) sp zero unfolding s by (cases "tr = []") (auto simp: isZero_def)
  have cmp: "windowOf (fst p) \<le> time_sub (snd p) u \<longleftrightarrow> windowOf (fst p) \<le> snd p - u" for u
    using time_sub_ge [OF w] windowOf_pos [of "fst p"] by simp
  show ?case
  proof (cases "sOK (fst p)")
    case True
    then have "advanceTarget ?st (fst p) (snd p) =
      (let st1 = ?st\<lparr>tsFailingSince := 0, tsHealthySince := since (p # rev tr)\<rparr> in
       if windowOf (fst p) \<le> snd p - since (p # rev tr) then st1\<lparr>tsFiring := False, tsEstablished := True\<rparr> else st1)"
      using cmp [of "since (p # rev tr)"] by (simp add: advanceTarget_def Let_def h [OF True] windowOf_def)
    then show ?thesis using True IH(2,3) by (auto simp: step Let_def)
  next
    case False
    then have "advanceTarget ?st (fst p) (snd p) =
      (let st1 = ?st\<lparr>tsHealthySince := 0, tsFailingSince := since (p # rev tr)\<rparr> in
       if windowOf (fst p) \<le> snd p - since (p # rev tr) then st1\<lparr>tsFiring := True, tsEstablished := True\<rparr> else st1)"
      using cmp [of "since (p # rev tr)"] by (simp add: advanceTarget_def Let_def f [OF False] windowOf_def)
    then show ?thesis using False IH(2,3) by (auto simp: step Let_def)
  qed
qed

text \<open>
  What a verdict means: an observation of that kind closed a streak of at least its window,
  and no later observation settled the opposite.
\<close>

lemma since_streak:
  assumes "ps \<noteq> []"
  shows "\<exists>k < length ps. snd (ps ! k) = since ps \<and> (\<forall>j \<le> k. sOK (fst (ps ! j)) = sOK (fst (hd ps)))"
  using assms
proof (induction ps rule: since.induct)
  case (3 p q ps)
  show ?case
  proof (cases "sOK (fst p) = sOK (fst q)")
    case True
    with 3 obtain k where "k < length (q # ps)" "snd ((q # ps) ! k) = since (q # ps)"
      "\<forall>j \<le> k. sOK (fst ((q # ps) ! j)) = sOK (fst q)" by auto
    then show ?thesis
      using True by (intro exI [of _ "Suc k"]) (auto simp: nth_Cons split: nat.split)
  qed (auto intro: exI [of _ 0])
qed auto

lemma verdict_streak:
  assumes "verdict ps = Some b"
  shows "\<exists>i k. i \<le> k \<and> k < length ps \<and> windowOf (fst (ps ! i)) \<le> snd (ps ! i) - snd (ps ! k) \<and>
    (\<forall>j. i \<le> j \<and> j \<le> k \<longrightarrow> sOK (fst (ps ! j)) = (\<not> b))"
  using assms
proof (induction ps)
  case (Cons p ps)
  show ?case
  proof (cases "windowOf (fst p) \<le> snd p - since (p # ps)")
    case True
    then have b: "sOK (fst p) = (\<not> b)" using Cons.prems by auto
    obtain k where k: "k < length (p # ps)" "snd ((p # ps) ! k) = since (p # ps)"
      "\<forall>j \<le> k. sOK (fst ((p # ps) ! j)) = sOK (fst (hd (p # ps)))"
      using since_streak [of "p # ps"] by auto
    then show ?thesis using True b by (intro exI [of _ 0] exI [of _ k]) auto
  next
    case False
    then have "verdict ps = Some b" using Cons.prems by simp
    then obtain i k where ik: "i \<le> k" "k < length ps" "windowOf (fst (ps ! i)) \<le> snd (ps ! i) - snd (ps ! k)"
      "\<forall>j. i \<le> j \<and> j \<le> k \<longrightarrow> sOK (fst (ps ! j)) = (\<not> b)" using Cons.IH by blast
    have "sOK (fst ((p # ps) ! j)) = (\<not> b)" if "Suc i \<le> j" "j \<le> Suc k" for j
      using that ik(4) by (cases j) auto
    then show ?thesis using ik(1-3) by (intro exI [of _ "Suc i"] exI [of _ "Suc k"]) auto
  qed
qed simp

section \<open>From one target to the tracker\<close>

definition conditionOf :: "targetStatus \<Rightarrow> string" where
  "conditionOf status = tAvailabilityCondition (sTarget status)"

definition stateOf :: "tracker \<Rightarrow> string \<Rightarrow> targetState" where
  "stateOf t c = gm_get zeroTargetState (trStates t) c"

lemma trackStatus_other:
  assumes "conditionOf status \<noteq> c"
  shows "stateOf (fst (trackStatus now status acc)) c = stateOf (fst acc) c"
    and "filter (\<lambda>r. resConditionType r = c) (snd (trackStatus now status acc)) =
      filter (\<lambda>r. resConditionType r = c) (snd acc)"
  using assms
  by (auto simp: trackStatus_def stateOf_def conditionOf_def Let_def evaluateTarget_def split: option.splits if_splits)

lemma trackStatuses_other:
  assumes "\<forall>status \<in> set statuses. conditionOf status \<noteq> c"
  shows "stateOf (fst (fold (trackStatus now) statuses acc)) c = stateOf (fst acc) c"
    and "filter (\<lambda>r. resConditionType r = c) (snd (fold (trackStatus now) statuses acc)) =
      filter (\<lambda>r. resConditionType r = c) (snd acc)"
  using assms by (induction statuses arbitrary: acc) (simp_all add: trackStatus_other)

lemma trackStatus_orphans: "trOrphans (fst (trackStatus now status acc)) = trOrphans (fst acc)"
  by (simp add: trackStatus_def Let_def)

lemma trackStatuses_orphans: "trOrphans (fst (fold (trackStatus now) statuses acc)) = trOrphans (fst acc)"
  by (induction statuses arbitrary: acc) (simp_all add: trackStatus_orphans)

lemma filter_single_split:
  assumes "filter P xs = [x]"
  obtains ys zs where "xs = ys @ x # zs" "\<forall>y \<in> set ys. \<not> P y" "\<forall>z \<in> set zs. \<not> P z" "P x"
proof -
  from assms obtain ys zs where "xs = ys @ x # zs" "\<forall>y \<in> set ys. \<not> P y" "P x" "filter P zs = []"
    unfolding filter_eq_Cons_iff by metis
  then show thesis using that by (simp add: filter_empty_conv)
qed

text \<open>
  When exactly one scraped status belongs to the condition, the tracker's verdict on it is
  that of \<open>evaluateTarget\<close>, independent of the order in which the scrapes finished.
\<close>

lemma trackerEvaluate_single:
  assumes c: "c \<noteq> []" and one: "filter (\<lambda>s. conditionOf s = c) statuses = [status]" and "c \<notin> set (trOrphans t)"
  shows "stateOf (fst (trackerEvaluate statuses now t)) c = fst (evaluateTarget (stateOf t c) status now)"
    and "filter (\<lambda>r. resConditionType r = c) (snd (trackerEvaluate statuses now t)) =
      (case snd (evaluateTarget (stateOf t c) status now) of None \<Rightarrow> [] | Some r \<Rightarrow> [r])"
proof -
  obtain ys zs where split: "statuses = ys @ status # zs" "\<forall>y \<in> set ys. conditionOf y \<noteq> c"
    "\<forall>z \<in> set zs. conditionOf z \<noteq> c" "conditionOf status = c"
    using filter_single_split [OF one] by metis
  let ?a = "fold (trackStatus now) ys (t, [])"
  let ?b = "trackStatus now status ?a"
  have a: "stateOf (fst ?a) c = stateOf t c" "filter (\<lambda>r. resConditionType r = c) (snd ?a) = []"
    using trackStatuses_other [OF split(2), of now "(t, [])"] by simp_all
  have b: "stateOf (fst ?b) c = fst (evaluateTarget (stateOf t c) status now)"
    "filter (\<lambda>r. resConditionType r = c) (snd ?b) =
      (case snd (evaluateTarget (stateOf t c) status now) of None \<Rightarrow> [] | Some r \<Rightarrow> [r])"
    using a split(4) c
    by (auto simp: trackStatus_def conditionOf_def stateOf_def Let_def evaluateTarget_def split: option.splits if_splits)
  have o: "filter (\<lambda>r. resConditionType r = c) (map orphanResult (trOrphans t)) = []"
    using assms(3) by (auto simp: filter_empty_conv orphanResult_def)
  have f: "fold (trackStatus now) statuses (t, []) = fold (trackStatus now) zs ?b" by (simp add: split(1))
  note z = trackStatuses_other [OF split(3), of now ?b]
  show "stateOf (fst (trackerEvaluate statuses now t)) c = fst (evaluateTarget (stateOf t c) status now)"
    using z(1) b(1) by (simp add: trackerEvaluate_def Let_def f stateOf_def)
  show "filter (\<lambda>r. resConditionType r = c) (snd (trackerEvaluate statuses now t)) =
      (case snd (evaluateTarget (stateOf t c) status now) of None \<Rightarrow> [] | Some r \<Rightarrow> [r])"
    using z(2) b(2) o by (simp add: trackerEvaluate_def Let_def f trackStatuses_orphans trackStatus_orphans)
qed

definition runTracker :: "(targetStatus list \<times> gotime) list \<Rightarrow> tracker \<Rightarrow> tracker" where
  "runTracker tr t = fold (\<lambda>p t. fst (trackerEvaluate (fst p) (snd p) t)) tr t"

text \<open>The observations of one condition in a run, where each cycle has exactly one.\<close>

definition observes :: "string \<Rightarrow> (targetStatus list \<times> gotime) list \<Rightarrow> observation list \<Rightarrow> bool" where
  "observes c tr obs \<longleftrightarrow>
     list_all2 (\<lambda>p o'. filter (\<lambda>s. conditionOf s = c) (fst p) = [fst o'] \<and> snd p = snd o') tr obs"

lemma newTracker_state: "stateOf (newTracker targets conds) c = zeroTargetState"
proof -
  let ?f = "\<lambda>t m. if tAvailabilityCondition t = [] then m
                  else gm_set (tAvailabilityCondition t) zeroTargetState m"
  have "gm_get zeroTargetState (fold ?f targets m) c = zeroTargetState"
    if "gm_get zeroTargetState m c = zeroTargetState" for m
    using that by (induction targets arbitrary: m) auto
  then show ?thesis by (simp add: stateOf_def newTracker_def)
qed

lemma runTracker_orphans: "trOrphans t = [] \<Longrightarrow> trOrphans (runTracker tr t) = []"
  by (induction tr arbitrary: t) (simp_all add: runTracker_def trackerEvaluate_def Let_def)

lemma runTracker_state:
  assumes "c \<noteq> []" "observes c tr obs"
  shows "stateOf (runTracker tr (newTracker targets conds)) c = runTarget obs"
proof -
  show ?thesis
    using assms(2)
  proof (induction tr arbitrary: obs rule: rev_induct)
    case Nil
    then show ?case by (simp add: runTracker_def runTarget_def newTracker_state observes_def)
  next
    case (snoc p tr)
    then obtain obs' o' where obs: "obs = obs' @ [o']"
      by (cases obs rule: rev_cases) (auto simp: observes_def)
    have o: "observes c tr obs'" "filter (\<lambda>s. conditionOf s = c) (fst p) = [fst o']" "snd p = snd o'"
      using snoc.prems by (auto simp: obs observes_def list_all2_append2 list_all2_append1)
    let ?t = "runTracker tr (newTracker targets conds)"
    have IH: "stateOf ?t c = runTarget obs'" by (rule snoc.IH [OF o(1)])
    have "c \<notin> set (trOrphans ?t)" by (simp add: runTracker_orphans newTracker_def)
    from trackerEvaluate_single(1) [OF assms(1) o(2) this, of "snd p"]
    have "stateOf (fst (trackerEvaluate (fst p) (snd p) ?t)) c = advanceTarget (runTarget obs') (fst o') (snd o')"
      by (simp add: IH o(3) evaluateTarget_def Let_def)
    then show ?case by (simp add: runTracker_def runTarget_def obs)
  qed
qed

text \<open>The verdict a run publishes for a condition with one scrape target.\<close>

lemma tracker_verdict:
  assumes "c \<noteq> []" "observes c (tr @ [(statuses, now)]) obs" "timed obs"
  shows "map resFiring (filter (\<lambda>r. resConditionType r = c)
      (snd (trackerEvaluate statuses now (runTracker tr (newTracker targets conds))))) =
    (case verdict (rev obs) of None \<Rightarrow> [] | Some b \<Rightarrow> [b])"
proof -
  obtain obs' status where obs: "obs = obs' @ [(status, now)]" "observes c tr obs'"
    and one: "filter (\<lambda>s. conditionOf s = c) statuses = [status]"
    using assms(2) by (cases obs rule: rev_cases) (auto simp: observes_def list_all2_append2 list_all2_append1)
  let ?t = "runTracker tr (newTracker targets conds)"
  have st: "stateOf ?t c = runTarget obs'" by (rule runTracker_state [OF assms(1) obs(2)])
  have next_st: "advanceTarget (runTarget obs') status now = runTarget obs" by (simp add: obs runTarget_def)
  have "c \<notin> set (trOrphans ?t)" by (simp add: runTracker_orphans newTracker_def)
  from trackerEvaluate_single(2) [OF assms(1) one this, of now] show ?thesis
    using runTarget_spec [OF assms(3)]
    by (auto simp: st evaluateTarget_def Let_def next_st split: option.split)
qed

section \<open>Restarts\<close>

definition shiftState :: "duration \<Rightarrow> targetState \<Rightarrow> targetState" where
  "shiftState gap st =
     st\<lparr>tsFailingSince := shift (tsFailingSince st) gap, tsHealthySince := shift (tsHealthySince st) gap\<rparr>"

lemma restoreTarget_saveTarget: "restoreTarget (saveTarget st) gap = shiftState gap st"
  by (simp add: restoreTarget_def saveTarget_def shiftState_def)

lemma time_sub_shift: "time_sub (t + g) (u + g) = time_sub t u"
  by (simp add: time_sub_def)

text \<open>Moving every instant by the same gap changes neither the verdict nor the message.\<close>

lemma advanceTarget_shift:
  assumes "0 \<le> gap" "0 < now" "0 \<le> tsFailingSince st" "0 \<le> tsHealthySince st"
  shows "advanceTarget (shiftState gap st) status (now + gap) = shiftState gap (advanceTarget st status now)"
proof -
  define orNow where "orNow = (\<lambda>t n. if isZero t then n else t :: gotime)"
  have s: "orNow (shift t gap) (now + gap) = orNow t now + gap"
    and nz: "shift (orNow t now) gap = orNow t now + gap" if "0 \<le> t" for t
    using that assms(1,2) by (simp_all add: shift_def isZero_def time_add_def orNow_def)
  have z: "shift 0 gap = 0" by (simp add: shift_def isZero_def)
  have adv: "advanceTarget st status now =
     (if sOK status
      then let st1 = st\<lparr>tsFailingSince := 0, tsHealthySince := orNow (tsHealthySince st) now\<rparr>
           in if time_sub now (orNow (tsHealthySince st) now) \<ge> availableWindow (sTarget status)
              then st1\<lparr>tsFiring := False, tsEstablished := True\<rparr> else st1
      else let st1 = st\<lparr>tsHealthySince := 0, tsFailingSince := orNow (tsFailingSince st) now\<rparr>
           in if time_sub now (orNow (tsFailingSince st) now) \<ge> unavailableWindow (sTarget status)
              then st1\<lparr>tsFiring := True, tsEstablished := True\<rparr> else st1)" for st now
    by (simp add: advanceTarget_def orNow_def Let_def)
  show ?thesis
    unfolding adv by (simp add: shiftState_def Let_def s nz z assms(3,4) time_sub_shift)
qed

lemma evaluateTarget_shift:
  assumes "0 \<le> gap" "0 < now" "0 \<le> tsFailingSince st" "0 \<le> tsHealthySince st"
  shows "evaluateTarget (shiftState gap st) status (now + gap) =
    (shiftState gap (fst (evaluateTarget st status now)), snd (evaluateTarget st status now))"
proof -
  let ?st = "advanceTarget st status now"
  have "targetMessage (shiftState gap ?st) status (now + gap) = targetMessage ?st status now"
  proof (cases "sOK status")
    case True
    then have "tsHealthySince ?st \<noteq> 0" using assms(2) by (auto simp: advanceTarget_def Let_def isZero_def)
    then show ?thesis
      using True by (simp add: targetMessage_def shiftState_def shift_def isZero_def time_add_def time_sub_shift Let_def)
  next
    case False
    then have "tsFailingSince ?st \<noteq> 0" using assms(2) by (auto simp: advanceTarget_def Let_def isZero_def)
    then show ?thesis
      using False by (simp add: targetMessage_def shiftState_def shift_def isZero_def time_add_def time_sub_shift Let_def)
  qed
  moreover have "tsEstablished (shiftState gap x) = tsEstablished x" "tsFiring (shiftState gap x) = tsFiring x" for x
    by (simp_all add: shiftState_def)
  ultimately show ?thesis
    by (simp add: evaluateTarget_def Let_def advanceTarget_shift [OF assms])
qed

lemma restoreEntries:
  assumes "distinct (map fst saved)"
  shows "gm_lookup (trStates (fold (restoreEntry gap) saved t)) c =
      (case gm_lookup (trStates t) c of
         None \<Rightarrow> None
       | Some st \<Rightarrow> Some (case map_of saved c of None \<Rightarrow> st | Some s \<Rightarrow> restoreTarget s gap))"
    and "trOrphans (fold (restoreEntry gap) saved t) =
      trOrphans t @ filter (\<lambda>c. gm_lookup (trStates t) c = None \<and> c \<notin> set (trReserved t)) (map fst saved)"
proof -
  have dom: "(gm_lookup (trStates (restoreEntry gap e t)) c = None) = (gm_lookup (trStates t) c = None)"
    and res: "trReserved (restoreEntry gap e t) = trReserved t" for e t c
    by (auto simp: restoreEntry_def split: prod.splits option.splits)
  show "trOrphans (fold (restoreEntry gap) saved t) =
      trOrphans t @ filter (\<lambda>c. gm_lookup (trStates t) c = None \<and> c \<notin> set (trReserved t)) (map fst saved)"
  proof (induction saved arbitrary: t)
    case (Cons e saved)
    show ?case
      by (simp add: Cons.IH dom res) (auto simp: restoreEntry_def split: prod.splits option.splits)
  qed simp
  show "gm_lookup (trStates (fold (restoreEntry gap) saved t)) c =
      (case gm_lookup (trStates t) c of
         None \<Rightarrow> None
       | Some st \<Rightarrow> Some (case map_of saved c of None \<Rightarrow> st | Some s \<Rightarrow> restoreTarget s gap))"
    using assms
  proof (induction saved arbitrary: t)
    case Nil
    show ?case by (simp split: option.split)
  next
    case (Cons e saved)
    obtain k s where e: "e = (k, s)" by force
    have "map_of saved k = None" using Cons.prems by (simp add: e map_of_eq_None_iff)
    then show ?case
      using Cons by (auto simp: e restoreEntry_def split: option.splits)
  qed
qed

lemma trackerExport_lookup: "map_of (trackerExportState t) c = map_option saveTarget (gm_lookup (trStates t) c)"
  using gm_lookup_map_snd [of saveTarget "trStates t" c] by (simp add: trackerExportState_def gm_lookup_def)

lemma trackerExport_distinct: "tracker_inv t \<Longrightarrow> distinct (map fst (trackerExportState t))"
  using gm_inv_map_snd [of saveTarget "trStates t"]
  by (simp add: trackerExportState_def tracker_inv_def gm_inv_def)

lemma restart_state:
  assumes "tracker_inv t" "gm_lookup (trStates t) c = Some st" "gm_lookup (trStates fresh) c \<noteq> None"
  shows "stateOf (trackerRestoreState (trackerExportState t) savedAt now fresh) c =
    shiftState (restoreGap savedAt now) st"
  using assms
  by (auto simp: trackerRestoreState_def stateOf_def gm_get_def Let_def trackerExport_lookup
      restoreEntries(1) [OF trackerExport_distinct [OF assms(1)]] restoreTarget_saveTarget)

lemma restoreGap_exact: "savedAt \<noteq> 0 \<Longrightarrow> savedAt \<le> now \<Longrightarrow> int64 (now - savedAt) \<Longrightarrow> restoreGap savedAt now = now - savedAt"
  by (simp add: restoreGap_def Let_def time_sub_exact isZero_def)

section \<open>The life of a tracker\<close>

text \<open>
  The trackers a collector can have for a condition, with the observations they stand for: a fresh
  tracker has seen nothing; a cycle adds the one status the condition's target had; a restart builds a
  tracker for the new configuration, which still tracks the condition, and restores what any earlier
  tracker had saved, so that the time between the save and the restart is not counted: the earlier
  observations move by that gap (a clock that went back moves nothing).
\<close>

definition moveBy :: "duration \<Rightarrow> observation list \<Rightarrow> observation list" where
  "moveBy gap = map (\<lambda>p. (fst p, snd p + gap))"

inductive tracker_life :: "string \<Rightarrow> tracker \<Rightarrow> observation list \<Rightarrow> bool" for c where
  start: "tracker_life c (newTracker targets conds) []"
| cycle: "tracker_life c t obs \<Longrightarrow> filter (\<lambda>s. conditionOf s = c) statuses = [status] \<Longrightarrow> timed [(status, now)] \<Longrightarrow>
    tracker_life c (fst (trackerEvaluate statuses now t)) (obs @ [(status, now)])"
| restart: "tracker_life c t obs \<Longrightarrow> c \<in> tAvailabilityCondition ` set targets \<Longrightarrow> 0 < savedAt \<Longrightarrow> int64 (now - savedAt) \<Longrightarrow>
    tracker_life c (trackerRestoreState (trackerExportState t) savedAt now (newTracker targets conds)) (moveBy (max 0 (now - savedAt)) obs)"

lemma restoreGap_max: "0 < savedAt \<Longrightarrow> int64 (now - savedAt) \<Longrightarrow> restoreGap savedAt now = max 0 (now - savedAt)"
  by (simp add: restoreGap_def Let_def time_sub_exact isZero_def)

lemma runTarget_nonneg:
  assumes "timed obs"
  shows "0 \<le> tsFailingSince (runTarget obs)" "0 \<le> tsHealthySince (runTarget obs)"
proof -
  have "0 \<le> since (rev obs)" using assms since_pos [of "rev obs"] by (cases "obs = []") (auto simp: timed_def list_all_iff)
  then show "0 \<le> tsFailingSince (runTarget obs)" "0 \<le> tsHealthySince (runTarget obs)"
    using runTarget_spec [OF assms] by (cases "obs = []"; simp add: runTarget_def zeroTargetState_def)+
qed

lemma runTarget_moveBy:
  assumes "0 \<le> gap" "timed obs"
  shows "runTarget (moveBy gap obs) = shiftState gap (runTarget obs)"
  using assms(2)
proof (induction obs rule: rev_induct)
  case Nil
  show ?case by (simp add: moveBy_def runTarget_def shiftState_def zeroTargetState_def shift_def isZero_def)
next
  case (snoc p obs)
  then have "timed obs" "0 < snd p" by (simp_all add: timed_def)
  then show ?case
    using snoc.IH advanceTarget_shift [OF assms(1) \<open>0 < snd p\<close> runTarget_nonneg [OF \<open>timed obs\<close>], of "fst p"]
    by (simp add: moveBy_def runTarget_def)
qed

lemma newTracker_tracks: "c \<noteq> [] \<Longrightarrow> gm_lookup (trStates (newTracker targets conds)) c \<noteq> None \<longleftrightarrow> c \<in> tAvailabilityCondition ` set targets"
proof -
  assume c: "c \<noteq> []"
  let ?f = "\<lambda>t m. if tAvailabilityCondition t = [] then m
                  else gm_set (tAvailabilityCondition t) zeroTargetState m"
  have "gm_lookup (fold ?f targets m) c \<noteq> None \<longleftrightarrow> c \<in> tAvailabilityCondition ` set targets \<or> gm_lookup m c \<noteq> None" for m
    using c by (induction targets arbitrary: m) auto
  then show ?thesis by (simp add: newTracker_def)
qed

lemma restore_inv:
  assumes "tracker_inv t"
  shows "tracker_inv (trackerRestoreState (trackerExportState t) savedAt now (newTracker targets conds))"
proof -
  have inv: "gm_inv (trStates (fold (restoreEntry gap) saved x))" if "gm_inv (trStates x)" for gap saved x
    using that by (induction saved arbitrary: x) (auto simp: restoreEntry_def Let_def split: prod.splits option.splits)
  have shifted: "targetState_inv st \<Longrightarrow> targetState_inv (shiftState gap st)" for gap st
    by (auto simp: targetState_inv_def shiftState_def shift_def isZero_def)
  have "targetState_inv st" if "gm_lookup (trStates (trackerRestoreState (trackerExportState t) savedAt now (newTracker targets conds))) c = Some st" for c st
    using that assms newTracker_inv [of targets conds] shifted
    by (auto simp: trackerRestoreState_def Let_def trackerExport_lookup restoreEntries(1) [OF trackerExport_distinct [OF assms]]
        restoreTarget_saveTarget tracker_inv_def split: option.splits)
  then show ?thesis
    using inv newTracker_inv [of targets conds] by (simp add: tracker_inv_def trackerRestoreState_def Let_def)
qed

lemma tracker_life_inv:
  assumes "tracker_life c t obs" "c \<noteq> []"
  shows "stateOf t c = runTarget obs \<and> tracker_inv t \<and> c \<notin> set (trOrphans t) \<and> timed obs"
  using assms(1)
proof (induction rule: tracker_life.induct)
  case (start targets conds)
  show ?case by (simp add: newTracker_state newTracker_inv runTarget_def timed_def) (simp add: newTracker_def)
next
  case (cycle t obs statuses status now)
  then have "stateOf (fst (trackerEvaluate statuses now t)) c = runTarget (obs @ [(status, now)])"
    using trackerEvaluate_single(1) [OF assms(2) cycle(2), of t now] by (simp add: evaluateTarget_def Let_def runTarget_def)
  then show ?case
    using cycle by (simp add: trackerEvaluate_inv timed_def) (simp add: trackerEvaluate_def Let_def)
next
  case (restart t obs targets savedAt now conds)
  let ?fresh = "newTracker targets conds"
  let ?t = "trackerRestoreState (trackerExportState t) savedAt now ?fresh" and ?gap = "max 0 (now - savedAt)"
  have tracks: "gm_lookup (trStates ?fresh) c \<noteq> None" using newTracker_tracks [OF assms(2)] restart(2) by blast
  have "stateOf ?t c = shiftState ?gap (stateOf t c)"
  proof (cases "gm_lookup (trStates t) c")
    case None
    have "stateOf ?t c = stateOf ?fresh c"
      using None restart.IH by (simp add: stateOf_def gm_get_def trackerRestoreState_def Let_def trackerExport_lookup
          restoreEntries(1) [OF trackerExport_distinct] split: option.split)
    moreover have "stateOf t c = zeroTargetState" using None by (simp add: stateOf_def gm_get_def)
    ultimately show ?thesis by (simp add: newTracker_state shiftState_def shift_def isZero_def zeroTargetState_def)
  next
    case (Some st)
    then show ?thesis using restart_state [OF _ Some tracks, of savedAt now] restart.IH restoreGap_max [OF restart(3,4)]
      by (simp add: stateOf_def gm_get_def)
  qed
  moreover have "c \<notin> set (trOrphans ?t)"
    using tracks restart.IH by (simp add: trackerRestoreState_def Let_def restoreEntries(2) [OF trackerExport_distinct] newTracker_def)
  moreover have "timed (moveBy ?gap obs)" using restart.IH by (auto simp: moveBy_def timed_def list_all_iff)
  ultimately show ?case using restart.IH runTarget_moveBy [of ?gap obs] by (simp add: restore_inv)
qed

section \<open>Example inputs\<close>

definition dcgmTarget :: scrapeTarget where
  "dcgmTarget = \<lparr>tName = ''dcgm'', tURL = ''http://h/m'', tRequired = True, tAvailabilityCondition = ''DcgmDown'',
     tUnavailableFor = 0, tAvailableFor = 0\<rparr>"

definition dcgmStatus :: "bool \<Rightarrow> targetStatus" where
  "dcgmStatus up = \<lparr>sTarget = dcgmTarget, sOK = up, sSafeURL = ''http://h/m'', sErr = []\<rparr>"

lemmas target_example_simps = dcgmTarget_def dcgmStatus_def minute_def second_def

section \<open>Properties\<close>

text \<open>
  C19. For a condition with exactly one scrape target in every cycle, the tracker publishes the
  hysteresis verdict and nothing else about that condition, over every life of the collector:
  nothing until a streak of failures or successes has lasted for its window, and afterwards the
  verdict of the latest streak that did, whatever the order in which the concurrent scrapes of a
  cycle finished. Restarts are part of a life: what was observed before one still counts, with the
  time between the save and the restart taken out.
\<close>

theorem tracker_publishes_verdict:
  assumes "c \<noteq> []" "tracker_life c t obs" "filter (\<lambda>s. conditionOf s = c) statuses = [status]" "timed [(status, now)]"
  shows "map resFiring (filter (\<lambda>r. resConditionType r = c) (snd (trackerEvaluate statuses now t))) =
    (case verdict (rev (obs @ [(status, now)])) of None \<Rightarrow> [] | Some b \<Rightarrow> [b])"
proof -
  have t: "stateOf t c = runTarget obs" "c \<notin> set (trOrphans t)" "timed (obs @ [(status, now)])"
    using tracker_life_inv [OF assms(2,1)] assms(4) by (simp_all add: timed_def)
  have "advanceTarget (runTarget obs) status now = runTarget (obs @ [(status, now)])" by (simp add: runTarget_def)
  then show ?thesis
    using trackerEvaluate_single(2) [OF assms(1,3) t(2), of now] runTarget_spec [OF t(3)]
    by (auto simp: t(1) evaluateTarget_def Let_def split: option.split)
qed

theorem tracker_publishes_verdict_witness:
  "let before = fst (trackerEvaluate [dcgmStatus False] minute (newTracker [dcgmTarget] []));
       restored = trackerRestoreState (trackerExportState before) (2 * minute) (9 * minute) (newTracker [dcgmTarget] [])
   in map resFiring (filter (\<lambda>r. resConditionType r = ''DcgmDown'') (snd (trackerEvaluate [dcgmStatus False] (9 * minute) restored))) = [] \<and>
      map resFiring (filter (\<lambda>r. resConditionType r = ''DcgmDown'') (snd (trackerEvaluate [dcgmStatus False] (10 * minute) restored))) = [True]"
proof -
  let ?before = "fst (trackerEvaluate [dcgmStatus False] minute (newTracker [dcgmTarget] []))"
  let ?restored = "trackerRestoreState (trackerExportState ?before) (2 * minute) (9 * minute) (newTracker [dcgmTarget] [])"
  have one: "filter (\<lambda>s. conditionOf s = ''DcgmDown'') [dcgmStatus False] = [dcgmStatus False]"
    by (simp add: conditionOf_def target_example_simps)
  have timed: "timed [(dcgmStatus False, now)] \<longleftrightarrow> 0 < now" for now
    by (simp add: timed_def int64_def availableWindow_def unavailableWindow_def defaultAvailableFor_def defaultUnavailableFor_def target_example_simps)
  have "tracker_life ''DcgmDown'' ?before ([] @ [(dcgmStatus False, minute)])"
    by (rule tracker_life.cycle [OF tracker_life.start one]) (simp add: timed minute_def second_def)
  from tracker_life.restart [OF this, of "[dcgmTarget]" "2 * minute" "9 * minute" "[]"]
  have life: "tracker_life ''DcgmDown'' ?restored [(dcgmStatus False, 8 * minute)]"
    by (simp add: moveBy_def int64_def target_example_simps)
  have v: "verdict (rev ([(dcgmStatus False, 8 * minute)] @ [(dcgmStatus False, 9 * minute)])) = None"
    "verdict (rev ([(dcgmStatus False, 8 * minute)] @ [(dcgmStatus False, 10 * minute)])) = Some True"
    by (simp_all add: windowOf_def unavailableWindow_def defaultUnavailableFor_def target_example_simps)
  have pos: "timed [(dcgmStatus False, 9 * minute)]" "timed [(dcgmStatus False, 10 * minute)]" unfolding timed by (simp_all add: minute_def second_def)
  show ?thesis
    using tracker_publishes_verdict [OF _ life one pos(1)] tracker_publishes_verdict [OF _ life one pos(2)] v
    by (simp only: Let_def) simp
qed

text \<open>
  A published verdict is earned: there is a streak of consecutive observations, all
  failures for a firing condition and all successes for a cleared one, that spans at least
  the target's window.
\<close>

theorem tracker_verdict_sustained:
  assumes "c \<noteq> []" "observes c (tr @ [(statuses, now)]) obs" "timed obs"
    and "r \<in> set (snd (trackerEvaluate statuses now (runTracker tr (newTracker targets conds))))"
    and "resConditionType r = c"
  shows "\<exists>i k. i \<le> k \<and> k < length obs \<and>
    windowOf (fst (rev obs ! i)) \<le> snd (rev obs ! i) - snd (rev obs ! k) \<and>
    (\<forall>j. i \<le> j \<and> j \<le> k \<longrightarrow> sOK (fst (rev obs ! j)) = (\<not> resFiring r))"
proof -
  let ?rs = "snd (trackerEvaluate statuses now (runTracker tr (newTracker targets conds)))"
  note f = tracker_verdict [OF assms(1-3), of targets conds]
  have "resFiring r \<in> set (map resFiring (filter (\<lambda>r. resConditionType r = c) ?rs))"
    using assms(4,5) by auto
  then have "verdict (rev obs) = Some (resFiring r)" unfolding f by (auto split: option.splits)
  from verdict_streak [OF this] show ?thesis by simp
qed

theorem tracker_verdict_sustained_witness:
  "\<exists>i k. i \<le> k \<and> k < 2 \<and>
     windowOf (fst (rev [(dcgmStatus False, minute), (dcgmStatus False, 3 * minute)] ! i)) \<le>
       snd (rev [(dcgmStatus False, minute), (dcgmStatus False, 3 * minute)] ! i) -
       snd (rev [(dcgmStatus False, minute), (dcgmStatus False, 3 * minute)] ! k)"
proof -
  let ?obs = "[(dcgmStatus False, minute), (dcgmStatus False, 3 * minute)]"
  have o: "observes ''DcgmDown'' ([([dcgmStatus False], minute)] @ [([dcgmStatus False], 3 * minute)]) ?obs" "timed ?obs"
    by (simp_all add: observes_def conditionOf_def timed_def int64_def availableWindow_def unavailableWindow_def
        defaultAvailableFor_def defaultUnavailableFor_def target_example_simps)
  let ?rs = "snd (trackerEvaluate [dcgmStatus False] (3 * minute)
      (runTracker [([dcgmStatus False], minute)] (newTracker [dcgmTarget] [])))"
  have "resConditionType (hd ?rs) = ''DcgmDown''" "?rs \<noteq> []"
    unfolding target_example_simps by code_simp+
  then show ?thesis
    using tracker_verdict_sustained [OF _ o, of "hd ?rs" "[dcgmTarget]" "[]"] by fastforce
qed

text \<open>
  The time the collector is down does not count towards a target's windows. For every
  condition that is configured before and after a restart, evaluating a scrape \<open>d\<close> after
  the restart publishes the same result as evaluating it \<open>d\<close> after the save would have,
  elapsed times and message included.
\<close>

theorem tracker_restart_transparent:
  assumes "tracker_inv t" "gm_lookup (trStates t) c = Some st" "gm_lookup (trStates fresh) c \<noteq> None"
    and "0 \<le> tsFailingSince st" "0 \<le> tsHealthySince st"
    and "0 < savedAt" "savedAt \<le> now" "int64 (now - savedAt)" "0 \<le> d"
  shows "snd (evaluateTarget (stateOf (trackerRestoreState (trackerExportState t) savedAt now fresh) c) status (now + d)) =
    snd (evaluateTarget st status (savedAt + d))"
proof -
  have "evaluateTarget (shiftState (now - savedAt) st) status ((savedAt + d) + (now - savedAt)) =
      (shiftState (now - savedAt) (fst (evaluateTarget st status (savedAt + d))),
       snd (evaluateTarget st status (savedAt + d)))"
    using assms by (intro evaluateTarget_shift) simp_all
  moreover have "restoreGap savedAt now = now - savedAt"
    using assms(6-8) by (intro restoreGap_exact) simp_all
  ultimately show ?thesis
    by (simp add: restart_state [OF assms(1-3)] add.commute)
qed

theorem tracker_restart_transparent_witness:
  "snd (evaluateTarget
     (stateOf (trackerRestoreState (trackerExportState (runTracker [([dcgmStatus False], minute)] (newTracker [dcgmTarget] [])))
        minute (10 * minute) (newTracker [dcgmTarget] [])) ''DcgmDown'')
     (dcgmStatus False) (10 * minute + 5)) = None"
proof -
  let ?t = "runTracker [([dcgmStatus False], minute)] (newTracker [dcgmTarget] [])"
  let ?st = "\<lparr>tsFailingSince = minute, tsHealthySince = 0, tsFiring = False, tsEstablished = False\<rparr>"
  have inv: "tracker_inv ?t" by (simp add: runTracker_def trackerEvaluate_inv newTracker_inv)
  have st: "gm_lookup (trStates ?t) ''DcgmDown'' = Some ?st"
    and fresh: "gm_lookup (trStates (newTracker [dcgmTarget] [])) ''DcgmDown'' \<noteq> None"
    unfolding target_example_simps by code_simp+
  have "snd (evaluateTarget ?st (dcgmStatus False) (minute + 5)) = None"
    unfolding target_example_simps by code_simp
  then show ?thesis
    using tracker_restart_transparent [OF inv st fresh, of minute "10 * minute" 5 "dcgmStatus False"]
    by (simp add: int64_def minute_def second_def)
qed

text \<open>
  A condition that was tracked when the state was saved, and that neither a target nor
  a rule owns any more, is published as not firing exactly once: the first evaluation after
  the restart publishes all of them, in sorted order whatever the order of the saved map,
  after the results of the targets, and the next evaluation publishes none.
\<close>

theorem tracker_orphans_cleared_once:
  assumes "distinct (map fst saved)" "trOrphans fresh = []"
  shows "\<exists>rs.
    snd (trackerEvaluate statuses t1 (trackerRestoreState saved savedAt now fresh)) =
      rs @ map orphanResult (sort (filter (\<lambda>c. gm_lookup (trStates fresh) c = None \<and> c \<notin> set (trReserved fresh))
             (map fst saved))) \<and>
    (\<forall>r \<in> set rs. \<exists>s \<in> set statuses. resConditionType r = conditionOf s) \<and>
    trOrphans (fst (trackerEvaluate statuses t1 (trackerRestoreState saved savedAt now fresh))) = []"
proof -
  let ?t = "trackerRestoreState saved savedAt now fresh"
  have o: "trOrphans ?t = sort (filter (\<lambda>c. gm_lookup (trStates fresh) c = None \<and> c \<notin> set (trReserved fresh)) (map fst saved))"
    using assms by (simp add: trackerRestoreState_def Let_def restoreEntries(2))
  have "\<forall>r \<in> set (snd (fold (trackStatus t1) ss acc)). r \<in> set (snd acc) \<or> (\<exists>s \<in> set ss. resConditionType r = conditionOf s)"
    for ss acc
  proof (induction ss arbitrary: acc)
    case (Cons s ss)
    have "\<forall>r \<in> set (snd (trackStatus t1 s acc)). r \<in> set (snd acc) \<or> resConditionType r = conditionOf s"
      by (auto simp: trackStatus_def evaluateTarget_def conditionOf_def Let_def split: option.splits if_splits)
    then show ?case using Cons.IH [of "trackStatus t1 s acc"] by fastforce
  qed simp
  from this [of statuses "(?t, [])"] show ?thesis
    by (intro exI [of _ "snd (fold (trackStatus t1) statuses (?t, []))"])
      (simp add: trackerEvaluate_def Let_def trackStatuses_orphans o)
qed

theorem tracker_orphans_cleared_once_witness:
  "\<exists>rs. snd (trackerEvaluate [] 5 (trackerRestoreState [(''B'', saveTarget zeroTargetState), (''A'', saveTarget zeroTargetState)]
      1 2 (newTracker [] [''C'']))) = rs @ [orphanResult ''A'', orphanResult ''B'']"
proof -
  have "sort (filter (\<lambda>c. gm_lookup (trStates (newTracker [] [''C''])) c = None \<and> c \<notin> set (trReserved (newTracker [] [''C''])))
      (map fst [(''B'', saveTarget zeroTargetState), (''A'', saveTarget zeroTargetState)])) = [''A'', ''B'']"
    by (simp add: newTracker_def gs_add_def)
  moreover have "trOrphans (newTracker [] [''C'']) = []" by (simp add: newTracker_def)
  ultimately show ?thesis
    using tracker_orphans_cleared_once [of "[(''B'', saveTarget zeroTargetState), (''A'', saveTarget zeroTargetState)]"
        "newTracker [] [''C'']" "[]" 5 1 2] by fastforce
qed

end
