(* ===== verification/Conditions.thy ===== *)
theory Conditions
  imports Rules_Engine
begin

text \<open>
  The writer of Node conditions
  (\<open>monitoring/gpu-metrics-collector/internal/conditions/conditions.go\<close>). It turns results
  into conditions, decides whether a patch is due, and remembers the statuses the API server
  acknowledged. The Kubernetes client is an argument: \<open>patchNode\<close> answers the error of the
  status patch, if any.
\<close>

section \<open>Data and operations\<close>

type_synonym conditionStatus = string

definition conditionTrue :: conditionStatus where "conditionTrue = ''True''"
definition conditionFalse :: conditionStatus where "conditionFalse = ''False''"
definition conditionUnknown :: conditionStatus where "conditionUnknown = ''Unknown''"

definition heartbeatCycles :: nat where
  "heartbeatCycles = 20"

record nodeCondition =
  ncType :: string
  ncStatus :: conditionStatus
  ncLastHeartbeatTime :: gotime
  ncLastTransitionTime :: gotime
  ncReason :: string
  ncMessage :: message

text \<open>One condition as \<open>MarshalJSON\<close> writes it: a zero transition time is left out.\<close>

record conditionPatch =
  cpType :: string
  cpStatus :: conditionStatus
  cpLastHeartbeatTime :: gotime
  cpLastTransitionTime :: "gotime option"
  cpReason :: string
  cpMessage :: message

record writer =
  wLastStatus :: "(string, conditionStatus) gomap"
  wHeartbeatCounter :: nat
  wJitterOffset :: nat

definition newWriter :: "nat \<Rightarrow> writer" where
  "newWriter jitter = \<lparr>wLastStatus = [], wHeartbeatCounter = 0, wJitterOffset = jitter\<rparr>"

definition resultStatus :: "result \<Rightarrow> conditionStatus" where
  "resultStatus r =
     (if resFiring r then conditionTrue else if resUnknown r then conditionUnknown else conditionFalse)"

definition statusUnchanged :: "writer \<Rightarrow> result \<Rightarrow> bool" where
  "statusUnchanged w r \<longleftrightarrow> gm_lookup (wLastStatus w) (resConditionType r) = Some (resultStatus r)"

text \<open>The loop of \<open>WriteConditions\<close> over the results: the conditions and \<open>changed\<close>.\<close>

definition buildCondition ::
  "gotime \<Rightarrow> writer \<Rightarrow> result \<Rightarrow> nodeCondition list \<times> bool \<Rightarrow> nodeCondition list \<times> bool" where
  "buildCondition now w r acc =
     (let cond = \<lparr>ncType = resConditionType r, ncStatus = resultStatus r, ncLastHeartbeatTime = now,
                  ncLastTransitionTime = 0, ncReason = resReason r, ncMessage = resMessage r\<rparr>
      in if statusUnchanged w r then (fst acc @ [cond], snd acc)
         else (fst acc @ [cond\<lparr>ncLastTransitionTime := now\<rparr>], True))"

definition marshalStatusPatch :: "nodeCondition list \<Rightarrow> conditionPatch list" where
  "marshalStatusPatch conditions =
     map (\<lambda>c. \<lparr>cpType = ncType c, cpStatus = ncStatus c, cpLastHeartbeatTime = ncLastHeartbeatTime c,
               cpLastTransitionTime = (if isZero (ncLastTransitionTime c) then None else Some (ncLastTransitionTime c)),
               cpReason = ncReason c, cpMessage = ncMessage c\<rparr>) conditions"

text \<open>What a call did: nothing was due, the server took the patch, or the patch failed.\<close>

datatype writeOutcome =
    NothingDue
  | Patched "conditionPatch list"
  | PatchFailed "conditionPatch list" string

definition writeConditions ::
  "(conditionPatch list \<Rightarrow> string option) \<Rightarrow> gotime \<Rightarrow> result list \<Rightarrow> writer \<Rightarrow> writer \<times> writeOutcome" where
  "writeConditions patchNode now results w =
     (let (conditions, changed) = fold (buildCondition now w) results ([], False)
      in if length conditions = 0 then (w, NothingDue)
         else let w1 = w\<lparr>wHeartbeatCounter := wHeartbeatCounter w + 1\<rparr>
              in if \<not> changed \<and> (wHeartbeatCounter w1 + wJitterOffset w1) mod heartbeatCycles \<noteq> 0
                 then (w1, NothingDue)
                 else let patch = marshalStatusPatch conditions
                      in case patchNode patch of
                           Some err \<Rightarrow> (w1, PatchFailed patch err)
                         | None \<Rightarrow>
                             (w1\<lparr>wLastStatus := fold (\<lambda>r m. gm_set (resConditionType r) (resultStatus r) m)
                                    results (wLastStatus w1)\<rparr>, Patched patch))"

definition exportLastStatus :: "writer \<Rightarrow> (string, string) gomap" where
  "exportLastStatus w = wLastStatus w"

definition restoreLastStatus :: "(string, string) gomap \<Rightarrow> writer \<Rightarrow> writer" where
  "restoreLastStatus statuses w =
     w\<lparr>wLastStatus := fold (\<lambda>(k, v) m. gm_set k v m) statuses (wLastStatus w)\<rparr>"

section \<open>What one call does\<close>

definition patchOf :: "gotime \<Rightarrow> writer \<Rightarrow> result \<Rightarrow> conditionPatch" where
  "patchOf now w r =
     \<lparr>cpType = resConditionType r, cpStatus = resultStatus r, cpLastHeartbeatTime = now,
      cpLastTransitionTime = (if statusUnchanged w r then None else Some now),
      cpReason = resReason r, cpMessage = resMessage r\<rparr>"

lemma buildConditions:
  assumes "now \<noteq> 0"
  shows "marshalStatusPatch (fst (fold (buildCondition now w) results acc)) =
      marshalStatusPatch (fst acc) @ map (patchOf now w) results"
    and "snd (fold (buildCondition now w) results acc) \<longleftrightarrow> snd acc \<or> (\<exists>r \<in> set results. \<not> statusUnchanged w r)"
    and "length (fst (fold (buildCondition now w) results acc)) = length (fst acc) + length results"
  using assms
  by (induction results arbitrary: acc)
    (auto simp: buildCondition_def marshalStatusPatch_def patchOf_def isZero_def Let_def)

text \<open>Whether a call sends a patch.\<close>

definition patchDue :: "writer \<Rightarrow> result list \<Rightarrow> bool" where
  "patchDue w results \<longleftrightarrow>
     results \<noteq> [] \<and> ((\<exists>r \<in> set results. \<not> statusUnchanged w r) \<or>
       heartbeatCycles dvd (wHeartbeatCounter w + 1 + wJitterOffset w))"

definition acknowledge :: "result list \<Rightarrow> (string, conditionStatus) gomap \<Rightarrow> (string, conditionStatus) gomap" where
  "acknowledge results m = fold (\<lambda>r m. gm_set (resConditionType r) (resultStatus r) m) results m"

lemma writeConditions_cases:
  assumes "now \<noteq> 0"
  shows "writeConditions patchNode now results w =
    (if results = [] then (w, NothingDue)
     else let w1 = w\<lparr>wHeartbeatCounter := wHeartbeatCounter w + 1\<rparr>; patch = map (patchOf now w) results in
       if \<not> patchDue w results then (w1, NothingDue)
       else (case patchNode patch of
               Some err \<Rightarrow> (w1, PatchFailed patch err)
             | None \<Rightarrow> (w1\<lparr>wLastStatus := acknowledge results (wLastStatus w)\<rparr>, Patched patch)))"
proof -
  let ?acc = "fold (buildCondition now w) results ([], False)"
  have p: "marshalStatusPatch (fst ?acc) = map (patchOf now w) results"
    using buildConditions(1) [OF assms, of w results "([], False)"] by (simp add: marshalStatusPatch_def)
  have c: "snd ?acc \<longleftrightarrow> (\<exists>r \<in> set results. \<not> statusUnchanged w r)"
    using buildConditions(2) [OF assms, of w results "([], False)"] by simp
  have l: "length (fst ?acc) = length results"
    using buildConditions(3) [OF assms, of w results "([], False)"] by simp
  have l2: "fst ?acc = [] \<longleftrightarrow> results = []" using l by (metis length_0_conv)
  show ?thesis
    by (cases "results = []")
      (simp_all add: writeConditions_def case_prod_beta p c l l2 Let_def patchDue_def acknowledge_def mod_eq_0_iff_dvd
        split: option.split)
qed

lemma acknowledge_lookup:
  "gm_lookup (acknowledge results m) c =
     (case map_of (rev (map (\<lambda>r. (resConditionType r, resultStatus r)) results)) c of
        None \<Rightarrow> gm_lookup m c | Some s \<Rightarrow> Some s)"
proof -
  have "acknowledge results m = fold (\<lambda>(k, v). gm_set k v) (map (\<lambda>r. (resConditionType r, resultStatus r)) results) m"
    by (simp add: acknowledge_def fold_map comp_def)
  then show ?thesis by (simp add: gomap.assign_all_map_of)
qed

section \<open>Runs of the writer\<close>

text \<open>
  A run is a sequence of calls, each with the instant, the results and the server's answer.
  The ghost \<open>acked\<close> is the status each condition had in the latest acknowledged patch.
\<close>

record writeCall =
  cNow :: gotime
  cResults :: "result list"
  cPatch :: "conditionPatch list \<Rightarrow> string option"

fun runWriter :: "writeCall list \<Rightarrow> writer \<Rightarrow> writer \<times> writeOutcome list" where
  "runWriter [] w = (w, [])"
| "runWriter (c # cs) w =
     (let (w1, out) = writeConditions (cPatch c) (cNow c) (cResults c) w;
          (w2, outs) = runWriter cs w1
      in (w2, out # outs))"

fun ackedStatus :: "writeOutcome list \<Rightarrow> (string, conditionStatus) gomap \<Rightarrow> (string, conditionStatus) gomap" where
  "ackedStatus [] m = m"
| "ackedStatus (Patched patch # outs) m =
     ackedStatus outs (fold (\<lambda>p m. gm_set (cpType p) (cpStatus p) m) patch m)"
| "ackedStatus (_ # outs) m = ackedStatus outs m"

lemma acknowledge_patch:
  "fold (\<lambda>p m. gm_set (cpType p) (cpStatus p) m) (map (patchOf now w) results) m = acknowledge results m"
  by (simp add: acknowledge_def fold_map comp_def patchOf_def)

lemma runWriter_acked:
  assumes "list_all (\<lambda>c. cNow c \<noteq> 0) calls"
  shows "wLastStatus (fst (runWriter calls w)) = ackedStatus (snd (runWriter calls w)) (wLastStatus w)"
  using assms
proof (induction calls arbitrary: w)
  case (Cons c calls)
  then have "cNow c \<noteq> 0" by simp
  note step = writeConditions_cases [OF this, of "cPatch c" "cResults c" w]
  have "list_all (\<lambda>c. cNow c \<noteq> 0) calls" using Cons.prems by simp
  note IH = Cons.IH [OF this]
  show ?case
    by (simp add: case_prod_beta step Let_def IH acknowledge_patch split: option.split)
qed simp

text \<open>The number of calls with results since the last attempt to patch stays below the period.\<close>

lemma heartbeat_within_period:
  assumes "\<forall>c \<in> set calls. cNow c \<noteq> 0 \<and> cResults c \<noteq> []" "length calls = heartbeatCycles"
  shows "\<exists>out \<in> set (snd (runWriter calls w)). out \<noteq> NothingDue"
proof (rule ccontr)
  assume none: "\<not> ?thesis"
  have "\<forall>i < length calls. \<not> heartbeatCycles dvd (wHeartbeatCounter w + 1 + i + wJitterOffset w)"
    using none assms(1)
  proof (induction calls arbitrary: w)
    case (Cons c calls)
    let ?w = "fst (writeConditions (cPatch c) (cNow c) (cResults c) w)"
    have c: "cNow c \<noteq> 0" "cResults c \<noteq> []" using Cons.prems(2) by auto
    note step = writeConditions_cases [OF c(1), of "cPatch c" "cResults c" w]
    have out: "snd (writeConditions (cPatch c) (cNow c) (cResults c) w) = NothingDue"
      using Cons.prems(1) by (auto simp: case_prod_beta Let_def)
    then have due: "\<not> patchDue w (cResults c)"
      using c by (auto simp: step Let_def split: option.splits if_splits)
    then have w: "?w = w\<lparr>wHeartbeatCounter := wHeartbeatCounter w + 1\<rparr>" using c by (simp add: step)
    have "\<forall>i < length calls. \<not> heartbeatCycles dvd (wHeartbeatCounter ?w + 1 + i + wJitterOffset ?w)"
      using Cons.prems by (intro Cons.IH) (auto simp: case_prod_beta Let_def)
    then show ?case
      using due c(2) by (auto simp: w patchDue_def less_Suc_eq_0_disj)
  qed simp
  moreover have "\<exists>i < 20. (20 :: nat) dvd (n + i)" for n
    by presburger
  ultimately show False
    using assms(2) by (metis heartbeatCycles_def add.assoc add.commute)
qed

section \<open>Properties\<close>

definition hotResult :: "bool \<Rightarrow> result" where
  "hotResult firing = \<lparr>resConditionType = ''Hot'', resFiring = firing, resUnknown = False, resReason = ''Hot'',
     resMessage = NoMessage\<rparr>"

definition acceptPatch :: "conditionPatch list \<Rightarrow> string option" where
  "acceptPatch patch = None"

definition hotCall :: "bool \<Rightarrow> writeCall" where
  "hotCall firing = \<lparr>cNow = 7, cResults = [hotResult firing], cPatch = acceptPatch\<rparr>"

text \<open>
  C38. Over every sequence of calls, with patches that succeed or fail, the writer's memory
  is exactly the status that the API server last acknowledged for each condition: a failed
  or skipped patch never counts as published.
\<close>

theorem writer_remembers_acknowledged:
  assumes "list_all (\<lambda>c. cNow c \<noteq> 0) calls"
  shows "wLastStatus (fst (runWriter calls w)) = ackedStatus (snd (runWriter calls w)) (wLastStatus w)"
  by (rule runWriter_acked [OF assms])

theorem writer_remembers_acknowledged_witness:
  "wLastStatus (fst (runWriter [hotCall True] (newWriter 3))) = [(''Hot'', ''True'')]"
proof -
  have "ackedStatus (snd (runWriter [hotCall True] (newWriter 3))) [] = [(''Hot'', ''True'')]"
    by (simp add: hotCall_def newWriter_def writeConditions_def buildCondition_def statusUnchanged_def acceptPatch_def
        marshalStatusPatch_def hotResult_def resultStatus_def conditionTrue_def isZero_def)
  then show ?thesis
    using writer_remembers_acknowledged [of "[hotCall True]" "newWriter 3"]
    by (simp add: hotCall_def newWriter_def)
qed

text \<open>
  A status that differs from the acknowledged one is always sent, in every call until a
  patch succeeds. The patch carries every result of the call with its status, and a
  transition time for exactly the conditions whose status changed, so an unchanged
  condition keeps the transition time it has on the Node.
\<close>

theorem writer_sends_changes:
  assumes "now \<noteq> 0" "r \<in> set results" "gm_lookup (wLastStatus w) (resConditionType r) \<noteq> Some (resultStatus r)"
  shows "\<exists>patch.
    snd (writeConditions patchNode now results w) =
      (case patchNode patch of None \<Rightarrow> Patched patch | Some err \<Rightarrow> PatchFailed patch err) \<and>
    map cpType patch = map resConditionType results \<and> map cpStatus patch = map resultStatus results \<and>
    map cpLastTransitionTime patch =
      map (\<lambda>r. if gm_lookup (wLastStatus w) (resConditionType r) = Some (resultStatus r) then None else Some now) results"
proof (intro exI [of _ "map (patchOf now w) results"] conjI)
  have "patchDue w results" "results \<noteq> []"
    using assms(2,3) by (auto simp: patchDue_def statusUnchanged_def)
  then show "snd (writeConditions patchNode now results w) =
      (case patchNode (map (patchOf now w) results) of None \<Rightarrow> Patched (map (patchOf now w) results)
       | Some err \<Rightarrow> PatchFailed (map (patchOf now w) results) err)"
    by (simp add: writeConditions_cases [OF assms(1)] Let_def split: option.split)
qed (simp_all add: patchOf_def statusUnchanged_def)

theorem writer_sends_changes_witness:
  "\<exists>patch. snd (writeConditions acceptPatch 7 [hotResult True] (newWriter 3)) = Patched patch \<and>
     map cpLastTransitionTime patch = [Some 7]"
  using writer_sends_changes [of 7 "hotResult True" "[hotResult True]" "newWriter 3" acceptPatch]
  by (auto simp: newWriter_def acceptPatch_def)

text \<open>
  The heartbeat: among any \<open>heartbeatCycles\<close> consecutive calls that have results, at
  least one attempts a patch, so a Node condition is refreshed within the period even when
  nothing changes, whatever the jitter.
\<close>

theorem writer_heartbeat:
  assumes "\<forall>c \<in> set calls. cNow c \<noteq> 0 \<and> cResults c \<noteq> []" "length calls = heartbeatCycles"
  shows "\<exists>out \<in> set (snd (runWriter calls w)). out \<noteq> NothingDue"
  by (rule heartbeat_within_period [OF assms])

theorem writer_heartbeat_witness:
  "\<exists>out \<in> set (snd (runWriter (replicate 20 (hotCall True)) (newWriter 3))). out \<noteq> NothingDue"
  by (rule writer_heartbeat) (simp_all add: hotCall_def heartbeatCycles_def)

end
