(* ===== verification/Collector_Config.thy ===== *)
theory Collector_Config
  imports Rules_Engine
begin

text \<open>
  The configuration of the GPU metrics collector and its validation
  (\<open>monitoring/gpu-metrics-collector/internal/config/config.go\<close> and
  \<open>metric_coverage.go\<close>). \<open>url.Parse\<close> is the argument \<open>urlParse\<close>, which answers the scheme
  and the host, or nothing where parsing fails. Warnings are not modelled; each error is a
  constructor of \<open>configError\<close>, named after its text, with the arguments of its format.
\<close>

section \<open>Data\<close>

record config =
  cfgScrapeTargets :: "scrapeTarget list"
  cfgRules :: "rule list"

datatype configError =
    ReadingConfigFile string
  | ParsingConfig string
  | NoRules
  | NoScrapeTargets
  | NegativeCoverage string
  | OneOfMetricNames string
  | MetricNamesNeedSamples string
  | MetricNamesInvalid string
  | CoverageNeedsMinSamples string
  | CoverageNeedsIdentity
  | RuleConditionReserved string string
  | SampleLabelInvalid string
  | RequiredValuesCount string
  | RequiredValuesInvalid string
  | CoverageMode string
  | CoverageWindow string
  | ThresholdNotFinite string
  | NoCoverageRule
  | MultipleRuleOwners string
  | TargetWithoutName nat
  | TargetWithoutURL string
  | DuplicateTargetName string
  | RequiredWithoutCondition string
  | ConditionWithoutRequired string
  | TargetConditionReserved string string
  | NegativeWindow string
  | UnparseableURL string
  | NotAbsoluteURL string
  | ConditionClaimedTwice string string string

type_synonym 'a checked = "configError + 'a"

definition kubernetesCoreConditionTypes :: "string list" where
  "kubernetesCoreConditionTypes =
     [''Ready'', ''MemoryPressure'', ''DiskPressure'', ''PIDPressure'', ''NetworkUnavailable'']"

section \<open>Name patterns\<close>

definition letter :: "char \<Rightarrow> bool" where
  "letter c \<longleftrightarrow> (CHR ''a'' \<le> c \<and> c \<le> CHR ''z'') \<or> (CHR ''A'' \<le> c \<and> c \<le> CHR ''Z'')"

definition digit :: "char \<Rightarrow> bool" where
  "digit c \<longleftrightarrow> CHR ''0'' \<le> c \<and> c \<le> CHR ''9''"

definition labelNamePattern :: "string \<Rightarrow> bool" where
  "labelNamePattern s =
     (case s of [] \<Rightarrow> False
      | c # cs \<Rightarrow> (letter c \<or> c = CHR ''_'') \<and> list_all (\<lambda>c. letter c \<or> digit c \<or> c = CHR ''_'') cs)"

definition metricNamePattern :: "string \<Rightarrow> bool" where
  "metricNamePattern s =
     (case s of [] \<Rightarrow> False
      | c # cs \<Rightarrow> (letter c \<or> c = CHR ''_'' \<or> c = CHR '':'') \<and>
                   list_all (\<lambda>c. letter c \<or> digit c \<or> c = CHR ''_'' \<or> c = CHR '':'') cs)"

section \<open>Rules\<close>

text \<open>The loops over \<open>MetricNames\<close> and \<open>RequiredSampleValues\<close> with their \<open>seen\<close> map.\<close>

fun checkDistinct :: "(string \<Rightarrow> bool) \<Rightarrow> string list \<Rightarrow> string goset \<Rightarrow> bool" where
  "checkDistinct ok [] seen = True"
| "checkDistinct ok (x # xs) seen =
     (if \<not> ok x \<or> x \<in> set seen then False else checkDistinct ok xs (gs_add x seen))"

definition validateMetricNames :: "rule \<Rightarrow> configError option" where
  "validateMetricNames r =
     (case rMetricNames r of
        None \<Rightarrow> None
      | Some names \<Rightarrow>
          if rMetricName r \<noteq> [] \<or> length names = 0 then Some (OneOfMetricNames (rName r))
          else if rMinSamples r = 0 \<or> rSampleLabel r = [] then Some (MetricNamesNeedSamples (rName r))
          else if \<not> checkDistinct metricNamePattern names [] then Some (MetricNamesInvalid (rName r))
          else None)"

definition validateRequiredValues :: "rule \<Rightarrow> configError option" where
  "validateRequiredValues r =
     (if length (rRequiredSampleValues r) > 0
      then if rSampleLabel r = [] \<or> int (length (rRequiredSampleValues r)) \<noteq> rMinSamples r
           then Some (RequiredValuesCount (rName r))
           else if \<not> checkDistinct (\<lambda>v. v \<noteq> []) (rRequiredSampleValues r) []
           then Some (RequiredValuesInvalid (rName r)) else None
      else None)"

definition validateCoverage :: "rule \<Rightarrow> configError option" where
  "validateCoverage r =
     (if rMinSamples r < 0 \<or> rMaxSampleAge r < 0 then Some (NegativeCoverage (rName r))
      else case validateMetricNames r of Some err \<Rightarrow> Some err | None \<Rightarrow>
        if rMinSamples r = 0
        then if rSampleLabel r \<noteq> [] \<or> length (rRequiredSampleValues r) > 0 \<or> rMaxSampleAge r \<noteq> 0
             then Some (CoverageNeedsMinSamples (rName r)) else None
        else if rName r = [] \<or> (rMetricName r = [] \<and> length (metricNames r) = 0) \<or> rConditionType r = []
        then Some CoverageNeedsIdentity
        else if rConditionType r \<in> set kubernetesCoreConditionTypes
        then Some (RuleConditionReserved (rName r) (rConditionType r))
        else if rSampleLabel r \<noteq> [] \<and> \<not> labelNamePattern (rSampleLabel r)
        then Some (SampleLabelInvalid (rName r))
        else case validateRequiredValues r of Some err \<Rightarrow> Some err | None \<Rightarrow>
          if rMode r \<noteq> ''instant'' \<and> rMode r \<noteq> ''rate'' then Some (CoverageMode (rName r))
          else if (rMode r = ''rate'' \<and> rWindow r \<le> 0) \<or> rFor r < 0 then Some (CoverageWindow (rName r))
          else if isNaN (rThreshold r) \<or> isInf (rThreshold r) then Some (ThresholdNotFinite (rName r))
          else None)"

definition requireMetricCoverage :: "config \<Rightarrow> configError option" where
  "requireMetricCoverage c =
     (if list_ex (\<lambda>r. rMinSamples r > 0) (cfgRules c) then None else Some NoCoverageRule)"

definition ruleConditionTypes :: "config \<Rightarrow> string list" where
  "ruleConditionTypes c = filter (\<lambda>ct. ct \<noteq> []) (map rConditionType (cfgRules c))"

section \<open>The whole configuration\<close>

text \<open>\<open>fmt.Sprintf("rule %q", ...)\<close> and its counterpart for targets, without escapes.\<close>

definition ruleOwner :: "string \<Rightarrow> string" where "ruleOwner name = ''rule '' @ name"
definition targetOwner :: "string \<Rightarrow> string" where "targetOwner name = ''scrapeTarget '' @ name"

fun validateRules ::
  "rule list \<Rightarrow> (string, string) gomap \<times> (string, bool) gomap \<Rightarrow> ((string, string) gomap) checked" where
  "validateRules [] st = Inr (fst st)"
| "validateRules (r # rs) st =
     (let (owners, coverageOwners) = st in
      case validateCoverage r of
        Some err \<Rightarrow> Inl err
      | None \<Rightarrow>
          if rConditionType r = [] then validateRules rs st
          else case gm_lookup owners (rConditionType r) of
            Some prev \<Rightarrow>
              if rMinSamples r > 0 \<or> gm_get False coverageOwners (rConditionType r)
              then Inl (MultipleRuleOwners (rConditionType r))
              else validateRules rs st
          | None \<Rightarrow>
              validateRules rs
                (gm_set (rConditionType r) (ruleOwner (rName r)) owners,
                 gm_set (rConditionType r) (rMinSamples r > 0) coverageOwners))"

definition validateAvailability :: "(string \<Rightarrow> (string \<times> string) option) \<Rightarrow> scrapeTarget \<Rightarrow> configError option" where
  "validateAvailability urlParse t =
     (if tRequired t \<and> tAvailabilityCondition t = [] then Some (RequiredWithoutCondition (tName t))
      else if tAvailabilityCondition t \<noteq> [] \<and> \<not> tRequired t then Some (ConditionWithoutRequired (tName t))
      else if tAvailabilityCondition t \<in> set kubernetesCoreConditionTypes
      then Some (TargetConditionReserved (tName t) (tAvailabilityCondition t))
      else if tUnavailableFor t < 0 \<or> tAvailableFor t < 0 then Some (NegativeWindow (tName t))
      else if \<not> tRequired t then None
      else case urlParse (tURL t) of
             None \<Rightarrow> Some (UnparseableURL (tName t))
           | Some (scheme, host) \<Rightarrow>
               if (scheme \<noteq> ''http'' \<and> scheme \<noteq> ''https'') \<or> host = []
               then Some (NotAbsoluteURL (tName t)) else None)"

definition declaresAvailability :: "scrapeTarget \<Rightarrow> bool" where
  "declaresAvailability t \<longleftrightarrow> tRequired t \<or> tAvailabilityCondition t \<noteq> []"

fun validateTargets ::
  "(string \<Rightarrow> (string \<times> string) option) \<Rightarrow> nat \<Rightarrow> scrapeTarget list \<Rightarrow>
     (string, string) gomap \<times> (string, bool) gomap \<Rightarrow> configError option" where
  "validateTargets urlParse i [] st = None"
| "validateTargets urlParse i (t # ts) st =
     (let (owners, seenNames) = st; declares = declaresAvailability t in
      if tName t = [] \<and> declares then Some (TargetWithoutName i)
      else if tURL t = [] \<and> declares then Some (TargetWithoutURL (tName t))
      else if tName t \<noteq> [] \<and> gm_lookup seenNames (tName t) \<noteq> None \<and>
              (declares \<or> gm_get False seenNames (tName t))
      then Some (DuplicateTargetName (tName t))
      else let seenNames' = (if tName t \<noteq> []
                             then gm_set (tName t) (gm_get False seenNames (tName t) \<or> declares) seenNames
                             else seenNames)
           in case validateAvailability urlParse t of
                Some err \<Rightarrow> Some err
              | None \<Rightarrow>
                  if tAvailabilityCondition t = [] then validateTargets urlParse (i + 1) ts (owners, seenNames')
                  else case gm_lookup owners (tAvailabilityCondition t) of
                         Some prev \<Rightarrow> Some (ConditionClaimedTwice (tAvailabilityCondition t) prev (tName t))
                       | None \<Rightarrow>
                           validateTargets urlParse (i + 1) ts
                             (gm_set (tAvailabilityCondition t) (targetOwner (tName t)) owners, seenNames'))"

definition validate :: "(string \<Rightarrow> (string \<times> string) option) \<Rightarrow> config \<Rightarrow> configError option" where
  "validate urlParse c =
     (case validateRules (cfgRules c) ([], []) of
        Inl err \<Rightarrow> Some err
      | Inr owners \<Rightarrow> validateTargets urlParse 0 (cfgScrapeTargets c) (owners, []))"

text \<open>
  \<open>Load\<close>: reading the file and unmarshalling the YAML are arguments that answer a value or
  the text of an error.
\<close>

definition load ::
  "(string \<Rightarrow> string + string) \<Rightarrow> (string \<Rightarrow> string + config) \<Rightarrow> (string \<Rightarrow> (string \<times> string) option) \<Rightarrow>
     string \<Rightarrow> config checked" where
  "load readFile unmarshal urlParse path =
     (case readFile path of Inl err \<Rightarrow> Inl (ReadingConfigFile err) | Inr data \<Rightarrow>
      case unmarshal data of Inl err \<Rightarrow> Inl (ParsingConfig err) | Inr cfg \<Rightarrow>
        if length (cfgRules cfg) = 0 then Inl NoRules
        else if length (cfgScrapeTargets cfg) = 0 then Inl NoScrapeTargets
        else case validate urlParse cfg of Some err \<Rightarrow> Inl err | None \<Rightarrow> Inr cfg)"

section \<open>What validation accepts\<close>

text \<open>A coverage contract that is complete and consistent.\<close>

definition metricNames_ok :: "rule \<Rightarrow> bool" where
  "metricNames_ok r \<longleftrightarrow>
     (\<forall>names. rMetricNames r = Some names \<longrightarrow>
        rMetricName r = [] \<and> names \<noteq> [] \<and> rMinSamples r \<noteq> 0 \<and> rSampleLabel r \<noteq> [] \<and>
        distinct names \<and> list_all metricNamePattern names)"

definition requiredValues_ok :: "rule \<Rightarrow> bool" where
  "requiredValues_ok r \<longleftrightarrow>
     rRequiredSampleValues r \<noteq> [] \<longrightarrow>
       rSampleLabel r \<noteq> [] \<and> int (length (rRequiredSampleValues r)) = rMinSamples r \<and>
       distinct (rRequiredSampleValues r) \<and> [] \<notin> set (rRequiredSampleValues r)"

definition coverage_ok :: "rule \<Rightarrow> bool" where
  "coverage_ok r \<longleftrightarrow>
     0 \<le> rMinSamples r \<and> 0 \<le> rMaxSampleAge r \<and> metricNames_ok r \<and>
     (if rMinSamples r = 0
      then rSampleLabel r = [] \<and> rRequiredSampleValues r = [] \<and> rMaxSampleAge r = 0
      else rName r \<noteq> [] \<and> (rMetricName r \<noteq> [] \<or> metricNames r \<noteq> []) \<and> rConditionType r \<noteq> [] \<and>
           rConditionType r \<notin> set kubernetesCoreConditionTypes \<and>
           (rSampleLabel r \<noteq> [] \<longrightarrow> labelNamePattern (rSampleLabel r)) \<and> requiredValues_ok r \<and>
           (rMode r = ''instant'' \<or> rMode r = ''rate'') \<and> (rMode r = ''rate'' \<longrightarrow> 0 < rWindow r) \<and> 0 \<le> rFor r \<and>
           \<not> isNaN (rThreshold r) \<and> \<not> isInf (rThreshold r))"

lemma checkDistinct_iff: "checkDistinct ok xs seen \<longleftrightarrow> list_all ok xs \<and> distinct xs \<and> set xs \<inter> set seen = {}"
  by (induction xs arbitrary: seen) auto

lemma validateMetricNames_iff: "validateMetricNames r = None \<longleftrightarrow> metricNames_ok r"
  by (auto simp: validateMetricNames_def metricNames_ok_def checkDistinct_iff split: option.split)

lemma validateRequiredValues_iff: "validateRequiredValues r = None \<longleftrightarrow> requiredValues_ok r"
  by (auto simp: validateRequiredValues_def requiredValues_ok_def checkDistinct_iff list_all_iff)

lemma case_option_None_iff: "(case x of None \<Rightarrow> b | Some e \<Rightarrow> Some e) = None \<longleftrightarrow> x = None \<and> b = None"
  by (cases x) auto

lemma validateCoverage_iff: "validateCoverage r = None \<longleftrightarrow> coverage_ok r"
proof -
  have neg: "rMinSamples r < 0 \<or> rMaxSampleAge r < 0 \<Longrightarrow> validateCoverage r \<noteq> None" by (simp add: validateCoverage_def)
  show ?thesis
  proof (cases "rMinSamples r < 0 \<or> rMaxSampleAge r < 0")
    case True
    then show ?thesis using neg by (auto simp: coverage_ok_def)
  next
    case False
    show ?thesis
    proof (cases "rMinSamples r = 0")
      case True
      with False show ?thesis
        by (auto simp: validateCoverage_def coverage_ok_def case_option_None_iff validateMetricNames_iff)
    next
      case pos: False
      with False show ?thesis
        by (simp add: validateCoverage_def coverage_ok_def case_option_None_iff validateMetricNames_iff
            validateRequiredValues_iff)
    qed
  qed
qed

text \<open>Two rules may share a condition only when neither of them demands coverage.\<close>

definition shareable :: "rule \<Rightarrow> rule \<Rightarrow> bool" where
  "shareable r r' \<longleftrightarrow>
     (rConditionType r = rConditionType r' \<and> rConditionType r \<noteq> [] \<longrightarrow> rMinSamples r \<le> 0 \<and> rMinSamples r' \<le> 0)"

definition rules_ok :: "rule list \<Rightarrow> bool" where
  "rules_ok rs \<longleftrightarrow> list_all coverage_ok rs \<and> sorted_wrt shareable rs"

definition sameKeys :: "('k, 'a) gomap \<Rightarrow> ('k, 'b) gomap \<Rightarrow> bool" where
  "sameKeys m n \<longleftrightarrow> (\<forall>c. gm_lookup m c = None \<longleftrightarrow> gm_lookup n c = None)"

lemma sameKeys_set: "sameKeys m n \<Longrightarrow> sameKeys (gm_set k v m) (gm_set k u n)"
  by (simp add: sameKeys_def)

lemma validateRules_spec:
  assumes "sameKeys owners cov"
  shows "(\<exists>out. validateRules rs (owners, cov) = Inr out) \<longleftrightarrow>
      rules_ok rs \<and>
      (\<forall>r \<in> set rs. rConditionType r \<noteq> [] \<and> gm_lookup owners (rConditionType r) \<noteq> None \<longrightarrow>
         rMinSamples r \<le> 0 \<and> \<not> gm_get False cov (rConditionType r))"
    and "validateRules rs (owners, cov) = Inr out \<Longrightarrow>
      gm_lookup out c \<noteq> None \<longleftrightarrow> gm_lookup owners c \<noteq> None \<or> (c \<noteq> [] \<and> c \<in> rConditionType ` set rs)"
  using assms
proof (induction rs arbitrary: owners cov)
  case Nil
  { case 1 show ?case by (simp add: rules_ok_def) }
  { case 2 then show ?case by simp }
next
  case (Cons r rs)
  let ?c = "rConditionType r"
  {
    case (1 owners cov)
    let ?owners = "gm_set ?c (ruleOwner (rName r)) owners" and ?cov = "gm_set ?c (rMinSamples r > 0) cov"
    note IH = Cons.IH(1) [OF 1] and IH' = Cons.IH(1) [OF sameKeys_set [OF 1]]
    consider "\<not> coverage_ok r" | "coverage_ok r" "?c = []" | "coverage_ok r" "?c \<noteq> []" "gm_lookup owners ?c = None"
      | prev where "coverage_ok r" "?c \<noteq> []" "gm_lookup owners ?c = Some prev" by (cases "gm_lookup owners ?c") auto
    then show ?case
    proof cases
      case 1
      then obtain err where "validateCoverage r = Some err" by (metis not_Some_eq validateCoverage_iff)
      then show ?thesis using 1 by (simp add: rules_ok_def)
    next
      case 2
      then have v: "validateRules (r # rs) (owners, cov) = validateRules rs (owners, cov)"
        using validateCoverage_iff [of r] by simp
      show ?thesis unfolding v IH using 2 by (auto simp: rules_ok_def shareable_def)
    next
      case 3
      then have v: "validateRules (r # rs) (owners, cov) = validateRules rs (?owners, ?cov)"
        using validateCoverage_iff [of r] by simp
      have e: "(rConditionType r' \<noteq> [] \<and> gm_lookup ?owners (rConditionType r') \<noteq> None \<longrightarrow>
            rMinSamples r' \<le> 0 \<and> \<not> gm_get False ?cov (rConditionType r')) \<longleftrightarrow>
          shareable r r' \<and> (rConditionType r' \<noteq> [] \<and> gm_lookup owners (rConditionType r') \<noteq> None \<longrightarrow>
            rMinSamples r' \<le> 0 \<and> \<not> gm_get False cov (rConditionType r'))" for r'
        by (cases "rConditionType r' = ?c") (use 3 in \<open>auto simp: shareable_def\<close>)
      show ?thesis
        unfolding v IH' e using 3(1,3) by (simp add: rules_ok_def) blast
    next
      case 4
      show ?thesis
      proof (cases "rMinSamples r > 0 \<or> gm_get False cov ?c")
        case True
        with 4 show ?thesis using validateCoverage_iff [of r] by auto
      next
        case False
        then have v: "validateRules (r # rs) (owners, cov) = validateRules rs (owners, cov)"
          using 4 validateCoverage_iff [of r] by simp
        show ?thesis unfolding v IH using 4 False by (auto simp: rules_ok_def shareable_def)
      qed
    qed
  }
  {
    case (2 owners cov)
    let ?owners = "gm_set ?c (ruleOwner (rName r)) owners" and ?cov = "gm_set ?c (rMinSamples r > 0) cov"
    note IH = Cons.IH(2) [OF _ 2(2)] and IH' = Cons.IH(2) [OF _ sameKeys_set [OF 2(2)]]
    have ok: "validateCoverage r = None" using 2(1) by (auto split: option.splits)
    show ?case
    proof (cases "?c = [] \<or> gm_lookup owners ?c \<noteq> None")
      case True
      then have "validateRules rs (owners, cov) = Inr out"
        using 2(1) ok by (auto split: option.splits if_splits)
      from IH [OF this] show ?thesis using True by auto
    next
      case False
      then have "validateRules rs (?owners, ?cov) = Inr out" using 2(1) ok by simp
      from IH' [OF this] show ?thesis using False by auto
    qed
  }
qed

text \<open>The contract of one scrape target, and of two targets of one configuration.\<close>

definition availability_ok :: "(string \<Rightarrow> (string \<times> string) option) \<Rightarrow> scrapeTarget \<Rightarrow> bool" where
  "availability_ok urlParse t \<longleftrightarrow>
     (tRequired t \<longleftrightarrow> tAvailabilityCondition t \<noteq> []) \<and>
     tAvailabilityCondition t \<notin> set kubernetesCoreConditionTypes \<and>
     0 \<le> tUnavailableFor t \<and> 0 \<le> tAvailableFor t \<and>
     (tRequired t \<longrightarrow> tName t \<noteq> [] \<and> tURL t \<noteq> [] \<and>
        (\<exists>scheme host. urlParse (tURL t) = Some (scheme, host) \<and> (scheme = ''http'' \<or> scheme = ''https'') \<and> host \<noteq> []))"

definition compatible :: "scrapeTarget \<Rightarrow> scrapeTarget \<Rightarrow> bool" where
  "compatible t t' \<longleftrightarrow>
     (tName t = tName t' \<and> tName t \<noteq> [] \<longrightarrow> \<not> declaresAvailability t \<and> \<not> declaresAvailability t') \<and>
     (tAvailabilityCondition t = tAvailabilityCondition t' \<longrightarrow> tAvailabilityCondition t = [])"

lemma validateAvailability_iff:
  "validateAvailability urlParse t = None \<and> (declaresAvailability t \<longrightarrow> tName t \<noteq> [] \<and> tURL t \<noteq> []) \<longleftrightarrow>
     availability_ok urlParse t"
proof (cases "tRequired t")
  case True
  then show ?thesis
    by (cases "urlParse (tURL t)")
      (auto simp: validateAvailability_def availability_ok_def declaresAvailability_def split: if_splits)
next
  case False
  then show ?thesis
    by (auto simp: validateAvailability_def availability_ok_def declaresAvailability_def)
qed

definition clearOf :: "(string, string) gomap \<Rightarrow> (string, bool) gomap \<Rightarrow> scrapeTarget \<Rightarrow> bool" where
  "clearOf owners seen t \<longleftrightarrow>
     (tAvailabilityCondition t \<noteq> [] \<longrightarrow> gm_lookup owners (tAvailabilityCondition t) = None) \<and>
     (tName t \<noteq> [] \<and> gm_lookup seen (tName t) \<noteq> None \<longrightarrow>
        \<not> declaresAvailability t \<and> \<not> gm_get False seen (tName t))"

lemma validateTargets_iff:
  "validateTargets urlParse i ts (owners, seen) = None \<longleftrightarrow>
     list_all (availability_ok urlParse) ts \<and> sorted_wrt compatible ts \<and> list_all (clearOf owners seen) ts"
proof (induction ts arbitrary: i owners seen)
  case (Cons t ts)
  let ?seen = "if tName t \<noteq> [] then gm_set (tName t) (gm_get False seen (tName t) \<or> declaresAvailability t) seen else seen"
  let ?owners = "if tAvailabilityCondition t = [] then owners
    else gm_set (tAvailabilityCondition t) (targetOwner (tName t)) owners"
  have head: "validateTargets urlParse i (t # ts) (owners, seen) = None \<longleftrightarrow>
      availability_ok urlParse t \<and> clearOf owners seen t \<and>
      validateTargets urlParse (i + 1) ts (?owners, ?seen) = None"
    unfolding validateAvailability_iff [symmetric]
    by (auto simp: clearOf_def Let_def split: option.splits if_splits)
  have tail: "clearOf ?owners ?seen t' \<longleftrightarrow> compatible t t' \<and> clearOf owners seen t'" if "clearOf owners seen t" for t'
    using that by (cases "tName t' = tName t"; cases "tAvailabilityCondition t' = tAvailabilityCondition t")
      (auto simp: clearOf_def compatible_def gm_get_def split: option.splits)
  show ?case
  proof (cases "clearOf owners seen t")
    case True
    show ?thesis
      unfolding head Cons.IH using True by (auto simp: list_all_iff tail)
  qed (unfold head, simp)
qed simp

definition config_ok :: "(string \<Rightarrow> (string \<times> string) option) \<Rightarrow> config \<Rightarrow> bool" where
  "config_ok urlParse c \<longleftrightarrow>
     rules_ok (cfgRules c) \<and>
     list_all (availability_ok urlParse) (cfgScrapeTargets c) \<and> sorted_wrt compatible (cfgScrapeTargets c) \<and>
     (\<forall>t \<in> set (cfgScrapeTargets c). tAvailabilityCondition t \<noteq> [] \<longrightarrow>
        tAvailabilityCondition t \<notin> rConditionType ` set (cfgRules c))"

lemma validate_config_ok: "validate urlParse c = None \<longleftrightarrow> config_ok urlParse c"
proof (cases "validateRules (cfgRules c) ([], [])")
  case (Inl err)
  then have "\<not> rules_ok (cfgRules c)"
    using validateRules_spec(1) [of "[]" "[]" "cfgRules c"] by (simp add: sameKeys_def)
  then show ?thesis using Inl by (simp add: validate_def config_ok_def)
next
  case (Inr owners)
  then have ok: "rules_ok (cfgRules c)"
    using validateRules_spec(1) [of "[]" "[]" "cfgRules c"] by (simp add: sameKeys_def)
  have own: "gm_lookup owners x \<noteq> None \<longleftrightarrow> x \<noteq> [] \<and> x \<in> rConditionType ` set (cfgRules c)" for x
    using validateRules_spec(2) [OF _ Inr] by (simp add: sameKeys_def)
  have "clearOf owners [] t \<longleftrightarrow> (tAvailabilityCondition t \<noteq> [] \<longrightarrow>
      tAvailabilityCondition t \<notin> rConditionType ` set (cfgRules c))" for t
    using own [of "tAvailabilityCondition t"] by (auto simp: clearOf_def)
  then show ?thesis
    using Inr ok by (simp add: validate_def config_ok_def validateTargets_iff list_all_iff)
qed

section \<open>Properties\<close>

text \<open>
  C34. \<open>validate\<close> accepts exactly the consistent configurations: every rule has a complete
  coverage contract or none, a condition is shared only by rules without coverage, a target
  is required exactly when it names an availability condition, such a target has a unique
  name and an absolute http or https URL, and its condition belongs to no other target, to
  no rule and not to Kubernetes.
\<close>

theorem validate_accepts_iff_consistent: "validate urlParse c = None \<longleftrightarrow> config_ok urlParse c"
  by (rule validate_config_ok)

end
