(* ===== verification/Collector.thy ===== *)
theory Collector
  imports Rules_Correct Availability Conditions Collector_Config "HOL-Library.Multiset"
begin

text \<open>
  The collector process (\<open>monitoring/gpu-metrics-collector/cmd/collector/main.go\<close>) and its
  state file (\<open>internal/state/state.go\<close>): one collection cycle, saving, loading, start-up,
  and the runs of the process with failing patches, failing writes and crashes at any
  point. JSON is modelled by what the code relies on: encoding fails exactly on a NaN or
  infinite sample, and decoding an encoded snapshot gives it back.
\<close>

section \<open>The state file\<close>

record snapshot =
  snHistory :: "(string, stateSample list) gomap"
  snPending :: "(string, gotime) gomap"
  snLastStatus :: "(string, string) gomap"
  snAvailability :: "(string, savedAvailability) gomap"
  snSavedAt :: gotime

datatype fileContent = Encoded snapshot | Garbage

record disk =
  dTmp :: "fileContent option"
  dState :: "fileContent option"

text \<open>What the operating system answers during \<open>Save\<close>: success, or the step that fails.\<close>

datatype saveFault = NoFault | MkdirFails string | WriteFails string | RenameFails string

datatype stateError =
    MarshalingState
  | CreatingStateDir string
  | WritingTmpState string
  | RenamingStateFile string
  | ReadingStateFile string

definition marshalSnapshot :: "snapshot \<Rightarrow> fileContent option" where
  "marshalSnapshot snap =
     (if list_all (\<lambda>(k, ss). list_all (\<lambda>s. \<not> isNaN (ssValue s) \<and> \<not> isInf (ssValue s)) ss) (snHistory snap)
      then Some (Encoded snap) else None)"

definition save :: "saveFault \<Rightarrow> gotime \<Rightarrow> snapshot \<Rightarrow> disk \<Rightarrow> disk \<times> stateError option" where
  "save fault now snap d =
     (case marshalSnapshot (snap\<lparr>snSavedAt := now\<rparr>) of
        None \<Rightarrow> (d, Some MarshalingState)
      | Some data \<Rightarrow>
          (case fault of
             MkdirFails err \<Rightarrow> (d, Some (CreatingStateDir err))
           | WriteFails err \<Rightarrow> (d\<lparr>dTmp := Some Garbage\<rparr>, Some (WritingTmpState err))
           | RenameFails err \<Rightarrow> (d\<lparr>dTmp := Some data\<rparr>, Some (RenamingStateFile err))
           | NoFault \<Rightarrow> (d\<lparr>dTmp := None, dState := Some data\<rparr>, None)))"

definition loadState :: "string option \<Rightarrow> gotime \<Rightarrow> duration \<Rightarrow> disk \<Rightarrow> stateError + snapshot option" where
  "loadState readError now maxAge d =
     (case dState d of
        None \<Rightarrow> Inr None
      | Some data \<Rightarrow>
          (case readError of
             Some err \<Rightarrow> Inl (ReadingStateFile err)
           | None \<Rightarrow>
               (case data of
                  Garbage \<Rightarrow> Inr None
                | Encoded snap \<Rightarrow> if time_sub now (snSavedAt snap) > maxAge then Inr None else Inr (Some snap))))"

section \<open>The process\<close>

record collector =
  colEngine :: engine
  colTracker :: tracker
  colWriter :: writer

text \<open>The instants at which the three parts read the clock during one cycle.\<close>

record clocks =
  atEngine :: gotime
  atTracker :: gotime
  atWriter :: gotime

definition collectResults ::
  "(string \<Rightarrow> string) \<Rightarrow> scrapeOutcome list \<Rightarrow> clocks \<Rightarrow> collector \<Rightarrow> engine \<times> tracker \<times> result list" where
  "collectResults safeURL outcomes clk col =
     (let scraped = scrape safeURL outcomes;
          p = evaluate (srMetrics scraped) (atEngine clk) (colEngine col);
          q = trackerEvaluate (srStatuses scraped) (atTracker clk) (colTracker col)
      in (fst p, fst q, snd p @ snd q))"

definition collect ::
  "(string \<Rightarrow> string) \<Rightarrow> (conditionPatch list \<Rightarrow> string option) \<Rightarrow> scrapeOutcome list \<Rightarrow> clocks \<Rightarrow>
     collector \<Rightarrow> collector \<times> writeOutcome" where
  "collect safeURL patchNode outcomes clk col =
     (let (e, t, results) = collectResults safeURL outcomes clk col;
          p = writeConditions patchNode (atWriter clk) results (colWriter col)
      in (\<lparr>colEngine = e, colTracker = t, colWriter = fst p\<rparr>, snd p))"

definition snapshotOf :: "collector \<Rightarrow> snapshot" where
  "snapshotOf col =
     \<lparr>snHistory = fst (exportState (colEngine col)), snPending = snd (exportState (colEngine col)),
      snLastStatus = exportLastStatus (colWriter col), snAvailability = trackerExportState (colTracker col),
      snSavedAt = 0\<rparr>"

definition saveState :: "saveFault \<Rightarrow> gotime \<Rightarrow> collector \<Rightarrow> disk \<Rightarrow> disk" where
  "saveState fault now col d = fst (save fault now (snapshotOf col) d)"

definition freshCollector :: "config \<Rightarrow> nat \<Rightarrow> collector" where
  "freshCollector cfg jitter =
     \<lparr>colEngine = newEngine (cfgRules cfg),
      colTracker = newTracker (cfgScrapeTargets cfg) (ruleConditionTypes cfg), colWriter = newWriter jitter\<rparr>"

definition restoreCollector :: "snapshot \<Rightarrow> gotime \<Rightarrow> collector \<Rightarrow> collector" where
  "restoreCollector snap now col =
     \<lparr>colEngine = restoreState (snHistory snap) (snPending snap) now (colEngine col),
      colTracker = trackerRestoreState (snAvailability snap) (snSavedAt snap) now (colTracker col),
      colWriter = restoreLastStatus (snLastStatus snap) (colWriter col)\<rparr>"

text \<open>The part of \<open>run\<close> before its loop: fresh components, then the state file if usable.\<close>

definition startCollector :: "config \<Rightarrow> nat \<Rightarrow> string option \<Rightarrow> gotime \<Rightarrow> disk \<Rightarrow> collector" where
  "startCollector cfg jitter readError now d =
     (case loadState readError now (30 * minute) d of
        Inl err \<Rightarrow> freshCollector cfg jitter
      | Inr None \<Rightarrow> freshCollector cfg jitter
      | Inr (Some snap) \<Rightarrow> restoreCollector snap now (freshCollector cfg jitter))"

text \<open>A snapshot with well-formed contents, and a disk whose state file is absent or such a snapshot.\<close>

definition snapshot_ok :: "snapshot \<Rightarrow> bool" where
  "snapshot_ok snap \<longleftrightarrow>
     (\<forall>(k, ss) \<in> set (snHistory snap). sorted_wrt (\<lambda>a b. ssTime a < ssTime b) ss \<and>
        (\<forall>s \<in> set ss. \<not> isNaN (ssValue s) \<and> \<not> isInf (ssValue s))) \<and>
     distinct (map fst (snAvailability snap)) \<and>
     (\<forall>(c, s) \<in> set (snAvailability snap). (saFailingSince s = 0 \<or> saHealthySince s = 0) \<and> (saFiring s \<longrightarrow> saEstablished s))"

definition disk_ok :: "disk \<Rightarrow> bool" where
  "disk_ok d \<longleftrightarrow> (case dState d of None \<Rightarrow> True | Some Garbage \<Rightarrow> False | Some (Encoded snap) \<Rightarrow> snapshot_ok snap)"

text \<open>
  The runs of the process: start from any well-formed disk (the state file may stem from
  another configuration), collection cycles with
  one outcome per target in any order, saves with any fault, and restarts from the disk at
  any point (a crash needs no step of its own).
\<close>

inductive collector_reach :: "config \<Rightarrow> (string \<Rightarrow> string) \<Rightarrow> collector \<Rightarrow> disk \<Rightarrow> bool" for cfg safeURL where
  boot: "disk_ok d \<Longrightarrow> collector_reach cfg safeURL (startCollector cfg jitter readError now d) d"
| cycle: "collector_reach cfg safeURL col d \<Longrightarrow> mset (map oTarget outcomes) = mset (cfgScrapeTargets cfg) \<Longrightarrow>
    collector_reach cfg safeURL (fst (collect safeURL patchNode outcomes clk col)) d"
| saved: "collector_reach cfg safeURL col d \<Longrightarrow> collector_reach cfg safeURL col (saveState fault now col d)"
| restart: "collector_reach cfg safeURL col d \<Longrightarrow>
    collector_reach cfg safeURL (startCollector cfg jitter readError now d) d"

section \<open>The invariant\<close>

text \<open>The conditions a tracker answers for: tracked, reserved and orphaned ones are disjoint.\<close>

definition tracker_roles :: "config \<Rightarrow> tracker \<Rightarrow> bool" where
  "tracker_roles cfg t \<longleftrightarrow>
     set (trReserved t) = set (ruleConditionTypes cfg) \<and>
     (\<forall>c. gm_lookup (trStates t) c \<noteq> None \<longleftrightarrow> c \<noteq> [] \<and> c \<in> tAvailabilityCondition ` set (cfgScrapeTargets cfg)) \<and>
     (\<forall>c \<in> set (trOrphans t). gm_lookup (trStates t) c = None \<and> c \<notin> set (trReserved t))"

definition collector_inv :: "config \<Rightarrow> collector \<Rightarrow> bool" where
  "collector_inv cfg col \<longleftrightarrow>
     engine_inv (colEngine col) \<and> eRules (colEngine col) = cfgRules cfg \<and>
     tracker_inv (colTracker col) \<and> tracker_roles cfg (colTracker col)"

lemma snapshotOf_ok: "collector_inv cfg col \<Longrightarrow> snapshot_ok (snapshotOf col)"
proof -
  assume inv: "collector_inv cfg col"
  have a: "(c, s) \<in> set (trackerExportState (colTracker col)) \<Longrightarrow>
      (saFailingSince s = 0 \<or> saHealthySince s = 0) \<and> (saFiring s \<longrightarrow> saEstablished s)" for c s
  proof -
    assume "(c, s) \<in> set (trackerExportState (colTracker col))"
    then obtain st where "(c, st) \<in> set (trStates (colTracker col))" "s = saveTarget st"
      by (auto simp: trackerExportState_def)
    then show ?thesis
      using inv by (auto simp: collector_inv_def tracker_inv_def gm_lookup_in targetState_inv_def saveTarget_def)
  qed
  have h: "\<forall>(k, ss) \<in> set (fst (exportState (colEngine col))). sorted_wrt (\<lambda>a b. ssTime a < ssTime b) ss \<and>
      (\<forall>s \<in> set ss. \<not> isNaN (ssValue s) \<and> \<not> isInf (ssValue s))"
    using inv exportState_sorted [of "colEngine col"] by (auto simp: collector_inv_def)
  have d: "distinct (map fst (trackerExportState (colTracker col)))"
    using inv trackerExport_distinct by (auto simp: collector_inv_def)
  show ?thesis
    unfolding snapshot_ok_def snapshotOf_def using a h d by simp blast
qed

lemma marshal_ok: "snapshot_ok snap \<Longrightarrow> marshalSnapshot (snap\<lparr>snSavedAt := now\<rparr>) = Some (Encoded (snap\<lparr>snSavedAt := now\<rparr>))"
  by (auto simp: marshalSnapshot_def snapshot_ok_def list_all_iff)

lemma save_disk_ok:
  assumes "snapshot_ok snap" "disk_ok d"
  shows "disk_ok (fst (save fault now snap d))"
proof -
  have "snapshot_ok (snap\<lparr>snSavedAt := now\<rparr>)" using assms(1) by (simp add: snapshot_ok_def)
  then show ?thesis
    using assms(2) by (cases fault) (auto simp: save_def marshal_ok [OF assms(1)] disk_ok_def)
qed

section \<open>Tracker roles are kept\<close>

lemma newTracker_roles: "tracker_roles cfg (newTracker (cfgScrapeTargets cfg) (ruleConditionTypes cfg))"
proof -
  let ?f = "\<lambda>t m. if tAvailabilityCondition t = [] then m else gm_set (tAvailabilityCondition t) zeroTargetState m"
  have s: "gm_lookup (fold ?f ts m) c \<noteq> None \<longleftrightarrow> gm_lookup m c \<noteq> None \<or> (c \<noteq> [] \<and> c \<in> tAvailabilityCondition ` set ts)"
    for ts m c
    by (induction ts arbitrary: m) auto
  have r: "set (fold (\<lambda>c s. if c \<noteq> [] then gs_add c s else s) cs acc) = set acc \<union> {c \<in> set cs. c \<noteq> []}" for cs acc
    by (induction cs arbitrary: acc) auto
  show ?thesis
    using s [of "cfgScrapeTargets cfg" "[]"] r [of "ruleConditionTypes cfg" "[]"]
    by (auto simp: tracker_roles_def newTracker_def ruleConditionTypes_def)
qed

lemma trackStatus_roles:
  assumes "tracker_roles cfg (fst acc)" "sTarget status \<in> set (cfgScrapeTargets cfg)"
  shows "tracker_roles cfg (fst (trackStatus now status acc))"
proof -
  let ?c = "tAvailabilityCondition (sTarget status)"
  have "?c \<noteq> [] \<Longrightarrow> gm_lookup (trStates (fst acc)) ?c \<noteq> None"
    using assms unfolding tracker_roles_def by blast
  then have "?c \<noteq> [] \<Longrightarrow> ?c \<notin> set (trOrphans (fst acc))"
    using assms(1) unfolding tracker_roles_def by blast
  then show ?thesis
    using assms by (auto simp: tracker_roles_def trackStatus_def Let_def)
qed

lemma trackStatuses_roles:
  assumes "tracker_roles cfg (fst acc)" "\<forall>s \<in> set statuses. sTarget s \<in> set (cfgScrapeTargets cfg)"
  shows "tracker_roles cfg (fst (fold (trackStatus now) statuses acc))"
  using assms by (induction statuses arbitrary: acc) (simp_all add: trackStatus_roles)

lemma trackerEvaluate_roles:
  assumes "tracker_roles cfg t" "\<forall>s \<in> set statuses. sTarget s \<in> set (cfgScrapeTargets cfg)"
  shows "tracker_roles cfg (fst (trackerEvaluate statuses now t))"
proof -
  have "tracker_roles cfg (fst (fold (trackStatus now) statuses (t, [])))"
    using trackStatuses_roles [of cfg "(t, [])" statuses now] assms by simp
  then show ?thesis by (simp add: trackerEvaluate_def Let_def tracker_roles_def)
qed

lemma restore_roles:
  assumes "tracker_roles cfg t" "distinct (map fst saved)"
  shows "tracker_roles cfg (trackerRestoreState saved savedAt now t)"
proof -
  let ?t = "fold (restoreEntry (restoreGap savedAt now)) saved t"
  have dom: "gm_lookup (trStates ?t) c = None \<longleftrightarrow> gm_lookup (trStates t) c = None" for c
    by (simp add: restoreEntries(1) [OF assms(2)] split: option.split)
  have "trReserved (restoreEntry gap e x) = trReserved x" for gap e x
    by (simp add: restoreEntry_def split: prod.splits option.splits)
  then have r: "trReserved ?t = trReserved t" by (rule fold_frame)
  have "\<forall>c \<in> set (trOrphans ?t). gm_lookup (trStates t) c = None \<and> c \<notin> set (trReserved t)"
    using assms(1) by (auto simp: restoreEntries(2) [OF assms(2)] tracker_roles_def)
  then show ?thesis
    using assms(1) by (simp add: tracker_roles_def trackerRestoreState_def Let_def r dom del: not_None_eq)
qed

lemma restore_tracker_inv:
  assumes "tracker_inv t" "distinct (map fst saved)"
    and "\<forall>(c, s) \<in> set saved. (saFailingSince s = 0 \<or> saHealthySince s = 0) \<and> (saFiring s \<longrightarrow> saEstablished s)"
  shows "tracker_inv (trackerRestoreState saved savedAt now t)"
proof -
  let ?t = "fold (restoreEntry (restoreGap savedAt now)) saved t"
  have "gm_inv (trStates (restoreEntry gap e x))" if "gm_inv (trStates x)" for gap e x
    using that by (simp add: restoreEntry_def split: prod.splits option.splits)
  then have g: "gm_inv (trStates ?t)"
    using assms(1) by (intro fold_invariant [where Q = "\<lambda>_. True" and P = "\<lambda>x. gm_inv (trStates x)"])
      (simp_all add: tracker_inv_def)
  have "targetState_inv st" if "gm_lookup (trStates ?t) c = Some st" for c st
  proof (cases "map_of saved c")
    case None
    then show ?thesis
      using that assms(1) by (auto simp: restoreEntries(1) [OF assms(2)] tracker_inv_def split: option.splits)
  next
    case (Some s)
    then have "(c, s) \<in> set saved" by (rule map_of_SomeD)
    moreover have "st = restoreTarget s (restoreGap savedAt now)"
      using that Some by (auto simp: restoreEntries(1) [OF assms(2)] split: option.splits)
    ultimately show ?thesis
      using assms(3) by (auto simp: restoreTarget_def targetState_inv_def shift_def isZero_def)
  qed
  with g show ?thesis by (simp add: tracker_inv_def trackerRestoreState_def Let_def)
qed

lemma freshCollector_inv: "collector_inv cfg (freshCollector cfg jitter)"
  by (simp add: collector_inv_def freshCollector_def newEngine_inv newEngine_rules newTracker_inv newTracker_roles)

lemma startCollector_inv:
  assumes "disk_ok d"
  shows "collector_inv cfg (startCollector cfg jitter readError now d)"
proof -
  have "collector_inv cfg (restoreCollector snap now col)" if "snapshot_ok snap" "collector_inv cfg col" for snap col
    using that restoreState_engine_inv [of "colEngine col" "snHistory snap" "snPending snap" now]
      restore_roles restore_tracker_inv
    by (fastforce simp: collector_inv_def restoreCollector_def snapshot_ok_def)
  then show ?thesis
    using assms freshCollector_inv
    by (auto simp: startCollector_def loadState_def disk_ok_def split: option.splits fileContent.splits sum.splits)
qed

lemma statuses_targets:
  assumes "mset (map oTarget outcomes) = mset ts"
  shows "mset (map sTarget (srStatuses (scrape safeURL outcomes))) = mset ts"
  using scrape_fold_statuses [of safeURL outcomes "\<lparr>srMetrics = [], srStatuses = []\<rparr>"] assms by (simp add: scrape_def)

lemma collect_inv:
  assumes "collector_inv cfg col" "mset (map oTarget outcomes) = mset (cfgScrapeTargets cfg)"
  shows "collector_inv cfg (fst (collect safeURL patchNode outcomes clk col))"
proof -
  let ?ss = "srStatuses (scrape safeURL outcomes)"
  have "set (map sTarget ?ss) = set (cfgScrapeTargets cfg)"
    using statuses_targets [OF assms(2), of safeURL] by (metis set_mset_mset)
  then have t: "\<forall>s \<in> set ?ss. sTarget s \<in> set (cfgScrapeTargets cfg)" by auto
  show ?thesis
    using assms(1) evaluate_inv evaluate_static trackerEvaluate_inv trackerEvaluate_roles [OF _ t]
    by (auto simp: collect_def collectResults_def collector_inv_def Let_def engine_static_def)
qed

lemma collector_reach_inv: "collector_reach cfg safeURL col d \<Longrightarrow> collector_inv cfg col \<and> disk_ok d"
proof (induction rule: collector_reach.induct)
  case (boot d jitter readError now)
  then show ?case using startCollector_inv by blast
next
  case (cycle col d outcomes patchNode clk)
  then show ?case using collect_inv by blast
next
  case (saved col d fault now)
  then show ?case using save_disk_ok snapshotOf_ok by (auto simp: saveState_def)
next
  case (restart col d jitter readError now)
  then show ?case using startCollector_inv by blast
qed

section \<open>Who publishes a condition\<close>

lemma coverage_rule_single:
  assumes "sorted_wrt shareable rs" "r \<in> set rs" "0 < rMinSamples r" "rConditionType r \<noteq> []"
  shows "length (filter (\<lambda>r'. rConditionType r' = rConditionType r) rs) = 1"
  using assms
proof (induction rs)
  case (Cons a rs)
  show ?case
  proof (cases "rConditionType a = rConditionType r")
    case True
    then have "r \<notin> set rs" using Cons.prems by (auto simp: shareable_def)
    then have "a = r" using Cons.prems(2) by simp
    then have "filter (\<lambda>r'. rConditionType r' = rConditionType r) rs = []"
      using Cons.prems by (fastforce simp: filter_empty_conv shareable_def)
    then show ?thesis using True by simp
  next
    case False
    then show ?thesis using Cons by auto
  qed
qed simp

lemma target_single:
  assumes "sorted_wrt compatible ts" "c \<noteq> []"
  shows "length (filter (\<lambda>t. tAvailabilityCondition t = c) ts) \<le> 1"
  using assms(1)
proof (induction ts)
  case (Cons a ts)
  show ?case
  proof (cases "tAvailabilityCondition a = c")
    case True
    then have "filter (\<lambda>t. tAvailabilityCondition t = c) ts = []"
      using Cons.prems assms(2) by (auto simp: filter_empty_conv compatible_def)
    then show ?thesis by simp
  qed (use Cons in simp)
qed simp

lemma trackStatuses_count:
  assumes "c \<noteq> []"
  shows "length (filter (\<lambda>r. resConditionType r = c) (snd (fold (trackStatus now) ss acc))) \<le>
    length (filter (\<lambda>r. resConditionType r = c) (snd acc)) + length (filter (\<lambda>s. conditionOf s = c) ss)"
proof (induction ss arbitrary: acc)
  case (Cons s ss)
  have "length (filter (\<lambda>r. resConditionType r = c) (snd (trackStatus now s acc))) \<le>
      length (filter (\<lambda>r. resConditionType r = c) (snd acc)) + (if conditionOf s = c then 1 else 0)"
    using assms by (auto simp: trackStatus_def conditionOf_def evaluateTarget_def Let_def split: option.split)
  with Cons.IH [of "trackStatus now s acc"] show ?case by (simp split: if_splits)
qed simp

lemma status_count:
  assumes "mset (map oTarget outcomes) = mset ts"
  shows "length (filter (\<lambda>s. conditionOf s = c) (srStatuses (scrape safeURL outcomes))) =
    length (filter (\<lambda>t. tAvailabilityCondition t = c) ts)"
proof -
  let ?ss = "srStatuses (scrape safeURL outcomes)"
  have "size (filter_mset (\<lambda>t. tAvailabilityCondition t = c) (mset (map sTarget ?ss))) =
      size (filter_mset (\<lambda>t. tAvailabilityCondition t = c) (mset ts))"
    by (simp only: statuses_targets [OF assms])
  then show ?thesis
    by (simp only: mset_filter [symmetric] size_mset filter_map length_map conditionOf_def comp_def)
qed

lemma engine_results_count:
  "length (filter (\<lambda>r. resConditionType r = c) (snd (evaluate ms now e))) =
     length (filter (\<lambda>r. rConditionType r = c) (eRules e))"
proof -
  have count: "length (filter (\<lambda>x. f x = c) xs) = length (filter (\<lambda>y. y = c) (map f xs))" for f :: "'a \<Rightarrow> string" and xs
    by (simp add: filter_map comp_def)
  show ?thesis
    unfolding count [of resConditionType] count [of rConditionType] evaluate_types by (simp add: count [symmetric])
qed

lemma collect_results_types:
  assumes "r \<in> set (snd (snd (collectResults safeURL outcomes clk col)))"
  shows "resConditionType r \<in> rConditionType ` set (eRules (colEngine col)) \<or>
    resConditionType r \<in> tAvailabilityCondition ` oTarget ` set outcomes - {[]} \<or>
    resConditionType r \<in> set (trOrphans (colTracker col))"
proof -
  let ?sc = "scrape safeURL outcomes"
  let ?rs = "snd (fold (trackStatus (atTracker clk)) (srStatuses ?sc) (colTracker col, []))"
  consider "r \<in> set (snd (evaluate (srMetrics ?sc) (atEngine clk) (colEngine col)))"
    | "r \<in> set ?rs" | "r \<in> set (map orphanResult (trOrphans (colTracker col)))"
    using assms by (auto simp: collectResults_def Let_def trackerEvaluate_def trackStatuses_orphans)
  then show ?thesis
  proof cases
    case 1
    then have "resConditionType r \<in> set (map resConditionType (snd (evaluate (srMetrics ?sc) (atEngine clk) (colEngine col))))"
      by simp
    then show ?thesis unfolding evaluate_types by simp
  next
    case 2
    have "\<forall>r \<in> set (snd (fold (trackStatus now) ss acc)). r \<in> set (snd acc) \<or>
        resConditionType r \<in> conditionOf ` set ss - {[]}" for now ss acc
    proof (induction ss arbitrary: acc)
      case (Cons s ss)
      have "\<forall>r \<in> set (snd (trackStatus now s acc)). r \<in> set (snd acc) \<or>
          (resConditionType r = conditionOf s \<and> conditionOf s \<noteq> [])"
        by (auto simp: trackStatus_def evaluateTarget_def conditionOf_def Let_def split: option.splits if_splits)
      then show ?case using Cons.IH [of "trackStatus now s acc"] by fastforce
    qed simp
    from this [of "atTracker clk" "srStatuses ?sc" "(colTracker col, [])"] 2
    have "resConditionType r \<in> conditionOf ` set (srStatuses ?sc) - {[]}" by auto
    moreover have "sTarget ` set (srStatuses ?sc) = oTarget ` set outcomes"
      using arg_cong [OF statuses_targets [OF refl, where outcomes = outcomes and safeURL = safeURL], of set_mset] by simp
    ultimately show ?thesis unfolding conditionOf_def by blast
  qed (auto simp: orphanResult_def)
qed

text \<open>The number of results for one condition in a cycle, when it is not left over.\<close>

lemma collect_count:
  assumes "collector_inv cfg col" "mset (map oTarget outcomes) = mset (cfgScrapeTargets cfg)"
    and "c \<noteq> []" "c \<notin> set (trOrphans (colTracker col))"
  shows "\<exists>n \<le> length (filter (\<lambda>t. tAvailabilityCondition t = c) (cfgScrapeTargets cfg)).
    length (filter (\<lambda>x. resConditionType x = c) (snd (snd (collectResults safeURL outcomes clk col)))) =
      length (filter (\<lambda>r. rConditionType r = c) (cfgRules cfg)) + n"
proof -
  let ?sc = "scrape safeURL outcomes"
  let ?ts = "snd (fold (trackStatus (atTracker clk)) (srStatuses ?sc) (colTracker col, []))"
  have all: "snd (snd (collectResults safeURL outcomes clk col)) =
      snd (evaluate (srMetrics ?sc) (atEngine clk) (colEngine col)) @ ?ts @ map orphanResult (trOrphans (colTracker col))"
    by (simp add: collectResults_def trackerEvaluate_def Let_def trackStatuses_orphans)
  have o: "filter (\<lambda>x. resConditionType x = c) (map orphanResult (trOrphans (colTracker col))) = []"
    using assms(4) by (auto simp: filter_empty_conv orphanResult_def)
  have "length (filter (\<lambda>x. resConditionType x = c) ?ts) \<le>
      length (filter (\<lambda>t. tAvailabilityCondition t = c) (cfgScrapeTargets cfg))"
    using trackStatuses_count [OF assms(3), of "atTracker clk" "srStatuses ?sc" "(colTracker col, [])"]
    by (simp add: status_count [OF assms(2)])
  then show ?thesis
    unfolding all filter_append length_append o engine_results_count
    using assms(1) by (auto simp: collector_inv_def)
qed

lemma config_rule_target_disjoint:
  assumes "config_ok urlParse cfg" "c \<noteq> []" "r \<in> set (cfgRules cfg)" "t \<in> set (cfgScrapeTargets cfg)"
    "tAvailabilityCondition t = c"
  shows "rConditionType r \<noteq> c"
  using assms unfolding config_ok_def by (metis imageI)

text \<open>The collector over a sequence of cycles.\<close>

record cycleInput =
  ciOutcomes :: "scrapeOutcome list"
  ciClocks :: clocks
  ciPatch :: "conditionPatch list \<Rightarrow> string option"

definition runCollector :: "(string \<Rightarrow> string) \<Rightarrow> cycleInput list \<Rightarrow> collector \<Rightarrow> collector" where
  "runCollector safeURL tr col =
     fold (\<lambda>i col. fst (collect safeURL (ciPatch i) (ciOutcomes i) (ciClocks i) col)) tr col"

lemma collect_orphans: "trOrphans (colTracker (fst (collect safeURL p outs clk col))) = []"
  by (simp add: collect_def collectResults_def trackerEvaluate_def Let_def)

lemma collect_rules: "eRules (colEngine (fst (collect safeURL p outs clk col))) = eRules (colEngine col)"
  using evaluate_static by (simp add: collect_def collectResults_def Let_def engine_static_def)

lemma runCollector_keeps:
  assumes "trOrphans (colTracker col) = []"
  shows "trOrphans (colTracker (runCollector safeURL tr col)) = [] \<and>
    eRules (colEngine (runCollector safeURL tr col)) = eRules (colEngine col)"
  using assms by (induction tr arbitrary: col) (simp_all add: runCollector_def collect_orphans collect_rules)

section \<open>Example inputs\<close>

definition exampleConfig :: config where
  "exampleConfig = \<lparr>cfgScrapeTargets = [dcgmTarget], cfgRules = [tempRule]\<rparr>"

definition exampleParse :: "string \<Rightarrow> (string \<times> string) option" where
  "exampleParse url = Some (''http'', ''h'')"

definition exampleOutcome :: scrapeOutcome where
  "exampleOutcome = \<lparr>oTarget = dcgmTarget, oMetrics = [hotMetric], oErr = None\<rparr>"

definition exampleClocks :: clocks where
  "exampleClocks = \<lparr>atEngine = minute, atTracker = minute, atWriter = minute\<rparr>"

definition emptyDisk :: disk where
  "emptyDisk = \<lparr>dTmp = None, dState = None\<rparr>"

definition exampleStart :: collector where
  "exampleStart = startCollector exampleConfig 0 None minute emptyDisk"

lemma exampleStart_reach: "collector_reach exampleConfig id exampleStart emptyDisk"
  unfolding exampleStart_def by (rule collector_reach.boot) (simp add: emptyDisk_def disk_ok_def)

section \<open>Properties\<close>

text \<open>
  C20. Every state the process can reach, through failing patches, failing saves, unreadable
  state files, outcomes in any order and restarts at any point, satisfies the invariants of
  the engine and of the tracker, and the state file is absent or a complete and well formed
  snapshot, never a partial one.
\<close>

theorem collector_reachable_well_formed:
  assumes "collector_reach cfg safeURL col d"
  shows "collector_inv cfg col \<and> disk_ok d"
  by (rule collector_reach_inv [OF assms])

theorem collector_reachable_well_formed_witness:
  "disk_ok (saveState (RenameFails ''io'') minute exampleStart (saveState NoFault minute exampleStart emptyDisk))"
  by (rule conjunct2 [OF collector_reachable_well_formed
        [OF collector_reach.saved [OF collector_reach.saved [OF exampleStart_reach]]]])

text \<open>
  Saving is total and atomic: on every reachable collector the snapshot can be encoded,
  so a save without an operating-system fault succeeds and a load within the maximal age
  returns that very snapshot; a save with a fault leaves the previous state file in place.
\<close>

theorem saveState_atomic_roundtrip:
  assumes "collector_reach cfg safeURL col d"
  shows "loadState None now' maxAge (saveState NoFault now col d) =
      (if time_sub now' now > maxAge then Inr None else Inr (Some ((snapshotOf col)\<lparr>snSavedAt := now\<rparr>))) \<and>
    (fault \<noteq> NoFault \<longrightarrow> dState (saveState fault now col d) = dState d)"
proof -
  have m: "marshalSnapshot ((snapshotOf col)\<lparr>snSavedAt := now\<rparr>) = Some (Encoded ((snapshotOf col)\<lparr>snSavedAt := now\<rparr>))"
    using marshal_ok snapshotOf_ok collector_reach_inv [OF assms] by blast
  show ?thesis
    by (cases fault) (simp_all add: saveState_def save_def loadState_def m)
qed

theorem saveState_atomic_roundtrip_witness:
  "loadState None (2 * minute) (30 * minute) (saveState NoFault minute exampleStart emptyDisk) =
     Inr (Some ((snapshotOf exampleStart)\<lparr>snSavedAt := minute\<rparr>)) \<and>
   dState (saveState (WriteFails ''full'') minute exampleStart emptyDisk) = None"
  using saveState_atomic_roundtrip [OF exampleStart_reach, of "2 * minute" "30 * minute" minute "WriteFails ''full''"]
  by (simp add: emptyDisk_def time_sub_def minute_def second_def)

text \<open>
  C27. With a configuration that passed validation, every condition of a coverage rule is
  published by exactly one result of each cycle, and every availability condition by at
  most one: no rule, target or left-over condition ever overwrites another's verdict.
\<close>

theorem collect_single_owner:
  assumes "validate urlParse cfg = None" "collector_reach cfg safeURL col d"
    and "mset (map oTarget outcomes) = mset (cfgScrapeTargets cfg)"
  shows "(\<forall>r \<in> set (cfgRules cfg). 0 < rMinSamples r \<longrightarrow>
      length (filter (\<lambda>x. resConditionType x = rConditionType r) (snd (snd (collectResults safeURL outcomes clk col)))) = 1) \<and>
    (\<forall>t \<in> set (cfgScrapeTargets cfg). tAvailabilityCondition t \<noteq> [] \<longrightarrow>
      length (filter (\<lambda>x. resConditionType x = tAvailabilityCondition t) (snd (snd (collectResults safeURL outcomes clk col)))) \<le> 1)"
proof (intro conjI ballI impI)
  have cfg: "config_ok urlParse cfg" using assms(1) validate_config_ok by blast
  have inv: "collector_inv cfg col" using collector_reach_inv [OF assms(2)] by blast
  let ?rs = "snd (snd (collectResults safeURL outcomes clk col))"
  show "length (filter (\<lambda>x. resConditionType x = rConditionType r) ?rs) = 1"
    if r: "r \<in> set (cfgRules cfg)" "0 < rMinSamples r" for r
  proof -
    have c: "rConditionType r \<noteq> []" using cfg r by (auto simp: config_ok_def rules_ok_def coverage_ok_def list_all_iff)
    then have "filter (\<lambda>t. tAvailabilityCondition t = rConditionType r) (cfgScrapeTargets cfg) = []"
      using config_rule_target_disjoint [OF cfg c r(1)] by (auto simp: filter_empty_conv)
    moreover have "rConditionType r \<notin> set (trOrphans (colTracker col))"
      using inv r(1) c by (fastforce simp: collector_inv_def tracker_roles_def ruleConditionTypes_def)
    moreover have "length (filter (\<lambda>r'. rConditionType r' = rConditionType r) (cfgRules cfg)) = 1"
      using coverage_rule_single cfg r c by (auto simp: config_ok_def rules_ok_def)
    ultimately show ?thesis
      using collect_count [OF inv assms(3) c, of safeURL clk] by auto
  qed
  show "length (filter (\<lambda>x. resConditionType x = tAvailabilityCondition t) ?rs) \<le> 1"
    if t: "t \<in> set (cfgScrapeTargets cfg)" "tAvailabilityCondition t \<noteq> []" for t
  proof -
    have "tAvailabilityCondition t \<notin> set (trOrphans (colTracker col))"
      using inv t unfolding collector_inv_def tracker_roles_def by blast
    moreover have "filter (\<lambda>r. rConditionType r = tAvailabilityCondition t) (cfgRules cfg) = []"
      using config_rule_target_disjoint [OF cfg t(2) _ t(1)] by (auto simp: filter_empty_conv)
    moreover have "length (filter (\<lambda>t'. tAvailabilityCondition t' = tAvailabilityCondition t) (cfgScrapeTargets cfg)) \<le> 1"
      using target_single cfg t(2) by (auto simp: config_ok_def)
    ultimately show ?thesis
      using collect_count [OF inv assms(3) t(2), of safeURL clk] by auto
  qed
qed

theorem collect_single_owner_witness:
  "length (filter (\<lambda>x. resConditionType x = ''Hot'') (snd (snd (collectResults id [exampleOutcome] exampleClocks exampleStart)))) = 1"
proof -
  have v: "validate exampleParse exampleConfig = None"
    by (simp add: validate_def exampleConfig_def validateCoverage_def tempRule_def validateMetricNames_def
        kubernetesCoreConditionTypes_def validateRequiredValues_def isNaN_def isInf_def declaresAvailability_def
        dcgmTarget_def validateAvailability_def exampleParse_def minute_def second_def)
  have "0 < rMinSamples tempRule" "rConditionType tempRule = ''Hot''" "tempRule \<in> set (cfgRules exampleConfig)"
    by (simp_all add: tempRule_def exampleConfig_def)
  then show ?thesis
    using collect_single_owner [OF v exampleStart_reach, of "[exampleOutcome]" exampleClocks]
    by (fastforce simp: exampleConfig_def exampleOutcome_def)
qed

text \<open>
  C40. The clearing of a condition that is no longer configured is attempted once only. When
  the patch of the first cycle after the restart fails, the condition keeps the status the
  server last acknowledged (True, if it was firing) and no later cycle of the process ever
  publishes it again.
\<close>

theorem orphan_clear_lost_after_failed_patch:
  assumes "collector_reach cfg safeURL col d" "c \<in> set (trOrphans (colTracker col))" "c \<noteq> []"
    and "\<forall>patch. patchNode patch \<noteq> None" "atWriter clk \<noteq> 0"
    and "col' = fst (collect safeURL patchNode outcomes clk col)"
    and "\<forall>i \<in> set (tr @ [j]). mset (map oTarget (ciOutcomes i)) = mset (cfgScrapeTargets cfg)"
  shows "gm_lookup (wLastStatus (colWriter col')) c = gm_lookup (wLastStatus (colWriter col)) c \<and>
    c \<notin> resConditionType ` set (snd (snd (collectResults safeURL (ciOutcomes j) (ciClocks j) (runCollector safeURL tr col'))))"
proof
  have inv: "collector_inv cfg col" using collector_reach_inv [OF assms(1)] by blast
  then have nt: "c \<notin> tAvailabilityCondition ` set (cfgScrapeTargets cfg)" and nr: "c \<notin> rConditionType ` set (cfgRules cfg)"
  proof -
    have n: "gm_lookup (trStates (colTracker col)) c = None" "c \<notin> set (ruleConditionTypes cfg)"
      using inv assms(2) unfolding collector_inv_def tracker_roles_def by blast+
    show "c \<notin> tAvailabilityCondition ` set (cfgScrapeTargets cfg)"
      using inv assms(3) n(1) unfolding collector_inv_def tracker_roles_def by blast
    show "c \<notin> rConditionType ` set (cfgRules cfg)"
      using n(2) assms(3) unfolding ruleConditionTypes_def by auto
  qed
  show "gm_lookup (wLastStatus (colWriter col')) c = gm_lookup (wLastStatus (colWriter col)) c"
  proof -
    have "wLastStatus (fst (writeConditions patchNode (atWriter clk) rs w)) = wLastStatus w" for rs w
    proof -
      obtain err where "patchNode (map (patchOf (atWriter clk) w) rs) = Some err" using assms(4) by blast
      then show ?thesis by (simp add: Let_def writeConditions_cases [OF assms(5)])
    qed
    then show ?thesis by (simp add: assms(6) collect_def case_prod_beta Let_def)
  qed
  let ?col = "runCollector safeURL tr col'"
  have o: "trOrphans (colTracker ?col) = []" and rules: "eRules (colEngine ?col) = cfgRules cfg"
    using runCollector_keeps [of col' safeURL tr] inv
    by (simp_all add: assms(6) collect_orphans collect_rules collector_inv_def)
  have "set (map oTarget (ciOutcomes j)) = set (cfgScrapeTargets cfg)"
    using assms(7) by (intro mset_eq_setD) simp
  then show "c \<notin> resConditionType ` set (snd (snd (collectResults safeURL (ciOutcomes j) (ciClocks j) ?col)))"
    using collect_results_types [of _ safeURL "ciOutcomes j" "ciClocks j" ?col] nt nr o rules by fastforce
qed

text \<open>A disk whose snapshot tracks a condition that the configuration no longer has.\<close>

definition oldSnapshot :: snapshot where
  "oldSnapshot = \<lparr>snHistory = [], snPending = [], snLastStatus = [(''OldDown'', ''True'')],
     snAvailability = [(''OldDown'', \<lparr>saFailingSince = 5, saHealthySince = 0, saFiring = True, saEstablished = True\<rparr>)],
     snSavedAt = minute\<rparr>"

definition oldDisk :: disk where
  "oldDisk = \<lparr>dTmp = None, dState = Some (Encoded oldSnapshot)\<rparr>"

definition oldCollector :: collector where
  "oldCollector = startCollector exampleConfig 0 None (2 * minute) oldDisk"

definition rejectPatch :: "conditionPatch list \<Rightarrow> string option" where
  "rejectPatch patch = Some ''conflict''"

definition exampleCycle :: cycleInput where
  "exampleCycle = \<lparr>ciOutcomes = [exampleOutcome], ciClocks = exampleClocks, ciPatch = acceptPatch\<rparr>"

theorem orphan_clear_lost_after_failed_patch_witness:
  "gm_lookup (wLastStatus (colWriter (fst (collect id rejectPatch [exampleOutcome] exampleClocks oldCollector)))) ''OldDown'' =
     Some ''True'' \<and>
   ''OldDown'' \<notin> resConditionType ` set (snd (snd (collectResults id [exampleOutcome] exampleClocks
     (runCollector id [] (fst (collect id rejectPatch [exampleOutcome] exampleClocks oldCollector))))))"
proof -
  have reach: "collector_reach exampleConfig id oldCollector oldDisk"
    unfolding oldCollector_def
    by (rule collector_reach.boot) (simp add: oldDisk_def oldSnapshot_def disk_ok_def snapshot_ok_def)
  have "loadState None (2 * minute) (30 * minute) oldDisk = Inr (Some oldSnapshot)"
    by (simp add: loadState_def oldDisk_def oldSnapshot_def time_sub_def minute_def second_def)
  then have old: "oldCollector = restoreCollector oldSnapshot (2 * minute) (freshCollector exampleConfig 0)"
    by (simp add: oldCollector_def startCollector_def)
  have o: "''OldDown'' \<in> set (trOrphans (colTracker oldCollector))"
    by (simp add: old restoreCollector_def oldSnapshot_def freshCollector_def exampleConfig_def newTracker_def dcgmTarget_def
        trackerRestoreState_def restoreEntry_def ruleConditionTypes_def tempRule_def gs_add_def)
  have l: "gm_lookup (wLastStatus (colWriter oldCollector)) ''OldDown'' = Some ''True''"
    by (simp add: old restoreCollector_def oldSnapshot_def freshCollector_def restoreLastStatus_def newWriter_def)
  have p: "\<forall>patch. rejectPatch patch \<noteq> None" "atWriter exampleClocks \<noteq> 0"
    by (simp_all add: rejectPatch_def exampleClocks_def minute_def second_def)
  have t: "\<forall>i \<in> set ([] @ [exampleCycle]). mset (map oTarget (ciOutcomes i)) = mset (cfgScrapeTargets exampleConfig)"
    by (simp add: exampleCycle_def exampleOutcome_def exampleConfig_def)
  show ?thesis
    using orphan_clear_lost_after_failed_patch [OF reach o _ p refl t] l by (simp add: exampleCycle_def)
qed

end
