(* ===== verification/Go_Strconv.thy ===== *)
theory Go_Strconv
  imports Go_Prelude
begin

text \<open>
  Texts and numbers of the Go standard library that the metrics scraper and the
  experiment-metrics collector share.
\<close>

text \<open>\<open>strconv.ParseInt(s, 10, 64)\<close>: an optional sign, digits, and the range of an \<open>int64\<close>.\<close>

definition isDigit :: "char \<Rightarrow> bool" where
  "isDigit c \<longleftrightarrow> 48 \<le> (of_char c :: nat) \<and> (of_char c :: nat) \<le> 57"

definition digitsValue :: "string \<Rightarrow> int" where
  "digitsValue ds = foldl (\<lambda>n c. 10 * n + (of_char c - 48)) 0 ds"

definition parseInt64 :: "string \<Rightarrow> int option" where
  "parseInt64 s =
     (let (neg, ds) = (case s of [] \<Rightarrow> (False, [])
                       | c # rest \<Rightarrow> if c = CHR ''-'' then (True, rest)
                                     else if c = CHR ''+'' then (False, rest) else (False, s));
          n = (if neg then - digitsValue ds else digitsValue ds)
      in if ds \<noteq> [] \<and> list_all isDigit ds \<and> int64 n then Some n else None)"

text \<open>\<open>strings.Contains\<close>.\<close>

fun containsText :: "string \<Rightarrow> string \<Rightarrow> bool" where
  "containsText [] p = (p = [])"
| "containsText (c # s) p = (hasPrefix (c # s) p \<or> containsText s p)"

text \<open>\<open>strings.HasSuffix\<close> and \<open>strings.TrimSuffix\<close>, \<open>strings.TrimPrefix\<close>.\<close>

definition hasSuffix :: "string \<Rightarrow> string \<Rightarrow> bool" where
  "hasSuffix s p \<longleftrightarrow> hasPrefix (rev s) (rev p)"

definition trimSuffix :: "string \<Rightarrow> string \<Rightarrow> string" where
  "trimSuffix s p = (if hasSuffix s p then take (length s - length p) s else s)"

definition trimPrefix :: "string \<Rightarrow> string \<Rightarrow> string" where
  "trimPrefix s p = (if hasPrefix s p then drop (length p) s else s)"

lemma hasSuffix_append [simp]: "hasSuffix (s @ p) p"
  by (simp add: hasSuffix_def)

lemma trimSuffix_append [simp]: "trimSuffix (s @ p) p = s"
  by (simp add: trimSuffix_def)

lemma trimPrefix_append [simp]: "trimPrefix (p @ s) p = s"
  by (simp add: trimPrefix_def)

end
