(* ===== verification/Exposition.thy ===== *)
theory Exposition
  imports Scraper Go_Strconv
begin

text \<open>
  The text parser of the metrics scraper (\<open>parseExposition\<close>, \<open>parseLine\<close>, \<open>parseLabels\<close> and
  \<open>unquoteLabel\<close> of \<open>internal/scraper/scraper.go\<close>) over the lines of \<open>bufio.Scanner\<close>. The
  conversion of a number's text, \<open>strconv.ParseFloat\<close>, is the argument \<open>parseFloat\<close>. A writer of
  the text format is defined beside it, and what the parser makes of a written page is proved:
  the metrics come back when no label value holds a comma or a closing brace, and a label value
  with a comma comes back damaged.
\<close>

section \<open>The standard library\<close>

text \<open>\<open>strings.IndexByte\<close>: the first position of a byte, absent where Go answers \<open>-1\<close>.\<close>

fun indexByte :: "string \<Rightarrow> char \<Rightarrow> nat option" where
  "indexByte [] c = None"
| "indexByte (x # xs) c = (if x = c then Some 0 else map_option Suc (indexByte xs c))"

text \<open>\<open>strings.Split\<close> for a one-byte separator.\<close>

fun splitByte :: "string \<Rightarrow> char \<Rightarrow> string list" where
  "splitByte [] c = [[]]"
| "splitByte (x # xs) c =
     (if x = c then [] # splitByte xs c
      else (case splitByte xs c of [] \<Rightarrow> [[x]] | w # ws \<Rightarrow> (x # w) # ws))"

text \<open>\<open>strings.Fields\<close>: the maximal runs without white space.\<close>

definition goFields :: "string \<Rightarrow> string list" where
  "goFields s = filter (\<lambda>w. w \<noteq> []) (splitByte (map (\<lambda>c. if asciiSpace c then CHR '' '' else c) s) (CHR '' ''))"

text \<open>\<open>time.UnixMilli\<close>: the Unix epoch lies \<open>62135596800\<close> seconds after Go's zero time.\<close>

definition unixMilli :: "int \<Rightarrow> gotime" where
  "unixMilli ms = 62135596800 * second + ms * 1000000"

text \<open>
  \<open>bufio.Scanner\<close> with its default split: the lines without their end (newline, or carriage
  return and newline), the last one also without a newline. A line that does not fit the buffer
  together with its newline ends the scan with an error.
\<close>

datatype scanError = TokenTooLong | ReadError string

definition maxScanTokenSize :: nat where
  "maxScanTokenSize = 65536"

definition dropCR :: "string \<Rightarrow> string" where
  "dropCR s = (if s \<noteq> [] \<and> last s = CHR 0x0D then butlast s else s)"

fun scanLines :: "string list \<Rightarrow> string option \<Rightarrow> string list \<times> scanError option" where
  "scanLines [] readErr = ([], map_option ReadError readErr)"
| "scanLines (l # ls) readErr =
     (if maxScanTokenSize \<le> length l then ([], Some TokenTooLong)
      else if ls = [] \<and> l = [] then ([], map_option ReadError readErr)
      else (let (rest, err) = scanLines ls readErr in (dropCR l # rest, err)))"

definition scanText :: "string \<Rightarrow> string option \<Rightarrow> string list \<times> scanError option" where
  "scanText body readErr = scanLines (splitByte body (CHR 0x0A)) readErr"

section \<open>The parser\<close>

text \<open>\<open>strings.NewReplacer\<close> of \<open>unquoteLabel\<close>: one pass from the left over the three escapes.\<close>

fun replaceEscapes :: "string \<Rightarrow> string" where
  "replaceEscapes (c # d # s) =
     (if c = CHR 0x5C \<and> d = CHR 0x22 then CHR 0x22 # replaceEscapes s
      else if c = CHR 0x5C \<and> d = CHR 0x5C then CHR 0x5C # replaceEscapes s
      else if c = CHR 0x5C \<and> d = CHR ''n'' then CHR 0x0A # replaceEscapes s
      else c # replaceEscapes (d # s))"
| "replaceEscapes s = s"

definition unquoteLabel :: "string \<Rightarrow> string" where
  "unquoteLabel s =
     (if 2 \<le> length s \<and> hd s = CHR 0x22 \<and> last s = CHR 0x22 then replaceEscapes (butlast (tl s)) else s)"

definition parsePair :: "string \<Rightarrow> (string, string) gomap \<Rightarrow> (string, string) gomap" where
  "parsePair pair labels =
     (let pair = trimSpace pair in
      case indexByte pair (CHR ''='') of
        None \<Rightarrow> labels
      | Some eq \<Rightarrow> gm_set (take eq pair) (unquoteLabel (drop (eq + 1) pair)) labels)"

definition parseLabels :: "string \<Rightarrow> (string, string) gomap" where
  "parseLabels s = fold parsePair (splitByte s (CHR '','')) gm_empty"

datatype lineError = InvalidLine | MissingValue | ParsingValue | ParsingTimestamp

text \<open>The end of \<open>parseLine\<close>: the value and the optional timestamp after the name and labels.\<close>

definition parseSample ::
  "(string \<Rightarrow> float64 option) \<Rightarrow> string \<Rightarrow> (string, string) gomap \<Rightarrow> string \<Rightarrow> lineError + metric" where
  "parseSample parseFloat name labels line =
     (case goFields line of
        [] \<Rightarrow> Inl MissingValue
      | v # rest \<Rightarrow>
          (case parseFloat v of
             None \<Rightarrow> Inl ParsingValue
           | Some val \<Rightarrow>
               (case rest of
                  [] \<Rightarrow> Inr \<lparr>mName = name, mLabels = labels, mValue = val, mTimestamp = 0\<rparr>
                | t # others \<Rightarrow>
                    (case parseInt64 t of
                       None \<Rightarrow> Inl ParsingTimestamp
                     | Some millis \<Rightarrow>
                         Inr \<lparr>mName = name, mLabels = labels, mValue = val, mTimestamp = unixMilli millis\<rparr>))))"

definition parseLine :: "(string \<Rightarrow> float64 option) \<Rightarrow> string \<Rightarrow> lineError + metric" where
  "parseLine parseFloat line =
     (case (indexByte line (CHR ''{''), indexByte line (CHR ''}'')) of
        (Some i, Some j) \<Rightarrow>
          if i < j
          then parseSample parseFloat (take i line) (parseLabels (take (j - (i + 1)) (drop (i + 1) line)))
                 (trimSpace (drop (j + 1) line))
          else (case goFields line of
                  name # v # vs \<Rightarrow> parseSample parseFloat name gm_empty (join (v # vs) '' '')
                | _ \<Rightarrow> Inl InvalidLine)
      | _ \<Rightarrow> (case goFields line of
                name # v # vs \<Rightarrow> parseSample parseFloat name gm_empty (join (v # vs) '' '')
              | _ \<Rightarrow> Inl InvalidLine))"

text \<open>One turn of the loop of \<open>parseExposition\<close>: blank, comment and malformed lines are skipped.\<close>

definition parseStep :: "(string \<Rightarrow> float64 option) \<Rightarrow> string \<Rightarrow> metric list \<Rightarrow> metric list" where
  "parseStep parseFloat text metrics =
     (let line = trimSpace text in
      if line = [] \<or> hasPrefix line ''#'' then metrics
      else (case parseLine parseFloat line of Inl err \<Rightarrow> metrics | Inr m \<Rightarrow> metrics @ [m]))"

definition parseExposition ::
  "(string \<Rightarrow> float64 option) \<Rightarrow> string \<Rightarrow> string option \<Rightarrow> metric list \<times> scanError option" where
  "parseExposition parseFloat body readErr =
     (let (lines, err) = scanText body readErr in (fold (parseStep parseFloat) lines [], err))"

section \<open>One scrape of a target\<close>

text \<open>
  A parsed URL (\<open>net/url\<close>): the parts \<open>SafeURL\<close> keeps, the text of the credentials when there are
  any, and the query. Parsing and printing are the arguments \<open>parseURL\<close> and \<open>urlString\<close>.
\<close>

record goURL =
  uScheme :: string
  uHost :: string
  uPath :: string
  uUser :: "string option"
  uRawQuery :: string

definition redactedURL :: string where
  "redactedURL = ''<redacted-url>''"

definition safeURLOf ::
  "(string \<Rightarrow> goURL option) \<Rightarrow> (string \<Rightarrow> string \<Rightarrow> string \<Rightarrow> string) \<Rightarrow> string \<Rightarrow> string" where
  "safeURLOf parseURL urlString raw =
     (case parseURL raw of
        None \<Rightarrow> redactedURL
      | Some u \<Rightarrow> if uHost u = [] then redactedURL else urlString (uScheme u) (uHost u) (uPath u))"

text \<open>\<open>strings.ReplaceAll\<close> on ASCII text; an empty \<open>old\<close> matches before every byte and at the end.\<close>

function replaceNonEmpty :: "string \<Rightarrow> string \<Rightarrow> string \<Rightarrow> string" where
  "replaceNonEmpty s old new =
     (if s = [] \<or> old = [] then s
      else if hasPrefix s old then new @ replaceNonEmpty (drop (length old) s) old new
      else hd s # replaceNonEmpty (tl s) old new)"
  by pat_completeness auto
termination
  by (relation "measure (\<lambda>(s, old, new). length s)") auto

declare replaceNonEmpty.simps [simp del]

definition replaceAll :: "string \<Rightarrow> string \<Rightarrow> string \<Rightarrow> string" where
  "replaceAll s old new =
     (if old = [] then concat (map (\<lambda>c. new @ [c]) s) @ new else replaceNonEmpty s old new)"

text \<open>
  \<open>redactError\<close>: \<open>msg\<close> is the text of the error, of the wrapped one when it is a \<open>url.Error\<close>.
\<close>

definition redactError :: "(string \<Rightarrow> goURL option) \<Rightarrow> string \<Rightarrow> string \<Rightarrow> string \<Rightarrow> string" where
  "redactError parseURL msg rawURL safeURL =
     (let msg = (if rawURL \<noteq> [] then replaceAll msg rawURL safeURL else msg);
          msg = (case parseURL rawURL of
                   None \<Rightarrow> msg
                 | Some u \<Rightarrow>
                     (let msg = (case uUser u of None \<Rightarrow> msg | Some user \<Rightarrow> replaceAll msg user ''<redacted>'')
                      in if uRawQuery u \<noteq> [] then replaceAll msg (uRawQuery u) ''<redacted>'' else msg))
      in Scraper.truncate msg maxErrorLength)"

text \<open>
  \<open>scrapeTarget\<close> over the answer of the HTTP client: an error of the request, or a status code
  and a body whose reading may end with an error.
\<close>

datatype httpAnswer = RequestFailed string | Response int string "string option"

definition statusOK :: int where
  "statusOK = 200"

datatype targetError = RequestError string | UnexpectedStatus int | ScanError scanError

definition scrapeTargetAnswer ::
  "(string \<Rightarrow> float64 option) \<Rightarrow> httpAnswer \<Rightarrow> metric list \<times> targetError option" where
  "scrapeTargetAnswer parseFloat answer =
     (case answer of
        RequestFailed err \<Rightarrow> ([], Some (RequestError err))
      | Response code body readErr \<Rightarrow>
          if code \<noteq> statusOK then ([], Some (UnexpectedStatus code))
          else (let (metrics, err) = parseExposition parseFloat body readErr
                in (metrics, map_option ScanError err)))"

text \<open>
  The outcome of one goroutine of \<open>Scrape\<close> with its error redacted; \<open>errText\<close> is the text of the
  innermost error.
\<close>

definition outcomeOf ::
  "(string \<Rightarrow> goURL option) \<Rightarrow> (string \<Rightarrow> string \<Rightarrow> string \<Rightarrow> string) \<Rightarrow> (string \<Rightarrow> float64 option) \<Rightarrow>
     (targetError \<Rightarrow> string) \<Rightarrow> scrapeTarget \<Rightarrow> httpAnswer \<Rightarrow> scrapeOutcome" where
  "outcomeOf parseURL urlString parseFloat errText t answer =
     (let (metrics, err) = scrapeTargetAnswer parseFloat answer
      in \<lparr>oTarget = t, oMetrics = metrics,
          oErr = map_option (\<lambda>e. redactError parseURL (errText e) (tURL t)
                                  (safeURLOf parseURL urlString (tURL t))) err\<rparr>)"

section \<open>A writer of the text format\<close>

definition escapeChar :: "char \<Rightarrow> string" where
  "escapeChar c =
     (if c = CHR 0x5C then [CHR 0x5C, CHR 0x5C] else if c = CHR 0x22 then [CHR 0x5C, CHR 0x22]
      else if c = CHR 0x0A then [CHR 0x5C, CHR ''n''] else [c])"

definition escapeLabel :: "string \<Rightarrow> string" where
  "escapeLabel v = concat (map escapeChar v)"

definition printLabel :: "string \<times> string \<Rightarrow> string" where
  "printLabel p = fst p @ CHR ''='' # CHR 0x22 # escapeLabel (snd p) @ [CHR 0x22]"

text \<open>A sample as an exporter writes it: the value and the optional timestamp are texts.\<close>

record sampleText =
  stName :: string
  stLabels :: "(string \<times> string) list"
  stValue :: string
  stTimestamp :: "string option"

definition printValue :: "sampleText \<Rightarrow> string" where
  "printValue s = stValue s @ (case stTimestamp s of None \<Rightarrow> [] | Some t \<Rightarrow> '' '' @ t)"

definition printSample :: "sampleText \<Rightarrow> string" where
  "printSample s =
     stName s @ (if stLabels s = [] then '' '' else ''{'' @ join (map printLabel (stLabels s)) '','' @ ''} '') @
       printValue s"

definition printPage :: "sampleText list \<Rightarrow> string" where
  "printPage ss = concat (map (\<lambda>s. printSample s @ [CHR 0x0A]) ss)"

definition plainWord :: "string \<Rightarrow> bool" where
  "plainWord w \<longleftrightarrow> w \<noteq> [] \<and> list_all (\<lambda>c. \<not> asciiSpace c \<and> c \<noteq> CHR ''{'' \<and> c \<noteq> CHR ''}'') w"

definition plainLabel :: "string \<times> string \<Rightarrow> bool" where
  "plainLabel p \<longleftrightarrow>
     list_all (\<lambda>c. \<not> asciiSpace c \<and> c \<notin> {CHR '','', CHR ''='', CHR ''}''}) (fst p) \<and>
     list_all (\<lambda>c. c \<notin> {CHR '','', CHR ''}''}) (snd p)"

definition sample_ok :: "(string \<Rightarrow> float64 option) \<Rightarrow> sampleText \<Rightarrow> bool" where
  "sample_ok parseFloat s \<longleftrightarrow>
     plainWord (stName s) \<and> hd (stName s) \<noteq> CHR ''#'' \<and>
     list_all plainLabel (stLabels s) \<and> distinct (map fst (stLabels s)) \<and>
     plainWord (stValue s) \<and> parseFloat (stValue s) \<noteq> None \<and>
     (case stTimestamp s of None \<Rightarrow> True | Some t \<Rightarrow> plainWord t \<and> parseInt64 t \<noteq> None) \<and>
     length (printSample s) < maxScanTokenSize"

definition sampleMetric :: "(string \<Rightarrow> float64 option) \<Rightarrow> sampleText \<Rightarrow> metric" where
  "sampleMetric parseFloat s =
     \<lparr>mName = stName s, mLabels = stLabels s, mValue = the (parseFloat (stValue s)),
      mTimestamp = (case stTimestamp s of None \<Rightarrow> 0 | Some t \<Rightarrow> unixMilli (the (parseInt64 t)))\<rparr>"

section \<open>What the parser makes of a written page\<close>

lemma indexByte_found: "c \<notin> set a \<Longrightarrow> indexByte (a @ c # b) c = Some (length a)"
  by (induction a) auto

lemma indexByte_None: "indexByte s c = None \<longleftrightarrow> c \<notin> set s"
  by (induction s) auto

lemma splitByte_not_Nil [simp]: "splitByte s c \<noteq> []"
  by (induction s) (auto split: list.splits)

lemma splitByte_none: "c \<notin> set s \<Longrightarrow> splitByte s c = [s]"
  by (induction s) auto

lemma splitByte_found: "c \<notin> set a \<Longrightarrow> splitByte (a @ c # b) c = a # splitByte b c"
  by (induction a) auto

lemma splitByte_join:
  "ws \<noteq> [] \<Longrightarrow> list_all (\<lambda>w. c \<notin> set w) ws \<Longrightarrow> splitByte (join ws [c]) c = ws"
proof (induction ws "[c]" rule: join.induct)
  case (3 x y ys)
  then show ?case using splitByte_found [of c x "join (y # ys) [c]"] by simp
qed (auto simp: splitByte_none)

lemma splitByte_lines:
  "list_all (\<lambda>l. c \<notin> set l) ls \<Longrightarrow> splitByte (concat (map (\<lambda>l. l @ [c]) ls)) c = ls @ [[]]"
  by (induction ls) (auto simp: splitByte_found)

lemma map_space_id: "list_all (\<lambda>c. \<not> asciiSpace c) w \<Longrightarrow> map (\<lambda>c. if asciiSpace c then CHR '' '' else c) w = w"
  by (induction w) auto

lemma space_asciiSpace [simp]: "asciiSpace (CHR '' '')"
  by (simp add: asciiSpace_def)

lemma newline_asciiSpace [simp]: "asciiSpace (CHR 0x0A)"
  by (simp add: asciiSpace_def)

lemma no_space_in: "list_all (\<lambda>c. \<not> asciiSpace c) w \<Longrightarrow> CHR '' '' \<notin> set w"
  using space_asciiSpace by (auto simp: list_all_iff)

lemma fields_word:
  "w \<noteq> [] \<Longrightarrow> list_all (\<lambda>c. \<not> asciiSpace c) w \<Longrightarrow> goFields w = [w]"
  by (simp add: goFields_def map_space_id no_space_in splitByte_none)

lemma fields_Cons:
  "w \<noteq> [] \<Longrightarrow> list_all (\<lambda>c. \<not> asciiSpace c) w \<Longrightarrow> goFields (w @ CHR '' '' # s) = w # goFields s"
  by (simp add: goFields_def map_space_id no_space_in splitByte_found)

lemma replaceEscapes_plain: "c \<noteq> CHR 0x5C \<Longrightarrow> replaceEscapes (c # s) = c # replaceEscapes s"
  by (cases s) auto

lemma replaceEscapes_escape: "replaceEscapes (escapeLabel v) = v"
  by (induction v) (auto simp: escapeLabel_def escapeChar_def replaceEscapes_plain)

lemma unquoteLabel_quoted: "unquoteLabel (CHR 0x22 # escapeLabel v @ [CHR 0x22]) = v"
  by (simp add: unquoteLabel_def replaceEscapes_escape)

lemma set_escapeLabel: "set (escapeLabel v) \<subseteq> set v \<union> {CHR 0x5C, CHR 0x22, CHR ''n''}"
  by (auto simp: escapeLabel_def escapeChar_def)

lemma escapeLabel_newline: "CHR 0x0A \<notin> set (escapeLabel v)"
  by (auto simp: escapeLabel_def escapeChar_def)

text \<open>Trimming leaves a text alone whose first and last bytes are not white space.\<close>

lemma trimSpace_id: "s \<noteq> [] \<Longrightarrow> \<not> asciiSpace (hd s) \<Longrightarrow> \<not> asciiSpace (last s) \<Longrightarrow> trimSpace s = s"
  by (simp add: trimSpace_def dropWhile_eq_self_iff [THEN iffD2] hd_rev)

lemma trimSpace_lead: "asciiSpace c \<Longrightarrow> trimSpace (c # s) = trimSpace s"
  by (simp add: trimSpace_def)

lemma parsePair_print:
  assumes "plainLabel p"
  shows "parsePair (printLabel p) labels = gm_set (fst p) (snd p) labels"
proof -
  obtain k v where p: "p = (k, v)" by (cases p)
  have k: "CHR ''='' \<notin> set k" "list_all (\<lambda>c. \<not> asciiSpace c) k"
    using assms by (auto simp: p plainLabel_def list_all_iff)
  have "trimSpace (printLabel p) = printLabel p"
    using k(2) by (intro trimSpace_id) (cases k; auto simp: p printLabel_def asciiSpace_def)+
  then show ?thesis
    using k(1) indexByte_found [of "CHR ''=''" k] unquoteLabel_quoted [of v]
    by (simp add: parsePair_def p printLabel_def)
qed

lemma escapeLabel_avoids: "c \<notin> set v \<Longrightarrow> c \<notin> {CHR 0x5C, CHR 0x22, CHR ''n''} \<Longrightarrow> c \<notin> set (escapeLabel v)"
  using set_escapeLabel [of v] by blast

lemma plainLabelD:
  assumes "plainLabel p"
  shows "CHR '','' \<notin> set (fst p)" "CHR ''}'' \<notin> set (fst p)" "CHR 0x0A \<notin> set (fst p)"
    "CHR '','' \<notin> set (snd p)" "CHR ''}'' \<notin> set (snd p)"
proof -
  have k: "\<forall>c \<in> set (fst p). \<not> asciiSpace c \<and> c \<notin> {CHR '','', CHR ''='', CHR ''}''}"
    and v: "\<forall>c \<in> set (snd p). c \<notin> {CHR '','', CHR ''}''}"
    using assms by (simp_all add: plainLabel_def list_all_iff)
  show "CHR '','' \<notin> set (fst p)" "CHR ''}'' \<notin> set (fst p)" using k by blast+
  show "CHR 0x0A \<notin> set (fst p)" using k newline_asciiSpace by blast
  show "CHR '','' \<notin> set (snd p)" "CHR ''}'' \<notin> set (snd p)" using v by blast+
qed

lemma printLabel_no_comma: "plainLabel p \<Longrightarrow> CHR '','' \<notin> set (printLabel p)"
  by (simp add: printLabel_def plainLabelD escapeLabel_avoids)

lemma printLabel_no_brace: "plainLabel p \<Longrightarrow> CHR ''}'' \<notin> set (printLabel p)"
  by (simp add: printLabel_def plainLabelD escapeLabel_avoids)

lemma printLabel_no_newline: "plainLabel p \<Longrightarrow> CHR 0x0A \<notin> set (printLabel p)"
  by (simp add: printLabel_def plainLabelD escapeLabel_newline)

lemma set_join: "set (join ws sep) \<subseteq> (\<Union>w \<in> set ws. set w) \<union> set sep"
  by (induction ws sep rule: join.induct) auto

lemma gm_set_fresh: "k \<notin> fst ` set m \<Longrightarrow> gm_set k v m = m @ [(k, v)]"
  by (induction m) auto

lemma fold_parsePair:
  assumes "list_all plainLabel ps" and "distinct (map fst (acc @ ps))"
  shows "fold parsePair (map printLabel ps) acc = acc @ ps"
  using assms
proof (induction ps arbitrary: acc)
  case (Cons p ps)
  have "parsePair (printLabel p) acc = acc @ [p]"
    using Cons.prems by (simp add: parsePair_print gm_set_fresh)
  then show ?case using Cons.IH [of "acc @ [p]"] Cons.prems by simp
qed simp

lemma parseLabels_print:
  assumes "ps \<noteq> []" and "list_all plainLabel ps" and "distinct (map fst ps)"
  shows "parseLabels (join (map printLabel ps) '','') = ps"
proof -
  have "list_all (\<lambda>w. CHR '','' \<notin> set w) (map printLabel ps)"
    using assms(2) printLabel_no_comma by (auto simp: list_all_iff)
  then show ?thesis
    using assms fold_parsePair [of ps "[]"] by (simp add: parseLabels_def splitByte_join gm_empty_def)
qed

lemma plainWordD:
  assumes "plainWord w"
  shows "w \<noteq> []" "list_all (\<lambda>c. \<not> asciiSpace c) w" "CHR ''{'' \<notin> set w" "CHR ''}'' \<notin> set w"
    "CHR 0x0A \<notin> set w" "\<not> asciiSpace (hd w)" "\<not> asciiSpace (last w)"
  using assms by (auto simp: plainWord_def list_all_iff asciiSpace_def)

lemma parseSample_print:
  assumes "sample_ok pf s"
  shows "parseSample pf name labels (printValue s) =
    Inr \<lparr>mName = name, mLabels = labels, mValue = mValue (sampleMetric pf s), mTimestamp = mTimestamp (sampleMetric pf s)\<rparr>"
  using assms plainWordD(1,2)
  by (auto simp: sample_ok_def parseSample_def printValue_def sampleMetric_def fields_word fields_Cons
      split: option.splits)

lemma fields_printValue: "sample_ok pf s \<Longrightarrow>
    goFields (printValue s) = stValue s # (case stTimestamp s of None \<Rightarrow> [] | Some t \<Rightarrow> [t])"
  using plainWordD(1,2)
  by (auto simp: sample_ok_def printValue_def fields_word fields_Cons split: option.splits)

lemma join_printValue: "join (stValue s # (case stTimestamp s of None \<Rightarrow> [] | Some t \<Rightarrow> [t])) '' '' = printValue s"
  by (simp add: printValue_def split: option.splits)

lemma printValue_no_brace: "sample_ok pf s \<Longrightarrow> CHR ''{'' \<notin> set (printValue s)"
  using plainWordD(3) by (auto simp: sample_ok_def printValue_def split: option.splits)

lemma printValue_ends: "sample_ok pf s \<Longrightarrow>
    printValue s \<noteq> [] \<and> \<not> asciiSpace (hd (printValue s)) \<and> \<not> asciiSpace (last (printValue s)) \<and> CHR 0x0A \<notin> set (printValue s)"
  using plainWordD(1,5,6,7) by (auto simp: sample_ok_def printValue_def split: option.splits)

lemma parseLine_print:
  assumes ok: "sample_ok pf s"
  shows "parseLine pf (printSample s) = Inr (sampleMetric pf s)"
proof -
  have name: "plainWord (stName s)" using ok by (simp add: sample_ok_def)
  note nm = plainWordD [OF name]
  show ?thesis
  proof (cases "stLabels s = []")
    case True
    have line: "printSample s = stName s @ CHR '' '' # printValue s" by (simp add: printSample_def True)
    have "indexByte (printSample s) (CHR ''{'') = None"
      using nm(3) printValue_no_brace [OF ok] by (simp add: line indexByte_None)
    then have "parseLine pf (printSample s) =
        parseSample pf (stName s) gm_empty (join (goFields (printValue s)) '' '')"
      using fields_printValue [OF ok]
      by (simp add: parseLine_def line fields_Cons [OF nm(1,2)] split: option.splits)
    then show ?thesis
      using parseSample_print [OF ok] True
      by (simp add: fields_printValue [OF ok] join_printValue sampleMetric_def gm_empty_def)
  next
    case False
    define body where "body = join (map printLabel (stLabels s)) '',''"
    have line: "printSample s = stName s @ CHR ''{'' # body @ CHR ''}'' # CHR '' '' # printValue s"
      by (simp add: printSample_def False body_def)
    have labels: "list_all plainLabel (stLabels s)" "distinct (map fst (stLabels s))"
      using ok by (auto simp: sample_ok_def)
    have body: "CHR ''}'' \<notin> set body"
      using set_join [of "map printLabel (stLabels s)" "'',''"] labels(1) printLabel_no_brace
      by (auto simp: body_def list_all_iff)
    have i: "indexByte (printSample s) (CHR ''{'') = Some (length (stName s))"
      unfolding line by (rule indexByte_found [OF nm(3)])
    have j: "indexByte (printSample s) (CHR ''}'') = Some (length (stName s @ CHR ''{'' # body))"
      using indexByte_found [of "CHR ''}''" "stName s @ CHR ''{'' # body"] nm(4) body by (simp add: line)
    have trim: "trimSpace (CHR '' '' # printValue s) = printValue s"
      using printValue_ends [OF ok] by (simp add: trimSpace_lead trimSpace_id)
    have "parseLine pf (printSample s) = parseSample pf (stName s) (parseLabels body) (printValue s)"
      using trim by (simp add: parseLine_def i j) (simp add: line)
    then show ?thesis
      using parseSample_print [OF ok] parseLabels_print [OF False labels]
      by (simp add: body_def sampleMetric_def)
  qed
qed

lemma printSample_line:
  assumes ok: "sample_ok pf s"
  shows "CHR 0x0A \<notin> set (printSample s)" "trimSpace (printSample s) = printSample s"
    "dropCR (printSample s) = printSample s" "printSample s \<noteq> []" "\<not> hasPrefix (printSample s) ''#''"
    "length (printSample s) < maxScanTokenSize"
proof -
  have name: "plainWord (stName s)" "hd (stName s) \<noteq> CHR ''#''" using ok by (auto simp: sample_ok_def)
  note nm = plainWordD [OF name(1)] and v = printValue_ends [OF ok]
  have ends: "hd (printSample s) = hd (stName s)" "last (printSample s) = last (printValue s)"
    using nm(1) v by (auto simp: printSample_def)
  have labels: "CHR 0x0A \<notin> set (join (map printLabel (stLabels s)) '','')"
    using set_join [of "map printLabel (stLabels s)" "'',''"] ok printLabel_no_newline
    by (auto simp: sample_ok_def list_all_iff)
  show "CHR 0x0A \<notin> set (printSample s)"
    using nm(5) v labels by (auto simp: printSample_def)
  show ne: "printSample s \<noteq> []" using nm(1) by (simp add: printSample_def)
  show "trimSpace (printSample s) = printSample s"
    using ne nm(6) v ends by (intro trimSpace_id) auto
  show "dropCR (printSample s) = printSample s"
    using v ends by (auto simp: dropCR_def asciiSpace_def)
  show "\<not> hasPrefix (printSample s) ''#''"
    using ne ends(1) name(2) by (cases "printSample s") (auto simp: hasPrefix_def)
  show "length (printSample s) < maxScanTokenSize" using ok by (simp add: sample_ok_def)
qed

lemma scanLines_page:
  assumes "list_all (\<lambda>l. l \<noteq> [] \<and> dropCR l = l \<and> length l < maxScanTokenSize) ls"
  shows "scanLines (ls @ [[]]) err = (ls, map_option ReadError err)"
  using assms by (induction ls) (auto simp: maxScanTokenSize_def)

lemma fold_parseStep:
  "list_all (sample_ok pf) ss \<Longrightarrow>
     fold (parseStep pf) (map printSample ss) acc = acc @ map (sampleMetric pf) ss"
  by (induction ss arbitrary: acc)
    (auto simp: parseStep_def Let_def printSample_line parseLine_print)

text \<open>
  C22. A page of samples written in the text format is read back by the scraper exactly: the
  same metrics in the same order with their names, labels (escapes undone), values and
  timestamps, and no error, when names and numbers are words without spaces or braces, no name
  starts with a hash sign, the label keys of a sample are distinct and free of spaces, commas,
  equal signs and closing braces, no label value holds a comma or a closing brace and every line
  fits the scanner's buffer. Label values with a comma or a closing brace are damaged.
\<close>

theorem exposition_roundtrip:
  assumes "list_all (sample_ok parseFloat) ss"
  shows "scrapeTargetAnswer parseFloat (Response statusOK (printPage ss) None) = (map (sampleMetric parseFloat) ss, None)"
proof -
  have lines: "list_all (\<lambda>l. l \<noteq> [] \<and> dropCR l = l \<and> length l < maxScanTokenSize) (map printSample ss)"
    "list_all (\<lambda>l. CHR 0x0A \<notin> set l) (map printSample ss)"
    using assms printSample_line by (auto simp: list_all_iff)
  have "splitByte (printPage ss) (CHR 0x0A) = map printSample ss @ [[]]"
    using splitByte_lines [OF lines(2)] by (simp add: printPage_def comp_def)
  then show ?thesis
    using fold_parseStep [OF assms, of "[]"]
    by (simp add: scrapeTargetAnswer_def parseExposition_def scanText_def scanLines_page [OF lines(1)])
qed

definition example_samples :: "sampleText list" where
  "example_samples =
     [\<lparr>stName = ''gpu_temp'', stLabels = [(''gpu'', ''0''), (''model'', [CHR ''a'', CHR 0x22, CHR '' '', CHR 0x5C, CHR ''n''])],
       stValue = ''1'', stTimestamp = Some ''1500''\<rparr>,
      \<lparr>stName = ''up'', stLabels = [], stValue = ''1'', stTimestamp = None\<rparr>]"

theorem exposition_roundtrip_witness:
  "scrapeTargetAnswer (\<lambda>w. if w = ''1'' then Some (Fin 1) else None) (Response statusOK (printPage example_samples) None) =
     (map (sampleMetric (\<lambda>w. if w = ''1'' then Some (Fin 1) else None)) example_samples, None)"
  by (rule exposition_roundtrip)
    (simp add: example_samples_def sample_ok_def plainWord_def plainLabel_def asciiSpace_def parseInt64_def
      isDigit_def digitsValue_def int64_def printSample_def printLabel_def escapeLabel_def escapeChar_def
      printValue_def maxScanTokenSize_def)

text \<open>
  A label value with a comma, legal in the text format, does not survive: the parser cuts
  the pair at the comma, keeps the opening quote in what is left of the value and drops the rest.
\<close>

theorem label_comma_damaged:
  "parseLine (\<lambda>w. Some (Fin 1)) (printSample \<lparr>stName = ''m'', stLabels = [(''k'', ''a,b'')], stValue = ''1'', stTimestamp = None\<rparr>) =
     Inr \<lparr>mName = ''m'', mLabels = [(''k'', CHR 0x22 # ''a'')], mValue = Fin 1, mTimestamp = 0\<rparr>"
  by (simp add: printSample_def printLabel_def escapeLabel_def escapeChar_def printValue_def parseLine_def
      parseLabels_def parsePair_def parseSample_def goFields_def trimSpace_def asciiSpace_def unquoteLabel_def
      gm_empty_def)

end
