(* ===== verification/Kube_Object.thy ===== *)
theory Kube_Object
  imports Go_Prelude
begin

text \<open>
  What the tau-core controller (\<open>controllers/tau-core/internal/controller\<close>) uses of
  Kubernetes: unstructured objects as JSON trees with their metadata, the accessors and the
  quantity arithmetic of \<open>k8s.io/apimachinery\<close>, and the errors.

  \<^item> An error is a value of \<open>kerr\<close>: the text of the format with its arguments
    (\<open>Errorf\<close>, \<open>Wrapped\<close> for \<open>%w\<close>), or an error of the API server.
  \<^item> A \<open>resource.Quantity\<close> is a value of a type variable in the class of ordered abelian
    groups: \<open>Add\<close>, \<open>Sub\<close>, \<open>Cmp\<close> and \<open>Sign\<close> are the group and order operations.
  \<^item> Parsing and printing quantities, the nested accessors, JSON encoding of a string list
    and the hash of a name are the fields of \<open>kube\<close>; \<open>kube_laws\<close> states what their
    documentation promises.
\<close>

section \<open>Errors\<close>

datatype kerr =
    NotFound string
  | AlreadyExists string
  | NoMatch string  \<comment> \<open>the server does not know the kind\<close>
  | ApiFault string
  | Errorf string "string list"
  | Wrapped string "string list" kerr
  | Joined kerr kerr

fun isNotFound :: "kerr \<Rightarrow> bool" where
  "isNotFound (NotFound _) = True"
| "isNotFound (Wrapped _ _ e) = isNotFound e"
| "isNotFound (Joined a b) = (isNotFound a \<or> isNotFound b)"
| "isNotFound _ = False"

fun isAlreadyExists :: "kerr \<Rightarrow> bool" where
  "isAlreadyExists (AlreadyExists _) = True"
| "isAlreadyExists (Wrapped _ _ e) = isAlreadyExists e"
| "isAlreadyExists (Joined a b) = (isAlreadyExists a \<or> isAlreadyExists b)"
| "isAlreadyExists _ = False"

fun isNoMatchError :: "kerr \<Rightarrow> bool" where
  "isNoMatchError (NoMatch _) = True"
| "isNoMatchError (Wrapped _ _ e) = isNoMatchError e"
| "isNoMatchError (Joined a b) = (isNoMatchError a \<or> isNoMatchError b)"
| "isNoMatchError _ = False"

text \<open>\<open>errors.Is\<close> with a sentinel error.\<close>

fun errorIs :: "kerr \<Rightarrow> kerr \<Rightarrow> bool" where
  "errorIs (Wrapped t args e) target = (Wrapped t args e = target \<or> errorIs e target)"
| "errorIs (Joined a b) target = (Joined a b = target \<or> errorIs a target \<or> errorIs b target)"
| "errorIs e target = (e = target)"

type_synonym 'a res = "kerr + 'a"

definition bindE :: "'a res \<Rightarrow> ('a \<Rightarrow> 'b res) \<Rightarrow> 'b res" where
  "bindE x f = (case x of Inl e \<Rightarrow> Inl e | Inr v \<Rightarrow> f v)"

text \<open>A loop over a slice whose body may return an error.\<close>

fun foldE :: "('a \<Rightarrow> 's \<Rightarrow> 's res) \<Rightarrow> 'a list \<Rightarrow> 's \<Rightarrow> 's res" where
  "foldE f [] s = Inr s"
| "foldE f (x # xs) s = bindE (f x s) (foldE f xs)"

definition mapErr :: "(kerr \<Rightarrow> kerr) \<Rightarrow> 'a res \<Rightarrow> 'a res" where
  "mapErr g x = (case x of Inl e \<Rightarrow> Inl (g e) | Inr v \<Rightarrow> Inr v)"

lemma bindE_simps [simp]: "bindE (Inl e) f = Inl e" "bindE (Inr v) f = f v"
  by (simp_all add: bindE_def)

lemma bindE_Inr_iff: "bindE x f = Inr v \<longleftrightarrow> (\<exists>u. x = Inr u \<and> f u = Inr v)"
  by (cases x) auto

lemma mapErr_Inr_iff [simp]: "mapErr g x = Inr v \<longleftrightarrow> x = Inr v"
  by (cases x) (auto simp: mapErr_def)

lemma mapErr_Inr [simp]: "mapErr g (Inr v) = Inr v"
  by (simp add: mapErr_def)

lemma foldE_append: "foldE f (xs @ ys) s = bindE (foldE f xs s) (foldE f ys)"
proof (induction xs arbitrary: s)
  case (Cons x xs)
  then show ?case by (cases "f x s") auto
qed simp

lemma foldE_invariant:
  assumes "foldE f xs s = Inr t" "P s" "\<And>x u v. x \<in> set xs \<Longrightarrow> P u \<Longrightarrow> f x u = Inr v \<Longrightarrow> P v"
  shows "P t"
  using assms
proof (induction xs arbitrary: s)
  case (Cons x xs)
  then obtain u where "f x s = Inr u" "foldE f xs u = Inr t" by (auto simp: bindE_Inr_iff)
  then show ?case using Cons.IH [of u] Cons.prems by auto
qed simp

text \<open>A loop that only checks: it passes when no element is refused.\<close>

lemma foldE_check: "foldE f xs () = Inr () \<longleftrightarrow> (\<forall>x \<in> set xs. f x () = Inr ())"
  by (induction xs) (auto simp: bindE_Inr_iff)

lemma guardLoop:
  assumes "foldE body xs () = Inr ()" "\<And>x. P x \<Longrightarrow> \<exists>e. body x () = Inl e"
  shows "\<forall>x \<in> set xs. \<not> P x"
  using assms(1)
proof (induction xs)
  case (Cons x xs)
  then obtain u :: unit where "body x () = Inr u" "foldE body xs u = Inr ()" by (auto simp: bindE_Inr_iff)
  then show ?case using Cons.IH assms(2) [of x] by auto
qed simp

section \<open>JSON values and unstructured objects\<close>

datatype json =
    JNull
  | JBool bool
  | JInt int
  | JFloat string  \<comment> \<open>by the text \<open>fmt\<close> prints for it\<close>
  | JString string
  | JList "json list"
  | JMap "(string \<times> json) list"

type_synonym jobject = "(string, json) gomap"

text \<open>\<open>fmt.Sprint\<close> of a JSON value.\<close>

function showNat :: "nat \<Rightarrow> string" where
  "showNat n = (if n < 10 then [char_of (48 + n)] else showNat (n div 10) @ [char_of (48 + n mod 10)])"
  by pat_completeness auto
termination
  by (relation "measure id") auto

declare showNat.simps [simp del]

definition showInt :: "int \<Rightarrow> string" where
  "showInt i = (if i < 0 then CHR ''-'' # showNat (nat (- i)) else showNat (nat i))"

fun sprint :: "json \<Rightarrow> string" where
  "sprint JNull = ''<nil>''"
| "sprint (JBool b) = (if b then ''true'' else ''false'')"
| "sprint (JInt i) = showInt i"
| "sprint (JFloat s) = s"
| "sprint (JString s) = s"
| "sprint (JList xs) = ''['' @ join (map sprint xs) '' '' @ '']''"
| "sprint (JMap m) =
     ''map['' @ join (map (\<lambda>(k, v). k @ '':'' @ v) (sort_key fst (map (\<lambda>(k, v). (k, sprint v)) m))) '' '' @ '']''"

text \<open>
  \<open>unstructured.Unstructured\<close>: the metadata the controller reads and writes, and the rest
  of the object as a JSON map (\<open>spec\<close>, \<open>status\<close>).
\<close>

record kobj =
  oKind :: string
  oName :: string
  oNamespace :: string
  oUID :: string
  oLabels :: "(string, string) gomap"
  oAnnotations :: "(string, string) gomap"
  oObject :: jobject

definition asMap :: "json \<Rightarrow> jobject option" where
  "asMap v = (case v of JMap m \<Rightarrow> Some m | _ \<Rightarrow> None)"

lemma asMap_simps [simp]: "asMap (JMap m) = Some m"
  by (simp add: asMap_def)

section \<open>Third-party operations\<close>

record 'q kube =
  kParseQuantity :: "string \<Rightarrow> 'q res"
  kQuantityString :: "'q \<Rightarrow> string"
  kNestedSlice :: "jobject \<Rightarrow> string list \<Rightarrow> (json list option) res"
  kNestedString :: "jobject \<Rightarrow> string list \<Rightarrow> (string option) res"
  kEncodeKeys :: "string list \<Rightarrow> string"
  kDecodeKeys :: "string \<Rightarrow> (string list) res"
  kHash6 :: "string \<Rightarrow> string"
  kNestedField :: "jobject \<Rightarrow> string list \<Rightarrow> (json option) res"
  kNestedMap :: "jobject \<Rightarrow> string list \<Rightarrow> (jobject option) res"
  kSetNestedField :: "jobject \<Rightarrow> json \<Rightarrow> string list \<Rightarrow> jobject res"
  kNestedStringMap :: "jobject \<Rightarrow> string list \<Rightarrow> ((string, string) gomap option) res"
  kRemoveNestedField :: "jobject \<Rightarrow> string list \<Rightarrow> jobject"
  kSelectorMatches :: "(string, string) gomap \<Rightarrow> (string, string) gomap \<Rightarrow> bool"
  kLabelSelector :: "jobject \<Rightarrow> ((string, string) gomap \<Rightarrow> bool) res"  \<comment> \<open>conversion and \<open>LabelSelectorAsSelector\<close>\<close>
  kHash8 :: "string \<Rightarrow> string"
  kIsQualifiedName :: "string \<Rightarrow> string list"  \<comment> \<open>the problems found\<close>
  kIsValidLabelValue :: "string \<Rightarrow> string list"
  kIsDNS1123Label :: "string \<Rightarrow> string list"
  kIsDNS1123Subdomain :: "string \<Rightarrow> string list"

text \<open>The walk along the fields of a nested accessor.\<close>

fun nestedField :: "json \<Rightarrow> string list \<Rightarrow> (json option) option" where
  "nestedField v [] = Some (Some v)"
| "nestedField (JMap m) (f # fs) =
     (case gm_lookup m f of None \<Rightarrow> Some None | Some v \<Rightarrow> nestedField v fs)"
| "nestedField JNull (f # fs) = Some None"
| "nestedField _ (f # fs) = None"

text \<open>
  The assignment at a path: missing maps on the way are created, a value that is not a map
  stops it.
\<close>

fun setNested :: "jobject \<Rightarrow> json \<Rightarrow> string list \<Rightarrow> jobject option" where
  "setNested m v [] = None"
| "setNested m v [f] = Some (gm_set f v m)"
| "setNested m v (f # g # fs) =
     (case gm_lookup m f of
        None \<Rightarrow> map_option (\<lambda>s. gm_set f (JMap s) m) (setNested [] v (g # fs))
      | Some (JMap s) \<Rightarrow> map_option (\<lambda>s'. gm_set f (JMap s') m) (setNested s v (g # fs))
      | Some _ \<Rightarrow> None)"

text \<open>\<open>reflect.DeepEqual\<close> on JSON values: maps are compared without regard to order.\<close>

fun jnorm :: "json \<Rightarrow> json" where
  "jnorm (JList xs) = JList (map jnorm xs)"
| "jnorm (JMap m) = JMap (sort_key fst (map (\<lambda>(k, v). (k, jnorm v)) m))"
| "jnorm v = v"

definition mapsEqual :: "(string, string) gomap \<Rightarrow> (string, string) gomap \<Rightarrow> bool" where
  "mapsEqual a b \<longleftrightarrow> sort_key fst a = sort_key fst b"

definition specsEqual :: "jobject option \<Rightarrow> jobject option \<Rightarrow> bool" where
  "specsEqual a b \<longleftrightarrow> map_option (\<lambda>m. jnorm (JMap m)) a = map_option (\<lambda>m. jnorm (JMap m)) b"

text \<open>
  The contract of a nested accessor: it answers the value at the path if it has the right
  type, nothing if the path is absent, and an error otherwise.
\<close>

definition asList :: "json \<Rightarrow> json list option" where
  "asList v = (case v of JList xs \<Rightarrow> Some xs | _ \<Rightarrow> None)"

definition asString :: "json \<Rightarrow> string option" where
  "asString v = (case v of JString s \<Rightarrow> Some s | _ \<Rightarrow> None)"

lemma as_simps [simp]: "asList (JList xs) = Some xs" "asString (JString s) = Some s"
  by (simp_all add: asList_def asString_def)

locale accessor =
  fixes pick :: "json \<Rightarrow> 'a option"
    and acc :: "jobject \<Rightarrow> string list \<Rightarrow> ('a option) res"
  assumes misfit: "nestedField (JMap m) fs = None \<Longrightarrow> \<exists>e. acc m fs = Inl e"
    and absent: "nestedField (JMap m) fs = Some None \<Longrightarrow> acc m fs = Inr None"
    and typed: "nestedField (JMap m) fs = Some (Some v) \<Longrightarrow> pick v = Some x \<Longrightarrow> acc m fs = Inr (Some x)"
    and untyped: "nestedField (JMap m) fs = Some (Some v) \<Longrightarrow> pick v = None \<Longrightarrow> \<exists>e. acc m fs = Inl e"
begin

lemma key: "gm_lookup m f = Some v \<Longrightarrow> pick v = Some x \<Longrightarrow> acc m [f] = Inr (Some x)"
  by (rule typed) simp_all

lemma found_iff: "acc m fs = Inr (Some x) \<longleftrightarrow> (\<exists>v. nestedField (JMap m) fs = Some (Some v) \<and> pick v = Some x)"
proof
  assume a: "acc m fs = Inr (Some x)"
  show "\<exists>v. nestedField (JMap m) fs = Some (Some v) \<and> pick v = Some x"
  proof (cases "nestedField (JMap m) fs")
    case None
    then obtain e where "acc m fs = Inl e" using misfit by blast
    then show ?thesis using a by simp
  next
    case (Some found)
    show ?thesis
    proof (cases found)
      case None
      then have "acc m fs = Inr None" using Some absent [of m fs] by simp
      then show ?thesis using a by simp
    next
      case (Some v)
      then show ?thesis using \<open>nestedField (JMap m) fs = Some found\<close> a typed [of m fs v] untyped [of m fs v]
        by (cases "pick v") auto
    qed
  qed
next
  assume "\<exists>v. nestedField (JMap m) fs = Some (Some v) \<and> pick v = Some x"
  then show "acc m fs = Inr (Some x)" using typed by blast
qed

end

text \<open>
  What the documentation of the third-party operations promises: a printed quantity parses
  back, \<open>"0"\<close> is zero, the nested accessors keep their contract, an assignment at a path
  sets that path, an encoded key list decodes, the hash suffix has twelve hexadecimal
  digits, and a selector matches the labels that have all its pairs.
\<close>

definition setter_law :: "(jobject \<Rightarrow> json \<Rightarrow> string list \<Rightarrow> jobject res) \<Rightarrow> bool" where
  "setter_law setter \<longleftrightarrow>
     (\<forall>m v fs. fs \<noteq> [] \<longrightarrow>
        (case setNested m v fs of None \<Rightarrow> \<exists>e. setter m v fs = Inl e | Some m' \<Rightarrow> setter m v fs = Inr m'))"

definition selector_law :: "((string, string) gomap \<Rightarrow> (string, string) gomap \<Rightarrow> bool) \<Rightarrow> bool" where
  "selector_law matches \<longleftrightarrow>
     (\<forall>selector labels. matches selector labels = list_all (\<lambda>(k, v). gm_lookup labels k = Some v) selector)"

definition kube_laws :: "'q::linordered_ab_group_add kube \<Rightarrow> bool" where
  "kube_laws K \<longleftrightarrow>
     (\<forall>q. kParseQuantity K (kQuantityString K q) = Inr q) \<and>
     kParseQuantity K ''0'' = Inr 0 \<and>
     (\<forall>q. kQuantityString K q \<noteq> [] \<and> kQuantityString K q \<noteq> ''<nil>'' \<and>
          trimSpace (kQuantityString K q) = kQuantityString K q) \<and>
     (\<forall>ks. kDecodeKeys K (kEncodeKeys K ks) = Inr ks) \<and>
     (\<forall>s. length (kHash6 K s) = 12) \<and>
     accessor asList (kNestedSlice K) \<and>
     accessor asString (kNestedString K) \<and>
     accessor Some (kNestedField K) \<and>
     accessor asMap (kNestedMap K) \<and>
     setter_law (kSetNestedField K) \<and>
     selector_law (kSelectorMatches K)"

lemma kube_lawsD:
  assumes "kube_laws K"
  shows "kParseQuantity K (kQuantityString K q) = Inr q"
    and "kParseQuantity K ''0'' = Inr 0"
    and "kQuantityString K q \<noteq> []" "kQuantityString K q \<noteq> ''<nil>''"
    and "trimSpace (kQuantityString K q) = kQuantityString K q"
    and "kDecodeKeys K (kEncodeKeys K ks) = Inr ks"
    and "length (kHash6 K s) = 12"
  using assms by (simp_all add: kube_laws_def)

lemma kube_accessors:
  assumes "kube_laws K"
  shows "accessor asList (kNestedSlice K)" "accessor asString (kNestedString K)" "accessor Some (kNestedField K)"
    "accessor asMap (kNestedMap K)" "setter_law (kSetNestedField K)"
  using assms by (simp_all add: kube_laws_def)

lemma kube_slice_list:
  assumes "kube_laws K" "nestedField (JMap m) fs = Some (Some (JList xs))"
  shows "kNestedSlice K m fs = Inr (Some xs)"
  by (rule accessor.typed [OF kube_accessors(1) [OF assms(1)] assms(2)]) simp

lemma kube_slice_key:
  assumes "kube_laws K" "gm_lookup m f = Some (JList xs)"
  shows "kNestedSlice K m [f] = Inr (Some xs)"
  by (rule accessor.key [OF kube_accessors(1) [OF assms(1)] assms(2)]) simp

lemma kube_map_key:
  assumes "kube_laws K" "nestedField (JMap m) fs = Some (Some (JMap s))"
  shows "kNestedMap K m fs = Inr (Some s)"
  by (rule accessor.typed [OF kube_accessors(4) [OF assms(1)] assms(2)]) simp

lemma kube_set_spec:
  assumes "kube_laws K" "kSetNestedField K m v fs = Inr m'" "fs \<noteq> []"
  shows "setNested m v fs = Some m'"
  using kube_accessors(5) [OF assms(1), unfolded setter_law_def, rule_format, OF assms(3), of m v] assms(2)
  by (cases "setNested m v fs") auto

text \<open>A value set at a path is read back there.\<close>

lemma nestedField_setNested:
  assumes "setNested m v fs = Some m'"
  shows "nestedField (JMap m') fs = Some (Some v)"
  using assms
proof (induction m v fs arbitrary: m' rule: setNested.induct)
  case (3 m v f g fs)
  show ?case
  proof (cases "gm_lookup m f")
    case None
    then obtain s where "setNested [] v (g # fs) = Some s" "m' = gm_set f (JMap s) m" using "3.prems" by auto
    then show ?thesis using "3.IH"(1) [OF None] by simp
  next
    case (Some w)
    then obtain s s' where "w = JMap s" "setNested s v (g # fs) = Some s'" "m' = gm_set f (JMap s') m"
      using "3.prems" by (auto split: json.splits)
    then show ?thesis using "3.IH"(2) [OF Some] by simp
  qed
qed simp_all

section \<open>A reference instance\<close>

text \<open>
  The instance at which theorems with \<open>kube_laws\<close> are applied: integer quantities in
  decimal notation, the accessors as documented, and a length-prefixed key list.
\<close>

definition refSlice :: "jobject \<Rightarrow> string list \<Rightarrow> (json list option) res" where
  "refSlice m fs =
     (case nestedField (JMap m) fs of
        None \<Rightarrow> Inl (Errorf ''accessor error'' fs)
      | Some None \<Rightarrow> Inr None
      | Some (Some v) \<Rightarrow> (case v of JList xs \<Rightarrow> Inr (Some xs) | _ \<Rightarrow> Inl (Errorf ''accessor error'' fs)))"

definition refString :: "jobject \<Rightarrow> string list \<Rightarrow> (string option) res" where
  "refString m fs =
     (case nestedField (JMap m) fs of
        None \<Rightarrow> Inl (Errorf ''accessor error'' fs)
      | Some None \<Rightarrow> Inr None
      | Some (Some v) \<Rightarrow> (case v of JString s \<Rightarrow> Inr (Some s) | _ \<Rightarrow> Inl (Errorf ''accessor error'' fs)))"

definition refField :: "jobject \<Rightarrow> string list \<Rightarrow> (json option) res" where
  "refField m fs = (case nestedField (JMap m) fs of None \<Rightarrow> Inl (Errorf ''accessor error'' fs) | Some v \<Rightarrow> Inr v)"

definition refMap :: "jobject \<Rightarrow> string list \<Rightarrow> (jobject option) res" where
  "refMap m fs =
     (case nestedField (JMap m) fs of
        None \<Rightarrow> Inl (Errorf ''accessor error'' fs)
      | Some None \<Rightarrow> Inr None
      | Some (Some v) \<Rightarrow> (case v of JMap s \<Rightarrow> Inr (Some s) | _ \<Rightarrow> Inl (Errorf ''accessor error'' fs)))"

definition refSet :: "jobject \<Rightarrow> json \<Rightarrow> string list \<Rightarrow> jobject res" where
  "refSet m v fs = (case setNested m v fs of None \<Rightarrow> Inl (Errorf ''value cannot be set'' fs) | Some m' \<Rightarrow> Inr m')"

fun stringEntries :: "jobject \<Rightarrow> ((string, string) gomap) option" where
  "stringEntries [] = Some []"
| "stringEntries ((k, JString v) # m) = map_option (\<lambda>r. (k, v) # r) (stringEntries m)"
| "stringEntries (_ # m) = None"

definition refStringMap :: "jobject \<Rightarrow> string list \<Rightarrow> ((string, string) gomap option) res" where
  "refStringMap m fs =
     bindE (refMap m fs) (\<lambda>found.
       case found of
         None \<Rightarrow> Inr None
       | Some s \<Rightarrow> (case stringEntries s of None \<Rightarrow> Inl (Errorf ''accessor error'' fs) | Some r \<Rightarrow> Inr (Some r)))"

fun removeNested :: "jobject \<Rightarrow> string list \<Rightarrow> jobject" where
  "removeNested m [] = m"
| "removeNested m [f] = gm_delete f m"
| "removeNested m (f # g # fs) =
     (case gm_lookup m f of Some (JMap s) \<Rightarrow> gm_set f (JMap (removeNested s (g # fs))) m | _ \<Rightarrow> m)"

fun parseNat :: "string \<Rightarrow> nat \<Rightarrow> nat option" where
  "parseNat [] acc = Some acc"
| "parseNat (c # cs) acc =
     (if 48 \<le> (of_char c :: nat) \<and> (of_char c :: nat) \<le> 57 then parseNat cs (10 * acc + (of_char c - 48)) else None)"

definition parseInt :: "string \<Rightarrow> int res" where
  "parseInt s =
     (case s of
        [] \<Rightarrow> Inl (Errorf ''empty'' [])
      | c # cs \<Rightarrow>
          if c = CHR ''-'' then (case parseNat cs 0 of Some n \<Rightarrow> Inr (- int n) | None \<Rightarrow> Inl (Errorf ''bad'' [s]))
          else (case parseNat s 0 of Some n \<Rightarrow> Inr (int n) | None \<Rightarrow> Inl (Errorf ''bad'' [s])))"

fun encodeStrings :: "string list \<Rightarrow> string" where
  "encodeStrings [] = ''''"
| "encodeStrings (s # ss) = replicate (length s) (CHR ''1'') @ ''0'' @ s @ encodeStrings ss"

fun takeOnes :: "string \<Rightarrow> nat" where
  "takeOnes [] = 0"
| "takeOnes (c # cs) = (if c = CHR ''1'' then Suc (takeOnes cs) else 0)"

function decodeStrings :: "string \<Rightarrow> string list" where
  "decodeStrings s =
     (if s = [] then []
      else let n = takeOnes s; rest = drop (Suc n) s in take n rest # decodeStrings (drop n rest))"
  by pat_completeness auto
termination
  by (relation "measure length") (auto simp: Let_def)

declare decodeStrings.simps [simp del]

definition labelLimit :: nat where "labelLimit = 63"

definition dnsAlnum :: "char \<Rightarrow> bool" where
  "dnsAlnum c \<longleftrightarrow> c \<in> set ''abcdefghijklmnopqrstuvwxyz0123456789''"

definition dnsName :: "string \<Rightarrow> bool" where
  "dnsName s \<longleftrightarrow> s \<noteq> [] \<and> length s \<le> 253 \<and> list_all (\<lambda>c. dnsAlnum c \<or> c = CHR ''-'' \<or> c = CHR ''.'') s \<and> dnsAlnum (hd s) \<and> dnsAlnum (last s)"

text \<open>Label selectors with \<open>matchLabels\<close> only.\<close>

definition refSelector :: "jobject \<Rightarrow> ((string, string) gomap \<Rightarrow> bool) res" where
  "refSelector m =
     (case gm_lookup m ''matchLabels'' of
        None \<Rightarrow> Inr (\<lambda>_. True)
      | Some (JMap pairs) \<Rightarrow> Inr (\<lambda>labels. list_all (\<lambda>(k, v). map_option JString (gm_lookup labels k) = Some v) pairs)
      | Some _ \<Rightarrow> Inl (Errorf ''matchLabels must be a map'' []))"

definition refKube :: "int kube" where
  "refKube = \<lparr>kParseQuantity = parseInt, kQuantityString = showInt, kNestedSlice = refSlice, kNestedString = refString,
     kEncodeKeys = encodeStrings, kDecodeKeys = (\<lambda>s. Inr (decodeStrings s)), kHash6 = (\<lambda>s. ''0123456789ab''),
     kNestedField = refField, kNestedMap = refMap, kSetNestedField = refSet,
     kNestedStringMap = refStringMap, kRemoveNestedField = removeNested,
     kSelectorMatches = (\<lambda>selector labels. list_all (\<lambda>(k, v). gm_lookup labels k = Some v) selector),
     kLabelSelector = refSelector, kHash8 = (\<lambda>s. ''0123456789abcdef''),
     kIsQualifiedName = (\<lambda>s. if s = [] then [''name part must be non-empty''] else []),
     kIsValidLabelValue = (\<lambda>s. if length s > labelLimit then [''must be no more than 63 bytes''] else []),
     kIsDNS1123Label = (\<lambda>s. if s = [] \<or> length s > labelLimit then [''must consist of lower case alphanumeric characters''] else []),
     kIsDNS1123Subdomain = (\<lambda>s. if dnsName s then [] else [''a lowercase RFC 1123 subdomain must consist of lower case alphanumeric characters''])\<rparr>"

lemma takeOnes_replicate: "takeOnes (replicate n (CHR ''1'') @ CHR ''0'' # s) = n"
  by (induction n) auto

lemma decode_encode: "decodeStrings (encodeStrings ss) = ss"
proof (induction ss)
  case (Cons s ss)
  then show ?case by (subst decodeStrings.simps) (simp add: takeOnes_replicate Let_def)
qed (simp add: decodeStrings.simps)

lemma digit_char: "n < 10 \<Longrightarrow> of_char (char_of (48 + n) :: char) = (48 + n :: nat)"
  by (simp add: of_char_of)

lemma parseNat_append: "parseNat (s @ t) acc = (case parseNat s acc of None \<Rightarrow> None | Some a \<Rightarrow> parseNat t a)"
  by (induction s arbitrary: acc) auto

lemma parseNat_showNat: "parseNat (showNat n) 0 = Some n"
proof (induction n rule: showNat.induct)
  case (1 n)
  show ?case
  proof (cases "n < 10")
    case True
    then show ?thesis by (subst showNat.simps) (simp add: digit_char)
  next
    case False
    have d: "of_char (char_of (48 + n mod 10) :: char) = (48 + n mod 10 :: nat)" by (rule digit_char) simp
    have "parseNat (showNat n) 0 = parseNat (showNat (n div 10) @ [char_of (48 + n mod 10)]) 0"
      using False by (subst showNat.simps) simp
    also have "\<dots> = parseNat [char_of (48 + n mod 10)] (n div 10)"
      using 1 False by (simp add: parseNat_append del: parseNat.simps)
    also have "\<dots> = Some n" unfolding parseNat.simps d by simp
    finally show ?thesis .
  qed
qed

lemma showNat_digits: "\<forall>c \<in> set (showNat n). 48 \<le> (of_char c :: nat) \<and> (of_char c :: nat) \<le> 57"
proof (induction n rule: showNat.induct)
  case (1 n)
  then show ?case using digit_char [of "n mod 10"] digit_char [of n] by (subst showNat.simps) auto
qed

lemma showNat_ne: "showNat n \<noteq> []"
  by (subst showNat.simps) simp

lemma digit_not_special:
  assumes "c \<in> set (showNat n)"
  shows "c \<noteq> CHR ''-''" "c \<noteq> CHR ''<''" "\<not> asciiSpace c"
proof -
  have d: "48 \<le> (of_char c :: nat)" "(of_char c :: nat) \<le> 57" using showNat_digits assms by blast+
  then show "c \<noteq> CHR ''-''" "c \<noteq> CHR ''<''" "\<not> asciiSpace c" by (auto simp: asciiSpace_def)
qed

lemma parseInt_showInt: "parseInt (showInt i) = Inr i"
proof (cases "i < 0")
  case True
  then show ?thesis by (simp add: showInt_def parseInt_def parseNat_showNat)
next
  case False
  obtain c cs where s: "showNat (nat i) = c # cs" using showNat_ne by (cases "showNat (nat i)") auto
  then have "c \<noteq> CHR ''-''" using digit_not_special(1) [of c "nat i"] by simp
  moreover have "parseNat (c # cs) 0 = Some (nat i)" using parseNat_showNat [of "nat i"] by (simp only: s)
  ultimately have "parseInt (showNat (nat i)) = Inr (int (nat i))"
    by (simp add: parseInt_def s del: parseNat.simps)
  then show ?thesis using False by (simp add: showInt_def)
qed

lemma trimSpace_no_space: "\<forall>c \<in> set s. \<not> asciiSpace c \<Longrightarrow> trimSpace s = s"
proof -
  assume a: "\<forall>c \<in> set s. \<not> asciiSpace c"
  then have "dropWhile asciiSpace s = s" by (cases s) auto
  moreover have "dropWhile asciiSpace (rev s) = rev s" using a by (cases "rev s") (auto simp: rev_eq_Cons_iff)
  ultimately show ?thesis by (simp add: trimSpace_def)
qed

lemma showInt_no_space: "\<forall>c \<in> set (showInt i). \<not> asciiSpace c \<and> c \<noteq> CHR ''<''"
  using digit_not_special by (auto simp: showInt_def asciiSpace_def)

interpretation ref_slice: accessor asList refSlice
  by unfold_locales (auto simp: refSlice_def asList_def split: json.splits)

interpretation ref_string: accessor asString refString
  by unfold_locales (auto simp: refString_def asString_def split: json.splits)

interpretation ref_field: accessor Some refField
  by unfold_locales (auto simp: refField_def)

interpretation ref_map: accessor asMap refMap
  by unfold_locales (auto simp: refMap_def asMap_def split: json.splits)

lemma showInt_shape: "showInt q \<noteq> []" "showInt q \<noteq> ''<nil>''" "trimSpace (showInt q) = showInt q"
proof -
  show "showInt q \<noteq> []" using showNat_ne by (simp add: showInt_def)
  show "showInt q \<noteq> ''<nil>''"
  proof
    assume "showInt q = ''<nil>''"
    then have "CHR ''<'' \<in> set (showInt q)" by simp
    then show False using showInt_no_space [of q] by blast
  qed
  show "trimSpace (showInt q) = showInt q" using showInt_no_space [of q] by (intro trimSpace_no_space) blast
qed

lemma refKube_laws: "kube_laws refKube"
proof -
  have "setter_law refSet" by (auto simp: setter_law_def refSet_def split: option.split)
  moreover have "parseInt ''0'' = Inr 0" by (simp add: parseInt_def)
  ultimately show ?thesis
    by (simp add: kube_laws_def refKube_def parseInt_showInt showInt_shape decode_encode selector_law_def
        ref_slice.accessor_axioms ref_string.accessor_axioms ref_field.accessor_axioms ref_map.accessor_axioms)
qed

end
