(* ===== verification/Tau_Types.thy ===== *)
theory Tau_Types
  imports Kube_Object
begin

text \<open>
  The custom resources of tau-core (\<open>controllers/tau-core/api/v1alpha1/types.go\<close>) with the
  fields the modelled controllers read and write, their status conditions
  (\<open>internal/controller/conditions.go\<close>), the small ownership helpers
  (\<open>workspace_util.go\<close>, \<open>system_namespace.go\<close>), the quota-request controller
  (\<open>quota_request_controller.go\<close>) and the quota locks (\<open>quota_lock.go\<close>).
\<close>

section \<open>Custom resources\<close>

record 'q tauResourceQuota =
  qFlavor :: string
  qResource :: string
  qNominal :: 'q
  qBorrowing :: "'q option"
  qLending :: "'q option"

text \<open>A message: a fixed text, a formatted one, the text of an error, or one formatted with an error.\<close>

datatype kmessage = Msg string | MsgFmt string "string list" | MsgErr kerr | MsgErrf string "string list" kerr

record kcondition =
  cdType :: string
  cdStatus :: string
  cdObservedGeneration :: int
  cdLastTransitionTime :: gotime
  cdReason :: string
  cdMessage :: kmessage

record teamStatus =
  tstPhase :: string
  tstObservedGeneration :: int
  tstCohort :: string
  tstCohortUID :: string
  tstConditions :: "kcondition list"

record 'q tauTeam =
  tmName :: string
  tmNamespace :: string
  tmUID :: string
  tmGeneration :: int
  tmDeletionTimestamp :: "gotime option"
  tmFinalizers :: "string list"
  tmQuota :: "'q tauResourceQuota list"
  tmStatus :: teamStatus

record kubernetesSubject =
  sjKind :: string
  sjName :: string

record workloadIdentity =
  wiServiceAccountName :: string
  wiClientID :: string

record 'q tauWorkspace =
  wsName :: string
  wsNamespace :: string
  wsUID :: string
  wsGeneration :: int
  wsDeleting :: bool  \<comment> \<open>a deletion timestamp is set\<close>
  wsFinalizers :: "string list"
  wsAnnotations :: "(string, string) gomap"
  wsTeamRef :: "string option"
  wsQuota :: "'q tauResourceQuota list"
  wsQueue :: string
  wsTargetNamespace :: string
  wsCreateNamespace :: bool
  wsOutputRoot :: string
  wsAuthorization :: "string option"  \<comment> \<open>the mode\<close>
  wsPrincipalRef :: "(string \<times> string) option"  \<comment> \<open>provider, name\<close>
  wsKubernetesSubject :: "kubernetesSubject option"
  wsWorkloadIdentity :: "workloadIdentity option"
  wsOtherSpec :: json  \<comment> \<open>the fields of the specification only compared as a whole\<close>
  wsStatusLocalQueue :: string
  wsStatusClusterQueue :: string
  wsStatusClusterQueueUID :: string
  wsStatusResolvedNamespace :: string
  wsStatusPhase :: string
  wsStatusObservedGeneration :: int
  wsStatusConditions :: "kcondition list"

record nodeLabelRule =
  nrMatchLabels :: "(string, string) gomap"
  nrVMSizes :: "string list"
  nrLabels :: "(string, string) gomap"

record sectionStatus =
  seObserved :: int
  seReady :: int
  seDrifted :: int

record managedResource =
  mrAPIVersion :: string
  mrKind :: string
  mrNamespace :: string
  mrName :: string
  mrUID :: string
  mrOwnership :: string

text \<open>
  Workload profiles (\<open>core/resourceprofile/workload.go\<close>). A resolved profile embeds its declaration, as a record
  extension. Lists are slices; an empty and an absent slice are one.
\<close>

record profileApplicability =
  paTeams :: "string list"
  paLanes :: "string list"
  paNamespaces :: "string list"

record profilePriorities =
  ppWorkload :: string
  ppPod :: string
  ppDisable :: bool

record workloadProfile =
  wpName :: string
  wpDescription :: string
  wpApplicability :: profileApplicability
  wpGPUsPerWorker :: int
  wpWorkerCount :: int
  wpMode :: string
  wpPlacement :: string
  wpDefaultLocalQueue :: string
  wpExecutionTarget :: string
  wpPriorities :: profilePriorities

record resolvedLocalQueue =
  rlNamespace :: string
  rlName :: string
  rlClusterQueue :: string

record resolvedWorkloadProfile = workloadProfile +
  rpLocalQueues :: "resolvedLocalQueue list"
  rpClusterQueues :: "string list"
  rpResourceFlavors :: "string list"
  rpTopologies :: "string list"
  rpWorkloadPriorityClasses :: "string list"
  rpPodPriorityClasses :: "string list"
  rpConditions :: "kcondition list"

record profileSetStatus =
  psObservedGeneration :: int
  psObserved :: int
  psReady :: int
  psDrifted :: int
  psHash :: string
  psProfiles :: "resolvedWorkloadProfile list"

record 'q tauCluster =
  clName :: string
  clUID :: string
  clGeneration :: int
  clManagementMode :: string
  clDeleting :: bool
  clNodeSelector :: "(string, string) gomap"
  clLabelRules :: "nodeLabelRule list"
  clShareTeamQuotas :: bool
  clCapacityTeamRef :: "string option"
  clSharedLocalQueues :: "(string \<times> string) list"  \<comment> \<open>namespace, name\<close>
  clDefaultQueue :: string
  clDeclaredProfiles :: "workloadProfile list"
  clOtherSpec :: json
  clPhase :: string
  clObservedGeneration :: int
  clDesiredStateHash :: string
  clNodesStatus :: sectionStatus
  clQueuesStatus :: sectionStatus
  clWorkloadProfiles :: profileSetStatus
  clDiscoveredCapacity :: "(string \<times> string \<times> 'q) list"  \<comment> \<open>flavor, resource, capacity\<close>
  clManagedResources :: "managedResource list"
  clConditions :: "kcondition list"

text \<open>Objects as Go's zero values but for their identity.\<close>

definition zeroWorkspace :: "string \<Rightarrow> string \<Rightarrow> string \<Rightarrow> 'q tauWorkspace" where
  "zeroWorkspace namespace name uid =
     \<lparr>wsName = name, wsNamespace = namespace, wsUID = uid, wsGeneration = 0, wsDeleting = False, wsFinalizers = [], wsAnnotations = [],
      wsTeamRef = None, wsQuota = [], wsQueue = [], wsTargetNamespace = [], wsCreateNamespace = False, wsOutputRoot = [],
      wsAuthorization = None, wsPrincipalRef = None, wsKubernetesSubject = None, wsWorkloadIdentity = None, wsOtherSpec = JNull,
      wsStatusLocalQueue = [], wsStatusClusterQueue = [], wsStatusClusterQueueUID = [], wsStatusResolvedNamespace = [],
      wsStatusPhase = [], wsStatusObservedGeneration = 0, wsStatusConditions = []\<rparr>"

definition zeroSection :: sectionStatus where
  "zeroSection = \<lparr>seObserved = 0, seReady = 0, seDrifted = 0\<rparr>"

definition zeroProfileSet :: profileSetStatus where
  "zeroProfileSet = \<lparr>psObservedGeneration = 0, psObserved = 0, psReady = 0, psDrifted = 0, psHash = [], psProfiles = []\<rparr>"

definition zeroCluster :: "string \<Rightarrow> string \<Rightarrow> 'q tauCluster" where
  "zeroCluster name uid =
     \<lparr>clName = name, clUID = uid, clGeneration = 0, clManagementMode = [], clDeleting = False, clNodeSelector = [], clLabelRules = [],
      clShareTeamQuotas = False, clCapacityTeamRef = None, clSharedLocalQueues = [], clDefaultQueue = [],
      clDeclaredProfiles = [], clOtherSpec = JNull, clPhase = [],
      clObservedGeneration = 0, clDesiredStateHash = [], clNodesStatus = zeroSection, clQueuesStatus = zeroSection,
      clWorkloadProfiles = zeroProfileSet, clDiscoveredCapacity = [], clManagedResources = [], clConditions = []\<rparr>"

definition teamFinalizer :: string where "teamFinalizer = ''tau.azure.com/team-cleanup''"
definition workspaceFinalizer :: string where "workspaceFinalizer = ''tau.azure.com/workspace-cleanup''"

section \<open>Ownership metadata\<close>

definition labelManagedBy :: string where "labelManagedBy = ''app.kubernetes.io/managed-by''"
definition labelManagedByValue :: string where "labelManagedByValue = ''tau-core-controller''"
definition labelTeam :: string where "labelTeam = ''tau.azure.com/team''"
definition labelWorkspace :: string where "labelWorkspace = ''tau.azure.com/workspace''"
definition annotationOwnerUID :: string where "annotationOwnerUID = ''tau.azure.com/owner-uid''"

definition workspaceLabels :: "string \<Rightarrow> (string, string) gomap" where
  "workspaceLabels workspace = [(labelManagedBy, labelManagedByValue), (labelWorkspace, workspace)]"

definition teamLabels :: "string \<Rightarrow> (string, string) gomap" where
  "teamLabels team = [(labelManagedBy, labelManagedByValue), (labelTeam, team)]"

definition ownedByWorkspace :: "(string, string) gomap \<Rightarrow> string \<Rightarrow> bool" where
  "ownedByWorkspace labels workspace \<longleftrightarrow>
     gm_get [] labels labelManagedBy = labelManagedByValue \<and> gm_get [] labels labelWorkspace = workspace"

definition setOwnerUIDAnnotation :: "kobj \<Rightarrow> string \<Rightarrow> kobj" where
  "setOwnerUIDAnnotation obj uid = obj\<lparr>oAnnotations := gm_set annotationOwnerUID uid (oAnnotations obj)\<rparr>"

definition reasonFor :: "bool \<Rightarrow> string \<Rightarrow> string \<Rightarrow> string" where
  "reasonFor ok yes no = (if ok then yes else no)"

definition systemNamespace :: "string \<Rightarrow> string" where
  "systemNamespace namespace = (if namespace \<noteq> [] then namespace else ''tau-system'')"

section \<open>Conditions\<close>

definition condition :: "gotime \<Rightarrow> string \<Rightarrow> string \<Rightarrow> string \<Rightarrow> kmessage \<Rightarrow> int \<Rightarrow> kcondition" where
  "condition now conditionType status reason msg generation =
     \<lparr>cdType = conditionType, cdStatus = status, cdObservedGeneration = generation, cdLastTransitionTime = now,
      cdReason = reason, cdMessage = msg\<rparr>"

definition boolCondition :: "gotime \<Rightarrow> string \<Rightarrow> bool \<Rightarrow> string \<Rightarrow> kmessage \<Rightarrow> int \<Rightarrow> kcondition" where
  "boolCondition now conditionType ok reason msg generation =
     (if ok then condition now conditionType ''True'' reason msg generation
      else condition now conditionType ''False'' reason msg generation)"

definition conditionRBACReady :: string where "conditionRBACReady = ''RBACReady''"
definition conditionQueueReady :: string where "conditionQueueReady = ''QueueReady''"
definition conditionDriftDetected :: string where "conditionDriftDetected = ''DriftDetected''"

text \<open>The loop over the conditions: \<open>None\<close> is the early return for drift.\<close>

fun requiredStatuses :: "kcondition list \<Rightarrow> (string, string) gomap \<Rightarrow> (string, string) gomap option" where
  "requiredStatuses [] required = Some required"
| "requiredStatuses (c # cs) required =
     (let required' = (if gm_lookup required (cdType c) \<noteq> None then gm_set (cdType c) (cdStatus c) required else required)
      in if cdType c = conditionDriftDetected \<and> cdStatus c = ''True'' then None else requiredStatuses cs required')"

definition workspacePhase :: "kcondition list \<Rightarrow> string" where
  "workspacePhase conditions =
     (case requiredStatuses conditions [(conditionRBACReady, ''Unknown''), (conditionQueueReady, ''Unknown'')] of
        None \<Rightarrow> ''Degraded''
      | Some required \<Rightarrow>
          if list_ex (\<lambda>(_, status). status = ''False'') required then ''Degraded''
          else if list_ex (\<lambda>(_, status). status = ''Unknown'') required then ''Pending''
          else ''Ready'')"

definition conditionV0PrimaryDiscovery :: string where
  "conditionV0PrimaryDiscovery = ''V0PrimaryDiscovery''"

definition keepTransitionTime :: "(string, kcondition) gomap \<Rightarrow> kcondition \<Rightarrow> kcondition" where
  "keepTransitionTime byType c =
     (case gm_lookup byType (cdType c) of
        None \<Rightarrow> c
      | Some previous \<Rightarrow>
          if cdStatus previous = cdStatus c \<and> cdReason previous = cdReason c \<and> cdMessage previous = cdMessage c
          then c\<lparr>cdLastTransitionTime := cdLastTransitionTime previous\<rparr> else c)"

definition mergeStep ::
  "(string, kcondition) gomap \<Rightarrow> kcondition \<Rightarrow> (string, kcondition) gomap \<times> string list \<Rightarrow>
     (string, kcondition) gomap \<times> string list" where
  "mergeStep byType c acc =
     (let order = (if gm_lookup (fst acc) (cdType c) = None then snd acc @ [cdType c] else snd acc)
      in (gm_set (cdType c) (keepTransitionTime byType c) (fst acc), order))"

definition withCompatibility :: "(string, kcondition) gomap \<Rightarrow> kcondition list \<Rightarrow> kcondition list" where
  "withCompatibility byType desired =
     (case gm_lookup byType conditionV0PrimaryDiscovery of
        None \<Rightarrow> desired
      | Some compatibility \<Rightarrow>
          if list_ex (\<lambda>c. cdType c = conditionV0PrimaryDiscovery) desired then desired else desired @ [compatibility])"

definition mergeConditions :: "kcondition list \<Rightarrow> kcondition list \<Rightarrow> kcondition list" where
  "mergeConditions existing desired =
     (let byType = fold (\<lambda>c m. gm_set (cdType c) c m) existing [];
          p = fold (mergeStep byType) (withCompatibility byType desired) ([], [])
      in map (\<lambda>t. the (gm_lookup (fst p) t)) (snd p))"

definition findCondition :: "kcondition list \<Rightarrow> string \<Rightarrow> kcondition option" where
  "findCondition conditions conditionType = List.find (\<lambda>c. cdType c = conditionType) conditions"

section \<open>Quota requests\<close>

record quotaRequestStatus =
  qrsPhase :: string
  qrsObservedGeneration :: int
  qrsDecision :: string
  qrsApprovedBy :: string
  qrsConditions :: "kcondition list"

record quotaRequest =
  qrNamespace :: string
  qrGeneration :: int
  qrAnnotations :: "(string, string) gomap"
  qrStatus :: quotaRequestStatus

definition annotationApproved :: string where "annotationApproved = ''tau.azure.com/approved''"
definition annotationRejected :: string where "annotationRejected = ''tau.azure.com/rejected''"
definition annotationReviewedBy :: string where "annotationReviewedBy = ''tau.azure.com/reviewed-by''"

definition quotaRequestDesired :: "gotime \<Rightarrow> quotaRequest \<Rightarrow> quotaRequestStatus" where
  "quotaRequestDesired now req =
     (let g = qrGeneration req;
          pendingText = ''waiting for platform approval'';
          rejectedText = ''request rejected by platform'';
          approvedText = ''approved in ReportOnly mode; waiting for GitOps quota update'';
          (phase, decision, conditions) =
            (if gm_get [] (qrAnnotations req) annotationRejected = ''true''
             then (''Rejected'', rejectedText, [condition now ''Approved'' ''False'' ''Rejected'' (Msg rejectedText) g])
             else if gm_get [] (qrAnnotations req) annotationApproved = ''true''
             then (''Approved'', approvedText,
                   [condition now ''Approved'' ''True'' ''Approved'' (Msg ''request approved by platform'') g,
                    condition now ''QuotaMutated'' ''False'' ''ReportOnly'' (Msg approvedText) g])
             else (''PendingApproval'', pendingText,
                   [condition now ''Approved'' ''False'' ''PendingApproval'' (Msg pendingText) g]))
      in \<lparr>qrsPhase = phase, qrsObservedGeneration = g, qrsDecision = decision,
          qrsApprovedBy = gm_get [] (qrAnnotations req) annotationReviewedBy,
          qrsConditions = mergeConditions (qrsConditions (qrStatus req)) conditions\<rparr>)"

text \<open>
  \<open>Reconcile\<close>: the request as the client's \<open>Get\<close> answers it, and the answer of the status
  update; the result is the stored request after the call and the error.
\<close>

definition reconcileQuotaRequest ::
  "string \<Rightarrow> gotime \<Rightarrow> (quotaRequestStatus \<Rightarrow> kerr option) \<Rightarrow> quotaRequest res \<Rightarrow> quotaRequest option \<times> kerr option" where
  "reconcileQuotaRequest sysNamespace now updateStatus got =
     (case got of
        Inl err \<Rightarrow> (None, if isNotFound err then None else Some err)
      | Inr req \<Rightarrow>
          if qrNamespace req \<noteq> systemNamespace sysNamespace then (Some req, None)
          else let desired = quotaRequestDesired now req in
               if qrStatus req = desired then (Some req, None)
               else (case updateStatus desired of
                       None \<Rightarrow> (Some (req\<lparr>qrStatus := desired\<rparr>), None)
                     | Some err \<Rightarrow> (Some req, Some err)))"

section \<open>Quota locks\<close>

text \<open>
  \<open>lockTeamQuota\<close> acquires one mutex per distinct key, the capacity-pool lock included, in
  sorted order; the release runs backwards. The model gives the sequence of acquisitions
  and releases.
\<close>

definition lockOrder :: "string list \<Rightarrow> string list" where
  "lockOrder keys = sort (fold (\<lambda>k s. if k \<noteq> [] then gs_add k s else s) keys [''capacity-pool''])"

datatype lockEvent = Acquire string | Release string

definition lockTeamQuota :: "string list \<Rightarrow> lockEvent list \<times> lockEvent list" where
  "lockTeamQuota keys = (map Acquire (lockOrder keys), map Release (rev (lockOrder keys)))"

definition teamQuotaLockKey :: "string \<Rightarrow> string \<Rightarrow> string" where
  "teamQuotaLockKey namespace team = namespace @ [CHR 0x00] @ team"

end
