(* ===== verification/Quota_Resources.thy ===== *)
theory Quota_Resources
  imports Tau_Types
begin

text \<open>
  Quotas of teams and workspaces as Kueue objects
  (\<open>controllers/tau-core/internal/controller/quota_resources.go\<close>): validation, the
  resource groups written to Cohorts and ClusterQueues, reading quotas and reservations
  back, the merge with an established queue, and the guarded update of a managed object.
  The Kubernetes operations are the argument \<open>K\<close>.
\<close>

section \<open>Names\<close>

definition nul :: string where
  "nul = [CHR 0x00]"

definition labelValueMaxLength :: nat where
  "labelValueMaxLength = 63"

definition trimRight :: "(char \<Rightarrow> bool) \<Rightarrow> string \<Rightarrow> string" where
  "trimRight cutset s = rev (dropWhile cutset (rev s))"

definition networkDomainLabel :: "'q kube \<Rightarrow> string \<Rightarrow> string \<Rightarrow> string" where
  "networkDomainLabel K prefix identity =
     (let value = prefix @ ''-'' @ identity in
      if length value \<le> labelValueMaxLength then value
      else let suffix = kHash6 K value;
               baseLength = labelValueMaxLength - length suffix - 1;
               base = trimRight (\<lambda>c. c \<in> set ''-_.'') (take baseLength value)
           in base @ ''-'' @ suffix)"

definition teamCohortName :: "'q kube \<Rightarrow> string \<Rightarrow> string" where
  "teamCohortName K team = networkDomainLabel K ''tau-team'' team"

definition workspaceClusterQueueName :: "'q kube \<Rightarrow> string \<Rightarrow> string" where
  "workspaceClusterQueueName K workspace = networkDomainLabel K ''tau-ws'' workspace"

definition quotaKey :: "'q tauResourceQuota \<Rightarrow> string" where
  "quotaKey quota = qResource quota @ nul @ qFlavor quota"

definition normalizedQuotaValue :: "'q kube \<Rightarrow> 'q option \<Rightarrow> string" where
  "normalizedQuotaValue K value = (case value of None \<Rightarrow> ''0'' | Some q \<Rightarrow> kQuantityString K q)"

section \<open>Validation\<close>

definition checkQuota ::
  "'q::linordered_ab_group_add tauResourceQuota \<Rightarrow> (string, string goset) gomap \<Rightarrow> ((string, string goset) gomap) res" where
  "checkQuota quota byFlavor =
     (let args = [qFlavor quota, qResource quota];
          resources = gm_get [] byFlavor (qFlavor quota)
      in if qNominal quota < 0 then Inl (Errorf ''quota for flavor %q resource %q must be non-negative'' args)
         else if (\<exists>v \<in> set_option (qBorrowing quota). v < 0)
         then Inl (Errorf ''%s for flavor %q resource %q must be non-negative'' (''borrowingLimit'' # args))
         else if (\<exists>v \<in> set_option (qLending quota). v < 0)
         then Inl (Errorf ''%s for flavor %q resource %q must be non-negative'' (''lendingLimit'' # args))
         else if qResource quota \<in> set resources
         then Inl (Errorf ''quota for flavor %q resource %q is duplicated'' args)
         else Inr (gm_set (qFlavor quota) (gs_add (qResource quota) resources) byFlavor))"

text \<open>The sets overlap and \<open>reflect.DeepEqual\<close> tells them apart.\<close>

definition badOverlap :: "string goset \<Rightarrow> string goset \<Rightarrow> bool" where
  "badOverlap a b \<longleftrightarrow> list_ex (\<lambda>r. r \<in> set b) a \<and> set a \<noteq> set b"

fun checkFlavorPairs :: "(string, string goset) gomap \<Rightarrow> string list \<Rightarrow> unit res" where
  "checkFlavorPairs byFlavor [] = Inr ()"
| "checkFlavorPairs byFlavor (f # fs) =
     (case filter (\<lambda>g. badOverlap (gm_get [] byFlavor f) (gm_get [] byFlavor g)) fs of
        g # _ \<Rightarrow> Inl (Errorf ''flavors %q and %q must cover identical or disjoint resource sets'' [f, g])
      | [] \<Rightarrow> checkFlavorPairs byFlavor fs)"

definition validateQuotaValues :: "'q::linordered_ab_group_add tauResourceQuota list \<Rightarrow> unit res" where
  "validateQuotaValues quotas =
     bindE (foldE checkQuota quotas []) (\<lambda>byFlavor. checkFlavorPairs byFlavor (sort (gm_keys byFlavor)))"

definition validateQuotaFlavors ::
  "(string \<Rightarrow> kobj res) \<Rightarrow> 'q::linordered_ab_group_add tauResourceQuota list \<Rightarrow> unit res" where
  "validateQuotaFlavors getFlavor quotas =
     bindE (validateQuotaValues quotas)
       (\<lambda>_. foldE (\<lambda>quota u. bindE (mapErr (Wrapped ''ResourceFlavor %q is not ready'' [qFlavor quota])
                                      (getFlavor (qFlavor quota))) (\<lambda>_. Inr u)) quotas ())"

section \<open>Resource groups\<close>

definition groupByFlavor :: "'q tauResourceQuota list \<Rightarrow> (string, 'q tauResourceQuota list) gomap" where
  "groupByFlavor quotas =
     map (\<lambda>(f, entries). (f, sort_key qResource entries))
       (fold (\<lambda>quota m. gm_set (qFlavor quota) (gm_get [] m (qFlavor quota) @ [quota]) m) quotas [])"

definition addToGroup ::
  "string list \<Rightarrow> string \<Rightarrow> (string, string list \<times> string list) gomap \<Rightarrow> (string, string list \<times> string list) gomap" where
  "addToGroup resources flavor groups =
     (let key = join resources nul in
      case gm_lookup groups key of
        None \<Rightarrow> gm_set key (resources, [flavor]) groups
      | Some (rs, fs) \<Rightarrow> gm_set key (rs, fs @ [flavor]) groups)"

definition quotaObject :: "'q kube \<Rightarrow> bool \<Rightarrow> 'q tauResourceQuota \<Rightarrow> json" where
  "quotaObject K includeLimits quota =
     JMap ([(''name'', JString (qResource quota)), (''nominalQuota'', JString (kQuantityString K (qNominal quota)))] @
       (if includeLimits
        then [(''borrowingLimit'', JString (normalizedQuotaValue K (qBorrowing quota))),
              (''lendingLimit'', JString (normalizedQuotaValue K (qLending quota)))]
        else []))"

definition flavorObject :: "string \<Rightarrow> json list \<Rightarrow> json" where
  "flavorObject name resources = JMap [(''name'', JString name), (''resources'', JList resources)]"

definition groupObject :: "string list \<Rightarrow> json list \<Rightarrow> json" where
  "groupObject covered flavors =
     JMap [(''coveredResources'', JList (map JString covered)), (''flavors'', JList flavors)]"

text \<open>The groups: the covered resources and the sorted flavors, ordered by the joined resource names.\<close>

definition quotaGroups :: "'q tauResourceQuota list \<Rightarrow> (string list \<times> string list) list" where
  "quotaGroups quotas =
     (let byResourceSet = fold (\<lambda>(f, entries) m. addToGroup (map qResource entries) f m) (groupByFlavor quotas) []
      in map (\<lambda>key. let (resources, flavors) = gm_get ([], []) byResourceSet key in (resources, sort flavors))
           (sort (gm_keys byResourceSet)))"

definition quotaResourceGroups :: "'q kube \<Rightarrow> 'q tauResourceQuota list \<Rightarrow> bool \<Rightarrow> json list" where
  "quotaResourceGroups K quotas includeLimits =
     map (\<lambda>(resources, flavors).
       groupObject resources
         (map (\<lambda>f. flavorObject f (map (quotaObject K includeLimits) (gm_get [] (groupByFlavor quotas) f))) flavors))
       (quotaGroups quotas)"

section \<open>Reading quotas back\<close>

definition field :: "jobject \<Rightarrow> string \<Rightarrow> string" where
  "field m f = sprint (gm_get JNull m f)"

definition nestedSliceOrEmpty :: "'q kube \<Rightarrow> jobject \<Rightarrow> string list \<Rightarrow> (json list) res" where
  "nestedSliceOrEmpty K m fs =
     bindE (kNestedSlice K m fs) (\<lambda>found. Inr (case found of None \<Rightarrow> [] | Some xs \<Rightarrow> xs))"

definition readResourceQuota ::
  "'q::linordered_ab_group_add kube \<Rightarrow> string \<Rightarrow> bool \<Rightarrow> string \<Rightarrow> json \<Rightarrow> (string, 'q) gomap \<Rightarrow> ((string, 'q) gomap) res" where
  "readResourceQuota K queue includeBorrowing flavorName raw maximums =
     (case asMap raw of
        None \<Rightarrow> Inl (Errorf ''ClusterQueue %q has malformed resource quota'' [queue])
      | Some quota \<Rightarrow>
          let key = field quota ''name'' @ nul @ flavorName in
          bindE (mapErr (Wrapped ''ClusterQueue %q has invalid nominal quota'' [queue])
                   (kParseQuantity K (field quota ''nominalQuota'')))
            (\<lambda>nominal.
               if includeBorrowing
               then let borrowing = trimSpace (field quota ''borrowingLimit'') in
                    if borrowing = [] \<or> borrowing = ''<nil>'' then Inr (gm_set key nominal maximums)
                    else bindE (mapErr (Wrapped ''ClusterQueue %q has invalid borrowing limit'' [queue])
                                  (kParseQuantity K borrowing))
                           (\<lambda>limit. Inr (gm_set key (nominal + limit) maximums))
               else Inr (gm_set key nominal maximums)))"

definition readFlavorQuota ::
  "'q::linordered_ab_group_add kube \<Rightarrow> string \<Rightarrow> bool \<Rightarrow> json \<Rightarrow> (string, 'q) gomap \<Rightarrow> ((string, 'q) gomap) res" where
  "readFlavorQuota K queue includeBorrowing raw maximums =
     (case asMap raw of
        None \<Rightarrow> Inl (Errorf ''ClusterQueue %q has malformed flavor quota'' [queue])
      | Some flavor \<Rightarrow>
          bindE (mapErr (Wrapped ''ClusterQueue %q has malformed flavor resources'' [queue])
                   (nestedSliceOrEmpty K flavor [''resources'']))
            (\<lambda>resources. foldE (readResourceQuota K queue includeBorrowing (field flavor ''name'')) resources maximums))"

definition readGroupQuota ::
  "'q::linordered_ab_group_add kube \<Rightarrow> string \<Rightarrow> bool \<Rightarrow> json \<Rightarrow> (string, 'q) gomap \<Rightarrow> ((string, 'q) gomap) res" where
  "readGroupQuota K queue includeBorrowing raw maximums =
     (case asMap raw of
        None \<Rightarrow> Inl (Errorf ''ClusterQueue %q has malformed resourceGroups'' [queue])
      | Some grp \<Rightarrow>
          bindE (mapErr (Wrapped ''ClusterQueue %q has malformed flavors'' [queue])
                   (nestedSliceOrEmpty K grp [''flavors'']))
            (\<lambda>flavors. foldE (readFlavorQuota K queue includeBorrowing) flavors maximums))"

definition clusterQueueQuota ::
  "'q::linordered_ab_group_add kube \<Rightarrow> kobj \<Rightarrow> bool \<Rightarrow> ((string, 'q) gomap) res" where
  "clusterQueueQuota K queue includeBorrowing =
     (case kNestedSlice K (oObject queue) [''spec'', ''resourceGroups''] of
        Inl _ \<Rightarrow> Inl (Errorf ''ClusterQueue %q has no readable resourceGroups'' [oName queue])
      | Inr None \<Rightarrow> Inl (Errorf ''ClusterQueue %q has no readable resourceGroups'' [oName queue])
      | Inr (Some groups) \<Rightarrow> foldE (readGroupQuota K (oName queue) includeBorrowing) groups [])"

definition clusterQueueMaximumQuota :: "'q::linordered_ab_group_add kube \<Rightarrow> kobj \<Rightarrow> ((string, 'q) gomap) res" where
  "clusterQueueMaximumQuota K queue = clusterQueueQuota K queue True"

definition clusterQueueNominalQuota :: "'q::linordered_ab_group_add kube \<Rightarrow> kobj \<Rightarrow> ((string, 'q) gomap) res" where
  "clusterQueueNominalQuota K queue = clusterQueueQuota K queue False"

text \<open>Active reservations from the status of a ClusterQueue.\<close>

definition readReservation ::
  "'q kube \<Rightarrow> string \<Rightarrow> string \<Rightarrow> json \<Rightarrow> (string, 'q) gomap \<Rightarrow> ((string, 'q) gomap) res" where
  "readReservation K queue flavorName raw out =
     (case asMap raw of
        None \<Rightarrow> Inl (Errorf ''ClusterQueue %q has malformed reservation resource'' [queue])
      | Some reservation \<Rightarrow>
          let resourceName = field reservation ''name'' in
          bindE (mapErr (Wrapped ''ClusterQueue %q has invalid reservation for flavor %q resource %q''
                           [queue, flavorName, resourceName])
                   (kParseQuantity K (field reservation ''total'')))
            (\<lambda>total. Inr (gm_set (resourceName @ nul @ flavorName) total out)))"

definition readFlavorReservation ::
  "'q kube \<Rightarrow> string \<Rightarrow> json \<Rightarrow> (string, 'q) gomap \<Rightarrow> ((string, 'q) gomap) res" where
  "readFlavorReservation K queue raw out =
     (case asMap raw of
        None \<Rightarrow> Inl (Errorf ''ClusterQueue %q has malformed reservation status'' [queue])
      | Some flavor \<Rightarrow>
          bindE (mapErr (Wrapped ''ClusterQueue %q has malformed reservation resources'' [queue])
                   (nestedSliceOrEmpty K flavor [''resources'']))
            (\<lambda>resources. foldE (readReservation K queue (field flavor ''name'')) resources out))"

definition clusterQueueReservations :: "'q kube \<Rightarrow> kobj \<Rightarrow> ((string, 'q) gomap) res" where
  "clusterQueueReservations K queue =
     bindE (mapErr (Wrapped ''read ClusterQueue %q reservations'' [oName queue])
              (kNestedSlice K (oObject queue) [''status'', ''flavorsReservation'']))
       (\<lambda>found. case found of
                  None \<Rightarrow> Inr []
                | Some reservations \<Rightarrow> foldE (readFlavorReservation K (oName queue)) reservations [])"

text \<open>A quota may not drop below what is reserved.\<close>

definition validateClusterQueueQuotaReduction :: "'q::linordered_ab_group_add kube \<Rightarrow> kobj \<Rightarrow> kobj \<Rightarrow> unit res" where
  "validateClusterQueueQuotaReduction K existing desired =
     bindE (clusterQueueReservations K existing) (\<lambda>reservations.
       if length reservations = 0 then Inr ()
       else bindE (clusterQueueMaximumQuota K desired) (\<lambda>maximums.
         foldE (\<lambda>(key, total) u.
           let maximum = gm_get 0 maximums key in
           if total > maximum
           then let (resourceName, flavorName, _) = cut key (CHR 0x00) in
                Inl (Errorf ''refusing to reduce ClusterQueue %q flavor %q resource %q below active reservation %s (new maximum %s)''
                       [oName existing, flavorName, resourceName, kQuantityString K total, kQuantityString K maximum])
           else Inr u) reservations ()))"

definition quotaValuesNonIncreasing :: "(string, 'q::linorder) gomap \<Rightarrow> (string, 'q) gomap \<Rightarrow> bool" where
  "quotaValuesNonIncreasing existing desired =
     list_all (\<lambda>(key, desiredValue).
       case gm_lookup existing key of None \<Rightarrow> False | Some existingValue \<Rightarrow> \<not> desiredValue > existingValue) desired"

section \<open>Names fit into a label\<close>

lemma networkDomainLabel_length:
  assumes "kube_laws K"
  shows "length (networkDomainLabel K prefix identity) \<le> labelValueMaxLength"
proof -
  have "length (trimRight P s) \<le> length s" for P s
    using length_dropWhile_le [of P "rev s"] by (simp add: trimRight_def)
  from this [of "\<lambda>c. c \<in> set ''-_.''" "take (labelValueMaxLength - 12 - 1) (prefix @ ''-'' @ identity)"]
  show ?thesis
    using kube_lawsD(7) [OF assms]
    by (auto simp: networkDomainLabel_def Let_def labelValueMaxLength_def)
qed

section \<open>What validation accepts\<close>

definition quota_nonneg :: "'q::linordered_ab_group_add tauResourceQuota \<Rightarrow> bool" where
  "quota_nonneg q \<longleftrightarrow>
     0 \<le> qNominal q \<and> (\<forall>v \<in> set_option (qBorrowing q). 0 \<le> v) \<and> (\<forall>v \<in> set_option (qLending q). 0 \<le> v)"

definition resourcesOf :: "'q tauResourceQuota list \<Rightarrow> string \<Rightarrow> string set" where
  "resourcesOf quotas f = {qResource q | q. q \<in> set quotas \<and> qFlavor q = f}"

definition quotas_ok :: "'q::linordered_ab_group_add tauResourceQuota list \<Rightarrow> bool" where
  "quotas_ok quotas \<longleftrightarrow>
     list_all quota_nonneg quotas \<and>
     distinct (map (\<lambda>q. (qFlavor q, qResource q)) quotas) \<and>
     (\<forall>f g. resourcesOf quotas f \<inter> resourcesOf quotas g \<noteq> {} \<longrightarrow> resourcesOf quotas f = resourcesOf quotas g)"

lemma checkQuota_iff:
  "checkQuota q m = Inr m' \<longleftrightarrow>
     quota_nonneg q \<and> qResource q \<notin> set (gm_get [] m (qFlavor q)) \<and>
     m' = gm_set (qFlavor q) (gs_add (qResource q) (gm_get [] m (qFlavor q))) m"
  by (auto simp: checkQuota_def quota_nonneg_def Let_def not_less)

lemma checkQuotas_spec:
  assumes "gm_inv m"
  shows "(\<exists>m'. foldE checkQuota qs m = Inr m') \<longleftrightarrow>
      list_all quota_nonneg qs \<and> distinct (map (\<lambda>q. (qFlavor q, qResource q)) qs) \<and>
      (\<forall>q \<in> set qs. qResource q \<notin> set (gm_get [] m (qFlavor q)))"
    and "foldE checkQuota qs m = Inr m' \<Longrightarrow>
      gm_inv m' \<and> (\<forall>f. set (gm_get [] m' f) = set (gm_get [] m f) \<union> resourcesOf qs f) \<and>
      set (gm_keys m') = set (gm_keys m) \<union> qFlavor ` set qs"
  using assms
proof (induction qs arbitrary: m)
  case Nil
  { case 1 then show ?case by simp }
  { case 2 then show ?case by (simp add: resourcesOf_def) }
next
  case (Cons q qs)
  {
    case (1 m)
    let ?m = "gm_set (qFlavor q) (gs_add (qResource q) (gm_get [] m (qFlavor q))) m"
    have inv: "gm_inv ?m" using 1 by simp
    show ?case
    proof (cases "quota_nonneg q \<and> qResource q \<notin> set (gm_get [] m (qFlavor q))")
      case True
      then have "checkQuota q m = Inr ?m" by (simp add: checkQuota_iff)
      then have "(\<exists>m'. foldE checkQuota (q # qs) m = Inr m') \<longleftrightarrow> (\<exists>m'. foldE checkQuota qs ?m = Inr m')" by simp
      also have "\<dots> \<longleftrightarrow> list_all quota_nonneg qs \<and> distinct (map (\<lambda>q. (qFlavor q, qResource q)) qs) \<and>
          (\<forall>q' \<in> set qs. qResource q' \<notin> set (gm_get [] ?m (qFlavor q')))"
        by (rule Cons.IH(1) [OF inv])
      also have "(\<forall>q' \<in> set qs. qResource q' \<notin> set (gm_get [] ?m (qFlavor q'))) \<longleftrightarrow>
          (qFlavor q, qResource q) \<notin> set (map (\<lambda>q. (qFlavor q, qResource q)) qs) \<and>
          (\<forall>q' \<in> set qs. qResource q' \<notin> set (gm_get [] m (qFlavor q')))"
      proof -
        have e: "qResource q' \<notin> set (gm_get [] ?m (qFlavor q')) \<longleftrightarrow>
            (qFlavor q, qResource q) \<noteq> (qFlavor q', qResource q') \<and> qResource q' \<notin> set (gm_get [] m (qFlavor q'))"
          for q' :: "'a tauResourceQuota"
          by (cases "qFlavor q' = qFlavor q") auto
        show ?thesis unfolding e set_map image_iff by blast
      qed
      finally show ?thesis using True by auto
    next
      case False
      then have "\<nexists>u. checkQuota q m = Inr u" by (auto simp: checkQuota_iff)
      then show ?thesis using False by (auto simp: bindE_Inr_iff)
    qed
  }
  {
    case (2 m)
    then obtain u where u: "checkQuota q m = Inr u" "foldE checkQuota qs u = Inr m'" by (auto simp: bindE_Inr_iff)
    then have eq: "u = gm_set (qFlavor q) (gs_add (qResource q) (gm_get [] m (qFlavor q))) m" by (simp add: checkQuota_iff)
    then have "gm_inv u" using 2(2) by simp
    from Cons.IH(2) [OF u(2) this] show ?case
      by (auto simp: eq resourcesOf_def)
  }
qed

lemma badOverlap_iff: "badOverlap a b \<longleftrightarrow> set a \<inter> set b \<noteq> {} \<and> set a \<noteq> set b"
  by (auto simp: badOverlap_def list_ex_iff)

lemma checkFlavorPairs_iff:
  "checkFlavorPairs m fs = Inr () \<longleftrightarrow> sorted_wrt (\<lambda>f g. \<not> badOverlap (gm_get [] m f) (gm_get [] m g)) fs"
  by (induction fs) (auto simp: filter_empty_conv split: list.split) 

lemma validateQuotaValues_iff: "validateQuotaValues quotas = Inr () \<longleftrightarrow> quotas_ok quotas"
proof (cases "foldE checkQuota quotas []")
  case (Inl e)
  then have "\<not> (\<exists>m'. foldE checkQuota quotas [] = Inr m')" by simp
  then have "\<not> quotas_ok quotas"
    unfolding checkQuotas_spec(1) [of "[]", simplified] quotas_ok_def by blast
  then show ?thesis using Inl by (simp add: validateQuotaValues_def)
next
  case (Inr m)
  have ok: "list_all quota_nonneg quotas" "distinct (map (\<lambda>q. (qFlavor q, qResource q)) quotas)"
    using checkQuotas_spec(1) [of "[]" quotas] Inr by auto
  have m: "gm_inv m" "\<And>f. set (gm_get [] m f) = resourcesOf quotas f" "set (gm_keys m) = qFlavor ` set quotas"
    using checkQuotas_spec(2) [OF _ Inr] by auto
  let ?bad = "\<lambda>f g. badOverlap (gm_get [] m f) (gm_get [] m g)"
  have sym: "?bad f g \<longleftrightarrow> ?bad g f" for f g by (auto simp: badOverlap_iff)
  have d: "distinct (sort (gm_keys m))" using m(1) by (simp add: gm_inv_def gm_keys_def)
  have "sorted_wrt (\<lambda>f g. \<not> ?bad f g) (sort (gm_keys m)) \<longleftrightarrow> (\<forall>f g. \<not> ?bad f g)"
  proof
    assume s: "sorted_wrt (\<lambda>f g. \<not> ?bad f g) (sort (gm_keys m))"
    show "\<forall>f g. \<not> ?bad f g"
    proof (intro allI notI)
      fix f g assume b: "?bad f g"
      then have "resourcesOf quotas f \<noteq> {}" "resourcesOf quotas g \<noteq> {}" "f \<noteq> g"
        by (auto simp: badOverlap_iff m(2))
      then have "f \<in> set (sort (gm_keys m))" "g \<in> set (sort (gm_keys m))" by (auto simp: m(3) resourcesOf_def)
      then obtain i j where "i < length (sort (gm_keys m))" "j < length (sort (gm_keys m))"
        "sort (gm_keys m) ! i = f" "sort (gm_keys m) ! j = g" by (metis in_set_conv_nth)
      then show False
        using b sym [of f g] sorted_wrt_nth_less [OF s, of i j] sorted_wrt_nth_less [OF s, of j i] \<open>f \<noteq> g\<close>
        by (metis linorder_neqE_nat)
    qed
  next
    assume "\<forall>f g. \<not> ?bad f g"
    then show "sorted_wrt (\<lambda>f g. \<not> ?bad f g) (sort (gm_keys m))" by (simp add: sorted_wrt_iff_nth_less)
  qed
  also have "\<dots> \<longleftrightarrow> (\<forall>f g. resourcesOf quotas f \<inter> resourcesOf quotas g \<noteq> {} \<longrightarrow> resourcesOf quotas f = resourcesOf quotas g)"
    unfolding badOverlap_iff m(2) by blast
  finally show ?thesis
    using Inr ok by (simp add: validateQuotaValues_def checkFlavorPairs_iff quotas_ok_def)
qed

section \<open>The structure of resource groups\<close>

lemma groupByFlavor_keys: "set (gm_keys (groupByFlavor quotas)) = qFlavor ` set quotas"
  and groupByFlavor_inv: "gm_inv (groupByFlavor quotas)"
  and groupByFlavor_get: "gm_get [] (groupByFlavor quotas) f = sort_key qResource (filter (\<lambda>q. qFlavor q = f) quotas)"
proof -
  let ?step = "\<lambda>quota m. gm_set (qFlavor quota) (gm_get [] m (qFlavor quota) @ [quota]) m"
  have inv: "gm_inv (fold ?step qs m)" if "gm_inv m" for qs :: "'a tauResourceQuota list" and m
    using that by (induction qs arbitrary: m) simp_all
  have keys: "set (gm_keys (fold ?step qs m)) = set (gm_keys m) \<union> qFlavor ` set qs" for qs :: "'a tauResourceQuota list" and m
    by (induction qs arbitrary: m) auto
  have get: "gm_get [] (fold ?step qs m) f = gm_get [] m f @ filter (\<lambda>q. qFlavor q = f) qs"
    for qs :: "'a tauResourceQuota list" and m
    by (induction qs arbitrary: m) auto
  have "gm_keys (map (\<lambda>(f, entries). (f, sort_key qResource entries)) m) = gm_keys m" for m :: "(string, 'a tauResourceQuota list) gomap"
    by (induction m) auto
  then show "set (gm_keys (groupByFlavor quotas)) = qFlavor ` set quotas"
    by (simp add: groupByFlavor_def keys)
  show "gm_inv (groupByFlavor quotas)" by (simp add: groupByFlavor_def gm_inv_map_snd inv)
  show "gm_get [] (groupByFlavor quotas) f = sort_key qResource (filter (\<lambda>q. qFlavor q = f) quotas)"
    using get [of quotas "[]"]
    by (simp add: groupByFlavor_def gm_get_def gm_lookup_map_snd split: option.splits)
qed

definition flavorResources :: "'q tauResourceQuota list \<Rightarrow> string \<Rightarrow> string list" where
  "flavorResources quotas f = map qResource (gm_get [] (groupByFlavor quotas) f)"

lemma flavorResources_set: "set (flavorResources quotas f) = resourcesOf quotas f"
  by (auto simp: flavorResources_def groupByFlavor_get resourcesOf_def)

lemma groupByFlavor_flavors: "map (\<lambda>(f, entries). (map qResource entries, f)) (groupByFlavor quotas) =
    map (\<lambda>f. (flavorResources quotas f, f)) (gm_keys (groupByFlavor quotas))"
proof -
  have "gm_get [] (groupByFlavor quotas) f = entries" if "(f, entries) \<in> set (groupByFlavor quotas)" for f entries
    using that groupByFlavor_inv [of quotas] by (simp add: gm_get_def gm_lookup_in)
  then show ?thesis by (auto simp: flavorResources_def gm_keys_def)
qed

text \<open>The groups as they grow: which flavors a key holds, and whose resources it lists.\<close>

definition groups_inv :: "(string \<Rightarrow> string list) \<Rightarrow> string list \<Rightarrow> (string, string list \<times> string list) gomap \<Rightarrow> bool" where
  "groups_inv res fs g \<longleftrightarrow>
     gm_inv g \<and>
     (\<forall>key rs gs. gm_lookup g key = Some (rs, gs) \<longrightarrow>
        gs = filter (\<lambda>f. join (res f) nul = key) fs \<and> gs \<noteq> [] \<and> rs = res (hd gs)) \<and>
     (\<forall>f \<in> set fs. gm_lookup g (join (res f) nul) \<noteq> None)"

lemma groups_invD:
  assumes "groups_inv res fs g"
  shows "gm_inv g"
    and "gm_lookup g key = Some (rs, gs) \<Longrightarrow> gs = filter (\<lambda>f. join (res f) nul = key) fs"
    and "gm_lookup g key = Some (rs, gs) \<Longrightarrow> gs \<noteq> []"
    and "gm_lookup g key = Some (rs, gs) \<Longrightarrow> rs = res (hd gs)"
    and "f \<in> set fs \<Longrightarrow> \<exists>rs gs. gm_lookup g (join (res f) nul) = Some (rs, gs)"
proof -
  show "gm_inv g" using assms by (simp add: groups_inv_def)
  show "gs = filter (\<lambda>f. join (res f) nul = key) fs" "gs \<noteq> []" "rs = res (hd gs)"
    if "gm_lookup g key = Some (rs, gs)"
    using assms that unfolding groups_inv_def by blast+
  show "\<exists>rs gs. gm_lookup g (join (res f) nul) = Some (rs, gs)" if "f \<in> set fs"
    using assms that unfolding groups_inv_def by (metis not_Some_eq surj_pair)
qed

lemma addToGroup_inv:
  assumes inv: "groups_inv res fs g"
  shows "groups_inv res (fs @ [f]) (addToGroup (res f) f g)"
proof -
  let ?k = "join (res f) nul"
  let ?old = "filter (\<lambda>f'. join (res f') nul = ?k) fs"
  define entry where "entry = (case gm_lookup g ?k of None \<Rightarrow> (res f, [f]) | Some (rs, gs) \<Rightarrow> (rs, gs @ [f]))"
  have g': "addToGroup (res f) f g = gm_set ?k entry g"
    by (simp add: addToGroup_def Let_def entry_def split: option.split)
  have e: "snd entry = ?old @ [f]" "fst entry = res (hd (?old @ [f]))"
  proof -
    show "snd entry = ?old @ [f]"
    proof (cases "gm_lookup g ?k")
      case None
      then have "?old = []" using groups_invD(5) [OF inv] by (fastforce simp: filter_empty_conv)
      then show ?thesis using None by (simp add: entry_def)
    next
      case (Some p)
      then show ?thesis using groups_invD(2) [OF inv, of ?k "fst p" "snd p"] by (simp add: entry_def case_prod_unfold)
    qed
    show "fst entry = res (hd (?old @ [f]))"
    proof (cases "gm_lookup g ?k")
      case None
      then have "?old = []" using groups_invD(5) [OF inv] by (fastforce simp: filter_empty_conv)
      then show ?thesis using None by (simp add: entry_def)
    next
      case (Some p)
      then have "gm_lookup g ?k = Some (fst p, snd p)" by simp
      from groups_invD(2-4) [OF inv this] show ?thesis using Some by (simp add: entry_def case_prod_unfold)
    qed
  qed
  show ?thesis
    unfolding groups_inv_def g'
  proof (intro conjI allI impI ballI)
    show "gm_inv (gm_set ?k entry g)" using groups_invD(1) [OF inv] by simp
    show "gm_lookup (gm_set ?k entry g) (join (res f') nul) \<noteq> None" if "f' \<in> set (fs @ [f])" for f'
      using that groups_invD(5) [OF inv, of f'] by auto
    fix key rs gs
    assume l: "gm_lookup (gm_set ?k entry g) key = Some (rs, gs)"
    have "gs = filter (\<lambda>f. join (res f) nul = key) (fs @ [f]) \<and> gs \<noteq> [] \<and> rs = res (hd gs)"
    proof (cases "key = ?k")
      case True
      then have "rs = fst entry" "gs = snd entry" using l by auto
      then show ?thesis unfolding e True by simp
    next
      case False
      then have "gm_lookup g key = Some (rs, gs)" using l by simp
      from groups_invD(2-4) [OF inv this] show ?thesis using False by auto
    qed
    then show "gs = filter (\<lambda>f. join (res f) nul = key) (fs @ [f])" "gs \<noteq> []" "rs = res (hd gs)" by blast+
  qed
qed

lemma addToGroups_inv: "groups_inv res fs (fold (\<lambda>f. addToGroup (res f) f) fs [])"
proof (induction fs rule: rev_induct)
  case Nil
  show ?case by (simp add: groups_inv_def)
next
  case (snoc f fs)
  then show ?case using addToGroup_inv by simp
qed

lemma quotaGroups_alt:
  fixes quotas :: "'q tauResourceQuota list"
  defines "res \<equiv> flavorResources quotas" and "fs \<equiv> gm_keys (groupByFlavor quotas)"
  defines "g \<equiv> fold (\<lambda>f. addToGroup (res f) f) fs []"
  shows "quotaGroups quotas =
    map (\<lambda>key. let (resources, flavors) = gm_get ([], []) g key in (resources, sort flavors)) (sort (gm_keys g))"
proof -
  have "fold (\<lambda>(f, entries) m. addToGroup (map qResource entries) f m) (groupByFlavor quotas) [] =
      fold (\<lambda>(rs, f). addToGroup rs f) (map (\<lambda>(f, entries). (map qResource entries, f)) (groupByFlavor quotas)) []"
    by (simp add: fold_map comp_def case_prod_unfold)
  also have "\<dots> = g"
    unfolding groupByFlavor_flavors by (simp add: fold_map comp_def g_def fs_def res_def)
  finally show ?thesis by (simp add: quotaGroups_def)
qed

lemma quotaGroups_mem:
  assumes "(rs, gs) \<in> set (quotaGroups quotas)"
  shows "\<exists>f0 \<in> qFlavor ` set quotas. rs = flavorResources quotas f0 \<and>
    set gs = {f \<in> qFlavor ` set quotas. join (flavorResources quotas f) nul = join rs nul}"
    and "distinct gs" and "sorted gs"
proof -
  let ?res = "flavorResources quotas" and ?fs = "gm_keys (groupByFlavor quotas)"
  let ?g = "fold (\<lambda>f. addToGroup (?res f) f) ?fs []"
  have inv: "groups_inv ?res ?fs ?g" by (rule addToGroups_inv)
  obtain key where key: "key \<in> set (gm_keys ?g)"
    "(rs, gs) = (let (resources, flavors) = gm_get ([], []) ?g key in (resources, sort flavors))"
    using assms unfolding quotaGroups_alt by auto
  then obtain gs0 where l: "gm_lookup ?g key = Some (rs, gs0)" and gs: "gs = sort gs0"
    by (auto simp: gm_key_iff gm_get_def split: option.splits prod.splits)
  note gs0 = groups_invD(2-4) [OF inv l]
  have "hd gs0 \<in> set gs0" using gs0(2) by simp
  then have h: "hd gs0 \<in> set ?fs" "join (?res (hd gs0)) nul = key" by (subst (asm) gs0(1), simp)+
  show "\<exists>f0 \<in> qFlavor ` set quotas. rs = ?res f0 \<and>
      set gs = {f \<in> qFlavor ` set quotas. join (?res f) nul = join rs nul}"
    using h gs0(3) by (intro bexI [of _ "hd gs0"]) (auto simp: gs gs0(1) groupByFlavor_keys)
  show "sorted gs" by (simp add: gs)
  have "distinct ?fs" using groupByFlavor_inv [of quotas] by (simp add: gm_inv_def gm_keys_def)
  then show "distinct gs" by (simp add: gs gs0(1))
qed

lemma quotaGroups_cover:
  assumes "f \<in> qFlavor ` set quotas"
  shows "\<exists>(rs, gs) \<in> set (quotaGroups quotas). f \<in> set gs"
proof -
  let ?res = "flavorResources quotas" and ?fs = "gm_keys (groupByFlavor quotas)"
  let ?g = "fold (\<lambda>f. addToGroup (?res f) f) ?fs []"
  have inv: "groups_inv ?res ?fs ?g" by (rule addToGroups_inv)
  have f: "f \<in> set ?fs" using assms by (simp add: groupByFlavor_keys)
  then obtain rs gs where l: "gm_lookup ?g (join (?res f) nul) = Some (rs, gs)"
    using groups_invD(5) [OF inv] by blast
  then have "f \<in> set gs" using groups_invD(2) [OF inv l] f by simp
  moreover have "join (?res f) nul \<in> set (gm_keys ?g)" using l by (simp add: gm_key_iff)
  ultimately show ?thesis
    unfolding quotaGroups_alt
    by (intro bexI [of _ "(rs, sort gs)"]) (auto simp: l gm_get_def intro!: image_eqI [of _ _ "join (?res f) nul"])
qed

text \<open>Joined names determine the list of names when no name contains the separator.\<close>

definition nulFree :: "string \<Rightarrow> bool" where
  "nulFree s \<longleftrightarrow> CHR 0x00 \<notin> set s"

lemma join_Cons: "xs \<noteq> [] \<Longrightarrow> join (x # xs) nul = x @ CHR 0x00 # join xs nul"
  by (cases xs) (simp_all add: nul_def)

lemma join_inj:
  assumes "join xs nul = join ys nul" "xs \<noteq> []" "ys \<noteq> []" "list_all nulFree xs" "list_all nulFree ys"
  shows "xs = ys"
  using assms
proof (induction xs arbitrary: ys)
  case (Cons x xs)
  then obtain y ys' where ys: "ys = y # ys'" by (cases ys) auto
  have nf: "CHR 0x00 \<notin> set x" "CHR 0x00 \<notin> set y" using Cons.prems by (simp_all add: ys nulFree_def)
  have eq: "join (x # xs) nul = join (y # ys') nul" using Cons.prems(1) ys by simp
  have cx: "cut (join (x # xs) nul) (CHR 0x00) = (x, join xs nul, xs \<noteq> [])"
    using nf(1) by (cases xs) (simp_all add: cut_not_found join_Cons cut_found del: join.simps(3))
  have cy: "cut (join (y # ys') nul) (CHR 0x00) = (y, join ys' nul, ys' \<noteq> [])"
    using nf(2) by (cases ys') (simp_all add: cut_not_found join_Cons cut_found del: join.simps(3))
  have "x = y" "join xs nul = join ys' nul" "xs = [] \<longleftrightarrow> ys' = []" using cx cy unfolding eq by auto
  then show ?case
    using Cons.IH [of ys'] Cons.prems by (cases "xs = []") (simp_all add: ys)
qed simp

lemma quotaKey_inj:
  assumes "nulFree (qResource q)" "nulFree (qResource q')" "quotaKey q = quotaKey q'"
  shows "qResource q = qResource q' \<and> qFlavor q = qFlavor q'"
proof -
  have "cut (quotaKey q) (CHR 0x00) = (qResource q, qFlavor q, True)"
    "cut (quotaKey q') (CHR 0x00) = (qResource q', qFlavor q', True)"
    using assms(1,2) by (simp_all add: quotaKey_def nul_def nulFree_def cut_found)
  then show ?thesis using assms(3) by simp
qed

section \<open>Written quotas read back\<close>

lemma foldE_map_total:
  assumes "\<And>x m. x \<in> set xs \<Longrightarrow> f (g x) m = Inr (h x m)"
  shows "foldE f (map g xs) m = Inr (fold h xs m)"
  using assms by (induction xs arbitrary: m) auto

definition storedValue :: "bool \<Rightarrow> 'q::linordered_ab_group_add tauResourceQuota \<Rightarrow> 'q" where
  "storedValue includeBorrowing q =
     (if includeBorrowing then qNominal q + (case qBorrowing q of None \<Rightarrow> 0 | Some b \<Rightarrow> b) else qNominal q)"

lemma readResourceQuota_quotaObject:
  assumes "kube_laws K" "includeBorrowing \<longrightarrow> includeLimits"
  shows "readResourceQuota K queue includeBorrowing flavor (quotaObject K includeLimits q) m =
    Inr (gm_set (qResource q @ nul @ flavor) (storedValue includeBorrowing q) m)"
proof -
  note laws = kube_lawsD [OF assms(1)]
  have z: "trimSpace ''0'' = ''0''" by (simp add: trimSpace_def asciiSpace_def)
  show ?thesis
  proof (cases includeBorrowing)
    case False
    then show ?thesis
      by (simp add: readResourceQuota_def quotaObject_def field_def gm_get_def laws storedValue_def Let_def)
  next
    case True
    then have "includeLimits" using assms(2) by simp
    with True show ?thesis
      by (cases "qBorrowing q")
        (simp_all add: readResourceQuota_def quotaObject_def field_def gm_get_def laws storedValue_def Let_def
          normalizedQuotaValue_def z)
  qed
qed

lemma readFlavorQuota_flavorObject:
  assumes "kube_laws K" "includeBorrowing \<longrightarrow> includeLimits"
  shows "readFlavorQuota K queue includeBorrowing (flavorObject f (map (quotaObject K includeLimits) qs)) m =
    Inr (fold (\<lambda>q. gm_set (qResource q @ nul @ f) (storedValue includeBorrowing q)) qs m)"
proof -
  have "kNestedSlice K [(''name'', JString f), (''resources'', JList (map (quotaObject K includeLimits) qs))] [''resources''] =
      Inr (Some (map (quotaObject K includeLimits) qs))"
    by (rule kube_slice_key [OF assms(1)]) simp
  moreover have "foldE (readResourceQuota K queue includeBorrowing f) (map (quotaObject K includeLimits) qs) m =
      Inr (fold (\<lambda>q. gm_set (qResource q @ nul @ f) (storedValue includeBorrowing q)) qs m)"
    by (rule foldE_map_total) (rule readResourceQuota_quotaObject [OF assms])
  ultimately show ?thesis
    by (simp add: readFlavorQuota_def flavorObject_def nestedSliceOrEmpty_def field_def gm_get_def)
qed

definition flavorWrites :: "bool \<Rightarrow> 'q::linordered_ab_group_add tauResourceQuota list \<Rightarrow> string \<Rightarrow> (string \<times> 'q) list" where
  "flavorWrites includeBorrowing quotas f =
     map (\<lambda>q. (qResource q @ nul @ f, storedValue includeBorrowing q)) (gm_get [] (groupByFlavor quotas) f)"

lemma readGroups_written:
  assumes "kube_laws K" "includeBorrowing \<longrightarrow> includeLimits"
  shows "foldE (readGroupQuota K queue includeBorrowing) (quotaResourceGroups K quotas includeLimits) m =
    Inr (fold (\<lambda>(k, v). gm_set k v) (concat (map (flavorWrites includeBorrowing quotas) (concat (map snd (quotaGroups quotas))))) m)"
proof -
  let ?w = "\<lambda>f. fold (\<lambda>(k, v). gm_set k v) (flavorWrites includeBorrowing quotas f)"
  let ?obj = "\<lambda>f. flavorObject f (map (quotaObject K includeLimits) (gm_get [] (groupByFlavor quotas) f))"
  have fl: "readFlavorQuota K queue includeBorrowing (?obj f) m = Inr (?w f m)" for f m
    by (simp add: readFlavorQuota_flavorObject [OF assms] flavorWrites_def fold_map comp_def)
  have grp: "readGroupQuota K queue includeBorrowing (groupObject rs (map ?obj fs)) m = Inr (fold ?w fs m)" for rs fs m
  proof -
    have "kNestedSlice K [(''coveredResources'', JList (map JString rs)), (''flavors'', JList (map ?obj fs))] [''flavors''] =
        Inr (Some (map ?obj fs))"
      by (rule kube_slice_key [OF assms(1)]) simp
    moreover have "foldE (readFlavorQuota K queue includeBorrowing) (map ?obj fs) m = Inr (fold ?w fs m)"
      by (rule foldE_map_total) (rule fl)
    ultimately show ?thesis
      by (simp add: readGroupQuota_def groupObject_def nestedSliceOrEmpty_def)
  qed
  have "foldE (readGroupQuota K queue includeBorrowing) (quotaResourceGroups K quotas includeLimits) m =
      Inr (fold (\<lambda>p. fold ?w (snd p)) (quotaGroups quotas) m)"
    unfolding quotaResourceGroups_def
    by (rule foldE_map_total) (simp add: grp case_prod_unfold)
  also have "fold (\<lambda>p. fold ?w (snd p)) gs m =
      fold (\<lambda>(k, v). gm_set k v) (concat (map (flavorWrites includeBorrowing quotas) (concat (map snd gs)))) m" for gs m
  proof -
    have f: "fold ?w fs m = fold (\<lambda>(k, v). gm_set k v) (concat (map (flavorWrites includeBorrowing quotas) fs)) m" for fs m
      by (induction fs arbitrary: m) simp_all
    show ?thesis by (induction gs arbitrary: m) (simp_all add: f)
  qed
  finally show ?thesis .
qed

lemma written_entries:
  "set (concat (map (flavorWrites includeBorrowing quotas) (concat (map snd (quotaGroups quotas))))) =
     (\<lambda>q. (quotaKey q, storedValue includeBorrowing q)) ` set quotas"
proof -
  have fs: "set (concat (map snd (quotaGroups quotas))) = qFlavor ` set quotas"
  proof
    show "set (concat (map snd (quotaGroups quotas))) \<subseteq> qFlavor ` set quotas"
    proof
      fix f assume "f \<in> set (concat (map snd (quotaGroups quotas)))"
      then obtain rs gs where g: "(rs, gs) \<in> set (quotaGroups quotas)" "f \<in> set gs" by auto
      from quotaGroups_mem(1) [OF g(1)] show "f \<in> qFlavor ` set quotas" using g(2) by auto
    qed
    show "qFlavor ` set quotas \<subseteq> set (concat (map snd (quotaGroups quotas)))"
    proof
      fix f assume "f \<in> qFlavor ` set quotas"
      from quotaGroups_cover [OF this] obtain p where "p \<in> set (quotaGroups quotas)" "f \<in> set (snd p)" by auto
      then show "f \<in> set (concat (map snd (quotaGroups quotas)))" by auto
    qed
  qed
  have w: "set (flavorWrites includeBorrowing quotas f) =
      (\<lambda>q. (quotaKey q, storedValue includeBorrowing q)) ` {q \<in> set quotas. qFlavor q = f}" for f
    by (auto simp: flavorWrites_def groupByFlavor_get quotaKey_def)
  have "set (concat (map (flavorWrites includeBorrowing quotas) (concat (map snd (quotaGroups quotas))))) =
      (\<Union>f \<in> set (concat (map snd (quotaGroups quotas))). set (flavorWrites includeBorrowing quotas f))"
    by (simp only: set_concat set_map image_image)
  also have "\<dots> = (\<Union>f \<in> qFlavor ` set quotas. (\<lambda>q. (quotaKey q, storedValue includeBorrowing q)) ` {q \<in> set quotas. qFlavor q = f})"
    unfolding fs w ..
  also have "\<dots> = (\<lambda>q. (quotaKey q, storedValue includeBorrowing q)) ` set quotas" by auto
  finally show ?thesis .
qed

end
