(* ===== verification/Queue_Merge.thy ===== *)
theory Queue_Merge
  imports Quota_Resources "HOL-Library.Multiset"
begin

text \<open>
  The second half of \<open>quota_resources.go\<close>: the desired Cohort of a team and the desired
  ClusterQueue of a workspace, the annotation that lists the managed quota keys, and the
  merge of a desired ClusterQueue with an established one. A workspace without a team
  reference never reaches this code; the name of its team is an argument.
\<close>

section \<open>Desired objects\<close>

definition cohortKind :: string where "cohortKind = ''Cohort''"
definition clusterQueueKind :: string where "clusterQueueKind = ''ClusterQueue''"
definition localQueueKind :: string where "localQueueKind = ''LocalQueue''"
definition resourceFlavorKind :: string where "resourceFlavorKind = ''ResourceFlavor''"
definition nvidiaGPUResourceName :: string where "nvidiaGPUResourceName = ''nvidia.com/gpu''"
definition annotationManagedQuotaKeys :: string where "annotationManagedQuotaKeys = ''tau.azure.com/managed-quota-keys''"

definition desiredTeamCohort :: "'q kube \<Rightarrow> 'q tauTeam \<Rightarrow> 'q tauResourceQuota list \<Rightarrow> kobj" where
  "desiredTeamCohort K team sharedQuota =
     setOwnerUIDAnnotation
       \<lparr>oKind = cohortKind, oName = teamCohortName K (tmName team), oNamespace = [], oUID = [],
        oLabels = teamLabels (tmName team), oAnnotations = [],
        oObject = [(''spec'', JMap [(''resourceGroups'', JList (quotaResourceGroups K sharedQuota False))])]\<rparr>
       (tmUID team)"

definition desiredWorkspaceClusterQueue :: "'q kube \<Rightarrow> string \<Rightarrow> 'q tauWorkspace \<Rightarrow> kobj" where
  "desiredWorkspaceClusterQueue K teamName workspace =
     setOwnerUIDAnnotation
       \<lparr>oKind = clusterQueueKind, oName = workspaceClusterQueueName K (wsName workspace), oNamespace = [], oUID = [],
        oLabels = gm_set labelTeam teamName (workspaceLabels (wsName workspace)), oAnnotations = [],
        oObject = [(''spec'', JMap
          [(''cohortName'', JString (teamCohortName K teamName)),
           (''queueingStrategy'', JString ''BestEffortFIFO''),
           (''namespaceSelector'', JMap [(''matchLabels'', JMap [(labelWorkspace, JString (wsName workspace))])]),
           (''preemption'', JMap
              [(''withinClusterQueue'', JString ''LowerPriority''), (''reclaimWithinCohort'', JString ''Never''),
               (''borrowWithinCohort'', JMap [(''policy'', JString ''Never'')])]),
           (''resourceGroups'', JList (quotaResourceGroups K (wsQuota workspace) True))])]\<rparr>
       (wsUID workspace)"

section \<open>Managed quota keys\<close>

definition setManagedQuotaKeys :: "'q kube \<Rightarrow> kobj \<Rightarrow> string goset \<Rightarrow> kobj" where
  "setManagedQuotaKeys K queue keys =
     queue\<lparr>oAnnotations := gm_set annotationManagedQuotaKeys (kEncodeKeys K (sort keys)) (oAnnotations queue)\<rparr>"

definition managedQuotaKeys :: "'q kube \<Rightarrow> kobj \<Rightarrow> (string goset option) res" where
  "managedQuotaKeys K queue =
     (case gm_lookup (oAnnotations queue) annotationManagedQuotaKeys of
        None \<Rightarrow> Inr None
      | Some raw \<Rightarrow>
          bindE (mapErr (Wrapped ''ClusterQueue %q has invalid managed quota keys'' [oName queue]) (kDecodeKeys K raw))
            (\<lambda>keys. Inr (Some (fold gs_add keys []))))"

definition setWorkspaceManagedQuotaKeys ::
  "'q::linordered_ab_group_add kube \<Rightarrow> 'q tauWorkspace \<Rightarrow> kobj \<Rightarrow> kobj res" where
  "setWorkspaceManagedQuotaKeys K workspace desired =
     (if length (wsQuota workspace) > 0
      then Inr (setManagedQuotaKeys K desired (fold (\<lambda>quota. gs_add (quotaKey quota)) (wsQuota workspace) []))
      else bindE (clusterQueueNominalQuota K desired)
             (\<lambda>nominals. Inr (setManagedQuotaKeys K desired (fold (\<lambda>(key, _). gs_add key) nominals []))))"

section \<open>Merging with an established queue\<close>

type_synonym quotaObjects = "(string, (string, jobject) gomap) gomap"

definition admissionOnlyResourceQuota :: "jobject \<Rightarrow> jobject" where
  "admissionOnlyResourceQuota quota =
     gm_set ''lendingLimit'' (JString ''0'')
       (gm_set ''borrowingLimit'' (JString ''0'') (gm_set ''nominalQuota'' (JString ''0'') quota))"

definition readQuotaObject :: "string \<Rightarrow> json \<Rightarrow> (string, jobject) gomap \<Rightarrow> ((string, jobject) gomap) res" where
  "readQuotaObject queue raw byResource =
     (case asMap raw of
        None \<Rightarrow> Inl (Errorf ''ClusterQueue %q has malformed resource quota'' [queue])
      | Some quota \<Rightarrow> Inr (gm_set (field quota ''name'') quota byResource))"

definition readFlavorObjects :: "'q kube \<Rightarrow> string \<Rightarrow> json \<Rightarrow> quotaObjects \<Rightarrow> quotaObjects res" where
  "readFlavorObjects K queue raw out =
     (case asMap raw of
        None \<Rightarrow> Inl (Errorf ''ClusterQueue %q has malformed flavor quota'' [queue])
      | Some flavor \<Rightarrow>
          let flavorName = field flavor ''name'' in
          bindE (mapErr (Wrapped ''ClusterQueue %q has malformed flavor resources'' [queue])
                   (nestedSliceOrEmpty K flavor [''resources'']))
            (\<lambda>resources.
               bindE (foldE (readQuotaObject queue) resources (gm_get [] out flavorName))
                 (\<lambda>byResource. Inr (gm_set flavorName byResource out))))"

definition readGroupObjects :: "'q kube \<Rightarrow> string \<Rightarrow> json \<Rightarrow> quotaObjects \<Rightarrow> quotaObjects res" where
  "readGroupObjects K queue raw out =
     (case asMap raw of
        None \<Rightarrow> Inl (Errorf ''ClusterQueue %q has malformed resourceGroups'' [queue])
      | Some grp \<Rightarrow>
          bindE (mapErr (Wrapped ''ClusterQueue %q has malformed flavors'' [queue])
                   (nestedSliceOrEmpty K grp [''flavors'']))
            (\<lambda>flavors. foldE (readFlavorObjects K queue) flavors out))"

definition clusterQueueQuotaObjects :: "'q kube \<Rightarrow> kobj \<Rightarrow> quotaObjects res" where
  "clusterQueueQuotaObjects K queue =
     bindE (mapErr (Wrapped ''read ClusterQueue %q resourceGroups'' [oName queue])
              (kNestedSlice K (oObject queue) [''spec'', ''resourceGroups'']))
       (\<lambda>found. case found of
                  None \<Rightarrow> Inr []
                | Some groups \<Rightarrow> foldE (readGroupObjects K (oName queue)) groups [])"

text \<open>One flavor joins the group of its resource set, unless it overlaps an earlier flavor.\<close>

definition groupFlavor ::
  "string \<times> (string, jobject) gomap \<Rightarrow> (string, string list \<times> string list) gomap \<times> (string, string goset) gomap \<Rightarrow>
     ((string, string list \<times> string list) gomap \<times> (string, string goset) gomap) res" where
  "groupFlavor entry acc =
     (let flavor = fst entry; names = sort (gm_keys (snd entry)) in
      case List.find (\<lambda>(_, otherSet). badOverlap names otherSet) (snd acc) of
        Some (otherFlavor, _) \<Rightarrow>
          Inl (Errorf ''flavors %q and %q cover overlapping non-identical resource sets'' [flavor, otherFlavor])
      | None \<Rightarrow> Inr (addToGroup names flavor (fst acc), gm_set flavor names (snd acc)))"

definition objectGroup :: "quotaObjects \<Rightarrow> string list \<times> string list \<Rightarrow> json" where
  "objectGroup quotas grp =
     groupObject (fst grp)
       (map (\<lambda>f. flavorObject f (map (\<lambda>r. JMap (gm_get [] (gm_get [] quotas f) r)) (fst grp))) (sort (snd grp)))"

definition quotaObjectsResourceGroups :: "quotaObjects \<Rightarrow> (json list) res" where
  "quotaObjectsResourceGroups quotas =
     bindE (foldE groupFlavor quotas ([], []))
       (\<lambda>acc. Inr (map (\<lambda>key. objectGroup quotas (gm_get ([], []) (fst acc) key)) (sort (gm_keys (fst acc)))))"

text \<open>
  What the merge keeps of a quota the workspace does not declare: a GPU quota, a declared
  resource and a key managed before stay only for admission, the rest is copied.
\<close>

definition mergeResource ::
  "(string \<Rightarrow> bool) \<Rightarrow> string \<times> jobject \<Rightarrow> (string, jobject) gomap \<Rightarrow> (string, jobject) gomap" where
  "mergeResource admissionOnly entry target =
     (if gm_lookup target (fst entry) \<noteq> None then target
      else gm_set (fst entry)
             (if admissionOnly (fst entry) then admissionOnlyResourceQuota (snd entry) else snd entry) target)"

definition mergeFlavor ::
  "(string \<Rightarrow> string \<Rightarrow> bool) \<Rightarrow> string \<times> (string, jobject) gomap \<Rightarrow> quotaObjects \<Rightarrow> quotaObjects" where
  "mergeFlavor admissionOnly entry desiredQuotas =
     gm_set (fst entry)
       (fold (mergeResource (admissionOnly (fst entry))) (snd entry) (gm_get [] desiredQuotas (fst entry))) desiredQuotas"

definition retainedForAdmission ::
  "'q tauWorkspace \<Rightarrow> 'q tauTeam option \<Rightarrow> string goset \<Rightarrow> string \<Rightarrow> string \<Rightarrow> bool" where
  "retainedForAdmission workspace team sourceManagedKeys flavor resourceName =
     (let key = resourceName @ nul @ flavor in
      resourceName = nvidiaGPUResourceName \<or>
      resourceName \<in> set (map qResource (wsQuota workspace)) \<or>
      key \<in> set sourceManagedKeys \<or>
      (case team of None \<Rightarrow> False | Some t \<Rightarrow> key \<in> set (map quotaKey (tmQuota t))))"

definition preserveUndeclaredWorkspaceResources ::
  "'q kube \<Rightarrow> 'q tauWorkspace \<Rightarrow> 'q tauTeam option \<Rightarrow> kobj \<Rightarrow> kobj \<Rightarrow> kobj res" where
  "preserveUndeclaredWorkspaceResources K workspace team source desired =
     bindE (clusterQueueQuotaObjects K source) (\<lambda>sourceQuotas.
     bindE (clusterQueueQuotaObjects K desired) (\<lambda>desiredQuotas.
     bindE (managedQuotaKeys K source) (\<lambda>managed.
       let keys = (case managed of None \<Rightarrow> [] | Some ks \<Rightarrow> ks);
           merged = fold (mergeFlavor (retainedForAdmission workspace team keys)) sourceQuotas desiredQuotas
       in bindE (mapErr (Wrapped ''merge ClusterQueue %q admission resources'' [oName source])
                   (quotaObjectsResourceGroups merged)) (\<lambda>groups.
          bindE (mapErr (Wrapped ''preserve ClusterQueue %q undeclared resources'' [oName source])
                   (kSetNestedField K (oObject desired) (JList groups) [''spec'', ''resourceGroups'']))
            (\<lambda>object. Inr (desired\<lparr>oObject := object\<rparr>))))))"

definition copySpecField :: "'q kube \<Rightarrow> kobj \<Rightarrow> string \<Rightarrow> kobj \<Rightarrow> kobj res" where
  "copySpecField K source fld desired =
     bindE (mapErr (Wrapped ''read ClusterQueue %q %s'' [oName source, fld]) (kNestedField K (oObject source) [''spec'', fld]))
       (\<lambda>found. case found of
                  None \<Rightarrow> Inr desired
                | Some value \<Rightarrow>
                    bindE (mapErr (Wrapped ''preserve ClusterQueue %q %s'' [oName source, fld])
                             (kSetNestedField K (oObject desired) value [''spec'', fld]))
                      (\<lambda>object. Inr (desired\<lparr>oObject := object\<rparr>)))"

text \<open>The merge once the established queue is known (\<open>None\<close> when there is none).\<close>

definition mergeEstablishedQueue ::
  "'q::linordered_ab_group_add kube \<Rightarrow> 'q tauWorkspace \<Rightarrow> 'q tauTeam option \<Rightarrow> kobj option \<Rightarrow> kobj \<Rightarrow> kobj res" where
  "mergeEstablishedQueue K workspace team established desired =
     (case established of
        None \<Rightarrow> setWorkspaceManagedQuotaKeys K workspace desired
      | Some source \<Rightarrow>
          bindE (foldE (copySpecField K source) [''admissionChecks'', ''admissionChecksStrategy''] desired) (\<lambda>checked.
          if length (wsQuota workspace) = 0
          then bindE (mapErr (Wrapped ''read ClusterQueue %q resourceGroups'' [oName source])
                        (kNestedSlice K (oObject source) [''spec'', ''resourceGroups''])) (\<lambda>found.
               case found of
                 None \<Rightarrow> Inl (Errorf ''established ClusterQueue %q has no resourceGroups to migrate'' [oName source])
               | Some groups \<Rightarrow>
                   if length groups = 0
                   then Inl (Errorf ''established ClusterQueue %q has no resourceGroups to migrate'' [oName source])
                   else bindE (mapErr (Wrapped ''preserve ClusterQueue %q resourceGroups'' [oName source])
                                 (kSetNestedField K (oObject checked) (JList groups) [''spec'', ''resourceGroups'']))
                     (\<lambda>object.
                        bindE (managedQuotaKeys K source) (\<lambda>managed.
                          case managed of
                            Some keys \<Rightarrow> Inr (setManagedQuotaKeys K (checked\<lparr>oObject := object\<rparr>) keys)
                          | None \<Rightarrow> setWorkspaceManagedQuotaKeys K workspace (checked\<lparr>oObject := object\<rparr>))))
          else bindE (preserveUndeclaredWorkspaceResources K workspace team source checked)
                 (setWorkspaceManagedQuotaKeys K workspace)))"

section \<open>Written quotas are read back\<close>

lemma quotaKeys_distinct:
  assumes "distinct (map (\<lambda>q. (qFlavor q, qResource q)) quotas)" "\<forall>q \<in> set quotas. nulFree (qResource q)"
  shows "distinct (map quotaKey quotas)"
  using assms
proof (induction quotas)
  case (Cons q qs)
  have "quotaKey q \<notin> quotaKey ` set qs"
  proof
    assume "quotaKey q \<in> quotaKey ` set qs"
    then obtain q' where q': "q' \<in> set qs" "quotaKey q = quotaKey q'" by blast
    then have "(qFlavor q, qResource q) = (qFlavor q', qResource q')"
      using quotaKey_inj [of q q'] Cons.prems(2) by simp
    then show False using q'(1) Cons.prems(1) by (auto simp: image_iff)
  qed
  then show ?case using Cons by simp
qed simp

lemma assign_all_values:
  assumes "set ps = (\<lambda>q. (key q, val q)) ` set qs" "distinct (map key qs)"
  shows "gm_lookup (fold (\<lambda>(k, v). gm_set k v) ps []) k = map_of (map (\<lambda>q. (key q, val q)) qs) k"
proof -
  let ?qs = "map (\<lambda>q. (key q, val q)) qs"
  have d: "distinct (map fst ?qs)" using assms(2) by (simp add: comp_def)
  have "map_of (rev ps) k = map_of ?qs k"
  proof (cases "map_of ?qs k")
    case None
    then have "k \<notin> fst ` set ps" using assms(1) by (auto simp: map_of_eq_None_iff)
    then have "map_of (rev ps) k = None" by (simp add: map_of_eq_None_iff)
    then show ?thesis using None by metis
  next
    case (Some v)
    obtain v' where v': "map_of (rev ps) k = Some v'"
      using map_of_SomeD [OF Some] assms(1) by (metis (no_types, lifting) list.set_map set_rev weak_map_of_SomeI)
    then have "(k, v') \<in> set ?qs" using map_of_SomeD [OF v'] assms(1) by auto
    then show ?thesis using v' map_of_is_SomeI [OF d] by simp
  qed
  then show ?thesis by (simp add: gomap.assign_all_map_of split: option.split)
qed

lemma clusterQueueQuota_written:
  assumes "kube_laws K" "includeBorrowing \<longrightarrow> includeLimits"
    and "nestedField (JMap (oObject queue)) [''spec'', ''resourceGroups''] = Some (Some (JList (quotaResourceGroups K quotas includeLimits)))"
    and "distinct (map (\<lambda>q. (qFlavor q, qResource q)) quotas)" "\<forall>q \<in> set quotas. nulFree (qResource q)"
  shows "\<exists>m. clusterQueueQuota K queue includeBorrowing = Inr m \<and>
    (\<forall>key. gm_lookup m key = map_of (map (\<lambda>q. (quotaKey q, storedValue includeBorrowing q)) quotas) key)"
  using readGroups_written [OF assms(1,2), of "oName queue" quotas "[]"]
    assign_all_values [OF written_entries quotaKeys_distinct [OF assms(4,5)], of includeBorrowing]
  by (simp add: clusterQueueQuota_def kube_slice_list [OF assms(1,3)])

lemma desiredWorkspaceClusterQueue_groups:
  "nestedField (JMap (oObject (desiredWorkspaceClusterQueue K t ws))) [''spec'', ''resourceGroups''] =
     Some (Some (JList (quotaResourceGroups K (wsQuota ws) True)))"
  by (simp add: desiredWorkspaceClusterQueue_def setOwnerUIDAnnotation_def)

lemma desiredTeamCohort_groups:
  "nestedField (JMap (oObject (desiredTeamCohort K team quotas))) [''spec'', ''resourceGroups''] =
     Some (Some (JList (quotaResourceGroups K quotas False)))"
  by (simp add: desiredTeamCohort_def setOwnerUIDAnnotation_def)

section \<open>Quota objects are read back\<close>

definition quotaAt :: "quotaObjects \<Rightarrow> string \<Rightarrow> string \<Rightarrow> jobject option" where
  "quotaAt quotas f r = gm_lookup (gm_get [] quotas f) r"

text \<open>Every quota object carries the name it is filed under, and no flavor is listed twice.\<close>

definition objects_ok :: "quotaObjects \<Rightarrow> bool" where
  "objects_ok quotas \<longleftrightarrow> gm_inv quotas \<and> (\<forall>f r q. quotaAt quotas f r = Some q \<longrightarrow> field q ''name'' = r)"

lemma quotaAt_set: "quotaAt (gm_set f m quotas) f' r = (if f' = f then gm_lookup m r else quotaAt quotas f' r)"
  by (simp add: quotaAt_def)

lemma readQuotaObject_named:
  assumes "foldE (readQuotaObject queue) raws m = Inr m'" "\<forall>r q. gm_lookup m r = Some q \<longrightarrow> field q ''name'' = r"
  shows "\<forall>r q. gm_lookup m' r = Some q \<longrightarrow> field q ''name'' = r"
proof (rule foldE_invariant [OF assms(1), where P = "\<lambda>m. \<forall>r q. gm_lookup m r = Some q \<longrightarrow> field q ''name'' = r"])
  show "\<forall>r q. gm_lookup m r = Some q \<longrightarrow> field q ''name'' = r" by (rule assms(2))
  fix x u v assume u: "\<forall>r q. gm_lookup u r = Some q \<longrightarrow> field q ''name'' = r" and "readQuotaObject queue x u = Inr v"
  then obtain quota where v: "v = gm_set (field quota ''name'') quota u" by (auto simp: readQuotaObject_def split: option.splits)
  show "\<forall>r q. gm_lookup v r = Some q \<longrightarrow> field q ''name'' = r"
  proof (intro allI impI)
    fix r q assume "gm_lookup v r = Some q"
    then show "field q ''name'' = r" using u by (cases "r = field quota ''name''") (auto simp: v)
  qed
qed

lemma readFlavorObjects_ok:
  assumes "objects_ok out" "readFlavorObjects K queue raw out = Inr out'"
  shows "objects_ok out'"
proof -
  obtain flavor resources m where out': "out' = gm_set (field flavor ''name'') m out"
    and m: "foldE (readQuotaObject queue) resources (gm_get [] out (field flavor ''name'')) = Inr m"
    using assms(2) by (auto simp: readFlavorObjects_def Let_def bindE_Inr_iff split: option.splits)
  have "\<forall>r q. gm_lookup m r = Some q \<longrightarrow> field q ''name'' = r"
    by (rule readQuotaObject_named [OF m]) (use assms(1) in \<open>simp add: objects_ok_def quotaAt_def\<close>)
  then show ?thesis
    using assms(1) unfolding out' objects_ok_def quotaAt_set by auto
qed

lemma clusterQueueQuotaObjects_ok:
  assumes "clusterQueueQuotaObjects K queue = Inr quotas"
  shows "objects_ok quotas"
proof -
  have base: "objects_ok []" by (simp add: objects_ok_def quotaAt_def)
  have grp: "objects_ok v" if u: "objects_ok u" and v: "readGroupObjects K q x u = Inr v" for q x u v
  proof -
    obtain flavors where "foldE (readFlavorObjects K q) flavors u = Inr v"
      using v by (auto simp: readGroupObjects_def bindE_Inr_iff split: option.splits)
    then show ?thesis by (rule foldE_invariant [where P = objects_ok]) (use u readFlavorObjects_ok in blast)+
  qed
  consider "quotas = []" | groups where "foldE (readGroupObjects K (oName queue)) groups [] = Inr quotas"
    using assms by (auto simp: clusterQueueQuotaObjects_def bindE_Inr_iff split: option.splits)
  then show ?thesis
  proof cases
    case 1
    then show ?thesis using base by simp
  next
    case 2
    then show ?thesis by (rule foldE_invariant [where P = objects_ok]) (use base grp in blast)+
  qed
qed

text \<open>Writing the objects of one flavor.\<close>

definition putFlavor :: "quotaObjects \<Rightarrow> string list \<Rightarrow> string \<Rightarrow> quotaObjects \<Rightarrow> quotaObjects" where
  "putFlavor quotas rs f out =
     gm_set f (fold (\<lambda>r. gm_set (field (gm_get [] (gm_get [] quotas f) r) ''name'') (gm_get [] (gm_get [] quotas f) r)) rs
                 (gm_get [] out f)) out"

lemma readGroupObjects_objectGroup:
  assumes "kube_laws K"
  shows "readGroupObjects K queue (objectGroup quotas grp) out = Inr (fold (putFlavor quotas (fst grp)) (sort (snd grp)) out)"
proof -
  let ?q = "\<lambda>f r. JMap (gm_get [] (gm_get [] quotas f) r)"
  let ?obj = "\<lambda>f. flavorObject f (map (?q f) (fst grp))"
  have fl: "readFlavorObjects K queue (?obj f) out = Inr (putFlavor quotas (fst grp) f out)" for f out
  proof -
    have "kNestedSlice K [(''name'', JString f), (''resources'', JList (map (?q f) (fst grp)))] [''resources''] =
        Inr (Some (map (?q f) (fst grp)))"
      by (rule kube_slice_key [OF assms]) simp
    moreover have "foldE (readQuotaObject queue) (map (?q f) (fst grp)) m =
        Inr (fold (\<lambda>r. gm_set (field (gm_get [] (gm_get [] quotas f) r) ''name'') (gm_get [] (gm_get [] quotas f) r)) (fst grp) m)" for m
      by (rule foldE_map_total) (simp add: readQuotaObject_def)
    moreover have "field [(''name'', JString f), (''resources'', JList (map (?q f) (fst grp)))] ''name'' = f"
      by (simp add: field_def gm_get_def)
    ultimately show ?thesis
      by (simp add: readFlavorObjects_def flavorObject_def nestedSliceOrEmpty_def putFlavor_def Let_def)
  qed
  have "kNestedSlice K [(''coveredResources'', JList (map JString (fst grp))), (''flavors'', JList (map ?obj (sort (snd grp))))] [''flavors''] =
      Inr (Some (map ?obj (sort (snd grp))))"
    by (rule kube_slice_key [OF assms]) simp
  moreover have "foldE (readFlavorObjects K queue) (map ?obj (sort (snd grp))) out = Inr (fold (putFlavor quotas (fst grp)) (sort (snd grp)) out)"
    by (rule foldE_map_total) (rule fl)
  ultimately show ?thesis
    by (simp add: readGroupObjects_def objectGroup_def groupObject_def nestedSliceOrEmpty_def)
qed

definition filed :: "quotaObjects \<Rightarrow> string list \<Rightarrow> string \<Rightarrow> bool" where
  "filed quotas rs f \<longleftrightarrow> (\<forall>r \<in> set rs. \<exists>q. quotaAt quotas f r = Some q \<and> field q ''name'' = r)"

lemma putFlavor_at:
  assumes "filed quotas rs f"
  shows "quotaAt (putFlavor quotas rs f out) f' r =
    (if f' = f \<and> r \<in> set rs then quotaAt quotas f r else quotaAt out f' r)"
proof -
  let ?q = "\<lambda>r. gm_get [] (gm_get [] quotas f) r"
  have "gm_lookup (fold (\<lambda>r. gm_set (field (?q r) ''name'') (?q r)) rs m) r =
      (if r \<in> set rs then quotaAt quotas f r else gm_lookup m r)" for m
    using assms
  proof (induction rs arbitrary: m)
    case (Cons a rs)
    obtain q where q: "quotaAt quotas f a = Some q" "field q ''name'' = a" using Cons.prems by (auto simp: filed_def)
    then have "?q a = q" by (simp add: quotaAt_def gm_get_def)
    moreover have "filed quotas rs f" using Cons.prems by (simp add: filed_def)
    ultimately show ?case using q Cons.IH [of "gm_set a q m"] by auto
  qed simp
  then show ?thesis by (auto simp: putFlavor_def quotaAt_def)
qed

lemma putFlavors_at:
  assumes "\<forall>f \<in> set fs. filed quotas rs f"
  shows "quotaAt (fold (putFlavor quotas rs) fs out) f r =
    (if f \<in> set fs \<and> r \<in> set rs then quotaAt quotas f r else quotaAt out f r)"
  using assms
proof (induction fs arbitrary: out)
  case (Cons a fs)
  then show ?case using putFlavor_at [of quotas rs a out f r] by auto
qed simp

lemma putGroups_at:
  assumes "\<forall>grp \<in> set grps. \<forall>f \<in> set (snd grp). filed quotas (fst grp) f"
  shows "quotaAt (fold (\<lambda>grp. fold (putFlavor quotas (fst grp)) (sort (snd grp))) grps out) f r =
    (if \<exists>grp \<in> set grps. f \<in> set (snd grp) \<and> r \<in> set (fst grp) then quotaAt quotas f r else quotaAt out f r)"
  using assms
proof (induction grps arbitrary: out)
  case (Cons g grps)
  have "quotaAt (fold (putFlavor quotas (fst g)) (sort (snd g)) out) f r =
      (if f \<in> set (snd g) \<and> r \<in> set (fst g) then quotaAt quotas f r else quotaAt out f r)"
    using putFlavors_at [of "sort (snd g)" quotas "fst g" out f r] Cons.prems by simp
  then show ?case using Cons.IH [of "fold (putFlavor quotas (fst g)) (sort (snd g)) out"] Cons.prems by auto
qed simp

lemma groupFlavors_groups:
  assumes "foldE groupFlavor entries acc = Inr acc'"
  shows "fst acc' = fold (\<lambda>e. addToGroup (sort (gm_keys (snd e))) (fst e)) entries (fst acc)"
  using assms
proof (induction entries arbitrary: acc)
  case (Cons e entries)
  then obtain u where u: "groupFlavor e acc = Inr u" "foldE groupFlavor entries u = Inr acc'" by (auto simp: bindE_Inr_iff)
  then have "fst u = addToGroup (sort (gm_keys (snd e))) (fst e) (fst acc)"
    by (auto simp: groupFlavor_def Let_def split: option.splits)
  then show ?case using Cons.IH [OF u(2)] by simp
qed simp

text \<open>The names a Kubernetes object can carry.\<close>

definition goodName :: "string \<Rightarrow> bool" where
  "goodName s \<longleftrightarrow> nulFree s \<and> s \<noteq> []"

lemma join_inj_good:
  assumes "join xs nul = join ys nul" "list_all goodName xs" "list_all goodName ys"
  shows "xs = ys"
proof -
  have e: "join zs nul = [] \<longleftrightarrow> zs = []" if "list_all goodName zs" for zs
  proof (cases zs)
    case (Cons z zs')
    then have "join zs nul \<noteq> []" using that by (cases zs') (auto simp: goodName_def)
    then show ?thesis using Cons by simp
  qed simp
  have nf: "list_all nulFree xs" "list_all nulFree ys" using assms(2,3) by (auto simp: list_all_iff goodName_def)
  show ?thesis
  proof (cases "xs = []")
    case True
    then show ?thesis using e [OF assms(2)] e [OF assms(3)] assms(1) by simp
  next
    case False
    then show ?thesis using e [OF assms(2)] e [OF assms(3)] assms(1) join_inj [OF assms(1) _ _ nf] by simp
  qed
qed

lemma quotaAt_key: "quotaAt quotas f r \<noteq> None \<longleftrightarrow> r \<in> set (gm_keys (gm_get [] quotas f))"
  by (simp add: quotaAt_def gm_key_iff)

lemma quotaAt_flavor: "quotaAt quotas f r \<noteq> None \<Longrightarrow> f \<in> set (gm_keys quotas)"
  by (cases "gm_lookup quotas f") (simp_all add: quotaAt_def gm_get_def gm_key_iff)

text \<open>The groups of a successful grouping: which flavors they list and with which resources.\<close>

lemma quotaObjectsResourceGroups_groups:
  assumes "quotaObjectsResourceGroups quotas = Inr groups" "objects_ok quotas"
    and good: "\<forall>f r. quotaAt quotas f r \<noteq> None \<longrightarrow> goodName r"
  shows "\<exists>grps. groups = map (objectGroup quotas) grps \<and>
    (\<forall>grp \<in> set grps. \<forall>f \<in> set (snd grp). filed quotas (fst grp) f) \<and>
    (\<forall>f r. quotaAt quotas f r \<noteq> None \<longrightarrow> (\<exists>grp \<in> set grps. f \<in> set (snd grp) \<and> r \<in> set (fst grp)))"
proof -
  let ?res = "\<lambda>f. sort (gm_keys (gm_get [] quotas f))" and ?fs = "gm_keys quotas"
  obtain acc where acc: "foldE groupFlavor quotas ([], []) = Inr acc"
    and groups: "groups = map (\<lambda>key. objectGroup quotas (gm_get ([], []) (fst acc) key)) (sort (gm_keys (fst acc)))"
    using assms(1) by (auto simp: quotaObjectsResourceGroups_def bindE_Inr_iff)
  have entry: "gm_get [] quotas (fst e) = snd e" if "e \<in> set quotas" for e
    using that assms(2) gm_lookup_in [of quotas "fst e" "snd e"] by (simp add: objects_ok_def gm_get_def)
  have "fst acc = fold (\<lambda>e. addToGroup (sort (gm_keys (snd e))) (fst e)) quotas []"
    using groupFlavors_groups [OF acc] by simp
  also have "\<dots> = fold (\<lambda>e. addToGroup (?res (fst e)) (fst e)) quotas []"
    by (rule fold_cong) (simp_all add: entry)
  also have "\<dots> = fold (\<lambda>f. addToGroup (?res f) f) ?fs []" by (simp add: gm_keys_def fold_map comp_def)
  finally have inv: "groups_inv ?res ?fs (fst acc)" using addToGroups_inv by simp
  have resGood: "list_all goodName (?res f)" for f
    using good by (auto simp: list_all_iff simp flip: quotaAt_key)
  have member: "fst grp = ?res f" "f \<in> set ?fs"
    if key: "key \<in> set (gm_keys (fst acc))" and grp: "grp = gm_get ([], []) (fst acc) key" and f: "f \<in> set (snd grp)" for key grp f
  proof -
    have l: "gm_lookup (fst acc) key = Some (fst grp, snd grp)" using key grp by (auto simp: gm_key_iff gm_get_def)
    note g = groups_invD(2-4) [OF inv l]
    have jf: "join (?res f) nul = key" "f \<in> set ?fs" using f unfolding g(1) by simp_all
    have "hd (snd grp) \<in> set (snd grp)" using g(2) by simp
    then have "join (?res (hd (snd grp))) nul = key" by (subst (asm) (2) g(1)) simp
    then have "?res (hd (snd grp)) = ?res f" using jf(1) join_inj_good resGood by metis
    then show "fst grp = ?res f" "f \<in> set ?fs" using g(3) jf(2) by simp_all
  qed
  define grps where "grps = map (gm_get ([], []) (fst acc)) (sort (gm_keys (fst acc)))"
  have "groups = map (objectGroup quotas) grps" by (simp add: groups grps_def)
  moreover have "\<forall>grp \<in> set grps. \<forall>f \<in> set (snd grp). filed quotas (fst grp) f"
  proof (intro ballI)
    fix grp f assume "grp \<in> set grps" "f \<in> set (snd grp)"
    then obtain key where "key \<in> set (gm_keys (fst acc))" "grp = gm_get ([], []) (fst acc) key" "f \<in> set (snd grp)"
      by (auto simp: grps_def)
    then have "fst grp = ?res f" by (rule member(1))
    then show "filed quotas (fst grp) f"
      using assms(2) by (auto simp: filed_def objects_ok_def quotaAt_def gm_key_iff)
  qed
  moreover have "\<exists>grp \<in> set grps. f \<in> set (snd grp) \<and> r \<in> set (fst grp)" if at: "quotaAt quotas f r \<noteq> None" for f r
  proof -
    have f: "f \<in> set ?fs" by (rule quotaAt_flavor [OF at])
    obtain rs gs where l: "gm_lookup (fst acc) (join (?res f) nul) = Some (rs, gs)" using groups_invD(5) [OF inv f] by blast
    let ?grp = "gm_get ([], []) (fst acc) (join (?res f) nul)"
    have key: "join (?res f) nul \<in> set (gm_keys (fst acc))" using l by (simp add: gm_key_iff)
    have "f \<in> set (snd ?grp)" using groups_invD(2) [OF inv l] f l by (simp add: gm_get_def)
    moreover have "r \<in> set (gm_keys (gm_get [] quotas f))" using at quotaAt_key by blast
    ultimately show ?thesis
      using member(1) [OF key refl] key by (intro bexI [of _ ?grp]) (simp_all add: grps_def)
  qed
  ultimately show ?thesis by blast
qed

lemma quotaObjects_roundtrip:
  assumes "kube_laws K" "quotaObjectsResourceGroups quotas = Inr groups" "objects_ok quotas"
    and "\<forall>f r. quotaAt quotas f r \<noteq> None \<longrightarrow> goodName r"
    and "nestedField (JMap (oObject queue)) [''spec'', ''resourceGroups''] = Some (Some (JList groups))"
  shows "\<exists>Q. clusterQueueQuotaObjects K queue = Inr Q \<and> (\<forall>f r. quotaAt Q f r = quotaAt quotas f r)"
proof -
  obtain grps where g: "groups = map (objectGroup quotas) grps"
    "\<forall>grp \<in> set grps. \<forall>f \<in> set (snd grp). filed quotas (fst grp) f"
    "\<forall>f r. quotaAt quotas f r \<noteq> None \<longrightarrow> (\<exists>grp \<in> set grps. f \<in> set (snd grp) \<and> r \<in> set (fst grp))"
    using quotaObjectsResourceGroups_groups [OF assms(2-4)] by blast
  let ?Q = "fold (\<lambda>grp. fold (putFlavor quotas (fst grp)) (sort (snd grp))) grps []"
  have "foldE (readGroupObjects K (oName queue)) (map (objectGroup quotas) grps) [] = Inr ?Q"
    by (rule foldE_map_total) (rule readGroupObjects_objectGroup [OF assms(1)])
  then have "clusterQueueQuotaObjects K queue = Inr ?Q"
    by (simp add: clusterQueueQuotaObjects_def kube_slice_list [OF assms(1,5)] g(1))
  moreover have "quotaAt ?Q f r = quotaAt quotas f r" for f r
  proof (cases "\<exists>grp \<in> set grps. f \<in> set (snd grp) \<and> r \<in> set (fst grp)")
    case True
    then show ?thesis unfolding putGroups_at [OF g(2)] by simp
  next
    case False
    then have "quotaAt quotas f r = None" using g(3) by blast
    then show ?thesis unfolding putGroups_at [OF g(2)] by (simp add: quotaAt_def)
  qed
  ultimately show ?thesis by blast
qed

section \<open>The merge\<close>

lemma mergeResources_lookup:
  "gm_lookup (fold (mergeResource adm) entries target) r =
    (case gm_lookup target r of
       Some q \<Rightarrow> Some q
     | None \<Rightarrow> map_option (\<lambda>q. if adm r then admissionOnlyResourceQuota q else q) (gm_lookup entries r))"
proof (induction entries arbitrary: target)
  case Nil
  then show ?case by (simp split: option.split)
next
  case (Cons e entries)
  show ?case
    unfolding fold_simps comp_apply Cons.IH
    by (cases "gm_lookup target (fst e)"; cases "r = fst e"; cases e) (auto simp: mergeResource_def split: option.split)
qed

lemma mergeFlavors_at:
  assumes "gm_inv S"
  shows "quotaAt (fold (mergeFlavor adm) S D) f r =
    (case quotaAt D f r of
       Some q \<Rightarrow> Some q
     | None \<Rightarrow> map_option (\<lambda>q. if adm f r then admissionOnlyResourceQuota q else q) (quotaAt S f r))"
  using assms
proof (induction S arbitrary: D)
  case Nil
  then show ?case by (simp add: quotaAt_def split: option.split)
next
  case (Cons e S)
  have inv: "gm_inv S" and fresh: "fst e \<notin> set (gm_keys S)" using Cons.prems by (simp_all add: gm_inv_def gm_keys_def)
  have step: "quotaAt (mergeFlavor adm e D) f' r = (if f' = fst e then
      (case quotaAt D f' r of Some q \<Rightarrow> Some q
       | None \<Rightarrow> map_option (\<lambda>q. if adm f' r then admissionOnlyResourceQuota q else q) (gm_lookup (snd e) r))
      else quotaAt D f' r)" for f'
  proof (cases "f' = fst e")
    case True
    show ?thesis unfolding True by (simp add: mergeFlavor_def quotaAt_set mergeResources_lookup) (simp add: quotaAt_def)
  next
    case False
    then show ?thesis by (simp add: mergeFlavor_def quotaAt_set)
  qed
  show ?case
  proof (cases "f = fst e")
    case True
    then have "quotaAt S f r = None" using fresh quotaAt_flavor by metis
    moreover have "quotaAt (e # S) f r = gm_lookup (snd e) r" using True by (cases e) (simp add: quotaAt_def gm_get_def)
    ultimately show ?thesis using True Cons.IH [OF inv, of "mergeFlavor adm e D"] step [of f]
      by (simp split: option.split)
  next
    case False
    then have "quotaAt (e # S) f r = quotaAt S f r" by (cases e) (auto simp: quotaAt_def gm_get_def)
    then show ?thesis using False Cons.IH [OF inv, of "mergeFlavor adm e D"] step [of f] by (simp split: option.split)
  qed
qed

lemma admissionOnly_name: "field (admissionOnlyResourceQuota q) ''name'' = field q ''name''"
  by (simp add: field_def admissionOnlyResourceQuota_def)

lemma mergeFlavors_ok:
  assumes "objects_ok S" "objects_ok D"
  shows "objects_ok (fold (mergeFlavor adm) S D)"
proof -
  have "gm_inv (fold (mergeFlavor adm) es D)" if "gm_inv D" for es D
    using that by (induction es arbitrary: D) (simp_all add: mergeFlavor_def)
  moreover have "field q ''name'' = r" if "quotaAt (fold (mergeFlavor adm) S D) f r = Some q" for f r q
    using that assms unfolding mergeFlavors_at [OF assms(1) [unfolded objects_ok_def, THEN conjunct1]]
    by (auto simp: objects_ok_def admissionOnly_name split: option.splits if_splits)
  ultimately show ?thesis using assms(2) by (simp add: objects_ok_def)
qed

text \<open>
  C36. The quotas written to a ClusterQueue and to a Cohort are the ones read back from it:
  a ClusterQueue holds exactly the declared nominal quotas, with maximum nominal plus
  borrowing limit, and a Cohort the nominal shared quotas.\<close>

theorem written_quotas_read_back:
  assumes "kube_laws K" and "quotas_ok (wsQuota ws)" and "quotas_ok shared"
    and "\<forall>q \<in> set (wsQuota ws) \<union> set shared. nulFree (qResource q)"
  shows "(\<exists>m. clusterQueueNominalQuota K (desiredWorkspaceClusterQueue K t ws) = Inr m \<and>
            (\<forall>key. gm_lookup m key = map_of (map (\<lambda>q. (quotaKey q, qNominal q)) (wsQuota ws)) key)) \<and>
    (\<exists>m. clusterQueueMaximumQuota K (desiredWorkspaceClusterQueue K t ws) = Inr m \<and>
            (\<forall>key. gm_lookup m key =
               map_of (map (\<lambda>q. (quotaKey q, qNominal q + (case qBorrowing q of None \<Rightarrow> 0 | Some b \<Rightarrow> b))) (wsQuota ws)) key)) \<and>
    (\<exists>m. clusterQueueNominalQuota K (desiredTeamCohort K team shared) = Inr m \<and>
            (\<forall>key. gm_lookup m key = map_of (map (\<lambda>q. (quotaKey q, qNominal q)) shared) key))"
proof -
  have d: "distinct (map (\<lambda>q. (qFlavor q, qResource q)) (wsQuota ws))" "distinct (map (\<lambda>q. (qFlavor q, qResource q)) shared)"
    using assms(2,3) by (simp_all add: quotas_ok_def)
  have n: "\<forall>q \<in> set (wsQuota ws). nulFree (qResource q)" "\<forall>q \<in> set shared. nulFree (qResource q)" using assms(4) by auto
  note ws = clusterQueueQuota_written [OF assms(1) _ desiredWorkspaceClusterQueue_groups d(1) n(1), of _ t]
    and co = clusterQueueQuota_written [OF assms(1) _ desiredTeamCohort_groups d(2) n(2), of _ team]
  from ws [of False] ws [of True] co [of False] show ?thesis
    by (simp add: clusterQueueNominalQuota_def clusterQueueMaximumQuota_def storedValue_def)
qed

theorem written_quotas_read_back_witness:
  "\<exists>m. clusterQueueNominalQuota refKube
       (desiredWorkspaceClusterQueue refKube ''vision''
          ((zeroWorkspace ''tau-system'' ''lab'' ''u1'')\<lparr>wsTeamRef := Some ''vision'',
             wsQuota := [\<lparr>qFlavor = ''h200'', qResource = ''nvidia.com/gpu'', qNominal = 8, qBorrowing = Some 4, qLending = None\<rparr>]\<rparr>)) = Inr m \<and>
     gm_lookup m (''nvidia.com/gpu'' @ nul @ ''h200'') = Some 8"
proof -
  let ?q = "\<lparr>qFlavor = ''h200'', qResource = ''nvidia.com/gpu'', qNominal = 8 :: int, qBorrowing = Some 4, qLending = None\<rparr>"
  let ?ws = "(zeroWorkspace ''tau-system'' ''lab'' ''u1'')\<lparr>wsTeamRef := Some ''vision'', wsQuota := [?q]\<rparr>"
  have ok: "quotas_ok [?q]" by (auto simp: quotas_ok_def quota_nonneg_def resourcesOf_def)
  have nf: "\<forall>q \<in> set (wsQuota ?ws) \<union> set [?q]. nulFree (qResource q)" by (simp add: nulFree_def)
  have "quotas_ok (wsQuota ?ws)" using ok by simp
  from written_quotas_read_back [OF refKube_laws this ok nf, THEN conjunct1, of "''vision''"] obtain m where
    m: "clusterQueueNominalQuota refKube (desiredWorkspaceClusterQueue refKube ''vision'' ?ws) = Inr m"
      "\<forall>key. gm_lookup m key = map_of (map (\<lambda>q. (quotaKey q, qNominal q)) (wsQuota ?ws)) key" by blast
  from m(2) have "gm_lookup m (''nvidia.com/gpu'' @ nul @ ''h200'') = Some 8" by (simp add: quotaKey_def)
  with m(1) show ?thesis by blast
qed

lemma admissionOnly_lookup:
  "gm_lookup (admissionOnlyResourceQuota q) k =
     (if k \<in> {''nominalQuota'', ''borrowingLimit'', ''lendingLimit''} then Some (JString ''0'') else gm_lookup q k)"
  by (simp add: admissionOnlyResourceQuota_def)

text \<open>
  C35. Merging a desired ClusterQueue with the established one loses no flavor and no
  resource, when no resource name is empty or contains a NUL byte: what the workspace declares
  is taken as declared, and every other quota of the established queue stays, with its nominal
  quota, borrowing limit and lending limit set to zero when it is a quota of nvidia.com/gpu, of
  a resource the workspace declares for some flavor, or one whose resource and flavor were
  managed before or are budgeted by the team, and with every field as it was otherwise.\<close>

theorem merge_keeps_every_quota:
  assumes "kube_laws K" and "preserveUndeclaredWorkspaceResources K ws team source desired = Inr queue"
    and "clusterQueueQuotaObjects K source = Inr S" and "clusterQueueQuotaObjects K desired = Inr D"
    and "managedQuotaKeys K source = Inr managed"
    and "\<forall>f r. quotaAt S f r \<noteq> None \<or> quotaAt D f r \<noteq> None \<longrightarrow> goodName r"
  shows "\<exists>Q. clusterQueueQuotaObjects K queue = Inr Q \<and>
    (\<forall>f r.
       (\<forall>q. quotaAt D f r = Some q \<longrightarrow> quotaAt Q f r = Some q) \<and>
       (quotaAt D f r = None \<and> quotaAt S f r = None \<longrightarrow> quotaAt Q f r = None) \<and>
       (\<forall>q. quotaAt D f r = None \<and> quotaAt S f r = Some q \<longrightarrow>
          (\<exists>q'. quotaAt Q f r = Some q' \<and>
             (\<forall>k. gm_lookup q' k =
                (if k \<in> {''nominalQuota'', ''borrowingLimit'', ''lendingLimit''} \<and>
                    (r = ''nvidia.com/gpu'' \<or> r \<in> qResource ` set (wsQuota ws) \<or>
                     (\<exists>ks. managed = Some ks \<and> r @ nul @ f \<in> set ks) \<or>
                     (\<exists>t. team = Some t \<and> (\<exists>b \<in> set (tmQuota t). r @ nul @ f = qResource b @ nul @ qFlavor b)))
                 then Some (JString ''0'') else gm_lookup q k)))))"
proof -
  let ?adm = "retainedForAdmission ws team (case managed of None \<Rightarrow> [] | Some ks \<Rightarrow> ks)"
  let ?M = "fold (mergeFlavor ?adm) S D"
  obtain groups object where g: "quotaObjectsResourceGroups ?M = Inr groups"
    "kSetNestedField K (oObject desired) (JList groups) [''spec'', ''resourceGroups''] = Inr object"
    and queue: "queue = desired\<lparr>oObject := object\<rparr>"
    using assms(2) by (auto simp: preserveUndeclaredWorkspaceResources_def assms(3-5) Let_def bindE_Inr_iff)
  have ok: "objects_ok S" "objects_ok D" using clusterQueueQuotaObjects_ok assms(3,4) by blast+
  have at: "quotaAt ?M f r = (case quotaAt D f r of Some q \<Rightarrow> Some q
      | None \<Rightarrow> map_option (\<lambda>q. if ?adm f r then admissionOnlyResourceQuota q else q) (quotaAt S f r))" for f r
    using ok(1) by (intro mergeFlavors_at) (simp add: objects_ok_def)
  have adm: "?adm f r \<longleftrightarrow> r = ''nvidia.com/gpu'' \<or> r \<in> qResource ` set (wsQuota ws) \<or> (\<exists>ks. managed = Some ks \<and> r @ nul @ f \<in> set ks) \<or>
      (\<exists>t. team = Some t \<and> (\<exists>b \<in> set (tmQuota t). r @ nul @ f = qResource b @ nul @ qFlavor b))" for f r
    by (cases managed; cases team) (auto simp: retainedForAdmission_def nvidiaGPUResourceName_def quotaKey_def image_iff Let_def)
  have "\<forall>f r. quotaAt ?M f r \<noteq> None \<longrightarrow> goodName r" using assms(6) unfolding at by (auto split: option.splits)
  moreover have "nestedField (JMap (oObject queue)) [''spec'', ''resourceGroups''] = Some (Some (JList groups))"
    using nestedField_setNested [OF kube_set_spec [OF assms(1) g(2)]] by (simp add: queue)
  ultimately obtain Q where Q: "clusterQueueQuotaObjects K queue = Inr Q" "\<forall>f r. quotaAt Q f r = quotaAt ?M f r"
    using quotaObjects_roundtrip [OF assms(1) g(1) mergeFlavors_ok [OF ok]] by metis
  show ?thesis
    unfolding adm [symmetric] by (rule exI [of _ Q]) (simp add: Q at admissionOnly_lookup del: insert_iff)
qed

definition exampleWorkspace :: "int tauWorkspace" where
  "exampleWorkspace = (zeroWorkspace ''tau-system'' ''lab'' ''u1'')\<lparr>wsTeamRef := Some ''vision'',
     wsQuota := [\<lparr>qFlavor = ''h200'', qResource = ''gpu'', qNominal = 8, qBorrowing = Some 4, qLending = None\<rparr>]\<rparr>"

definition exampleQueue :: kobj where
  "exampleQueue = \<lparr>oKind = clusterQueueKind, oName = ''old'', oNamespace = [], oUID = ''q1'', oLabels = [], oAnnotations = [],
     oObject = [(''spec'', JMap [(''resourceGroups'',
       JList [groupObject [''cpu''] [flavorObject ''a100'' [JMap [(''name'', JString ''cpu''), (''nominalQuota'', JString ''16'')]]]])])]\<rparr>"

definition mixedQueue :: kobj where
  "mixedQueue = exampleQueue\<lparr>oObject := [(''spec'', JMap [(''resourceGroups'',
       JList [groupObject [''cpu'', ''nvidia.com/gpu''] [flavorObject ''a100'' [JMap [(''name'', JString ''cpu''), (''nominalQuota'', JString ''16'')],
         JMap [(''name'', JString ''nvidia.com/gpu''), (''nominalQuota'', JString ''8'')]]]])])]\<rparr>"

theorem merge_keeps_every_quota_witness:
  "\<exists>queue Q cpu gpu. preserveUndeclaredWorkspaceResources refKube exampleWorkspace None mixedQueue
       (desiredWorkspaceClusterQueue refKube ''vision'' exampleWorkspace) = Inr queue \<and>
     clusterQueueQuotaObjects refKube queue = Inr Q \<and>
     quotaAt Q ''a100'' ''cpu'' = Some cpu \<and> gm_lookup cpu ''nominalQuota'' = Some (JString ''16'') \<and>
     quotaAt Q ''a100'' ''nvidia.com/gpu'' = Some gpu \<and> gm_lookup gpu ''nominalQuota'' = Some (JString ''0'') \<and>
     gm_lookup gpu ''name'' = Some (JString ''nvidia.com/gpu'') \<and> quotaAt Q ''h200'' ''gpu'' \<noteq> None"
proof -
  let ?desired = "desiredWorkspaceClusterQueue refKube ''vision'' exampleWorkspace"
  let ?S = "[(''a100'', [(''cpu'', [(''name'', JString ''cpu''), (''nominalQuota'', JString ''16'')]),
      (''nvidia.com/gpu'', [(''name'', JString ''nvidia.com/gpu''), (''nominalQuota'', JString ''8'')])])]"
  let ?D = "[(''h200'', [(''gpu'', [(''name'', JString ''gpu''), (''nominalQuota'', JString ''8''),
         (''borrowingLimit'', JString ''4''), (''lendingLimit'', JString ''0'')])])]"
  have "\<not> isl (preserveUndeclaredWorkspaceResources refKube exampleWorkspace None mixedQueue ?desired)" by code_simp
  then obtain queue where q: "preserveUndeclaredWorkspaceResources refKube exampleWorkspace None mixedQueue ?desired = Inr queue"
    by (cases "preserveUndeclaredWorkspaceResources refKube exampleWorkspace None mixedQueue ?desired") auto
  have S: "clusterQueueQuotaObjects refKube mixedQueue = Inr ?S" by code_simp
  have D: "clusterQueueQuotaObjects refKube ?desired = Inr ?D" by code_simp
  have m: "managedQuotaKeys refKube mixedQueue = Inr None" by code_simp
  have names: "\<forall>f r. quotaAt ?S f r \<noteq> None \<or> quotaAt ?D f r \<noteq> None \<longrightarrow> goodName r"
    by (auto simp: quotaAt_def gm_get_def goodName_def nulFree_def split: if_splits)
  obtain Q where Q: "clusterQueueQuotaObjects refKube queue = Inr Q" and
    at: "\<And>f r q. quotaAt ?D f r = None \<Longrightarrow> quotaAt ?S f r = Some q \<Longrightarrow> \<exists>q'. quotaAt Q f r = Some q' \<and>
       (\<forall>k. gm_lookup q' k = (if k \<in> {''nominalQuota'', ''borrowingLimit'', ''lendingLimit''} \<and>
           (r = ''nvidia.com/gpu'' \<or> r \<in> qResource ` set (wsQuota exampleWorkspace)) then Some (JString ''0'') else gm_lookup q k))"
    and d: "\<And>f r q. quotaAt ?D f r = Some q \<Longrightarrow> quotaAt Q f r = Some q"
    using merge_keeps_every_quota [OF refKube_laws q S D m names] by (simp del: insert_iff) blast
  have res: "qResource ` set (wsQuota exampleWorkspace) = {''gpu''}" by (simp add: exampleWorkspace_def)
  obtain cpu where "quotaAt Q ''a100'' ''cpu'' = Some cpu" "gm_lookup cpu ''nominalQuota'' = Some (JString ''16'')"
    using at [of "''a100''" "''cpu''"] by (auto simp: quotaAt_def gm_get_def res)
  moreover obtain gpu where "quotaAt Q ''a100'' ''nvidia.com/gpu'' = Some gpu" "gm_lookup gpu ''nominalQuota'' = Some (JString ''0'')"
    "gm_lookup gpu ''name'' = Some (JString ''nvidia.com/gpu'')"
    using at [of "''a100''" "''nvidia.com/gpu''"] by (auto simp: quotaAt_def gm_get_def)
  moreover have "quotaAt Q ''h200'' ''gpu'' \<noteq> None" using d [of "''h200''" "''gpu''"] by (simp add: quotaAt_def gm_get_def)
  ultimately show ?thesis using q Q by blast
qed

lemma reductionLoop:
  fixes maximums :: "(string, 'q::linordered_ab_group_add) gomap"
  shows "foldE (\<lambda>(key, total) u. if total > gm_get 0 maximums key then Inl (err key total) else Inr u) reservations () = Inr () \<longleftrightarrow>
     (\<forall>(key, total) \<in> set reservations. total \<le> gm_get 0 maximums key)"
  by (induction reservations) (auto simp: not_less bindE_Inr_iff split: if_splits)

text \<open>
  The guard of a quota update accepts exactly the updates under which every active
  reservation still fits into the new maximum (nominal plus borrowing limit).\<close>

theorem reduction_guard_exact:
  assumes "clusterQueueReservations K existing = Inr reservations" and "clusterQueueMaximumQuota K desired = Inr maximums"
  shows "validateClusterQueueQuotaReduction K existing desired = Inr () \<longleftrightarrow>
    (\<forall>(key, total) \<in> set reservations. total \<le> gm_get 0 maximums key)"
proof -
  define err where "err key total = (let (resourceName, flavorName, _) = cut key (CHR 0x00) in
      Errorf ''refusing to reduce ClusterQueue %q flavor %q resource %q below active reservation %s (new maximum %s)''
        [oName existing, flavorName, resourceName, kQuantityString K total, kQuantityString K (gm_get 0 maximums key)])" for key total
  have body: "(\<lambda>(key, total) u. let maximum = gm_get 0 maximums key in
           if total > maximum
           then let (resourceName, flavorName, _) = cut key (CHR 0x00) in
                Inl (Errorf ''refusing to reduce ClusterQueue %q flavor %q resource %q below active reservation %s (new maximum %s)''
                       [oName existing, flavorName, resourceName, kQuantityString K total, kQuantityString K maximum])
           else Inr u) = (\<lambda>(key, total) u. if total > gm_get 0 maximums key then Inl (err key total) else Inr u)"
    by (intro ext) (simp add: err_def Let_def case_prod_unfold)
  show ?thesis
    using assms reductionLoop [of maximums err reservations]
    by (simp add: validateClusterQueueQuotaReduction_def body)
qed

theorem reduction_guard_exact_witness:
  "let existing = exampleQueue\<lparr>oObject := [(''status'', JMap [(''flavorsReservation'',
         JList [flavorObject ''h200'' [JMap [(''name'', JString ''gpu''), (''total'', JString ''12'')]]])])]\<rparr>
   in validateClusterQueueQuotaReduction refKube existing (desiredWorkspaceClusterQueue refKube ''vision'' exampleWorkspace) = Inr ()"
proof -
  let ?existing = "exampleQueue\<lparr>oObject := [(''status'', JMap [(''flavorsReservation'',
         JList [flavorObject ''h200'' [JMap [(''name'', JString ''gpu''), (''total'', JString ''12'')]]])])]\<rparr>"
  have r: "clusterQueueReservations refKube ?existing = Inr [(''gpu'' @ nul @ ''h200'', 12)]" by code_simp
  have m: "clusterQueueMaximumQuota refKube (desiredWorkspaceClusterQueue refKube ''vision'' exampleWorkspace) =
      Inr [(''gpu'' @ nul @ ''h200'', 12)]" by code_simp
  from reduction_guard_exact [OF r m] show ?thesis by (simp add: Let_def gm_get_def)
qed

lemma reduction_guard_fits:
  assumes "validateClusterQueueQuotaReduction K existing desired = Inr ()"
  shows "\<exists>reservations. clusterQueueReservations K existing = Inr reservations \<and>
    (reservations \<noteq> [] \<longrightarrow> (\<exists>maximums. clusterQueueMaximumQuota K desired = Inr maximums \<and>
       (\<forall>(key, total) \<in> set reservations. total \<le> gm_get 0 maximums key)))"
proof -
  obtain reservations where r: "clusterQueueReservations K existing = Inr reservations"
    using assms by (auto simp: validateClusterQueueQuotaReduction_def bindE_Inr_iff)
  moreover obtain maximums where "reservations \<noteq> [] \<longrightarrow> clusterQueueMaximumQuota K desired = Inr maximums"
    using assms r by (cases "reservations = []") (auto simp: validateClusterQueueQuotaReduction_def bindE_Inr_iff)
  ultimately show ?thesis using assms reduction_guard_exact [OF r] by (intro exI [of _ reservations]) auto
qed

section \<open>Resource groups of accepted quotas\<close>

lemma flavorResources_sorted: "sorted (flavorResources quotas f)"
  by (simp add: flavorResources_def groupByFlavor_get)

lemma flavorResources_distinct:
  assumes "distinct (map (\<lambda>q. (qFlavor q, qResource q)) quotas)"
  shows "distinct (flavorResources quotas f)"
proof -
  have "distinct (map qResource (filter (\<lambda>q. qFlavor q = f) quotas))"
    using assms by (induction quotas) (auto simp: image_iff)
  moreover have "mset (flavorResources quotas f) = mset (map qResource (filter (\<lambda>q. qFlavor q = f) quotas))"
    by (simp add: flavorResources_def groupByFlavor_get)
  ultimately show ?thesis using mset_eq_imp_distinct_iff by blast
qed

lemma quotaGroups_resources:
  assumes "(rs, gs) \<in> set (quotaGroups quotas)" "f \<in> set gs" "\<forall>q \<in> set quotas. goodName (qResource q)"
  shows "rs = flavorResources quotas f"
proof -
  have good: "list_all goodName (flavorResources quotas f)" for f
    using assms(3) by (auto simp: list_all_iff flavorResources_set resourcesOf_def)
  obtain f0 where "rs = flavorResources quotas f0"
    "set gs = {f \<in> qFlavor ` set quotas. join (flavorResources quotas f) nul = join rs nul}"
    using quotaGroups_mem(1) [OF assms(1)] by blast
  then show ?thesis using join_inj_good [of "flavorResources quotas f" rs] good assms(2) by auto
qed

text \<open>
  Accepted quotas give the resource groups Kueue requires: every flavor is in exactly
  one group, the flavors of a group cover exactly the resources the group lists, and no
  resource is in two groups.\<close>

theorem accepted_quotas_grouped:
  assumes "validateQuotaValues quotas = Inr ()" and "\<forall>q \<in> set quotas. goodName (qResource q)"
  shows "(\<forall>f \<in> qFlavor ` set quotas. \<exists>!grp. grp \<in> set (quotaGroups quotas) \<and> f \<in> set (snd grp)) \<and>
    (\<forall>grp \<in> set (quotaGroups quotas). sorted (snd grp) \<and> distinct (snd grp) \<and> distinct (fst grp) \<and>
       (\<forall>f \<in> set (snd grp). set (fst grp) = resourcesOf quotas f)) \<and>
    (\<forall>g \<in> set (quotaGroups quotas). \<forall>h \<in> set (quotaGroups quotas). g \<noteq> h \<longrightarrow> set (fst g) \<inter> set (fst h) = {})"
proof -
  have ok: "quotas_ok quotas" using assms(1) validateQuotaValues_iff by blast
  then have dist: "distinct (flavorResources quotas f)" for f
    by (intro flavorResources_distinct) (simp add: quotas_ok_def)
  have same: "g = h" if g: "g \<in> set (quotaGroups quotas)" and h: "h \<in> set (quotaGroups quotas)"
    and x: "set (fst g) \<inter> set (fst h) \<noteq> {}" for g h
  proof -
    obtain f0 f1 where f: "fst g = flavorResources quotas f0" "fst h = flavorResources quotas f1"
      and sets: "set (snd g) = {f \<in> qFlavor ` set quotas. join (flavorResources quotas f) nul = join (fst g) nul}"
        "set (snd h) = {f \<in> qFlavor ` set quotas. join (flavorResources quotas f) nul = join (fst h) nul}"
      using quotaGroups_mem(1) [of "fst g" "snd g" quotas] quotaGroups_mem(1) [of "fst h" "snd h" quotas] g h by auto
    have "resourcesOf quotas f0 = resourcesOf quotas f1"
      using ok x unfolding f flavorResources_set quotas_ok_def by blast
    then have "fst g = fst h"
      unfolding f using dist flavorResources_sorted flavorResources_set by (metis sorted_distinct_set_unique)
    moreover have "snd g = snd h"
    proof (rule sorted_distinct_set_unique)
      show "sorted (snd g)" "distinct (snd g)" "sorted (snd h)" "distinct (snd h)"
        using quotaGroups_mem(2,3) [of "fst g" "snd g" quotas] quotaGroups_mem(2,3) [of "fst h" "snd h" quotas] g h by simp_all
      show "set (snd g) = set (snd h)" using sets calculation by simp
    qed
    ultimately show ?thesis by (rule prod_eqI)
  qed
  have res: "fst grp = flavorResources quotas f" if "grp \<in> set (quotaGroups quotas)" "f \<in> set (snd grp)" for grp f
    using quotaGroups_resources [of "fst grp" "snd grp" quotas f] that assms(2) by simp
  show ?thesis
  proof (intro conjI ballI impI)
    fix f assume f: "f \<in> qFlavor ` set quotas"
    obtain grp where grp: "grp \<in> set (quotaGroups quotas)" "f \<in> set (snd grp)" using quotaGroups_cover [OF f] by auto
    have ne: "set (flavorResources quotas f) \<noteq> {}" using f by (auto simp: flavorResources_set resourcesOf_def)
    show "\<exists>!grp. grp \<in> set (quotaGroups quotas) \<and> f \<in> set (snd grp)"
    proof (rule ex1I [of _ grp])
      show "grp \<in> set (quotaGroups quotas) \<and> f \<in> set (snd grp)" using grp by blast
      fix h assume h: "h \<in> set (quotaGroups quotas) \<and> f \<in> set (snd h)"
      show "h = grp" using same [of h grp] res [of h f] res [of grp f] h grp ne by auto
    qed
  next
    fix grp assume grp: "grp \<in> set (quotaGroups quotas)"
    then show "sorted (snd grp)" "distinct (snd grp)" using quotaGroups_mem(2,3) [of "fst grp" "snd grp" quotas] by simp_all
    show "distinct (fst grp)" using quotaGroups_mem(1) [of "fst grp" "snd grp" quotas] grp dist by auto
    show "set (fst grp) = resourcesOf quotas f" if "f \<in> set (snd grp)" for f
      using res [OF grp that] flavorResources_set by metis
  next
    fix g h assume "g \<in> set (quotaGroups quotas)" "h \<in> set (quotaGroups quotas)" "g \<noteq> h"
    then show "set (fst g) \<inter> set (fst h) = {}" using same [of g h] by blast
  qed
qed

theorem accepted_quotas_grouped_witness:
  "\<exists>!grp. grp \<in> set (quotaGroups (wsQuota exampleWorkspace)) \<and> ''h200'' \<in> set (snd grp)"
proof -
  have "validateQuotaValues (wsQuota exampleWorkspace) = Inr ()" by code_simp
  moreover have "\<forall>q \<in> set (wsQuota exampleWorkspace). goodName (qResource q)"
    by (simp add: exampleWorkspace_def zeroWorkspace_def goodName_def nulFree_def)
  ultimately show ?thesis
    using accepted_quotas_grouped [of "wsQuota exampleWorkspace"] by (simp add: exampleWorkspace_def zeroWorkspace_def)
qed

end
