(* ===== verification/Kube_Api.thy ===== *)
theory Kube_Api
  imports Queue_Merge
begin

text \<open>
  The API server as the controllers of tau-core see it, and what they do with one object:
  the guarded write of a managed object (\<open>reconcileManagedUnstructuredWithReader\<close>) and the
  queries that find the queue behind a workspace (\<open>team_controller.go\<close>,
  \<open>workspace_queue.go\<close>, \<open>quota_resources.go\<close>).

  The server and its clients are the argument \<open>A\<close>: reads answer from the state of the
  server \<open>w\<close>, writes return an error or not and the next state. Nothing is assumed of them.
\<close>

section \<open>The API server\<close>

record 'q knode =
  ndName :: string
  ndLabels :: "(string, string) gomap"
  ndProviderID :: string
  ndUnschedulable :: bool
  ndDeleting :: bool
  ndCapacity :: "(string, 'q) gomap"
  ndAllocatable :: "(string, 'q) gomap"
  ndConditions :: "(string \<times> string) list"  \<comment> \<open>type, status\<close>

record ('q, 'w) api =
  aGet :: "'w \<Rightarrow> string \<Rightarrow> string \<Rightarrow> string \<Rightarrow> kobj res"  \<comment> \<open>kind, namespace, name\<close>
  aCached :: "'w \<Rightarrow> string \<Rightarrow> string \<Rightarrow> string \<Rightarrow> kobj res"  \<comment> \<open>the informer cache\<close>
  aList :: "'w \<Rightarrow> string \<Rightarrow> (kobj list) res"
  aCluster :: "'w \<Rightarrow> 'q tauCluster res"
  aTeam :: "'w \<Rightarrow> string \<Rightarrow> string \<Rightarrow> 'q tauTeam res"  \<comment> \<open>namespace, name\<close>
  aTeams :: "'w \<Rightarrow> string \<Rightarrow> ('q tauTeam list) res"
  aWorkspaces :: "'w \<Rightarrow> string \<Rightarrow> ('q tauWorkspace list) res"
  aWorkspace :: "'w \<Rightarrow> string \<Rightarrow> string \<Rightarrow> 'q tauWorkspace res"
  aNodes :: "'w \<Rightarrow> (string, string) gomap \<Rightarrow> ('q knode list) res"
  aCreate :: "kobj \<Rightarrow> 'w \<Rightarrow> kerr option \<times> 'w"
  aUpdate :: "kobj \<Rightarrow> 'w \<Rightarrow> kerr option \<times> 'w"
  aDelete :: "kobj \<Rightarrow> 'w \<Rightarrow> kerr option \<times> 'w"
  aUpdateTeam :: "'q tauTeam \<Rightarrow> 'w \<Rightarrow> kerr option \<times> 'w"
  aUpdateTeamStatus :: "'q tauTeam \<Rightarrow> 'w \<Rightarrow> kerr option \<times> 'w"
  aUpdateWorkspace :: "'q tauWorkspace \<Rightarrow> 'w \<Rightarrow> kerr option \<times> 'w"
  aPatchWorkspace :: "'q tauWorkspace \<Rightarrow> 'q tauWorkspace \<Rightarrow> 'w \<Rightarrow> kerr option \<times> 'w"  \<comment> \<open>before, after\<close>
  aCreateOrUpdate :: "kobj \<Rightarrow> (kobj \<Rightarrow> kobj) \<Rightarrow> 'w \<Rightarrow> kerr option \<times> 'w"  \<comment> \<open>\<open>controllerutil.CreateOrUpdate\<close>\<close>
  aUpdateWorkspaceStatus :: "'q tauWorkspace \<Rightarrow> 'w \<Rightarrow> kerr option \<times> 'w"
  aUpdateClusterStatus :: "'q tauCluster \<Rightarrow> 'w \<Rightarrow> kerr option \<times> 'w"
  aPatchNode :: "'q knode \<Rightarrow> 'q knode \<Rightarrow> 'w \<Rightarrow> 'q knode res \<times> 'w"  \<comment> \<open>before, after; the node as the server returns it\<close>
  aPatchNodeStatus :: "'q knode \<Rightarrow> 'q knode \<Rightarrow> 'w \<Rightarrow> 'q knode res \<times> 'w"

definition getQueue :: "('q, 'w) api \<Rightarrow> 'w \<Rightarrow> string \<Rightarrow> kobj res" where
  "getQueue A w name = aGet A w clusterQueueKind [] name"

definition getCohort :: "('q, 'w) api \<Rightarrow> 'w \<Rightarrow> string \<Rightarrow> kobj res" where
  "getCohort A w name = aGet A w cohortKind [] name"

definition nestedStringOrEmpty :: "'q kube \<Rightarrow> jobject \<Rightarrow> string list \<Rightarrow> string res" where
  "nestedStringOrEmpty K m fs =
     bindE (kNestedString K m fs) (\<lambda>found. Inr (case found of None \<Rightarrow> [] | Some s \<Rightarrow> s))"

text \<open>The string, or the empty one when it is absent or malformed.\<close>

definition stringOrEmpty :: "'q kube \<Rightarrow> jobject \<Rightarrow> string list \<Rightarrow> string" where
  "stringOrEmpty K m fs = (case kNestedString K m fs of Inr (Some s) \<Rightarrow> s | _ \<Rightarrow> [])"

text \<open>
  Sequences of calls: a failed call ends the handler with its error and the state so far.
\<close>

definition withRes :: "'a res \<Rightarrow> 'w \<Rightarrow> ('a \<Rightarrow> kerr option \<times> 'w) \<Rightarrow> kerr option \<times> 'w" where
  "withRes r w f = (case r of Inl err \<Rightarrow> (Some err, w) | Inr v \<Rightarrow> f v)"

definition andThen :: "kerr option \<times> 'w \<Rightarrow> ('w \<Rightarrow> kerr option \<times> 'w) \<Rightarrow> kerr option \<times> 'w" where
  "andThen p f = (case fst p of None \<Rightarrow> f (snd p) | Some err \<Rightarrow> p)"

fun forEach :: "('a \<Rightarrow> 'w \<Rightarrow> kerr option \<times> 'w) \<Rightarrow> 'a list \<Rightarrow> 'w \<Rightarrow> kerr option \<times> 'w" where
  "forEach f [] w = (None, w)"
| "forEach f (x # xs) w = andThen (f x w) (forEach f xs)"

definition joinErrors :: "kerr option \<Rightarrow> kerr option \<Rightarrow> kerr option" where
  "joinErrors a b =
     (case (a, b) of (None, _) \<Rightarrow> b | (_, None) \<Rightarrow> a | (Some x, Some y) \<Rightarrow> Some (Joined x y))"

definition ignoreNotFound :: "kerr \<Rightarrow> kerr option" where
  "ignoreNotFound err = (if isNotFound err then None else Some err)"

lemma withRes_simps [simp]: "withRes (Inl e) w f = (Some e, w)" "withRes (Inr v) w f = f v"
  by (simp_all add: withRes_def)

lemma andThen_simps [simp]: "andThen (None, w) f = f w" "andThen (Some e, w) f = (Some e, w)"
  by (simp_all add: andThen_def)

section \<open>Writing a managed object\<close>

definition ownershipConflict :: "kobj \<Rightarrow> kobj \<Rightarrow> string \<Rightarrow> string \<Rightarrow> kerr option" where
  "ownershipConflict existing desired ownerLabel ownerName =
     (let labels = oLabels existing;
          desiredUID = gm_get [] (oAnnotations desired) annotationOwnerUID;
          existingUID = gm_get [] (oAnnotations existing) annotationOwnerUID
      in if gm_get [] labels labelManagedBy \<noteq> labelManagedByValue \<or> gm_get [] labels ownerLabel \<noteq> ownerName
         then Some (Errorf ''%s %q already exists and is not owned by %s %q'' [oKind desired, oName desired, ownerLabel, ownerName])
         else if desiredUID \<noteq> [] \<and> existingUID \<noteq> [] \<and> existingUID \<noteq> desiredUID
         then Some (Errorf ''%s %q belongs to a different owner UID %q'' [oKind desired, oName desired, existingUID])
         else if desiredUID \<noteq> [] \<and> existingUID = [] \<and> oUID existing \<noteq> []
         then Some (Errorf ''%s %q has legacy ownership metadata without an owner UID; explicit operator adoption is required''
                      [oKind desired, oName desired])
         else None)"

text \<open>The decision about an existing object: an error, nothing to do, or the object to write.\<close>

definition managedUpdate ::
  "'q::linordered_ab_group_add kube \<Rightarrow> kobj \<Rightarrow> kobj \<Rightarrow> string \<Rightarrow> string \<Rightarrow> (kobj option) res" where
  "managedUpdate K existing desired ownerLabel ownerName =
     (case ownershipConflict existing desired ownerLabel ownerName of
        Some err \<Rightarrow> Inl err
      | None \<Rightarrow>
          bindE (kNestedMap K (oObject existing) [''spec'']) (\<lambda>existingSpec.
          bindE (kNestedMap K (oObject desired) [''spec'']) (\<lambda>desiredSpec.
          if specsEqual existingSpec desiredSpec \<and> mapsEqual (oLabels existing) (oLabels desired) \<and>
             mapsEqual (oAnnotations existing) (oAnnotations desired)
          then Inr None
          else bindE (if oKind desired = clusterQueueKind then validateClusterQueueQuotaReduction K existing desired else Inr ())
                 (\<lambda>_. bindE (kSetNestedField K (oObject existing) (JMap (case desiredSpec of None \<Rightarrow> [] | Some m \<Rightarrow> m)) [''spec''])
                   (\<lambda>object. Inr (Some (existing\<lparr>oObject := object, oLabels := oLabels desired,
                                           oAnnotations := oAnnotations desired\<rparr>)))))))"

definition reconcileManagedUnstructuredWithReader ::
  "'q::linordered_ab_group_add kube \<Rightarrow> ('q, 'w) api \<Rightarrow> kobj \<Rightarrow> string \<Rightarrow> string \<Rightarrow> 'w \<Rightarrow> kerr option \<times> 'w" where
  "reconcileManagedUnstructuredWithReader K A desired ownerLabel ownerName w =
     (case aGet A w (oKind desired) (oNamespace desired) (oName desired) of
        Inl err \<Rightarrow> if isNotFound err then aCreate A desired w else (Some err, w)
      | Inr existing \<Rightarrow>
          (case managedUpdate K existing desired ownerLabel ownerName of
             Inl err \<Rightarrow> (Some err, w)
           | Inr None \<Rightarrow> (None, w)
           | Inr (Some updated) \<Rightarrow> aUpdate A updated w))"

section \<open>The queue behind a workspace\<close>

definition resolvedNamespace :: "'q tauWorkspace \<Rightarrow> string" where
  "resolvedNamespace workspace = (if wsTargetNamespace workspace \<noteq> [] then wsTargetNamespace workspace else wsName workspace)"

definition workspaceLocalQueueName :: "'q kube \<Rightarrow> 'q tauWorkspace \<Rightarrow> string" where
  "workspaceLocalQueueName K workspace =
     (if wsTeamRef workspace \<noteq> None then workspaceClusterQueueName K (wsName workspace) else wsQueue workspace)"

definition validateWorkspaceObjectUID :: "kobj \<Rightarrow> 'q tauWorkspace \<Rightarrow> unit res" where
  "validateWorkspaceObjectUID obj workspace =
     (let ownerUID = gm_get [] (oAnnotations obj) annotationOwnerUID in
      if wsUID workspace = [] \<or> ownerUID \<noteq> wsUID workspace
      then Inl (Errorf ''%T %s owner UID is %q, want %q'' [oKind obj, oName obj, ownerUID, wsUID workspace])
      else Inr ())"

definition authoritativeWorkspaceClusterQueue :: "kobj \<Rightarrow> 'q tauWorkspace \<Rightarrow> bool res" where
  "authoritativeWorkspaceClusterQueue queue workspace =
     (let labels = oLabels queue in
      if gm_get [] labels labelManagedBy \<noteq> labelManagedByValue then Inr False
      else if gm_get [] labels labelWorkspace \<noteq> wsName workspace
      then Inl (Errorf ''ClusterQueue %q is managed for workspace %q'' [oName queue, gm_get [] labels labelWorkspace])
      else bindE (validateWorkspaceObjectUID queue workspace) (\<lambda>_. Inr True))"

definition resolvedWorkspaceQueueName :: "('q, 'w) api \<Rightarrow> 'w \<Rightarrow> 'q tauWorkspace \<Rightarrow> string res" where
  "resolvedWorkspaceQueueName A w workspace =
     (let queue = trimSpace (wsQueue workspace) in
      if queue \<noteq> [] then Inr queue
      else bindE (mapErr (Wrapped ''resolve workspace %q default queue'' [wsName workspace]) (aCluster A w))
             (\<lambda>cluster. Inr (trimSpace (clDefaultQueue cluster))))"

text \<open>The ClusterQueue of a LocalQueue, and whether there was a LocalQueue of that name.\<close>

definition workspaceQueueClusterQueueName ::
  "'q kube \<Rightarrow> ('q, 'w) api \<Rightarrow> 'w \<Rightarrow> 'q tauWorkspace \<Rightarrow> string \<Rightarrow> (string \<times> bool) res" where
  "workspaceQueueClusterQueueName K A w workspace queueName =
     (case aGet A w localQueueKind (resolvedNamespace workspace) queueName of
        Inl err \<Rightarrow> if isNotFound err then Inr (queueName, False) else Inl err
      | Inr localQueue \<Rightarrow>
          bindE (mapErr (Wrapped ''read LocalQueue %q backing ClusterQueue'' [oName localQueue])
                   (nestedStringOrEmpty K (oObject localQueue) [''spec'', ''clusterQueue'']))
            (\<lambda>clusterQueue.
               if trimSpace clusterQueue = []
               then Inl (Errorf ''LocalQueue %q has no backing ClusterQueue'' [oName localQueue])
               else Inr (clusterQueue, True)))"

definition retainedSource :: "'q kube \<Rightarrow> ('q, 'w) api \<Rightarrow> 'w \<Rightarrow> 'q tauWorkspace \<Rightarrow> (string \<times> bool) res" where
  "retainedSource K A w workspace =
     (let sourceName = trimSpace (wsStatusClusterQueue workspace) in
      if sourceName \<noteq> [] then Inr (sourceName, False)
      else bindE (resolvedWorkspaceQueueName A w workspace) (workspaceQueueClusterQueueName K A w workspace))"

text \<open>The name of the retained queue; \<open>None\<close> when no established queue is retained.\<close>

definition retainedEstablishedWorkspaceClusterQueue ::
  "'q kube \<Rightarrow> ('q, 'w) api \<Rightarrow> 'w \<Rightarrow> 'q tauWorkspace \<Rightarrow> (string option) res" where
  "retainedEstablishedWorkspaceClusterQueue K A w workspace =
     bindE (retainedSource K A w workspace) (\<lambda>(sourceName, resolvedLocalQueue).
     if sourceName = [] then Inr None
     else case getQueue A w sourceName of
            Inl err \<Rightarrow> if isNotFound err then Inr None else Inl err
          | Inr source \<Rightarrow>
              bindE (if sourceName = workspaceClusterQueueName K (wsName workspace)
                     then authoritativeWorkspaceClusterQueue source workspace else Inr False) (\<lambda>owned.
              if owned then Inr None
              else if length (wsQuota workspace) = 0 then Inr (Some (oName source))
              else bindE (case wsTeamRef workspace of
                            None \<Rightarrow> Inr False
                          | Some teamName \<Rightarrow>
                              if resolvedLocalQueue
                              then bindE (mapErr (Wrapped ''read ClusterQueue %q cohortName'' [oName source])
                                            (nestedStringOrEmpty K (oObject source) [''spec'', ''cohortName'']))
                                     (\<lambda>cohort. Inr (trimSpace cohort = teamCohortName K teamName))
                              else Inr False) (\<lambda>inTeamCohort.
                   if inTeamCohort then Inr (Some (oName source))
                   else if trimSpace (wsStatusLocalQueue workspace) \<noteq> [] \<and>
                           trimSpace (wsStatusClusterQueue workspace) = oName source
                   then Inr (Some (oName source))
                   else Inr None)))"

fun firstEstablishedQueue :: "('q, 'w) api \<Rightarrow> 'w \<Rightarrow> string list \<Rightarrow> string goset \<Rightarrow> (kobj option) res" where
  "firstEstablishedQueue A w [] seen = Inr None"
| "firstEstablishedQueue A w (n # ns) seen =
     (let name = trimSpace n in
      if name = [] \<or> name \<in> set seen then firstEstablishedQueue A w ns seen
      else case getQueue A w name of
             Inl err \<Rightarrow> if isNotFound err then firstEstablishedQueue A w ns (gs_add name seen) else Inl err
           | Inr queue \<Rightarrow> Inr (Some queue))"

definition establishedWorkspaceClusterQueue ::
  "'q kube \<Rightarrow> ('q, 'w) api \<Rightarrow> 'w \<Rightarrow> 'q tauWorkspace \<Rightarrow> string \<Rightarrow> (kobj option) res" where
  "establishedWorkspaceClusterQueue K A w workspace managedClusterQueue =
     bindE (if trimSpace (wsQueue workspace) = [] then resolvedWorkspaceQueueName A w workspace
            else Inr (trimSpace (wsQueue workspace))) (\<lambda>resolved.
     bindE (if resolved \<noteq> [] then workspaceQueueClusterQueueName K A w workspace resolved else Inr (resolved, False))
       (\<lambda>(resolvedQueue, _).
     bindE (firstEstablishedQueue A w [wsStatusClusterQueue workspace, resolvedQueue] [managedClusterQueue]) (\<lambda>first.
     case first of
       Some queue \<Rightarrow> Inr (Some queue)
     | None \<Rightarrow>
         (case getQueue A w managedClusterQueue of
            Inr managed \<Rightarrow>
              if gm_get [] (oLabels managed) labelManagedBy \<noteq> labelManagedByValue \<or>
                 gm_get [] (oLabels managed) labelWorkspace \<noteq> wsName workspace \<or>
                 wsUID workspace = [] \<or>
                 gm_get [] (oAnnotations managed) annotationOwnerUID \<noteq> wsUID workspace
              then Inl (Errorf ''managed ClusterQueue %q ownership is not authoritative'' [managedClusterQueue])
              else Inr (Some managed)
          | Inl err \<Rightarrow>
              if \<not> isNotFound err then Inl err
              else if length (wsQuota workspace) = 0 \<and> trimSpace (wsStatusLocalQueue workspace) \<noteq> [] \<and>
                      trimSpace (wsStatusLocalQueue workspace) \<noteq> workspaceLocalQueueName K workspace
              then Inl (Errorf ''established workspace queue contract is unavailable'' [])
              else Inr None))))"

definition preserveEstablishedWorkspaceQueueContract ::
  "'q::linordered_ab_group_add kube \<Rightarrow> ('q, 'w) api \<Rightarrow> 'w \<Rightarrow> 'q tauWorkspace \<Rightarrow> 'q tauTeam option \<Rightarrow> kobj \<Rightarrow> kobj res" where
  "preserveEstablishedWorkspaceQueueContract K A w workspace team desired =
     bindE (establishedWorkspaceClusterQueue K A w workspace (oName desired))
       (\<lambda>established. mergeEstablishedQueue K workspace team established desired)"

definition workspaceQueueReductionOnly ::
  "'q::linordered_ab_group_add kube \<Rightarrow> ('q, 'w) api \<Rightarrow> 'w \<Rightarrow> string \<Rightarrow> kobj \<Rightarrow> bool res" where
  "workspaceQueueReductionOnly K A w teamName desired =
     (case getQueue A w (oName desired) of
        Inl err \<Rightarrow> if isNotFound err then Inr False else Inl err
      | Inr existing \<Rightarrow>
          bindE (mapErr (Wrapped ''read ClusterQueue %q cohortName'' [oName existing])
                   (nestedStringOrEmpty K (oObject existing) [''spec'', ''cohortName''])) (\<lambda>cohort.
          if trimSpace cohort \<noteq> teamCohortName K teamName then Inr False
          else bindE (clusterQueueNominalQuota K existing) (\<lambda>existingNominals.
               bindE (clusterQueueNominalQuota K desired) (\<lambda>desiredNominals.
               if \<not> quotaValuesNonIncreasing existingNominals desiredNominals then Inr False
               else bindE (clusterQueueMaximumQuota K existing) (\<lambda>existingMaximums.
                    bindE (clusterQueueMaximumQuota K desired) (\<lambda>desiredMaximums.
                      Inr (quotaValuesNonIncreasing existingMaximums desiredMaximums)))))))"

text \<open>What a workspace's own ClusterQueue applies: cohort, guarantees, reservations, identity.\<close>

definition keepManaged :: "string goset option \<Rightarrow> (string, 'v) gomap \<Rightarrow> (string, 'v) gomap" where
  "keepManaged managed m = (case managed of None \<Rightarrow> m | Some keys \<Rightarrow> filter (\<lambda>(key, _). key \<in> set keys) m)"

definition queueIdentity :: "kobj \<Rightarrow> string" where
  "queueIdentity queue = (if oUID queue \<noteq> [] then oUID queue else oName queue)"

definition appliedWorkspaceQueue ::
  "'q::linordered_ab_group_add kube \<Rightarrow> ('q, 'w) api \<Rightarrow> 'w \<Rightarrow> 'q tauWorkspace \<Rightarrow>
     (string \<times> (string, 'q) gomap \<times> (string, 'q) gomap \<times> string) res" where
  "appliedWorkspaceQueue K A w workspace =
     (case getQueue A w (workspaceClusterQueueName K (wsName workspace)) of
        Inl err \<Rightarrow> if isNotFound err then Inr ([], [], [], []) else Inl err
      | Inr queue \<Rightarrow>
          let ownerUID = gm_get [] (oAnnotations queue) annotationOwnerUID in
          if gm_get [] (oLabels queue) labelManagedBy \<noteq> labelManagedByValue \<or>
             gm_get [] (oLabels queue) labelWorkspace \<noteq> wsName workspace
          then Inl (Errorf ''ClusterQueue %q is not owned by workspace %q'' [oName queue, wsName workspace])
          else if ownerUID \<noteq> [] \<and> ownerUID \<noteq> wsUID workspace
          then Inl (Errorf ''ClusterQueue %q belongs to a different workspace UID %q'' [oName queue, ownerUID])
          else bindE (clusterQueueNominalQuota K queue) (\<lambda>applied.
               bindE (managedQuotaKeys K queue) (\<lambda>managed.
               bindE (clusterQueueReservations K queue) (\<lambda>reservations.
               bindE (mapErr (Wrapped ''read ClusterQueue %q cohortName'' [oName queue])
                        (nestedStringOrEmpty K (oObject queue) [''spec'', ''cohortName''])) (\<lambda>cohort.
                 Inr (trimSpace cohort, keepManaged managed applied, keepManaged managed reservations, queueIdentity queue))))))"

section \<open>A reference server\<close>

text \<open>
  An in-memory server without faults, at which the theorems about controllers are applied.
\<close>

record 'q store =
  stObjects :: "kobj list"
  stCluster :: "'q tauCluster option"
  stTeams :: "'q tauTeam list"
  stWorkspaces :: "'q tauWorkspace list"
  stNodes :: "'q knode list"

definition sameKey :: "kobj \<Rightarrow> kobj \<Rightarrow> bool" where
  "sameKey a b \<longleftrightarrow> oKind a = oKind b \<and> oNamespace a = oNamespace b \<and> oName a = oName b"

definition found :: "string \<Rightarrow> 'a option \<Rightarrow> 'a res" where
  "found name x = (case x of None \<Rightarrow> Inl (NotFound name) | Some v \<Rightarrow> Inr v)"

definition sameTeam :: "'q tauTeam \<Rightarrow> 'q tauTeam \<Rightarrow> bool" where
  "sameTeam a b \<longleftrightarrow> tmNamespace a = tmNamespace b \<and> tmName a = tmName b"

definition sameWorkspace :: "'q tauWorkspace \<Rightarrow> 'q tauWorkspace \<Rightarrow> bool" where
  "sameWorkspace a b \<longleftrightarrow> wsNamespace a = wsNamespace b \<and> wsName a = wsName b"

text \<open>The subresource \<open>status\<close>: an update writes the status fields only, an update of the object the others.\<close>

definition withWorkspaceStatus :: "'q tauWorkspace \<Rightarrow> 'q tauWorkspace \<Rightarrow> 'q tauWorkspace" where
  "withWorkspaceStatus from workspace = workspace\<lparr>
     wsStatusLocalQueue := wsStatusLocalQueue from, wsStatusClusterQueue := wsStatusClusterQueue from,
     wsStatusClusterQueueUID := wsStatusClusterQueueUID from, wsStatusResolvedNamespace := wsStatusResolvedNamespace from,
     wsStatusPhase := wsStatusPhase from, wsStatusObservedGeneration := wsStatusObservedGeneration from,
     wsStatusConditions := wsStatusConditions from\<rparr>"

definition withClusterStatus :: "'q tauCluster \<Rightarrow> 'q tauCluster \<Rightarrow> 'q tauCluster" where
  "withClusterStatus from cluster = cluster\<lparr>
     clPhase := clPhase from, clObservedGeneration := clObservedGeneration from, clDesiredStateHash := clDesiredStateHash from,
     clNodesStatus := clNodesStatus from, clQueuesStatus := clQueuesStatus from, clWorkloadProfiles := clWorkloadProfiles from,
     clDiscoveredCapacity := clDiscoveredCapacity from, clManagedResources := clManagedResources from, clConditions := clConditions from\<rparr>"

definition storeGet :: "'q store \<Rightarrow> string \<Rightarrow> string \<Rightarrow> string \<Rightarrow> kobj res" where
  "storeGet w kind namespace name =
     found name (List.find (\<lambda>x. oKind x = kind \<and> oNamespace x = namespace \<and> oName x = name) (stObjects w))"

definition storeCreate :: "kobj \<Rightarrow> 'q store \<Rightarrow> kerr option \<times> 'q store" where
  "storeCreate x w =
     (if list_ex (\<lambda>y. sameKey y x) (stObjects w) then (Some (AlreadyExists (oName x)), w)
      else (None, w\<lparr>stObjects := stObjects w @ [x]\<rparr>))"

definition storeUpdate :: "kobj \<Rightarrow> 'q store \<Rightarrow> kerr option \<times> 'q store" where
  "storeUpdate x w =
     (if list_ex (\<lambda>y. sameKey y x) (stObjects w)
      then (None, w\<lparr>stObjects := map (\<lambda>y. if sameKey y x then x else y) (stObjects w)\<rparr>) else (Some (NotFound (oName x)), w))"

definition storeCreateOrUpdate :: "kobj \<Rightarrow> (kobj \<Rightarrow> kobj) \<Rightarrow> 'q store \<Rightarrow> kerr option \<times> 'q store" where
  "storeCreateOrUpdate x mutate w =
     (case storeGet w (oKind x) (oNamespace x) (oName x) of
        Inl _ \<Rightarrow> storeCreate (mutate x) w
      | Inr existing \<Rightarrow> if mutate existing = existing then (None, w) else storeUpdate (mutate existing) w)"

definition storeApi :: "('q, 'q store) api" where
  "storeApi = \<lparr>
     aGet = storeGet,
     aCached = storeGet,
     aList = (\<lambda>w kind. Inr (filter (\<lambda>x. oKind x = kind) (stObjects w))),
     aCluster = (\<lambda>w. found ''cluster'' (stCluster w)),
     aTeam = (\<lambda>w namespace name. found name (List.find (\<lambda>t. tmNamespace t = namespace \<and> tmName t = name) (stTeams w))),
     aTeams = (\<lambda>w namespace. Inr (filter (\<lambda>t. tmNamespace t = namespace) (stTeams w))),
     aWorkspaces = (\<lambda>w namespace. Inr (filter (\<lambda>x. wsNamespace x = namespace) (stWorkspaces w))),
     aWorkspace = (\<lambda>w namespace name. found name (List.find (\<lambda>x. wsNamespace x = namespace \<and> wsName x = name) (stWorkspaces w))),
     aNodes = (\<lambda>w selector. Inr (filter (\<lambda>n. list_all (\<lambda>(k, v). gm_lookup (ndLabels n) k = Some v) selector) (stNodes w))),
     aCreate = storeCreate,
     aUpdate = storeUpdate,
     aDelete = (\<lambda>x w. if list_ex (\<lambda>y. sameKey y x) (stObjects w)
       then (None, w\<lparr>stObjects := filter (\<lambda>y. \<not> sameKey y x) (stObjects w)\<rparr>) else (Some (NotFound (oName x)), w)),
     aUpdateTeam = (\<lambda>t w. (None, w\<lparr>stTeams := map (\<lambda>u. if sameTeam u t then t else u) (stTeams w)\<rparr>)),
     aUpdateTeamStatus = (\<lambda>t w. (None, w\<lparr>stTeams := map (\<lambda>u. if sameTeam u t then u\<lparr>tmStatus := tmStatus t\<rparr> else u) (stTeams w)\<rparr>)),
     aUpdateWorkspace = (\<lambda>x w. (None, w\<lparr>stWorkspaces := map (\<lambda>y. if sameWorkspace y x then withWorkspaceStatus y x else y) (stWorkspaces w)\<rparr>)),
     aPatchWorkspace = (\<lambda>_ x w. (None, w\<lparr>stWorkspaces := map (\<lambda>y. if sameWorkspace y x then withWorkspaceStatus y x else y) (stWorkspaces w)\<rparr>)),
     aCreateOrUpdate = storeCreateOrUpdate,
     aUpdateWorkspaceStatus = (\<lambda>x w. (None, w\<lparr>stWorkspaces := map (\<lambda>y. if sameWorkspace y x then withWorkspaceStatus x y else y) (stWorkspaces w)\<rparr>)),
     aUpdateClusterStatus = (\<lambda>c w. (None, w\<lparr>stCluster := map_option (withClusterStatus c) (stCluster w)\<rparr>)),
     aPatchNode = (\<lambda>_ n w. (Inr n, w\<lparr>stNodes := map (\<lambda>m. if ndName m = ndName n then m\<lparr>ndLabels := ndLabels n\<rparr> else m) (stNodes w)\<rparr>)),
     aPatchNodeStatus = (\<lambda>_ n w. (Inr n, w\<lparr>stNodes := map (\<lambda>m. if ndName m = ndName n then m\<lparr>ndCapacity := ndCapacity n\<rparr> else m) (stNodes w)\<rparr>))\<rparr>"

lemmas store_defs = storeApi_def storeGet_def storeCreate_def storeUpdate_def

definition exampleStore :: "int store" where
  "exampleStore = \<lparr>stObjects = [], stCluster = None, stTeams = [], stWorkspaces = [], stNodes = []\<rparr>"

text \<open>
  What handlers that write several objects rely on: the server answers with the object of the requested key, and a
  successful update replaces the object of that key and no other.
\<close>

locale object_server =
  fixes A :: "('q, 'w) api"
  assumes get_key: "aGet A w kind namespace name = Inr object \<Longrightarrow> oKind object = kind \<and> oNamespace object = namespace \<and> oName object = name"
    and update_get: "aUpdate A object w = (None, w') \<Longrightarrow> aGet A w' (oKind object) (oNamespace object) (oName object) = Inr object"
    and update_other: "aUpdate A object w = (None, w') \<Longrightarrow> (kind, namespace, name) \<noteq> (oKind object, oNamespace object, oName object) \<Longrightarrow>
      aGet A w' kind namespace name = aGet A w kind namespace name"
begin

lemma getQueue_update:
  assumes "getQueue A w name = Inr queue" "aUpdate A (queue\<lparr>oObject := object, oAnnotations := annotations\<rparr>) w = (None, w')"
  shows "getQueue A w' n = (if n = name then Inr (queue\<lparr>oObject := object, oAnnotations := annotations\<rparr>) else getQueue A w n)"
proof -
  have k: "oKind queue = clusterQueueKind" "oNamespace queue = []" "oName queue = name"
    using get_key [of w clusterQueueKind "[]" name queue] assms(1) by (simp_all add: getQueue_def)
  show ?thesis
    using update_get [OF assms(2)] update_other [OF assms(2), of clusterQueueKind "[]" n] k by (auto simp: getQueue_def)
qed

end

lemma find_updated:
  assumes "list_ex (\<lambda>y. sameKey y x) xs"
  shows "List.find (\<lambda>y. oKind y = oKind x \<and> oNamespace y = oNamespace x \<and> oName y = oName x)
      (map (\<lambda>y. if sameKey y x then x else y) xs) = Some x"
  using assms by (induction xs) (auto simp: sameKey_def)

lemma find_not_updated:
  assumes "(kind, namespace, name) \<noteq> (oKind x, oNamespace x, oName x)"
  shows "List.find (\<lambda>y. oKind y = kind \<and> oNamespace y = namespace \<and> oName y = name) (map (\<lambda>y. if sameKey y x then x else y) xs) =
    List.find (\<lambda>y. oKind y = kind \<and> oNamespace y = namespace \<and> oName y = name) xs"
  using assms by (induction xs) (auto simp: sameKey_def)

text \<open>
  The contract of creation, for handlers that create several objects: the object is read back, with the identity the
  server gives it, and no other object changes.
\<close>

locale object_store = object_server A for A :: "('q, 'w) api" +
  assumes create_get: "aCreate A object w = (None, w') \<Longrightarrow>
      \<exists>uid. aGet A w' (oKind object) (oNamespace object) (oName object) = Inr (object\<lparr>oUID := uid\<rparr>)"
    and create_other: "aCreate A object w = (None, w') \<Longrightarrow> (kind, namespace, name) \<noteq> (oKind object, oNamespace object, oName object) \<Longrightarrow>
      aGet A w' kind namespace name = aGet A w kind namespace name"
begin

lemma getQueue_local:
  assumes "aCreate A object w = (None, w') \<or> aUpdate A object w = (None, w')" "oKind object = localQueueKind"
  shows "getQueue A w' name = getQueue A w name"
  using assms create_other [of object w w'] update_other [of object w w']
  by (auto simp: getQueue_def clusterQueueKind_def localQueueKind_def)

end

interpretation store_server: object_server "storeApi :: ('q, 'q store) api"
proof
  fix w :: "'q store" and kind namespace name object
  assume "aGet storeApi w kind namespace name = Inr object"
  then show "oKind object = kind \<and> oNamespace object = namespace \<and> oName object = name"
    by (auto simp: store_defs found_def find_Some_iff split: option.splits)
next
  fix w w' :: "'q store" and object
  assume "aUpdate storeApi object w = (None, w')"
  then show "aGet storeApi w' (oKind object) (oNamespace object) (oName object) = Inr object"
    by (auto simp: store_defs found_def find_updated split: if_splits)
next
  fix w w' :: "'q store" and object kind namespace name
  assume u: "aUpdate storeApi object w = (None, w')" and k: "(kind, namespace, name) \<noteq> (oKind object, oNamespace object, oName object)"
  have "w' = w\<lparr>stObjects := map (\<lambda>y. if sameKey y object then object else y) (stObjects w)\<rparr>"
    using u by (auto simp: store_defs split: if_splits)
  then show "aGet storeApi w' kind namespace name = aGet storeApi w kind namespace name"
    by (simp add: store_defs find_not_updated [OF k])
qed

lemma find_append: "List.find P (xs @ ys) = (case List.find P xs of None \<Rightarrow> List.find P ys | Some x \<Rightarrow> Some x)"
  by (induction xs) simp_all

interpretation store_store: object_store "storeApi :: ('q, 'q store) api"
proof
  fix w w' :: "'q store" and object
  assume "aCreate storeApi object w = (None, w')"
  then have fresh: "\<not> list_ex (\<lambda>y. sameKey y object) (stObjects w)" and w': "w' = w\<lparr>stObjects := stObjects w @ [object]\<rparr>"
    by (auto simp: store_defs split: if_splits)
  have "List.find (\<lambda>x. oKind x = oKind object \<and> oNamespace x = oNamespace object \<and> oName x = oName object) (stObjects w) = None"
    using fresh by (auto simp: find_None_iff list_ex_iff sameKey_def)
  then have "aGet storeApi w' (oKind object) (oNamespace object) (oName object) = Inr object"
    unfolding w' by (simp add: store_defs found_def find_append)
  then show "\<exists>uid. aGet storeApi w' (oKind object) (oNamespace object) (oName object) = Inr (object\<lparr>oUID := uid\<rparr>)"
    by (intro exI [of _ "oUID object"]) simp
next
  fix w w' :: "'q store" and object kind namespace name
  assume "aCreate storeApi object w = (None, w')" and k: "(kind, namespace, name) \<noteq> (oKind object, oNamespace object, oName object)"
  then have "w' = w\<lparr>stObjects := stObjects w @ [object]\<rparr>" by (auto simp: store_defs split: if_splits)
  then show "aGet storeApi w' kind namespace name = aGet storeApi w kind namespace name"
    using k by (auto simp: store_defs find_append split: option.splits)
qed

section \<open>Guarded writes\<close>

definition ownedObject :: "kobj \<Rightarrow> kobj \<Rightarrow> string \<Rightarrow> string \<Rightarrow> bool" where
  "ownedObject existing desired ownerLabel ownerName \<longleftrightarrow>
     gm_get [] (oLabels existing) labelManagedBy = labelManagedByValue \<and> gm_get [] (oLabels existing) ownerLabel = ownerName \<and>
     (gm_get [] (oAnnotations desired) annotationOwnerUID \<noteq> [] \<longrightarrow>
        gm_get [] (oAnnotations existing) annotationOwnerUID = gm_get [] (oAnnotations desired) annotationOwnerUID \<or>
        (gm_get [] (oAnnotations existing) annotationOwnerUID = [] \<and> oUID existing = []))"

lemma ownershipConflict_None:
  "ownershipConflict existing desired ownerLabel ownerName = None \<longleftrightarrow> ownedObject existing desired ownerLabel ownerName"
  by (auto simp: ownershipConflict_def ownedObject_def Let_def)

lemma managedUpdate_Some:
  assumes "managedUpdate K existing desired ownerLabel ownerName = Inr (Some updated)"
  obtains spec object where "ownedObject existing desired ownerLabel ownerName"
    "kNestedMap K (oObject desired) [''spec''] = Inr spec"
    "oKind desired = clusterQueueKind \<longrightarrow> validateClusterQueueQuotaReduction K existing desired = Inr ()"
    "kSetNestedField K (oObject existing) (JMap (case spec of None \<Rightarrow> [] | Some m \<Rightarrow> m)) [''spec''] = Inr object"
    "updated = existing\<lparr>oObject := object, oLabels := oLabels desired, oAnnotations := oAnnotations desired\<rparr>"
proof -
  have owned: "ownershipConflict existing desired ownerLabel ownerName = None"
    using assms by (auto simp: managedUpdate_def split: option.splits)
  then obtain espec spec where s: "kNestedMap K (oObject existing) [''spec''] = Inr espec" "kNestedMap K (oObject desired) [''spec''] = Inr spec"
    using assms by (auto simp: managedUpdate_def bindE_Inr_iff)
  let ?same = "specsEqual espec spec \<and> mapsEqual (oLabels existing) (oLabels desired) \<and> mapsEqual (oAnnotations existing) (oAnnotations desired)"
  have diff: "\<not> ?same" using assms owned s by (auto simp: managedUpdate_def)
  have "bindE (if oKind desired = clusterQueueKind then validateClusterQueueQuotaReduction K existing desired else Inr ())
      (\<lambda>_. bindE (kSetNestedField K (oObject existing) (JMap (case spec of None \<Rightarrow> [] | Some m \<Rightarrow> m)) [''spec''])
        (\<lambda>object. Inr (Some (existing\<lparr>oObject := object, oLabels := oLabels desired, oAnnotations := oAnnotations desired\<rparr>)))) =
      Inr (Some updated)"
    using assms owned s diff by (simp add: managedUpdate_def)
  then obtain object where "oKind desired = clusterQueueKind \<longrightarrow> validateClusterQueueQuotaReduction K existing desired = Inr ()"
    "kSetNestedField K (oObject existing) (JMap (case spec of None \<Rightarrow> [] | Some m \<Rightarrow> m)) [''spec''] = Inr object"
    "updated = existing\<lparr>oObject := object, oLabels := oLabels desired, oAnnotations := oAnnotations desired\<rparr>"
    by (auto simp: bindE_Inr_iff split: if_splits)
  then show thesis using owned s(2) that by (simp add: ownershipConflict_None)
qed

text \<open>
  C14. Reconciling a managed object touches the API server in two cases only: the object is
  absent and is created as desired, or it exists, belongs to this owner, and, for a
  ClusterQueue, every active reservation in its status is at most the maximum (nominal quota
  and borrowing limit) of the new quotas, a resource without new quota counting as zero; then
  labels, annotations and specification become the desired ones while its identity and status
  stay.\<close>

theorem managed_write_guarded:
  assumes "kube_laws K" and "reconcileManagedUnstructuredWithReader K A desired ownerLabel ownerName w = (err, w')"
    and "w' \<noteq> w"
  shows "(\<exists>e. aGet A w (oKind desired) (oNamespace desired) (oName desired) = Inl e \<and> isNotFound e \<and>
            aCreate A desired w = (err, w')) \<or>
    (\<exists>existing updated spec. aGet A w (oKind desired) (oNamespace desired) (oName desired) = Inr existing \<and>
       ownedObject existing desired ownerLabel ownerName \<and>
       (oKind desired = clusterQueueKind \<longrightarrow>
          (\<exists>reservations. clusterQueueReservations K existing = Inr reservations \<and>
             (reservations \<noteq> [] \<longrightarrow> (\<exists>maximums. clusterQueueMaximumQuota K desired = Inr maximums \<and>
                (\<forall>(key, total) \<in> set reservations. total \<le> gm_get 0 maximums key))))) \<and>
       aUpdate A updated w = (err, w') \<and>
       oLabels updated = oLabels desired \<and> oAnnotations updated = oAnnotations desired \<and>
       kNestedMap K (oObject desired) [''spec''] = Inr spec \<and>
       gm_lookup (oObject updated) ''spec'' = Some (JMap (case spec of None \<Rightarrow> [] | Some m \<Rightarrow> m)) \<and>
       oUID updated = oUID existing \<and> oName updated = oName existing \<and> oKind updated = oKind existing \<and>
       gm_lookup (oObject updated) ''status'' = gm_lookup (oObject existing) ''status'')"
proof (cases "aGet A w (oKind desired) (oNamespace desired) (oName desired)")
  case (Inl e)
  then show ?thesis using assms(2,3) by (auto simp: reconcileManagedUnstructuredWithReader_def split: if_splits)
next
  case (Inr existing)
  obtain updated where u: "managedUpdate K existing desired ownerLabel ownerName = Inr (Some updated)" "aUpdate A updated w = (err, w')"
    using assms(2,3) Inr by (auto simp: reconcileManagedUnstructuredWithReader_def split: sum.splits option.splits)
  obtain spec object where o: "ownedObject existing desired ownerLabel ownerName"
    "oKind desired = clusterQueueKind \<longrightarrow> validateClusterQueueQuotaReduction K existing desired = Inr ()"
    "kNestedMap K (oObject desired) [''spec''] = Inr spec"
    "kSetNestedField K (oObject existing) (JMap (case spec of None \<Rightarrow> [] | Some m \<Rightarrow> m)) [''spec''] = Inr object"
    "updated = existing\<lparr>oObject := object, oLabels := oLabels desired, oAnnotations := oAnnotations desired\<rparr>"
    using managedUpdate_Some [OF u(1)] by metis
  have "setNested (oObject existing) (JMap (case spec of None \<Rightarrow> [] | Some m \<Rightarrow> m)) [''spec''] = Some object"
    by (rule kube_set_spec [OF assms(1) o(4)]) simp
  then have object: "object = gm_set ''spec'' (JMap (case spec of None \<Rightarrow> [] | Some m \<Rightarrow> m)) (oObject existing)" by simp
  have "oKind desired = clusterQueueKind \<longrightarrow>
      (\<exists>reservations. clusterQueueReservations K existing = Inr reservations \<and>
         (reservations \<noteq> [] \<longrightarrow> (\<exists>maximums. clusterQueueMaximumQuota K desired = Inr maximums \<and>
            (\<forall>(key, total) \<in> set reservations. total \<le> gm_get 0 maximums key))))"
    using o(2) reduction_guard_fits by blast
  then show ?thesis using Inr u(2) o(1,3,5) object by auto
qed

definition reservedQueue :: kobj where
  "reservedQueue = (desiredWorkspaceClusterQueue refKube ''vision'' (exampleWorkspace\<lparr>wsQuota :=
       [\<lparr>qFlavor = ''h200'', qResource = ''gpu'', qNominal = 16, qBorrowing = None, qLending = None\<rparr>]\<rparr>))\<lparr>oUID := ''q9''\<rparr>"

definition reservedStore :: "int \<Rightarrow> int store" where
  "reservedStore amount = exampleStore\<lparr>stObjects := [reservedQueue\<lparr>oObject := oObject reservedQueue @ [(''status'', JMap [(''flavorsReservation'',
       JList [flavorObject ''h200'' [JMap [(''name'', JString ''gpu''), (''total'', JString (showInt amount))]]])])]\<rparr>]\<rparr>"

theorem managed_write_guarded_witness:
  "let desired = desiredWorkspaceClusterQueue refKube ''vision'' exampleWorkspace;
       w = reservedStore 12;
       (err, w') = reconcileManagedUnstructuredWithReader refKube storeApi desired labelWorkspace ''lab'' w
   in w' \<noteq> w \<and> (\<exists>existing maximums. aGet storeApi w clusterQueueKind [] (oName desired) = Inr existing \<and>
        clusterQueueReservations refKube existing = Inr [(''gpu'' @ nul @ ''h200'', 12)] \<and>
        clusterQueueMaximumQuota refKube desired = Inr maximums \<and> 12 \<le> gm_get 0 maximums (''gpu'' @ nul @ ''h200'')) \<and>
      snd (reconcileManagedUnstructuredWithReader refKube storeApi desired labelWorkspace ''lab'' (reservedStore 13)) = reservedStore 13"
proof -
  let ?desired = "desiredWorkspaceClusterQueue refKube ''vision'' exampleWorkspace" and ?w = "reservedStore 12"
  let ?run = "reconcileManagedUnstructuredWithReader refKube storeApi ?desired labelWorkspace ''lab''"
  have kind: "oKind ?desired = clusterQueueKind" "oNamespace ?desired = []" by code_simp+
  have "(case aGet storeApi ?w clusterQueueKind [] (oName ?desired) of Inl _ \<Rightarrow> False
       | Inr existing \<Rightarrow> clusterQueueReservations refKube existing = Inr [(''gpu'' @ nul @ ''h200'', 12)])" by code_simp
  then obtain existing where existing: "aGet storeApi ?w clusterQueueKind [] (oName ?desired) = Inr existing"
    "clusterQueueReservations refKube existing = Inr [(''gpu'' @ nul @ ''h200'', 12)]" by (auto split: sum.splits)
  have "(case stObjects (snd (?run ?w)) of [x] \<Rightarrow> gm_lookup (oObject x) ''spec'' | _ \<Rightarrow> None) \<noteq> gm_lookup (oObject reservedQueue) ''spec''" by code_simp
  moreover have "(case stObjects ?w of [x] \<Rightarrow> gm_lookup (oObject x) ''spec'' | _ \<Rightarrow> None) = gm_lookup (oObject reservedQueue) ''spec''" by code_simp
  ultimately have ne: "snd (?run ?w) \<noteq> ?w" by metis
  have refused: "snd (?run (reservedStore 13)) = reservedStore 13" by code_simp
  from managed_write_guarded [OF refKube_laws surjective_pairing ne] existing kind
  have "\<exists>maximums. clusterQueueMaximumQuota refKube ?desired = Inr maximums \<and> 12 \<le> gm_get 0 maximums (''gpu'' @ nul @ ''h200'')"
    by auto
  then show ?thesis using ne refused existing by (simp add: Let_def case_prod_unfold)
qed

text \<open>
  One write is enough: the object a reconciliation writes needs no further write for
  the same desired object, so a reconciled object is left alone until something changes.\<close>

theorem managed_write_converges:
  assumes "kube_laws K" and "managedUpdate K existing desired ownerLabel ownerName = Inr (Some updated)"
    and "nestedField (JMap (oObject desired)) [''spec''] = Some (Some (JMap spec))"
    and "gm_get [] (oLabels desired) labelManagedBy = labelManagedByValue" and "gm_get [] (oLabels desired) ownerLabel = ownerName"
  shows "managedUpdate K updated desired ownerLabel ownerName = Inr None"
proof -
  have d: "kNestedMap K (oObject desired) [''spec''] = Inr (Some spec)" by (rule kube_map_key [OF assms(1,3)])
  obtain sp object where sp: "kNestedMap K (oObject desired) [''spec''] = Inr sp"
      "kSetNestedField K (oObject existing) (JMap (case sp of None \<Rightarrow> [] | Some m \<Rightarrow> m)) [''spec''] = Inr object"
    and o2: "updated = existing\<lparr>oObject := object, oLabels := oLabels desired, oAnnotations := oAnnotations desired\<rparr>"
    using managedUpdate_Some [OF assms(2)] by metis
  have o: "kSetNestedField K (oObject existing) (JMap spec) [''spec''] = Inr object"
    "updated = existing\<lparr>oObject := object, oLabels := oLabels desired, oAnnotations := oAnnotations desired\<rparr>"
    using sp d o2 by auto
  have "setNested (oObject existing) (JMap spec) [''spec''] = Some object" by (rule kube_set_spec [OF assms(1) o(1)]) simp
  then have "kNestedMap K (oObject updated) [''spec''] = Inr (Some spec)"
    by (intro kube_map_key [OF assms(1)]) (auto simp: o(2))
  moreover have "ownershipConflict updated desired ownerLabel ownerName = None"
    using assms(4,5) by (simp add: ownershipConflict_None ownedObject_def o(2))
  ultimately show ?thesis
    using d by (simp add: managedUpdate_def specsEqual_def mapsEqual_def o(2))
qed

theorem managed_write_converges_witness:
  "\<exists>updated. managedUpdate refKube (desiredWorkspaceClusterQueue refKube ''vision'' (exampleWorkspace\<lparr>wsQuota := []\<rparr>))
       (desiredWorkspaceClusterQueue refKube ''vision'' exampleWorkspace) labelWorkspace ''lab'' = Inr (Some updated) \<and>
     managedUpdate refKube updated (desiredWorkspaceClusterQueue refKube ''vision'' exampleWorkspace) labelWorkspace ''lab'' = Inr None"
proof -
  let ?existing = "desiredWorkspaceClusterQueue refKube ''vision'' (exampleWorkspace\<lparr>wsQuota := []\<rparr>)"
  let ?desired = "desiredWorkspaceClusterQueue refKube ''vision'' exampleWorkspace"
  have "(case managedUpdate refKube ?existing ?desired labelWorkspace ''lab'' of Inr (Some _) \<Rightarrow> True | _ \<Rightarrow> False)" by code_simp
  then obtain updated where u: "managedUpdate refKube ?existing ?desired labelWorkspace ''lab'' = Inr (Some updated)"
    by (auto split: sum.splits option.splits)
  obtain spec where s: "nestedField (JMap (oObject ?desired)) [''spec''] = Some (Some (JMap spec))"
    by (simp add: desiredWorkspaceClusterQueue_def setOwnerUIDAnnotation_def)
  have "gm_get [] (oLabels ?desired) labelManagedBy = labelManagedByValue" "gm_get [] (oLabels ?desired) labelWorkspace = ''lab''"
    by code_simp+
  from managed_write_converges [OF refKube_laws u s this] u show ?thesis by blast
qed

end
