(* ===== verification/Team_Quota.thy ===== *)
theory Team_Quota
  imports Kube_Api
begin

text \<open>
  The quota accounting of a team (\<open>team_controller.go\<close>): what remains of the team's quota
  after the guarantees of its workspaces, what is allocated already, and what is reserved.
  A function reads one state of the API server.
\<close>

section \<open>Operations\<close>

definition allocations :: "'q tauResourceQuota list \<Rightarrow> (string, 'q) gomap" where
  "allocations quotas = fold (\<lambda>quota. gm_set (quotaKey quota) (qNominal quota)) quotas []"

definition takeAllocation :: "'q tauResourceQuota \<Rightarrow> (string, 'q) gomap option \<Rightarrow> (string, 'q) gomap option" where
  "takeAllocation quota acc =
     (case acc of
        None \<Rightarrow> None
      | Some values \<Rightarrow>
          (case gm_lookup values (quotaKey quota) of
             None \<Rightarrow> None
           | Some v \<Rightarrow> if v \<noteq> qNominal quota then None else Some (gm_delete (quotaKey quota) values)))"

definition quotaAllocationsEqual :: "'q tauResourceQuota list \<Rightarrow> 'q tauResourceQuota list \<Rightarrow> bool" where
  "quotaAllocationsEqual first other =
     (if length first \<noteq> length other then False
      else case fold takeAllocation other (Some (allocations first)) of
             None \<Rightarrow> False
           | Some values \<Rightarrow> length values = 0)"

definition addQuantities :: "(string, 'q::linordered_ab_group_add) gomap \<Rightarrow> (string, 'q) gomap \<Rightarrow> (string, 'q) gomap" where
  "addQuantities extra totals = fold (\<lambda>e t. gm_set (fst e) (gm_get 0 t (fst e) + snd e) t) extra totals"

definition raiseQuantity :: "string \<times> 'q::linorder \<Rightarrow> (string, 'q) gomap \<Rightarrow> (string, 'q) gomap" where
  "raiseQuantity entry m =
     (case gm_lookup m (fst entry) of
        None \<Rightarrow> gm_set (fst entry) (snd entry) m
      | Some desired \<Rightarrow> if snd entry > desired then gm_set (fst entry) (snd entry) m else m)"

definition maxQuantities :: "(string, 'q::linorder) gomap \<Rightarrow> (string, 'q) gomap \<Rightarrow> (string, 'q) gomap" where
  "maxQuantities applied effective = fold raiseQuantity applied effective"

definition appliedTeamAllocation ::
  "'q::linordered_ab_group_add kube \<Rightarrow> ('q, 'w) api \<Rightarrow> 'w \<Rightarrow> 'q tauTeam \<Rightarrow> ((string, 'q) gomap) res" where
  "appliedTeamAllocation K A w team =
     (let cohortName = teamCohortName K (tmName team) in
      bindE (case getCohort A w cohortName of
               Inl err \<Rightarrow> if isNotFound err then Inr [] else Inl err
             | Inr cohort \<Rightarrow> clusterQueueNominalQuota K cohort) (\<lambda>shared.
      bindE (aWorkspaces A w (tmNamespace team)) (\<lambda>workspaces.
      foldE (\<lambda>workspace allocation.
        bindE (appliedWorkspaceQueue K A w workspace) (\<lambda>(appliedCohort, guarantees, _, _).
          Inr (if appliedCohort \<noteq> cohortName then allocation else addQuantities guarantees allocation))) workspaces shared)))"

definition teamAllocationReductionOnly ::
  "'q::linordered_ab_group_add kube \<Rightarrow> ('q, 'w) api \<Rightarrow> 'w \<Rightarrow> 'q tauTeam \<Rightarrow> bool res" where
  "teamAllocationReductionOnly K A w team =
     bindE (appliedTeamAllocation K A w team) (\<lambda>applied.
       let requested = allocations (tmQuota team) in
       if list_ex (\<lambda>(key, quantity). quantity > gm_get 0 applied key) requested then Inr False
       else Inr (list_ex (\<lambda>(key, quantity). quantity < gm_get 0 applied key) requested \<or>
                 list_ex (\<lambda>(key, quantity). gm_lookup requested key = None \<and> quantity > 0) applied))"

definition validateTeamReservationsWithAdditional ::
  "'q::linordered_ab_group_add kube \<Rightarrow> ('q, 'w) api \<Rightarrow> 'w \<Rightarrow> 'q tauTeam \<Rightarrow> (string, 'q) gomap \<Rightarrow> unit res" where
  "validateTeamReservationsWithAdditional K A w team additional =
     (let requested = allocations (tmQuota team) in
      bindE (aWorkspaces A w (tmNamespace team)) (\<lambda>workspaces.
      bindE (foldE (\<lambda>workspace reserved.
               bindE (appliedWorkspaceQueue K A w workspace) (\<lambda>(cohort, _, reservations, _).
                 Inr (if cohort \<noteq> teamCohortName K (tmName team) then reserved else addQuantities reservations reserved)))
               workspaces additional) (\<lambda>reserved.
      foldE (\<lambda>(key, total) u.
        let limit = gm_get 0 requested key in
        if total > limit
        then let (resourceName, flavor, _) = cut key (CHR 0x00) in
             Inl (Errorf ''refusing to reduce team %q flavor %q resource %q below active reservations %s (requested allocation %s)''
                    [tmName team, flavor, resourceName, kQuantityString K total, kQuantityString K limit])
        else Inr u) reserved ())))"

definition validateTeamReservations ::
  "'q::linordered_ab_group_add kube \<Rightarrow> ('q, 'w) api \<Rightarrow> 'w \<Rightarrow> 'q tauTeam \<Rightarrow> unit res" where
  "validateTeamReservations K A w team = validateTeamReservationsWithAdditional K A w team []"

subsection \<open>The guarantee of one workspace\<close>

text \<open>What the specification of a workspace guarantees it, and the queue this comes from.\<close>

definition requestedGuarantee ::
  "'q::linordered_ab_group_add kube \<Rightarrow> ('q, 'w) api \<Rightarrow> 'w \<Rightarrow> 'q tauTeam \<Rightarrow> 'q tauWorkspace \<Rightarrow>
     ((string, 'q) gomap \<times> string) res" where
  "requestedGuarantee K A w team workspace =
     (if wsTeamRef workspace \<noteq> Some (tmName team) then Inr ([], [])
      else bindE (retainedEstablishedWorkspaceClusterQueue K A w workspace) (\<lambda>retained.
        case retained of
          None \<Rightarrow> Inr (allocations (wsQuota workspace), [])
        | Some retainedQueue \<Rightarrow>
            bindE (getQueue A w retainedQueue) (\<lambda>queue.
            bindE (mapErr (Wrapped ''read ClusterQueue %q cohortName'' [oName queue])
                     (nestedStringOrEmpty K (oObject queue) [''spec'', ''cohortName''])) (\<lambda>cohort.
            if trimSpace cohort \<noteq> teamCohortName K (tmName team) then Inr ([], [])
            else bindE (clusterQueueNominalQuota K queue) (\<lambda>guarantees.
                 bindE (managedQuotaKeys K queue) (\<lambda>managed.
                   let managedKeys = (case managed of None \<Rightarrow> map quotaKey (tmQuota team) | Some keys \<Rightarrow> keys)
                   in Inr (filter (\<lambda>(key, _). key \<in> set managedKeys) guarantees, queueIdentity queue)))))))"

definition effectiveGuarantee ::
  "'q::linordered_ab_group_add kube \<Rightarrow> ('q, 'w) api \<Rightarrow> 'w \<Rightarrow> 'q tauTeam \<Rightarrow> 'q tauWorkspace \<Rightarrow>
     ((string, 'q) gomap \<times> string) res" where
  "effectiveGuarantee K A w team workspace =
     bindE (requestedGuarantee K A w team workspace) (\<lambda>(effective, identity).
     bindE (appliedWorkspaceQueue K A w workspace) (\<lambda>(appliedCohort, applied, _, appliedIdentity).
       if appliedCohort = teamCohortName K (tmName team)
       then Inr (maxQuantities applied effective, appliedIdentity)
       else Inr (effective, identity)))"

text \<open>A queue shared by several workspaces is charged once, with the greatest guarantee.\<close>

definition accountKey ::
  "string \<times> 'q::linordered_ab_group_add \<Rightarrow> (string, 'q) gomap \<times> (string, 'q) gomap \<Rightarrow>
     (string, 'q) gomap \<times> (string, 'q) gomap" where
  "accountKey entry acc =
     (let key = fst entry; guarantee = snd entry in
      case gm_lookup (fst acc) key of
        Some previous \<Rightarrow>
          if guarantee \<le> previous then acc
          else (gm_set key ((guarantee - previous) + previous) (fst acc), gm_set key (guarantee - previous) (snd acc))
      | None \<Rightarrow> (gm_set key guarantee (fst acc), gm_set key guarantee (snd acc)))"

definition accountQueue ::
  "string \<Rightarrow> (string, 'q::linordered_ab_group_add) gomap \<Rightarrow> (string, (string, 'q) gomap) gomap \<Rightarrow>
     (string, (string, 'q) gomap) gomap \<times> (string, 'q) gomap" where
  "accountQueue identity effective accountedQueues =
     (if identity = [] then (accountedQueues, effective)
      else let acc = fold accountKey effective (gm_get [] accountedQueues identity, [])
           in (gm_set identity (fst acc) accountedQueues, snd acc))"

definition chargeKey ::
  "string \<Rightarrow> string \<times> 'q::linordered_ab_group_add \<Rightarrow> (string, 'q tauResourceQuota) gomap \<Rightarrow>
     ((string, 'q tauResourceQuota) gomap) res" where
  "chargeKey workspaceName entry remaining =
     (let key = fst entry; guarantee = snd entry; (resourceName, flavor, _) = cut key (CHR 0x00) in
      case gm_lookup remaining key of
        None \<Rightarrow>
          Inl (Errorf ''workspace %q has an applied or requested guarantee for flavor %q resource %q outside team quota''
                 [workspaceName, flavor, resourceName])
      | Some available \<Rightarrow>
          if qNominal available - guarantee < 0
          then Inl (Errorf ''workspace guarantees exceed team quota for flavor %q resource %q'' [flavor, resourceName])
          else Inr (gm_set key (available\<lparr>qNominal := qNominal available - guarantee\<rparr>) remaining))"

definition subtractWorkspaceGuarantee ::
  "'q::linordered_ab_group_add kube \<Rightarrow> ('q, 'w) api \<Rightarrow> 'w \<Rightarrow> 'q tauTeam \<Rightarrow> 'q tauWorkspace \<Rightarrow>
     (string, 'q tauResourceQuota) gomap \<times> (string, (string, 'q) gomap) gomap \<Rightarrow>
     ((string, 'q tauResourceQuota) gomap \<times> (string, (string, 'q) gomap) gomap) res" where
  "subtractWorkspaceGuarantee K A w team workspace acc =
     bindE (effectiveGuarantee K A w team workspace) (\<lambda>(effective, identity).
       let charged = accountQueue identity effective (snd acc) in
       bindE (foldE (chargeKey (wsName workspace)) (snd charged) (fst acc))
         (\<lambda>remaining. Inr (remaining, fst charged)))"

subsection \<open>The shared quota of a team\<close>

definition rootQuota ::
  "'q::linordered_ab_group_add tauResourceQuota \<Rightarrow> (string, 'q tauResourceQuota) gomap \<Rightarrow>
     ((string, 'q tauResourceQuota) gomap) res" where
  "rootQuota quota remaining =
     (if \<exists>v \<in> set_option (qBorrowing quota). v \<noteq> 0
      then Inl (Errorf ''team root quota for flavor %q resource %q cannot set borrowingLimit'' [qFlavor quota, qResource quota])
      else if \<exists>v \<in> set_option (qLending quota). v \<noteq> 0
      then Inl (Errorf ''team root quota for flavor %q resource %q cannot set lendingLimit'' [qFlavor quota, qResource quota])
      else Inr (gm_set (quotaKey quota) (quota\<lparr>qBorrowing := None, qLending := None\<rparr>) remaining))"

definition accountedWorkspaces :: "'q tauWorkspace list \<Rightarrow> 'q tauWorkspace option \<Rightarrow> 'q tauWorkspace list" where
  "accountedWorkspaces workspaces proposed =
     (case proposed of
        None \<Rightarrow> workspaces
      | Some p \<Rightarrow>
          map (\<lambda>x. if wsName x = wsName p then p else x) workspaces @
            (if list_ex (\<lambda>x. wsName x = wsName p) workspaces then [] else [p]))"

definition sharedTeamQuotaForWorkspace ::
  "'q::linordered_ab_group_add kube \<Rightarrow> ('q, 'w) api \<Rightarrow> 'w \<Rightarrow> 'q tauTeam \<Rightarrow> 'q tauWorkspace option \<Rightarrow>
     ('q tauResourceQuota list) res" where
  "sharedTeamQuotaForWorkspace K A w team proposed =
     bindE (foldE rootQuota (tmQuota team) []) (\<lambda>remaining.
     bindE (aWorkspaces A w (tmNamespace team)) (\<lambda>workspaces.
     bindE (foldE (subtractWorkspaceGuarantee K A w team) (accountedWorkspaces workspaces proposed) (remaining, []))
       (\<lambda>acc. Inr (map snd (fst acc)))))"

definition sharedTeamQuota ::
  "'q::linordered_ab_group_add kube \<Rightarrow> ('q, 'w) api \<Rightarrow> 'w \<Rightarrow> 'q tauTeam \<Rightarrow> ('q tauResourceQuota list) res" where
  "sharedTeamQuota K A w team = sharedTeamQuotaForWorkspace K A w team None"

text \<open>
  The Cohort is written only from an accounting that still holds and never below the
  reservations of the team's workspaces.
\<close>

definition reconcileTeamCohort ::
  "'q::linordered_ab_group_add kube \<Rightarrow> ('q, 'w) api \<Rightarrow> 'q tauTeam \<Rightarrow> 'q tauResourceQuota list \<Rightarrow> 'w \<Rightarrow> kerr option \<times> 'w" where
  "reconcileTeamCohort K A team sharedQuota w =
     (case bindE (sharedTeamQuota K A w team) (\<lambda>currentSharedQuota.
             if \<not> quotaAllocationsEqual currentSharedQuota sharedQuota
             then Inl (Errorf ''refusing stale Cohort accounting snapshot for team %q; retry reconciliation'' [tmName team])
             else validateTeamReservations K A w team) of
        Inl err \<Rightarrow> (Some err, w)
      | Inr _ \<Rightarrow> reconcileManagedUnstructuredWithReader K A (desiredTeamCohort K team sharedQuota) labelTeam (tmName team) w)"

section \<open>Maps of quantities\<close>

lemma allocations_inv: "gm_inv (allocations quotas)"
proof -
  have "gm_inv m \<Longrightarrow> gm_inv (fold (\<lambda>quota. gm_set (quotaKey quota) (qNominal quota)) quotas m)" for m
    by (induction quotas arbitrary: m) simp_all
  then show ?thesis by (simp add: allocations_def)
qed

lemma allocations_lookup:
  assumes "distinct (map quotaKey quotas)"
  shows "gm_lookup (allocations quotas) key = map_of (map (\<lambda>q. (quotaKey q, qNominal q)) quotas) key"
proof -
  have "allocations quotas = fold (\<lambda>(k, v). gm_set k v) (map (\<lambda>q. (quotaKey q, qNominal q)) quotas) []"
    by (simp add: allocations_def fold_map comp_def)
  then show ?thesis
    using assign_all_values [of "map (\<lambda>q. (quotaKey q, qNominal q)) quotas" quotaKey qNominal quotas key] assms by simp
qed

lemma addQuantities_get:
  assumes "gm_inv extra"
  shows "gm_get 0 (addQuantities extra totals) key = gm_get 0 totals key + gm_get 0 extra key"
  using assms unfolding addQuantities_def
proof (induction extra arbitrary: totals)
  case (Cons e extra)
  have inv: "gm_inv extra" and fresh: "fst e \<notin> set (gm_keys extra)" using Cons.prems by (simp_all add: gm_inv_def gm_keys_def)
  then have z: "gm_get 0 extra (fst e) = 0" by (simp add: gm_get_def gm_key_iff split: option.split)
  show ?case using Cons.IH [OF inv, of "gm_set (fst e) (gm_get 0 totals (fst e) + snd e) totals"] z
    by (cases e) (auto simp: gm_get_def split: option.split)
qed simp

lemma maxQuantities_lookup:
  assumes "gm_inv applied"
  shows "gm_lookup (maxQuantities applied effective) key =
    (case gm_lookup applied key of
       None \<Rightarrow> gm_lookup effective key
     | Some a \<Rightarrow> Some (case gm_lookup effective key of None \<Rightarrow> a | Some d \<Rightarrow> max a d))"
  using assms unfolding maxQuantities_def
proof (induction applied arbitrary: effective)
  case (Cons e applied)
  have inv: "gm_inv applied" and fresh: "gm_lookup applied (fst e) = None"
    using Cons.prems by (simp_all add: gm_inv_def gm_keys_def gm_lookup_None_iff)
  have m: "gm_lookup (raiseQuantity e effective) k =
      (if k = fst e then Some (case gm_lookup effective k of None \<Rightarrow> snd e | Some d \<Rightarrow> max (snd e) d) else gm_lookup effective k)" for k
    by (cases "gm_lookup effective (fst e)") (auto simp: raiseQuantity_def max_def)
  show ?case
  proof (cases "key = fst e")
    case True
    then show ?thesis using Cons.IH [OF inv, of "raiseQuantity e effective"] fresh m [of key] by (cases e) (simp split: option.split)
  next
    case False
    then show ?thesis using Cons.IH [OF inv, of "raiseQuantity e effective"] m [of key]
      by (cases e) (simp split: option.split)
  qed
qed simp

lemma maxQuantities_inv: "gm_inv effective \<Longrightarrow> gm_inv (maxQuantities applied effective)"
  unfolding maxQuantities_def
  by (rule fold_invariant [where Q = "\<lambda>_. True" and P = gm_inv]) (auto simp: raiseQuantity_def split: option.split)

lemma clusterQueueQuota_inv:
  assumes "clusterQueueQuota K queue b = Inr m"
  shows "gm_inv m"
proof -
  have r: "gm_inv v" if "gm_inv u" "readResourceQuota K q b f x u = Inr v" for q f x u v
    using that by (auto simp: readResourceQuota_def Let_def bindE_Inr_iff split: option.splits if_splits)
  have f: "gm_inv v" if "gm_inv u" "readFlavorQuota K q b x u = Inr v" for q x u v
    using that r by (auto simp: readFlavorQuota_def bindE_Inr_iff split: option.splits intro: foldE_invariant [where P = gm_inv])
  have g: "gm_inv v" if "gm_inv u" "readGroupQuota K q b x u = Inr v" for q x u v
    using that f by (auto simp: readGroupQuota_def bindE_Inr_iff split: option.splits intro: foldE_invariant [where P = gm_inv])
  show ?thesis
    using assms g by (auto simp: clusterQueueQuota_def split: sum.splits option.splits intro: foldE_invariant [where P = gm_inv])
qed

lemma keepManaged_inv: "gm_inv m \<Longrightarrow> gm_inv (keepManaged managed m)"
  by (auto simp: keepManaged_def gm_inv_filter split: option.split)

lemma appliedWorkspaceQueue_inv:
  assumes "appliedWorkspaceQueue K A w ws = Inr (cohort, guarantees, reservations, identity)"
  shows "gm_inv guarantees"
proof -
  consider "guarantees = []" | queue applied managed where "clusterQueueQuota K queue False = Inr applied" "guarantees = keepManaged managed applied"
    using assms
    by (auto simp: appliedWorkspaceQueue_def clusterQueueNominalQuota_def Let_def bindE_Inr_iff split: sum.splits if_splits)
  then show ?thesis by cases (simp_all add: keepManaged_inv clusterQueueQuota_inv)
qed

lemma requestedGuarantee_inv:
  assumes "requestedGuarantee K A w team ws = Inr (effective, identity)"
  shows "gm_inv effective"
proof -
  consider "effective = []" | "effective = allocations (wsQuota ws)"
    | queue guarantees P where "clusterQueueQuota K queue False = Inr guarantees" "effective = filter P guarantees"
    using assms
    by (auto simp: requestedGuarantee_def clusterQueueNominalQuota_def Let_def bindE_Inr_iff split: if_splits option.splits)
  then show ?thesis by cases (simp_all add: allocations_inv gm_inv_filter clusterQueueQuota_inv)
qed

lemma effectiveGuarantee_inv:
  assumes "effectiveGuarantee K A w team ws = Inr (effective, identity)"
  shows "gm_inv effective"
proof -
  obtain requested where r: "gm_inv requested" and "effective = requested \<or> (\<exists>applied. effective = maxQuantities applied requested)"
    using assms requestedGuarantee_inv
    by (fastforce simp: effectiveGuarantee_def bindE_Inr_iff split: if_splits prod.splits)
  then show ?thesis by (auto intro: maxQuantities_inv)
qed

section \<open>The accounting\<close>

text \<open>Charging one queue: its account becomes the greater value, the charge is the difference.\<close>

lemma accountKeys:
  fixes effective :: "(string, 'q::linordered_ab_group_add) gomap"
  assumes "gm_inv effective" "\<forall>k \<in> set (gm_keys effective). gm_lookup out k = None"
  shows "gm_lookup (fst (fold accountKey effective (acc, out))) key =
      (case gm_lookup effective key of
         None \<Rightarrow> gm_lookup acc key
       | Some g \<Rightarrow> Some (case gm_lookup acc key of None \<Rightarrow> g | Some p \<Rightarrow> max g p))" (is ?account)
    and "gm_get 0 (snd (fold accountKey effective (acc, out))) key =
      gm_get 0 out key + (gm_get 0 (fst (fold accountKey effective (acc, out))) key - gm_get 0 acc key)" (is ?charge)
    and "gm_inv out \<Longrightarrow> gm_inv (snd (fold accountKey effective (acc, out)))"
    and "set (gm_keys (snd (fold accountKey effective (acc, out)))) \<subseteq> set (gm_keys out) \<union> set (gm_keys effective)"
  using assms
proof (induction effective arbitrary: acc out)
  case Nil
  { case 1 show ?case by simp }
  { case 2 show ?case by simp }
  { case 3 then show ?case by simp }
  { case 4 show ?case by simp }
next
  case (Cons e effective)
  obtain k g where e: "e = (k, g)" by (cases e)
  let ?step = "\<lambda>acc out. accountKey e (acc, out :: (string, 'q) gomap)"
  have tail: "gm_inv effective \<and> k \<notin> set (gm_keys effective)" if "gm_inv (e # effective)"
    using that by (simp add: gm_inv_def gm_keys_def e)
  have acc': "gm_lookup (fst (?step acc out)) k' =
      (if k' = k then Some (case gm_lookup acc k of None \<Rightarrow> g | Some p \<Rightarrow> max g p) else gm_lookup acc k')" for acc out k'
    by (cases "gm_lookup acc k") (auto simp: accountKey_def e max_def)
  have out': "gm_get 0 (snd (?step acc out)) k' =
      (if k' = k then gm_get 0 (fst (?step acc out)) k - gm_get 0 acc k else gm_get 0 out k')"
    if "gm_lookup out k = None" for acc out k'
    using that by (cases "gm_lookup acc k") (auto simp: accountKey_def e gm_get_def)
  have keys: "set (gm_keys (snd (?step acc out))) \<subseteq> insert k (set (gm_keys out))" for acc out
    by (cases "gm_lookup acc k") (auto simp: accountKey_def e)
  have fresh: "\<forall>k' \<in> set (gm_keys effective). gm_lookup (snd (?step acc out)) k' = None"
    if "gm_inv (e # effective)" "\<forall>k \<in> set (gm_keys (e # effective)). gm_lookup out k = None" for acc out
    using tail [OF that(1)] that(2) keys [of acc out] by (auto simp: gm_lookup_None_iff)
  {
    case (1 acc out)
    have "gm_lookup (fst (fold accountKey effective (fst (?step acc out), snd (?step acc out)))) key =
      (case gm_lookup effective key of None \<Rightarrow> gm_lookup (fst (?step acc out)) key
       | Some g \<Rightarrow> Some (case gm_lookup (fst (?step acc out)) key of None \<Rightarrow> g | Some p \<Rightarrow> max g p))"
      by (rule Cons.IH(1) [OF _ fresh [OF 1]]) (use tail 1 in blast)
    moreover have "gm_lookup effective k = None" using tail [OF 1(1)] by (simp add: gm_lookup_None_iff)
    ultimately show ?case by (cases "key = k") (auto simp: acc' [unfolded e] e split: option.split)
  }
  {
    case (2 acc out)
    have o: "gm_lookup out k = None" using 2(2) by (simp add: e)
    have "gm_get 0 (snd (fold accountKey effective (fst (?step acc out), snd (?step acc out)))) key =
      gm_get 0 (snd (?step acc out)) key + (gm_get 0 (fst (fold accountKey effective (fst (?step acc out), snd (?step acc out)))) key - gm_get 0 (fst (?step acc out)) key)"
      by (rule Cons.IH(2) [OF _ fresh [OF 2]]) (use tail 2 in blast)
    moreover have "gm_get 0 out key = 0" if "key = k" using o that by (simp add: gm_get_def)
    moreover have "gm_get 0 (fst (?step acc out)) key = gm_get 0 acc key" if "key \<noteq> k"
      using that acc' [of acc out key] by (simp add: gm_get_def)
    ultimately show ?case by (cases "key = k") (simp_all add: out' [OF o])
  }
  {
    case (3 acc out)
    have "gm_inv (snd (?step acc out))" using 3(1) by (cases "gm_lookup acc k") (auto simp: accountKey_def e)
    then have "gm_inv (snd (fold accountKey effective (fst (?step acc out), snd (?step acc out))))"
      by (rule Cons.IH(3) [OF _ _ fresh [OF 3(2,3)]]) (use tail 3 in blast)
    then show ?case by simp
  }
  {
    case (4 acc out)
    have "set (gm_keys (snd (fold accountKey effective (fst (?step acc out), snd (?step acc out))))) \<subseteq>
      set (gm_keys (snd (?step acc out))) \<union> set (gm_keys effective)"
      by (rule Cons.IH(4) [OF _ fresh [OF 4]]) (use tail 4 in blast)
    then show ?case using keys [of acc out] by (auto simp: e)
  }
qed

lemma chargeKeys:
  assumes "foldE (chargeKey n) es remaining = Inr remaining'" "gm_inv es"
  shows "gm_lookup remaining' key = map_option (\<lambda>q. q\<lparr>qNominal := qNominal q - gm_get 0 es key\<rparr>) (gm_lookup remaining key)"
    and "key \<in> set (gm_keys es) \<Longrightarrow> \<exists>q. gm_lookup remaining' key = Some q \<and> 0 \<le> qNominal q"
  using assms
proof (induction es arbitrary: remaining)
  case Nil
  { case 1 then show ?case by (cases "gm_lookup remaining key") auto }
  { case 2 then show ?case by simp }
next
  case (Cons e es)
  obtain k g where e: "e = (k, g)" by (cases e)
  have step: "\<exists>q. gm_lookup remaining k = Some q \<and> 0 \<le> qNominal q - g \<and>
      foldE (chargeKey n) es (gm_set k (q\<lparr>qNominal := qNominal q - g\<rparr>) remaining) = Inr remaining'"
    if "foldE (chargeKey n) (e # es) remaining = Inr remaining'" for remaining
    using that by (auto simp: bindE_Inr_iff chargeKey_def e Let_def case_prod_unfold not_less split: option.splits if_splits)
  have tail: "gm_inv es" "gm_lookup es k = None" "gm_get 0 es k = 0" if "gm_inv (e # es)"
  proof -
    show "gm_inv es" "gm_lookup es k = None" using that by (simp_all add: gm_inv_def gm_keys_def e gm_lookup_None_iff)
    then show "gm_get 0 es k = 0" by (simp add: gm_get_def)
  qed
  {
    case (1 remaining)
    obtain q where q: "gm_lookup remaining k = Some q"
      "foldE (chargeKey n) es (gm_set k (q\<lparr>qNominal := qNominal q - g\<rparr>) remaining) = Inr remaining'" using step 1 by blast
    have "gm_get 0 (e # es) key = (if key = k then g else gm_get 0 es key)" by (simp add: e gm_get_def)
    then show ?case using Cons.IH(1) [OF q(2)] tail 1(2) q(1) by (cases "key = k") (simp_all)
  }
  {
    case (2 remaining)
    obtain q where q: "gm_lookup remaining k = Some q" "0 \<le> qNominal q - g"
      "foldE (chargeKey n) es (gm_set k (q\<lparr>qNominal := qNominal q - g\<rparr>) remaining) = Inr remaining'" using step 2 by blast
    show ?case
    proof (cases "key = k")
      case True
      then show ?thesis using Cons.IH(1) [OF q(3)] tail 2(3) q(2) by simp
    next
      case False
      then show ?thesis using Cons.IH(2) [OF _ q(3)] tail 2 by (simp add: e)
    qed
  }
qed

subsection \<open>What the workspaces are charged\<close>

text \<open>
  An event is what one workspace brings to the accounting: the identity of the queue (empty
  when there is none) and its guarantee. A queue is charged the greatest guarantee any of
  its workspaces brings; a guarantee without a queue is charged in full.
\<close>

type_synonym 'q guaranteeEvent = "string \<times> (string, 'q) gomap"

definition guaranteesOf :: "'q guaranteeEvent list \<Rightarrow> string \<Rightarrow> string \<Rightarrow> 'q list" where
  "guaranteesOf events identity key =
     List.map_filter (\<lambda>e. if fst e = identity then gm_lookup (snd e) key else None) events"

definition queueCharge :: "'q::linordered_ab_group_add guaranteeEvent list \<Rightarrow> string \<Rightarrow> string \<Rightarrow> 'q" where
  "queueCharge events identity key =
     (if guaranteesOf events identity key = [] then 0 else Max (set (guaranteesOf events identity key)))"

definition totalCharge :: "'q::linordered_ab_group_add guaranteeEvent list \<Rightarrow> string \<Rightarrow> 'q" where
  "totalCharge events key =
     (\<Sum>e \<leftarrow> filter (\<lambda>e. fst e = []) events. gm_get 0 (snd e) key) +
     (\<Sum>identity \<in> fst ` set events - {[]}. queueCharge events identity key)"

lemma guaranteesOf_append:
  "guaranteesOf (events @ [e]) identity key =
     guaranteesOf events identity key @
       (if fst e = identity then (case gm_lookup (snd e) key of None \<Rightarrow> [] | Some g \<Rightarrow> [g]) else [])"
  by (simp add: guaranteesOf_def List.map_filter_def split: option.split)

lemma queueCharge_absent: "identity \<notin> fst ` set events \<Longrightarrow> queueCharge events identity key = 0"
  by (force simp: queueCharge_def guaranteesOf_def List.map_filter_def filter_empty_conv)

lemma queueCharge_other: "fst e \<noteq> identity \<Longrightarrow> queueCharge (events @ [e]) identity key = queueCharge events identity key"
  by (simp add: queueCharge_def guaranteesOf_append)

lemma totalCharge_anonymous:
  assumes "fst e = []"
  shows "totalCharge (events @ [e]) key = totalCharge events key + gm_get 0 (snd e) key"
proof -
  have "(\<Sum>i \<in> fst ` set (events @ [e]) - {[]}. queueCharge (events @ [e]) i key) =
      (\<Sum>i \<in> fst ` set events - {[]}. queueCharge events i key)"
    by (rule sum.cong) (use assms in \<open>auto simp: queueCharge_other\<close>)
  then show ?thesis using assms by (simp add: totalCharge_def add_ac)
qed

lemma totalCharge_queue:
  assumes "fst e \<noteq> []"
  shows "totalCharge (events @ [e]) key =
    totalCharge events key + (queueCharge (events @ [e]) (fst e) key - queueCharge events (fst e) key)"
proof -
  let ?I = "fst ` set events - {[]}" and ?c = "\<lambda>i. queueCharge events i key"
  have ids: "fst ` set (events @ [e]) - {[]} = insert (fst e) (?I - {fst e})" using assms by auto
  have ins: "(\<Sum>i \<in> insert (fst e) (?I - {fst e}). queueCharge (events @ [e]) i key) =
      queueCharge (events @ [e]) (fst e) key + (\<Sum>i \<in> ?I - {fst e}. queueCharge (events @ [e]) i key)"
    by (rule sum.insert) simp_all
  have rest: "(\<Sum>i \<in> ?I - {fst e}. queueCharge (events @ [e]) i key) = (\<Sum>i \<in> ?I - {fst e}. ?c i)"
  proof (rule sum.cong)
    fix i assume "i \<in> ?I - {fst e}"
    then have "fst e \<noteq> i" by auto
    then show "queueCharge (events @ [e]) i key = ?c i" by (rule queueCharge_other)
  qed simp
  have old: "(\<Sum>i \<in> ?I. ?c i) = ?c (fst e) + (\<Sum>i \<in> ?I - {fst e}. ?c i)"
  proof (cases "fst e \<in> ?I")
    case True
    then show ?thesis by (intro sum.remove) simp_all
  next
    case False
    then have "?c (fst e) = 0" using assms by (intro queueCharge_absent) simp
    then show ?thesis using False by simp
  qed
  have "filter (\<lambda>e. fst e = []) (events @ [e]) = filter (\<lambda>e. fst e = []) events" using assms by simp
  then show ?thesis unfolding totalCharge_def ids ins rest old by (simp add: add_ac)
qed

text \<open>The state of the loop after the events.\<close>

definition ledger ::
  "(string, 'q::linordered_ab_group_add tauResourceQuota) gomap \<Rightarrow> 'q guaranteeEvent list \<Rightarrow>
     (string, 'q tauResourceQuota) gomap \<times> (string, (string, 'q) gomap) gomap \<Rightarrow> bool" where
  "ledger base events acc \<longleftrightarrow>
     (\<forall>key. gm_lookup (fst acc) key = map_option (\<lambda>q. q\<lparr>qNominal := qNominal q - totalCharge events key\<rparr>) (gm_lookup base key)) \<and>
     (\<forall>identity key. identity \<noteq> [] \<longrightarrow>
        gm_lookup (gm_get [] (snd acc) identity) key =
          (if guaranteesOf events identity key = [] then None else Some (Max (set (guaranteesOf events identity key)))))"

lemma ledger_start: "ledger base [] (base, [])"
  by (simp add: ledger_def totalCharge_def guaranteesOf_def List.map_filter_def option.map_ident)

lemma accountQueue_spec:
  fixes events :: "'q::linordered_ab_group_add guaranteeEvent list"
  assumes inv: "gm_inv (snd e)"
    and acc: "\<forall>identity key. identity \<noteq> [] \<longrightarrow> gm_lookup (gm_get [] accounted identity) key =
      (if guaranteesOf events identity key = [] then None else Some (Max (set (guaranteesOf events identity key))))"
  defines "charged \<equiv> accountQueue (fst e) (snd e) accounted"
  shows "gm_inv (snd charged)"
    and "gm_get 0 (snd charged) key = totalCharge (events @ [e]) key - totalCharge events key"
    and "identity \<noteq> [] \<Longrightarrow> gm_lookup (gm_get [] (fst charged) identity) key =
      (if guaranteesOf (events @ [e]) identity key = [] then None else Some (Max (set (guaranteesOf (events @ [e]) identity key))))"
proof -
  let ?a = "gm_get [] accounted (fst e)"
  let ?f = "fold accountKey (snd e) (?a, [])"
  note keys = accountKeys [OF inv, of "[]" ?a]
  have account: "fst e \<noteq> [] \<Longrightarrow> gm_lookup (fst ?f) key =
      (if guaranteesOf (events @ [e]) (fst e) key = [] then None else Some (Max (set (guaranteesOf (events @ [e]) (fst e) key))))" for key
    using keys(1) [of key] acc [rule_format, of "fst e" key]
    by (cases "gm_lookup (snd e) key"; cases "guaranteesOf events (fst e) key = []")
      (simp_all add: guaranteesOf_append Max_insert2 max.commute)
  have get: "fst e \<noteq> [] \<Longrightarrow> gm_get 0 ?a key = queueCharge events (fst e) key" for key
    using acc [rule_format, of "fst e" key] by (simp add: gm_get_def queueCharge_def)
  have get': "fst e \<noteq> [] \<Longrightarrow> gm_get 0 (fst ?f) key = queueCharge (events @ [e]) (fst e) key" for key
    using account [of key] by (simp add: gm_get_def queueCharge_def)
  show "gm_inv (snd charged)" using inv keys(3) by (simp add: charged_def accountQueue_def Let_def)
  show "gm_get 0 (snd charged) key = totalCharge (events @ [e]) key - totalCharge events key"
  proof (cases "fst e = []")
    case True
    then show ?thesis by (simp add: charged_def accountQueue_def totalCharge_anonymous)
  next
    case False
    then show ?thesis using keys(2) [of key] get [of key] get' [of key]
      by (simp add: charged_def accountQueue_def Let_def totalCharge_queue)
  qed
  show "gm_lookup (gm_get [] (fst charged) identity) key =
      (if guaranteesOf (events @ [e]) identity key = [] then None else Some (Max (set (guaranteesOf (events @ [e]) identity key))))"
    if "identity \<noteq> []"
  proof (cases "identity = fst e")
    case True
    then show ?thesis using that account [of key] by (simp add: charged_def accountQueue_def Let_def)
  next
    case False
    then show ?thesis using that acc [rule_format, of identity key]
      by (auto simp: charged_def accountQueue_def Let_def guaranteesOf_append)
  qed
qed

lemma subtractWorkspaceGuarantee_ledger:
  assumes "ledger base events acc" "subtractWorkspaceGuarantee K A w team ws acc = Inr acc'"
  shows "\<exists>effective identity. effectiveGuarantee K A w team ws = Inr (effective, identity) \<and>
    ledger base (events @ [(identity, effective)]) acc' \<and>
    (\<forall>key. totalCharge (events @ [(identity, effective)]) key \<noteq> totalCharge events key \<longrightarrow>
       (\<exists>q. gm_lookup (fst acc') key = Some q \<and> 0 \<le> qNominal q))"
proof -
  obtain effective identity where e: "effectiveGuarantee K A w team ws = Inr (effective, identity)"
    using assms(2) by (auto simp: subtractWorkspaceGuarantee_def bindE_Inr_iff)
  let ?e = "(identity, effective)" and ?charged = "accountQueue identity effective (snd acc)"
  obtain remaining where r: "foldE (chargeKey (wsName ws)) (snd ?charged) (fst acc) = Inr remaining"
    and acc': "acc' = (remaining, fst ?charged)"
    using assms(2) e by (auto simp: subtractWorkspaceGuarantee_def bindE_Inr_iff Let_def)
  have inv: "gm_inv (snd ?e)" using effectiveGuarantee_inv [OF e] by simp
  have old: "\<forall>identity key. identity \<noteq> [] \<longrightarrow> gm_lookup (gm_get [] (snd acc) identity) key =
      (if guaranteesOf events identity key = [] then None else Some (Max (set (guaranteesOf events identity key))))"
    using assms(1) unfolding ledger_def by blast
  note spec = accountQueue_spec [OF inv old, simplified fst_conv snd_conv]
  have lookup: "gm_lookup remaining key =
      map_option (\<lambda>q. q\<lparr>qNominal := qNominal q - totalCharge (events @ [?e]) key\<rparr>) (gm_lookup base key)" for key
    using chargeKeys(1) [OF r spec(1), of key] spec(2) [of key] assms(1)
    by (auto simp: ledger_def option.map_comp comp_def)
  have "ledger base (events @ [?e]) acc'"
    unfolding ledger_def acc' using lookup spec(3) by simp
  moreover have "\<exists>q. gm_lookup (fst acc') key = Some q \<and> 0 \<le> qNominal q"
    if "totalCharge (events @ [?e]) key \<noteq> totalCharge events key" for key
  proof -
    have "gm_get 0 (snd ?charged) key \<noteq> 0" using spec(2) [of key] that by simp
    then have "key \<in> set (gm_keys (snd ?charged))" by (auto simp: gm_key_iff gm_get_def split: option.splits)
    then show ?thesis using chargeKeys(2) [OF r spec(1)] by (simp add: acc')
  qed
  ultimately show ?thesis using e by blast
qed

lemma subtractAll_ledger:
  assumes "ledger base events acc" "foldE (subtractWorkspaceGuarantee K A w team) wss acc = Inr acc'"
    and "\<forall>q key. gm_lookup (fst acc) key = Some q \<longrightarrow> 0 \<le> qNominal q"
  shows "\<exists>news. list_all2 (\<lambda>ws e. effectiveGuarantee K A w team ws = Inr (snd e, fst e)) wss news \<and>
    ledger base (events @ news) acc' \<and> (\<forall>q key. gm_lookup (fst acc') key = Some q \<longrightarrow> 0 \<le> qNominal q)"
  using assms
proof (induction wss arbitrary: events acc)
  case Nil
  then show ?case by (intro exI [of _ "[]"]) simp
next
  case (Cons ws wss)
  obtain u where u: "subtractWorkspaceGuarantee K A w team ws acc = Inr u" "foldE (subtractWorkspaceGuarantee K A w team) wss u = Inr acc'"
    using Cons.prems(2) by (auto simp: bindE_Inr_iff)
  obtain effective identity where e: "effectiveGuarantee K A w team ws = Inr (effective, identity)"
    "ledger base (events @ [(identity, effective)]) u"
    "\<forall>key. totalCharge (events @ [(identity, effective)]) key \<noteq> totalCharge events key \<longrightarrow>
       (\<exists>q. gm_lookup (fst u) key = Some q \<and> 0 \<le> qNominal q)"
    using subtractWorkspaceGuarantee_ledger [OF Cons.prems(1) u(1)] by blast
  have "0 \<le> qNominal q" if q: "gm_lookup (fst u) key = Some q" for q key
  proof (cases "totalCharge (events @ [(identity, effective)]) key = totalCharge events key")
    case True
    then have "gm_lookup (fst u) key = gm_lookup (fst acc) key" using e(2) Cons.prems(1) by (simp add: ledger_def)
    then show ?thesis using q Cons.prems(3) by metis
  next
    case False
    then show ?thesis using e(3) q by auto
  qed
  then obtain news where "list_all2 (\<lambda>ws e. effectiveGuarantee K A w team ws = Inr (snd e, fst e)) wss news"
    "ledger base ((events @ [(identity, effective)]) @ news) acc'" "\<forall>q key. gm_lookup (fst acc') key = Some q \<longrightarrow> 0 \<le> qNominal q"
    using Cons.IH [OF e(2) u(2)] by blast
  then show ?case using e(1) by (intro exI [of _ "(identity, effective) # news"]) simp
qed

lemma rootQuotas:
  assumes "foldE rootQuota quotas [] = Inr base" "distinct (map quotaKey quotas)"
  shows "q \<in> set quotas \<Longrightarrow> gm_lookup base (quotaKey q) = Some (q\<lparr>qBorrowing := None, qLending := None\<rparr>)"
    and "gm_lookup base key = Some q' \<Longrightarrow> \<exists>q \<in> set quotas. key = quotaKey q \<and> q' = q\<lparr>qBorrowing := None, qLending := None\<rparr>"
    and "gm_inv base"
proof -
  let ?put = "\<lambda>q. gm_set (quotaKey q) (q\<lparr>qBorrowing := None, qLending := None\<rparr>)"
  have f: "foldE rootQuota qs m = Inr b \<Longrightarrow> b = fold ?put qs m" for qs m b
    by (induction qs arbitrary: m) (auto simp: rootQuota_def bindE_Inr_iff split: if_splits)
  then have base: "base = fold ?put quotas []" using assms(1) by blast
  let ?ps = "map (\<lambda>q. (quotaKey q, q\<lparr>qBorrowing := None, qLending := None\<rparr>)) quotas"
  have b: "base = fold (\<lambda>(k, v). gm_set k v) ?ps []" by (simp add: base fold_map comp_def)
  have lk: "gm_lookup base k = map_of ?ps k" for k
    unfolding b by (rule assign_all_values) (simp_all add: assms(2))
  have d: "distinct (map fst ?ps)" using assms(2) by (simp add: comp_def)
  show "gm_lookup base (quotaKey q) = Some (q\<lparr>qBorrowing := None, qLending := None\<rparr>)" if "q \<in> set quotas"
    unfolding lk by (rule map_of_is_SomeI [OF d]) (use that in auto)
  show "\<exists>q \<in> set quotas. key = quotaKey q \<and> q' = q\<lparr>qBorrowing := None, qLending := None\<rparr>" if "gm_lookup base key = Some q'"
    using map_of_SomeD [of ?ps key q'] that unfolding lk by auto
  have "gm_inv m \<Longrightarrow> gm_inv (fold ?put qs m)" for qs m by (induction qs arbitrary: m) simp_all
  then show "gm_inv base" unfolding base using gm_inv_Nil by blast
qed

section \<open>Reservations\<close>

lemma clusterQueueReservations_inv:
  assumes "clusterQueueReservations K queue = Inr m"
  shows "gm_inv m"
proof -
  have r: "gm_inv v" if "gm_inv u" "readReservation K q f x u = Inr v" for q f x u v
    using that by (auto simp: readReservation_def Let_def bindE_Inr_iff split: option.splits)
  have f: "gm_inv v" if "gm_inv u" "readFlavorReservation K q x u = Inr v" for q x u v
    using that r by (auto simp: readFlavorReservation_def bindE_Inr_iff split: option.splits intro: foldE_invariant [where P = gm_inv])
  show ?thesis
    using assms f by (auto simp: clusterQueueReservations_def bindE_Inr_iff split: option.splits intro: foldE_invariant [where P = gm_inv])
qed

lemma appliedWorkspaceQueue_reservations_inv:
  assumes "appliedWorkspaceQueue K A w ws = Inr (cohort, guarantees, reservations, identity)"
  shows "gm_inv reservations"
proof -
  consider "reservations = []" | queue r managed where "clusterQueueReservations K queue = Inr r" "reservations = keepManaged managed r"
    using assms by (auto simp: appliedWorkspaceQueue_def Let_def bindE_Inr_iff split: sum.splits if_splits)
  then show ?thesis by cases (simp_all add: keepManaged_inv clusterQueueReservations_inv)
qed

text \<open>What the queue of a workspace reserves of a team's Cohort.\<close>

definition reservedOf ::
  "'q::linordered_ab_group_add kube \<Rightarrow> ('q, 'w) api \<Rightarrow> 'w \<Rightarrow> 'q tauTeam \<Rightarrow> string \<Rightarrow> 'q tauWorkspace \<Rightarrow> 'q" where
  "reservedOf K A w team key ws =
     (case appliedWorkspaceQueue K A w ws of
        Inl _ \<Rightarrow> 0
      | Inr (cohort, _, reservations, _) \<Rightarrow> if cohort = teamCohortName K (tmName team) then gm_get 0 reservations key else 0)"

lemma reservedLoop:
  assumes "foldE (\<lambda>workspace reserved.
               bindE (appliedWorkspaceQueue K A w workspace) (\<lambda>(cohort, _, reservations, _).
                 Inr (if cohort \<noteq> teamCohortName K (tmName team) then reserved else addQuantities reservations reserved)))
               wss m = Inr reserved"
  shows "gm_get 0 reserved key = gm_get 0 m key + (\<Sum>ws \<leftarrow> wss. reservedOf K A w team key ws)"
    and "gm_inv m \<Longrightarrow> gm_inv reserved"
  using assms
proof (induction wss arbitrary: m)
  case Nil
  { case 1 then show ?case by simp }
  { case 2 then show ?case by simp }
next
  case (Cons ws wss)
  let ?next = "\<lambda>m cohort r. if cohort \<noteq> teamCohortName K (tmName team) then m else addQuantities r m"
  {
    case (1 m)
    then obtain cohort g r i where a: "appliedWorkspaceQueue K A w ws = Inr (cohort, g, r, i)"
      by (auto simp: bindE_Inr_iff)
    have inv: "gm_inv r" by (rule appliedWorkspaceQueue_reservations_inv [OF a])
    have "gm_get 0 reserved key = gm_get 0 (?next m cohort r) key + (\<Sum>ws \<leftarrow> wss. reservedOf K A w team key ws)"
      by (rule Cons.IH(1)) (use 1 a in simp)
    moreover have "gm_get 0 (?next m cohort r) key = gm_get 0 m key + reservedOf K A w team key ws"
      by (simp add: reservedOf_def a addQuantities_get [OF inv])
    ultimately show ?case by (simp add: add_ac)
  }
  {
    case (2 m)
    then obtain cohort g r i where a: "appliedWorkspaceQueue K A w ws = Inr (cohort, g, r, i)"
      by (auto simp: bindE_Inr_iff)
    have "gm_inv (addQuantities r m)" unfolding addQuantities_def
      by (rule fold_invariant [where Q = "\<lambda>_. True" and P = gm_inv]) (use 2(1) in auto)
    then have "gm_inv (?next m cohort r)" using 2(1) by simp
    then show ?case by (rule Cons.IH(2)) (use 2(2) a in simp)
  }
qed

lemma allocations_nonneg:
  fixes quotas :: "'q::linordered_ab_group_add tauResourceQuota list"
  assumes "\<forall>q \<in> set quotas. 0 \<le> qNominal q"
  shows "0 \<le> gm_get 0 (allocations quotas) key"
proof -
  have "0 \<le> gm_get 0 (fold (\<lambda>quota. gm_set (quotaKey quota) (qNominal quota)) quotas m) key" if "0 \<le> gm_get 0 m key" for m
    using assms that by (induction quotas arbitrary: m) simp_all
  from this [of "[]"] show ?thesis by (simp add: allocations_def)
qed

lemma reservations_fit:
  assumes "validateTeamReservationsWithAdditional K A w team additional = Inr ()"
    and "aWorkspaces A w (tmNamespace team) = Inr workspaces" and "gm_inv additional"
    and "\<forall>q \<in> set (tmQuota team). 0 \<le> qNominal q"
  shows "gm_get 0 additional key + (\<Sum>ws \<leftarrow> workspaces. reservedOf K A w team key ws) \<le> gm_get 0 (allocations (tmQuota team)) key"
proof -
  let ?limit = "gm_get 0 (allocations (tmQuota team))"
  obtain reserved where r: "foldE (\<lambda>workspace reserved.
               bindE (appliedWorkspaceQueue K A w workspace) (\<lambda>(cohort, _, reservations, _).
                 Inr (if cohort \<noteq> teamCohortName K (tmName team) then reserved else addQuantities reservations reserved)))
               workspaces additional = Inr reserved"
    and c: "foldE (\<lambda>(key, total) u. let limit = ?limit key in
        if total > limit
        then let (resourceName, flavor, _) = cut key (CHR 0x00) in
             Inl (Errorf ''refusing to reduce team %q flavor %q resource %q below active reservations %s (requested allocation %s)''
                    [tmName team, flavor, resourceName, kQuantityString K total, kQuantityString K limit])
        else Inr u) reserved () = Inr ()"
    using assms(1,2) by (auto simp: validateTeamReservationsWithAdditional_def Let_def bindE_Inr_iff)
  have all: "total \<le> ?limit key" if "(key, total) \<in> set reserved" for key total
    using guardLoop [OF c, where P = "\<lambda>(key, total). total > ?limit key"] that
    by (auto simp: Let_def case_prod_unfold)
  have "gm_get 0 reserved key \<le> ?limit key"
  proof (cases "gm_lookup reserved key")
    case None
    then show ?thesis using allocations_nonneg [OF assms(4)] by (simp add: gm_get_def)
  next
    case (Some total)
    then show ?thesis using all [OF gm_lookup_mem [OF Some]] by (simp add: gm_get_def)
  qed
  then show ?thesis using reservedLoop(1) [OF r] by simp
qed

section \<open>Comparing allocations\<close>

lemma takeAllocation_None: "fold takeAllocation quotas None = None"
  by (induction quotas) (simp_all add: takeAllocation_def)

lemma takeAllocations:
  assumes "fold takeAllocation quotas (Some m) = Some m'"
  shows "distinct (map quotaKey quotas) \<and> (\<forall>q \<in> set quotas. gm_lookup m (quotaKey q) = Some (qNominal q)) \<and>
    (\<forall>key. key \<notin> quotaKey ` set quotas \<longrightarrow> gm_lookup m' key = gm_lookup m key)"
  using assms
proof (induction quotas arbitrary: m)
  case (Cons q quotas)
  have step: "takeAllocation q (Some m) =
      (if gm_lookup m (quotaKey q) = Some (qNominal q) then Some (gm_delete (quotaKey q) m) else None)"
    by (cases "gm_lookup m (quotaKey q)") (auto simp: takeAllocation_def)
  have q: "gm_lookup m (quotaKey q) = Some (qNominal q)"
    using Cons.prems step takeAllocation_None [of quotas] by (cases "gm_lookup m (quotaKey q) = Some (qNominal q)") simp_all
  have rest: "fold takeAllocation quotas (Some (gm_delete (quotaKey q) m)) = Some m'" using Cons.prems step q by simp
  note ih = Cons.IH [OF rest]
  have "quotaKey q \<notin> quotaKey ` set quotas"
  proof
    assume "quotaKey q \<in> quotaKey ` set quotas"
    then obtain q' where "q' \<in> set quotas" "quotaKey q' = quotaKey q" by force
    then show False using ih by fastforce
  qed
  then show ?case using ih q by (auto split: if_splits)
qed simp

lemma quotaAllocationsEqualD:
  assumes "quotaAllocationsEqual first other"
  shows "gm_lookup (allocations first) key = gm_lookup (allocations other) key"
proof -
  have t: "fold takeAllocation other (Some (allocations first)) = Some []"
    using assms by (auto simp: quotaAllocationsEqual_def split: if_splits option.splits)
  note spec = takeAllocations [OF t]
  have o: "gm_lookup (allocations other) key = map_of (map (\<lambda>q. (quotaKey q, qNominal q)) other) key"
    by (rule allocations_lookup) (use spec in blast)
  show ?thesis
  proof (cases "key \<in> quotaKey ` set other")
    case True
    then obtain q where q: "q \<in> set other" "key = quotaKey q" by blast
    have "map_of (map (\<lambda>q. (quotaKey q, qNominal q)) other) key = Some (qNominal q)"
      by (rule map_of_is_SomeI) (use spec q in \<open>auto simp: comp_def\<close>)
    then show ?thesis using spec q o by simp
  next
    case False
    then have "map_of (map (\<lambda>q. (quotaKey q, qNominal q)) other) key = None" by (auto simp: map_of_eq_None_iff)
    then show ?thesis using spec False o by simp
  qed
qed

lemma sharedQuota_ledger:
  assumes "sharedTeamQuotaForWorkspace K A w team proposed = Inr shared"
    and "aWorkspaces A w (tmNamespace team) = Inr workspaces"
    and "distinct (map quotaKey (tmQuota team))" and "\<forall>q \<in> set (tmQuota team). 0 \<le> qNominal q"
  obtains base acc events where "foldE rootQuota (tmQuota team) [] = Inr base"
    "foldE (subtractWorkspaceGuarantee K A w team) (accountedWorkspaces workspaces proposed) (base, []) = Inr acc"
    "shared = map snd (fst acc)"
    "list_all2 (\<lambda>ws e. effectiveGuarantee K A w team ws = Inr (snd e, fst e)) (accountedWorkspaces workspaces proposed) events"
    "\<forall>q key. gm_lookup (fst acc) key = Some q \<longrightarrow> 0 \<le> qNominal q"
    "\<forall>q \<in> set (tmQuota team). gm_lookup (fst acc) (quotaKey q) =
       Some (q\<lparr>qBorrowing := None, qLending := None, qNominal := qNominal q - totalCharge events (quotaKey q)\<rparr>)"
proof -
  obtain base acc where b: "foldE rootQuota (tmQuota team) [] = Inr base"
    and acc: "foldE (subtractWorkspaceGuarantee K A w team) (accountedWorkspaces workspaces proposed) (base, []) = Inr acc"
    and shared: "shared = map snd (fst acc)"
    using assms(1,2) by (auto simp: sharedTeamQuotaForWorkspace_def bindE_Inr_iff)
  note root = rootQuotas [OF b assms(3)]
  have "\<forall>q key. gm_lookup (fst (base, [])) key = Some q \<longrightarrow> 0 \<le> qNominal q"
  proof (intro allI impI)
    fix q key assume "gm_lookup (fst (base, [])) key = Some q"
    then obtain q0 where "q0 \<in> set (tmQuota team)" "q = q0\<lparr>qBorrowing := None, qLending := None\<rparr>" using root(2) by fastforce
    then show "0 \<le> qNominal q" using assms(4) by simp
  qed
  from subtractAll_ledger [OF ledger_start acc this] obtain events where
    ev: "list_all2 (\<lambda>ws e. effectiveGuarantee K A w team ws = Inr (snd e, fst e)) (accountedWorkspaces workspaces proposed) events"
      "ledger base events acc" "\<forall>q key. gm_lookup (fst acc) key = Some q \<longrightarrow> 0 \<le> qNominal q"
    by auto
  have "\<forall>q \<in> set (tmQuota team). gm_lookup (fst acc) (quotaKey q) =
       Some (q\<lparr>qBorrowing := None, qLending := None, qNominal := qNominal q - totalCharge events (quotaKey q)\<rparr>)"
    using ev(2) root(1) by (simp add: ledger_def)
  with b acc shared ev(1,3) show thesis by (rule that)
qed

text \<open>An accounting that succeeds shows that the guarantees fit into the team's quota.\<close>

lemma guarantees_within_quota:
  assumes "sharedTeamQuotaForWorkspace K A w team proposed = Inr shared"
    and "aWorkspaces A w (tmNamespace team) = Inr workspaces"
    and "distinct (map quotaKey (tmQuota team))" and "\<forall>q \<in> set (tmQuota team). 0 \<le> qNominal q"
  shows "\<exists>events. list_all2 (\<lambda>ws e. effectiveGuarantee K A w team ws = Inr (snd e, fst e)) (accountedWorkspaces workspaces proposed) events \<and>
    (\<forall>q \<in> set (tmQuota team). totalCharge events (quotaKey q) \<le> qNominal q)"
  by (rule sharedQuota_ledger [OF assms]) fastforce

text \<open>
  C9. The shared quota of a team is exact: for every quota of the team it holds what the
  team owns less what its workspaces are charged, where the workspaces of one queue are
  charged their greatest guarantee once, and it is never negative.\<close>

theorem shared_quota_exact:
  assumes "sharedTeamQuotaForWorkspace K A w team proposed = Inr shared"
    and "aWorkspaces A w (tmNamespace team) = Inr workspaces"
    and "distinct (map quotaKey (tmQuota team))" and "\<forall>q \<in> set (tmQuota team). 0 \<le> qNominal q"
  shows "\<exists>events. list_all2 (\<lambda>ws e. effectiveGuarantee K A w team ws = Inr (snd e, fst e)) (accountedWorkspaces workspaces proposed) events \<and>
    (\<forall>q \<in> set (tmQuota team). \<exists>s \<in> set shared. qFlavor s = qFlavor q \<and> qResource s = qResource q \<and>
       qNominal s = qNominal q - totalCharge events (quotaKey q)) \<and>
    (\<forall>s \<in> set shared. 0 \<le> qNominal s)"
proof -
  from assms obtain base acc events where b: "foldE rootQuota (tmQuota team) [] = Inr base"
    and acc: "foldE (subtractWorkspaceGuarantee K A w team) (accountedWorkspaces workspaces proposed) (base, []) = Inr acc"
    and shared: "shared = map snd (fst acc)"
    and ev: "list_all2 (\<lambda>ws e. effectiveGuarantee K A w team ws = Inr (snd e, fst e)) (accountedWorkspaces workspaces proposed) events"
      "\<forall>q key. gm_lookup (fst acc) key = Some q \<longrightarrow> 0 \<le> qNominal q"
    and left: "\<forall>q \<in> set (tmQuota team). gm_lookup (fst acc) (quotaKey q) =
       Some (q\<lparr>qBorrowing := None, qLending := None, qNominal := qNominal q - totalCharge events (quotaKey q)\<rparr>)"
    by (rule sharedQuota_ledger)
  note root = rootQuotas [OF b assms(3)]
  have "\<exists>s \<in> set shared. qFlavor s = qFlavor q \<and> qResource s = qResource q \<and> qNominal s = qNominal q - totalCharge events (quotaKey q)"
    if q: "q \<in> set (tmQuota team)" for q
  proof -
    let ?s = "q\<lparr>qBorrowing := None, qLending := None, qNominal := qNominal q - totalCharge events (quotaKey q)\<rparr>"
    have "gm_lookup (fst acc) (quotaKey q) = Some ?s" using left q by blast
    then have "(quotaKey q, ?s) \<in> set (fst acc)" by (rule gm_lookup_mem)
    then have "?s \<in> set shared" unfolding shared by force
    then show ?thesis by (intro bexI [of _ ?s]) simp_all
  qed
  moreover have "\<forall>s \<in> set shared. 0 \<le> qNominal s"
  proof -
    have "gm_inv (fst acc)"
    proof -
      have c: "gm_inv v" if "gm_inv u" "chargeKey n x u = Inr v" for n x u v
        using that by (auto simp: chargeKey_def Let_def case_prod_unfold split: option.splits if_splits)
      have s: "gm_inv (fst v)" if u: "gm_inv (fst u)" and v: "subtractWorkspaceGuarantee K A w team x u = Inr v" for x u v
      proof -
        obtain n es where "foldE (chargeKey n) es (fst u) = Inr (fst v)"
          using v by (auto simp: subtractWorkspaceGuarantee_def bindE_Inr_iff Let_def)
        then show ?thesis by (rule foldE_invariant [where P = gm_inv]) (use u c in blast)+
      qed
      from foldE_invariant [OF acc, where P = "\<lambda>u. gm_inv (fst u)"] show ?thesis using root(3) s by auto
    qed
    then show ?thesis using ev(2) gm_lookup_in unfolding shared by fastforce
  qed
  ultimately show ?thesis using ev(1) by blast
qed

definition exampleTeam :: "int tauTeam" where
  "exampleTeam = \<lparr>tmName = ''vision'', tmNamespace = ''tau-system'', tmUID = ''t1'', tmGeneration = 1, tmDeletionTimestamp = None,
     tmFinalizers = [teamFinalizer],
     tmQuota = [\<lparr>qFlavor = ''h200'', qResource = ''gpu'', qNominal = 16, qBorrowing = None, qLending = None\<rparr>],
     tmStatus = \<lparr>tstPhase = [], tstObservedGeneration = 0, tstCohort = [], tstCohortUID = [], tstConditions = []\<rparr>\<rparr>"

definition exampleShared :: "int tauResourceQuota list" where
  "exampleShared = [\<lparr>qFlavor = ''h200'', qResource = ''gpu'', qNominal = 8, qBorrowing = None, qLending = None\<rparr>]"

definition teamStore :: "int store" where
  "teamStore = exampleStore\<lparr>stTeams := [exampleTeam], stWorkspaces := [exampleWorkspace\<lparr>wsQueue := ''none''\<rparr>]\<rparr>"

lemma teamStore_workspaces: "aWorkspaces storeApi teamStore (tmNamespace exampleTeam) = Inr [exampleWorkspace\<lparr>wsQueue := ''none''\<rparr>]"
  by (simp add: store_defs teamStore_def exampleTeam_def exampleWorkspace_def zeroWorkspace_def)

theorem shared_quota_exact_witness:
  "sharedTeamQuotaForWorkspace refKube storeApi teamStore exampleTeam None = Inr exampleShared \<and>
   (\<exists>events :: int guaranteeEvent list. length events = 1 \<and> totalCharge events (''gpu'' @ nul @ ''h200'') = 8)"
proof -
  have run: "sharedTeamQuotaForWorkspace refKube storeApi teamStore exampleTeam None = Inr exampleShared" by code_simp
  have "distinct (map quotaKey (tmQuota exampleTeam))" "\<forall>q \<in> set (tmQuota exampleTeam). 0 \<le> qNominal q"
    by (simp_all add: exampleTeam_def)
  from shared_quota_exact [OF run teamStore_workspaces this] obtain events where
    "list_all2 (\<lambda>ws e. effectiveGuarantee refKube storeApi teamStore exampleTeam ws = Inr (snd e, fst e))
       (accountedWorkspaces [exampleWorkspace\<lparr>wsQueue := ''none''\<rparr>] None) events"
    "\<exists>s \<in> set exampleShared. qNominal s = 16 - totalCharge events (''gpu'' @ nul @ ''h200'')"
    by (auto simp: exampleTeam_def quotaKey_def)
  then have "length events = 1" "totalCharge events (''gpu'' @ nul @ ''h200'') = 8"
    by (auto simp: accountedWorkspaces_def exampleShared_def dest: list_all2_lengthD)
  with run show ?thesis by blast
qed

text \<open>
  C26. A team's Cohort is written only from an up-to-date accounting and only while the
  reservations of all workspaces in it fit into the team's quota; a foreign Cohort is never
  touched.\<close>

theorem cohort_write_accounted:
  assumes "kube_laws K" and "reconcileTeamCohort K A team shared w = (err, w')" and "w' \<noteq> w"
    and "aWorkspaces A w (tmNamespace team) = Inr workspaces" and "\<forall>q \<in> set (tmQuota team). 0 \<le> qNominal q"
  shows "(\<exists>current. sharedTeamQuota K A w team = Inr current \<and>
            (\<forall>key. gm_lookup (allocations current) key = gm_lookup (allocations shared) key)) \<and>
    (\<forall>key. (\<Sum>ws \<leftarrow> workspaces. reservedOf K A w team key ws) \<le> gm_get 0 (allocations (tmQuota team)) key) \<and>
    (\<forall>existing. getCohort A w (teamCohortName K (tmName team)) = Inr existing \<longrightarrow>
       ownedObject existing (desiredTeamCohort K team shared) labelTeam (tmName team))"
proof -
  let ?desired = "desiredTeamCohort K team shared"
  obtain current where c: "sharedTeamQuota K A w team = Inr current" "quotaAllocationsEqual current shared"
    and v: "validateTeamReservations K A w team = Inr ()"
    and run: "reconcileManagedUnstructuredWithReader K A ?desired labelTeam (tmName team) w = (err, w')"
    using assms(2,3) by (auto simp: reconcileTeamCohort_def bindE_Inr_iff split: sum.splits if_splits)
  have key: "aGet A w (oKind ?desired) (oNamespace ?desired) (oName ?desired) = getCohort A w (teamCohortName K (tmName team))"
    by (simp add: getCohort_def desiredTeamCohort_def setOwnerUIDAnnotation_def)
  have "ownedObject existing ?desired labelTeam (tmName team)" if e: "getCohort A w (teamCohortName K (tmName team)) = Inr existing" for existing
  proof (rule ccontr)
    assume "\<not> ownedObject existing ?desired labelTeam (tmName team)"
    then obtain er where "ownershipConflict existing ?desired labelTeam (tmName team) = Some er"
      using ownershipConflict_None by fastforce
    then have "reconcileManagedUnstructuredWithReader K A ?desired labelTeam (tmName team) w = (Some er, w)"
      by (simp add: reconcileManagedUnstructuredWithReader_def key e managedUpdate_def)
    then show False using run assms(3) by simp
  qed
  moreover have "(\<Sum>ws \<leftarrow> workspaces. reservedOf K A w team key ws) \<le> gm_get 0 (allocations (tmQuota team)) key" for key
    using reservations_fit [OF v [unfolded validateTeamReservations_def] assms(4) _ assms(5)] by simp
  ultimately show ?thesis using c quotaAllocationsEqualD by blast
qed

theorem cohort_write_accounted_witness:
  "reconcileTeamCohort refKube storeApi exampleTeam exampleShared teamStore =
     (None, teamStore\<lparr>stObjects := [desiredTeamCohort refKube exampleTeam exampleShared]\<rparr>) \<and>
   (\<Sum>ws \<leftarrow> [exampleWorkspace\<lparr>wsQueue := ''none''\<rparr>]. reservedOf refKube storeApi teamStore exampleTeam (''gpu'' @ nul @ ''h200'') ws) \<le> 16"
proof -
  have run: "reconcileTeamCohort refKube storeApi exampleTeam exampleShared teamStore =
      (None, teamStore\<lparr>stObjects := [desiredTeamCohort refKube exampleTeam exampleShared]\<rparr>)" by code_simp
  have ne: "teamStore\<lparr>stObjects := [desiredTeamCohort refKube exampleTeam exampleShared]\<rparr> \<noteq> teamStore"
    by (simp add: teamStore_def exampleStore_def)
  have "\<forall>q \<in> set (tmQuota exampleTeam). 0 \<le> qNominal q" by (simp add: exampleTeam_def)
  moreover have "gm_get 0 (allocations (tmQuota exampleTeam)) (''gpu'' @ nul @ ''h200'') = 16" by code_simp
  ultimately show ?thesis
    using run cohort_write_accounted [OF refKube_laws run ne teamStore_workspaces] by metis
qed

end
