(* ===== verification/Capacity_Pool.thy ===== *)
theory Capacity_Pool
  imports Team_Quota
begin

text \<open>
  Discovered capacity (\<open>capacity_pool.go\<close>): the inventory of GPU flavors and quantities of
  the cluster's nodes, the exclusive pool of one team, its checks against every other budget
  of the cluster, and the ClusterQueues of its workspaces. \<open>recoverDeletingWorkspaceHold\<close>
  and \<open>sharedTeamSpare\<close> are of \<open>shared_team_pool.go\<close>, the discovered flavors of
  \<open>cluster_flavors.go\<close>.
\<close>

section \<open>Operations\<close>

definition labelGPUClass :: string where "labelGPUClass = ''tau.azure.com/gpu-class''"
definition labelDiscoverGPUFlavors :: string where "labelDiscoverGPUFlavors = ''tau.azure.com/discover-gpu-flavors''"
definition labelSharedTeamQuotas :: string where "labelSharedTeamQuotas = ''tau.azure.com/shared-team-quotas''"
definition annotationCapacityPool :: string where "annotationCapacityPool = ''tau.azure.com/discovered-capacity-pool''"
definition annotationSharedQuotaHold :: string where "annotationSharedQuotaHold = ''tau.azure.com/shared-quota-hold''"
definition labelOSStable :: string where "labelOSStable = ''kubernetes.io/os''"
definition sharedTeamCohortName :: string where "sharedTeamCohortName = ''tau-shared-teams''"
definition clusterManagementModeReconcile :: string where "clusterManagementModeReconcile = ''Reconcile''"

record 'q discoveredGPUFlavor =
  dfName :: string
  dfClass :: string
  dfCapacity :: 'q
  dfHostSlots :: 'q
  dfNodeLabels :: "(string, string) gomap"

record 'q capacityPoolInventory =
  cpNodes :: "'q knode list"
  cpFlavors :: "'q discoveredGPUFlavor list"
  cpQuotas :: "'q tauResourceQuota list"

text \<open>A dereference of a nil pointer, as the error the handler ends with.\<close>

definition nilDereference :: kerr where
  "nilDereference = Errorf ''invalid memory address or nil pointer dereference'' []"

definition selectedCapacityTeam :: "('q, 'w) api \<Rightarrow> 'w \<Rightarrow> string \<Rightarrow> ('q tauCluster option \<times> bool) res" where
  "selectedCapacityTeam A w name =
     (case aCluster A w of
        Inl err \<Rightarrow> if isNotFound err then Inr (None, False) else Inl err
      | Inr cluster \<Rightarrow> Inr (Some cluster, clShareTeamQuotas cluster \<or> clCapacityTeamRef cluster = Some name))"

subsection \<open>Discovered flavors\<close>

definition discoveredGPUFlavorName :: "'q kube \<Rightarrow> string \<Rightarrow> string" where
  "discoveredGPUFlavorName K gpuClass = networkDomainLabel K ''taugrid-gpu'' gpuClass"

definition desiredDiscoveredGPUFlavor :: "'q discoveredGPUFlavor \<Rightarrow> kobj" where
  "desiredDiscoveredGPUFlavor flavor =
     \<lparr>oKind = resourceFlavorKind, oName = dfName flavor, oNamespace = [], oUID = [],
      oLabels = [(labelManagedBy, labelManagedByValue), (labelGPUClass, dfClass flavor)], oAnnotations = [],
      oObject = [(''spec'', JMap
        [(''nodeLabels'', JMap (fold (\<lambda>(key, value). gm_set key (JString value)) (dfNodeLabels flavor)
            [(''kubernetes.io/os'', JString ''linux''), (labelGPUClass, JString (dfClass flavor))])),
         (''nodeTaints'', JList [JMap [(''key'', JString ''sku''), (''value'', JString ''gpu''), (''effect'', JString ''NoSchedule'')]]),
         (''topologyName'', JString ''taugrid-gpu-topology'')])]\<rparr>"

definition specMap :: "'q kube \<Rightarrow> kobj \<Rightarrow> jobject option" where
  "specMap K object = (case kNestedMap K (oObject object) [''spec''] of Inl _ \<Rightarrow> None | Inr m \<Rightarrow> m)"

definition validateDiscoveredGPUFlavor :: "'q kube \<Rightarrow> kobj \<Rightarrow> 'q discoveredGPUFlavor \<Rightarrow> unit res" where
  "validateDiscoveredGPUFlavor K current flavor =
     (if gm_get [] (oLabels current) labelManagedBy \<noteq> labelManagedByValue
      then Inl (Errorf ''ResourceFlavor %q exists but is not owned by %s'' [dfName flavor, labelManagedByValue])
      else if \<not> specsEqual (specMap K current) (specMap K (desiredDiscoveredGPUFlavor flavor))
      then Inl (Errorf ''ResourceFlavor %q has immutable drift from discovered GPU class %q'' [dfName flavor, dfClass flavor])
      else Inr ())"

subsection \<open>The inventory\<close>

fun readyStatus :: "(string \<times> string) list \<Rightarrow> bool" where
  "readyStatus [] = False"
| "readyStatus ((conditionType, status) # cs) = (if conditionType = ''Ready'' then status = ''True'' else readyStatus cs)"

definition capacityNodeEligible :: "'q knode \<Rightarrow> bool" where
  "capacityNodeEligible node = (if ndUnschedulable node \<or> ndDeleting node then False else readyStatus (ndConditions node))"

definition nodeClass :: "'q knode \<Rightarrow> string" where
  "nodeClass node = gm_get [] (ndLabels node) labelGPUClass"

definition linuxNode :: "'q knode \<Rightarrow> bool" where
  "linuxNode node \<longleftrightarrow> gm_get [] (ndLabels node) labelOSStable = ''linux''"

definition nodeGPUs :: "'q::zero knode \<Rightarrow> 'q" where
  "nodeGPUs node = gm_get 0 (ndAllocatable node) nvidiaGPUResourceName"

definition addAllocatable ::
  "string \<Rightarrow> string \<Rightarrow> string \<times> 'q::linordered_ab_group_add \<Rightarrow> (string, (string, 'q) gomap) gomap \<Rightarrow>
     ((string, (string, 'q) gomap) gomap) res" where
  "addAllocatable nodeName name entry byFlavor =
     (if snd entry < 0 then Inl (Errorf ''node %q has negative allocatable %s'' [nodeName, fst entry])
      else let resources = gm_get [] byFlavor name
           in Inr (gm_set name (gm_set (fst entry) (gm_get 0 resources (fst entry) + snd entry) resources) byFlavor))"

definition nodeStep ::
  "'q::linordered_ab_group_add kube \<Rightarrow> bool \<Rightarrow> 'q knode \<Rightarrow> (string, (string, 'q) gomap) gomap \<times> (string, string) gomap \<Rightarrow>
     ((string, (string, 'q) gomap) gomap \<times> (string, string) gomap) res" where
  "nodeStep K shareTeamQuotas node acc =
     (let class = nodeClass node; name = discoveredGPUFlavorName K class; previous = gm_lookup (snd acc) name in
      if shareTeamQuotas \<and> linuxNode node \<and> nodeGPUs node > 0 \<and> class = [] \<and> capacityNodeEligible node
      then Inl (Errorf ''eligible GPU node %q has no GPU class; classify it before enabling shared team quotas'' [ndName node])
      else if \<not> linuxNode node \<or> class = [] \<or> nodeGPUs node \<le> 0 then Inr acc
      else if previous \<noteq> None \<and> previous \<noteq> Some class
      then Inl (Errorf ''GPU classes %q and %q resolve to the same flavor %q'' [gm_get [] (snd acc) name, class, name])
      else let classes = gm_set name class (snd acc);
               byFlavor = (if gm_lookup (fst acc) name = None then gm_set name [] (fst acc) else fst acc)
           in if \<not> capacityNodeEligible node then Inr (byFlavor, classes)
              else bindE (foldE (addAllocatable (ndName node) name) (ndAllocatable node) byFlavor)
                     (\<lambda>totals. Inr (totals, classes)))"

definition retainKey :: "string \<times> 'q::zero \<Rightarrow> (string, (string, 'q) gomap) gomap \<Rightarrow> (string, (string, 'q) gomap) gomap" where
  "retainKey entry byFlavor =
     (let (resourceName, flavor, _) = cut (fst entry) (CHR 0x00);
          resources = gm_get [] byFlavor flavor
      in gm_set flavor (if gm_lookup resources resourceName = None then gm_set resourceName 0 resources else resources) byFlavor)"

definition sharedTeamSpare :: "'q::linordered_ab_group_add kube \<Rightarrow> kobj \<Rightarrow> ((string, 'q) gomap) res" where
  "sharedTeamSpare K rootCohort =
     bindE (kNestedField K (oObject rootCohort) [''spec'', ''resourceGroups''])
       (\<lambda>found. if found = None then Inr [] else clusterQueueNominalQuota K rootCohort)"

text \<open>The keys of the previous Cohort: a flavor without nodes keeps its keys, at zero.\<close>

definition previousNominals ::
  "'q::linordered_ab_group_add kube \<Rightarrow> ('q, 'w) api \<Rightarrow> 'w \<Rightarrow> 'q tauCluster \<Rightarrow> ((string, 'q) gomap) res" where
  "previousNominals K A w cluster =
     bindE (if clShareTeamQuotas cluster then Inr sharedTeamCohortName
            else case clCapacityTeamRef cluster of None \<Rightarrow> Inl nilDereference | Some team \<Rightarrow> Inr (teamCohortName K team))
       (\<lambda>cohortName.
          case getCohort A w cohortName of
            Inr cohort \<Rightarrow> if clShareTeamQuotas cluster then sharedTeamSpare K cohort else clusterQueueNominalQuota K cohort
          | Inl err \<Rightarrow> if isNotFound err then Inr [] else Inl err)"

definition poolResources :: "(string, (string, 'q) gomap) gomap \<Rightarrow> string list" where
  "poolResources byFlavor = sort (fold (\<lambda>(_, resources). fold (\<lambda>(name, _). gs_add name) resources) byFlavor [nvidiaGPUResourceName])"

definition poolQuotasOf :: "(string, (string, 'q::zero) gomap) gomap \<Rightarrow> 'q tauResourceQuota list" where
  "poolQuotasOf byFlavor =
     concat (map (\<lambda>name. map (\<lambda>resourceName.
         \<lparr>qFlavor = name, qResource = resourceName, qNominal = gm_get 0 (gm_get [] byFlavor name) resourceName,
          qBorrowing = None, qLending = None\<rparr>) (poolResources byFlavor))
       (sort (gm_keys byFlavor)))"

definition poolFlavorsOf ::
  "(string, string) gomap \<Rightarrow> (string, string) gomap \<Rightarrow> string list \<Rightarrow> 'q::zero discoveredGPUFlavor list" where
  "poolFlavorsOf selector classes names =
     concat (map (\<lambda>name. case gm_lookup classes name of
         None \<Rightarrow> []
       | Some class \<Rightarrow> [\<lparr>dfName = name, dfClass = class, dfCapacity = 0, dfHostSlots = 0, dfNodeLabels = selector\<rparr>]) names)"

definition discoveredPoolInventory ::
  "'q::linordered_ab_group_add kube \<Rightarrow> ('q, 'w) api \<Rightarrow> 'w \<Rightarrow> 'q tauCluster \<Rightarrow> 'q capacityPoolInventory res" where
  "discoveredPoolInventory K A w cluster =
     bindE (mapErr (Wrapped ''list capacity pool nodes'' []) (aNodes A w (clNodeSelector cluster))) (\<lambda>nodes.
     bindE (foldE (nodeStep K (clShareTeamQuotas cluster)) nodes ([], [])) (\<lambda>acc.
     bindE (previousNominals K A w cluster) (\<lambda>previous.
       let byFlavor = fold retainKey previous (fst acc)
       in Inr \<lparr>cpNodes = nodes,
               cpFlavors = poolFlavorsOf (clNodeSelector cluster) (snd acc) (sort (gm_keys byFlavor)),
               cpQuotas = poolQuotasOf byFlavor\<rparr>)))"

subsection \<open>Workspaces and Cohort of the exclusive pool\<close>

definition capacityPoolWorkspaces ::
  "'q kube \<Rightarrow> ('q, 'w) api \<Rightarrow> 'w \<Rightarrow> 'q tauTeam \<Rightarrow> ((string, 'q tauWorkspace) gomap) res" where
  "capacityPoolWorkspaces K A w team =
     bindE (aWorkspaces A w (tmNamespace team)) (\<lambda>workspaces.
       foldE (\<lambda>workspace selected.
         if wsTeamRef workspace \<noteq> Some (tmName team) then Inr selected
         else if length (wsQuota workspace) \<noteq> 0
         then Inl (Errorf ''capacity pool workspace %q must omit spec.quota'' [wsName workspace])
         else Inr (gm_set (workspaceClusterQueueName K (wsName workspace)) workspace selected)) workspaces [])"

definition desiredCapacityCohort :: "'q kube \<Rightarrow> 'q tauTeam \<Rightarrow> 'q tauResourceQuota list \<Rightarrow> kobj" where
  "desiredCapacityCohort K team quotas =
     (let cohort = desiredTeamCohort K team quotas
      in cohort\<lparr>oAnnotations := gm_set annotationCapacityPool ''true'' (oAnnotations cohort)\<rparr>)"

definition validateRetainedCapacityPools ::
  "'q::linordered_ab_group_add kube \<Rightarrow> ('q, 'w) api \<Rightarrow> 'w \<Rightarrow> string \<Rightarrow> unit res" where
  "validateRetainedCapacityPools K A w exceptTeam =
     bindE (aList A w cohortKind) (\<lambda>cohorts.
       foldE (\<lambda>cohort u.
         if gm_get [] (oLabels cohort) labelSharedTeamQuotas \<noteq> []
         then Inl (Errorf ''Cohort %q retains shared team quotas; drain and remove its hierarchy before changing capacity modes'' [oName cohort])
         else if gm_get [] (oAnnotations cohort) annotationCapacityPool \<noteq> ''true'' \<or>
                 (exceptTeam \<noteq> [] \<and> gm_get [] (oLabels cohort) labelTeam = exceptTeam)
         then Inr u
         else bindE (clusterQueueNominalQuota K cohort) (\<lambda>quotas.
                if list_ex (\<lambda>(_, quota). quota > 0) quotas
                then Inl (Errorf ''Cohort %q retains a discovered capacity pool; drain and reconcile its owner before reallocating capacity'' [oName cohort])
                else Inr u)) cohorts ())"

text \<open>An assignment to a key of \<open>spec\<close> through the map itself.\<close>

definition assignSpec :: "string \<Rightarrow> json \<Rightarrow> kobj \<Rightarrow> kobj res" where
  "assignSpec key value object =
     (case gm_lookup (oObject object) ''spec'' of
        Some (JMap spec) \<Rightarrow> Inr (object\<lparr>oObject := gm_set ''spec'' (JMap (gm_set key value spec)) (oObject object)\<rparr>)
      | _ \<Rightarrow> Inl (Errorf ''interface conversion: spec is not a map'' []))"

subsection \<open>The queue of a workspace in a pool\<close>

definition recoverDeletingWorkspaceHold :: "'q kube \<Rightarrow> ('q, 'w) api \<Rightarrow> 'q tauWorkspace \<Rightarrow> 'w \<Rightarrow> kerr option \<times> 'w" where
  "recoverDeletingWorkspaceHold K A workspace w =
     (case getQueue A w (workspaceClusterQueueName K (wsName workspace)) of
        Inl err \<Rightarrow> (ignoreNotFound err, w)
      | Inr queue \<Rightarrow>
          withRes (authoritativeWorkspaceClusterQueue queue workspace) w (\<lambda>owned.
          if \<not> owned then (None, w)
          else if wsStatusClusterQueue workspace = oName queue \<and> wsStatusClusterQueueUID workspace \<noteq> [] \<and>
                  wsStatusClusterQueueUID workspace \<noteq> oUID queue
          then (Some (Errorf ''ClusterQueue %q changed UID before deleting Workspace Hold recovery'' [oName queue]), w)
          else if gm_get [] (oAnnotations queue) annotationSharedQuotaHold \<noteq> ''true'' then (None, w)
          else withRes (nestedStringOrEmpty K (oObject queue) [''spec'', ''stopPolicy'']) w (\<lambda>policy.
               let object = (if policy = ''Hold'' then kRemoveNestedField K (oObject queue) [''spec'', ''stopPolicy''] else oObject queue)
               in aUpdate A (queue\<lparr>oObject := object,
                                   oAnnotations := gm_delete annotationSharedQuotaHold (oAnnotations queue)\<rparr>) w)))"

text \<open>One round of the loop over the kept fields: the field, and the stop policy in shared mode.\<close>

definition carryStopPolicy :: "'q kube \<Rightarrow> kobj \<Rightarrow> kobj \<Rightarrow> kobj res" where
  "carryStopPolicy K existing queue =
     bindE (kNestedString K (oObject existing) [''spec'', ''stopPolicy'']) (\<lambda>found.
       case found of
         None \<Rightarrow> Inr queue
       | Some policy \<Rightarrow>
           if gm_get [] (oAnnotations existing) annotationSharedQuotaHold \<noteq> ''true'' \<or> policy \<noteq> ''Hold''
           then bindE (kSetNestedField K (oObject queue) (JString policy) [''spec'', ''stopPolicy''])
                  (\<lambda>object. Inr (queue\<lparr>oObject := object\<rparr>))
           else Inr queue)"

definition carrySpecField :: "'q kube \<Rightarrow> bool \<Rightarrow> kobj \<Rightarrow> string \<Rightarrow> kobj \<Rightarrow> kobj res" where
  "carrySpecField K shared existing fld queue =
     bindE (kNestedField K (oObject existing) [''spec'', fld]) (\<lambda>found.
     bindE (case found of
              None \<Rightarrow> Inr queue
            | Some value \<Rightarrow> bindE (kSetNestedField K (oObject queue) value [''spec'', fld]) (\<lambda>object. Inr (queue\<lparr>oObject := object\<rparr>)))
       (\<lambda>queue'. if shared then carryStopPolicy K existing queue' else Inr queue'))"

definition borrowingQuota :: "(string, 'q::linordered_ab_group_add) gomap \<Rightarrow> 'q tauResourceQuota \<Rightarrow> 'q tauResourceQuota" where
  "borrowingQuota reservations quota =
     (let reserved = gm_get 0 reservations (quotaKey quota);
          limit = (if reserved > qNominal quota then reserved else qNominal quota)
      in \<lparr>qFlavor = qFlavor quota, qResource = qResource quota, qNominal = 0, qBorrowing = Some limit, qLending = None\<rparr>)"

definition desiredCapacityQueue ::
  "'q::linordered_ab_group_add kube \<Rightarrow> ('q, 'w) api \<Rightarrow> 'w \<Rightarrow> 'q tauWorkspace \<Rightarrow> 'q tauResourceQuota list \<Rightarrow> bool \<Rightarrow> kobj res" where
  "desiredCapacityQueue K A w workspace quotas shared =
     (case wsTeamRef workspace of
        None \<Rightarrow> Inl nilDereference
      | Some teamName \<Rightarrow>
          let queue = desiredWorkspaceClusterQueue K teamName workspace in
          bindE (case getQueue A w (oName queue) of
                   Inr existing \<Rightarrow>
                     bindE (clusterQueueReservations K existing) (\<lambda>reservations.
                     bindE (foldE (carrySpecField K shared existing) [''admissionChecks'', ''admissionChecksStrategy''] queue)
                       (\<lambda>kept. Inr (reservations, kept)))
                 | Inl err \<Rightarrow> if isNotFound err then Inr ([], queue) else Inl err) (\<lambda>(reservations, kept).
          bindE (assignSpec ''resourceGroups'' (JList (quotaResourceGroups K (map (borrowingQuota reservations) quotas) True)) kept)
            (setWorkspaceManagedQuotaKeys K workspace)))"

definition writeCapacityQueue ::
  "'q::linordered_ab_group_add kube \<Rightarrow> ('q, 'w) api \<Rightarrow> 'q tauWorkspace \<Rightarrow> 'q tauResourceQuota list \<Rightarrow> bool \<Rightarrow> 'w \<Rightarrow> kerr option \<times> 'w" where
  "writeCapacityQueue K A workspace quotas shared w =
     withRes (desiredCapacityQueue K A w workspace quotas shared) w
       (\<lambda>queue. reconcileManagedUnstructuredWithReader K A queue labelWorkspace (wsName workspace) w)"

definition sameWorkspaceSpec :: "'q tauWorkspace \<Rightarrow> 'q tauWorkspace \<Rightarrow> bool" where
  "sameWorkspaceSpec a b \<longleftrightarrow>
     wsTeamRef a = wsTeamRef b \<and> wsQuota a = wsQuota b \<and> wsQueue a = wsQueue b \<and>
     wsTargetNamespace a = wsTargetNamespace b \<and> wsCreateNamespace a = wsCreateNamespace b \<and> wsOutputRoot a = wsOutputRoot b \<and>
     wsAuthorization a = wsAuthorization b \<and> wsPrincipalRef a = wsPrincipalRef b \<and>
     wsKubernetesSubject a = wsKubernetesSubject b \<and> wsWorkloadIdentity a = wsWorkloadIdentity b \<and> wsOtherSpec a = wsOtherSpec b"

definition reconcileCapacityWorkspace ::
  "'q::linordered_ab_group_add kube \<Rightarrow> ('q, 'w) api \<Rightarrow> 'q tauWorkspace \<Rightarrow> 'q tauResourceQuota list \<Rightarrow> bool \<Rightarrow> 'w \<Rightarrow> kerr option \<times> 'w" where
  "reconcileCapacityWorkspace K A workspace quotas shared w =
     (if \<not> shared then writeCapacityQueue K A workspace quotas False w
      else case aWorkspace A w (wsNamespace workspace) (wsName workspace) of
             Inl err \<Rightarrow> (ignoreNotFound err, w)
           | Inr current \<Rightarrow>
               if wsUID current \<noteq> wsUID workspace \<or> \<not> sameWorkspaceSpec current workspace \<or>
                  workspaceFinalizer \<notin> set (wsFinalizers current)
               then (Some (Errorf ''workspace %q changed identity, spec or finalizer during shared quota reconciliation; retrying'' [wsName workspace]), w)
               else if wsDeleting current then recoverDeletingWorkspaceHold K A current w
               else writeCapacityQueue K A current quotas True w)"

subsection \<open>Conflicts with other budgets\<close>

definition poolNodeMatches :: "'q kube \<Rightarrow> (string, string) gomap \<Rightarrow> 'q knode \<Rightarrow> bool" where
  "poolNodeMatches K selector node \<longleftrightarrow>
     linuxNode node \<and> nodeClass node \<noteq> [] \<and> kSelectorMatches K selector (ndLabels node)"

definition flavorSelector :: "'q kube \<Rightarrow> kobj \<Rightarrow> ((string, string) gomap) res" where
  "flavorSelector K flavor =
     bindE (kNestedStringMap K (oObject flavor) [''spec'', ''nodeLabels''])
       (\<lambda>found. Inr (case found of None \<Rightarrow> [] | Some selector \<Rightarrow> selector))"

definition poolOverlaps :: "'q kube \<Rightarrow> ('q, 'w) api \<Rightarrow> 'w \<Rightarrow> 'q capacityPoolInventory \<Rightarrow> string \<Rightarrow> bool res" where
  "poolOverlaps K A w inventory name =
     (if list_ex (\<lambda>quota. qFlavor quota = name) (cpQuotas inventory) then Inr True
      else bindE (mapErr (Wrapped ''read budget ResourceFlavor %q'' [name]) (aGet A w resourceFlavorKind [] name)) (\<lambda>flavor.
           bindE (flavorSelector K flavor) (\<lambda>selector.
             Inr (list_ex (poolNodeMatches K selector) (cpNodes inventory)))))"

text \<open>A flavor that must not overlap the pool.\<close>

definition refuseOverlap :: "(string \<Rightarrow> bool res) \<Rightarrow> string \<Rightarrow> kerr \<Rightarrow> unit res" where
  "refuseOverlap overlaps flavor err = bindE (overlaps flavor) (\<lambda>conflict. if conflict then Inl err else Inr ())"

definition quotaActive :: "'q::linordered_ab_group_add kube \<Rightarrow> bool \<Rightarrow> string \<times> jobject \<Rightarrow> bool \<Rightarrow> bool res" where
  "quotaActive K borrows entry active =
     bindE (kParseQuantity K (field (snd entry) ''nominalQuota'')) (\<lambda>nominal.
       let active' = (active \<or> nominal \<noteq> 0) in
       if borrows
       then case gm_lookup (snd entry) ''borrowingLimit'' of
              None \<Rightarrow> Inr True
            | Some limit \<Rightarrow> bindE (kParseQuantity K (sprint limit)) (\<lambda>borrowing. Inr (active' \<or> borrowing \<noteq> 0))
       else Inr active')"

definition refuseReservations ::
  "'q::linordered_ab_group_add kube \<Rightarrow> (string \<Rightarrow> bool res) \<Rightarrow> kobj \<Rightarrow> unit res" where
  "refuseReservations K overlaps object =
     bindE (clusterQueueReservations K object) (\<lambda>reservations.
       foldE (\<lambda>entry u.
         if snd entry \<le> 0 then Inr u
         else let (_, flavor, _) = cut (fst entry) (CHR 0x00) in
              refuseOverlap overlaps flavor
                (Errorf ''ClusterQueue %q retains reservations overlapping the exclusive capacity pool'' [oName object])) reservations ())"

definition refuseBudgets ::
  "'q::linordered_ab_group_add kube \<Rightarrow> (string \<Rightarrow> bool res) \<Rightarrow> bool \<Rightarrow> kobj \<Rightarrow> unit res" where
  "refuseBudgets K overlaps borrows object =
     bindE (clusterQueueQuotaObjects K object) (\<lambda>quotaObjects.
       foldE (\<lambda>entry u.
         bindE (foldE (quotaActive K borrows) (snd entry) False) (\<lambda>active.
         if \<not> active then Inr u
         else refuseOverlap overlaps (fst entry)
                (Errorf ''%s %q flavor %q budget overlaps exclusive capacity pool'' [oKind object, oName object, fst entry]))) quotaObjects ())"

definition checkPoolQueue ::
  "'q::linordered_ab_group_add kube \<Rightarrow> string \<Rightarrow> 'q tauWorkspace \<Rightarrow> (string, 'q) gomap \<Rightarrow> string \<Rightarrow> kobj \<Rightarrow> unit res" where
  "checkPoolQueue K teamName workspace nominals cohort object =
     bindE (authoritativeWorkspaceClusterQueue object workspace) (\<lambda>owned.
       if \<not> owned then Inl (Errorf ''capacity pool ClusterQueue %q is externally owned'' [oName object])
       else if cohort \<noteq> teamCohortName K teamName \<and> length nominals \<noteq> 0
       then Inl (Errorf ''capacity pool ClusterQueue %q belongs to another Cohort'' [oName object])
       else if list_ex (\<lambda>(_, nominal). nominal \<noteq> 0) nominals
       then Inl (Errorf ''capacity pool ClusterQueue %q has a duplicate nominal budget'' [oName object])
       else Inr ())"

definition validateCapacityPoolObject ::
  "'q::linordered_ab_group_add kube \<Rightarrow> bool \<Rightarrow> string \<Rightarrow> 'q tauWorkspace option \<Rightarrow> (string \<Rightarrow> bool res) \<Rightarrow> kobj \<Rightarrow> unit res" where
  "validateCapacityPoolObject K isQueue teamName workspace overlaps object =
     (if gm_get [] (oLabels object) labelDiscoverGPUFlavors = ''true''
      then Inl (Errorf ''%s %q enables legacy discovery alongside the exclusive capacity pool'' [oKind object, oName object])
      else bindE (kNestedField K (oObject object) [''spec'', ''resourceGroups'']) (\<lambda>found.
           bindE (if found = None then Inr [] else clusterQueueNominalQuota K object) (\<lambda>nominals.
           bindE (nestedStringOrEmpty K (oObject object) [''spec'', ''cohortName'']) (\<lambda>cohort.
           case workspace of
             Some ws \<Rightarrow> checkPoolQueue K teamName ws nominals cohort object
           | None \<Rightarrow>
               bindE (if isQueue then refuseReservations K overlaps object else Inr ())
                 (\<lambda>_. refuseBudgets K overlaps (isQueue \<and> cohort \<noteq> []) object)))))"

definition refuseTeamBudgets :: "(string \<Rightarrow> bool res) \<Rightarrow> string \<Rightarrow> 'q::zero tauTeam list \<Rightarrow> unit res" where
  "refuseTeamBudgets overlaps teamName teams =
     foldE (\<lambda>candidate u.
       if tmName candidate = teamName then Inr u
       else foldE (\<lambda>quota u.
              if qNominal quota = 0 then Inr u
              else refuseOverlap overlaps (qFlavor quota)
                     (Errorf ''team %q budget overlaps exclusive capacity pool'' [tmName candidate])) (tmQuota candidate) u) teams ()"

definition validateCapacityPoolConflicts ::
  "'q::linordered_ab_group_add kube \<Rightarrow> ('q, 'w) api \<Rightarrow> 'w \<Rightarrow> 'q tauTeam \<Rightarrow> (string, 'q tauWorkspace) gomap \<Rightarrow>
     'q capacityPoolInventory \<Rightarrow> unit res" where
  "validateCapacityPoolConflicts K A w team workspaces inventory =
     (let overlaps = poolOverlaps K A w inventory in
      bindE (aTeams A w (tmNamespace team)) (\<lambda>teams.
      bindE (refuseTeamBudgets overlaps (tmName team) teams) (\<lambda>_.
      foldE (\<lambda>isQueue u.
        bindE (aList A w (if isQueue then clusterQueueKind else cohortKind)) (\<lambda>objects.
          foldE (\<lambda>object u.
            if \<not> isQueue \<and> oName object = teamCohortName K (tmName team) then Inr u
            else validateCapacityPoolObject K isQueue (tmName team)
                   (if isQueue then gm_lookup workspaces (oName object) else None) overlaps object) objects u))
        [True, False] ())))"

subsection \<open>Reconciling the exclusive pool\<close>

definition validateFlavors ::
  "'q kube \<Rightarrow> ('q, 'w) api \<Rightarrow> 'w \<Rightarrow> 'q discoveredGPUFlavor list \<Rightarrow> unit res" where
  "validateFlavors K A w flavors =
     foldE (\<lambda>flavor u. bindE (aGet A w resourceFlavorKind [] (dfName flavor)) (\<lambda>current. validateDiscoveredGPUFlavor K current flavor)) flavors ()"

text \<open>The reads and checks before the first write.\<close>

definition capacityPoolPlan ::
  "'q::linordered_ab_group_add kube \<Rightarrow> ('q, 'w) api \<Rightarrow> 'w \<Rightarrow> 'q tauCluster \<Rightarrow> 'q tauTeam \<Rightarrow>
     ('q capacityPoolInventory \<times> (string, 'q tauWorkspace) gomap) res" where
  "capacityPoolPlan K A w cluster team =
     (if clDeleting cluster then Inl (Errorf ''capacity pool requires a non-deleting TauCluster in Reconcile mode'' [])
      else if tmDeletionTimestamp team \<noteq> None \<or> teamFinalizer \<notin> set (tmFinalizers team) \<or> length (tmQuota team) \<noteq> 0
      then Inl (Errorf ''capacity pool team %q must have its cleanup finalizer, be non-deleting and omit spec.quota'' [tmName team])
      else bindE (discoveredPoolInventory K A w cluster) (\<lambda>inventory.
           bindE (validateFlavors K A w (cpFlavors inventory)) (\<lambda>_.
           bindE (capacityPoolWorkspaces K A w team) (\<lambda>selected.
           bindE (validateCapacityPoolConflicts K A w team selected inventory) (\<lambda>_.
           bindE (validateQuotaFlavors (aGet A w resourceFlavorKind []) (cpQuotas inventory)) (\<lambda>_.
             Inr (inventory, selected)))))))"

definition applyCapacityPool ::
  "'q::linordered_ab_group_add kube \<Rightarrow> ('q, 'w) api \<Rightarrow> 'q tauCluster \<Rightarrow> 'q tauTeam \<Rightarrow> 'w \<Rightarrow> kerr option \<times> 'w" where
  "applyCapacityPool K A cluster team w =
     withRes (capacityPoolPlan K A w cluster team) w (\<lambda>plan.
       andThen (reconcileManagedUnstructuredWithReader K A (desiredCapacityCohort K team (cpQuotas (fst plan))) labelTeam (tmName team) w)
         (forEach (\<lambda>entry w'.
            let workspace = snd entry in
            if wsDeleting workspace \<or> workspaceFinalizer \<notin> set (wsFinalizers workspace) then (None, w')
            else reconcileCapacityWorkspace K A workspace (cpQuotas (fst plan)) False w') (sort_key fst (snd plan))))"

definition zeroQuota :: "string \<times> 'q::zero \<Rightarrow> 'q tauResourceQuota" where
  "zeroQuota entry =
     (let (resourceName, flavor, _) = cut (fst entry) (CHR 0x00)
      in \<lparr>qFlavor = flavor, qResource = resourceName, qNominal = 0, qBorrowing = None, qLending = None\<rparr>)"

definition withdrawCapacityPool ::
  "'q::linordered_ab_group_add kube \<Rightarrow> ('q, 'w) api \<Rightarrow> 'q tauTeam \<Rightarrow> 'w \<Rightarrow> kerr option \<times> 'w" where
  "withdrawCapacityPool K A team w =
     (case getCohort A w (teamCohortName K (tmName team)) of
        Inl err \<Rightarrow> (ignoreNotFound err, w)
      | Inr cohort \<Rightarrow>
          if gm_get [] (oLabels cohort) labelManagedBy \<noteq> labelManagedByValue \<or> gm_get [] (oLabels cohort) labelTeam \<noteq> tmName team \<or>
             gm_get [] (oAnnotations cohort) annotationOwnerUID \<noteq> tmUID team \<or>
             gm_get [] (oAnnotations cohort) annotationCapacityPool \<noteq> ''true''
          then (None, w)
          else withRes (clusterQueueNominalQuota K cohort) w (\<lambda>nominals.
                 reconcileManagedUnstructuredWithReader K A (desiredCapacityCohort K team (map zeroQuota nominals)) labelTeam (tmName team) w))"

text \<open>The exclusive branch of \<open>reconcileCapacityPool\<close>: a failed application withdraws the pool.\<close>

definition reconcileExclusivePool ::
  "'q::linordered_ab_group_add kube \<Rightarrow> ('q, 'w) api \<Rightarrow> 'q tauCluster \<Rightarrow> 'q tauTeam \<Rightarrow> 'w \<Rightarrow> kerr option \<times> 'w" where
  "reconcileExclusivePool K A cluster team w =
     (if clManagementMode cluster \<noteq> clusterManagementModeReconcile
      then (Some (Errorf ''capacity pool requires TauCluster Reconcile mode'' []), w)
      else case applyCapacityPool K A cluster team w of
             (None, w') \<Rightarrow> (None, w')
           | (Some err, w') \<Rightarrow>
               let withdrawn = withdrawCapacityPool K A team w' in (joinErrors (Some err) (fst withdrawn), snd withdrawn))"

end
