(* ===== verification/Capacity_Props.thy ===== *)
theory Capacity_Props
  imports Capacity_Pool
begin

text \<open>
  What discovered capacity guarantees: the inventory is the supply of the nodes, the queues of
  a pool never fall under active reservations, and a pool is exclusive.
\<close>

section \<open>The inventory is the supply of the nodes\<close>

definition suppliesFlavor :: "'q::linordered_ab_group_add kube \<Rightarrow> string \<Rightarrow> 'q knode \<Rightarrow> bool" where
  "suppliesFlavor K flavor node \<longleftrightarrow>
     linuxNode node \<and> nodeClass node \<noteq> [] \<and> nodeGPUs node > 0 \<and> capacityNodeEligible node \<and>
     discoveredGPUFlavorName K (nodeClass node) = flavor"

definition nodeSupply :: "'q::linordered_ab_group_add kube \<Rightarrow> string \<Rightarrow> string \<Rightarrow> 'q knode \<Rightarrow> 'q" where
  "nodeSupply K flavor resourceName node =
     (if suppliesFlavor K flavor node then gm_get 0 (ndAllocatable node) resourceName else 0)"

abbreviation totalAt :: "(string, (string, 'q::zero) gomap) gomap \<Rightarrow> string \<Rightarrow> string \<Rightarrow> 'q" where
  "totalAt byFlavor flavor resourceName \<equiv> gm_get 0 (gm_get [] byFlavor flavor) resourceName"

abbreviation keyAt :: "(string, (string, 'q) gomap) gomap \<Rightarrow> string \<Rightarrow> string \<Rightarrow> bool" where
  "keyAt byFlavor flavor resourceName \<equiv> gm_lookup (gm_get [] byFlavor flavor) resourceName \<noteq> None"

lemma addAllocatable_Inr:
  "addAllocatable nodeName name entry b = Inr b' \<longleftrightarrow>
     0 \<le> snd entry \<and> b' = gm_set name (gm_set (fst entry) (totalAt b name (fst entry) + snd entry) (gm_get [] b name)) b"
  by (auto simp: addAllocatable_def Let_def)

lemma addAllocatables:
  fixes entries :: "(string, 'q::linordered_ab_group_add) gomap"
  assumes "foldE (addAllocatable nodeName name) entries b = Inr b'" "gm_inv entries"
  shows "totalAt b' f r = totalAt b f r + (if f = name then gm_get 0 entries r else 0)"
    and "0 \<le> gm_get 0 entries r"
    and "keyAt b' f r \<longleftrightarrow> keyAt b f r \<or> (f = name \<and> gm_lookup entries r \<noteq> None)"
    and "f \<in> set (gm_keys b') \<longleftrightarrow> f \<in> set (gm_keys b) \<or> (f = name \<and> entries \<noteq> [])"
  using assms
proof (induction entries arbitrary: b)
  case (Cons e entries)
  let ?put = "\<lambda>b. gm_set name (gm_set (fst e) (totalAt b name (fst e) + snd e) (gm_get [] b name)) b"
  have inv: "gm_inv entries" and fresh: "gm_lookup entries (fst e) = None" if "gm_inv (e # entries)"
    using that gm_lookup_None_iff [of entries "fst e"] by (simp_all add: gm_inv_def gm_keys_def)
  have step: "0 \<le> snd e" "foldE (addAllocatable nodeName name) entries (?put b) = Inr b'"
    if "foldE (addAllocatable nodeName name) (e # entries) b = Inr b'" for b
    using that by (auto simp: bindE_Inr_iff addAllocatable_Inr)
  {
    case (1 b)
    then show ?case using Cons.IH(1) [OF step(2) [OF 1(1)] inv [OF 1(2)]] fresh [OF 1(2)]
      by (cases e) (auto simp: gm_get_def ac_simps split: option.split)
  next
    case (2 b)
    then show ?case using Cons.IH(2) [OF step(2) [OF 2(1)] inv [OF 2(2)]] step(1) [OF 2(1)]
      by (cases e) (auto simp: gm_get_def)
  next
    case (3 b)
    then show ?case using Cons.IH(3) [OF step(2) [OF 3(1)] inv [OF 3(2)]]
      by (cases e) auto
  next
    case (4 b)
    then show ?case using Cons.IH(4) [OF step(2) [OF 4(1)] inv [OF 4(2)]] by auto
  }
qed simp_all


lemma nodeStep_cases:
  assumes "nodeStep K shared node acc = Inr acc'"
  obtains (skipped) "acc' = acc" "\<And>f. \<not> suppliesFlavor K f node"
  | (ineligible) name where "fst acc' = (if gm_lookup (fst acc) name = None then gm_set name [] (fst acc) else fst acc)"
      "\<And>f. \<not> suppliesFlavor K f node"
  | (supplied) name b where "b = (if gm_lookup (fst acc) name = None then gm_set name [] (fst acc) else fst acc)"
      "foldE (addAllocatable (ndName node) name) (ndAllocatable node) b = Inr (fst acc')"
      "\<And>f. suppliesFlavor K f node \<longleftrightarrow> f = name" "name \<in> set (gm_keys b)"
proof -
  let ?name = "discoveredGPUFlavorName K (nodeClass node)"
  let ?b = "if gm_lookup (fst acc) ?name = None then gm_set ?name [] (fst acc) else fst acc"
  have key: "?name \<in> set (gm_keys ?b)" by (simp add: gm_key_iff)
  show ?thesis
  proof (cases "\<not> linuxNode node \<or> nodeClass node = [] \<or> nodeGPUs node \<le> 0")
    case True
    then have "acc' = acc" using assms by (auto simp: nodeStep_def Let_def split: if_splits)
    moreover have "\<not> suppliesFlavor K f node" for f using True by (auto simp: suppliesFlavor_def)
    ultimately show ?thesis by (rule skipped)
  next
    case False
    show ?thesis
    proof (cases "capacityNodeEligible node")
      case True
      then have "foldE (addAllocatable (ndName node) ?name) (ndAllocatable node) ?b = Inr (fst acc')"
        using False assms by (auto simp: nodeStep_def Let_def bindE_Inr_iff split: if_splits)
      then show ?thesis using True False key supplied [of ?b ?name] by (auto simp: suppliesFlavor_def not_le)
    next
      case notEligible: False
      then have "fst acc' = ?b" using False assms by (auto simp: nodeStep_def Let_def split: if_splits)
      then show ?thesis using notEligible ineligible [of ?name] by (auto simp: suppliesFlavor_def)
    qed
  qed
qed

lemma emptyFlavor:
  assumes "b = (if gm_lookup m name = None then gm_set name [] m else m)"
  shows "totalAt b f r = totalAt m f r" "keyAt b f r \<longleftrightarrow> keyAt m f r" "f \<in> set (gm_keys m) \<Longrightarrow> f \<in> set (gm_keys b)"
  using assms by (auto simp: gm_get_def split: option.splits)

lemma nodeStep_totals:
  assumes "nodeStep K shared node acc = Inr acc'" "gm_inv (ndAllocatable node)"
  shows "totalAt (fst acc') f r = totalAt (fst acc) f r + nodeSupply K f r node \<and>
    0 \<le> nodeSupply K f r node \<and>
    (keyAt (fst acc') f r \<longleftrightarrow> keyAt (fst acc) f r \<or> (suppliesFlavor K f node \<and> gm_lookup (ndAllocatable node) r \<noteq> None)) \<and>
    (f \<in> set (gm_keys (fst acc)) \<or> suppliesFlavor K f node \<longrightarrow> f \<in> set (gm_keys (fst acc')))"
  using assms(1)
proof (cases rule: nodeStep_cases)
  case skipped
  then show ?thesis by (simp add: nodeSupply_def)
next
  case (ineligible name)
  note e = emptyFlavor [OF ineligible(1)]
  show ?thesis using e(1,2) [of f r] e(3) [of f] ineligible(2) [of f] by (auto simp: nodeSupply_def)
next
  case (supplied name b)
  note e = emptyFlavor [OF supplied(1)] and a = addAllocatables [OF supplied(2) assms(2)]
  show ?thesis using e(1,2) [of f r] e(3) [of f] a(1) [of f r] a(3) [of f r] a(2) [of r] a(4) [of f] supplied(3) [of f] supplied(4) by (auto simp: nodeSupply_def)
qed

lemma nodeSteps_totals:
  assumes "foldE (nodeStep K shared) nodes acc = Inr acc'" "\<forall>node \<in> set nodes. gm_inv (ndAllocatable node)"
  shows "totalAt (fst acc') f r = totalAt (fst acc) f r + (\<Sum>node \<leftarrow> nodes. nodeSupply K f r node) \<and>
    0 \<le> (\<Sum>node \<leftarrow> nodes. nodeSupply K f r node) \<and>
    (keyAt (fst acc') f r \<longleftrightarrow> keyAt (fst acc) f r \<or> (\<exists>node \<in> set nodes. suppliesFlavor K f node \<and> gm_lookup (ndAllocatable node) r \<noteq> None)) \<and>
    (f \<in> set (gm_keys (fst acc)) \<or> (\<exists>node \<in> set nodes. suppliesFlavor K f node) \<longrightarrow> f \<in> set (gm_keys (fst acc')))"
  using assms
proof (induction nodes arbitrary: acc)
  case (Cons node nodes)
  then obtain mid where mid: "nodeStep K shared node acc = Inr mid" "foldE (nodeStep K shared) nodes mid = Inr acc'"
    by (auto simp: bindE_Inr_iff)
  have step: "totalAt (fst mid) f r = totalAt (fst acc) f r + nodeSupply K f r node \<and> 0 \<le> nodeSupply K f r node \<and>
    (keyAt (fst mid) f r \<longleftrightarrow> keyAt (fst acc) f r \<or> (suppliesFlavor K f node \<and> gm_lookup (ndAllocatable node) r \<noteq> None)) \<and>
    (f \<in> set (gm_keys (fst acc)) \<or> suppliesFlavor K f node \<longrightarrow> f \<in> set (gm_keys (fst mid)))"
    by (rule nodeStep_totals [OF mid(1)]) (use Cons.prems in simp)
  have "totalAt (fst acc') f r = totalAt (fst acc) f r + (\<Sum>node \<leftarrow> node # nodes. nodeSupply K f r node)"
    "0 \<le> (\<Sum>node \<leftarrow> node # nodes. nodeSupply K f r node)"
    using Cons.IH [OF mid(2)] Cons.prems(2) step by (simp_all add: ac_simps)
  moreover have "keyAt (fst acc') f r \<longleftrightarrow>
      keyAt (fst acc) f r \<or> (\<exists>node \<in> set (node # nodes). suppliesFlavor K f node \<and> gm_lookup (ndAllocatable node) r \<noteq> None)"
    using Cons.IH [OF mid(2)] Cons.prems(2) step by auto
  moreover have "f \<in> set (gm_keys (fst acc)) \<or> (\<exists>node \<in> set (node # nodes). suppliesFlavor K f node) \<longrightarrow> f \<in> set (gm_keys (fst acc'))"
    using Cons.IH [OF mid(2)] Cons.prems(2) step by auto
  ultimately show ?case by blast
qed simp

lemma retainKey_totals:
  "totalAt (retainKey entry b) f r = totalAt b f r" "keyAt b f r \<Longrightarrow> keyAt (retainKey entry b) f r"
  "f \<in> set (gm_keys b) \<Longrightarrow> f \<in> set (gm_keys (retainKey entry b))" "gm_inv b \<Longrightarrow> gm_inv (retainKey entry b)"
  by (auto simp: retainKey_def Let_def case_prod_unfold gm_get_def split: option.split)

lemma retainKeys_totals:
  "totalAt (fold retainKey entries b) f r = totalAt b f r" "keyAt b f r \<Longrightarrow> keyAt (fold retainKey entries b) f r"
  "f \<in> set (gm_keys b) \<Longrightarrow> f \<in> set (gm_keys (fold retainKey entries b))" "gm_inv b \<Longrightarrow> gm_inv (fold retainKey entries b)"
proof -
  show "totalAt (fold retainKey entries b) f r = totalAt b f r"
    by (induction entries arbitrary: b) (simp_all add: retainKey_totals(1))
  show "keyAt b f r \<Longrightarrow> keyAt (fold retainKey entries b) f r"
    by (rule fold_invariant [where Q = "\<lambda>_. True" and P = "\<lambda>b. keyAt b f r"]) (use retainKey_totals(2) in blast)+
  show "f \<in> set (gm_keys b) \<Longrightarrow> f \<in> set (gm_keys (fold retainKey entries b))"
    by (rule fold_invariant [where Q = "\<lambda>_. True" and P = "\<lambda>b. f \<in> set (gm_keys b)"]) (use retainKey_totals(3) in blast)+
  show "gm_inv b \<Longrightarrow> gm_inv (fold retainKey entries b)"
    by (induction entries arbitrary: b) (simp_all add: retainKey_totals(4))
qed

lemma nodeSteps_inv:
  assumes "foldE (nodeStep K shared) nodes acc = Inr acc'" "gm_inv (fst acc)"
  shows "gm_inv (fst acc')"
proof -
  have "gm_inv (fst v)" if u: "gm_inv (fst u)" and v: "nodeStep K shared x u = Inr v" for x u v
    using v
  proof (cases rule: nodeStep_cases)
    case (supplied name b)
    then have "gm_inv b" using u by simp
    show ?thesis by (rule foldE_invariant [OF supplied(2), where P = gm_inv, OF \<open>gm_inv b\<close>]) (auto simp: addAllocatable_Inr)
  qed (use u in simp_all)
  then show ?thesis using foldE_invariant [OF assms(1), where P = "\<lambda>a. gm_inv (fst a)"] assms(2) by blast
qed

lemma poolResources_spec: "distinct (poolResources b)" "nvidiaGPUResourceName \<in> set (poolResources b)"
  "set (poolResources b) = insert nvidiaGPUResourceName (\<Union>(_, resources) \<in> set b. set (gm_keys resources))"
proof -
  have inner: "set (fold (\<lambda>(name, _). gs_add name) resources acc) = set acc \<union> set (gm_keys resources) \<and>
      (distinct acc \<longrightarrow> distinct (fold (\<lambda>(name, _). gs_add name) resources acc))" for resources :: "(string, 'a) gomap" and acc
    by (induction resources arbitrary: acc) auto
  have outer: "set (fold (\<lambda>(_, resources). fold (\<lambda>(name, _). gs_add name) resources) b acc) =
      set acc \<union> (\<Union>(_, resources) \<in> set b. set (gm_keys resources)) \<and>
      (distinct acc \<longrightarrow> distinct (fold (\<lambda>(_, resources). fold (\<lambda>(name, _). gs_add name) resources) b acc))" for acc
    by (induction b arbitrary: acc) (auto simp: inner)
  from outer [of "[nvidiaGPUResourceName]"]
  show "distinct (poolResources b)" "nvidiaGPUResourceName \<in> set (poolResources b)"
    "set (poolResources b) = insert nvidiaGPUResourceName (\<Union>(_, resources) \<in> set b. set (gm_keys resources))"
    by (auto simp: poolResources_def)
qed

lemma poolResources_key: "keyAt b f r \<Longrightarrow> r \<in> set (poolResources b)"
proof -
  assume k: "keyAt b f r"
  then obtain resources where "gm_lookup b f = Some resources" by (cases "gm_lookup b f") (auto simp: gm_get_def)
  then have "(f, resources) \<in> set b" "r \<in> set (gm_keys resources)"
    using k gm_lookup_mem by (auto simp: gm_get_def gm_key_iff)
  then show ?thesis by (auto simp: poolResources_spec(3))
qed

lemma poolQuotasOf_mem:
  "q \<in> set (poolQuotasOf b) \<longleftrightarrow>
     qFlavor q \<in> set (gm_keys b) \<and> qResource q \<in> set (poolResources b) \<and>
     qNominal q = totalAt b (qFlavor q) (qResource q) \<and> qBorrowing q = None \<and> qLending q = None"
  by (cases q) (auto simp: poolQuotasOf_def)

lemma poolQuotasOf_ok:
  assumes "gm_inv b" "\<And>f r. 0 \<le> totalAt b f r"
  shows "quotas_ok (poolQuotasOf b)"
proof -
  have res: "resourcesOf (poolQuotasOf b) f = (if f \<in> set (gm_keys b) then set (poolResources b) else {})" for f
  proof -
    have "r \<in> resourcesOf (poolQuotasOf b) f" if "f \<in> set (gm_keys b)" "r \<in> set (poolResources b)" for r
      unfolding resourcesOf_def
      by (rule CollectI, rule exI [of _ "\<lparr>qFlavor = f, qResource = r, qNominal = totalAt b f r, qBorrowing = None, qLending = None\<rparr>"])
        (simp add: poolQuotasOf_mem that)
    then show ?thesis by (auto simp: resourcesOf_def poolQuotasOf_mem)
  qed
  have pairs: "map (\<lambda>q. (qFlavor q, qResource q)) (poolQuotasOf b) = List.product (sort (gm_keys b)) (poolResources b)"
    unfolding poolQuotasOf_def by (simp add: map_concat comp_def product_concat_map)
  have "distinct (map (\<lambda>q. (qFlavor q, qResource q)) (poolQuotasOf b))"
    unfolding pairs by (rule distinct_product) (use assms(1) poolResources_spec(1) in \<open>simp_all add: gm_inv_def gm_keys_def\<close>)
  moreover have "list_all quota_nonneg (poolQuotasOf b)"
    using assms(2) by (auto simp: list_all_iff poolQuotasOf_mem quota_nonneg_def)
  ultimately show ?thesis by (auto simp: quotas_ok_def res)
qed

lemma inventory_quotas:
  assumes "discoveredPoolInventory K A w cluster = Inr inventory" "aNodes A w (clNodeSelector cluster) = Inr nodes"
    and "\<forall>node \<in> set nodes. gm_inv (ndAllocatable node)"
  obtains b where "cpQuotas inventory = poolQuotasOf b" "cpNodes inventory = nodes" "gm_inv b"
    "\<And>f r. totalAt b f r = (\<Sum>node \<leftarrow> nodes. nodeSupply K f r node)" "\<And>f r. 0 \<le> totalAt b f r"
    "\<And>f r node. node \<in> set nodes \<Longrightarrow> suppliesFlavor K f node \<Longrightarrow> gm_lookup (ndAllocatable node) r \<noteq> None \<Longrightarrow>
       f \<in> set (gm_keys b) \<and> r \<in> set (poolResources b)"
proof -
  obtain acc previous where acc: "foldE (nodeStep K (clShareTeamQuotas cluster)) nodes ([], []) = Inr acc"
    and inv: "cpQuotas inventory = poolQuotasOf (fold retainKey previous (fst acc))" "cpNodes inventory = nodes"
    using assms(1,2) by (auto simp: discoveredPoolInventory_def bindE_Inr_iff Let_def)
  let ?b = "fold retainKey previous (fst acc)"
  note totals = nodeSteps_totals [OF acc assms(3)]
  have total: "totalAt ?b f r = (\<Sum>node \<leftarrow> nodes. nodeSupply K f r node)" for f r
    using totals [of f r] by (simp add: retainKeys_totals(1))
  have "f \<in> set (gm_keys ?b) \<and> r \<in> set (poolResources ?b)"
    if "node \<in> set nodes" "suppliesFlavor K f node" "gm_lookup (ndAllocatable node) r \<noteq> None" for f r node
  proof
    show "f \<in> set (gm_keys ?b)" by (rule retainKeys_totals(3)) (use totals that in blast)
    show "r \<in> set (poolResources ?b)" by (rule poolResources_key, rule retainKeys_totals(2)) (use totals that in blast)
  qed
  moreover have "gm_inv ?b" by (rule retainKeys_totals(4)) (rule nodeSteps_inv [OF acc], simp)
  moreover have "0 \<le> totalAt ?b f r" for f r using totals [of f r] by (simp only: total)
  ultimately show ?thesis using that [OF inv] total by blast
qed

text \<open>
  C12. The inventory of a pool is exact: every quantity is the sum of the allocatable
  quantities of the ready, schedulable Linux GPU nodes of the flavor's class, no resource
  of such a node is left out, and the inventory is a valid quota.\<close>

theorem pool_inventory_exact:
  assumes "discoveredPoolInventory K A w cluster = Inr inventory" and "aNodes A w (clNodeSelector cluster) = Inr nodes"
    and "\<forall>node \<in> set nodes. gm_inv (ndAllocatable node)"
  shows "(\<forall>q \<in> set (cpQuotas inventory). qNominal q = (\<Sum>node \<leftarrow> nodes. nodeSupply K (qFlavor q) (qResource q) node)) \<and>
    (\<forall>node \<in> set nodes. \<forall>f r. suppliesFlavor K f node \<and> gm_lookup (ndAllocatable node) r \<noteq> None \<longrightarrow>
       (\<exists>q \<in> set (cpQuotas inventory). qFlavor q = f \<and> qResource q = r)) \<and>
    validateQuotaValues (cpQuotas inventory) = Inr ()"
proof -
  obtain b where b: "cpQuotas inventory = poolQuotasOf b" "cpNodes inventory = nodes" "gm_inv b"
      "\<And>f r. totalAt b f r = (\<Sum>node \<leftarrow> nodes. nodeSupply K f r node)" "\<And>f r. 0 \<le> totalAt b f r"
      "\<And>f r node. node \<in> set nodes \<Longrightarrow> suppliesFlavor K f node \<Longrightarrow> gm_lookup (ndAllocatable node) r \<noteq> None \<Longrightarrow>
         f \<in> set (gm_keys b) \<and> r \<in> set (poolResources b)"
    by (rule inventory_quotas [OF assms]) meson
  have "\<exists>q \<in> set (cpQuotas inventory). qFlavor q = f \<and> qResource q = r"
    if "node \<in> set nodes" "suppliesFlavor K f node" "gm_lookup (ndAllocatable node) r \<noteq> None" for node f r
    by (rule bexI [of _ "\<lparr>qFlavor = f, qResource = r, qNominal = totalAt b f r, qBorrowing = None, qLending = None\<rparr>"])
      (use b(6) [OF that] in \<open>simp_all add: b(1) poolQuotasOf_mem\<close>)
  moreover have "quotas_ok (cpQuotas inventory)" unfolding b(1) by (rule poolQuotasOf_ok [OF b(3,5)])
  ultimately show ?thesis using b(4) by (simp add: b(1) poolQuotasOf_mem validateQuotaValues_iff)
qed

definition exampleCluster :: "int tauCluster" where
  "exampleCluster = (zeroCluster ''cluster'' ''c1'')\<lparr>clManagementMode := ''Reconcile'', clCapacityTeamRef := Some ''vision'', clDefaultQueue := ''main''\<rparr>"

definition exampleNode :: "string \<Rightarrow> bool \<Rightarrow> int knode" where
  "exampleNode name cordoned = \<lparr>ndName = name, ndLabels = [(labelOSStable, ''linux''), (labelGPUClass, ''h200'')],
     ndProviderID = [], ndUnschedulable = cordoned, ndDeleting = False, ndCapacity = [], ndAllocatable = [(''cpu'', 96), (nvidiaGPUResourceName, 8)],
     ndConditions = [(''Ready'', ''True'')]\<rparr>"

definition poolStore :: "int store" where
  "poolStore = exampleStore\<lparr>stCluster := Some exampleCluster,
     stNodes := [exampleNode ''a'' False, exampleNode ''b'' False, exampleNode ''c'' True]\<rparr>"

theorem pool_inventory_exact_witness:
  "\<exists>inventory. discoveredPoolInventory refKube storeApi poolStore exampleCluster = Inr inventory \<and>
     (\<exists>q \<in> set (cpQuotas inventory). qFlavor q = ''taugrid-gpu-h200'' \<and> qResource q = ''nvidia.com/gpu'' \<and> qNominal q = 16)"
proof -
  let ?nodes = "[exampleNode ''a'' False, exampleNode ''b'' False, exampleNode ''c'' True]"
  have "case discoveredPoolInventory refKube storeApi poolStore exampleCluster of Inl _ \<Rightarrow> False | Inr _ \<Rightarrow> True" by code_simp
  then obtain inventory where run: "discoveredPoolInventory refKube storeApi poolStore exampleCluster = Inr inventory"
    by (auto split: sum.splits)
  have nodes: "aNodes storeApi poolStore (clNodeSelector exampleCluster) = Inr ?nodes"
    by (simp add: store_defs poolStore_def exampleCluster_def zeroCluster_def)
  have inv: "\<forall>node \<in> set ?nodes. gm_inv (ndAllocatable node)"
    by (simp add: exampleNode_def gm_inv_def gm_keys_def nvidiaGPUResourceName_def)
  note exact = pool_inventory_exact [OF run nodes inv]
  have supplies: "suppliesFlavor refKube ''taugrid-gpu-h200'' (exampleNode ''a'' False)" by code_simp
  have key: "gm_lookup (ndAllocatable (exampleNode ''a'' False)) ''nvidia.com/gpu'' \<noteq> None"
    by (simp add: exampleNode_def nvidiaGPUResourceName_def)
  have "exampleNode ''a'' False \<in> set ?nodes" by simp
  then obtain q where q: "q \<in> set (cpQuotas inventory)" "qFlavor q = ''taugrid-gpu-h200''" "qResource q = ''nvidia.com/gpu''"
    using exact supplies key by meson
  have "(\<Sum>node \<leftarrow> ?nodes. nodeSupply refKube ''taugrid-gpu-h200'' ''nvidia.com/gpu'' node) = 16" by code_simp
  then have "qNominal q = 16" using exact q by metis
  then show ?thesis using run q by blast
qed

section \<open>The queue of a pool workspace\<close>

lemma setWorkspaceManagedQuotaKeys_object:
  assumes "setWorkspaceManagedQuotaKeys K workspace desired = Inr queue"
  shows "oObject queue = oObject desired" "oName queue = oName desired" "oKind queue = oKind desired" "oLabels queue = oLabels desired"
  using assms by (auto simp: setWorkspaceManagedQuotaKeys_def setManagedQuotaKeys_def bindE_Inr_iff split: if_splits)

lemma assignSpec_groups:
  assumes "assignSpec key value object = Inr object'"
  shows "nestedField (JMap (oObject object')) [''spec'', key] = Some (Some value)"
  using assms by (auto simp: assignSpec_def split: option.splits json.splits)

lemma borrowingQuota_pair [simp]:
  "qFlavor (borrowingQuota reservations quota) = qFlavor quota" "qResource (borrowingQuota reservations quota) = qResource quota"
  "qNominal (borrowingQuota reservations quota) = 0"
  by (simp_all add: borrowingQuota_def Let_def)

lemma borrowingQuota_stored [simp]:
  "storedValue True (borrowingQuota reservations quota) = max (qNominal quota) (gm_get 0 reservations (quotaKey quota))"
  "storedValue False (borrowingQuota reservations quota) = 0"
  "quotaKey (borrowingQuota reservations quota) = quotaKey quota"
  by (auto simp: storedValue_def borrowingQuota_def quotaKey_def Let_def max_def)

text \<open>The reservations behind the limits: those of the existing queue, none without one.\<close>

definition activeReservations ::
  "'q kube \<Rightarrow> ('q, 'w) api \<Rightarrow> 'w \<Rightarrow> 'q tauWorkspace \<Rightarrow> ((string, 'q) gomap) res" where
  "activeReservations K A w workspace =
     (case getQueue A w (workspaceClusterQueueName K (wsName workspace)) of
        Inr existing \<Rightarrow> clusterQueueReservations K existing
      | Inl err \<Rightarrow> if isNotFound err then Inr [] else Inl err)"

lemma desiredCapacityQueue_groups:
  assumes "desiredCapacityQueue K A w workspace quotas shared = Inr queue"
  obtains reservations where "activeReservations K A w workspace = Inr reservations"
    "nestedField (JMap (oObject queue)) [''spec'', ''resourceGroups''] =
       Some (Some (JList (quotaResourceGroups K (map (borrowingQuota reservations) quotas) True)))"
proof -
  obtain teamName where t: "wsTeamRef workspace = Some teamName"
    using assms by (cases "wsTeamRef workspace") (simp_all add: desiredCapacityQueue_def)
  have name: "oName (desiredWorkspaceClusterQueue K teamName workspace) = workspaceClusterQueueName K (wsName workspace)"
    by (simp add: desiredWorkspaceClusterQueue_def setOwnerUIDAnnotation_def)
  obtain reservations kept marked where r: "activeReservations K A w workspace = Inr reservations"
    and a: "assignSpec ''resourceGroups'' (JList (quotaResourceGroups K (map (borrowingQuota reservations) quotas) True)) kept = Inr marked"
    and m: "setWorkspaceManagedQuotaKeys K workspace marked = Inr queue"
    using assms t by (auto simp: desiredCapacityQueue_def activeReservations_def name Let_def bindE_Inr_iff split: sum.splits if_splits)
  show ?thesis
    by (rule that [OF r]) (use assignSpec_groups [OF a] setWorkspaceManagedQuotaKeys_object(1) [OF m] in simp)
qed

text \<open>
  The queue of a workspace in a pool owns nothing and may borrow the pool's quantity of
  every resource, or what its jobs already hold when the pool shrank below that: its maximum
  never falls under an active reservation.\<close>

theorem capacity_queue_limits:
  assumes "kube_laws K" and "desiredCapacityQueue K A w workspace quotas shared = Inr queue"
    and "activeReservations K A w workspace = Inr reservations"
    and "validateQuotaValues quotas = Inr ()" and "\<forall>q \<in> set quotas. nulFree (qResource q)"
  shows "\<exists>maximums nominals. clusterQueueMaximumQuota K queue = Inr maximums \<and> clusterQueueNominalQuota K queue = Inr nominals \<and>
    (\<forall>q \<in> set quotas. gm_lookup maximums (quotaKey q) = Some (max (qNominal q) (gm_get 0 reservations (quotaKey q))) \<and>
       gm_lookup nominals (quotaKey q) = Some 0)"
proof -
  let ?quotas = "map (borrowingQuota reservations) quotas"
  have groups: "nestedField (JMap (oObject queue)) [''spec'', ''resourceGroups''] = Some (Some (JList (quotaResourceGroups K ?quotas True)))"
    by (rule desiredCapacityQueue_groups [OF assms(2)]) (use assms(3) in simp)
  have pairs: "distinct (map (\<lambda>q. (qFlavor q, qResource q)) quotas)"
    using assms(4) by (simp add: validateQuotaValues_iff quotas_ok_def)
  then have d: "distinct (map (\<lambda>q. (qFlavor q, qResource q)) ?quotas)" by (simp add: comp_def)
  have n: "\<forall>q \<in> set ?quotas. nulFree (qResource q)" using assms(5) by simp
  have keys: "distinct (map quotaKey quotas)" by (rule quotaKeys_distinct [OF pairs assms(5)])
  have at: "map_of (map (\<lambda>q. (quotaKey q, storedValue b q)) ?quotas) (quotaKey q) = Some (storedValue b (borrowingQuota reservations q))"
    if "q \<in> set quotas" for b q
    by (rule map_of_is_SomeI) (use keys that in \<open>auto simp: comp_def\<close>)
  obtain maximums nominals where "clusterQueueQuota K queue True = Inr maximums" "clusterQueueQuota K queue False = Inr nominals"
    "\<forall>key. gm_lookup maximums key = map_of (map (\<lambda>q. (quotaKey q, storedValue True q)) ?quotas) key"
    "\<forall>key. gm_lookup nominals key = map_of (map (\<lambda>q. (quotaKey q, storedValue False q)) ?quotas) key"
    using clusterQueueQuota_written [OF assms(1) _ groups d n, of True] clusterQueueQuota_written [OF assms(1) _ groups d n, of False]
    by blast
  then show ?thesis using at by (intro exI [of _ maximums] exI [of _ nominals]) (simp add: clusterQueueMaximumQuota_def clusterQueueNominalQuota_def)
qed

definition poolWorkspace :: "int tauWorkspace" where
  "poolWorkspace = exampleWorkspace\<lparr>wsQuota := [], wsTeamRef := Some ''vision''\<rparr>"

definition poolQuota :: "int tauResourceQuota" where
  "poolQuota = \<lparr>qFlavor = ''h200'', qResource = ''gpu'', qNominal = 8, qBorrowing = None, qLending = None\<rparr>"

text \<open>A queue whose jobs hold twelve GPUs while the pool has eight.\<close>

definition heldStore :: "int store" where
  "heldStore = exampleStore\<lparr>stObjects := [(desiredWorkspaceClusterQueue refKube ''vision'' exampleWorkspace)
     \<lparr>oObject := [(''status'', JMap [(''flavorsReservation'',
        JList [flavorObject ''h200'' [JMap [(''name'', JString ''gpu''), (''total'', JString ''12'')]]])])]\<rparr>]\<rparr>"

theorem capacity_queue_limits_witness:
  "\<exists>queue maximums. desiredCapacityQueue refKube storeApi heldStore poolWorkspace [poolQuota] True = Inr queue \<and>
     clusterQueueMaximumQuota refKube queue = Inr maximums \<and> gm_lookup maximums (quotaKey poolQuota) = Some 12"
proof -
  have "case desiredCapacityQueue refKube storeApi heldStore poolWorkspace [poolQuota] True of Inl _ \<Rightarrow> False | Inr _ \<Rightarrow> True" by code_simp
  then obtain queue where run: "desiredCapacityQueue refKube storeApi heldStore poolWorkspace [poolQuota] True = Inr queue"
    by (auto split: sum.splits)
  have reserved: "activeReservations refKube storeApi heldStore poolWorkspace = Inr [(''gpu'' @ nul @ ''h200'', 12)]" by code_simp
  have valid: "validateQuotaValues [poolQuota] = Inr ()" by code_simp
  have "\<forall>q \<in> set [poolQuota]. nulFree (qResource q)" by (simp add: poolQuota_def nulFree_def)
  from capacity_queue_limits [OF refKube_laws run reserved valid this] obtain maximums where
    "clusterQueueMaximumQuota refKube queue = Inr maximums"
    "gm_lookup maximums (quotaKey poolQuota) = Some (max 8 (gm_get 0 [(''gpu'' @ nul @ ''h200'', 12)] (quotaKey poolQuota)))"
    by (auto simp: poolQuota_def)
  then show ?thesis using run by (auto simp: poolQuota_def quotaKey_def gm_get_def)
qed

section \<open>The pool is exclusive\<close>

lemma refuseOverlap_iff: "refuseOverlap overlaps flavor err = Inr u \<longleftrightarrow> overlaps flavor = Inr False"
  by (auto simp: refuseOverlap_def bindE_Inr_iff)

text \<open>A quota entry under which jobs can run: a nominal quantity, or borrowing that is not excluded.\<close>

definition activeEntry :: "'q::linordered_ab_group_add kube \<Rightarrow> bool \<Rightarrow> jobject \<Rightarrow> bool" where
  "activeEntry K borrows quota \<longleftrightarrow>
     kParseQuantity K (field quota ''nominalQuota'') \<noteq> Inr 0 \<or>
     (borrows \<and> (case gm_lookup quota ''borrowingLimit'' of None \<Rightarrow> True | Some limit \<Rightarrow> kParseQuantity K (sprint limit) \<noteq> Inr 0))"

lemma quotaActive_Inr:
  assumes "quotaActive K borrows entry active = Inr active'"
  shows "active' \<longleftrightarrow> active \<or> activeEntry K borrows (snd entry)"
  using assms by (auto simp: quotaActive_def activeEntry_def bindE_Inr_iff Let_def split: if_splits option.splits)

lemma quotaActives:
  assumes "foldE (quotaActive K borrows) entries active = Inr active'"
  shows "active' \<longleftrightarrow> active \<or> (\<exists>entry \<in> set entries. activeEntry K borrows (snd entry))"
  using assms
proof (induction entries arbitrary: active)
  case (Cons e entries)
  then obtain mid where "quotaActive K borrows e active = Inr mid" "foldE (quotaActive K borrows) entries mid = Inr active'"
    by (auto simp: bindE_Inr_iff)
  then show ?case using Cons.IH [of mid] quotaActive_Inr [of K borrows e active mid] by auto
qed simp

text \<open>What an object outside the pool must not have: reservations or active quotas on a flavor of the pool.\<close>

definition outsidePool :: "'q::linordered_ab_group_add kube \<Rightarrow> (string \<Rightarrow> bool res) \<Rightarrow> bool \<Rightarrow> kobj \<Rightarrow> bool" where
  "outsidePool K overlaps isQueue object \<longleftrightarrow>
     (isQueue \<longrightarrow> (\<exists>reservations. clusterQueueReservations K object = Inr reservations \<and>
        (\<forall>(key, total) \<in> set reservations. 0 < total \<longrightarrow> overlaps (fst (snd (cut key (CHR 0x00)))) = Inr False))) \<and>
     (\<exists>cohort quotas. nestedStringOrEmpty K (oObject object) [''spec'', ''cohortName''] = Inr cohort \<and>
        clusterQueueQuotaObjects K object = Inr quotas \<and>
        (\<forall>(flavor, entries) \<in> set quotas. (\<exists>entry \<in> set entries. activeEntry K (isQueue \<and> cohort \<noteq> []) (snd entry)) \<longrightarrow>
           overlaps flavor = Inr False))"

lemma refuseReservations_Inr:
  assumes "refuseReservations K overlaps object = Inr ()"
  obtains reservations where "clusterQueueReservations K object = Inr reservations"
    "\<forall>(key, total) \<in> set reservations. 0 < total \<longrightarrow> overlaps (fst (snd (cut key (CHR 0x00)))) = Inr False"
proof -
  obtain reservations where r: "clusterQueueReservations K object = Inr reservations"
    using assms by (auto simp: refuseReservations_def bindE_Inr_iff)
  have "\<forall>(key, total) \<in> set reservations. 0 < total \<longrightarrow> overlaps (fst (snd (cut key (CHR 0x00)))) = Inr False"
    using assms by (auto simp: refuseReservations_def r foldE_check refuseOverlap_iff case_prod_unfold Let_def not_le split: if_splits)
  then show ?thesis using r that by blast
qed

lemma refuseBudgets_Inr:
  assumes "refuseBudgets K overlaps borrows object = Inr ()"
  obtains quotas where "clusterQueueQuotaObjects K object = Inr quotas"
    "\<forall>(flavor, entries) \<in> set quotas. (\<exists>entry \<in> set entries. activeEntry K borrows (snd entry)) \<longrightarrow> overlaps flavor = Inr False"
proof -
  obtain quotas where q: "clusterQueueQuotaObjects K object = Inr quotas"
    using assms by (auto simp: refuseBudgets_def bindE_Inr_iff)
  have "overlaps (fst e) = Inr False" if e: "e \<in> set quotas" "\<exists>entry \<in> set (snd e). activeEntry K borrows (snd entry)" for e
  proof -
    obtain active where a: "foldE (quotaActive K borrows) (snd e) False = Inr active"
      "(if \<not> active then Inr () else refuseOverlap overlaps (fst e)
         (Errorf ''%s %q flavor %q budget overlaps exclusive capacity pool'' [oKind object, oName object, fst e])) = Inr ()"
      using assms e(1) by (auto simp: refuseBudgets_def q foldE_check bindE_Inr_iff)
    then have active using quotaActives [OF a(1)] e(2) by blast
    then show ?thesis using a(2) by (simp add: refuseOverlap_iff)
  qed
  then show ?thesis using q that by fastforce
qed

lemma validateCapacityPoolObject_outside:
  assumes "validateCapacityPoolObject K isQueue teamName None overlaps object = Inr ()"
  shows "outsidePool K overlaps isQueue object"
proof -
  obtain cohort where c: "nestedStringOrEmpty K (oObject object) [''spec'', ''cohortName''] = Inr cohort"
    "(if isQueue then refuseReservations K overlaps object else Inr ()) = Inr ()"
    "refuseBudgets K overlaps (isQueue \<and> cohort \<noteq> []) object = Inr ()"
    using assms by (auto simp: validateCapacityPoolObject_def bindE_Inr_iff split: if_splits)
  obtain quotas where "clusterQueueQuotaObjects K object = Inr quotas"
    "\<forall>(flavor, entries) \<in> set quotas. (\<exists>entry \<in> set entries. activeEntry K (isQueue \<and> cohort \<noteq> []) (snd entry)) \<longrightarrow> overlaps flavor = Inr False"
    by (rule refuseBudgets_Inr [OF c(3)])
  moreover have "\<exists>reservations. clusterQueueReservations K object = Inr reservations \<and>
      (\<forall>(key, total) \<in> set reservations. 0 < total \<longrightarrow> overlaps (fst (snd (cut key (CHR 0x00)))) = Inr False)" if isQueue
  proof -
    have "refuseReservations K overlaps object = Inr ()" using c(2) that by simp
    then show ?thesis by (rule refuseReservations_Inr) blast
  qed
  ultimately show ?thesis using c(1) by (auto simp: outsidePool_def)
qed

text \<open>
  C23. The pool of a team is exclusive: when applying it changes the cluster, no other team has
  a quota, no ClusterQueue outside the pool a reservation or a usable quota, and no other
  Cohort a quota on a flavor whose nodes belong to the pool; and the queues of the pool's
  workspaces belong to these workspaces.\<close>

theorem capacity_pool_exclusive:
  assumes "applyCapacityPool K A cluster team w = (err, w')" and "w' \<noteq> w"
    and "aTeams A w (tmNamespace team) = Inr teams"
    and "aList A w clusterQueueKind = Inr queues" and "aList A w cohortKind = Inr cohorts"
  shows "\<exists>inventory selected. discoveredPoolInventory K A w cluster = Inr inventory \<and> capacityPoolWorkspaces K A w team = Inr selected \<and>
    (\<forall>candidate \<in> set teams. tmName candidate \<noteq> tmName team \<longrightarrow>
       (\<forall>q \<in> set (tmQuota candidate). qNominal q \<noteq> 0 \<longrightarrow> poolOverlaps K A w inventory (qFlavor q) = Inr False)) \<and>
    (\<forall>queue \<in> set queues. case gm_lookup selected (oName queue) of
       None \<Rightarrow> outsidePool K (poolOverlaps K A w inventory) True queue
     | Some workspace \<Rightarrow> authoritativeWorkspaceClusterQueue queue workspace = Inr True) \<and>
    (\<forall>cohort \<in> set cohorts. oName cohort \<noteq> teamCohortName K (tmName team) \<longrightarrow>
       outsidePool K (poolOverlaps K A w inventory) False cohort)"
proof -
  obtain inventory selected where plan: "discoveredPoolInventory K A w cluster = Inr inventory" "capacityPoolWorkspaces K A w team = Inr selected"
    and v: "validateCapacityPoolConflicts K A w team selected inventory = Inr ()"
    using assms(1,2) by (auto simp: applyCapacityPool_def withRes_def capacityPoolPlan_def bindE_Inr_iff split: sum.splits if_splits)
  let ?overlaps = "poolOverlaps K A w inventory"
  have teams: "refuseTeamBudgets ?overlaps (tmName team) teams = Inr ()"
    and queue: "\<forall>queue \<in> set queues. validateCapacityPoolObject K True (tmName team) (gm_lookup selected (oName queue)) ?overlaps queue = Inr ()"
    and cohort: "\<forall>cohort \<in> set cohorts. oName cohort \<noteq> teamCohortName K (tmName team) \<longrightarrow>
      validateCapacityPoolObject K False (tmName team) None ?overlaps cohort = Inr ()"
    using v assms(3-5) by (auto simp: validateCapacityPoolConflicts_def bindE_Inr_iff foldE_check Let_def)
  have "?overlaps (qFlavor q) = Inr False"
    if "candidate \<in> set teams" "tmName candidate \<noteq> tmName team" "q \<in> set (tmQuota candidate)" "qNominal q \<noteq> 0" for candidate q
  proof -
    have "foldE (\<lambda>quota u. if qNominal quota = 0 then Inr u
        else refuseOverlap ?overlaps (qFlavor quota) (Errorf ''team %q budget overlaps exclusive capacity pool'' [tmName candidate]))
        (tmQuota candidate) () = Inr ()"
      using teams that(1,2) by (auto simp: refuseTeamBudgets_def foldE_check split: if_splits)
    then show ?thesis using that(3,4) by (auto simp: foldE_check refuseOverlap_iff)
  qed
  moreover have "case gm_lookup selected (oName q) of
       None \<Rightarrow> outsidePool K ?overlaps True q
     | Some workspace \<Rightarrow> authoritativeWorkspaceClusterQueue q workspace = Inr True" if q: "q \<in> set queues" for q
  proof (cases "gm_lookup selected (oName q)")
    case None
    then show ?thesis using queue q validateCapacityPoolObject_outside by fastforce
  next
    case (Some workspace)
    then have "validateCapacityPoolObject K True (tmName team) (Some workspace) ?overlaps q = Inr ()" using queue q by metis
    then show ?thesis using Some by (auto simp: validateCapacityPoolObject_def checkPoolQueue_def bindE_Inr_iff split: if_splits)
  qed
  ultimately show ?thesis using plan cohort validateCapacityPoolObject_outside by blast
qed

definition poolTeam :: "int tauTeam" where
  "poolTeam = exampleTeam\<lparr>tmQuota := []\<rparr>"

definition exclusiveStore :: "int store" where
  "exclusiveStore = poolStore\<lparr>stTeams := [poolTeam],
     stObjects := [desiredDiscoveredGPUFlavor \<lparr>dfName = ''taugrid-gpu-h200'', dfClass = ''h200'', dfCapacity = 0 :: int, dfHostSlots = 0, dfNodeLabels = []\<rparr>,
       desiredDiscoveredGPUFlavor \<lparr>dfName = ''a100'', dfClass = ''a100'', dfCapacity = 0 :: int, dfHostSlots = 0, dfNodeLabels = []\<rparr>,
       exampleQueue]\<rparr>"

theorem capacity_pool_exclusive_witness:
  "fst (applyCapacityPool refKube storeApi exampleCluster poolTeam exclusiveStore) = None \<and>
   (\<exists>inventory. discoveredPoolInventory refKube storeApi exclusiveStore exampleCluster = Inr inventory \<and>
      outsidePool refKube (poolOverlaps refKube storeApi exclusiveStore inventory) True exampleQueue)"
proof -
  let ?run = "applyCapacityPool refKube storeApi exampleCluster poolTeam exclusiveStore"
  have ok: "fst ?run = None" by code_simp
  have "length (stObjects (snd ?run)) = 4" by code_simp
  then have changed: "snd ?run \<noteq> exclusiveStore" by (auto simp: exclusiveStore_def)
  have run: "?run = (fst ?run, snd ?run)" by simp
  have teams: "aTeams storeApi exclusiveStore (tmNamespace poolTeam) = Inr [poolTeam]"
    by (simp add: store_defs exclusiveStore_def poolTeam_def)
  have queues: "aList storeApi exclusiveStore clusterQueueKind = Inr [exampleQueue]" by code_simp
  have cohorts: "aList storeApi exclusiveStore cohortKind = Inr []" by code_simp
  have selected: "capacityPoolWorkspaces refKube storeApi exclusiveStore poolTeam = Inr []" by code_simp
  from capacity_pool_exclusive [OF run changed teams queues cohorts] selected ok show ?thesis by auto
qed

end
