(* ===== verification/Shared_Pool.thy ===== *)
theory Shared_Pool
  imports Capacity_Props
begin

text \<open>
  The shared pool of all teams (\<open>shared_team_pool.go\<close>): fixed guarantees of the teams and a
  static spare out of the discovered capacity, under one parent Cohort. A failed
  reconciliation holds every workspace queue. The namespace of the controller is the
  argument \<open>ns\<close>; the reads before the first write are \<open>planSharedPool\<close>.
\<close>

section \<open>Operations\<close>

definition quotaNominals :: "'q tauResourceQuota list \<Rightarrow> (string, 'q) gomap" where
  "quotaNominals quotas = fold (\<lambda>quota. gm_set (quotaKey quota) (qNominal quota)) quotas []"

definition addQuotaQuantity :: "(string, 'q::linordered_ab_group_add) gomap \<Rightarrow> string \<Rightarrow> 'q \<Rightarrow> (string, 'q) gomap" where
  "addQuotaQuantity values key quantity = gm_set key (gm_get 0 values key + quantity) values"

definition validateSharedPoolOwner :: "kobj \<Rightarrow> string \<Rightarrow> string \<Rightarrow> string \<Rightarrow> unit res" where
  "validateSharedPoolOwner object label name uid =
     (if gm_get [] (oLabels object) labelManagedBy \<noteq> labelManagedByValue \<or> gm_get [] (oLabels object) label \<noteq> name \<or>
         gm_get [] (oAnnotations object) annotationOwnerUID \<noteq> uid
      then Inl (Errorf ''%s %q does not have authoritative shared quota ownership'' [oKind object, oName object])
      else Inr ())"

subsection \<open>Holding queues\<close>

definition holdQueue :: "'q kube \<Rightarrow> ('q, 'w) api \<Rightarrow> 'q tauWorkspace \<Rightarrow> 'w \<Rightarrow> kerr option \<times> 'w" where
  "holdQueue K A workspace w =
     (case getQueue A w (workspaceClusterQueueName K (wsName workspace)) of
        Inl err \<Rightarrow> (ignoreNotFound err, w)
      | Inr queue \<Rightarrow>
          withRes (authoritativeWorkspaceClusterQueue queue workspace) w (\<lambda>owned.
          if \<not> owned then (None, w)
          else withRes (nestedStringOrEmpty K (oObject queue) [''spec'', ''stopPolicy'']) w (\<lambda>policy.
               if policy = ''Hold'' \<or> policy = ''HoldAndDrain'' then (None, w)
               else withRes (kSetNestedField K (oObject queue) (JString ''Hold'') [''spec'', ''stopPolicy'']) w (\<lambda>object.
                    aUpdate A (queue\<lparr>oObject := object,
                                    oAnnotations := gm_set annotationSharedQuotaHold ''true'' (oAnnotations queue)\<rparr>) w))))"

definition holdSharedTeamQueues :: "'q kube \<Rightarrow> ('q, 'w) api \<Rightarrow> string \<Rightarrow> 'w \<Rightarrow> kerr option \<times> 'w" where
  "holdSharedTeamQueues K A ns w =
     (case aWorkspaces A w ns of
        Inl err \<Rightarrow> (Some err, w)
      | Inr workspaces \<Rightarrow>
          fold (\<lambda>workspace acc. let r = holdQueue K A workspace (snd acc) in (joinErrors (fst acc) (fst r), snd r))
            workspaces (None, w))"

subsection \<open>Declared keys\<close>

definition declareQuotas :: "'q tauTeam \<Rightarrow> string goset \<Rightarrow> string goset" where
  "declareQuotas team declared = fold (\<lambda>quota. gs_add (quotaKey quota)) (tmQuota team) declared"

definition declareTeam ::
  "'q::linordered_ab_group_add kube \<Rightarrow> ('q, 'w) api \<Rightarrow> 'w \<Rightarrow> 'q tauTeam \<Rightarrow> string goset \<Rightarrow> (string goset) res" where
  "declareTeam K A w team declared =
     (case getCohort A w (teamCohortName K (tmName team)) of
        Inr cohort \<Rightarrow>
          bindE (validateSharedPoolOwner cohort labelTeam (tmName team) (tmUID team)) (\<lambda>_.
          bindE (clusterQueueNominalQuota K cohort) (\<lambda>current.
            Inr (declareQuotas team
                   (fold (\<lambda>entry s. if snd entry = 0 then gs_add (fst entry) s else s) current declared))))
      | Inl err \<Rightarrow>
          if \<not> isNotFound err then Inl err
          else if tmDeletionTimestamp team \<noteq> None then Inr declared
          else Inr (declareQuotas team declared))"

subsection \<open>The allocation of one team\<close>

text \<open>The applied quota of a team; \<open>None\<close> for a deleting team without a Cohort, which is skipped.\<close>

definition teamCurrent ::
  "'q::linordered_ab_group_add kube \<Rightarrow> ('q, 'w) api \<Rightarrow> 'w \<Rightarrow> 'q tauTeam \<Rightarrow> ((string, 'q) gomap option) res" where
  "teamCurrent K A w team =
     (case getCohort A w (teamCohortName K (tmName team)) of
        Inr cohort \<Rightarrow>
          bindE (validateSharedPoolOwner cohort labelTeam (tmName team) (tmUID team)) (\<lambda>_.
          bindE (clusterQueueNominalQuota K cohort) (\<lambda>current.
          if gm_get [] (oAnnotations cohort) annotationCapacityPool = ''true'' \<and> list_ex (\<lambda>(_, quantity). quantity > 0) current
          then Inl (Errorf ''team %q retains an exclusive capacity budget; drain and zero it before migration'' [tmName team])
          else bindE (nestedStringOrEmpty K (oObject cohort) [''spec'', ''parentName'']) (\<lambda>parent.
               if parent \<noteq> [] \<and> parent \<noteq> sharedTeamCohortName
               then Inl (Errorf ''team %q Cohort belongs to another parent'' [tmName team])
               else Inr (Some current))))
      | Inl err \<Rightarrow>
          if \<not> isNotFound err then Inl err
          else if tmDeletionTimestamp team \<noteq> None then Inr None
          else Inr (Some []))"

definition requestQuota ::
  "(string, 'q::linordered_ab_group_add) gomap \<Rightarrow> string \<Rightarrow> 'q tauResourceQuota \<Rightarrow> (string, 'q tauResourceQuota) gomap \<Rightarrow>
     ((string, 'q tauResourceQuota) gomap) res" where
  "requestQuota capacity teamName quota requested =
     (if \<exists>limit \<in> set_option (qLending quota). limit > qNominal quota
      then Inl (Errorf ''team %q lending limit exceeds its guarantee'' [teamName])
      else if gm_lookup capacity (quotaKey quota) = None
      then Inl (Errorf ''team %q quota %q is outside discovered capacity'' [teamName, quotaKey quota])
      else Inr (gm_set (quotaKey quota) quota requested))"

definition desiredQuota :: "(string, 'q tauResourceQuota) gomap \<Rightarrow> 'q::zero tauResourceQuota \<Rightarrow> 'q tauResourceQuota" where
  "desiredQuota requested pool =
     (case gm_lookup requested (quotaKey pool) of
        Some quota \<Rightarrow> quota
      | None \<Rightarrow> \<lparr>qFlavor = qFlavor pool, qResource = qResource pool, qNominal = 0, qBorrowing = None, qLending = None\<rparr>)"

record 'q sharedTeamAllocation =
  saTeam :: "'q tauTeam"
  saDesired :: "'q tauResourceQuota list"

text \<open>The loop over the teams: the allocated quantities and the allocations so far.\<close>

definition allocateTeam ::
  "'q::linordered_ab_group_add kube \<Rightarrow> ('q, 'w) api \<Rightarrow> 'w \<Rightarrow> (string, 'q) gomap \<Rightarrow> 'q tauResourceQuota list \<Rightarrow> 'q tauTeam \<Rightarrow>
     (string, 'q) gomap \<times> 'q sharedTeamAllocation list \<Rightarrow> ((string, 'q) gomap \<times> 'q sharedTeamAllocation list) res" where
  "allocateTeam K A w capacity poolQuotas team acc =
     (if tmUID team = [] \<or> teamFinalizer \<notin> set (tmFinalizers team) \<or> length (tmQuota team) = 0
      then Inl (Errorf ''shared capacity team %q requires its UID, cleanup finalizer and explicit spec.quota'' [tmName team])
      else bindE (validateQuotaValues (tmQuota team)) (\<lambda>_.
           bindE (teamCurrent K A w team) (\<lambda>found.
           case found of
             None \<Rightarrow> Inr acc
           | Some current \<Rightarrow>
               bindE (foldE (requestQuota capacity (tmName team)) (tmQuota team) []) (\<lambda>requested.
                 let desired = map (desiredQuota requested) poolQuotas;
                     allocated = fold (\<lambda>pool values. addQuotaQuantity values (quotaKey pool) (qNominal (desiredQuota requested pool)))
                                   poolQuotas (fst acc)
                 in if list_ex (\<lambda>(key, quantity). gm_lookup capacity key = None \<and> quantity > 0) current
                    then Inl (Errorf ''team %q has an applied quota outside discovered capacity'' [tmName team])
                    else Inr (allocated, snd acc @ [\<lparr>saTeam = team, saDesired = desired\<rparr>])))))"

subsection \<open>Workspaces and their reservations\<close>

definition selectWorkspace ::
  "'q::linordered_ab_group_add kube \<Rightarrow> ('q, 'w) api \<Rightarrow> 'w \<Rightarrow> (string, 'q tauTeam) gomap \<Rightarrow> 'q tauWorkspace \<Rightarrow>
     (string, 'q tauWorkspace) gomap \<Rightarrow> ((string, 'q tauWorkspace) gomap) res" where
  "selectWorkspace K A w teamNames workspace selected =
     (case wsTeamRef workspace of
        None \<Rightarrow> Inr selected
      | Some teamRef \<Rightarrow>
          let refused = Inl (Errorf ''shared capacity workspace %q requires an existing team, a UID, its cleanup finalizer and no spec.quota'' [wsName workspace])
          in case gm_lookup teamNames teamRef of
               None \<Rightarrow> refused
             | Some team \<Rightarrow>
                 if length (wsQuota workspace) \<noteq> 0 \<or> wsUID workspace = [] \<or> workspaceFinalizer \<notin> set (wsFinalizers workspace)
                 then refused
                 else bindE (if tmDeletionTimestamp team = None then Inr ()
                             else bindE (appliedWorkspaceQueue K A w workspace) (\<lambda>(cohort, _, _, _).
                                  if cohort \<noteq> teamCohortName K (tmName team)
                                  then Inl (Errorf ''workspace %q cannot join deleting team %q'' [wsName workspace, tmName team])
                                  else Inr ()))
                        (\<lambda>_. Inr (gm_set (workspaceClusterQueueName K (wsName workspace)) workspace selected)))"

record 'q poolUsage =
  puTotal :: "(string, 'q) gomap"
  puTeams :: "(string, (string, 'q) gomap) gomap"
  puHasQueues :: bool

definition addUsage :: "(string, 'q::linordered_ab_group_add) gomap \<Rightarrow> (string, 'q) gomap \<Rightarrow> (string, 'q) gomap" where
  "addUsage usage values = fold (\<lambda>entry m. addQuotaQuantity m (fst entry) (snd entry)) usage values"

definition reserveWorkspace ::
  "'q::linordered_ab_group_add kube \<Rightarrow> ('q, 'w) api \<Rightarrow> 'w \<Rightarrow> string \<times> 'q tauWorkspace \<Rightarrow> 'q poolUsage \<Rightarrow> 'q poolUsage res" where
  "reserveWorkspace K A w entry acc =
     (case getQueue A w (fst entry) of
        Inl err \<Rightarrow> if isNotFound err then Inr acc else Inl err
      | Inr queue \<Rightarrow>
          bindE (clusterQueueReservations K queue) (\<lambda>usage.
            case wsTeamRef (snd entry) of
              None \<Rightarrow> Inl nilDereference
            | Some team \<Rightarrow>
                Inr \<lparr>puTotal = addUsage usage (puTotal acc),
                     puTeams = gm_set team (addUsage usage (gm_get [] (puTeams acc) team)) (puTeams acc),
                     puHasQueues = True\<rparr>))"

subsection \<open>Conflicts\<close>

definition nodeHasLabels :: "'q knode \<Rightarrow> (string, string) gomap \<Rightarrow> bool" where
  "nodeHasLabels node desired = list_all (\<lambda>(key, value). gm_lookup (ndLabels node) key = Some value) desired"

definition sharedOverlaps ::
  "'q::linordered_ab_group_add kube \<Rightarrow> ('q, 'w) api \<Rightarrow> 'w \<Rightarrow> 'q capacityPoolInventory \<Rightarrow> string \<Rightarrow> bool res" where
  "sharedOverlaps K A w inventory name =
     (if list_ex (\<lambda>quota. qFlavor quota = name) (cpQuotas inventory) then Inr True
      else bindE (aGet A w resourceFlavorKind [] name) (\<lambda>flavor.
           bindE (flavorSelector K flavor) (\<lambda>selector.
             Inr (list_ex (\<lambda>node. linuxNode node \<and> nodeClass node \<noteq> [] \<and> nodeGPUs node > 0 \<and> capacityNodeEligible node \<and>
                                  nodeHasLabels node selector) (cpNodes inventory)))))"

definition checkSharedQueue ::
  "'q::linordered_ab_group_add kube \<Rightarrow> (string, 'q tauTeam) gomap \<Rightarrow> 'q tauWorkspace \<Rightarrow> kobj \<Rightarrow> unit res" where
  "checkSharedQueue K teams workspace object =
     bindE (authoritativeWorkspaceClusterQueue object workspace) (\<lambda>owned.
     if \<not> owned \<or> gm_get [] (oAnnotations object) annotationOwnerUID \<noteq> wsUID workspace
     then Inl (Errorf ''shared workspace queue %q has no authoritative ownership'' [oName object])
     else bindE (clusterQueueNominalQuota K object) (\<lambda>nominals.
     if list_ex (\<lambda>(_, quantity). quantity \<noteq> 0) nominals
     then Inl (Errorf ''workspace queue %q has a duplicate nominal budget; drain and zero it before migration'' [oName object])
     else bindE (nestedStringOrEmpty K (oObject object) [''spec'', ''cohortName'']) (\<lambda>cohort.
     let appliedTeam = gm_get [] (oLabels object) labelTeam in
     if cohort \<noteq> [] \<and> (gm_lookup teams appliedTeam = None \<or> cohort \<noteq> teamCohortName K appliedTeam)
     then Inl (Errorf ''workspace queue %q belongs to an external Cohort'' [oName object])
     else if gm_get [] (oLabels object) labelDiscoverGPUFlavors = ''true''
     then Inl (Errorf ''shared workspace queue %q enables legacy discovery'' [oName object])
     else Inr ())))"

definition checkExternal ::
  "'q::linordered_ab_group_add kube \<Rightarrow> (string, 'q tauTeam) gomap \<Rightarrow> bool \<Rightarrow> (string \<Rightarrow> bool res) \<Rightarrow> kobj \<Rightarrow> unit res" where
  "checkExternal K teams isQueue overlaps object =
     bindE (nestedStringOrEmpty K (oObject object) [''spec'', if isQueue then ''cohortName'' else ''parentName'']) (\<lambda>parent.
     if list_ex (\<lambda>(name, _). parent = teamCohortName K name) teams \<or> parent = sharedTeamCohortName
     then Inl (Errorf ''%s %q is an external member of the shared hierarchy'' [oKind object, oName object])
     else validateCapacityPoolObject K isQueue [] None overlaps object)"

definition checkSharedObject ::
  "'q::linordered_ab_group_add kube \<Rightarrow> (string, 'q tauTeam) gomap \<Rightarrow> (string, 'q tauWorkspace) gomap \<Rightarrow> (string \<Rightarrow> bool res) \<Rightarrow>
     bool \<Rightarrow> kobj \<Rightarrow> unit res" where
  "checkSharedObject K teams workspaces overlaps isQueue object =
     (if \<not> isQueue \<and> oName object = sharedTeamCohortName
      then bindE (nestedStringOrEmpty K (oObject object) [''spec'', ''parentName'']) (\<lambda>parent.
             if parent \<noteq> [] then Inl (Errorf ''shared team root must not have a parent'' []) else Inr ())
      else if \<not> isQueue \<and> (\<exists>team \<in> set_option (gm_lookup teams (gm_get [] (oLabels object) labelTeam)). oName object = teamCohortName K (tmName team))
      then Inr ()
      else case (if isQueue then gm_lookup workspaces (oName object) else None) of
             Some workspace \<Rightarrow> checkSharedQueue K teams workspace object
           | None \<Rightarrow> checkExternal K teams isQueue overlaps object)"

definition validateSharedPoolConflicts ::
  "'q::linordered_ab_group_add kube \<Rightarrow> ('q, 'w) api \<Rightarrow> 'w \<Rightarrow> (string, 'q tauTeam) gomap \<Rightarrow> (string, 'q tauWorkspace) gomap \<Rightarrow>
     'q capacityPoolInventory \<Rightarrow> unit res" where
  "validateSharedPoolConflicts K A w teams workspaces inventory =
     foldE (\<lambda>isQueue u.
       bindE (aList A w (if isQueue then clusterQueueKind else cohortKind)) (\<lambda>objects.
         foldE (\<lambda>object u. checkSharedObject K teams workspaces (sharedOverlaps K A w inventory) isQueue object) objects u))
       [True, False] ()"

subsection \<open>The plan\<close>

record 'q sharedPoolPlan =
  plAllocations :: "'q sharedTeamAllocation list"
  plSelected :: "(string, 'q tauWorkspace) gomap"
  plQuotas :: "'q tauResourceQuota list"
  plHasQueues :: bool

definition checkTeamMaximums :: "(string, (string, 'q::linordered_ab_group_add) gomap) gomap \<Rightarrow> 'q sharedTeamAllocation list \<Rightarrow> unit res" where
  "checkTeamMaximums teamReservations allocs =
     foldE (\<lambda>allocation u.
       foldE (\<lambda>quota u.
         case qBorrowing quota of
           None \<Rightarrow> Inr u
         | Some borrowing \<Rightarrow>
             if gm_get 0 (gm_get [] teamReservations (tmName (saTeam allocation))) (quotaKey quota) > qNominal quota + borrowing
             then Inl (Errorf ''team %q maximum would fall below active reservations; wait for borrowed jobs to finish'' [tmName (saTeam allocation)])
             else Inr u) (saDesired allocation) u) allocs ()"

definition checkReservations :: "(string, 'q::linordered_ab_group_add) gomap \<Rightarrow> (string, 'q) gomap \<Rightarrow> unit res" where
  "checkReservations capacity reservations =
     foldE (\<lambda>entry u.
       if snd entry > gm_get 0 capacity (fst entry)
       then Inl (Errorf ''active reservations exceed discovered capacity for %q; admitted jobs are retained'' [fst entry])
       else Inr u) reservations ()"

definition checkAllocated :: "(string, 'q::linordered_ab_group_add) gomap \<Rightarrow> (string, 'q) gomap \<Rightarrow> 'q tauResourceQuota list \<Rightarrow> unit res" where
  "checkAllocated capacity allocated poolQuotas =
     foldE (\<lambda>pool u.
       if gm_get 0 allocated (quotaKey pool) > gm_get 0 capacity (quotaKey pool)
       then Inl (Errorf ''fixed team guarantees plus static spare exceed discovered capacity for %q; quotas are unchanged'' [quotaKey pool])
       else Inr u) poolQuotas ()"

definition poolKeys ::
  "'q::linordered_ab_group_add kube \<Rightarrow> ('q, 'w) api \<Rightarrow> 'w \<Rightarrow> (string, 'q) gomap \<Rightarrow> 'q tauTeam list \<Rightarrow> (string list) res" where
  "poolKeys K A w spare teams =
     bindE (foldE (declareTeam K A w) teams (fold (\<lambda>(key, _). gs_add key) spare [])) (\<lambda>declared. Inr (sort declared))"

definition sharedRoot :: "'q::linordered_ab_group_add kube \<Rightarrow> ('q, 'w) api \<Rightarrow> 'w \<Rightarrow> 'q tauCluster \<Rightarrow> ((string, 'q) gomap) res" where
  "sharedRoot K A w cluster =
     (if clCapacityTeamRef cluster \<noteq> None \<or> clManagementMode cluster \<noteq> clusterManagementModeReconcile \<or> clDeleting cluster \<or> clUID cluster = []
      then Inl (Errorf ''shared team quotas require a non-deleting TauCluster with a UID in Reconcile mode and no capacityTeamRef'' [])
      else bindE (mapErr (Wrapped ''provide the platform-owned static Cohort %q before enabling shared quotas'' [sharedTeamCohortName])
                    (getCohort A w sharedTeamCohortName)) (\<lambda>rootCohort.
           if gm_get [] (oLabels rootCohort) labelSharedTeamQuotas \<noteq> clName cluster \<or>
              gm_get [] (oLabels rootCohort) labelManagedBy = labelManagedByValue
           then Inl (Errorf ''Cohort %q must be platform-owned static spare, labeled %s=%s, not an automatic TauGrid budget''
                       [oName rootCohort, labelSharedTeamQuotas, clName cluster])
           else sharedTeamSpare K rootCohort))"

definition planSharedPool ::
  "'q::linordered_ab_group_add kube \<Rightarrow> ('q, 'w) api \<Rightarrow> string \<Rightarrow> 'w \<Rightarrow> 'q tauCluster \<Rightarrow> 'q sharedPoolPlan res" where
  "planSharedPool K A ns w cluster =
     bindE (sharedRoot K A w cluster) (\<lambda>spare.
     bindE (discoveredPoolInventory K A w cluster) (\<lambda>inventory.
     bindE (validateFlavors K A w (cpFlavors inventory)) (\<lambda>_.
     bindE (aTeams A w ns) (\<lambda>teams.
     let teams = sort_key tmName teams; capacity = quotaNominals (cpQuotas inventory) in
     bindE (poolKeys K A w spare teams) (\<lambda>keys.
     let poolQuotas = map (\<lambda>key. zeroQuota (key, 0)) keys in
     bindE (mapErr (Wrapped ''shared parent and team declarations have incompatible resource groups'' []) (validateQuotaValues poolQuotas)) (\<lambda>_.
     bindE (foldE (allocateTeam K A w capacity poolQuotas) teams (spare, [])) (\<lambda>(allocated, allocs).
     bindE (aWorkspaces A w ns) (\<lambda>workspaces.
     let teamNames = fold (\<lambda>allocation. gm_set (tmName (saTeam allocation)) (saTeam allocation)) allocs [] in
     bindE (foldE (selectWorkspace K A w teamNames) workspaces []) (\<lambda>selected.
     bindE (validateSharedPoolConflicts K A w teamNames selected inventory) (\<lambda>_.
     bindE (foldE (reserveWorkspace K A w) selected \<lparr>puTotal = [], puTeams = [], puHasQueues = False\<rparr>) (\<lambda>usage.
     bindE (checkTeamMaximums (puTeams usage) allocs) (\<lambda>_.
     bindE (checkReservations capacity (puTotal usage)) (\<lambda>_.
     bindE (checkAllocated capacity allocated poolQuotas) (\<lambda>_.
       Inr \<lparr>plAllocations = allocs, plSelected = selected,
            plQuotas = map (\<lambda>pool. pool\<lparr>qNominal := gm_get 0 allocated (quotaKey pool)\<rparr>) poolQuotas,
            plHasQueues = puHasQueues usage\<rparr>))))))))))))))"

subsection \<open>Writing the Cohorts and the queues\<close>

definition limitEntry :: "'q::zero kube \<Rightarrow> (string, 'q tauResourceQuota) gomap \<Rightarrow> string \<Rightarrow> json \<Rightarrow> json" where
  "limitEntry K byKey flavorName raw =
     (case raw of
        JMap entry \<Rightarrow>
          (case gm_lookup byKey (field entry ''name'' @ nul @ flavorName) of
             None \<Rightarrow> raw
           | Some quota \<Rightarrow>
               let borrowed = (case qBorrowing quota of None \<Rightarrow> entry | Some b \<Rightarrow> gm_set ''borrowingLimit'' (JString (kQuantityString K b)) entry)
               in JMap (case qLending quota of None \<Rightarrow> borrowed | Some l \<Rightarrow> gm_set ''lendingLimit'' (JString (kQuantityString K l)) borrowed))
      | _ \<Rightarrow> raw)"

definition mapField :: "string \<Rightarrow> (jobject \<Rightarrow> json \<Rightarrow> json) \<Rightarrow> json \<Rightarrow> json" where
  "mapField key f raw =
     (case raw of
        JMap m \<Rightarrow> (case gm_lookup m key of Some (JList xs) \<Rightarrow> JMap (gm_set key (JList (map (f m) xs)) m) | _ \<Rightarrow> raw)
      | _ \<Rightarrow> raw)"

definition sharedResourceGroups :: "'q::zero kube \<Rightarrow> 'q tauResourceQuota list \<Rightarrow> json list" where
  "sharedResourceGroups K quotas =
     (let byKey = fold (\<lambda>quota. gm_set (quotaKey quota) quota) quotas []
      in map (mapField ''flavors'' (\<lambda>_. mapField ''resources'' (\<lambda>flavor. limitEntry K byKey (field flavor ''name''))))
           (quotaResourceGroups K quotas False))"

definition desiredSharedCohort :: "'q::zero kube \<Rightarrow> 'q tauTeam \<Rightarrow> 'q tauResourceQuota list \<Rightarrow> kobj res" where
  "desiredSharedCohort K team quotas =
     bindE (assignSpec ''parentName'' (JString sharedTeamCohortName) (desiredTeamCohort K team quotas))
       (assignSpec ''resourceGroups'' (JList (sharedResourceGroups K quotas)))"

definition sameSpec :: "kobj \<Rightarrow> kobj \<Rightarrow> bool" where
  "sameSpec a b \<longleftrightarrow> jnorm (gm_get JNull (oObject a) ''spec'') = jnorm (gm_get JNull (oObject b) ''spec'')"

definition applySharedTeamCohort ::
  "'q::linordered_ab_group_add kube \<Rightarrow> ('q, 'w) api \<Rightarrow> 'q tauTeam \<Rightarrow> 'q tauResourceQuota list \<Rightarrow> bool \<Rightarrow> 'w \<Rightarrow> kerr option \<times> 'w" where
  "applySharedTeamCohort K A team quotas allowCreate w =
     withRes (aTeam A w (tmNamespace team) (tmName team)) w (\<lambda>current.
     if tmUID current \<noteq> tmUID team \<or> tmQuota current \<noteq> tmQuota team \<or> tmDeletionTimestamp current \<noteq> tmDeletionTimestamp team
     then (Some (Errorf ''team %q changed during shared quota accounting; retry reconciliation'' [tmName team]), w)
     else withRes (desiredSharedCohort K team quotas) w (\<lambda>cohort.
          case getCohort A w (oName cohort) of
            Inr existing \<Rightarrow>
              withRes (validateSharedPoolOwner existing labelTeam (tmName team) (tmUID team)) w (\<lambda>_.
              if \<not> sameSpec existing cohort
              then (Some (Errorf ''team %q has an established fixed quota; stop the scheduler and reconcile its Cohort under operator maintenance before changing quotas'' [tmName team]), w)
              else (None, w))
          | Inl err \<Rightarrow>
              if \<not> isNotFound err then (Some err, w)
              else if \<not> allowCreate
              then (Some (Errorf ''cannot create team %q quota in an established hierarchy; stop the scheduler and remove workspace queues under operator maintenance first'' [tmName team]), w)
              else aCreate A cohort w))"

definition applySharedTeamPool ::
  "'q::linordered_ab_group_add kube \<Rightarrow> ('q, 'w) api \<Rightarrow> string \<Rightarrow> 'q tauCluster \<Rightarrow> 'w \<Rightarrow> kerr option \<times> 'w" where
  "applySharedTeamPool K A ns cluster w =
     withRes (planSharedPool K A ns w cluster) w (\<lambda>plan.
       andThen (forEach (\<lambda>allocation. applySharedTeamCohort K A (saTeam allocation) (saDesired allocation) (\<not> plHasQueues plan))
                  (plAllocations plan) w)
         (forEach (\<lambda>entry. reconcileCapacityWorkspace K A (snd entry) (plQuotas plan) True) (sort_key fst (plSelected plan))))"

definition reconcileSharedTeamPool ::
  "'q::linordered_ab_group_add kube \<Rightarrow> ('q, 'w) api \<Rightarrow> string \<Rightarrow> 'q tauCluster \<Rightarrow> 'w \<Rightarrow> kerr option \<times> 'w" where
  "reconcileSharedTeamPool K A ns cluster w =
     (case applySharedTeamPool K A ns cluster w of
        (None, w') \<Rightarrow> (None, w')
      | (Some err, w') \<Rightarrow> let held = holdSharedTeamQueues K A ns w' in (joinErrors (Some err) (fst held), snd held))"

definition reconcileCapacityPool ::
  "'q::linordered_ab_group_add kube \<Rightarrow> ('q, 'w) api \<Rightarrow> string \<Rightarrow> 'q tauCluster \<Rightarrow> 'q tauTeam \<Rightarrow> 'w \<Rightarrow> kerr option \<times> 'w" where
  "reconcileCapacityPool K A ns cluster team w =
     (if clShareTeamQuotas cluster then reconcileSharedTeamPool K A ns cluster w
      else reconcileExclusivePool K A cluster team w)"

end
