(* ===== verification/Shared_Props.thy ===== *)
theory Shared_Props
  imports Shared_Pool
begin

text \<open>
  What the shared pool guarantees: it is never over-committed, and holding it stops admission.
\<close>

section \<open>The capacity of a key\<close>

lemma quotaNominals_allocations: "quotaNominals quotas = allocations quotas"
  by (simp add: quotaNominals_def allocations_def)

lemma cut_nulFree: "nulFree (fst (cut s (CHR 0x00)))"
  by (induction s "CHR 0x00" rule: cut.induct) (auto simp: nulFree_def case_prod_unfold Let_def)

lemma zeroQuota_simps [simp]:
  "nulFree (qResource (zeroQuota entry))" "qNominal (zeroQuota entry) = 0" "qBorrowing (zeroQuota entry) = None" "qLending (zeroQuota entry) = None"
  using cut_nulFree by (simp_all add: zeroQuota_def case_prod_unfold Let_def)

lemma retainKey_keys: "keyAt (retainKey entry b) f r \<Longrightarrow> keyAt b f r \<or> nulFree r"
  using cut_nulFree [of "fst entry"]
  by (auto simp: retainKey_def Let_def case_prod_unfold gm_get_def split: if_splits option.splits)

lemma retainKeys_keys: "keyAt (fold retainKey entries b) f r \<Longrightarrow> keyAt b f r \<or> nulFree r"
proof (induction entries arbitrary: b)
  case (Cons e entries)
  then show ?case using retainKey_keys [of e b f r] by auto
qed simp

lemma inventory_nulFree:
  assumes "discoveredPoolInventory K A w cluster = Inr inventory" "aNodes A w (clNodeSelector cluster) = Inr nodes"
    and "\<forall>node \<in> set nodes. gm_inv (ndAllocatable node) \<and> (\<forall>r \<in> set (gm_keys (ndAllocatable node)). nulFree r)"
    and q: "q \<in> set (cpQuotas inventory)"
  shows "nulFree (qResource q)"
proof -
  obtain acc previous where acc: "foldE (nodeStep K (clShareTeamQuotas cluster)) nodes ([], []) = Inr acc"
    and inv: "cpQuotas inventory = poolQuotasOf (fold retainKey previous (fst acc))"
    using assms(1,2) by (auto simp: discoveredPoolInventory_def bindE_Inr_iff Let_def)
  let ?b = "fold retainKey previous (fst acc)"
  have b: "gm_inv ?b" by (rule retainKeys_totals(4)) (rule nodeSteps_inv [OF acc], simp)
  have node: "nulFree r" if "keyAt (fst acc) f r" for f r
    using nodeSteps_totals [OF acc, of f r] that assms(3) by (auto simp: gm_key_iff)
  show ?thesis
  proof (cases "qResource q = nvidiaGPUResourceName")
    case True
    then show ?thesis by (simp add: nvidiaGPUResourceName_def nulFree_def)
  next
    case False
    then obtain f resources where "(f, resources) \<in> set ?b" "qResource q \<in> set (gm_keys resources)"
      using q unfolding inv poolQuotasOf_mem by (auto simp: poolResources_spec(3))
    then have "keyAt ?b f (qResource q)" using gm_lookup_in [OF b] by (simp add: gm_get_def gm_key_iff)
    from retainKeys_keys [OF this] node show ?thesis by blast
  qed
qed

lemma inventory_capacity:
  assumes "discoveredPoolInventory K A w cluster = Inr inventory" "aNodes A w (clNodeSelector cluster) = Inr nodes"
    and "\<forall>node \<in> set nodes. gm_inv (ndAllocatable node) \<and> (\<forall>r \<in> set (gm_keys (ndAllocatable node)). nulFree r)"
    and "nulFree r"
  shows "gm_get 0 (quotaNominals (cpQuotas inventory)) (r @ nul @ f) = (\<Sum>node \<leftarrow> nodes. nodeSupply K f r node)"
    and "0 \<le> (\<Sum>node \<leftarrow> nodes. nodeSupply K f r node)"
proof -
  have inv: "\<forall>node \<in> set nodes. gm_inv (ndAllocatable node)" using assms(3) by blast
  obtain b where b: "cpQuotas inventory = poolQuotasOf b" "cpNodes inventory = nodes" "gm_inv b"
      "\<And>f r. totalAt b f r = (\<Sum>node \<leftarrow> nodes. nodeSupply K f r node)" "\<And>f r. 0 \<le> totalAt b f r"
      "\<And>f r node. node \<in> set nodes \<Longrightarrow> suppliesFlavor K f node \<Longrightarrow> gm_lookup (ndAllocatable node) r \<noteq> None \<Longrightarrow>
         f \<in> set (gm_keys b) \<and> r \<in> set (poolResources b)"
    by (rule inventory_quotas [OF assms(1,2) inv]) meson
  let ?quotas = "cpQuotas inventory"
  have free: "\<forall>q \<in> set ?quotas. nulFree (qResource q)" using inventory_nulFree [OF assms(1-3)] by blast
  have "distinct (map (\<lambda>q. (qFlavor q, qResource q)) ?quotas)"
    using poolQuotasOf_ok [OF b(3,5)] by (simp add: b(1) quotas_ok_def)
  then have keys: "distinct (map quotaKey ?quotas)" by (rule quotaKeys_distinct [OF _ free])
  note lookup = allocations_lookup [OF keys, of "r @ nul @ f"]
  show "0 \<le> (\<Sum>node \<leftarrow> nodes. nodeSupply K f r node)" using b(4,5) by metis
  show "gm_get 0 (quotaNominals ?quotas) (r @ nul @ f) = (\<Sum>node \<leftarrow> nodes. nodeSupply K f r node)"
  proof (cases "\<exists>q \<in> set ?quotas. qFlavor q = f \<and> qResource q = r")
    case True
    then obtain q where q: "q \<in> set ?quotas" "qFlavor q = f" "qResource q = r" by blast
    have "map_of (map (\<lambda>q. (quotaKey q, qNominal q)) ?quotas) (quotaKey q) = Some (qNominal q)"
      by (rule map_of_is_SomeI) (use keys q in \<open>auto simp: comp_def\<close>)
    then have "map_of (map (\<lambda>q. (quotaKey q, qNominal q)) ?quotas) (r @ nul @ f) = Some (qNominal q)"
      using q(2,3) by (simp add: quotaKey_def)
    moreover have "qNominal q = (\<Sum>node \<leftarrow> nodes. nodeSupply K f r node)" using q b(1,4) by (simp add: poolQuotasOf_mem)
    ultimately show ?thesis using lookup by (simp add: quotaNominals_allocations gm_get_def)
  next
    case False
    have "r @ nul @ f \<notin> quotaKey ` set ?quotas"
    proof
      assume "r @ nul @ f \<in> quotaKey ` set ?quotas"
      then obtain q where "q \<in> set ?quotas" "r @ nul @ f = quotaKey q" by blast
      then show False using False free assms(4)
        quotaKey_inj [of q "\<lparr>qFlavor = f, qResource = r, qNominal = 0, qBorrowing = None, qLending = None\<rparr>"] by (auto simp: quotaKey_def)
    qed
    then have "gm_lookup (allocations ?quotas) (r @ nul @ f) = None" using lookup by (simp add: map_of_eq_None_iff image_comp comp_def)
    moreover have "nodeSupply K f r node = 0" if "node \<in> set nodes" for node
    proof (rule ccontr)
      assume "nodeSupply K f r node \<noteq> 0"
      then have "suppliesFlavor K f node" "gm_lookup (ndAllocatable node) r \<noteq> None"
        by (auto simp: nodeSupply_def gm_get_def split: if_splits option.splits)
      then have "f \<in> set (gm_keys b)" "r \<in> set (poolResources b)" using b(6) that by blast+
      then have "\<lparr>qFlavor = f, qResource = r, qNominal = totalAt b f r, qBorrowing = None, qLending = None\<rparr> \<in> set ?quotas"
        by (simp add: b(1) poolQuotasOf_mem)
      then show False using False by force
    qed
    then have "(\<Sum>node \<leftarrow> nodes. nodeSupply K f r node) = 0" by (induction nodes) simp_all
    ultimately show ?thesis by (simp add: quotaNominals_allocations gm_get_def)
  qed
qed

section \<open>Guarantees and reservations\<close>

lemma addQuotaQuantity_get: "gm_get 0 (addQuotaQuantity values k quantity) key = gm_get 0 values key + (if k = key then quantity else 0)"
  by (simp add: addQuotaQuantity_def)

lemma addQuotaQuantities_get:
  fixes m :: "(string, 'q::linordered_ab_group_add) gomap"
  shows "gm_get 0 (fold (\<lambda>x m. addQuotaQuantity m (k x) (v x)) xs m) key =
    gm_get 0 m key + (\<Sum>x \<leftarrow> xs. if k x = key then v x else 0)"
  by (induction xs arbitrary: m) (simp_all add: addQuotaQuantity_get ac_simps)

lemma addUsage_get:
  assumes "gm_inv usage"
  shows "gm_get 0 (addUsage usage values) key = gm_get 0 values key + gm_get 0 usage key"
proof -
  have "addUsage usage values = addQuantities usage values"
    by (simp add: addUsage_def addQuantities_def addQuotaQuantity_def)
  then show ?thesis using addQuantities_get [OF assms] by simp
qed

text \<open>What a team requests is its quota, the last entry of a key.\<close>

lemma requestQuotas:
  assumes "foldE (requestQuota capacity teamName) quotas requested = Inr requested'"
    and "\<forall>k q. gm_lookup requested k = Some q \<longrightarrow> quotaKey q = k"
    and "\<forall>k. map_option qNominal (gm_lookup requested k) = gm_lookup m k"
  shows "(\<forall>k q. gm_lookup requested' k = Some q \<longrightarrow> quotaKey q = k) \<and>
    (\<forall>k. map_option qNominal (gm_lookup requested' k) = gm_lookup (fold (\<lambda>quota. gm_set (quotaKey quota) (qNominal quota)) quotas m) k)"
  using assms
proof (induction quotas arbitrary: requested m)
  case (Cons quota quotas)
  obtain mid where mid: "requestQuota capacity teamName quota requested = Inr mid" "foldE (requestQuota capacity teamName) quotas mid = Inr requested'"
    using Cons.prems(1) by (auto simp: bindE_Inr_iff)
  have "mid = gm_set (quotaKey quota) quota requested" using mid(1) by (auto simp: requestQuota_def split: if_splits)
  then have step: "foldE (requestQuota capacity teamName) quotas (gm_set (quotaKey quota) quota requested) = Inr requested'" using mid(2) by simp
  show ?case unfolding fold_simps(2)
    by (rule Cons.IH [OF step]) (use Cons.prems(2,3) in \<open>auto split: if_splits\<close>)
qed simp

lemma requestedQuotas:
  assumes "foldE (requestQuota capacity teamName) quotas [] = Inr requested"
  shows "quotaKey (desiredQuota requested pool) = quotaKey pool"
    and "qNominal (desiredQuota requested pool) = gm_get 0 (quotaNominals quotas) (quotaKey pool)"
proof -
  have key: "\<forall>k q. gm_lookup requested k = Some q \<longrightarrow> quotaKey q = k"
    and nominal: "\<forall>k. map_option qNominal (gm_lookup requested k) = gm_lookup (quotaNominals quotas) k"
    using requestQuotas [OF assms, of "[]"] by (simp_all add: quotaNominals_def)
  show "quotaKey (desiredQuota requested pool) = quotaKey pool"
    using key by (auto simp: desiredQuota_def quotaKey_def split: option.split)
  show "qNominal (desiredQuota requested pool) = gm_get 0 (quotaNominals quotas) (quotaKey pool)"
    using nominal [rule_format, of "quotaKey pool"] by (auto simp: desiredQuota_def gm_get_def split: option.split)
qed

text \<open>The invariant of the allocation loop.\<close>

definition allocation_inv ::
  "(string, 'q::linordered_ab_group_add) gomap \<Rightarrow> 'q tauResourceQuota list \<Rightarrow> (string, 'q) gomap \<times> 'q sharedTeamAllocation list \<Rightarrow> bool" where
  "allocation_inv spare poolQuotas acc \<longleftrightarrow>
     (\<forall>pool \<in> set poolQuotas. gm_get 0 (fst acc) (quotaKey pool) =
        gm_get 0 spare (quotaKey pool) + (\<Sum>a \<leftarrow> snd acc. gm_get 0 (quotaNominals (tmQuota (saTeam a))) (quotaKey pool)))"

lemma sum_single:
  fixes v :: "'a \<Rightarrow> 'q::comm_monoid_add"
  assumes "distinct (map k xs)" "x \<in> set xs"
  shows "(\<Sum>y \<leftarrow> xs. if k y = k x then v y else 0) = v x"
  using assms
proof (induction xs)
  case (Cons y ys)
  have zero: "(\<Sum>z \<leftarrow> zs. if k z = c then v z else 0) = 0" if "c \<notin> k ` set zs" for zs c
    using that by (induction zs) auto
  show ?case
  proof (cases "x = y")
    case True
    then show ?thesis using zero [of "k y" ys] Cons.prems by simp
  next
    case False
    then have "k y \<noteq> k x" using Cons.prems by (auto simp: image_iff)
    then show ?thesis using Cons False by simp
  qed
qed simp

lemma allocateTeam_inv:
  assumes "allocateTeam K A w capacity poolQuotas team acc = Inr acc'" "distinct (map quotaKey poolQuotas)"
    and "allocation_inv spare poolQuotas acc"
  shows "allocation_inv spare poolQuotas acc' \<and>
    map saTeam (snd acc') = map saTeam (snd acc) @ (if teamCurrent K A w team = Inr None then [] else [team])"
proof -
  obtain found where found: "teamCurrent K A w team = Inr found"
    using assms(1) by (auto simp: allocateTeam_def bindE_Inr_iff split: if_splits)
  show ?thesis
  proof (cases found)
    case None
    then have "acc' = acc" using assms(1) found by (auto simp: allocateTeam_def bindE_Inr_iff split: if_splits)
    then show ?thesis using assms(3) found None by simp
  next
    case (Some current)
    then obtain requested where r: "foldE (requestQuota capacity (tmName team)) (tmQuota team) [] = Inr requested"
      and acc': "acc' = (fold (\<lambda>pool values. addQuotaQuantity values (quotaKey pool) (qNominal (desiredQuota requested pool))) poolQuotas (fst acc),
          snd acc @ [\<lparr>saTeam = team, saDesired = map (desiredQuota requested) poolQuotas\<rparr>])"
      using assms(1) found by (auto simp: allocateTeam_def bindE_Inr_iff Let_def split: if_splits)
    have "gm_get 0 (fst acc') (quotaKey pool) = gm_get 0 (fst acc) (quotaKey pool) + gm_get 0 (quotaNominals (tmQuota team)) (quotaKey pool)"
      if "pool \<in> set poolQuotas" for pool
      using sum_single [OF assms(2) that, of "\<lambda>p. gm_get 0 (quotaNominals (tmQuota team)) (quotaKey p)"]
      by (simp add: acc' addQuotaQuantities_get requestedQuotas(2) [OF r])
    then show ?thesis using assms(3) found Some by (simp add: allocation_inv_def acc' ac_simps)
  qed
qed

lemma allocateTeams_inv:
  assumes "foldE (allocateTeam K A w capacity poolQuotas) teams acc = Inr acc'" "distinct (map quotaKey poolQuotas)"
    and "allocation_inv spare poolQuotas acc"
  shows "allocation_inv spare poolQuotas acc' \<and>
    map saTeam (snd acc') = map saTeam (snd acc) @ filter (\<lambda>team. teamCurrent K A w team \<noteq> Inr None) teams"
  using assms
proof (induction teams arbitrary: acc)
  case (Cons team teams)
  then obtain mid where mid: "allocateTeam K A w capacity poolQuotas team acc = Inr mid"
    "foldE (allocateTeam K A w capacity poolQuotas) teams mid = Inr acc'" by (auto simp: bindE_Inr_iff)
  from allocateTeam_inv [OF mid(1) Cons.prems(2,3)] Cons.IH [OF mid(2) Cons.prems(2)] show ?case by simp
qed simp

text \<open>Reservations of the workspace queues.\<close>

definition reservedAt :: "'q::linordered_ab_group_add kube \<Rightarrow> ('q, 'w) api \<Rightarrow> 'w \<Rightarrow> string \<Rightarrow> string \<Rightarrow> 'q" where
  "reservedAt K A w key queueName =
     (case getQueue A w queueName of
        Inl _ \<Rightarrow> 0
      | Inr queue \<Rightarrow> (case clusterQueueReservations K queue of Inl _ \<Rightarrow> 0 | Inr usage \<Rightarrow> gm_get 0 usage key))"

lemma reserveWorkspaces_total:
  assumes "foldE (reserveWorkspace K A w) selected acc = Inr acc'" 
  shows "gm_get 0 (puTotal acc') key = gm_get 0 (puTotal acc) key + (\<Sum>entry \<leftarrow> selected. reservedAt K A w key (fst entry))"
  using assms
proof (induction selected arbitrary: acc)
  case (Cons entry selected)
  then obtain mid where mid: "reserveWorkspace K A w entry acc = Inr mid" "foldE (reserveWorkspace K A w) selected mid = Inr acc'"
    by (auto simp: bindE_Inr_iff)
  have "gm_get 0 (puTotal mid) key = gm_get 0 (puTotal acc) key + reservedAt K A w key (fst entry)"
  proof (cases "getQueue A w (fst entry)")
    case (Inl err)
    then show ?thesis using mid(1) by (auto simp: reserveWorkspace_def reservedAt_def split: if_splits)
  next
    case (Inr queue)
    then obtain usage where u: "clusterQueueReservations K queue = Inr usage" "puTotal mid = addUsage usage (puTotal acc)"
      using mid(1) by (auto simp: reserveWorkspace_def bindE_Inr_iff split: option.splits)
    have "gm_inv usage" using clusterQueueReservations_inv [OF u(1)] .
    then show ?thesis using Inr u by (simp add: addUsage_get reservedAt_def)
  qed
  then show ?case using Cons.IH [OF mid(2)] by (simp add: ac_simps)
qed simp

section \<open>The shared pool stays within capacity\<close>

lemma planSharedPool_cases:
  fixes K :: "'q::linordered_ab_group_add kube"
  assumes "planSharedPool K A ns w cluster = Inr plan" "aTeams A w ns = Inr teams"
  obtains spare inventory keys allocated usage where
    "sharedRoot K A w cluster = Inr spare" "discoveredPoolInventory K A w cluster = Inr inventory"
    "validateQuotaValues (map (\<lambda>key. zeroQuota (key, 0 :: 'q)) keys) = Inr ()"
    "foldE (allocateTeam K A w (quotaNominals (cpQuotas inventory)) (map (\<lambda>key. zeroQuota (key, 0)) keys)) (sort_key tmName teams) (spare, []) =
       Inr (allocated, plAllocations plan)"
    "foldE (reserveWorkspace K A w) (plSelected plan) \<lparr>puTotal = [], puTeams = [], puHasQueues = False\<rparr> = Inr usage"
    "checkReservations (quotaNominals (cpQuotas inventory)) (puTotal usage) = Inr ()"
    "checkAllocated (quotaNominals (cpQuotas inventory)) allocated (map (\<lambda>key. zeroQuota (key, 0)) keys) = Inr ()"
    "plQuotas plan = map (\<lambda>pool. pool\<lparr>qNominal := gm_get 0 allocated (quotaKey pool)\<rparr>) (map (\<lambda>key. zeroQuota (key, 0)) keys)"
proof -
  obtain spare inventory teams' keys alloc selected usage and u v x :: unit where
    p: "sharedRoot K A w cluster = Inr spare" "discoveredPoolInventory K A w cluster = Inr inventory" "aTeams A w ns = Inr teams'"
      "validateQuotaValues (map (\<lambda>key. zeroQuota (key, 0 :: 'q)) keys) = Inr u"
      "foldE (allocateTeam K A w (quotaNominals (cpQuotas inventory)) (map (\<lambda>key. zeroQuota (key, 0)) keys)) (sort_key tmName teams') (spare, []) = Inr alloc"
      "foldE (reserveWorkspace K A w) selected \<lparr>puTotal = [], puTeams = [], puHasQueues = False\<rparr> = Inr usage"
      "checkReservations (quotaNominals (cpQuotas inventory)) (puTotal usage) = Inr v"
      "checkAllocated (quotaNominals (cpQuotas inventory)) (fst alloc) (map (\<lambda>key. zeroQuota (key, 0)) keys) = Inr x"
      "\<lparr>plAllocations = snd alloc, plSelected = selected,
        plQuotas = map (\<lambda>pool. pool\<lparr>qNominal := gm_get 0 (fst alloc) (quotaKey pool)\<rparr>) (map (\<lambda>key. zeroQuota (key, 0)) keys),
        plHasQueues = puHasQueues usage\<rparr> = plan"
    using assms(1) unfolding planSharedPool_def Let_def bindE_Inr_iff mapErr_Inr_iff case_prod_unfold sum.inject
    by (elim exE conjE) (rule that, assumption+)
  show thesis
    by (rule that [OF p(1,2), where keys = keys and allocated = "fst alloc" and usage = usage]) (use p(3-9) assms(2) in \<open>auto simp: p(9) [symmetric]\<close>)
qed

text \<open>
  C6. The shared pool is never over-committed. When the plan is accepted, the quantity of every
  key of the pool is the static spare plus the guarantees of all teams that hold or will hold a
  Cohort, it is at most what the eligible nodes of that flavor supply, and the reservations of
  all workspace queues are within that supply too.\<close>

theorem shared_pool_within_capacity:
  fixes K :: "'q::linordered_ab_group_add kube"
  assumes "planSharedPool K A ns w cluster = Inr plan" and "aTeams A w ns = Inr teams"
    and "aNodes A w (clNodeSelector cluster) = Inr nodes"
    and "\<forall>node \<in> set nodes. gm_inv (ndAllocatable node) \<and> (\<forall>r \<in> set (gm_keys (ndAllocatable node)). nulFree r)"
  shows "\<exists>spare. sharedRoot K A w cluster = Inr spare \<and>
    map saTeam (plAllocations plan) = filter (\<lambda>team. teamCurrent K A w team \<noteq> Inr None) (sort_key tmName teams) \<and>
    (\<forall>q \<in> set (plQuotas plan).
       qNominal q = gm_get 0 spare (quotaKey q) +
         (\<Sum>a \<leftarrow> plAllocations plan. gm_get 0 (quotaNominals (tmQuota (saTeam a))) (quotaKey q)) \<and>
       qNominal q \<le> (\<Sum>node \<leftarrow> nodes. nodeSupply K (qFlavor q) (qResource q) node) \<and>
       (\<Sum>entry \<leftarrow> plSelected plan. reservedAt K A w (quotaKey q) (fst entry)) \<le>
         (\<Sum>node \<leftarrow> nodes. nodeSupply K (qFlavor q) (qResource q) node))"
proof -
  obtain spare inventory keys allocated usage where
    spare: "sharedRoot K A w cluster = Inr spare" and inv: "discoveredPoolInventory K A w cluster = Inr inventory"
    and valid: "validateQuotaValues (map (\<lambda>key. zeroQuota (key, 0 :: 'q)) keys) = Inr ()"
    and loop: "foldE (allocateTeam K A w (quotaNominals (cpQuotas inventory)) (map (\<lambda>key. zeroQuota (key, 0)) keys)) (sort_key tmName teams) (spare, []) =
       Inr (allocated, plAllocations plan)"
    and usage: "foldE (reserveWorkspace K A w) (plSelected plan) \<lparr>puTotal = [], puTeams = [], puHasQueues = False\<rparr> = Inr usage"
    and checks: "checkReservations (quotaNominals (cpQuotas inventory)) (puTotal usage) = Inr ()"
      "checkAllocated (quotaNominals (cpQuotas inventory)) allocated (map (\<lambda>key. zeroQuota (key, 0)) keys) = Inr ()"
    and quotas: "plQuotas plan = map (\<lambda>pool. pool\<lparr>qNominal := gm_get 0 allocated (quotaKey pool)\<rparr>) (map (\<lambda>key. zeroQuota (key, 0)) keys)"
    by (rule planSharedPool_cases [OF assms(1,2)])
  let ?pool = "map (\<lambda>key. zeroQuota (key, 0 :: 'q)) keys" and ?capacity = "quotaNominals (cpQuotas inventory)"
  have "distinct (map (\<lambda>q. (qFlavor q, qResource q)) ?pool)" using valid by (simp add: validateQuotaValues_iff quotas_ok_def)
  then have distinct: "distinct (map quotaKey ?pool)" by (rule quotaKeys_distinct) simp
  have start: "allocation_inv spare ?pool (spare, [])" by (simp add: allocation_inv_def)
  note alloc = allocateTeams_inv [OF loop distinct start]
  have "qNominal q = gm_get 0 spare (quotaKey q) + (\<Sum>a \<leftarrow> plAllocations plan. gm_get 0 (quotaNominals (tmQuota (saTeam a))) (quotaKey q)) \<and>
    qNominal q \<le> (\<Sum>node \<leftarrow> nodes. nodeSupply K (qFlavor q) (qResource q) node) \<and>
    (\<Sum>entry \<leftarrow> plSelected plan. reservedAt K A w (quotaKey q) (fst entry)) \<le> (\<Sum>node \<leftarrow> nodes. nodeSupply K (qFlavor q) (qResource q) node)"
    if q: "q \<in> set (plQuotas plan)" for q
  proof -
    obtain pool where pool: "pool \<in> set ?pool" "q = pool\<lparr>qNominal := gm_get 0 allocated (quotaKey pool)\<rparr>"
      using q unfolding quotas by auto
    have key: "quotaKey q = quotaKey pool" "nulFree (qResource q)" using pool by (auto simp: quotaKey_def)
    note capacity = inventory_capacity [OF inv assms(3,4) key(2), of "qFlavor q"]
    have cap: "gm_get 0 ?capacity (quotaKey q) = (\<Sum>node \<leftarrow> nodes. nodeSupply K (qFlavor q) (qResource q) node)"
      using capacity(1) by (simp add: quotaKey_def)
    have "gm_get 0 allocated (quotaKey pool) \<le> gm_get 0 ?capacity (quotaKey pool)"
      using checks(2) pool(1) unfolding checkAllocated_def foldE_check by (metis (no_types, lifting) Inl_Inr_False not_less)
    moreover have "gm_get 0 (puTotal usage) (quotaKey q) \<le> gm_get 0 ?capacity (quotaKey q)"
    proof (cases "gm_lookup (puTotal usage) (quotaKey q)")
      case None
      then show ?thesis using capacity(2) cap by (simp add: gm_get_def)
    next
      case (Some total)
      then have "(quotaKey q, total) \<in> set (puTotal usage)" by (rule gm_lookup_mem)
      then have "total \<le> gm_get 0 ?capacity (quotaKey q)"
        using checks(1) unfolding checkReservations_def foldE_check by (metis (no_types, lifting) Inl_Inr_False fst_conv snd_conv not_less)
      then show ?thesis using Some by (simp add: gm_get_def)
    qed
    moreover have "gm_get 0 allocated (quotaKey pool) =
        gm_get 0 spare (quotaKey pool) + (\<Sum>a \<leftarrow> plAllocations plan. gm_get 0 (quotaNominals (tmQuota (saTeam a))) (quotaKey pool))"
      using alloc pool(1) by (auto simp: allocation_inv_def)
    moreover have "qNominal q = gm_get 0 allocated (quotaKey pool)" using pool(2) by simp
    ultimately show ?thesis using key(1) cap reserveWorkspaces_total [OF usage, of "quotaKey q"] by simp
  qed
  moreover have "map saTeam (plAllocations plan) = filter (\<lambda>team. teamCurrent K A w team \<noteq> Inr None) (sort_key tmName teams)"
    using alloc by simp
  ultimately show ?thesis using spare by blast
qed

definition sharedCluster :: "int tauCluster" where
  "sharedCluster = exampleCluster\<lparr>clShareTeamQuotas := True, clCapacityTeamRef := None\<rparr>"

definition gpuQuota :: "int \<Rightarrow> int tauResourceQuota" where
  "gpuQuota n = \<lparr>qFlavor = ''taugrid-gpu-h200'', qResource = ''nvidia.com/gpu'', qNominal = n, qBorrowing = None, qLending = None\<rparr>"

text \<open>Sixteen GPUs: a spare of two and a team with eight.\<close>

definition sharedStore :: "int store" where
  "sharedStore = poolStore\<lparr>stCluster := Some sharedCluster, stTeams := [exampleTeam\<lparr>tmQuota := [gpuQuota 8]\<rparr>],
     stObjects := [desiredDiscoveredGPUFlavor \<lparr>dfName = ''taugrid-gpu-h200'', dfClass = ''h200'', dfCapacity = 0 :: int, dfHostSlots = 0, dfNodeLabels = []\<rparr>,
       (desiredTeamCohort refKube exampleTeam [gpuQuota 2])\<lparr>oName := sharedTeamCohortName, oLabels := [(labelSharedTeamQuotas, ''cluster'')]\<rparr>]\<rparr>"

theorem shared_pool_within_capacity_witness:
  "\<exists>plan. planSharedPool refKube storeApi ''tau-system'' sharedStore sharedCluster = Inr plan \<and>
     plQuotas plan = [gpuQuota 10] \<and>
     (10 :: int) \<le> (\<Sum>node \<leftarrow> stNodes sharedStore. nodeSupply refKube ''taugrid-gpu-h200'' ''nvidia.com/gpu'' node)"
proof -
  have "case planSharedPool refKube storeApi ''tau-system'' sharedStore sharedCluster of Inl _ \<Rightarrow> False | Inr plan \<Rightarrow> plQuotas plan = [gpuQuota 10]"
    by code_simp
  then obtain plan where run: "planSharedPool refKube storeApi ''tau-system'' sharedStore sharedCluster = Inr plan" "plQuotas plan = [gpuQuota 10]"
    by (auto split: sum.splits)
  have teams: "aTeams storeApi sharedStore ''tau-system'' = Inr (stTeams sharedStore)"
    by (simp add: store_defs sharedStore_def exampleTeam_def)
  have nodes: "aNodes storeApi sharedStore (clNodeSelector sharedCluster) = Inr (stNodes sharedStore)"
    by (simp add: store_defs sharedStore_def sharedCluster_def exampleCluster_def zeroCluster_def)
  have "\<forall>node \<in> set (stNodes sharedStore). gm_inv (ndAllocatable node) \<and> (\<forall>r \<in> set (gm_keys (ndAllocatable node)). nulFree r)"
    by (simp add: sharedStore_def poolStore_def exampleNode_def gm_inv_def gm_keys_def nvidiaGPUResourceName_def nulFree_def)
  from shared_pool_within_capacity [OF run(1) teams nodes this] have
    "\<forall>q \<in> set (plQuotas plan). qNominal q \<le> (\<Sum>node \<leftarrow> stNodes sharedStore. nodeSupply refKube (qFlavor q) (qResource q) node)" by blast
  then show ?thesis using run by (simp add: gpuQuota_def)
qed

section \<open>Holding queues\<close>

definition queueHeld :: "'q kube \<Rightarrow> kobj \<Rightarrow> bool" where
  "queueHeld K queue \<longleftrightarrow> nestedStringOrEmpty K (oObject queue) [''spec'', ''stopPolicy''] \<in> {Inr ''Hold'', Inr ''HoldAndDrain''}"

text \<open>The owner of a queue stays, and the queue is untouched or held.\<close>

definition keptOrHeld :: "'q kube \<Rightarrow> kobj \<Rightarrow> kobj \<Rightarrow> bool" where
  "keptOrHeld K queue queue' \<longleftrightarrow>
     oLabels queue' = oLabels queue \<and> oName queue' = oName queue \<and>
     gm_get [] (oAnnotations queue') annotationOwnerUID = gm_get [] (oAnnotations queue) annotationOwnerUID \<and>
     (queue' = queue \<or> queueHeld K queue')"

lemma keptOrHeld_owned:
  "keptOrHeld K queue queue' \<Longrightarrow>
     authoritativeWorkspaceClusterQueue queue' workspace = Inr b \<longleftrightarrow> authoritativeWorkspaceClusterQueue queue workspace = Inr b"
  by (auto simp: keptOrHeld_def authoritativeWorkspaceClusterQueue_def validateWorkspaceObjectUID_def Let_def split: if_splits)

definition onlyHolds :: "'q kube \<Rightarrow> ('q, 'w) api \<Rightarrow> 'w \<Rightarrow> 'w \<Rightarrow> bool" where
  "onlyHolds K A w w' \<longleftrightarrow>
     (\<forall>name. case getQueue A w name of
        Inl err \<Rightarrow> getQueue A w' name = Inl err
      | Inr queue \<Rightarrow> \<exists>queue'. getQueue A w' name = Inr queue' \<and> keptOrHeld K queue queue')"

lemma onlyHolds_back:
  assumes "onlyHolds K A w w'" "getQueue A w' name = Inr queue'"
  obtains queue where "getQueue A w name = Inr queue" "keptOrHeld K queue queue'"
  using assms(1) [unfolded onlyHolds_def, rule_format, of name] assms(2) that by (cases "getQueue A w name") auto

lemma keptOrHeld_trans: "keptOrHeld K a b \<Longrightarrow> keptOrHeld K b c \<Longrightarrow> keptOrHeld K a c"
  by (auto simp: keptOrHeld_def)

lemma onlyHolds_refl [simp]: "onlyHolds K A w w"
  by (auto simp: onlyHolds_def keptOrHeld_def split: sum.split)

lemma onlyHolds_trans:
  assumes "onlyHolds K A u v" "onlyHolds K A v w"
  shows "onlyHolds K A u w"
  unfolding onlyHolds_def
proof
  fix name
  show "case getQueue A u name of
        Inl err \<Rightarrow> getQueue A w name = Inl err
      | Inr queue \<Rightarrow> \<exists>queue'. getQueue A w name = Inr queue' \<and> keptOrHeld K queue queue'"
    using assms [unfolded onlyHolds_def, rule_format, of name] keptOrHeld_trans
    by (cases "getQueue A u name"; cases "getQueue A v name") (fastforce split: sum.splits)+
qed

lemma holdQueue_holds:
  assumes "kube_laws K" "object_server A" "holdQueue K A workspace w = (None, w')"
  shows "onlyHolds K A w w' \<and>
    (\<forall>queue. getQueue A w' (workspaceClusterQueueName K (wsName workspace)) = Inr queue \<longrightarrow>
       authoritativeWorkspaceClusterQueue queue workspace = Inr True \<longrightarrow> queueHeld K queue)"
proof (cases "getQueue A w (workspaceClusterQueueName K (wsName workspace))")
  case (Inl err)
  then show ?thesis using assms(3) by (simp add: holdQueue_def)
next
  case (Inr queue)
  let ?name = "workspaceClusterQueueName K (wsName workspace)"
  obtain owned where o: "authoritativeWorkspaceClusterQueue queue workspace = Inr owned"
    using assms(3) Inr by (cases "authoritativeWorkspaceClusterQueue queue workspace") (simp_all add: holdQueue_def)
  show ?thesis
  proof (cases owned)
    case False
    then have "w' = w" using assms(3) Inr o by (simp add: holdQueue_def)
    then show ?thesis using Inr o False by simp
  next
    case True
    obtain policy where p: "nestedStringOrEmpty K (oObject queue) [''spec'', ''stopPolicy''] = Inr policy"
      using assms(3) Inr o True
      by (cases "nestedStringOrEmpty K (oObject queue) [''spec'', ''stopPolicy'']") (simp_all add: holdQueue_def)
    show ?thesis
    proof (cases "policy = ''Hold'' \<or> policy = ''HoldAndDrain''")
      case held: True
      then have "w' = w" using assms(3) Inr o True p by (auto simp: holdQueue_def)
      then show ?thesis using Inr p held by (auto simp: queueHeld_def)
    next
      case False
      let ?annotations = "gm_set annotationSharedQuotaHold ''true'' (oAnnotations queue)"
      obtain object where s: "kSetNestedField K (oObject queue) (JString ''Hold'') [''spec'', ''stopPolicy''] = Inr object"
        "aUpdate A (queue\<lparr>oObject := object, oAnnotations := ?annotations\<rparr>) w = (None, w')"
        using assms(3) Inr o True p False
        by (cases "kSetNestedField K (oObject queue) (JString ''Hold'') [''spec'', ''stopPolicy'']") (auto simp: holdQueue_def)
      have "setNested (oObject queue) (JString ''Hold'') [''spec'', ''stopPolicy''] = Some object"
        by (rule kube_set_spec [OF assms(1) s(1)]) simp
      then have "nestedField (JMap object) [''spec'', ''stopPolicy''] = Some (Some (JString ''Hold''))" by (rule nestedField_setNested)
      then have "kNestedString K object [''spec'', ''stopPolicy''] = Inr (Some ''Hold'')"
        by (rule accessor.typed [OF kube_accessors(2) [OF assms(1)]]) simp
      then have held: "queueHeld K (queue\<lparr>oObject := object, oAnnotations := ?annotations\<rparr>)"
        by (simp add: queueHeld_def nestedStringOrEmpty_def)
      have kept: "keptOrHeld K queue (queue\<lparr>oObject := object, oAnnotations := ?annotations\<rparr>)"
        using held by (simp add: keptOrHeld_def annotationOwnerUID_def annotationSharedQuotaHold_def)
      note after = object_server.getQueue_update [OF assms(2) Inr s(2)]
      have "onlyHolds K A w w'"
        using kept Inr by (auto simp: onlyHolds_def after keptOrHeld_def split: sum.split)
      then show ?thesis using held by (auto simp: after)
    qed
  qed
qed

lemma joinErrors_None [simp]: "joinErrors a b = None \<longleftrightarrow> a = None \<and> b = None"
  by (auto simp: joinErrors_def split: option.splits)

lemma holdQueues_hold:
  assumes "kube_laws K" "object_server A"
    and "fold (\<lambda>workspace acc. let r = holdQueue K A workspace (snd acc) in (joinErrors (fst acc) (fst r), snd r)) workspaces (e, w) = (None, w')"
  shows "e = None \<and> onlyHolds K A w w' \<and>
    (\<forall>workspace \<in> set workspaces. \<forall>queue. getQueue A w' (workspaceClusterQueueName K (wsName workspace)) = Inr queue \<longrightarrow>
       authoritativeWorkspaceClusterQueue queue workspace = Inr True \<longrightarrow> queueHeld K queue)"
  using assms(3)
proof (induction workspaces arbitrary: e w)
  case (Cons workspace workspaces)
  obtain e1 w1 where r: "holdQueue K A workspace w = (e1, w1)" by fastforce
  then have rest: "joinErrors e e1 = None" "onlyHolds K A w1 w'"
    "\<forall>x \<in> set workspaces. \<forall>queue. getQueue A w' (workspaceClusterQueueName K (wsName x)) = Inr queue \<longrightarrow>
       authoritativeWorkspaceClusterQueue queue x = Inr True \<longrightarrow> queueHeld K queue"
    using Cons.IH [of "joinErrors e e1" w1] Cons.prems by (simp_all add: Let_def)
  then have "e = None" "holdQueue K A workspace w = (None, w1)" using r by simp_all
  from holdQueue_holds [OF assms(1,2) this(2)] have one: "onlyHolds K A w w1"
    "\<forall>queue. getQueue A w1 (workspaceClusterQueueName K (wsName workspace)) = Inr queue \<longrightarrow>
       authoritativeWorkspaceClusterQueue queue workspace = Inr True \<longrightarrow> queueHeld K queue" by blast+
  have "queueHeld K queue" if "getQueue A w' (workspaceClusterQueueName K (wsName workspace)) = Inr queue"
      "authoritativeWorkspaceClusterQueue queue workspace = Inr True" for queue
    using onlyHolds_back [OF rest(2) that(1)] one(2) keptOrHeld_owned that(2) by (metis keptOrHeld_def)
  then show ?case using \<open>e = None\<close> rest onlyHolds_trans [OF one(1) rest(2)] by auto
qed simp

text \<open>
  Holding the shared pool stops admission: when it reports no error, every ClusterQueue
  that belongs to a workspace is held, and no queue changed its owner or lost a hold.\<close>

theorem hold_stops_admission:
  assumes "kube_laws K" and "object_server A" and "aWorkspaces A w ns = Inr workspaces"
    and "holdSharedTeamQueues K A ns w = (None, w')" and "workspace \<in> set workspaces"
    and "getQueue A w' (workspaceClusterQueueName K (wsName workspace)) = Inr queue"
    and "authoritativeWorkspaceClusterQueue queue workspace = Inr True"
  shows "queueHeld K queue \<and> onlyHolds K A w w'"
  using holdQueues_hold [OF assms(1,2), of workspaces None w w'] assms(3-7)
  unfolding holdSharedTeamQueues_def by auto

definition heldQueue :: kobj where
  "heldQueue = desiredWorkspaceClusterQueue refKube ''vision'' exampleWorkspace"

definition runningStore :: "int store" where
  "runningStore = exampleStore\<lparr>stObjects := [heldQueue], stWorkspaces := [exampleWorkspace]\<rparr>"

theorem hold_stops_admission_witness:
  "\<exists>w' queue. holdSharedTeamQueues refKube storeApi ''tau-system'' runningStore = (None, w') \<and> w' \<noteq> runningStore \<and>
     getQueue storeApi w' (oName heldQueue) = Inr queue \<and> queueHeld refKube queue"
proof -
  let ?run = "holdSharedTeamQueues refKube storeApi ''tau-system'' runningStore"
  have "fst ?run = None" by code_simp
  then have run: "?run = (None, snd ?run)" by (simp add: prod_eq_iff)
  have ws: "aWorkspaces storeApi runningStore ''tau-system'' = Inr [exampleWorkspace]" by code_simp
  have "\<not> queueHeld refKube heldQueue" by code_simp
  have name: "oName heldQueue = workspaceClusterQueueName refKube (wsName exampleWorkspace)" by code_simp
  have "case getQueue storeApi (snd ?run) (oName heldQueue) of Inl _ \<Rightarrow> False
      | Inr queue \<Rightarrow> authoritativeWorkspaceClusterQueue queue exampleWorkspace = Inr True" by code_simp
  then obtain queue where q: "getQueue storeApi (snd ?run) (oName heldQueue) = Inr queue"
    "authoritativeWorkspaceClusterQueue queue exampleWorkspace = Inr True" by (auto split: sum.splits)
  from hold_stops_admission [OF refKube_laws store_server.object_server_axioms ws run _ q(1) [unfolded name] q(2)]
  have held: "queueHeld refKube queue" by simp
  have "getQueue storeApi runningStore (oName heldQueue) = Inr heldQueue" by code_simp
  then have "snd ?run \<noteq> runningStore" using q(1) held \<open>\<not> queueHeld refKube heldQueue\<close> by auto
  then show ?thesis using run q(1) held by blast
qed

end
