(* ===== verification/Team_Controller.thy ===== *)
theory Team_Controller
  imports Shared_Props
begin

text \<open>
  The team controller (\<open>team_controller.go\<close>): capacity validation, the finalizer, the status
  and \<open>Reconcile\<close>. The current time is the argument \<open>now\<close>, and \<open>acquired\<close> gives the state
  of the server once the quota lock is held: other reconcilers run while this one waits.
  The result of a reconciliation is the delay of the next one (zero for none) and the error.
\<close>

section \<open>Operations\<close>

definition notReadyRequeue :: duration where "notReadyRequeue = 30 * second"
definition conditionQuotaReady :: string where "conditionQuotaReady = ''QuotaReady''"
definition conditionDeletionBlocked :: string where "conditionDeletionBlocked = ''DeletionBlocked''"

subsection \<open>Capacity\<close>

definition discoveredCapacity :: "'q tauCluster \<Rightarrow> (string, 'q) gomap" where
  "discoveredCapacity cluster =
     fold (\<lambda>(flavor, resourceName, capacity). gm_set (resourceName @ nul @ flavor) capacity) (clDiscoveredCapacity cluster) []"

text \<open>What a team holds or asks for: the greater of both unless the change only reduces.\<close>

definition effectiveAllocation ::
  "'q::linordered_ab_group_add kube \<Rightarrow> ('q, 'w) api \<Rightarrow> 'w \<Rightarrow> bool \<Rightarrow> 'q tauTeam \<Rightarrow> ((string, 'q) gomap) res" where
  "effectiveAllocation K A w reductionOnly candidate =
     (let effective = allocations (tmQuota candidate) in
      if reductionOnly then Inr effective
      else bindE (appliedTeamAllocation K A w candidate) (\<lambda>applied. Inr (maxQuantities applied effective)))"

definition checkCapacity :: "'q::linordered_ab_group_add kube \<Rightarrow> (string, 'q) gomap \<Rightarrow> (string, 'q) gomap \<Rightarrow> unit res" where
  "checkCapacity K capacity allocated =
     foldE (\<lambda>entry u.
       if \<exists>available \<in> set_option (gm_lookup capacity (fst entry)). snd entry > available
       then Inl (Errorf ''team allocations %s exceed discovered capacity %s for %q''
                   [kQuantityString K (snd entry), kQuantityString K (gm_get 0 capacity (fst entry)), fst entry])
       else Inr u) allocated ()"

text \<open>A team outside the exclusive pool must leave the pool alone.\<close>

definition checkOtherPool ::
  "'q::linordered_ab_group_add kube \<Rightarrow> ('q, 'w) api \<Rightarrow> 'w \<Rightarrow> 'q tauCluster \<Rightarrow> 'q tauTeam \<Rightarrow> unit res" where
  "checkOtherPool K A w cluster team =
     (case clCapacityTeamRef cluster of
        None \<Rightarrow> validateRetainedCapacityPools K A w (tmName team)
      | Some ref \<Rightarrow>
          if ref = tmName team then Inr ()
          else bindE (discoveredPoolInventory K A w cluster) (\<lambda>inventory.
               bindE (aTeam A w (tmNamespace team) ref) (\<lambda>poolTeam.
               bindE (capacityPoolWorkspaces K A w poolTeam) (\<lambda>selected.
                 validateCapacityPoolConflicts K A w poolTeam selected inventory))))"

definition validateTeamCapacity ::
  "'q::linordered_ab_group_add kube \<Rightarrow> ('q, 'w) api \<Rightarrow> 'w \<Rightarrow> 'q tauTeam \<Rightarrow> unit res" where
  "validateTeamCapacity K A w team =
     (case aCluster A w of
        Inl err \<Rightarrow> if isNotFound err then validateRetainedCapacityPools K A w (tmName team) else Inl err
      | Inr cluster \<Rightarrow>
          bindE (checkOtherPool K A w cluster team) (\<lambda>_.
          bindE (aTeams A w (tmNamespace team)) (\<lambda>teams.
          bindE (teamAllocationReductionOnly K A w team) (\<lambda>reductionOnly.
          bindE (foldE (\<lambda>candidate allocated.
                   bindE (effectiveAllocation K A w reductionOnly candidate)
                     (\<lambda>effective. Inr (addQuantities effective allocated))) teams []) (\<lambda>allocated.
            checkCapacity K (discoveredCapacity cluster) allocated)))))"

subsection \<open>Status\<close>

type_synonym outcome = "duration \<times> kerr option"

definition teamStatusOf :: "'q kube \<Rightarrow> gotime \<Rightarrow> 'q tauTeam \<Rightarrow> bool \<Rightarrow> string \<Rightarrow> kmessage \<Rightarrow> string \<Rightarrow> teamStatus" where
  "teamStatusOf K now team ready reason message cohortUID =
     \<lparr>tstPhase = (if ready then ''Ready'' else ''Degraded''), tstObservedGeneration = tmGeneration team,
      tstCohort = teamCohortName K (tmName team), tstCohortUID = cohortUID,
      tstConditions = mergeConditions (tstConditions (tmStatus team))
        [boolCondition now conditionQuotaReady ready reason message (tmGeneration team)]\<rparr>"

definition reportTeamStatus ::
  "'q kube \<Rightarrow> ('q, 'w) api \<Rightarrow> gotime \<Rightarrow> 'q tauTeam \<Rightarrow> bool \<Rightarrow> string \<Rightarrow> kmessage \<Rightarrow> 'w \<Rightarrow> outcome \<times> 'w" where
  "reportTeamStatus K A now team ready reason message w =
     (case (if ready then bindE (getCohort A w (teamCohortName K (tmName team))) (\<lambda>cohort. Inr (oUID cohort))
            else Inr (tstCohortUID (tmStatus team))) of
        Inl err \<Rightarrow> ((0, Some err), w)
      | Inr cohortUID \<Rightarrow>
          let desired = teamStatusOf K now team ready reason message cohortUID;
              requeue = (if ready then 5 * minute else notReadyRequeue)
          in if tmStatus team = desired then ((requeue, None), w)
             else (case aUpdateTeamStatus A (team\<lparr>tmStatus := desired\<rparr>) w of
                     (Some err, w') \<Rightarrow> ((0, Some err), w')
                   | (None, w') \<Rightarrow> ((requeue, None), w')))"

subsection \<open>Deleting a team\<close>

definition deleteObjectWithPreconditions :: "('q, 'w) api \<Rightarrow> kobj \<Rightarrow> 'w \<Rightarrow> kerr option \<times> 'w" where
  "deleteObjectWithPreconditions A object w =
     (case aDelete A object w of
        (None, w') \<Rightarrow> (None, w')
      | (Some err, w') \<Rightarrow> (if isNotFound err then None else Some err, w'))"

text \<open>The first workspace that keeps the team alive.\<close>

fun deletionBlocker ::
  "'q::linordered_ab_group_add kube \<Rightarrow> ('q, 'w) api \<Rightarrow> 'w \<Rightarrow> 'q tauTeam \<Rightarrow> 'q tauWorkspace list \<Rightarrow> (kmessage option) res" where
  "deletionBlocker K A w team [] = Inr None"
| "deletionBlocker K A w team (workspace # workspaces) =
     (if wsTeamRef workspace = Some (tmName team)
      then Inr (Some (MsgFmt ''workspace %q still references this team'' [wsName workspace]))
      else bindE (appliedWorkspaceQueue K A w workspace) (\<lambda>(appliedCohort, _, _, _).
           if appliedCohort = teamCohortName K (tmName team)
           then Inr (Some (MsgFmt ''workspace %q ClusterQueue still uses this team Cohort'' [wsName workspace]))
           else deletionBlocker K A w team workspaces))"

definition checkDeletable :: "kobj \<Rightarrow> 'q tauTeam \<Rightarrow> unit res" where
  "checkDeletable cohort team =
     (let ownerUID = gm_get [] (oAnnotations cohort) annotationOwnerUID; expectedUID = tstCohortUID (tmStatus team) in
      if gm_get [] (oLabels cohort) labelManagedBy \<noteq> labelManagedByValue \<or> gm_get [] (oLabels cohort) labelTeam \<noteq> tmName team
      then Inl (Errorf ''refusing to delete Cohort %q: ownership does not match team %q'' [oName cohort, tmName team])
      else if ownerUID \<noteq> [] \<and> ownerUID \<noteq> tmUID team
      then Inl (Errorf ''refusing to delete Cohort %q: owner UID is %q, not %q'' [oName cohort, ownerUID, tmUID team])
      else if ownerUID = [] \<and> oUID cohort \<noteq> [] \<and> tmUID team \<noteq> []
      then Inl (Errorf ''refusing to delete Cohort %q without authoritative owner UID'' [oName cohort])
      else if expectedUID \<noteq> [] \<and> oUID cohort \<noteq> expectedUID
      then Inl (Errorf ''refusing to delete Cohort %q: UID changed from %q to %q'' [oName cohort, expectedUID, oUID cohort])
      else Inr ())"

definition deleteCohort :: "'q kube \<Rightarrow> ('q, 'w) api \<Rightarrow> 'q tauTeam \<Rightarrow> 'w \<Rightarrow> kerr option \<times> 'w" where
  "deleteCohort K A team w =
     (case getCohort A w (teamCohortName K (tmName team)) of
        Inl err \<Rightarrow> (ignoreNotFound err, w)
      | Inr cohort \<Rightarrow> withRes (checkDeletable cohort team) w (\<lambda>_. deleteObjectWithPreconditions A cohort w))"

definition finalizeTeam ::
  "'q::linordered_ab_group_add kube \<Rightarrow> ('q, 'w) api \<Rightarrow> gotime \<Rightarrow> 'q tauTeam \<Rightarrow> 'w \<Rightarrow> outcome \<times> 'w" where
  "finalizeTeam K A now team w =
     (if teamFinalizer \<notin> set (tmFinalizers team) then ((0, None), w)
      else case bindE (aWorkspaces A w (tmNamespace team)) (deletionBlocker K A w team) of
             Inl err \<Rightarrow> ((0, Some err), w)
           | Inr (Some message) \<Rightarrow> reportTeamStatus K A now team False conditionDeletionBlocked message w
           | Inr None \<Rightarrow>
               (let r = andThen (deleteCohort K A team w)
                          (aUpdateTeam A (team\<lparr>tmFinalizers := filter (\<lambda>f. f \<noteq> teamFinalizer) (tmFinalizers team)\<rparr>))
                in ((0, fst r), snd r)))"

subsection \<open>Reconcile\<close>

text \<open>The checks of a team with its own quota; the reason of the failed condition with its error.\<close>

definition checkTeamQuota ::
  "'q::linordered_ab_group_add kube \<Rightarrow> ('q, 'w) api \<Rightarrow> 'w \<Rightarrow> 'q tauTeam \<Rightarrow> (string \<times> kerr) + 'q tauResourceQuota list" where
  "checkTeamQuota K A w team =
     (case validateTeamReservations K A w team of
        Inl err \<Rightarrow> Inl (''ReservationBlocked'', err)
      | Inr _ \<Rightarrow>
          (case validateTeamCapacity K A w team of
             Inl err \<Rightarrow> Inl (''CapacityExceeded'', err)
           | Inr _ \<Rightarrow>
               (case sharedTeamQuota K A w team of
                  Inl err \<Rightarrow> Inl (''QuotaInvalid'', err)
                | Inr sharedQuota \<Rightarrow>
                    (case validateQuotaFlavors (aGet A w resourceFlavorKind []) (tmQuota team) of
                       Inl err \<Rightarrow> Inl (''FlavorNotReady'', err)
                     | Inr _ \<Rightarrow> Inr sharedQuota))))"

definition reconcileOwnQuota ::
  "'q::linordered_ab_group_add kube \<Rightarrow> ('q, 'w) api \<Rightarrow> gotime \<Rightarrow> 'q tauTeam \<Rightarrow> 'w \<Rightarrow> outcome \<times> 'w" where
  "reconcileOwnQuota K A now team w =
     (case checkTeamQuota K A w team of
        Inl (reason, err) \<Rightarrow> reportTeamStatus K A now team False reason (MsgErr err) w
      | Inr sharedQuota \<Rightarrow>
          (case reconcileTeamCohort K A team sharedQuota w of
             (Some err, w') \<Rightarrow> reportTeamStatus K A now team False ''CohortReconcileFailed'' (MsgErr err) w'
           | (None, w') \<Rightarrow> reportTeamStatus K A now team True ''QuotaReady'' (Msg ''team quota hierarchy is reconciled'') w'))"

definition reconcilePoolTeam ::
  "'q::linordered_ab_group_add kube \<Rightarrow> ('q, 'w) api \<Rightarrow> string \<Rightarrow> gotime \<Rightarrow> 'q tauCluster \<Rightarrow> 'q tauTeam \<Rightarrow> 'w \<Rightarrow> outcome \<times> 'w" where
  "reconcilePoolTeam K A ns now cluster team w =
     (case reconcileCapacityPool K A ns cluster team w of
        (Some err, w') \<Rightarrow> reportTeamStatus K A now team False ''CapacityPoolBlocked'' (MsgErr err) w'
      | (None, w') \<Rightarrow>
          let r = reportTeamStatus K A now team True ''CapacityPoolReady'' (Msg ''discovered capacity is shared by team workspaces'') w'
          in ((notReadyRequeue, snd (fst r)), snd r))"

text \<open>The part under the lock: the team is read again.\<close>

definition reconcileLocked ::
  "'q::linordered_ab_group_add kube \<Rightarrow> ('q, 'w) api \<Rightarrow> string \<Rightarrow> gotime \<Rightarrow> string \<Rightarrow> string \<Rightarrow> 'w \<Rightarrow> outcome \<times> 'w" where
  "reconcileLocked K A ns now namespace name w =
     (case aTeam A w namespace name of
        Inl err \<Rightarrow> ((0, ignoreNotFound err), w)
      | Inr team \<Rightarrow>
          if tmDeletionTimestamp team \<noteq> None then finalizeTeam K A now team w
          else if teamFinalizer \<notin> set (tmFinalizers team) then ((0, None), w)
          else (case selectedCapacityTeam A w (tmName team) of
                  Inl err \<Rightarrow> ((0, Some err), w)
                | Inr (Some cluster, True) \<Rightarrow> reconcilePoolTeam K A ns now cluster team w
                | Inr _ \<Rightarrow> reconcileOwnQuota K A now team w))"

definition reconcileTeam ::
  "'q::linordered_ab_group_add kube \<Rightarrow> ('q, 'w) api \<Rightarrow> string \<Rightarrow> gotime \<Rightarrow> ('w \<Rightarrow> 'w) \<Rightarrow> string \<Rightarrow> string \<Rightarrow> 'w \<Rightarrow> outcome \<times> 'w" where
  "reconcileTeam K A sysNamespace now acquired namespace name w =
     (case aTeam A w namespace name of
        Inl err \<Rightarrow> ((0, ignoreNotFound err), w)
      | Inr team \<Rightarrow>
          if tmNamespace team \<noteq> systemNamespace sysNamespace then ((0, None), w)
          else if tmDeletionTimestamp team \<noteq> None \<and> teamFinalizer \<notin> set (tmFinalizers team) then ((0, None), w)
          else if tmDeletionTimestamp team = None \<and> teamFinalizer \<notin> set (tmFinalizers team)
          then let r = aUpdateTeam A (team\<lparr>tmFinalizers := tmFinalizers team @ [teamFinalizer]\<rparr>) w in ((0, fst r), snd r)
          else reconcileLocked K A (systemNamespace sysNamespace) now namespace name (acquired w))"

text \<open>The teams to reconcile when a shared object changes: by namespace and name.\<close>

definition enqueueCapacityTeam :: "('q, 'w) api \<Rightarrow> string \<Rightarrow> 'w \<Rightarrow> (string \<times> string) list" where
  "enqueueCapacityTeam A sysNamespace w =
     (case aCluster A w of
        Inl _ \<Rightarrow> []
      | Inr cluster \<Rightarrow>
          (case clCapacityTeamRef cluster of
             Some ref \<Rightarrow> [(systemNamespace sysNamespace, ref)]
           | None \<Rightarrow>
               if \<not> clShareTeamQuotas cluster then []
               else case aTeams A w (systemNamespace sysNamespace) of
                      Inl _ \<Rightarrow> []
                    | Inr teams \<Rightarrow> map (\<lambda>team. (tmNamespace team, tmName team)) teams))"

section \<open>Accepted team quotas fit\<close>

lemma maxQuantities_ge:
  assumes "gm_lookup effective key = Some v"
  shows "\<exists>v'. gm_lookup (maxQuantities applied effective) key = Some v' \<and> v \<le> v'"
  unfolding maxQuantities_def
  by (rule fold_invariant [where Q = "\<lambda>_. True" and P = "\<lambda>m. \<exists>v'. gm_lookup m key = Some v' \<and> v \<le> v'"])
    (use assms in \<open>auto simp: raiseQuantity_def split: option.split\<close>)

definition allocationAt ::
  "'q::linordered_ab_group_add kube \<Rightarrow> ('q, 'w) api \<Rightarrow> 'w \<Rightarrow> bool \<Rightarrow> string \<Rightarrow> 'q tauTeam \<Rightarrow> 'q" where
  "allocationAt K A w reductionOnly key candidate =
     (case effectiveAllocation K A w reductionOnly candidate of Inl _ \<Rightarrow> 0 | Inr effective \<Rightarrow> gm_get 0 effective key)"

lemma effectiveAllocation_Inr:
  assumes "effectiveAllocation K A w reductionOnly candidate = Inr effective"
  shows "gm_inv effective" "gm_lookup (allocations (tmQuota candidate)) key = Some v \<Longrightarrow> v \<le> gm_get 0 effective key"
proof -
  show "gm_inv effective"
    using assms maxQuantities_inv [OF allocations_inv]
    by (auto simp: effectiveAllocation_def Let_def bindE_Inr_iff allocations_inv split: if_splits)
  assume "gm_lookup (allocations (tmQuota candidate)) key = Some v"
  then show "v \<le> gm_get 0 effective key"
  proof (cases reductionOnly)
    case True
    then show ?thesis using assms \<open>gm_lookup _ key = Some v\<close> by (simp add: effectiveAllocation_def gm_get_def)
  next
    case False
    then obtain applied where "effective = maxQuantities applied (allocations (tmQuota candidate))"
      using assms by (auto simp: effectiveAllocation_def bindE_Inr_iff Let_def)
    then show ?thesis using maxQuantities_ge [OF \<open>gm_lookup _ key = Some v\<close>, of applied] by (auto simp: gm_get_def)
  qed
qed

lemma allocationLoop:
  assumes "foldE (\<lambda>candidate allocated. bindE (effectiveAllocation K A w reductionOnly candidate)
      (\<lambda>effective. Inr (addQuantities effective allocated))) teams m = Inr allocated"
  shows "gm_get 0 allocated key = gm_get 0 m key + (\<Sum>candidate \<leftarrow> teams. allocationAt K A w reductionOnly key candidate) \<and>
    (\<forall>candidate \<in> set teams. \<exists>effective. effectiveAllocation K A w reductionOnly candidate = Inr effective)"
  using assms
proof (induction teams arbitrary: m)
  case (Cons candidate teams)
  then obtain effective where e: "effectiveAllocation K A w reductionOnly candidate = Inr effective"
    and rest: "foldE (\<lambda>candidate allocated. bindE (effectiveAllocation K A w reductionOnly candidate)
      (\<lambda>effective. Inr (addQuantities effective allocated))) teams (addQuantities effective m) = Inr allocated"
    by (auto simp: bindE_Inr_iff)
  show ?case using Cons.IH [OF rest] e
    by (auto simp: addQuantities_get [OF effectiveAllocation_Inr(1) [OF e]] allocationAt_def ac_simps)
qed simp

text \<open>The capacity check alone bounds the sum of the allocations.\<close>

lemma teamCapacity_within:
  assumes "validateTeamCapacity K A w team = Inr ()" and "aCluster A w = Inr cluster" and "aTeams A w (tmNamespace team) = Inr teams"
  shows "\<exists>reductionOnly. teamAllocationReductionOnly K A w team = Inr reductionOnly \<and>
    (\<forall>key available. gm_lookup (discoveredCapacity cluster) key = Some available \<longrightarrow> 0 \<le> available \<longrightarrow>
       (\<Sum>candidate \<leftarrow> teams. allocationAt K A w reductionOnly key candidate) \<le> available) \<and>
    (\<forall>key. \<forall>candidate \<in> set teams. \<forall>v. gm_lookup (allocations (tmQuota candidate)) key = Some v \<longrightarrow> v \<le> allocationAt K A w reductionOnly key candidate)"
proof -
  obtain reductionOnly allocated where r: "teamAllocationReductionOnly K A w team = Inr reductionOnly"
    and loop: "foldE (\<lambda>candidate allocated. bindE (effectiveAllocation K A w reductionOnly candidate)
      (\<lambda>effective. Inr (addQuantities effective allocated))) teams [] = Inr allocated"
    and check: "checkCapacity K (discoveredCapacity cluster) allocated = Inr ()"
    using assms by (auto simp: validateTeamCapacity_def bindE_Inr_iff)
  have "(\<Sum>candidate \<leftarrow> teams. allocationAt K A w reductionOnly key candidate) \<le> available"
    if cap: "gm_lookup (discoveredCapacity cluster) key = Some available" "0 \<le> available" for key available
  proof -
    have "gm_get 0 allocated key \<le> available"
    proof (cases "gm_lookup allocated key")
      case None
      then show ?thesis using cap(2) by (simp add: gm_get_def)
    next
      case (Some total)
      then have "(key, total) \<in> set allocated" by (rule gm_lookup_mem)
      then have "\<not> (\<exists>a \<in> set_option (gm_lookup (discoveredCapacity cluster) key). total > a)"
        using check unfolding checkCapacity_def foldE_check by (metis (no_types, lifting) Inl_Inr_False fst_conv snd_conv)
      then show ?thesis using cap(1) Some by (simp add: gm_get_def not_less)
    qed
    then show ?thesis using allocationLoop [OF loop, of key] by simp
  qed
  moreover have "v \<le> allocationAt K A w reductionOnly key candidate"
    if c: "candidate \<in> set teams" "gm_lookup (allocations (tmQuota candidate)) key = Some v" for candidate v key
  proof -
    obtain effective where e: "effectiveAllocation K A w reductionOnly candidate = Inr effective"
      using conjunct2 [OF allocationLoop [OF loop, of key]] c(1) by blast
    then show ?thesis using effectiveAllocation_Inr(2) [OF e c(2)] by (simp add: allocationAt_def)
  qed
  ultimately show ?thesis using r by blast
qed

text \<open>
  C24. A team's quota is accepted only within what was discovered: for every discovered key the
  allocations of all teams together, each at least what the team asks for, stay within the
  capacity, and the reservations of the team's workspaces stay within its own quota.\<close>

theorem team_quota_within_capacity:
  assumes "checkTeamQuota K A w team = Inr shared" and "aCluster A w = Inr cluster"
    and "aTeams A w (tmNamespace team) = Inr teams" and "aWorkspaces A w (tmNamespace team) = Inr workspaces"
    and "\<forall>q \<in> set (tmQuota team). 0 \<le> qNominal q"
    and "gm_lookup (discoveredCapacity cluster) key = Some available" and "0 \<le> available"
  shows "\<exists>reductionOnly. teamAllocationReductionOnly K A w team = Inr reductionOnly \<and>
    (\<Sum>candidate \<leftarrow> teams. allocationAt K A w reductionOnly key candidate) \<le> available \<and>
    (\<forall>candidate \<in> set teams. \<forall>v. gm_lookup (allocations (tmQuota candidate)) key = Some v \<longrightarrow> v \<le> allocationAt K A w reductionOnly key candidate) \<and>
    (\<Sum>ws \<leftarrow> workspaces. reservedOf K A w team key ws) \<le> gm_get 0 (allocations (tmQuota team)) key"
proof -
  have v: "validateTeamReservations K A w team = Inr ()" "validateTeamCapacity K A w team = Inr ()"
    using assms(1) by (auto simp: checkTeamQuota_def split: sum.splits)
  from teamCapacity_within [OF v(2) assms(2,3)] obtain reductionOnly where "teamAllocationReductionOnly K A w team = Inr reductionOnly"
    "(\<Sum>candidate \<leftarrow> teams. allocationAt K A w reductionOnly key candidate) \<le> available"
    "\<forall>candidate \<in> set teams. \<forall>v. gm_lookup (allocations (tmQuota candidate)) key = Some v \<longrightarrow> v \<le> allocationAt K A w reductionOnly key candidate"
    using assms(6,7) by blast
  moreover have "(\<Sum>ws \<leftarrow> workspaces. reservedOf K A w team key ws) \<le> gm_get 0 (allocations (tmQuota team)) key"
    using reservations_fit [OF v(1) [unfolded validateTeamReservations_def] assms(4) _ assms(5)] by simp
  ultimately show ?thesis by blast
qed

definition capacityCluster :: "int tauCluster" where
  "capacityCluster = exampleCluster\<lparr>clCapacityTeamRef := None, clDiscoveredCapacity := [(''h200'', ''gpu'', 16)]\<rparr>"

definition acceptedStore :: "int store" where
  "acceptedStore = teamStore\<lparr>stCluster := Some capacityCluster,
     stObjects := [\<lparr>oKind = resourceFlavorKind, oName = ''h200'', oNamespace = [], oUID = [], oLabels = [], oAnnotations = [], oObject = []\<rparr>]\<rparr>"

theorem team_quota_within_capacity_witness:
  "checkTeamQuota refKube storeApi acceptedStore exampleTeam = Inr exampleShared \<and>
   (\<exists>reductionOnly. (\<Sum>candidate \<leftarrow> [exampleTeam]. allocationAt refKube storeApi acceptedStore reductionOnly (''gpu'' @ nul @ ''h200'') candidate) \<le> 16)"
proof -
  have run: "checkTeamQuota refKube storeApi acceptedStore exampleTeam = Inr exampleShared" by code_simp
  have cluster: "aCluster storeApi acceptedStore = Inr capacityCluster" by (simp add: store_defs acceptedStore_def found_def)
  have teams: "aTeams storeApi acceptedStore (tmNamespace exampleTeam) = Inr [exampleTeam]"
    by (simp add: store_defs acceptedStore_def teamStore_def exampleTeam_def)
  have ws: "aWorkspaces storeApi acceptedStore (tmNamespace exampleTeam) = Inr [exampleWorkspace\<lparr>wsQueue := ''none''\<rparr>]"
    by (simp add: store_defs acceptedStore_def teamStore_def exampleTeam_def exampleWorkspace_def zeroWorkspace_def)
  have nonneg: "\<forall>q \<in> set (tmQuota exampleTeam). 0 \<le> qNominal q" by (simp add: exampleTeam_def)
  have cap: "gm_lookup (discoveredCapacity capacityCluster) (''gpu'' @ nul @ ''h200'') = Some 16" by code_simp
  from team_quota_within_capacity [OF run cluster teams ws nonneg cap] run show ?thesis by auto
qed

section \<open>Deleting a team\<close>

lemma deletionBlocker_None:
  assumes "deletionBlocker K A w team workspaces = Inr None" "workspace \<in> set workspaces"
  shows "wsTeamRef workspace \<noteq> Some (tmName team) \<and>
    (\<exists>cohort rest. appliedWorkspaceQueue K A w workspace = Inr (cohort, rest) \<and> cohort \<noteq> teamCohortName K (tmName team))"
  using assms
  by (induction workspaces) (auto simp: bindE_Inr_iff split: if_splits)

text \<open>
  C25. A team is released only when nothing uses it: finalizing it changes the cluster beyond
  its status only when no workspace names the team, no workspace queue is in its Cohort, and
  the Cohort, if there is one, is the one this team owns and recorded.\<close>

theorem team_deletion_safe:
  assumes "finalizeTeam K A now team w = (out, w')" and "aWorkspaces A w (tmNamespace team) = Inr workspaces"
    and "w' \<noteq> w" and "\<forall>message. w' \<noteq> snd (reportTeamStatus K A now team False conditionDeletionBlocked message w)"
  shows "(\<forall>workspace \<in> set workspaces. wsTeamRef workspace \<noteq> Some (tmName team) \<and>
      (\<exists>cohort rest. appliedWorkspaceQueue K A w workspace = Inr (cohort, rest) \<and> cohort \<noteq> teamCohortName K (tmName team))) \<and>
    (\<forall>cohort. getCohort A w (teamCohortName K (tmName team)) = Inr cohort \<longrightarrow>
      gm_get [] (oLabels cohort) labelManagedBy = labelManagedByValue \<and> gm_get [] (oLabels cohort) labelTeam = tmName team \<and>
      (gm_get [] (oAnnotations cohort) annotationOwnerUID = tmUID team \<or>
        (gm_get [] (oAnnotations cohort) annotationOwnerUID = [] \<and> oUID cohort = [])) \<and>
      (tstCohortUID (tmStatus team) = [] \<or> oUID cohort = tstCohortUID (tmStatus team)))"
proof -
  have blocker: "deletionBlocker K A w team workspaces = Inr None"
  proof (cases "deletionBlocker K A w team workspaces")
    case (Inl err)
    then show ?thesis using assms(1-3) by (auto simp: finalizeTeam_def split: if_splits)
  next
    case (Inr found)
    show ?thesis
    proof (cases found)
      case (Some message)
      then have "reportTeamStatus K A now team False conditionDeletionBlocked message w = (out, w')"
        using Inr assms(1-3) by (auto simp: finalizeTeam_def split: if_splits)
      then show ?thesis using assms(4) by (metis snd_conv)
    qed (use Inr in simp)
  qed
  have "checkDeletable cohort team = Inr ()" if c: "getCohort A w (teamCohortName K (tmName team)) = Inr cohort" for cohort
  proof (rule ccontr)
    assume "checkDeletable cohort team \<noteq> Inr ()"
    then obtain err where "checkDeletable cohort team = Inl err" by (cases "checkDeletable cohort team") auto
    then have "deleteCohort K A team w = (Some err, w)" using c by (simp add: deleteCohort_def)
    then show False using assms(1-3) blocker by (auto simp: finalizeTeam_def Let_def split: if_splits)
  qed
  then show ?thesis using deletionBlocker_None [OF blocker] by (auto simp: checkDeletable_def Let_def split: if_splits)
qed

definition leavingTeam :: "int tauTeam" where
  "leavingTeam = exampleTeam\<lparr>tmDeletionTimestamp := Some 5\<rparr>"

definition leavingStore :: "int store" where
  "leavingStore = exampleStore\<lparr>stTeams := [leavingTeam], stWorkspaces := [exampleWorkspace\<lparr>wsTeamRef := None\<rparr>],
     stObjects := [desiredTeamCohort refKube leavingTeam exampleShared]\<rparr>"

lemma report_keeps_objects: "stObjects (snd (reportTeamStatus K storeApi now team ready reason message w)) = stObjects w"
  by (auto simp: reportTeamStatus_def store_defs Let_def split: sum.split)

theorem team_deletion_safe_witness:
  "\<exists>w'. finalizeTeam refKube storeApi 7 leavingTeam leavingStore = ((0, None), w') \<and> stObjects w' = [] \<and>
     wsTeamRef (exampleWorkspace\<lparr>wsTeamRef := None\<rparr>) \<noteq> Some (tmName leavingTeam)"
proof -
  let ?run = "finalizeTeam refKube storeApi 7 leavingTeam leavingStore"
  have out: "fst ?run = (0, None)" by code_simp
  have empty: "stObjects (snd ?run) = []" by code_simp
  have run: "?run = ((0, None), snd ?run)" using out by (simp add: prod_eq_iff)
  have ws: "aWorkspaces storeApi leavingStore (tmNamespace leavingTeam) = Inr [exampleWorkspace\<lparr>wsTeamRef := None\<rparr>]"
    by (simp add: store_defs leavingStore_def leavingTeam_def exampleTeam_def exampleWorkspace_def zeroWorkspace_def)
  have ne: "snd ?run \<noteq> leavingStore" using empty by (auto simp: leavingStore_def)
  have "\<forall>message. snd ?run \<noteq> snd (reportTeamStatus refKube storeApi 7 leavingTeam False conditionDeletionBlocked message leavingStore)"
  proof
    fix message
    have "stObjects leavingStore \<noteq> []" by (simp add: leavingStore_def)
    then show "snd ?run \<noteq> snd (reportTeamStatus refKube storeApi 7 leavingTeam False conditionDeletionBlocked message leavingStore)"
      using empty report_keeps_objects [of refKube 7 leavingTeam False conditionDeletionBlocked message leavingStore] by metis
  qed
  from team_deletion_safe [OF run ws ne this] run empty show ?thesis by auto
qed

end
