(* ===== verification/Workspace_Queue.thy ===== *)
theory Workspace_Queue
  imports Team_Controller
begin

text \<open>
  The queues of a workspace (\<open>workspace_queue.go\<close>): its own ClusterQueue, written between two
  reconciliations of the team's Cohort, the LocalQueue that points to it, and the LocalQueues
  kept for compatibility. \<open>ns\<close> is the namespace of the controller and \<open>acquired\<close> the state of
  the server once the quota locks are held.
\<close>

section \<open>Operations\<close>

text \<open>Sequences of calls that return a value.\<close>

definition readThen :: "'a res \<Rightarrow> 'w \<Rightarrow> ('a \<Rightarrow> 'b res \<times> 'w) \<Rightarrow> 'b res \<times> 'w" where
  "readThen r w f = (case r of Inl err \<Rightarrow> (Inl err, w) | Inr v \<Rightarrow> f v)"

definition writeThen :: "(kerr \<Rightarrow> kerr) \<Rightarrow> kerr option \<times> 'w \<Rightarrow> ('w \<Rightarrow> 'b res \<times> 'w) \<Rightarrow> 'b res \<times> 'w" where
  "writeThen wrap p f = (case p of (Some err, w) \<Rightarrow> (Inl (wrap err), w) | (None, w) \<Rightarrow> f w)"

definition getDefaultWorkspaceQueue :: "('q, 'w) api \<Rightarrow> 'w \<Rightarrow> string res" where
  "getDefaultWorkspaceQueue A w =
     bindE (mapErr (Wrapped ''spec.queue is empty and the TauCluster default is unavailable'' []) (aCluster A w)) (\<lambda>cluster.
       let queue = trimSpace (clDefaultQueue cluster) in
       if queue = [] then Inl (Errorf ''spec.queue is empty and TauCluster %q declares no workspaceDefaults.defaultQueue'' [clName cluster])
       else Inr queue)"

subsection \<open>The ClusterQueue\<close>

text \<open>A workspace without a team uses the queue it names, unless it still has one of its own.\<close>

definition teamlessClusterQueue :: "'q kube \<Rightarrow> ('q, 'w) api \<Rightarrow> 'w \<Rightarrow> 'q tauWorkspace \<Rightarrow> string res" where
  "teamlessClusterQueue K A w workspace =
     (case getQueue A w (workspaceClusterQueueName K (wsName workspace)) of
        Inl err \<Rightarrow> if isNotFound err then Inr (wsQueue workspace) else Inl err
      | Inr managedQueue \<Rightarrow>
          if ownedByWorkspace (oLabels managedQueue) (wsName workspace)
          then bindE (mapErr (Wrapped ''cannot remove teamRef'' []) (validateWorkspaceObjectUID managedQueue workspace))
                 (\<lambda>_. Inl (Errorf ''cannot remove teamRef while managed ClusterQueue %q still exists; restore teamRef or delete and recreate the workspace''
                             [oName managedQueue]))
          else Inr (wsQueue workspace))"

text \<open>The keys to lock: the requested team and the team the queue is applied to.\<close>

definition workspaceLockKeys :: "'q kube \<Rightarrow> ('q, 'w) api \<Rightarrow> 'w \<Rightarrow> 'q tauWorkspace \<Rightarrow> string \<Rightarrow> (string list) res" where
  "workspaceLockKeys K A w workspace requestedTeam =
     (let requested = teamQuotaLockKey (wsNamespace workspace) requestedTeam in
      case getQueue A w (workspaceClusterQueueName K (wsName workspace)) of
        Inl err \<Rightarrow> if isNotFound err then Inr [requested] else Inl err
      | Inr appliedQueue \<Rightarrow>
          let appliedTeam = gm_get [] (oLabels appliedQueue) labelTeam in
          Inr (if appliedTeam \<noteq> [] then [requested, teamQuotaLockKey (wsNamespace workspace) appliedTeam] else [requested]))"

text \<open>The workspace read again under the locks: \<open>False\<close> when it is gone.\<close>

definition refreshWorkspace :: "('q, 'w) api \<Rightarrow> 'w \<Rightarrow> 'q tauWorkspace \<Rightarrow> bool res" where
  "refreshWorkspace A w workspace =
     (case aWorkspace A w (wsNamespace workspace) (wsName workspace) of
        Inl err \<Rightarrow> if isNotFound err then Inr False else Inl err
      | Inr refreshed \<Rightarrow>
          if wsUID refreshed \<noteq> wsUID workspace
          then Inl (Errorf ''workspace %q changed identity while waiting for quota locks; retrying'' [wsName workspace])
          else if wsDeleting refreshed then Inl (Errorf ''workspace %q is deleting; retrying'' [wsName workspace])
          else bindE (if trimSpace (wsQueue refreshed) = [] then getDefaultWorkspaceQueue A w else Inr (wsQueue refreshed)) (\<lambda>queue.
               if \<not> sameWorkspaceSpec (refreshed\<lparr>wsQueue := queue\<rparr>) workspace
               then Inl (Wrapped ''%w: workspace %q'' [wsName workspace]
                           (Errorf ''workspace spec changed while waiting for quota locks'' []))
               else Inr True))"

record 'q queuePlan =
  qpTeam :: "'q tauTeam"
  qpQueue :: kobj
  qpTeamReady :: bool
  qpReductionOnly :: bool

text \<open>The checks before the first write.\<close>

definition planWorkspaceQueue ::
  "'q::linordered_ab_group_add kube \<Rightarrow> ('q, 'w) api \<Rightarrow> 'w \<Rightarrow> 'q tauWorkspace \<Rightarrow> string \<Rightarrow> 'q queuePlan res" where
  "planWorkspaceQueue K A w workspace teamName =
     bindE (mapErr (Wrapped ''team %q is not ready'' [teamName]) (aTeam A w (wsNamespace workspace) teamName)) (\<lambda>team.
     bindE (appliedWorkspaceQueue K A w workspace) (\<lambda>(appliedCohort, _, incomingReservations, _).
     bindE (if appliedCohort \<noteq> [] \<and> appliedCohort \<noteq> teamCohortName K (tmName team)
            then mapErr (Wrapped ''refusing workspace migration to team %q'' [tmName team])
                   (validateTeamReservationsWithAdditional K A w team incomingReservations)
            else Inr ()) (\<lambda>_.
     bindE (validateQuotaFlavors (aGet A w resourceFlavorKind []) (wsQuota workspace)) (\<lambda>_.
     bindE (preserveEstablishedWorkspaceQueueContract K A w workspace (Some team) (desiredWorkspaceClusterQueue K teamName workspace)) (\<lambda>queue.
     let teamReady = (tstPhase (tmStatus team) = ''Ready'' \<and> tstObservedGeneration (tmStatus team) = tmGeneration team) in
     bindE (workspaceQueueReductionOnly K A w teamName queue) (\<lambda>reductionOnly.
     if tmDeletionTimestamp team \<noteq> None \<and> \<not> reductionOnly then Inl (Errorf ''team %q is deleting'' [teamName])
     else bindE (if reductionOnly then Inr () else validateTeamCapacity K A w team) (\<lambda>_.
     if \<not> teamReady \<and> \<not> reductionOnly then Inl (Errorf ''team %q is not Ready'' [teamName])
     else Inr \<lparr>qpTeam = team, qpQueue = queue, qpTeamReady = teamReady, qpReductionOnly = reductionOnly\<rparr>)))))))"

text \<open>The Cohort from the accounting of the state after the queue was written.\<close>

definition settleCohort ::
  "'q::linordered_ab_group_add kube \<Rightarrow> ('q, 'w) api \<Rightarrow> string \<Rightarrow> 'q tauTeam \<Rightarrow> 'q tauWorkspace \<Rightarrow> kobj \<Rightarrow> 'w \<Rightarrow> string res \<times> 'w" where
  "settleCohort K A text team workspace queue w =
     readThen (sharedTeamQuotaForWorkspace K A w team (Some workspace)) w (\<lambda>sharedQuota.
       writeThen (Wrapped text []) (reconcileTeamCohort K A team sharedQuota w) (\<lambda>w'. (Inr (oName queue), w')))"

definition reduceQueue ::
  "'q::linordered_ab_group_add kube \<Rightarrow> ('q, 'w) api \<Rightarrow> 'q tauTeam \<Rightarrow> 'q tauWorkspace \<Rightarrow> kobj \<Rightarrow> 'w \<Rightarrow> string res \<times> 'w" where
  "reduceQueue K A team workspace queue w =
     writeThen (Wrapped ''reconcile workspace ClusterQueue reduction'' [])
       (reconcileManagedUnstructuredWithReader K A queue labelWorkspace (wsName workspace) w)
       (settleCohort K A ''reconcile team Cohort after workspace quota reduction'' team workspace queue)"

definition resizeQueue ::
  "'q::linordered_ab_group_add kube \<Rightarrow> ('q, 'w) api \<Rightarrow> 'q tauTeam \<Rightarrow> 'q tauWorkspace \<Rightarrow> kobj \<Rightarrow> 'q tauResourceQuota list \<Rightarrow> 'w \<Rightarrow>
     string res \<times> 'w" where
  "resizeQueue K A team workspace queue sharedQuota w =
     writeThen (Wrapped ''reconcile team Cohort before workspace quota'' []) (reconcileTeamCohort K A team sharedQuota w) (\<lambda>w1.
     writeThen (Wrapped ''reconcile workspace ClusterQueue'' [])
       (reconcileManagedUnstructuredWithReader K A queue labelWorkspace (wsName workspace) w1)
       (settleCohort K A ''reconcile team Cohort after workspace quota'' team workspace queue))"

definition applyQueuePlan ::
  "'q::linordered_ab_group_add kube \<Rightarrow> ('q, 'w) api \<Rightarrow> 'q tauWorkspace \<Rightarrow> 'q queuePlan \<Rightarrow> 'w \<Rightarrow> string res \<times> 'w" where
  "applyQueuePlan K A workspace plan w =
     (case sharedTeamQuotaForWorkspace K A w (qpTeam plan) (Some workspace) of
        Inl err \<Rightarrow>
          if \<not> qpReductionOnly plan then (Inl err, w) else reduceQueue K A (qpTeam plan) workspace (qpQueue plan) w
      | Inr sharedQuota \<Rightarrow>
          if qpReductionOnly plan \<and> \<not> qpTeamReady plan then reduceQueue K A (qpTeam plan) workspace (qpQueue plan) w
          else resizeQueue K A (qpTeam plan) workspace (qpQueue plan) sharedQuota w)"

definition reconcileLockedQueue ::
  "'q::linordered_ab_group_add kube \<Rightarrow> ('q, 'w) api \<Rightarrow> string \<Rightarrow> 'q tauWorkspace \<Rightarrow> string \<Rightarrow> 'w \<Rightarrow> string res \<times> 'w" where
  "reconcileLockedQueue K A ns workspace requestedTeam w =
     readThen (refreshWorkspace A w workspace) w (\<lambda>present.
     if \<not> present then (Inr [], w)
     else readThen (selectedCapacityTeam A w requestedTeam) w (\<lambda>selected.
       case selected of
         (Some cluster, True) \<Rightarrow>
           readThen (aTeam A w (wsNamespace workspace) requestedTeam) w (\<lambda>team.
             writeThen id (reconcileCapacityPool K A ns cluster team w)
               (\<lambda>w'. (Inr (workspaceClusterQueueName K (wsName workspace)), w')))
       | _ \<Rightarrow>
           readThen (retainedEstablishedWorkspaceClusterQueue K A w workspace) w (\<lambda>retained.
             case retained of
               Some legacyQueue \<Rightarrow> (Inr legacyQueue, w)
             | None \<Rightarrow> readThen (planWorkspaceQueue K A w workspace requestedTeam) w (\<lambda>plan. applyQueuePlan K A workspace plan w))))"

definition reconcileWorkspaceClusterQueue ::
  "'q::linordered_ab_group_add kube \<Rightarrow> ('q, 'w) api \<Rightarrow> string \<Rightarrow> (string list \<Rightarrow> 'w \<Rightarrow> 'w) \<Rightarrow> 'q tauWorkspace \<Rightarrow> 'w \<Rightarrow> string res \<times> 'w" where
  "reconcileWorkspaceClusterQueue K A ns acquired workspace w =
     (case wsTeamRef workspace of
        None \<Rightarrow> (teamlessClusterQueue K A w workspace, w)
      | Some requestedTeam \<Rightarrow>
          readThen (workspaceLockKeys K A w workspace requestedTeam) w (\<lambda>lockKeys.
            reconcileLockedQueue K A ns workspace requestedTeam (acquired (lockOrder lockKeys) w)))"

subsection \<open>LocalQueues\<close>

definition newWorkspaceLocalQueue :: "'q tauWorkspace \<Rightarrow> string \<Rightarrow> string \<Rightarrow> string \<Rightarrow> bool \<Rightarrow> kobj" where
  "newWorkspaceLocalQueue workspace targetNamespace localQueueName clusterQueue teamManaged =
     setOwnerUIDAnnotation
       \<lparr>oKind = localQueueKind, oName = localQueueName, oNamespace = targetNamespace, oUID = [],
        oLabels = (case wsTeamRef workspace of
            Some team \<Rightarrow> if teamManaged then gm_set labelTeam team (workspaceLabels (wsName workspace)) else workspaceLabels (wsName workspace)
          | None \<Rightarrow> workspaceLabels (wsName workspace)),
        oAnnotations = [], oObject = [(''spec'', JMap [(''clusterQueue'', JString clusterQueue)])]\<rparr>
       (wsUID workspace)"

definition workspaceCompatibilityLocalQueueNames :: "'q kube \<Rightarrow> 'q tauWorkspace \<Rightarrow> string list" where
  "workspaceCompatibilityLocalQueueNames K workspace =
     (if wsTeamRef workspace = None then []
      else snd (fold (\<lambda>n acc.
             let name = trimSpace n in
             if name \<noteq> [] \<and> name \<notin> set (fst acc) then (gs_add name (fst acc), snd acc @ [name]) else acc)
           [wsQueue workspace, wsStatusLocalQueue workspace] ([workspaceLocalQueueName K workspace], [])))"

text \<open>An object without owner is adopted when the workspace carries its own UID; the object as it is after the call.\<close>

definition ensureWorkspaceObjectUID :: "('q, 'w) api \<Rightarrow> kobj \<Rightarrow> 'q tauWorkspace \<Rightarrow> 'w \<Rightarrow> kobj res \<times> 'w" where
  "ensureWorkspaceObjectUID A object workspace w =
     (case validateWorkspaceObjectUID object workspace of
        Inr _ \<Rightarrow> (Inr object, w)
      | Inl err \<Rightarrow>
          if gm_get [] (oAnnotations object) annotationOwnerUID \<noteq> [] \<or>
             gm_get [] (wsAnnotations workspace) annotationOwnerUID \<noteq> wsUID workspace
          then (Inl err, w)
          else let adopted = setOwnerUIDAnnotation object (wsUID workspace) in
               writeThen (Wrapped ''persist owner UID on %T %s'' [oKind object, oName object]) (aUpdate A adopted w) (\<lambda>w'. (Inr adopted, w')))"

definition reconcileWorkspaceLocalQueueTeam :: "('q, 'w) api \<Rightarrow> kobj \<Rightarrow> 'q tauWorkspace \<Rightarrow> 'w \<Rightarrow> kerr option \<times> 'w" where
  "reconcileWorkspaceLocalQueueTeam A queue workspace w =
     (if \<not> ownedByWorkspace (oLabels queue) (wsName workspace) then (None, w)
      else case ensureWorkspaceObjectUID A queue workspace w of
             (Inl err, w') \<Rightarrow> (Some err, w')
           | (Inr owned, w') \<Rightarrow>
               (case wsTeamRef workspace of
                  None \<Rightarrow> (None, w')
                | Some team \<Rightarrow>
                    if gm_get [] (oLabels owned) labelTeam = team then (None, w')
                    else aUpdate A (owned\<lparr>oLabels := gm_set labelTeam team (oLabels owned)\<rparr>) w'))"

definition compatibilityLocalQueueClusterQueue ::
  "('q, 'w) api \<Rightarrow> 'w \<Rightarrow> 'q tauWorkspace \<Rightarrow> string \<Rightarrow> string \<Rightarrow> string \<Rightarrow> string res" where
  "compatibilityLocalQueueClusterQueue A w workspace namespace localQueueName managedClusterQueue =
     bindE (case wsTeamRef workspace of None \<Rightarrow> Inr False | Some team \<Rightarrow> bindE (selectedCapacityTeam A w team) (\<lambda>p. Inr (snd p))) (\<lambda>selected.
     if selected \<or> namespace \<noteq> wsStatusResolvedNamespace workspace then Inr managedClusterQueue
     else let recorded = (if localQueueName = trimSpace (wsStatusLocalQueue workspace) then trimSpace (wsStatusClusterQueue workspace) else []);
              candidate = (if recorded = [] \<and> localQueueName = trimSpace (wsQueue workspace) then trimSpace (wsQueue workspace) else recorded)
          in if candidate = [] \<or> candidate = managedClusterQueue then Inr managedClusterQueue
             else case getQueue A w candidate of
                    Inr _ \<Rightarrow> Inr candidate
                  | Inl err \<Rightarrow> if isNotFound err then Inr managedClusterQueue else Inl err)"

type_synonym 'w readiness = "(bool \<times> kmessage \<times> kerr option) \<times> 'w"

text \<open>One compatible LocalQueue: \<open>None\<close> continues with the next name.\<close>

definition reconcileCompatibleQueue ::
  "'q kube \<Rightarrow> ('q, 'w) api \<Rightarrow> 'q tauWorkspace \<Rightarrow> string \<Rightarrow> string \<Rightarrow> string \<Rightarrow> string \<Rightarrow> 'w \<Rightarrow> (kmessage \<times> kerr option) option \<times> 'w" where
  "reconcileCompatibleQueue K A workspace team namespace clusterQueue name w =
     (case aGet A w localQueueKind namespace name of
        Inl err \<Rightarrow>
          if \<not> isNotFound err then (Some (MsgErr err, Some err), w)
          else (case compatibilityLocalQueueClusterQueue A w workspace namespace name clusterQueue of
                  Inl err \<Rightarrow> (Some (MsgErr err, Some err), w)
                | Inr target \<Rightarrow>
                    (case aCreate A (newWorkspaceLocalQueue workspace namespace name target True) w of
                       (Some err, w') \<Rightarrow> (Some (MsgErrf ''failed to reconcile compatible LocalQueue %q: %v'' [name] err, None), w')
                     | (None, w') \<Rightarrow> (None, w')))
      | Inr queue \<Rightarrow>
          let current = stringOrEmpty K (oObject queue) [''spec'', ''clusterQueue''] in
          (case selectedCapacityTeam A w team of
             Inl err \<Rightarrow> (Some (MsgErr err, Some err), w)
           | Inr (_, selected) \<Rightarrow>
               if selected \<and> current \<noteq> clusterQueue
               then (Some (MsgFmt ''compatible LocalQueue %q must target capacity pool ClusterQueue %q; external routing is not adopted'' [name, clusterQueue], None), w)
               else if trimSpace current = []
               then (Some (MsgFmt ''compatible LocalQueue %q does not reference a ClusterQueue'' [name], None), w)
               else (case getQueue A w current of
                       Inl err \<Rightarrow> (Some (MsgErrf ''compatible LocalQueue %q backing ClusterQueue %q is not ready: %v'' [name, current] err, None), w)
                     | Inr _ \<Rightarrow>
                         if gm_get [] (oAnnotations queue) annotationOwnerUID = [] then (None, w)
                         else (case reconcileWorkspaceLocalQueueTeam A queue workspace w of
                                 (Some err, w') \<Rightarrow> (Some (MsgErrf ''compatible LocalQueue %q metadata is not authoritative: %v'' [name] err, Some err), w')
                               | (None, w') \<Rightarrow> (None, w')))))"

fun compatibleQueues ::
  "'q kube \<Rightarrow> ('q, 'w) api \<Rightarrow> 'q tauWorkspace \<Rightarrow> string \<Rightarrow> string \<Rightarrow> string \<Rightarrow> string list \<Rightarrow> 'w \<Rightarrow> 'w readiness" where
  "compatibleQueues K A workspace team namespace clusterQueue [] w = ((True, Msg ''compatible LocalQueues are reconciled'', None), w)"
| "compatibleQueues K A workspace team namespace clusterQueue (name # names) w =
     (case reconcileCompatibleQueue K A workspace team namespace clusterQueue name w of
        (Some (message, err), w') \<Rightarrow> ((False, message, err), w')
      | (None, w') \<Rightarrow> compatibleQueues K A workspace team namespace clusterQueue names w')"

definition reconcileWorkspaceCompatibilityLocalQueues ::
  "'q kube \<Rightarrow> ('q, 'w) api \<Rightarrow> 'q tauWorkspace \<Rightarrow> string \<Rightarrow> string \<Rightarrow> 'w \<Rightarrow> 'w readiness" where
  "reconcileWorkspaceCompatibilityLocalQueues K A workspace namespace clusterQueue w =
     (case wsTeamRef workspace of
        None \<Rightarrow> ((True, Msg [], None), w)
      | Some team \<Rightarrow> compatibleQueues K A workspace team namespace clusterQueue (workspaceCompatibilityLocalQueueNames K workspace) w)"

subsection \<open>The queue of a workspace\<close>

record workspaceQueueStatus =
  wqLocalQueue :: string
  wqClusterQueue :: string
  wqClusterQueueUID :: string

record queueReport =
  qrpStatus :: workspaceQueueStatus
  qrpReady :: bool
  qrpMessage :: kmessage
  qrpError :: "kerr option"

definition report :: "string \<Rightarrow> string \<Rightarrow> string \<Rightarrow> bool \<Rightarrow> kmessage \<Rightarrow> kerr option \<Rightarrow> queueReport" where
  "report localQueue clusterQueue uid ready message err =
     \<lparr>qrpStatus = \<lparr>wqLocalQueue = localQueue, wqClusterQueue = clusterQueue, wqClusterQueueUID = uid\<rparr>,
      qrpReady = ready, qrpMessage = message, qrpError = err\<rparr>"

definition withCompatibleQueues ::
  "'q kube \<Rightarrow> ('q, 'w) api \<Rightarrow> 'q tauWorkspace \<Rightarrow> string \<Rightarrow> string \<Rightarrow> string \<Rightarrow> string \<Rightarrow> string \<Rightarrow> 'w \<Rightarrow> queueReport \<times> 'w" where
  "withCompatibleQueues K A workspace targetNamespace localQueueName desired target uid w =
     (case reconcileWorkspaceCompatibilityLocalQueues K A workspace targetNamespace desired w of
        ((ready, message, err), w') \<Rightarrow>
          if \<not> ready then (report localQueueName desired [] False message err, w')
          else (report localQueueName target uid True (Msg ''workspace LocalQueue is reconciled'') None, w'))"

definition createLocalQueue ::
  "'q kube \<Rightarrow> ('q, 'w) api \<Rightarrow> 'q tauWorkspace \<Rightarrow> string \<Rightarrow> string \<Rightarrow> string \<Rightarrow> 'w \<Rightarrow> queueReport \<times> 'w" where
  "createLocalQueue K A workspace targetNamespace localQueueName desired w =
     (case getQueue A w desired of
        Inl err \<Rightarrow> (report localQueueName desired [] False (MsgErrf ''backing ClusterQueue %q is not ready: %v'' [desired] err) None, w)
      | Inr clusterQueue \<Rightarrow>
          (case aCreate A (newWorkspaceLocalQueue workspace targetNamespace localQueueName desired True) w of
             (Some err, w') \<Rightarrow>
               (report localQueueName desired [] False
                  (if isAlreadyExists err then Msg ''workspace LocalQueue changed concurrently; retrying''
                   else MsgErrf ''failed to reconcile workspace LocalQueue: %v'' [] err) None, w')
           | (None, w') \<Rightarrow> withCompatibleQueues K A workspace targetNamespace localQueueName desired desired (oUID clusterQueue) w'))"

definition ownLocalQueue ::
  "'q kube \<Rightarrow> ('q, 'w) api \<Rightarrow> 'q tauWorkspace \<Rightarrow> string \<Rightarrow> string \<Rightarrow> string \<Rightarrow> kobj \<Rightarrow> string \<Rightarrow> 'w \<Rightarrow> queueReport \<times> 'w" where
  "ownLocalQueue K A workspace targetNamespace localQueueName desired localQueue target w =
     (case reconcileWorkspaceLocalQueueTeam A localQueue workspace w of
        (Some err, w') \<Rightarrow>
          (report localQueueName target [] False (MsgErrf ''LocalQueue %q ownership is not authoritative: %v'' [localQueueName] err) None, w')
      | (None, w') \<Rightarrow>
          (case getQueue A w' desired of
             Inl err \<Rightarrow> (report localQueueName desired [] False (MsgErrf ''backing ClusterQueue %q is not ready: %v'' [desired] err) None, w')
           | Inr clusterQueue \<Rightarrow>
               if target \<noteq> desired
               then (case deleteObjectWithPreconditions A localQueue w' of
                       (Some err, w'') \<Rightarrow>
                         (report localQueueName desired [] False (MsgErrf ''failed to replace workspace LocalQueue: %v'' [] err) None, w'')
                     | (None, w'') \<Rightarrow>
                         (report localQueueName target [] False
                            (MsgFmt ''replacing workspace LocalQueue immutable ClusterQueue target %q with %q'' [target, desired]) None, w''))
               else withCompatibleQueues K A workspace targetNamespace localQueueName desired target (oUID clusterQueue) w'))"

text \<open>A LocalQueue that belongs to nobody: it is only read.\<close>

definition externalLocalQueue ::
  "('q, 'w) api \<Rightarrow> 'w \<Rightarrow> 'q tauWorkspace \<Rightarrow> string \<Rightarrow> string \<Rightarrow> string \<Rightarrow> queueReport" where
  "externalLocalQueue A w workspace localQueueName desired target =
     (if wsTeamRef workspace \<noteq> None
      then if target \<noteq> desired
           then report localQueueName target [] False
                  (MsgFmt ''Team-managed LocalQueue %q is not owned by TauWorkspace %q and targets ClusterQueue %q instead of %q''
                     [localQueueName, wsName workspace, target, desired]) None
           else (case getQueue A w target of
                   Inl err \<Rightarrow> report localQueueName target [] False (MsgErrf ''backing ClusterQueue %q is not ready: %v'' [target] err) None
                 | Inr clusterQueue \<Rightarrow>
                     (case authoritativeWorkspaceClusterQueue clusterQueue workspace of
                        Inl err \<Rightarrow> report localQueueName target [] False (MsgErrf ''ClusterQueue %q ownership is not authoritative: %v'' [target] err) None
                      | Inr owned \<Rightarrow>
                          if \<not> owned
                          then report localQueueName target (oUID clusterQueue) True (Msg ''established external workspace queue is readable'') None
                          else report localQueueName target [] False
                                 (MsgFmt ''Team-managed LocalQueue %q is not owned by TauWorkspace %q'' [localQueueName, wsName workspace]) None))
      else if trimSpace target = []
      then report localQueueName [] [] False (MsgFmt ''LocalQueue %q does not reference a ClusterQueue'' [localQueueName]) None
      else case getQueue A w target of
             Inl err \<Rightarrow> report localQueueName target [] False (MsgErrf ''backing ClusterQueue %q is not ready: %v'' [target] err) None
           | Inr clusterQueue \<Rightarrow>
               report localQueueName target (oUID clusterQueue) True (Msg ''workspace queue and backing ClusterQueue are readable'') None)"

definition reconcileQueue ::
  "'q::linordered_ab_group_add kube \<Rightarrow> ('q, 'w) api \<Rightarrow> string \<Rightarrow> (string list \<Rightarrow> 'w \<Rightarrow> 'w) \<Rightarrow> 'q tauWorkspace \<Rightarrow> string \<Rightarrow> 'w \<Rightarrow> queueReport \<times> 'w" where
  "reconcileQueue K A ns acquired workspace targetNamespace w =
     (let localQueueName = workspaceLocalQueueName K workspace in
      case reconcileWorkspaceClusterQueue K A ns acquired workspace w of
        (Inl err, w') \<Rightarrow> (report localQueueName [] [] False (MsgErr err) (Some err), w')
      | (Inr desired, w') \<Rightarrow>
          (case aGet A w' localQueueKind targetNamespace localQueueName of
             Inl err \<Rightarrow>
               if \<not> isNotFound err then (report localQueueName [] [] False (MsgErr err) None, w')
               else createLocalQueue K A workspace targetNamespace localQueueName desired w'
           | Inr localQueue \<Rightarrow>
               let target = stringOrEmpty K (oObject localQueue) [''spec'', ''clusterQueue'']; labels = oLabels localQueue in
               if gm_get [] labels labelManagedBy = labelManagedByValue \<and> gm_get [] labels labelWorkspace \<noteq> wsName workspace
               then (report localQueueName target [] False
                       (MsgFmt ''LocalQueue %q is owned by TauWorkspace %q'' [localQueueName, gm_get [] labels labelWorkspace]) None, w')
               else if ownedByWorkspace labels (wsName workspace)
               then ownLocalQueue K A workspace targetNamespace localQueueName desired localQueue target w'
               else (externalLocalQueue A w' workspace localQueueName desired target, w')))"

end
