(* ===== verification/Workspace_Access.thy ===== *)
theory Workspace_Access
  imports Workspace_Queue
begin

text \<open>
  What a workspace controls besides its queues: the target namespace (\<open>workspace_namespace.go\<close>), the
  role bindings and the workload identity (\<open>workspace_rbac.go\<close>), and the removal of all of it
  (\<open>workspace_cleanup.go\<close>). An object of a typed client is its unstructured form, with the typed
  fields under \<open>oObject\<close>. \<open>sys\<close> is the configured system namespace. Lists with a label selector or
  in a namespace are filters of the list of a kind.
\<close>

section \<open>Constants\<close>

definition namespaceKind :: string where "namespaceKind = ''Namespace''"
definition roleKind :: string where "roleKind = ''Role''"
definition roleBindingKind :: string where "roleBindingKind = ''RoleBinding''"
definition clusterRoleBindingKind :: string where "clusterRoleBindingKind = ''ClusterRoleBinding''"
definition serviceAccountKind :: string where "serviceAccountKind = ''ServiceAccount''"
definition workloadKind :: string where "workloadKind = ''Workload''"
definition jobKind :: string where "jobKind = ''Job''"
definition deploymentKind :: string where "deploymentKind = ''Deployment''"

definition labelWorkspaceLocalQueue :: string where "labelWorkspaceLocalQueue = ''tau.azure.com/local-queue''"
definition labelKueueDefaultLocalQueue :: string where "labelKueueDefaultLocalQueue = ''kueue.x-k8s.io/default-local-queue''"
definition labelKueueQueueName :: string where "labelKueueQueueName = ''kueue.x-k8s.io/queue-name''"
definition annotationV0Primary :: string where "annotationV0Primary = ''tau.azure.com/v0-primary-workspace''"
definition annotationResultScope :: string where "annotationResultScope = ''tau.azure.com/result-scope''"
definition annotationAdoptionNamespaceUID :: string where "annotationAdoptionNamespaceUID = ''tau.azure.com/adoption-namespace-uid''"
definition annotationAzureWIClientID :: string where "annotationAzureWIClientID = ''azure.workload.identity/client-id''"
definition defaultRoleName :: string where "defaultRoleName = ''tau-researcher-v1''"

definition errNamespaceOwnershipUnverified :: kerr where
  "errNamespaceOwnershipUnverified = Errorf ''namespace ownership is not verified'' []"

section \<open>Reading objects\<close>

text \<open>Typed fields: a field that is absent has its zero value.\<close>

definition stringAt :: "jobject \<Rightarrow> string list \<Rightarrow> string" where
  "stringAt m fs = (case nestedField (JMap m) fs of Some (Some (JString s)) \<Rightarrow> s | _ \<Rightarrow> [])"

definition mapsAt :: "jobject \<Rightarrow> string list \<Rightarrow> jobject list" where
  "mapsAt m fs = (case nestedField (JMap m) fs of Some (Some (JList xs)) \<Rightarrow> List.map_filter asMap xs | _ \<Rightarrow> [])"

definition labelsAt :: "jobject \<Rightarrow> string list \<Rightarrow> (string, string) gomap" where
  "labelsAt m fs =
     (case nestedField (JMap m) fs of
        Some (Some (JMap pairs)) \<Rightarrow> List.map_filter (\<lambda>(k, v). map_option (Pair k) (asString v)) pairs
      | _ \<Rightarrow> [])"

definition listInNamespace :: "('q, 'w) api \<Rightarrow> 'w \<Rightarrow> string \<Rightarrow> string \<Rightarrow> (kobj list) res" where
  "listInNamespace A w kind namespace =
     bindE (aList A w kind) (\<lambda>items. Inr (filter (\<lambda>x. namespace = [] \<or> oNamespace x = namespace) items))"

definition listMatching :: "('q, 'w) api \<Rightarrow> 'w \<Rightarrow> string \<Rightarrow> string \<Rightarrow> (string, string) gomap \<Rightarrow> (kobj list) res" where
  "listMatching A w kind namespace labels =
     bindE (listInNamespace A w kind namespace)
       (\<lambda>items. Inr (filter (\<lambda>x. list_all (\<lambda>(k, v). gm_lookup (oLabels x) k = Some v) labels) items))"

definition keyOnly :: "string \<Rightarrow> string \<Rightarrow> string \<Rightarrow> kobj" where
  "keyOnly kind namespace name =
     \<lparr>oKind = kind, oName = name, oNamespace = namespace, oUID = [], oLabels = [], oAnnotations = [], oObject = []\<rparr>"

section \<open>Ownership\<close>

text \<open>The object as it is after the check: as read and adopted, or as given when it is absent.\<close>

definition getAndValidateWorkspaceOwnership :: "('q, 'w) api \<Rightarrow> kobj \<Rightarrow> 'q tauWorkspace \<Rightarrow> 'w \<Rightarrow> kobj res \<times> 'w" where
  "getAndValidateWorkspaceOwnership A object workspace w =
     (if wsUID workspace = [] then (Inl (Errorf ''TauWorkspace %q has no UID'' [wsName workspace]), w)
      else case aGet A w (oKind object) (oNamespace object) (oName object) of
             Inl err \<Rightarrow> (if isNotFound err then Inr object else Inl err, w)
           | Inr existing \<Rightarrow>
               if \<not> ownedByWorkspace (oLabels existing) (wsName workspace)
               then (Inl (Errorf ''%T %s already exists and is not owned by workspace %q'' [oKind existing, oName existing, wsName workspace]), w)
               else ensureWorkspaceObjectUID A existing workspace w)"

definition deleteOwnedObject :: "('q, 'w) api \<Rightarrow> kobj \<Rightarrow> 'q tauWorkspace \<Rightarrow> 'w \<Rightarrow> kerr option \<times> 'w" where
  "deleteOwnedObject A object workspace w =
     (case aGet A w (oKind object) (oNamespace object) (oName object) of
        Inl err \<Rightarrow> (ignoreNotFound err, w)
      | Inr existing \<Rightarrow>
          if \<not> ownedByWorkspace (oLabels existing) (wsName workspace)
          then (Some (Errorf ''refusing to delete %T %s: object is not owned by workspace %q'' [oKind existing, oName existing, wsName workspace]), w)
          else (case ensureWorkspaceObjectUID A existing workspace w of
                  (Inl err, w') \<Rightarrow> (Some (Wrapped ''refusing to delete %T %s'' [oKind existing, oName existing] err), w')
                | (Inr owned, w') \<Rightarrow> deleteObjectWithPreconditions A owned w'))"

section \<open>The target namespace\<close>

definition cachedNamespaceOwnershipVisible :: "('q, 'w) api \<Rightarrow> 'w \<Rightarrow> string \<Rightarrow> string \<Rightarrow> bool res" where
  "cachedNamespaceOwnershipVisible A w namespaceName workspaceUID =
     (case aCached A w namespaceKind [] namespaceName of
        Inl err \<Rightarrow> if isNotFound err then Inr False else Inl err
      | Inr namespace \<Rightarrow> Inr (gm_get [] (oAnnotations namespace) annotationOwnerUID = workspaceUID))"

definition legacyNamespaceMatchesWorkspace :: "kobj \<Rightarrow> 'q tauWorkspace \<Rightarrow> bool" where
  "legacyNamespaceMatchesWorkspace namespace workspace =
     (if gm_get [] (oLabels namespace) labelWorkspace \<noteq> wsName workspace then False
      else if gm_get [] (oLabels namespace) labelManagedBy = labelManagedByValue then True
      else let localQueue = trimSpace (gm_get [] (oLabels namespace) labelWorkspaceLocalQueue);
               defaultLocalQueue = trimSpace (gm_get [] (oLabels namespace) labelKueueDefaultLocalQueue)
           in localQueue \<noteq> [] \<and> localQueue = defaultLocalQueue)"

definition persistLegacyWorkspaceOwnerUID :: "('q, 'w) api \<Rightarrow> 'q tauWorkspace \<Rightarrow> 'w \<Rightarrow> bool res \<times> 'w" where
  "persistLegacyWorkspaceOwnerUID A workspace w =
     writeThen (Wrapped ''persist legacy TauWorkspace ownership migration'' [])
       (aPatchWorkspace A workspace (workspace\<lparr>wsAnnotations := gm_set annotationOwnerUID (wsUID workspace) (wsAnnotations workspace)\<rparr>) w)
       (\<lambda>w'. (Inr True, w'))"

text \<open>The workspace already carries its UID: a migration is pending while the cache lags behind.\<close>

definition verifyMigratedOwnership :: "('q, 'w) api \<Rightarrow> 'q tauWorkspace \<Rightarrow> 'w \<Rightarrow> bool res" where
  "verifyMigratedOwnership A workspace w =
     (if gm_get [] (wsAnnotations workspace) annotationV0Primary \<noteq> ''true'' then Inr False
      else case aGet A w namespaceKind [] (resolvedNamespace workspace) of
             Inl err \<Rightarrow> if isNotFound err then Inr False else Inl (Wrapped ''verify legacy Namespace ownership'' [] err)
           | Inr namespace \<Rightarrow>
               if gm_get [] (oAnnotations namespace) annotationOwnerUID \<noteq> wsUID workspace then Inr False
               else bindE (cachedNamespaceOwnershipVisible A w (resolvedNamespace workspace) (wsUID workspace)) (\<lambda>visible. Inr (\<not> visible)))"

definition migrateLegacyNamespace :: "('q, 'w) api \<Rightarrow> 'q tauWorkspace \<Rightarrow> string \<Rightarrow> kobj \<Rightarrow> 'w \<Rightarrow> bool res \<times> 'w" where
  "migrateLegacyNamespace A workspace targetNamespace namespace w =
     (let ownerUID = gm_get [] (oAnnotations namespace) annotationOwnerUID in
      if \<not> legacyNamespaceMatchesWorkspace namespace workspace then (Inr False, w)
      else if ownerUID \<noteq> [] \<and> ownerUID \<noteq> wsUID workspace then (Inr False, w)
      else if ownerUID = []
      then writeThen (Wrapped ''persist legacy Namespace owner UID'' []) (aUpdate A (setOwnerUIDAnnotation namespace (wsUID workspace)) w)
             (\<lambda>w'. (Inr True, w'))
      else readThen (cachedNamespaceOwnershipVisible A w targetNamespace (wsUID workspace)) w (\<lambda>visible.
             if \<not> visible then (Inr True, w) else persistLegacyWorkspaceOwnerUID A workspace w))"

definition migrateLegacyWorkspaceOwnership :: "('q, 'w) api \<Rightarrow> 'q tauWorkspace \<Rightarrow> 'w \<Rightarrow> bool res \<times> 'w" where
  "migrateLegacyWorkspaceOwnership A workspace w =
     (let ownerUID = gm_get [] (wsAnnotations workspace) annotationOwnerUID;
          previousNamespace = trimSpace (wsStatusResolvedNamespace workspace);
          targetNamespace = (if previousNamespace \<noteq> [] \<and> previousNamespace \<noteq> resolvedNamespace workspace
                             then previousNamespace else resolvedNamespace workspace)
      in if wsUID workspace = []
         then (Inl (Wrapped ''%w: TauWorkspace %q has no UID'' [wsName workspace] errNamespaceOwnershipUnverified), w)
         else if ownerUID \<noteq> []
         then if ownerUID \<noteq> wsUID workspace
              then (Inl (Errorf ''TauWorkspace %q owner UID is %q, want %q'' [wsName workspace, ownerUID, wsUID workspace]), w)
              else (verifyMigratedOwnership A workspace w, w)
         else if gm_get [] (wsAnnotations workspace) annotationV0Primary \<noteq> ''true'' then (Inr False, w)
         else case aGet A w namespaceKind [] targetNamespace of
                Inl err \<Rightarrow>
                  if isNotFound err
                  then if \<not> wsDeleting workspace then (Inr False, w) else persistLegacyWorkspaceOwnerUID A workspace w
                  else (Inl (Wrapped ''verify legacy TauWorkspace %q namespace ownership'' [wsName workspace] err), w)
              | Inr namespace \<Rightarrow> migrateLegacyNamespace A workspace targetNamespace namespace w)"

definition hasExplicitNamespaceAdoptionEvidence :: "'q tauWorkspace \<Rightarrow> kobj \<Rightarrow> bool" where
  "hasExplicitNamespaceAdoptionEvidence workspace namespace \<longleftrightarrow>
     (let expectedUID = trimSpace (gm_get [] (wsAnnotations workspace) annotationAdoptionNamespaceUID)
      in expectedUID \<noteq> [] \<and> oUID namespace \<noteq> [] \<and> expectedUID = oUID namespace)"

definition reservedNamespaceReason :: "string \<Rightarrow> string \<Rightarrow> string" where
  "reservedNamespaceReason name sysNamespace =
     (if name = sysNamespace \<or> name = ''tau-system'' \<or> name = ''tau-platform''
      then ''the Tau system namespace is owned by the platform installer''
      else if hasPrefix name ''kube-'' then ''kube-* namespaces are reserved by Kubernetes''
      else if name = ''default'' then ''the default namespace is shared cluster-wide''
      else [])"

definition workspaceNamespaceLabels :: "string \<Rightarrow> string \<Rightarrow> (string, string) gomap" where
  "workspaceNamespaceLabels workspace localQueue =
     gm_set ''pod-security.kubernetes.io/warn'' ''restricted'' (gm_set ''pod-security.kubernetes.io/audit'' ''restricted''
       (gm_set ''pod-security.kubernetes.io/enforce'' ''baseline''
         (gm_set labelKueueDefaultLocalQueue localQueue (gm_set labelWorkspaceLocalQueue localQueue (workspaceLabels workspace)))))"

definition workspaceNamespaceAnnotations :: "'q tauWorkspace \<Rightarrow> (string, string) gomap" where
  "workspaceNamespaceAnnotations workspace =
     (let owned = (if wsUID workspace \<noteq> [] then [(annotationOwnerUID, wsUID workspace)] else []);
          resultScope = trimSpace (wsOutputRoot workspace)
      in if resultScope \<noteq> [] then gm_set annotationResultScope resultScope owned else owned)"

text \<open>The labels of a namespace before a queue is activated.\<close>

definition inactiveNamespaceLabels :: "string \<Rightarrow> (string, string) gomap" where
  "inactiveNamespaceLabels workspace =
     gm_delete labelKueueDefaultLocalQueue (gm_delete labelWorkspaceLocalQueue (workspaceNamespaceLabels workspace []))"

text \<open>Whether an existing namespace may be taken.\<close>

definition checkNamespaceClaim :: "('q, 'w) api \<Rightarrow> 'w \<Rightarrow> 'q tauWorkspace \<Rightarrow> string \<Rightarrow> kobj \<Rightarrow> unit res" where
  "checkNamespaceClaim A w workspace targetNamespace namespace =
     (let owner = gm_get [] (oLabels namespace) labelWorkspace;
          adoptionNamespaceUID = trimSpace (gm_get [] (wsAnnotations workspace) annotationAdoptionNamespaceUID);
          explicitAdoption = hasExplicitNamespaceAdoptionEvidence workspace namespace;
          ownerUID = gm_get [] (oAnnotations namespace) annotationOwnerUID
      in if adoptionNamespaceUID \<noteq> [] \<and> adoptionNamespaceUID \<noteq> oUID namespace
         then Inl (Errorf ''target namespace %q UID is %q, but adoption evidence names %q'' [targetNamespace, oUID namespace, adoptionNamespaceUID])
         else bindE
           (if owner = [] \<or> owner = wsName workspace then Inr ()
            else if \<not> explicitAdoption
            then Inl (Errorf ''target namespace %q is assigned to TauWorkspace %q; explicit UID-bound adoption is required'' [targetNamespace, owner])
            else case aWorkspace A w (wsNamespace workspace) owner of
                   Inr _ \<Rightarrow> Inl (Errorf ''target namespace %q is still assigned to existing TauWorkspace %q'' [targetNamespace, owner])
                 | Inl err \<Rightarrow> if isNotFound err then Inr () else Inl (Wrapped ''verify existing TauWorkspace %q'' [owner] err)) (\<lambda>_.
           if ownerUID \<noteq> [] \<and> ownerUID \<noteq> wsUID workspace \<and> \<not> explicitAdoption
           then Inl (Errorf ''target namespace %q belongs to a different TauWorkspace UID %q; explicit UID-bound adoption is required''
                       [targetNamespace, ownerUID])
           else if ownerUID = [] \<and> wsUID workspace \<noteq> [] \<and> \<not> explicitAdoption
           then Inl (Wrapped ''%w: target namespace %q %s; explicit UID-bound adoption is required''
                       [targetNamespace, if owner = wsName workspace then ''has a workspace label without an authoritative owner UID''
                                         else ''has no TauWorkspace ownership metadata''] errNamespaceOwnershipUnverified)
           else Inr ()))"

definition requiredNamespaceLabels :: "'q kube \<Rightarrow> 'q tauWorkspace \<Rightarrow> bool \<Rightarrow> (string, string) gomap" where
  "requiredNamespaceLabels K workspace activateQueue =
     (let base = (if wsCreateNamespace workspace then inactiveNamespaceLabels (wsName workspace) else [(labelWorkspace, wsName workspace)]);
          localQueueName = workspaceLocalQueueName K workspace;
          queued = (if activateQueue then gm_set labelKueueDefaultLocalQueue localQueueName (gm_set labelWorkspaceLocalQueue localQueueName base)
                    else base)
      in case wsTeamRef workspace of None \<Rightarrow> queued | Some team \<Rightarrow> gm_set labelTeam team queued)"

definition applyLabel :: "string \<times> string \<Rightarrow> (string, string) gomap \<times> bool \<Rightarrow> (string, string) gomap \<times> bool" where
  "applyLabel entry acc =
     (if gm_get [] (fst acc) (fst entry) \<noteq> snd entry then (gm_set (fst entry) (snd entry) (fst acc), True) else acc)"

definition claimedLabels :: "'q kube \<Rightarrow> 'q tauWorkspace \<Rightarrow> bool \<Rightarrow> (string, string) gomap \<Rightarrow> (string, string) gomap \<times> bool" where
  "claimedLabels K workspace activateQueue labels =
     fold applyLabel (requiredNamespaceLabels K workspace activateQueue)
       (if wsTeamRef workspace = None \<and> gm_lookup labels labelTeam \<noteq> None then (gm_delete labelTeam labels, True) else (labels, False))"

definition claimedAnnotations :: "'q tauWorkspace \<Rightarrow> (string, string) gomap \<times> bool \<Rightarrow> (string, string) gomap \<times> bool" where
  "claimedAnnotations workspace annotations =
     (let owned = (if wsUID workspace \<noteq> [] then applyLabel (annotationOwnerUID, wsUID workspace) annotations else annotations);
          resultScope = trimSpace (wsOutputRoot workspace)
      in if resultScope = []
         then if gm_lookup (fst owned) annotationResultScope \<noteq> None then (gm_delete annotationResultScope (fst owned), True) else owned
         else applyLabel (annotationResultScope, resultScope) owned)"

text \<open>The namespace as it has to be, and whether anything changed.\<close>

definition claimedNamespace :: "'q kube \<Rightarrow> 'q tauWorkspace \<Rightarrow> bool \<Rightarrow> kobj \<Rightarrow> kobj \<times> bool" where
  "claimedNamespace K workspace activateQueue namespace =
     (let labels = claimedLabels K workspace activateQueue (oLabels namespace);
          annotations = claimedAnnotations workspace (oAnnotations namespace, snd labels)
      in (namespace\<lparr>oLabels := fst labels, oAnnotations := fst annotations\<rparr>, snd annotations))"

definition newNamespace :: "'q tauWorkspace \<Rightarrow> string \<Rightarrow> kobj" where
  "newNamespace workspace targetNamespace =
     (keyOnly namespaceKind [] targetNamespace)\<lparr>oLabels := inactiveNamespaceLabels (wsName workspace),
       oAnnotations := workspaceNamespaceAnnotations workspace\<rparr>"

definition reconcileNamespace ::
  "'q::linordered_ab_group_add kube \<Rightarrow> ('q, 'w) api \<Rightarrow> string \<Rightarrow> 'q tauWorkspace \<Rightarrow> string \<Rightarrow> bool \<Rightarrow> 'w \<Rightarrow> kerr option \<times> 'w" where
  "reconcileNamespace K A sys workspace targetNamespace activateQueue w =
     (let reason = reservedNamespaceReason targetNamespace (systemNamespace sys) in
      if wsUID workspace = []
      then (Some (Wrapped ''%w: TauWorkspace %q has no UID'' [wsName workspace] errNamespaceOwnershipUnverified), w)
      else withRes (validateQuotaValues (wsQuota workspace)) w (\<lambda>_.
        if reason \<noteq> [] then (Some (Errorf ''refusing to manage namespace %q: %s'' [targetNamespace, reason]), w)
        else case aGet A w namespaceKind [] targetNamespace of
               Inl err \<Rightarrow>
                 if isNotFound err \<and> wsCreateNamespace workspace then aCreate A (newNamespace workspace targetNamespace) w
                 else (Some err, w)
             | Inr namespace \<Rightarrow>
                 withRes (checkNamespaceClaim A w workspace targetNamespace namespace) w (\<lambda>_.
                   let (claimed, changed) = claimedNamespace K workspace activateQueue namespace
                   in if changed then aUpdate A claimed w else (None, w))))"

end
