(* ===== verification/Workspace_Cleanup.thy ===== *)
theory Workspace_Cleanup
  imports Workspace_Access
begin

text \<open>
  Who may use a workspace and how access is taken away: role bindings, the workload identity, the
  removal of stale objects and the checks that no unfinished work still needs the routing labels of
  a namespace (\<open>workspace_rbac.go\<close>, \<open>workspace_cleanup.go\<close>).
\<close>

section \<open>Role bindings\<close>

record rbacSubjectRef =
  suKind :: string
  suAPIGroup :: string
  suName :: string
  suNamespace :: string

definition rbacGroup :: string where "rbacGroup = ''rbac.authorization.k8s.io''"

definition rbacSubject :: "kubernetesSubject \<Rightarrow> string \<Rightarrow> rbacSubjectRef" where
  "rbacSubject subject serviceAccountNamespace =
     \<lparr>suKind = sjKind subject,
      suAPIGroup = (if sjKind subject = ''User'' \<or> sjKind subject = ''Group'' then rbacGroup else []),
      suName = sjName subject,
      suNamespace = (if sjKind subject = ''ServiceAccount'' then serviceAccountNamespace else [])\<rparr>"

text \<open>Bindings in their serialized form; empty fields are omitted.\<close>

definition optionalField :: "string \<Rightarrow> string \<Rightarrow> jobject" where
  "optionalField name value = (if value = [] then [] else [(name, JString value)])"

definition subjectObject :: "rbacSubjectRef \<Rightarrow> json" where
  "subjectObject s = JMap ([(''kind'', JString (suKind s))] @ optionalField ''apiGroup'' (suAPIGroup s) @
     [(''name'', JString (suName s))] @ optionalField ''namespace'' (suNamespace s))"

definition roleRefObject :: "string \<Rightarrow> string \<Rightarrow> json" where
  "roleRefObject kind name = JMap [(''apiGroup'', JString rbacGroup), (''kind'', JString kind), (''name'', JString name)]"

definition readSubject :: "jobject \<Rightarrow> rbacSubjectRef" where
  "readSubject m = \<lparr>suKind = stringAt m [''kind''], suAPIGroup = stringAt m [''apiGroup''], suName = stringAt m [''name''],
     suNamespace = stringAt m [''namespace'']\<rparr>"

definition bindingSubjects :: "kobj \<Rightarrow> rbacSubjectRef list" where
  "bindingSubjects binding = map readSubject (mapsAt (oObject binding) [''subjects''])"

definition bindingRole :: "kobj \<Rightarrow> string \<times> string \<times> string" where
  "bindingRole binding = (stringAt (oObject binding) [''roleRef'', ''apiGroup''], stringAt (oObject binding) [''roleRef'', ''kind''],
     stringAt (oObject binding) [''roleRef'', ''name''])"

definition setBinding :: "string \<Rightarrow> string \<Rightarrow> rbacSubjectRef \<Rightarrow> kobj \<Rightarrow> kobj" where
  "setBinding roleRefKind roleName subject binding =
     binding\<lparr>oObject := gm_set ''subjects'' (JList [subjectObject subject]) (gm_set ''roleRef'' (roleRefObject roleRefKind roleName) (oObject binding))\<rparr>"

definition markOwned :: "'q tauWorkspace \<Rightarrow> kobj \<Rightarrow> kobj" where
  "markOwned workspace object = setOwnerUIDAnnotation (object\<lparr>oLabels := workspaceLabels (wsName workspace)\<rparr>) (wsUID workspace)"

definition authorizationMode :: "'q tauWorkspace \<Rightarrow> string" where
  "authorizationMode workspace =
     (case wsAuthorization workspace of None \<Rightarrow> ''workspace-rbac'' | Some mode \<Rightarrow> if mode = [] then ''workspace-rbac'' else mode)"

definition modeClusterWide :: string where "modeClusterWide = ''cluster-wide''"
definition clusterQueueReaderRoleName :: string where "clusterQueueReaderRoleName = ''tau-clusterqueue-reader-v1''"

definition clusterQueueReaderBindingName :: "string \<Rightarrow> string" where
  "clusterQueueReaderBindingName workspaceName = ''tau-clusterqueue-reader-'' @ workspaceName"

definition workspaceReaderRBACName :: "string \<Rightarrow> string" where
  "workspaceReaderRBACName workspaceName = ''tau-workspace-reader-'' @ workspaceName"

text \<open>An object of the workspace: the ownership check, then creation or update.\<close>

definition reconcileOwned ::
  "('q, 'w) api \<Rightarrow> (kerr \<Rightarrow> kerr) \<Rightarrow> 'q tauWorkspace \<Rightarrow> kobj \<Rightarrow> (kobj \<Rightarrow> kobj) \<Rightarrow> 'w \<Rightarrow> kerr option \<times> 'w" where
  "reconcileOwned A wrap workspace object mutate w =
     (case getAndValidateWorkspaceOwnership A object workspace w of
        (Inl err, w') \<Rightarrow> (Some (wrap err), w')
      | (Inr current, w') \<Rightarrow> aCreateOrUpdate A current mutate w')"

definition reconcileResearcherRoleBinding ::
  "('q, 'w) api \<Rightarrow> 'q tauWorkspace \<Rightarrow> kubernetesSubject \<Rightarrow> string \<Rightarrow> 'w \<Rightarrow> kerr option \<times> 'w" where
  "reconcileResearcherRoleBinding A workspace subject namespace w =
     reconcileOwned A (Wrapped ''refusing to adopt existing researcher RoleBinding'' []) workspace
       (keyOnly roleBindingKind namespace defaultRoleName)
       (\<lambda>binding. setBinding ''ClusterRole'' defaultRoleName (rbacSubject subject namespace) (markOwned workspace binding)) w"

definition reconcileClusterQueueReaderRBAC ::
  "('q, 'w) api \<Rightarrow> 'q tauWorkspace \<Rightarrow> kubernetesSubject \<Rightarrow> string \<Rightarrow> 'w \<Rightarrow> kerr option \<times> 'w" where
  "reconcileClusterQueueReaderRBAC A workspace subject serviceAccountNamespace w =
     reconcileOwned A id workspace (keyOnly clusterRoleBindingKind [] (clusterQueueReaderBindingName (wsName workspace)))
       (\<lambda>binding. setBinding ''ClusterRole'' clusterQueueReaderRoleName (rbacSubject subject serviceAccountNamespace) (markOwned workspace binding)) w"

definition policyRule :: "string \<Rightarrow> string list \<Rightarrow> string list \<Rightarrow> string list \<Rightarrow> json" where
  "policyRule apiGroup resources resourceNames verbs =
     JMap ([(''apiGroups'', JList [JString apiGroup]), (''resources'', JList (map JString resources))] @
       (if resourceNames = [] then [] else [(''resourceNames'', JList (map JString resourceNames))]) @ [(''verbs'', JList (map JString verbs))])"

definition workspaceReaderRules :: "string \<Rightarrow> json" where
  "workspaceReaderRules workspaceName = JList
     [policyRule ''tau.azure.com'' [''workspaces'', ''workspaces/status''] [workspaceName] [''get''],
      policyRule ''tau.azure.com'' [''quotarequests''] [] [''create'', ''get''],
      policyRule [] [''configmaps''] [''tau-log-connection''] [''get'']]"

definition reconcileSystemReaderRBAC ::
  "('q, 'w) api \<Rightarrow> string \<Rightarrow> 'q tauWorkspace \<Rightarrow> kubernetesSubject \<Rightarrow> 'w \<Rightarrow> kerr option \<times> 'w" where
  "reconcileSystemReaderRBAC A sys workspace subject w =
     (let name = workspaceReaderRBACName (wsName workspace); namespace = systemNamespace sys in
      andThen (reconcileOwned A id workspace (keyOnly roleKind namespace name)
                 (\<lambda>role. (markOwned workspace role)\<lparr>oObject := gm_set ''rules'' (workspaceReaderRules (wsName workspace)) (oObject role)\<rparr>) w)
        (reconcileOwned A id workspace (keyOnly roleBindingKind namespace name)
           (\<lambda>binding. setBinding ''Role'' name (rbacSubject subject namespace) (markOwned workspace binding))))"

definition cleanupResearcherRBAC :: "('q, 'w) api \<Rightarrow> 'q tauWorkspace \<Rightarrow> string \<Rightarrow> 'w \<Rightarrow> kerr option \<times> 'w" where
  "cleanupResearcherRBAC A workspace targetNamespace = deleteOwnedObject A (keyOnly roleBindingKind targetNamespace defaultRoleName) workspace"

definition cleanupClusterQueueReaderRBAC :: "('q, 'w) api \<Rightarrow> 'q tauWorkspace \<Rightarrow> 'w \<Rightarrow> kerr option \<times> 'w" where
  "cleanupClusterQueueReaderRBAC A workspace =
     deleteOwnedObject A (keyOnly clusterRoleBindingKind [] (clusterQueueReaderBindingName (wsName workspace))) workspace"

definition cleanupSystemReaderRBAC :: "('q, 'w) api \<Rightarrow> string \<Rightarrow> 'q tauWorkspace \<Rightarrow> 'w \<Rightarrow> kerr option \<times> 'w" where
  "cleanupSystemReaderRBAC A sys workspace =
     forEach (\<lambda>kind. deleteOwnedObject A (keyOnly kind (systemNamespace sys) (workspaceReaderRBACName (wsName workspace))) workspace)
       [roleKind, roleBindingKind]"

text \<open>A part of the status: ready, message, error.\<close>

definition failedPart :: "string \<Rightarrow> kerr option \<times> 'w \<Rightarrow> ('w \<Rightarrow> 'w readiness) \<Rightarrow> 'w readiness" where
  "failedPart message p f = (case p of (Some err, w) \<Rightarrow> ((False, Msg message, Some err), w) | (None, w) \<Rightarrow> f w)"

definition reconcileRBAC :: "('q, 'w) api \<Rightarrow> string \<Rightarrow> 'q tauWorkspace \<Rightarrow> string \<Rightarrow> 'w \<Rightarrow> 'w readiness" where
  "reconcileRBAC A sys workspace targetNamespace w =
     (if authorizationMode workspace = modeClusterWide
      then failedPart ''failed to remove subject-specific researcher RBAC for cluster-wide authorization''
             (cleanupResearcherRBAC A workspace targetNamespace w) (\<lambda>w1.
           failedPart ''failed to remove subject-specific ClusterQueue reader RBAC for cluster-wide authorization''
             (cleanupClusterQueueReaderRBAC A workspace w1) (\<lambda>w2.
           failedPart ''failed to remove subject-specific workspace reader RBAC for cluster-wide authorization''
             (cleanupSystemReaderRBAC A sys workspace w2) (\<lambda>w3.
           ((True, Msg ''workspace relies on pre-existing cluster authorization; the controller grants no researcher access'', None), w3))))
      else case (wsPrincipalRef workspace, wsKubernetesSubject workspace) of
             (Some _, Some subject) \<Rightarrow>
               failedPart ''failed to reconcile researcher RoleBinding'' (reconcileResearcherRoleBinding A workspace subject targetNamespace w) (\<lambda>w1.
               failedPart ''failed to reconcile ClusterQueue reader ClusterRoleBinding''
                 (reconcileClusterQueueReaderRBAC A workspace subject targetNamespace w1) (\<lambda>w2.
               failedPart ''failed to reconcile workspace reader RoleBinding'' (reconcileSystemReaderRBAC A sys workspace subject w2) (\<lambda>w3.
               ((True, Msg ''researcher namespace and ClusterQueue reader bindings are reconciled'', None), w3))))
           | _ \<Rightarrow> ((False, Msg ''workspace-rbac authorization requires principalRef and kubernetesSubject'', None), w))"

definition reconcileExistingResearcherAccess :: "('q, 'w) api \<Rightarrow> 'q tauWorkspace \<Rightarrow> string \<Rightarrow> 'w \<Rightarrow> kerr option \<times> 'w" where
  "reconcileExistingResearcherAccess A workspace namespace w =
     (case aGet A w roleBindingKind namespace defaultRoleName of
        Inl err \<Rightarrow>
          (case (wsPrincipalRef workspace, wsKubernetesSubject workspace) of
             (Some _, Some subject) \<Rightarrow>
               if isNotFound err \<and> namespace = wsStatusResolvedNamespace workspace \<and> authorizationMode workspace \<noteq> modeClusterWide
               then reconcileResearcherRoleBinding A workspace subject namespace w
               else (ignoreNotFound err, w)
           | _ \<Rightarrow> (ignoreNotFound err, w))
      | Inr binding \<Rightarrow>
          if \<not> ownedByWorkspace (oLabels binding) (wsName workspace)
          then (Some (Errorf ''RoleBinding %s is not owned by workspace %q'' [oNamespace binding, oName binding, wsName workspace]), w)
          else (case ensureWorkspaceObjectUID A binding workspace w of
                  (Inl err, w') \<Rightarrow> (Some err, w')
                | (Inr owned, w') \<Rightarrow>
                    (case wsKubernetesSubject workspace of
                       None \<Rightarrow> deleteObjectWithPreconditions A owned w'
                     | Some subject \<Rightarrow>
                         if authorizationMode workspace = modeClusterWide then deleteObjectWithPreconditions A owned w'
                         else if bindingSubjects owned = [rbacSubject subject namespace] \<and>
                                 bindingRole owned = (rbacGroup, ''ClusterRole'', defaultRoleName)
                         then (None, w')
                         else aUpdate A (setBinding ''ClusterRole'' defaultRoleName (rbacSubject subject namespace) owned) w')))"

definition reconcileOwnedNamespaceResearcherAccess :: "('q, 'w) api \<Rightarrow> 'q tauWorkspace \<Rightarrow> string \<Rightarrow> 'w \<Rightarrow> kerr option \<times> 'w" where
  "reconcileOwnedNamespaceResearcherAccess A workspace targetNamespace w =
     withRes (listMatching A w namespaceKind [] [(labelWorkspace, wsName workspace)]) w (\<lambda>namespaces.
       forEach (\<lambda>namespace w'.
         if oName namespace = targetNamespace \<or> wsUID workspace = [] \<or>
            gm_get [] (oAnnotations namespace) annotationOwnerUID \<noteq> wsUID workspace
         then (None, w')
         else reconcileExistingResearcherAccess A workspace (oName namespace) w') namespaces w)"

definition cleanupOwnedResearcherRoleBindings :: "('q, 'w) api \<Rightarrow> 'q tauWorkspace \<Rightarrow> 'w \<Rightarrow> kerr option \<times> 'w" where
  "cleanupOwnedResearcherRoleBindings A workspace w =
     withRes (listMatching A w roleBindingKind [] (workspaceLabels (wsName workspace))) w (\<lambda>bindings.
       forEach (\<lambda>binding w'. if oName binding \<noteq> defaultRoleName then (None, w') else deleteOwnedObject A binding workspace w') bindings w)"

section \<open>Workload identity\<close>

definition workloadIdentityAccount :: "'q tauWorkspace \<Rightarrow> workloadIdentity \<Rightarrow> kobj \<Rightarrow> kobj" where
  "workloadIdentityAccount workspace wi account =
     (let labelled = account\<lparr>oLabels := gm_set ''azure.workload.identity/use'' ''true''
            (fold (\<lambda>(k, v). gm_set k v) (workspaceLabels (wsName workspace)) (oLabels account))\<rparr>;
          owned = setOwnerUIDAnnotation labelled (wsUID workspace)
      in owned\<lparr>oAnnotations := gm_set annotationAzureWIClientID (wiClientID wi) (oAnnotations owned)\<rparr>)"

definition reconcileWorkloadIdentity :: "('q, 'w) api \<Rightarrow> 'q tauWorkspace \<Rightarrow> string \<Rightarrow> 'w \<Rightarrow> 'w readiness" where
  "reconcileWorkloadIdentity A workspace targetNamespace w =
     (case wsWorkloadIdentity workspace of
        None \<Rightarrow> ((False, Msg ''workspace does not configure workload identity defaults'', None), w)
      | Some wi \<Rightarrow>
          (case getAndValidateWorkspaceOwnership A (keyOnly serviceAccountKind targetNamespace (wiServiceAccountName wi)) workspace w of
             (Inl err, w') \<Rightarrow> ((False, Msg ''refusing to adopt existing workload identity ServiceAccount'', Some err), w')
           | (Inr account, w') \<Rightarrow>
               failedPart ''failed to reconcile workload identity ServiceAccount''
                 (aCreateOrUpdate A account (workloadIdentityAccount workspace wi) w')
                 (\<lambda>w''. ((True, Msg ''workload identity ServiceAccount is reconciled'', None), w''))))"

definition removeServiceAccount :: "('q, 'w) api \<Rightarrow> 'q tauWorkspace \<Rightarrow> kobj \<Rightarrow> 'w \<Rightarrow> kerr option \<times> 'w" where
  "removeServiceAccount A workspace account w =
     (case ensureWorkspaceObjectUID A account workspace w of
        (Inl err, w') \<Rightarrow> (Some (Wrapped ''refusing to delete stale workload identity ServiceAccount'' [] err), w')
      | (Inr owned, w') \<Rightarrow>
          andThen (deleteObjectWithPreconditions A owned w') (\<lambda>w''.
            case aGet A w'' serviceAccountKind (oNamespace account) (oName account) of
              Inl err \<Rightarrow> (ignoreNotFound err, w'')
            | Inr remaining \<Rightarrow>
                (Some (Errorf ''waiting for obsolete workload identity ServiceAccount %s deletion to complete; finalizers=%v''
                         [oNamespace remaining, oName remaining]), w'')))"

definition cleanupStaleWorkloadIdentityServiceAccounts ::
  "('q, 'w) api \<Rightarrow> 'q tauWorkspace \<Rightarrow> string \<Rightarrow> string \<Rightarrow> 'w \<Rightarrow> kerr option \<times> 'w" where
  "cleanupStaleWorkloadIdentityServiceAccounts A workspace targetNamespace keepServiceAccount w =
     withRes (listMatching A w serviceAccountKind targetNamespace (workspaceLabels (wsName workspace))) w (\<lambda>accounts.
       forEach (\<lambda>account w'.
         let desiredClientID = (case wsWorkloadIdentity workspace of None \<Rightarrow> [] | Some wi \<Rightarrow> trimSpace (wiClientID wi)) in
         if keepServiceAccount \<noteq> [] \<and> oName account = keepServiceAccount \<and>
            trimSpace (gm_get [] (oAnnotations account) annotationAzureWIClientID) = desiredClientID
         then (None, w')
         else removeServiceAccount A workspace account w') accounts w)"

definition cleanupOwnedNamespaceWorkloadIdentity :: "('q, 'w) api \<Rightarrow> 'q tauWorkspace \<Rightarrow> string \<Rightarrow> 'w \<Rightarrow> kerr option \<times> 'w" where
  "cleanupOwnedNamespaceWorkloadIdentity A workspace keepServiceAccount w =
     withRes (listMatching A w namespaceKind [] [(labelWorkspace, wsName workspace)]) w (\<lambda>namespaces.
       forEach (\<lambda>namespace w'.
         if wsUID workspace = [] \<or> gm_get [] (oAnnotations namespace) annotationOwnerUID \<noteq> wsUID workspace then (None, w')
         else cleanupStaleWorkloadIdentityServiceAccounts A workspace (oName namespace) keepServiceAccount w') namespaces w)"

section \<open>Work that still needs a namespace\<close>

type_synonym waiting = "(string \<times> string list) option"  \<comment> \<open>what is waited for\<close>

fun firstWaiting :: "('a \<Rightarrow> waiting res) \<Rightarrow> 'a list \<Rightarrow> waiting res" where
  "firstWaiting f [] = Inr None"
| "firstWaiting f (x # xs) =
     bindE (f x) (\<lambda>r. case r of Some m \<Rightarrow> Inr (Some m) | None \<Rightarrow> firstWaiting f xs)"

definition routingLabels :: "string list" where
  "routingLabels = [labelManagedBy, labelTeam, labelWorkspace, labelWorkspaceLocalQueue, labelKueueDefaultLocalQueue]"

definition withoutRouting :: "(string, string) gomap \<Rightarrow> (string, string) gomap" where
  "withoutRouting labels = fold gm_delete routingLabels labels"

definition conditionHolds :: "jobject \<Rightarrow> string \<Rightarrow> bool" where
  "conditionHolds c type \<longleftrightarrow> gm_lookup c ''type'' = Some (JString type) \<and> gm_lookup c ''status'' = Some (JString ''True'')"

definition workloadFinished :: "'q kube \<Rightarrow> kobj \<Rightarrow> bool" where
  "workloadFinished K workload =
     (case kNestedSlice K (oObject workload) [''status'', ''conditions''] of
        Inr (Some conditions) \<Rightarrow> list_ex (\<lambda>c. case c of JMap m \<Rightarrow> conditionHolds m ''Finished'' | _ \<Rightarrow> False) conditions
      | _ \<Rightarrow> False)"

definition jobFinished :: "kobj \<Rightarrow> bool" where
  "jobFinished job = list_ex (\<lambda>c. conditionHolds c ''Complete'' \<or> conditionHolds c ''Failed'') (mapsAt (oObject job) [''status'', ''conditions''])"

definition sourceRayJobFinished :: "'q kube \<Rightarrow> kobj \<Rightarrow> bool res" where
  "sourceRayJobFinished K rayJob =
     bindE (mapErr (Wrapped ''read RayJob %s jobDeploymentStatus before routing metadata cleanup'' [oNamespace rayJob, oName rayJob])
              (nestedStringOrEmpty K (oObject rayJob) [''status'', ''jobDeploymentStatus'']))
       (\<lambda>value. Inr (value = ''Complete'' \<or> value = ''Failed''))"

text \<open>One queue: unfinished work waits when its ClusterQueue would no longer select the namespace.\<close>

definition queueRoutingMetadataInUse ::
  "'q kube \<Rightarrow> ('q, 'w) api \<Rightarrow> 'w \<Rightarrow> 'q tauWorkspace \<Rightarrow> kobj \<Rightarrow> string \<Rightarrow> string \<Rightarrow> string list \<Rightarrow> waiting res" where
  "queueRoutingMetadataInUse K A w workspace namespace queueName admittedClusterQueue source =
     (case aGet A w localQueueKind (oName namespace) queueName of
        Inl err \<Rightarrow>
          if isNotFound err then Inr None
          else Inl (Wrapped ''read LocalQueue %s before routing metadata cleanup'' [oName namespace, queueName] err)
      | Inr localQueue \<Rightarrow>
          bindE (mapErr (Wrapped ''read LocalQueue %s backing ClusterQueue'' [oName namespace, queueName])
                   (nestedStringOrEmpty K (oObject localQueue) [''spec'', ''clusterQueue''])) (\<lambda>backing.
          if trimSpace backing = [] then Inl (Errorf ''LocalQueue %s has no backing ClusterQueue'' [oName namespace, queueName])
          else let clusterQueueName = (if trimSpace admittedClusterQueue \<noteq> [] then admittedClusterQueue else backing) in
          bindE (mapErr (Wrapped ''read ClusterQueue %s before routing metadata cleanup'' [clusterQueueName]) (getQueue A w clusterQueueName)) (\<lambda>clusterQueue.
          let expectedUID = trimSpace (wsStatusClusterQueueUID workspace) in
          if expectedUID \<noteq> [] \<and> clusterQueueName = trimSpace (wsStatusClusterQueue workspace) \<and> oUID clusterQueue \<noteq> expectedUID
          then Inl (Errorf ''ClusterQueue %q UID changed from %q to %q before routing metadata cleanup'' [clusterQueueName, expectedUID, oUID clusterQueue])
          else bindE (mapErr (Wrapped ''read ClusterQueue %q namespaceSelector'' [clusterQueueName])
                        (bindE (kNestedMap K (oObject clusterQueue) [''spec'', ''namespaceSelector'']) (\<lambda>selectorMap.
                           kLabelSelector K (case selectorMap of None \<Rightarrow> [] | Some m \<Rightarrow> m)))) (\<lambda>matches.
          if \<not> matches (oLabels namespace)
          then Inl (Errorf ''ClusterQueue %q namespaceSelector does not match namespace %q for unfinished %s'' ([clusterQueueName, oName namespace] @ source))
          else if matches (withoutRouting (oLabels namespace)) then Inr None
          else Inr (Some (''waiting for %s using retained LocalQueue %q and ClusterQueue %q before removing namespace routing metadata'',
                          source @ [queueName, clusterQueueName]))))))"

definition workloadInUse :: "'q kube \<Rightarrow> ('q, 'w) api \<Rightarrow> 'w \<Rightarrow> 'q tauWorkspace \<Rightarrow> kobj \<Rightarrow> kobj \<Rightarrow> waiting res" where
  "workloadInUse K A w workspace namespace workload =
     (if workloadFinished K workload then Inr None
      else bindE (mapErr (Wrapped ''read Workload %s queueName'' [oNamespace workload, oName workload])
                    (nestedStringOrEmpty K (oObject workload) [''spec'', ''queueName''])) (\<lambda>q.
           if trimSpace q = [] then Inr None
           else bindE (mapErr (Wrapped ''read Workload %s admitted ClusterQueue'' [oNamespace workload, oName workload])
                         (nestedStringOrEmpty K (oObject workload) [''status'', ''admission'', ''clusterQueue''])) (\<lambda>admitted.
                queueRoutingMetadataInUse K A w workspace namespace (trimSpace q) admitted [''Workload'', oNamespace workload, oName workload])))"

text \<open>The jobs that have a Workload: their name by UID.\<close>

definition ownersOf :: "string \<Rightarrow> string \<Rightarrow> kobj list \<Rightarrow> (string, string) gomap" where
  "ownersOf apiVersion kind workloads =
     fold (\<lambda>owner m.
         if stringAt owner [''apiVersion''] = apiVersion \<and> stringAt owner [''kind''] = kind \<and> stringAt owner [''uid''] \<noteq> []
         then gm_set (stringAt owner [''uid'']) (stringAt owner [''name'']) m else m)
       (concat (map (\<lambda>workload. mapsAt (oObject workload) [''metadata'', ''ownerReferences'']) workloads)) []"

definition jobInUse :: "'q kube \<Rightarrow> ('q, 'w) api \<Rightarrow> 'w \<Rightarrow> 'q tauWorkspace \<Rightarrow> kobj \<Rightarrow> (string, string) gomap \<Rightarrow> kobj \<Rightarrow> waiting res" where
  "jobInUse K A w workspace namespace workloadJobs job =
     (let queueName = trimSpace (gm_get [] (oLabels job) labelKueueQueueName) in
      if oUID job \<noteq> [] \<and> gm_get [] workloadJobs (oUID job) = oName job then Inr None
      else if jobFinished job \<or> queueName = [] then Inr None
      else queueRoutingMetadataInUse K A w workspace namespace queueName [] [''Job'', oNamespace job, oName job])"

definition deploymentInUse :: "'q kube \<Rightarrow> ('q, 'w) api \<Rightarrow> 'w \<Rightarrow> 'q tauWorkspace \<Rightarrow> kobj \<Rightarrow> kobj \<Rightarrow> waiting res" where
  "deploymentInUse K A w workspace namespace deployment =
     (let labels = labelsAt (oObject deployment) [''spec'', ''template'', ''metadata'', ''labels''];
          queueName = trimSpace (gm_get [] labels labelKueueQueueName)
      in if gm_get [] labels ''kueue.x-k8s.io/managed'' \<noteq> ''true'' \<or> queueName = [] then Inr None
         else queueRoutingMetadataInUse K A w workspace namespace queueName [] [''Deployment'', oNamespace deployment, oName deployment])"

definition raySourceInUse ::
  "'q kube \<Rightarrow> ('q, 'w) api \<Rightarrow> 'w \<Rightarrow> 'q tauWorkspace \<Rightarrow> kobj \<Rightarrow> (string, string) gomap \<Rightarrow> string \<Rightarrow> kobj \<Rightarrow> waiting res" where
  "raySourceInUse K A w workspace namespace workloadRayJobs kind source =
     (let queueName = trimSpace (gm_get [] (oLabels source) labelKueueQueueName) in
      if queueName = [] then Inr None
      else if kind = ''RayJob'' \<and> oUID source \<noteq> [] \<and> gm_get [] workloadRayJobs (oUID source) = oName source then Inr None
      else bindE (if kind = ''RayJob'' then sourceRayJobFinished K source else Inr False) (\<lambda>finished.
           if finished then Inr None
           else queueRoutingMetadataInUse K A w workspace namespace queueName [] [kind, oNamespace source, oName source]))"

definition raySourcesInUse ::
  "'q kube \<Rightarrow> ('q, 'w) api \<Rightarrow> 'w \<Rightarrow> 'q tauWorkspace \<Rightarrow> kobj \<Rightarrow> (string, string) gomap \<Rightarrow> string \<Rightarrow> waiting res" where
  "raySourcesInUse K A w workspace namespace workloadRayJobs kind =
     (case listInNamespace A w kind (oName namespace) of
        Inl err \<Rightarrow>
          if isNoMatchError err \<or> isNotFound err then Inr None
          else Inl (Wrapped ''list %ss in namespace %q before routing metadata cleanup'' [kind, oName namespace] err)
      | Inr sources \<Rightarrow> firstWaiting (raySourceInUse K A w workspace namespace workloadRayJobs kind) sources)"

definition listBeforeCleanup :: "('q, 'w) api \<Rightarrow> 'w \<Rightarrow> string \<Rightarrow> kobj \<Rightarrow> (kobj list) res" where
  "listBeforeCleanup A w kind namespace =
     mapErr (Wrapped ''list %ss in namespace %q before routing metadata cleanup'' [kind, oName namespace]) (listInNamespace A w kind (oName namespace))"

definition orWaiting :: "waiting res \<Rightarrow> waiting res \<Rightarrow> waiting res" where
  "orWaiting r s = bindE r (\<lambda>m. case m of Some x \<Rightarrow> Inr (Some x) | None \<Rightarrow> s)"

definition namespaceRoutingMetadataInUse :: "'q kube \<Rightarrow> ('q, 'w) api \<Rightarrow> 'w \<Rightarrow> 'q tauWorkspace \<Rightarrow> kobj \<Rightarrow> waiting res" where
  "namespaceRoutingMetadataInUse K A w workspace namespace =
     bindE (listBeforeCleanup A w workloadKind namespace) (\<lambda>workloads.
     orWaiting (firstWaiting (workloadInUse K A w workspace namespace) workloads)
       (orWaiting
         (bindE (listBeforeCleanup A w jobKind namespace)
            (firstWaiting (jobInUse K A w workspace namespace (ownersOf ''batch/v1'' ''Job'' workloads))))
         (orWaiting
           (bindE (listBeforeCleanup A w deploymentKind namespace) (firstWaiting (deploymentInUse K A w workspace namespace)))
           (firstWaiting (raySourcesInUse K A w workspace namespace (ownersOf ''ray.io/v1'' ''RayJob'' workloads)) [''RayJob'', ''RayService'']))))"

text \<open>The namespace whose metadata belongs to this workspace; \<open>None\<close> when there is nothing to clean.\<close>

definition workspaceNamespaceForMetadataCleanup :: "('q, 'w) api \<Rightarrow> string \<Rightarrow> 'w \<Rightarrow> 'q tauWorkspace \<Rightarrow> string \<Rightarrow> (kobj option) res" where
  "workspaceNamespaceForMetadataCleanup A sys w workspace namespaceName =
     (if reservedNamespaceReason namespaceName (systemNamespace sys) \<noteq> [] then Inr None
      else case aGet A w namespaceKind [] namespaceName of
             Inl err \<Rightarrow> if isNotFound err then Inr None else Inl err
           | Inr namespace \<Rightarrow>
               if gm_get [] (oLabels namespace) labelWorkspace \<noteq> wsName workspace \<or>
                  gm_get [] (oAnnotations namespace) annotationOwnerUID \<noteq> wsUID workspace \<or> wsUID workspace = []
               then Inr None else Inr (Some namespace))"

text \<open>The namespace that is free of unfinished work, if it is this workspace's.\<close>

definition drainedNamespace :: "'q kube \<Rightarrow> ('q, 'w) api \<Rightarrow> string \<Rightarrow> 'q tauWorkspace \<Rightarrow> string \<Rightarrow> 'w \<Rightarrow> (kobj option) res" where
  "drainedNamespace K A sys workspace namespaceName w =
     bindE (workspaceNamespaceForMetadataCleanup A sys w workspace namespaceName) (\<lambda>found.
       case found of
         None \<Rightarrow> Inr None
       | Some namespace \<Rightarrow>
           bindE (namespaceRoutingMetadataInUse K A w workspace namespace) (\<lambda>inUse.
             case inUse of Some (text, args) \<Rightarrow> Inl (Errorf text args) | None \<Rightarrow> Inr (Some namespace)))"

definition waitForNamespaceRoutingMetadataDrain ::
  "'q kube \<Rightarrow> ('q, 'w) api \<Rightarrow> string \<Rightarrow> 'q tauWorkspace \<Rightarrow> string \<Rightarrow> 'w \<Rightarrow> kerr option" where
  "waitForNamespaceRoutingMetadataDrain K A sys workspace namespaceName w =
     (case drainedNamespace K A sys workspace namespaceName w of Inl err \<Rightarrow> Some err | Inr _ \<Rightarrow> None)"

definition cleanupStaleNamespaceMetadata ::
  "'q kube \<Rightarrow> ('q, 'w) api \<Rightarrow> string \<Rightarrow> 'q tauWorkspace \<Rightarrow> string \<Rightarrow> 'w \<Rightarrow> kerr option \<times> 'w" where
  "cleanupStaleNamespaceMetadata K A sys workspace namespaceName w =
     withRes (drainedNamespace K A sys workspace namespaceName w) w (\<lambda>found.
       case found of
         None \<Rightarrow> (None, w)
       | Some namespace \<Rightarrow>
           aUpdate A (namespace\<lparr>oLabels := withoutRouting (oLabels namespace),
             oAnnotations := gm_delete annotationOwnerUID (gm_delete annotationResultScope (oAnnotations namespace))\<rparr>) w)"

section \<open>Removing what a workspace owns\<close>

definition cleanupWorkspaceClusterQueue :: "'q kube \<Rightarrow> ('q, 'w) api \<Rightarrow> 'q tauWorkspace \<Rightarrow> 'w \<Rightarrow> kerr option \<times> 'w" where
  "cleanupWorkspaceClusterQueue K A workspace w =
     (let name = workspaceClusterQueueName K (wsName workspace) in
      case getQueue A w name of
        Inl err \<Rightarrow> (ignoreNotFound err, w)
      | Inr queue \<Rightarrow>
          if \<not> ownedByWorkspace (oLabels queue) (wsName workspace)
          then if gm_get [] (oLabels queue) labelManagedBy \<noteq> labelManagedByValue then (None, w)
               else withRes (retainedEstablishedWorkspaceClusterQueue K A w workspace) w (\<lambda>retained.
                 if retained = Some (oName queue) then (None, w)
                 else (Some (Errorf ''refusing to delete ClusterQueue %q: object is not owned by workspace %q'' [oName queue, wsName workspace]), w))
          else withRes (mapErr (Wrapped ''refusing to delete ClusterQueue %q'' [oName queue]) (validateWorkspaceObjectUID queue workspace)) w (\<lambda>_.
            if wsStatusClusterQueue workspace = oName queue \<and> wsStatusClusterQueueUID workspace \<noteq> [] \<and> oUID queue \<noteq> wsStatusClusterQueueUID workspace
            then (Some (Errorf ''refusing to delete ClusterQueue %q: UID changed from %q to %q''
                          [oName queue, wsStatusClusterQueueUID workspace, oUID queue]), w)
            else andThen (deleteObjectWithPreconditions A queue w) (\<lambda>w'.
              case getQueue A w' name of
                Inl err \<Rightarrow> (ignoreNotFound err, w')
              | Inr remaining \<Rightarrow> (Some (Errorf ''waiting for ClusterQueue %q deletion to complete; finalizers=%v'' [oName remaining]), w'))))"

definition canDeleteLegacyWorkspaceRole :: "kobj \<Rightarrow> 'q tauWorkspace \<Rightarrow> bool" where
  "canDeleteLegacyWorkspaceRole role workspace \<longleftrightarrow>
     wsUID workspace \<noteq> [] \<and> gm_get [] (wsAnnotations workspace) annotationOwnerUID = wsUID workspace \<and> oUID role \<noteq> [] \<and>
     gm_get [] (oAnnotations role) annotationOwnerUID = [] \<and> ownedByWorkspace (oLabels role) (wsName workspace)"

definition removeOwned :: "('q, 'w) api \<Rightarrow> (kerr \<Rightarrow> kerr) \<Rightarrow> 'q tauWorkspace \<Rightarrow> kobj \<Rightarrow> 'w \<Rightarrow> kerr option \<times> 'w" where
  "removeOwned A wrap workspace object w =
     (case ensureWorkspaceObjectUID A object workspace w of
        (Inl err, w') \<Rightarrow> (Some (wrap err), w')
      | (Inr owned, w') \<Rightarrow> deleteObjectWithPreconditions A owned w')"

definition removeStaleAccess ::
  "('q, 'w) api \<Rightarrow> string \<Rightarrow> 'q tauWorkspace \<Rightarrow> string \<Rightarrow> (kobj \<Rightarrow> bool) \<Rightarrow> kobj \<Rightarrow> 'w \<Rightarrow> kerr option \<times> 'w" where
  "removeStaleAccess A sys workspace keepNamespace keep object w =
     (if oNamespace object = systemNamespace sys then (None, w)
      else if keepNamespace \<noteq> [] \<and> oNamespace object = keepNamespace \<and> keep object then (None, w)
      else if oKind object = roleKind \<and> canDeleteLegacyWorkspaceRole object workspace then deleteObjectWithPreconditions A object w
      else removeOwned A (Wrapped ''refusing to delete stale workspace access'' []) workspace object w)"

definition cleanupStaleTargetRBAC ::
  "('q, 'w) api \<Rightarrow> string \<Rightarrow> 'q tauWorkspace \<Rightarrow> string \<Rightarrow> string \<Rightarrow> bool \<Rightarrow> 'w \<Rightarrow> kerr option \<times> 'w" where
  "cleanupStaleTargetRBAC A sys workspace keepNamespace keepServiceAccount keepResearcherBinding =
     forEach (\<lambda>(kind, keep) w.
       withRes (listMatching A w kind [] (workspaceLabels (wsName workspace))) w
         (\<lambda>items. forEach (removeStaleAccess A sys workspace keepNamespace keep) items w))
       [(roleKind, \<lambda>_. False),
        (roleBindingKind, \<lambda>object. keepResearcherBinding \<and> oName object = defaultRoleName),
        (serviceAccountKind, \<lambda>object. keepServiceAccount \<noteq> [] \<and> oName object = keepServiceAccount)]"

definition preserveWorkspaceLocalQueue :: "'q kube \<Rightarrow> 'q tauWorkspace \<Rightarrow> kobj \<Rightarrow> string \<Rightarrow> string \<Rightarrow> bool" where
  "preserveWorkspaceLocalQueue K workspace localQueue keepNamespace keepName \<longleftrightarrow>
     oNamespace localQueue = keepNamespace \<and>
     (oName localQueue = keepName \<or> oName localQueue \<in> set (workspaceCompatibilityLocalQueueNames K workspace))"

definition cleanupStaleWorkspaceLocalQueues ::
  "'q kube \<Rightarrow> ('q, 'w) api \<Rightarrow> 'q tauWorkspace \<Rightarrow> string \<Rightarrow> string \<Rightarrow> 'w \<Rightarrow> kerr option \<times> 'w" where
  "cleanupStaleWorkspaceLocalQueues K A workspace keepNamespace keepName w =
     withRes (listMatching A w localQueueKind [] (workspaceLabels (wsName workspace))) w (\<lambda>queues.
       forEach (\<lambda>localQueue w'.
         if preserveWorkspaceLocalQueue K workspace localQueue keepNamespace keepName then (None, w')
         else removeOwned A (Wrapped ''refusing to delete LocalQueue %q'' [oName localQueue]) workspace localQueue w') queues w)"

definition queueWorkload :: "'q kube \<Rightarrow> kobj \<Rightarrow> kobj \<Rightarrow> waiting res" where
  "queueWorkload K localQueue workload =
     bindE (mapErr (Wrapped ''read Workload %s queueName'' [oNamespace workload, oName workload])
              (nestedStringOrEmpty K (oObject workload) [''spec'', ''queueName''])) (\<lambda>queueName.
       if queueName \<noteq> oName localQueue \<or> workloadFinished K workload then Inr None
       else Inr (Some (''waiting for Workload %s to finish before removing LocalQueue %q'', [oNamespace workload, oName workload, oName localQueue])))"

fun localQueuesDrained :: "'q kube \<Rightarrow> ('q, 'w) api \<Rightarrow> 'q tauWorkspace \<Rightarrow> string \<Rightarrow> string \<Rightarrow> kobj list \<Rightarrow> 'w \<Rightarrow> waiting res \<times> 'w" where
  "localQueuesDrained K A workspace keepNamespace keepName [] w = (Inr None, w)"
| "localQueuesDrained K A workspace keepNamespace keepName (localQueue # queues) w =
     (if preserveWorkspaceLocalQueue K workspace localQueue keepNamespace keepName
      then localQueuesDrained K A workspace keepNamespace keepName queues w
      else case ensureWorkspaceObjectUID A localQueue workspace w of
             (Inl err, w') \<Rightarrow> (Inl (Wrapped ''cannot verify stale LocalQueue %q'' [oName localQueue] err), w')
           | (Inr _, w') \<Rightarrow>
               (case bindE (listInNamespace A w' workloadKind (oNamespace localQueue)) (firstWaiting (queueWorkload K localQueue)) of
                  Inl err \<Rightarrow> (Inl err, w')
                | Inr (Some m) \<Rightarrow> (Inr (Some m), w')
                | Inr None \<Rightarrow> localQueuesDrained K A workspace keepNamespace keepName queues w'))"

definition staleWorkspaceLocalQueuesDrained ::
  "'q kube \<Rightarrow> ('q, 'w) api \<Rightarrow> 'q tauWorkspace \<Rightarrow> string \<Rightarrow> string \<Rightarrow> 'w \<Rightarrow> waiting res \<times> 'w" where
  "staleWorkspaceLocalQueuesDrained K A workspace keepNamespace keepName w =
     (case listMatching A w localQueueKind [] (workspaceLabels (wsName workspace)) of
        Inl err \<Rightarrow> (Inl err, w)
      | Inr queues \<Rightarrow> localQueuesDrained K A workspace keepNamespace keepName queues w)"

definition cleanupWorkspaceAccess :: "'q kube \<Rightarrow> ('q, 'w) api \<Rightarrow> string \<Rightarrow> 'q tauWorkspace \<Rightarrow> 'w \<Rightarrow> kerr option \<times> 'w" where
  "cleanupWorkspaceAccess K A sys workspace w =
     (let recorded = trimSpace (wsStatusResolvedNamespace workspace);
          targetNamespace = (if recorded = [] then resolvedNamespace workspace else recorded)
      in andThen (cleanupOwnedResearcherRoleBindings A workspace w) (\<lambda>w1.
         andThen (waitForNamespaceRoutingMetadataDrain K A sys workspace targetNamespace w1, w1) (\<lambda>w2.
         andThen (cleanupStaleTargetRBAC A sys workspace [] [] False w2) (\<lambda>w3.
         andThen (cleanupClusterQueueReaderRBAC A workspace w3) (\<lambda>w4.
         andThen (cleanupStaleWorkspaceLocalQueues K A workspace [] [] w4) (\<lambda>w5.
         andThen (cleanupWorkspaceClusterQueue K A workspace w5) (\<lambda>w6.
         andThen (cleanupSystemReaderRBAC A sys workspace w6)
           (cleanupStaleNamespaceMetadata K A sys workspace targetNamespace))))))))"

end
