(* ===== verification/Workspace_Controller.thy ===== *)
theory Workspace_Controller
  imports Workspace_Cleanup
begin

text \<open>
  The reconciliation of a workspace (\<open>workspace_sync.go\<close>, \<open>workspace_controller.go\<close>,
  \<open>workspace_primary_compat.go\<close>): namespace, access, queue and identity are reconciled, stale
  objects of earlier targets are removed once the new target is ready and drained, and the
  outcome is written to the status. \<open>now\<close> is the time of the run.
\<close>

section \<open>The status\<close>

definition errWorkspaceSpecChanged :: kerr where
  "errWorkspaceSpecChanged = Errorf ''workspace spec changed while waiting for quota locks'' []"

datatype requeue = Stop | Requeue | RequeueAfter duration

type_synonym workspaceOutcome = "requeue \<times> kerr option"

definition readyRequeue :: duration where "readyRequeue = 5 * minute"

definition conditionWorkloadIdentityReady :: string where "conditionWorkloadIdentityReady = ''WorkloadIdentityReady''"

definition preserveV0PrimaryDiscoveryCondition :: "'q tauWorkspace \<Rightarrow> kcondition list \<Rightarrow> kcondition list" where
  "preserveV0PrimaryDiscoveryCondition workspace conditions =
     (case List.find (\<lambda>c. cdType c = conditionV0PrimaryDiscovery) (wsStatusConditions workspace) of
        Some existing \<Rightarrow> conditions @ [existing]
      | None \<Rightarrow> conditions)"

definition setQueueStatus :: "workspaceQueueStatus \<Rightarrow> 'q tauWorkspace \<Rightarrow> 'q tauWorkspace" where
  "setQueueStatus s workspace = workspace\<lparr>wsStatusLocalQueue := wqLocalQueue s, wsStatusClusterQueue := wqClusterQueue s,
     wsStatusClusterQueueUID := wqClusterQueueUID s\<rparr>"

definition queueStatusOf :: "'q tauWorkspace \<Rightarrow> workspaceQueueStatus" where
  "queueStatusOf workspace = \<lparr>wqLocalQueue = wsStatusLocalQueue workspace, wqClusterQueue = wsStatusClusterQueue workspace,
     wqClusterQueueUID = wsStatusClusterQueueUID workspace\<rparr>"

text \<open>The status is written when it differs.\<close>

definition writeWorkspaceStatus :: "('q, 'w) api \<Rightarrow> 'q tauWorkspace \<Rightarrow> 'q tauWorkspace \<Rightarrow> 'w \<Rightarrow> kerr option \<times> 'w" where
  "writeWorkspaceStatus A workspace desired w =
     (if withWorkspaceStatus desired workspace = workspace then (None, w) else aUpdateWorkspaceStatus A (withWorkspaceStatus desired workspace) w)"

definition reportUnresolvedQueue :: "('q, 'w) api \<Rightarrow> gotime \<Rightarrow> 'q tauWorkspace \<Rightarrow> kmessage \<Rightarrow> 'w \<Rightarrow> workspaceOutcome \<times> 'w" where
  "reportUnresolvedQueue A now workspace message w =
     (let g = wsGeneration workspace;
          conditions = preserveV0PrimaryDiscoveryCondition workspace
            [boolCondition now conditionRBACReady False ''QueueUnresolved'' message g,
             boolCondition now conditionQueueReady False ''QueueUnresolved'' message g,
             condition now conditionWorkloadIdentityReady ''Unknown'' ''QueueUnresolved'' message g,
             boolCondition now conditionDriftDetected False ''NoDrift'' message g];
          desired = workspace\<lparr>wsStatusPhase := ''Degraded'', wsStatusObservedGeneration := g,
            wsStatusConditions := mergeConditions (wsStatusConditions workspace) conditions\<rparr>
      in case writeWorkspaceStatus A workspace desired w of
           (Some err, w') \<Rightarrow> ((Stop, Some err), w')
         | (None, w') \<Rightarrow> ((RequeueAfter notReadyRequeue, None), w'))"

text \<open>The queue clients are told to use: the established one while it routes, else the canonical one.\<close>

definition previousRoute :: "'q tauWorkspace \<Rightarrow> 'q tauWorkspace option \<Rightarrow> string" where
  "previousRoute workspace stored =
     (let previous = trimSpace (wsStatusLocalQueue workspace); effectiveQueue = trimSpace (wsQueue workspace) in
      if previous = [] then effectiveQueue
      else case stored of
             None \<Rightarrow> previous
           | Some s \<Rightarrow>
               let storedQueue = trimSpace (wsQueue s) in
               if storedQueue \<noteq> [] \<and> previous \<noteq> storedQueue then storedQueue
               else if storedQueue = [] \<and> effectiveQueue \<noteq> [] \<and> previous \<noteq> effectiveQueue then effectiveQueue
               else previous)"

definition workspaceClientQueueStatusForRoute ::
  "'q kube \<Rightarrow> ('q, 'w) api \<Rightarrow> 'w \<Rightarrow> 'q tauWorkspace \<Rightarrow> string \<Rightarrow> string \<Rightarrow> workspaceQueueStatus \<Rightarrow> workspaceQueueStatus res" where
  "workspaceClientQueueStatusForRoute K A w workspace namespace establishedLocalQueue queueStatus =
     (if wsTeamRef workspace = None then Inr queueStatus
      else bindE (case aWorkspace A w (wsNamespace workspace) (wsName workspace) of
                    Inr stored \<Rightarrow> Inr (Some stored)
                  | Inl err \<Rightarrow> if isNotFound err then Inr None else Inl err) (\<lambda>stored.
        let selectingInitialRoute = (trimSpace (wsStatusLocalQueue workspace) = []); previous = previousRoute workspace stored in
        if previous = [] \<or> previous = workspaceLocalQueueName K workspace then Inr queueStatus
        else case aGet A w localQueueKind namespace previous of
               Inl err \<Rightarrow>
                 if isNotFound err then Inr (if selectingInitialRoute then queueStatus else queueStatusOf workspace) else Inl err
             | Inr localQueue \<Rightarrow>
                 let clusterQueueName = trimSpace (stringOrEmpty K (oObject localQueue) [''spec'', ''clusterQueue'']) in
                 if clusterQueueName = []
                 then Inl (Errorf ''compatible LocalQueue %q in namespace %q does not reference a ClusterQueue'' [previous, namespace])
                 else case getQueue A w clusterQueueName of
                        Inl err \<Rightarrow>
                          if selectingInitialRoute \<and> establishedLocalQueue = previous \<and> isNotFound err then Inr queueStatus
                          else Inl (Wrapped ''compatible LocalQueue %q backing ClusterQueue %q is not ready'' [previous, clusterQueueName] err)
                      | Inr clusterQueue \<Rightarrow> Inr \<lparr>wqLocalQueue = previous, wqClusterQueue = clusterQueueName, wqClusterQueueUID = oUID clusterQueue\<rparr>))"

section \<open>Synchronising\<close>

text \<open>What the target offers after the first part of \<open>syncWorkspace\<close>.\<close>

record syncTarget =
  syNamespaceError :: "kerr option"
  syRbacReady :: bool  \<comment> \<open>ready and without error\<close>
  syQueue :: queueReport
  syIdentityReady :: bool  \<comment> \<open>ready and without error\<close>
  syConditions :: "kcondition list"

definition partMessage :: "kmessage \<times> kerr option \<Rightarrow> kmessage" where
  "partMessage p = (case snd p of Some err \<Rightarrow> MsgErr err | None \<Rightarrow> fst p)"

text \<open>A part that waits for the namespace.\<close>

definition waitForNamespace :: "kerr option \<Rightarrow> ('w \<Rightarrow> 'w readiness) \<Rightarrow> 'w \<Rightarrow> 'w readiness" where
  "waitForNamespace namespaceErr part w =
     (case namespaceErr of None \<Rightarrow> part w | Some err \<Rightarrow> ((False, MsgErr err, None), w))"

definition namespaceConditions :: "gotime \<Rightarrow> int \<Rightarrow> kerr option \<Rightarrow> kcondition list" where
  "namespaceConditions now generation namespaceErr =
     (case namespaceErr of
        Some err \<Rightarrow>
          [boolCondition now conditionDriftDetected True
             (if errorIs err errNamespaceOwnershipUnverified then ''NamespaceOwnershipUnverified'' else ''NamespaceReconcileFailed'') (MsgErr err) generation]
      | None \<Rightarrow> [boolCondition now conditionDriftDetected False ''NoDrift'' (Msg ''target namespace is reconciled'') generation])"

definition rbacCondition :: "gotime \<Rightarrow> 'q tauWorkspace \<Rightarrow> bool \<times> kmessage \<times> kerr option \<Rightarrow> kcondition" where
  "rbacCondition now workspace part =
     (let (ready, message, err) = part; ok = (ready \<and> err = None);
          rbacReason = (if authorizationMode workspace = modeClusterWide then ''ExistingClusterAuthorization'' else ''RoleBindingReady'')
      in boolCondition now conditionRBACReady ok (reasonFor ok rbacReason ''AuthorizationNotReady'') (partMessage (message, err)) (wsGeneration workspace))"

definition identityCondition :: "gotime \<Rightarrow> 'q tauWorkspace \<Rightarrow> bool \<times> kmessage \<times> kerr option \<Rightarrow> kcondition" where
  "identityCondition now workspace part =
     (let (ready, message, err) = part;
          (status, reason) = (if wsWorkloadIdentity workspace = None then (''Unknown'', ''NotConfigured'')
            else if ready \<and> err = None then (''True'', ''ServiceAccountReady'') else (''False'', ''ServiceAccountNotReady''))
      in condition now conditionWorkloadIdentityReady status reason (partMessage (message, err)) (wsGeneration workspace))"

text \<open>\<open>None\<close> when the specification changed under the locks.\<close>

definition syncTargetParts ::
  "'q::linordered_ab_group_add kube \<Rightarrow> ('q, 'w) api \<Rightarrow> string \<Rightarrow> (string list \<Rightarrow> 'w \<Rightarrow> 'w) \<Rightarrow> gotime \<Rightarrow> 'q tauWorkspace \<Rightarrow> string \<Rightarrow> 'w \<Rightarrow>
     syncTarget option \<times> 'w" where
  "syncTargetParts K A sys acquired now workspace targetNamespace w =
     (let (namespaceErr, w1) = reconcileNamespace K A sys workspace targetNamespace False w;
          (rbac, w2) = waitForNamespace namespaceErr (reconcileRBAC A sys workspace targetNamespace) w1;
          (queue, w3) = (case namespaceErr of
             None \<Rightarrow> reconcileQueue K A (systemNamespace sys) acquired workspace targetNamespace w2
           | Some err \<Rightarrow> (report (workspaceLocalQueueName K workspace) [] [] False (MsgErr err) None, w2))
      in if (case qrpError queue of Some err \<Rightarrow> errorIs err errWorkspaceSpecChanged | None \<Rightarrow> False) then (None, w3)
         else let (identity, w4) = waitForNamespace namespaceErr (reconcileWorkloadIdentity A workspace targetNamespace) w3
              in (Some \<lparr>syNamespaceError = namespaceErr, syRbacReady = (fst rbac \<and> snd (snd rbac) = None), syQueue = queue,
                    syIdentityReady = (fst identity \<and> snd (snd identity) = None),
                    syConditions = namespaceConditions now (wsGeneration workspace) namespaceErr @
                      [rbacCondition now workspace rbac, identityCondition now workspace identity]\<rparr>, w4))"

definition driftCondition :: "gotime \<Rightarrow> 'q tauWorkspace \<Rightarrow> string \<Rightarrow> kerr \<Rightarrow> kcondition" where
  "driftCondition now workspace reason err = boolCondition now conditionDriftDetected True reason (MsgErr err) (wsGeneration workspace)"

text \<open>A step whose failure is reported as drift; whether it succeeded, and the conditions.\<close>

definition orDrift :: "gotime \<Rightarrow> 'q tauWorkspace \<Rightarrow> string \<Rightarrow> kerr option \<times> 'w \<Rightarrow> (bool \<times> kcondition list) \<times> 'w" where
  "orDrift now workspace reason p =
     (case p of (None, w) \<Rightarrow> ((True, []), w) | (Some err, w) \<Rightarrow> ((False, [driftCondition now workspace reason err]), w))"

definition keepServiceAccountOf :: "'q tauWorkspace \<Rightarrow> string" where
  "keepServiceAccountOf workspace = (case wsWorkloadIdentity workspace of None \<Rightarrow> [] | Some wi \<Rightarrow> wiServiceAccountName wi)"

definition movedFrom :: "'q tauWorkspace \<Rightarrow> string \<Rightarrow> bool" where
  "movedFrom workspace targetNamespace \<longleftrightarrow> wsStatusResolvedNamespace workspace \<noteq> [] \<and> wsStatusResolvedNamespace workspace \<noteq> targetNamespace"

definition syncPreviousAccess ::
  "'q kube \<Rightarrow> ('q, 'w) api \<Rightarrow> string \<Rightarrow> gotime \<Rightarrow> 'q tauWorkspace \<Rightarrow> string \<Rightarrow> 'w \<Rightarrow> (bool \<times> kcondition list) \<times> 'w" where
  "syncPreviousAccess K A sys now workspace targetNamespace w =
     (let ((identityOk, c1), w1) = orDrift now workspace ''RBACCleanupFailed''
            (cleanupOwnedNamespaceWorkloadIdentity A workspace (keepServiceAccountOf workspace) w);
          ((accessOk, c2), w2) = (if identityOk
             then orDrift now workspace ''RBACCleanupFailed'' (reconcileOwnedNamespaceResearcherAccess A workspace targetNamespace w1)
             else let ((_, c), w') = orDrift now workspace ''RBACCleanupFailed'' (cleanupOwnedResearcherRoleBindings A workspace w1)
                  in ((False, c), w'));
          ((drained, c3), w3) = (if movedFrom workspace targetNamespace
             then orDrift now workspace ''NamespaceCleanupFailed''
                    (waitForNamespaceRoutingMetadataDrain K A sys workspace (wsStatusResolvedNamespace workspace) w2, w2)
             else ((True, []), w2))
      in ((accessOk \<and> drained, c1 @ c2 @ c3), w3))"

text \<open>The LocalQueues of earlier targets: ready target, ready queue, pending activation, message.\<close>

record drainResult =
  drTargetReady :: bool
  drQueueReady :: bool
  drActivationPending :: bool
  drMessage :: kmessage

definition syncDrain ::
  "'q kube \<Rightarrow> ('q, 'w) api \<Rightarrow> 'q tauWorkspace \<Rightarrow> string \<Rightarrow> bool \<Rightarrow> queueReport \<Rightarrow> 'w \<Rightarrow> drainResult \<times> 'w" where
  "syncDrain K A workspace targetNamespace currentTargetReady queue w =
     (let unchanged = \<lparr>drTargetReady = currentTargetReady, drQueueReady = qrpReady queue, drActivationPending = False, drMessage = qrpMessage queue\<rparr> in
      if \<not> currentTargetReady then (unchanged, w)
      else case staleWorkspaceLocalQueuesDrained K A workspace targetNamespace (wqLocalQueue (qrpStatus queue)) w of
             (Inl err, w') \<Rightarrow> (unchanged\<lparr>drTargetReady := False, drQueueReady := False, drMessage := MsgErr err\<rparr>, w')
           | (Inr (Some (text, args)), w') \<Rightarrow>
               if wsStatusPhase workspace = ''Ready'' \<and> wsStatusResolvedNamespace workspace = targetNamespace
               then (unchanged\<lparr>drTargetReady := False, drActivationPending := True, drMessage := MsgFmt (''managed queue is ready; '' @ text) args\<rparr>, w')
               else (unchanged\<lparr>drTargetReady := False, drQueueReady := False, drMessage := MsgFmt text args\<rparr>, w')
           | (Inr None, w') \<Rightarrow> (unchanged, w'))"

definition syncActivate ::
  "'q::linordered_ab_group_add kube \<Rightarrow> ('q, 'w) api \<Rightarrow> string \<Rightarrow> gotime \<Rightarrow> 'q tauWorkspace \<Rightarrow> string \<Rightarrow> drainResult \<Rightarrow> 'w \<Rightarrow>
     (drainResult \<times> kcondition list) \<times> 'w" where
  "syncActivate K A sys now workspace targetNamespace d w =
     (if \<not> drTargetReady d then ((d, []), w)
      else case reconcileNamespace K A sys workspace targetNamespace True w of
             (None, w') \<Rightarrow> ((d, []), w')
           | (Some err, w') \<Rightarrow>
               ((d\<lparr>drTargetReady := False, drQueueReady := False, drMessage := MsgErr err\<rparr>,
                 [driftCondition now workspace ''NamespaceQueueActivationFailed'' err]), w'))"

definition syncCleanup ::
  "'q kube \<Rightarrow> ('q, 'w) api \<Rightarrow> string \<Rightarrow> gotime \<Rightarrow> 'q tauWorkspace \<Rightarrow> string \<Rightarrow> string \<Rightarrow> 'w \<Rightarrow> (bool \<times> kcondition list) \<times> 'w" where
  "syncCleanup K A sys now workspace targetNamespace localQueue w =
     (let ((q, c1), w1) = orDrift now workspace ''QueueCleanupFailed'' (cleanupStaleWorkspaceLocalQueues K A workspace targetNamespace localQueue w);
          ((r, c2), w2) = orDrift now workspace ''RBACCleanupFailed''
            (cleanupStaleTargetRBAC A sys workspace targetNamespace (keepServiceAccountOf workspace) (authorizationMode workspace \<noteq> modeClusterWide) w1);
          ((n, c3), w3) = (if movedFrom workspace targetNamespace
             then orDrift now workspace ''NamespaceCleanupFailed''
                    (cleanupStaleNamespaceMetadata K A sys workspace (wsStatusResolvedNamespace workspace) w2)
             else ((True, []), w2))
      in ((q \<and> r \<and> n, c1 @ c2 @ c3), w3))"

definition establishedLocalQueueOf :: "('q, 'w) api \<Rightarrow> 'w \<Rightarrow> 'q tauWorkspace \<Rightarrow> string \<Rightarrow> string res" where
  "establishedLocalQueueOf A w workspace targetNamespace =
     (if wsTeamRef workspace \<noteq> None \<and> trimSpace (wsStatusLocalQueue workspace) = []
      then case aGet A w namespaceKind [] targetNamespace of
             Inr existing \<Rightarrow> Inr (trimSpace (gm_get [] (oLabels existing) labelKueueDefaultLocalQueue))
           | Inl err \<Rightarrow> if isNotFound err then Inr [] else Inl err
      else Inr [])"

text \<open>
  The end of a synchronisation: activation, cleanup and the status. Beside what the code returns, the result keeps the
  workspace with the status that is published, if a status was, so that properties can speak of it.
\<close>

type_synonym 'q published = "workspaceOutcome \<times> 'q tauWorkspace option"

definition syncFinish ::
  "'q::linordered_ab_group_add kube \<Rightarrow> ('q, 'w) api \<Rightarrow> string \<Rightarrow> gotime \<Rightarrow> 'q tauWorkspace \<Rightarrow> string \<Rightarrow> string \<Rightarrow>
     workspaceQueueStatus \<Rightarrow> kcondition list \<Rightarrow> drainResult \<Rightarrow> 'w \<Rightarrow> 'q published \<times> 'w" where
  "syncFinish K A sys now workspace targetNamespace establishedLocalQueue queueStatus conditions drained w =
     (let ((d, c1), w1) = syncActivate K A sys now workspace targetNamespace drained w;
          queueCondition = boolCondition now conditionQueueReady (drQueueReady d)
            (reasonFor (drQueueReady d) ''QueueReady'' ''QueueNotReady'') (drMessage d) (wsGeneration workspace);
          ((cleanupReady, c2), w2) = (if drTargetReady d
             then syncCleanup K A sys now workspace targetNamespace (wqLocalQueue queueStatus) w1 else ((True, []), w1));
          resolvedTarget = (if drTargetReady d \<and> cleanupReady then targetNamespace else wsStatusResolvedNamespace workspace);
          route = workspaceClientQueueStatusForRoute K A w2 workspace resolvedTarget establishedLocalQueue queueStatus;
          all = conditions @ c1 @ [queueCondition] @ c2;
          clientQueue = (case route of Inr s \<Rightarrow> s | Inl _ \<Rightarrow> queueStatusOf workspace);
          desired = (setQueueStatus clientQueue workspace)\<lparr>wsStatusPhase := workspacePhase all, wsStatusObservedGeneration := wsGeneration workspace,
            wsStatusResolvedNamespace := resolvedTarget, wsStatusConditions := mergeConditions (wsStatusConditions workspace) all\<rparr>
      in case writeWorkspaceStatus A workspace desired w2 of
           (Some err, w3) \<Rightarrow> (((Stop, Some err), None), w3)
         | (None, w3) \<Rightarrow>
             ((case route of
                 Inl err \<Rightarrow> (Stop, Some err)
               | Inr _ \<Rightarrow>
                   if wsStatusPhase desired = ''Ready'' \<and> \<not> drActivationPending d then (RequeueAfter readyRequeue, None)
                   else (RequeueAfter notReadyRequeue, None), Some (withWorkspaceStatus desired workspace)), w3))"

definition syncWorkspace ::
  "'q::linordered_ab_group_add kube \<Rightarrow> ('q, 'w) api \<Rightarrow> string \<Rightarrow> (string list \<Rightarrow> 'w \<Rightarrow> 'w) \<Rightarrow> gotime \<Rightarrow> 'q tauWorkspace \<Rightarrow> 'w \<Rightarrow>
     'q published \<times> 'w" where
  "syncWorkspace K A sys acquired now workspace w =
     (let targetNamespace = resolvedNamespace workspace in
      case establishedLocalQueueOf A w workspace targetNamespace of
        Inl err \<Rightarrow> (((Stop, Some err), None), w)
      | Inr establishedLocalQueue \<Rightarrow>
          (case syncTargetParts K A sys acquired now workspace targetNamespace w of
             (None, w1) \<Rightarrow> (((Requeue, None), None), w1)
           | (Some target, w1) \<Rightarrow>
               let ((previousAccessReady, c), w2) = syncPreviousAccess K A sys now workspace targetNamespace w1;
                   currentTargetReady = (syNamespaceError target = None \<and> syRbacReady target \<and> qrpReady (syQueue target) \<and> previousAccessReady \<and>
                     (wsWorkloadIdentity workspace \<noteq> None \<longrightarrow> syIdentityReady target));
                   (d, w3) = syncDrain K A workspace targetNamespace currentTargetReady (syQueue target) w2;
                   queueStatus = qrpStatus (syQueue target);
                   finish = syncFinish K A sys now workspace targetNamespace establishedLocalQueue queueStatus (syConditions target @ c) d
               in if drTargetReady d \<and> wsTeamRef workspace \<noteq> None \<and> trimSpace (wsStatusLocalQueue workspace) = []
                  then (case workspaceClientQueueStatusForRoute K A w3 workspace targetNamespace establishedLocalQueue queueStatus of
                          Inl err \<Rightarrow> (((Stop, Some err), None), w3)
                        | Inr recovered \<Rightarrow>
                            if wqLocalQueue recovered \<noteq> wqLocalQueue queueStatus
                            then (case aUpdateWorkspaceStatus A (setQueueStatus recovered workspace) w3 of
                                    (Some err, w4) \<Rightarrow> (((Stop, Some err), None), w4)
                                  | (None, w4) \<Rightarrow> (((Requeue, None), Some (setQueueStatus recovered workspace)), w4))
                            else finish w3)
                  else finish w3))"

section \<open>Reconcile\<close>

definition ensureV0PrimaryDiscoveryCompatibility :: "('q, 'w) api \<Rightarrow> string \<Rightarrow> gotime \<Rightarrow> 'q tauWorkspace \<Rightarrow> 'w \<Rightarrow> bool res \<times> 'w" where
  "ensureV0PrimaryDiscoveryCompatibility A sys now workspace w =
     readThen (aWorkspaces A w (systemNamespace sys)) w (\<lambda>workspaces.
       let primary = List.find (\<lambda>c. wsName c \<noteq> wsName workspace \<and> gm_get [] (wsAnnotations c) annotationV0Primary = ''true'') workspaces;
           conditions = wsStatusConditions workspace;
           before = takeWhile (\<lambda>c. cdType c \<noteq> conditionV0PrimaryDiscovery) conditions;
           rest = dropWhile (\<lambda>c. cdType c \<noteq> conditionV0PrimaryDiscovery) conditions;
           writeConditions = (\<lambda>cs. writeThen id (aUpdateWorkspaceStatus A (workspace\<lparr>wsStatusConditions := cs\<rparr>) w) (\<lambda>w'. (Inr True, w')))
       in case primary of
            None \<Rightarrow> (case rest of [] \<Rightarrow> (Inr False, w) | existing # after \<Rightarrow> writeConditions (before @ after))
          | Some p \<Rightarrow>
              let desired = condition now conditionV0PrimaryDiscovery ''False'' ''AdditionalWorkspaceBlocked''
                    (MsgFmt ''excluded from v0 primary discovery while TauWorkspace %s remains primary'' [wsName p]) (wsGeneration workspace)
              in case rest of
                   [] \<Rightarrow> writeConditions (conditions @ [desired])
                 | existing # after \<Rightarrow>
                     let same = (cdStatus existing = cdStatus desired \<and> cdReason existing = cdReason desired \<and> cdMessage existing = cdMessage desired)
                     in if same \<and> cdObservedGeneration existing = cdObservedGeneration desired then (Inr False, w)
                        else writeConditions (before @ (if same then desired\<lparr>cdLastTransitionTime := cdLastTransitionTime existing\<rparr> else desired) # after))"

definition afterMigration :: "bool res \<times> 'w \<Rightarrow> ('w \<Rightarrow> workspaceOutcome \<times> 'w) \<Rightarrow> workspaceOutcome \<times> 'w" where
  "afterMigration p f =
     (case p of (Inl err, w) \<Rightarrow> ((Stop, Some err), w) | (Inr True, w) \<Rightarrow> ((Requeue, None), w) | (Inr False, w) \<Rightarrow> f w)"

definition releaseWorkspace :: "'q kube \<Rightarrow> ('q, 'w) api \<Rightarrow> string \<Rightarrow> 'q tauWorkspace \<Rightarrow> 'w \<Rightarrow> workspaceOutcome \<times> 'w" where
  "releaseWorkspace K A sys workspace w =
     (let r = andThen (cleanupWorkspaceAccess K A sys workspace w)
                (aUpdateWorkspace A (workspace\<lparr>wsFinalizers := filter (\<lambda>f. f \<noteq> workspaceFinalizer) (wsFinalizers workspace)\<rparr>))
      in ((Stop, fst r), snd r))"

text \<open>A deleted workspace, under the capacity lock: it is read again.\<close>

definition finalizeWorkspace :: "'q kube \<Rightarrow> ('q, 'w) api \<Rightarrow> string \<Rightarrow> 'q tauWorkspace \<Rightarrow> 'w \<Rightarrow> workspaceOutcome \<times> 'w" where
  "finalizeWorkspace K A sys seen w =
     (case aWorkspace A w (wsNamespace seen) (wsName seen) of
        Inl err \<Rightarrow> ((Stop, ignoreNotFound err), w)
      | Inr workspace \<Rightarrow>
          if wsUID workspace \<noteq> wsUID seen
          then ((Stop, Some (Errorf ''workspace %q changed identity while waiting for quota locks; retrying'' [wsName workspace])), w)
          else if \<not> wsDeleting workspace then ((Requeue, None), w)
          else if workspaceFinalizer \<notin> set (wsFinalizers workspace) then ((Stop, None), w)
          else if wsUID workspace = [] \<or> gm_get [] (wsAnnotations workspace) annotationOwnerUID \<noteq> wsUID workspace
          then afterMigration (migrateLegacyWorkspaceOwnership A workspace w) (releaseWorkspace K A sys workspace)
          else releaseWorkspace K A sys workspace w)"

definition reconcileWorkspace ::
  "'q::linordered_ab_group_add kube \<Rightarrow> ('q, 'w) api \<Rightarrow> string \<Rightarrow> (string list \<Rightarrow> 'w \<Rightarrow> 'w) \<Rightarrow> gotime \<Rightarrow> string \<Rightarrow> string \<Rightarrow> 'w \<Rightarrow>
     workspaceOutcome \<times> 'w" where
  "reconcileWorkspace K A sys acquired now namespace name w =
     (case aWorkspace A w namespace name of
        Inl err \<Rightarrow> ((Stop, ignoreNotFound err), w)
      | Inr workspace \<Rightarrow>
          if wsNamespace workspace \<noteq> systemNamespace sys then ((Stop, None), w)
          else if wsDeleting workspace then finalizeWorkspace K A sys workspace (acquired (lockOrder []) w)
          else if workspaceFinalizer \<notin> set (wsFinalizers workspace)
          then let r = aUpdateWorkspace A (workspace\<lparr>wsFinalizers := wsFinalizers workspace @ [workspaceFinalizer]\<rparr>) w in ((Stop, fst r), snd r)
          else afterMigration (ensureV0PrimaryDiscoveryCompatibility A sys now workspace w) (\<lambda>w1.
               afterMigration (migrateLegacyWorkspaceOwnership A workspace w1) (\<lambda>w2.
                 if trimSpace (wsQueue workspace) = []
                 then (case getDefaultWorkspaceQueue A w2 of
                         Inl err \<Rightarrow> reportUnresolvedQueue A now workspace (MsgErr err) w2
                       | Inr resolved \<Rightarrow> map_prod fst id (syncWorkspace K A sys acquired now (workspace\<lparr>wsQueue := resolved\<rparr>) w2))
                 else map_prod fst id (syncWorkspace K A sys acquired now workspace w2))))"

text \<open>The workspaces to reconcile when a team changes.\<close>

definition enqueueTeamWorkspaces :: "('q, 'w) api \<Rightarrow> 'w \<Rightarrow> 'q tauTeam \<Rightarrow> (string \<times> string) list" where
  "enqueueTeamWorkspaces A w team =
     (case aWorkspaces A w (tmNamespace team) of
        Inl _ \<Rightarrow> []
      | Inr workspaces \<Rightarrow> map (\<lambda>x. (wsNamespace x, wsName x)) (filter (\<lambda>x. wsTeamRef x = Some (tmName team)) workspaces))"

end
