(* ===== verification/Workspace_Props.thy ===== *)
theory Workspace_Props
  imports Workspace_Queue
begin

text \<open>
  What the reconciliation of a workspace's queues guarantees: which writes of the ClusterQueue are
  allowed, and what a ready report means.
\<close>

section \<open>The ClusterQueue of a workspace\<close>

lemma readThen_simps [simp]: "readThen (Inl e) w f = (Inl e, w)" "readThen (Inr v) w f = f v"
  by (simp_all add: readThen_def)

lemma writeThen_simps [simp]: "writeThen g (None, w) f = f w" "writeThen g (Some e, w) f = (Inl (g e), w)"
  by (simp_all add: writeThen_def)

lemma refreshWorkspace_True:
  assumes "refreshWorkspace A w workspace = Inr True"
  obtains current where "aWorkspace A w (wsNamespace workspace) (wsName workspace) = Inr current" "wsUID current = wsUID workspace"
    "\<not> wsDeleting current" "wsQuota current = wsQuota workspace" "wsTeamRef current = wsTeamRef workspace"
  using assms by (auto simp: refreshWorkspace_def sameWorkspaceSpec_def bindE_Inr_iff split: sum.splits if_splits)

lemma planWorkspaceQueue_Inr:
  assumes "planWorkspaceQueue K A w workspace teamName = Inr plan"
  shows "aTeam A w (wsNamespace workspace) teamName = Inr (qpTeam plan)"
    and "preserveEstablishedWorkspaceQueueContract K A w workspace (Some (qpTeam plan)) (desiredWorkspaceClusterQueue K teamName workspace) =
      Inr (qpQueue plan)"
    and "workspaceQueueReductionOnly K A w teamName (qpQueue plan) = Inr (qpReductionOnly plan)"
    and "\<not> qpReductionOnly plan \<Longrightarrow> tmDeletionTimestamp (qpTeam plan) = None \<and> validateTeamCapacity K A w (qpTeam plan) = Inr () \<and>
      tstPhase (tmStatus (qpTeam plan)) = ''Ready'' \<and> tstObservedGeneration (tmStatus (qpTeam plan)) = tmGeneration (qpTeam plan)"
  using assms by (auto simp: planWorkspaceQueue_def bindE_Inr_iff Let_def split: if_splits)

text \<open>A queue that takes nothing: every guarantee and every maximum of the new queue was there, and was not smaller.\<close>

definition noGreater :: "(string, 'q::linorder) gomap \<Rightarrow> (string, 'q) gomap \<Rightarrow> bool" where
  "noGreater old new \<longleftrightarrow> (\<forall>(key, v) \<in> set new. \<exists>u. gm_lookup old key = Some u \<and> v \<le> u)"

definition queueShrinks :: "'q::linordered_ab_group_add kube \<Rightarrow> kobj \<Rightarrow> kobj \<Rightarrow> bool" where
  "queueShrinks K existing queue \<longleftrightarrow>
     (\<exists>old new. clusterQueueNominalQuota K existing = Inr old \<and> clusterQueueNominalQuota K queue = Inr new \<and> noGreater old new) \<and>
     (\<exists>old new. clusterQueueMaximumQuota K existing = Inr old \<and> clusterQueueMaximumQuota K queue = Inr new \<and> noGreater old new)"

lemma quotaValuesNonIncreasing_iff: "quotaValuesNonIncreasing old new \<longleftrightarrow> noGreater old new"
  by (fastforce simp: quotaValuesNonIncreasing_def noGreater_def list_all_iff split: option.splits)

lemma reductionOnly_shrinks:
  assumes "workspaceQueueReductionOnly K A w teamName desired = Inr True"
  obtains existing where "getQueue A w (oName desired) = Inr existing" "queueShrinks K existing desired"
  using assms
  by (auto simp: workspaceQueueReductionOnly_def bindE_Inr_iff queueShrinks_def quotaValuesNonIncreasing_iff split: sum.splits if_splits)

lemma applyQueuePlan_shared:
  assumes "applyQueuePlan K A workspace plan w = (r, w')" "w' \<noteq> w" "\<not> qpReductionOnly plan"
  obtains shared where "sharedTeamQuotaForWorkspace K A w (qpTeam plan) (Some workspace) = Inr shared"
  using assms by (auto simp: applyQueuePlan_def split: sum.splits)

text \<open>
  C18. The locked reconciliation of a workspace's queue changes the cluster only for the workspace that is stored now, with
  its current specification, and in three cases only. The cluster shares its quotas or names this team for its capacity
  pool, and the change is that of the pool. Or the team is Ready at its current generation and not being deleted, the
  allocations of all teams together are within the discovered capacity, and the guarantees charged to all its workspaces,
  this one included, are within the team's quota. Or the existing queue gives up quota only: no guarantee and no maximum
  grows.\<close>

theorem workspace_queue_write_guarded:
  assumes "reconcileLockedQueue K A ns workspace teamName w = (r, w')" and "w' \<noteq> w"
  shows "\<exists>current team.
    aWorkspace A w (wsNamespace workspace) (wsName workspace) = Inr current \<and>
    wsUID current = wsUID workspace \<and> \<not> wsDeleting current \<and> wsQuota current = wsQuota workspace \<and> wsTeamRef current = wsTeamRef workspace \<and>
    aTeam A w (wsNamespace workspace) teamName = Inr team \<and>
    ((\<exists>cluster. aCluster A w = Inr cluster \<and> (clShareTeamQuotas cluster \<or> clCapacityTeamRef cluster = Some teamName) \<and>
        w' = snd (reconcileCapacityPool K A ns cluster team w)) \<or>
     (tmDeletionTimestamp team = None \<and> tstPhase (tmStatus team) = ''Ready'' \<and> tstObservedGeneration (tmStatus team) = tmGeneration team \<and>
      (\<forall>cluster teams. aCluster A w = Inr cluster \<and> aTeams A w (tmNamespace team) = Inr teams \<longrightarrow>
         (\<exists>reductionOnly. teamAllocationReductionOnly K A w team = Inr reductionOnly \<and>
            (\<forall>key available. gm_lookup (discoveredCapacity cluster) key = Some available \<and> 0 \<le> available \<longrightarrow>
               (\<Sum>candidate \<leftarrow> teams. allocationAt K A w reductionOnly key candidate) \<le> available))) \<and>
      (\<forall>workspaces. aWorkspaces A w (tmNamespace team) = Inr workspaces \<and> distinct (map quotaKey (tmQuota team)) \<and>
           (\<forall>q \<in> set (tmQuota team). 0 \<le> qNominal q) \<longrightarrow>
         (\<exists>events. list_all2 (\<lambda>ws e. effectiveGuarantee K A w team ws = Inr (snd e, fst e)) (accountedWorkspaces workspaces (Some workspace)) events \<and>
            (\<forall>q \<in> set (tmQuota team). totalCharge events (quotaKey q) \<le> qNominal q)))) \<or>
     (\<exists>queue existing. preserveEstablishedWorkspaceQueueContract K A w workspace (Some team) (desiredWorkspaceClusterQueue K teamName workspace) = Inr queue \<and>
        getQueue A w (oName queue) = Inr existing \<and> queueShrinks K existing queue))"
proof -
  have fresh: "refreshWorkspace A w workspace = Inr True"
    using assms(1,2) by (cases "refreshWorkspace A w workspace") (auto simp: reconcileLockedQueue_def split: if_splits)
  obtain current where c: "aWorkspace A w (wsNamespace workspace) (wsName workspace) = Inr current" "wsUID current = wsUID workspace"
    "\<not> wsDeleting current" "wsQuota current = wsQuota workspace" "wsTeamRef current = wsTeamRef workspace"
    by (rule refreshWorkspace_True [OF fresh])
  obtain cluster selected where sel: "selectedCapacityTeam A w teamName = Inr (cluster, selected)"
    using assms(1,2) fresh by (cases "selectedCapacityTeam A w teamName") (auto simp: reconcileLockedQueue_def)
  show ?thesis
  proof (cases "selected")
    case True
    with sel obtain cl where cl: "cluster = Some cl" "aCluster A w = Inr cl" "clShareTeamQuotas cl \<or> clCapacityTeamRef cl = Some teamName"
      by (auto simp: selectedCapacityTeam_def split: sum.splits if_splits)
    obtain team where "aTeam A w (wsNamespace workspace) teamName = Inr team" "w' = snd (reconcileCapacityPool K A ns cl team w)"
      using assms(1,2) True by (auto simp: reconcileLockedQueue_def fresh sel cl(1) readThen_def writeThen_def split: sum.splits prod.splits option.splits)
    then show ?thesis using c cl(2,3) by blast
  next
    case False
    then obtain plan where plan: "planWorkspaceQueue K A w workspace teamName = Inr plan" and run: "applyQueuePlan K A workspace plan w = (r, w')"
      using assms(1,2) unfolding reconcileLockedQueue_def fresh sel
      by (cases cluster) (auto simp: readThen_def split: sum.splits option.splits)
    note p = planWorkspaceQueue_Inr [OF plan]
    show ?thesis
    proof (cases "qpReductionOnly plan")
      case True
      then have "workspaceQueueReductionOnly K A w teamName (qpQueue plan) = Inr True" using p(3) by simp
      then obtain existing where "getQueue A w (oName (qpQueue plan)) = Inr existing" "queueShrinks K existing (qpQueue plan)"
        by (rule reductionOnly_shrinks)
      then show ?thesis using c p(1,2) by blast
    next
      case False
      obtain shared where shared: "sharedTeamQuotaForWorkspace K A w (qpTeam plan) (Some workspace) = Inr shared"
        by (rule applyQueuePlan_shared [OF run assms(2) False])
      note ready = p(4) [OF False]
      have capacity: "\<forall>cluster teams. aCluster A w = Inr cluster \<and> aTeams A w (tmNamespace (qpTeam plan)) = Inr teams \<longrightarrow>
         (\<exists>reductionOnly. teamAllocationReductionOnly K A w (qpTeam plan) = Inr reductionOnly \<and>
            (\<forall>key available. gm_lookup (discoveredCapacity cluster) key = Some available \<and> 0 \<le> available \<longrightarrow>
               (\<Sum>candidate \<leftarrow> teams. allocationAt K A w reductionOnly key candidate) \<le> available))"
      proof (intro allI impI)
        fix cluster teams assume "aCluster A w = Inr cluster \<and> aTeams A w (tmNamespace (qpTeam plan)) = Inr teams"
        then show "\<exists>reductionOnly. teamAllocationReductionOnly K A w (qpTeam plan) = Inr reductionOnly \<and>
            (\<forall>key available. gm_lookup (discoveredCapacity cluster) key = Some available \<and> 0 \<le> available \<longrightarrow>
               (\<Sum>candidate \<leftarrow> teams. allocationAt K A w reductionOnly key candidate) \<le> available)"
          using teamCapacity_within [of K A w "qpTeam plan" cluster teams] ready by (auto intro: exI)
      qed
      have guarantees: "\<forall>workspaces. aWorkspaces A w (tmNamespace (qpTeam plan)) = Inr workspaces \<and> distinct (map quotaKey (tmQuota (qpTeam plan))) \<and>
           (\<forall>q \<in> set (tmQuota (qpTeam plan)). 0 \<le> qNominal q) \<longrightarrow>
         (\<exists>events. list_all2 (\<lambda>ws e. effectiveGuarantee K A w (qpTeam plan) ws = Inr (snd e, fst e)) (accountedWorkspaces workspaces (Some workspace)) events \<and>
            (\<forall>q \<in> set (tmQuota (qpTeam plan)). totalCharge events (quotaKey q) \<le> qNominal q))"
        using guarantees_within_quota [OF shared] by blast
      from ready have ready: "tmDeletionTimestamp (qpTeam plan) = None" "tstPhase (tmStatus (qpTeam plan)) = ''Ready''"
        "tstObservedGeneration (tmStatus (qpTeam plan)) = tmGeneration (qpTeam plan)" by simp_all
      show ?thesis
        by (rule exI [of _ current], rule exI [of _ "qpTeam plan"], intro conjI c p(1))
          (rule disjI2, rule disjI1, intro conjI ready capacity guarantees)
    qed
  qed
qed

definition readyTeam :: "int tauTeam" where
  "readyTeam = exampleTeam\<lparr>tmStatus := (tmStatus exampleTeam)\<lparr>tstPhase := ''Ready'', tstObservedGeneration := 1\<rparr>\<rparr>"

definition labWorkspace :: "int tauWorkspace" where
  "labWorkspace = exampleWorkspace\<lparr>wsQueue := ''none''\<rparr>"

definition readyStore :: "int store" where
  "readyStore = acceptedStore\<lparr>stTeams := [readyTeam]\<rparr>"

theorem workspace_queue_write_guarded_witness:
  "length (stObjects (snd (reconcileLockedQueue refKube storeApi [] labWorkspace ''vision'' readyStore))) = 3 \<and>
   (\<exists>team. aTeam storeApi readyStore ''tau-system'' ''vision'' = Inr team \<and> tstPhase (tmStatus team) = ''Ready'' \<and>
     (\<exists>events :: int guaranteeEvent list. length events = 1 \<and> (\<forall>q \<in> set (tmQuota team). totalCharge events (quotaKey q) \<le> qNominal q)))"
proof -
  let ?run = "reconcileLockedQueue refKube storeApi [] labWorkspace ''vision'' readyStore"
  have three: "length (stObjects (snd ?run)) = 3" by code_simp
  have one: "length (stObjects readyStore) = 1" by code_simp
  have ne: "snd ?run \<noteq> readyStore" using three one by auto
  have cluster: "aCluster storeApi readyStore = Inr capacityCluster" by (simp add: store_defs readyStore_def acceptedStore_def found_def)
  have open_pool: "\<not> clShareTeamQuotas capacityCluster" "clCapacityTeamRef capacityCluster \<noteq> Some ''vision''" by code_simp+
  have absent: "getQueue storeApi readyStore n = Inl (NotFound n)" for n
    by (simp add: getQueue_def store_defs readyStore_def acceptedStore_def found_def resourceFlavorKind_def clusterQueueKind_def)
  have ns: "wsNamespace labWorkspace = ''tau-system''" by code_simp
  have team: "aTeam storeApi readyStore ''tau-system'' ''vision'' = Inr readyTeam"
    by (simp add: store_defs readyStore_def readyTeam_def exampleTeam_def found_def)
  have ws: "aWorkspaces storeApi readyStore (tmNamespace readyTeam) = Inr [labWorkspace]"
    by (simp add: store_defs readyStore_def readyTeam_def acceptedStore_def teamStore_def exampleTeam_def labWorkspace_def exampleWorkspace_def zeroWorkspace_def)
  have quota: "distinct (map quotaKey (tmQuota readyTeam))" "\<forall>q \<in> set (tmQuota readyTeam). 0 \<le> qNominal q"
    by (simp_all add: readyTeam_def exampleTeam_def)
  have acc: "length (accountedWorkspaces [labWorkspace] (Some labWorkspace)) = 1" by code_simp
  from workspace_queue_write_guarded [OF prod.collapse [symmetric] ne] cluster open_pool absent ns team ws quota
  obtain events where "list_all2 (\<lambda>ws e. effectiveGuarantee refKube storeApi readyStore readyTeam ws = Inr (snd e, fst e)) (accountedWorkspaces [labWorkspace] (Some labWorkspace)) events"
      "\<forall>q \<in> set (tmQuota readyTeam). totalCharge events (quotaKey q) \<le> qNominal q" "tstPhase (tmStatus readyTeam) = ''Ready''"
    by auto
  moreover from this(1) acc have "length events = 1" by (simp add: list_all2_lengthD)
  ultimately show ?thesis using three team by (intro conjI exI [of _ readyTeam] exI [of _ events])
qed

section \<open>A ready queue leads to a ClusterQueue\<close>

lemma report_ready [simp]: "qrpReady (report a b c r m e) = r"
  by (simp add: report_def)

lemma compatibility_names_other: "workspaceLocalQueueName K workspace \<notin> set (workspaceCompatibilityLocalQueueNames K workspace)"
  by (auto simp: workspaceCompatibilityLocalQueueNames_def Let_def)

text \<open>A LocalQueue that leads to a ClusterQueue.\<close>

definition routed :: "'q kube \<Rightarrow> ('q, 'w) api \<Rightarrow> 'w \<Rightarrow> string \<Rightarrow> string \<Rightarrow> string \<Rightarrow> string \<Rightarrow> bool" where
  "routed K A w namespace localQueue clusterQueue uid \<longleftrightarrow>
     (\<exists>lq cq. aGet A w localQueueKind namespace localQueue = Inr lq \<and>
        stringOrEmpty K (oObject lq) [''spec'', ''clusterQueue''] = clusterQueue \<and>
        getQueue A w clusterQueue = Inr cq \<and> oUID cq = uid)"

context object_store
begin

lemma routed_write:
  assumes "routed K A w namespace localQueue clusterQueue uid" "oKind object = localQueueKind"
    and "oNamespace object = namespace \<Longrightarrow> oName object \<noteq> localQueue"
    and "aCreate A object w = (None, w') \<or> aUpdate A object w = (None, w')"
  shows "routed K A w' namespace localQueue clusterQueue uid"
proof -
  have "aGet A w' localQueueKind namespace localQueue = aGet A w localQueueKind namespace localQueue"
    using assms(2-4) create_other [of object w w' localQueueKind namespace localQueue] update_other [of object w w' localQueueKind namespace localQueue]
    by auto
  then show ?thesis using assms(1) getQueue_local [OF assms(4,2)] by (simp add: routed_def)
qed

text \<open>Taking over a LocalQueue changes its metadata only.\<close>

lemma reconcileWorkspaceLocalQueueTeam_keeps:
  assumes run: "reconcileWorkspaceLocalQueueTeam A queue workspace w = (None, w')"
    and got: "aGet A w localQueueKind namespace name = Inr queue"
  shows "\<exists>queue'. aGet A w' localQueueKind namespace name = Inr queue' \<and> oObject queue' = oObject queue"
    and "routed K A w ns localQueue clusterQueue uid \<Longrightarrow> ns = namespace \<Longrightarrow> localQueue \<noteq> name \<Longrightarrow> routed K A w' ns localQueue clusterQueue uid"
proof -
  have k: "oKind queue = localQueueKind" "oNamespace queue = namespace" "oName queue = name" using get_key [OF got] by auto
  consider "w' = w" | owned w1 where "ensureWorkspaceObjectUID A queue workspace w = (Inr owned, w1)"
      "w' = w1 \<or> (\<exists>labels. aUpdate A (owned\<lparr>oLabels := labels\<rparr>) w1 = (None, w'))"
    using run by (auto simp: reconcileWorkspaceLocalQueueTeam_def split: if_splits sum.splits prod.splits option.splits)
  note cases = this
  have adopt: "owned = queue \<and> w1 = w \<or> owned = setOwnerUIDAnnotation queue (wsUID workspace) \<and> aUpdate A owned w = (None, w1)"
    if "ensureWorkspaceObjectUID A queue workspace w = (Inr owned, w1)" for owned w1
    using that by (auto simp: ensureWorkspaceObjectUID_def writeThen_def Let_def split: sum.splits if_splits prod.splits option.splits)
  have step: "aGet A w2 localQueueKind namespace name = Inr object \<and>
      (routed K A w1 ns localQueue clusterQueue uid \<longrightarrow> ns = namespace \<longrightarrow> localQueue \<noteq> name \<longrightarrow> routed K A w2 ns localQueue clusterQueue uid)"
    if "aUpdate A object w1 = (None, w2)" "oKind object = localQueueKind" "oNamespace object = namespace" "oName object = name" for object w1 w2
    using that update_get [OF that(1)] routed_write [where object = object and w = w1 and w' = w2] by auto
  have main: "(\<exists>queue'. aGet A w' localQueueKind namespace name = Inr queue' \<and> oObject queue' = oObject queue) \<and>
      (routed K A w ns localQueue clusterQueue uid \<longrightarrow> ns = namespace \<longrightarrow> localQueue \<noteq> name \<longrightarrow> routed K A w' ns localQueue clusterQueue uid)"
    using cases
  proof cases
    case 1
    then show ?thesis using got by auto
  next
    case (2 owned w1)
    have o: "oKind owned = localQueueKind" "oNamespace owned = namespace" "oName owned = name" "oObject owned = oObject queue"
      using adopt [OF 2(1)] k by (auto simp: setOwnerUIDAnnotation_def)
    have first: "aGet A w1 localQueueKind namespace name = Inr owned \<and>
        (routed K A w ns localQueue clusterQueue uid \<longrightarrow> ns = namespace \<longrightarrow> localQueue \<noteq> name \<longrightarrow> routed K A w1 ns localQueue clusterQueue uid)"
      using adopt [OF 2(1)] got step [of owned w w1] o by blast
    show ?thesis
    proof (cases "w' = w1")
      case True
      then show ?thesis using first o by auto
    next
      case False
      then obtain labels where "aUpdate A (owned\<lparr>oLabels := labels\<rparr>) w1 = (None, w')" using 2(2) by blast
      from step [OF this] first o show ?thesis by auto
    qed
  qed
  then show "\<exists>queue'. aGet A w' localQueueKind namespace name = Inr queue' \<and> oObject queue' = oObject queue"
    and "routed K A w ns localQueue clusterQueue uid \<Longrightarrow> ns = namespace \<Longrightarrow> localQueue \<noteq> name \<Longrightarrow> routed K A w' ns localQueue clusterQueue uid"
    by blast+
qed

lemma reconcileCompatibleQueue_keeps:
  assumes "reconcileCompatibleQueue K A workspace team namespace clusterQueue name w = (None, w')" "name \<noteq> localQueue"
    and "routed K A w namespace localQueue target uid"
  shows "routed K A w' namespace localQueue target uid"
proof (cases "aGet A w localQueueKind namespace name")
  case (Inl err)
  then obtain q where "aCreate A (newWorkspaceLocalQueue workspace namespace name q True) w = (None, w')"
    using assms(1) by (auto simp: reconcileCompatibleQueue_def split: if_splits sum.splits prod.splits option.splits)
  then show ?thesis
    using assms(2) by (intro routed_write [OF assms(3)]) (auto simp: newWorkspaceLocalQueue_def setOwnerUIDAnnotation_def)
next
  case (Inr queue)
  then have "w' = w \<or> reconcileWorkspaceLocalQueueTeam A queue workspace w = (None, w')"
    using assms(1) by (auto simp: reconcileCompatibleQueue_def Let_def split: if_splits sum.splits prod.splits option.splits)
  then show ?thesis using assms(2,3) reconcileWorkspaceLocalQueueTeam_keeps(2) [OF _ Inr] by blast
qed

lemma compatibleQueues_keep:
  assumes "compatibleQueues K A workspace team namespace clusterQueue names w = ((True, message, err), w')" "localQueue \<notin> set names"
    and "routed K A w namespace localQueue target uid"
  shows "routed K A w' namespace localQueue target uid"
  using assms
proof (induction names arbitrary: w)
  case (Cons name names)
  then obtain w1 where "reconcileCompatibleQueue K A workspace team namespace clusterQueue name w = (None, w1)"
    "compatibleQueues K A workspace team namespace clusterQueue names w1 = ((True, message, err), w')"
    by (auto split: prod.splits option.splits)
  then show ?case using Cons.IH [of w1] Cons.prems(2,3) reconcileCompatibleQueue_keeps by auto
qed simp

lemma withCompatibleQueues_routed:
  assumes "withCompatibleQueues K A workspace namespace localQueue desired target uid w = (rep, w')" "qrpReady rep"
    and "localQueue = workspaceLocalQueueName K workspace" and "routed K A w namespace localQueue target uid"
  shows "rep = report localQueue target uid True (Msg ''workspace LocalQueue is reconciled'') None \<and> routed K A w' namespace localQueue target uid"
proof -
  obtain message err where run: "reconcileWorkspaceCompatibilityLocalQueues K A workspace namespace desired w = ((True, message, err), w')"
    and rep: "rep = report localQueue target uid True (Msg ''workspace LocalQueue is reconciled'') None"
    using assms(1,2) by (auto simp: withCompatibleQueues_def report_def split: prod.splits if_splits)
  have "routed K A w' namespace localQueue target uid"
    using run assms(4) compatibleQueues_keep [of K workspace _ namespace desired _ w message err w' localQueue target uid] compatibility_names_other [of K workspace]
    by (auto simp: reconcileWorkspaceCompatibilityLocalQueues_def assms(3) split: option.splits)
  with rep show ?thesis by simp
qed

end

text \<open>The server together with the Kubernetes libraries the handler calls.\<close>

locale queue_store = object_store A for A :: "('q::linordered_ab_group_add, 'w) api" +
  fixes K :: "'q kube"
  assumes laws: "kube_laws K"
begin

lemma createLocalQueue_routed:
  assumes run: "createLocalQueue K A workspace namespace localQueue desired w = (rep, w')" and ready: "qrpReady rep"
    and canonical: "localQueue = workspaceLocalQueueName K workspace"
  shows "\<exists>uid. rep = report localQueue desired uid True (Msg ''workspace LocalQueue is reconciled'') None \<and> routed K A w' namespace localQueue desired uid"
proof -
  let ?new = "newWorkspaceLocalQueue workspace namespace localQueue desired True"
  obtain cq w1 where cq: "getQueue A w desired = Inr cq" and create: "aCreate A ?new w = (None, w1)"
    and rest: "withCompatibleQueues K A workspace namespace localQueue desired desired (oUID cq) w1 = (rep, w')"
    using run ready by (auto simp: createLocalQueue_def report_def split: sum.splits prod.splits option.splits)
  have new: "oKind ?new = localQueueKind" "oNamespace ?new = namespace" "oName ?new = localQueue"
      "oObject ?new = [(''spec'', JMap [(''clusterQueue'', JString desired)])]"
    by (simp_all add: newWorkspaceLocalQueue_def setOwnerUIDAnnotation_def)
  obtain uid where "aGet A w1 localQueueKind namespace localQueue = Inr (?new\<lparr>oUID := uid\<rparr>)" using create_get [OF create] new by auto
  moreover have "stringOrEmpty K (oObject ?new) [''spec'', ''clusterQueue''] = desired"
    using kube_accessors(2) [OF laws, THEN accessor.typed, of "oObject ?new" "[''spec'', ''clusterQueue'']" "JString desired" desired] new
    by (simp add: stringOrEmpty_def)
  moreover have "getQueue A w1 desired = Inr cq" using cq create new(1) getQueue_local [of ?new w w1] by simp
  ultimately have "routed K A w1 namespace localQueue desired (oUID cq)" by (simp add: routed_def)
  from withCompatibleQueues_routed [OF rest ready canonical this] show ?thesis by blast
qed

lemma ownLocalQueue_routed:
  assumes run: "ownLocalQueue K A workspace namespace localQueue desired queue target w = (rep, w')" and ready: "qrpReady rep"
    and canonical: "localQueue = workspaceLocalQueueName K workspace"
    and got: "aGet A w localQueueKind namespace localQueue = Inr queue" "target = stringOrEmpty K (oObject queue) [''spec'', ''clusterQueue'']"
  shows "\<exists>uid. rep = report localQueue target uid True (Msg ''workspace LocalQueue is reconciled'') None \<and> routed K A w' namespace localQueue target uid"
proof -
  obtain w1 cq where own: "reconcileWorkspaceLocalQueueTeam A queue workspace w = (None, w1)" and cq: "getQueue A w1 desired = Inr cq"
    and "target = desired" and rest: "withCompatibleQueues K A workspace namespace localQueue desired target (oUID cq) w1 = (rep, w')"
    using run ready by (auto simp: ownLocalQueue_def report_def split: sum.splits prod.splits option.splits if_splits)
  then have "routed K A w1 namespace localQueue target (oUID cq)"
    using reconcileWorkspaceLocalQueueTeam_keeps(1) [OF own got(1)] got(2) by (auto simp: routed_def)
  from withCompatibleQueues_routed [OF rest ready canonical this] show ?thesis by blast
qed

lemma externalLocalQueue_routed:
  assumes ready: "qrpReady (externalLocalQueue A w workspace localQueue desired target)"
    and got: "aGet A w localQueueKind namespace localQueue = Inr queue" "target = stringOrEmpty K (oObject queue) [''spec'', ''clusterQueue'']"
  shows "\<exists>uid message. externalLocalQueue A w workspace localQueue desired target = report localQueue target uid True message None \<and>
    routed K A w namespace localQueue target uid"
proof -
  obtain cq where cq: "getQueue A w target = Inr cq"
    using ready by (cases "getQueue A w target") (simp_all add: externalLocalQueue_def split: if_splits)
  have "\<exists>message. externalLocalQueue A w workspace localQueue desired target = report localQueue target (oUID cq) True message None"
    using ready unfolding externalLocalQueue_def cq
    by (cases "authoritativeWorkspaceClusterQueue cq workspace") (simp_all split: if_splits, blast+)
  then show ?thesis using got cq by (auto simp: routed_def)
qed

lemma ready_queue_routed:
  assumes run: "reconcileQueue K A ns acquired workspace namespace w = (rep, w')" and ready: "qrpReady rep"
  shows "\<exists>clusterQueue uid message. rep = report (workspaceLocalQueueName K workspace) clusterQueue uid True message None \<and>
    routed K A w' namespace (workspaceLocalQueueName K workspace) clusterQueue uid"
proof -
  let ?name = "workspaceLocalQueueName K workspace"
  obtain desired w1 where w1: "reconcileWorkspaceClusterQueue K A ns acquired workspace w = (Inr desired, w1)"
    using run ready by (auto simp: reconcileQueue_def report_def Let_def split: prod.splits sum.splits)
  show ?thesis
  proof (cases "aGet A w1 localQueueKind namespace ?name")
    case (Inl err)
    then have "createLocalQueue K A workspace namespace ?name desired w1 = (rep, w')"
      using run ready w1 by (auto simp: reconcileQueue_def report_def Let_def split: if_splits)
    from createLocalQueue_routed [OF this ready refl] show ?thesis by blast
  next
    case (Inr queue)
    let ?target = "stringOrEmpty K (oObject queue) [''spec'', ''clusterQueue'']"
    have "ownLocalQueue K A workspace namespace ?name desired queue ?target w1 = (rep, w') \<or>
        rep = externalLocalQueue A w1 workspace ?name desired ?target \<and> w' = w1"
      using run ready unfolding reconcileQueue_def Let_def w1 by (auto simp: Inr split: if_splits)
    then show ?thesis
      using ownLocalQueue_routed [OF _ ready refl Inr refl] externalLocalQueue_routed [OF _ Inr refl] ready by blast
  qed
qed

end

text \<open>
  A workspace queue is reported ready only when jobs can be submitted to it: the LocalQueue of the reported name is in
  the target namespace and leads to the reported ClusterQueue, which exists with the reported identity, in the state the
  reconciliation leaves behind, whatever else it created, adopted or relabelled.\<close>

theorem workspace_ready_routes:
  assumes "kube_laws K" and "object_store A" and "reconcileQueue K A ns acquired workspace namespace w = (rep, w')" and "qrpReady rep"
  shows "wqLocalQueue (qrpStatus rep) = workspaceLocalQueueName K workspace \<and> qrpError rep = None \<and>
    (\<exists>lq cq. aGet A w' localQueueKind namespace (wqLocalQueue (qrpStatus rep)) = Inr lq \<and>
       stringOrEmpty K (oObject lq) [''spec'', ''clusterQueue''] = wqClusterQueue (qrpStatus rep) \<and>
       getQueue A w' (wqClusterQueue (qrpStatus rep)) = Inr cq \<and> oUID cq = wqClusterQueueUID (qrpStatus rep))"
  using queue_store.ready_queue_routed [OF queue_store.intro [OF assms(2) queue_store_axioms.intro [OF assms(1)]] assms(3,4)] by (auto simp: report_def routed_def)

interpretation store_queues: queue_store "storeApi :: (int, int store) api" refKube
  by unfold_locales (rule refKube_laws)

theorem workspace_ready_routes_witness:
  "let (rep, w') = reconcileQueue refKube storeApi [] (\<lambda>_ w. w) labWorkspace ''lab'' readyStore
   in qrpReady rep \<and> (\<exists>cq. getQueue storeApi w' (wqClusterQueue (qrpStatus rep)) = Inr cq \<and> oUID cq = wqClusterQueueUID (qrpStatus rep))"
proof -
  let ?run = "reconcileQueue refKube storeApi [] (\<lambda>_ w. w) labWorkspace ''lab'' readyStore"
  have ready: "qrpReady (fst ?run)" by code_simp
  from workspace_ready_routes [OF refKube_laws store_store.object_store_axioms prod.collapse [symmetric] ready] ready
  show ?thesis by (auto simp: case_prod_unfold)
qed

end
