(* ===== verification/Workspace_Safety.thy ===== *)
theory Workspace_Safety
  imports Workspace_Controller Workspace_Props
begin

text \<open>
  What the workspace controller may touch: it takes only namespaces it may take, and a deleted workspace
  removes only its own objects and keeps neither its namespace nor its queue.
\<close>

section \<open>Taking a namespace\<close>

definition mayClaim :: "('q, 'w) api \<Rightarrow> 'w \<Rightarrow> 'q tauWorkspace \<Rightarrow> kobj \<Rightarrow> bool" where
  "mayClaim A w workspace namespace \<longleftrightarrow>
     (gm_get [] (oAnnotations namespace) annotationOwnerUID = wsUID workspace \<and>
        gm_get [] (oLabels namespace) labelWorkspace \<in> {[], wsName workspace}) \<or>
     (oUID namespace \<noteq> [] \<and> trimSpace (gm_get [] (wsAnnotations workspace) annotationAdoptionNamespaceUID) = oUID namespace \<and>
        (gm_get [] (oLabels namespace) labelWorkspace \<in> {[], wsName workspace} \<or>
         (\<exists>e. aWorkspace A w (wsNamespace workspace) (gm_get [] (oLabels namespace) labelWorkspace) = Inl e \<and> isNotFound e)))"

lemma checkNamespaceClaim_ok:
  assumes "checkNamespaceClaim A w workspace target namespace = Inr ()" "wsUID workspace \<noteq> []"
  shows "mayClaim A w workspace namespace"
  using assms unfolding checkNamespaceClaim_def mayClaim_def hasExplicitNamespaceAdoptionEvidence_def Let_def
  by (cases "aWorkspace A w (wsNamespace workspace) (gm_get [] (oLabels namespace) labelWorkspace)")
     (auto simp: bindE_Inr_iff split: if_splits)

lemma applyLabel_get: "gm_get [] (fst (applyLabel e acc)) k = (if k = fst e then snd e else gm_get [] (fst acc) k)"
  by (auto simp: applyLabel_def)

lemma applyLabels_get:
  assumes "gm_inv entries"
  shows "gm_get [] (fst (fold applyLabel entries acc)) k = (case gm_lookup entries k of None \<Rightarrow> gm_get [] (fst acc) k | Some v \<Rightarrow> v)"
  using assms
proof (induction entries arbitrary: acc)
  case (Cons e entries)
  have inv: "gm_inv entries" and fresh: "fst e \<notin> set (gm_keys entries)" using Cons.prems by (simp_all add: gm_inv_def gm_keys_def)
  then have "gm_lookup entries (fst e) = None" by (simp add: gm_key_iff)
  then show ?case using Cons.IH [OF inv, of "applyLabel e acc"]
    by (cases e) (auto simp: applyLabel_get split: option.split)
qed simp

lemma requiredNamespaceLabels_props:
  "gm_inv (requiredNamespaceLabels K workspace activate)"
  "gm_lookup (requiredNamespaceLabels K workspace activate) labelWorkspace = Some (wsName workspace)"
  by (simp_all add: requiredNamespaceLabels_def inactiveNamespaceLabels_def workspaceNamespaceLabels_def workspaceLabels_def Let_def
      gm_inv_def gm_keys_def labelWorkspace_def labelManagedBy_def labelTeam_def labelWorkspaceLocalQueue_def labelKueueDefaultLocalQueue_def
      split: option.split)

lemma claimedNamespace_owned:
  assumes uid: "wsUID workspace \<noteq> []" and c: "claimedNamespace K workspace activate namespace = (claimed, changed)"
  shows "gm_get [] (oAnnotations claimed) annotationOwnerUID = wsUID workspace" "gm_get [] (oLabels claimed) labelWorkspace = wsName workspace"
    "oUID claimed = oUID namespace" "oName claimed = oName namespace" "oObject claimed = oObject namespace"
proof -
  have "gm_get [] (fst (claimedAnnotations workspace a)) annotationOwnerUID = wsUID workspace" for a
    using uid by (simp add: claimedAnnotations_def Let_def applyLabel_get annotationOwnerUID_def annotationResultScope_def)
  moreover have "gm_get [] (fst (claimedLabels K workspace activate l)) labelWorkspace = wsName workspace" for l
    by (simp add: claimedLabels_def applyLabels_get requiredNamespaceLabels_props)
  ultimately show "gm_get [] (oAnnotations claimed) annotationOwnerUID = wsUID workspace" "gm_get [] (oLabels claimed) labelWorkspace = wsName workspace"
    "oUID claimed = oUID namespace" "oName claimed = oName namespace" "oObject claimed = oObject namespace"
    using c by (auto simp: claimedNamespace_def Let_def)
qed

text \<open>
  C15. A namespace is created or changed for a workspace only when it may be: it is not reserved, the workspace has an
  identity, and the namespace is absent and the workspace asks for its creation, or it is annotated with the workspace's UID
  and carries no other workspace's label, or the workspace names the UID of that very namespace for adoption and the
  workspace it is labelled with is gone. What is written then carries the workspace's name and UID, and nothing of the
  namespace but labels and annotations changes.\<close>

theorem namespace_claim_safe:
  assumes "reconcileNamespace K A sys workspace target activate w = (err, w')" and "w' \<noteq> w"
  shows "reservedNamespaceReason target (systemNamespace sys) = [] \<and> wsUID workspace \<noteq> [] \<and>
    ((\<exists>e. aGet A w namespaceKind [] target = Inl e \<and> isNotFound e \<and> wsCreateNamespace workspace \<and>
        aCreate A (newNamespace workspace target) w = (err, w')) \<or>
     (\<exists>namespace claimed. aGet A w namespaceKind [] target = Inr namespace \<and> mayClaim A w workspace namespace \<and>
        aUpdate A claimed w = (err, w') \<and>
        gm_get [] (oAnnotations claimed) annotationOwnerUID = wsUID workspace \<and> gm_get [] (oLabels claimed) labelWorkspace = wsName workspace \<and>
        oUID claimed = oUID namespace \<and> oName claimed = oName namespace \<and> oObject claimed = oObject namespace))"
proof -
  have uid: "wsUID workspace \<noteq> []" and free: "reservedNamespaceReason target (systemNamespace sys) = []"
    using assms by (auto simp: reconcileNamespace_def Let_def withRes_def split: if_splits sum.splits)
  show ?thesis
  proof (cases "aGet A w namespaceKind [] target")
    case (Inl e)
    then show ?thesis using assms uid free by (auto simp: reconcileNamespace_def Let_def withRes_def split: if_splits sum.splits)
  next
    case (Inr namespace)
    obtain claimed changed where c: "claimedNamespace K workspace activate namespace = (claimed, changed)" by fastforce
    have "checkNamespaceClaim A w workspace target namespace = Inr ()" "aUpdate A claimed w = (err, w')"
      using assms uid free Inr c by (auto simp: reconcileNamespace_def Let_def withRes_def split: if_splits sum.splits)
    then have "mayClaim A w workspace namespace" "aUpdate A claimed w = (err, w')" using checkNamespaceClaim_ok [OF _ uid] by auto
    then show ?thesis using uid free Inr claimedNamespace_owned [OF uid c] by (intro conjI disjI2 exI [of _ namespace] exI [of _ claimed]) simp_all
  qed
qed

section \<open>What a cleanup may touch\<close>

text \<open>
  Handlers as sequences of writes: a reflexive and transitive relation that every single call of a handler respects is
  respected by the handler.
\<close>

locale write_log =
  fixes R :: "'w \<Rightarrow> 'w \<Rightarrow> bool"
  assumes start: "R w w" and step: "R w w1 \<Longrightarrow> R w1 w2 \<Longrightarrow> R w w2"
begin

lemma andThen_log:
  assumes "R w (snd p)" "\<And>w1. R w1 (snd (f w1))"
  shows "R w (snd (andThen p f))"
  using assms step by (cases p; cases "fst p") (auto simp: andThen_def)

lemma withRes_log: "(\<And>v. r = Inr v \<Longrightarrow> R w (snd (f v))) \<Longrightarrow> R w (snd (withRes r w f))"
  by (cases r) (simp_all add: start)

lemma forEach_log:
  assumes "\<And>x w. x \<in> set xs \<Longrightarrow> R w (snd (f x w))"
  shows "R w (snd (forEach f xs w))"
  using assms
proof (induction xs arbitrary: w)
  case (Cons x xs)
  have tail: "R w1 (snd (forEach f xs w1))" for w1 using Cons.prems by (intro Cons.IH) simp
  show ?case unfolding forEach.simps by (rule andThen_log) (use Cons.prems tail in simp_all)
qed (simp add: start)

end

inductive ownWrites :: "'q kube \<Rightarrow> ('q, 'w) api \<Rightarrow> string \<Rightarrow> 'q tauWorkspace \<Rightarrow> 'w \<Rightarrow> 'w \<Rightarrow> bool" for K A sys workspace where
  idle: "ownWrites K A sys workspace w w"
| adopt: "ownWrites K A sys workspace w w1 \<Longrightarrow> ownedByWorkspace (oLabels object) (wsName workspace) \<Longrightarrow>
    gm_get [] (oAnnotations object) annotationOwnerUID = [] \<Longrightarrow> gm_get [] (wsAnnotations workspace) annotationOwnerUID = wsUID workspace \<Longrightarrow>
    aUpdate A (setOwnerUIDAnnotation object (wsUID workspace)) w1 = (e, w2) \<Longrightarrow> ownWrites K A sys workspace w w2"
| delete: "ownWrites K A sys workspace w w1 \<Longrightarrow> ownedByWorkspace (oLabels object) (wsName workspace) \<Longrightarrow>
    gm_get [] (oAnnotations object) annotationOwnerUID = wsUID workspace \<or> canDeleteLegacyWorkspaceRole object workspace \<Longrightarrow>
    aDelete A object w1 = (e, w2) \<Longrightarrow> ownWrites K A sys workspace w w2"
| release: "ownWrites K A sys workspace w w1 \<Longrightarrow> drainedNamespace K A sys workspace name w1 = Inr (Some namespace) \<Longrightarrow>
    aUpdate A (namespace\<lparr>oLabels := withoutRouting (oLabels namespace),
      oAnnotations := gm_delete annotationOwnerUID (gm_delete annotationResultScope (oAnnotations namespace))\<rparr>) w1 = (e, w2) \<Longrightarrow>
    ownWrites K A sys workspace w w2"

interpretation own: write_log "ownWrites K A sys workspace" for K A sys workspace
proof
  show "ownWrites K A sys workspace w w" for w by (rule idle)
  show "ownWrites K A sys workspace w w2" if "ownWrites K A sys workspace w w1" "ownWrites K A sys workspace w1 w2" for w w1 w2
    using that(2,1) by induction (blast intro: adopt delete release)+
qed

lemma ensureWorkspaceObjectUID_own:
  assumes "ownedByWorkspace (oLabels object) (wsName workspace)"
  shows "ownWrites K A sys workspace w (snd (ensureWorkspaceObjectUID A object workspace w))"
    and "fst (ensureWorkspaceObjectUID A object workspace w) = Inr owned \<Longrightarrow>
      ownedByWorkspace (oLabels owned) (wsName workspace) \<and> gm_get [] (oAnnotations owned) annotationOwnerUID = wsUID workspace"
  using assms adopt [OF idle assms] idle
  by (auto simp: ensureWorkspaceObjectUID_def validateWorkspaceObjectUID_def writeThen_def setOwnerUIDAnnotation_def Let_def
      split: sum.splits if_splits option.splits prod.splits)

lemma delete_own:
  assumes "ownedByWorkspace (oLabels object) (wsName workspace)"
    and "gm_get [] (oAnnotations object) annotationOwnerUID = wsUID workspace \<or> canDeleteLegacyWorkspaceRole object workspace"
  shows "ownWrites K A sys workspace w (snd (deleteObjectWithPreconditions A object w))"
  using delete [OF idle assms] by (auto simp: deleteObjectWithPreconditions_def split: prod.splits option.splits)

lemma removeOwned_own:
  assumes "ownedByWorkspace (oLabels object) (wsName workspace)"
  shows "ownWrites K A sys workspace w (snd (removeOwned A wrap workspace object w))"
proof (cases "ensureWorkspaceObjectUID A object workspace w")
  case (Pair r w1)
  have first: "ownWrites K A sys workspace w w1"
      "r = Inr owned \<Longrightarrow> ownedByWorkspace (oLabels owned) (wsName workspace) \<and> gm_get [] (oAnnotations owned) annotationOwnerUID = wsUID workspace" for owned
    using ensureWorkspaceObjectUID_own(1) [OF assms, of K A sys w] ensureWorkspaceObjectUID_own(2) [OF assms, of A w owned] Pair by simp_all
  show ?thesis
  proof (cases r)
    case (Inr owned)
    then have "ownWrites K A sys workspace w1 (snd (deleteObjectWithPreconditions A owned w1))" using first(2) by (intro delete_own) auto
    then show ?thesis using first(1) Pair Inr own.step by (simp add: removeOwned_def)
  qed (use first(1) Pair in \<open>simp add: removeOwned_def\<close>)
qed

lemma deleteOwnedObject_own: "ownWrites K A sys workspace w (snd (deleteOwnedObject A object workspace w))"
proof (cases "aGet A w (oKind object) (oNamespace object) (oName object)")
  case (Inr existing)
  then show ?thesis
    using removeOwned_own [of existing workspace K A sys w "Wrapped ''refusing to delete %T %s'' [oKind existing, oName existing]"] idle
    by (auto simp: deleteOwnedObject_def removeOwned_def)
qed (simp add: deleteOwnedObject_def idle)

lemma listed_owned:
  assumes "listMatching A w kind namespace (workspaceLabels name) = Inr items" "x \<in> set items"
  shows "ownedByWorkspace (oLabels x) name"
  using assms by (auto simp: listMatching_def bindE_Inr_iff workspaceLabels_def ownedByWorkspace_def gm_get_def)

lemma cleanupStaleTargetRBAC_own: "ownWrites K A sys workspace w (snd (cleanupStaleTargetRBAC A sys workspace kn ks kr w))"
proof -
  have "ownWrites K A sys workspace w1 (snd (removeStaleAccess A sys workspace kn keep object w1))"
    if "ownedByWorkspace (oLabels object) (wsName workspace)" for keep object w1
    using that by (auto simp: removeStaleAccess_def idle intro: removeOwned_own delete_own)
  then show ?thesis
    unfolding cleanupStaleTargetRBAC_def case_prod_unfold
    by (intro own.forEach_log own.withRes_log) (blast dest: listed_owned)
qed

lemma cleanupWorkspaceClusterQueue_own: "ownWrites K A sys workspace w (snd (cleanupWorkspaceClusterQueue K A workspace w))"
proof (cases "getQueue A w (workspaceClusterQueueName K (wsName workspace))")
  case (Inr queue)
  have check: "ownWrites K A sys workspace w1 (snd (case getQueue A w1 n of Inl err \<Rightarrow> (ignoreNotFound err, w1)
      | Inr remaining \<Rightarrow> (Some (Errorf t [oName remaining]), w1)))" for w1 n t
    by (auto simp: idle split: sum.split)
  show ?thesis
  proof (cases "ownedByWorkspace (oLabels queue) (wsName workspace) \<and> validateWorkspaceObjectUID queue workspace = Inr ()")
    case True
    then have "gm_get [] (oAnnotations queue) annotationOwnerUID = wsUID workspace"
      by (auto simp: validateWorkspaceObjectUID_def Let_def split: if_splits)
    then have "ownWrites K A sys workspace w (snd (deleteObjectWithPreconditions A queue w))" using True by (intro delete_own) auto
    then show ?thesis
      using True Inr by (auto simp: cleanupWorkspaceClusterQueue_def Let_def idle intro: own.andThen_log check)
  next
    case False
    then show ?thesis
      using Inr by (auto simp: cleanupWorkspaceClusterQueue_def Let_def idle withRes_def mapErr_def split: sum.splits)
  qed
qed (simp add: cleanupWorkspaceClusterQueue_def Let_def idle)

lemma cleanupStaleNamespaceMetadata_own: "ownWrites K A sys workspace w (snd (cleanupStaleNamespaceMetadata K A sys workspace name w))"
  unfolding cleanupStaleNamespaceMetadata_def
proof (rule own.withRes_log)
  fix v assume v: "drainedNamespace K A sys workspace name w = Inr v"
  show "ownWrites K A sys workspace w (snd (case v of None \<Rightarrow> (None, w) | Some namespace \<Rightarrow>
      aUpdate A (namespace\<lparr>oLabels := withoutRouting (oLabels namespace),
        oAnnotations := gm_delete annotationOwnerUID (gm_delete annotationResultScope (oAnnotations namespace))\<rparr>) w))"
    using v by (cases v) (auto simp: idle intro: release [OF idle _ prod.collapse [symmetric]])
qed

lemma cleanup_own: "ownWrites K A sys workspace w (snd (cleanupWorkspaceAccess K A sys workspace w))"
proof -
  have bindings: "ownWrites K A sys workspace w1 (snd (cleanupOwnedResearcherRoleBindings A workspace w1))" for w1
    unfolding cleanupOwnedResearcherRoleBindings_def
    by (intro own.withRes_log own.forEach_log) (simp add: idle deleteOwnedObject_own)
  have queues: "ownWrites K A sys workspace w1 (snd (cleanupStaleWorkspaceLocalQueues K A workspace [] [] w1))" for w1
    unfolding cleanupStaleWorkspaceLocalQueues_def
    by (intro own.withRes_log own.forEach_log) (auto simp: idle intro: removeOwned_own listed_owned)
  have reader: "ownWrites K A sys workspace w1 (snd (cleanupClusterQueueReaderRBAC A workspace w1))" for w1
    unfolding cleanupClusterQueueReaderRBAC_def by (rule deleteOwnedObject_own)
  have system: "ownWrites K A sys workspace w1 (snd (cleanupSystemReaderRBAC A sys workspace w1))" for w1
    unfolding cleanupSystemReaderRBAC_def by (intro own.forEach_log deleteOwnedObject_own)
  show ?thesis
    unfolding cleanupWorkspaceAccess_def Let_def
    by (intro own.andThen_log bindings queues reader system cleanupStaleTargetRBAC_own cleanupWorkspaceClusterQueue_own
        cleanupStaleNamespaceMetadata_own) (simp add: idle)
qed

section \<open>Releasing a workspace\<close>

text \<open>
  The contract of all calls together: a write touches the object of its key only, whether it succeeds or not, the status
  of a workspace is none of these objects, and a list of a kind holds objects of that kind.
\<close>

locale object_lifecycle = object_store A for A :: "('q::linordered_ab_group_add, 'w) api" +
  assumes write_frame: "aCreate A object w = (e, w') \<or> aUpdate A object w = (e, w') \<or> aDelete A object w = (e, w') \<Longrightarrow>
      (kind, namespace, name) \<noteq> (oKind object, oNamespace object, oName object) \<Longrightarrow>
      aGet A w' kind namespace name = aGet A w kind namespace name"
    and createOrUpdate_frame: "aCreateOrUpdate A object mutate w = (e, w') \<Longrightarrow>
      (\<And>x. oKind (mutate x) = oKind x \<and> oNamespace (mutate x) = oNamespace x \<and> oName (mutate x) = oName x) \<Longrightarrow>
      (kind, namespace, name) \<noteq> (oKind object, oNamespace object, oName object) \<Longrightarrow>
      aGet A w' kind namespace name = aGet A w kind namespace name"
    and status_frame: "aUpdateWorkspaceStatus A workspace w = (e, w') \<Longrightarrow> aGet A w' kind namespace name = aGet A w kind namespace name"
    and list_kind: "aList A w kind = Inr items \<Longrightarrow> x \<in> set items \<Longrightarrow> oKind x = kind"
begin

lemma delete_other: "aDelete A object w = (e, w') \<Longrightarrow> (kind, namespace, name) \<noteq> (oKind object, oNamespace object, oName object) \<Longrightarrow>
    aGet A w' kind namespace name = aGet A w kind namespace name"
  by (rule write_frame) auto

lemma deleteOwnedObject_other:
  assumes "deleteOwnedObject A object workspace w = (None, w')" "(kind, namespace, name) \<noteq> (oKind object, oNamespace object, oName object)"
  shows "aGet A w' kind namespace name = aGet A w kind namespace name"
proof (cases "aGet A w (oKind object) (oNamespace object) (oName object)")
  case (Inr existing)
  have key: "oKind existing = oKind object" "oNamespace existing = oNamespace object" "oName existing = oName object"
    using get_key [OF Inr] by simp_all
  obtain owned w1 where o: "ensureWorkspaceObjectUID A existing workspace w = (Inr owned, w1)" and d: "deleteObjectWithPreconditions A owned w1 = (None, w')"
    using assms(1) Inr by (auto simp: deleteOwnedObject_def split: if_splits prod.splits sum.splits)
  have adopt: "owned = existing \<and> w1 = w \<or> owned = setOwnerUIDAnnotation existing (wsUID workspace) \<and> aUpdate A owned w = (None, w1)"
    using o by (auto simp: ensureWorkspaceObjectUID_def writeThen_def Let_def split: sum.splits if_splits prod.splits option.splits)
  have k: "oKind owned = oKind object" "oNamespace owned = oNamespace object" "oName owned = oName object"
    using adopt key by (auto simp: setOwnerUIDAnnotation_def)
  have "aGet A w1 kind namespace name = aGet A w kind namespace name"
    using adopt update_other [of owned w w1 kind namespace name] assms(2) k by auto
  moreover obtain e where "aDelete A owned w1 = (e, w')"
    using d by (auto simp: deleteObjectWithPreconditions_def split: prod.splits option.splits)
  ultimately show ?thesis using delete_other [of owned w1 e w' kind namespace name] assms(2) k by simp
qed (use assms(1) in \<open>auto simp: deleteOwnedObject_def\<close>)

lemma cleanupSystemReaderRBAC_other:
  assumes "cleanupSystemReaderRBAC A sys workspace w = (None, w')" "kind \<noteq> roleKind" "kind \<noteq> roleBindingKind"
  shows "aGet A w' kind namespace name = aGet A w kind namespace name"
proof -
  let ?name = "workspaceReaderRBACName (wsName workspace)"
  obtain w1 where "deleteOwnedObject A (keyOnly roleKind (systemNamespace sys) ?name) workspace w = (None, w1)"
    "deleteOwnedObject A (keyOnly roleBindingKind (systemNamespace sys) ?name) workspace w1 = (None, w')"
    using assms(1) by (auto simp: cleanupSystemReaderRBAC_def andThen_def prod_eq_iff split: option.splits)
  then show ?thesis
    using deleteOwnedObject_other [where kind = kind and namespace = namespace and name = name] assms(2,3) by (simp add: keyOnly_def)
qed

lemma cleanupStaleNamespaceMetadata_released:
  assumes "cleanupStaleNamespaceMetadata K A sys workspace target w = (None, w')"
  shows "workspaceNamespaceForMetadataCleanup A sys w' workspace target = Inr None"
    and "getQueue A w' queue = getQueue A w queue"
proof -
  obtain found where f: "drainedNamespace K A sys workspace target w = Inr found"
    using assms by (auto simp: cleanupStaleNamespaceMetadata_def withRes_def split: sum.splits)
  obtain found' where f': "workspaceNamespaceForMetadataCleanup A sys w workspace target = Inr found'"
      "found = None \<longrightarrow> found' = None" "\<And>n. found = Some n \<Longrightarrow> found' = Some n"
    using f by (auto simp: drainedNamespace_def bindE_Inr_iff split: option.splits)
  have "workspaceNamespaceForMetadataCleanup A sys w' workspace target = Inr None \<and> getQueue A w' queue = getQueue A w queue"
  proof (cases found)
    case None
    then show ?thesis using assms f f' by (simp add: cleanupStaleNamespaceMetadata_def)
  next
    case (Some n)
    let ?released = "n\<lparr>oLabels := withoutRouting (oLabels n),
      oAnnotations := gm_delete annotationOwnerUID (gm_delete annotationResultScope (oAnnotations n))\<rparr>"
    have u: "aUpdate A ?released w = (None, w')" using assms f Some by (simp add: cleanupStaleNamespaceMetadata_def)
    have n: "aGet A w namespaceKind [] target = Inr n" "wsUID workspace \<noteq> []" "reservedNamespaceReason target (systemNamespace sys) = []"
      using f' Some by (auto simp: workspaceNamespaceForMetadataCleanup_def split: if_splits sum.splits)
    then have key: "oKind n = namespaceKind" "oNamespace n = []" "oName n = target" using get_key [OF n(1)] by simp_all
    have "aGet A w' namespaceKind [] target = Inr ?released" using update_get [OF u] key by simp
    moreover have "gm_get [] (oAnnotations ?released) annotationOwnerUID = []" by simp
    moreover have "getQueue A w' queue = getQueue A w queue"
      using update_other [OF u, of clusterQueueKind "[]" queue] key by (simp add: getQueue_def clusterQueueKind_def namespaceKind_def)
    ultimately show ?thesis using n(2,3) by (auto simp: workspaceNamespaceForMetadataCleanup_def)
  qed
  then show "workspaceNamespaceForMetadataCleanup A sys w' workspace target = Inr None" "getQueue A w' queue = getQueue A w queue" by blast+
qed

lemma cleanupWorkspaceClusterQueue_gone:
  assumes "cleanupWorkspaceClusterQueue K A workspace w = (None, w')" "getQueue A w' (workspaceClusterQueueName K (wsName workspace)) = Inr queue"
  shows "\<not> ownedByWorkspace (oLabels queue) (wsName workspace)"
proof (cases "getQueue A w (workspaceClusterQueueName K (wsName workspace))")
  case (Inl err)
  then show ?thesis using assms by (auto simp: cleanupWorkspaceClusterQueue_def Let_def ignoreNotFound_def split: if_splits)
next
  case (Inr existing)
  show ?thesis
  proof (cases "ownedByWorkspace (oLabels existing) (wsName workspace)")
    case True
    obtain w1 where "deleteObjectWithPreconditions A existing w = (None, w1)"
      "(case getQueue A w1 (workspaceClusterQueueName K (wsName workspace)) of Inl err \<Rightarrow> (ignoreNotFound err, w1)
        | Inr remaining \<Rightarrow> (Some (Errorf ''waiting for ClusterQueue %q deletion to complete; finalizers=%v'' [oName remaining]), w1)) = (None, w')"
      using assms(1) Inr True
      by (auto simp: cleanupWorkspaceClusterQueue_def Let_def withRes_def andThen_def prod_eq_iff split: sum.splits if_splits option.splits)
    then show ?thesis using assms(2) by (auto split: sum.splits)
  next
    case False
    then have "w' = w"
      using assms(1) Inr by (auto simp: cleanupWorkspaceClusterQueue_def Let_def withRes_def split: sum.splits if_splits)
    then show ?thesis using assms(2) Inr False by simp
  qed
qed

lemma cleanupWorkspaceAccess_released:
  assumes "cleanupWorkspaceAccess K A sys workspace w = (None, w')"
    and "target = (if trimSpace (wsStatusResolvedNamespace workspace) = [] then resolvedNamespace workspace else trimSpace (wsStatusResolvedNamespace workspace))"
  shows "workspaceNamespaceForMetadataCleanup A sys w' workspace target = Inr None"
    and "getQueue A w' (workspaceClusterQueueName K (wsName workspace)) = Inr queue \<Longrightarrow> \<not> ownedByWorkspace (oLabels queue) (wsName workspace)"
proof -
  have andThenD: "\<exists>w2. p = (None, w2) \<and> f w2 = (None, w3)" if "andThen p f = (None, w3)" for p w3 and f :: "'w \<Rightarrow> kerr option \<times> 'w"
    using that by (cases p; cases "fst p") (auto simp: andThen_def)
  obtain w5 w6 w7 where "cleanupWorkspaceClusterQueue K A workspace w5 = (None, w6)" "cleanupSystemReaderRBAC A sys workspace w6 = (None, w7)"
    and last: "cleanupStaleNamespaceMetadata K A sys workspace target w7 = (None, w')"
    using assms by (auto simp: cleanupWorkspaceAccess_def Let_def dest!: andThenD)
  then have "getQueue A w' (workspaceClusterQueueName K (wsName workspace)) = getQueue A w6 (workspaceClusterQueueName K (wsName workspace))"
    using cleanupStaleNamespaceMetadata_released(2) [OF last] cleanupSystemReaderRBAC_other [of sys workspace w6 w7 clusterQueueKind]
    by (simp add: getQueue_def clusterQueueKind_def roleKind_def roleBindingKind_def)
  then show "\<not> ownedByWorkspace (oLabels queue) (wsName workspace)"
    if "getQueue A w' (workspaceClusterQueueName K (wsName workspace)) = Inr queue"
    using that cleanupWorkspaceClusterQueue_gone [OF \<open>cleanupWorkspaceClusterQueue K A workspace w5 = (None, w6)\<close>] by simp
  show "workspaceNamespaceForMetadataCleanup A sys w' workspace target = Inr None" by (rule cleanupStaleNamespaceMetadata_released(1) [OF last])
qed

end

lemma find_removed:
  assumes "(kind, namespace, name) \<noteq> (oKind x, oNamespace x, oName x)"
  shows "List.find (\<lambda>y. oKind y = kind \<and> oNamespace y = namespace \<and> oName y = name) (filter (\<lambda>y. \<not> sameKey y x) xs) =
    List.find (\<lambda>y. oKind y = kind \<and> oNamespace y = namespace \<and> oName y = name) xs"
  using assms by (induction xs) (auto simp: sameKey_def)

lemma store_frame:
  assumes "storeCreate x w = (e, w') \<or> storeUpdate x w = (e, w') \<or> aDelete storeApi x w = (e, w')"
    and "(kind, namespace, name) \<noteq> (oKind x, oNamespace x, oName x)"
  shows "storeGet w' kind namespace name = storeGet w kind namespace name"
  using assms find_removed [OF assms(2)] find_not_updated [OF assms(2)]
  by (auto simp: store_defs find_append split: if_splits option.splits)

interpretation store_lifecycle: object_lifecycle "storeApi :: ('q::linordered_ab_group_add, 'q store) api"
proof
  fix w w' :: "'q store" and object kind namespace name e
  assume "aCreate storeApi object w = (e, w') \<or> aUpdate storeApi object w = (e, w') \<or> aDelete storeApi object w = (e, w')"
    "(kind, namespace, name) \<noteq> (oKind object, oNamespace object, oName object)"
  then show "aGet storeApi w' kind namespace name = aGet storeApi w kind namespace name"
    using store_frame [of object w e w' kind namespace name] by (simp add: storeApi_def)
next
  fix w w' :: "'q store" and object mutate kind namespace name e
  assume u: "aCreateOrUpdate storeApi object mutate w = (e, w')"
    and m: "\<And>x. oKind (mutate x) = oKind x \<and> oNamespace (mutate x) = oNamespace x \<and> oName (mutate x) = oName x"
    and k: "(kind, namespace, name) \<noteq> (oKind object, oNamespace object, oName object)"
  have key: "oKind x = oKind object \<and> oNamespace x = oNamespace object \<and> oName x = oName object"
    if "storeGet w (oKind object) (oNamespace object) (oName object) = Inr x" for x
    using that store_server.get_key [of w "oKind object" "oNamespace object" "oName object" x] by (simp add: storeApi_def)
  have run: "storeCreateOrUpdate object mutate w = (e, w')" using u by (simp add: storeApi_def)
  have "storeGet w' kind namespace name = storeGet w kind namespace name"
  proof (cases "storeGet w (oKind object) (oNamespace object) (oName object)")
    case (Inl err)
    then have "storeCreate (mutate object) w = (e, w')" using run by (simp add: storeCreateOrUpdate_def)
    then show ?thesis using store_frame [of "mutate object" w e w' kind namespace name] k m [of object] by simp
  next
    case (Inr x)
    then have "w' = w \<or> storeUpdate (mutate x) w = (e, w')" using run by (auto simp: storeCreateOrUpdate_def split: if_splits)
    then show ?thesis using store_frame [of "mutate x" w e w' kind namespace name] k m [of x] key [OF Inr] by auto
  qed
  then show "aGet storeApi w' kind namespace name = aGet storeApi w kind namespace name" by (simp add: storeApi_def)
next
  fix w w' :: "'q store" and workspace kind namespace name e
  assume "aUpdateWorkspaceStatus storeApi workspace w = (e, w')"
  then show "aGet storeApi w' kind namespace name = aGet storeApi w kind namespace name" by (auto simp: store_defs)
next
  fix w :: "'q store" and kind items x
  assume "aList storeApi w kind = Inr items" "x \<in> set items"
  then show "oKind x = kind" by (auto simp: store_defs)
qed

text \<open>
  C5. A deleted workspace loses its finalizer only after its cleanup succeeded. Until then the cleanup wrote nothing but
  adoptions of objects that carry its labels, deletions of objects it owns and the release of its namespace; afterwards its
  ClusterQueue is gone or belongs to another, and its namespace no longer carries both its name and its UID.\<close>

theorem workspace_release_safe:
  assumes "object_lifecycle A" and "releaseWorkspace K A sys workspace w = ((Stop, None), w')"
    and "target = (if trimSpace (wsStatusResolvedNamespace workspace) = [] then resolvedNamespace workspace else trimSpace (wsStatusResolvedNamespace workspace))"
  shows "\<exists>w1. aUpdateWorkspace A (workspace\<lparr>wsFinalizers := filter (\<lambda>f. f \<noteq> workspaceFinalizer) (wsFinalizers workspace)\<rparr>) w1 = (None, w') \<and>
    ownWrites K A sys workspace w w1 \<and>
    (\<forall>queue. getQueue A w1 (workspaceClusterQueueName K (wsName workspace)) = Inr queue \<longrightarrow> \<not> ownedByWorkspace (oLabels queue) (wsName workspace)) \<and>
    (\<forall>namespace. aGet A w1 namespaceKind [] target = Inr namespace \<and> reservedNamespaceReason target (systemNamespace sys) = [] \<and> wsUID workspace \<noteq> [] \<longrightarrow>
       gm_get [] (oLabels namespace) labelWorkspace \<noteq> wsName workspace \<or> gm_get [] (oAnnotations namespace) annotationOwnerUID \<noteq> wsUID workspace)"
proof -
  obtain w1 where c: "cleanupWorkspaceAccess K A sys workspace w = (None, w1)"
    and u: "aUpdateWorkspace A (workspace\<lparr>wsFinalizers := filter (\<lambda>f. f \<noteq> workspaceFinalizer) (wsFinalizers workspace)\<rparr>) w1 = (None, w')"
    using assms(2) by (cases "cleanupWorkspaceAccess K A sys workspace w"; cases "fst (cleanupWorkspaceAccess K A sys workspace w)")
      (auto simp: releaseWorkspace_def Let_def andThen_def prod_eq_iff)
  note released = object_lifecycle.cleanupWorkspaceAccess_released [OF assms(1) c assms(3)]
  have "ownWrites K A sys workspace w w1" using cleanup_own [of K A sys workspace w] c by simp
  moreover have "gm_get [] (oLabels namespace) labelWorkspace \<noteq> wsName workspace \<or> gm_get [] (oAnnotations namespace) annotationOwnerUID \<noteq> wsUID workspace"
    if "aGet A w1 namespaceKind [] target = Inr namespace" "reservedNamespaceReason target (systemNamespace sys) = []" "wsUID workspace \<noteq> []" for namespace
    using released(1) that by (auto simp: workspaceNamespaceForMetadataCleanup_def split: if_splits)
  ultimately show ?thesis using u released(2) by blast
qed

section \<open>A concrete run\<close>

definition closingWorkspace :: "int tauWorkspace" where
  "closingWorkspace = (zeroWorkspace ''tau-system'' ''lab'' ''u1'')\<lparr>wsQueue := ''jobs'', wsDeleting := True, wsFinalizers := [workspaceFinalizer]\<rparr>"

definition closingStore :: "int store" where
  "closingStore = exampleStore\<lparr>stWorkspaces := [closingWorkspace],
     stObjects := [(newNamespace closingWorkspace ''lab'')\<lparr>oUID := ''n1''\<rparr>,
       (keyOnly clusterQueueKind [] ''tau-ws-lab'')\<lparr>oUID := ''q1'', oLabels := workspaceLabels ''lab'', oAnnotations := [(annotationOwnerUID, ''u1'')]\<rparr>]\<rparr>"

definition closedStore :: "int store" where
  "closedStore = closingStore\<lparr>stObjects := [(newNamespace closingWorkspace ''lab'')\<lparr>oUID := ''n1''\<rparr>]\<rparr>"

lemma closing_bindings: "cleanupOwnedResearcherRoleBindings storeApi closingWorkspace closingStore = (None, closingStore)" by code_simp
lemma closing_drained: "waitForNamespaceRoutingMetadataDrain refKube storeApi [] closingWorkspace ''lab'' closingStore = None" by code_simp
lemma closing_access: "cleanupStaleTargetRBAC storeApi [] closingWorkspace [] [] False closingStore = (None, closingStore)" by code_simp
lemma closing_reader: "cleanupClusterQueueReaderRBAC storeApi closingWorkspace closingStore = (None, closingStore)" by code_simp
lemma closing_queues: "cleanupStaleWorkspaceLocalQueues refKube storeApi closingWorkspace [] [] closingStore = (None, closingStore)" by code_simp
lemma closing_queue: "cleanupWorkspaceClusterQueue refKube storeApi closingWorkspace closingStore = (None, closedStore)" by code_simp
lemma closing_system: "cleanupSystemReaderRBAC storeApi [] closingWorkspace closedStore = (None, closedStore)" by code_simp
lemma closing_namespace: "fst (cleanupStaleNamespaceMetadata refKube storeApi [] closingWorkspace ''lab'' closedStore) = None" by code_simp

lemmas closing_steps = closing_bindings closing_drained closing_access closing_reader closing_queues closing_queue closing_system closing_namespace

theorem workspace_release_safe_witness:
  "fst (releaseWorkspace refKube storeApi [] closingWorkspace closingStore) = (Stop, None) \<and>
   (\<exists>w1. ownWrites refKube storeApi [] closingWorkspace closingStore w1 \<and>
      (\<forall>queue. getQueue storeApi w1 (workspaceClusterQueueName refKube ''lab'') = Inr queue \<longrightarrow> \<not> ownedByWorkspace (oLabels queue) ''lab''))"
proof -
  let ?run = "releaseWorkspace refKube storeApi [] closingWorkspace closingStore"
  have target: "trimSpace (wsStatusResolvedNamespace closingWorkspace) = []" "resolvedNamespace closingWorkspace = ''lab''" by code_simp+
  have "fst (cleanupWorkspaceAccess refKube storeApi [] closingWorkspace closingStore) = None"
    by (simp add: cleanupWorkspaceAccess_def target andThen_def closing_steps)
  then have run: "fst ?run = (Stop, None)" by (simp add: releaseWorkspace_def andThen_def Let_def store_defs)
  have name: "wsName closingWorkspace = ''lab''" by code_simp
  have "?run = ((Stop, None), snd ?run)" using run by (metis prod.collapse)
  from workspace_release_safe [OF store_lifecycle.object_lifecycle_axioms this refl] run show ?thesis
    unfolding name by blast
qed

theorem namespace_claim_safe_witness:
  "let w' = snd (reconcileNamespace refKube storeApi [] closingWorkspace ''lab'' True closingStore)
   in map (\<lambda>x. gm_get [] (oLabels x) labelKueueDefaultLocalQueue) (stObjects w') = [''jobs'', []] \<and>
      (\<exists>namespace. aGet storeApi closingStore namespaceKind [] ''lab'' = Inr namespace \<and> mayClaim storeApi closingStore closingWorkspace namespace)"
proof -
  let ?run = "reconcileNamespace refKube storeApi [] closingWorkspace ''lab'' True closingStore"
  have new: "map (\<lambda>x. gm_get [] (oLabels x) labelKueueDefaultLocalQueue) (stObjects (snd ?run)) = [''jobs'', []]" by code_simp
  have old: "map (\<lambda>x. gm_get [] (oLabels x) labelKueueDefaultLocalQueue) (stObjects closingStore) = [[], []]" by code_simp
  have ne: "snd ?run \<noteq> closingStore" using new old by auto
  have there: "\<exists>namespace. aGet storeApi closingStore namespaceKind [] ''lab'' = Inr namespace"
    by (simp add: store_defs closingStore_def newNamespace_def keyOnly_def found_def)
  from namespace_claim_safe [OF prod.collapse [symmetric] ne] there new show ?thesis unfolding Let_def by auto
qed

end
