(* ===== verification/Tau_Conditions.thy ===== *)
theory Tau_Conditions
  imports Tau_Types
begin

text \<open>
  Properties of the status conditions, of the quota-request controller and of the quota
  locks of tau-core.
\<close>

section \<open>Merging conditions\<close>

definition byTypeOf :: "kcondition list \<Rightarrow> (string, kcondition) gomap" where
  "byTypeOf cs = fold (\<lambda>c m. gm_set (cdType c) c m) cs []"

lemma keepTransitionTime_type [simp]: "cdType (keepTransitionTime m c) = cdType c"
  by (simp add: keepTransitionTime_def split: option.split)

lemma mergeSteps:
  assumes "distinct (map cdType cs)" "\<forall>c \<in> set cs. gm_lookup m (cdType c) = None" "set order \<subseteq> {t. gm_lookup m t \<noteq> None}"
  shows "map (\<lambda>t. the (gm_lookup (fst (fold (mergeStep bt) cs (m, order))) t)) (snd (fold (mergeStep bt) cs (m, order))) =
    map (\<lambda>t. the (gm_lookup m t)) order @ map (keepTransitionTime bt) cs"
  using assms
proof (induction cs arbitrary: m order)
  case (Cons c cs)
  let ?m = "gm_set (cdType c) (keepTransitionTime bt c) m"
  have step: "mergeStep bt c (m, order) = (?m, order @ [cdType c])"
    using Cons.prems(2) by (simp add: mergeStep_def)
  have "map (\<lambda>t. the (gm_lookup ?m t)) order = map (\<lambda>t. the (gm_lookup m t)) order"
    using Cons.prems(2,3) by auto
  moreover have "map (\<lambda>t. the (gm_lookup (fst (fold (mergeStep bt) cs (?m, order @ [cdType c]))) t))
      (snd (fold (mergeStep bt) cs (?m, order @ [cdType c]))) =
      map (\<lambda>t. the (gm_lookup ?m t)) (order @ [cdType c]) @ map (keepTransitionTime bt) cs"
    by (rule Cons.IH) (use Cons.prems in \<open>auto simp: image_iff\<close>)
  ultimately show ?case using step by simp
qed simp

lemma withCompatibility_distinct:
  assumes "distinct (map cdType desired)" "\<forall>t c. gm_lookup bt t = Some c \<longrightarrow> cdType c = t"
  shows "distinct (map cdType (withCompatibility bt desired))"
proof (cases "gm_lookup bt conditionV0PrimaryDiscovery")
  case None
  then show ?thesis using assms(1) by (simp add: withCompatibility_def)
next
  case (Some c)
  then have t: "cdType c = conditionV0PrimaryDiscovery" using assms(2) by blast
  show ?thesis
  proof (cases "list_ex (\<lambda>c. cdType c = conditionV0PrimaryDiscovery) desired")
    case True
    then show ?thesis using assms(1) Some by (simp add: withCompatibility_def)
  next
    case False
    then have "cdType c \<notin> cdType ` set desired" by (auto simp: list_ex_iff t)
    then show ?thesis using assms(1) Some False by (simp add: withCompatibility_def)
  qed
qed

lemma byTypeOf_mem: "gm_lookup (byTypeOf cs) t = Some c \<Longrightarrow> c \<in> set cs \<and> cdType c = t"
proof -
  have "gm_lookup (fold (\<lambda>c m. gm_set (cdType c) c m) cs m) t = Some c \<Longrightarrow>
      (c \<in> set cs \<and> cdType c = t) \<or> gm_lookup m t = Some c" for m
  proof (induction cs arbitrary: m)
    case (Cons a cs)
    from Cons.prems have "gm_lookup (fold (\<lambda>c m. gm_set (cdType c) c m) cs (gm_set (cdType a) a m)) t = Some c" by simp
    from Cons.IH [OF this] show ?case by (cases "cdType a = t") auto
  qed simp
  from this [of "[]"] show "gm_lookup (byTypeOf cs) t = Some c \<Longrightarrow> c \<in> set cs \<and> cdType c = t"
    by (simp add: byTypeOf_def)
qed

lemmas byTypeOf_type = byTypeOf_mem [THEN conjunct2]

lemma byTypeOf_lookup:
  assumes "distinct (map cdType cs)" "c \<in> set cs"
  shows "gm_lookup (byTypeOf cs) (cdType c) = Some c"
proof -
  have "byTypeOf cs = fold (\<lambda>(k, v). gm_set k v) (map (\<lambda>c. (cdType c, c)) cs) []"
    by (simp add: byTypeOf_def fold_map comp_def)
  moreover have "distinct (map fst (map (\<lambda>c. (cdType c, c)) cs))" using assms(1) by (simp add: comp_def)
  ultimately show ?thesis
    using gomap.assign_all_distinct [of "map (\<lambda>c. (cdType c, c)) cs" "cdType c" c "[]"] assms(2) by auto
qed

text \<open>With distinct types on both sides, merging is a map over the desired conditions.\<close>

lemma mergeConditions_alt:
  assumes "distinct (map cdType desired)"
  shows "mergeConditions existing desired =
    map (keepTransitionTime (byTypeOf existing)) (withCompatibility (byTypeOf existing) desired)"
proof -
  have "distinct (map cdType (withCompatibility (byTypeOf existing) desired))"
    using withCompatibility_distinct [OF assms] byTypeOf_type by blast
  from mergeSteps [OF this, of "[]" "[]" "byTypeOf existing"] show ?thesis
    by (simp add: mergeConditions_def Let_def byTypeOf_def)
qed

text \<open>Two conditions that differ at most in their transition time.\<close>

definition sameButTime :: "kcondition \<Rightarrow> kcondition \<Rightarrow> bool" where
  "sameButTime c d \<longleftrightarrow> c\<lparr>cdLastTransitionTime := 0\<rparr> = d\<lparr>cdLastTransitionTime := 0\<rparr>"

lemma sameButTime_fields:
  "sameButTime c d \<Longrightarrow> cdType c = cdType d \<and> cdStatus c = cdStatus d \<and> cdReason c = cdReason d \<and> cdMessage c = cdMessage d"
  by (cases c; cases d) (simp add: sameButTime_def)

lemma keepTransitionTime_same: "sameButTime (keepTransitionTime m c) c"
  by (simp add: sameButTime_def keepTransitionTime_def split: option.split)

lemma sameButTime_trans: "sameButTime a b \<Longrightarrow> sameButTime b c \<Longrightarrow> sameButTime a c"
  by (simp add: sameButTime_def)

lemma keepTransitionTime_absorb:
  assumes "gm_lookup m (cdType d) = Some c" "sameButTime c d"
  shows "keepTransitionTime m d = c"
  using assms sameButTime_fields [OF assms(2)]
  by (cases c; cases d) (simp add: keepTransitionTime_def sameButTime_def)

lemma withCompatibility_append:
  obtains extra where "withCompatibility bt desired = desired @ extra"
  by (cases "gm_lookup bt conditionV0PrimaryDiscovery";
      cases "list_ex (\<lambda>c. cdType c = conditionV0PrimaryDiscovery) desired") (auto simp: withCompatibility_def)

lemma mergeConditions_idem:
  assumes d: "distinct (map cdType desired)" and s: "list_all2 sameButTime desired desired'"
  shows "mergeConditions (mergeConditions existing desired) desired' = mergeConditions existing desired"
proof -
  let ?bt = "byTypeOf existing" and ?v0 = conditionV0PrimaryDiscovery
  define M where "M = mergeConditions existing desired"
  have types: "map cdType desired' = map cdType desired"
    using s by (induction rule: list_all2_induct) (auto dest: sameButTime_fields)
  have d': "distinct (map cdType desired')" by (simp add: types d)
  have M: "M = map (keepTransitionTime ?bt) (withCompatibility ?bt desired)"
    unfolding M_def by (rule mergeConditions_alt [OF d])
  have dM: "distinct (map cdType M)"
    unfolding M using withCompatibility_distinct [OF d, of ?bt] byTypeOf_type by (simp add: comp_def)
  let ?btM = "byTypeOf M"
  have v0: "list_ex (\<lambda>c. cdType c = ?v0) desired' = list_ex (\<lambda>c. cdType c = ?v0) desired"
  proof -
    have "list_ex (\<lambda>c. cdType c = ?v0) cs \<longleftrightarrow> ?v0 \<in> set (map cdType cs)" for cs
      by (induction cs) auto
    from this [of desired'] this [of desired] types show ?thesis by argo
  qed
  obtain extra where W: "withCompatibility ?bt desired = desired @ extra"
    and W': "withCompatibility ?btM desired' = desired' @ map (keepTransitionTime ?bt) extra"
  proof (cases "list_ex (\<lambda>c. cdType c = ?v0) desired")
    case True
    then show thesis using that [of "[]"] v0 by (simp add: withCompatibility_def split: option.split)
  next
    case False
    show thesis
    proof (cases "gm_lookup ?bt ?v0")
      case None
      have "gm_lookup ?btM ?v0 = None"
      proof (rule ccontr)
        assume "gm_lookup ?btM ?v0 \<noteq> None"
        then obtain c where c: "gm_lookup ?btM ?v0 = Some c" by blast
        from byTypeOf_mem [OF c] have "?v0 \<in> set (map cdType M)"
          unfolding set_map by (metis imageI)
        then show False using False None by (auto simp: M withCompatibility_def list_ex_iff)
      qed
      then show thesis using that [of "[]"] False None v0 by (simp add: withCompatibility_def)
    next
      case (Some c)
      then have "keepTransitionTime ?bt c \<in> set M" using False by (simp add: M withCompatibility_def)
      moreover have "cdType c = ?v0" by (rule byTypeOf_type [OF Some])
      ultimately have "gm_lookup ?btM ?v0 = Some (keepTransitionTime ?bt c)"
        using byTypeOf_lookup [OF dM, of "keepTransitionTime ?bt c"] by simp
      then show thesis using that [of "[c]"] False Some v0 by (simp add: withCompatibility_def)
    qed
  qed
  have "list_all2 (\<lambda>x y. keepTransitionTime ?btM y = keepTransitionTime ?bt x) (desired @ extra)
      (desired' @ map (keepTransitionTime ?bt) extra)"
  proof -
    have absorb: "keepTransitionTime ?btM y = keepTransitionTime ?bt x"
      if "x \<in> set (desired @ extra)" "sameButTime x y" for x y
    proof (rule keepTransitionTime_absorb)
      have "keepTransitionTime ?bt x \<in> set M" using that(1) by (auto simp: M W)
      then show "gm_lookup ?btM (cdType y) = Some (keepTransitionTime ?bt x)"
        using byTypeOf_lookup [OF dM, of "keepTransitionTime ?bt x"] sameButTime_fields [OF that(2)] by simp
      show "sameButTime (keepTransitionTime ?bt x) y"
        using sameButTime_trans keepTransitionTime_same that(2) by blast
    qed
    have "list_all2 (\<lambda>x y. keepTransitionTime ?btM y = keepTransitionTime ?bt x) desired desired'"
      using s absorb by (auto simp: list_all2_conv_all_nth)
    moreover have "sameButTime x (keepTransitionTime ?bt x)" for x
      using keepTransitionTime_same [of ?bt x] by (simp add: sameButTime_def)
    then have "list_all2 (\<lambda>x y. keepTransitionTime ?btM y = keepTransitionTime ?bt x) extra (map (keepTransitionTime ?bt) extra)"
      using absorb by (auto simp: list_all2_conv_all_nth)
    ultimately show ?thesis by (rule list_all2_appendI)
  qed
  then have "map (keepTransitionTime ?btM) (desired' @ map (keepTransitionTime ?bt) extra) =
      map (keepTransitionTime ?bt) (desired @ extra)"
    by (induction rule: list_all2_induct) simp_all
  then have "mergeConditions M desired' = map (keepTransitionTime ?bt) (desired @ extra)"
    using mergeConditions_alt [OF d', of M] by (simp only: W')
  also have "\<dots> = M" by (simp only: M W)
  finally show ?thesis unfolding M_def .
qed

section \<open>The phase of a workspace\<close>

text \<open>The status of the last condition of a type.\<close>

definition lastStatus :: "string \<Rightarrow> kcondition list \<Rightarrow> string" where
  "lastStatus t cs = (case List.find (\<lambda>c. cdType c = t) (rev cs) of None \<Rightarrow> ''Unknown'' | Some c \<Rightarrow> cdStatus c)"

lemma requiredStatuses_spec:
  "requiredStatuses cs [(conditionRBACReady, r), (conditionQueueReady, q)] =
    (if list_ex (\<lambda>c. cdType c = conditionDriftDetected \<and> cdStatus c = ''True'') cs then None
     else Some [(conditionRBACReady, case List.find (\<lambda>c. cdType c = conditionRBACReady) (rev cs) of None \<Rightarrow> r | Some c \<Rightarrow> cdStatus c),
                (conditionQueueReady, case List.find (\<lambda>c. cdType c = conditionQueueReady) (rev cs) of None \<Rightarrow> q | Some c \<Rightarrow> cdStatus c)])"
proof (induction cs arbitrary: r q)
  case (Cons c cs)
  have ne: "conditionRBACReady \<noteq> conditionQueueReady" by (simp add: conditionRBACReady_def conditionQueueReady_def)
  have find: "List.find P (xs @ [x]) = (case List.find P xs of None \<Rightarrow> if P x then Some x else None | Some y \<Rightarrow> Some y)" for P xs and x :: kcondition
    by (induction xs) auto
  consider "cdType c = conditionRBACReady" | "cdType c = conditionQueueReady"
    | "cdType c \<noteq> conditionRBACReady" "cdType c \<noteq> conditionQueueReady" by blast
  then show ?case
  proof cases
    case 1
    then show ?thesis using ne Cons.IH [of "cdStatus c" q]
      by (simp add: gm_lookup_def gm_set_def find split: option.split)
  next
    case 2
    then show ?thesis using ne ne [symmetric] Cons.IH [of r "cdStatus c"]
      by (simp add: gm_lookup_def gm_set_def find split: option.split)
  next
    case 3
    then show ?thesis using Cons.IH [of r q] by (simp add: gm_lookup_def find split: option.split)
  qed
qed simp

section \<open>Properties\<close>

text \<open>
  Merging freshly built conditions into the stored ones keeps the transition time of a
  condition exactly when its status, reason and message are unchanged; every other field is
  the fresh one, in the order of the fresh list.\<close>

theorem mergeConditions_transition:
  assumes "distinct (map cdType desired)" and "i < length desired"
  shows "mergeConditions existing desired ! i =
    (case gm_lookup (byTypeOf existing) (cdType (desired ! i)) of
       Some p \<Rightarrow>
         if cdStatus p = cdStatus (desired ! i) \<and> cdReason p = cdReason (desired ! i) \<and> cdMessage p = cdMessage (desired ! i)
         then (desired ! i)\<lparr>cdLastTransitionTime := cdLastTransitionTime p\<rparr> else desired ! i
     | None \<Rightarrow> desired ! i)"
proof -
  obtain extra where W: "withCompatibility (byTypeOf existing) desired = desired @ extra"
    by (rule withCompatibility_append)
  have "mergeConditions existing desired ! i = keepTransitionTime (byTypeOf existing) (desired ! i)"
    using assms(2) by (simp add: mergeConditions_alt [OF assms(1)] W nth_append)
  then show ?thesis by (simp add: keepTransitionTime_def split: option.split)
qed

theorem mergeConditions_transition_witness:
  "mergeConditions [condition 5 ''Ready'' ''True'' ''Ok'' (Msg ''fine'') 1] [condition 9 ''Ready'' ''True'' ''Ok'' (Msg ''fine'') 2] ! 0 =
     condition 5 ''Ready'' ''True'' ''Ok'' (Msg ''fine'') 2"
  using mergeConditions_transition [of "[condition 9 ''Ready'' ''True'' ''Ok'' (Msg ''fine'') 2]" 0
      "[condition 5 ''Ready'' ''True'' ''Ok'' (Msg ''fine'') 1]"]
  by (simp add: condition_def byTypeOf_def)

lemma quotaRequest_conditions:
  obtains fresh where "\<And>now. qrsConditions (quotaRequestDesired now req) = mergeConditions (qrsConditions (qrStatus req)) (fresh now)"
    and "\<And>now. distinct (map cdType (fresh now))"
    and "\<And>now now'. list_all2 sameButTime (fresh now) (fresh now')"
    and "\<And>now status. qrsConditions (quotaRequestDesired now (req\<lparr>qrStatus := status\<rparr>)) = mergeConditions (qrsConditions status) (fresh now)"
proof -
  define fresh where "fresh now =
     (if gm_get [] (qrAnnotations req) annotationRejected = ''true''
      then [condition now ''Approved'' ''False'' ''Rejected'' (Msg ''request rejected by platform'') (qrGeneration req)]
      else if gm_get [] (qrAnnotations req) annotationApproved = ''true''
      then [condition now ''Approved'' ''True'' ''Approved'' (Msg ''request approved by platform'') (qrGeneration req),
            condition now ''QuotaMutated'' ''False'' ''ReportOnly''
              (Msg ''approved in ReportOnly mode; waiting for GitOps quota update'') (qrGeneration req)]
      else [condition now ''Approved'' ''False'' ''PendingApproval'' (Msg ''waiting for platform approval'') (qrGeneration req)])"
    for now
  show thesis
    by (rule that [of fresh])
      (simp_all add: fresh_def quotaRequestDesired_def Let_def condition_def sameButTime_def)
qed

lemma quotaRequestDesired_settles:
  "quotaRequestDesired now' (req\<lparr>qrStatus := quotaRequestDesired now req\<rparr>) = quotaRequestDesired now req"
proof -
  obtain fresh where f: "\<And>now. qrsConditions (quotaRequestDesired now req) = mergeConditions (qrsConditions (qrStatus req)) (fresh now)"
    "\<And>now. distinct (map cdType (fresh now))" "\<And>now now'. list_all2 sameButTime (fresh now) (fresh now')"
    "\<And>now status. qrsConditions (quotaRequestDesired now (req\<lparr>qrStatus := status\<rparr>)) = mergeConditions (qrsConditions status) (fresh now)"
    using quotaRequest_conditions [of req] by blast
  have "qrsConditions (quotaRequestDesired now' (req\<lparr>qrStatus := quotaRequestDesired now req\<rparr>)) =
      qrsConditions (quotaRequestDesired now req)"
    by (simp add: f(1,4) mergeConditions_idem [OF f(2,3)])
  then show ?thesis by (auto simp: quotaRequestDesired_def Let_def)
qed

text \<open>
  A reconciled quota request is settled: reconciling it again, at any later time,
  writes no status, whatever the API server would answer.\<close>

theorem quotaRequest_settles:
  assumes "reconcileQuotaRequest ns now updateStatus (Inr req) = (Some req', None)"
  shows "reconcileQuotaRequest ns now' updateStatus' (Inr req') = (Some req', None)"
proof (cases "qrNamespace req = systemNamespace ns")
  case False
  then show ?thesis using assms by (simp add: reconcileQuotaRequest_def)
next
  case True
  have req': "req' = req\<lparr>qrStatus := quotaRequestDesired now req\<rparr>"
    using assms True by (auto simp: reconcileQuotaRequest_def Let_def split: if_splits option.splits)
  have "quotaRequestDesired now' req' = quotaRequestDesired now req"
    by (simp add: req' quotaRequestDesired_settles)
  then show ?thesis using True by (simp add: reconcileQuotaRequest_def Let_def req')
qed

theorem quotaRequest_settles_witness:
  "let req = \<lparr>qrNamespace = ''tau-system'', qrGeneration = 3, qrAnnotations = [(annotationApproved, ''true'')],
        qrStatus = \<lparr>qrsPhase = '''', qrsObservedGeneration = 0, qrsDecision = '''', qrsApprovedBy = '''', qrsConditions = []\<rparr>\<rparr>;
       req' = req\<lparr>qrStatus := quotaRequestDesired 10 req\<rparr>
   in qrsPhase (qrStatus req') = ''Approved'' \<and>
      reconcileQuotaRequest '''' 99 (\<lambda>_. Some (ApiFault ''conflict'')) (Inr req') = (Some req', None)"
proof -
  let ?req = "\<lparr>qrNamespace = ''tau-system'', qrGeneration = 3, qrAnnotations = [(annotationApproved, ''true'')],
        qrStatus = \<lparr>qrsPhase = '''', qrsObservedGeneration = 0, qrsDecision = '''', qrsApprovedBy = '''', qrsConditions = []\<rparr>\<rparr>"
  have phase: "qrsPhase (quotaRequestDesired 10 ?req) = ''Approved''"
    by (simp add: quotaRequestDesired_def Let_def annotationApproved_def annotationRejected_def gm_get_def gm_lookup_def)
  then have "qrStatus ?req \<noteq> quotaRequestDesired 10 ?req" by (metis quotaRequestStatus.select_convs(1) quotaRequest.select_convs(4) list.distinct(1))
  then have "reconcileQuotaRequest '''' 10 (\<lambda>_. None) (Inr ?req) = (Some (?req\<lparr>qrStatus := quotaRequestDesired 10 ?req\<rparr>), None)"
    by (simp add: reconcileQuotaRequest_def systemNamespace_def Let_def)
  from quotaRequest_settles [OF this, of 99 "\<lambda>_. Some (ApiFault ''conflict'')"] phase show ?thesis by (simp add: Let_def)
qed

text \<open>
  The phase of a workspace: degraded as soon as drift is detected or a required
  condition is false, pending while one is unknown or missing, ready otherwise.\<close>

theorem workspacePhase_spec:
  "workspacePhase cs =
    (if list_ex (\<lambda>c. cdType c = conditionDriftDetected \<and> cdStatus c = ''True'') cs \<or>
        ''False'' \<in> {lastStatus conditionRBACReady cs, lastStatus conditionQueueReady cs} then ''Degraded''
     else if ''Unknown'' \<in> {lastStatus conditionRBACReady cs, lastStatus conditionQueueReady cs} then ''Pending''
     else ''Ready'')"
  unfolding workspacePhase_def requiredStatuses_spec lastStatus_def by auto

end
