(* ===== verification/Workspace_Ready.thy ===== *)
theory Workspace_Ready
  imports Workspace_Safety Tau_Conditions
begin

text \<open>
  What Ready means for a workspace: the steps of a synchronisation after the queue was checked keep the
  route of the queue, so the state that is left still leads to the reported ClusterQueue.
\<close>

section \<open>A ready workspace\<close>







lemma orDrift_state [simp]: "snd (orDrift now workspace reason p) = snd p"
  by (cases p; cases "fst p") (auto simp: orDrift_def)






















end
