(* ===== verification/Quota_Locks.thy ===== *)
theory Quota_Locks
  imports Tau_Types
begin

text \<open>
  Concurrent reconcilers and the quota locks (\<open>quota_lock.go\<close>). Every goroutine executes
  the script of \<open>lockTeamQuota\<close>: its acquisitions, then, after the critical section, its
  releases. A step of the system lets one goroutine perform its next event: \<open>Lock\<close> blocks
  while the mutex is held, \<open>Unlock\<close> frees it.
\<close>

section \<open>The lock order\<close>

lemma lockOrder_spec:
  shows lockOrder_set: "set (lockOrder keys) = insert ''capacity-pool'' (set keys - {[]})"
    and lockOrder_sorted: "sorted_wrt (<) (lockOrder keys)"
    and lockOrder_distinct: "distinct (lockOrder keys)"
proof -
  let ?step = "\<lambda>k s. if k \<noteq> [] then gs_add k s else s"
  have set: "set (fold ?step ks s) = set s \<union> (set ks - {[]})" for ks and s :: "string list"
    by (induction ks arbitrary: s) (auto simp: gs_add_def)
  have dist: "distinct s \<Longrightarrow> distinct (fold ?step ks s)" for ks and s :: "string list"
    by (induction ks arbitrary: s) (auto simp: gs_add_def)
  show "set (lockOrder keys) = insert ''capacity-pool'' (set keys - {[]})"
    by (auto simp: lockOrder_def set)
  show d: "distinct (lockOrder keys)" using dist [of "[''capacity-pool'']" keys] by (simp add: lockOrder_def)
  show "sorted_wrt (<) (lockOrder keys)"
    using d by (simp add: strict_sorted_iff) (simp add: lockOrder_def)
qed

section \<open>The system of goroutines\<close>

type_synonym lockState = "string set \<times> lockEvent list list"

inductive lock_step :: "lockState \<Rightarrow> lockState \<Rightarrow> bool" where
  acquire: "i < length ps \<Longrightarrow> ps ! i = Acquire k # es \<Longrightarrow> k \<notin> locked \<Longrightarrow>
    lock_step (locked, ps) (insert k locked, ps[i := es])"
| release: "i < length ps \<Longrightarrow> ps ! i = Release k # es \<Longrightarrow> k \<in> locked \<Longrightarrow>
    lock_step (locked, ps) (locked - {k}, ps[i := es])"

definition lockScript :: "string list \<Rightarrow> lockEvent list" where
  "lockScript keys = fst (lockTeamQuota keys) @ snd (lockTeamQuota keys)"

inductive lock_reach :: "string list list \<Rightarrow> lockState \<Rightarrow> bool" for kss where
  start: "lock_reach kss ({}, map lockScript kss)"
| step: "lock_reach kss s \<Longrightarrow> lock_step s t \<Longrightarrow> lock_reach kss t"

inductive_cases lock_stepE: "lock_step (locked, ps) t"

section \<open>The invariant\<close>

text \<open>What a goroutine holds after \<open>n\<close> events of the script over the keys \<open>L\<close>.\<close>

definition heldAfter :: "string list \<Rightarrow> nat \<Rightarrow> string set" where
  "heldAfter L n = set (take (min n (2 * length L - n)) L)"

definition lock_inv :: "string list list \<Rightarrow> lockState \<Rightarrow> bool" where
  "lock_inv kss s \<longleftrightarrow>
     (\<exists>ns. length ns = length kss \<and> length (snd s) = length kss \<and>
        (\<forall>i < length kss. ns ! i \<le> 2 * length (lockOrder (kss ! i)) \<and> snd s ! i = drop (ns ! i) (lockScript (kss ! i))) \<and>
        fst s = (\<Union>i < length kss. heldAfter (lockOrder (kss ! i)) (ns ! i)) \<and>
        (\<forall>i < length kss. \<forall>j < length kss. i \<noteq> j \<longrightarrow>
           heldAfter (lockOrder (kss ! i)) (ns ! i) \<inter> heldAfter (lockOrder (kss ! j)) (ns ! j) = {}))"

lemma lockScript_length: "length (lockScript keys) = 2 * length (lockOrder keys)"
  by (simp add: lockScript_def lockTeamQuota_def)

lemma lockScript_nth:
  assumes "n < 2 * length (lockOrder keys)"
  shows "lockScript keys ! n =
    (if n < length (lockOrder keys) then Acquire (lockOrder keys ! n)
     else Release (lockOrder keys ! (2 * length (lockOrder keys) - Suc n)))"
  using assms
  by (auto simp: lockScript_def lockTeamQuota_def nth_append rev_nth intro!: arg_cong [where f = "(!) (lockOrder keys)"])

lemma lockScript_drop:
  assumes "drop n (lockScript keys) = e # es"
  shows "n < 2 * length (lockOrder keys)" "e = lockScript keys ! n" "es = drop (Suc n) (lockScript keys)"
proof -
  have "\<not> length (lockScript keys) \<le> n" using assms by auto
  then show n: "n < 2 * length (lockOrder keys)" by (simp add: lockScript_length)
  then have "drop n (lockScript keys) = lockScript keys ! n # drop (Suc n) (lockScript keys)"
    by (simp add: Cons_nth_drop_Suc lockScript_length)
  then show "e = lockScript keys ! n" "es = drop (Suc n) (lockScript keys)" using assms by simp_all
qed

lemma heldAfter_acquire: "n < length L \<Longrightarrow> heldAfter L (Suc n) = insert (L ! n) (heldAfter L n)"
proof -
  assume n: "n < length L"
  then have "min n (2 * length L - n) = n" "min (Suc n) (2 * length L - Suc n) = Suc n" by linarith+
  then show ?thesis using n by (simp add: heldAfter_def take_Suc_conv_app_nth)
qed

lemma heldAfter_release:
  assumes "length L \<le> n" "n < 2 * length L"
  shows "heldAfter L n = insert (L ! (2 * length L - Suc n)) (heldAfter L (Suc n))"
proof -
  have "min n (2 * length L - n) = Suc (2 * length L - Suc n)" "min (Suc n) (2 * length L - Suc n) = 2 * length L - Suc n"
    "2 * length L - Suc n < length L" using assms by linarith+
  then show ?thesis by (simp only: heldAfter_def take_Suc_conv_app_nth) simp
qed

lemma heldAfter_fresh:
  assumes "distinct L" "k < length L" "L ! k \<in> set (take k L)"
  shows False
  using assms by (auto simp: in_set_conv_nth nth_eq_iff_index_eq)

lemma heldAfter_release_gone:
  assumes "distinct L" "length L \<le> n" "n < 2 * length L"
  shows "heldAfter L (Suc n) = heldAfter L n - {L ! (2 * length L - Suc n)}"
proof -
  have "min (Suc n) (2 * length L - Suc n) = 2 * length L - Suc n" "2 * length L - Suc n < length L"
    using assms by linarith+
  then have "L ! (2 * length L - Suc n) \<notin> heldAfter L (Suc n)"
    using heldAfter_fresh [OF assms(1)] by (auto simp: heldAfter_def)
  then show ?thesis using heldAfter_release [OF assms(2,3)] by auto
qed

text \<open>One goroutine moves and what it holds changes by one key.\<close>

lemma lock_inv_move:
  assumes inv: "length ns = length kss" "length ps = length kss"
      "\<forall>i < length kss. ns ! i \<le> 2 * length (lockOrder (kss ! i)) \<and> ps ! i = drop (ns ! i) (lockScript (kss ! i))"
      "locked = (\<Union>i < length kss. heldAfter (lockOrder (kss ! i)) (ns ! i))"
      "\<forall>i < length kss. \<forall>j < length kss. i \<noteq> j \<longrightarrow>
         heldAfter (lockOrder (kss ! i)) (ns ! i) \<inter> heldAfter (lockOrder (kss ! j)) (ns ! j) = {}"
    and i: "i < length kss" "ns ! i < 2 * length (lockOrder (kss ! i))"
    and move: "heldAfter (lockOrder (kss ! i)) (Suc (ns ! i)) \<union> (locked - heldAfter (lockOrder (kss ! i)) (ns ! i)) = locked'"
    and disj: "heldAfter (lockOrder (kss ! i)) (Suc (ns ! i)) \<inter> (locked - heldAfter (lockOrder (kss ! i)) (ns ! i)) = {}"
  shows "lock_inv kss (locked', ps[i := drop (Suc (ns ! i)) (lockScript (kss ! i))])"
proof -
  let ?h = "\<lambda>n j. heldAfter (lockOrder (kss ! j)) n" and ?ns = "ns[i := Suc (ns ! i)]"
  have others: "locked - ?h (ns ! i) i = (\<Union>j \<in> {..< length kss} - {i}. ?h (ns ! j) j)"
  proof
    show "locked - ?h (ns ! i) i \<subseteq> (\<Union>j \<in> {..< length kss} - {i}. ?h (ns ! j) j)"
      unfolding inv(4) by blast
    show "(\<Union>j \<in> {..< length kss} - {i}. ?h (ns ! j) j) \<subseteq> locked - ?h (ns ! i) i"
    proof (intro UN_least Diff_mono subsetI)
      fix j x assume "j \<in> {..< length kss} - {i}" "x \<in> ?h (ns ! j) j"
      then show "x \<in> locked - ?h (ns ! i) i" using inv(4,5) i(1) by blast
    qed
  qed
  have split: "(\<Union>j < length kss. ?h (?ns ! j) j) = ?h (Suc (ns ! i)) i \<union> (\<Union>j \<in> {..< length kss} - {i}. ?h (ns ! j) j)"
  proof -
    have "?h (?ns ! i) i = ?h (Suc (ns ! i)) i" using i(1) inv(1) by simp
    moreover have "?h (?ns ! j) j = ?h (ns ! j) j" if "j \<noteq> i" for j using that by simp
    moreover have "(\<Union>j < length kss. ?h (?ns ! j) j) = ?h (?ns ! i) i \<union> (\<Union>j \<in> {..< length kss} - {i}. ?h (?ns ! j) j)"
      using i(1) by blast
    ultimately show ?thesis by simp
  qed
  have "?h (?ns ! j) j \<inter> ?h (?ns ! k) k = {}" if jk: "j < length kss" "k < length kss" "j \<noteq> k" for j k
  proof -
    have "?h (Suc (ns ! i)) i \<inter> ?h (ns ! j) j = {}" if "j < length kss" "j \<noteq> i" for j
      using disj that unfolding others by blast
    note fresh = this
    show ?thesis
    proof (cases "j = i")
      case True
      then show ?thesis using fresh [of k] jk inv(1) by simp
    next
      case j: False
      show ?thesis
      proof (cases "k = i")
        case True
        then show ?thesis using fresh [of j] jk j inv(1) by (simp add: Int_commute)
      next
        case False
        then show ?thesis using jk j inv(5) by simp
      qed
    qed
  qed
  moreover have "locked' = (\<Union>j < length kss. ?h (?ns ! j) j)" unfolding split others [symmetric] move ..
  moreover have "\<forall>j < length kss. ?ns ! j \<le> 2 * length (lockOrder (kss ! j)) \<and>
      ps[i := drop (Suc (ns ! i)) (lockScript (kss ! i))] ! j = drop (?ns ! j) (lockScript (kss ! j))"
    using inv(1-3) i by (simp add: nth_list_update)
  ultimately show ?thesis
    unfolding lock_inv_def using inv(1,2) by (intro exI [of _ ?ns]) simp
qed

lemma lock_inv_step:
  assumes "lock_inv kss s" "lock_step s t"
  shows "lock_inv kss t"
proof -
  obtain locked ps where s: "s = (locked, ps)" by (cases s)
  obtain ns where inv: "length ns = length kss" "length ps = length kss"
      "\<forall>i < length kss. ns ! i \<le> 2 * length (lockOrder (kss ! i)) \<and> ps ! i = drop (ns ! i) (lockScript (kss ! i))"
      "locked = (\<Union>i < length kss. heldAfter (lockOrder (kss ! i)) (ns ! i))"
      "\<forall>i < length kss. \<forall>j < length kss. i \<noteq> j \<longrightarrow>
         heldAfter (lockOrder (kss ! i)) (ns ! i) \<inter> heldAfter (lockOrder (kss ! j)) (ns ! j) = {}"
    using assms(1) unfolding lock_inv_def s by auto
  show ?thesis
    using assms(2) unfolding s
  proof (cases rule: lock_step.cases)
    case (acquire i k es)
    let ?L = "lockOrder (kss ! i)"
    have i: "i < length kss" using acquire inv(2) by simp
    have d: "drop (ns ! i) (lockScript (kss ! i)) = Acquire k # es" using acquire inv(3) i by simp
    note n = lockScript_drop [OF d]
    have k: "ns ! i < length ?L" "k = ?L ! (ns ! i)"
      using n(2) lockScript_nth [OF n(1)] by (auto split: if_splits)
    have "heldAfter ?L (ns ! i) \<subseteq> locked" using inv(4) i by auto
    then show ?thesis
      unfolding acquire(1) n(3)
      by (intro lock_inv_move [OF inv i n(1)]) (use acquire(4) k in \<open>auto simp: heldAfter_acquire\<close>)
  next
    case (release i k es)
    let ?L = "lockOrder (kss ! i)"
    have i: "i < length kss" using release inv(2) by simp
    have d: "drop (ns ! i) (lockScript (kss ! i)) = Release k # es" using release inv(3) i by simp
    note n = lockScript_drop [OF d]
    have k: "length ?L \<le> ns ! i" "k = ?L ! (2 * length ?L - Suc (ns ! i))"
      using n(2) lockScript_nth [OF n(1)] by (auto split: if_splits)
    have gone: "heldAfter ?L (Suc (ns ! i)) = heldAfter ?L (ns ! i) - {k}"
      using heldAfter_release_gone [OF lockOrder_distinct k(1) n(1)] k(2) by simp
    have "heldAfter ?L (ns ! i) \<subseteq> locked" using inv(4) i by auto
    moreover have "k \<in> heldAfter ?L (ns ! i)" using heldAfter_release [OF k(1) n(1)] k(2) by simp
    ultimately show ?thesis
      unfolding release(1) n(3)
      by (intro lock_inv_move [OF inv i n(1)]) (auto simp: gone)
  qed
qed

lemma lock_inv_reach: "lock_reach kss s \<Longrightarrow> lock_inv kss s"
proof (induction rule: lock_reach.induct)
  case start
  show ?case
    unfolding lock_inv_def by (intro exI [of _ "replicate (length kss) 0"]) (auto simp: heldAfter_def)
next
  case (step s t)
  then show ?case by (blast intro: lock_inv_step)
qed

section \<open>Progress\<close>

text \<open>A goroutine holds only keys below the one it waits for.\<close>

lemma heldAfter_below:
  assumes "k \<in> heldAfter (lockOrder keys) n" "n < length (lockOrder keys)"
  shows "k < lockOrder keys ! n"
proof -
  have "k \<in> set (take n (lockOrder keys))"
    using assms(1) set_take_subset_set_take [of "min n (2 * length (lockOrder keys) - n)" n "lockOrder keys"]
    by (auto simp: heldAfter_def)
  then obtain l where "l < n" "lockOrder keys ! l = k" by (auto simp: in_set_conv_nth)
  then show ?thesis using sorted_wrt_nth_less [OF lockOrder_sorted] assms(2) by metis
qed

text \<open>If nobody releases, the greatest key that is waited for is free.\<close>

lemma greatest_wanted_free:
  fixes ns :: "nat list" and kss :: "string list list"
  defines "waiting \<equiv> {i. i < length kss \<and> ns ! i < 2 * length (lockOrder (kss ! i))}"
  assumes acq: "\<forall>i \<in> waiting. ns ! i < length (lockOrder (kss ! i))" and ne: "waiting \<noteq> {}"
  obtains i where "i \<in> waiting" "lockOrder (kss ! i) ! (ns ! i) \<notin> (\<Union>i < length kss. heldAfter (lockOrder (kss ! i)) (ns ! i))"
proof -
  define wanted where "wanted = (\<lambda>i. lockOrder (kss ! i) ! (ns ! i)) ` waiting"
  have "finite waiting" by (simp add: waiting_def)
  then have fin: "finite wanted" "wanted \<noteq> {}" using ne by (auto simp: wanted_def)
  have "Max wanted \<in> (\<lambda>i. lockOrder (kss ! i) ! (ns ! i)) ` waiting" using Max_in [OF fin] by (simp add: wanted_def)
  then obtain i where i: "i \<in> waiting" "lockOrder (kss ! i) ! (ns ! i) = Max wanted" by (elim imageE) simp
  have "m \<in> waiting" if "m < length kss" "k \<in> heldAfter (lockOrder (kss ! m)) (ns ! m)" for m k
  proof (rule ccontr)
    assume "m \<notin> waiting"
    then have "2 * length (lockOrder (kss ! m)) - ns ! m = 0" using that(1) by (simp add: waiting_def)
    then show False using that(2) by (simp add: heldAfter_def)
  qed
  then have "Max wanted < Max wanted" if "m < length kss" "Max wanted \<in> heldAfter (lockOrder (kss ! m)) (ns ! m)" for m
    using that heldAfter_below [OF that(2)] acq Max_ge [OF fin(1), of "lockOrder (kss ! m) ! (ns ! m)"]
    unfolding wanted_def by (meson image_eqI order_less_le_trans)
  then show thesis using that [OF i(1)] i(2) by auto
qed

lemma lock_progress:
  assumes reach: "lock_reach kss (locked, ps)" and busy: "\<exists>p \<in> set ps. p \<noteq> []"
  shows "\<exists>t. lock_step (locked, ps) t"
proof -
  obtain ns where inv: "length ns = length kss" "length ps = length kss"
      "\<forall>i < length kss. ns ! i \<le> 2 * length (lockOrder (kss ! i)) \<and> ps ! i = drop (ns ! i) (lockScript (kss ! i))"
      "locked = (\<Union>i < length kss. heldAfter (lockOrder (kss ! i)) (ns ! i))"
    using lock_inv_reach [OF reach] unfolding lock_inv_def by auto
  let ?L = "\<lambda>i. lockOrder (kss ! i)" and ?waiting = "{i. i < length kss \<and> ns ! i < 2 * length (lockOrder (kss ! i))}"
  have next_event: "i < length ps" "ps ! i = lockScript (kss ! i) ! (ns ! i) # drop (Suc (ns ! i)) (lockScript (kss ! i))"
    if "i \<in> ?waiting" for i
    using that inv(2,3) by (simp_all add: Cons_nth_drop_Suc lockScript_length)
  obtain p where p: "p \<in> set ps" "p \<noteq> []" using busy by blast
  then obtain j where "j < length ps" "ps ! j = p" by (auto simp: in_set_conv_nth)
  with p(2) have "j < length ps" "ps ! j \<noteq> []" by simp_all
  then have "j \<in> ?waiting" using inv(2,3) lockScript_length [of "kss ! j"] by (simp add: not_less [symmetric])
  then have ne: "?waiting \<noteq> {}" by blast
  show ?thesis
  proof (cases "\<forall>i \<in> ?waiting. ns ! i < length (?L i)")
    case True
    from greatest_wanted_free [OF True ne] obtain i
      where i: "i \<in> ?waiting" "?L i ! (ns ! i) \<notin> (\<Union>i < length kss. heldAfter (?L i) (ns ! i))" .
    have "lockScript (kss ! i) ! (ns ! i) = Acquire (?L i ! (ns ! i))"
      using lockScript_nth [of "ns ! i" "kss ! i"] True i(1) by simp
    then have "lock_step (locked, ps) (insert (?L i ! (ns ! i)) locked, ps[i := drop (Suc (ns ! i)) (lockScript (kss ! i))])"
      using i(2) by (intro lock_step.acquire next_event(1) [OF i(1)]) (simp_all add: next_event(2) [OF i(1)] inv(4))
    then show ?thesis by blast
  next
    case False
    then obtain i where i: "i \<in> ?waiting" "length (?L i) \<le> ns ! i" unfolding not_less [symmetric] by blast
    let ?k = "?L i ! (2 * length (?L i) - Suc (ns ! i))"
    have n: "ns ! i < 2 * length (?L i)" using i(1) by simp
    then have "?k \<in> locked" using heldAfter_release [OF i(2) n] inv(4) i(1) by auto
    moreover have "lockScript (kss ! i) ! (ns ! i) = Release ?k" using lockScript_nth [OF n] i(2) by simp
    ultimately have "lock_step (locked, ps) (locked - {?k}, ps[i := drop (Suc (ns ! i)) (lockScript (kss ! i))])"
      by (intro lock_step.release next_event(1) [OF i(1)]) (simp_all add: next_event(2) [OF i(1)])
    then show ?thesis by blast
  qed
qed

section \<open>Properties\<close>

text \<open>
  C10. The quota locks never deadlock: in every reachable state of any set of goroutines,
  while one of them still has to acquire or release a lock, some goroutine can move.\<close>

theorem lock_no_deadlock:
  assumes "lock_reach kss (locked, ps)" and "\<exists>p \<in> set ps. p \<noteq> []"
  shows "\<exists>t. lock_step (locked, ps) t"
  using assms by (rule lock_progress)

theorem lock_no_deadlock_witness:
  "\<exists>t. lock_step ({}, map lockScript [[''a'', ''b''], [''b'', ''a'']]) t"
  by (rule lock_no_deadlock [OF lock_reach.start]) (simp add: lockScript_def lockTeamQuota_def lockOrder_def gs_add_def)

lemma lock_step_shrinks:
  assumes "lock_step s t"
  shows "sum_list (map length (snd s)) = Suc (sum_list (map length (snd t)))"
proof -
  have "sum_list (map length ps) = Suc (sum_list (map length (ps[i := es])))"
    if "i < length ps" "ps ! i = e # es" for ps i es and e :: lockEvent
  proof -
    have "sum_list (map length (take i ps @ (e # es) # drop (Suc i) ps)) = Suc (sum_list (map length (take i ps @ es # drop (Suc i) ps)))"
      by simp
    moreover have "take i ps @ (e # es) # drop (Suc i) ps = ps" using that id_take_nth_drop [of i ps] by simp
    moreover have "take i ps @ es # drop (Suc i) ps = ps[i := es]" using that(1) by (rule upd_conv_take_nth_drop [symmetric])
    ultimately show ?thesis by argo
  qed
  note len = this
  from assms show ?thesis by (cases rule: lock_step.cases) (simp_all add: len)
qed

text \<open>
  Under every schedule the goroutines finish: no run has more steps than there are lock
  events, and a run that stops has every lock released and every goroutine done.\<close>

theorem lock_runs_finish:
  assumes reach: "lock_reach kss s" and run: "(lock_step ^^ n) s t"
  shows "n \<le> sum_list (map length (snd s)) \<and> ((\<nexists>u. lock_step t u) \<longrightarrow> fst t = {} \<and> (\<forall>p \<in> set (snd t). p = []))"
proof
  show "n \<le> sum_list (map length (snd s))"
    using run
  proof (induction n arbitrary: s)
    case (Suc n)
    then obtain u where "lock_step s u" "(lock_step ^^ n) u t" by (metis relpowp_Suc_D2)
    then show ?case using Suc.IH lock_step_shrinks by fastforce
  qed simp
  have r: "lock_reach kss t" using run
  proof (induction n arbitrary: t)
    case 0
    then show ?case using reach by simp
  next
    case (Suc n)
    then show ?case by (auto intro: lock_reach.step)
  qed
  obtain locked ps where t: "t = (locked, ps)" by (cases t)
  show "(\<nexists>u. lock_step t u) \<longrightarrow> fst t = {} \<and> (\<forall>p \<in> set (snd t). p = [])"
  proof
    assume stuck: "\<nexists>u. lock_step t u"
    then have fin: "\<forall>p \<in> set ps. p = []" using lock_progress r unfolding t by blast
    obtain ns where inv: "length ps = length kss"
      "\<forall>i < length kss. ns ! i \<le> 2 * length (lockOrder (kss ! i)) \<and> ps ! i = drop (ns ! i) (lockScript (kss ! i))"
      "locked = (\<Union>i < length kss. heldAfter (lockOrder (kss ! i)) (ns ! i))"
      using lock_inv_reach [OF r] unfolding lock_inv_def t by auto
    have "heldAfter (lockOrder (kss ! i)) (ns ! i) = {}" if "i < length kss" for i
    proof -
      have "ps ! i = []" using fin that inv(1) by simp
      then have "2 * length (lockOrder (kss ! i)) \<le> ns ! i" using inv(2) that by (simp add: lockScript_length)
      then show ?thesis by (simp add: heldAfter_def)
    qed
    then show "fst t = {} \<and> (\<forall>p \<in> set (snd t). p = [])" using fin inv(3) by (simp add: t)
  qed
qed

theorem lock_runs_finish_witness:
  "(lock_step ^^ 2) ({}, map lockScript [[]]) ({}, [[]]) \<and> 2 \<le> sum_list (map length (map lockScript [[]]))"
proof -
  have script: "lockScript [] = [Acquire ''capacity-pool'', Release ''capacity-pool'']"
    by (simp add: lockScript_def lockTeamQuota_def lockOrder_def)
  have "lock_step ({}, [[Acquire ''capacity-pool'', Release ''capacity-pool'']]) ({''capacity-pool''}, [[Release ''capacity-pool'']])"
    using lock_step.acquire [of 0 "[[Acquire ''capacity-pool'', Release ''capacity-pool'']]" "''capacity-pool''" _ "{}"] by simp
  moreover have "lock_step ({''capacity-pool''}, [[Release ''capacity-pool'']]) ({}, [[]])"
    using lock_step.release [of 0 "[[Release ''capacity-pool'']]" "''capacity-pool''" _ "{''capacity-pool''}"] by simp
  ultimately have run: "(lock_step ^^ 2) ({}, map lockScript [[]]) ({}, [[]])"
    by (auto simp: script numeral_2_eq_2)
  with lock_runs_finish [OF lock_reach.start run] show ?thesis by simp
qed

text \<open>
  The critical sections of all reconcilers exclude each other: as every call includes
  the capacity-pool key, no two goroutines are past their acquisitions at once.\<close>

theorem lock_mutual_exclusion:
  assumes reach: "lock_reach kss (locked, ps)" and ij: "i < length kss" "j < length kss" "i \<noteq> j"
  shows "\<not> (ps ! i = snd (lockTeamQuota (kss ! i)) \<and> ps ! j = snd (lockTeamQuota (kss ! j)))"
proof
  assume cs: "ps ! i = snd (lockTeamQuota (kss ! i)) \<and> ps ! j = snd (lockTeamQuota (kss ! j))"
  obtain ns where inv: "\<forall>i < length kss. ns ! i \<le> 2 * length (lockOrder (kss ! i)) \<and> ps ! i = drop (ns ! i) (lockScript (kss ! i))"
      "\<forall>i < length kss. \<forall>j < length kss. i \<noteq> j \<longrightarrow>
         heldAfter (lockOrder (kss ! i)) (ns ! i) \<inter> heldAfter (lockOrder (kss ! j)) (ns ! j) = {}"
    using lock_inv_reach [OF reach] unfolding lock_inv_def by auto
  have held: "''capacity-pool'' \<in> heldAfter (lockOrder (kss ! k)) (ns ! k)"
    if "k < length kss" "ps ! k = snd (lockTeamQuota (kss ! k))" for k
  proof -
    have "length (snd (lockTeamQuota (kss ! k))) = 2 * length (lockOrder (kss ! k)) - ns ! k"
      using that inv(1) by (metis length_drop lockScript_length)
    moreover have "ns ! k \<le> 2 * length (lockOrder (kss ! k))" using inv(1) that(1) by blast
    ultimately have "ns ! k = length (lockOrder (kss ! k))" by (simp add: lockTeamQuota_def)
    then show ?thesis using lockOrder_set by (simp add: heldAfter_def)
  qed
  show False using held [of i] held [of j] cs ij inv(2) by blast
qed

theorem lock_mutual_exclusion_witness:
  "\<not> (map lockScript [[''a''], [''b'']] ! 0 = snd (lockTeamQuota [''a'']) \<and> map lockScript [[''a''], [''b'']] ! 1 = snd (lockTeamQuota [''b'']))"
  using lock_mutual_exclusion [OF lock_reach.start, of 0 "[[''a''], [''b'']]" 1] by simp

end
