(* ===== verification/Go_Text.thy ===== *)
theory Go_Text
  imports Tau_Types
begin

text \<open>
  Texts of the Go standard library: case mapping, trimming and replacing (\<open>strings\<close>), quoting
  (\<open>strconv\<close>) and formatting (\<open>fmt\<close>), and the texts of errors and messages. Strings are bytes;
  letters beyond ASCII are left alone. An error of the API server is the text it carries.
\<close>

section \<open>Strings\<close>

definition lowerChar :: "char \<Rightarrow> char" where
  "lowerChar c = (let n = of_char c :: nat in if 65 \<le> n \<and> n \<le> 90 then char_of (n + 32) else c)"

definition toLower :: "string \<Rightarrow> string" where
  "toLower = map lowerChar"

definition equalFold :: "string \<Rightarrow> string \<Rightarrow> bool" where
  "equalFold a b \<longleftrightarrow> toLower a = toLower b"

definition replaceChar :: "char \<Rightarrow> char \<Rightarrow> string \<Rightarrow> string" where
  "replaceChar old new = map (\<lambda>c. if c = old then new else c)"

definition trimChar :: "char \<Rightarrow> string \<Rightarrow> string" where
  "trimChar c s = rev (dropWhile (\<lambda>x. x = c) (rev (dropWhile (\<lambda>x. x = c) s)))"

lemma lowerChar_idem [simp]: "lowerChar (lowerChar c) = lowerChar c"
  by (auto simp: lowerChar_def Let_def)

lemma toLower_idem [simp]: "toLower (toLower s) = toLower s"
  by (simp add: toLower_def)

section \<open>Formatting\<close>

definition hexDigit :: "nat \<Rightarrow> char" where
  "hexDigit n = ''0123456789abcdef'' ! (n mod 16)"

definition quoteChar :: "char \<Rightarrow> string" where
  "quoteChar c =
     (let n = of_char c :: nat in
      if c = CHR 0x22 \<or> c = CHR 0x5C then [CHR 0x5C, c]
      else if 32 \<le> n \<and> n \<noteq> 127 then [c]
      else if 7 \<le> n \<and> n \<le> 13 then [CHR 0x5C, ''abtnvfr'' ! (n - 7)]
      else [CHR 0x5C, CHR ''x'', hexDigit (n div 16), hexDigit n])"

definition quote :: "string \<Rightarrow> string" where
  "quote s = CHR 0x22 # concat (map quoteChar s) @ [CHR 0x22]"

text \<open>Each verb consumes an argument, given by its text; \<open>%q\<close> quotes it.\<close>

fun sprintf :: "string \<Rightarrow> string list \<Rightarrow> string" where
  "sprintf (c # v # fs) (a # args) =
     (if c = CHR 0x25 then (if v = CHR ''q'' then quote a else a) @ sprintf fs args else c # sprintf (v # fs) (a # args))"
| "sprintf fs args = fs"

fun errorText :: "kerr \<Rightarrow> string" where
  "errorText (NotFound s) = s"
| "errorText (AlreadyExists s) = s"
| "errorText (NoMatch s) = s"
| "errorText (ApiFault s) = s"
| "errorText (Errorf f args) = sprintf f args"
| "errorText (Wrapped f args e) =
     (if hasPrefix f ''%w'' then errorText e @ sprintf (drop 2 f) args else sprintf f args @ '': '' @ errorText e)"
| "errorText (Joined a b) = errorText a @ [CHR 0x0A] @ errorText b"

fun messageText :: "kmessage \<Rightarrow> string" where
  "messageText (Msg s) = s"
| "messageText (MsgFmt f args) = sprintf f args"
| "messageText (MsgErr e) = errorText e"
| "messageText (MsgErrf f args e) = sprintf f (args @ [errorText e])"

end
