(* ===== verification/Cluster_Nodes.thy ===== *)
theory Cluster_Nodes
  imports Shared_Pool Go_Text
begin

text \<open>
  The labels of nodes the cluster controller maintains: those the cluster declares by rules
  (\<open>cluster_controller.go\<close>) and the topology labels it derives from what the provider says about a node
  (\<open>cluster_topology.go\<close>). Label values are ASCII.
\<close>

section \<open>Constants\<close>

definition azureVMSizeLabel :: string where "azureVMSizeLabel = ''node.kubernetes.io/instance-type''"
definition labelSite :: string where "labelSite = ''tau.azure.com/site''"
definition labelTauRegion :: string where "labelTauRegion = ''tau.azure.com/region''"
definition labelNetworkDomain :: string where "labelNetworkDomain = ''tau.azure.com/network-domain''"
definition labelAcceleratorDomain :: string where "labelAcceleratorDomain = ''tau.azure.com/accelerator-domain''"
definition labelInfiniband :: string where "labelInfiniband = ''tau.azure.com/infiniband''"
definition labelFlexSite :: string where "labelFlexSite = ''net.unbounded-cloud.io/site''"
definition labelFlexNetworkDomain :: string where "labelFlexNetworkDomain = ''net.unbounded-cloud.io/network-domain''"
definition labelFlexAcceleratorDomain :: string where "labelFlexAcceleratorDomain = ''net.unbounded-cloud.io/accelerator-domain''"
definition labelRegion :: string where "labelRegion = ''topology.kubernetes.io/region''"
definition labelHostname :: string where "labelHostname = ''kubernetes.io/hostname''"
definition labelAKSCloud :: string where "labelAKSCloud = ''aks.azure.com/cloud''"
definition labelAKSRegion :: string where "labelAKSRegion = ''aks.azure.com/region''"
definition labelAKSAgentPool :: string where "labelAKSAgentPool = ''kubernetes.azure.com/agentpool''"
definition labelAzureManaged :: string where "labelAzureManaged = ''kubernetes.azure.com/managed''"
definition labelAzureManagedCluster :: string where "labelAzureManagedCluster = ''kubernetes.azure.com/managed-cluster''"
definition labelStretchManaged :: string where "labelStretchManaged = ''aks.azure.com/stretch-managed''"
definition torchrunHostSlotResource :: string where "torchrunHostSlotResource = ''tau.azure.com/torchrun-host-slot''"

definition conditionNodesReady :: string where "conditionNodesReady = ''NodesReady''"
definition conditionOwnershipConflict :: string where "conditionOwnershipConflict = ''OwnershipConflict''"

definition nodeLabel :: "'q knode \<Rightarrow> string \<Rightarrow> string" where
  "nodeLabel node key = gm_get [] (ndLabels node) key"

section \<open>Label rules\<close>

definition isDerivedTopologyLabel :: "string \<Rightarrow> bool" where
  "isDerivedTopologyLabel key \<longleftrightarrow> key \<in> set [labelSite, labelTauRegion, labelNetworkDomain, labelAcceleratorDomain, labelInfiniband]"

definition checkMatchLabel :: "'q kube \<Rightarrow> string \<Rightarrow> nodeLabelRule \<Rightarrow> string \<times> string \<Rightarrow> unit \<Rightarrow> unit res" where
  "checkMatchLabel K i rule entry u =
     (case entry of (key, value) \<Rightarrow>
        case kIsQualifiedName K key of
          problem # _ \<Rightarrow> Inl (Errorf ''nodes.labelRules[%d].match.labels[%q]: %s'' [i, key, problem])
        | [] \<Rightarrow>
            (case kIsValidLabelValue K value of
               problem # _ \<Rightarrow> Inl (Errorf ''nodes.labelRules[%d].match.labels[%q]: %s'' [i, key, problem])
             | [] \<Rightarrow>
                 if gm_lookup (nrLabels rule) key \<noteq> None \<and> gm_get [] (nrLabels rule) key \<noteq> value
                 then Inl (Errorf ''nodes.labelRules[%d] must not change its own match label %q'' [i, key])
                 else Inr ()))"

definition checkRuleLabel :: "'q kube \<Rightarrow> string \<Rightarrow> nodeLabelRule \<Rightarrow> string \<Rightarrow> unit \<Rightarrow> unit res" where
  "checkRuleLabel K i rule key u =
     (case kIsQualifiedName K key of
        problem # _ \<Rightarrow> Inl (Errorf ''nodes.labelRules[%d].labels[%q]: %s'' [i, key, problem])
      | [] \<Rightarrow>
          if hasPrefix key ''kubernetes.io/'' \<or> hasPrefix key ''node.kubernetes.io/''
          then Inl (Errorf ''nodes.labelRules[%d].labels[%q]: reserved Kubernetes label prefixes cannot be managed by TauCluster'' [i, key])
          else if isDerivedTopologyLabel key
          then Inl (Errorf ''nodes.labelRules[%d].labels[%q]: topology label is derived by the TauCluster controller and cannot be managed by nodes.labelRules''
                      [i, key])
          else (case kIsValidLabelValue K (gm_get [] (nrLabels rule) key) of
                  problem # _ \<Rightarrow> Inl (Errorf ''nodes.labelRules[%d].labels[%q]: %s'' [i, key, problem])
                | [] \<Rightarrow> Inr ()))"

definition validateNodeLabelRule :: "'q kube \<Rightarrow> nat \<times> nodeLabelRule \<Rightarrow> unit \<Rightarrow> unit res" where
  "validateNodeLabelRule K indexed u =
     (case indexed of (n, rule) \<Rightarrow> let i = showNat n in
        bindE (foldE (checkMatchLabel K i rule) (nrMatchLabels rule) ()) (\<lambda>_.
          if nrLabels rule = [] then Inl (Errorf ''nodes.labelRules[%d].labels must not be empty'' [i])
          else foldE (checkRuleLabel K i rule) (sort (gm_keys (nrLabels rule))) ()))"

definition validateNodeLabelRules :: "'q kube \<Rightarrow> nodeLabelRule list \<Rightarrow> unit res" where
  "validateNodeLabelRules K rules = foldE (validateNodeLabelRule K) (List.enumerate 0 rules) ()"

definition vmSizeRulesOverlap :: "string list \<Rightarrow> string list \<Rightarrow> bool" where
  "vmSizeRulesOverlap left right = (if left = [] \<or> right = [] then True else list_ex (\<lambda>vmSize. vmSize \<in> set right) left)"

definition nodeMatchLabelsOverlap :: "(string, string) gomap \<Rightarrow> (string, string) gomap \<Rightarrow> bool" where
  "nodeMatchLabelsOverlap left right =
     list_all (\<lambda>(key, value). case gm_lookup right key of None \<Rightarrow> True | Some other \<Rightarrow> value = other) left"

text \<open>Two rules, by their indices.\<close>

definition checkRulePair :: "nodeLabelRule list \<Rightarrow> nat \<times> nat \<Rightarrow> unit \<Rightarrow> unit res" where
  "checkRulePair rules ij u =
     (case ij of (i, j) \<Rightarrow> let a = rules ! i; b = rules ! j in
        if \<not> vmSizeRulesOverlap (nrVMSizes a) (nrVMSizes b) \<or> \<not> nodeMatchLabelsOverlap (nrMatchLabels a) (nrMatchLabels b) then Inr ()
        else if (nrMatchLabels a = []) \<noteq> (nrMatchLabels b = []) then Inr ()
        else foldE (\<lambda>key _.
          case gm_lookup (nrLabels b) key of
            None \<Rightarrow> Inr ()
          | Some right \<Rightarrow>
              if right \<noteq> gm_get [] (nrLabels a) key
              then Inl (Errorf ''rules %d and %d assign different values for %q (%q and %q)''
                          [showNat i, showNat j, key, gm_get [] (nrLabels a) key, right])
              else Inr ()) (sort (gm_keys (nrLabels a))) ())"

definition validateNodeLabelRuleConflicts :: "nodeLabelRule list \<Rightarrow> unit res" where
  "validateNodeLabelRuleConflicts rules =
     foldE (checkRulePair rules) (concat (map (\<lambda>i. map (Pair i) [i + 1..<length rules]) [0..<length rules])) ()"

definition ruleMatches :: "'q knode \<Rightarrow> nodeLabelRule \<Rightarrow> bool" where
  "ruleMatches node rule \<longleftrightarrow>
     (nrVMSizes rule = [] \<or> nodeLabel node azureVMSizeLabel \<in> set (nrVMSizes rule)) \<and> nodeHasLabels node (nrMatchLabels rule)"

definition assignRuleLabel :: "'q knode \<Rightarrow> nat \<Rightarrow> string \<times> string \<Rightarrow> (string, string) gomap \<Rightarrow> ((string, string) gomap) res" where
  "assignRuleLabel node i entry desired =
     (case gm_lookup desired (fst entry) of
        Some previous \<Rightarrow>
          if previous \<noteq> snd entry
          then Inl (Errorf ''node %q matches rules with different values for %q (%q and %q, including rule %d)''
                      [ndName node, fst entry, previous, snd entry, showNat i])
          else Inr (gm_set (fst entry) (snd entry) desired)
      | None \<Rightarrow> Inr (gm_set (fst entry) (snd entry) desired))"

text \<open>The desired labels and whether a rule matched; an error counts as a match.\<close>

definition desiredNodeLabels :: "'q knode \<Rightarrow> nodeLabelRule list \<Rightarrow> ((string, string) gomap \<times> bool) res" where
  "desiredNodeLabels node rules =
     foldE (\<lambda>(i, rule) (desired, matched).
       if \<not> ruleMatches node rule then Inr (desired, matched)
       else bindE (foldE (assignRuleLabel node i) (nrLabels rule) desired) (\<lambda>labels. Inr (labels, True)))
       (List.enumerate 0 rules) ([], False)"

definition withLabels :: "(string, string) gomap \<Rightarrow> 'q knode \<Rightarrow> 'q knode" where
  "withLabels labels node = node\<lparr>ndLabels := fold (\<lambda>(key, value). gm_set key value) labels (ndLabels node)\<rparr>"

subsection \<open>Reconciling the declared labels\<close>

record nodeReconcileState =
  ncStatus :: sectionStatus
  ncNodes :: kcondition
  ncDrift :: kcondition
  ncOwnership :: kcondition
  ncFailed :: bool

record labelProgress =
  lpStatus :: sectionStatus
  lpConflicts :: "kerr list"
  lpError :: "kerr option"

definition countObserved :: "sectionStatus \<Rightarrow> sectionStatus" where "countObserved s = s\<lparr>seObserved := seObserved s + 1\<rparr>"
definition countReady :: "sectionStatus \<Rightarrow> sectionStatus" where "countReady s = s\<lparr>seReady := seReady s + 1\<rparr>"
definition countDrifted :: "sectionStatus \<Rightarrow> sectionStatus" where "countDrifted s = s\<lparr>seDrifted := seDrifted s + 1\<rparr>"

definition labelNode :: "('q, 'w) api \<Rightarrow> nodeLabelRule list \<Rightarrow> bool \<Rightarrow> 'q knode \<Rightarrow> labelProgress \<times> 'w \<Rightarrow> labelProgress \<times> 'w" where
  "labelNode A rules mutate node pw =
     (case pw of (p, w) \<Rightarrow>
        case desiredNodeLabels node rules of
          Inl err \<Rightarrow> (p\<lparr>lpStatus := countDrifted (countObserved (lpStatus p)), lpConflicts := lpConflicts p @ [err]\<rparr>, w)
        | Inr (desired, matched) \<Rightarrow>
            let seen = p\<lparr>lpStatus := countObserved (lpStatus p)\<rparr> in
            if \<not> matched then (p, w)
            else if nodeHasLabels node desired then (seen\<lparr>lpStatus := countReady (lpStatus seen)\<rparr>, w)
            else if \<not> mutate then (seen\<lparr>lpStatus := countDrifted (lpStatus seen)\<rparr>, w)
            else (case aPatchNode A node (withLabels desired node) w of
                    (Inl err, w') \<Rightarrow>
                      (seen\<lparr>lpStatus := countDrifted (lpStatus seen),
                            lpError := joinErrors (lpError p) (Some (Wrapped ''patch node %q topology labels'' [ndName node] err))\<rparr>, w')
                  | (Inr _, w') \<Rightarrow> (seen\<lparr>lpStatus := countReady (lpStatus seen)\<rparr>, w')))"

definition nodeState :: "gotime \<Rightarrow> int \<Rightarrow> sectionStatus \<Rightarrow> bool \<Rightarrow> string \<times> string \<times> kmessage \<Rightarrow> string \<times> string \<times> kmessage \<Rightarrow>
    string \<times> string \<times> kmessage \<Rightarrow> nodeReconcileState" where
  "nodeState now generation status failed nodes drift ownership =
     \<lparr>ncStatus = status,
      ncNodes = condition now conditionNodesReady (fst nodes) (fst (snd nodes)) (snd (snd nodes)) generation,
      ncDrift = condition now conditionDriftDetected (fst drift) (fst (snd drift)) (snd (snd drift)) generation,
      ncOwnership = condition now conditionOwnershipConflict (fst ownership) (fst (snd ownership)) (snd (snd ownership)) generation,
      ncFailed = failed\<rparr>"

definition notEvaluated :: "string \<times> string \<times> kmessage" where
  "notEvaluated = (''False'', ''NoConflictObserved'', Msg ''no node topology label conflicts were evaluated'')"

definition noLabelConflict :: "string \<times> string \<times> kmessage" where
  "noLabelConflict = (''False'', ''NoConflictObserved'', Msg ''no node topology label conflicts were found'')"

text \<open>The conflict reported is the one with the least text.\<close>

definition firstConflict :: "kerr list \<Rightarrow> kmessage" where
  "firstConflict conflicts = MsgErrf ''conflicting node label rules: %s'' [] (hd (sort_key errorText conflicts))"

definition finishNodeLabels :: "gotime \<Rightarrow> int \<Rightarrow> labelProgress \<Rightarrow> nodeReconcileState" where
  "finishNodeLabels now generation p =
     (let status = lpStatus p in
      if lpConflicts p \<noteq> []
      then let message = firstConflict (lpConflicts p) in
           nodeState now generation status True (''False'', ''ConflictingNodeLabelRules'', message) (''True'', ''NodeLabelRuleConflict'', message)
             (''True'', ''ConflictingNodeLabelRules'', message)
      else case lpError p of
             Some err \<Rightarrow>
               nodeState now generation status True (''False'', ''NodeLabelReconcileFailed'', MsgErr err) (''True'', ''NodeLabelDrift'', MsgErr err) noLabelConflict
           | None \<Rightarrow>
               if seObserved status = 0
               then nodeState now generation status False
                      (''True'', ''NoMatchingNodes'', Msg ''no nodes currently match the configured VM-size rules; no node labels need reconciliation'')
                      (''False'', ''NoNodeLabelDrift'', Msg ''no matching nodes were discovered'') noLabelConflict
               else if seDrifted status > 0
               then let message = MsgFmt ''%d of %d matching nodes need topology label reconciliation'' [showInt (seDrifted status), showInt (seObserved status)] in
                    nodeState now generation status False (''False'', ''NodeLabelDrift'', message) (''True'', ''NodeLabelDrift'', message) noLabelConflict
               else let message = MsgFmt ''%d matching nodes have the configured topology labels'' [showInt (seReady status)] in
                    nodeState now generation status False (''True'', ''NodeLabelsReady'', message) (''False'', ''NoNodeLabelDrift'', message) noLabelConflict)"

definition reconcileNodeLabels ::
  "'q kube \<Rightarrow> ('q, 'w) api \<Rightarrow> gotime \<Rightarrow> 'q tauCluster \<Rightarrow> bool \<Rightarrow> 'w \<Rightarrow> (nodeReconcileState \<times> kerr option) \<times> 'w" where
  "reconcileNodeLabels K A now cluster mutate w =
     (let rules = clLabelRules cluster; generation = clGeneration cluster; state = nodeState now generation zeroSection in
      if rules = []
      then ((state False (''True'', ''NoNodeLabelRules'', Msg ''no node topology labels are declared'')
               (''False'', ''NoNodeLabelDrift'', Msg ''no node topology labels are declared'') noLabelConflict, None), w)
      else case validateNodeLabelRules K rules of
             Inl err \<Rightarrow>
               ((state True (''False'', ''InvalidNodeLabelRules'', MsgErr err) (''Unknown'', ''InvalidNodeLabelRules'', MsgErr err) notEvaluated, None), w)
           | Inr _ \<Rightarrow>
               (case validateNodeLabelRuleConflicts rules of
                  Inl err \<Rightarrow>
                    let message = MsgErrf ''conflicting node label rules: %s'' [] err in
                    ((state True (''False'', ''ConflictingNodeLabelRules'', message) (''True'', ''NodeLabelRuleConflict'', message)
                        (''True'', ''ConflictingNodeLabelRules'', message), None), w)
                | Inr _ \<Rightarrow>
                    (case aNodes A w (clNodeSelector cluster) of
                       Inl err \<Rightarrow>
                         let message = MsgErrf ''list nodes: %v'' [] err in
                         ((state True (''False'', ''NodeDiscoveryFailed'', message) (''Unknown'', ''NodeDiscoveryFailed'', message) notEvaluated, Some err), w)
                     | Inr nodes \<Rightarrow>
                         let (p, w') = fold (labelNode A rules mutate) nodes (\<lparr>lpStatus = zeroSection, lpConflicts = [], lpError = None\<rparr>, w)
                         in ((finishNodeLabels now generation p, lpError p), w'))))"

section \<open>Topology labels\<close>

definition isolatedTopologyLabel :: "'q kube \<Rightarrow> string \<Rightarrow> string \<Rightarrow> string" where
  "isolatedTopologyLabel K prefix nodeName = prefix @ ''-'' @ kHash8 K nodeName"

definition isolatedNodeTopologyLabels :: "'q kube \<Rightarrow> 'q knode \<Rightarrow> string \<Rightarrow> (string, string) gomap" where
  "isolatedNodeTopologyLabels K node region =
     [(labelSite, isolatedTopologyLabel K ''isolated-site'' (ndName node)), (labelTauRegion, region),
      (labelNetworkDomain, isolatedTopologyLabel K ''isolated-domain'' (ndName node)),
      (labelAcceleratorDomain, isolatedTopologyLabel K ''isolated-accelerator'' (ndName node)), (labelInfiniband, ''false'')]"

definition isAzureNode :: "'q knode \<Rightarrow> bool" where
  "isAzureNode node =
     (let cloud = nodeLabel node labelAKSCloud in
      if cloud \<noteq> [] then equalFold cloud ''azure''
      else hasPrefix (toLower (ndProviderID node)) ''azure://'' \<or> nodeLabel node labelAzureManagedCluster \<noteq> [])"

definition isExternalAzureNode :: "'q knode \<Rightarrow> bool" where
  "isExternalAzureNode node \<longleftrightarrow> equalFold (nodeLabel node labelAzureManaged) ''false'' \<or> equalFold (nodeLabel node labelStretchManaged) ''true''"

definition invalidLabel :: "'q knode \<Rightarrow> string \<Rightarrow> kerr" where
  "invalidLabel node key = Errorf ''node %q has invalid %s label'' [ndName node, key]"

definition providerAcceleratorDomain :: "'q kube \<Rightarrow> 'q knode \<Rightarrow> string \<Rightarrow> string res" where
  "providerAcceleratorDomain K node fallback =
     (let source = nodeLabel node labelFlexAcceleratorDomain; cloud = toLower (nodeLabel node labelAKSCloud);
          provider = (if cloud = [] then if isAzureNode node then ''azure'' else ''external'' else cloud)
      in if source = [] then Inr fallback
         else if kIsValidLabelValue K source \<noteq> [] then Inl (invalidLabel node labelFlexAcceleratorDomain)
         else if kIsDNS1123Label K provider \<noteq> [] then Inl (invalidLabel node labelAKSCloud)
         else Inr (networkDomainLabel K (provider @ ''-accelerator'') source))"

definition topologyLabels :: "string \<Rightarrow> string \<Rightarrow> string \<Rightarrow> string \<Rightarrow> bool \<Rightarrow> (string, string) gomap" where
  "topologyLabels site region domain acceleratorDomain infiniband =
     [(labelSite, site), (labelTauRegion, region), (labelNetworkDomain, domain), (labelAcceleratorDomain, acceleratorDomain),
      (labelInfiniband, if infiniband then ''true'' else ''false'')]"

text \<open>A node whose provider names a site.\<close>

definition siteTopologyLabels ::
  "'q kube \<Rightarrow> 'q knode \<Rightarrow> string \<Rightarrow> (string, string) gomap \<Rightarrow> string \<Rightarrow> string \<Rightarrow> (string, string) gomap \<times> kerr option" where
  "siteTopologyLabels K node region baseline acceleratorDomain sourceSite =
     (let cloud = toLower (nodeLabel node labelAKSCloud); provider = (if cloud = [] then ''external'' else cloud);
          site = networkDomainLabel K (provider @ ''-site'') sourceSite; sourceDomain = nodeLabel node labelFlexNetworkDomain
      in if kIsDNS1123Label K sourceSite \<noteq> [] then (baseline, Some (invalidLabel node labelFlexSite))
         else if kIsDNS1123Label K provider \<noteq> [] then (baseline, Some (invalidLabel node labelAKSCloud))
         else if sourceDomain \<noteq> []
         then if kIsValidLabelValue K sourceDomain \<noteq> [] then (baseline, Some (invalidLabel node labelFlexNetworkDomain))
              else (topologyLabels site region (networkDomainLabel K (provider @ ''-fabric'') sourceDomain) acceleratorDomain True, None)
         else (topologyLabels site region (gm_get [] baseline labelNetworkDomain) acceleratorDomain False, None))"

definition azureTopologyLabels :: "'q kube \<Rightarrow> 'q knode \<Rightarrow> string \<Rightarrow> (string, string) gomap \<Rightarrow> string \<Rightarrow> (string, string) gomap" where
  "azureTopologyLabels K node region baseline acceleratorDomain =
     (let sku = toLower (nodeLabel node azureVMSizeLabel); agentPool = toLower (nodeLabel node labelAKSAgentPool);
          infiniband = (hasPrefix sku ''standard_nd'' \<and> agentPool \<noteq> [])
      in topologyLabels (networkDomainLabel K ''azure'' region) region
           (if infiniband then networkDomainLabel K ''azure-ib'' (region @ ''-'' @ agentPool @ ''-'' @ sku) else gm_get [] baseline labelNetworkDomain)
           acceleratorDomain infiniband)"

definition desiredNodeTopologyLabels :: "'q kube \<Rightarrow> 'q knode \<Rightarrow> (string, string) gomap \<times> kerr option" where
  "desiredNodeTopologyLabels K node =
     (let kubeRegion = nodeLabel node labelRegion;
          named = (if kubeRegion = [] then nodeLabel node labelAKSRegion else kubeRegion);
          unplaced = isolatedTopologyLabel K ''unplaced'' (ndName node);
          region = (if named = [] then unplaced else named);
          baseline = isolatedNodeTopologyLabels K node region;
          sourceSite = nodeLabel node labelFlexSite
      in if named \<noteq> [] \<and> kIsValidLabelValue K named \<noteq> []
         then (isolatedNodeTopologyLabels K node unplaced, Some (Errorf ''node %q has invalid region label'' [ndName node]))
         else case providerAcceleratorDomain K node (gm_get [] baseline labelAcceleratorDomain) of
                Inl err \<Rightarrow> (baseline, Some err)
              | Inr acceleratorDomain \<Rightarrow>
                  if sourceSite \<noteq> [] then siteTopologyLabels K node region baseline acceleratorDomain sourceSite
                  else if isAzureNode node \<and> isExternalAzureNode node
                  then (baseline, Some (Errorf ''Azure Flex node %q must set %s'' [ndName node, labelFlexSite]))
                  else if \<not> isAzureNode node then (baseline, None)
                  else (azureTopologyLabels K node region baseline acceleratorDomain, None))"

definition nodeHasGPUCapacity :: "'q::linordered_ab_group_add knode \<Rightarrow> bool" where
  "nodeHasGPUCapacity node \<longleftrightarrow> gm_get 0 (ndAllocatable node) nvidiaGPUResourceName > 0"

text \<open>\<open>resource.MustParse("1")\<close>.\<close>

definition oneQuantity :: "'q::zero kube \<Rightarrow> 'q" where
  "oneQuantity K = (case kParseQuantity K ''1'' of Inr q \<Rightarrow> q | Inl _ \<Rightarrow> 0)"

definition nodeHostSlotReady :: "'q::linordered_ab_group_add kube \<Rightarrow> 'q knode \<Rightarrow> bool \<Rightarrow> bool" where
  "nodeHostSlotReady K node desired =
     (let capacity = gm_get 0 (ndCapacity node) torchrunHostSlotResource; allocatable = gm_get 0 (ndAllocatable node) torchrunHostSlotResource in
      if desired then capacity = oneQuantity K \<and> allocatable = oneQuantity K else capacity = 0 \<and> allocatable = 0)"

definition setNodeHostSlotCapacity :: "'q::linordered_ab_group_add kube \<Rightarrow> 'q knode \<Rightarrow> bool \<Rightarrow> 'q knode" where
  "setNodeHostSlotCapacity K node desired =
     node\<lparr>ndCapacity := (if desired then gm_set torchrunHostSlotResource (oneQuantity K) (ndCapacity node)
                         else gm_delete torchrunHostSlotResource (ndCapacity node))\<rparr>"

subsection \<open>Reconciling the topology labels\<close>

record 'q nodeTopologyPlan =
  npNode :: "'q knode"
  npDesired :: "(string, string) gomap"
  npLabelsDrifted :: bool
  npHostSlotDrifted :: bool
  npInvalid :: bool

record 'q topologyProgress =
  tgStatus :: sectionStatus
  tgPlans :: "'q nodeTopologyPlan list"
  tgError :: "kerr option"

definition planNode :: "'q::linordered_ab_group_add kube \<Rightarrow> 'q knode \<Rightarrow> 'q topologyProgress \<Rightarrow> 'q topologyProgress" where
  "planNode K node p =
     (let (desired, err) = desiredNodeTopologyLabels K node;
          labelsDrifted = (\<not> nodeHasLabels node desired);
          hostSlotDrifted = (\<not> nodeHostSlotReady K node (nodeHasGPUCapacity node));
          seen = countObserved (tgStatus p);
          plan = \<lparr>npNode = node, npDesired = desired, npLabelsDrifted = labelsDrifted, npHostSlotDrifted = hostSlotDrifted, npInvalid = (err \<noteq> None)\<rparr>
      in if err \<noteq> None
         then p\<lparr>tgStatus := countDrifted seen, tgError := joinErrors (tgError p) err,
                tgPlans := (if labelsDrifted \<or> hostSlotDrifted then tgPlans p @ [plan] else tgPlans p)\<rparr>
         else if \<not> labelsDrifted \<and> \<not> hostSlotDrifted then p\<lparr>tgStatus := countReady seen\<rparr>
         else p\<lparr>tgStatus := countDrifted seen, tgPlans := tgPlans p @ [plan]\<rparr>)"

text \<open>A patch of a plan that is needed; the node afterwards, or the error.\<close>

definition applyPatch ::
  "('q knode \<Rightarrow> 'q knode \<Rightarrow> 'w \<Rightarrow> 'q knode res \<times> 'w) \<Rightarrow> string \<Rightarrow> bool \<Rightarrow> ('q knode \<Rightarrow> 'q knode) \<Rightarrow> 'q knode \<Rightarrow> 'w \<Rightarrow> 'q knode res \<times> 'w" where
  "applyPatch patch text needed change node w =
     (if \<not> needed then (Inr node, w)
      else case patch node (change node) w of
             (Inl err, w') \<Rightarrow> (Inl (Wrapped text [ndName node] err), w')
           | (Inr node', w') \<Rightarrow> (Inr node', w'))"

definition applyPlan ::
  "'q::linordered_ab_group_add kube \<Rightarrow> ('q, 'w) api \<Rightarrow> 'q nodeTopologyPlan \<Rightarrow> (sectionStatus \<times> kerr option) \<times> 'w \<Rightarrow> (sectionStatus \<times> kerr option) \<times> 'w" where
  "applyPlan K A plan acc =
     (case acc of ((status, err), w) \<Rightarrow>
        case applyPatch (aPatchNode A) ''patch node %q topology labels'' (npLabelsDrifted plan) (withLabels (npDesired plan)) (npNode plan) w of
          (Inl e, w1) \<Rightarrow> ((status, joinErrors err (Some e)), w1)
        | (Inr labelled, w1) \<Rightarrow>
            (case applyPatch (aPatchNodeStatus A) ''patch node %q torchrun host-slot capacity'' (npHostSlotDrifted plan)
                    (\<lambda>n. setNodeHostSlotCapacity K n (nodeHasGPUCapacity n)) labelled w1 of
               (Inl e, w2) \<Rightarrow> ((status, joinErrors err (Some e)), w2)
             | (Inr node, w2) \<Rightarrow>
                 if \<not> npInvalid plan \<and> nodeHasLabels node (npDesired plan) \<and> nodeHostSlotReady K node (nodeHasGPUCapacity node)
                 then ((status\<lparr>seDrifted := seDrifted status - 1, seReady := seReady status + 1\<rparr>, err), w2)
                 else ((status, err), w2)))"

text \<open>The counts, whether nodes drift, and the errors.\<close>

definition reconcileNodeTopologyLabels ::
  "'q::linordered_ab_group_add kube \<Rightarrow> ('q, 'w) api \<Rightarrow> bool \<Rightarrow> 'w \<Rightarrow> (sectionStatus \<times> bool \<times> kerr option) \<times> 'w" where
  "reconcileNodeTopologyLabels K A mutate w =
     (case aNodes A w [] of
        Inl err \<Rightarrow> ((zeroSection, False, Some (Wrapped ''list nodes for TauGrid topology'' [] err)), w)
      | Inr nodes \<Rightarrow>
          let p = fold (planNode K) (sort_key ndName nodes) \<lparr>tgStatus = zeroSection, tgPlans = [], tgError = None\<rparr>;
              ((status, err), w') = (if mutate then fold (applyPlan K A) (tgPlans p) ((tgStatus p, tgError p), w) else ((tgStatus p, tgError p), w))
          in ((status, seDrifted status > 0, err), w'))"

end
