(* ===== verification/Cluster_Flavors.thy ===== *)
theory Cluster_Flavors
  imports Cluster_Nodes
begin

text \<open>
  The Kueue objects of discovered GPUs (\<open>cluster_flavors.go\<close>, the Topology of \<open>cluster_topology.go\<close>): one
  ResourceFlavor per GPU class, and the quotas of ClusterQueues that opted into discovery. After a create the
  object is what the server stored.
\<close>

section \<open>Discovered flavors\<close>

definition managedResourceStatus :: "string \<Rightarrow> kobj \<Rightarrow> managedResource" where
  "managedResourceStatus kind object =
     \<lparr>mrAPIVersion = ''kueue.x-k8s.io/v1beta2'', mrKind = kind, mrNamespace = [], mrName = oName object, mrUID = oUID object, mrOwnership = ''Manage''\<rparr>"

definition createdObject :: "('q, 'w) api \<Rightarrow> 'w \<Rightarrow> kobj \<Rightarrow> kobj" where
  "createdObject A w object = (case aGet A w (oKind object) (oNamespace object) (oName object) of Inr stored \<Rightarrow> stored | Inl _ \<Rightarrow> object)"

definition discoveredGPUFlavorQueueNames :: "('q, 'w) api \<Rightarrow> 'w \<Rightarrow> (string list) res" where
  "discoveredGPUFlavorQueueNames A w =
     bindE (mapErr (Wrapped ''list ClusterQueues enabled for GPU flavor discovery'' []) (aList A w clusterQueueKind)) (\<lambda>queues.
       Inr (sort (map oName (filter (\<lambda>q. gm_lookup (oLabels q) labelDiscoverGPUFlavors = Some ''true'') queues))))"

definition discoverNode ::
  "'q::linordered_ab_group_add kube \<Rightarrow> 'q knode \<Rightarrow> (string, 'q) gomap \<times> (string, 'q) gomap \<Rightarrow> (string, 'q) gomap \<times> (string, 'q) gomap" where
  "discoverNode K node acc =
     (let gpuClass = trimSpace (nodeLabel node labelGPUClass); capacity = gm_get 0 (ndAllocatable node) nvidiaGPUResourceName in
      if gpuClass = [] \<or> capacity \<le> 0 then acc
      else (gm_set gpuClass (gm_get 0 (fst acc) gpuClass + capacity) (fst acc),
            if gm_get 0 (ndAllocatable node) torchrunHostSlotResource = oneQuantity K
            then gm_set gpuClass (gm_get 0 (snd acc) gpuClass + oneQuantity K) (snd acc) else snd acc))"

definition discoverGPUFlavors :: "'q::linordered_ab_group_add kube \<Rightarrow> ('q, 'w) api \<Rightarrow> 'w \<Rightarrow> ('q discoveredGPUFlavor list) res" where
  "discoverGPUFlavors K A w =
     bindE (mapErr (Wrapped ''list nodes for GPU flavor discovery'' []) (aNodes A w [])) (\<lambda>nodes.
       let (capacityByClass, hostSlotsByClass) = fold (discoverNode K) nodes ([], [])
       in Inr (map (\<lambda>gpuClass. \<lparr>dfName = discoveredGPUFlavorName K gpuClass, dfClass = gpuClass, dfCapacity = gm_get 0 capacityByClass gpuClass,
                 dfHostSlots = gm_get 0 hostSlotsByClass gpuClass, dfNodeLabels = []\<rparr>) (sort (gm_keys capacityByClass))))"

text \<open>The flavor object, whether it still drifts, and the error.\<close>

definition reconcileDiscoveredGPUFlavor ::
  "'q kube \<Rightarrow> ('q, 'w) api \<Rightarrow> 'q discoveredGPUFlavor \<Rightarrow> bool \<Rightarrow> 'w \<Rightarrow> (kobj option \<times> bool \<times> kerr option) \<times> 'w" where
  "reconcileDiscoveredGPUFlavor K A flavor mutate w =
     (case aGet A w resourceFlavorKind [] (dfName flavor) of
        Inl err \<Rightarrow>
          if isNotFound err
          then let desired = desiredDiscoveredGPUFlavor flavor in
               if \<not> mutate then ((Some desired, True, None), w)
               else (case aCreate A desired w of
                       (Some e, w') \<Rightarrow> ((None, True, Some (Wrapped ''create discovered ResourceFlavor %q'' [dfName flavor] e)), w')
                     | (None, w') \<Rightarrow> ((Some (createdObject A w' desired), False, None), w'))
          else ((None, True, Some (Wrapped ''get discovered ResourceFlavor %q'' [dfName flavor] err)), w)
      | Inr current \<Rightarrow>
          (case validateDiscoveredGPUFlavor K current flavor of
             Inl e \<Rightarrow> ((Some current, True, Some e), w)
           | Inr _ \<Rightarrow> ((Some current, False, None), w)))"

section \<open>Quotas of queues with discovery\<close>

definition gpuResourceGroupIndex :: "'q kube \<Rightarrow> json list \<Rightarrow> nat option" where
  "gpuResourceGroupIndex K groups =
     map_option fst (List.find (\<lambda>(_, raw). case asMap raw of
         None \<Rightarrow> False
       | Some grp \<Rightarrow>
           (case kNestedSlice K grp [''coveredResources''] of
              Inr (Some resources) \<Rightarrow> list_all (\<lambda>r. asString r \<noteq> None) resources \<and> list_ex (\<lambda>r. asString r = Some nvidiaGPUResourceName) resources
            | _ \<Rightarrow> False)) (List.enumerate 0 groups))"

definition entryNamed :: "string \<Rightarrow> json \<Rightarrow> bool" where
  "entryNamed name raw = (case asMap raw of None \<Rightarrow> False | Some m \<Rightarrow> gm_lookup m ''name'' = Some (JString name))"

definition quotaEntry :: "'q kube \<Rightarrow> string \<Rightarrow> 'q \<Rightarrow> json" where
  "quotaEntry K name quantity = JMap [(''name'', JString name), (''nominalQuota'', JString (kQuantityString K quantity))]"

fun ensureResourceQuota :: "'q::linorder kube \<Rightarrow> json list \<Rightarrow> string \<Rightarrow> 'q \<Rightarrow> bool \<Rightarrow> (json list \<times> bool) res" where
  "ensureResourceQuota K [] name desired growOnly = Inr ([quotaEntry K name desired], True)"
| "ensureResourceQuota K (raw # resources) name desired growOnly =
     (if \<not> entryNamed name raw
      then bindE (ensureResourceQuota K resources name desired growOnly) (\<lambda>(rest, changed). Inr (raw # rest, changed))
      else case raw of
             JMap resourceQuota \<Rightarrow>
               bindE (mapErr (Wrapped ''invalid %s nominalQuota'' [name])
                        (kParseQuantity K (sprint (gm_get JNull resourceQuota ''nominalQuota'')))) (\<lambda>current.
                 if current = desired \<or> (growOnly \<and> current > desired) then Inr (raw # resources, False)
                 else Inr (JMap (gm_set ''nominalQuota'' (JString (kQuantityString K desired)) resourceQuota) # resources, True))
           | _ \<Rightarrow> Inr (raw # resources, False))"

text \<open>A slice that is absent reads as an empty one.\<close>

definition sliceOrEmpty :: "'q kube \<Rightarrow> jobject \<Rightarrow> string \<Rightarrow> (json list) res" where
  "sliceOrEmpty K m key = bindE (kNestedSlice K m [key]) (\<lambda>found. Inr (case found of None \<Rightarrow> [] | Some xs \<Rightarrow> xs))"

definition ensureCoveredResource :: "'q kube \<Rightarrow> jobject \<Rightarrow> string \<Rightarrow> jobject \<times> bool" where
  "ensureCoveredResource K grp name =
     (let rawResources = (case sliceOrEmpty K grp ''coveredResources'' of Inr xs \<Rightarrow> xs | Inl _ \<Rightarrow> []) in
      if JString name \<in> set rawResources then (grp, False)
      else (gm_set ''coveredResources'' (JList (rawResources @ [JString name])) grp, True))"

fun ensureAllFlavorResourceQuota :: "'q::linorder kube \<Rightarrow> nat \<Rightarrow> json list \<Rightarrow> string \<Rightarrow> 'q \<Rightarrow> (json list \<times> bool) res" where
  "ensureAllFlavorResourceQuota K i [] name desired = Inr ([], False)"
| "ensureAllFlavorResourceQuota K i (raw # flavors) name desired =
     (case asMap raw of
        None \<Rightarrow> Inl (Errorf ''flavor entry %d is malformed'' [showNat i])
      | Some flavor \<Rightarrow>
          bindE (mapErr (Wrapped ''flavor %q resources are malformed'' [sprint (gm_get JNull flavor ''name'')]) (sliceOrEmpty K flavor ''resources'')) (\<lambda>resources.
          bindE (ensureResourceQuota K resources name desired True) (\<lambda>(updated, resourceChanged).
          bindE (ensureAllFlavorResourceQuota K (i + 1) flavors name desired) (\<lambda>(rest, changed).
            Inr ((if resourceChanged then JMap (gm_set ''resources'' (JList updated) flavor) else raw) # rest, resourceChanged \<or> changed)))))"

text \<open>The resources of a new flavor: those of the first flavor, with the discovered quantities.\<close>

definition copiedQuota :: "'q kube \<Rightarrow> 'q discoveredGPUFlavor \<Rightarrow> jobject \<Rightarrow> jobject" where
  "copiedQuota K discovered m =
     (if gm_lookup m ''name'' = Some (JString nvidiaGPUResourceName)
      then gm_set ''nominalQuota'' (JString (kQuantityString K (dfCapacity discovered))) m
      else if gm_lookup m ''name'' = Some (JString torchrunHostSlotResource)
      then gm_set ''nominalQuota'' (JString (kQuantityString K (dfHostSlots discovered))) m
      else m)"

definition discoveredFlavorResources :: "'q kube \<Rightarrow> json list \<Rightarrow> 'q discoveredGPUFlavor \<Rightarrow> (json list) res" where
  "discoveredFlavorResources K queueFlavors discovered =
     (case queueFlavors of
        [] \<Rightarrow> Inl (Errorf ''cannot derive non-GPU quotas without an existing base flavor'' [])
      | first # _ \<Rightarrow>
          (case asMap first of
             None \<Rightarrow> Inl (Errorf ''base flavor is malformed'' [])
           | Some base \<Rightarrow>
               bindE (sliceOrEmpty K base ''resources'') (\<lambda>resources.
                 if list_ex (\<lambda>raw. asMap raw = None) resources then Inl (Errorf ''base flavor resource quota is malformed'' [])
                 else let maps = List.map_filter asMap resources; missing = (\<lambda>name quantity. if list_ex (entryNamed name) resources then [] else [quotaEntry K name quantity])
                      in Inr (map (\<lambda>m. JMap (copiedQuota K discovered m)) maps @
                              missing nvidiaGPUResourceName (dfCapacity discovered) @ missing torchrunHostSlotResource (dfHostSlots discovered)))))"

definition replaceFirst :: "('a \<Rightarrow> bool) \<Rightarrow> 'a \<Rightarrow> 'a list \<Rightarrow> 'a list" where
  "replaceFirst P y xs = takeWhile (\<lambda>x. \<not> P x) xs @ y # tl (dropWhile (\<lambda>x. \<not> P x) xs)"

definition ensureQueueFlavorCapacity :: "'q::linorder kube \<Rightarrow> json list \<Rightarrow> 'q discoveredGPUFlavor \<Rightarrow> (json list \<times> bool) res" where
  "ensureQueueFlavorCapacity K queueFlavors discovered =
     (case List.find (entryNamed (dfName discovered)) queueFlavors of
        Some (JMap flavor) \<Rightarrow>
          bindE (sliceOrEmpty K flavor ''resources'') (\<lambda>resources.
          bindE (ensureResourceQuota K resources nvidiaGPUResourceName (dfCapacity discovered) True) (\<lambda>(gpus, changed).
          bindE (ensureResourceQuota K gpus torchrunHostSlotResource (dfHostSlots discovered) False) (\<lambda>(slots, slotChanged).
            if \<not> changed \<and> \<not> slotChanged then Inr (queueFlavors, False)
            else Inr (replaceFirst (entryNamed (dfName discovered)) (JMap (gm_set ''resources'' (JList slots) flavor)) queueFlavors, True))))
      | _ \<Rightarrow>
          bindE (discoveredFlavorResources K queueFlavors discovered) (\<lambda>resources.
            Inr (queueFlavors @ [JMap [(''name'', JString (dfName discovered)), (''resources'', JList resources)]], True)))"

text \<open>The resource groups as they have to be, and whether that is a change.\<close>

definition discoveredQueueGroups ::
  "'q::{linorder,zero} kube \<Rightarrow> string \<Rightarrow> kobj \<Rightarrow> 'q discoveredGPUFlavor list \<Rightarrow> (json list \<times> bool) res" where
  "discoveredQueueGroups K queueName queue flavors =
     (let unreadable = Errorf ''ClusterQueue %q has no readable resourceGroups'' [queueName] in
      case kNestedSlice K (oObject queue) [''spec'', ''resourceGroups''] of
        Inr (Some groups) \<Rightarrow>
          (case gpuResourceGroupIndex K groups of
             None \<Rightarrow> Inl (Errorf ''ClusterQueue %q does not cover %s'' [queueName, nvidiaGPUResourceName])
           | Some groupIndex \<Rightarrow>
               (case asMap (groups ! groupIndex) of
                  None \<Rightarrow> Inl (Errorf ''ClusterQueue %q GPU resource group is malformed'' [queueName])
                | Some grp \<Rightarrow>
                    bindE (mapErr (Wrapped ''ClusterQueue %q GPU flavors are malformed'' [queueName]) (sliceOrEmpty K grp ''flavors'')) (\<lambda>queueFlavors.
                    let (covered, added) = ensureCoveredResource K grp torchrunHostSlotResource in
                    bindE (if added then mapErr (Wrapped ''ClusterQueue %q host-slot quota'' [queueName])
                                           (ensureAllFlavorResourceQuota K 0 queueFlavors torchrunHostSlotResource 0)
                           else Inr (queueFlavors, False)) (\<lambda>(withSlots, _).
                    bindE (foldE (\<lambda>flavor (fs, changed).
                             bindE (mapErr (Wrapped ''ClusterQueue %q flavor %q'' [queueName, dfName flavor]) (ensureQueueFlavorCapacity K fs flavor))
                               (\<lambda>(fs', flavorChanged). Inr (fs', changed \<or> flavorChanged))) flavors (withSlots, added)) (\<lambda>(final, changed).
                      Inr (groups[groupIndex := JMap (gm_set ''flavors'' (JList final) covered)], changed))))))
      | _ \<Rightarrow> Inl unreadable)"

text \<open>Whether the queue still drifts, and the error.\<close>

definition reconcileLegacyDiscoveredGPUQuota ::
  "'q::{linorder,zero} kube \<Rightarrow> ('q, 'w) api \<Rightarrow> string \<Rightarrow> 'q discoveredGPUFlavor list \<Rightarrow> bool \<Rightarrow> 'w \<Rightarrow> (bool \<times> kerr option) \<times> 'w" where
  "reconcileLegacyDiscoveredGPUQuota K A queueName flavors mutate w =
     (case getQueue A w queueName of
        Inl err \<Rightarrow> ((True, Some (Wrapped ''get legacy ClusterQueue %q for GPU discovery'' [queueName] err)), w)
      | Inr queue \<Rightarrow>
          if gm_get [] (oLabels queue) labelDiscoverGPUFlavors \<noteq> ''true''
          then ((True, Some (Errorf ''refusing to update ClusterQueue %q without %s=true'' [queueName, labelDiscoverGPUFlavors])), w)
          else (case discoveredQueueGroups K queueName queue flavors of
                  Inl err \<Rightarrow> ((True, Some err), w)
                | Inr (groups, changed) \<Rightarrow>
                    if \<not> changed \<or> \<not> mutate then ((changed, None), w)
                    else (case kSetNestedField K (oObject queue) (JList groups) [''spec'', ''resourceGroups''] of
                            Inl err \<Rightarrow> ((True, Some (Wrapped ''set ClusterQueue %q discovered GPU flavors'' [queueName] err)), w)
                          | Inr object \<Rightarrow>
                              (case aUpdate A (queue\<lparr>oObject := object\<rparr>) w of
                                 (Some err, w') \<Rightarrow> ((True, Some (Wrapped ''update ClusterQueue %q discovered GPU flavors'' [queueName] err)), w')
                               | (None, w') \<Rightarrow> ((False, None), w')))))"

section \<open>All discovered objects\<close>

record 'q flavorProgress =
  fpManaged :: "managedResource list"
  fpCapacity :: "(string \<times> string \<times> 'q) list"
  fpDrifted :: bool

definition ownedResources :: "kobj option \<Rightarrow> managedResource list" where
  "ownedResources object =
     (case object of
        Some x \<Rightarrow> if gm_get [] (oLabels x) labelManagedBy = labelManagedByValue then [managedResourceStatus resourceFlavorKind x] else []
      | None \<Rightarrow> [])"

text \<open>
  The loop over the flavors: \<open>record\<close> is the capacity noted before a flavor is handled. An error ends it and
  counts as drift.
\<close>

fun flavorLoop ::
  "'q kube \<Rightarrow> ('q, 'w) api \<Rightarrow> ('q discoveredGPUFlavor \<Rightarrow> (string \<times> string \<times> 'q) list) \<Rightarrow> bool \<Rightarrow> 'q discoveredGPUFlavor list \<Rightarrow> 'q flavorProgress \<Rightarrow> 'w \<Rightarrow>
     ('q flavorProgress \<times> kerr option) \<times> 'w" where
  "flavorLoop K A note mutate [] p w = ((p, None), w)"
| "flavorLoop K A note mutate (flavor # flavors) p w =
     (let noted = p\<lparr>fpCapacity := fpCapacity p @ note flavor\<rparr> in
      case reconcileDiscoveredGPUFlavor K A flavor mutate w of
        ((object, changed, Some err), w') \<Rightarrow> ((noted\<lparr>fpDrifted := True\<rparr>, Some err), w')
      | ((object, changed, None), w') \<Rightarrow>
          flavorLoop K A note mutate flavors (noted\<lparr>fpDrifted := fpDrifted p \<or> changed, fpManaged := fpManaged p @ ownedResources object\<rparr>) w')"

fun queueLoop ::
  "'q::{linorder,zero} kube \<Rightarrow> ('q, 'w) api \<Rightarrow> 'q discoveredGPUFlavor list \<Rightarrow> bool \<Rightarrow> string list \<Rightarrow> 'q flavorProgress \<Rightarrow> 'w \<Rightarrow>
     ('q flavorProgress \<times> kerr option) \<times> 'w" where
  "queueLoop K A flavors mutate [] p w = ((p, None), w)"
| "queueLoop K A flavors mutate (name # names) p w =
     (case reconcileLegacyDiscoveredGPUQuota K A name flavors mutate w of
        ((changed, Some err), w') \<Rightarrow> ((p\<lparr>fpDrifted := True\<rparr>, Some err), w')
      | ((changed, None), w') \<Rightarrow> queueLoop K A flavors mutate names (p\<lparr>fpDrifted := fpDrifted p \<or> changed\<rparr>) w')"

definition noFlavors :: "'q flavorProgress" where
  "noFlavors = \<lparr>fpManaged = [], fpCapacity = [], fpDrifted = False\<rparr>"

text \<open>Under the capacity lock; \<open>acquired\<close> is the state once it is held.\<close>

definition reconcileDiscoveredGPUFlavors ::
  "'q::linordered_ab_group_add kube \<Rightarrow> ('q, 'w) api \<Rightarrow> (string list \<Rightarrow> 'w \<Rightarrow> 'w) \<Rightarrow> 'q tauCluster \<Rightarrow> bool \<Rightarrow> 'w \<Rightarrow>
     ('q flavorProgress \<times> kerr option) \<times> 'w" where
  "reconcileDiscoveredGPUFlavors K A acquired cluster mutate w0 =
     (let w = acquired (lockOrder []) w0 in
      if clCapacityTeamRef cluster \<noteq> None \<or> clShareTeamQuotas cluster
      then (case discoveredPoolInventory K A w cluster of
              Inl err \<Rightarrow> ((noFlavors, Some err), w)
            | Inr inventory \<Rightarrow>
                (case flavorLoop K A (\<lambda>_. []) mutate (cpFlavors inventory) noFlavors w of
                   ((p, Some err), w') \<Rightarrow> ((p, Some err), w')
                 | ((p, None), w') \<Rightarrow> ((p\<lparr>fpCapacity := map (\<lambda>q. (qFlavor q, qResource q, qNominal q)) (cpQuotas inventory)\<rparr>, None), w')))
      else (case discoveredGPUFlavorQueueNames A w of
              Inl err \<Rightarrow> ((noFlavors, Some err), w)
            | Inr queueNames \<Rightarrow>
                if queueNames = [] then ((noFlavors, None), w)
                else (case validateRetainedCapacityPools K A w [] of
                        Inl err \<Rightarrow> ((noFlavors, Some err), w)
                      | Inr _ \<Rightarrow>
                          (case discoverGPUFlavors K A w of
                             Inl err \<Rightarrow> ((noFlavors, Some err), w)
                           | Inr flavors \<Rightarrow>
                               (case flavorLoop K A (\<lambda>f. [(dfName f, nvidiaGPUResourceName, dfCapacity f)]) mutate flavors noFlavors w of
                                  ((p, Some err), w') \<Rightarrow> ((p, Some err), w')
                                | ((p, None), w') \<Rightarrow> queueLoop K A flavors mutate queueNames p w')))))"

end
