(* ===== verification/Workload_Profile.thy ===== *)
theory Workload_Profile
  imports Go_Text
begin

text \<open>
  Workload profiles (\<open>core/resourceprofile/workload.go\<close>, \<open>provider.go\<close>): normalisation and validation, the hash
  and the snapshot of a set of profiles, and the selection of a profile for a workload. The hexadecimal SHA-256
  of the JSON of the canonical profiles is the argument \<open>digest\<close>; decoding YAML is not modelled, a snapshot is
  given decoded.
\<close>

section \<open>Normalisation\<close>

definition normalizeLabel :: "string \<Rightarrow> string" where
  "normalizeLabel value = replaceChar (CHR '' '') (CHR ''-'') (replaceChar (CHR ''_'') (CHR ''-'') (toLower (trimSpace value)))"

definition normalizeName :: "string \<Rightarrow> string" where
  "normalizeName value = trimChar (CHR ''.'') (replaceChar (CHR '' '') (CHR ''-'') (replaceChar (CHR ''_'') (CHR ''-'') (toLower (trimSpace value))))"

definition normalizeList :: "(string \<Rightarrow> string) \<Rightarrow> string list \<Rightarrow> string list" where
  "normalizeList f xs = sort (map f xs)"

definition normalizeSet :: "(string \<Rightarrow> string) \<Rightarrow> string list \<Rightarrow> string list" where
  "normalizeSet f xs =
     sort (fold (\<lambda>raw out. let value = f raw in if value = [] \<or> value \<in> set out then out else out @ [value]) xs [])"

definition executionTargetSingleCluster :: string where "executionTargetSingleCluster = ''singleCluster''"
definition executionTargetMultiKueue :: string where "executionTargetMultiKueue = ''multiKueue''"

definition normalizeExecutionTarget :: "string \<Rightarrow> string" where
  "normalizeExecutionTarget target =
     (let t = toLower (trimSpace target) in
      if t = [] \<or> t = toLower executionTargetSingleCluster then executionTargetSingleCluster
      else if t = toLower executionTargetMultiKueue then executionTargetMultiKueue
      else trimSpace target)"

definition NormalizeWorkloadProfile :: "'a workloadProfile_scheme \<Rightarrow> 'a workloadProfile_scheme" where
  "NormalizeWorkloadProfile p =
     p\<lparr>wpName := normalizeName (wpName p),
       wpDescription := trimSpace (wpDescription p),
       wpApplicability := \<lparr>paTeams = normalizeList normalizeLabel (paTeams (wpApplicability p)),
         paLanes = normalizeList normalizeLabel (paLanes (wpApplicability p)),
         paNamespaces = normalizeList normalizeName (paNamespaces (wpApplicability p))\<rparr>,
       wpMode := normalizeLabel (wpMode p),
       wpPlacement := normalizeLabel (wpPlacement p),
       wpDefaultLocalQueue := normalizeName (wpDefaultLocalQueue p),
       wpExecutionTarget := normalizeExecutionTarget (wpExecutionTarget p),
       wpPriorities := (wpPriorities p)\<lparr>ppWorkload := normalizeName (ppWorkload (wpPriorities p)), ppPod := normalizeName (ppPod (wpPriorities p))\<rparr>\<rparr>"

section \<open>Validation\<close>

definition validateDNSName :: "'q kube \<Rightarrow> string \<Rightarrow> string \<Rightarrow> unit res" where
  "validateDNSName K field value =
     (if value = [] then Inl (Errorf ''%s is required'' [field])
      else let errs = kIsDNS1123Subdomain K value in
           if errs \<noteq> [] then Inl (Errorf ''%s %q is invalid: %s'' [field, value, join errs '', '']) else Inr ())"

text \<open>The values of one field of the applicability; \<open>previous\<close> is the value before.\<close>

fun checkApplicability :: "'q kube \<Rightarrow> string \<Rightarrow> string option \<Rightarrow> string list \<Rightarrow> unit res" where
  "checkApplicability K field previous [] = Inr ()"
| "checkApplicability K field previous (value # values) =
     (if value = [] then Inl (Errorf ''%s values must not be empty'' [field])
      else if previous = Some value then Inl (Errorf ''%s contains duplicate value %q'' [field, value])
      else bindE (if field = ''applicability.namespaces'' then validateDNSName K field value
                  else let errs = kIsValidLabelValue K value in
                       if errs \<noteq> [] then Inl (Errorf ''%s value %q is invalid: %s'' [field, value, join errs '', '']) else Inr ())
             (\<lambda>_. checkApplicability K field (Some value) values))"

definition modes :: "string list" where "modes = [''fixed'', ''elastic'']"

definition placements :: "string list" where
  "placements = [''unconstrained'', ''same-host'', ''same-accelerator-domain'', ''same-network-domain'', ''same-site'']"

definition validatePriorities :: "'q kube \<Rightarrow> profilePriorities \<Rightarrow> unit res" where
  "validatePriorities K priorities =
     (if ppDisable priorities
      then if ppWorkload priorities \<noteq> [] \<or> ppPod priorities \<noteq> []
           then Inl (Errorf ''disableDefaultPriorities cannot be combined with priority class names'' [])
           else Inr ()
      else if ppWorkload priorities = [] \<or> ppPod priorities = []
      then Inl (Errorf ''workload and pod priority class names are required unless disableDefaultPriorities is true'' [])
      else bindE (validateDNSName K ''priorities.workloadPriorityClassName'' (ppWorkload priorities))
             (\<lambda>_. validateDNSName K ''priorities.podPriorityClassName'' (ppPod priorities)))"

definition ValidateWorkloadProfile :: "'q kube \<Rightarrow> 'a workloadProfile_scheme \<Rightarrow> unit res" where
  "ValidateWorkloadProfile K p =
     (if p \<noteq> NormalizeWorkloadProfile p then Inl (Errorf ''workload profile must be normalized before validation'' [])
      else bindE (validateDNSName K ''name'' (wpName p)) (\<lambda>_.
           bindE (checkApplicability K ''applicability.teams'' None (paTeams (wpApplicability p))) (\<lambda>_.
           bindE (checkApplicability K ''applicability.lanes'' None (paLanes (wpApplicability p))) (\<lambda>_.
           bindE (checkApplicability K ''applicability.namespaces'' None (paNamespaces (wpApplicability p))) (\<lambda>_.
             if wpGPUsPerWorker p < 0 then Inl (Errorf ''gpusPerWorker must be non-negative, got %d'' [showInt (wpGPUsPerWorker p)])
             else if wpWorkerCount p < 1 then Inl (Errorf ''workerCount must be positive, got %d'' [showInt (wpWorkerCount p)])
             else if wpMode p \<notin> set modes then Inl (Errorf ''mode must be %q or %q, got %q'' (modes @ [wpMode p]))
             else if wpPlacement p \<notin> set placements
             then Inl (Errorf ''placement must be %q, %q, %q, %q, or %q, got %q'' (placements @ [wpPlacement p]))
             else bindE (validateDNSName K ''defaultLocalQueue'' (wpDefaultLocalQueue p)) (\<lambda>_.
               if wpExecutionTarget p \<notin> {executionTargetSingleCluster, executionTargetMultiKueue}
               then Inl (Errorf ''executionTarget must be %q or %q, got %q''
                           [executionTargetSingleCluster, executionTargetMultiKueue, wpExecutionTarget p])
               else validatePriorities K (wpPriorities p)))))))"

definition NormalizeAndValidateWorkloadProfile :: "'q kube \<Rightarrow> 'a workloadProfile_scheme \<Rightarrow> ('a workloadProfile_scheme) res" where
  "NormalizeAndValidateWorkloadProfile K p =
     (let out = NormalizeWorkloadProfile p in bindE (ValidateWorkloadProfile K out) (\<lambda>_. Inr out))"

section \<open>Resolved profiles\<close>

definition normalizeLocalQueue :: "resolvedLocalQueue \<Rightarrow> resolvedLocalQueue" where
  "normalizeLocalQueue q = \<lparr>rlNamespace = normalizeName (rlNamespace q), rlName = normalizeName (rlName q), rlClusterQueue = normalizeName (rlClusterQueue q)\<rparr>"

definition queueKey :: "resolvedLocalQueue \<Rightarrow> string" where
  "queueKey q = rlNamespace q @ CHR 0x00 # rlName q"

text \<open>Sorted by namespace, then by name.\<close>

definition normalizeLocalQueues :: "resolvedLocalQueue list \<Rightarrow> (resolvedLocalQueue list) res" where
  "normalizeLocalQueues queues =
     bindE (foldE (\<lambda>raw (out, seen).
         let item = normalizeLocalQueue raw in
         if queueKey item \<in> set seen then Inl (Errorf ''duplicate resolved LocalQueue %s/%s'' [rlNamespace item, rlName item])
         else Inr (out @ [item], queueKey item # seen)) queues ([], []))
       (\<lambda>(out, _). Inr (sort_key rlNamespace (sort_key rlName out)))"

definition validateLocalQueue :: "'q kube \<Rightarrow> resolvedLocalQueue \<Rightarrow> unit \<Rightarrow> unit res" where
  "validateLocalQueue K q u =
     bindE (validateDNSName K ''localQueues.namespace'' (rlNamespace q)) (\<lambda>_.
     bindE (validateDNSName K ''localQueues.name'' (rlName q)) (\<lambda>_.
       validateDNSName K ''localQueues.clusterQueue'' (rlClusterQueue q)))"

definition NormalizeResolvedWorkloadProfile :: "'q kube \<Rightarrow> resolvedWorkloadProfile \<Rightarrow> resolvedWorkloadProfile res" where
  "NormalizeResolvedWorkloadProfile K p =
     bindE (NormalizeAndValidateWorkloadProfile K p) (\<lambda>intent.
     bindE (normalizeLocalQueues (rpLocalQueues p)) (\<lambda>queues.
       let out = intent\<lparr>rpLocalQueues := queues,
             rpClusterQueues := normalizeSet normalizeName (rpClusterQueues p),
             rpResourceFlavors := normalizeSet normalizeName (rpResourceFlavors p),
             rpTopologies := normalizeSet normalizeName (rpTopologies p),
             rpWorkloadPriorityClasses := normalizeSet normalizeName (rpWorkloadPriorityClasses p),
             rpPodPriorityClasses := normalizeSet normalizeName (rpPodPriorityClasses p)\<rparr>
       in bindE (foldE (validateLocalQueue K) (rpLocalQueues out) ()) (\<lambda>_.
          bindE (foldE (\<lambda>(field, values) _. foldE (\<lambda>value _. validateDNSName K field value) values ())
                  [(''clusterQueues'', rpClusterQueues out), (''resourceFlavors'', rpResourceFlavors out), (''topologies'', rpTopologies out),
                   (''workloadPriorityClasses'', rpWorkloadPriorityClasses out), (''podPriorityClasses'', rpPodPriorityClasses out)] ())
            (\<lambda>_. Inr out))))"

text \<open>A loop that normalises every profile and refuses a second one of a name.\<close>

definition collectProfiles ::
  "'q kube \<Rightarrow> (resolvedWorkloadProfile \<Rightarrow> resolvedWorkloadProfile) \<Rightarrow> resolvedWorkloadProfile list \<Rightarrow> (resolvedWorkloadProfile list) res" where
  "collectProfiles K entry profiles =
     bindE (foldE (\<lambda>raw out.
         bindE (mapErr (Wrapped ''profile %q'' [wpName raw]) (NormalizeResolvedWorkloadProfile K raw)) (\<lambda>p.
           if wpName p \<in> set (map wpName out) then Inl (Errorf ''duplicate workload profile %q'' [wpName p])
           else Inr (out @ [entry p]))) profiles [])
       (\<lambda>out. Inr (sort_key wpName out))"

text \<open>What is hashed: everything but the conditions.\<close>

definition resolvedProfileHashInput :: "resolvedWorkloadProfile \<Rightarrow> resolvedWorkloadProfile" where
  "resolvedProfileHashInput p = p\<lparr>rpConditions := []\<rparr>"

definition ProfileSetHash :: "'q kube \<Rightarrow> (resolvedWorkloadProfile list \<Rightarrow> string) \<Rightarrow> resolvedWorkloadProfile list \<Rightarrow> string res" where
  "ProfileSetHash K digest profiles = bindE (collectProfiles K resolvedProfileHashInput profiles) (\<lambda>canonical. Inr (digest canonical))"

definition sortConditions :: "resolvedWorkloadProfile \<Rightarrow> resolvedWorkloadProfile" where
  "sortConditions p = p\<lparr>rpConditions := sort_key cdType (rpConditions p)\<rparr>"

definition normalizeResolvedProfiles :: "'q kube \<Rightarrow> resolvedWorkloadProfile list \<Rightarrow> (resolvedWorkloadProfile list) res" where
  "normalizeResolvedProfiles K profiles = collectProfiles K sortConditions profiles"

section \<open>Snapshots\<close>

record profileSetSnapshot =
  snAPIVersion :: string
  snKind :: string
  snGeneration :: int
  snHash :: string
  snProfiles :: "resolvedWorkloadProfile list"

definition profileSnapshotAPIVersion :: string where "profileSnapshotAPIVersion = ''tau.azure.com/v1alpha1''"
definition profileSnapshotKind :: string where "profileSnapshotKind = ''TauWorkloadProfileSnapshot''"
definition profileConditionReady :: string where "profileConditionReady = ''Ready''"

definition validateSnapshotReadiness :: "int \<Rightarrow> resolvedWorkloadProfile list \<Rightarrow> unit res" where
  "validateSnapshotReadiness generation profiles =
     foldE (\<lambda>p _.
       case findCondition (rpConditions p) profileConditionReady of
         None \<Rightarrow> Inl (Errorf ''profile %q has no Ready condition'' [wpName p])
       | Some c \<Rightarrow>
           if cdStatus c \<noteq> ''True'' \<or> cdObservedGeneration c \<noteq> generation
           then Inl (Errorf ''profile %q Ready condition is not true at TauCluster generation %d'' [wpName p, showInt generation])
           else Inr ()) profiles ()"

definition NewProfileSetSnapshot ::
  "'q kube \<Rightarrow> (resolvedWorkloadProfile list \<Rightarrow> string) \<Rightarrow> int \<Rightarrow> resolvedWorkloadProfile list \<Rightarrow> profileSetSnapshot res" where
  "NewProfileSetSnapshot K digest generation profiles =
     (if generation < 1 then Inl (Errorf ''tauClusterGeneration must be positive'' [])
      else bindE (normalizeResolvedProfiles K profiles) (\<lambda>normalized.
           bindE (validateSnapshotReadiness generation normalized) (\<lambda>_.
           bindE (ProfileSetHash K digest normalized) (\<lambda>hash.
             Inr \<lparr>snAPIVersion = profileSnapshotAPIVersion, snKind = profileSnapshotKind, snGeneration = generation, snHash = hash,
                  snProfiles = normalized\<rparr>))))"

definition DecodeProfileSetSnapshot ::
  "'q kube \<Rightarrow> (resolvedWorkloadProfile list \<Rightarrow> string) \<Rightarrow> profileSetSnapshot res \<Rightarrow> profileSetSnapshot res" where
  "DecodeProfileSetSnapshot K digest decoded =
     bindE (mapErr (Wrapped ''decode workload profile snapshot'' []) decoded) (\<lambda>snapshot.
       if snAPIVersion snapshot \<noteq> profileSnapshotAPIVersion
       then Inl (Errorf ''unsupported workload profile snapshot apiVersion %q'' [snAPIVersion snapshot])
       else if snKind snapshot \<noteq> profileSnapshotKind then Inl (Errorf ''unsupported workload profile snapshot kind %q'' [snKind snapshot])
       else if snGeneration snapshot < 1 then Inl (Errorf ''tauClusterGeneration must be positive'' [])
       else bindE (normalizeResolvedProfiles K (snProfiles snapshot)) (\<lambda>normalized.
            bindE (validateSnapshotReadiness (snGeneration snapshot) normalized) (\<lambda>_.
            bindE (ProfileSetHash K digest normalized) (\<lambda>hash.
              if snHash snapshot \<noteq> hash then Inl (Errorf ''profileSetHash mismatch: got %q, want %q'' [snHash snapshot, hash])
              else Inr (snapshot\<lparr>snProfiles := normalized\<rparr>)))))"

section \<open>Using a profile\<close>

text \<open>\<open>sort.SearchStrings\<close> finds the first value that is not less.\<close>

definition containsOrGlobal :: "string list \<Rightarrow> string \<Rightarrow> bool" where
  "containsOrGlobal values value =
     (if values = [] then True
      else let index = sortSearch (length values) (\<lambda>i. \<not> values ! i < value) in index < length values \<and> values ! index = value)"

record renderedProfile =
  rnName :: string
  rnLane :: string
  rnQueue :: string
  rnExecutionTarget :: string
  rnTeam :: string
  rnMode :: string
  rnPlacement :: string
  rnPodPriorityClass :: string
  rnWorkloadPriorityClass :: string
  rnDisableDefaultPriorities :: bool
  rnGPUCount :: int

definition RenderProfile :: "'q kube \<Rightarrow> resolvedWorkloadProfile \<Rightarrow> string \<Rightarrow> string \<Rightarrow> string \<Rightarrow> renderedProfile res" where
  "RenderProfile K p namespace0 team0 lane0 =
     bindE (NormalizeResolvedWorkloadProfile K p) (\<lambda>normalized.
       let namespace = normalizeName namespace0; team = normalizeLabel team0; lane = normalizeLabel lane0;
           applicability = wpApplicability normalized
       in if \<not> containsOrGlobal (paNamespaces applicability) namespace
          then Inl (Errorf ''profile %q does not apply to namespace %q'' [wpName normalized, namespace])
          else if \<not> containsOrGlobal (paTeams applicability) team
          then Inl (Errorf ''profile %q does not apply to team %q'' [wpName normalized, team])
          else if \<not> containsOrGlobal (paLanes applicability) lane
          then Inl (Errorf ''profile %q does not apply to lane %q'' [wpName normalized, lane])
          else Inr \<lparr>rnName = wpName normalized, rnLane = lane,
            rnQueue = (case List.find (\<lambda>q. rlNamespace q = namespace) (rpLocalQueues normalized) of
                         Some q \<Rightarrow> rlName q | None \<Rightarrow> wpDefaultLocalQueue normalized),
            rnExecutionTarget = wpExecutionTarget normalized, rnTeam = team, rnMode = wpMode normalized, rnPlacement = wpPlacement normalized,
            rnPodPriorityClass = ppPod (wpPriorities normalized), rnWorkloadPriorityClass = ppWorkload (wpPriorities normalized),
            rnDisableDefaultPriorities = ppDisable (wpPriorities normalized), rnGPUCount = wpGPUsPerWorker normalized\<rparr>)"

definition ClusterQueueFor :: "'q kube \<Rightarrow> resolvedWorkloadProfile \<Rightarrow> string \<Rightarrow> string \<Rightarrow> string res" where
  "ClusterQueueFor K p namespace0 localQueue0 =
     bindE (NormalizeResolvedWorkloadProfile K p) (\<lambda>normalized.
       let namespace = normalizeName namespace0; localQueue = normalizeName localQueue0 in
       case List.find (\<lambda>q. rlNamespace q = namespace \<and> rlName q = localQueue) (rpLocalQueues normalized) of
         Some q \<Rightarrow> Inr (rlClusterQueue q)
       | None \<Rightarrow>
           (case rpClusterQueues normalized of
              [clusterQueue] \<Rightarrow> Inr clusterQueue
            | _ \<Rightarrow> Inl (Errorf ''profile %q has no observed LocalQueue binding for %s/%s'' [wpName normalized, namespace, localQueue])))"

end
