(* ===== verification/Profile_Provider.thy ===== *)
theory Profile_Provider
  imports Workload_Profile
begin

text \<open>
  Where clients take workload profiles from (\<open>core/resourceprofile/provider.go\<close>): the status of the cluster or a
  snapshot. The answer of the dynamic client is given as the custom resource it decodes to.
\<close>

section \<open>Sets of profiles\<close>

datatype profileSource = ProfileSourceCluster | ProfileSourceSnapshot

record profileSet =
  seGeneration :: int
  seHash :: string
  seProfiles :: "resolvedWorkloadProfile list"
  seSource :: profileSource

record selectionRequest =
  sqName :: string
  sqNamespace :: string
  sqTeam :: string
  sqLane :: string
  sqGPUsPerWorker :: "int option"

record profileSelection =
  slGeneration :: int
  slHash :: string
  slProfile :: resolvedWorkloadProfile
  slSource :: profileSource

definition tauClusterName :: string where "tauClusterName = ''cluster''"
definition conditionWorkloadProfilesReady :: string where "conditionWorkloadProfilesReady = ''WorkloadProfilesReady''"

section \<open>Conditions and applicability\<close>

text \<open>The first condition of the type decides.\<close>

definition requireCondition :: "kcondition list \<Rightarrow> string \<Rightarrow> int \<Rightarrow> string \<Rightarrow> bool \<Rightarrow> unit res" where
  "requireCondition conditions conditionType generation subject requireTrue =
     (case findCondition conditions conditionType of
        None \<Rightarrow> Inl (Errorf ''%s is missing condition %s at generation %d'' [subject, conditionType, showInt generation])
      | Some c \<Rightarrow>
          if cdObservedGeneration c \<noteq> generation
          then Inl (Errorf ''%s condition %s is stale: observedGeneration %d does not match generation %d''
                      [subject, conditionType, showInt (cdObservedGeneration c), showInt generation])
          else if requireTrue \<and> cdStatus c \<noteq> ''True''
          then Inl (Errorf ''%s condition %s is %s at generation %d: %s: %s''
                      [subject, conditionType, cdStatus c, showInt generation, cdReason c, messageText (cdMessage c)])
          else Inr ())"

definition requireProfileReady :: "resolvedWorkloadProfile \<Rightarrow> int \<Rightarrow> unit res" where
  "requireProfileReady p generation =
     requireCondition (rpConditions p) profileConditionReady generation (sprintf ''workload profile %q'' [wpName p]) True"

definition authorizeProfile :: "'a workloadProfile_scheme \<Rightarrow> selectionRequest \<Rightarrow> unit res" where
  "authorizeProfile p request =
     foldE (\<lambda>(field, value, values) _.
       if containsOrGlobal values value then Inr ()
       else Inl (Errorf ''workload profile %q does not authorize %s %q; allowed %ss: %s'' [wpName p, field, value, field, join values '', '']))
       [(''namespace'', normalizeName (sqNamespace request), paNamespaces (wpApplicability p)),
        (''team'', normalizeLabel (sqTeam request), paTeams (wpApplicability p)),
        (''lane'', normalizeLabel (sqLane request), paLanes (wpApplicability p))] ()"

definition formatAvailableProfiles :: "string list \<Rightarrow> string" where
  "formatAvailableProfiles names = (if names = [] then ''(none)'' else join (sort names) '', '')"

section \<open>Selection\<close>

definition selectionOf :: "profileSet \<Rightarrow> resolvedWorkloadProfile \<Rightarrow> profileSelection" where
  "selectionOf s candidate = \<lparr>slGeneration = seGeneration s, slHash = seHash s, slProfile = candidate, slSource = seSource s\<rparr>"

definition applicableProfiles :: "profileSet \<Rightarrow> selectionRequest \<Rightarrow> resolvedWorkloadProfile list" where
  "applicableProfiles s request =
     filter (\<lambda>candidate. requireProfileReady candidate (seGeneration s) = Inr () \<and> authorizeProfile candidate request = Inr ()) (seProfiles s)"

definition gpusMatch :: "selectionRequest \<Rightarrow> resolvedWorkloadProfile \<Rightarrow> bool" where
  "gpusMatch request candidate = (case sqGPUsPerWorker request of None \<Rightarrow> True | Some gpus \<Rightarrow> wpGPUsPerWorker candidate = gpus)"

definition selectUniqueProfile :: "profileSet \<Rightarrow> selectionRequest \<Rightarrow> profileSelection res" where
  "selectUniqueProfile s request =
     (let applicable = applicableProfiles s request;
          excluded = map (\<lambda>c. sprintf ''%s (gpusPerWorker=%d)'' [wpName c, showInt (wpGPUsPerWorker c)]) (filter (\<lambda>c. \<not> gpusMatch request c) applicable);
          matches = filter (gpusMatch request) applicable;
          scope = sprintf ''namespace=%q, team=%q, lane=%q'' [normalizeName (sqNamespace request), normalizeLabel (sqTeam request), normalizeLabel (sqLane request)] @
            (case sqGPUsPerWorker request of None \<Rightarrow> [] | Some gpus \<Rightarrow> sprintf '', gpusPerWorker=%d'' [showInt gpus])
      in case matches of
           [] \<Rightarrow>
             if excluded \<noteq> []
             then Inl (Errorf ''no ready workload profile matches %s; applicable profiles with a different GPU count: %s; set policy.profile explicitly''
                         [scope, join (sort excluded) '', ''])
             else Inl (Errorf ''no ready workload profile matches %s; set policy.profile explicitly'' [scope])
         | [candidate] \<Rightarrow> Inr (selectionOf s candidate)
         | _ \<Rightarrow> Inl (Errorf ''multiple ready workload profiles match %s: %s; set policy.profile explicitly''
                       [scope, formatAvailableProfiles (map wpName matches)]))"

definition selectProfile :: "profileSet \<Rightarrow> selectionRequest \<Rightarrow> profileSelection res" where
  "selectProfile s request =
     (let name = normalizeName (sqName request) in
      if name = [] then selectUniqueProfile s request
      else case List.find (\<lambda>candidate. wpName candidate = name) (seProfiles s) of
             Some candidate \<Rightarrow>
               bindE (requireProfileReady candidate (seGeneration s)) (\<lambda>_.
               bindE (authorizeProfile candidate request) (\<lambda>_. Inr (selectionOf s candidate)))
           | None \<Rightarrow> Inl (Errorf ''workload profile %q is unavailable; available profiles: %s''
                           [name, formatAvailableProfiles (map wpName (seProfiles s))]))"

section \<open>Providers\<close>

definition decodeTauClusterProfileSet :: "'q kube \<Rightarrow> (resolvedWorkloadProfile list \<Rightarrow> string) \<Rightarrow> 'q tauCluster \<Rightarrow> profileSet res" where
  "decodeTauClusterProfileSet K digest cluster =
     (let generation = clGeneration cluster; status = clWorkloadProfiles cluster in
      if clName cluster \<noteq> tauClusterName then Inl (Errorf ''TauCluster must be named %q, got %q'' [tauClusterName, clName cluster])
      else if psObservedGeneration status \<noteq> generation
      then Inl (Errorf ''TauCluster %q workload profiles are stale: observedGeneration %d does not match metadata.generation %d''
                  [tauClusterName, showInt (psObservedGeneration status), showInt generation])
      else bindE (requireCondition (clConditions cluster) conditionWorkloadProfilesReady generation
                    (sprintf ''TauCluster %q workload profile set'' [tauClusterName]) False) (\<lambda>_.
           if trimSpace (psHash status) = []
           then Inl (Errorf ''TauCluster %q workload profile set has an empty profileSetHash'' [tauClusterName])
           else bindE (mapErr (Wrapped ''decode TauCluster %q workload profiles'' [tauClusterName]) (normalizeResolvedProfiles K (psProfiles status))) (\<lambda>profiles.
                bindE (mapErr (Wrapped ''hash TauCluster %q workload profiles'' [tauClusterName]) (ProfileSetHash K digest profiles)) (\<lambda>hash.
                  if hash \<noteq> psHash status
                  then Inl (Errorf ''TauCluster %q workload profileSetHash mismatch: status has %q, calculated %q'' [tauClusterName, psHash status, hash])
                  else Inr \<lparr>seGeneration = generation, seHash = hash, seProfiles = profiles, seSource = ProfileSourceCluster\<rparr>))))"

definition profileSetFromSnapshot :: "'q kube \<Rightarrow> (resolvedWorkloadProfile list \<Rightarrow> string) \<Rightarrow> profileSetSnapshot \<Rightarrow> profileSet res" where
  "profileSetFromSnapshot K digest snapshot =
     (if snAPIVersion snapshot \<noteq> profileSnapshotAPIVersion
      then Inl (Errorf ''unsupported workload profile snapshot apiVersion %q'' [snAPIVersion snapshot])
      else if snKind snapshot \<noteq> profileSnapshotKind then Inl (Errorf ''unsupported workload profile snapshot kind %q'' [snKind snapshot])
      else if snGeneration snapshot < 1 then Inl (Errorf ''tauClusterGeneration must be positive'' [])
      else bindE (normalizeResolvedProfiles K (snProfiles snapshot)) (\<lambda>profiles.
           bindE (validateSnapshotReadiness (snGeneration snapshot) profiles) (\<lambda>_.
           bindE (ProfileSetHash K digest profiles) (\<lambda>hash.
             if snHash snapshot \<noteq> hash then Inl (Errorf ''profileSetHash mismatch: got %q, want %q'' [snHash snapshot, hash])
             else Inr \<lparr>seGeneration = snGeneration snapshot, seHash = hash, seProfiles = profiles, seSource = ProfileSourceSnapshot\<rparr>))))"

text \<open>A provider with a client answers from the cluster, one with a snapshot from the snapshot.\<close>

datatype profileProvider = ClusterProvider | SnapshotProvider profileSetSnapshot

definition NewSnapshotProvider :: "'q kube \<Rightarrow> (resolvedWorkloadProfile list \<Rightarrow> string) \<Rightarrow> profileSetSnapshot \<Rightarrow> profileProvider res" where
  "NewSnapshotProvider K digest snapshot =
     bindE (profileSetFromSnapshot K digest snapshot) (\<lambda>s.
       Inr (SnapshotProvider \<lparr>snAPIVersion = profileSnapshotAPIVersion, snKind = profileSnapshotKind, snGeneration = seGeneration s,
              snHash = seHash s, snProfiles = seProfiles s\<rparr>))"

definition DecodeSnapshotProvider ::
  "'q kube \<Rightarrow> (resolvedWorkloadProfile list \<Rightarrow> string) \<Rightarrow> profileSetSnapshot res \<Rightarrow> profileProvider res" where
  "DecodeSnapshotProvider K digest decoded = bindE (DecodeProfileSetSnapshot K digest decoded) (NewSnapshotProvider K digest)"

text \<open>
  How a failed read is reported; whether the API server has no such resource (\<open>missing\<close>) or refuses access
  (\<open>forbidden\<close>) is read off its error.
\<close>

definition classifyTauClusterReadError :: "(kerr \<Rightarrow> bool) \<Rightarrow> (kerr \<Rightarrow> bool) \<Rightarrow> kerr \<Rightarrow> kerr" where
  "classifyTauClusterReadError missing forbidden err =
     (if isNoMatchError err \<or> (isNotFound err \<and> missing err) then Wrapped ''TauCluster CRD %s is not installed'' [''clusters.tau.azure.com''] err
      else if forbidden err then Wrapped ''access to TauCluster %q is forbidden; grant get on %s'' [tauClusterName, ''clusters.tau.azure.com''] err
      else if isNotFound err then Wrapped ''TauCluster singleton %q was not found'' [tauClusterName] err
      else Wrapped ''read TauCluster singleton %q'' [tauClusterName] err)"

definition providerProfileSet ::
  "'q kube \<Rightarrow> (resolvedWorkloadProfile list \<Rightarrow> string) \<Rightarrow> (kerr \<Rightarrow> bool) \<Rightarrow> (kerr \<Rightarrow> bool) \<Rightarrow> 'q tauCluster res \<Rightarrow> profileProvider \<Rightarrow> profileSet res" where
  "providerProfileSet K digest missing forbidden cluster provider =
     (case provider of
        ClusterProvider \<Rightarrow> bindE (mapErr (classifyTauClusterReadError missing forbidden) cluster) (decodeTauClusterProfileSet K digest)
      | SnapshotProvider snapshot \<Rightarrow> profileSetFromSnapshot K digest snapshot)"

definition providerSelect ::
  "'q kube \<Rightarrow> (resolvedWorkloadProfile list \<Rightarrow> string) \<Rightarrow> (kerr \<Rightarrow> bool) \<Rightarrow> (kerr \<Rightarrow> bool) \<Rightarrow> 'q tauCluster res \<Rightarrow> profileProvider \<Rightarrow>
     selectionRequest \<Rightarrow> profileSelection res" where
  "providerSelect K digest missing forbidden cluster provider request =
     bindE (providerProfileSet K digest missing forbidden cluster provider) (\<lambda>s. selectProfile s request)"

end
