(* ===== verification/Profile_Observer.thy ===== *)
theory Profile_Observer
  imports Kube_Api Profile_Provider
begin

text \<open>
  The observation of workload profiles (\<open>workload_profile_observer.go\<close>) and of the MultiKueue prerequisites
  (\<open>multikueue_prerequisites.go\<close>): which queues, flavors, topologies, admission checks and priority classes a
  declared profile resolves to, and whether it can run. Nothing is written.
\<close>

section \<open>Constants\<close>

definition topologyKind :: string where "topologyKind = ''Topology''"
definition admissionCheckKind :: string where "admissionCheckKind = ''AdmissionCheck''"
definition workloadPriorityClassKind :: string where "workloadPriorityClassKind = ''WorkloadPriorityClass''"
definition priorityClassKind :: string where "priorityClassKind = ''PriorityClass''"
definition multiKueueConfigKind :: string where "multiKueueConfigKind = ''MultiKueueConfig''"
definition multiKueueClusterKind :: string where "multiKueueClusterKind = ''MultiKueueCluster''"
definition multiKueueAdmissionCheckController :: string where "multiKueueAdmissionCheckController = ''kueue.x-k8s.io/multikueue''"
definition conditionMultiKueueReady :: string where "conditionMultiKueueReady = ''MultiKueueReady''"
definition conditionLocalQueuesResolved :: string where "conditionLocalQueuesResolved = ''LocalQueuesResolved''"
definition conditionClusterQueuesReady :: string where "conditionClusterQueuesReady = ''ClusterQueuesReady''"
definition conditionResourceFlavorsReady :: string where "conditionResourceFlavorsReady = ''ResourceFlavorsReady''"
definition conditionTopologiesReady :: string where "conditionTopologiesReady = ''TopologiesReady''"
definition conditionPriorityClassesReady :: string where "conditionPriorityClassesReady = ''PriorityClassesReady''"
definition conditionExecutionReady :: string where "conditionExecutionReady = ''ExecutionReady''"

section \<open>MultiKueue prerequisites\<close>

definition conditionIsTrue :: "'q kube \<Rightarrow> kobj \<Rightarrow> string \<Rightarrow> bool" where
  "conditionIsTrue K object conditionType =
     (case kNestedSlice K (oObject object) [''status'', ''conditions''] of
        Inr (Some conditions) \<Rightarrow>
          list_ex (\<lambda>item. case asMap item of
              None \<Rightarrow> False
            | Some c \<Rightarrow> gm_lookup c ''type'' = Some (JString conditionType) \<and> gm_lookup c ''status'' = Some (JString ''True'')) conditions
      | _ \<Rightarrow> False)"

text \<open>A slice of strings, or nothing when it is malformed.\<close>

definition stringSlice :: "'q kube \<Rightarrow> jobject \<Rightarrow> string list \<Rightarrow> string list" where
  "stringSlice K m fs =
     (case kNestedSlice K m fs of
        Inr (Some xs) \<Rightarrow> if list_all (\<lambda>x. asString x \<noteq> None) xs then List.map_filter asString xs else []
      | _ \<Rightarrow> [])"

text \<open>Whether a worker of a configuration is active: the issue and the error otherwise.\<close>

fun activeWorker :: "'q kube \<Rightarrow> ('q, 'w) api \<Rightarrow> 'w \<Rightarrow> string \<Rightarrow> string list \<Rightarrow> bool \<times> string \<times> kerr option" where
  "activeWorker K A w configName [] = (False, sprintf ''MultiKueueConfig %q has no Active worker clusters'' [configName], None)"
| "activeWorker K A w configName (clusterName # clusters) =
     (case aGet A w multiKueueClusterKind [] clusterName of
        Inl err \<Rightarrow>
          (False, sprintf ''MultiKueueConfig %q references unreadable worker %q'' [configName, clusterName],
           if isNotFound err then None else Some (Wrapped ''get MultiKueueCluster %q'' [clusterName] err))
      | Inr cluster \<Rightarrow> if conditionIsTrue K cluster ''Active'' then (True, [], None) else activeWorker K A w configName clusters)"

definition admissionCheckReady :: "'q kube \<Rightarrow> ('q, 'w) api \<Rightarrow> 'w \<Rightarrow> kobj \<Rightarrow> bool \<times> string \<times> kerr option" where
  "admissionCheckReady K A w check =
     (let name = oName check; parameter = (\<lambda>f. stringOrEmpty K (oObject check) [''spec'', ''parameters'', f]); configName = parameter ''name'' in
      if \<not> conditionIsTrue K check ''Active'' then (False, sprintf ''AdmissionCheck %q is not Active'' [name], None)
      else if parameter ''apiGroup'' \<noteq> ''kueue.x-k8s.io'' \<or> parameter ''kind'' \<noteq> multiKueueConfigKind \<or> trimSpace configName = []
      then (False, sprintf ''AdmissionCheck %q does not reference a MultiKueueConfig'' [name], None)
      else case aGet A w multiKueueConfigKind [] configName of
             Inl err \<Rightarrow>
               (False, sprintf ''AdmissionCheck %q references unreadable MultiKueueConfig %q'' [name, configName],
                if isNotFound err then None else Some (Wrapped ''get MultiKueueConfig %q'' [configName] err))
           | Inr config \<Rightarrow>
               let clusters = stringSlice K (oObject config) [''spec'', ''clusters''] in
               if clusters = [] then (False, sprintf ''MultiKueueConfig %q has no worker clusters'' [configName], None)
               else activeWorker K A w configName (sort clusters))"

definition usesMultiKueue :: "'q kube \<Rightarrow> kobj \<Rightarrow> bool" where
  "usesMultiKueue K check \<longleftrightarrow> trimSpace (stringOrEmpty K (oObject check) [''spec'', ''controllerName'']) = multiKueueAdmissionCheckController"

text \<open>The checks of the controller in turn; \<open>issues\<close> are those of the checks before.\<close>

fun checkPrerequisites :: "'q kube \<Rightarrow> ('q, 'w) api \<Rightarrow> 'w \<Rightarrow> kobj list \<Rightarrow> string list \<Rightarrow> (bool \<times> string) \<times> kerr option" where
  "checkPrerequisites K A w [] issues = ((False, join (sort issues) ''; ''), None)"
| "checkPrerequisites K A w (check # checks) issues =
     (case admissionCheckReady K A w check of
        (_, issue, Some err) \<Rightarrow> ((False, issue), Some err)
      | (True, _, None) \<Rightarrow> ((True, sprintf ''AdmissionCheck %q has an active MultiKueue config and worker'' [oName check]), None)
      | (False, issue, None) \<Rightarrow> checkPrerequisites K A w checks (issues @ [issue]))"

definition multiKueueCheck :: "'q kube \<Rightarrow> ('q, 'w) api \<Rightarrow> 'w \<Rightarrow> (bool \<times> string) \<times> kerr option" where
  "multiKueueCheck K A w =
     (case aList A w admissionCheckKind of
        Inl err \<Rightarrow> ((False, ''cannot list manager-cluster AdmissionChecks''), Some (Wrapped ''list AdmissionChecks'' [] err))
      | Inr checks \<Rightarrow>
          let relevant = filter (usesMultiKueue K) checks in
          if relevant = [] then ((False, ''no AdmissionCheck uses controller kueue.x-k8s.io/multikueue''), None)
          else checkPrerequisites K A w relevant [])"

text \<open>\<open>configured\<close>: the reconciler has a prerequisite reader.\<close>

definition multiKueueReadinessCondition ::
  "'q kube \<Rightarrow> ('q, 'w) api \<Rightarrow> bool \<Rightarrow> gotime \<Rightarrow> int \<Rightarrow> 'w \<Rightarrow> kcondition \<times> kerr option" where
  "multiKueueReadinessCondition K A configured now generation w =
     (if \<not> configured
      then (condition now conditionMultiKueueReady ''False'' ''PrerequisitesNotReady'' (Msg ''MultiKueue prerequisite reader is not configured'') generation, None)
      else let ((ready, message), err) = multiKueueCheck K A w; ok = (ready \<and> err = None)
           in (condition now conditionMultiKueueReady (if ok then ''True'' else ''False'') (if ok then ''Ready'' else ''PrerequisitesNotReady'')
                 (Msg message) generation, err))"

section \<open>Reading queues\<close>

definition sortedSet :: "string list \<Rightarrow> string list" where
  "sortedSet values = sort (fold gs_add values [])"

definition requiredNestedString :: "'q kube \<Rightarrow> kobj \<Rightarrow> string list \<Rightarrow> string res" where
  "requiredNestedString K object path =
     bindE (nestedStringOrEmpty K (oObject object) path) (\<lambda>value.
       if trimSpace value = [] then Inl (Errorf ''%s is required'' [join path ''.'']) else Inr (trimSpace value))"

definition optionalNestedString :: "'q kube \<Rightarrow> kobj \<Rightarrow> string list \<Rightarrow> string res" where
  "optionalNestedString K object path = bindE (nestedStringOrEmpty K (oObject object) path) (\<lambda>value. Inr (trimSpace value))"

definition flavorEntryName :: "'q kube \<Rightarrow> string \<Rightarrow> nat \<times> json \<Rightarrow> string list \<Rightarrow> (string list) res" where
  "flavorEntryName K groupIndex entry names =
     (case asMap (snd entry) of
        None \<Rightarrow> Inl (Errorf ''spec.resourceGroups[%d].flavors[%d] must be an object'' [groupIndex, showNat (fst entry)])
      | Some flavor \<Rightarrow>
          bindE (nestedStringOrEmpty K flavor [''name'']) (\<lambda>name.
            if trimSpace name = [] then Inl (Errorf ''spec.resourceGroups[%d].flavors[%d].name is required'' [groupIndex, showNat (fst entry)])
            else Inr (gs_add (trimSpace name) names)))"

definition groupFlavorNames :: "'q kube \<Rightarrow> nat \<times> json \<Rightarrow> string list \<Rightarrow> (string list) res" where
  "groupFlavorNames K entry names =
     (case asMap (snd entry) of
        None \<Rightarrow> Inl (Errorf ''spec.resourceGroups[%d] must be an object'' [showNat (fst entry)])
      | Some grp \<Rightarrow>
          bindE (kNestedSlice K grp [''flavors'']) (\<lambda>found.
            case found of
              None \<Rightarrow> Inr names
            | Some rawFlavors \<Rightarrow> foldE (flavorEntryName K (showNat (fst entry))) (List.enumerate 0 rawFlavors) names))"

definition clusterQueueFlavorNames :: "'q kube \<Rightarrow> kobj \<Rightarrow> (string list) res" where
  "clusterQueueFlavorNames K clusterQueue =
     bindE (kNestedSlice K (oObject clusterQueue) [''spec'', ''resourceGroups'']) (\<lambda>found.
       case found of
         None \<Rightarrow> Inr []
       | Some resourceGroups \<Rightarrow>
           bindE (foldE (groupFlavorNames K) (List.enumerate 0 resourceGroups) []) (\<lambda>names. Inr (sort names)))"

definition admissionCheckName :: "'q kube \<Rightarrow> bool \<Rightarrow> nat \<times> json \<Rightarrow> string res" where
  "admissionCheckName K strategy entry =
     (let index = showNat (fst entry) in
      if strategy
      then (case asMap (snd entry) of
              None \<Rightarrow> Inl (Errorf ''spec.admissionChecksStrategy.admissionChecks[%d] must be an object'' [index])
            | Some check \<Rightarrow>
                bindE (mapErr (Wrapped ''spec.admissionChecksStrategy.admissionChecks[%d].name'' [index]) (kNestedString K check [''name''])) (\<lambda>found.
                  case found of
                    None \<Rightarrow> Inl (Errorf ''spec.admissionChecksStrategy.admissionChecks[%d].name is required'' [index])
                  | Some value \<Rightarrow> Inr (trimSpace value)))
      else case asString (snd entry) of
             None \<Rightarrow> Inl (Errorf ''spec.admissionChecks[%d] must be a string'' [index])
           | Some value \<Rightarrow> Inr (trimSpace value))"

definition clusterQueueAdmissionCheckNames :: "'q kube \<Rightarrow> kobj \<Rightarrow> (string list) res" where
  "clusterQueueAdmissionCheckNames K clusterQueue =
     bindE (kNestedSlice K (oObject clusterQueue) [''spec'', ''admissionChecks'']) (\<lambda>legacy.
     bindE (kNestedSlice K (oObject clusterQueue) [''spec'', ''admissionChecksStrategy'', ''admissionChecks'']) (\<lambda>strategy.
       if legacy \<noteq> None \<and> strategy \<noteq> None
       then Inl (Errorf ''spec.admissionChecks and spec.admissionChecksStrategy cannot both be set'' [])
       else let rawChecks = (case strategy of Some xs \<Rightarrow> xs | None \<Rightarrow> (case legacy of Some xs \<Rightarrow> xs | None \<Rightarrow> [])) in
            bindE (foldE (\<lambda>entry names.
                bindE (admissionCheckName K (strategy \<noteq> None) entry) (\<lambda>name.
                  if name = [] then Inl (Errorf ''admission check at index %d has an empty name'' [showNat (fst entry)])
                  else if name \<in> set names then Inl (Errorf ''spec.admissionChecks contains duplicate name %q'' [name])
                  else Inr (names @ [name]))) (List.enumerate 0 rawChecks) []) (\<lambda>names. Inr (sort names))))"

definition admissionCheckControllerName :: "'q kube \<Rightarrow> kobj \<Rightarrow> string res" where
  "admissionCheckControllerName K admissionCheck =
     bindE (nestedStringOrEmpty K (oObject admissionCheck) [''spec'', ''controllerName'']) (\<lambda>controllerName.
       if trimSpace controllerName = [] then Inl (Errorf ''spec.controllerName is required'' []) else Inr controllerName)"

text \<open>Whether the queue is active, and what it reports otherwise.\<close>

fun activeCondition :: "'q kube \<Rightarrow> (nat \<times> json) list \<Rightarrow> (bool \<times> string) res" where
  "activeCondition K [] = Inr (False, '': Active condition is not reported'')"
| "activeCondition K ((index, raw) # conditions) =
     (case asMap raw of
        None \<Rightarrow> Inl (Errorf ''status.conditions[%d] must be an object'' [showNat index])
      | Some c \<Rightarrow>
          bindE (nestedStringOrEmpty K c [''type'']) (\<lambda>conditionType.
            if conditionType \<noteq> ''Active'' then activeCondition K conditions
            else bindE (kNestedString K c [''status'']) (\<lambda>found.
              case found of
                None \<Rightarrow> Inl (Errorf ''status.conditions[%d].status is required'' [showNat index])
              | Some status \<Rightarrow>
                  if status = ''True'' then Inr (True, [])
                  else let parts = filter (\<lambda>p. p \<noteq> []) (map (\<lambda>f. trimSpace (stringOrEmpty K c [f])) [''reason'', ''message'']);
                           detail = join parts '': ''
                       in Inr (False, if detail \<noteq> [] then '': '' @ detail else []))))"

definition clusterQueueActive :: "'q kube \<Rightarrow> kobj \<Rightarrow> (bool \<times> string) res" where
  "clusterQueueActive K clusterQueue =
     bindE (kNestedSlice K (oObject clusterQueue) [''status'', ''conditions'']) (\<lambda>found.
       case found of
         None \<Rightarrow> Inr (False, '': status.conditions is not reported'')
       | Some conditions \<Rightarrow> activeCondition K (List.enumerate 0 conditions))"

section \<open>How a queue executes\<close>

record executionObservation =
  eoClusterQueue :: string
  eoReferenced :: "string list"
  eoMultiKueue :: "string list"
  eoOther :: "string list"
  eoIssues :: "string list"

definition usesOnlyMultiKueue :: "executionObservation \<Rightarrow> bool" where
  "usesOnlyMultiKueue obs \<longleftrightarrow> eoReferenced obs \<noteq> [] \<and> length (eoMultiKueue obs) = length (eoReferenced obs) \<and> eoIssues obs = []"

definition addIssue :: "string \<Rightarrow> executionObservation \<Rightarrow> executionObservation" where
  "addIssue issue obs = obs\<lparr>eoIssues := eoIssues obs @ [issue]\<rparr>"

definition observeAdmissionCheck ::
  "'q kube \<Rightarrow> ('q, 'w) api \<Rightarrow> 'w \<Rightarrow> string \<Rightarrow> string \<Rightarrow> executionObservation \<times> kerr option \<Rightarrow> executionObservation \<times> kerr option" where
  "observeAdmissionCheck K A w clusterQueueName name acc =
     (case acc of (obs, err) \<Rightarrow>
        case aGet A w admissionCheckKind [] name of
          Inl e \<Rightarrow>
            if isNotFound e then (addIssue (sprintf ''AdmissionCheck %s referenced by ClusterQueue %s does not exist'' [name, clusterQueueName]) obs, err)
            else (addIssue (sprintf ''cannot read AdmissionCheck %s referenced by ClusterQueue %s: %v'' [name, clusterQueueName, errorText e]) obs,
                  joinErrors err (Some (Wrapped ''read AdmissionCheck %s'' [name] e)))
        | Inr admissionCheck \<Rightarrow>
            (case admissionCheckControllerName K admissionCheck of
               Inl e \<Rightarrow> (addIssue (sprintf ''AdmissionCheck %s referenced by ClusterQueue %s is malformed: %v'' [name, clusterQueueName, errorText e]) obs, err)
             | Inr controllerName \<Rightarrow>
                 if controllerName \<noteq> multiKueueAdmissionCheckController then (obs\<lparr>eoOther := eoOther obs @ [name]\<rparr>, err)
                 else let (ready, issue, e) = admissionCheckReady K A w admissionCheck; added = obs\<lparr>eoMultiKueue := eoMultiKueue obs @ [name]\<rparr>
                      in (if ready then added else addIssue issue added,
                          joinErrors err (map_option (Wrapped ''validate AdmissionCheck %s prerequisites'' [name]) e))))"

definition observeClusterQueueExecution :: "'q kube \<Rightarrow> ('q, 'w) api \<Rightarrow> 'w \<Rightarrow> string \<Rightarrow> kobj \<Rightarrow> executionObservation \<times> kerr option" where
  "observeClusterQueueExecution K A w clusterQueueName clusterQueue =
     (let obs = \<lparr>eoClusterQueue = clusterQueueName, eoReferenced = [], eoMultiKueue = [], eoOther = [], eoIssues = []\<rparr> in
      case clusterQueueAdmissionCheckNames K clusterQueue of
        Inl err \<Rightarrow> (addIssue (sprintf ''ClusterQueue %s has malformed admission-check references: %v'' [clusterQueueName, errorText err]) obs, None)
      | Inr names \<Rightarrow> fold (observeAdmissionCheck K A w clusterQueueName) names (obs\<lparr>eoReferenced := names\<rparr>, None))"

definition multiKueueCapabilityNotReadyCondition :: "gotime \<Rightarrow> 'q tauCluster \<Rightarrow> int \<Rightarrow> kcondition option" where
  "multiKueueCapabilityNotReadyCondition now cluster generation =
     (let notReady = (\<lambda>reason message. Some (condition now conditionExecutionReady ''False'' reason message generation)) in
      case findCondition (clConditions cluster) conditionMultiKueueReady of
        None \<Rightarrow> notReady ''PrerequisitesNotReady'' (Msg ''TauCluster has no MultiKueueReady capability condition'')
      | Some capability \<Rightarrow>
          if cdObservedGeneration capability \<noteq> generation
          then notReady ''PrerequisitesNotReady'' (MsgFmt ''TauCluster MultiKueueReady condition observed generation %d, want current generation %d''
                 [showInt (cdObservedGeneration capability), showInt generation])
          else if cdStatus capability \<noteq> ''True''
          then let message = trimSpace (messageText (cdMessage capability)) in
               notReady (if cdReason capability = [] then ''PrerequisitesNotReady'' else cdReason capability)
                 (Msg (if message = [] then ''TauCluster MultiKueue capability is not ready'' else message))
          else None)"

definition wiringIssue :: "executionObservation \<Rightarrow> string list" where
  "wiringIssue obs =
     (if eoReferenced obs = [] then [sprintf ''ClusterQueue %s has no admission checks'' [eoClusterQueue obs]]
      else if \<not> usesOnlyMultiKueue obs
      then [sprintf ''ClusterQueue %s does not use only MultiKueue AdmissionChecks; non-MultiKueue checks: %s'' [eoClusterQueue obs, join (eoOther obs) '', '']]
      else [])"

definition workloadProfileExecutionCondition ::
  "gotime \<Rightarrow> 'q tauCluster \<Rightarrow> 'a workloadProfile_scheme \<Rightarrow> bool \<Rightarrow> nat \<Rightarrow> executionObservation list \<Rightarrow> int \<Rightarrow> kcondition" where
  "workloadProfileExecutionCondition now cluster profile clusterQueuesReady referenced observations generation =
     (let result = (\<lambda>status reason message. condition now conditionExecutionReady status reason (Msg message) generation);
          lookupIssues = concat (map eoIssues observations); multiKueueChecks = concat (map eoMultiKueue observations);
          capability = (if wpExecutionTarget profile = executionTargetMultiKueue then multiKueueCapabilityNotReadyCondition now cluster generation else None);
          wiringIssues = (if \<not> clusterQueuesReady \<or> length observations \<noteq> referenced \<or> referenced = 0
                          then [''all referenced ClusterQueues must be readable and active''] else []) @ concat (map wiringIssue observations)
      in case capability of
           Some notReady \<Rightarrow> notReady
         | None \<Rightarrow>
             if lookupIssues \<noteq> [] then result ''False'' ''AdmissionChecksNotReady'' (join (sort lookupIssues) ''; '')
             else if wpExecutionTarget profile = executionTargetSingleCluster
             then if multiKueueChecks \<noteq> []
                  then result ''False'' ''UnexpectedMultiKueueAdmissionCheck''
                         (sprintf ''singleCluster profile resolves to MultiKueue AdmissionCheck(s) %s; set executionTarget=multiKueue or remove the wiring''
                            [join (sort multiKueueChecks) '', ''])
                  else result ''True'' ''Ready'' ''resolved ClusterQueues do not use MultiKueue''
             else if wiringIssues \<noteq> [] then result ''False'' ''MultiKueueWiringNotReady'' (join (sort wiringIssues) ''; '')
             else result ''True'' ''Ready'' ''all ClusterQueues use MultiKueue and the TauCluster capability is current and ready'')"

section \<open>One profile\<close>

definition applicableQueueNamespaces :: "'q tauCluster \<Rightarrow> 'a workloadProfile_scheme \<Rightarrow> string list" where
  "applicableQueueNamespaces cluster profile =
     (if paNamespaces (wpApplicability profile) \<noteq> [] then paNamespaces (wpApplicability profile)
      else sortedSet (filter (\<lambda>n. n \<noteq> []) (map (\<lambda>(namespace, _). toLower (trimSpace namespace))
             (filter (\<lambda>(_, name). equalFold (trimSpace name) (wpDefaultLocalQueue profile)) (clSharedLocalQueues cluster)))))"

definition observationCondition :: "gotime \<Rightarrow> string \<Rightarrow> bool \<Rightarrow> string \<Rightarrow> string \<Rightarrow> kmessage \<Rightarrow> string list \<Rightarrow> int \<Rightarrow> kcondition" where
  "observationCondition now conditionType ok readyReason notReadyReason readyMessage issues generation =
     (if ok then condition now conditionType ''True'' readyReason readyMessage generation
      else condition now conditionType ''False'' notReadyReason (Msg (join (sort issues) ''; '')) generation)"

text \<open>A stage of the observation: whether it holds, its issues, and the errors so far.\<close>

record stage =
  sgOK :: bool
  sgIssues :: "string list"
  sgError :: "kerr option"

definition failStage :: "string \<Rightarrow> stage \<Rightarrow> stage" where
  "failStage issue s = s\<lparr>sgOK := False, sgIssues := sgIssues s @ [issue]\<rparr>"

definition unreadable :: "string \<Rightarrow> kerr \<Rightarrow> stage \<Rightarrow> stage" where
  "unreadable subject err s =
     (if isNotFound err then failStage (sprintf ''%s does not exist'' [subject]) s
      else failStage (sprintf ''cannot read %s: %v'' [subject, errorText err])
             (s\<lparr>sgError := joinErrors (sgError s) (Some (Wrapped ''read %s'' [subject] err))\<rparr>))"

definition observeLocalQueue ::
  "'q kube \<Rightarrow> ('q, 'w) api \<Rightarrow> 'w \<Rightarrow> string \<Rightarrow> string \<Rightarrow> stage \<times> resolvedLocalQueue list \<Rightarrow> stage \<times> resolvedLocalQueue list" where
  "observeLocalQueue K A w queue namespace acc =
     (case acc of (s, queues) \<Rightarrow>
        let subject = sprintf ''LocalQueue %s/%s'' [namespace, queue] in
        case aGet A w localQueueKind namespace queue of
          Inl err \<Rightarrow> (unreadable subject err s, queues)
        | Inr localQueue \<Rightarrow>
            (case requiredNestedString K localQueue [''spec'', ''clusterQueue''] of
               Inl err \<Rightarrow> (failStage (sprintf ''%s is malformed: %v'' [subject, errorText err]) s, queues)
             | Inr clusterQueue \<Rightarrow> (s, queues @ [\<lparr>rlNamespace = namespace, rlName = queue, rlClusterQueue = clusterQueue\<rparr>])))"

record queueObservation =
  qoStage :: stage
  qoNames :: "string list"
  qoFlavors :: "string list"
  qoExecution :: "executionObservation list"

definition observeClusterQueue :: "'q kube \<Rightarrow> ('q, 'w) api \<Rightarrow> 'w \<Rightarrow> string \<Rightarrow> queueObservation \<Rightarrow> queueObservation" where
  "observeClusterQueue K A w name q =
     (case getQueue A w name of
        Inl err \<Rightarrow> q\<lparr>qoStage := unreadable (sprintf ''ClusterQueue %s'' [name]) err (qoStage q)\<rparr>
      | Inr clusterQueue \<Rightarrow>
          let (execution, err) = observeClusterQueueExecution K A w name clusterQueue;
              read = (qoStage q)\<lparr>sgError := joinErrors (sgError (qoStage q)) err\<rparr>;
              active = (case clusterQueueActive K clusterQueue of
                Inl e \<Rightarrow> failStage (sprintf ''ClusterQueue %s has malformed status: %v'' [name, errorText e]) read
              | Inr (True, _) \<Rightarrow> read
              | Inr (False, detail) \<Rightarrow> failStage (sprintf ''ClusterQueue %s is inactive%s'' [name, detail]) read);
              seen = q\<lparr>qoNames := qoNames q @ [name], qoExecution := qoExecution q @ [execution]\<rparr>
          in case clusterQueueFlavorNames K clusterQueue of
               Inl e \<Rightarrow> seen\<lparr>qoStage := failStage (sprintf ''ClusterQueue %s has malformed resource flavors: %v'' [name, errorText e]) active\<rparr>
             | Inr names \<Rightarrow> seen\<lparr>qoStage := active, qoFlavors := qoFlavors q @ names\<rparr>)"

text \<open>Objects that only have to be readable; \<open>extract\<close> is what is read from one.\<close>

definition observeReadable ::
  "('q, 'w) api \<Rightarrow> 'w \<Rightarrow> string \<Rightarrow> (kobj \<Rightarrow> (string list) res) \<Rightarrow> (string \<Rightarrow> kerr \<Rightarrow> string) \<Rightarrow> string \<Rightarrow> stage \<times> string list \<times> string list \<Rightarrow>
     stage \<times> string list \<times> string list" where
  "observeReadable A w kind extract malformed name acc =
     (case acc of (s, names, refs) \<Rightarrow>
        case aGet A w kind [] name of
          Inl err \<Rightarrow> (unreadable (sprintf ''%s %s'' [kind, name]) err s, names, refs)
        | Inr object \<Rightarrow>
            (case extract object of
               Inl err \<Rightarrow> (failStage (malformed name err) s, names @ [name], refs)
             | Inr xs \<Rightarrow> (s, names @ [name], refs @ xs)))"

definition nextStage :: "stage \<Rightarrow> stage" where
  "nextStage s = s\<lparr>sgIssues := []\<rparr>"

definition flavorTopology :: "'q kube \<Rightarrow> kobj \<Rightarrow> (string list) res" where
  "flavorTopology K flavor =
     bindE (optionalNestedString K flavor [''spec'', ''topologyName'']) (\<lambda>name. Inr (if name = [] then [] else [name]))"

definition malformedTopologyName :: "string \<Rightarrow> kerr \<Rightarrow> string" where
  "malformedTopologyName name err = sprintf ''ResourceFlavor %s has malformed topologyName: %v'' [name, errorText err]"

definition observePriorities :: "('q, 'w) api \<Rightarrow> 'w \<Rightarrow> profilePriorities \<Rightarrow> kerr option \<Rightarrow> stage \<times> string list \<times> string list" where
  "observePriorities A w priorities err =
     (let s0 = \<lparr>sgOK = True, sgIssues = [], sgError = err\<rparr> in
      if ppDisable priorities then (s0, [], [])
      else let (s1, workload, _) = observeReadable A w workloadPriorityClassKind (\<lambda>_. Inr []) (\<lambda>_ _. []) (ppWorkload priorities) (s0, [], []);
               (s2, pod, _) = observeReadable A w priorityClassKind (\<lambda>_. Inr []) (\<lambda>_ _. []) (ppPod priorities) (s1, [], [])
           in (s2, workload, pod))"

definition extendProfile :: "workloadProfile \<Rightarrow> resolvedWorkloadProfile" where
  "extendProfile p = workloadProfile.extend p
     \<lparr>rpLocalQueues = [], rpClusterQueues = [], rpResourceFlavors = [], rpTopologies = [], rpWorkloadPriorityClasses = [], rpPodPriorityClasses = [],
      rpConditions = []\<rparr>"

definition invalidProfileConditions :: "gotime \<Rightarrow> kmessage \<Rightarrow> int \<Rightarrow> kcondition list" where
  "invalidProfileConditions now message generation =
     map (\<lambda>conditionType. condition now conditionType ''Unknown'' ''ValidationSkipped'' message generation)
       [conditionLocalQueuesResolved, conditionClusterQueuesReady, conditionResourceFlavorsReady, conditionTopologiesReady, conditionPriorityClassesReady,
        conditionExecutionReady] @ [condition now profileConditionReady ''False'' ''InvalidWorkloadProfile'' message generation]"

definition observeWorkloadProfile ::
  "'q kube \<Rightarrow> ('q, 'w) api \<Rightarrow> gotime \<Rightarrow> 'q tauCluster \<Rightarrow> workloadProfile \<Rightarrow> 'w \<Rightarrow> resolvedWorkloadProfile \<times> kerr option" where
  "observeWorkloadProfile K A now cluster declared w =
     (let generation = clGeneration cluster; normalized = NormalizeWorkloadProfile declared; resolved = extendProfile normalized in
      case ValidateWorkloadProfile K normalized of
        Inl err \<Rightarrow>
          (resolved\<lparr>rpConditions := invalidProfileConditions now (MsgErrf ''invalid workload profile %q: %v'' [wpName normalized] err) generation\<rparr>, None)
      | Inr _ \<Rightarrow>
          let namespaces = applicableQueueNamespaces cluster normalized; queue = wpDefaultLocalQueue normalized;
              start = (if namespaces = []
                then \<lparr>sgOK = False, sgIssues = [sprintf ''profile has global namespace applicability but spec.queues.sharedLocalQueues declares no %q LocalQueue'' [queue]],
                      sgError = None\<rparr>
                else \<lparr>sgOK = True, sgIssues = [], sgError = None\<rparr>);
              (localStage, localQueues) = fold (observeLocalQueue K A w queue) namespaces (start, []);
              clusterQueueNames = sortedSet (map rlClusterQueue localQueues);
              q = fold (observeClusterQueue K A w) clusterQueueNames \<lparr>qoStage = nextStage localStage, qoNames = [], qoFlavors = [], qoExecution = []\<rparr>;
              queueStage = qoStage q;
              execution = workloadProfileExecutionCondition now cluster normalized (sgOK queueStage) (length clusterQueueNames) (qoExecution q) generation;
              (flavorStage, flavors, topologyNames) =
                fold (observeReadable A w resourceFlavorKind (flavorTopology K) malformedTopologyName) (sortedSet (qoFlavors q)) (nextStage queueStage, [], []);
              (topologyStage, topologies, _) =
                fold (observeReadable A w topologyKind (\<lambda>_. Inr []) (\<lambda>_ _. [])) (sortedSet topologyNames) (nextStage flavorStage, [], []);
              (priorityStage, workloadPriorities, podPriorities) = observePriorities A w (wpPriorities normalized) (sgError topologyStage);
              ready = (sgOK localStage \<and> sgOK queueStage \<and> sgOK flavorStage \<and> sgOK topologyStage \<and> sgOK priorityStage \<and> cdStatus execution = ''True'')
          in (resolved\<lparr>rpLocalQueues := localQueues, rpClusterQueues := qoNames q, rpResourceFlavors := flavors, rpTopologies := topologies,
                rpWorkloadPriorityClasses := workloadPriorities, rpPodPriorityClasses := podPriorities,
                rpConditions :=
                  [observationCondition now conditionLocalQueuesResolved (sgOK localStage) ''LocalQueuesResolved'' ''LocalQueuesNotResolved''
                     (MsgFmt ''%d applicable LocalQueues resolved'' [showNat (length localQueues)]) (sgIssues localStage) generation,
                   observationCondition now conditionClusterQueuesReady (sgOK queueStage) ''ClusterQueuesReady'' ''ClusterQueuesNotReady''
                     (MsgFmt ''%d ClusterQueues are readable and active'' [showNat (length (qoNames q))]) (sgIssues queueStage) generation,
                   execution,
                   observationCondition now conditionResourceFlavorsReady (sgOK flavorStage) ''ResourceFlavorsReady'' ''ResourceFlavorsNotReady''
                     (MsgFmt ''%d ResourceFlavors are readable'' [showNat (length flavors)]) (sgIssues flavorStage) generation,
                   observationCondition now conditionTopologiesReady (sgOK topologyStage) ''TopologiesReady'' ''TopologiesNotReady''
                     (MsgFmt ''%d Topologies are readable'' [showNat (length topologies)]) (sgIssues topologyStage) generation,
                   observationCondition now conditionPriorityClassesReady (sgOK priorityStage) ''PriorityClassesReady'' ''PriorityClassesNotReady''
                     (Msg ''referenced priority classes are readable'') (sgIssues priorityStage) generation,
                   boolCondition now profileConditionReady ready (if ready then ''WorkloadProfileReady'' else ''WorkloadProfileNotReady'')
                     (Msg (if ready then ''all workload profile dependencies are ready'' else ''one or more workload profile dependencies are not ready'')) generation]\<rparr>,
              sgError priorityStage))"

section \<open>All profiles\<close>

definition previousResolvedProfile :: "resolvedWorkloadProfile list \<Rightarrow> string \<Rightarrow> resolvedWorkloadProfile option" where
  "previousResolvedProfile profiles name = List.find (\<lambda>p. wpName p = name) profiles"

text \<open>A profile with the transition times of the conditions it had.\<close>

definition keepTransitions :: "'q tauCluster \<Rightarrow> resolvedWorkloadProfile \<Rightarrow> resolvedWorkloadProfile" where
  "keepTransitions cluster resolved =
     (case previousResolvedProfile (psProfiles (clWorkloadProfiles cluster)) (wpName resolved) of
        Some previous \<Rightarrow> resolved\<lparr>rpConditions := mergeConditions (rpConditions previous) (rpConditions resolved)\<rparr>
      | None \<Rightarrow> resolved)"

definition profileReady :: "resolvedWorkloadProfile \<Rightarrow> bool" where
  "profileReady p = (case findCondition (rpConditions p) profileConditionReady of Some c \<Rightarrow> cdStatus c = ''True'' | None \<Rightarrow> False)"

definition profilesCondition :: "gotime \<Rightarrow> profileSetStatus \<Rightarrow> int \<Rightarrow> kcondition" where
  "profilesCondition now status generation =
     (if psObserved status = 0
      then condition now conditionWorkloadProfilesReady ''True'' ''NoWorkloadProfiles'' (Msg ''no workload profiles are declared'') generation
      else if psDrifted status = 0
      then condition now conditionWorkloadProfilesReady ''True'' ''WorkloadProfilesReady''
             (MsgFmt ''%d workload profiles resolved successfully'' [showInt (psReady status)]) generation
      else condition now conditionWorkloadProfilesReady ''False'' ''WorkloadProfilesNotReady''
             (MsgFmt ''%d of %d workload profiles are not ready'' [showInt (psDrifted status), showInt (psObserved status)]) generation)"

definition observeWorkloadProfiles ::
  "'q kube \<Rightarrow> ('q, 'w) api \<Rightarrow> (resolvedWorkloadProfile list \<Rightarrow> string) \<Rightarrow> gotime \<Rightarrow> 'q tauCluster \<Rightarrow> 'w \<Rightarrow>
     (profileSetStatus \<times> kcondition) \<times> kerr option" where
  "observeWorkloadProfiles K A digest now cluster w =
     (let generation = clGeneration cluster;
          observed = map (\<lambda>declared. observeWorkloadProfile K A now cluster declared w) (clDeclaredProfiles cluster);
          resolved = map (\<lambda>(p, _). keepTransitions cluster p) observed;
          profiles = sort_key wpName resolved;
          status = \<lparr>psObservedGeneration = generation, psObserved = int (length (clDeclaredProfiles cluster)),
            psReady = int (length (filter profileReady resolved)), psDrifted = int (length (filter (\<lambda>p. \<not> profileReady p) resolved)),
            psHash = (case ProfileSetHash K digest profiles of Inr hash \<Rightarrow> hash | Inl _ \<Rightarrow> []), psProfiles = profiles\<rparr>
      in ((status, profilesCondition now status generation), fold (\<lambda>(_, err) acc. joinErrors acc err) observed None))"

end
