(* ===== verification/Cluster_Controller.thy ===== *)
theory Cluster_Controller
  imports Cluster_Flavors Profile_Observer
begin

text \<open>
  The cluster controller (\<open>cluster_controller.go\<close>, \<open>cluster_topology.go\<close>): node labels, the GPU topology, the
  discovered flavors, the MultiKueue capability and the workload profiles are reconciled in turn and reported
  in the status of the cluster. The hash of a specification is the argument \<open>specHash\<close>.
\<close>

section \<open>Constants\<close>

definition tauGPUNodeTopologyName :: string where "tauGPUNodeTopologyName = ''taugrid-gpu-topology''"
definition conditionQueuesReady :: string where "conditionQueuesReady = ''QueuesReady''"
definition conditionWorkspacesReady :: string where "conditionWorkspacesReady = ''WorkspacesReady''"
definition conditionDeletionBlocked :: string where "conditionDeletionBlocked = ''DeletionBlocked''"
definition conditionObserveOnly :: string where "conditionObserveOnly = ''ObserveOnly''"
definition conditionReconcilePaused :: string where "conditionReconcilePaused = ''ReconcilePaused''"
definition conditionReady :: string where "conditionReady = ''Ready''"
definition nodeResyncPeriod :: duration where "nodeResyncPeriod = 10 * minute"

section \<open>The topology\<close>

record 'q topologyReconcileState =
  tpStatus :: sectionStatus
  tpQueues :: kcondition
  tpDrift :: kcondition
  tpOwnership :: kcondition
  tpManaged :: "managedResource list"
  tpCapacity :: "(string \<times> string \<times> 'q) list"
  tpFailed :: bool

definition zeroCondition :: kcondition where
  "zeroCondition = \<lparr>cdType = [], cdStatus = [], cdObservedGeneration = 0, cdLastTransitionTime = 0, cdReason = [], cdMessage = Msg []\<rparr>"

definition zeroTopologyState :: "'q topologyReconcileState" where
  "zeroTopologyState = \<lparr>tpStatus = zeroSection, tpQueues = zeroCondition, tpDrift = zeroCondition, tpOwnership = zeroCondition, tpManaged = [],
     tpCapacity = [], tpFailed = False\<rparr>"

definition desiredTauGPUTopology :: kobj where
  "desiredTauGPUTopology =
     \<lparr>oKind = topologyKind, oName = tauGPUNodeTopologyName, oNamespace = [], oUID = [], oLabels = [(labelManagedBy, labelManagedByValue)],
      oAnnotations = [],
      oObject = [(''spec'', JMap [(''levels'', JList (map (\<lambda>l. JMap [(''nodeLabel'', JString l)])
        [labelSite, labelNetworkDomain, labelAcceleratorDomain, labelHostname]))])]\<rparr>"

definition managedTopologyStatus :: "kobj \<Rightarrow> managedResource list" where
  "managedTopologyStatus topology = [managedResourceStatus topologyKind topology]"

definition topologyState ::
  "gotime \<Rightarrow> int \<Rightarrow> sectionStatus \<Rightarrow> bool \<Rightarrow> string \<times> string \<times> kmessage \<Rightarrow> string \<times> string \<times> kmessage \<Rightarrow> string \<times> string \<times> kmessage \<Rightarrow>
     'q topologyReconcileState" where
  "topologyState now generation status failed queues drift ownership =
     \<lparr>tpStatus = status,
      tpQueues = condition now conditionQueuesReady (fst queues) (fst (snd queues)) (snd (snd queues)) generation,
      tpDrift = condition now conditionDriftDetected (fst drift) (fst (snd drift)) (snd (snd drift)) generation,
      tpOwnership = condition now conditionOwnershipConflict (fst ownership) (fst (snd ownership)) (snd (snd ownership)) generation,
      tpManaged = [], tpCapacity = [], tpFailed = failed\<rparr>"

definition noOwnershipConflict :: "string \<times> string \<times> kmessage" where
  "noOwnershipConflict = (''False'', ''NoConflictObserved'', Msg ''no topology ownership conflict was found'')"

definition oneDrifted :: sectionStatus where
  "oneDrifted = \<lparr>seObserved = 1, seReady = 0, seDrifted = 1\<rparr>"

definition readyTopologyState :: "gotime \<Rightarrow> int \<Rightarrow> sectionStatus \<Rightarrow> bool \<Rightarrow> kobj \<Rightarrow> 'q topologyReconcileState" where
  "readyTopologyState now generation nodeStatus nodeDrift topology =
     (topologyState now generation \<lparr>seObserved = 1 + seObserved nodeStatus, seReady = 1 + seReady nodeStatus, seDrifted = seDrifted nodeStatus\<rparr> False
        (''True'', ''TopologyReady'', Msg ''TauGrid GPU Topology is reconciled'')
        (if nodeDrift then (''True'', ''TopologyNodeLabelDrift'', Msg ''Node topology labels need reconciliation'')
         else (''False'', ''NoTopologyDrift'', Msg ''Node topology labels and Kueue topology are reconciled''))
        (''False'', ''NoConflictObserved'', Msg ''TauGrid owns the GPU Topology''))\<lparr>tpManaged := managedTopologyStatus topology\<rparr>"

text \<open>An existing topology that cannot be used.\<close>

definition topologyConflict :: "'q kube \<Rightarrow> gotime \<Rightarrow> int \<Rightarrow> kobj \<Rightarrow> 'q topologyReconcileState option" where
  "topologyConflict K now generation topology =
     (if gm_get [] (oLabels topology) labelManagedBy \<noteq> labelManagedByValue
      then let message = MsgFmt ''Topology %s exists but is not owned by %s'' [tauGPUNodeTopologyName, labelManagedByValue] in
           Some (topologyState now generation oneDrifted True (''False'', ''TopologyOwnershipConflict'', message) (''True'', ''TopologyDrift'', message)
                   (''True'', ''TopologyOwnershipConflict'', message))
      else if \<not> specsEqual (specMap K topology) (specMap K desiredTauGPUTopology)
      then let message = MsgFmt ''Topology %s has drifted from the TauGrid topology contract'' [tauGPUNodeTopologyName] in
           Some ((topologyState now generation oneDrifted True (''False'', ''ImmutableTopologyDrift'', message) (''True'', ''ImmutableTopologyDrift'', message)
                    (''False'', ''NoConflictObserved'', Msg ''the TauGrid-owned topology has immutable spec drift''))\<lparr>tpManaged := managedTopologyStatus topology\<rparr>)
      else None)"

text \<open>What follows once the topology object exists.\<close>

definition finishTopology ::
  "'q::linordered_ab_group_add kube \<Rightarrow> ('q, 'w) api \<Rightarrow> (string list \<Rightarrow> 'w \<Rightarrow> 'w) \<Rightarrow> gotime \<Rightarrow> 'q tauCluster \<Rightarrow> bool \<Rightarrow>
     sectionStatus \<times> bool \<times> kerr option \<Rightarrow> kobj \<Rightarrow> 'w \<Rightarrow> ('q topologyReconcileState \<times> kerr option) \<times> 'w" where
  "finishTopology K A acquired now cluster mutate nodes topology w =
     (let generation = clGeneration cluster; (nodeStatus, nodeDrift, nodeErr) = nodes in
      case nodeErr of
        Some err \<Rightarrow>
          (((topologyState now generation nodeStatus True (''False'', ''TopologyNodeLabelFailed'', MsgErr err) (''True'', ''TopologyNodeLabelDrift'', MsgErr err)
               noOwnershipConflict)\<lparr>tpManaged := managedTopologyStatus topology\<rparr>, Some err), w)
      | None \<Rightarrow>
          let ((p, flavorErr), w') = reconcileDiscoveredGPUFlavors K A acquired cluster mutate w;
              managed = managedTopologyStatus topology @ fpManaged p
          in case flavorErr of
               Some err \<Rightarrow>
                 (((topologyState now generation \<lparr>seObserved = int (length managed), seReady = 0, seDrifted = 1\<rparr> True
                      (''False'', ''GPUFlavorReconcileFailed'', MsgErr err) (''True'', ''GPUFlavorDrift'', MsgErr err) noOwnershipConflict)
                      \<lparr>tpManaged := managed, tpCapacity := fpCapacity p\<rparr>, Some err), w')
             | None \<Rightarrow>
                 let state = (readyTopologyState now generation nodeStatus nodeDrift topology)\<lparr>tpManaged := managed, tpCapacity := fpCapacity p\<rparr>;
                     message = Msg ''Discovered GPU ResourceFlavors need reconciliation''
                 in ((if fpDrifted p
                      then state\<lparr>tpStatus := countDrifted (tpStatus state),
                             tpQueues := condition now conditionQueuesReady ''False'' ''GPUFlavorsNeedReconciliation'' message generation,
                             tpDrift := condition now conditionDriftDetected ''True'' ''GPUFlavorDrift'' message generation\<rparr>
                      else state, None), w'))"

definition reconcileGPUNodeTopology ::
  "'q::linordered_ab_group_add kube \<Rightarrow> ('q, 'w) api \<Rightarrow> (string list \<Rightarrow> 'w \<Rightarrow> 'w) \<Rightarrow> gotime \<Rightarrow> 'q tauCluster \<Rightarrow> bool \<Rightarrow> 'w \<Rightarrow>
     ('q topologyReconcileState \<times> kerr option) \<times> 'w" where
  "reconcileGPUNodeTopology K A acquired now cluster mutate w =
     (let generation = clGeneration cluster in
      case aGet A w topologyKind [] tauGPUNodeTopologyName of
        Inr topology \<Rightarrow>
          (case topologyConflict K now generation topology of
             Some state \<Rightarrow> ((state, None), w)
           | None \<Rightarrow>
               let (nodes, w1) = reconcileNodeTopologyLabels K A mutate w
               in finishTopology K A acquired now cluster mutate nodes topology w1)
      | Inl err \<Rightarrow>
          if \<not> isNotFound err then ((zeroTopologyState, Some (Wrapped ''get Topology %q'' [tauGPUNodeTopologyName] err)), w)
          else let (nodes, w1) = reconcileNodeTopologyLabels K A mutate w in
               if \<not> mutate
               then ((topologyState now generation oneDrifted False
                        (''False'', ''TopologyMissing'', MsgFmt ''Topology %s does not exist'' [tauGPUNodeTopologyName])
                        (''True'', ''TopologyDrift'', MsgFmt ''Topology %s needs reconciliation'' [tauGPUNodeTopologyName]) noOwnershipConflict, None), w1)
               else (case aCreate A desiredTauGPUTopology w1 of
                       (Some e, w2) \<Rightarrow>
                         ((topologyState now generation oneDrifted True (''False'', ''TopologyCreateFailed'', MsgErr e) (''True'', ''TopologyDrift'', MsgErr e)
                             noOwnershipConflict, Some (Wrapped ''create Topology %q'' [tauGPUNodeTopologyName] e)), w2)
                     | (None, w2) \<Rightarrow> finishTopology K A acquired now cluster mutate nodes (createdObject A w2 desiredTauGPUTopology) w2))"

section \<open>The status\<close>

definition normalizeClusterSpec :: "'q tauCluster \<Rightarrow> 'q tauCluster" where
  "normalizeClusterSpec cluster = (if clDefaultQueue cluster = [] then cluster\<lparr>clDefaultQueue := ''jobqueue''\<rparr> else cluster)"

definition mergeClusterCondition :: "gotime \<Rightarrow> string \<Rightarrow> int \<Rightarrow> kcondition list \<Rightarrow> kcondition" where
  "mergeClusterCondition now conditionType generation conditions =
     (case List.find (\<lambda>c. cdStatus c = ''True'') conditions of
        Some c \<Rightarrow> condition now conditionType ''True'' (cdReason c) (cdMessage c) generation
      | None \<Rightarrow>
          (case List.find (\<lambda>c. cdStatus c = ''Unknown'') conditions of
             Some c \<Rightarrow> condition now conditionType ''Unknown'' (cdReason c) (cdMessage c) generation
           | None \<Rightarrow> condition now conditionType ''False'' ''NoConflictObserved'' (Msg ''no topology drift or ownership conflict was found'') generation))"

definition otherClusterConditions :: "gotime \<Rightarrow> int \<Rightarrow> kcondition list" where
  "otherClusterConditions now generation =
     (let c = (\<lambda>t s r m. condition now t s r (Msg m) generation) in
      [c conditionNodesReady ''Unknown'' ''ObservationSkipped'' ''node discovery requires the TauCluster singleton named cluster'',
       c conditionWorkloadProfilesReady ''Unknown'' ''ObservationSkipped'' ''workload profile observation requires the TauCluster singleton named cluster'',
       c conditionMultiKueueReady ''Unknown'' ''ObservationSkipped'' ''MultiKueue observation requires the TauCluster singleton named cluster'',
       c conditionQueuesReady ''Unknown'' ''ObservationPending'' ''queue observation is not enabled'',
       c conditionWorkspacesReady ''Unknown'' ''ObservationPending'' ''workspace aggregation is not enabled'',
       c conditionDriftDetected ''Unknown'' ''ObservationSkipped'' ''node discovery requires the TauCluster singleton named cluster'',
       c conditionOwnershipConflict ''False'' ''NoConflictObserved'' ''no resource ownership conflict was observed'',
       c conditionDeletionBlocked ''False'' ''NoDeletionBlock'' ''no managed resource blocks deletion'',
       c conditionObserveOnly ''True'' ''InvalidSingletonName'' ''cluster resources are not mutated'',
       c conditionReconcilePaused ''True'' ''InvalidSingletonName'' ''TauCluster must be named cluster'',
       c conditionReady ''False'' ''InvalidSingletonName'' ''TauCluster must be named cluster''])"

definition clusterPhase :: "string \<Rightarrow> nodeReconcileState \<Rightarrow> 'q topologyReconcileState \<Rightarrow> string" where
  "clusterPhase mode nodes topology =
     (let degraded = (ncFailed nodes \<or> tpFailed topology) in
      if mode = clusterManagementModeReconcile \<and> \<not> degraded \<and> cdStatus (ncNodes nodes) = ''True'' \<and> cdStatus (tpQueues topology) = ''True''
      then ''Ready'' else if degraded then ''Degraded'' else ''Pending'')"

definition modeConditions :: "gotime \<Rightarrow> int \<Rightarrow> string \<Rightarrow> string \<Rightarrow> kcondition list" where
  "modeConditions now generation mode phase =
     (let c = (\<lambda>t s r m. condition now t s r (Msg m) generation) in
      if mode = clusterManagementModeReconcile
      then [c conditionObserveOnly ''False'' ''ReconcileMode'' ''topology reconciliation is active'',
            c conditionReconcilePaused ''False'' ''TopologyReconciliationActive'' ''node and Kueue topology reconciliation is active'',
            if phase = ''Ready'' then c conditionReady ''True'' ''TopologyReconciliationReady'' ''node topology labels and Kueue topology are reconciled''
            else c conditionReady ''False'' ''PartialReconciliation'' ''node topology labels and Kueue topology are not fully reconciled'']
      else [c conditionObserveOnly ''True'' ''ObserveMode'' ''node topology label drift is observed but not mutated'',
            c conditionReconcilePaused ''False'' ''ObserveMode'' ''reconciliation is not requested'',
            c conditionReady ''False'' ''ObservationPending'' ''queue observation is not enabled''])"

text \<open>The cluster with the status it has to have.\<close>

definition tauClusterStatus ::
  "('q tauCluster \<Rightarrow> string) \<Rightarrow> gotime \<Rightarrow> 'q tauCluster \<Rightarrow> string \<Rightarrow> nodeReconcileState \<Rightarrow> 'q topologyReconcileState \<Rightarrow> profileSetStatus \<times> kcondition \<Rightarrow>
     kcondition \<Rightarrow> 'q tauCluster" where
  "tauClusterStatus specHash now cluster mode nodes topology profiles multiKueue =
     (let generation = clGeneration cluster; hash = specHash (normalizeClusterSpec cluster) in
      if clName cluster \<noteq> tauClusterName
      then cluster\<lparr>clPhase := ''Degraded'', clObservedGeneration := generation, clDesiredStateHash := hash, clNodesStatus := zeroSection,
             clQueuesStatus := zeroSection, clWorkloadProfiles := zeroProfileSet, clDiscoveredCapacity := [], clManagedResources := [],
             clConditions := mergeConditions (clConditions cluster) (otherClusterConditions now generation)\<rparr>
      else let phase = clusterPhase mode nodes topology;
               conditions = [ncNodes nodes, snd profiles, multiKueue, tpQueues topology,
                 condition now conditionWorkspacesReady ''Unknown'' ''ObservationPending'' (Msg ''workspace aggregation is not enabled'') generation,
                 mergeClusterCondition now conditionDriftDetected generation [ncDrift nodes, tpDrift topology],
                 mergeClusterCondition now conditionOwnershipConflict generation [ncOwnership nodes, tpOwnership topology],
                 condition now conditionDeletionBlocked ''False'' ''NoDeletionBlock'' (Msg ''node labels are retained when TauCluster is deleted'') generation] @
                 modeConditions now generation mode phase
           in cluster\<lparr>clPhase := phase, clObservedGeneration := generation, clDesiredStateHash := hash, clNodesStatus := ncStatus nodes,
                clQueuesStatus := tpStatus topology, clWorkloadProfiles := fst profiles, clDiscoveredCapacity := tpCapacity topology,
                clManagedResources := tpManaged topology, clConditions := mergeConditions (clConditions cluster) conditions\<rparr>)"

section \<open>Reconcile\<close>

definition zeroNodeState :: nodeReconcileState where
  "zeroNodeState = \<lparr>ncStatus = zeroSection, ncNodes = zeroCondition, ncDrift = zeroCondition, ncOwnership = zeroCondition, ncFailed = False\<rparr>"

text \<open>What is observed and reconciled of the singleton: the desired status and the errors.\<close>

definition reconcileSingleton ::
  "'q::linordered_ab_group_add kube \<Rightarrow> ('q, 'w) api \<Rightarrow> (string list \<Rightarrow> 'w \<Rightarrow> 'w) \<Rightarrow> ('q tauCluster \<Rightarrow> string) \<Rightarrow> (resolvedWorkloadProfile list \<Rightarrow> string) \<Rightarrow>
     bool \<Rightarrow> gotime \<Rightarrow> 'q tauCluster \<Rightarrow> 'w \<Rightarrow> ('q tauCluster \<times> kerr option) \<times> 'w" where
  "reconcileSingleton K A acquired specHash digest configured now cluster w =
     (let mode = clManagementMode cluster;
          ((nodes, nodeErr), w1) = reconcileNodeLabels K A now cluster (mode = clusterManagementModeReconcile) w;
          ((topology, topologyErr), w2) = reconcileGPUNodeTopology K A acquired now cluster (mode = clusterManagementModeReconcile \<and> \<not> ncFailed nodes) w1;
          (multiKueue, multiKueueErr) = multiKueueReadinessCondition K A configured now (clGeneration cluster) w2;
          (profiles, profileErr) = observeWorkloadProfiles K A digest now
            (cluster\<lparr>clConditions := mergeConditions (clConditions cluster) [multiKueue]\<rparr>) w2
      in ((tauClusterStatus specHash now cluster mode nodes topology profiles multiKueue,
           joinErrors (joinErrors (joinErrors nodeErr topologyErr) profileErr) multiKueueErr), w2))"

text \<open>\<open>read\<close> is the answer to the read of the cluster.\<close>

definition reconcileCluster ::
  "'q::linordered_ab_group_add kube \<Rightarrow> ('q, 'w) api \<Rightarrow> (string list \<Rightarrow> 'w \<Rightarrow> 'w) \<Rightarrow> ('q tauCluster \<Rightarrow> string) \<Rightarrow> (resolvedWorkloadProfile list \<Rightarrow> string) \<Rightarrow>
     bool \<Rightarrow> gotime \<Rightarrow> 'q tauCluster res \<Rightarrow> 'w \<Rightarrow> (duration option \<times> kerr option) \<times> 'w" where
  "reconcileCluster K A acquired specHash digest configured now read w =
     (case read of
        Inl err \<Rightarrow> ((None, ignoreNotFound err), w)
      | Inr cluster \<Rightarrow>
          let ((desired, errs), w') =
                (if clName cluster = tauClusterName then reconcileSingleton K A acquired specHash digest configured now cluster w
                 else ((tauClusterStatus specHash now cluster (clManagementMode cluster) zeroNodeState zeroTopologyState (zeroProfileSet, zeroCondition) zeroCondition,
                        None), w))
          in if withClusterStatus desired cluster = cluster then ((Some nodeResyncPeriod, errs), w')
             else (case aUpdateClusterStatus A (withClusterStatus desired cluster) w' of
                     (Some err, w'') \<Rightarrow> ((None, joinErrors errs (Some err)), w'')
                   | (None, w'') \<Rightarrow> ((Some nodeResyncPeriod, errs), w'')))"

text \<open>Which changes of a node trigger a reconciliation, and of what.\<close>

definition quantitiesEqual :: "(string, 'q) gomap \<Rightarrow> (string, 'q) gomap \<Rightarrow> bool" where
  "quantitiesEqual a b \<longleftrightarrow> sort_key fst a = sort_key fst b"

definition nodeLabelChangePredicate :: "'q::linordered_ab_group_add knode \<Rightarrow> 'q knode \<Rightarrow> bool" where
  "nodeLabelChangePredicate old new \<longleftrightarrow>
     \<not> mapsEqual (ndLabels old) (ndLabels new) \<or> ndProviderID old \<noteq> ndProviderID new \<or>
     capacityNodeEligible old \<noteq> capacityNodeEligible new \<or> \<not> quantitiesEqual (ndAllocatable old) (ndAllocatable new) \<or>
     gm_get 0 (ndCapacity old) torchrunHostSlotResource \<noteq> gm_get 0 (ndCapacity new) torchrunHostSlotResource"

definition enqueueTauClusterSingleton :: "string list" where
  "enqueueTauClusterSingleton = [tauClusterName]"

end
