(* ===== verification/Cluster_Props.thy ===== *)
theory Cluster_Props
  imports Cluster_Controller Tau_Conditions
begin

text \<open>
  Properties of the cluster controller: accepted label rules agree on every node and leave derived labels alone,
  topology labels are stable under the patch that writes them, the reported counts balance, and without the mode
  Reconcile nothing but the status is written.
\<close>

section \<open>Label rules\<close>

lemma validated_rule_labels:
  assumes "validateNodeLabelRules K rules = Inr ()" "rule \<in> set rules" "gm_lookup (nrLabels rule) key = Some v"
  shows "\<not> isDerivedTopologyLabel key" "\<not> hasPrefix key ''kubernetes.io/''" "\<not> hasPrefix key ''node.kubernetes.io/''"
    "kIsQualifiedName K key = []" "kIsValidLabelValue K v = []"
proof -
  from assms(2) obtain i where i: "i < length rules" "rules ! i = rule" by (auto simp: in_set_conv_nth)
  then have "(i, rule) \<in> set (List.enumerate 0 rules)" by (auto simp: in_set_enumerate_eq)
  with assms(1) have "validateNodeLabelRule K (i, rule) () = Inr ()" by (simp add: validateNodeLabelRules_def foldE_check)
  then have "foldE (checkRuleLabel K (showNat i) rule) (sort (gm_keys (nrLabels rule))) () = Inr ()"
    by (auto simp: validateNodeLabelRule_def bindE_Inr_iff Let_def split: if_splits)
  then have "checkRuleLabel K (showNat i) rule key () = Inr ()" using assms(3) by (auto simp: foldE_check gm_key_iff)
  then show "\<not> isDerivedTopologyLabel key" "\<not> hasPrefix key ''kubernetes.io/''" "\<not> hasPrefix key ''node.kubernetes.io/''"
    "kIsQualifiedName K key = []" "kIsValidLabelValue K v = []"
    using assms(3) by (auto simp: checkRuleLabel_def gm_get_def split: list.splits if_splits)
qed

text \<open>Two rules that give every common label the same value.\<close>

definition agree :: "nodeLabelRule \<Rightarrow> nodeLabelRule \<Rightarrow> bool" where
  "agree a b \<longleftrightarrow> (\<forall>key v v'. gm_lookup (nrLabels a) key = Some v \<and> gm_lookup (nrLabels b) key = Some v' \<longrightarrow> v = v')"

lemma agree_sym: "agree a b \<Longrightarrow> agree b a"
  by (auto simp: agree_def)

lemma agree_refl: "agree a a"
  by (auto simp: agree_def)

lemma matching_rules_overlap:
  assumes "ruleMatches node a" "ruleMatches node b"
  shows "vmSizeRulesOverlap (nrVMSizes a) (nrVMSizes b)" "nodeMatchLabelsOverlap (nrMatchLabels a) (nrMatchLabels b)"
proof -
  show "vmSizeRulesOverlap (nrVMSizes a) (nrVMSizes b)"
    using assms by (auto simp: ruleMatches_def vmSizeRulesOverlap_def list_ex_iff)
  have "gm_lookup (ndLabels node) key = Some v" if "(key, v) \<in> set (nrMatchLabels a)" for key v
    using assms(1) that by (auto simp: ruleMatches_def nodeHasLabels_def list_all_iff)
  moreover have "gm_lookup (ndLabels node) key = Some v" if "gm_lookup (nrMatchLabels b) key = Some v" for key v
    using assms(2) gm_lookup_mem [OF that] by (auto simp: ruleMatches_def nodeHasLabels_def list_all_iff)
  ultimately show "nodeMatchLabelsOverlap (nrMatchLabels a) (nrMatchLabels b)"
    by (fastforce simp: nodeMatchLabelsOverlap_def list_all_iff split: option.splits)
qed

lemma checkRulePair_agree:
  assumes "checkRulePair rules (i, j) () = Inr ()" "(nrMatchLabels (rules ! i) = []) = (nrMatchLabels (rules ! j) = [])"
    and "ruleMatches node (rules ! i)" "ruleMatches node (rules ! j)"
  shows "agree (rules ! i) (rules ! j)"
proof -
  let ?a = "nrLabels (rules ! i)" and ?b = "nrLabels (rules ! j)"
  have "foldE (\<lambda>key _. case gm_lookup ?b key of None \<Rightarrow> Inr () | Some right \<Rightarrow>
      if right \<noteq> gm_get [] ?a key
      then Inl (Errorf ''rules %d and %d assign different values for %q (%q and %q)'' [showNat i, showNat j, key, gm_get [] ?a key, right])
      else Inr ()) (sort (gm_keys ?a)) () = Inr ()"
    using assms(1,2) matching_rules_overlap [OF assms(3,4)] by (simp add: checkRulePair_def Let_def)
  then show ?thesis
    by (auto simp: foldE_check agree_def gm_get_def split: option.splits if_splits) (metis gm_key_iff option.distinct(1))
qed

lemma accepted_pair_agrees:
  assumes "validateNodeLabelRuleConflicts rules = Inr ()" and "a \<in> set rules" "b \<in> set rules" "ruleMatches node a" "ruleMatches node b"
    and "(nrMatchLabels a = []) = (nrMatchLabels b = [])"
  shows "agree a b"
proof -
  obtain i j where ij: "i < length rules" "rules ! i = a" "j < length rules" "rules ! j = b" using assms(2,3) by (auto simp: in_set_conv_nth)
  have pair: "agree (rules ! m) (rules ! n)" if "m < n" "n < length rules" "ruleMatches node (rules ! m)" "ruleMatches node (rules ! n)"
    "(nrMatchLabels (rules ! m) = []) = (nrMatchLabels (rules ! n) = [])" for m n
  proof (rule checkRulePair_agree [OF _ that(5,3,4)])
    have "(m, n) \<in> set (concat (map (\<lambda>i. map (Pair i) [i + 1..<length rules]) [0..<length rules]))" using that by (auto intro!: bexI [of _ m])
    then show "checkRulePair rules (m, n) () = Inr ()"
      using assms(1) unfolding validateNodeLabelRuleConflicts_def foldE_check by blast
  qed
  show ?thesis
  proof (cases i j rule: linorder_cases)
    case less
    with pair ij assms(4-6) show ?thesis by blast
  next
    case equal
    with ij agree_refl show ?thesis by metis
  next
    case greater
    with pair ij assms(4-6) agree_sym show ?thesis by metis
  qed
qed

lemma assignRuleLabels:
  assumes "distinct (map fst entries)" "\<And>k v. (k, v) \<in> set entries \<Longrightarrow> gm_lookup desired k = None \<or> gm_lookup desired k = Some v"
  shows "\<exists>labels. foldE (assignRuleLabel node i) entries desired = Inr labels \<and>
    (\<forall>k. gm_lookup labels k = (case gm_lookup entries k of Some v \<Rightarrow> Some v | None \<Rightarrow> gm_lookup desired k))"
  using assms
proof (induction entries arbitrary: desired)
  case (Cons e entries)
  obtain k v where e: "e = (k, v)" by fastforce
  let ?d = "gm_set k v desired"
  have step: "assignRuleLabel node i e desired = Inr ?d"
    using Cons.prems(2) [of k v] e by (auto simp: assignRuleLabel_def)
  have "gm_lookup ?d k' = None \<or> gm_lookup ?d k' = Some v'" if "(k', v') \<in> set entries" for k' v'
    using that Cons.prems e by (force simp: image_iff)
  from Cons.IH [OF _ this] Cons.prems(1) obtain labels where
    l: "foldE (assignRuleLabel node i) entries ?d = Inr labels"
       "\<forall>k. gm_lookup labels k = (case gm_lookup entries k of Some v \<Rightarrow> Some v | None \<Rightarrow> gm_lookup ?d k)" by auto
  have "gm_lookup entries k = None" using Cons.prems(1) e by (force simp: gm_lookup_def map_of_eq_None_iff)
  with l step show ?case by (intro exI [of _ labels]) (auto simp: e split: option.splits)
qed simp

lemma desiredNodeLabels_loop:
  fixes irs :: "(nat \<times> nodeLabelRule) list"
  assumes "\<And>r. r \<in> snd ` set irs \<Longrightarrow> gm_inv (nrLabels r)"
    and "\<And>a b. a \<in> before \<union> {r \<in> snd ` set irs. ruleMatches node r} \<Longrightarrow> b \<in> before \<union> {r \<in> snd ` set irs. ruleMatches node r} \<Longrightarrow> agree a b"
    and "\<And>k v. gm_lookup desired k = Some v \<longleftrightarrow> (\<exists>r \<in> before. gm_lookup (nrLabels r) k = Some v)" "matched \<longleftrightarrow> before \<noteq> {}"
  shows "\<exists>labels. foldE (\<lambda>(i, rule) (desired, matched).
       if \<not> ruleMatches node rule then Inr (desired, matched)
       else bindE (foldE (assignRuleLabel node i) (nrLabels rule) desired) (\<lambda>labels. Inr (labels, True))) irs (desired, matched) =
      Inr (labels, before \<union> {r \<in> snd ` set irs. ruleMatches node r} \<noteq> {}) \<and>
    (\<forall>k v. gm_lookup labels k = Some v \<longleftrightarrow> (\<exists>r \<in> before \<union> {r \<in> snd ` set irs. ruleMatches node r}. gm_lookup (nrLabels r) k = Some v))"
  using assms
proof (induction irs arbitrary: before desired matched)
  case Nil
  then show ?case by simp
next
  case (Cons ir irs)
  obtain i rule where ir: "ir = (i, rule)" by fastforce
  show ?case
  proof (cases "ruleMatches node rule")
    case False
    have eq: "{r \<in> snd ` set (ir # irs). ruleMatches node r} = {r \<in> snd ` set irs. ruleMatches node r}" using False ir by auto
    have inv: "gm_inv (nrLabels r)" if "r \<in> snd ` set irs" for r using Cons.prems(1) that by simp
    have agreed: "agree a b" if "a \<in> before \<union> {r \<in> snd ` set irs. ruleMatches node r}" "b \<in> before \<union> {r \<in> snd ` set irs. ruleMatches node r}" for a b
      using Cons.prems(2) that unfolding eq by blast
    from Cons.IH [OF inv agreed Cons.prems(3,4)] show ?thesis unfolding eq using False by (simp add: ir)
  next
    case True
    have eq: "before \<union> {r \<in> snd ` set (ir # irs). ruleMatches node r} = insert rule before \<union> {r \<in> snd ` set irs. ruleMatches node r}"
      using True ir by auto
    have inv: "gm_inv (nrLabels rule)" using Cons.prems(1) ir by simp
    have fresh: "gm_lookup desired k = None \<or> gm_lookup desired k = Some v" if "(k, v) \<in> set (nrLabels rule)" for k v
    proof (cases "gm_lookup desired k")
      case (Some v')
      then obtain r where r: "r \<in> before" "gm_lookup (nrLabels r) k = Some v'" using Cons.prems(3) by blast
      have "agree r rule" using Cons.prems(2) [of r rule] r(1) eq by auto
      with r(2) that inv have "v' = v" unfolding agree_def by (metis gm_lookup_in)
      with Some show ?thesis by simp
    qed simp
    from assignRuleLabels [of "nrLabels rule" desired node i, OF _ fresh] inv obtain labels where
      l: "foldE (assignRuleLabel node i) (nrLabels rule) desired = Inr labels"
        "\<And>k. gm_lookup labels k = (case gm_lookup (nrLabels rule) k of Some v \<Rightarrow> Some v | None \<Rightarrow> gm_lookup desired k)"
      by (auto simp: gm_inv_def)
    have now: "gm_lookup labels k = Some v \<longleftrightarrow> (\<exists>r \<in> insert rule before. gm_lookup (nrLabels r) k = Some v)" for k v
    proof (cases "gm_lookup (nrLabels rule) k")
      case (Some v')
      have "v = v'" if "r \<in> before" "gm_lookup (nrLabels r) k = Some v" for r
        using Cons.prems(2) [of r rule] that eq Some by (auto simp: agree_def)
      with Some l(2) [of k] show ?thesis by auto
    next
      case None
      with l(2) [of k] Cons.prems(3) show ?thesis by auto
    qed
    have agreed: "agree a b" if "a \<in> insert rule before \<union> {r \<in> snd ` set irs. ruleMatches node r}"
      "b \<in> insert rule before \<union> {r \<in> snd ` set irs. ruleMatches node r}" for a b
      using Cons.prems(2) that unfolding eq by blast
    have "gm_inv (nrLabels r)" if "r \<in> snd ` set irs" for r using Cons.prems(1) that by simp
    from Cons.IH [OF this agreed now, of True] show ?thesis unfolding eq using True by (simp add: ir l(1))
  qed
qed

text \<open>Labels that were assigned keep every entry of every rule that took part.\<close>

lemma assignRuleLabels_extend:
  assumes "foldE (assignRuleLabel node i) entries desired = Inr labels"
  shows "(\<forall>k v. gm_lookup desired k = Some v \<longrightarrow> gm_lookup labels k = Some v) \<and> (\<forall>(k, v) \<in> set entries. gm_lookup labels k = Some v)"
  using assms
proof (induction entries arbitrary: desired)
  case (Cons e entries)
  then obtain d where d: "assignRuleLabel node i e desired = Inr d" "foldE (assignRuleLabel node i) entries d = Inr labels"
    by (auto simp: bindE_Inr_iff)
  have "\<forall>k v. gm_lookup desired k = Some v \<longrightarrow> gm_lookup d k = Some v" "gm_lookup d (fst e) = Some (snd e)"
    using d(1) by (auto simp: assignRuleLabel_def split: option.splits if_splits)
  then show ?case using Cons.IH [OF d(2)] by auto
qed simp

lemma desiredNodeLabels_extend:
  assumes "foldE (\<lambda>(i, rule) (desired, matched).
       if \<not> ruleMatches node rule then Inr (desired, matched)
       else bindE (foldE (assignRuleLabel node i) (nrLabels rule) desired) (\<lambda>labels. Inr (labels, True))) irs (desired, matched) = Inr (labels, m)"
  shows "(\<forall>k v. gm_lookup desired k = Some v \<longrightarrow> gm_lookup labels k = Some v) \<and>
    (\<forall>r \<in> snd ` set irs. ruleMatches node r \<longrightarrow> (\<forall>(k, v) \<in> set (nrLabels r). gm_lookup labels k = Some v))"
  using assms
proof (induction irs arbitrary: desired matched)
  case (Cons ir irs)
  obtain i rule where ir: "ir = (i, rule)" by fastforce
  show ?case
  proof (cases "ruleMatches node rule")
    case False
    then show ?thesis using Cons ir by simp
  next
    case True
    then obtain d where d: "foldE (assignRuleLabel node i) (nrLabels rule) desired = Inr d"
      and rest: "foldE (\<lambda>(i, rule) (desired, matched).
       if \<not> ruleMatches node rule then Inr (desired, matched)
       else bindE (foldE (assignRuleLabel node i) (nrLabels rule) desired) (\<lambda>labels. Inr (labels, True))) irs (d, True) = Inr (labels, m)"
      using Cons.prems ir by (auto simp: bindE_Inr_iff)
    from assignRuleLabels_extend [OF d] Cons.IH [OF rest] show ?thesis by (fastforce simp: ir)
  qed
qed simp

lemma desiredNodeLabels_agreed:
  assumes "desiredNodeLabels node rules = Inr (labels, matched)" "a \<in> set rules" "b \<in> set rules" "ruleMatches node a" "ruleMatches node b"
  shows "agree a b"
proof -
  have s: "snd ` set (List.enumerate 0 rules) = set rules" by (metis list.set_map map_snd_enumerate)
  have entry: "gm_lookup labels k = Some v" if "r \<in> set rules" "ruleMatches node r" "gm_lookup (nrLabels r) k = Some v" for r k v
    using desiredNodeLabels_extend [OF assms(1) [unfolded desiredNodeLabels_def]] gm_lookup_mem [OF that(3)] that(1,2) unfolding s by blast
  show ?thesis
    unfolding agree_def
  proof (intro allI impI)
    fix k v v' assume "gm_lookup (nrLabels a) k = Some v \<and> gm_lookup (nrLabels b) k = Some v'"
    then show "v = v'" using entry [OF assms(2,4)] entry [OF assms(3,5)] by (metis option.inject)
  qed
qed

text \<open>
  C17. The declared node labels are deterministic: when the rules pass both validations, a node's desired labels are
  exactly those of the rules that match it, none of them a derived topology label or a reserved Kubernetes label, each
  with a valid value; or the node is refused, and then two rules that match it give one label different values, of which
  one selects by labels and the other does not. The validation accepts such pairs; two rules that both select by labels,
  or both do not, never conflict on a node.
\<close>

theorem accepted_rules_deterministic:
  assumes "validateNodeLabelRules K rules = Inr ()" "validateNodeLabelRuleConflicts rules = Inr ()" "\<forall>r \<in> set rules. gm_inv (nrLabels r)"
  shows "case desiredNodeLabels node rules of
      Inr (labels, matched) \<Rightarrow>
        (matched \<longleftrightarrow> (\<exists>r \<in> set rules. ruleMatches node r)) \<and>
        (\<forall>key v. gm_lookup labels key = Some v \<longleftrightarrow> (\<exists>r \<in> set rules. ruleMatches node r \<and> gm_lookup (nrLabels r) key = Some v)) \<and>
        (\<forall>key v. gm_lookup labels key = Some v \<longrightarrow> \<not> isDerivedTopologyLabel key \<and> \<not> hasPrefix key ''kubernetes.io/'' \<and>
           \<not> hasPrefix key ''node.kubernetes.io/'' \<and> kIsValidLabelValue K v = [])
    | Inl _ \<Rightarrow> \<exists>a \<in> set rules. \<exists>b \<in> set rules. ruleMatches node a \<and> ruleMatches node b \<and> nrMatchLabels a = [] \<and> nrMatchLabels b \<noteq> [] \<and>
        (\<exists>key v v'. gm_lookup (nrLabels a) key = Some v \<and> gm_lookup (nrLabels b) key = Some v' \<and> v \<noteq> v')"
proof (cases "\<forall>a \<in> set rules. \<forall>b \<in> set rules. ruleMatches node a \<longrightarrow> ruleMatches node b \<longrightarrow> agree a b")
  case True
  have s: "snd ` set (List.enumerate 0 rules) = set rules" by (metis list.set_map map_snd_enumerate)
  have inv: "gm_inv (nrLabels r)" if "r \<in> snd ` set (List.enumerate 0 rules)" for r using assms(3) that by (simp add: s)
  have agreed: "agree a b" if "a \<in> {} \<union> {r \<in> snd ` set (List.enumerate 0 rules). ruleMatches node r}"
    "b \<in> {} \<union> {r \<in> snd ` set (List.enumerate 0 rules). ruleMatches node r}" for a b
    using True that unfolding s by blast
  from desiredNodeLabels_loop [of "List.enumerate 0 rules" "{}" node "[]" False, OF inv agreed] obtain labels where
    "desiredNodeLabels node rules = Inr (labels, {r \<in> set rules. ruleMatches node r} \<noteq> {})"
    and l: "\<And>k v. gm_lookup labels k = Some v \<longleftrightarrow> (\<exists>r \<in> {r \<in> set rules. ruleMatches node r}. gm_lookup (nrLabels r) k = Some v)"
    unfolding s desiredNodeLabels_def by auto
  then show ?thesis using validated_rule_labels [OF assms(1)] by auto
next
  case False
  then obtain a b where ab: "a \<in> set rules" "b \<in> set rules" "ruleMatches node a" "ruleMatches node b" "\<not> agree a b" by blast
  then have mixed: "(nrMatchLabels a = []) \<noteq> (nrMatchLabels b = [])" using accepted_pair_agrees [OF assms(2)] by blast
  obtain key v v' where "gm_lookup (nrLabels a) key = Some v" "gm_lookup (nrLabels b) key = Some v'" "v \<noteq> v'"
    using ab(5) by (auto simp: agree_def)
  then have "\<exists>a \<in> set rules. \<exists>b \<in> set rules. ruleMatches node a \<and> ruleMatches node b \<and> nrMatchLabels a = [] \<and> nrMatchLabels b \<noteq> [] \<and>
        (\<exists>key v v'. gm_lookup (nrLabels a) key = Some v \<and> gm_lookup (nrLabels b) key = Some v' \<and> v \<noteq> v')"
    using ab(1-4) mixed by metis
  moreover obtain err where "desiredNodeLabels node rules = Inl err"
    using desiredNodeLabels_agreed [of node rules _ _ a b] ab by (cases "desiredNodeLabels node rules") auto
  ultimately show ?thesis by simp
qed

definition sizeRules :: "nodeLabelRule list" where
  "sizeRules = [\<lparr>nrMatchLabels = [], nrVMSizes = [''nd96''], nrLabels = [(''tau.azure.com/gpu-class'', ''h100''), (''tier'', ''gpu'')]\<rparr>,
     \<lparr>nrMatchLabels = [], nrVMSizes = [], nrLabels = [(''tier'', ''gpu'')]\<rparr>]"

definition sizeNode :: "int knode" where
  "sizeNode = (exampleNode ''a'' False)\<lparr>ndLabels := [(azureVMSizeLabel, ''nd96'')]\<rparr>"

definition mixedRules :: "nodeLabelRule list" where
  "mixedRules = sizeRules @ [\<lparr>nrMatchLabels = [(''pool'', ''spot'')], nrVMSizes = [], nrLabels = [(''tier'', ''spot'')]\<rparr>]"

theorem accepted_rules_deterministic_witness:
  "(\<exists>labels. desiredNodeLabels sizeNode mixedRules = Inr (labels, True) \<and>
     (\<forall>key v. gm_lookup labels key = Some v \<longleftrightarrow> (\<exists>r \<in> set mixedRules. ruleMatches sizeNode r \<and> gm_lookup (nrLabels r) key = Some v))) \<and>
   (let spot = sizeNode\<lparr>ndLabels := (''pool'', ''spot'') # ndLabels sizeNode\<rparr>
    in isl (desiredNodeLabels spot mixedRules) \<and> (\<exists>a \<in> set mixedRules. \<exists>b \<in> set mixedRules. ruleMatches spot a \<and> ruleMatches spot b \<and>
         (\<exists>key v v'. gm_lookup (nrLabels a) key = Some v \<and> gm_lookup (nrLabels b) key = Some v' \<and> v \<noteq> v')))"
proof -
  let ?spot = "sizeNode\<lparr>ndLabels := (''pool'', ''spot'') # ndLabels sizeNode\<rparr>"
  have valid: "validateNodeLabelRules refKube mixedRules = Inr ()" "validateNodeLabelRuleConflicts mixedRules = Inr ()" by code_simp+
  have inv: "\<forall>r \<in> set mixedRules. gm_inv (nrLabels r)" by (simp add: mixedRules_def sizeRules_def gm_inv_def)
  note rules = accepted_rules_deterministic [OF valid inv]
  have "\<not> isl (desiredNodeLabels sizeNode mixedRules)" "snd (projr (desiredNodeLabels sizeNode mixedRules))" by code_simp+
  then obtain labels where "desiredNodeLabels sizeNode mixedRules = Inr (labels, True)"
    by (cases "desiredNodeLabels sizeNode mixedRules") auto
  with rules [of sizeNode] have first: "\<exists>labels. desiredNodeLabels sizeNode mixedRules = Inr (labels, True) \<and>
     (\<forall>key v. gm_lookup labels key = Some v \<longleftrightarrow> (\<exists>r \<in> set mixedRules. ruleMatches sizeNode r \<and> gm_lookup (nrLabels r) key = Some v))"
    by simp
  have refused: "isl (desiredNodeLabels ?spot mixedRules)" by code_simp
  then obtain err where "desiredNodeLabels ?spot mixedRules = Inl err" by (auto simp: isl_def)
  with rules [of ?spot] have "\<exists>a \<in> set mixedRules. \<exists>b \<in> set mixedRules. ruleMatches ?spot a \<and> ruleMatches ?spot b \<and>
         (\<exists>key v v'. gm_lookup (nrLabels a) key = Some v \<and> gm_lookup (nrLabels b) key = Some v' \<and> v \<noteq> v')" by fastforce
  with first refused show ?thesis by (simp add: Let_def)
qed

section \<open>Observing\<close>

lemma labelNode_observe: "snd (labelNode A rules False node pw) = snd pw"
  by (cases pw) (auto simp: labelNode_def Let_def split: sum.splits)

lemma fold_keeps: "(\<And>x s. x \<in> set xs \<Longrightarrow> f (g x s) = f s) \<Longrightarrow> f (fold g xs s) = f s"
  by (induction xs arbitrary: s) auto

lemma reconcileNodeLabels_observe: "snd (reconcileNodeLabels K A now cluster False w) = w"
proof -
  have "snd (fold (labelNode A rules False) nodes (p, w)) = w" for rules nodes p
  proof -
    have "snd (fold (labelNode A rules False) nodes (p, w)) = snd (p, w)" by (rule fold_keeps) (rule labelNode_observe)
    then show ?thesis by simp
  qed
  then show ?thesis by (simp add: reconcileNodeLabels_def Let_def case_prod_unfold split: sum.split)
qed

lemma reconcileNodeTopologyLabels_observe: "snd (reconcileNodeTopologyLabels K A False w) = w"
  by (simp add: reconcileNodeTopologyLabels_def Let_def split: sum.split)

lemma reconcileDiscoveredGPUFlavor_observe: "snd (reconcileDiscoveredGPUFlavor K A flavor False w) = w"
  by (simp add: reconcileDiscoveredGPUFlavor_def Let_def split: sum.split)

lemma flavorLoop_observe: "snd (flavorLoop K A entries False flavors p w) = w"
proof (induction flavors arbitrary: p)
  case (Cons f flavors)
  obtain x changed err w' where "reconcileDiscoveredGPUFlavor K A f False w = ((x, changed, err), w')" by (metis prod.collapse)
  moreover from this have "w' = w" using reconcileDiscoveredGPUFlavor_observe [of K A f w] by simp
  ultimately show ?case using Cons by (auto simp: Let_def split: option.split)
qed simp

lemma reconcileLegacy_observe: "snd (reconcileLegacyDiscoveredGPUQuota K A name flavors False w) = w"
  by (simp add: reconcileLegacyDiscoveredGPUQuota_def split: sum.split)

lemma queueLoop_observe: "snd (queueLoop K A flavors False names p w) = w"
proof (induction names arbitrary: p)
  case (Cons name names)
  obtain changed err w' where "reconcileLegacyDiscoveredGPUQuota K A name flavors False w = ((changed, err), w')" by (metis prod.collapse)
  moreover from this have "w' = w" using reconcileLegacy_observe [of K A name flavors w] by simp
  ultimately show ?case using Cons by (auto split: option.split)
qed simp

lemma reconcileDiscoveredGPUFlavors_observe: "snd (reconcileDiscoveredGPUFlavors K A acquired cluster False w) = acquired (lockOrder []) w"
proof -
  note loops = flavorLoop_observe [of K A _ _ _ "acquired (lockOrder []) w"] queueLoop_observe [of K A _ _ _ "acquired (lockOrder []) w"]
  have f: "snd (case flavorLoop K A entries False flavors q (acquired (lockOrder []) w) of ((p, Some err), w') \<Rightarrow> ((p, Some err), w') | ((p, None), w') \<Rightarrow> g p w') =
      acquired (lockOrder []) w" if "\<And>p. snd (g p (acquired (lockOrder []) w)) = acquired (lockOrder []) w" for entries flavors q and g :: "_ \<Rightarrow> _ \<Rightarrow> (_ \<times> kerr option) \<times> _"
    using that loops(1) [of entries flavors q] by (cases "flavorLoop K A entries False flavors q (acquired (lockOrder []) w)") (auto split: option.split)
  show ?thesis
    by (auto simp: reconcileDiscoveredGPUFlavors_def Let_def queueLoop_observe intro!: f split: sum.split)
qed

lemma finishTopology_observe:
  "snd (finishTopology K A acquired now cluster False nodes topology w) \<in> {w, acquired (lockOrder []) w}"
proof -
  obtain p err where "reconcileDiscoveredGPUFlavors K A acquired cluster False w = ((p, err), acquired (lockOrder []) w)"
    using reconcileDiscoveredGPUFlavors_observe [of K A acquired cluster w] by (metis prod.collapse)
  then show ?thesis by (auto simp: finishTopology_def Let_def split: prod.split option.split)
qed

lemma reconcileGPUNodeTopology_observe:
  "snd (reconcileGPUNodeTopology K A acquired now cluster False w) \<in> {w, acquired (lockOrder []) w}"
proof -
  obtain nodes where n: "reconcileNodeTopologyLabels K A False w = (nodes, w)"
    using reconcileNodeTopologyLabels_observe [of K A w] by (metis prod.collapse)
  show ?thesis
    using finishTopology_observe [of K A acquired now cluster nodes _ w]
    by (auto simp: reconcileGPUNodeTopology_def Let_def n split: sum.split option.split)
qed

text \<open>When the label rules are not accepted, no node is written and the section has failed.\<close>

lemma reconcileNodeLabels_refused:
  assumes "clLabelRules cluster \<noteq> []"
    and "(\<exists>e. validateNodeLabelRules K (clLabelRules cluster) = Inl e) \<or> (\<exists>e. validateNodeLabelRuleConflicts (clLabelRules cluster) = Inl e)"
  shows "snd (reconcileNodeLabels K A now cluster mutate w) = w" "ncFailed (fst (fst (reconcileNodeLabels K A now cluster mutate w)))"
  using assms by (auto simp: reconcileNodeLabels_def nodeState_def Let_def split: sum.split)

text \<open>
  C13. Unless its mode is Reconcile and its label rules are accepted, a cluster is only observed: one reconciliation
  changes nothing but the status of the cluster, whatever it finds. The state afterwards is the one it read, or the one
  it found when it was given the capacity lock, with at most one status update.
\<close>

theorem observe_writes_status_only:
  assumes "clManagementMode cluster \<noteq> clusterManagementModeReconcile \<or> clName cluster \<noteq> tauClusterName \<or>
    (clLabelRules cluster \<noteq> [] \<and> ((\<exists>e. validateNodeLabelRules K (clLabelRules cluster) = Inl e) \<or>
       (\<exists>e. validateNodeLabelRuleConflicts (clLabelRules cluster) = Inl e)))"
  shows "\<exists>w1 \<in> {w, acquired (lockOrder []) w}. \<exists>desired.
    snd (reconcileCluster K A acquired specHash digest configured now (Inr cluster) w) \<in>
      {w1, snd (aUpdateClusterStatus A (withClusterStatus desired cluster) w1)}"
proof -
  let ?mutate = "clManagementMode cluster = clusterManagementModeReconcile"
  obtain nodes nodeErr w1 where n: "reconcileNodeLabels K A now cluster ?mutate w = ((nodes, nodeErr), w1)" by (metis prod.collapse)
  obtain topology topologyErr w2 where t: "reconcileGPUNodeTopology K A acquired now cluster (?mutate \<and> \<not> ncFailed nodes) w1 = ((topology, topologyErr), w2)"
    by (metis prod.collapse)
  have w2: "w2 \<in> {w, acquired (lockOrder []) w}" if "clName cluster = tauClusterName"
  proof -
    have "w1 = w" "(?mutate \<and> \<not> ncFailed nodes) = False"
      using assms that n reconcileNodeLabels_observe [of K A now cluster w] reconcileNodeLabels_refused [of cluster K A now ?mutate w] by auto
    then show ?thesis using t reconcileGPUNodeTopology_observe [of K A acquired now cluster w] by (simp only:) simp
  qed
  have "\<exists>desired errs. (if clName cluster = tauClusterName then reconcileSingleton K A acquired specHash digest configured now cluster w
      else ((tauClusterStatus specHash now cluster (clManagementMode cluster) zeroNodeState zeroTopologyState (zeroProfileSet, zeroCondition) zeroCondition, None), w)) =
    ((desired, errs), if clName cluster = tauClusterName then w2 else w)"
    by (simp add: reconcileSingleton_def Let_def n t case_prod_unfold)
  then obtain desired errs where d: "(if clName cluster = tauClusterName then reconcileSingleton K A acquired specHash digest configured now cluster w
      else ((tauClusterStatus specHash now cluster (clManagementMode cluster) zeroNodeState zeroTopologyState (zeroProfileSet, zeroCondition) zeroCondition, None), w)) =
    ((desired, errs), if clName cluster = tauClusterName then w2 else w)" by blast
  obtain err w' where u: "aUpdateClusterStatus A (withClusterStatus desired cluster) (if clName cluster = tauClusterName then w2 else w) = (err, w')" by fastforce
  show ?thesis
  proof (rule bexI [of _ "if clName cluster = tauClusterName then w2 else w"], rule exI [of _ desired])
    show "snd (reconcileCluster K A acquired specHash digest configured now (Inr cluster) w) \<in>
      {if clName cluster = tauClusterName then w2 else w,
       snd (aUpdateClusterStatus A (withClusterStatus desired cluster) (if clName cluster = tauClusterName then w2 else w))}"
      unfolding reconcileCluster_def by (simp only: sum.case d Let_def prod.case u) (simp split: option.split)
    show "(if clName cluster = tauClusterName then w2 else w) \<in> {w, acquired (lockOrder []) w}" using w2 by simp
  qed
qed

definition observedCluster :: "int tauCluster" where
  "observedCluster = (zeroCluster tauClusterName ''u0'')\<lparr>clManagementMode := ''Observe'', clGeneration := 1, clLabelRules := sizeRules\<rparr>"

theorem observe_writes_status_only_witness:
  "stNodes (snd (reconcileCluster refKube storeApi (\<lambda>_ w. w) (\<lambda>_. []) (\<lambda>_. []) True 0 (Inr observedCluster) (exampleStore\<lparr>stNodes := [sizeNode]\<rparr>))) = [sizeNode]"
proof -
  have "clManagementMode observedCluster \<noteq> clusterManagementModeReconcile" by code_simp
  then show ?thesis
    using observe_writes_status_only [of observedCluster refKube "exampleStore\<lparr>stNodes := [sizeNode]\<rparr>" "\<lambda>_ w. w" storeApi "\<lambda>_. []" "\<lambda>_. []" True 0]
    by (auto simp: storeApi_def)
qed

section \<open>Topology labels\<close>

definition derivedLabels :: "string list" where
  "derivedLabels = [labelSite, labelTauRegion, labelNetworkDomain, labelAcceleratorDomain, labelInfiniband]"

lemmas label_defs = labelSite_def labelTauRegion_def labelNetworkDomain_def labelAcceleratorDomain_def labelInfiniband_def labelFlexSite_def
  labelFlexNetworkDomain_def labelFlexAcceleratorDomain_def labelRegion_def labelAKSCloud_def labelAKSRegion_def labelAKSAgentPool_def
  labelAzureManaged_def labelAzureManagedCluster_def labelStretchManaged_def azureVMSizeLabel_def

lemma desired_keys: "map fst (fst (desiredNodeTopologyLabels K node)) = derivedLabels"
proof -
  have i: "map fst (isolatedNodeTopologyLabels K node region) = derivedLabels" for region
    by (simp add: isolatedNodeTopologyLabels_def derivedLabels_def)
  have t: "map fst (topologyLabels a b c d e) = derivedLabels" for a b c d e
    by (simp add: topologyLabels_def derivedLabels_def)
  have s: "map fst (fst (siteTopologyLabels K node region baseline domain site)) = derivedLabels" if "map fst baseline = derivedLabels" for region baseline domain site
    using that by (simp add: siteTopologyLabels_def Let_def t)
  show ?thesis
    by (simp add: desiredNodeTopologyLabels_def azureTopologyLabels_def Let_def i t s split: sum.split)
qed

lemma withLabels_other: "key \<notin> set (map fst labels) \<Longrightarrow> gm_lookup (ndLabels (withLabels labels node)) key = gm_lookup (ndLabels node) key"
  by (simp add: withLabels_def gomap.assign_all_other)

lemma withLabels_has: "distinct (map fst labels) \<Longrightarrow> nodeHasLabels (withLabels labels node) labels"
  by (auto simp: nodeHasLabels_def list_all_iff withLabels_def gomap.assign_all_distinct)

lemma derivedLabels_distinct: "distinct derivedLabels"
  by (simp add: derivedLabels_def label_defs)

text \<open>The labels the derivation reads are not the ones it writes.\<close>

lemma desired_reads:
  assumes "\<And>key. key \<notin> set derivedLabels \<Longrightarrow> nodeLabel a key = nodeLabel b key" "ndName a = ndName b" "ndProviderID a = ndProviderID b"
  shows "desiredNodeTopologyLabels K a = desiredNodeTopologyLabels K b"
proof -
  have eqs: "nodeLabel a labelFlexSite = nodeLabel b labelFlexSite" "nodeLabel a labelFlexNetworkDomain = nodeLabel b labelFlexNetworkDomain" "nodeLabel a labelFlexAcceleratorDomain = nodeLabel b labelFlexAcceleratorDomain"
     "nodeLabel a labelRegion = nodeLabel b labelRegion" "nodeLabel a labelAKSCloud = nodeLabel b labelAKSCloud" "nodeLabel a labelAKSRegion = nodeLabel b labelAKSRegion"
     "nodeLabel a labelAKSAgentPool = nodeLabel b labelAKSAgentPool" "nodeLabel a labelAzureManaged = nodeLabel b labelAzureManaged" "nodeLabel a labelAzureManagedCluster = nodeLabel b labelAzureManagedCluster"
     "nodeLabel a labelStretchManaged = nodeLabel b labelStretchManaged" "nodeLabel a azureVMSizeLabel = nodeLabel b azureVMSizeLabel"
    by (rule assms(1), simp add: derivedLabels_def label_defs)+
  show ?thesis
    unfolding desiredNodeTopologyLabels_def siteTopologyLabels_def azureTopologyLabels_def isolatedNodeTopologyLabels_def providerAcceleratorDomain_def
      isAzureNode_def isExternalAzureNode_def invalidLabel_def
    by (simp only: eqs assms(2,3))
qed

text \<open>What Kubernetes promises of label values and what a digest has of its length.\<close>

definition label_laws :: "'q kube \<Rightarrow> bool" where
  "label_laws K \<longleftrightarrow> (\<forall>s. kIsValidLabelValue K s = [] \<longrightarrow> length s \<le> labelValueMaxLength) \<and> (\<forall>s. length (kHash8 K s) = 16)"

lemma refKube_label_laws: "label_laws refKube"
  by (simp add: label_laws_def refKube_def labelValueMaxLength_def labelLimit_def)

definition fitLabels :: "(string, string) gomap \<Rightarrow> bool" where
  "fitLabels m \<longleftrightarrow> (\<forall>v \<in> set (map snd m). length v \<le> labelValueMaxLength)"

lemma fitLabels_get: "fitLabels m \<Longrightarrow> length (gm_get [] m key) \<le> labelValueMaxLength"
  by (force simp: fitLabels_def gm_get_def split: option.split dest: gm_lookup_mem)

lemma desired_lengths:
  assumes "kube_laws K" "label_laws K"
  shows "fitLabels (fst (desiredNodeTopologyLabels K node))"
proof -
  note nd = networkDomainLabel_length [OF assms(1)]
  have iso: "length (isolatedTopologyLabel K prefix name) \<le> labelValueMaxLength" if "length prefix \<le> 46" for prefix name
    using assms(2) that by (simp add: isolatedTopologyLabel_def label_laws_def labelValueMaxLength_def)
  have valid: "kIsValidLabelValue K s = [] \<Longrightarrow> length s \<le> labelValueMaxLength" for s using assms(2) by (simp add: label_laws_def)
  have i: "fitLabels (isolatedNodeTopologyLabels K node region)" if "length region \<le> labelValueMaxLength" for region
    using that by (simp add: fitLabels_def isolatedNodeTopologyLabels_def iso) (simp add: labelValueMaxLength_def)
  have t: "fitLabels (topologyLabels a b c d e)" if "length a \<le> labelValueMaxLength" "length b \<le> labelValueMaxLength" "length c \<le> labelValueMaxLength"
      "length d \<le> labelValueMaxLength" for a b c d e
    using that by (simp add: fitLabels_def topologyLabels_def) (simp add: labelValueMaxLength_def)
  have acc: "length d \<le> labelValueMaxLength" if "providerAcceleratorDomain K node fallback = Inr d" "length fallback \<le> labelValueMaxLength" for fallback d
    using that by (auto simp: providerAcceleratorDomain_def Let_def nd split: if_splits)
  have s: "fitLabels (fst (siteTopologyLabels K node region baseline domain site))"
    if "fitLabels baseline" "length region \<le> labelValueMaxLength" "length domain \<le> labelValueMaxLength" for region baseline domain site
    using that by (simp add: siteTopologyLabels_def Let_def t nd fitLabels_get)
  have a: "fitLabels (azureTopologyLabels K node region baseline domain)"
    if "fitLabels baseline" "length region \<le> labelValueMaxLength" "length domain \<le> labelValueMaxLength" for region baseline domain
    using that by (simp add: azureTopologyLabels_def Let_def t nd fitLabels_get)
  define named where "named = (if nodeLabel node labelRegion = [] then nodeLabel node labelAKSRegion else nodeLabel node labelRegion)"
  define region where "region = (if named = [] then isolatedTopologyLabel K ''unplaced'' (ndName node) else named)"
  define baseline where "baseline = isolatedNodeTopologyLabels K node region"
  have eq: "desiredNodeTopologyLabels K node =
      (if named \<noteq> [] \<and> kIsValidLabelValue K named \<noteq> []
       then (isolatedNodeTopologyLabels K node (isolatedTopologyLabel K ''unplaced'' (ndName node)), Some (Errorf ''node %q has invalid region label'' [ndName node]))
       else case providerAcceleratorDomain K node (gm_get [] baseline labelAcceleratorDomain) of
              Inl err \<Rightarrow> (baseline, Some err)
            | Inr domain \<Rightarrow>
                if nodeLabel node labelFlexSite \<noteq> [] then siteTopologyLabels K node region baseline domain (nodeLabel node labelFlexSite)
                else if isAzureNode node \<and> isExternalAzureNode node
                then (baseline, Some (Errorf ''Azure Flex node %q must set %s'' [ndName node, labelFlexSite]))
                else if \<not> isAzureNode node then (baseline, None)
                else (azureTopologyLabels K node region baseline domain, None))"
    unfolding baseline_def region_def named_def desiredNodeTopologyLabels_def Let_def ..
  show ?thesis
  proof (cases "named \<noteq> [] \<and> kIsValidLabelValue K named \<noteq> []")
    case True
    then show ?thesis by (simp add: eq i iso)
  next
    case False
    then have r: "length region \<le> labelValueMaxLength" using valid iso [of "''unplaced''"] by (auto simp: region_def)
    then have b: "fitLabels baseline" by (simp add: baseline_def i)
    show ?thesis
    proof (cases "providerAcceleratorDomain K node (gm_get [] baseline labelAcceleratorDomain)")
      case (Inl e)
      with False b show ?thesis by (auto simp: eq)
    next
      case (Inr d)
      with acc [OF Inr fitLabels_get [OF b]] False b s [OF b r] a [OF b r] show ?thesis by (auto simp: eq)
    qed
  qed
qed

text \<open>
  C29. The derived topology labels of a node are complete, fit into a label and settle: they are exactly the five
  derived labels, no value is longer than Kubernetes allows, writing them changes no other label, and a node that
  carries them derives the same labels again and is not drifted. A second reconciliation has nothing to write.
\<close>

theorem topology_labels_settle:
  assumes "kube_laws K" "label_laws K" "labels = fst (desiredNodeTopologyLabels K node)"
  shows "map fst labels = derivedLabels \<and> (\<forall>v \<in> set (map snd labels). length v \<le> 63) \<and>
    (\<forall>key. key \<notin> set derivedLabels \<longrightarrow> gm_lookup (ndLabels (withLabels labels node)) key = gm_lookup (ndLabels node) key) \<and>
    desiredNodeTopologyLabels K (withLabels labels node) = desiredNodeTopologyLabels K node \<and> nodeHasLabels (withLabels labels node) labels"
proof -
  have keys: "map fst labels = derivedLabels" using desired_keys assms(3) by simp
  have other: "gm_lookup (ndLabels (withLabels labels node)) key = gm_lookup (ndLabels node) key" if "key \<notin> set derivedLabels" for key
    using withLabels_other [of key labels node] that unfolding keys by simp
  have "desiredNodeTopologyLabels K (withLabels labels node) = desiredNodeTopologyLabels K node"
  proof (rule desired_reads)
    show "nodeLabel (withLabels labels node) key = nodeLabel node key" if "key \<notin> set derivedLabels" for key
      using other [OF that] by (simp add: nodeLabel_def gm_get_def)
  qed (simp_all add: withLabels_def)
  moreover have "nodeHasLabels (withLabels labels node) labels"
    by (rule withLabels_has) (simp only: keys derivedLabels_distinct)
  ultimately show ?thesis
    using keys other desired_lengths [OF assms(1,2), of node] assms(3) by (simp add: fitLabels_def labelValueMaxLength_def)
qed

theorem topology_labels_settle_witness:
  "nodeHasLabels (withLabels (fst (desiredNodeTopologyLabels refKube sizeNode)) sizeNode) (fst (desiredNodeTopologyLabels refKube sizeNode))"
  using topology_labels_settle [OF refKube_laws refKube_label_laws refl, of sizeNode] by blast

section \<open>Counts\<close>

definition balanced :: "sectionStatus \<Rightarrow> bool" where
  "balanced s \<longleftrightarrow> seObserved s = seReady s + seDrifted s \<and> 0 \<le> seReady s \<and> 0 \<le> seDrifted s"

lemma balanced_counts [simp]:
  "balanced s \<Longrightarrow> balanced (countReady (countObserved s))" "balanced s \<Longrightarrow> balanced (countDrifted (countObserved s))" "balanced zeroSection"
  by (simp_all add: balanced_def countReady_def countObserved_def countDrifted_def zeroSection_def)

lemma labelNode_balanced: "balanced (lpStatus (fst pw)) \<Longrightarrow> balanced (lpStatus (fst (labelNode A rules mutate node pw)))"
  by (cases pw) (auto simp: labelNode_def Let_def split: sum.split prod.split)

lemma finishNodeLabels_status [simp]: "ncStatus (finishNodeLabels now generation p) = lpStatus p"
  by (simp add: finishNodeLabels_def nodeState_def Let_def split: option.split)

lemma fold_invariant: "P s \<Longrightarrow> (\<And>x t. P t \<Longrightarrow> P (f x t)) \<Longrightarrow> P (fold f xs s)"
  by (induction xs arbitrary: s) auto

lemma planNode_counts:
  assumes "balanced (tgStatus p)" "int (length (tgPlans p)) \<le> seDrifted (tgStatus p)"
  shows "balanced (tgStatus (planNode K node p)) \<and> int (length (tgPlans (planNode K node p))) \<le> seDrifted (tgStatus (planNode K node p))"
proof -
  obtain desired err where "desiredNodeTopologyLabels K node = (desired, err)" by fastforce
  then show ?thesis
    using assms by (auto simp: planNode_def Let_def balanced_def countDrifted_def countObserved_def countReady_def)
qed

lemma applyPlan_counts:
  "seDrifted (fst (fst acc)) - 1 \<le> seDrifted (fst (fst (applyPlan K A plan acc))) \<and>
   seReady (fst (fst acc)) \<le> seReady (fst (fst (applyPlan K A plan acc))) \<and>
   seReady (fst (fst (applyPlan K A plan acc))) + seDrifted (fst (fst (applyPlan K A plan acc))) = seReady (fst (fst acc)) + seDrifted (fst (fst acc)) \<and>
   seObserved (fst (fst (applyPlan K A plan acc))) = seObserved (fst (fst acc))"
  by (auto simp: applyPlan_def split: prod.split sum.split)

lemma applyPlans_balanced:
  assumes "balanced (fst (fst acc))" "int (length plans) \<le> seDrifted (fst (fst acc))"
  shows "balanced (fst (fst (fold (applyPlan K A) plans acc)))"
  using assms
proof (induction plans arbitrary: acc)
  case (Cons plan plans)
  have "balanced (fst (fst (applyPlan K A plan acc)))" "int (length plans) \<le> seDrifted (fst (fst (applyPlan K A plan acc)))"
    using applyPlan_counts [of acc K A plan] Cons.prems by (auto simp: balanced_def)
  then show ?case using Cons.IH by simp
qed simp

text \<open>
  The reported node counts balance, whatever the API server answers: every observed node is counted either ready
  or drifted, once, and no count is negative, for the declared labels and for the derived ones.
\<close>

theorem node_counts_balanced:
  "balanced (ncStatus (fst (fst (reconcileNodeLabels K A now cluster mutate w)))) \<and>
   balanced (fst (fst (reconcileNodeTopologyLabels K A mutate' w')))"
proof
  have "balanced (lpStatus (fst (fold (labelNode A rules mutate) nodes (\<lparr>lpStatus = zeroSection, lpConflicts = [], lpError = None\<rparr>, w))))" for rules nodes
    by (rule fold_invariant) (simp_all add: labelNode_balanced)
  then show "balanced (ncStatus (fst (fst (reconcileNodeLabels K A now cluster mutate w))))"
    by (simp add: reconcileNodeLabels_def nodeState_def Let_def case_prod_unfold split: sum.split)
  let ?plan = "\<lambda>nodes. fold (planNode K) (sort_key ndName nodes) \<lparr>tgStatus = zeroSection, tgPlans = [], tgError = None\<rparr>"
  have plan: "balanced (tgStatus (?plan nodes)) \<and> int (length (tgPlans (?plan nodes))) \<le> seDrifted (tgStatus (?plan nodes))" for nodes
    by (rule fold_invariant [where P = "\<lambda>p. balanced (tgStatus p) \<and> int (length (tgPlans p)) \<le> seDrifted (tgStatus p)"])
       (use planNode_counts in \<open>auto simp: zeroSection_def\<close>, simp add: balanced_def)
  then have "balanced (fst (fst (fold (applyPlan K A) (tgPlans (?plan nodes)) ((tgStatus (?plan nodes), e), w))))" for nodes e w
    by (intro applyPlans_balanced) simp_all
  with plan show "balanced (fst (fst (reconcileNodeTopologyLabels K A mutate' w')))"
    by (simp add: reconcileNodeTopologyLabels_def Let_def case_prod_unfold split: sum.split)
qed

section \<open>Ready with drift\<close>

lemmas condition_type_names = conditionNodesReady_def conditionWorkloadProfilesReady_def conditionMultiKueueReady_def conditionQueuesReady_def
  conditionWorkspacesReady_def conditionDriftDetected_def conditionOwnershipConflict_def conditionDeletionBlocked_def conditionObserveOnly_def
  conditionReconcilePaused_def conditionReady_def

lemma condition_fields [simp]:
  "cdType (condition now t st r m g) = t" "cdStatus (condition now t st r m g) = st" "cdReason (condition now t st r m g) = r"
  "cdMessage (condition now t st r m g) = m"
  by (simp_all add: condition_def)

lemma merged_condition:
  assumes "distinct (map cdType desired)" "d \<in> set desired"
  shows "\<exists>c \<in> set (mergeConditions existing desired). cdType c = cdType d \<and> cdStatus c = cdStatus d \<and> cdReason c = cdReason d \<and> cdMessage c = cdMessage d"
proof -
  obtain extra where "withCompatibility (byTypeOf existing) desired = desired @ extra" by (rule withCompatibility_append)
  then have "keepTransitionTime (byTypeOf existing) d \<in> set (mergeConditions existing desired)"
    using assms by (simp add: mergeConditions_alt)
  then show ?thesis using sameButTime_fields [OF keepTransitionTime_same] by blast
qed

lemma reconcileNodeLabels_type: "cdType (ncNodes (fst (fst (reconcileNodeLabels K A now cluster mutate w)))) = conditionNodesReady"
  by (simp add: reconcileNodeLabels_def finishNodeLabels_def nodeState_def Let_def case_prod_unfold split: sum.split option.split)

lemma multiKueue_type: "cdType (fst (multiKueueReadinessCondition K A configured now generation w)) = conditionMultiKueueReady"
  by (simp add: multiKueueReadinessCondition_def Let_def case_prod_unfold)

lemma profiles_type: "cdType (snd (fst (observeWorkloadProfiles K A digest now cluster w))) = conditionWorkloadProfilesReady"
  by (simp add: observeWorkloadProfiles_def profilesCondition_def Let_def)

lemma mergeClusterCondition_type [simp]: "cdType (mergeClusterCondition now t generation conditions) = t"
  by (simp add: mergeClusterCondition_def split: option.split)

lemma mergeClusterCondition_True:
  "c \<in> set conditions \<Longrightarrow> cdStatus c = ''True'' \<Longrightarrow> cdStatus (mergeClusterCondition now t generation conditions) = ''True''"
  by (auto simp: mergeClusterCondition_def find_None_iff split: option.split)

text \<open>The status of a singleton whose sections report these conditions.\<close>

lemma tauClusterStatus_ready:
  assumes "clName cluster = tauClusterName" "\<not> ncFailed nodes" "\<not> tpFailed topology"
    and "cdStatus (ncNodes nodes) = ''True''" "cdStatus (tpQueues topology) = ''True''" "cdStatus (tpDrift topology) = ''True''"
    and types: "cdType (ncNodes nodes) = conditionNodesReady" "cdType (tpQueues topology) = conditionQueuesReady"
      "cdType (snd profiles) = conditionWorkloadProfilesReady" "cdType multiKueue = conditionMultiKueueReady"
  shows "let published = tauClusterStatus specHash now cluster clusterManagementModeReconcile nodes topology profiles multiKueue in
    clPhase published = ''Ready'' \<and> clQueuesStatus published = tpStatus topology \<and>
    (\<exists>c \<in> set (clConditions published). cdType c = conditionReady \<and> cdStatus c = ''True'' \<and>
       cdMessage c = Msg ''node topology labels and Kueue topology are reconciled'') \<and>
    (\<exists>c \<in> set (clConditions published). cdType c = conditionDriftDetected \<and> cdStatus c = ''True'')"
proof -
  let ?g = "clGeneration cluster"
  let ?drift = "mergeClusterCondition now conditionDriftDetected ?g [ncDrift nodes, tpDrift topology]"
  define conditions where "conditions = [ncNodes nodes, snd profiles, multiKueue, tpQueues topology,
      condition now conditionWorkspacesReady ''Unknown'' ''ObservationPending'' (Msg ''workspace aggregation is not enabled'') ?g, ?drift,
      mergeClusterCondition now conditionOwnershipConflict ?g [ncOwnership nodes, tpOwnership topology],
      condition now conditionDeletionBlocked ''False'' ''NoDeletionBlock'' (Msg ''node labels are retained when TauCluster is deleted'') ?g] @
      modeConditions now ?g clusterManagementModeReconcile ''Ready''"
  have phase: "clusterPhase clusterManagementModeReconcile nodes topology = ''Ready''" using assms(2-5) by (simp add: clusterPhase_def)
  have dist: "distinct (map cdType conditions)"
    by (simp add: conditions_def modeConditions_def types Let_def) (simp add: condition_type_names)
  let ?ready = "condition now conditionReady ''True'' ''TopologyReconciliationReady'' (Msg ''node topology labels and Kueue topology are reconciled'') ?g"
  have "?ready \<in> set conditions" "?drift \<in> set conditions" by (simp_all add: conditions_def modeConditions_def Let_def)
  moreover have "cdStatus ?drift = ''True''" using assms(6) by (intro mergeClusterCondition_True [of "tpDrift topology"]) simp_all
  ultimately have "\<exists>c \<in> set (mergeConditions (clConditions cluster) conditions). cdType c = conditionReady \<and> cdStatus c = ''True'' \<and>
       cdMessage c = Msg ''node topology labels and Kueue topology are reconciled''"
    "\<exists>c \<in> set (mergeConditions (clConditions cluster) conditions). cdType c = conditionDriftDetected \<and> cdStatus c = ''True''"
    using merged_condition [OF dist, of ?ready "clConditions cluster"] merged_condition [OF dist, of ?drift "clConditions cluster"] by auto
  moreover have "tauClusterStatus specHash now cluster clusterManagementModeReconcile nodes topology profiles multiKueue =
      cluster\<lparr>clPhase := ''Ready'', clObservedGeneration := ?g, clDesiredStateHash := specHash (normalizeClusterSpec cluster), clNodesStatus := ncStatus nodes,
        clQueuesStatus := tpStatus topology, clWorkloadProfiles := fst profiles, clDiscoveredCapacity := tpCapacity topology,
        clManagedResources := tpManaged topology, clConditions := mergeConditions (clConditions cluster) conditions\<rparr>"
    unfolding tauClusterStatus_def conditions_def phase Let_def by (simp add: assms(1))
  ultimately show ?thesis by (simp add: Let_def)
qed

text \<open>
  C32. Ready does not exclude drift. For every cluster singleton in mode Reconcile, every API server and every state: when
  the declared labels are reconciled, the topology exists without conflict or was just created, the pass over the topology
  labels ends without an error but leaves nodes counted as drifted, and the discovered flavors are not drifted, then the
  cluster is reported Ready, with the message that node labels and topology are reconciled, while the drifted nodes are
  counted in the same status and DriftDetected is true. The phase looks at the two ready conditions only.
\<close>

theorem cluster_ready_despite_drift:
  assumes "clName cluster = tauClusterName" "clManagementMode cluster = clusterManagementModeReconcile"
    and nodes: "reconcileNodeLabels K A now cluster True w = ((nodes, nodeErr), w1)" "\<not> ncFailed nodes" "cdStatus (ncNodes nodes) = ''True''"
    and labels: "reconcileNodeTopologyLabels K A True w1 = ((status, drift, None), w2)" "0 < seDrifted status"
    and topology: "aGet A w1 topologyKind [] tauGPUNodeTopologyName = Inr existing \<and> topologyConflict K now (clGeneration cluster) existing = None \<and> w3 = w2 \<or>
      (\<exists>e. aGet A w1 topologyKind [] tauGPUNodeTopologyName = Inl e \<and> isNotFound e \<and> aCreate A desiredTauGPUTopology w2 = (None, w3))"
    and flavors: "reconcileDiscoveredGPUFlavors K A acquired cluster True w3 = ((p, None), w4)" "\<not> fpDrifted p"
    and run: "reconcileSingleton K A acquired specHash digest configured now cluster w = ((published, err), w')"
  shows "clPhase published = ''Ready'' \<and> seDrifted (clQueuesStatus published) = seDrifted status \<and>
    (\<exists>c \<in> set (clConditions published). cdType c = conditionReady \<and> cdStatus c = ''True'' \<and>
       cdMessage c = Msg ''node topology labels and Kueue topology are reconciled'') \<and>
    (\<exists>c \<in> set (clConditions published). cdType c = conditionDriftDetected \<and> cdStatus c = ''True'')"
proof -
  have drift: "drift" using labels by (auto simp: reconcileNodeTopologyLabels_def Let_def split: sum.splits prod.splits if_splits)
  have finish: "finishTopology K A acquired now cluster True (status, drift, None) t w3 =
      (((readyTopologyState now (clGeneration cluster) status True t)\<lparr>tpManaged := managedTopologyStatus t @ fpManaged p, tpCapacity := fpCapacity p\<rparr>, None), w4)" for t
    using drift flavors by (simp add: finishTopology_def Let_def)
  obtain t where t: "reconcileGPUNodeTopology K A acquired now cluster True w1 =
      (((readyTopologyState now (clGeneration cluster) status True t)\<lparr>tpManaged := managedTopologyStatus t @ fpManaged p, tpCapacity := fpCapacity p\<rparr>, None), w4)"
    using topology
  proof (elim disjE exE conjE)
    assume got: "aGet A w1 topologyKind [] tauGPUNodeTopologyName = Inr existing" "topologyConflict K now (clGeneration cluster) existing = None" "w3 = w2"
    then show thesis using that [of existing] finish [of existing] labels(1) by (simp add: reconcileGPUNodeTopology_def Let_def)
  next
    fix e assume "aGet A w1 topologyKind [] tauGPUNodeTopologyName = Inl e" "isNotFound e" "aCreate A desiredTauGPUTopology w2 = (None, w3)"
    then show thesis using that finish labels(1) by (simp add: reconcileGPUNodeTopology_def Let_def)
  qed
  let ?topology = "(readyTopologyState now (clGeneration cluster) status True t)\<lparr>tpManaged := managedTopologyStatus t @ fpManaged p, tpCapacity := fpCapacity p\<rparr>"
  let ?kueue = "fst (multiKueueReadinessCondition K A configured now (clGeneration cluster) w4)"
  let ?profiles = "fst (observeWorkloadProfiles K A digest now (cluster\<lparr>clConditions := mergeConditions (clConditions cluster) [?kueue]\<rparr>) w4)"
  have published: "published = tauClusterStatus specHash now cluster clusterManagementModeReconcile nodes ?topology ?profiles ?kueue"
    using run nodes(1,2) t by (auto simp: reconcileSingleton_def assms(2) Let_def case_prod_unfold)
  have ready: "tpStatus ?topology = \<lparr>seObserved = 1 + seObserved status, seReady = 1 + seReady status, seDrifted = seDrifted status\<rparr>"
    "\<not> tpFailed ?topology" "cdStatus (tpQueues ?topology) = ''True''" "cdStatus (tpDrift ?topology) = ''True''" "cdType (tpQueues ?topology) = conditionQueuesReady"
    by (simp_all add: readyTopologyState_def topologyState_def)
  have type: "cdType (ncNodes nodes) = conditionNodesReady" using reconcileNodeLabels_type [of K A now cluster True w] nodes(1) by simp
  have types: "cdType (snd ?profiles) = conditionWorkloadProfilesReady" "cdType ?kueue = conditionMultiKueueReady"
    by (rule profiles_type, rule multiKueue_type)
  from tauClusterStatus_ready [OF assms(1) nodes(2) ready(2) nodes(3) ready(3,4) type ready(5) types, of specHash now]
  show ?thesis unfolding published Let_def ready(1) by simp
qed

definition slotNode :: "int knode" where
  "slotNode = sizeNode\<lparr>ndAllocatable := [(nvidiaGPUResourceName, 8)], ndCapacity := [(nvidiaGPUResourceName, 8)]\<rparr>"

definition slotCluster :: "int tauCluster" where
  "slotCluster = (zeroCluster tauClusterName ''u0'')\<lparr>clManagementMode := clusterManagementModeReconcile, clGeneration := 1\<rparr>"

definition slotStore :: "int store" where
  "slotStore = exampleStore\<lparr>stNodes := [slotNode]\<rparr>"

theorem cluster_ready_despite_drift_witness:
  "clPhase (fst (fst (reconcileSingleton refKube storeApi (\<lambda>_ w. w) (\<lambda>_. []) (\<lambda>_. []) True 0 slotCluster slotStore))) = ''Ready'' \<and>
   seDrifted (clQueuesStatus (fst (fst (reconcileSingleton refKube storeApi (\<lambda>_ w. w) (\<lambda>_. []) (\<lambda>_. []) True 0 slotCluster slotStore)))) = 1"
proof -
  let ?run = "reconcileSingleton refKube storeApi (\<lambda>_ w. w) (\<lambda>_. []) (\<lambda>_. []) True 0 slotCluster slotStore"
  let ?nodes = "reconcileNodeLabels refKube storeApi 0 slotCluster True slotStore"
  have nodes: "\<not> ncFailed (fst (fst ?nodes))" "cdStatus (ncNodes (fst (fst ?nodes))) = ''True''" "snd ?nodes = slotStore" by code_simp+
  then have first: "?nodes = ((fst (fst ?nodes), snd (fst ?nodes)), slotStore)" by (metis prod.collapse)
  let ?labels = "reconcileNodeTopologyLabels refKube storeApi True slotStore"
  have labels: "snd (snd (fst ?labels)) = None" "seDrifted (fst (fst ?labels)) = 1" by code_simp+
  then have second: "?labels = ((fst (fst ?labels), fst (snd (fst ?labels)), None), snd ?labels)" by (metis prod.collapse)
  let ?w3 = "snd (aCreate storeApi desiredTauGPUTopology (snd ?labels))"
  have "isl (aGet storeApi slotStore topologyKind [] tauGPUNodeTopologyName)" "isNotFound (projl (aGet storeApi slotStore topologyKind [] tauGPUNodeTopologyName))"
    "fst (aCreate storeApi desiredTauGPUTopology (snd ?labels)) = None" by code_simp+
  then have topology: "\<exists>e. aGet storeApi slotStore topologyKind [] tauGPUNodeTopologyName = Inl e \<and> isNotFound e \<and>
      aCreate storeApi desiredTauGPUTopology (snd ?labels) = (None, ?w3)" by (metis sum.collapse(1) prod.collapse)
  let ?flavors = "reconcileDiscoveredGPUFlavors refKube storeApi (\<lambda>_ w. w) slotCluster True ?w3"
  have flavors: "snd (fst ?flavors) = None" "\<not> fpDrifted (fst (fst ?flavors))" by code_simp+
  then have third: "?flavors = ((fst (fst ?flavors), None), snd ?flavors)" by (metis prod.collapse)
  have cluster: "clName slotCluster = tauClusterName" "clManagementMode slotCluster = clusterManagementModeReconcile" by code_simp+
  have "?run = ((fst (fst ?run), snd (fst ?run)), snd ?run)" by simp
  from cluster_ready_despite_drift [OF cluster first nodes(1,2) second _ disjI2 [OF topology] third flavors(2) this] labels(2)
  show ?thesis by simp
qed

end
