(* ===== verification/Flavor_Props.thy ===== *)
theory Flavor_Props
  imports Cluster_Flavors
begin

text \<open>
  The quotas that discovery gives to a queue: the number of GPUs of a flavor only grows, the host slots follow the
  nodes, and nothing else of the queue changes.
\<close>

section \<open>Quotas of a flavor\<close>

definition quotaIn :: "'q kube \<Rightarrow> json list \<Rightarrow> string \<Rightarrow> ('q res) option" where
  "quotaIn K resources name =
     (case List.find (entryNamed name) resources of
        Some (JMap m) \<Rightarrow> Some (kParseQuantity K (sprint (gm_get JNull m ''nominalQuota'')))
      | _ \<Rightarrow> None)"

definition grown :: "bool \<Rightarrow> ('q::linorder res) option \<Rightarrow> 'q \<Rightarrow> 'q" where
  "grown growOnly old desired = (case old of Some (Inr q) \<Rightarrow> if growOnly then max q desired else desired | _ \<Rightarrow> desired)"

lemma entryNamed_map: "entryNamed name raw \<Longrightarrow> \<exists>m. raw = JMap m \<and> gm_lookup m ''name'' = Some (JString name)"
  by (cases raw) (auto simp: entryNamed_def asMap_def split: option.splits)

lemma entryNamed_quota [simp]: "entryNamed n (JMap (gm_set ''nominalQuota'' v m)) = entryNamed n (JMap m)"
  by (simp add: entryNamed_def)

lemma entryNamed_unique: "entryNamed a raw \<Longrightarrow> entryNamed b raw \<Longrightarrow> a = b"
  by (auto dest!: entryNamed_map)

lemma quotaIn_Cons: "quotaIn K (raw # rs) n = (if entryNamed n raw then quotaIn K [raw] n else quotaIn K rs n)"
  by (simp add: quotaIn_def)

lemma quotaIn_entry [simp]:
  assumes "kube_laws K"
  shows "quotaIn K [quotaEntry K name q] name = Some (Inr q)" "n \<noteq> name \<Longrightarrow> quotaIn K [quotaEntry K name q] n = None"
  using kube_lawsD(1) [OF assms] by (simp_all add: quotaIn_def quotaEntry_def entryNamed_def gm_get_def)

lemma ensureResourceQuota_spec:
  assumes "kube_laws K" "ensureResourceQuota K resources name desired growOnly = Inr (out, changed)"
  shows "quotaIn K out name = Some (Inr (grown growOnly (quotaIn K resources name) desired)) \<and>
    (\<forall>n. n \<noteq> name \<longrightarrow> quotaIn K out n = quotaIn K resources n) \<and> (\<not> changed \<longrightarrow> out = resources)"
  using assms(2)
proof (induction resources arbitrary: out changed)
  case Nil
  then show ?case using assms(1) by (auto simp: grown_def) (simp_all add: quotaIn_def)
next
  case (Cons raw resources)
  show ?case
  proof (cases "entryNamed name raw")
    case False
    with Cons.prems obtain rest where r: "ensureResourceQuota K resources name desired growOnly = Inr (rest, changed)" "out = raw # rest"
      by (auto simp: bindE_Inr_iff)
    from Cons.IH [OF r(1)] show ?thesis
      using False Cons.prems by (simp only: r(2) quotaIn_Cons [of K raw rest] quotaIn_Cons [of K raw resources]) simp
  next
    case True
    then obtain m where m: "raw = JMap m" "gm_lookup m ''name'' = Some (JString name)" by (auto dest: entryNamed_map)
    with True Cons.prems obtain current where c: "kParseQuantity K (sprint (gm_get JNull m ''nominalQuota'')) = Inr current"
      "(if current = desired \<or> growOnly \<and> current > desired then (out, changed) = (raw # resources, False)
        else (out, changed) = (JMap (gm_set ''nominalQuota'' (JString (kQuantityString K desired)) m) # resources, True))"
      by (auto simp: bindE_Inr_iff split: if_splits)
    have old: "quotaIn K (raw # resources) name = Some (Inr current)" using True m c(1) by (simp add: quotaIn_def)
    have other: "\<not> entryNamed n raw" if "n \<noteq> name" for n using entryNamed_unique True that by blast
    show ?thesis
    proof (cases "current = desired \<or> growOnly \<and> current > desired")
      case True
      with c(2) old show ?thesis by (auto simp: grown_def)
    next
      case False
      with c(2) have out: "out = JMap (gm_set ''nominalQuota'' (JString (kQuantityString K desired)) m) # resources" "changed" by auto
      have "quotaIn K out name = Some (Inr desired)"
        using True m kube_lawsD(1) [OF assms(1)] by (simp add: out quotaIn_def gm_get_def)
      moreover have "grown growOnly (Some (Inr current)) desired = desired" using False by (auto simp: grown_def max_def)
      moreover have "quotaIn K out n = quotaIn K (raw # resources) n" if "n \<noteq> name" for n
        using other [OF that] m by (simp add: out quotaIn_def)
      ultimately show ?thesis using old out(2) by simp
    qed
  qed
qed

section \<open>Flavors of a queue\<close>

lemma find_replaceFirst:
  assumes "List.find P xs = Some x" "P y"
  shows "List.find P (replaceFirst P y xs) = Some y"
proof -
  have "List.find P (takeWhile (\<lambda>x. \<not> P x) xs @ y # zs) = Some y" for zs
    using assms(2) by (induction xs) auto
  then show ?thesis by (simp add: replaceFirst_def)
qed

lemma find_replaceFirst_other:
  assumes "List.find P xs = Some x" "\<not> Q y" "\<not> Q x"
  shows "List.find Q (replaceFirst P y xs) = List.find Q xs"
  using assms by (induction xs) (auto simp: replaceFirst_def split: if_splits)

definition flavorResourcesOf :: "'q kube \<Rightarrow> json list \<Rightarrow> string \<Rightarrow> (json list) option" where
  "flavorResourcesOf K flavors name =
     (case List.find (entryNamed name) flavors of
        Some (JMap flavor) \<Rightarrow> (case sliceOrEmpty K flavor ''resources'' of Inr resources \<Rightarrow> Some resources | Inl _ \<Rightarrow> None)
      | _ \<Rightarrow> None)"

text \<open>
  C30. Discovery never takes GPUs from a queue: for a flavor the queue already has, the new GPU quota is the greater of
  the old and the discovered one, the quota of host slots is exactly the discovered one, every other resource of the
  flavor and every other flavor of the queue keep their quota, and a queue that needs no change is left as it is.
\<close>

theorem discovered_quota_monotone:
  assumes "kube_laws K" "ensureQueueFlavorCapacity K flavors d = Inr (flavors', changed)"
    and "flavorResourcesOf K flavors (dfName d) = Some resources" "quotaIn K resources nvidiaGPUResourceName = Some (Inr old)"
  shows "(\<exists>resources'. flavorResourcesOf K flavors' (dfName d) = Some resources' \<and>
      quotaIn K resources' nvidiaGPUResourceName = Some (Inr (max old (dfCapacity d))) \<and>
      quotaIn K resources' torchrunHostSlotResource = Some (Inr (dfHostSlots d)) \<and>
      (\<forall>n. n \<noteq> nvidiaGPUResourceName \<and> n \<noteq> torchrunHostSlotResource \<longrightarrow> quotaIn K resources' n = quotaIn K resources n)) \<and>
    (\<forall>f. f \<noteq> dfName d \<longrightarrow> flavorResourcesOf K flavors' f = flavorResourcesOf K flavors f) \<and> (\<not> changed \<longrightarrow> flavors' = flavors)"
proof -
  from assms(3) obtain flavor where f: "List.find (entryNamed (dfName d)) flavors = Some (JMap flavor)" "sliceOrEmpty K flavor ''resources'' = Inr resources"
    by (auto simp: flavorResourcesOf_def split: option.splits json.splits sum.splits)
  with assms(2) obtain gpus c1 slots c2 where
    g: "ensureResourceQuota K resources nvidiaGPUResourceName (dfCapacity d) True = Inr (gpus, c1)" and
    s: "ensureResourceQuota K gpus torchrunHostSlotResource (dfHostSlots d) False = Inr (slots, c2)" and
    out: "(flavors', changed) = (if \<not> c1 \<and> \<not> c2 then (flavors, False)
      else (replaceFirst (entryNamed (dfName d)) (JMap (gm_set ''resources'' (JList slots) flavor)) flavors, True))"
    by (auto simp: ensureQueueFlavorCapacity_def bindE_Inr_iff split: if_splits)
  have ne: "nvidiaGPUResourceName \<noteq> torchrunHostSlotResource" by (simp add: nvidiaGPUResourceName_def torchrunHostSlotResource_def)
  note gs = ensureResourceQuota_spec [OF assms(1) g] and ss = ensureResourceQuota_spec [OF assms(1) s]
  have quotas: "quotaIn K slots nvidiaGPUResourceName = Some (Inr (max old (dfCapacity d)))"
    "quotaIn K slots torchrunHostSlotResource = Some (Inr (dfHostSlots d))"
    "\<forall>n. n \<noteq> nvidiaGPUResourceName \<and> n \<noteq> torchrunHostSlotResource \<longrightarrow> quotaIn K slots n = quotaIn K resources n"
    using gs ss ne assms(4) by (auto simp: grown_def split: option.split sum.split)
  show ?thesis
  proof (cases "\<not> c1 \<and> \<not> c2")
    case True
    with gs ss have "slots = resources" by simp
    with True out quotas assms(3) show ?thesis by simp
  next
    case False
    let ?new = "JMap (gm_set ''resources'' (JList slots) flavor)"
    from f(1) have named: "entryNamed (dfName d) (JMap flavor)" by (auto simp: find_Some_iff)
    have named': "entryNamed n ?new = entryNamed n (JMap flavor)" for n by (simp add: entryNamed_def)
    have slice: "sliceOrEmpty K (gm_set ''resources'' (JList slots) flavor) ''resources'' = Inr slots"
      using kube_slice_key [OF assms(1), of "gm_set ''resources'' (JList slots) flavor" "''resources''" slots] by (simp add: sliceOrEmpty_def)
    have out': "flavors' = replaceFirst (entryNamed (dfName d)) ?new flavors" "changed" using False out by auto
    have "flavorResourcesOf K flavors' (dfName d) = Some slots"
      using find_replaceFirst [OF f(1), of ?new] named named' by (simp add: flavorResourcesOf_def out' slice)
    moreover have "flavorResourcesOf K flavors' n = flavorResourcesOf K flavors n" if "n \<noteq> dfName d" for n
    proof -
      have "\<not> entryNamed n (JMap flavor)" using entryNamed_unique named that by blast
      then show ?thesis
        using find_replaceFirst_other [OF f(1), of "entryNamed n" ?new] named' by (simp add: flavorResourcesOf_def out')
    qed
    ultimately show ?thesis using quotas out' by blast
  qed
qed

definition h100Queue :: "json list" where
  "h100Queue = [JMap [(''name'', JString ''gpu-h100''), (''resources'', JList [quotaEntry refKube nvidiaGPUResourceName 16, quotaEntry refKube ''cpu'' 64])]]"

definition h100Flavor :: "int discoveredGPUFlavor" where
  "h100Flavor = \<lparr>dfName = ''gpu-h100'', dfClass = ''h100'', dfCapacity = 8, dfHostSlots = 1, dfNodeLabels = []\<rparr>"

lemma h100_observed:
  "flavorResourcesOf refKube h100Queue (dfName h100Flavor) = Some [quotaEntry refKube nvidiaGPUResourceName 16, quotaEntry refKube ''cpu'' 64]"
  "quotaIn refKube [quotaEntry refKube nvidiaGPUResourceName 16, quotaEntry refKube ''cpu'' 64] nvidiaGPUResourceName = Some (Inr 16)"
  "\<exists>out. ensureQueueFlavorCapacity refKube h100Queue h100Flavor = Inr (out, True)"
proof -
  show "flavorResourcesOf refKube h100Queue (dfName h100Flavor) = Some [quotaEntry refKube nvidiaGPUResourceName 16, quotaEntry refKube ''cpu'' 64]"
    "quotaIn refKube [quotaEntry refKube nvidiaGPUResourceName 16, quotaEntry refKube ''cpu'' 64] nvidiaGPUResourceName = Some (Inr 16)" by code_simp+
  have "case ensureQueueFlavorCapacity refKube h100Queue h100Flavor of Inr (_, changed) \<Rightarrow> changed | Inl _ \<Rightarrow> False" by code_simp
  then show "\<exists>out. ensureQueueFlavorCapacity refKube h100Queue h100Flavor = Inr (out, True)" by (auto split: sum.splits)
qed

theorem discovered_quota_monotone_witness:
  "\<exists>out resources. ensureQueueFlavorCapacity refKube h100Queue h100Flavor = Inr (out, True) \<and>
     flavorResourcesOf refKube out ''gpu-h100'' = Some resources \<and> quotaIn refKube resources nvidiaGPUResourceName = Some (Inr 16) \<and>
     quotaIn refKube resources torchrunHostSlotResource = Some (Inr 1)"
proof -
  from h100_observed(3) obtain out where out: "ensureQueueFlavorCapacity refKube h100Queue h100Flavor = Inr (out, True)" by blast
  from discovered_quota_monotone [OF refKube_laws out h100_observed(1,2)] out show ?thesis by (auto simp: h100Flavor_def)
qed

end
