(* ===== verification/Profile_Props.thy ===== *)
theory Profile_Props
  imports Profile_Provider Tau_Conditions "HOL-Library.Multiset"
begin

text \<open>
  The canonical form of workload profiles: normalising a validated profile changes nothing, so a snapshot decodes
  to itself with the same hash, and what a client selects is ready and authorised.
\<close>

section \<open>Names\<close>

text \<open>
  What the validation of Kubernetes names promises: an accepted name is not empty, consists of lower-case letters,
  digits, dashes and dots, and begins and ends with a letter or a digit.
\<close>

definition name_laws :: "'q kube \<Rightarrow> bool" where
  "name_laws K \<longleftrightarrow> (\<forall>s. kIsDNS1123Subdomain K s = [] \<longrightarrow> dnsName s)"

lemma refKube_name_laws: "name_laws refKube"
  by (simp add: name_laws_def refKube_def)

lemma dnsAlnum_plain: "dnsAlnum c \<Longrightarrow> \<not> asciiSpace c \<and> c \<noteq> CHR ''.''"
  by (auto simp: dnsAlnum_def asciiSpace_def)

lemma dnsChar_plain:
  "dnsAlnum c \<or> c = CHR ''-'' \<or> c = CHR ''.'' \<Longrightarrow> lowerChar c = c \<and> c \<noteq> CHR ''_'' \<and> c \<noteq> CHR '' ''"
  by (auto simp: dnsAlnum_def lowerChar_def)

lemma trim_both_ends:
  assumes "s \<noteq> []" "\<not> P (hd s)" "\<not> P (last s)"
  shows "rev (dropWhile P (rev (dropWhile P s))) = s"
proof -
  have "dropWhile P s = s" using assms(1,2) by (cases s) auto
  moreover have "dropWhile P (rev s) = rev s" using assms(1,3) by (cases "rev s") (auto simp: last_rev hd_rev)
  ultimately show ?thesis by simp
qed

lemma dnsName_normal: "dnsName s \<Longrightarrow> normalizeName s = s"
proof -
  assume d: "dnsName s"
  have chars: "\<And>c. c \<in> set s \<Longrightarrow> lowerChar c = c \<and> c \<noteq> CHR ''_'' \<and> c \<noteq> CHR '' ''"
    using d dnsChar_plain by (auto simp: dnsName_def list_all_iff)
  have ends: "s \<noteq> []" "\<not> asciiSpace (hd s)" "\<not> asciiSpace (last s)" "hd s \<noteq> CHR ''.''" "last s \<noteq> CHR ''.''"
    using d dnsAlnum_plain by (auto simp: dnsName_def)
  have "map f s = s" if "\<And>c. c \<in> set s \<Longrightarrow> f c = c" for f
    using that by (simp add: map_idI)
  with chars show ?thesis
    by (simp add: normalizeName_def trimSpace_def trimChar_def toLower_def replaceChar_def trim_both_ends ends)
qed

lemma validName_normal:
  assumes "name_laws K" "validateDNSName K t s = Inr ()"
  shows "normalizeName s = s" "s \<noteq> []"
  using assms dnsName_normal by (auto simp: validateDNSName_def name_laws_def Let_def split: if_splits)

section \<open>Canonical lists\<close>

lemma sort_key_lex_idem:
  fixes f :: "'a \<Rightarrow> 'b::linorder" and g :: "'a \<Rightarrow> 'c::linorder"
  shows "sort_key f (sort_key g (sort_key f (sort_key g xs))) = sort_key f (sort_key g xs)"
proof (rule properties_for_sort_key)
  let ?ys = "sort_key f (sort_key g xs)"
  show "filter (\<lambda>x. f k = f x) ?ys = filter (\<lambda>x. f k = f x) (sort_key g ?ys)" for k
  proof -
    have "filter (\<lambda>x. f k = f x) ?ys = sort_key g (filter (\<lambda>x. f k = f x) xs)"
      using sort_key_stable [of f "f k" "sort_key g xs"] by (simp add: eq_commute [of "f k"] filter_sort)
    then show ?thesis by (simp add: filter_sort sort_key_id_if_sorted)
  qed
qed auto

definition canonicalSet :: "string list \<Rightarrow> bool" where
  "canonicalSet xs \<longleftrightarrow> sorted xs \<and> distinct xs \<and> [] \<notin> set xs"

lemma normalizeSet_canonical: "canonicalSet (normalizeSet f xs)"
proof -
  define step where "step = (\<lambda>raw out. let value = f raw in if value = [] \<or> value \<in> set out then out else out @ [value])"
  have "distinct (fold step xs out) \<and> [] \<notin> set (fold step xs out)" if "distinct out \<and> [] \<notin> set out" for out
    using that
  proof (induction xs arbitrary: out)
    case (Cons x xs)
    from Cons.prems have "distinct (step x out) \<and> [] \<notin> set (step x out)" by (auto simp: step_def Let_def)
    with Cons.IH show ?case by simp
  qed simp
  from this [of "[]"] show ?thesis by (simp add: canonicalSet_def normalizeSet_def step_def)
qed

lemma normalizeSet_fixed:
  assumes "canonicalSet xs" "\<And>x. x \<in> set xs \<Longrightarrow> f x = x"
  shows "normalizeSet f xs = xs"
proof -
  define step where "step = (\<lambda>raw out. let value = f raw in if value = [] \<or> value \<in> set out then out else out @ [value])"
  have "fold step ys out = out @ ys" if "distinct (out @ ys)" "[] \<notin> set ys" "\<And>y. y \<in> set ys \<Longrightarrow> f y = y" for ys out
    using that
  proof (induction ys arbitrary: out)
    case (Cons y ys)
    have "step y out = out @ [y]" using Cons.prems by (auto simp: step_def Let_def)
    then show ?case using Cons.IH [of "out @ [y]"] Cons.prems by auto
  qed simp
  from this [of "[]" xs] assms show ?thesis
    by (simp add: normalizeSet_def step_def canonicalSet_def sorted_sort_id)
qed

lemma normalizeLocalQueues_result:
  assumes "normalizeLocalQueues queues = Inr out"
  shows "out = sort_key rlNamespace (sort_key rlName (map normalizeLocalQueue queues))"
    and "distinct (map queueKey out)"
proof -
  define step where "step = (\<lambda>raw (out, seen).
         let item = normalizeLocalQueue raw in
         if queueKey item \<in> set seen then Inl (Errorf ''duplicate resolved LocalQueue %s/%s'' [rlNamespace item, rlName item])
         else Inr (out @ [item], queueKey item # seen))"
  have "fst t = out @ map normalizeLocalQueue xs \<and> distinct (map queueKey (fst t))"
    if "foldE step xs (out, seen) = Inr t" "distinct (map queueKey out)" "set seen = set (map queueKey out)" for xs out seen t
    using that
  proof (induction xs arbitrary: out seen)
    case (Cons x xs)
    let ?q = "normalizeLocalQueue x"
    from Cons.prems have q: "queueKey ?q \<notin> set seen" "foldE step xs (out @ [?q], queueKey ?q # seen) = Inr t"
      by (auto simp: step_def Let_def bindE_Inr_iff split: if_splits)
    have "distinct (map queueKey (out @ [?q]))" "set (queueKey ?q # seen) = set (map queueKey (out @ [?q]))"
      using q(1) Cons.prems(2,3) by auto
    from Cons.IH [OF q(2) this] show ?case unfolding list.map append.assoc append.simps .
  qed auto
  note step = this
  from assms obtain t where t: "foldE step queues ([], []) = Inr t" "out = sort_key rlNamespace (sort_key rlName (fst t))"
    by (auto simp: normalizeLocalQueues_def step_def bindE_Inr_iff)
  from step [OF t(1)] have f: "fst t = map normalizeLocalQueue queues" "distinct (map queueKey (fst t))" by auto
  from f t(2) show "out = sort_key rlNamespace (sort_key rlName (map normalizeLocalQueue queues))" by simp
  have "mset (map queueKey out) = mset (map queueKey (fst t))" by (simp add: t(2))
  with f(2) show "distinct (map queueKey out)" by (metis mset_eq_imp_distinct_iff)
qed

lemma normalizeLocalQueues_fixed:
  assumes "out = sort_key rlNamespace (sort_key rlName out)" "distinct (map queueKey out)"
    and "\<And>q. q \<in> set out \<Longrightarrow> normalizeLocalQueue q = q"
  shows "normalizeLocalQueues out = Inr out"
proof -
  define step where "step = (\<lambda>raw (out, seen).
         let item = normalizeLocalQueue raw in
         if queueKey item \<in> set seen then Inl (Errorf ''duplicate resolved LocalQueue %s/%s'' [rlNamespace item, rlName item])
         else Inr (out @ [item], queueKey item # seen))"
  have "\<exists>seen'. foldE step xs (ys, seen) = Inr (ys @ xs, seen')"
    if "distinct (map queueKey (ys @ xs))" "set seen = set (map queueKey ys)" "\<And>q. q \<in> set xs \<Longrightarrow> normalizeLocalQueue q = q" for xs ys seen
    using that
  proof (induction xs arbitrary: ys seen)
    case (Cons x xs)
    then have "step x (ys, seen) = Inr (ys @ [x], queueKey x # seen)" by (auto simp: step_def Let_def)
    then show ?case using Cons.IH [of "ys @ [x]" "queueKey x # seen"] Cons.prems by simp
  qed simp
  from this [of "[]" out "[]"] assms(2,3) obtain seen' where "foldE step out ([], []) = Inr (out, seen')" by auto
  then show ?thesis using assms(1) by (simp add: normalizeLocalQueues_def step_def)
qed

section \<open>Canonical profiles\<close>

lemma NormalizeWorkloadProfile_rp [simp]:
  "rpLocalQueues (NormalizeWorkloadProfile p) = rpLocalQueues p" "rpClusterQueues (NormalizeWorkloadProfile p) = rpClusterQueues p"
  "rpResourceFlavors (NormalizeWorkloadProfile p) = rpResourceFlavors p" "rpTopologies (NormalizeWorkloadProfile p) = rpTopologies p"
  "rpWorkloadPriorityClasses (NormalizeWorkloadProfile p) = rpWorkloadPriorityClasses p"
  "rpPodPriorityClasses (NormalizeWorkloadProfile p) = rpPodPriorityClasses p" "rpConditions (NormalizeWorkloadProfile p) = rpConditions p"
  by (simp_all add: NormalizeWorkloadProfile_def)

text \<open>The declared part of a profile, which is all that its validation looks at.\<close>

definition declaredPart :: "resolvedWorkloadProfile \<Rightarrow> workloadProfile" where
  "declaredPart p = workloadProfile.truncate p"

lemma NormalizeWorkloadProfile_declared:
  "NormalizeWorkloadProfile p = p \<longleftrightarrow> NormalizeWorkloadProfile (declaredPart p) = declaredPart p"
  by (cases p) (simp add: NormalizeWorkloadProfile_def declaredPart_def workloadProfile.defs)

lemma ValidateWorkloadProfile_declared: "ValidateWorkloadProfile K p = ValidateWorkloadProfile K (declaredPart p)"
proof -
  have "p \<noteq> NormalizeWorkloadProfile p \<longleftrightarrow> declaredPart p \<noteq> NormalizeWorkloadProfile (declaredPart p)"
    using NormalizeWorkloadProfile_declared [of p] by metis
  moreover have "wpName (declaredPart p) = wpName p" "wpApplicability (declaredPart p) = wpApplicability p"
    "wpGPUsPerWorker (declaredPart p) = wpGPUsPerWorker p" "wpWorkerCount (declaredPart p) = wpWorkerCount p"
    "wpMode (declaredPart p) = wpMode p" "wpPlacement (declaredPart p) = wpPlacement p"
    "wpDefaultLocalQueue (declaredPart p) = wpDefaultLocalQueue p" "wpExecutionTarget (declaredPart p) = wpExecutionTarget p"
    "wpPriorities (declaredPart p) = wpPriorities p"
    by (simp_all add: declaredPart_def workloadProfile.defs)
  ultimately show ?thesis by (simp add: ValidateWorkloadProfile_def)
qed

lemma declaredPart_update [simp]:
  "declaredPart (p\<lparr>rpLocalQueues := a, rpClusterQueues := b, rpResourceFlavors := c, rpTopologies := d, rpWorkloadPriorityClasses := e,
     rpPodPriorityClasses := f\<rparr>) = declaredPart p"
  "declaredPart (p\<lparr>rpConditions := cs\<rparr>) = declaredPart p"
  by (simp_all add: declaredPart_def workloadProfile.defs)

lemma declaredPart_fields:
  "declaredPart (p\<lparr>rpLocalQueues := a, rpClusterQueues := b\<rparr>) = declaredPart p"
  by (simp add: declaredPart_def workloadProfile.defs)

text \<open>A profile in canonical form, whatever its conditions.\<close>

definition resolvedNames :: "resolvedWorkloadProfile \<Rightarrow> (string list) list" where
  "resolvedNames p = [rpClusterQueues p, rpResourceFlavors p, rpTopologies p, rpWorkloadPriorityClasses p, rpPodPriorityClasses p]"

definition canonicalProfile :: "'q kube \<Rightarrow> resolvedWorkloadProfile \<Rightarrow> bool" where
  "canonicalProfile K p \<longleftrightarrow>
     ValidateWorkloadProfile K (declaredPart p) = Inr () \<and>
     rpLocalQueues p = sort_key rlNamespace (sort_key rlName (rpLocalQueues p)) \<and> distinct (map queueKey (rpLocalQueues p)) \<and>
     (\<forall>q \<in> set (rpLocalQueues p). normalizeLocalQueue q = q \<and> validateLocalQueue K q () = Inr ()) \<and>
     (\<forall>names \<in> set (resolvedNames p). canonicalSet names \<and> (\<forall>s \<in> set names. normalizeName s = s \<and> kIsDNS1123Subdomain K s = []))"

lemma canonicalProfile_conditions [simp]: "canonicalProfile K (p\<lparr>rpConditions := cs\<rparr>) = canonicalProfile K p"
  by (simp add: canonicalProfile_def resolvedNames_def)

lemma validateDNSName_Inr: "validateDNSName K t s = Inr () \<longleftrightarrow> s \<noteq> [] \<and> kIsDNS1123Subdomain K s = []"
  by (simp add: validateDNSName_def Let_def)

lemma canonicalProfile_fixed:
  assumes "canonicalProfile K p"
  shows "NormalizeResolvedWorkloadProfile K p = Inr p"
proof -
  have v: "ValidateWorkloadProfile K p = Inr ()"
    using assms ValidateWorkloadProfile_declared by (metis canonicalProfile_def)
  then have n: "NormalizeWorkloadProfile p = p"
    by (auto simp: ValidateWorkloadProfile_def split: if_splits)
  have q: "normalizeLocalQueues (rpLocalQueues p) = Inr (rpLocalQueues p)"
    by (rule normalizeLocalQueues_fixed) (use assms in \<open>auto simp: canonicalProfile_def\<close>)
  have s: "normalizeSet normalizeName names = names" if "names \<in> set (resolvedNames p)" for names
    by (rule normalizeSet_fixed) (use assms that in \<open>auto simp: canonicalProfile_def\<close>)
  have d: "foldE (\<lambda>value _. validateDNSName K t value) names () = Inr ()" if "names \<in> set (resolvedNames p)" for t names
    unfolding foldE_check validateDNSName_Inr using assms that by (auto simp: canonicalProfile_def canonicalSet_def)
  have l: "foldE (validateLocalQueue K) (rpLocalQueues p) () = Inr ()"
    unfolding foldE_check using assms by (simp add: canonicalProfile_def)
  show ?thesis
    using s d by (simp add: NormalizeResolvedWorkloadProfile_def NormalizeAndValidateWorkloadProfile_def n v q l resolvedNames_def)
qed

lemma NormalizeResolved_canonical:
  assumes "name_laws K" "NormalizeResolvedWorkloadProfile K p = Inr out"
  shows "canonicalProfile K out" "rpConditions out = rpConditions p" "declaredPart out = NormalizeWorkloadProfile (declaredPart p)"
proof -
  let ?i = "NormalizeWorkloadProfile p"
  from assms(2) obtain queues where v: "ValidateWorkloadProfile K ?i = Inr ()"
    and q: "normalizeLocalQueues (rpLocalQueues p) = Inr queues"
    and out: "out = ?i\<lparr>rpLocalQueues := queues, rpClusterQueues := normalizeSet normalizeName (rpClusterQueues p),
             rpResourceFlavors := normalizeSet normalizeName (rpResourceFlavors p), rpTopologies := normalizeSet normalizeName (rpTopologies p),
             rpWorkloadPriorityClasses := normalizeSet normalizeName (rpWorkloadPriorityClasses p),
             rpPodPriorityClasses := normalizeSet normalizeName (rpPodPriorityClasses p)\<rparr>"
    and l: "foldE (validateLocalQueue K) queues () = Inr ()"
    and d: "\<And>names. names \<in> set (resolvedNames out) \<Longrightarrow> \<exists>t. foldE (\<lambda>value _. validateDNSName K t value) names () = Inr ()"
    by (auto simp: NormalizeResolvedWorkloadProfile_def NormalizeAndValidateWorkloadProfile_def bindE_Inr_iff Let_def resolvedNames_def)
  have names: "normalizeName s = s \<and> kIsDNS1123Subdomain K s = []" if "names \<in> set (resolvedNames out)" "s \<in> set names" for names s
    using d [OF that(1)] that(2) validName_normal [OF assms(1)] by (auto simp: foldE_check validateDNSName_Inr)
  have canonical: "canonicalSet names" if "names \<in> set (resolvedNames out)" for names
    using that normalizeSet_canonical by (auto simp: out resolvedNames_def)
  have valid: "validateLocalQueue K q () = Inr ()" if "q \<in> set queues" for q
    using l that by (simp add: foldE_check)
  then have queue: "normalizeLocalQueue q = q" if "q \<in> set queues" for q
    using validName_normal [OF assms(1)] that by (force simp: normalizeLocalQueue_def validateLocalQueue_def bindE_Inr_iff)
  have dec: "ValidateWorkloadProfile K (declaredPart out) = Inr ()"
    using v ValidateWorkloadProfile_declared [of K ?i] by (simp add: out)
  have sorted: "queues = sort_key rlNamespace (sort_key rlName queues)"
    using normalizeLocalQueues_result(1) [OF q] sort_key_lex_idem by metis
  have rp: "rpLocalQueues out = queues" by (simp add: out)
  show "canonicalProfile K out"
    unfolding canonicalProfile_def rp
    by (intro conjI ballI dec sorted normalizeLocalQueues_result(2) [OF q] queue valid canonical) (use names in blast)+
  show "rpConditions out = rpConditions p" by (simp add: out)
  show "declaredPart out = NormalizeWorkloadProfile (declaredPart p)"
    by (simp add: out) (simp add: declaredPart_def NormalizeWorkloadProfile_def workloadProfile.defs)
qed

section \<open>Sets of profiles\<close>

text \<open>
  The loop over the profiles succeeds when each can be normalised and the names differ; its result is sorted by
  name.
\<close>

lemma collectProfiles_result:
  assumes "collectProfiles K entry profiles = Inr out" "\<And>p. wpName (entry p) = wpName p"
  shows "\<exists>ps. list_all2 (\<lambda>raw p. NormalizeResolvedWorkloadProfile K raw = Inr p) profiles ps \<and>
           distinct (map wpName ps) \<and> out = sort_key wpName (map entry ps)"
proof -
  define step where "step = (\<lambda>raw out.
         bindE (mapErr (Wrapped ''profile %q'' [wpName raw]) (NormalizeResolvedWorkloadProfile K raw)) (\<lambda>p.
           if wpName p \<in> set (map wpName out) then Inl (Errorf ''duplicate workload profile %q'' [wpName p])
           else Inr (out @ [entry p])))"
  have "\<exists>ps. list_all2 (\<lambda>raw p. NormalizeResolvedWorkloadProfile K raw = Inr p) xs ps \<and>
          distinct (map wpName acc @ map wpName ps) \<and> t = acc @ map entry ps"
    if "foldE step xs acc = Inr t" "distinct (map wpName acc)" for xs acc t
    using that
  proof (induction xs arbitrary: acc)
    case (Cons x xs)
    then obtain p where p: "NormalizeResolvedWorkloadProfile K x = Inr p" "wpName p \<notin> set (map wpName acc)"
      "foldE step xs (acc @ [entry p]) = Inr t"
      by (auto simp: step_def bindE_Inr_iff split: if_splits)
    then have "distinct (map wpName (acc @ [entry p]))" using Cons.prems(2) assms(2) by simp
    from Cons.IH [OF p(3) this] obtain ps where
      "list_all2 (\<lambda>raw p. NormalizeResolvedWorkloadProfile K raw = Inr p) xs ps"
      "distinct (map wpName (acc @ [entry p]) @ map wpName ps)" "t = (acc @ [entry p]) @ map entry ps" by auto
    then show ?case using p(1) assms(2) by (intro exI [of _ "p # ps"]) simp
  qed simp
  note loop = this
  from assms(1) obtain t where t: "foldE step profiles [] = Inr t" "out = sort_key wpName t"
    by (auto simp: collectProfiles_def step_def bindE_Inr_iff)
  from loop [OF t(1)] t(2) show ?thesis by auto
qed

lemma collectProfiles_success:
  assumes "list_all2 (\<lambda>raw p. NormalizeResolvedWorkloadProfile K raw = Inr p) profiles ps" "distinct (map wpName ps)"
    and "\<And>p. wpName (entry p) = wpName p"
  shows "collectProfiles K entry profiles = Inr (sort_key wpName (map entry ps))"
proof -
  define step where "step = (\<lambda>raw out.
         bindE (mapErr (Wrapped ''profile %q'' [wpName raw]) (NormalizeResolvedWorkloadProfile K raw)) (\<lambda>p.
           if wpName p \<in> set (map wpName out) then Inl (Errorf ''duplicate workload profile %q'' [wpName p])
           else Inr (out @ [entry p])))"
  have "foldE step xs acc = Inr (acc @ map entry ys)"
    if "list_all2 (\<lambda>raw p. NormalizeResolvedWorkloadProfile K raw = Inr p) xs ys" "distinct (map wpName acc @ map wpName ys)" for xs ys acc
    using that
  proof (induction xs ys arbitrary: acc rule: list_all2_induct)
    case (Cons x xs y ys)
    then have "step x acc = Inr (acc @ [entry y])" by (simp add: step_def)
    then show ?case using Cons.IH [of "acc @ [entry y]"] Cons.prems assms(3) by simp
  qed simp
  from this [of profiles ps "[]"] assms(1,2) show ?thesis by (simp add: collectProfiles_def step_def)
qed

lemma sort_key_map_key:
  assumes "\<And>x. k (f x) = k x"
  shows "sort_key k (map f xs) = map f (sort_key k xs)"
proof -
  have "insort_key k (f x) (map f ys) = map f (insort_key k x ys)" for x ys
    by (induction ys) (auto simp: assms)
  then show ?thesis by (induction xs) auto
qed

lemma hashInput_name [simp]: "wpName (resolvedProfileHashInput p) = wpName p" and sortConditions_name [simp]: "wpName (sortConditions p) = wpName p"
  by (simp_all add: resolvedProfileHashInput_def sortConditions_def)

lemma hashInput_sortConditions [simp]: "resolvedProfileHashInput (sortConditions p) = resolvedProfileHashInput p"
  by (simp add: resolvedProfileHashInput_def sortConditions_def)

text \<open>A set of profiles in canonical form.\<close>

definition canonicalProfiles :: "'q kube \<Rightarrow> resolvedWorkloadProfile list \<Rightarrow> bool" where
  "canonicalProfiles K ps \<longleftrightarrow> (\<forall>p \<in> set ps. canonicalProfile K p \<and> sortConditions p = p) \<and> distinct (map wpName ps) \<and> sorted (map wpName ps)"

lemma canonicalProfiles_fixed:
  assumes "canonicalProfiles K ps"
  shows "normalizeResolvedProfiles K ps = Inr ps" "ProfileSetHash K digest ps = Inr (digest (map resolvedProfileHashInput ps))"
proof -
  have all: "list_all2 (\<lambda>raw p. NormalizeResolvedWorkloadProfile K raw = Inr p) ps ps"
    using assms canonicalProfile_fixed by (auto simp: canonicalProfiles_def list_all2_same)
  have c: "map sortConditions ps = ps" using assms by (simp add: canonicalProfiles_def map_idI)
  have d: "distinct (map wpName ps)" and s: "sort_key wpName ps = ps"
    using assms by (simp_all add: canonicalProfiles_def sort_key_id_if_sorted)
  show "normalizeResolvedProfiles K ps = Inr ps"
    using collectProfiles_success [OF all d, of sortConditions] by (simp add: normalizeResolvedProfiles_def c s)
  show "ProfileSetHash K digest ps = Inr (digest (map resolvedProfileHashInput ps))"
    using collectProfiles_success [OF all d, of resolvedProfileHashInput] by (simp add: ProfileSetHash_def sort_key_map_key s)
qed

lemma canonicalProfile_sortConditions [simp]: "canonicalProfile K (sortConditions p) = canonicalProfile K p"
  by (simp add: sortConditions_def)

lemma list_all2_origin: "list_all2 R xs ys \<Longrightarrow> y \<in> set ys \<Longrightarrow> \<exists>x \<in> set xs. R x y"
  by (induction xs ys rule: list_all2_induct) auto

lemma normalizeResolvedProfiles_canonical:
  assumes "name_laws K" "normalizeResolvedProfiles K profiles = Inr ps"
  shows "canonicalProfiles K ps" "ProfileSetHash K digest profiles = ProfileSetHash K digest ps"
    and "\<And>p. p \<in> set ps \<Longrightarrow> \<exists>raw \<in> set profiles. \<exists>q. NormalizeResolvedWorkloadProfile K raw = Inr q \<and> p = sortConditions q"
proof -
  from collectProfiles_result [OF assms(2) [unfolded normalizeResolvedProfiles_def]] obtain qs where
    qs: "list_all2 (\<lambda>raw p. NormalizeResolvedWorkloadProfile K raw = Inr p) profiles qs" "distinct (map wpName qs)"
      "ps = sort_key wpName (map sortConditions qs)" by auto
  have ps: "ps = map sortConditions (sort_key wpName qs)" by (simp add: qs(3) sort_key_map_key)
  have raw: "\<exists>raw \<in> set profiles. NormalizeResolvedWorkloadProfile K raw = Inr q" if "q \<in> set qs" for q
    using that by (rule list_all2_origin [OF qs(1)])
  have "canonicalProfile K q" if "q \<in> set qs" for q
    using raw [OF that] NormalizeResolved_canonical(1) [OF assms(1)] by auto
  moreover have "sortConditions (sortConditions q) = sortConditions q" for q
    by (simp add: sortConditions_def sort_key_id_if_sorted)
  moreover have names: "map wpName ps = map wpName (sort_key wpName qs)" by (simp add: ps comp_def)
  moreover have "distinct (map wpName (sort_key wpName qs))"
    using qs(2) mset_eq_imp_distinct_iff [of "map wpName (sort_key wpName qs)" "map wpName qs"] by simp
  ultimately show "canonicalProfiles K ps"
    unfolding canonicalProfiles_def names by (simp add: ps)
  then show "ProfileSetHash K digest profiles = ProfileSetHash K digest ps"
    using collectProfiles_success [OF qs(1,2), of resolvedProfileHashInput]
    by (simp add: canonicalProfiles_fixed) (simp add: ProfileSetHash_def sort_key_map_key ps comp_def)
  show "\<exists>raw \<in> set profiles. \<exists>q. NormalizeResolvedWorkloadProfile K raw = Inr q \<and> p = sortConditions q" if "p \<in> set ps" for p
  proof -
    from that obtain q where "q \<in> set qs" "p = sortConditions q" by (auto simp: ps)
    with raw show ?thesis by blast
  qed
qed

text \<open>The loops of the hash and of the normalisation fail on the same sets.\<close>

lemma ProfileSetHash_defined:
  assumes "ProfileSetHash K digest profiles = Inr h"
  shows "\<exists>ps. normalizeResolvedProfiles K profiles = Inr ps"
proof -
  from assms obtain out where "collectProfiles K resolvedProfileHashInput profiles = Inr out"
    by (auto simp: ProfileSetHash_def bindE_Inr_iff)
  from collectProfiles_result [OF this] obtain qs where
    "list_all2 (\<lambda>raw p. NormalizeResolvedWorkloadProfile K raw = Inr p) profiles qs" "distinct (map wpName qs)" by auto
  from collectProfiles_success [OF this, of sortConditions] show ?thesis by (auto simp: normalizeResolvedProfiles_def)
qed

section \<open>Snapshots\<close>

lemma NewProfileSetSnapshot_Inr:
  assumes "NewProfileSetSnapshot K digest generation profiles = Inr snapshot"
  obtains ps where "\<not> generation < 1" "normalizeResolvedProfiles K profiles = Inr ps" "validateSnapshotReadiness generation ps = Inr ()"
    "ProfileSetHash K digest ps = Inr (snHash snapshot)"
    "snapshot = \<lparr>snAPIVersion = profileSnapshotAPIVersion, snKind = profileSnapshotKind, snGeneration = generation, snHash = snHash snapshot, snProfiles = ps\<rparr>"
  using assms by (auto simp: NewProfileSetSnapshot_def bindE_Inr_iff split: if_splits)

lemma snapshot_served:
  assumes "name_laws K" "NewProfileSetSnapshot K digest generation profiles = Inr snapshot"
  shows "profileSetFromSnapshot K digest snapshot =
    Inr \<lparr>seGeneration = generation, seHash = snHash snapshot, seProfiles = snProfiles snapshot, seSource = ProfileSourceSnapshot\<rparr>"
proof -
  from assms(2) obtain ps where f: "\<not> generation < 1" "normalizeResolvedProfiles K profiles = Inr ps"
    "validateSnapshotReadiness generation ps = Inr ()" "ProfileSetHash K digest ps = Inr (snHash snapshot)"
    and s: "snapshot = \<lparr>snAPIVersion = profileSnapshotAPIVersion, snKind = profileSnapshotKind, snGeneration = generation,
      snHash = snHash snapshot, snProfiles = ps\<rparr>" by (rule NewProfileSetSnapshot_Inr)
  note c = canonicalProfiles_fixed(1) [OF normalizeResolvedProfiles_canonical(1) [OF assms(1) f(2)]]
  show ?thesis by (subst s, subst s) (use f c in \<open>simp add: profileSetFromSnapshot_def\<close>)
qed

text \<open>
  C28. A snapshot made from observed profiles decodes to itself, a provider over it serves exactly its profiles, its
  generation and its hash, and the hash is the one of the profiles it was made from. Decoding therefore neither
  changes nor refuses what the code wrote.
\<close>

theorem snapshot_roundtrip:
  assumes "name_laws K" "NewProfileSetSnapshot K digest generation profiles = Inr snapshot"
  shows "DecodeProfileSetSnapshot K digest (Inr snapshot) = Inr snapshot \<and>
    DecodeSnapshotProvider K digest (Inr snapshot) = Inr (SnapshotProvider snapshot) \<and>
    providerProfileSet K digest missing forbidden cluster (SnapshotProvider snapshot) =
      Inr \<lparr>seGeneration = generation, seHash = snHash snapshot, seProfiles = snProfiles snapshot, seSource = ProfileSourceSnapshot\<rparr> \<and>
    ProfileSetHash K digest profiles = Inr (snHash snapshot)"
proof -
  from assms(2) obtain ps where f: "\<not> generation < 1" "normalizeResolvedProfiles K profiles = Inr ps"
    "validateSnapshotReadiness generation ps = Inr ()" "ProfileSetHash K digest ps = Inr (snHash snapshot)"
    and s: "snapshot = \<lparr>snAPIVersion = profileSnapshotAPIVersion, snKind = profileSnapshotKind, snGeneration = generation,
      snHash = snHash snapshot, snProfiles = ps\<rparr>" by (rule NewProfileSetSnapshot_Inr)
  note c = canonicalProfiles_fixed(1) [OF normalizeResolvedProfiles_canonical(1) [OF assms(1) f(2)]]
  have d: "DecodeProfileSetSnapshot K digest (Inr snapshot) = Inr snapshot"
    by (subst (1 2) s) (use f c in \<open>simp add: DecodeProfileSetSnapshot_def\<close>)
  have n: "NewSnapshotProvider K digest snapshot = Inr (SnapshotProvider snapshot)"
    using s snapshot_served [OF assms] by (simp add: NewSnapshotProvider_def) (metis profileSetSnapshot.simps(5))
  show ?thesis
    using d n f(4) snapshot_served [OF assms] normalizeResolvedProfiles_canonical(2) [OF assms(1) f(2)]
    by (simp add: DecodeSnapshotProvider_def providerProfileSet_def)
qed

definition exampleProfile :: resolvedWorkloadProfile where
  "exampleProfile = \<lparr>wpName = '' Fast_GPU'', wpDescription = [], wpApplicability = \<lparr>paTeams = [''ml'', ''Ads''], paLanes = [], paNamespaces = []\<rparr>,
     wpGPUsPerWorker = 8, wpWorkerCount = 2, wpMode = ''Fixed'', wpPlacement = ''same_host'', wpDefaultLocalQueue = ''gpu'', wpExecutionTarget = [],
     wpPriorities = \<lparr>ppWorkload = [], ppPod = [], ppDisable = True\<rparr>,
     rpLocalQueues = [\<lparr>rlNamespace = ''b'', rlName = ''gpu'', rlClusterQueue = ''q2''\<rparr>, \<lparr>rlNamespace = ''a'', rlName = ''gpu'', rlClusterQueue = ''q1''\<rparr>],
     rpClusterQueues = [''q2'', ''q1''], rpResourceFlavors = [], rpTopologies = [], rpWorkloadPriorityClasses = [], rpPodPriorityClasses = [],
     rpConditions = [condition 0 profileConditionReady ''True'' ''WorkloadProfileReady'' (Msg []) 3]\<rparr>"

definition exampleDigest :: "resolvedWorkloadProfile list \<Rightarrow> string" where
  "exampleDigest ps = CHR ''h'' # concat (map wpName ps)"

text \<open>The same profile in canonical form.\<close>

definition canonicalExample :: resolvedWorkloadProfile where
  "canonicalExample = exampleProfile\<lparr>wpName := ''fast-gpu'', wpApplicability := \<lparr>paTeams = [''ads'', ''ml''], paLanes = [], paNamespaces = []\<rparr>,
     wpMode := ''fixed'', wpPlacement := ''same-host'', wpExecutionTarget := ''singleCluster'',
     rpLocalQueues := rev (rpLocalQueues exampleProfile), rpClusterQueues := [''q1'', ''q2'']\<rparr>"

lemma example_normalized:
  "NormalizeWorkloadProfile exampleProfile =
     canonicalExample\<lparr>rpLocalQueues := rpLocalQueues exampleProfile, rpClusterQueues := rpClusterQueues exampleProfile\<rparr>"
  by code_simp

lemma example_valid_parts:
  "validateDNSName refKube ''name'' (wpName canonicalExample) = Inr ()"
  "checkApplicability refKube ''applicability.teams'' None (paTeams (wpApplicability canonicalExample)) = Inr ()"
  "checkApplicability refKube ''applicability.lanes'' None (paLanes (wpApplicability canonicalExample)) = Inr ()"
  "checkApplicability refKube ''applicability.namespaces'' None (paNamespaces (wpApplicability canonicalExample)) = Inr ()"
  "validateDNSName refKube ''defaultLocalQueue'' (wpDefaultLocalQueue canonicalExample) = Inr ()"
  "validatePriorities refKube (wpPriorities canonicalExample) = Inr ()"
  "NormalizeWorkloadProfile canonicalExample = canonicalExample"
  "wpMode canonicalExample \<in> set modes" "wpPlacement canonicalExample \<in> set placements"
  "wpExecutionTarget canonicalExample = executionTargetSingleCluster" "wpGPUsPerWorker canonicalExample = 8" "wpWorkerCount canonicalExample = 2"
  by code_simp+

lemma example_valid: "ValidateWorkloadProfile refKube canonicalExample = Inr ()"
  by (simp add: ValidateWorkloadProfile_def example_valid_parts)

lemma example_resolved_parts:
  "normalizeLocalQueues (rpLocalQueues exampleProfile) = Inr (rpLocalQueues canonicalExample)"
  "normalizeSet normalizeName (rpClusterQueues exampleProfile) = rpClusterQueues canonicalExample"
  "foldE (validateLocalQueue refKube) (rpLocalQueues canonicalExample) () = Inr ()"
  "foldE (\<lambda>value _. validateDNSName refKube ''clusterQueues'' value) (rpClusterQueues canonicalExample) () = Inr ()"
  "normalizeSet normalizeName [] = []"
  by code_simp+

lemma example_unresolved:
  "rpResourceFlavors exampleProfile = []" "rpTopologies exampleProfile = []"
  "rpWorkloadPriorityClasses exampleProfile = []" "rpPodPriorityClasses exampleProfile = []"
  by (simp_all add: exampleProfile_def)

lemma example_resolved: "NormalizeResolvedWorkloadProfile refKube exampleProfile = Inr canonicalExample"
proof -
  have "ValidateWorkloadProfile refKube (NormalizeWorkloadProfile exampleProfile) = Inr ()"
    using example_valid unfolding ValidateWorkloadProfile_declared [of refKube canonicalExample]
    unfolding ValidateWorkloadProfile_declared [of refKube "NormalizeWorkloadProfile exampleProfile"]
    by (simp only: example_normalized declaredPart_fields)
  then show ?thesis
    by (simp add: NormalizeResolvedWorkloadProfile_def NormalizeAndValidateWorkloadProfile_def Let_def example_resolved_parts example_unresolved)
       (simp add: example_normalized, simp add: canonicalExample_def exampleProfile_def)
qed

definition exampleSnapshot :: profileSetSnapshot where
  "exampleSnapshot = \<lparr>snAPIVersion = profileSnapshotAPIVersion, snKind = profileSnapshotKind, snGeneration = 3, snHash = ''hfast-gpu'',
     snProfiles = [canonicalExample]\<rparr>"

lemma exampleSnapshot_written: "NewProfileSetSnapshot refKube exampleDigest 3 [exampleProfile] = Inr exampleSnapshot"
proof -
  have n: "normalizeResolvedProfiles refKube [exampleProfile] = Inr [canonicalExample]"
    using collectProfiles_success [of refKube "[exampleProfile]" "[canonicalExample]" sortConditions] example_resolved
    by (simp add: normalizeResolvedProfiles_def sortConditions_def canonicalExample_def exampleProfile_def)
  have h: "ProfileSetHash refKube exampleDigest [canonicalExample] = Inr ''hfast-gpu''"
    using canonicalProfiles_fixed(2) [OF normalizeResolvedProfiles_canonical(1) [OF refKube_name_laws n]]
    by (simp add: exampleDigest_def canonicalExample_def)
  have "validateSnapshotReadiness 3 [canonicalExample] = Inr ()" by code_simp
  with n h show ?thesis by (simp add: NewProfileSetSnapshot_def exampleSnapshot_def)
qed

theorem snapshot_roundtrip_witness:
  "\<exists>snapshot. NewProfileSetSnapshot refKube exampleDigest 3 [exampleProfile] = Inr snapshot \<and>
     DecodeProfileSetSnapshot refKube exampleDigest (Inr snapshot) = Inr snapshot \<and> snHash snapshot = ''hfast-gpu''"
  using snapshot_roundtrip [OF refKube_name_laws exampleSnapshot_written] exampleSnapshot_written by (auto simp: exampleSnapshot_def)

section \<open>Selection\<close>

lemma containsOrGlobal_sorted:
  assumes "sorted xs"
  shows "containsOrGlobal xs x \<longleftrightarrow> xs = [] \<or> x \<in> set xs"
proof -
  let ?before = "takeWhile (\<lambda>y. y < x) xs"
  have i: "sortSearch (length xs) (\<lambda>i. \<not> xs ! i < x) = length ?before"
  proof -
    have "\<not> xs ! b < x" if "a \<le> b" "b < length xs" "\<not> xs ! a < x" for a b
      using that sorted_nth_mono [OF assms that(1,2)] by (simp add: not_less)
    from sortSearch_takeWhile [of xs "\<lambda>y. \<not> y < x", OF this] show ?thesis by simp
  qed
  have "length ?before < length xs \<and> xs ! length ?before = x \<longleftrightarrow> x \<in> set xs"
  proof
    assume "x \<in> set xs"
    then have "?before \<noteq> xs" by (metis less_irrefl set_takeWhileD)
    then have l: "length ?before < length xs"
      by (metis length_takeWhile_le nat_less_le takeWhile_eq_take take_all_iff order_refl)
    then have "x \<le> xs ! length ?before" using nth_length_takeWhile [OF l] by (simp add: not_less)
    moreover have "xs ! length ?before \<le> x"
    proof (rule ccontr)
      assume "\<not> xs ! length ?before \<le> x"
      moreover from \<open>x \<in> set xs\<close> obtain k where k: "k < length xs" "xs ! k = x" by (auto simp: in_set_conv_nth)
      ultimately have "\<not> length ?before \<le> k" using assms sorted_nth_mono by fastforce
      then have "k < length ?before" by simp
      then have "xs ! k < x" using set_takeWhileD [of "xs ! k" "\<lambda>y. y < x" xs] by (metis nth_mem takeWhile_nth)
      with k(2) show False by simp
    qed
    ultimately show "length ?before < length xs \<and> xs ! length ?before = x" using l by simp
  qed (metis nth_mem)
  then show ?thesis by (auto simp: containsOrGlobal_def i Let_def)
qed

text \<open>What an authorised profile allows.\<close>

definition allows :: "'a workloadProfile_scheme \<Rightarrow> selectionRequest \<Rightarrow> bool" where
  "allows p request \<longleftrightarrow>
     (paNamespaces (wpApplicability p) = [] \<or> normalizeName (sqNamespace request) \<in> set (paNamespaces (wpApplicability p))) \<and>
     (paTeams (wpApplicability p) = [] \<or> normalizeLabel (sqTeam request) \<in> set (paTeams (wpApplicability p))) \<and>
     (paLanes (wpApplicability p) = [] \<or> normalizeLabel (sqLane request) \<in> set (paLanes (wpApplicability p)))"

definition readyAt :: "resolvedWorkloadProfile \<Rightarrow> int \<Rightarrow> bool" where
  "readyAt p generation \<longleftrightarrow>
     (\<exists>c. findCondition (rpConditions p) profileConditionReady = Some c \<and> cdStatus c = ''True'' \<and> cdObservedGeneration c = generation)"

lemma requireProfileReady_iff: "requireProfileReady p generation = Inr () \<longleftrightarrow> readyAt p generation"
  by (auto simp: requireProfileReady_def requireCondition_def readyAt_def split: option.splits)

lemma canonicalProfile_sorted:
  assumes "canonicalProfile K p"
  shows "sorted (paNamespaces (wpApplicability p))" "sorted (paTeams (wpApplicability p))" "sorted (paLanes (wpApplicability p))"
proof -
  have "NormalizeWorkloadProfile (declaredPart p) = declaredPart p"
    using assms by (auto simp: canonicalProfile_def ValidateWorkloadProfile_def split: if_splits)
  then have n: "NormalizeWorkloadProfile p = p" by (rule NormalizeWorkloadProfile_declared [THEN iffD2])
  have "sorted (paNamespaces (wpApplicability (NormalizeWorkloadProfile p)))" "sorted (paTeams (wpApplicability (NormalizeWorkloadProfile p)))"
    "sorted (paLanes (wpApplicability (NormalizeWorkloadProfile p)))"
    by (simp_all add: NormalizeWorkloadProfile_def normalizeList_def)
  then show "sorted (paNamespaces (wpApplicability p))" "sorted (paTeams (wpApplicability p))" "sorted (paLanes (wpApplicability p))"
    unfolding n by simp_all
qed

lemma authorizeProfile_iff: "canonicalProfile K p \<Longrightarrow> authorizeProfile p request = Inr () \<longleftrightarrow> allows p request"
  by (simp add: authorizeProfile_def foldE_check allows_def canonicalProfile_sorted containsOrGlobal_sorted)


lemma decodeTauClusterProfileSet_Inr:
  assumes "decodeTauClusterProfileSet K digest cluster = Inr s"
  obtains ps where "clName cluster = tauClusterName" "psObservedGeneration (clWorkloadProfiles cluster) = clGeneration cluster"
    "normalizeResolvedProfiles K (psProfiles (clWorkloadProfiles cluster)) = Inr ps"
    "ProfileSetHash K digest ps = Inr (psHash (clWorkloadProfiles cluster))"
    "s = \<lparr>seGeneration = clGeneration cluster, seHash = psHash (clWorkloadProfiles cluster), seProfiles = ps, seSource = ProfileSourceCluster\<rparr>"
  using assms by (auto simp: decodeTauClusterProfileSet_def Let_def bindE_Inr_iff split: if_splits)

text \<open>The profiles a provider serves are in canonical form.\<close>

lemma providerProfileSet_canonical:
  assumes "name_laws K" "providerProfileSet K digest missing forbidden cluster provider = Inr s"
  shows "canonicalProfiles K (seProfiles s)"
proof -
  have "\<exists>raw. normalizeResolvedProfiles K raw = Inr (seProfiles s)"
  proof (cases provider)
    case ClusterProvider
    with assms(2) obtain c where "decodeTauClusterProfileSet K digest c = Inr s" by (auto simp: providerProfileSet_def bindE_Inr_iff)
    then show ?thesis by (rule decodeTauClusterProfileSet_Inr) auto
  next
    case (SnapshotProvider snapshot)
    with assms(2) show ?thesis
      by (auto simp: providerProfileSet_def profileSetFromSnapshot_def bindE_Inr_iff split: if_splits)
  qed
  then show ?thesis using normalizeResolvedProfiles_canonical(1) [OF assms(1)] by blast
qed

lemma selects_sound:
  assumes "name_laws K" "providerSelect K digest missing forbidden cluster provider request = Inr selection"
  shows "\<exists>s. providerProfileSet K digest missing forbidden cluster provider = Inr s \<and>
    selection = \<lparr>slGeneration = seGeneration s, slHash = seHash s, slProfile = slProfile selection, slSource = seSource s\<rparr> \<and>
    slProfile selection \<in> set (seProfiles s) \<and> readyAt (slProfile selection) (seGeneration s) \<and> allows (slProfile selection) request \<and>
    (if normalizeName (sqName request) \<noteq> [] then wpName (slProfile selection) = normalizeName (sqName request)
     else gpusMatch request (slProfile selection) \<and>
       (\<forall>p \<in> set (seProfiles s). readyAt p (seGeneration s) \<and> allows p request \<and> gpusMatch request p \<longrightarrow> p = slProfile selection))"
proof -
  from assms(2) obtain s where s: "providerProfileSet K digest missing forbidden cluster provider = Inr s"
    and sel: "selectProfile s request = Inr selection" by (auto simp: providerSelect_def bindE_Inr_iff)
  have auth: "authorizeProfile p request = Inr () \<longleftrightarrow> allows p request" if "p \<in> set (seProfiles s)" for p
    using providerProfileSet_canonical [OF assms(1) s] that authorizeProfile_iff by (auto simp: canonicalProfiles_def)
  show ?thesis
  proof (cases "normalizeName (sqName request) = []")
    case True
    let ?matches = "filter (gpusMatch request) (applicableProfiles s request)"
    from sel True obtain p where p: "?matches = [p]" "selection = selectionOf s p"
      by (auto simp: selectProfile_def selectUniqueProfile_def Let_def split: list.splits if_splits)
    have "set ?matches = {q \<in> set (seProfiles s). readyAt q (seGeneration s) \<and> allows q request \<and> gpusMatch request q}"
      using auth by (auto simp: applicableProfiles_def requireProfileReady_iff)
    with p(1) have m: "{q \<in> set (seProfiles s). readyAt q (seGeneration s) \<and> allows q request \<and> gpusMatch request q} = {p}" by simp
    then have "p \<in> {q \<in> set (seProfiles s). readyAt q (seGeneration s) \<and> allows q request \<and> gpusMatch request q}" by simp
    with m p(2) True s show ?thesis by (intro exI [of _ s]) (auto simp: selectionOf_def)
  next
    case False
    with sel obtain p where "List.find (\<lambda>candidate. wpName candidate = normalizeName (sqName request)) (seProfiles s) = Some p"
      "requireProfileReady p (seGeneration s) = Inr ()" "authorizeProfile p request = Inr ()" "selection = selectionOf s p"
      by (auto simp: selectProfile_def Let_def bindE_Inr_iff split: option.splits)
    with False s auth show ?thesis
      by (intro exI [of _ s]) (auto simp: selectionOf_def requireProfileReady_iff find_Some_iff)
  qed
qed

lemma selects_served:
  assumes "name_laws K" "providerSelect K digest missing forbidden cluster provider request = Inr selection"
  shows "\<exists>s. providerProfileSet K digest missing forbidden cluster provider = Inr s \<and> slHash selection = seHash s \<and>
    slGeneration selection = seGeneration s \<and> slProfile selection \<in> set (seProfiles s) \<and> readyAt (slProfile selection) (seGeneration s) \<and>
    allows (slProfile selection) request"
  using selects_sound [OF assms] by (metis profileSelection.select_convs(1,2))

text \<open>
  C16. A selection is sound, whether profiles come from the cluster or from a snapshot: the selected profile belongs
  to the current set, was ready at exactly the generation of that set, allows the namespace, the team and the lane of
  the request, and has the requested name. Without a name it is the only profile of the set that is ready, allows
  the request and has the requested number of GPUs.
\<close>

theorem selection_sound:
  assumes "name_laws K" "providerSelect K digest missing forbidden cluster provider request = Inr selection"
  shows "\<exists>s. providerProfileSet K digest missing forbidden cluster provider = Inr s \<and>
    selection = \<lparr>slGeneration = seGeneration s, slHash = seHash s, slProfile = slProfile selection, slSource = seSource s\<rparr> \<and>
    slProfile selection \<in> set (seProfiles s) \<and> readyAt (slProfile selection) (seGeneration s) \<and> allows (slProfile selection) request \<and>
    (if normalizeName (sqName request) \<noteq> [] then wpName (slProfile selection) = normalizeName (sqName request)
     else gpusMatch request (slProfile selection) \<and>
       (\<forall>p \<in> set (seProfiles s). readyAt p (seGeneration s) \<and> allows p request \<and> gpusMatch request p \<longrightarrow> p = slProfile selection))"
  by (rule selects_sound [OF assms])

definition exampleRequest :: selectionRequest where
  "exampleRequest = \<lparr>sqName = [], sqNamespace = ''a'', sqTeam = ''Ads'', sqLane = ''prod'', sqGPUsPerWorker = Some 8\<rparr>"

lemma exampleSelection:
  "providerSelect refKube exampleDigest (\<lambda>_. False) (\<lambda>_. False) (Inl (NotFound [])) (SnapshotProvider exampleSnapshot) exampleRequest =
     Inr \<lparr>slGeneration = 3, slHash = ''hfast-gpu'', slProfile = canonicalExample, slSource = ProfileSourceSnapshot\<rparr>"
proof -
  have "selectProfile \<lparr>seGeneration = 3, seHash = ''hfast-gpu'', seProfiles = [canonicalExample], seSource = ProfileSourceSnapshot\<rparr> exampleRequest =
     Inr \<lparr>slGeneration = 3, slHash = ''hfast-gpu'', slProfile = canonicalExample, slSource = ProfileSourceSnapshot\<rparr>" by code_simp
  then show ?thesis
    using snapshot_served [OF refKube_name_laws exampleSnapshot_written] by (simp add: providerSelect_def providerProfileSet_def exampleSnapshot_def)
qed

theorem selection_sound_witness:
  "\<exists>s. providerProfileSet refKube exampleDigest (\<lambda>_. False) (\<lambda>_. False) (Inl (NotFound [])) (SnapshotProvider exampleSnapshot) = Inr s \<and>
     canonicalExample \<in> set (seProfiles s) \<and> readyAt canonicalExample (seGeneration s) \<and> allows canonicalExample exampleRequest"
  using selection_sound [OF refKube_name_laws exampleSelection] by auto

end
