(* ===== verification/Profile_Published.thy ===== *)
theory Profile_Published
  imports Profile_Observer Profile_Props
begin

text \<open>
  From the observation of the controller to the selection of a client: what the observer publishes as Ready has all
  its dependencies, and only that can be selected from the published set.
\<close>

section \<open>Observations\<close>

text \<open>
  The loops of the observer note what they find in a state and go on after a failure. The contract of a step: a
  state that is fine after it was fine before, the step then establishes what it looked at, and later steps keep it.
\<close>

locale observation =
  fixes step :: "'x \<Rightarrow> 's \<Rightarrow> 's" and fine :: "'s \<Rightarrow> bool" and established :: "'s \<Rightarrow> 'x \<Rightarrow> bool"
  assumes fine_before: "fine (step x s) \<Longrightarrow> fine s"
    and establishes: "fine (step x s) \<Longrightarrow> established (step x s) x"
    and keeps: "fine (step y s) \<Longrightarrow> established s x \<Longrightarrow> established (step y s) x"
begin

lemma fold_fine_before: "fine (fold step xs s) \<Longrightarrow> fine s"
  by (induction xs arbitrary: s) (auto dest: fine_before)

lemma fold_keeps_established: "fine (fold step xs s) \<Longrightarrow> established s x \<Longrightarrow> established (fold step xs s) x"
  by (induction xs arbitrary: s) (auto intro: keeps dest: fold_fine_before)

lemma fold_establishes: "fine (fold step xs s) \<Longrightarrow> x \<in> set xs \<Longrightarrow> established (fold step xs s) x"
proof (induction xs arbitrary: s)
  case (Cons y xs)
  show ?case
  proof (cases "x = y")
    case True
    have "fine (step y s)" using Cons.prems(1) by (auto dest: fold_fine_before)
    with True Cons.prems(1) show ?thesis by (simp add: fold_keeps_established establishes)
  qed (use Cons in auto)
qed simp

end

lemma stage_OK [simp]:
  "sgOK (failStage issue s) = False" "sgOK (unreadable subject e s) = False" "sgOK (nextStage s) = sgOK s"
  by (simp_all add: failStage_def unreadable_def nextStage_def)

definition localQueueAt :: "'q kube \<Rightarrow> ('q, 'w) api \<Rightarrow> 'w \<Rightarrow> string \<Rightarrow> string \<Rightarrow> string \<Rightarrow> bool" where
  "localQueueAt K A w queue namespace clusterQueue \<longleftrightarrow>
     (\<exists>object. aGet A w localQueueKind namespace queue = Inr object \<and> requiredNestedString K object [''spec'', ''clusterQueue''] = Inr clusterQueue)"

definition localQueueNoted :: "'q kube \<Rightarrow> ('q, 'w) api \<Rightarrow> 'w \<Rightarrow> string \<Rightarrow> stage \<times> resolvedLocalQueue list \<Rightarrow> string \<Rightarrow> bool" where
  "localQueueNoted K A w queue acc namespace \<longleftrightarrow>
     (\<exists>clusterQueue. localQueueAt K A w queue namespace clusterQueue \<and> clusterQueue \<in> set (map rlClusterQueue (snd acc)))"

interpretation local_queues: observation "observeLocalQueue K A w queue" "\<lambda>acc. sgOK (fst acc)" "localQueueNoted K A w queue" for K A w queue
  by unfold_locales
     (auto simp: observeLocalQueue_def localQueueNoted_def localQueueAt_def Let_def split: sum.splits prod.splits)

definition clusterQueueServes :: "'q kube \<Rightarrow> ('q, 'w) api \<Rightarrow> 'w \<Rightarrow> queueObservation \<Rightarrow> string \<Rightarrow> bool" where
  "clusterQueueServes K A w q name \<longleftrightarrow>
     (\<exists>object detail flavors. getQueue A w name = Inr object \<and> clusterQueueActive K object = Inr (True, detail) \<and>
        clusterQueueFlavorNames K object = Inr flavors \<and> set flavors \<subseteq> set (qoFlavors q) \<and>
        fst (observeClusterQueueExecution K A w name object) \<in> set (qoExecution q))"

lemma observeClusterQueue_OK:
  assumes "sgOK (qoStage (observeClusterQueue K A w name q))"
  shows "sgOK (qoStage q)" "clusterQueueServes K A w (observeClusterQueue K A w name q) name"
    and "set (qoFlavors q) \<subseteq> set (qoFlavors (observeClusterQueue K A w name q))"
    and "set (qoExecution q) \<subseteq> set (qoExecution (observeClusterQueue K A w name q))"
  using assms
  by (auto simp: observeClusterQueue_def clusterQueueServes_def Let_def split: sum.splits prod.splits bool.splits)

lemma clusterQueueServes_mono:
  "clusterQueueServes K A w q name \<Longrightarrow> set (qoFlavors q) \<subseteq> set (qoFlavors q') \<Longrightarrow> set (qoExecution q) \<subseteq> set (qoExecution q') \<Longrightarrow>
   clusterQueueServes K A w q' name"
  unfolding clusterQueueServes_def by blast

interpretation cluster_queues: observation "observeClusterQueue K A w" "\<lambda>q. sgOK (qoStage q)" "clusterQueueServes K A w" for K A w
  by unfold_locales (auto intro: observeClusterQueue_OK(2) elim: clusterQueueServes_mono dest: observeClusterQueue_OK(1,3,4) intro: clusterQueueServes_mono)

definition objectRead :: "('q, 'w) api \<Rightarrow> 'w \<Rightarrow> string \<Rightarrow> (kobj \<Rightarrow> (string list) res) \<Rightarrow> stage \<times> string list \<times> string list \<Rightarrow> string \<Rightarrow> bool" where
  "objectRead A w kind extract acc name \<longleftrightarrow>
     (\<exists>object xs. aGet A w kind [] name = Inr object \<and> extract object = Inr xs \<and> set xs \<subseteq> set (snd (snd acc)))"

interpretation readable_objects: observation "observeReadable A w kind read malformed" "\<lambda>acc. sgOK (fst acc)" "objectRead A w kind read"
  for A w kind read malformed
  by unfold_locales (fastforce simp: observeReadable_def objectRead_def split: sum.splits prod.splits)+

section \<open>Ready profiles\<close>

lemma sortedSet_set [simp]: "set (sortedSet xs) = set xs"
proof -
  have "set (fold gs_add xs ys) = set ys \<union> set xs" for ys
    by (induction xs arbitrary: ys) (auto simp: set_gs_add)
  then show ?thesis by (simp add: sortedSet_def)
qed

text \<open>How the admission checks of a queue fit the execution target of a profile.\<close>

definition executionFits :: "'a workloadProfile_scheme \<Rightarrow> executionObservation \<Rightarrow> bool" where
  "executionFits p obs \<longleftrightarrow> eoIssues obs = [] \<and> (if wpExecutionTarget p = executionTargetMultiKueue then usesOnlyMultiKueue obs else eoMultiKueue obs = [])"

definition multiKueueCapable :: "'q tauCluster \<Rightarrow> bool" where
  "multiKueueCapable cluster \<longleftrightarrow>
     (\<exists>c. findCondition (clConditions cluster) conditionMultiKueueReady = Some c \<and> cdStatus c = ''True'' \<and> cdObservedGeneration c = clGeneration cluster)"

lemma executionTargets_differ [simp]: "executionTargetSingleCluster \<noteq> executionTargetMultiKueue" "executionTargetMultiKueue \<noteq> executionTargetSingleCluster"
  by (simp_all add: executionTargetSingleCluster_def executionTargetMultiKueue_def)

lemma capability_None: "multiKueueCapabilityNotReadyCondition now cluster (clGeneration cluster) = None \<Longrightarrow> multiKueueCapable cluster"
  by (auto simp: multiKueueCapabilityNotReadyCondition_def multiKueueCapable_def Let_def split: option.splits if_splits)

lemma capability_Some: "multiKueueCapabilityNotReadyCondition now cluster generation = Some c \<Longrightarrow> cdStatus c = ''False''"
  by (auto simp: multiKueueCapabilityNotReadyCondition_def condition_def Let_def split: option.splits if_splits)

lemma wiringIssue_Nil: "wiringIssue obs = [] \<Longrightarrow> usesOnlyMultiKueue obs"
  by (auto simp: wiringIssue_def split: if_splits)

lemma execution_True:
  assumes "cdStatus (workloadProfileExecutionCondition now cluster p ready referenced observations (clGeneration cluster)) = ''True''"
    and "wpExecutionTarget p \<in> {executionTargetSingleCluster, executionTargetMultiKueue}"
  shows "\<forall>obs \<in> set observations. executionFits p obs" "wpExecutionTarget p = executionTargetMultiKueue \<Longrightarrow> multiKueueCapable cluster"
proof -
  let ?multi = "wpExecutionTarget p = executionTargetMultiKueue"
  have cap: "?multi \<Longrightarrow> multiKueueCapabilityNotReadyCondition now cluster (clGeneration cluster) = None"
    using assms(1) capability_Some by (fastforce simp: workloadProfileExecutionCondition_def Let_def split: option.splits)
  then show "?multi \<Longrightarrow> multiKueueCapable cluster" using capability_None by blast
  have issues: "concat (map eoIssues observations) = []"
    using assms(1) cap by (auto simp: workloadProfileExecutionCondition_def Let_def condition_def split: if_splits option.splits)
  have single: "concat (map eoMultiKueue observations) = []" if "\<not> ?multi"
    using assms that issues by (auto simp: workloadProfileExecutionCondition_def Let_def condition_def split: if_splits)
  have multi: "concat (map wiringIssue observations) = []" if ?multi
    using assms(1) that issues cap [OF that] by (auto simp: workloadProfileExecutionCondition_def Let_def condition_def split: if_splits)
  show "\<forall>obs \<in> set observations. executionFits p obs"
    using issues single multi wiringIssue_Nil by (auto simp: executionFits_def)
qed

definition flavorReadable :: "'q kube \<Rightarrow> ('q, 'w) api \<Rightarrow> 'w \<Rightarrow> string \<Rightarrow> bool" where
  "flavorReadable K A w name \<longleftrightarrow>
     (\<exists>flavor topologies. aGet A w resourceFlavorKind [] name = Inr flavor \<and> flavorTopology K flavor = Inr topologies \<and>
        (\<forall>t \<in> set topologies. \<exists>topology. aGet A w topologyKind [] t = Inr topology))"

definition queueServes :: "'q kube \<Rightarrow> ('q, 'w) api \<Rightarrow> 'w \<Rightarrow> 'a workloadProfile_scheme \<Rightarrow> string \<Rightarrow> bool" where
  "queueServes K A w p name \<longleftrightarrow>
     (\<exists>object detail flavors. getQueue A w name = Inr object \<and> clusterQueueActive K object = Inr (True, detail) \<and>
        clusterQueueFlavorNames K object = Inr flavors \<and> (\<forall>f \<in> set flavors. flavorReadable K A w f) \<and>
        executionFits p (fst (observeClusterQueueExecution K A w name object)))"

text \<open>
  Everything a profile depends on: in each of its namespaces its LocalQueue leads to an active ClusterQueue whose
  flavors and topologies can be read and whose admission checks fit its execution target, and its priority classes
  can be read.
\<close>

definition dependenciesReady :: "'q kube \<Rightarrow> ('q, 'w) api \<Rightarrow> 'w \<Rightarrow> 'q tauCluster \<Rightarrow> 'a workloadProfile_scheme \<Rightarrow> bool" where
  "dependenciesReady K A w cluster p \<longleftrightarrow>
     applicableQueueNamespaces cluster p \<noteq> [] \<and>
     (\<forall>n \<in> set (applicableQueueNamespaces cluster p). \<exists>clusterQueue.
        localQueueAt K A w (wpDefaultLocalQueue p) n clusterQueue \<and> queueServes K A w p clusterQueue) \<and>
     (\<not> ppDisable (wpPriorities p) \<longrightarrow>
        (\<exists>a b. aGet A w workloadPriorityClassKind [] (ppWorkload (wpPriorities p)) = Inr a \<and> aGet A w priorityClassKind [] (ppPod (wpPriorities p)) = Inr b)) \<and>
     (wpExecutionTarget p = executionTargetMultiKueue \<longrightarrow> multiKueueCapable cluster)"

lemma observePriorities_OK:
  assumes "sgOK (fst (observePriorities A w priorities e))" "\<not> ppDisable priorities"
  shows "\<exists>a b. aGet A w workloadPriorityClassKind [] (ppWorkload priorities) = Inr a \<and> aGet A w priorityClassKind [] (ppPod priorities) = Inr b"
  using assms by (auto simp: observePriorities_def observeReadable_def Let_def split: sum.splits prod.splits)

lemma execution_type [simp]: "cdType (workloadProfileExecutionCondition now cluster p ready referenced observations generation) = conditionExecutionReady"
  by (auto simp: workloadProfileExecutionCondition_def Let_def condition_def multiKueueCapabilityNotReadyCondition_def split: option.splits if_splits)

lemma observation_type [simp]: "cdType (observationCondition now t ok a b c issues generation) = t"
  by (simp add: observationCondition_def condition_def)

lemmas profile_condition_types = conditionLocalQueuesResolved_def conditionClusterQueuesReady_def conditionResourceFlavorsReady_def
  conditionTopologiesReady_def conditionPriorityClassesReady_def conditionExecutionReady_def profileConditionReady_def

lemma valid_target: "ValidateWorkloadProfile K p = Inr () \<Longrightarrow> wpExecutionTarget p \<in> {executionTargetSingleCluster, executionTargetMultiKueue}"
  by (auto simp: ValidateWorkloadProfile_def bindE_Inr_iff split: if_splits)

lemma observed_invalid:
  assumes "ValidateWorkloadProfile K (NormalizeWorkloadProfile d) = Inl e"
  shows "\<not> readyAt (fst (observeWorkloadProfile K A now cluster d w)) generation"
  using assms
  by (simp add: observeWorkloadProfile_def Let_def readyAt_def invalidProfileConditions_def findCondition_def profile_condition_types condition_def)

lemma observed_ready:
  assumes v: "ValidateWorkloadProfile K (NormalizeWorkloadProfile d) = Inr ()"
    and r: "readyAt (fst (observeWorkloadProfile K A now cluster d w)) generation"
  shows "dependenciesReady K A w cluster (NormalizeWorkloadProfile d)"
proof -
  define p where "p = NormalizeWorkloadProfile d"
  define namespaces where "namespaces = applicableQueueNamespaces cluster p"
  define start where "start = (if namespaces = []
                then \<lparr>sgOK = False, sgIssues = [sprintf ''profile has global namespace applicability but spec.queues.sharedLocalQueues declares no %q LocalQueue'' [wpDefaultLocalQueue p]],
                      sgError = None\<rparr>
                else \<lparr>sgOK = True, sgIssues = [], sgError = None\<rparr>)"
  obtain ls lqs where l: "fold (observeLocalQueue K A w (wpDefaultLocalQueue p)) namespaces (start, []) = (ls, lqs)" by fastforce
  define names where "names = sortedSet (map rlClusterQueue lqs)"
  define q where "q = fold (observeClusterQueue K A w) names \<lparr>qoStage = nextStage ls, qoNames = [], qoFlavors = [], qoExecution = []\<rparr>"
  define ex where "ex = workloadProfileExecutionCondition now cluster p (sgOK (qoStage q)) (length names) (qoExecution q) (clGeneration cluster)"
  obtain fs flavors tn where f: "fold (observeReadable A w resourceFlavorKind (flavorTopology K) malformedTopologyName) (sortedSet (qoFlavors q))
      (nextStage (qoStage q), [], []) = (fs, flavors, tn)" by (metis prod_cases3)
  obtain ts ns x where t: "fold (observeReadable A w topologyKind (\<lambda>_. Inr []) (\<lambda>_ _. [])) (sortedSet tn) (nextStage fs, [], []) = (ts, ns, x)"
    by (metis prod_cases3)
  obtain ps wl pd where pr: "observePriorities A w (wpPriorities p) (sgError ts) = (ps, wl, pd)" by (metis prod_cases3)
  have et: "cdType ex = ''ExecutionReady''" by (simp add: ex_def conditionExecutionReady_def)
  have ok: "sgOK ls \<and> sgOK (qoStage q) \<and> sgOK fs \<and> sgOK ts \<and> sgOK ps \<and> cdStatus ex = ''True''"
    using r v
    by (simp add: observeWorkloadProfile_def Let_def readyAt_def findCondition_def profile_condition_types boolCondition_def condition_def
        p_def [symmetric] namespaces_def [symmetric] start_def [symmetric] l names_def [symmetric] q_def [symmetric] ex_def [symmetric] f t pr et
        split: if_splits)
  have fine: "sgOK (fst (fold (observeLocalQueue K A w (wpDefaultLocalQueue p)) namespaces (start, [])))" using l ok by simp
  have ne: "namespaces \<noteq> []" using local_queues.fold_fine_before [OF fine] by (auto simp: start_def split: if_splits)
  have qs: "\<forall>name \<in> set names. clusterQueueServes K A w q name"
    using ok unfolding q_def by (intro ballI cluster_queues.fold_establishes) auto
  have readable: "flavorReadable K A w name" if "name \<in> set (qoFlavors q)" for name
    using readable_objects.fold_establishes [of A w resourceFlavorKind "flavorTopology K" malformedTopologyName "sortedSet (qoFlavors q)" "(nextStage (qoStage q), [], [])"]
      readable_objects.fold_establishes [of A w topologyKind "\<lambda>_. Inr []" "\<lambda>_ _. []" "sortedSet tn" "(nextStage fs, [], [])"] ok that f t
    by (fastforce simp: flavorReadable_def objectRead_def)
  have fits: "\<forall>obs \<in> set (qoExecution q). executionFits p obs"
    and cap: "wpExecutionTarget p = executionTargetMultiKueue \<Longrightarrow> multiKueueCapable cluster"
    using execution_True [of now cluster p] ok valid_target [OF v] by (auto simp: ex_def p_def)
  have serves: "queueServes K A w p name" if "name \<in> set names" for name
    using qs that readable fits unfolding clusterQueueServes_def queueServes_def by blast
  have "\<exists>clusterQueue. localQueueAt K A w (wpDefaultLocalQueue p) n clusterQueue \<and> queueServes K A w p clusterQueue" if "n \<in> set namespaces" for n
    using local_queues.fold_establishes [OF fine that] serves by (auto simp: localQueueNoted_def l names_def)
  moreover have "\<not> ppDisable (wpPriorities p) \<Longrightarrow>
      \<exists>a b. aGet A w workloadPriorityClassKind [] (ppWorkload (wpPriorities p)) = Inr a \<and> aGet A w priorityClassKind [] (ppPod (wpPriorities p)) = Inr b"
    using observePriorities_OK [of A w "wpPriorities p" "sgError ts"] pr ok by simp
  ultimately show ?thesis
    using ne cap by (simp add: dependenciesReady_def p_def [symmetric] namespaces_def)
qed

section \<open>The published set\<close>

lemma boolCondition_type [simp]: "cdType (boolCondition now t ok reason msg generation) = t"
  by (simp add: boolCondition_def condition_def)

lemma observed_condition_types:
  "map cdType (rpConditions (fst (observeWorkloadProfile K A now cluster d w))) =
     (case ValidateWorkloadProfile K (NormalizeWorkloadProfile d) of
        Inl _ \<Rightarrow> [conditionLocalQueuesResolved, conditionClusterQueuesReady, conditionResourceFlavorsReady, conditionTopologiesReady,
                  conditionPriorityClassesReady, conditionExecutionReady, profileConditionReady]
      | Inr _ \<Rightarrow> [conditionLocalQueuesResolved, conditionClusterQueuesReady, conditionExecutionReady, conditionResourceFlavorsReady,
                  conditionTopologiesReady, conditionPriorityClassesReady, profileConditionReady])"
  by (simp add: observeWorkloadProfile_def Let_def invalidProfileConditions_def condition_def case_prod_unfold split: sum.split)

lemma observed_types:
  "distinct (map cdType (rpConditions (fst (observeWorkloadProfile K A now cluster d w))))"
  "profileConditionReady \<in> set (map cdType (rpConditions (fst (observeWorkloadProfile K A now cluster d w))))"
  unfolding observed_condition_types by (simp_all add: profile_condition_types split: sum.split)

lemma observed_declared [simp]: "declaredPart (fst (observeWorkloadProfile K A now cluster d w)) = NormalizeWorkloadProfile d"
  by (simp add: observeWorkloadProfile_def Let_def declaredPart_def extendProfile_def workloadProfile.defs case_prod_unfold split: sum.split)

lemma findCondition_keep: "findCondition (map (keepTransitionTime m) cs) t = map_option (keepTransitionTime m) (findCondition cs t)"
  by (induction cs) (auto simp: findCondition_def keepTransitionTime_type)

lemma findCondition_append: "findCondition (xs @ ys) t = (case findCondition xs t of Some c \<Rightarrow> Some c | None \<Rightarrow> findCondition ys t)"
  by (induction xs) (auto simp: findCondition_def)

lemma findCondition_present: "t \<in> set (map cdType cs) \<Longrightarrow> \<exists>c. findCondition cs t = Some c"
  by (induction cs) (auto simp: findCondition_def)

lemma keepTransitionTime_generation [simp]: "cdObservedGeneration (keepTransitionTime m c) = cdObservedGeneration c" "cdStatus (keepTransitionTime m c) = cdStatus c"
  by (simp_all add: keepTransitionTime_def split: option.split)

lemma readyAt_merge:
  assumes "distinct (map cdType desired)" "t \<in> set (map cdType desired)" "findCondition (mergeConditions existing desired) t = Some c"
  shows "\<exists>c'. findCondition desired t = Some c' \<and> cdStatus c' = cdStatus c \<and> cdObservedGeneration c' = cdObservedGeneration c"
proof -
  obtain extra where e: "withCompatibility (byTypeOf existing) desired = desired @ extra" by (rule withCompatibility_append)
  obtain c' where c': "findCondition desired t = Some c'" using findCondition_present [OF assms(2)] by blast
  then show ?thesis
    using assms(3) by (simp add: mergeConditions_alt [OF assms(1)] findCondition_keep e findCondition_append) auto
qed

lemma readyAt_keepTransitions:
  assumes "readyAt (keepTransitions cluster (fst (observeWorkloadProfile K A now cluster d w))) generation"
  shows "readyAt (fst (observeWorkloadProfile K A now cluster d w)) generation"
proof (cases "previousResolvedProfile (psProfiles (clWorkloadProfiles cluster)) (wpName (fst (observeWorkloadProfile K A now cluster d w)))")
  case None
  with assms show ?thesis by (simp add: keepTransitions_def)
next
  case (Some previous)
  let ?cs = "rpConditions (fst (observeWorkloadProfile K A now cluster d w))"
  from assms Some obtain c where c: "findCondition (mergeConditions (rpConditions previous) ?cs) profileConditionReady = Some c"
    "cdStatus c = ''True''" "cdObservedGeneration c = generation"
    by (auto simp: readyAt_def keepTransitions_def)
  from readyAt_merge [OF observed_types c(1)] c(2,3) show ?thesis by (auto simp: readyAt_def)
qed

lemma find_filter: "List.find P xs = (case filter P xs of [] \<Rightarrow> None | x # _ \<Rightarrow> Some x)"
  by (induction xs) auto

lemma readyAt_sortConditions [simp]: "readyAt (sortConditions p) generation = readyAt p generation"
  by (simp add: readyAt_def sortConditions_def findCondition_def find_filter sort_key_stable)

lemma keepTransitions_declared [simp]: "declaredPart (keepTransitions cluster p) = declaredPart p"
  by (simp add: keepTransitions_def split: option.split)

lemma declaredPart_sortConditions [simp]: "declaredPart (sortConditions p) = declaredPart p"
  by (simp add: sortConditions_def)

text \<open>
  C4. From the controller to the client: a profile that a client selects from the published status of the cluster is
  a declared, valid profile, unchanged but for its normal form, and everything it depends on was ready in the state
  the controller observed: in every namespace it applies to, its LocalQueue leads to an active ClusterQueue with
  readable flavors and topologies and with admission checks that fit its execution target, and its priority classes
  exist. The selection carries the published hash and the generation of the cluster.
\<close>

theorem published_selection_runnable:
  assumes "name_laws K" "observeWorkloadProfiles K A digest now cluster w = ((status, ready), err)"
    and "clWorkloadProfiles published = status" "clGeneration published = clGeneration cluster"
    and "providerSelect K digest missing forbidden (Inr published) ClusterProvider request = Inr selection"
  shows "slHash selection = psHash status \<and> slGeneration selection = clGeneration cluster \<and>
    (\<exists>d \<in> set (clDeclaredProfiles cluster).
       ValidateWorkloadProfile K (NormalizeWorkloadProfile d) = Inr () \<and> declaredPart (slProfile selection) = NormalizeWorkloadProfile d \<and>
       allows (slProfile selection) request \<and> dependenciesReady K A w cluster (NormalizeWorkloadProfile d))"
proof -
  from selects_served [OF assms(1,5)] obtain s where s: "providerProfileSet K digest missing forbidden (Inr published) ClusterProvider = Inr s"
    and sel: "slHash selection = seHash s" "slGeneration selection = seGeneration s"
      "slProfile selection \<in> set (seProfiles s)" "readyAt (slProfile selection) (seGeneration s)" "allows (slProfile selection) request" by blast
  from s have "decodeTauClusterProfileSet K digest published = Inr s" by (simp add: providerProfileSet_def mapErr_def)
  then obtain ps where ps: "normalizeResolvedProfiles K (psProfiles status) = Inr ps"
    "s = \<lparr>seGeneration = clGeneration cluster, seHash = psHash status, seProfiles = ps, seSource = ProfileSourceCluster\<rparr>"
    using assms(3,4) by (auto elim: decodeTauClusterProfileSet_Inr)
  from sel(3) ps(2) have "slProfile selection \<in> set ps" by simp
  from normalizeResolvedProfiles_canonical(3) [OF assms(1) ps(1) this] obtain raw q where
    q: "raw \<in> set (psProfiles status)" "NormalizeResolvedWorkloadProfile K raw = Inr q" "slProfile selection = sortConditions q" by blast
  from assms(2) have "set (psProfiles status) = (\<lambda>d. keepTransitions cluster (fst (observeWorkloadProfile K A now cluster d w))) ` set (clDeclaredProfiles cluster)"
    by (auto simp: observeWorkloadProfiles_def Let_def case_prod_unfold)
  with q(1) obtain d where d: "d \<in> set (clDeclaredProfiles cluster)"
    "raw = keepTransitions cluster (fst (observeWorkloadProfile K A now cluster d w))" by auto
  note n = NormalizeResolved_canonical [OF assms(1) q(2)]
  have "readyAt q (clGeneration cluster)" using sel(4) ps(2) q(3) by simp
  then have "readyAt raw (clGeneration cluster)" using n(2) by (simp add: readyAt_def)
  with d(2) have r: "readyAt (fst (observeWorkloadProfile K A now cluster d w)) (clGeneration cluster)" by (auto dest: readyAt_keepTransitions)
  then have v: "ValidateWorkloadProfile K (NormalizeWorkloadProfile d) = Inr ()"
    by (cases "ValidateWorkloadProfile K (NormalizeWorkloadProfile d)") (simp_all add: observed_invalid)
  then have "NormalizeWorkloadProfile (NormalizeWorkloadProfile d) = NormalizeWorkloadProfile d"
    by (auto simp: ValidateWorkloadProfile_def split: if_splits)
  with n(3) d(2) q(3) have "declaredPart (slProfile selection) = NormalizeWorkloadProfile d" by simp
  with sel d(1) v observed_ready [OF v r] ps(2) show ?thesis by auto
qed

section \<open>An observation\<close>

definition gpuStore :: "int store" where
  "gpuStore = exampleStore\<lparr>stObjects :=
     [\<lparr>oKind = localQueueKind, oName = ''gpu'', oNamespace = ''a'', oUID = ''u1'', oLabels = [], oAnnotations = [],
       oObject = [(''spec'', JMap [(''clusterQueue'', JString ''q1'')])]\<rparr>,
      \<lparr>oKind = clusterQueueKind, oName = ''q1'', oNamespace = [], oUID = ''u2'', oLabels = [], oAnnotations = [],
       oObject = [(''spec'', JMap []), (''status'', JMap [(''conditions'', JList [JMap [(''type'', JString ''Active''), (''status'', JString ''True'')]])])]\<rparr>]\<rparr>"

definition gpuCluster :: "int tauCluster" where
  "gpuCluster = (zeroCluster tauClusterName ''u0'')\<lparr>clGeneration := 3, clSharedLocalQueues := [(''A'', ''gpu'')],
     clDeclaredProfiles := [declaredPart exampleProfile]\<rparr>"

definition gpuProfile :: resolvedWorkloadProfile where
  "gpuProfile = fst (observeWorkloadProfile refKube storeApi 0 gpuCluster (declaredPart exampleProfile) gpuStore)"

lemma gpu_declared: "NormalizeWorkloadProfile (declaredPart exampleProfile) = declaredPart canonicalExample"
  by code_simp

lemma gpu_valid: "ValidateWorkloadProfile refKube (declaredPart canonicalExample) = Inr ()"
  using example_valid ValidateWorkloadProfile_declared by metis

lemma gpu_local:
  "applicableQueueNamespaces gpuCluster (declaredPart canonicalExample) = [''a'']"
  "observeLocalQueue refKube storeApi gpuStore (wpDefaultLocalQueue (declaredPart canonicalExample)) ''a'' (\<lparr>sgOK = True, sgIssues = [], sgError = None\<rparr>, []) =
     (\<lparr>sgOK = True, sgIssues = [], sgError = None\<rparr>, [\<lparr>rlNamespace = ''a'', rlName = ''gpu'', rlClusterQueue = ''q1''\<rparr>])"
  "sortedSet [''q1''] = [''q1'']" "sortedSet [] = []"
  by code_simp+

lemma gpu_queue:
  "observeClusterQueue refKube storeApi gpuStore ''q1'' \<lparr>qoStage = \<lparr>sgOK = True, sgIssues = [], sgError = None\<rparr>, qoNames = [], qoFlavors = [], qoExecution = []\<rparr> =
     \<lparr>qoStage = \<lparr>sgOK = True, sgIssues = [], sgError = None\<rparr>, qoNames = [''q1''], qoFlavors = [],
      qoExecution = [\<lparr>eoClusterQueue = ''q1'', eoReferenced = [], eoMultiKueue = [], eoOther = [], eoIssues = []\<rparr>]\<rparr>"
  by code_simp

lemma gpu_execution:
  "cdStatus (workloadProfileExecutionCondition 0 gpuCluster (declaredPart canonicalExample) True 1
     [\<lparr>eoClusterQueue = ''q1'', eoReferenced = [], eoMultiKueue = [], eoOther = [], eoIssues = []\<rparr>] 3) = ''True''"
  by code_simp

lemma gpu_priorities: "ppDisable (wpPriorities (declaredPart canonicalExample))"
  by code_simp

lemmas gpu_observation = gpuProfile_def observeWorkloadProfile_def Let_def gpu_declared gpu_valid gpu_local gpu_queue nextStage_def observePriorities_def
  gpu_priorities

lemma gpuProfile_parts:
  "rpLocalQueues gpuProfile = [\<lparr>rlNamespace = ''a'', rlName = ''gpu'', rlClusterQueue = ''q1''\<rparr>]" "rpClusterQueues gpuProfile = [''q1'']"
  "rpResourceFlavors gpuProfile = []" "rpTopologies gpuProfile = []" "rpWorkloadPriorityClasses gpuProfile = []" "rpPodPriorityClasses gpuProfile = []"
  by (simp_all add: gpu_observation)

lemma gpuProfile_declared: "declaredPart gpuProfile = declaredPart canonicalExample"
  by (simp add: gpuProfile_def gpu_declared)

lemma gpuProfile_ready: "readyAt gpuProfile 3"
proof -
  have g: "clGeneration gpuCluster = 3" by (simp add: gpuCluster_def)
  show ?thesis
    using gpu_execution
    by (simp add: gpu_observation g readyAt_def findCondition_def profile_condition_types boolCondition_def condition_def
        execution_type [unfolded conditionExecutionReady_def])
qed

lemma gpuProfile_canonical: "canonicalProfile refKube gpuProfile"
proof -
  have "normalizeLocalQueue \<lparr>rlNamespace = ''a'', rlName = ''gpu'', rlClusterQueue = ''q1''\<rparr> = \<lparr>rlNamespace = ''a'', rlName = ''gpu'', rlClusterQueue = ''q1''\<rparr>"
    "validateLocalQueue refKube \<lparr>rlNamespace = ''a'', rlName = ''gpu'', rlClusterQueue = ''q1''\<rparr> () = Inr ()"
    "normalizeName ''q1'' = ''q1''" "kIsDNS1123Subdomain refKube ''q1'' = []" by code_simp+
  then show ?thesis
    by (simp add: canonicalProfile_def gpuProfile_declared gpu_valid gpuProfile_parts resolvedNames_def canonicalSet_def)
qed

definition gpuStatus :: profileSetStatus where
  "gpuStatus = fst (fst (observeWorkloadProfiles refKube storeApi exampleDigest 0 gpuCluster gpuStore))"

definition gpuPublished :: "int tauCluster" where
  "gpuPublished = gpuCluster\<lparr>clWorkloadProfiles := gpuStatus,
     clConditions := [snd (fst (observeWorkloadProfiles refKube storeApi exampleDigest 0 gpuCluster gpuStore))]\<rparr>"

definition gpuRequest :: selectionRequest where
  "gpuRequest = exampleRequest\<lparr>sqName := ''Fast GPU''\<rparr>"

lemma gpu_normalized: "normalizeResolvedProfiles refKube [gpuProfile] = Inr [sortConditions gpuProfile]"
  using collectProfiles_success [of refKube "[gpuProfile]" "[gpuProfile]" sortConditions] canonicalProfile_fixed [OF gpuProfile_canonical]
  by (simp add: normalizeResolvedProfiles_def)

lemma gpuProfile_name: "wpName gpuProfile = ''fast-gpu''"
proof -
  have "wpName (declaredPart gpuProfile) = wpName gpuProfile" by (simp add: declaredPart_def workloadProfile.defs)
  moreover have "wpName (declaredPart canonicalExample) = ''fast-gpu''" by code_simp
  ultimately show ?thesis by (simp add: gpuProfile_declared)
qed

lemma gpu_hash:
  "ProfileSetHash refKube exampleDigest [gpuProfile] = Inr ''hfast-gpu''" "ProfileSetHash refKube exampleDigest [sortConditions gpuProfile] = Inr ''hfast-gpu''"
  using normalizeResolvedProfiles_canonical(2) [OF refKube_name_laws gpu_normalized, of exampleDigest]
    canonicalProfiles_fixed(2) [OF normalizeResolvedProfiles_canonical(1) [OF refKube_name_laws gpu_normalized], of exampleDigest]
  by (simp_all add: exampleDigest_def gpuProfile_name)

lemma gpu_status: "psProfiles gpuStatus = [gpuProfile]" "psHash gpuStatus = ''hfast-gpu''" "psObservedGeneration gpuStatus = 3"
proof -
  have k: "keepTransitions gpuCluster p = p" for p
    by (simp add: keepTransitions_def previousResolvedProfile_def gpuCluster_def zeroCluster_def zeroProfileSet_def)
  have d: "clDeclaredProfiles gpuCluster = [declaredPart exampleProfile]" "clGeneration gpuCluster = 3" by (simp_all add: gpuCluster_def)
  show "psProfiles gpuStatus = [gpuProfile]" by (simp add: gpuStatus_def observeWorkloadProfiles_def Let_def d k case_prod_unfold gpuProfile_def)
  show "psObservedGeneration gpuStatus = 3" by (simp add: gpuStatus_def observeWorkloadProfiles_def Let_def d)
  show "psHash gpuStatus = ''hfast-gpu''"
    by (simp add: gpuStatus_def observeWorkloadProfiles_def Let_def d k case_prod_unfold gpuProfile_def [symmetric] gpu_hash)
qed

lemma gpu_served:
  "providerProfileSet refKube exampleDigest (\<lambda>_. False) (\<lambda>_. False) (Inr gpuPublished) ClusterProvider =
     Inr \<lparr>seGeneration = 3, seHash = ''hfast-gpu'', seProfiles = [sortConditions gpuProfile], seSource = ProfileSourceCluster\<rparr>"
proof -
  have "trimSpace ''hfast-gpu'' \<noteq> []" by code_simp
  moreover have "clGeneration gpuCluster = 3" "clName gpuCluster = tauClusterName" by (simp_all add: gpuCluster_def zeroCluster_def)
  ultimately show ?thesis
    by (simp add: providerProfileSet_def decodeTauClusterProfileSet_def Let_def gpuPublished_def gpu_status gpu_normalized gpu_hash requireCondition_def
        findCondition_def observeWorkloadProfiles_def profilesCondition_def condition_def)
qed

lemma gpu_selected:
  "providerSelect refKube exampleDigest (\<lambda>_. False) (\<lambda>_. False) (Inr gpuPublished) ClusterProvider gpuRequest =
     Inr \<lparr>slGeneration = 3, slHash = ''hfast-gpu'', slProfile = sortConditions gpuProfile, slSource = ProfileSourceCluster\<rparr>"
proof -
  have n: "normalizeName (sqName gpuRequest) = ''fast-gpu''" by code_simp
  have a: "wpApplicability (declaredPart gpuProfile) = wpApplicability gpuProfile" by (simp add: declaredPart_def workloadProfile.defs)
  have "allows (declaredPart canonicalExample) gpuRequest" by code_simp
  with a have "allows (sortConditions gpuProfile) gpuRequest" by (simp add: allows_def gpuProfile_declared sortConditions_def)
  then have "authorizeProfile (sortConditions gpuProfile) gpuRequest = Inr ()" "requireProfileReady (sortConditions gpuProfile) 3 = Inr ()"
    using authorizeProfile_iff [of refKube "sortConditions gpuProfile"] gpuProfile_canonical gpuProfile_ready by (simp_all add: requireProfileReady_iff)
  then show ?thesis
    by (simp add: providerSelect_def gpu_served selectProfile_def n gpuProfile_name selectionOf_def)
qed

theorem published_selection_runnable_witness:
  "dependenciesReady refKube storeApi gpuStore gpuCluster (NormalizeWorkloadProfile (declaredPart exampleProfile))"
proof -
  have "clDeclaredProfiles gpuCluster = [declaredPart exampleProfile]" by (simp add: gpuCluster_def)
  moreover have "observeWorkloadProfiles refKube storeApi exampleDigest 0 gpuCluster gpuStore =
      ((gpuStatus, snd (fst (observeWorkloadProfiles refKube storeApi exampleDigest 0 gpuCluster gpuStore))),
       snd (observeWorkloadProfiles refKube storeApi exampleDigest 0 gpuCluster gpuStore))" by (simp add: gpuStatus_def)
  ultimately show ?thesis
    using published_selection_runnable [OF refKube_name_laws _ _ _ gpu_selected] by (fastforce simp: gpuPublished_def)
qed

section \<open>Invalid profiles\<close>

lemma normalizeResolvedProfiles_each:
  assumes "normalizeResolvedProfiles K profiles = Inr ps" "raw \<in> set profiles"
  shows "\<exists>q. NormalizeResolvedWorkloadProfile K raw = Inr q"
proof -
  from collectProfiles_result [OF assms(1) [unfolded normalizeResolvedProfiles_def]] obtain qs where
    "list_all2 (\<lambda>raw p. NormalizeResolvedWorkloadProfile K raw = Inr p) profiles qs" by auto
  then show ?thesis using assms(2) by (induction rule: list_all2_induct) auto
qed

lemma NormalizeResolved_declared:
  assumes "NormalizeResolvedWorkloadProfile K p = Inr q"
  shows "ValidateWorkloadProfile K (NormalizeWorkloadProfile (declaredPart p)) = Inr ()"
proof -
  have "ValidateWorkloadProfile K (NormalizeWorkloadProfile p) = Inr ()"
    using assms by (auto simp: NormalizeResolvedWorkloadProfile_def NormalizeAndValidateWorkloadProfile_def bindE_Inr_iff Let_def)
  moreover have "declaredPart (NormalizeWorkloadProfile p) = NormalizeWorkloadProfile (declaredPart p)"
    by (simp add: declaredPart_def NormalizeWorkloadProfile_def workloadProfile.defs)
  ultimately show ?thesis using ValidateWorkloadProfile_declared by metis
qed

text \<open>
  C31. One invalid profile hides all: the controller publishes each declared profile normalised, and a client normalises
  what it reads once more and validates it. When that validation refuses one declared profile, every selection from the
  cluster fails, also of the profiles that are valid and ready. (For a profile that normalising leaves alone the second
  time this is the controller's own validation. A profile the controller refuses only because a second normalisation
  would change it is not meant: the client may repair it, and then serves the set.)
\<close>

theorem invalid_profile_hides_set:
  assumes "observeWorkloadProfiles K A digest now cluster w = ((status, ready), err)"
    and "clWorkloadProfiles published = status"
    and "d \<in> set (clDeclaredProfiles cluster)" "ValidateWorkloadProfile K (NormalizeWorkloadProfile (NormalizeWorkloadProfile d)) = Inl e"
  shows "\<exists>e'. providerSelect K digest missing forbidden (Inr published) ClusterProvider request = Inl e'"
proof (cases "providerProfileSet K digest missing forbidden (Inr published) ClusterProvider")
  case (Inr s)
  then have "decodeTauClusterProfileSet K digest published = Inr s" by (simp add: providerProfileSet_def mapErr_def)
  then obtain ps where "normalizeResolvedProfiles K (psProfiles status) = Inr ps"
    using assms(2) by (auto elim: decodeTauClusterProfileSet_Inr)
  moreover have "keepTransitions cluster (fst (observeWorkloadProfile K A now cluster d w)) \<in> set (psProfiles status)"
    using assms(1,3) by (auto simp: observeWorkloadProfiles_def Let_def case_prod_unfold)
  ultimately obtain q where "NormalizeResolvedWorkloadProfile K (keepTransitions cluster (fst (observeWorkloadProfile K A now cluster d w))) = Inr q"
    using normalizeResolvedProfiles_each by blast
  from NormalizeResolved_declared [OF this] have False using assms(4) by simp
  then show ?thesis ..
qed (auto simp: providerSelect_def)

definition unnamedProfile :: workloadProfile where
  "unnamedProfile = (declaredPart exampleProfile)\<lparr>wpName := ''  ''\<rparr>"

definition mixedCluster :: "int tauCluster" where
  "mixedCluster = gpuCluster\<lparr>clDeclaredProfiles := [declaredPart exampleProfile, unnamedProfile]\<rparr>"

theorem invalid_profile_hides_set_witness:
  "\<exists>e. providerSelect refKube exampleDigest (\<lambda>_. False) (\<lambda>_. False)
     (Inr (mixedCluster\<lparr>clWorkloadProfiles := fst (fst (observeWorkloadProfiles refKube storeApi exampleDigest 0 mixedCluster gpuStore))\<rparr>))
     ClusterProvider gpuRequest = Inl e"
proof -
  let ?p = "(declaredPart canonicalExample)\<lparr>wpName := []\<rparr>"
  let ?o = "observeWorkloadProfiles refKube storeApi exampleDigest 0 mixedCluster gpuStore"
  have n: "NormalizeWorkloadProfile unnamedProfile = ?p" "NormalizeWorkloadProfile ?p = ?p" by code_simp+
  have v: "ValidateWorkloadProfile refKube ?p = Inl (Errorf ''%s is required'' [''name''])"
    by (simp add: ValidateWorkloadProfile_def n validateDNSName_def)
  have run: "?o = ((fst (fst ?o), snd (fst ?o)), snd ?o)" by simp
  have d: "unnamedProfile \<in> set (clDeclaredProfiles mixedCluster)" by (simp add: mixedCluster_def)
  have "ValidateWorkloadProfile refKube (NormalizeWorkloadProfile (NormalizeWorkloadProfile unnamedProfile)) = Inl (Errorf ''%s is required'' [''name''])"
    unfolding n by (rule v)
  from invalid_profile_hides_set [OF run _ d this] show ?thesis by simp
qed

end
