(* ===== verification/Metric_Event.thy ===== *)
theory Metric_Event
  imports Go_Text Go_Strconv
begin

text \<open>
  Metric events of experiments (\<open>core/exptelemetry\<close>): the event and its deterministic identity,
  its validation and encoding (\<open>metric.go\<close>), the catalogue of research metrics (\<open>mapping.go\<close>), and
  the projection of one row of a training history to events (\<open>history.go\<close>). Times are UTC.

  The record \<open>eventCodec\<close> holds what the package takes from outside: the hexadecimal SHA-256 of a
  text, \<open>encoding/json\<close> for the identity and the event (without the newline that ends a line),
  \<open>strconv.ParseFloat\<close>, and what the platform makes of a float that is no \<open>int64\<close>.
\<close>

section \<open>The event\<close>

record metricEvent =
  evSchemaVersion :: string
  evEventID :: string
  evWorkspaceID :: string
  evCluster :: string
  evNamespace :: string
  evSourceStoreID :: string
  evProject :: string
  evExperimentID :: string
  evRunGroupID :: string
  evRunID :: string
  evMetricName :: string
  evStep :: int
  evWallTime :: gotime
  evValue :: float64
  evUnit :: string
  evSource :: string
  evSplit :: string
  evMetricFileID :: string
  evMetricFilePath :: string
  evTags :: "(string, string) gomap"
  evExportedAt :: gotime

record metricIdentity =
  idWorkspaceID :: string
  idCluster :: string
  idNamespace :: string
  idSourceStoreID :: string
  idMetricFileID :: string
  idProject :: string
  idExperimentID :: string
  idRunGroupID :: string
  idRunID :: string
  idMetricName :: string
  idStep :: int
  idWallTime :: gotime

record eventCodec =
  ecDigest :: "string \<Rightarrow> string"
  ecIdentityJSON :: "metricIdentity \<Rightarrow> string"
  ecEventJSON :: "metricEvent \<Rightarrow> string option"
  ecDecodeEvent :: "string \<Rightarrow> metricEvent option"
  ecParseFloat :: "string \<Rightarrow> float64 option"
  ecOutOfRange :: "float64 \<Rightarrow> int"

datatype eventError =
    UnknownSchema string
  | FieldRequired
  | NegativeStep
  | TimeRequired string
  | TimeInvalid string
  | ValueNotFinite
  | TagProtected
  | EventIDRequired
  | EventIDMismatch string string
  | EncodeFailed
  | HistoryLineNotPositive
  | StepNotInt64
  | TimeNotFinite
  | MetricNotFinite string
  | ProjectMetric string eventError

definition metricEventSchemaV1 :: string where
  "metricEventSchemaV1 = ''tau.experiment.metric.v1''"

definition protectedMetricTagKeys :: "string goset" where
  "protectedMetricTagKeys =
     [''schema_version'', ''event_id'', ''workspace_id'', ''cluster'', ''namespace'', ''source_store_id'',
      ''project'', ''experiment_id'', ''run_group_id'', ''run_id'', ''metric_name'', ''step'', ''wall_time'',
      ''value'', ''unit'', ''source'', ''split'', ''metric_file_id'', ''metric_file_path'', ''exported_at'']"

definition deterministicEventID :: "'a eventCodec_scheme \<Rightarrow> metricEvent \<Rightarrow> string" where
  "deterministicEventID C e =
     ''metric-'' @ ecDigest C (ecIdentityJSON C
       \<lparr>idWorkspaceID = evWorkspaceID e, idCluster = evCluster e, idNamespace = evNamespace e,
        idSourceStoreID = evSourceStoreID e, idMetricFileID = evMetricFileID e, idProject = evProject e,
        idExperimentID = evExperimentID e, idRunGroupID = evRunGroupID e, idRunID = evRunID e,
        idMetricName = evMetricName e, idStep = evStep e, idWallTime = evWallTime e\<rparr>)"

text \<open>\<open>Time.MarshalJSON\<close> refuses years outside \<open>[0, 9999]\<close>.\<close>

definition timeMarshals :: "gotime \<Rightarrow> bool" where
  "timeMarshals t \<longleftrightarrow> - 31622400 * second \<le> t \<and> t < 315537897600 * second"

definition validateMetricTime :: "string \<Rightarrow> gotime \<Rightarrow> eventError option" where
  "validateMetricTime name value =
     (if isZero value then Some (TimeRequired name)
      else if \<not> timeMarshals value then Some (TimeInvalid name) else None)"

definition validateEvent :: "'a eventCodec_scheme \<Rightarrow> metricEvent \<Rightarrow> eventError option" where
  "validateEvent C e =
     (if evSchemaVersion e \<noteq> metricEventSchemaV1 then Some (UnknownSchema (evSchemaVersion e))
      else if list_ex (\<lambda>v. trimSpace v = []) [evProject e, evExperimentID e, evRunGroupID e, evRunID e, evMetricName e]
      then Some FieldRequired
      else if evStep e < 0 then Some NegativeStep
      else case validateMetricTime ''wall_time'' (evWallTime e) of
        Some err \<Rightarrow> Some err
      | None \<Rightarrow>
          (case validateMetricTime ''exported_at'' (evExportedAt e) of
             Some err \<Rightarrow> Some err
           | None \<Rightarrow>
               if isNaN (evValue e) \<or> isInf (evValue e) then Some ValueNotFinite
               else if list_ex (\<lambda>k. trimSpace k \<in> set protectedMetricTagKeys) (gm_keys (evTags e)) then Some TagProtected
               else if evEventID e = [] then Some EventIDRequired
               else (let want = deterministicEventID C e
                     in if evEventID e \<noteq> want then Some (EventIDMismatch (evEventID e) want) else None)))"

definition newMetricEvent :: "'a eventCodec_scheme \<Rightarrow> metricEvent \<Rightarrow> eventError + metricEvent" where
  "newMetricEvent C e =
     (let e = (if evSchemaVersion e = [] then e\<lparr>evSchemaVersion := metricEventSchemaV1\<rparr> else e);
          e = (if evEventID e = [] then e\<lparr>evEventID := deterministicEventID C e\<rparr> else e)
      in case validateEvent C e of Some err \<Rightarrow> Inl err | None \<Rightarrow> Inr e)"

definition encodeMetricNDJSON :: "'a eventCodec_scheme \<Rightarrow> metricEvent \<Rightarrow> eventError + string" where
  "encodeMetricNDJSON C e =
     (case newMetricEvent C e of
        Inl err \<Rightarrow> Inl err
      | Inr normalized \<Rightarrow>
          (case ecEventJSON C normalized of None \<Rightarrow> Inl EncodeFailed | Some line \<Rightarrow> Inr (line @ [CHR 0x0A])))"

section \<open>The catalogue of research metrics\<close>

definition standardResearchMetrics :: "string goset" where
  "standardResearchMetrics =
     [''train/return'', ''eval/score'', ''wm/loss'', ''world_model/loss'', ''model/loss'', ''train/loss'',
      ''eval/loss'', ''train/lr'', ''train/learning_rate'', ''train/grad_norm'', ''train/gradient_norm'',
      ''train/step_time_s'', ''train/step_time'', ''train/examples_seen'', ''train/input_tokens'', ''train/tokens'',
      ''gpu/memory_allocated_gb'', ''gpu/memory_reserved_gb'', ''gpu/max_memory_allocated_gb'',
      ''checkpoint/file_count'', ''checkpoint/bytes'', ''inference/time_s'', ''wm/perplexity'',
      ''world_model/perplexity'', ''model/perplexity'', ''train/perplexity'', ''eval/perplexity'',
      ''wm/cross_entropy'', ''wm/cross-entropy'', ''world_model/cross_entropy'', ''world_model/cross-entropy'',
      ''model/cross_entropy'', ''model/cross-entropy'', ''model/kl'', ''policy/entropy'', ''system/gpu_util'']"

definition isStandardResearchMetric :: "string \<Rightarrow> bool" where
  "isStandardResearchMetric name =
     (let lower = toLower (trimSpace name) in lower \<in> set standardResearchMetrics \<or> hasPrefix lower ''feature/'')"

definition researchMetricCard :: "string \<Rightarrow> string" where
  "researchMetricCard name =
     (let lower = toLower (trimSpace name); pre = hasPrefix lower in
      if lower = ''train/return'' \<or> lower = ''eval/score'' then ''Outcome''
      else if lower = ''train/loss'' \<or> lower = ''eval/loss'' \<or> pre ''wm/'' \<or> pre ''world_model/'' \<or> pre ''model/''
      then ''World model''
      else if pre ''train/lr'' \<or> pre ''train/learning_rate'' \<or> pre ''train/grad_norm'' \<or> pre ''train/gradient_norm'' \<or>
              pre ''train/step_time''
      then ''Optimization''
      else if pre ''train/examples'' \<or> containsText lower ''tokens'' \<or> containsText lower ''throughput''
      then ''Throughput''
      else if pre ''gpu/'' \<or> pre ''system/'' then ''Systems''
      else if pre ''checkpoint/'' then ''Checkpoint''
      else if pre ''feature/'' \<or> pre ''inference/'' \<or> pre ''eval/'' then ''Model diagnostics''
      else if pre ''policy/'' then ''Behavior''
      else ''Other metrics'')"

section \<open>Rows of a training history\<close>

text \<open>
  A value of a row (\<open>any\<close>): a \<open>json.Number\<close> by its text, Go's floats, signed and unsigned
  integers of every width, or anything else.
\<close>

datatype anyValue = AnyNumber string | AnyFloat float64 | AnyInt int | AnyUint nat | AnyOther

definition floatOfInt :: "int \<Rightarrow> float64" where
  "floatOfInt n = f_round (of_int n)"

definition truncRat :: "rat \<Rightarrow> int" where
  "truncRat r = (if 0 \<le> r then \<lfloor>r\<rfloor> else \<lceil>r\<rceil>)"

definition floatToInt64 :: "'a eventCodec_scheme \<Rightarrow> float64 \<Rightarrow> int" where
  "floatToInt64 C x =
     (case x of Fin r \<Rightarrow> if int64 (truncRat r) then truncRat r else ecOutOfRange C x | _ \<Rightarrow> ecOutOfRange C x)"

text \<open>\<open>historyNumber\<close>: a number, no number, or an invalid one.\<close>

datatype historyValue = Numeric float64 | NotNumeric | InvalidNumber

definition finiteNumber :: "float64 \<Rightarrow> historyValue" where
  "finiteNumber x = (if isNaN x \<or> isInf x then InvalidNumber else Numeric x)"

fun historyNumber :: "'a eventCodec_scheme \<Rightarrow> anyValue option \<Rightarrow> historyValue" where
  "historyNumber C (Some (AnyNumber s)) =
     (case ecParseFloat C s of None \<Rightarrow> InvalidNumber | Some x \<Rightarrow> finiteNumber x)"
| "historyNumber C (Some (AnyFloat x)) = finiteNumber x"
| "historyNumber C (Some (AnyInt n)) = finiteNumber (floatOfInt n)"
| "historyNumber C (Some (AnyUint n)) = finiteNumber (floatOfInt (int n))"
| "historyNumber C _ = NotNumeric"

definition nonnegativeHistoryStep :: "int \<Rightarrow> eventError + int" where
  "nonnegativeHistoryStep step = (if step < 0 then Inl NegativeStep else Inr step)"

definition floatStep :: "'a eventCodec_scheme \<Rightarrow> anyValue option \<Rightarrow> eventError + int" where
  "floatStep C value =
     (case historyNumber C value of
        Numeric (Fin r) \<Rightarrow>
          if 2 ^ 63 \<le> r \<or> r < - (2 ^ 63) then Inl StepNotInt64 else nonnegativeHistoryStep (floatToInt64 C (Fin r))
      | _ \<Rightarrow> Inl StepNotInt64)"

fun historyStep :: "'a eventCodec_scheme \<Rightarrow> anyValue option \<Rightarrow> eventError + int" where
  "historyStep C (Some (AnyNumber s)) =
     (case parseInt64 s of
        Some step \<Rightarrow> nonnegativeHistoryStep step
      | None \<Rightarrow> if list_ex (\<lambda>c. c \<in> set ''.eE'') s then floatStep C (Some (AnyNumber s)) else Inl StepNotInt64)"
| "historyStep C (Some (AnyInt n)) = nonnegativeHistoryStep n"
| "historyStep C (Some (AnyUint n)) = (if 2 ^ 63 \<le> n then Inl StepNotInt64 else Inr (int n))"
| "historyStep C value = floatStep C value"

fun f_mul :: "float64 \<Rightarrow> float64 \<Rightarrow> float64" where
  "f_mul (Fin a) (Fin b) = f_round (a * b)"
| "f_mul x y = NaN"

text \<open>\<open>time.UnixMicro\<close>: the Unix epoch lies \<open>62135596800\<close> seconds after Go's zero time.\<close>

definition unixMicro :: "int \<Rightarrow> gotime" where
  "unixMicro us = 62135596800 * second + us * 1000"

definition historyTime :: "'a eventCodec_scheme \<Rightarrow> anyValue option \<Rightarrow> eventError + gotime" where
  "historyTime C value =
     (case historyNumber C value of
        Numeric x \<Rightarrow> Inr (unixMicro (floatToInt64 C (f_mul x (Fin 1000000))))
      | _ \<Rightarrow> Inl TimeNotFinite)"

definition compactTag :: "string \<times> string \<Rightarrow> (string, string) gomap \<Rightarrow> (string, string) gomap" where
  "compactTag p out = (let key = trimSpace (fst p) in if key \<noteq> [] then gm_set key (trimSpace (snd p)) out else out)"

definition compactMetricTags :: "(string, string) gomap \<Rightarrow> (string, string) gomap" where
  "compactMetricTags tags = fold compactTag tags gm_empty"

definition jsonlImporterVersion :: string where
  "jsonlImporterVersion = ''tau.jsonl.import.v1''"

definition protectedJSONLTagKeys :: "string goset" where
  "protectedJSONLTagKeys =
     [''jsonl.raw_key'', ''jsonl.history_file'', ''jsonl.history_path'', ''jsonl.history_line'', ''jsonl.importer'',
      ''tau.metric.card'', ''tau.metric.standard'']"

record historyOptions =
  hoWorkspaceID :: string
  hoCluster :: string
  hoNamespace :: string
  hoSourceStoreID :: string
  hoProject :: string
  hoExperimentID :: string
  hoRunGroupID :: string
  hoRunID :: string
  hoMetricPrefix :: string
  hoSource :: string
  hoTags :: "(string, string) gomap"
  hoStepField :: string
  hoTimeField :: string
  hoHistoryPath :: string
  hoHistoryLine :: int
  hoExportedAt :: gotime
  hoMetricFileID :: string
  hoMetricFilePath :: string

definition defaultOptions :: "historyOptions \<Rightarrow> historyOptions" where
  "defaultOptions o' =
     o'\<lparr>hoStepField := (if hoStepField o' = [] then ''_step'' else hoStepField o'),
        hoTimeField := (if hoTimeField o' = [] then ''_timestamp'' else hoTimeField o'),
        hoSource := (if hoSource o' = [] then ''jsonl'' else hoSource o')\<rparr>"

text \<open>\<open>filepath.Base\<close>.\<close>

definition baseName :: "string \<Rightarrow> string" where
  "baseName path =
     (if path = [] then ''.''
      else (let p = rev (dropWhile (\<lambda>c. c = CHR ''/'') (rev path))
            in if p = [] then ''/'' else rev (takeWhile (\<lambda>c. c \<noteq> CHR ''/'') (rev p))))"

definition rowTags :: "historyOptions \<Rightarrow> string \<Rightarrow> string \<Rightarrow> (string, string) gomap" where
  "rowTags opts rawKey metricName =
     fold (\<lambda>(k, v). gm_set k v)
       [(''jsonl.raw_key'', rawKey), (''jsonl.history_file'', baseName (hoHistoryPath opts)),
        (''jsonl.history_path'', hoHistoryPath opts), (''jsonl.history_line'', showInt (hoHistoryLine opts)),
        (''jsonl.importer'', jsonlImporterVersion), (''tau.metric.card'', researchMetricCard metricName),
        (''tau.metric.standard'', if isStandardResearchMetric metricName then ''true'' else ''false'')]
       (compactMetricTags (hoTags opts))"

definition rowEvent ::
  "'a eventCodec_scheme \<Rightarrow> historyOptions \<Rightarrow> int \<Rightarrow> gotime \<Rightarrow> string \<Rightarrow> string \<Rightarrow> float64 \<Rightarrow> eventError + metricEvent" where
  "rowEvent C opts step wallTime rawKey metricName value =
     newMetricEvent C
       \<lparr>evSchemaVersion = [], evEventID = [], evWorkspaceID = hoWorkspaceID opts, evCluster = hoCluster opts,
        evNamespace = hoNamespace opts, evSourceStoreID = hoSourceStoreID opts, evProject = hoProject opts,
        evExperimentID = hoExperimentID opts, evRunGroupID = hoRunGroupID opts, evRunID = hoRunID opts,
        evMetricName = metricName, evStep = step, evWallTime = wallTime, evValue = value, evUnit = [],
        evSource = hoSource opts, evSplit = [], evMetricFileID = hoMetricFileID opts,
        evMetricFilePath = hoMetricFilePath opts, evTags = rowTags opts rawKey metricName,
        evExportedAt = hoExportedAt opts\<rparr>"

text \<open>One turn of the loop over the sorted keys.\<close>

definition projectKey ::
  "'a eventCodec_scheme \<Rightarrow> historyOptions \<Rightarrow> (string, anyValue) gomap \<Rightarrow> int \<Rightarrow> gotime \<Rightarrow> string \<Rightarrow>
     eventError + metricEvent list" where
  "projectKey C opts row step wallTime rawKey =
     (case historyNumber C (gm_lookup row rawKey) of
        InvalidNumber \<Rightarrow> Inl (MetricNotFinite rawKey)
      | NotNumeric \<Rightarrow> Inr []
      | Numeric value \<Rightarrow>
          (let metricName = trimSpace rawKey in
           if metricName = [] then Inr []
           else (let metricName = (if hoMetricPrefix opts \<noteq> []
                                   then trimSuffix (hoMetricPrefix opts) ''/'' @ ''/'' @ metricName else metricName)
                 in case rowEvent C opts step wallTime rawKey metricName value of
                      Inl err \<Rightarrow> Inl (ProjectMetric rawKey err)
                    | Inr event \<Rightarrow> Inr [event])))"

fun projectKeys :: "('k \<Rightarrow> 'e + 'v list) \<Rightarrow> 'k list \<Rightarrow> 'e + 'v list" where
  "projectKeys f [] = Inr []"
| "projectKeys f (k # ks) =
     (case f k of Inl err \<Rightarrow> Inl err
      | Inr vs \<Rightarrow> (case projectKeys f ks of Inl err \<Rightarrow> Inl err | Inr ws \<Rightarrow> Inr (vs @ ws)))"

definition projectJSONLHistoryRow ::
  "'a eventCodec_scheme \<Rightarrow> (string, anyValue) gomap \<Rightarrow> historyOptions \<Rightarrow> eventError + metricEvent list" where
  "projectJSONLHistoryRow C row opts0 =
     (let opts = defaultOptions opts0 in
      if hoHistoryLine opts < 1 then Inl HistoryLineNotPositive
      else if list_ex (\<lambda>k. trimSpace k \<in> set protectedJSONLTagKeys) (gm_keys (hoTags opts)) then Inl TagProtected
      else case historyStep C (gm_lookup row (hoStepField opts)) of
        Inl err \<Rightarrow> Inl err
      | Inr step \<Rightarrow>
          (case historyTime C (gm_lookup row (hoTimeField opts)) of
             Inl err \<Rightarrow> Inl err
           | Inr wallTime \<Rightarrow>
               projectKeys (projectKey C opts row step wallTime)
                 (sort (filter (\<lambda>k. \<not> (k = hoStepField opts \<or> k = hoTimeField opts \<or> hasPrefix k ''_'')) (gm_keys row)))))"

end
