(* ===== verification/Metric_Spool.thy ===== *)
theory Metric_Spool
  imports Metric_Event
begin

text \<open>
  The durable spool of the experiment-metrics collector
  (\<open>metrics/experiment-metrics-collector/spool.go\<close>, \<open>types.go\<close>): checkpoints, chunk manifests, and
  the storage operations on them.

  The state \<open>world\<close> is the disk (the checkpoint file and the pending directory), the memory of the
  process (its checkpoints and result), the calls made to the sink, and what is still to happen:
  \<open>wFaults\<close> and \<open>wAnswers\<close> are consumed by the storage operations and by the calls of the sink.
  A storage operation succeeds, fails before or after it took effect, or is where the process
  dies; once the lists are used up everything succeeds. A file is the value its JSON encodes,
  or malformed, or unreadable. Sequence numbers are unbounded; the theorems that depend on the
  twenty digits of a file name bound them by \<open>2 ^ 64\<close>. The times of the last update, which nothing
  reads, are left out.
\<close>

section \<open>Data\<close>

definition chunkSchemaV1 :: string where
  "chunkSchemaV1 = ''tau.experiment.metric_chunk.v1''"

definition chunkManifestSchemaV1 :: string where
  "chunkManifestSchemaV1 = ''tau.experiment.metric_chunk_manifest.v1''"

definition checkpointSchemaV1 :: string where
  "checkpointSchemaV1 = ''tau.experiment.metrics_checkpoint.v1''"

record sourceCheckpoint =
  scPath :: string
  scFileID :: string
  scOffset :: int
  scPrefix :: string
  scSequence :: nat
  scDigest :: string
  scLines :: int
  scBaseline :: bool

definition zeroSource :: sourceCheckpoint where
  "zeroSource = \<lparr>scPath = [], scFileID = [], scOffset = 0, scPrefix = [], scSequence = 0, scDigest = [],
     scLines = 0, scBaseline = False\<rparr>"

record terminalCheckpoint =
  tcSequence :: nat
  tcDigest :: string

record checkpointSet =
  csConfig :: string
  csNext :: nat
  csSources :: "(string, sourceCheckpoint) gomap"
  csTerminals :: "(string, terminalCheckpoint) gomap"

text \<open>The checkpoint file: its maps may be \<open>null\<close>.\<close>

record checkpointDoc =
  cdSchema :: string
  cdConfig :: string
  cdNext :: nat
  cdSources :: "(string, sourceCheckpoint) gomap option"
  cdTerminals :: "(string, terminalCheckpoint) gomap option"

record chunkManifest =
  cmSchema :: string
  cmManifestDigest :: string
  cmChunkDigest :: string
  cmConfig :: string
  cmKind :: string
  cmSequence :: nat
  cmSourcePath :: string
  cmSourceFileID :: string
  cmStartOffset :: int
  cmEndOffset :: int
  cmStartLines :: int
  cmEndLines :: int
  cmStartPrefix :: string
  cmPrefix :: string
  cmEventCount :: int
  cmNDJSON :: string

record metricChunk =
  ckSchema :: string
  ckDigest :: string
  ckPath :: string
  ckSourcePath :: string
  ckSourceFileID :: string
  ckStartOffset :: int
  ckEndOffset :: int
  ckSequence :: nat
  ckEvents :: "metricEvent list"
  ckNDJSON :: string

text \<open>What the spool takes from outside beside the codec of events: the JSON of a manifest.\<close>

record spoolCodec = eventCodec +
  spManifestJSON :: "chunkManifest \<Rightarrow> string"

datatype spoolError =
    StorageError string
  | SyncError string
  | ProcessCrashed
  | CheckpointUnreadable
  | CheckpointInvalid
  | CheckpointOtherConfig
  | CheckpointBadTerminal string
  | CheckpointBadSource string
  | ConfigIdentityRequired
  | ChunkCollision string
  | UnexpectedSpoolFile string
  | MultipleChunks
  | PendingUnreadable string
  | ManifestInvalid string
  | EventInvalid nat
  | SequenceMismatch nat nat
  | NotAcknowledged nat
  | DidNotAdvance nat
  | StartMismatch string
  | StartsAfterMissing string
  | DuplicateTerminal string
  | UnknownKind string
  | SinkError string
  | SinkMiscount int int
  | SourceError string
  | SourceDisappeared string
  | LineInvalid string int
  | LineRejected string int eventError
  | EncodingFailed eventError
  | CompletionError string
  | OptionError string
  | ContextCancelled

datatype 'a document = Document 'a | Malformed | Unreadable string

datatype spoolEntry = SpoolDir | SpoolSymlink | SpoolFile "chunkManifest document"

text \<open>
  One storage operation: success, failure before it took effect (perhaps leaving the temporary
  file, named by its random suffix), failure of the final sync, or the death of the process
  before or after it took effect.
\<close>

datatype ioFault = IoOk | IoFails "nat option" string | IoSyncFails string | IoCrash "nat option" | IoCrashAfter

datatype sinkAnswer = SinkAck int | SinkFails string | SinkCrash

record runResult =
  rrChunks :: nat
  rrEvents :: nat
  rrCompleted :: bool

record world =
  wCheckpoint :: "checkpointDoc document option"
  wPending :: "(string, spoolEntry) gomap"
  wReady :: bool
  wDone :: bool
  wMemory :: checkpointSet
  wResult :: runResult
  wFaults :: "ioFault list"
  wAnswers :: "sinkAnswer list"
  wLog :: "(metricChunk \<times> sinkAnswer) list"
  wCrashed :: bool

section \<open>Operations on the state\<close>

type_synonym 'a op = "world \<Rightarrow> (spoolError + 'a) \<times> world"

definition ret :: "'a \<Rightarrow> 'a op" where
  "ret x w = (Inr x, w)"

definition failWith :: "spoolError \<Rightarrow> 'a op" where
  "failWith e w = (Inl e, w)"

definition andDo :: "'a op \<Rightarrow> ('a \<Rightarrow> 'b op) \<Rightarrow> 'b op" where
  "andDo m f w = (case m w of (Inl e, w') \<Rightarrow> (Inl e, w') | (Inr x, w') \<Rightarrow> f x w')"

definition liftE :: "spoolError + 'a \<Rightarrow> 'a op" where
  "liftE r w = (r, w)"

definition nextFault :: "world \<Rightarrow> ioFault \<times> world" where
  "nextFault w = (case wFaults w of [] \<Rightarrow> (IoOk, w) | f # fs \<Rightarrow> (f, w\<lparr>wFaults := fs\<rparr>))"

text \<open>
  A durable operation (\<open>writeFileDurable\<close>, \<open>removeDurable\<close>): \<open>apply\<close> is its effect, \<open>temp n\<close> that of
  leaving the temporary file with suffix \<open>n\<close>.
\<close>

definition leaveTemp :: "(nat \<Rightarrow> world \<Rightarrow> world) \<Rightarrow> nat option \<Rightarrow> world \<Rightarrow> world" where
  "leaveTemp temp t w = (case t of None \<Rightarrow> w | Some n \<Rightarrow> temp n w)"

definition durable :: "(world \<Rightarrow> world) \<Rightarrow> (nat \<Rightarrow> world \<Rightarrow> world) \<Rightarrow> unit op" where
  "durable apply' temp w =
     (let (f, w) = nextFault w in
      case f of
        IoOk \<Rightarrow> (Inr (), apply' w)
      | IoFails t e \<Rightarrow> (Inl (StorageError e), leaveTemp temp t w)
      | IoSyncFails e \<Rightarrow> (Inl (SyncError e), apply' w)
      | IoCrash t \<Rightarrow> (Inl ProcessCrashed, (leaveTemp temp t w)\<lparr>wCrashed := True\<rparr>)
      | IoCrashAfter \<Rightarrow> (Inl ProcessCrashed, (apply' w)\<lparr>wCrashed := True\<rparr>))"

definition noTemp :: "nat \<Rightarrow> world \<Rightarrow> world" where
  "noTemp n w = w"

definition removeDurable :: "string \<Rightarrow> unit op" where
  "removeDurable name w =
     (if gm_lookup (wPending w) name = None then (Inr (), w)
      else durable (\<lambda>w. w\<lparr>wPending := gm_delete name (wPending w)\<rparr>) noTemp w)"

section \<open>Checkpoints\<close>

definition hexDigitChar :: "char \<Rightarrow> bool" where
  "hexDigitChar c \<longleftrightarrow> isDigit c \<or> c \<in> set ''abcdefABCDEF''"

definition validDigest :: "string \<Rightarrow> bool" where
  "validDigest value \<longleftrightarrow> length value = 64 \<and> list_all hexDigitChar value"

definition freshCheckpoints :: "string \<Rightarrow> checkpointSet" where
  "freshCheckpoints cfg = \<lparr>csConfig = cfg, csNext = 1, csSources = gm_empty, csTerminals = gm_empty\<rparr>"

definition badTerminal :: "string \<times> terminalCheckpoint \<Rightarrow> bool" where
  "badTerminal p \<longleftrightarrow> \<not> validDigest (fst p) \<or> tcSequence (snd p) = 0 \<or> \<not> validDigest (tcDigest (snd p))"

definition badSource :: "string \<times> sourceCheckpoint \<Rightarrow> bool" where
  "badSource p =
     (let cp = snd p in
      scPath cp \<noteq> fst p \<or> scOffset cp < 0 \<or> scLines cp < 0 \<or> (scSequence cp = 0 \<and> scDigest cp \<noteq> []) \<or>
      (0 < scSequence cp \<and> \<not> validDigest (scDigest cp)))"

text \<open>\<open>loadCheckpoints\<close> also says whether the file existed.\<close>

definition loadCheckpoints :: "string \<Rightarrow> checkpointDoc document option \<Rightarrow> spoolError + checkpointSet \<times> bool" where
  "loadCheckpoints cfg file =
     (case file of
        None \<Rightarrow> Inr (freshCheckpoints cfg, False)
      | Some (Unreadable e) \<Rightarrow> Inl (StorageError e)
      | Some Malformed \<Rightarrow> Inl CheckpointUnreadable
      | Some (Document d) \<Rightarrow>
          (case (cdSources d, cdTerminals d) of
             (Some sources, Some terminals) \<Rightarrow>
               if cdSchema d \<noteq> checkpointSchemaV1 \<or> cdConfig d = [] \<or> cdNext d = 0 then Inl CheckpointInvalid
               else if cdConfig d \<noteq> cfg then Inl CheckpointOtherConfig
               else (case filter badTerminal terminals of
                       p # ps \<Rightarrow> Inl (CheckpointBadTerminal (fst p))
                     | [] \<Rightarrow>
                         (case filter badSource sources of
                            p # ps \<Rightarrow> Inl (CheckpointBadSource (fst p))
                          | [] \<Rightarrow> Inr (\<lparr>csConfig = cdConfig d, csNext = cdNext d, csSources = sources,
                                       csTerminals = terminals\<rparr>, True)))
           | _ \<Rightarrow> Inl CheckpointInvalid))"

definition checkpointDocOf :: "checkpointSet \<Rightarrow> checkpointDoc" where
  "checkpointDocOf cp = \<lparr>cdSchema = checkpointSchemaV1, cdConfig = csConfig cp, cdNext = csNext cp,
     cdSources = Some (csSources cp), cdTerminals = Some (csTerminals cp)\<rparr>"

definition writeCheckpoints :: "checkpointSet \<Rightarrow> unit op" where
  "writeCheckpoints cp w =
     (if csConfig cp = [] then (Inl ConfigIdentityRequired, w)
      else durable (\<lambda>w. w\<lparr>wCheckpoint := Some (Document (checkpointDocOf cp))\<rparr>) noTemp w)"

section \<open>File names\<close>

text \<open>\<open>fmt.Sprintf("%020d-%s.json", sequence, digest)\<close>.\<close>

definition pad20 :: "nat \<Rightarrow> string" where
  "pad20 n = replicate (20 - length (showNat n)) (CHR ''0'') @ showNat n"

definition pendingName :: "nat \<Rightarrow> string \<Rightarrow> string" where
  "pendingName sequence digest = pad20 sequence @ ''-'' @ digest @ ''.json''"

definition validPendingName :: "string \<Rightarrow> bool" where
  "validPendingName name =
     (length name = 20 + 1 + 64 + 5 \<and> hasSuffix name ''.json'' \<and>
      (let stem = trimSuffix name ''.json''
       in stem ! 20 = CHR ''-'' \<and> list_all isDigit (take 20 stem) \<and> validDigest (drop 21 stem)))"

text \<open>\<open>strings.LastIndex\<close>.\<close>

fun lastIndexText :: "string \<Rightarrow> string \<Rightarrow> nat option" where
  "lastIndexText [] p = (if p = [] then Some 0 else None)"
| "lastIndexText (c # s) p =
     (case lastIndexText s p of
        Some i \<Rightarrow> Some (Suc i)
      | None \<Rightarrow> if hasPrefix (c # s) p then Some 0 else None)"

text \<open>The target of a temporary file of the writer, when the name is one.\<close>

definition recognizedAtomicTemp :: "string \<Rightarrow> string option" where
  "recognizedAtomicTemp name =
     (if \<not> hasPrefix name ''.'' then None
      else case lastIndexText name ''.tmp-'' of
        None \<Rightarrow> None
      | Some index \<Rightarrow>
          if index \<le> 1 \<or> index + 5 = length name then None
          else (let target = take (index - 1) (drop 1 name)
                in if validPendingName target then Some target else None))"

definition tempName :: "string \<Rightarrow> nat \<Rightarrow> string" where
  "tempName name n = ''.'' @ name @ ''.tmp-'' @ showNat n"

section \<open>Pending chunks\<close>

definition digestLess :: "chunkManifest \<Rightarrow> chunkManifest" where
  "digestLess m = m\<lparr>cmManifestDigest := []\<rparr>"

definition manifestDigest :: "'a spoolCodec_scheme \<Rightarrow> chunkManifest \<Rightarrow> string" where
  "manifestDigest C m = ecDigest C (spManifestJSON C (digestLess m))"

definition completionPrefix :: string where
  "completionPrefix = ''completion-status/''"

text \<open>\<open>bytes.Split(raw, "\n")\<close> and one line of \<open>decodeCanonicalEvents\<close>.\<close>

fun splitLines :: "string \<Rightarrow> string list" where
  "splitLines [] = [[]]"
| "splitLines (c # s) =
     (if c = CHR 0x0A then [] # splitLines s
      else (case splitLines s of [] \<Rightarrow> [[c]] | l # ls \<Rightarrow> (c # l) # ls))"

definition decodeCanonicalLine :: "'a eventCodec_scheme \<Rightarrow> string \<Rightarrow> metricEvent option" where
  "decodeCanonicalLine C line =
     (if trimSpace line = [] then None
      else case ecDecodeEvent C line of
        None \<Rightarrow> None
      | Some event \<Rightarrow>
          if validateEvent C event \<noteq> None then None
          else (case encodeMetricNDJSON C event of
                  Inl err \<Rightarrow> None
                | Inr canonical \<Rightarrow> if butlast canonical \<noteq> line then None else Some event))"

fun decodeLines :: "'a eventCodec_scheme \<Rightarrow> nat \<Rightarrow> string list \<Rightarrow> spoolError + metricEvent list" where
  "decodeLines C i [] = Inr []"
| "decodeLines C i (l # ls) =
     (case decodeCanonicalLine C l of
        None \<Rightarrow> Inl (EventInvalid i)
      | Some event \<Rightarrow> (case decodeLines C (i + 1) ls of Inl e \<Rightarrow> Inl e | Inr es \<Rightarrow> Inr (event # es)))"

definition decodeCanonicalEvents :: "'a eventCodec_scheme \<Rightarrow> string \<Rightarrow> spoolError + metricEvent list" where
  "decodeCanonicalEvents C raw =
     (if raw = [] \<or> last raw \<noteq> CHR 0x0A then Inl (EventInvalid 0)
      else decodeLines C 1 (splitLines (butlast raw)))"

definition historyRangeInvalid :: "chunkManifest \<Rightarrow> bool" where
  "historyRangeInvalid m \<longleftrightarrow>
     cmSourcePath m = [] \<or> cmSourceFileID m = [] \<or> cmStartOffset m < 0 \<or> cmEndOffset m \<le> cmStartOffset m \<or>
     cmStartLines m < 0 \<or> cmEndLines m \<le> cmStartLines m \<or> cmPrefix m = []"

definition terminalInvalid :: "chunkManifest \<Rightarrow> bool" where
  "terminalInvalid m \<longleftrightarrow>
     cmSourcePath m = [] \<or> \<not> hasPrefix (cmSourceFileID m) completionPrefix \<or>
     \<not> validDigest (trimPrefix (cmSourceFileID m) completionPrefix) \<or>
     cmStartOffset m \<noteq> 0 \<or> cmEndOffset m \<noteq> 0 \<or> cmStartLines m \<noteq> 0 \<or> cmEndLines m \<noteq> 0"

definition validateManifest :: "'a spoolCodec_scheme \<Rightarrow> string \<Rightarrow> chunkManifest \<Rightarrow> string \<Rightarrow> bool" where
  "validateManifest C name m cfg =
     (if cmSchema m \<noteq> chunkManifestSchemaV1 \<or> cmSequence m = 0 \<or> \<not> validDigest (cmChunkDigest m) \<or>
         \<not> validDigest (cmManifestDigest m) \<or> cmManifestDigest m \<noteq> manifestDigest C m \<or>
         cmConfig m \<noteq> cfg \<or> cmEventCount m \<le> 0
      then False
      else if name \<noteq> pendingName (cmSequence m) (cmChunkDigest m) then False
      else if ecDigest C (cmNDJSON m) \<noteq> cmChunkDigest m then False
      else (case decodeCanonicalEvents C (cmNDJSON m) of
              Inl err \<Rightarrow> False
            | Inr events \<Rightarrow>
                if int (length events) \<noteq> cmEventCount m then False
                else if cmKind m = ''history'' then \<not> historyRangeInvalid m
                else if cmKind m = ''terminal'' then \<not> terminalInvalid m
                else False))"

text \<open>The walk over the pending directory: what is left of a writer's temporary files is removed.\<close>

fun spoolWalk :: "string list \<Rightarrow> string list op" where
  "spoolWalk [] w = (Inr [], w)"
| "spoolWalk (n # ns) w =
     (case gm_lookup (wPending w) n of
        None \<Rightarrow> spoolWalk ns w
      | Some SpoolDir \<Rightarrow> (Inl (UnexpectedSpoolFile n), w)
      | Some SpoolSymlink \<Rightarrow> (Inl (UnexpectedSpoolFile n), w)
      | Some (SpoolFile f) \<Rightarrow>
          (case recognizedAtomicTemp n of
             Some target \<Rightarrow> andDo (removeDurable n) (\<lambda>u. spoolWalk ns) w
           | None \<Rightarrow> andDo (spoolWalk ns) (\<lambda>paths. ret (n # paths)) w))"

definition spoolFiles :: "string list op" where
  "spoolFiles w = spoolWalk (sort (gm_keys (wPending w))) w"

definition readPending :: "'a spoolCodec_scheme \<Rightarrow> string \<Rightarrow> string \<Rightarrow> world \<Rightarrow> spoolError + chunkManifest" where
  "readPending C cfg name w =
     (case gm_lookup (wPending w) name of
        Some (SpoolFile (Document m)) \<Rightarrow> if validateManifest C name m cfg then Inr m else Inl (ManifestInvalid name)
      | Some (SpoolFile (Unreadable e)) \<Rightarrow> Inl (StorageError e)
      | _ \<Rightarrow> Inl (PendingUnreadable name))"

definition loadPending :: "'a spoolCodec_scheme \<Rightarrow> string \<Rightarrow> ((string \<times> chunkManifest) option) op" where
  "loadPending C cfg =
     andDo spoolFiles (\<lambda>paths.
       case filter (\<lambda>p. \<not> validPendingName p) paths of
         p # ps \<Rightarrow> failWith (UnexpectedSpoolFile p)
       | [] \<Rightarrow>
           (case paths of
              [] \<Rightarrow> ret None
            | [name] \<Rightarrow> (\<lambda>w. case readPending C cfg name w of Inl e \<Rightarrow> (Inl e, w) | Inr m \<Rightarrow> (Inr (Some (name, m)), w))
            | _ \<Rightarrow> failWith MultipleChunks))"

text \<open>\<open>writePending\<close>: the chunk and manifest are completed, then written unless the file is there.\<close>

definition persistedManifest :: "'a spoolCodec_scheme \<Rightarrow> metricChunk \<Rightarrow> chunkManifest \<Rightarrow> chunkManifest" where
  "persistedManifest C chunk m =
     (let m = m\<lparr>cmSchema := chunkManifestSchemaV1, cmChunkDigest := ecDigest C (ckNDJSON chunk),
                cmSequence := ckSequence chunk, cmSourcePath := ckSourcePath chunk,
                cmSourceFileID := ckSourceFileID chunk, cmStartOffset := ckStartOffset chunk,
                cmEndOffset := ckEndOffset chunk, cmEventCount := int (length (ckEvents chunk)),
                cmNDJSON := ckNDJSON chunk\<rparr>
      in m\<lparr>cmManifestDigest := manifestDigest C m\<rparr>)"

definition completeChunk :: "'a spoolCodec_scheme \<Rightarrow> metricChunk \<Rightarrow> metricChunk" where
  "completeChunk C chunk =
     (let digest = ecDigest C (ckNDJSON chunk)
      in chunk\<lparr>ckDigest := digest, ckSchema := chunkSchemaV1, ckPath := pendingName (ckSequence chunk) digest\<rparr>)"

definition writePending :: "'a spoolCodec_scheme \<Rightarrow> metricChunk \<Rightarrow> chunkManifest \<Rightarrow> metricChunk op" where
  "writePending C chunk0 m0 w =
     (let chunk = completeChunk C chunk0; persisted = persistedManifest C chunk0 m0; name = ckPath chunk in
      case gm_lookup (wPending w) name of
        Some (SpoolFile (Document existing)) \<Rightarrow>
          if cmManifestDigest existing \<noteq> cmManifestDigest persisted then (Inl (ChunkCollision name), w) else (Inr chunk, w)
      | Some (SpoolFile Malformed) \<Rightarrow> (Inl (ChunkCollision name), w)
      | Some (SpoolFile (Unreadable e)) \<Rightarrow> (Inl (StorageError e), w)
      | Some other \<Rightarrow> (Inl (StorageError name), w)
      | None \<Rightarrow>
          andDo (durable (\<lambda>w. w\<lparr>wPending := gm_set name (SpoolFile (Document persisted)) (wPending w)\<rparr>)
                   (\<lambda>n w. w\<lparr>wPending := gm_set (tempName name n) (SpoolFile Malformed) (wPending w)\<rparr>))
            (\<lambda>u. ret chunk) w)"

end
