(* ===== verification/Metric_Collector.thy ===== *)
theory Metric_Collector
  imports Metric_Spool
begin

text \<open>
  The experiment-metrics collector (\<open>metrics/experiment-metrics-collector/collector.go\<close>,
  \<open>history.go\<close>): reading what a training history gained since its checkpoint, projecting its lines
  to events, delivering them to the sink chunk by chunk through the spool, replaying a pending chunk
  after a restart, and publishing the terminal status.

  A history file is given by its contents at the moment it is read; the files that
  \<open>expandHistory\<close> finds and the answers of \<open>os.Stat\<close> are part of the environment of a run.
\<close>

section \<open>History sources\<close>

text \<open>A file as \<open>os.Open\<close>, \<open>Stat\<close> (device and inode) and \<open>ReadAll\<close> show it, and the error of its sync.\<close>

record historyFile =
  hfOpenErr :: "string option"
  hfDev :: nat
  hfIno :: nat
  hfContent :: string
  hfSyncErr :: "string option"

record sourceRead =
  rdPath :: string
  rdFileID :: string
  rdData :: string
  rdStart :: int
  rdEnd :: int
  rdPrefix :: string
  rdStartLine :: int

definition prefixDigest :: "'a eventCodec_scheme \<Rightarrow> string \<Rightarrow> int \<Rightarrow> spoolError + string" where
  "prefixDigest C content offset =
     (if offset = 0 then Inr []
      else if int (length content) < offset then Inl (SourceError ''EOF'')
      else Inr (ecDigest C (take (nat offset) content)))"

definition fileIdentity :: "historyFile \<Rightarrow> string" where
  "fileIdentity f = showNat (hfDev f) @ '':'' @ showNat (hfIno f)"

text \<open>The part up to and including the last newline.\<close>

definition completeLines :: "string \<Rightarrow> string" where
  "completeLines raw = rev (dropWhile (\<lambda>c. c \<noteq> CHR 0x0A) (rev raw))"

definition sourceLineCount :: "string \<Rightarrow> int" where
  "sourceLineCount raw =
     int (count_list raw (CHR 0x0A)) + (if raw \<noteq> [] \<and> last raw \<noteq> CHR 0x0A then 1 else 0)"

definition checkPrefix :: "'a eventCodec_scheme \<Rightarrow> string \<Rightarrow> sourceCheckpoint \<Rightarrow> string \<Rightarrow> spoolError + unit" where
  "checkPrefix C path cp content =
     (if scPath cp = [] then Inr ()
      else if scPath cp \<noteq> path then Inl (SourceError ''checkpoint path mismatch'')
      else if scOffset cp < 0 \<or> int (length content) < scOffset cp then Inl (SourceError ''checkpoint offset is outside'')
      else case prefixDigest C content (scOffset cp) of
        Inl e \<Rightarrow> Inl e
      | Inr prefix \<Rightarrow> if prefix \<noteq> scPrefix cp then Inl (SourceError ''history prefix mismatch'') else Inr ())"

definition readSource ::
  "'a eventCodec_scheme \<Rightarrow> string \<Rightarrow> sourceCheckpoint \<Rightarrow> bool \<Rightarrow> historyFile \<Rightarrow> spoolError + sourceRead" where
  "readSource C path cp includeTrailingRecord f =
     (case hfOpenErr f of
        Some e \<Rightarrow> Inl (SourceError e)
      | None \<Rightarrow>
          (case checkPrefix C path cp (hfContent f) of
             Inl e \<Rightarrow> Inl e
           | Inr u \<Rightarrow>
               (let raw = drop (nat (scOffset cp)) (hfContent f);
                    raw = (if includeTrailingRecord then raw else completeLines raw);
                    end' = scOffset cp + int (length raw)
                in case prefixDigest C (hfContent f) end' of
                     Inl e \<Rightarrow> Inl e
                   | Inr prefix \<Rightarrow>
                       (case hfSyncErr f of
                          Some e \<Rightarrow> Inl (SourceError e)
                        | None \<Rightarrow> Inr \<lparr>rdPath = path, rdFileID = fileIdentity f, rdData = raw, rdStart = scOffset cp,
                                      rdEnd = end', rdPrefix = prefix, rdStartLine = scLines cp + 1\<rparr>))))"

definition baselineSource ::
  "'a eventCodec_scheme \<Rightarrow> string \<Rightarrow> nat \<Rightarrow> historyFile \<Rightarrow> spoolError + sourceCheckpoint" where
  "baselineSource C path sequence f =
     (case hfOpenErr f of
        Some e \<Rightarrow> Inl (SourceError e)
      | None \<Rightarrow>
          (let whole = completeLines (hfContent f); end' = int (length whole)
           in case prefixDigest C (hfContent f) end' of
                Inl e \<Rightarrow> Inl e
              | Inr prefix \<Rightarrow>
                  (case hfSyncErr f of
                     Some e \<Rightarrow> Inl (SourceError e)
                   | None \<Rightarrow> Inr \<lparr>scPath = path, scFileID = fileIdentity f, scOffset = end', scPrefix = prefix,
                                 scSequence = sequence, scDigest = [], scLines = int (count_list whole (CHR 0x0A)),
                                 scBaseline = True\<rparr>)))"

section \<open>The options of a run\<close>

record runnerOptions =
  roRun :: string
  roProject :: string
  roExperiment :: string
  roGroup :: string
  roSource :: string
  roOut :: string
  roHistory :: "string list"
  roTags :: "(string, string) gomap"
  roCompletionFile :: string
  roInterval :: duration
  roBaselineExistingHistory :: bool
  roReadyFile :: string
  roDoneFile :: string
  roStatusArtifactURI :: string
  roStatusCheckpointURI :: string
  roWatch :: bool
  roMaxIterations :: int
  roSinkName :: string
  roSinkIdentity :: string

record completion =
  coState :: string
  coReason :: string
  coMessage :: string
  coCompletedAt :: gotime

text \<open>
  What the collector takes from outside beside the spool's: the JSON of the configuration, of the
  store's identity and of a completion, the decoding of a history line, and \<open>filepath.Clean\<close>. A
  line decodes to an object, to \<open>null\<close>, or not at all.
\<close>

datatype decodedRow = RowInvalid | RowNull | RowObject "(string, anyValue) gomap"

record collectorCodec = spoolCodec +
  coConfigJSON :: "runnerOptions \<Rightarrow> string"
  coStoreJSON :: "string \<Rightarrow> string \<Rightarrow> string \<Rightarrow> string \<Rightarrow> string"
  coCompletionJSON :: "completion \<Rightarrow> string"
  coDecodeRow :: "string \<Rightarrow> decodedRow"
  coClean :: "string \<Rightarrow> string"

definition tauWorkspaceTag :: string where "tauWorkspaceTag = ''tau_workspace''"
definition tauNamespaceTag :: string where "tauNamespaceTag = ''tau_namespace''"
definition tauClusterTag :: string where "tauClusterTag = ''tau_cluster''"

definition cloneTags :: "(string, string) gomap \<Rightarrow> (string, string) gomap" where
  "cloneTags tags = fold (\<lambda>p. gm_set (trimSpace (fst p)) (trimSpace (snd p))) tags gm_empty"

definition applyEnvironmentTag :: "string \<times> string \<Rightarrow> (string, string) gomap \<Rightarrow> (string, string) gomap" where
  "applyEnvironmentTag p tags =
     (if trimSpace (gm_get [] tags (fst p)) = [] \<and> trimSpace (snd p) \<noteq> []
      then gm_set (fst p) (trimSpace (snd p)) tags else tags)"

text \<open>\<open>New\<close> over the environment variables of the workspace, namespace and cluster.\<close>

definition newRunner :: "string \<Rightarrow> string \<Rightarrow> string \<Rightarrow> runnerOptions \<Rightarrow> spoolError + runnerOptions" where
  "newRunner workspace namespace cluster o' =
     (if list_ex (\<lambda>v. trimSpace v = []) [roRun o', roProject o', roExperiment o', roGroup o', roSource o', roOut o']
      then Inl (OptionError ''required'')
      else if roHistory o' = [] then Inl (OptionError ''history'')
      else if roInterval o' \<le> 0 then Inl (OptionError ''interval'')
      else if roMaxIterations o' < 0 then Inl (OptionError ''max-iterations'')
      else if roBaselineExistingHistory o' \<and> trimSpace (roReadyFile o') = [] then Inl (OptionError ''ready-file'')
      else if trimSpace (roSinkName o') = [] then Inl (OptionError ''sink name'')
      else if trimSpace (roSinkIdentity o') = [] then Inl (OptionError ''sink identity'')
      else Inr (o'\<lparr>roTags := fold applyEnvironmentTag
                     [(tauWorkspaceTag, workspace), (tauNamespaceTag, namespace), (tauClusterTag, cluster)]
                     (cloneTags (roTags o'))\<rparr>))"

definition configIdentity :: "'a collectorCodec_scheme \<Rightarrow> runnerOptions \<Rightarrow> string" where
  "configIdentity C R = ecDigest C (coConfigJSON C R)"

definition sourceStoreID :: "'a collectorCodec_scheme \<Rightarrow> runnerOptions \<Rightarrow> string" where
  "sourceStoreID C R =
     ''tau-metrics-'' @ take 16 (ecDigest C (coStoreJSON C (gm_get [] (roTags R) tauWorkspaceTag)
       (gm_get [] (roTags R) tauClusterTag) (gm_get [] (roTags R) tauNamespaceTag) (coClean C (roOut R))))"

definition logicalMetricFileID :: "'a collectorCodec_scheme \<Rightarrow> string \<Rightarrow> string" where
  "logicalMetricFileID C path = ''history-'' @ take 16 (ecDigest C (coClean C path))"

section \<open>Projecting a read\<close>

definition lineOptions :: "'a collectorCodec_scheme \<Rightarrow> runnerOptions \<Rightarrow> gotime \<Rightarrow> sourceRead \<Rightarrow> nat \<Rightarrow> historyOptions" where
  "lineOptions C R now read index =
     \<lparr>hoWorkspaceID = gm_get [] (roTags R) tauWorkspaceTag, hoCluster = gm_get [] (roTags R) tauClusterTag,
      hoNamespace = gm_get [] (roTags R) tauNamespaceTag, hoSourceStoreID = sourceStoreID C R,
      hoProject = roProject R, hoExperimentID = roExperiment R, hoRunGroupID = roGroup R, hoRunID = roRun R,
      hoMetricPrefix = [], hoSource = roSource R, hoTags = roTags R, hoStepField = [], hoTimeField = [],
      hoHistoryPath = rdPath read, hoHistoryLine = rdStartLine read + int index, hoExportedAt = now,
      hoMetricFileID = logicalMetricFileID C (rdPath read), hoMetricFilePath = rdPath read\<rparr>"

fun encodeEvents :: "'a eventCodec_scheme \<Rightarrow> metricEvent list \<Rightarrow> spoolError + string" where
  "encodeEvents C [] = Inr []"
| "encodeEvents C (e # es) =
     (case encodeMetricNDJSON C e of
        Inl err \<Rightarrow> Inl (EncodingFailed err)
      | Inr raw \<Rightarrow> (case encodeEvents C es of Inl err \<Rightarrow> Inl err | Inr rest \<Rightarrow> Inr (raw @ rest)))"

text \<open>One line of a read: its events with their encoding.\<close>

definition projectLine ::
  "'a collectorCodec_scheme \<Rightarrow> runnerOptions \<Rightarrow> gotime \<Rightarrow> sourceRead \<Rightarrow> nat \<Rightarrow> string \<Rightarrow>
     spoolError + metricEvent list \<times> string" where
  "projectLine C R now read index line =
     (let n = rdStartLine read + int index in
      if line = [] \<and> index = count_list (rdData read) (CHR 0x0A) then Inr ([], [])
      else if trimSpace line = [] then Inl (LineInvalid (rdPath read) n)
      else case coDecodeRow C line of
        RowInvalid \<Rightarrow> Inl (LineInvalid (rdPath read) n)
      | RowNull \<Rightarrow> Inl (LineInvalid (rdPath read) n)
      | RowObject row \<Rightarrow>
          (case projectJSONLHistoryRow C row (lineOptions C R now read index) of
             Inl err \<Rightarrow> Inl (LineRejected (rdPath read) n err)
           | Inr events \<Rightarrow> (case encodeEvents C events of Inl err \<Rightarrow> Inl err | Inr raw \<Rightarrow> Inr (events, raw))))"

fun projectLines ::
  "'a collectorCodec_scheme \<Rightarrow> runnerOptions \<Rightarrow> gotime \<Rightarrow> sourceRead \<Rightarrow> nat \<Rightarrow> string list \<Rightarrow>
     spoolError + metricEvent list \<times> string" where
  "projectLines C R now read index [] = Inr ([], [])"
| "projectLines C R now read index (l # ls) =
     (case projectLine C R now read index l of
        Inl err \<Rightarrow> Inl err
      | Inr (es, raw) \<Rightarrow>
          (case projectLines C R now read (index + 1) ls of
             Inl err \<Rightarrow> Inl err
           | Inr (rest, raws) \<Rightarrow> Inr (es @ rest, raw @ raws)))"

definition project ::
  "'a collectorCodec_scheme \<Rightarrow> runnerOptions \<Rightarrow> gotime \<Rightarrow> sourceRead \<Rightarrow> spoolError + metricEvent list \<times> string" where
  "project C R now read = projectLines C R now read 0 (splitLines (rdData read))"

section \<open>Delivering and replaying\<close>

definition nextAnswer :: "metricChunk \<Rightarrow> world \<Rightarrow> sinkAnswer \<times> world" where
  "nextAnswer chunk w =
     (case wAnswers w of [] \<Rightarrow> (SinkAck (int (length (ckEvents chunk))), w) | a # as \<Rightarrow> (a, w\<lparr>wAnswers := as\<rparr>))"

definition deliverChunk :: "metricChunk \<Rightarrow> unit op" where
  "deliverChunk chunk w =
     (let (a, w) = nextAnswer chunk w; w = w\<lparr>wLog := wLog w @ [(chunk, a)]\<rparr> in
      case a of
        SinkFails e \<Rightarrow> (Inl (SinkError e), w)
      | SinkCrash \<Rightarrow> (Inl ProcessCrashed, w\<lparr>wCrashed := True\<rparr>)
      | SinkAck samples \<Rightarrow>
          if samples \<noteq> int (length (ckEvents chunk)) then (Inl (SinkMiscount samples (int (length (ckEvents chunk)))), w)
          else (Inr (), w))"

definition terminalObservationIDFromManifest :: "chunkManifest \<Rightarrow> string" where
  "terminalObservationIDFromManifest m = trimPrefix (cmSourceFileID m) completionPrefix"

definition chunkFromManifest :: "'a eventCodec_scheme \<Rightarrow> string \<Rightarrow> chunkManifest \<Rightarrow> spoolError + metricChunk" where
  "chunkFromManifest C path m =
     (case decodeCanonicalEvents C (cmNDJSON m) of
        Inl e \<Rightarrow> Inl e
      | Inr events \<Rightarrow>
          Inr \<lparr>ckSchema = chunkSchemaV1, ckDigest = cmChunkDigest m, ckPath = path, ckSourcePath = cmSourcePath m,
              ckSourceFileID = cmSourceFileID m, ckStartOffset = cmStartOffset m, ckEndOffset = cmEndOffset m,
              ckSequence = cmSequence m, ckEvents = events, ckNDJSON = cmNDJSON m\<rparr>)"

definition validateAcknowledgedManifest :: "checkpointSet \<Rightarrow> chunkManifest \<Rightarrow> spoolError + unit" where
  "validateAcknowledgedManifest cps m =
     (if cmKind m = ''history''
      then (case gm_lookup (csSources cps) (cmSourcePath m) of
              None \<Rightarrow> Inl (NotAcknowledged (cmSequence m))
            | Some cp \<Rightarrow>
                if scSequence cp \<noteq> cmSequence m \<or> scDigest cp \<noteq> cmChunkDigest m \<or> scOffset cp < cmEndOffset m
                then Inl (NotAcknowledged (cmSequence m)) else Inr ())
      else if cmKind m = ''terminal''
      then (case gm_lookup (csTerminals cps) (terminalObservationIDFromManifest m) of
              None \<Rightarrow> Inl (NotAcknowledged (cmSequence m))
            | Some t \<Rightarrow>
                if tcSequence t \<noteq> cmSequence m \<or> tcDigest t \<noteq> cmChunkDigest m
                then Inl (NotAcknowledged (cmSequence m)) else Inr ())
      else Inl (UnknownKind (cmKind m)))"

definition historyAdvance :: "chunkManifest \<Rightarrow> sourceCheckpoint" where
  "historyAdvance m =
     \<lparr>scPath = cmSourcePath m, scFileID = cmSourceFileID m, scOffset = cmEndOffset m, scPrefix = cmPrefix m,
      scSequence = cmSequence m, scDigest = cmChunkDigest m, scLines = cmEndLines m, scBaseline = False\<rparr>"

text \<open>The advanced checkpoints, or nothing when the manifest is behind them.\<close>

definition advanceCheckpointForManifest :: "checkpointSet \<Rightarrow> chunkManifest \<Rightarrow> spoolError + checkpointSet option" where
  "advanceCheckpointForManifest cps m =
     (if cmSequence m < csNext cps then Inr None
      else if csNext cps \<noteq> cmSequence m then Inl (SequenceMismatch (csNext cps) (cmSequence m))
      else if cmKind m = ''history''
      then (let cp = gm_get zeroSource (csSources cps) (cmSourcePath m) in
            if scPath cp \<noteq> [] \<and> (scFileID cp \<noteq> cmSourceFileID m \<or> scOffset cp \<noteq> cmStartOffset m \<or>
                                  scLines cp \<noteq> cmStartLines m \<or> scPrefix cp \<noteq> cmStartPrefix m)
            then Inl (StartMismatch (cmSourcePath m))
            else if scPath cp = [] \<and> (cmStartOffset m \<noteq> 0 \<or> cmStartLines m \<noteq> 0 \<or> cmStartPrefix m \<noteq> [])
            then Inl (StartsAfterMissing (cmSourcePath m))
            else Inr (Some (cps\<lparr>csSources := gm_set (cmSourcePath m) (historyAdvance m) (csSources cps),
                               csNext := csNext cps + 1\<rparr>)))
      else if cmKind m = ''terminal''
      then (let oid = terminalObservationIDFromManifest m in
            if gm_lookup (csTerminals cps) oid \<noteq> None then Inl (DuplicateTerminal oid)
            else Inr (Some (cps\<lparr>csTerminals := gm_set oid \<lparr>tcSequence = cmSequence m, tcDigest = cmChunkDigest m\<rparr> (csTerminals cps),
                               csNext := csNext cps + 1\<rparr>)))
      else Inl (UnknownKind (cmKind m)))"

definition setMemory :: "checkpointSet \<Rightarrow> unit op" where
  "setMemory cps w = (Inr (), w\<lparr>wMemory := cps\<rparr>)"

definition countChunk :: "nat \<Rightarrow> unit op" where
  "countChunk n w =
     (Inr (), w\<lparr>wResult := (wResult w)\<lparr>rrChunks := rrChunks (wResult w) + 1, rrEvents := rrEvents (wResult w) + n\<rparr>\<rparr>)"

text \<open>
  Delivery of the chunk that is pending under \<open>name\<close>, the checkpoints after it, and its removal:
  the sequence that \<open>replaySpool\<close>, \<open>drain\<close> and \<open>publishCompletion\<close> share.
\<close>

definition settleChunk :: "string \<Rightarrow> metricChunk \<Rightarrow> checkpointSet \<Rightarrow> unit op" where
  "settleChunk name chunk next =
     andDo (deliverChunk chunk) (\<lambda>u.
     andDo (writeCheckpoints next) (\<lambda>u.
     andDo (setMemory next) (\<lambda>u.
     andDo (removeDurable name) (\<lambda>u.
     countChunk (length (ckEvents chunk))))))"

definition replayManifest :: "'a collectorCodec_scheme \<Rightarrow> string \<Rightarrow> chunkManifest \<Rightarrow> nat op" where
  "replayManifest C name m w =
     (let cps = wMemory w in
      if cmSequence m < csNext cps
      then andDo (liftE (validateAcknowledgedManifest cps m)) (\<lambda>u. andDo (removeDurable name) (\<lambda>u. ret 1)) w
      else if cmSequence m \<noteq> csNext cps then (Inl (SequenceMismatch (cmSequence m) (csNext cps)), w)
      else case advanceCheckpointForManifest cps m of
        Inl e \<Rightarrow> (Inl e, w)
      | Inr None \<Rightarrow> (Inl (DidNotAdvance (cmSequence m)), w)
      | Inr (Some next) \<Rightarrow>
          andDo (liftE (chunkFromManifest C name m)) (\<lambda>chunk. andDo (settleChunk name chunk next) (\<lambda>u. ret 1)) w)"

definition replaySpool :: "'a collectorCodec_scheme \<Rightarrow> runnerOptions \<Rightarrow> nat op" where
  "replaySpool C R =
     andDo (loadPending C (configIdentity C R)) (\<lambda>found.
       case found of None \<Rightarrow> ret 0 | Some (name, m) \<Rightarrow> replayManifest C name m)"

section \<open>Draining the histories\<close>

definition newHistoryManifest :: "string \<Rightarrow> sourceCheckpoint \<Rightarrow> sourceRead \<Rightarrow> nat \<Rightarrow> chunkManifest" where
  "newHistoryManifest cfg cp read eventCount =
     \<lparr>cmSchema = [], cmManifestDigest = [], cmChunkDigest = [], cmConfig = cfg, cmKind = ''history'', cmSequence = 0,
      cmSourcePath = rdPath read, cmSourceFileID = rdFileID read, cmStartOffset = rdStart read, cmEndOffset = rdEnd read,
      cmStartLines = scLines cp, cmEndLines = scLines cp + sourceLineCount (rdData read), cmStartPrefix = scPrefix cp,
      cmPrefix = rdPrefix read, cmEventCount = int eventCount, cmNDJSON = []\<rparr>"

definition historyChunk :: "sourceRead \<Rightarrow> nat \<Rightarrow> metricEvent list \<Rightarrow> string \<Rightarrow> metricChunk" where
  "historyChunk read sequence events ndjson =
     \<lparr>ckSchema = [], ckDigest = [], ckPath = [], ckSourcePath = rdPath read, ckSourceFileID = rdFileID read,
      ckStartOffset = rdStart read, ckEndOffset = rdEnd read, ckSequence = sequence, ckEvents = events, ckNDJSON = ndjson\<rparr>"

text \<open>The checkpoint of a source after a read.\<close>

definition afterRead :: "sourceCheckpoint \<Rightarrow> sourceRead \<Rightarrow> nat \<Rightarrow> string \<Rightarrow> sourceCheckpoint" where
  "afterRead cp read sequence digest =
     \<lparr>scPath = rdPath read, scFileID = rdFileID read, scOffset = rdEnd read, scPrefix = rdPrefix read, scSequence = sequence,
      scDigest = digest, scLines = scLines cp + sourceLineCount (rdData read), scBaseline = False\<rparr>"

text \<open>The rebinding of a checkpoint to a file with the same contents and another identity.\<close>

definition rebindSource :: "string \<Rightarrow> sourceCheckpoint \<Rightarrow> sourceRead \<Rightarrow> sourceCheckpoint op" where
  "rebindSource path cp read w =
     (if scPath cp \<noteq> [] \<and> scFileID cp \<noteq> rdFileID read
      then (let cp = cp\<lparr>scFileID := rdFileID read, scBaseline := False\<rparr>;
                rebound = (wMemory w)\<lparr>csSources := gm_set path cp (csSources (wMemory w))\<rparr>
            in andDo (writeCheckpoints rebound) (\<lambda>u. andDo (setMemory rebound) (\<lambda>u. ret cp)) w)
      else (Inr cp, w))"

text \<open>A read without events: the checkpoint in memory moves first, then the file.\<close>

definition skipRead :: "string \<Rightarrow> sourceCheckpoint \<Rightarrow> sourceRead \<Rightarrow> unit op" where
  "skipRead path cp read w =
     (let next = (wMemory w)\<lparr>csSources := gm_set path (afterRead cp read (scSequence cp) (scDigest cp)) (csSources (wMemory w))\<rparr>
      in andDo (setMemory next) (\<lambda>u. writeCheckpoints next) w)"

definition spoolRead ::
  "'a collectorCodec_scheme \<Rightarrow> runnerOptions \<Rightarrow> string \<Rightarrow> sourceCheckpoint \<Rightarrow> sourceRead \<Rightarrow> metricEvent list \<Rightarrow> string \<Rightarrow> unit op" where
  "spoolRead C R path cp read events ndjson w =
     (let sequence = csNext (wMemory w) in
      andDo (writePending C (historyChunk read sequence events ndjson)
               (newHistoryManifest (configIdentity C R) cp read (length events))) (\<lambda>chunk.
        settleChunk (ckPath chunk) chunk
          ((wMemory w)\<lparr>csSources := gm_set path (afterRead cp read sequence (ckDigest chunk)) (csSources (wMemory w)),
                       csNext := sequence + 1\<rparr>)) w)"

text \<open>One turn of the loop of \<open>drain\<close>.\<close>

definition drainFile ::
  "'a collectorCodec_scheme \<Rightarrow> runnerOptions \<Rightarrow> gotime \<Rightarrow> bool \<Rightarrow> string \<times> historyFile \<Rightarrow> unit op" where
  "drainFile C R now trailing pf w =
     (let path = fst pf; cp = gm_get zeroSource (csSources (wMemory w)) path in
      case readSource C path cp trailing (snd pf) of
        Inl e \<Rightarrow> (Inl e, w)
      | Inr read \<Rightarrow>
          if rdData read = [] then (Inr (), w)
          else andDo (rebindSource path cp read) (\<lambda>cp.
                 andDo (liftE (project C R now read)) (\<lambda>p.
                   if fst p = [] then skipRead path cp read
                   else spoolRead C R path cp read (fst p) (snd p))) w)"

fun drainFiles ::
  "'a collectorCodec_scheme \<Rightarrow> runnerOptions \<Rightarrow> gotime \<Rightarrow> bool \<Rightarrow> (string \<times> historyFile) list \<Rightarrow> unit op" where
  "drainFiles C R now trailing [] = ret ()"
| "drainFiles C R now trailing (pf # pfs) =
     andDo (drainFile C R now trailing pf) (\<lambda>u. drainFiles C R now trailing pfs)"

text \<open>The files \<open>expandHistory\<close> finds, with their contents, or its error, and the clock.\<close>

record drainEnv =
  deFiles :: "spoolError + (string \<times> historyFile) list"
  deNow :: gotime

definition disappeared :: "checkpointSet \<Rightarrow> string list \<Rightarrow> string list" where
  "disappeared cps present =
     map fst (filter (\<lambda>(path, cp). path \<notin> set present \<and> \<not> scBaseline cp) (csSources cps))"

definition drain :: "'a collectorCodec_scheme \<Rightarrow> runnerOptions \<Rightarrow> bool \<Rightarrow> drainEnv \<Rightarrow> unit op" where
  "drain C R trailing E =
     andDo (liftE (deFiles E)) (\<lambda>files w.
       case disappeared (wMemory w) (map fst files) of
         path # paths \<Rightarrow> (Inl (SourceDisappeared path), w)
       | [] \<Rightarrow> drainFiles C R (deNow E) trailing files w)"

section \<open>The terminal status\<close>

definition runStatusMetricName :: string where "runStatusMetricName = ''tau/run_status''"

definition statusTags :: "runnerOptions \<Rightarrow> completion \<Rightarrow> (string, string) gomap" where
  "statusTags R status =
     (let optional = (\<lambda>k v tags. if v \<noteq> [] then gm_set k v tags else tags) in
      optional ''tau.status.checkpoint_uri'' (roStatusCheckpointURI R)
        (optional ''tau.status.artifact_uri'' (roStatusArtifactURI R)
          (optional ''tau.status.message'' (coMessage status)
            (optional ''tau.status.reason'' (coReason status)
              (gm_set ''tau.status.state'' (coState status) (cloneTags (roTags R)))))))"

definition statusValue :: "string \<Rightarrow> float64" where
  "statusValue state =
     Fin (if state = ''succeeded'' then 1 else if state = ''failed'' then - 1 else if state = ''cancelled'' then - 2 else 0)"

definition statusEvent :: "'a collectorCodec_scheme \<Rightarrow> runnerOptions \<Rightarrow> completion \<Rightarrow> eventError + metricEvent" where
  "statusEvent C R status =
     (let tags = statusTags R status in
      newMetricEvent C
       \<lparr>evSchemaVersion = [], evEventID = [], evWorkspaceID = gm_get [] tags tauWorkspaceTag,
        evCluster = gm_get [] tags tauClusterTag, evNamespace = gm_get [] tags tauNamespaceTag,
        evSourceStoreID = sourceStoreID C R, evProject = roProject R, evExperimentID = roExperiment R,
        evRunGroupID = roGroup R, evRunID = roRun R, evMetricName = runStatusMetricName, evStep = 0,
        evWallTime = coCompletedAt status, evValue = statusValue (coState status), evUnit = [],
        evSource = roSource R @ ''-status'', evSplit = [], evMetricFileID = [], evMetricFilePath = [], evTags = tags,
        evExportedAt = coCompletedAt status\<rparr>)"

definition newTerminalManifest :: "string \<Rightarrow> nat \<Rightarrow> string \<Rightarrow> string \<Rightarrow> string \<Rightarrow> chunkManifest" where
  "newTerminalManifest cfg sequence completionPath observationID raw =
     \<lparr>cmSchema = [], cmManifestDigest = [], cmChunkDigest = [], cmConfig = cfg, cmKind = ''terminal'', cmSequence = sequence,
      cmSourcePath = completionPath, cmSourceFileID = completionPrefix @ observationID, cmStartOffset = 0, cmEndOffset = 0,
      cmStartLines = 0, cmEndLines = 0, cmStartPrefix = [], cmPrefix = [], cmEventCount = 1, cmNDJSON = raw\<rparr>"

definition completionSource :: "runnerOptions \<Rightarrow> string" where
  "completionSource R = (if roCompletionFile R = [] then ''collector-generated://cancellation'' else roCompletionFile R)"

definition terminalChunk :: "runnerOptions \<Rightarrow> nat \<Rightarrow> string \<Rightarrow> metricEvent \<Rightarrow> string \<Rightarrow> metricChunk" where
  "terminalChunk R sequence observationID event raw =
     \<lparr>ckSchema = [], ckDigest = [], ckPath = [], ckSourcePath = completionSource R,
      ckSourceFileID = completionPrefix @ observationID, ckStartOffset = 0, ckEndOffset = 0, ckSequence = sequence,
      ckEvents = [event], ckNDJSON = raw\<rparr>"

definition spoolStatus :: "'a collectorCodec_scheme \<Rightarrow> runnerOptions \<Rightarrow> string \<Rightarrow> metricEvent \<Rightarrow> string \<Rightarrow> unit op" where
  "spoolStatus C R observationID event raw w =
     (let sequence = csNext (wMemory w) in
      andDo (writePending C (terminalChunk R sequence observationID event raw)
               (newTerminalManifest (configIdentity C R) sequence (completionSource R) observationID raw)) (\<lambda>chunk.
        settleChunk (ckPath chunk) chunk
          ((wMemory w)\<lparr>csTerminals := gm_set observationID \<lparr>tcSequence = sequence, tcDigest = ckDigest chunk\<rparr> (csTerminals (wMemory w)),
                       csNext := sequence + 1\<rparr>)) w)"

definition publishCompletion :: "'a collectorCodec_scheme \<Rightarrow> runnerOptions \<Rightarrow> completion \<Rightarrow> string \<Rightarrow> unit op" where
  "publishCompletion C R status observationID w =
     (if gm_lookup (csTerminals (wMemory w)) observationID \<noteq> None then (Inr (), w)
      else case statusEvent C R status of
        Inl err \<Rightarrow> (Inl (EncodingFailed err), w)
      | Inr event \<Rightarrow>
          (case encodeMetricNDJSON C event of
             Inl err \<Rightarrow> (Inl (EncodingFailed err), w)
           | Inr raw \<Rightarrow> spoolStatus C R observationID event raw w))"

definition terminalObservationID :: "'a collectorCodec_scheme \<Rightarrow> completion \<Rightarrow> string" where
  "terminalObservationID C status = ecDigest C (coCompletionJSON C status)"

definition terminalObservationIDForCancellation :: "'a eventCodec_scheme \<Rightarrow> string \<Rightarrow> string" where
  "terminalObservationIDForCancellation C cfg = ecDigest C (''cancelled'' @ CHR 0x00 # cfg)"

definition normalizeState :: "string \<Rightarrow> string option" where
  "normalizeState state =
     (let s = toLower (trimSpace state) in
      if s \<in> set [[], ''success'', ''successful'', ''succeeded'', ''complete'', ''completed'', ''done''] then Some ''succeeded''
      else if s \<in> set [''fail'', ''failed'', ''failure'', ''error'', ''errored''] then Some ''failed''
      else if s \<in> set [''cancel'', ''cancelled'', ''canceled''] then Some ''cancelled''
      else None)"

text \<open>
  \<open>readCompletion\<close> over what the file holds: its time, and nothing, a JSON object (with the parsed
  time when it gives one, or the error of parsing it), or a bare word.
\<close>

datatype completionText =
    CompletionUnreadable string
  | CompletionBlank gotime
  | CompletionObject gotime string string string "(string + gotime) option"
  | CompletionWord gotime string

definition readCompletion :: "completionText \<Rightarrow> spoolError + completion" where
  "readCompletion text =
     (let finish = (\<lambda>state reason message t.
            case normalizeState state of
              None \<Rightarrow> Inl (CompletionError ''state'')
            | Some s \<Rightarrow> Inr \<lparr>coState = s, coReason = reason, coMessage = message, coCompletedAt = t\<rparr>)
      in case text of
           CompletionUnreadable e \<Rightarrow> Inl (CompletionError e)
         | CompletionBlank modified \<Rightarrow> finish ''succeeded'' [] [] modified
         | CompletionObject modified state reason message None \<Rightarrow> finish state reason message modified
         | CompletionObject modified state reason message (Some (Inl e)) \<Rightarrow> Inl (CompletionError e)
         | CompletionObject modified state reason message (Some (Inr t)) \<Rightarrow> finish state reason message t
         | CompletionWord modified word \<Rightarrow> finish (trimSpace word) [] [] modified)"

definition publishStatus :: "'a collectorCodec_scheme \<Rightarrow> runnerOptions \<Rightarrow> completionText \<Rightarrow> unit op" where
  "publishStatus C R text =
     andDo (liftE (readCompletion text)) (\<lambda>status. publishCompletion C R status (terminalObservationID C status))"

end
