(* ===== verification/Metric_Run.thy ===== *)
theory Metric_Run
  imports Metric_Collector
begin

text \<open>
  A run of the experiment-metrics collector (\<open>Run\<close>, \<open>finishCompleted\<close>, \<open>finishCancelled\<close> of
  \<open>collector.go\<close>) and the time it may take to drain (\<open>core/metricsoffload/delivery.go\<close>). What a run
  meets, turn by turn, is its environment: the files and their contents, the answers of
  \<open>os.Stat\<close>, and whether the context is found cancelled. The contexts' deadlines show as answers of
  the sink. The test hooks of \<open>inject\<close> are absent outside tests.
\<close>

section \<open>The terminal drain timeout\<close>

definition maxADXAttempts :: int where "maxADXAttempts = 10"
definition defaultADXAttempts :: int where "defaultADXAttempts = 3"
definition defaultADXRetryBackoff :: duration where "defaultADXRetryBackoff = second"
definition defaultADXFinalStatusTimeout :: duration where "defaultADXFinalStatusTimeout = 10 * minute"
definition terminalDrainGrace :: duration where "terminalDrainGrace = 30 * second"
definition maxTerminalDrainTimeout :: duration where "maxTerminalDrainTimeout = 2 * hour"

datatype drainTimeoutError = AttemptsOutOfRange | NegativeBackoff | NegativeStatusTimeout | BudgetExceeded

definition terminalDrainTimeout :: "int \<Rightarrow> duration \<Rightarrow> duration \<Rightarrow> drainTimeoutError + duration" where
  "terminalDrainTimeout maxAttempts retryBackoff finalStatusTimeout =
     (if maxAttempts < 0 \<or> maxADXAttempts < maxAttempts then Inl AttemptsOutOfRange
      else let attempts = (if maxAttempts = 0 then defaultADXAttempts else maxAttempts) in
      if retryBackoff < 0 then Inl NegativeBackoff
      else let backoff = (if retryBackoff = 0 then defaultADXRetryBackoff else retryBackoff) in
      if maxTerminalDrainTimeout < backoff then Inl BudgetExceeded
      else if finalStatusTimeout < 0 then Inl NegativeStatusTimeout
      else let status = (if finalStatusTimeout = 0 then defaultADXFinalStatusTimeout else finalStatusTimeout) in
      if maxTerminalDrainTimeout < status then Inl BudgetExceeded
      else let windows = wrap64 (2 ^ nat (attempts - 1) - 1);
               timeout = wrap64 (wrap64 (wrap64 (attempts * status) + wrap64 (windows * backoff)) + terminalDrainGrace)
      in if maxTerminalDrainTimeout < timeout then Inl BudgetExceeded else Inr timeout)"

definition shutdownCompletionWait :: "duration \<Rightarrow> duration" where
  "shutdownCompletionWait timeout =
     (let wait = terminalDrainGrace; half = (if 0 \<le> timeout then timeout div 2 else - ((- timeout) div 2))
      in if half < wait then half else wait)"

section \<open>Waiting for the completion file\<close>

definition fileExists :: "string \<Rightarrow> spoolError + bool \<Rightarrow> spoolError + bool" where
  "fileExists path stat = (if trimSpace path = [] then Inr False else stat)"

text \<open>What the \<open>select\<close> of \<open>waitForCompletion\<close> meets; after the ticks the timer fires.\<close>

datatype waitEvent = ContextDone | TimerFires | Tick "spoolError + bool"

fun waitLoop :: "waitEvent list \<Rightarrow> spoolError + bool" where
  "waitLoop [] = Inr False"
| "waitLoop (ContextDone # es) = Inl ContextCancelled"
| "waitLoop (TimerFires # es) = Inr False"
| "waitLoop (Tick (Inl e) # es) = Inl e"
| "waitLoop (Tick (Inr True) # es) = Inr True"
| "waitLoop (Tick (Inr False) # es) = waitLoop es"

definition waitForCompletion :: "string \<Rightarrow> duration \<Rightarrow> spoolError + bool \<Rightarrow> waitEvent list \<Rightarrow> spoolError + bool" where
  "waitForCompletion path maxWait stat events =
     (if trimSpace path = [] \<or> maxWait \<le> 0 then Inr False
      else case fileExists path stat of Inr False \<Rightarrow> waitLoop events | r \<Rightarrow> r)"

section \<open>Finishing\<close>

record cancelEnv =
  ceTimeout :: "spoolError + duration"
  ceStat :: "spoolError + bool"
  ceWait :: "waitEvent list"
  ceDrain :: drainEnv
  ceExists :: "spoolError + bool"
  ceDrainAgain :: drainEnv
  ceText :: completionText
  ceNow :: gotime

record finishEnv =
  feTimeout :: "spoolError + duration"
  feStat :: "spoolError + unit"
  feDrain :: drainEnv
  feDrainCancelled :: bool
  feText :: completionText
  feStatusCancelled :: bool
  feCancel :: cancelEnv

datatype runOutcome = Returned | StillRunning

definition publishDone :: "runnerOptions \<Rightarrow> unit op" where
  "publishDone R = (if roDoneFile R = [] then ret () else durable (\<lambda>w. w\<lparr>wDone := True\<rparr>) noTemp)"

definition markCompleted :: "unit op" where
  "markCompleted w = (Inr (), w\<lparr>wResult := (wResult w)\<lparr>rrCompleted := True\<rparr>\<rparr>)"

text \<open>The second drain of \<open>finishCancelled\<close>, when the completion file appeared meanwhile.\<close>

definition completedMeanwhile :: "'a collectorCodec_scheme \<Rightarrow> runnerOptions \<Rightarrow> cancelEnv \<Rightarrow> bool \<Rightarrow> bool op" where
  "completedMeanwhile C R E completed =
     (if completed then ret True
      else andDo (liftE (fileExists (roCompletionFile R) (ceExists E))) (\<lambda>found.
             if found then andDo (drain C R True (ceDrainAgain E)) (\<lambda>u. ret True) else ret False))"

definition cancelledStatus :: "gotime \<Rightarrow> completion" where
  "cancelledStatus now =
     \<lparr>coState = ''cancelled'', coReason = ''collector_context_cancelled'',
      coMessage = ''metrics collector received cancellation before workload completion'', coCompletedAt = now\<rparr>"

definition finishCancelled :: "'a collectorCodec_scheme \<Rightarrow> runnerOptions \<Rightarrow> cancelEnv \<Rightarrow> runOutcome op" where
  "finishCancelled C R E =
     andDo (liftE (ceTimeout E)) (\<lambda>timeout.
     andDo (liftE (waitForCompletion (roCompletionFile R) (shutdownCompletionWait timeout) (ceStat E) (ceWait E))) (\<lambda>waited.
     andDo (replaySpool C R) (\<lambda>n.
     andDo (drain C R True (ceDrain E)) (\<lambda>u.
     andDo (completedMeanwhile C R E waited) (\<lambda>completed.
       if completed
       then andDo (publishStatus C R (ceText E)) (\<lambda>u.
            andDo markCompleted (\<lambda>u.
            andDo (publishDone R) (\<lambda>u. failWith ContextCancelled)))
       else andDo (publishCompletion C R (cancelledStatus (ceNow E))
                     (terminalObservationIDForCancellation C (configIdentity C R)))
              (\<lambda>u. failWith ContextCancelled))))))"

definition orCancelled :: "'a collectorCodec_scheme \<Rightarrow> runnerOptions \<Rightarrow> bool \<Rightarrow> cancelEnv \<Rightarrow> spoolError \<Rightarrow> runOutcome op" where
  "orCancelled C R cancelled E e = (if cancelled then finishCancelled C R E else failWith e)"

text \<open>
  \<open>m\<close>, then \<open>f\<close> when it succeeds; an error of \<open>m\<close> ends the run, by way of \<open>finishCancelled\<close> when the
  context is cancelled.
\<close>

definition unlessCancelled ::
  "'a collectorCodec_scheme \<Rightarrow> runnerOptions \<Rightarrow> bool \<Rightarrow> cancelEnv \<Rightarrow> 'b op \<Rightarrow> ('b \<Rightarrow> runOutcome op) \<Rightarrow> runOutcome op" where
  "unlessCancelled C R cancelled E m f w =
     (case m w of
        (Inr x, w') \<Rightarrow> f x w'
      | (Inl e, w') \<Rightarrow> if wCrashed w' then (Inl e, w') else orCancelled C R cancelled E e w')"

definition finishCompleted :: "'a collectorCodec_scheme \<Rightarrow> runnerOptions \<Rightarrow> finishEnv \<Rightarrow> runOutcome op" where
  "finishCompleted C R F =
     andDo (liftE (feTimeout F)) (\<lambda>timeout.
     andDo (liftE (feStat F)) (\<lambda>u.
     unlessCancelled C R (feDrainCancelled F) (feCancel F) (drain C R True (feDrain F)) (\<lambda>u.
     unlessCancelled C R (feStatusCancelled F) (feCancel F) (publishStatus C R (feText F)) (\<lambda>u.
     andDo markCompleted (\<lambda>u. andDo (publishDone R) (\<lambda>u. ret Returned))))))"

section \<open>A run\<close>

record turnEnv =
  teBefore :: "spoolError + bool"
  teDrain :: drainEnv
  teDrainCancelled :: bool
  teAfter :: "spoolError + bool"
  teCancelled :: bool
  teFinish :: finishEnv

fun runLoop :: "'a collectorCodec_scheme \<Rightarrow> runnerOptions \<Rightarrow> int \<Rightarrow> turnEnv list \<Rightarrow> runOutcome op" where
  "runLoop C R iteration [] = ret StillRunning"
| "runLoop C R iteration (E # Es) =
     andDo (liftE (fileExists (roCompletionFile R) (teBefore E))) (\<lambda>completed.
       if completed then finishCompleted C R (teFinish E)
       else unlessCancelled C R (teDrainCancelled E) (feCancel (teFinish E)) (drain C R False (teDrain E)) (\<lambda>u.
         andDo (liftE (fileExists (roCompletionFile R) (teAfter E))) (\<lambda>completed.
           if completed then finishCompleted C R (teFinish E)
           else if \<not> roWatch R \<or> (0 < roMaxIterations R \<and> roMaxIterations R \<le> iteration) then ret Returned
           else if teCancelled E then finishCancelled C R (feCancel (teFinish E))
           else runLoop C R (iteration + 1) Es)))"

text \<open>The baseline of existing histories, taken once, before the first checkpoint.\<close>

fun baselineFiles :: "'a eventCodec_scheme \<Rightarrow> (string \<times> historyFile) list \<Rightarrow> unit op" where
  "baselineFiles C [] w = (Inr (), w)"
| "baselineFiles C (pf # pfs) w =
     (case baselineSource C (fst pf) (csNext (wMemory w) - 1) (snd pf) of
        Inl e \<Rightarrow> (Inl e, w)
      | Inr cp \<Rightarrow> baselineFiles C pfs (w\<lparr>wMemory := (wMemory w)\<lparr>csSources := gm_set (fst pf) cp (csSources (wMemory w))\<rparr>\<rparr>))"

definition baseline :: "'a collectorCodec_scheme \<Rightarrow> (string \<times> historyFile) list \<Rightarrow> unit op" where
  "baseline C files = andDo (baselineFiles C files) (\<lambda>u w. writeCheckpoints (wMemory w) w)"

definition publishReady :: "runnerOptions \<Rightarrow> unit op" where
  "publishReady R = (if roReadyFile R = [] then ret () else durable (\<lambda>w. w\<lparr>wReady := True\<rparr>) noTemp)"

record runEnv =
  reReplayCancelled :: bool
  reCancel :: cancelEnv
  reFiles :: "spoolError + (string \<times> historyFile) list"
  reTurns :: "turnEnv list"

definition zeroResult :: runResult where
  "zeroResult = \<lparr>rrChunks = 0, rrEvents = 0, rrCompleted = False\<rparr>"

text \<open>The part of \<open>Run\<close> between the replay and the loop, whose errors return an empty result.\<close>

definition prepareRun :: "'a collectorCodec_scheme \<Rightarrow> runnerOptions \<Rightarrow> bool \<Rightarrow> nat \<Rightarrow> runEnv \<Rightarrow> unit op" where
  "prepareRun C R existed manifestCount E w =
     (case andDo (liftE (reFiles E)) (\<lambda>files.
             andDo (if roBaselineExistingHistory R \<and> \<not> existed \<and> manifestCount = 0 then baseline C files else ret ()) (\<lambda>u.
               publishReady R)) w of
        (Inr u, w') \<Rightarrow> (Inr u, w')
      | (Inl e, w') \<Rightarrow> (Inl e, w'\<lparr>wResult := zeroResult\<rparr>))"

definition startMemory :: "'a collectorCodec_scheme \<Rightarrow> runnerOptions \<Rightarrow> bool op" where
  "startMemory C R w =
     (case loadCheckpoints (configIdentity C R) (wCheckpoint w) of
        Inl e \<Rightarrow> (Inl e, w)
      | Inr (cps, existed) \<Rightarrow> (Inr existed, w\<lparr>wMemory := cps\<rparr>))"

definition run :: "'a collectorCodec_scheme \<Rightarrow> runnerOptions \<Rightarrow> runEnv \<Rightarrow> runOutcome op" where
  "run C R E =
     andDo (durable (\<lambda>w. w) noTemp) (\<lambda>u.
     andDo (startMemory C R) (\<lambda>existed.
     unlessCancelled C R (reReplayCancelled E) (reCancel E) (replaySpool C R) (\<lambda>n.
     andDo (prepareRun C R existed n E) (\<lambda>u.
     runLoop C R 1 (reTurns E)))))"

text \<open>
  A process: its memory is new, the disk and the sink's record of calls are those the previous
  process left; \<open>faults\<close> and \<open>answers\<close> are what it will meet.
\<close>

definition newProcess :: "ioFault list \<Rightarrow> sinkAnswer list \<Rightarrow> world \<Rightarrow> world" where
  "newProcess faults answers w =
     w\<lparr>wMemory := freshCheckpoints [], wResult := zeroResult, wFaults := faults, wAnswers := answers, wCrashed := False\<rparr>"

section \<open>The drain timeout is exact\<close>

text \<open>The sum never wraps: an accepted timeout is the exact sum and at most two hours.\<close>

lemma power_attempts: "1 \<le> n \<Longrightarrow> n \<le> 10 \<Longrightarrow> 1 \<le> (2::int) ^ nat (n - 1) \<and> (2::int) ^ nat (n - 1) \<le> 512"
  using power_increasing [of "nat (n - 1)" 9 "2::int"] by simp

lemma terminalDrainTimeout_exact:
  assumes "terminalDrainTimeout maxAttempts retryBackoff finalStatusTimeout = Inr timeout"
    and "attempts = (if maxAttempts = 0 then defaultADXAttempts else maxAttempts)"
    and "backoff = (if retryBackoff = 0 then defaultADXRetryBackoff else retryBackoff)"
    and "status = (if finalStatusTimeout = 0 then defaultADXFinalStatusTimeout else finalStatusTimeout)"
  shows "timeout = attempts * status + (2 ^ nat (attempts - 1) - 1) * backoff + terminalDrainGrace \<and>
    terminalDrainGrace < timeout \<and> timeout \<le> maxTerminalDrainTimeout"
proof -
  let ?w = "(2::int) ^ nat (attempts - 1) - 1"
  note bounds = maxADXAttempts_def defaultADXAttempts_def defaultADXRetryBackoff_def defaultADXFinalStatusTimeout_def
    terminalDrainGrace_def maxTerminalDrainTimeout_def second_def minute_def hour_def
  have a: "1 \<le> attempts" "attempts \<le> 10" and b: "0 < backoff" "backoff \<le> maxTerminalDrainTimeout"
      and s: "0 < status" "status \<le> maxTerminalDrainTimeout"
    using assms by (auto simp: terminalDrainTimeout_def Let_def bounds split: if_splits)
  have w: "0 \<le> ?w" "?w \<le> 511" using power_attempts [OF a] by auto
  have p: "0 < attempts * status" "attempts * status \<le> 10 * maxTerminalDrainTimeout"
      "0 \<le> ?w * backoff" "?w * backoff \<le> 511 * maxTerminalDrainTimeout"
    using a b s w mult_mono [of attempts 10 status maxTerminalDrainTimeout] mult_mono [of ?w 511 backoff maxTerminalDrainTimeout] by auto
  have id: "wrap64 x = x" if "0 \<le> x" "x \<le> 600 * maxTerminalDrainTimeout" for x
    using that by (intro wrap64_id) (auto simp: bounds int64_def)
  have "timeout = attempts * status + ?w * backoff + terminalDrainGrace" "timeout \<le> maxTerminalDrainTimeout"
    using assms p w id by (auto simp: terminalDrainTimeout_def Let_def bounds split: if_splits)
  then show ?thesis using p by auto
qed

end
