(* ===== verification/Metric_Manifest.thy ===== *)
theory Metric_Manifest
  imports Metric_Run
begin

text \<open>
  What the collector puts into its spool passes the checks it makes when it replays the spool:
  file names, canonical events, manifests of histories and of the terminal status.
\<close>

section \<open>What is relied on\<close>

text \<open>
  The SHA-256 of a text prints as 64 hexadecimal digits. An event whose texts are valid UTF-8
  (\<open>textual\<close>) is encoded on one line that is not blank and decodes to the event again, its tags
  perhaps in another order, with the same encoding.
\<close>

definition codec_ok :: "(metricEvent \<Rightarrow> bool) \<Rightarrow> 'a eventCodec_scheme \<Rightarrow> bool" where
  "codec_ok textual C \<longleftrightarrow>
     (\<forall>s. validDigest (ecDigest C s)) \<and>
     (\<forall>e line. textual e \<and> ecEventJSON C e = Some line \<longrightarrow>
        CHR 0x0A \<notin> set line \<and> trimSpace line \<noteq> [] \<and>
        (\<exists>tags. ecDecodeEvent C line = Some (e\<lparr>evTags := tags\<rparr>) \<and> set (gm_keys tags) = set (gm_keys (evTags e)) \<and>
                ecEventJSON C (e\<lparr>evTags := tags\<rparr>) = Some line))"

text \<open>The collector's events are textual.\<close>

definition textual_run :: "(metricEvent \<Rightarrow> bool) \<Rightarrow> 'a collectorCodec_scheme \<Rightarrow> runnerOptions \<Rightarrow> bool" where
  "textual_run textual C R \<longleftrightarrow>
     (\<forall>now read es raw. project C R now read = Inr (es, raw) \<longrightarrow> list_all textual es) \<and>
     (\<forall>status e raw. statusEvent C R status = Inr e \<and> encodeMetricNDJSON C e = Inr raw \<longrightarrow> textual e)"

lemma codec_digest: "codec_ok textual C \<Longrightarrow> validDigest (ecDigest C s)"
  by (simp add: codec_ok_def)

lemma codec_digest_ne: "codec_ok textual C \<Longrightarrow> ecDigest C s \<noteq> []"
  using codec_digest [of textual C s] by (auto simp: validDigest_def)

section \<open>Names\<close>

lemma showNat_isDigit: "list_all isDigit (showNat n)"
proof (induction n rule: showNat.induct)
  case (1 n)
  have digit: "isDigit (char_of (48 + k))" if "k < 10" for k :: nat
    using that by (simp add: isDigit_def)
  show ?case
  proof (cases "n < 10")
    case True
    then show ?thesis using digit [of n] by (simp add: showNat.simps [of n])
  next
    case False
    then show ?thesis using 1 digit [of "n mod 10"] by (simp add: showNat.simps [of n])
  qed
qed

lemma showNat_length: "n < 10 ^ k \<Longrightarrow> 0 < k \<Longrightarrow> length (showNat n) \<le> k"
proof (induction n arbitrary: k rule: showNat.induct)
  case (1 n)
  show ?case
  proof (cases "n < 10")
    case True
    then show ?thesis using 1(3) by (simp add: showNat.simps [of n])
  next
    case False
    then obtain j where k: "k = Suc j" "0 < j"
      using 1(2,3) by (cases k; cases "k - 1") auto
    then have "n div 10 < 10 ^ j" using 1(2) by (simp add: less_mult_imp_div_less mult.commute)
    then show ?thesis using 1(1) [OF False, of j] k False by (simp add: showNat.simps [of n])
  qed
qed

lemma pad20_digits: "list_all isDigit (pad20 n)"
proof -
  have "isDigit (CHR ''0'')" by (simp add: isDigit_def)
  then show ?thesis using showNat_isDigit [of n] by (auto simp: pad20_def list_all_iff)
qed

lemma pad20_length: "n < 2 ^ 64 \<Longrightarrow> length (pad20 n) = 20"
  using showNat_length [of n 20] by (simp add: pad20_def)

lemma pad20_ne: "pad20 n \<noteq> []"
  using showNat_ne by (simp add: pad20_def)

lemma isDigit_not: "\<not> isDigit (CHR ''.'')" "\<not> isDigit (CHR ''-'')"
  by (simp_all add: isDigit_def)

lemma pendingName_hd: "isDigit (hd (pendingName s d))"
  using pad20_digits [of s] pad20_ne [of s] by (cases "pad20 s") (auto simp: pendingName_def)

lemma validPendingName_pendingName:
  assumes "s < 2 ^ 64" and "validDigest d"
  shows "validPendingName (pendingName s d)"
proof -
  have name: "pendingName s d = (pad20 s @ ''-'' @ d) @ ''.json''" by (simp add: pendingName_def)
  have len: "length (pad20 s) = 20" "length d = 64"
    using pad20_length [OF assms(1)] assms(2) by (auto simp: validDigest_def)
  show ?thesis
    unfolding validPendingName_def name trimSuffix_append Let_def
    using len pad20_digits [of s] assms(2) by (simp add: nth_append hasSuffix_def hasPrefix_def)
qed

lemma validPendingName_hd: "validPendingName n \<Longrightarrow> isDigit (hd n)"
proof -
  assume v: "validPendingName n"
  then have len: "length n = 90" "hasSuffix n ''.json''" "list_all isDigit (take 20 (trimSuffix n ''.json''))"
    by (auto simp: validPendingName_def Let_def)
  have "hd n \<in> set (take 20 (trimSuffix n ''.json''))"
    using len(1,2) by (cases n) (auto simp: trimSuffix_def)
  then show ?thesis using len(3) by (auto simp: list_all_iff)
qed

lemma lastIndexText_dot:
  assumes "CHR ''.'' \<notin> set b" and "hasPrefix (CHR ''.'' # b) (CHR ''.'' # p)"
  shows "lastIndexText (a @ CHR ''.'' # b) (CHR ''.'' # p) = Some (length a)"
proof -
  have none: "lastIndexText b (CHR ''.'' # p) = None"
    using assms(1) by (induction b) (auto simp: hasPrefix_def)
  show ?thesis using assms(2) none by (induction a) auto
qed

lemma recognizedAtomicTemp_digit: "isDigit (hd n) \<Longrightarrow> recognizedAtomicTemp n = None"
  using isDigit_not(1) by (cases n) (auto simp: recognizedAtomicTemp_def hasPrefix_def)

lemma recognizedAtomicTemp_tempName:
  assumes "validPendingName n"
  shows "recognizedAtomicTemp (tempName n k) = Some n"
proof -
  have "CHR ''.'' \<notin> set (showNat k)"
    using showNat_isDigit [of k] isDigit_not(1) by (auto simp: list_all_iff)
  then have "CHR ''.'' \<notin> set (''tmp-'' @ showNat k)" by simp
  then have index: "lastIndexText (tempName n k) ''.tmp-'' = Some (length n + 1)"
    using lastIndexText_dot [of "''tmp-'' @ showNat k" "''tmp-''" "CHR ''.'' # n"]
    by (simp add: tempName_def hasPrefix_def)
  have "length n = 90" using assms by (simp add: validPendingName_def)
  then show ?thesis
    using assms showNat_ne [of k] index by (simp add: recognizedAtomicTemp_def Let_def tempName_def hasPrefix_def)
qed

lemma tempName_hd: "hd (tempName n k) = CHR ''.''"
  by (simp add: tempName_def)

section \<open>Canonical events\<close>

lemma validateEvent_new: "newMetricEvent C x = Inr e \<Longrightarrow> validateEvent C e = None"
  by (auto simp: newMetricEvent_def Let_def split: option.splits if_splits)

lemma newMetricEvent_valid:
  assumes "validateEvent C e = None"
  shows "newMetricEvent C e = Inr e"
proof -
  have "evSchemaVersion e = metricEventSchemaV1" "evEventID e \<noteq> []"
    using assms by (auto simp: validateEvent_def Let_def split: option.splits if_splits)
  then show ?thesis using assms by (simp add: newMetricEvent_def metricEventSchemaV1_def)
qed

lemma validateEvent_tags:
  assumes "set (gm_keys tags) = set (gm_keys (evTags e))"
  shows "validateEvent C (e\<lparr>evTags := tags\<rparr>) = validateEvent C e"
proof -
  have "deterministicEventID C (e\<lparr>evTags := tags\<rparr>) = deterministicEventID C e"
    by (simp add: deterministicEventID_def)
  moreover have "list_ex P (gm_keys tags) = list_ex P (gm_keys (evTags e))" for P
    using assms by (simp add: list_ex_iff)
  ultimately show ?thesis by (simp add: validateEvent_def Let_def cong: option.case_cong if_cong)
qed

lemma encode_valid:
  "validateEvent C e = None \<Longrightarrow> encodeMetricNDJSON C e = Inr raw \<longleftrightarrow> (\<exists>line. ecEventJSON C e = Some line \<and> raw = line @ [CHR 0x0A])"
  by (auto simp: encodeMetricNDJSON_def newMetricEvent_valid split: option.splits)

lemma decodeCanonicalLine_encoded:
  assumes "codec_ok textual C" and "textual e" and "validateEvent C e = None" and "ecEventJSON C e = Some line"
  shows "CHR 0x0A \<notin> set line" and "decodeCanonicalLine C line \<noteq> None"
proof -
  have law: "CHR 0x0A \<notin> set line \<and> trimSpace line \<noteq> [] \<and>
      (\<exists>tags. ecDecodeEvent C line = Some (e\<lparr>evTags := tags\<rparr>) \<and> set (gm_keys tags) = set (gm_keys (evTags e)) \<and>
              ecEventJSON C (e\<lparr>evTags := tags\<rparr>) = Some line)"
    using assms unfolding codec_ok_def by blast
  then obtain tags where t: "trimSpace line \<noteq> []" "ecDecodeEvent C line = Some (e\<lparr>evTags := tags\<rparr>)"
      "set (gm_keys tags) = set (gm_keys (evTags e))" "ecEventJSON C (e\<lparr>evTags := tags\<rparr>) = Some line"
    and nl: "CHR 0x0A \<notin> set line"
    by blast
  show "CHR 0x0A \<notin> set line" by (rule nl)
  have v: "validateEvent C (e\<lparr>evTags := tags\<rparr>) = None"
    using validateEvent_tags [OF t(3), of C] assms(3) by (rule trans)
  have "encodeMetricNDJSON C (e\<lparr>evTags := tags\<rparr>) = Inr (line @ [CHR 0x0A])"
    using encode_valid [OF v] t(4) by simp
  then show "decodeCanonicalLine C line \<noteq> None"
    using t(1,2) v by (simp add: decodeCanonicalLine_def)
qed

lemma splitLines_found: "CHR 0x0A \<notin> set a \<Longrightarrow> splitLines (a @ CHR 0x0A # b) = a # splitLines b"
  by (induction a) auto

lemma splitLines_none: "CHR 0x0A \<notin> set a \<Longrightarrow> splitLines a = [a]"
  by (induction a) auto

lemma splitLines_concat:
  "ls \<noteq> [] \<Longrightarrow> list_all (\<lambda>l. CHR 0x0A \<notin> set l) ls \<Longrightarrow>
     splitLines (butlast (concat (map (\<lambda>l. l @ [CHR 0x0A]) ls))) = ls"
  by (induction ls rule: induct_list012) (auto simp: butlast_append splitLines_found splitLines_none)

lemma decodeLines_length: "list_all (\<lambda>l. decodeCanonicalLine C l \<noteq> None) ls \<Longrightarrow>
    \<exists>es. decodeLines C i ls = Inr es \<and> length es = length ls"
proof (induction ls arbitrary: i)
  case (Cons l ls)
  then obtain e es where "decodeCanonicalLine C l = Some e" "decodeLines C (i + 1) ls = Inr es" "length es = length ls"
    by (fastforce simp: list_all_iff)
  then show ?case by simp
qed simp

lemma encodeEvents_lines:
  assumes "encodeEvents C es = Inr raw" and "list_all (\<lambda>e. validateEvent C e = None) es"
  shows "\<exists>ls. raw = concat (map (\<lambda>l. l @ [CHR 0x0A]) ls) \<and> length ls = length es \<and>
    (\<forall>i < length es. ecEventJSON C (es ! i) = Some (ls ! i))"
  using assms
proof (induction es arbitrary: raw)
  case (Cons e es)
  then obtain r rest where r: "encodeMetricNDJSON C e = Inr r" "encodeEvents C es = Inr rest" "raw = r @ rest"
    by (auto split: sum.splits)
  then obtain line where line: "ecEventJSON C e = Some line" "r = line @ [CHR 0x0A]"
    using encode_valid [of C e r] Cons.prems(2) by auto
  obtain ls where ls: "rest = concat (map (\<lambda>l. l @ [CHR 0x0A]) ls)" "length ls = length es"
      "\<forall>i < length es. ecEventJSON C (es ! i) = Some (ls ! i)"
    using Cons.IH [OF r(2)] Cons.prems(2) by auto
  show ?case
    using r(3) line ls by (intro exI [of _ "line # ls"]) (auto simp: less_Suc_eq_0_disj)
qed auto

lemma decode_encoded:
  assumes C: "codec_ok textual C" and es: "es \<noteq> []" "list_all (\<lambda>e. textual e \<and> validateEvent C e = None) es"
    and raw: "encodeEvents C es = Inr raw"
  shows "\<exists>es'. decodeCanonicalEvents C raw = Inr es' \<and> length es' = length es"
proof -
  have valid: "list_all (\<lambda>e. validateEvent C e = None) es" using es(2) by (simp add: list_all_iff)
  obtain ls where ls: "raw = concat (map (\<lambda>l. l @ [CHR 0x0A]) ls)" "length ls = length es"
      "\<forall>i < length es. ecEventJSON C (es ! i) = Some (ls ! i)"
    using encodeEvents_lines [OF raw valid] by auto
  have each: "CHR 0x0A \<notin> set l \<and> decodeCanonicalLine C l \<noteq> None" if l: "l \<in> set ls" for l
  proof -
    obtain i where i: "i < length es" "l = ls ! i" using l ls(2) by (auto simp: in_set_conv_nth)
    then have "textual (es ! i)" "validateEvent C (es ! i) = None" using es(2) by (simp_all add: list_all_length)
    then show ?thesis using decodeCanonicalLine_encoded [OF C, of "es ! i" "ls ! i"] ls(3) i by simp
  qed
  have ne: "ls \<noteq> []" using es(1) ls(2) by auto
  then obtain l' ls' where split: "ls = ls' @ [l']" by (metis rev_exhaust)
  have "raw \<noteq> []" "last raw = CHR 0x0A" by (simp_all add: ls(1) split)
  moreover have "splitLines (butlast raw) = ls"
    unfolding ls(1) by (rule splitLines_concat [OF ne]) (use each in \<open>simp add: list_all_iff\<close>)
  ultimately show ?thesis
    using decodeLines_length [of C ls 1] each ls(2) by (simp add: decodeCanonicalEvents_def list_all_iff)
qed

lemma encodeEvents_append:
  "encodeEvents C xs = Inr a \<Longrightarrow> encodeEvents C ys = Inr b \<Longrightarrow> encodeEvents C (xs @ ys) = Inr (a @ b)"
  by (induction xs arbitrary: a) (auto split: sum.splits)

lemma projectKeys_valid:
  "(\<And>k vs. f k = Inr vs \<Longrightarrow> list_all P vs) \<Longrightarrow> projectKeys f ks = Inr vs \<Longrightarrow> list_all P vs"
  by (induction ks arbitrary: vs) (auto split: sum.splits)

lemma projectKey_valid: "projectKey C opts row step t k = Inr vs \<Longrightarrow> list_all (\<lambda>e. validateEvent C e = None) vs"
  by (auto simp: projectKey_def rowEvent_def Let_def validateEvent_new split: historyValue.splits sum.splits if_splits)

lemma projectRow_valid:
  "projectJSONLHistoryRow C row opts = Inr es \<Longrightarrow> list_all (\<lambda>e. validateEvent C e = None) es"
  by (auto simp: projectJSONLHistoryRow_def Let_def split: if_splits sum.splits
      intro: projectKeys_valid [OF projectKey_valid])

lemma projectLine_encoded:
  "projectLine C R now read i l = Inr (es, raw) \<Longrightarrow>
     encodeEvents C es = Inr raw \<and> list_all (\<lambda>e. validateEvent C e = None) es"
  by (auto simp: projectLine_def Let_def projectRow_valid split: if_splits decodedRow.splits sum.splits)

lemma project_encoded:
  assumes "project C R now read = Inr (es, raw)"
  shows "encodeEvents C es = Inr raw" "list_all (\<lambda>e. validateEvent C e = None) es"
proof -
  have "encodeEvents C es = Inr raw \<and> list_all (\<lambda>e. validateEvent C e = None) es"
    if "projectLines C R now read i ls = Inr (es, raw)" for i ls
    using that
  proof (induction ls arbitrary: i es raw)
    case (Cons l ls)
    then obtain es1 raw1 es2 raw2 where p: "projectLine C R now read i l = Inr (es1, raw1)"
        "projectLines C R now read (i + 1) ls = Inr (es2, raw2)" "es = es1 @ es2" "raw = raw1 @ raw2"
      by (auto split: sum.splits)
    then show ?case
      using projectLine_encoded [OF p(1)] Cons.IH [OF p(2)] by (simp add: encodeEvents_append)
  qed simp
  then show "encodeEvents C es = Inr raw" "list_all (\<lambda>e. validateEvent C e = None) es"
    using assms by (auto simp: project_def)
qed

end
