(* ===== verification/Metric_Recovery.thy ===== *)
theory Metric_Recovery
  imports Metric_Manifest
begin

text \<open>
  The invariant of the spool and its preservation by every operation of the collector, whatever
  storage and sink do: the checkpoints on the disk load, at most one chunk is pending, it is
  either the next one the checkpoints expect or the last one they acknowledge, and the calls made
  to the sink are accounted for.
\<close>

section \<open>Well-formed checkpoints\<close>

definition cp_ok :: "string \<Rightarrow> checkpointSet \<Rightarrow> bool" where
  "cp_ok cfg cps \<longleftrightarrow>
     csConfig cps = cfg \<and> cfg \<noteq> [] \<and> 0 < csNext cps \<and>
     (\<forall>p \<in> set (csSources cps). \<not> badSource p) \<and> (\<forall>p \<in> set (csTerminals cps). \<not> badTerminal p)"

lemma cp_ok_fresh: "cfg \<noteq> [] \<Longrightarrow> cp_ok cfg (freshCheckpoints cfg)"
  by (simp add: cp_ok_def freshCheckpoints_def gm_empty_def)

lemma loadCheckpoints_doc:
  "cp_ok cfg cps \<Longrightarrow> loadCheckpoints cfg (Some (Document (checkpointDocOf cps))) = Inr (cps, True)"
  by (simp add: loadCheckpoints_def checkpointDocOf_def cp_ok_def)

lemma gm_set_subset: "set (gm_set k v m) \<subseteq> insert (k, v) (set m)"
  by (induction m) (auto split: if_splits)

lemma cp_ok_source:
  "cp_ok cfg cps \<Longrightarrow> \<not> badSource (path, cp) \<Longrightarrow>
     cp_ok cfg (cps\<lparr>csSources := gm_set path cp (csSources cps)\<rparr>)"
  using gm_set_subset [of path cp "csSources cps"] by (auto simp: cp_ok_def)

lemma cp_ok_next: "cp_ok cfg cps \<Longrightarrow> 0 < n \<Longrightarrow> cp_ok cfg (cps\<lparr>csNext := n\<rparr>)"
  by (simp add: cp_ok_def)

lemma cp_ok_terminal:
  "cp_ok cfg cps \<Longrightarrow> \<not> badTerminal (k, t) \<Longrightarrow> cp_ok cfg (cps\<lparr>csTerminals := gm_set k t (csTerminals cps)\<rparr>)"
  using gm_set_subset [of k t "csTerminals cps"] by (auto simp: cp_ok_def)

text \<open>The checkpoint of a source, as the code reads it: the zero value where there is none.\<close>

lemma source_cases:
  assumes "cp_ok cfg cps" and "path \<noteq> []" and cp: "cp = gm_get zeroSource (csSources cps) path"
  obtains (missing) "gm_lookup (csSources cps) path = None" "cp = zeroSource"
    | (there) "gm_lookup (csSources cps) path = Some cp" "scPath cp = path" "0 \<le> scOffset cp" "0 \<le> scLines cp"
proof (cases "gm_lookup (csSources cps) path")
  case None
  then show ?thesis using cp missing by (simp add: gm_get_def)
next
  case (Some cp')
  then have "cp' = cp" using cp by (simp add: gm_get_def)
  moreover have "\<not> badSource (path, cp')"
    using assms(1) gm_lookup_mem [OF Some] by (auto simp: cp_ok_def)
  ultimately show ?thesis using there Some by (auto simp: badSource_def Let_def)
qed

section \<open>Chunks and manifests\<close>

definition manifestName :: "chunkManifest \<Rightarrow> string" where
  "manifestName m = pendingName (cmSequence m) (cmChunkDigest m)"

text \<open>A chunk given to the sink carries a manifest's contents.\<close>

definition carries :: "metricChunk \<Rightarrow> chunkManifest \<Rightarrow> bool" where
  "carries c m \<longleftrightarrow>
     ckSequence c = cmSequence m \<and> ckDigest c = cmChunkDigest m \<and> ckNDJSON c = cmNDJSON m \<and>
     ckSourcePath c = cmSourcePath m \<and> ckSourceFileID c = cmSourceFileID m \<and>
     ckStartOffset c = cmStartOffset m \<and> ckEndOffset c = cmEndOffset m"

lemma readSource_facts:
  assumes "readSource C path cp trailing f = Inr read"
  shows "rdPath read = path" "rdFileID read = fileIdentity f" "rdStart read = scOffset cp"
    "rdEnd read = rdStart read + int (length (rdData read))"
    "prefixDigest C (hfContent f) (rdEnd read) = Inr (rdPrefix read)"
  using assms by (auto simp: readSource_def Let_def split: option.splits sum.splits)

lemma readSource_prefix:
  assumes "readSource C path cp trailing f = Inr read" and "0 \<le> scOffset cp" and "codec_ok textual C" and "rdData read \<noteq> []"
  shows "rdPrefix read \<noteq> []"
proof -
  have "0 < int (length (rdData read))" using assms(4) by simp
  then have "rdEnd read \<noteq> 0" using readSource_facts(3,4) [OF assms(1)] assms(2) by linarith
  then show ?thesis
    using readSource_facts(5) [OF assms(1)] codec_digest_ne [OF assms(3)] by (auto simp: prefixDigest_def split: if_splits)
qed

lemma sourceLineCount_pos: "raw \<noteq> [] \<Longrightarrow> 0 < sourceLineCount raw"
  by (cases raw rule: rev_cases) (auto simp: sourceLineCount_def)

lemma sourceLineCount_nonneg: "0 \<le> sourceLineCount raw"
  by (simp add: sourceLineCount_def)

lemma fileIdentity_ne: "fileIdentity f \<noteq> []"
  by (simp add: fileIdentity_def)

lemma persisted_simps [simp]:
  "cmSchema (persistedManifest C chunk m) = chunkManifestSchemaV1"
  "cmChunkDigest (persistedManifest C chunk m) = ecDigest C (ckNDJSON chunk)"
  "cmSequence (persistedManifest C chunk m) = ckSequence chunk"
  "cmSourcePath (persistedManifest C chunk m) = ckSourcePath chunk"
  "cmSourceFileID (persistedManifest C chunk m) = ckSourceFileID chunk"
  "cmStartOffset (persistedManifest C chunk m) = ckStartOffset chunk"
  "cmEndOffset (persistedManifest C chunk m) = ckEndOffset chunk"
  "cmEventCount (persistedManifest C chunk m) = int (length (ckEvents chunk))"
  "cmNDJSON (persistedManifest C chunk m) = ckNDJSON chunk"
  "cmConfig (persistedManifest C chunk m) = cmConfig m"
  "cmKind (persistedManifest C chunk m) = cmKind m"
  "cmStartLines (persistedManifest C chunk m) = cmStartLines m"
  "cmEndLines (persistedManifest C chunk m) = cmEndLines m"
  "cmStartPrefix (persistedManifest C chunk m) = cmStartPrefix m"
  "cmPrefix (persistedManifest C chunk m) = cmPrefix m"
  by (simp_all add: persistedManifest_def Let_def)

lemma persisted_digest:
  "cmManifestDigest (persistedManifest C chunk m) = manifestDigest C (persistedManifest C chunk m)"
  by (simp add: persistedManifest_def Let_def manifestDigest_def digestLess_def)

lemma complete_carries: "carries (completeChunk C chunk) (persistedManifest C chunk m)"
  by (simp add: carries_def completeChunk_def Let_def)

lemma complete_path: "ckPath (completeChunk C chunk) = manifestName (persistedManifest C chunk m)"
  by (simp add: completeChunk_def Let_def manifestName_def)

lemma complete_events [simp]: "ckEvents (completeChunk C chunk) = ckEvents chunk"
  by (simp add: completeChunk_def Let_def)

lemma complete_digest [simp]: "ckDigest (completeChunk C chunk) = ecDigest C (ckNDJSON chunk)"
  by (simp add: completeChunk_def Let_def)

lemma validate_persisted:
  assumes C: "codec_ok textual C" and es: "ckEvents chunk \<noteq> []"
      "list_all (\<lambda>e. textual e \<and> validateEvent C e = None) (ckEvents chunk)"
    and raw: "encodeEvents C (ckEvents chunk) = Inr (ckNDJSON chunk)" and "0 < ckSequence chunk" and "cmConfig m = cfg"
    and kind: "cmKind m = ''history'' \<and> \<not> historyRangeInvalid (persistedManifest C chunk m) \<or>
               cmKind m = ''terminal'' \<and> \<not> terminalInvalid (persistedManifest C chunk m)"
  shows "validateManifest C (manifestName (persistedManifest C chunk m)) (persistedManifest C chunk m) cfg"
proof -
  obtain es' where es': "decodeCanonicalEvents C (ckNDJSON chunk) = Inr es'" "length es' = length (ckEvents chunk)"
    using decode_encoded [OF C es raw] by auto
  have head: "\<not> (cmSchema (persistedManifest C chunk m) \<noteq> chunkManifestSchemaV1 \<or> cmSequence (persistedManifest C chunk m) = 0 \<or>
      \<not> validDigest (cmChunkDigest (persistedManifest C chunk m)) \<or> \<not> validDigest (cmManifestDigest (persistedManifest C chunk m)) \<or>
      cmManifestDigest (persistedManifest C chunk m) \<noteq> manifestDigest C (persistedManifest C chunk m) \<or>
      cmConfig (persistedManifest C chunk m) \<noteq> cfg \<or> cmEventCount (persistedManifest C chunk m) \<le> 0)"
    using assms(5,6) es(1) codec_digest [OF C] by (simp add: persisted_digest) (simp add: manifestDigest_def)
  show ?thesis
    unfolding validateManifest_def if_not_P [OF head] using es' kind by (auto simp: manifestName_def)
qed

text \<open>The manifest of a read is valid, and the checkpoints it was read from accept it.\<close>

lemma history_manifest:
  assumes C: "codec_ok textual C" "textual_run textual C R" and cps: "cp_ok cfg cps" "path \<noteq> []"
    and cp: "cp = gm_get zeroSource (csSources cps) path" "scPath cp \<noteq> [] \<Longrightarrow> scFileID cp = rdFileID read"
    and read: "readSource C path cp0 trailing f = Inr read" "rdData read \<noteq> []" "scOffset cp0 = scOffset cp"
    and es: "project C R now read = Inr (es, raw)" "es \<noteq> []"
    and chunk: "chunk = historyChunk read (csNext cps) es raw"
    and m: "m = persistedManifest C chunk (newHistoryManifest cfg cp read (length es))"
  shows "validateManifest C (manifestName m) m cfg"
    and "advanceCheckpointForManifest cps m =
      Inr (Some (cps\<lparr>csSources := gm_set path (afterRead cp read (csNext cps) (ecDigest C raw)) (csSources cps), csNext := csNext cps + 1\<rparr>))"
proof -
  have off: "0 \<le> scOffset cp" "0 \<le> scLines cp" by (rule source_cases [OF cps cp(1)]; simp add: zeroSource_def)+
  note rd = readSource_facts [OF read(1)]
  have prefix: "rdPrefix read \<noteq> []" using readSource_prefix [OF read(1) _ C(1) read(2)] off read(3) by simp
  have pos: "0 < int (length (rdData read))" "0 < sourceLineCount (rdData read)"
    using read(2) sourceLineCount_pos by auto
  have range: "\<not> historyRangeInvalid m"
    using rd prefix pos off cps(2) read(3) fileIdentity_ne [of f]
    by (simp add: historyRangeInvalid_def m chunk historyChunk_def newHistoryManifest_def)
  have tx: "list_all textual es" using C(2) es(1) unfolding textual_run_def by blast
  have ok: "list_all (\<lambda>e. textual e \<and> validateEvent C e = None) es"
    using tx project_encoded(2) [OF es(1)] by (simp add: list_all_iff)
  show "validateManifest C (manifestName m) m cfg"
    unfolding m
    by (rule validate_persisted [OF C(1)])
      (use es ok range cps(1) project_encoded(1) [OF es(1)] in
        \<open>simp_all add: chunk m historyChunk_def newHistoryManifest_def cp_ok_def\<close>)
  have start: "scOffset cp = rdStart read" using rd(3) read(3) by simp
  have sc: "scPath cp = [] \<Longrightarrow> cp = zeroSource"
    by (rule source_cases [OF cps cp(1)]) (use cps(2) in auto)
  show "advanceCheckpointForManifest cps m =
      Inr (Some (cps\<lparr>csSources := gm_set path (afterRead cp read (csNext cps) (ecDigest C raw)) (csSources cps), csNext := csNext cps + 1\<rparr>))"
    using start sc cp rd(1)
    by (auto simp: advanceCheckpointForManifest_def Let_def m chunk historyChunk_def newHistoryManifest_def
        historyAdvance_def afterRead_def zeroSource_def)
qed

lemma terminal_manifest:
  assumes C: "codec_ok textual C" "textual_run textual C R" and cps: "cp_ok cfg cps"
    and event: "statusEvent C R status = Inr event" "encodeMetricNDJSON C event = Inr raw"
    and oid: "validDigest oid" "gm_lookup (csTerminals cps) oid = None"
    and chunk: "chunk = terminalChunk R (csNext cps) oid event raw"
    and m: "m = persistedManifest C chunk (newTerminalManifest cfg (csNext cps) (completionSource R) oid raw)"
  shows "validateManifest C (manifestName m) m cfg"
    and "advanceCheckpointForManifest cps m =
      Inr (Some (cps\<lparr>csTerminals := gm_set oid \<lparr>tcSequence = csNext cps, tcDigest = ecDigest C raw\<rparr> (csTerminals cps), csNext := csNext cps + 1\<rparr>))"
proof -
  have valid: "validateEvent C event = None"
    using event(1) by (auto simp: statusEvent_def Let_def validateEvent_new)
  have ok: "textual event" using C(2) event by (auto simp: textual_run_def)
  have "completionSource R \<noteq> []" by (simp add: completionSource_def)
  then have range: "\<not> terminalInvalid m"
    using oid(1) by (simp add: terminalInvalid_def m chunk terminalChunk_def newTerminalManifest_def)
  show "validateManifest C (manifestName m) m cfg"
    unfolding m
    by (rule validate_persisted [OF C(1)])
      (use event(2) valid ok range cps in
        \<open>simp_all add: chunk m terminalChunk_def newTerminalManifest_def cp_ok_def\<close>)
  show "advanceCheckpointForManifest cps m =
      Inr (Some (cps\<lparr>csTerminals := gm_set oid \<lparr>tcSequence = csNext cps, tcDigest = ecDigest C raw\<rparr> (csTerminals cps), csNext := csNext cps + 1\<rparr>))"
    using oid(2)
    by (simp add: advanceCheckpointForManifest_def Let_def m chunk terminalChunk_def newTerminalManifest_def
        terminalObservationIDFromManifest_def)
qed

lemma validateManifestD:
  assumes "validateManifest C n m cfg"
  shows "0 < cmSequence m" "validDigest (cmChunkDigest m)" "n = manifestName m"
    "cmKind m = ''history'' \<and> \<not> historyRangeInvalid m \<or> cmKind m = ''terminal'' \<and> \<not> terminalInvalid m"
    "\<exists>es. decodeCanonicalEvents C (cmNDJSON m) = Inr es"
  using assms by (auto simp: validateManifest_def manifestName_def split: if_splits sum.splits)

lemma advance_acknowledged:
  assumes "advanceCheckpointForManifest cps m = Inr (Some next)"
  shows "cmSequence m = csNext cps" "csNext next = Suc (cmSequence m)" "validateAcknowledgedManifest next m = Inr ()"
  using assms
  by (auto simp: advanceCheckpointForManifest_def validateAcknowledgedManifest_def historyAdvance_def Let_def split: if_splits)

lemma advance_cp_ok:
  assumes "cp_ok cfg cps" and "validateManifest C n m cfg" and "advanceCheckpointForManifest cps m = Inr (Some next)"
  shows "cp_ok cfg next"
proof -
  note v = validateManifestD [OF assms(2)]
  have src: "\<not> badSource (cmSourcePath m, historyAdvance m)" if "cmKind m = ''history''"
    using v(1,2,4) that by (auto simp: badSource_def historyAdvance_def historyRangeInvalid_def)
  have trm: "\<not> badTerminal (terminalObservationIDFromManifest m, \<lparr>tcSequence = cmSequence m, tcDigest = cmChunkDigest m\<rparr>)"
    if "cmKind m = ''terminal''"
    using v(1,2,4) that by (auto simp: badTerminal_def terminalInvalid_def terminalObservationIDFromManifest_def)
  show ?thesis
    using assms(3) src trm cp_ok_next [OF cp_ok_source [OF assms(1)]] cp_ok_next [OF cp_ok_terminal [OF assms(1)]]
    by (auto simp: advanceCheckpointForManifest_def Let_def split: if_splits)
qed

end
