(* ===== verification/Metric_Invariant.thy ===== *)
theory Metric_Invariant
  imports Metric_Recovery
begin

text \<open>The invariant, and how the single effects of the operations change it.\<close>

section \<open>The invariant\<close>

text \<open>The pending chunk is the next one the checkpoints accept, or the last one they acknowledge.\<close>

definition fits :: "checkpointSet \<Rightarrow> chunkManifest \<Rightarrow> bool" where
  "fits cps m \<longleftrightarrow>
     (\<exists>next. advanceCheckpointForManifest cps m = Inr (Some next)) \<or>
     (Suc (cmSequence m) = csNext cps \<and> validateAcknowledgedManifest cps m = Inr ())"

definition tempEntry :: "checkpointSet \<Rightarrow> string \<Rightarrow> bool" where
  "tempEntry cps n \<longleftrightarrow> (\<exists>s d k. n = tempName (pendingName s d) k \<and> validDigest d \<and> s \<le> csNext cps)"

definition pendingIs ::
  "'a spoolCodec_scheme \<Rightarrow> string \<Rightarrow> checkpointSet \<Rightarrow> (string, spoolEntry) gomap \<Rightarrow> chunkManifest option \<Rightarrow> bool" where
  "pendingIs C cfg cps pend ch \<longleftrightarrow>
     gm_inv pend \<and>
     (\<forall>n e. gm_lookup pend n = Some e \<longrightarrow>
        (\<exists>f. e = SpoolFile f) \<and> (tempEntry cps n \<or> (\<exists>m. ch = Some m \<and> n = manifestName m))) \<and>
     (\<forall>m. ch = Some m \<longrightarrow>
        gm_lookup pend (manifestName m) = Some (SpoolFile (Document m)) \<and> validateManifest C (manifestName m) m cfg \<and> fits cps m)"

definition sameDelivery :: "metricChunk \<Rightarrow> metricChunk \<Rightarrow> bool" where
  "sameDelivery c d \<longleftrightarrow>
     ckDigest c = ckDigest d \<and> ckNDJSON c = ckNDJSON d \<and> ckSourcePath c = ckSourcePath d \<and>
     ckSourceFileID c = ckSourceFileID d \<and> ckStartOffset c = ckStartOffset d \<and> ckEndOffset c = ckEndOffset d"

definition ranged :: "metricChunk \<Rightarrow> bool" where
  "ranged c \<longleftrightarrow> ckStartOffset c < ckEndOffset c"

definition accepted :: "metricChunk \<times> sinkAnswer \<Rightarrow> bool" where
  "accepted p \<longleftrightarrow> snd p = SinkAck (int (length (ckEvents (fst p))))"

text \<open>What the sink has been given, by itself.\<close>

definition deliveries_ok :: "(metricChunk \<times> sinkAnswer) list \<Rightarrow> bool" where
  "deliveries_ok calls \<longleftrightarrow>
     sorted (map (ckSequence \<circ> fst) calls) \<and>
     (\<forall>p \<in> set calls. \<forall>q \<in> set calls. ckSequence (fst p) = ckSequence (fst q) \<longrightarrow> sameDelivery (fst p) (fst q)) \<and>
     (\<forall>p \<in> set calls. \<forall>q \<in> set calls.
        ckSourcePath (fst p) = ckSourcePath (fst q) \<and> ranged (fst p) \<and> ranged (fst q) \<and>
        ckSequence (fst p) < ckSequence (fst q) \<longrightarrow> ckEndOffset (fst p) \<le> ckStartOffset (fst q))"

definition log_ok :: "checkpointSet \<Rightarrow> chunkManifest option \<Rightarrow> (metricChunk \<times> sinkAnswer) list \<Rightarrow> bool" where
  "log_ok cps ch calls \<longleftrightarrow>
     deliveries_ok calls \<and>
     (\<forall>p \<in> set calls. ckSequence (fst p) < csNext cps \<or>
        (\<exists>m. ch = Some m \<and> cmSequence m = csNext cps \<and> carries (fst p) m)) \<and>
     (\<forall>n. 0 < n \<and> n < csNext cps \<longrightarrow> (\<exists>p \<in> set calls. ckSequence (fst p) = n \<and> accepted p)) \<and>
     (\<forall>p \<in> set calls. ckSequence (fst p) < csNext cps \<and> ranged (fst p) \<longrightarrow>
        (\<exists>cp. gm_lookup (csSources cps) (ckSourcePath (fst p)) = Some cp \<and> ckEndOffset (fst p) \<le> scOffset cp))"

definition diskIs :: "string \<Rightarrow> checkpointDoc document option \<Rightarrow> checkpointSet \<Rightarrow> bool" where
  "diskIs cfg doc cps \<longleftrightarrow>
     cp_ok cfg cps \<and> (doc = None \<and> cps = freshCheckpoints cfg \<or> doc = Some (Document (checkpointDocOf cps)))"

definition state_ok ::
  "'a spoolCodec_scheme \<Rightarrow> string \<Rightarrow> checkpointSet \<Rightarrow> chunkManifest option \<Rightarrow> world \<Rightarrow> bool" where
  "state_ok C cfg cps ch w \<longleftrightarrow>
     diskIs cfg (wCheckpoint w) cps \<and> pendingIs C cfg cps (wPending w) ch \<and> log_ok cps ch (wLog w)"

text \<open>The disk and the deliveries are in order; the process is alive and its memory is the disk's.\<close>

definition spool_inv :: "'a spoolCodec_scheme \<Rightarrow> string \<Rightarrow> world \<Rightarrow> bool" where
  "spool_inv C cfg w \<longleftrightarrow> (\<exists>cps ch. state_ok C cfg cps ch w)"

definition live :: "'a spoolCodec_scheme \<Rightarrow> string \<Rightarrow> chunkManifest option \<Rightarrow> world \<Rightarrow> bool" where
  "live C cfg ch w \<longleftrightarrow> \<not> wCrashed w \<and> state_ok C cfg (wMemory w) ch w"

lemma live_inv: "live C cfg ch w \<Longrightarrow> spool_inv C cfg w"
  by (auto simp: live_def spool_inv_def)

section \<open>Effects\<close>

lemma manifestName_not_temp: "manifestName m \<noteq> tempName n k"
  using pendingName_hd [of "cmSequence m" "cmChunkDigest m"] tempName_hd [of n k] isDigit_not(1)
  by (auto simp: manifestName_def)

lemma tempEntry_mono: "tempEntry cps n \<Longrightarrow> csNext cps \<le> csNext cps' \<Longrightarrow> tempEntry cps' n"
  unfolding tempEntry_def using order_trans by blast

lemma tempEntry_not_manifest: "tempEntry cps n \<Longrightarrow> n \<noteq> manifestName m"
  unfolding tempEntry_def using manifestName_not_temp by metis

text \<open>A temporary file appears; one disappears.\<close>

lemma pendingIs_add_temp:
  assumes "pendingIs C cfg cps pend ch" and "tempEntry cps n"
  shows "pendingIs C cfg cps (gm_set n (SpoolFile f) pend) ch"
  using assms tempEntry_not_manifest [OF assms(2)] by (auto simp: pendingIs_def)

lemma pendingIs_remove_temp:
  assumes "pendingIs C cfg cps pend ch" and "tempEntry cps n"
  shows "pendingIs C cfg cps (gm_delete n pend) ch"
  using assms tempEntry_not_manifest [OF assms(2)] by (auto simp: pendingIs_def split: if_splits)

text \<open>The chunk appears; it disappears.\<close>

lemma pendingIs_add_chunk:
  assumes "pendingIs C cfg cps pend None" and "validateManifest C (manifestName m) m cfg" and "fits cps m"
  shows "pendingIs C cfg cps (gm_set (manifestName m) (SpoolFile (Document m)) pend) (Some m)"
  using assms by (auto simp: pendingIs_def)

lemma pendingIs_remove_chunk:
  assumes "pendingIs C cfg cps pend (Some m)"
  shows "pendingIs C cfg cps (gm_delete (manifestName m) pend) None"
  using assms by (auto simp: pendingIs_def split: if_splits)

lemma log_ok_remove_chunk: "log_ok cps (Some m) calls \<Longrightarrow> Suc (cmSequence m) = csNext cps \<Longrightarrow> log_ok cps None calls"
  by (auto simp: log_ok_def)

lemma log_ok_add_chunk: "log_ok cps None calls \<Longrightarrow> log_ok cps (Some m) calls"
  by (auto simp: log_ok_def)

text \<open>The checkpoints of a source move ahead while nothing is pending.\<close>

lemma log_ok_source:
  assumes "log_ok cps None calls" and "\<And>old. gm_lookup (csSources cps) path = Some old \<Longrightarrow> scOffset old \<le> scOffset cp"
  shows "log_ok (cps\<lparr>csSources := gm_set path cp (csSources cps)\<rparr>) None calls"
  using assms by (fastforce simp: log_ok_def)

lemma pendingIs_source:
  "pendingIs C cfg cps pend None \<Longrightarrow> pendingIs C cfg (cps\<lparr>csSources := s\<rparr>) pend None"
  by (simp add: pendingIs_def tempEntry_def)

text \<open>A chunk with a range starts where the checkpoint of its source stands.\<close>

lemma advance_start:
  assumes cps: "cp_ok cfg cps" and m: "validateManifest C n m cfg" and adv: "advanceCheckpointForManifest cps m = Inr (Some next)"
    and range: "cmStartOffset m < cmEndOffset m"
  shows "cmKind m = ''history''"
    and "gm_lookup (csSources cps) (cmSourcePath m) = Some cp \<Longrightarrow> cmStartOffset m = scOffset cp"
    and "csSources next = gm_set (cmSourcePath m) (historyAdvance m) (csSources cps)"
proof -
  show kind: "cmKind m = ''history''"
    using validateManifestD(4) [OF m] range by (auto simp: terminalInvalid_def)
  show "csSources next = gm_set (cmSourcePath m) (historyAdvance m) (csSources cps)"
    using adv kind by (auto simp: advanceCheckpointForManifest_def Let_def split: if_splits)
  show "cmStartOffset m = scOffset cp" if look: "gm_lookup (csSources cps) (cmSourcePath m) = Some cp"
  proof -
    have "cmSourcePath m \<noteq> []" using validateManifestD(4) [OF m] kind by (auto simp: historyRangeInvalid_def)
    moreover have "\<not> badSource (cmSourcePath m, cp)" using cps gm_lookup_mem [OF look] by (auto simp: cp_ok_def)
    ultimately have "scPath cp \<noteq> []" by (auto simp: badSource_def Let_def)
    then show ?thesis
      using adv kind look by (auto simp: advanceCheckpointForManifest_def Let_def gm_get_def split: if_splits)
  qed
qed

lemma sorted_snoc: "sorted (xs @ [x]) \<longleftrightarrow> sorted xs \<and> (\<forall>y \<in> set xs. y \<le> (x :: nat))"
  by (auto simp: sorted_append)

lemma log_ok_deliver:
  assumes ok: "log_ok cps (Some m) calls" and cps: "cp_ok cfg cps" and m: "validateManifest C n m cfg"
    and adv: "advanceCheckpointForManifest cps m = Inr (Some next)" and c: "carries c m"
  shows "log_ok cps (Some m) (calls @ [(c, a)])"
proof -
  note seq = advance_acknowledged(1) [OF adv]
  have old: "ckSequence (fst p) < csNext cps \<or> carries (fst p) m" if "p \<in> set calls" for p
    using ok that by (auto simp: log_ok_def)
  have le: "ckSequence (fst p) \<le> ckSequence c" if "p \<in> set calls" for p
    using old [OF that] c seq by (auto simp: carries_def)
  have same: "sameDelivery (fst p) c \<and> sameDelivery c (fst p)"
    if "p \<in> set calls" "ckSequence (fst p) = ckSequence c" for p
    using old [OF that(1)] that(2) c seq by (auto simp: carries_def sameDelivery_def)
  have after: "ckEndOffset (fst p) \<le> ckStartOffset c"
    if p: "p \<in> set calls" "ckSourcePath (fst p) = ckSourcePath c" "ranged (fst p)" "ranged c" "ckSequence (fst p) < ckSequence c" for p
  proof -
    have "ckSequence (fst p) < csNext cps" using p(5) c seq by (simp add: carries_def)
    then obtain cp where cp: "gm_lookup (csSources cps) (cmSourcePath m) = Some cp" "ckEndOffset (fst p) \<le> scOffset cp"
      using ok p(1,2,3) c unfolding log_ok_def carries_def by metis
    have "cmStartOffset m < cmEndOffset m" using p(4) c by (simp add: ranged_def carries_def)
    then show ?thesis using advance_start(2) [OF cps m adv _ cp(1)] cp(2) c by (simp add: carries_def)
  qed
  have d: "deliveries_ok calls" using ok by (simp add: log_ok_def)
  have self: "sameDelivery c c" by (simp add: sameDelivery_def)
  have "sorted (map (ckSequence \<circ> fst) (calls @ [(c, a)]))"
    using d le by (simp add: deliveries_ok_def sorted_append)
  moreover have "\<forall>p \<in> set (calls @ [(c, a)]). \<forall>q \<in> set (calls @ [(c, a)]).
      ckSequence (fst p) = ckSequence (fst q) \<longrightarrow> sameDelivery (fst p) (fst q)"
    using d same self unfolding deliveries_ok_def by simp
  moreover have "\<forall>p \<in> set (calls @ [(c, a)]). \<forall>q \<in> set (calls @ [(c, a)]).
      ckSourcePath (fst p) = ckSourcePath (fst q) \<and> ranged (fst p) \<and> ranged (fst q) \<and>
      ckSequence (fst p) < ckSequence (fst q) \<longrightarrow> ckEndOffset (fst p) \<le> ckStartOffset (fst q)"
    using d after le unfolding deliveries_ok_def by (simp add: leD)
  ultimately have "deliveries_ok (calls @ [(c, a)])" unfolding deliveries_ok_def by blast
  then show ?thesis using ok c seq by (auto simp: log_ok_def carries_def)
qed

lemma log_ok_advance:
  assumes ok: "log_ok cps (Some m) calls" and cps: "cp_ok cfg cps" and m: "validateManifest C n m cfg"
    and adv: "advanceCheckpointForManifest cps m = Inr (Some next)"
    and acc: "\<exists>p \<in> set calls. ckSequence (fst p) = cmSequence m \<and> accepted p"
  shows "log_ok next (Some m) calls"
proof -
  note seq = advance_acknowledged(1,2) [OF adv]
  have old: "ckSequence (fst p) < csNext cps \<or> carries (fst p) m" if "p \<in> set calls" for p
    using ok that by (auto simp: log_ok_def)
  have below: "ckSequence (fst p) < csNext next" if "p \<in> set calls" for p
    using old [OF that] seq by (auto simp: carries_def)
  have all: "\<exists>p \<in> set calls. ckSequence (fst p) = k \<and> accepted p" if "0 < k" "k < csNext next" for k
    using ok acc that seq unfolding log_ok_def by (cases "k = cmSequence m") auto
  have sources: "\<exists>cp. gm_lookup (csSources next) (ckSourcePath (fst p)) = Some cp \<and> ckEndOffset (fst p) \<le> scOffset cp"
    if p: "p \<in> set calls" "ranged (fst p)" for p
  proof (cases "ckSequence (fst p) < csNext cps")
    case True
    then obtain cp where cp: "gm_lookup (csSources cps) (ckSourcePath (fst p)) = Some cp" "ckEndOffset (fst p) \<le> scOffset cp"
      using ok p unfolding log_ok_def by metis
    show ?thesis
    proof (cases "cmKind m = ''history''")
      case True
      then have range: "cmStartOffset m < cmEndOffset m"
        using validateManifestD(4) [OF m] by (auto simp: historyRangeInvalid_def)
      show ?thesis
        using advance_start(2,3) [OF cps m adv range] cp range by (auto simp: historyAdvance_def)
    next
      case False
      then have "csSources next = csSources cps"
        using adv by (auto simp: advanceCheckpointForManifest_def Let_def split: if_splits)
      then show ?thesis using cp by simp
    qed
  next
    case False
    then have c: "carries (fst p) m" using old [OF p(1)] by simp
    then have range: "cmStartOffset m < cmEndOffset m" using p(2) by (simp add: ranged_def carries_def)
    show ?thesis using advance_start(3) [OF cps m adv range] c by (simp add: carries_def historyAdvance_def)
  qed
  show ?thesis using ok below all sources by (auto simp: log_ok_def)
qed

end
