(* ===== verification/Metric_Steps.thy ===== *)
theory Metric_Steps
  imports Metric_Invariant
begin

text \<open>
  Every operation of the collector keeps the invariant of the spool, in the style of a Hoare
  logic with an error postcondition: \<open>triple P m Q E\<close> says that from a state in \<open>P\<close> the
  operation \<open>m\<close> returns a value and a state in \<open>Q\<close>, or an error and a state in \<open>E\<close>.
\<close>

section \<open>Triples\<close>

definition post :: "('a \<Rightarrow> world \<Rightarrow> bool) \<Rightarrow> (world \<Rightarrow> bool) \<Rightarrow> (spoolError + 'a) \<times> world \<Rightarrow> bool" where
  "post Q E p \<longleftrightarrow> (case p of (Inr x, w) \<Rightarrow> Q x w | (Inl e, w) \<Rightarrow> E w)"

definition triple :: "(world \<Rightarrow> bool) \<Rightarrow> 'a op \<Rightarrow> ('a \<Rightarrow> world \<Rightarrow> bool) \<Rightarrow> (world \<Rightarrow> bool) \<Rightarrow> bool" where
  "triple P m Q E \<longleftrightarrow> (\<forall>w. P w \<longrightarrow> post Q E (m w))"

lemma post_simps [simp]: "post Q E (Inr x, w) = Q x w" "post Q E (Inl e, w) = E w"
  by (simp_all add: post_def)

lemma post_bind:
  assumes "post Q E (m w)" and "\<And>x w'. Q x w' \<Longrightarrow> post S E (f x w')"
  shows "post S E (andDo m f w)"
proof -
  obtain r w' where m: "m w = (r, w')" by (cases "m w")
  then show ?thesis using assms by (cases r) (simp_all add: andDo_def)
qed

lemma triple_bind:
  "triple P m Q E \<Longrightarrow> (\<And>x. triple (Q x) (f x) S E) \<Longrightarrow> triple P (andDo m f) S E"
  unfolding triple_def using post_bind by blast

lemma post_mono: "post Q E p \<Longrightarrow> (\<And>x w. Q x w \<Longrightarrow> Q' x w) \<Longrightarrow> post Q' E p"
  by (auto simp: post_def split: prod.splits sum.splits)

lemma post_err: "post Q E p \<Longrightarrow> (\<And>w. E w \<Longrightarrow> E' w) \<Longrightarrow> post Q E' p"
  by (cases p; cases "fst p") (auto simp: post_def)

lemma triple_ret: "(\<And>w. P w \<Longrightarrow> Q x w) \<Longrightarrow> triple P (ret x) Q E"
  by (simp add: triple_def ret_def)

lemma triple_fail: "(\<And>w. P w \<Longrightarrow> E w) \<Longrightarrow> triple P (failWith e) Q E"
  by (simp add: triple_def failWith_def)

lemma triple_lift: "(\<And>w. P w \<Longrightarrow> E w) \<Longrightarrow> (\<And>w x. P w \<Longrightarrow> r = Inr x \<Longrightarrow> Q x w) \<Longrightarrow> triple P (liftE r) Q E"
  by (cases r) (auto simp: triple_def liftE_def)

lemma triple_pre: "triple P m Q E \<Longrightarrow> (\<And>w. P' w \<Longrightarrow> P w) \<Longrightarrow> triple P' m Q E"
  by (simp add: triple_def)

lemma triple_post: "triple P m Q E \<Longrightarrow> (\<And>x w. Q x w \<Longrightarrow> Q' x w) \<Longrightarrow> triple P m Q' E"
  by (auto simp: triple_def intro: post_mono)

lemma tripleD: "triple P m Q E \<Longrightarrow> P w \<Longrightarrow> post Q E (m w)"
  by (simp add: triple_def)

section \<open>Good states and errors\<close>

text \<open>
  Storage faults that are the death of the process. With \<open>cr\<close> a run meets no others; then an
  error leaves the process dead or its memory in accordance with the disk.
\<close>

definition crashFault :: "ioFault \<Rightarrow> bool" where
  "crashFault f \<longleftrightarrow> f = IoOk \<or> (\<exists>t. f = IoCrash t) \<or> f = IoCrashAfter"

definition faults_ok :: "bool \<Rightarrow> world \<Rightarrow> bool" where
  "faults_ok cr w \<longleftrightarrow> (cr \<longrightarrow> list_all crashFault (wFaults w))"

definition good :: "bool \<Rightarrow> 'a spoolCodec_scheme \<Rightarrow> string \<Rightarrow> chunkManifest option \<Rightarrow> world \<Rightarrow> bool" where
  "good cr C cfg ch w \<longleftrightarrow> live C cfg ch w \<and> faults_ok cr w"

definition errs :: "bool \<Rightarrow> 'a spoolCodec_scheme \<Rightarrow> string \<Rightarrow> world \<Rightarrow> bool" where
  "errs cr C cfg w \<longleftrightarrow>
     spool_inv C cfg w \<and> faults_ok cr w \<and> (cr \<longrightarrow> wCrashed w \<or> (\<exists>ch. live C cfg ch w))"

lemma good_errs: "good cr C cfg ch w \<Longrightarrow> errs cr C cfg w"
  by (auto simp: good_def errs_def live_inv)

lemma state_ok_frame [simp]:
  "state_ok C cfg cps ch (w\<lparr>wFaults := fs\<rparr>) = state_ok C cfg cps ch w"
  "state_ok C cfg cps ch (w\<lparr>wAnswers := as\<rparr>) = state_ok C cfg cps ch w"
  "state_ok C cfg cps ch (w\<lparr>wCrashed := b\<rparr>) = state_ok C cfg cps ch w"
  "state_ok C cfg cps ch (w\<lparr>wMemory := mem\<rparr>) = state_ok C cfg cps ch w"
  "state_ok C cfg cps ch (w\<lparr>wResult := res\<rparr>) = state_ok C cfg cps ch w"
  "state_ok C cfg cps ch (w\<lparr>wReady := b\<rparr>) = state_ok C cfg cps ch w"
  "state_ok C cfg cps ch (w\<lparr>wDone := b\<rparr>) = state_ok C cfg cps ch w"
  by (simp_all add: state_ok_def)

lemma faults_ok_frame [simp]:
  "faults_ok cr (w\<lparr>wPending := p\<rparr>) = faults_ok cr w"
  "faults_ok cr (w\<lparr>wCheckpoint := c\<rparr>) = faults_ok cr w"
  "faults_ok cr (w\<lparr>wAnswers := as\<rparr>) = faults_ok cr w"
  "faults_ok cr (w\<lparr>wCrashed := b\<rparr>) = faults_ok cr w"
  "faults_ok cr (w\<lparr>wMemory := mem\<rparr>) = faults_ok cr w"
  "faults_ok cr (w\<lparr>wResult := res\<rparr>) = faults_ok cr w"
  "faults_ok cr (w\<lparr>wReady := b\<rparr>) = faults_ok cr w"
  "faults_ok cr (w\<lparr>wDone := b\<rparr>) = faults_ok cr w"
  "faults_ok cr (w\<lparr>wLog := l\<rparr>) = faults_ok cr w"
  by (simp_all add: faults_ok_def)

lemma errs_crashed: "state_ok C cfg cps ch w \<Longrightarrow> faults_ok cr w \<Longrightarrow> wCrashed w \<Longrightarrow> errs cr C cfg w"
  by (auto simp: errs_def spool_inv_def)

lemma errs_storage: "state_ok C cfg cps ch w \<Longrightarrow> \<not> cr \<Longrightarrow> errs cr C cfg w"
  by (auto simp: errs_def spool_inv_def faults_ok_def)

lemma nextFault_cases:
  assumes "nextFault w = (f, w')" and "faults_ok cr w"
  obtains fs where "w' = w\<lparr>wFaults := fs\<rparr>" "faults_ok cr w'" "cr \<longrightarrow> crashFault f"
proof (cases "wFaults w")
  case Nil
  then have "w' = w\<lparr>wFaults := wFaults w\<rparr>" "f = IoOk" using assms(1) by (auto simp: nextFault_def)
  then show ?thesis using that [of "wFaults w"] assms(2) by (auto simp: crashFault_def)
next
  case (Cons g gs)
  then have "w' = w\<lparr>wFaults := gs\<rparr>" "f = g" using assms(1) by (auto simp: nextFault_def)
  then show ?thesis using that [of gs] assms(2) Cons by (auto simp: faults_ok_def)
qed

text \<open>
  A durable operation: before it and after it, with or without a temporary file, the disk is in
  order; when it succeeds, \<open>Q\<close> holds.
\<close>

lemma durable_post:
  assumes f: "faults_ok cr w"
    and ok: "\<And>fs. faults_ok cr (w\<lparr>wFaults := fs\<rparr>) \<Longrightarrow> Q () (apply' (w\<lparr>wFaults := fs\<rparr>))"
    and before: "\<And>fs t. faults_ok cr (w\<lparr>wFaults := fs\<rparr>) \<Longrightarrow>
        (\<exists>cps ch. state_ok C cfg cps ch (leaveTemp temp t (w\<lparr>wFaults := fs\<rparr>))) \<and> faults_ok cr (leaveTemp temp t (w\<lparr>wFaults := fs\<rparr>))"
    and after: "\<And>fs. faults_ok cr (w\<lparr>wFaults := fs\<rparr>) \<Longrightarrow>
        (\<exists>cps ch. state_ok C cfg cps ch (apply' (w\<lparr>wFaults := fs\<rparr>))) \<and> faults_ok cr (apply' (w\<lparr>wFaults := fs\<rparr>))"
  shows "post Q (errs cr C cfg) (durable apply' temp w)"
proof -
  obtain g w' where next': "nextFault w = (g, w')" by (cases "nextFault w")
  obtain fs where w': "w' = w\<lparr>wFaults := fs\<rparr>" "faults_ok cr w'" "cr \<longrightarrow> crashFault g"
    by (rule nextFault_cases [OF next' f])
  note fs = w'(2) [unfolded w'(1)]
  note b = before [OF fs, folded w'(1)] and a = after [OF fs, folded w'(1)]
  show ?thesis
  proof (cases g)
    case IoOk
    then show ?thesis using ok [OF fs] next' w'(1) by (simp add: durable_def)
  next
    case (IoFails t e)
    then show ?thesis using next' w'(3) b [of t] by (auto simp: durable_def crashFault_def intro: errs_storage)
  next
    case (IoSyncFails e)
    then show ?thesis using next' w'(3) a by (auto simp: durable_def crashFault_def intro: errs_storage)
  next
    case (IoCrash t)
    then show ?thesis using next' b [of t] by (auto simp: durable_def intro!: errs_crashed)
  next
    case IoCrashAfter
    then show ?thesis using next' a by (auto simp: durable_def intro!: errs_crashed)
  qed
qed

text \<open>An operation that leaves no temporary file.\<close>

lemma durable_noTemp:
  assumes f: "faults_ok cr w" and st: "state_ok C cfg cps ch w"
    and ok: "\<And>fs. faults_ok cr (w\<lparr>wFaults := fs\<rparr>) \<Longrightarrow> Q () (apply' (w\<lparr>wFaults := fs\<rparr>))"
    and after: "\<And>fs. state_ok C cfg cps' ch' (apply' (w\<lparr>wFaults := fs\<rparr>))"
    and frame: "\<And>fs. wFaults (apply' (w\<lparr>wFaults := fs\<rparr>)) = fs"
  shows "post Q (errs cr C cfg) (durable apply' noTemp w)"
proof (rule durable_post [OF f])
  fix fs t assume fs: "faults_ok cr (w\<lparr>wFaults := fs\<rparr>)"
  show "Q () (apply' (w\<lparr>wFaults := fs\<rparr>))" by (rule ok [OF fs])
  have "leaveTemp noTemp t (w\<lparr>wFaults := fs\<rparr>) = w\<lparr>wFaults := fs\<rparr>" by (simp add: leaveTemp_def noTemp_def split: option.split)
  then show "(\<exists>cps ch. state_ok C cfg cps ch (leaveTemp noTemp t (w\<lparr>wFaults := fs\<rparr>))) \<and> faults_ok cr (leaveTemp noTemp t (w\<lparr>wFaults := fs\<rparr>))"
    using st fs by auto
  have "faults_ok cr (apply' (w\<lparr>wFaults := fs\<rparr>))" using fs by (simp add: faults_ok_def frame)
  then show "(\<exists>cps ch. state_ok C cfg cps ch (apply' (w\<lparr>wFaults := fs\<rparr>))) \<and> faults_ok cr (apply' (w\<lparr>wFaults := fs\<rparr>))"
    using after by auto
qed

section \<open>Settling a chunk\<close>

lemma goodD: "good cr C cfg ch w \<Longrightarrow> \<not> wCrashed w \<and> state_ok C cfg (wMemory w) ch w \<and> faults_ok cr w"
  by (simp add: good_def live_def)

lemma goodI: "\<not> wCrashed w \<Longrightarrow> state_ok C cfg (wMemory w) ch w \<Longrightarrow> faults_ok cr w \<Longrightarrow> good cr C cfg ch w"
  by (simp add: good_def live_def)

text \<open>The chunk of \<open>m\<close> is pending and the memory accepts it, moving to \<open>next\<close>.\<close>

definition settling ::
  "bool \<Rightarrow> 'a spoolCodec_scheme \<Rightarrow> string \<Rightarrow> chunkManifest \<Rightarrow> checkpointSet \<Rightarrow> world \<Rightarrow> bool" where
  "settling cr C cfg m next w \<longleftrightarrow>
     good cr C cfg (Some m) w \<and> advanceCheckpointForManifest (wMemory w) m = Inr (Some next)"

lemma state_okD:
  assumes "state_ok C cfg cps ch w"
  shows "cp_ok cfg cps" "diskIs cfg (wCheckpoint w) cps" "pendingIs C cfg cps (wPending w) ch" "log_ok cps ch (wLog w)"
    "ch = Some m \<Longrightarrow> validateManifest C (manifestName m) m cfg"
    "ch = Some m \<Longrightarrow> gm_lookup (wPending w) (manifestName m) = Some (SpoolFile (Document m))"
    "ch = Some m \<Longrightarrow> fits cps m"
  using assms by (auto simp: state_ok_def diskIs_def pendingIs_def)

lemma deliver_triple:
  assumes c: "carries c m"
  shows "triple (settling cr C cfg m next) (deliverChunk c)
    (\<lambda>u w. settling cr C cfg m next w \<and> (\<exists>p \<in> set (wLog w). ckSequence (fst p) = cmSequence m \<and> accepted p)) (errs cr C cfg)"
  unfolding triple_def
proof (intro allI impI)
  fix w assume pre: "settling cr C cfg m next w"
  then have g: "good cr C cfg (Some m) w" and adv: "advanceCheckpointForManifest (wMemory w) m = Inr (Some next)"
    by (auto simp: settling_def)
  note st = goodD [OF g, THEN conjunct2, THEN conjunct1] and so = goodD [OF g]
  obtain a w' where na: "nextAnswer c w = (a, w')" by (cases "nextAnswer c w")
  have w': "\<exists>as. w' = w\<lparr>wAnswers := as\<rparr>"
    using na by (cases "wAnswers w") (auto simp: nextAnswer_def intro: exI [of _ "wAnswers w"])
  define v where "v = w'\<lparr>wLog := wLog w' @ [(c, a)]\<rparr>"
  have "log_ok (wMemory w) (Some m) (wLog w @ [(c, a)])"
    by (rule log_ok_deliver [OF state_okD(4,1) [OF st] _ adv c]) (use state_okD(5) [OF st] in auto)
  then have "state_ok C cfg (wMemory w) (Some m) v"
    using st w' by (auto simp: v_def state_ok_def)
  then have gv: "good cr C cfg (Some m) v" "settling cr C cfg m next v"
    using so w' adv by (auto simp: v_def settling_def intro!: goodI)
  have "errs cr C cfg (v\<lparr>wCrashed := True\<rparr>)"
    by (rule errs_crashed [of _ _ "wMemory v" "Some m"]) (use goodD [OF gv(1)] in auto)
  moreover have "ckSequence c = cmSequence m" using c by (simp add: carries_def)
  ultimately show "post (\<lambda>u w. settling cr C cfg m next w \<and> (\<exists>p \<in> set (wLog w). ckSequence (fst p) = cmSequence m \<and> accepted p))
      (errs cr C cfg) (deliverChunk c w)"
    using na good_errs [OF gv(1)] gv(2) unfolding v_def
    by (cases a) (auto simp: deliverChunk_def accepted_def Let_def)
qed

text \<open>The checkpoint file moves to \<open>next\<close> while the chunk is still pending.\<close>

lemma advance_state_ok:
  assumes st: "state_ok C cfg cps (Some m) w" and adv: "advanceCheckpointForManifest cps m = Inr (Some next)"
    and acc: "\<exists>p \<in> set (wLog w). ckSequence (fst p) = cmSequence m \<and> accepted p"
  shows "state_ok C cfg next (Some m) (w\<lparr>wCheckpoint := Some (Document (checkpointDocOf next))\<rparr>)"
proof -
  note d = state_okD [OF st] and seq = advance_acknowledged [OF adv]
  have v: "validateManifest C (manifestName m) m cfg" using d(5) by simp
  have cp: "cp_ok cfg next" by (rule advance_cp_ok [OF d(1) v adv])
  have "fits next m" using seq by (simp add: fits_def)
  moreover have "tempEntry next n" if "tempEntry cps n" for n using tempEntry_mono [OF that] seq by simp
  ultimately have "pendingIs C cfg next (wPending w) (Some m)"
    using d(3) unfolding pendingIs_def by blast
  then show ?thesis
    using cp log_ok_advance [OF d(4,1) v adv acc] by (simp add: state_ok_def diskIs_def)
qed

lemma durable_checkpoint:
  assumes f: "faults_ok cr w" and st: "state_ok C cfg cps ch w" and cfg: "csConfig next \<noteq> []"
    and st': "state_ok C cfg cps' ch' (w\<lparr>wCheckpoint := Some (Document (checkpointDocOf next))\<rparr>)"
    and Q: "\<And>fs. faults_ok cr (w\<lparr>wFaults := fs\<rparr>) \<Longrightarrow>
        Q () (w\<lparr>wFaults := fs, wCheckpoint := Some (Document (checkpointDocOf next))\<rparr>)"
  shows "post Q (errs cr C cfg) (writeCheckpoints next w)"
proof -
  have "post Q (errs cr C cfg) (durable (\<lambda>w. w\<lparr>wCheckpoint := Some (Document (checkpointDocOf next))\<rparr>) noTemp w)"
    by (rule durable_noTemp [OF f st, where cps' = cps' and ch' = ch']) (use st' Q in \<open>simp_all add: state_ok_def\<close>)
  then show ?thesis using cfg by (simp add: writeCheckpoints_def)
qed

lemma cp_ok_config: "cp_ok cfg cps \<Longrightarrow> csConfig cps \<noteq> []"
  by (auto simp: cp_ok_def)

definition settled ::
  "bool \<Rightarrow> 'a spoolCodec_scheme \<Rightarrow> string \<Rightarrow> chunkManifest \<Rightarrow> checkpointSet \<Rightarrow> world \<Rightarrow> bool" where
  "settled cr C cfg m next w \<longleftrightarrow>
     \<not> wCrashed w \<and> faults_ok cr w \<and> state_ok C cfg next (Some m) w \<and> Suc (cmSequence m) = csNext next"

lemma checkpoint_triple:
  "triple (\<lambda>w. settling cr C cfg m next w \<and> (\<exists>p \<in> set (wLog w). ckSequence (fst p) = cmSequence m \<and> accepted p))
     (writeCheckpoints next) (\<lambda>u. settled cr C cfg m next) (errs cr C cfg)"
  unfolding triple_def
proof (intro allI impI)
  fix w assume pre: "settling cr C cfg m next w \<and> (\<exists>p \<in> set (wLog w). ckSequence (fst p) = cmSequence m \<and> accepted p)"
  then have g: "\<not> wCrashed w" "state_ok C cfg (wMemory w) (Some m) w" "faults_ok cr w"
    and adv: "advanceCheckpointForManifest (wMemory w) m = Inr (Some next)"
    by (auto simp: settling_def good_def live_def)
  note st' = advance_state_ok [OF g(2) adv conjunct2 [OF pre]]
  show "post (\<lambda>u. settled cr C cfg m next) (errs cr C cfg) (writeCheckpoints next w)"
  proof (rule durable_checkpoint [OF g(3,2) cp_ok_config [OF state_okD(1) [OF st']] st'])
    fix fs assume fs: "faults_ok cr (w\<lparr>wFaults := fs\<rparr>)"
    show "settled cr C cfg m next (w\<lparr>wFaults := fs, wCheckpoint := Some (Document (checkpointDocOf next))\<rparr>)"
      using st' g(1) fs advance_acknowledged(2) [OF adv] by (simp add: settled_def state_ok_def)
  qed
qed

lemma setMemory_triple:
  "triple (settled cr C cfg m next) (setMemory next)
     (\<lambda>u w. good cr C cfg (Some m) w \<and> Suc (cmSequence m) = csNext (wMemory w)) E"
  by (simp add: triple_def setMemory_def settled_def good_def live_def)

lemma remove_chunk_triple:
  "triple (\<lambda>w. good cr C cfg (Some m) w \<and> Suc (cmSequence m) = csNext (wMemory w)) (removeDurable (manifestName m))
     (\<lambda>u. good cr C cfg None) (errs cr C cfg)"
  unfolding triple_def
proof (intro allI impI)
  fix w assume pre: "good cr C cfg (Some m) w \<and> Suc (cmSequence m) = csNext (wMemory w)"
  then have g: "\<not> wCrashed w" "state_ok C cfg (wMemory w) (Some m) w" "faults_ok cr w" by (auto simp: good_def live_def)
  note d = state_okD [OF g(2)]
  have st': "state_ok C cfg (wMemory w) None (w\<lparr>wFaults := fs, wPending := gm_delete (manifestName m) (wPending w)\<rparr>)" for fs
    using g(2) pendingIs_remove_chunk [OF d(3)] log_ok_remove_chunk [OF d(4)] pre by (simp add: state_ok_def)
  have "post (\<lambda>u. good cr C cfg None) (errs cr C cfg)
      (durable (\<lambda>w. w\<lparr>wPending := gm_delete (manifestName m) (wPending w)\<rparr>) noTemp w)"
    by (rule durable_noTemp [OF g(3,2), where cps' = "wMemory w" and ch' = None]) (use g(1) st' in \<open>simp_all add: good_def live_def\<close>)
  then show "post (\<lambda>u. good cr C cfg None) (errs cr C cfg) (removeDurable (manifestName m) w)"
    using d(6) [OF refl] by (simp add: removeDurable_def)
qed

lemma count_triple: "triple (good cr C cfg ch) (countChunk k) (\<lambda>u. good cr C cfg ch) E"
  by (simp add: triple_def countChunk_def good_def live_def)

lemma settle_triple:
  assumes "carries c m"
  shows "triple (settling cr C cfg m next) (settleChunk (manifestName m) c next) (\<lambda>u. good cr C cfg None) (errs cr C cfg)"
  unfolding settleChunk_def
  by (rule triple_bind [OF deliver_triple [OF assms] triple_bind [OF checkpoint_triple
        triple_bind [OF setMemory_triple triple_bind [OF remove_chunk_triple count_triple]]]])

end
