(* ===== verification/Metric_Ops.thy ===== *)
theory Metric_Ops
  imports Metric_Steps
begin

text \<open>The operations of the collector between loading its checkpoints and returning.\<close>

section \<open>Spooling a chunk\<close>

lemma pending_none_lookup:
  assumes "pendingIs C cfg cps pend None"
  shows "gm_lookup pend (manifestName m) = None"
proof (rule ccontr)
  assume "gm_lookup pend (manifestName m) \<noteq> None"
  then obtain e where "gm_lookup pend (manifestName m) = Some e" by auto
  then have "tempEntry cps (manifestName m)" using assms by (auto simp: pendingIs_def)
  then show False using tempEntry_not_manifest by blast
qed

lemma writePending_triple:
  assumes m: "m = persistedManifest C chunk0 m0"
    and v: "validateManifest C (manifestName m) m cfg" and adv: "advanceCheckpointForManifest cps m = Inr (Some next)"
  shows "triple (\<lambda>w. good cr C cfg None w \<and> wMemory w = cps) (writePending C chunk0 m0)
    (\<lambda>c w. c = completeChunk C chunk0 \<and> settling cr C cfg m next w) (errs cr C cfg)"
  unfolding triple_def
proof (intro allI impI)
  fix w assume pre: "good cr C cfg None w \<and> wMemory w = cps"
  then have g: "\<not> wCrashed w" "state_ok C cfg cps None w" "faults_ok cr w" "wMemory w = cps"
    by (auto simp: good_def live_def)
  note d = state_okD [OF g(2)]
  define name where "name = manifestName m"
  have path: "ckPath (completeChunk C chunk0) = name" by (simp add: name_def m complete_path [of C chunk0 m0])
  have none: "gm_lookup (wPending w) name = None" unfolding name_def by (rule pending_none_lookup [OF d(3)])
  have temp: "tempEntry cps (tempName name k)" for k
    using validateManifestD(2) [OF v] advance_acknowledged(1) [OF adv]
    unfolding tempEntry_def name_def manifestName_def by (metis order_refl)
  have fits: "fits cps m" using adv by (auto simp: fits_def)
  have added: "state_ok C cfg cps (Some m) (w\<lparr>wFaults := fs, wPending := gm_set name (SpoolFile (Document m)) (wPending w)\<rparr>)" for fs
    using d(2) pendingIs_add_chunk [OF d(3) v fits] log_ok_add_chunk [OF d(4)] by (simp add: state_ok_def name_def)
  have left: "state_ok C cfg cps None (w\<lparr>wFaults := fs, wPending := gm_set (tempName name k) (SpoolFile f) (wPending w)\<rparr>)" for fs k f
    using d(2,4) pendingIs_add_temp [OF d(3) temp] by (simp add: state_ok_def)
  have wr: "post (\<lambda>u. settling cr C cfg m next) (errs cr C cfg)
      (durable (\<lambda>w. w\<lparr>wPending := gm_set name (SpoolFile (Document m)) (wPending w)\<rparr>)
        (\<lambda>n w. w\<lparr>wPending := gm_set (tempName name n) (SpoolFile Malformed) (wPending w)\<rparr>) w)"
  proof (rule durable_post [OF g(3)])
    fix fs t assume fs: "faults_ok cr (w\<lparr>wFaults := fs\<rparr>)"
    let ?w = "w\<lparr>wFaults := fs\<rparr>"
    show "settling cr C cfg m next (?w\<lparr>wPending := gm_set name (SpoolFile (Document m)) (wPending ?w)\<rparr>)"
      using added [of fs] adv fs g(1,4) by (simp add: settling_def good_def live_def)
    show "(\<exists>cps ch. state_ok C cfg cps ch (?w\<lparr>wPending := gm_set name (SpoolFile (Document m)) (wPending ?w)\<rparr>)) \<and>
        faults_ok cr (?w\<lparr>wPending := gm_set name (SpoolFile (Document m)) (wPending ?w)\<rparr>)"
      using added [of fs] fs by auto
    have "leaveTemp (\<lambda>n w. w\<lparr>wPending := gm_set (tempName name n) (SpoolFile Malformed) (wPending w)\<rparr>) t ?w =
        (case t of None \<Rightarrow> ?w | Some k \<Rightarrow> w\<lparr>wFaults := fs, wPending := gm_set (tempName name k) (SpoolFile Malformed) (wPending w)\<rparr>)"
      by (simp add: leaveTemp_def split: option.split)
    then show "(\<exists>cps ch. state_ok C cfg cps ch (leaveTemp (\<lambda>n w. w\<lparr>wPending := gm_set (tempName name n) (SpoolFile Malformed) (wPending w)\<rparr>) t ?w)) \<and>
        faults_ok cr (leaveTemp (\<lambda>n w. w\<lparr>wPending := gm_set (tempName name n) (SpoolFile Malformed) (wPending w)\<rparr>) t ?w)"
      using left g(2) fs by (cases t) (auto intro!: exI [of _ cps] exI [of _ None])
  qed
  have eq: "writePending C chunk0 m0 w =
      andDo (durable (\<lambda>w. w\<lparr>wPending := gm_set name (SpoolFile (Document m)) (wPending w)\<rparr>)
        (\<lambda>n w. w\<lparr>wPending := gm_set (tempName name n) (SpoolFile Malformed) (wPending w)\<rparr>)) (\<lambda>u. ret (completeChunk C chunk0)) w"
    by (simp add: writePending_def Let_def path none m [symmetric])
  show "post (\<lambda>c w. c = completeChunk C chunk0 \<and> settling cr C cfg m next w) (errs cr C cfg) (writePending C chunk0 m0 w)"
    unfolding eq by (rule post_bind, rule wr) (simp add: ret_def)
qed

text \<open>Writing a chunk and settling it, as \<open>drain\<close> and \<open>publishCompletion\<close> do.\<close>

lemma spool_chunk_post:
  assumes m: "m = persistedManifest C chunk0 m0"
    and v: "validateManifest C (manifestName m) m cfg" and adv: "advanceCheckpointForManifest (wMemory w) m = Inr (Some next)"
    and g: "good cr C cfg None w"
    and f: "f (completeChunk C chunk0) = settleChunk (manifestName m) (completeChunk C chunk0) next"
  shows "post (\<lambda>u. good cr C cfg None) (errs cr C cfg) (andDo (writePending C chunk0 m0) f w)"
proof (rule post_bind)
  show "post (\<lambda>c w. c = completeChunk C chunk0 \<and> settling cr C cfg m next w) (errs cr C cfg) (writePending C chunk0 m0 w)"
    by (rule tripleD [OF writePending_triple [OF m v adv]]) (use g in simp)
  fix c w' assume "c = completeChunk C chunk0 \<and> settling cr C cfg m next w'"
  then show "post (\<lambda>u. good cr C cfg None) (errs cr C cfg) (f c w')"
    using tripleD [OF settle_triple [OF complete_carries [of C chunk0 m0]], of cr C cfg "next" w'] f m by simp
qed

section \<open>Draining\<close>

lemma checkpoint_source_ok:
  assumes g: "good cr C cfg None w" and src: "\<not> badSource (path, cp)"
    and mono: "\<And>old. gm_lookup (csSources (wMemory w)) path = Some old \<Longrightarrow> scOffset old \<le> scOffset cp"
    and next': "next = (wMemory w)\<lparr>csSources := gm_set path cp (csSources (wMemory w))\<rparr>"
  shows "state_ok C cfg next None (w\<lparr>wCheckpoint := Some (Document (checkpointDocOf next))\<rparr>)"
proof -
  have st: "state_ok C cfg (wMemory w) None w" using g by (simp add: good_def live_def)
  note d = state_okD [OF st]
  show ?thesis
    using cp_ok_source [OF d(1) src] pendingIs_source [OF d(3)] log_ok_source [OF d(4) mono]
    by (simp add: state_ok_def diskIs_def next')
qed

lemma write_source_post:
  assumes g: "good cr C cfg None w" and src: "\<not> badSource (path, cp)"
    and mono: "\<And>old. gm_lookup (csSources (wMemory w)) path = Some old \<Longrightarrow> scOffset old \<le> scOffset cp"
    and next': "next = (wMemory w)\<lparr>csSources := gm_set path cp (csSources (wMemory w))\<rparr>"
    and mem: "mem = wMemory w \<or> mem = next"
  shows "post (\<lambda>u w'. wMemory w' = mem \<and> good cr C cfg None (w'\<lparr>wMemory := next\<rparr>)) (errs cr C cfg)
    (writeCheckpoints next (w\<lparr>wMemory := mem\<rparr>))"
proof (rule durable_checkpoint)
  note st' = checkpoint_source_ok [OF g src mono next']
  have g': "\<not> wCrashed w" "state_ok C cfg (wMemory w) None w" "faults_ok cr w" using g by (auto simp: good_def live_def)
  show "faults_ok cr (w\<lparr>wMemory := mem\<rparr>)" "state_ok C cfg (wMemory w) None (w\<lparr>wMemory := mem\<rparr>)" using g' by simp_all
  show "csConfig next \<noteq> []" using cp_ok_config [OF state_okD(1) [OF st']] .
  show "state_ok C cfg next None (w\<lparr>wMemory := mem, wCheckpoint := Some (Document (checkpointDocOf next))\<rparr>)"
    using st' by (simp add: state_ok_def)
  fix fs assume "faults_ok cr (w\<lparr>wMemory := mem, wFaults := fs\<rparr>)"
  then show "wMemory (w\<lparr>wMemory := mem, wFaults := fs, wCheckpoint := Some (Document (checkpointDocOf next))\<rparr>) = mem \<and>
      good cr C cfg None (w\<lparr>wMemory := mem, wFaults := fs, wCheckpoint := Some (Document (checkpointDocOf next)), wMemory := next\<rparr>)"
    using st' g'(1) by (simp add: good_def live_def state_ok_def faults_ok_def)
qed

lemma stored_source_ok:
  assumes "cp_ok cfg cps" and "path \<noteq> []" and "cp = gm_get zeroSource (csSources cps) path"
  shows "\<not> badSource (path, cp\<lparr>scPath := path\<rparr>)"
proof (rule source_cases [OF assms])
  assume "cp = zeroSource"
  then show ?thesis by (simp add: badSource_def zeroSource_def)
next
  assume look: "gm_lookup (csSources cps) path = Some cp" and "scPath cp = path"
  moreover have "\<not> badSource (path, cp)" using assms(1) gm_lookup_mem [OF look] by (auto simp: cp_ok_def)
  ultimately show ?thesis by (simp add: badSource_def Let_def)
qed

lemma good_memory: "good cr C cfg ch w \<Longrightarrow> cp_ok cfg (wMemory w)"
  by (auto simp: good_def live_def dest: state_okD(1))

lemma rebind_post:
  assumes g: "good cr C cfg None w" and path: "path \<noteq> []" and cp: "cp = gm_get zeroSource (csSources (wMemory w)) path"
  shows "post (\<lambda>cp' w'. good cr C cfg None w' \<and> cp' = gm_get zeroSource (csSources (wMemory w')) path \<and>
      (scPath cp' \<noteq> [] \<longrightarrow> scFileID cp' = rdFileID read) \<and> scOffset cp' = scOffset cp) (errs cr C cfg) (rebindSource path cp read w)"
proof (cases "scPath cp \<noteq> [] \<and> scFileID cp \<noteq> rdFileID read")
  case False
  then show ?thesis using g cp by (auto simp: rebindSource_def)
next
  case True
  define cp' where "cp' = cp\<lparr>scFileID := rdFileID read, scBaseline := False\<rparr>"
  define rebound where "rebound = (wMemory w)\<lparr>csSources := gm_set path cp' (csSources (wMemory w))\<rparr>"
  have there: "gm_lookup (csSources (wMemory w)) path = Some cp" "scPath cp = path"
    by (rule source_cases [OF good_memory [OF g] path cp]; use True in \<open>simp add: zeroSource_def\<close>)+
  have bad: "\<not> badSource (path, cp')"
    using stored_source_ok [OF good_memory [OF g] path cp] there(2) by (auto simp: cp'_def badSource_def Let_def)
  have wr: "post (\<lambda>u w'. wMemory w' = wMemory w \<and> good cr C cfg None (w'\<lparr>wMemory := rebound\<rparr>)) (errs cr C cfg)
      (writeCheckpoints rebound (w\<lparr>wMemory := wMemory w\<rparr>))"
    by (rule write_source_post [OF g bad _ rebound_def]) (use there in \<open>auto simp: cp'_def\<close>)
  have eq: "rebindSource path cp read w = andDo (writeCheckpoints rebound) (\<lambda>u. andDo (setMemory rebound) (\<lambda>u. ret cp')) w"
    using True by (simp add: rebindSource_def Let_def rebound_def cp'_def)
  show ?thesis
    unfolding eq
    by (rule post_bind, rule wr [simplified]) (simp add: andDo_def setMemory_def ret_def, simp add: rebound_def cp'_def)
qed

lemma skip_post:
  assumes g: "good cr C cfg None w" and path: "path \<noteq> []" and cp: "cp = gm_get zeroSource (csSources (wMemory w)) path"
    and read: "rdPath read = path" "scOffset cp \<le> rdEnd read"
  shows "post (\<lambda>u. good cr C cfg None) (errs cr C cfg) (skipRead path cp read w)"
proof -
  define cp' where "cp' = afterRead cp read (scSequence cp) (scDigest cp)"
  define next' where "next' = (wMemory w)\<lparr>csSources := gm_set path cp' (csSources (wMemory w))\<rparr>"
  have bad: "\<not> badSource (path, cp')"
    using stored_source_ok [OF good_memory [OF g] path cp] read sourceLineCount_nonneg [of "rdData read"]
    by (auto simp: cp'_def badSource_def Let_def afterRead_def)
  have mono: "scOffset old \<le> scOffset cp'" if "gm_lookup (csSources (wMemory w)) path = Some old" for old
    using that cp read(2) by (simp add: gm_get_def cp'_def afterRead_def)
  have "post (\<lambda>u w'. wMemory w' = next' \<and> good cr C cfg None (w'\<lparr>wMemory := next'\<rparr>)) (errs cr C cfg)
      (writeCheckpoints next' (w\<lparr>wMemory := next'\<rparr>))"
    by (rule write_source_post [OF g bad mono next'_def]) simp_all
  then have wr: "post (\<lambda>u. good cr C cfg None) (errs cr C cfg) (writeCheckpoints next' (w\<lparr>wMemory := next'\<rparr>))"
    by (rule post_mono) auto
  have "skipRead path cp read w = writeCheckpoints next' (w\<lparr>wMemory := next'\<rparr>)"
    by (simp add: skipRead_def Let_def andDo_def setMemory_def next'_def cp'_def)
  then show ?thesis using wr by simp
qed

end
