(* ===== verification/Metric_Safety.thy ===== *)
theory Metric_Safety
  imports Metric_Ops
begin

text \<open>
  Runs of the collector keep the invariant of the spool, whatever storage, sink and histories do;
  the deliveries of any sequence of processes are in order, and the spool is always recovered.
\<close>

section \<open>Draining and publishing\<close>

text \<open>What is relied on for a configuration: the codec, textual events, and its identity.\<close>

definition setup_ok :: "(metricEvent \<Rightarrow> bool) \<Rightarrow> 'a collectorCodec_scheme \<Rightarrow> runnerOptions \<Rightarrow> bool" where
  "setup_ok textual C R \<longleftrightarrow> codec_ok textual C \<and> textual_run textual C R"

definition drainEnv_ok :: "drainEnv \<Rightarrow> bool" where
  "drainEnv_ok E \<longleftrightarrow> (case deFiles E of Inl e \<Rightarrow> True | Inr files \<Rightarrow> list_all (\<lambda>pf. fst pf \<noteq> []) files)"

lemma spoolRead_post:
  assumes C: "codec_ok textual C" "textual_run textual C R" and g: "good cr C (configIdentity C R) None w" and path: "path \<noteq> []"
    and cp: "cp = gm_get zeroSource (csSources (wMemory w)) path" "scPath cp \<noteq> [] \<Longrightarrow> scFileID cp = rdFileID read"
    and read: "readSource C path cp0 trailing f = Inr read" "rdData read \<noteq> []" "scOffset cp0 = scOffset cp"
    and es: "project C R now read = Inr (es, raw)" "es \<noteq> []"
  shows "post (\<lambda>u. good cr C (configIdentity C R) None) (errs cr C (configIdentity C R)) (spoolRead C R path cp read es raw w)"
proof -
  note m = history_manifest [OF C good_memory [OF g] path cp read es refl refl]
  show ?thesis
    unfolding spoolRead_def Let_def
    by (rule spool_chunk_post [OF refl m(1) m(2) g])
      (simp_all add: complete_path [of C _ "newHistoryManifest (configIdentity C R) cp read (length es)"] historyChunk_def)
qed

lemma projected_post:
  assumes C: "codec_ok textual C" "textual_run textual C R" and g: "good cr C (configIdentity C R) None w" and path: "path \<noteq> []"
    and cp: "cp = gm_get zeroSource (csSources (wMemory w)) path" "scPath cp \<noteq> [] \<longrightarrow> scFileID cp = rdFileID read"
    and read: "readSource C path cp0 trailing f = Inr read" "rdData read \<noteq> []" "scOffset cp = scOffset cp0"
  shows "post (\<lambda>u. good cr C (configIdentity C R) None) (errs cr C (configIdentity C R))
    (andDo (liftE (project C R now read)) (\<lambda>p. if fst p = [] then skipRead path cp read else spoolRead C R path cp read (fst p) (snd p)) w)"
proof (cases "project C R now read")
  case (Inl e)
  then show ?thesis using good_errs [OF g] by (simp add: andDo_def liftE_def)
next
  case (Inr p)
  obtain es raw where p: "p = (es, raw)" by (cases p)
  note rd = readSource_facts [OF read(1)]
  have "post (\<lambda>u. good cr C (configIdentity C R) None) (errs cr C (configIdentity C R)) (skipRead path cp read w)"
    by (rule skip_post [OF g path cp(1) rd(1)]) (use rd(3,4) read(3) in simp)
  moreover have "post (\<lambda>u. good cr C (configIdentity C R) None) (errs cr C (configIdentity C R)) (spoolRead C R path cp read es raw w)"
    if "es \<noteq> []"
    by (rule spoolRead_post [OF C g path cp(1) _ read(1,2) _ Inr [unfolded p] that]) (use cp(2) read(3) in auto)
  ultimately show ?thesis using Inr p by (simp add: andDo_def liftE_def)
qed

lemma drainFile_triple:
  assumes S: "setup_ok textual C R" and path: "fst pf \<noteq> []"
  shows "triple (good cr C (configIdentity C R) None) (drainFile C R now trailing pf)
    (\<lambda>u. good cr C (configIdentity C R) None) (errs cr C (configIdentity C R))"
  unfolding triple_def
proof (intro allI impI)
  fix w assume g: "good cr C (configIdentity C R) None w"
  let ?cfg = "configIdentity C R" and ?path = "fst pf"
  define cp where "cp = gm_get zeroSource (csSources (wMemory w)) ?path"
  have C: "codec_ok textual C" "textual_run textual C R" using S by (auto simp: setup_ok_def)
  show "post (\<lambda>u. good cr C ?cfg None) (errs cr C ?cfg) (drainFile C R now trailing pf w)"
  proof (cases "readSource C ?path cp trailing (snd pf)")
    case (Inl e)
    then show ?thesis using good_errs [OF g] by (simp add: drainFile_def Let_def cp_def)
  next
    case (Inr read)
    have "post (\<lambda>u. good cr C ?cfg None) (errs cr C ?cfg) (andDo (rebindSource ?path cp read) (\<lambda>cp.
        andDo (liftE (project C R now read)) (\<lambda>p.
          if fst p = [] then skipRead ?path cp read else spoolRead C R ?path cp read (fst p) (snd p))) w)" if "rdData read \<noteq> []"
      by (rule post_bind, rule rebind_post [OF g path cp_def], elim conjE)
        (rule projected_post [OF C _ path _ _ Inr that])
    then show ?thesis using Inr g by (auto simp: drainFile_def Let_def cp_def)
  qed
qed

lemma drainFiles_triple:
  assumes S: "setup_ok textual C R" and "list_all (\<lambda>pf. fst pf \<noteq> []) pfs"
  shows "triple (good cr C (configIdentity C R) None) (drainFiles C R now trailing pfs)
    (\<lambda>u. good cr C (configIdentity C R) None) (errs cr C (configIdentity C R))"
  using assms(2)
proof (induction pfs)
  case Nil
  then show ?case by (simp add: triple_ret)
next
  case (Cons pf pfs)
  then show ?case
    unfolding drainFiles.simps by (intro triple_bind [where Q = "\<lambda>u. good cr C (configIdentity C R) None"] drainFile_triple [OF S]) simp_all
qed

lemma drain_triple:
  assumes S: "setup_ok textual C R" and E: "drainEnv_ok E"
  shows "triple (good cr C (configIdentity C R) None) (drain C R trailing E)
    (\<lambda>u. good cr C (configIdentity C R) None) (errs cr C (configIdentity C R))"
  unfolding triple_def
proof (intro allI impI)
  fix w assume g: "good cr C (configIdentity C R) None w"
  show "post (\<lambda>u. good cr C (configIdentity C R) None) (errs cr C (configIdentity C R)) (drain C R trailing E w)"
  proof (cases "deFiles E")
    case (Inl e)
    then show ?thesis using good_errs [OF g] by (simp add: drain_def andDo_def liftE_def)
  next
    case (Inr files)
    then have "list_all (\<lambda>pf. fst pf \<noteq> []) files" using E by (simp add: drainEnv_ok_def)
    note d = tripleD [OF drainFiles_triple [OF S this] g, of "deNow E" trailing]
    show ?thesis
      using d good_errs [OF g] Inr
      by (cases "disappeared (wMemory w) (map fst files)") (simp_all add: drain_def andDo_def liftE_def)
  qed
qed

lemma publishCompletion_triple:
  assumes S: "setup_ok textual C R" and oid: "validDigest oid"
  shows "triple (good cr C (configIdentity C R) None) (publishCompletion C R status oid)
    (\<lambda>u. good cr C (configIdentity C R) None) (errs cr C (configIdentity C R))"
  unfolding triple_def
proof (intro allI impI)
  fix w assume g: "good cr C (configIdentity C R) None w"
  have C: "codec_ok textual C" "textual_run textual C R" using S by (auto simp: setup_ok_def)
  have "post (\<lambda>u. good cr C (configIdentity C R) None) (errs cr C (configIdentity C R)) (spoolStatus C R oid event raw w)"
    if e: "statusEvent C R status = Inr event" "encodeMetricNDJSON C event = Inr raw" and none: "gm_lookup (csTerminals (wMemory w)) oid = None"
    for event raw
  proof -
    note m = terminal_manifest [OF C good_memory [OF g] e oid none refl refl]
    show ?thesis
      unfolding spoolStatus_def Let_def
      by (rule spool_chunk_post [OF refl m(1) m(2) g])
        (simp_all add: complete_path [of C _ "newTerminalManifest (configIdentity C R) (csNext (wMemory w)) (completionSource R) oid raw"]
          terminalChunk_def)
  qed
  then show "post (\<lambda>u. good cr C (configIdentity C R) None) (errs cr C (configIdentity C R)) (publishCompletion C R status oid w)"
    using g good_errs [OF g] by (simp add: publishCompletion_def split: sum.split)
qed

lemma publishStatus_triple:
  assumes S: "setup_ok textual C R"
  shows "triple (good cr C (configIdentity C R) None) (publishStatus C R text)
    (\<lambda>u. good cr C (configIdentity C R) None) (errs cr C (configIdentity C R))"
  unfolding publishStatus_def
proof (rule triple_bind)
  show "triple (good cr C (configIdentity C R) None) (liftE (readCompletion text)) (\<lambda>s. good cr C (configIdentity C R) None)
      (errs cr C (configIdentity C R))"
    by (rule triple_lift) (auto intro: good_errs)
  fix status
  have "validDigest (terminalObservationID C status)"
    using S by (auto simp: setup_ok_def terminalObservationID_def intro: codec_digest)
  then show "triple (good cr C (configIdentity C R) None) (publishCompletion C R status (terminalObservationID C status))
      (\<lambda>u. good cr C (configIdentity C R) None) (errs cr C (configIdentity C R))"
    by (rule publishCompletion_triple [OF S])
qed

section \<open>Replaying the spool\<close>

lemma tempEntry_digit: "tempEntry cps n \<Longrightarrow> \<not> isDigit (hd n)"
  using tempName_hd isDigit_not(1) by (auto simp: tempEntry_def)

lemma manifestName_digit: "isDigit (hd (manifestName m))"
  by (simp add: manifestName_def pendingName_hd)

lemma recognized_is_temp:
  assumes "pendingIs C cfg cps pend ch" and "gm_lookup pend n \<noteq> None" and "recognizedAtomicTemp n \<noteq> None"
  shows "tempEntry cps n"
proof -
  obtain e where "gm_lookup pend n = Some e" using assms(2) by auto
  then have "tempEntry cps n \<or> (\<exists>m. n = manifestName m)" using assms(1) unfolding pendingIs_def by blast
  then show ?thesis using assms(3) recognizedAtomicTemp_digit [OF manifestName_digit] by metis
qed

lemma remove_temp_post:
  assumes g: "good cr C cfg ch w" and temp: "tempEntry (wMemory w) n"
  shows "post (\<lambda>u w'. good cr C cfg ch w' \<and> wMemory w' = wMemory w \<and>
      (\<forall>k. k \<noteq> n \<longrightarrow> gm_lookup (wPending w') k = gm_lookup (wPending w) k)) (errs cr C cfg) (removeDurable n w)"
proof -
  have g': "\<not> wCrashed w" "state_ok C cfg (wMemory w) ch w" "faults_ok cr w" using g by (auto simp: good_def live_def)
  note d = state_okD [OF g'(2)]
  have st': "state_ok C cfg (wMemory w) ch (w\<lparr>wFaults := fs, wPending := gm_delete n (wPending w)\<rparr>)" for fs
    using d(2,4) pendingIs_remove_temp [OF d(3) temp] by (simp add: state_ok_def)
  have "post (\<lambda>u w'. good cr C cfg ch w' \<and> wMemory w' = wMemory w \<and>
      (\<forall>k. k \<noteq> n \<longrightarrow> gm_lookup (wPending w') k = gm_lookup (wPending w) k)) (errs cr C cfg)
      (durable (\<lambda>w. w\<lparr>wPending := gm_delete n (wPending w)\<rparr>) noTemp w)"
    by (rule durable_noTemp [OF g'(3,2), where cps' = "wMemory w" and ch' = ch]) (use g'(1) st' in \<open>simp_all add: good_def live_def\<close>)
  then show ?thesis using g by (simp add: removeDurable_def)
qed

definition walked ::
  "bool \<Rightarrow> 'a spoolCodec_scheme \<Rightarrow> string \<Rightarrow> chunkManifest option \<Rightarrow> world \<Rightarrow> string list \<Rightarrow> string list \<Rightarrow> world \<Rightarrow> bool" where
  "walked cr C cfg ch w ns paths w' \<longleftrightarrow>
     good cr C cfg ch w' \<and> wMemory w' = wMemory w \<and> distinct paths \<and> set paths \<subseteq> set ns \<and>
     (\<forall>m. ch = Some m \<and> manifestName m \<in> set ns \<longrightarrow> manifestName m \<in> set paths)"

lemma spoolWalk_post:
  assumes "good cr C cfg ch w" and "distinct ns"
  shows "post (walked cr C cfg ch w ns) (errs cr C cfg) (spoolWalk ns w)"
  using assms
proof (induction ns arbitrary: w)
  case Nil
  then show ?case by (simp add: walked_def)
next
  case (Cons n ns)
  have g: "good cr C cfg ch w" by (rule Cons.prems(1))
  have st: "state_ok C cfg (wMemory w) ch w" using g by (simp add: good_def live_def)
  have dis: "distinct ns" "n \<notin> set ns" using Cons.prems(2) by auto
  note d = state_okD [OF st] and IH = Cons.IH [OF _ dis(1)]
  show ?case
  proof (cases "gm_lookup (wPending w) n")
    case None
    then have eq: "spoolWalk (n # ns) w = spoolWalk ns w" by simp
    have "ch = Some m \<Longrightarrow> manifestName m \<noteq> n" for m using d(6) [of m] None by auto
    then show ?thesis
      unfolding eq by (intro post_mono [OF IH [OF g]]) (auto simp: walked_def)
  next
    case (Some e)
    then obtain f where e: "e = SpoolFile f" using d(3) unfolding pendingIs_def by blast
    show ?thesis
    proof (cases "recognizedAtomicTemp n")
      case None
      have eq: "spoolWalk (n # ns) w = andDo (spoolWalk ns) (\<lambda>paths. ret (n # paths)) w" using Some e None by simp
      show ?thesis
        unfolding eq by (rule post_bind, rule IH [OF g]) (use dis in \<open>auto simp: ret_def walked_def\<close>)
    next
      case temp: (Some t)
      have te: "tempEntry (wMemory w) n" using recognized_is_temp [OF d(3)] Some temp by simp
      then have other: "manifestName m \<noteq> n" for m using tempEntry_not_manifest by blast
      have eq: "spoolWalk (n # ns) w = andDo (removeDurable n) (\<lambda>u. spoolWalk ns) w" using Some e temp by simp
      show ?thesis
        unfolding eq
      proof (rule post_bind, rule remove_temp_post [OF g te], elim conjE)
        fix u w' assume w': "good cr C cfg ch w'" "wMemory w' = wMemory w"
        show "post (walked cr C cfg ch w (n # ns)) (errs cr C cfg) (spoolWalk ns w')"
          by (rule post_mono [OF IH [OF w'(1)]]) (use w' other in \<open>auto simp: walked_def\<close>)
      qed
    qed
  qed
qed

lemma gm_keys_distinct: "gm_inv m \<Longrightarrow> distinct (gm_keys m)"
  by (simp add: gm_inv_def gm_keys_def)

definition found_ok :: "chunkManifest option \<Rightarrow> (string \<times> chunkManifest) option \<Rightarrow> bool" where
  "found_ok ch found \<longleftrightarrow> (case found of None \<Rightarrow> ch = None | Some (name, m) \<Rightarrow> ch = Some m \<and> name = manifestName m)"

lemma loadPending_post:
  assumes g: "good cr C cfg ch w"
  shows "post (\<lambda>found w'. good cr C cfg ch w' \<and> wMemory w' = wMemory w \<and> found_ok ch found) (errs cr C cfg) (loadPending C cfg w)"
  unfolding loadPending_def
proof (rule post_bind)
  let ?ns = "sort (gm_keys (wPending w))"
  have d: "pendingIs C cfg (wMemory w) (wPending w) ch" using g by (auto simp: good_def live_def dest: state_okD(3))
  show "post (walked cr C cfg ch w ?ns) (errs cr C cfg) (spoolFiles w)"
    unfolding spoolFiles_def
    by (rule spoolWalk_post [OF g]) (use d gm_keys_distinct in \<open>auto simp: pendingIs_def\<close>)
  fix paths w' assume wk: "walked cr C cfg ch w ?ns paths w'"
  then have g': "good cr C cfg ch w'" and mem: "wMemory w' = wMemory w" by (simp_all add: walked_def)
  have d': "pendingIs C cfg (wMemory w') (wPending w') ch" using g' by (auto simp: good_def live_def dest: state_okD(3))
  have all: "ch = None" if "paths = []"
  proof (cases ch)
    case (Some m)
    then have "gm_lookup (wPending w) (manifestName m) \<noteq> None" using d by (auto simp: pendingIs_def)
    then have "manifestName m \<in> set ?ns" by (simp add: gm_key_iff)
    then show ?thesis using wk that Some by (auto simp: walked_def)
  qed
  have one: "ch = Some m \<and> name = manifestName m"
    if "readPending C cfg name w' = Inr m" "validPendingName name" for name m
  proof -
    have look: "gm_lookup (wPending w') name = Some (SpoolFile (Document m))"
      using that(1) by (auto simp: readPending_def split: option.splits spoolEntry.splits document.splits if_splits)
    have "\<not> tempEntry (wMemory w') name" using tempEntry_digit validPendingName_hd [OF that(2)] by blast
    then obtain m' where "ch = Some m'" "name = manifestName m'" using d' look unfolding pendingIs_def by blast
    then show ?thesis using d' look by (auto simp: pendingIs_def)
  qed
  show "post (\<lambda>found w'. good cr C cfg ch w' \<and> wMemory w' = wMemory w \<and> found_ok ch found) (errs cr C cfg)
      ((case filter (\<lambda>p. \<not> validPendingName p) paths of
         p # ps \<Rightarrow> failWith (UnexpectedSpoolFile p)
       | [] \<Rightarrow>
           (case paths of
              [] \<Rightarrow> ret None
            | [name] \<Rightarrow> (\<lambda>w. case readPending C cfg name w of Inl e \<Rightarrow> (Inl e, w) | Inr m \<Rightarrow> (Inr (Some (name, m)), w))
            | _ \<Rightarrow> failWith MultipleChunks)) w')"
    using g' mem good_errs [OF g'] all one
    by (auto simp: found_ok_def ret_def failWith_def filter_empty_conv split: list.splits sum.splits)
qed

lemma replayManifest_post:
  assumes g: "good cr C cfg (Some m) w"
  shows "post (\<lambda>n w'. good cr C cfg None w' \<and> n = 1) (errs cr C cfg) (replayManifest C (manifestName m) m w)"
proof -
  have st: "state_ok C cfg (wMemory w) (Some m) w" using g by (simp add: good_def live_def)
  note d = state_okD [OF st]
  have v: "validateManifest C (manifestName m) m cfg" and fits: "fits (wMemory w) m" using d(5,7) by simp_all
  show ?thesis
  proof (cases "\<exists>next. advanceCheckpointForManifest (wMemory w) m = Inr (Some next)")
    case True
    then obtain next' where adv: "advanceCheckpointForManifest (wMemory w) m = Inr (Some next')" by auto
    obtain es where es: "decodeCanonicalEvents C (cmNDJSON m) = Inr es" using validateManifestD(5) [OF v] by auto
    then obtain chunk where chunk: "chunkFromManifest C (manifestName m) m = Inr chunk" "carries chunk m"
      by (auto simp: chunkFromManifest_def carries_def)
    have eq: "replayManifest C (manifestName m) m w = andDo (settleChunk (manifestName m) chunk next') (\<lambda>u. ret 1) w"
      using adv chunk(1) advance_acknowledged(1) [OF adv] by (simp add: replayManifest_def Let_def andDo_def liftE_def)
    have "settling cr C cfg m next' w" using g adv by (simp add: settling_def)
    then show ?thesis
      unfolding eq by (intro post_bind [OF tripleD [OF settle_triple [OF chunk(2)]]]) (simp_all add: ret_def)
  next
    case False
    then have ack: "Suc (cmSequence m) = csNext (wMemory w)" "validateAcknowledgedManifest (wMemory w) m = Inr ()"
      using fits by (auto simp: fits_def)
    have eq: "replayManifest C (manifestName m) m w = andDo (removeDurable (manifestName m)) (\<lambda>u. ret 1) w"
      using ack by (simp add: replayManifest_def Let_def andDo_def liftE_def)
    show ?thesis
      unfolding eq using g ack(1) by (intro post_bind [OF tripleD [OF remove_chunk_triple]]) (simp_all add: ret_def)
  qed
qed

text \<open>After a replay nothing is pending; when nothing was, the memory has not changed.\<close>

lemma replaySpool_post:
  assumes g: "good cr C (configIdentity C R) ch w"
  shows "post (\<lambda>n w'. good cr C (configIdentity C R) None w' \<and> (n = 0 \<longrightarrow> wMemory w' = wMemory w))
    (errs cr C (configIdentity C R)) (replaySpool C R w)"
  unfolding replaySpool_def
proof (rule post_bind, rule loadPending_post [OF g], elim conjE)
  fix found w' assume g': "good cr C (configIdentity C R) ch w'" and mem: "wMemory w' = wMemory w" and found: "found_ok ch found"
  show "post (\<lambda>n w'. good cr C (configIdentity C R) None w' \<and> (n = 0 \<longrightarrow> wMemory w' = wMemory w)) (errs cr C (configIdentity C R))
      ((case found of None \<Rightarrow> ret 0 | Some (name, m) \<Rightarrow> replayManifest C name m) w')"
  proof (cases found)
    case None
    then show ?thesis using g' mem found by (simp add: found_ok_def ret_def)
  next
    case (Some p)
    then obtain name m where p: "p = (name, m)" "ch = Some m" "name = manifestName m" using found by (cases p) (auto simp: found_ok_def)
    have "good cr C (configIdentity C R) (Some m) w'" using g' p(2) by simp
    from replayManifest_post [OF this] show ?thesis using Some p by (auto elim: post_mono)
  qed
qed

end
