(* ===== verification/Metric_Runs.thy ===== *)
theory Metric_Runs
  imports Metric_Safety
begin

text \<open>
  Sequences of processes of the collector: each keeps the invariant of the spool, so that
  whatever has been given to the sink is in order and the next process recovers.
\<close>

section \<open>Finishing\<close>

definition cancelEnv_ok :: "cancelEnv \<Rightarrow> bool" where
  "cancelEnv_ok E \<longleftrightarrow> drainEnv_ok (ceDrain E) \<and> drainEnv_ok (ceDrainAgain E)"

text \<open>
  Without the restriction \<open>cr\<close> of storage faults to the death of the process, a failed operation is
  not followed by the handling of a cancelled context.
\<close>

definition finishEnv_ok :: "bool \<Rightarrow> finishEnv \<Rightarrow> bool" where
  "finishEnv_ok cr F \<longleftrightarrow>
     drainEnv_ok (feDrain F) \<and> cancelEnv_ok (feCancel F) \<and> (cr \<or> \<not> feDrainCancelled F) \<and> (cr \<or> \<not> feStatusCancelled F)"

definition turnEnv_ok :: "bool \<Rightarrow> turnEnv \<Rightarrow> bool" where
  "turnEnv_ok cr E \<longleftrightarrow> drainEnv_ok (teDrain E) \<and> finishEnv_ok cr (teFinish E) \<and> (cr \<or> \<not> teDrainCancelled E)"

definition runEnv_ok :: "bool \<Rightarrow> runEnv \<Rightarrow> bool" where
  "runEnv_ok cr E \<longleftrightarrow> cancelEnv_ok (reCancel E) \<and> (cr \<or> \<not> reReplayCancelled E) \<and> list_all (turnEnv_ok cr) (reTurns E)"

lemma markCompleted_triple: "triple (good cr C cfg ch) markCompleted (\<lambda>u. good cr C cfg ch) E"
  by (simp add: triple_def markCompleted_def good_def live_def)

lemma publish_file_triple:
  assumes "\<And>w. state_ok C cfg (wMemory w) ch (f w) = state_ok C cfg (wMemory w) ch w" and "\<And>w. wMemory (f w) = wMemory w"
    and "\<And>w. wCrashed (f w) = wCrashed w" and "\<And>w. wFaults (f w) = wFaults w"
  shows "triple (good cr C cfg ch) (durable f noTemp) (\<lambda>u. good cr C cfg ch) (errs cr C cfg)"
  unfolding triple_def
proof (intro allI impI)
  fix w assume "good cr C cfg ch w"
  then have g: "\<not> wCrashed w" "state_ok C cfg (wMemory w) ch w" "faults_ok cr w" by (auto simp: good_def live_def)
  have st: "state_ok C cfg (wMemory w) ch (f (w\<lparr>wFaults := fs\<rparr>))" for fs
    using g(2) assms(1) [of "w\<lparr>wFaults := fs\<rparr>"] by simp
  show "post (\<lambda>u. good cr C cfg ch) (errs cr C cfg) (durable f noTemp w)"
    by (rule durable_noTemp [OF g(3,2), where cps' = "wMemory w" and ch' = ch])
      (use g(1) st assms in \<open>simp_all add: good_def live_def faults_ok_def\<close>)
qed

lemma publishDone_triple: "triple (good cr C cfg ch) (publishDone R) (\<lambda>u. good cr C cfg ch) (errs cr C cfg)"
  by (auto simp: publishDone_def intro!: triple_ret publish_file_triple)

lemma publishReady_triple: "triple (good cr C cfg ch) (publishReady R) (\<lambda>u. good cr C cfg ch) (errs cr C cfg)"
  by (auto simp: publishReady_def intro!: triple_ret publish_file_triple)

lemma good_lift: "triple (good cr C cfg ch) (liftE r) (\<lambda>x. good cr C cfg ch) (errs cr C cfg)"
  by (rule triple_lift) (auto intro: good_errs)

lemma some_lift:
  "triple (\<lambda>w. \<exists>ch. good cr C cfg ch w) (liftE r) (\<lambda>x w. \<exists>ch. good cr C cfg ch w) (errs cr C cfg)"
  by (rule triple_lift) (auto intro: good_errs)

lemma completedMeanwhile_triple:
  assumes S: "setup_ok textual C R" and E: "cancelEnv_ok E"
  shows "triple (good cr C (configIdentity C R) None) (completedMeanwhile C R E completed)
    (\<lambda>u. good cr C (configIdentity C R) None) (errs cr C (configIdentity C R))"
proof -
  have d: "drainEnv_ok (ceDrainAgain E)" using E by (simp add: cancelEnv_ok_def)
  have "triple (good cr C (configIdentity C R) None)
      (if found then andDo (drain C R True (ceDrainAgain E)) (\<lambda>u. ret True) else ret False)
      (\<lambda>u. good cr C (configIdentity C R) None) (errs cr C (configIdentity C R))" for found
    by (cases found) (auto intro: triple_ret triple_bind [OF drain_triple [OF S d]])
  then show ?thesis
    unfolding completedMeanwhile_def by (cases completed) (auto intro: triple_ret triple_bind [OF good_lift])
qed

lemma finishCancelled_triple:
  assumes S: "setup_ok textual C R" and E: "cancelEnv_ok E"
  shows "triple (\<lambda>w. \<exists>ch. good cr C (configIdentity C R) ch w) (finishCancelled C R E)
    (\<lambda>u. good cr C (configIdentity C R) None) (errs cr C (configIdentity C R))"
proof -
  let ?good = "good cr C (configIdentity C R)" and ?errs = "errs cr C (configIdentity C R)"
  have replay: "triple (\<lambda>w. \<exists>ch. ?good ch w) (replaySpool C R) (\<lambda>n. ?good None) ?errs"
    unfolding triple_def using replaySpool_post post_mono by fastforce
  have fail: "triple (?good None) (failWith ContextCancelled :: runOutcome op) (\<lambda>u. ?good None) ?errs"
    by (rule triple_fail) (rule good_errs)
  have oid: "validDigest (terminalObservationIDForCancellation C (configIdentity C R))"
    using S by (auto simp: setup_ok_def terminalObservationIDForCancellation_def intro: codec_digest)
  have d: "drainEnv_ok (ceDrain E)" using E by (simp add: cancelEnv_ok_def)
  have completed: "triple (?good None) (andDo (publishStatus C R (ceText E)) (\<lambda>u. andDo markCompleted (\<lambda>u.
      andDo (publishDone R) (\<lambda>u. failWith ContextCancelled :: runOutcome op)))) (\<lambda>u. ?good None) ?errs"
    by (rule triple_bind [OF publishStatus_triple [OF S] triple_bind [OF markCompleted_triple triple_bind [OF publishDone_triple fail]]])
  have cancelled: "triple (?good None) (andDo (publishCompletion C R (cancelledStatus (ceNow E))
      (terminalObservationIDForCancellation C (configIdentity C R))) (\<lambda>u. failWith ContextCancelled :: runOutcome op)) (\<lambda>u. ?good None) ?errs"
    by (rule triple_bind [OF publishCompletion_triple [OF S oid] fail])
  have last': "triple (?good None) (if b then andDo (publishStatus C R (ceText E)) (\<lambda>u. andDo markCompleted (\<lambda>u.
      andDo (publishDone R) (\<lambda>u. failWith ContextCancelled :: runOutcome op)))
      else andDo (publishCompletion C R (cancelledStatus (ceNow E))
        (terminalObservationIDForCancellation C (configIdentity C R))) (\<lambda>u. failWith ContextCancelled :: runOutcome op)) (\<lambda>u. ?good None) ?errs" for b
    using completed cancelled by simp
  show ?thesis
    unfolding finishCancelled_def
    by (rule triple_bind [OF some_lift triple_bind [OF some_lift triple_bind [OF replay triple_bind [OF drain_triple [OF S d]
              triple_bind [OF completedMeanwhile_triple [OF S E] last']]]]])
qed

lemma unlessCancelled_weak:
  assumes S: "setup_ok textual C R" and E: "cancelEnv_ok E" and cr: "cr \<or> \<not> cancelled"
    and m: "triple P m Q (errs cr C (configIdentity C R))"
    and f: "\<And>x. triple (Q x) (f x) (\<lambda>u. good cr C (configIdentity C R) None) E'"
    and le: "\<And>w. errs cr C (configIdentity C R) w \<Longrightarrow> E' w"
  shows "triple P (unlessCancelled C R cancelled E m f) (\<lambda>u. good cr C (configIdentity C R) None) E'"
  unfolding triple_def
proof (intro allI impI)
  let ?good = "good cr C (configIdentity C R)" and ?errs = "errs cr C (configIdentity C R)"
  fix w assume "P w"
  then have pm: "post Q ?errs (m w)" by (rule tripleD [OF m])
  obtain r w' where mw: "m w = (r, w')" by (cases "m w")
  show "post (\<lambda>u. ?good None) E' (unlessCancelled C R cancelled E m f w)"
  proof (cases r)
    case (Inr x)
    then show ?thesis using tripleD [OF f] pm mw by (simp add: unlessCancelled_def)
  next
    case (Inl e)
    then have er: "?errs w'" using pm mw by simp
    have "\<exists>ch. ?good ch w'" if "cancelled" "\<not> wCrashed w'"
      using er cr that by (auto simp: errs_def good_def)
    then have "post (\<lambda>u. ?good None) ?errs (orCancelled C R cancelled E e w')" if "\<not> wCrashed w'"
      using er that tripleD [OF finishCancelled_triple [OF S E], of cr w'] by (auto simp: orCancelled_def failWith_def)
    then show ?thesis using er mw Inl le by (auto simp: unlessCancelled_def post_def split: prod.splits sum.splits)
  qed
qed

lemmas unlessCancelled_triple = unlessCancelled_weak [where E' = "errs cr C (configIdentity C R)" for cr C R, OF _ _ _ _ _ asm_rl]

lemma finishCompleted_triple:
  assumes S: "setup_ok textual C R" and F: "finishEnv_ok cr F"
  shows "triple (good cr C (configIdentity C R) None) (finishCompleted C R F)
    (\<lambda>u. good cr C (configIdentity C R) None) (errs cr C (configIdentity C R))"
proof -
  have f: "drainEnv_ok (feDrain F)" "cancelEnv_ok (feCancel F)" "cr \<or> \<not> feDrainCancelled F" "cr \<or> \<not> feStatusCancelled F"
    using F by (auto simp: finishEnv_ok_def)
  have done': "triple (good cr C (configIdentity C R) None) (andDo markCompleted (\<lambda>u. andDo (publishDone R) (\<lambda>u. ret Returned)))
      (\<lambda>u. good cr C (configIdentity C R) None) (errs cr C (configIdentity C R))"
    by (rule triple_bind [OF markCompleted_triple triple_bind [OF publishDone_triple triple_ret]])
  show ?thesis
    unfolding finishCompleted_def
    by (rule triple_bind [OF good_lift triple_bind [OF good_lift
          unlessCancelled_triple [OF S f(2,3) drain_triple [OF S f(1)]
            unlessCancelled_triple [OF S f(2,4) publishStatus_triple [OF S] done']]]])
qed

section \<open>A run\<close>

lemma runLoop_triple:
  assumes S: "setup_ok textual C R" and "list_all (turnEnv_ok cr) Es"
  shows "triple (good cr C (configIdentity C R) None) (runLoop C R i Es)
    (\<lambda>u. good cr C (configIdentity C R) None) (errs cr C (configIdentity C R))"
  using assms(2)
proof (induction Es arbitrary: i)
  case Nil
  then show ?case by (simp add: triple_ret)
next
  case (Cons E Es)
  let ?good = "good cr C (configIdentity C R)" and ?errs = "errs cr C (configIdentity C R)"
  have e: "drainEnv_ok (teDrain E)" "finishEnv_ok cr (teFinish E)" "cr \<or> \<not> teDrainCancelled E" "cancelEnv_ok (feCancel (teFinish E))"
    using Cons.prems by (auto simp: turnEnv_ok_def finishEnv_ok_def)
  have loop: "triple (?good None) (runLoop C R (i + 1) Es) (\<lambda>u. ?good None) ?errs" using Cons by simp
  have cancelled: "triple (?good None) (finishCancelled C R (feCancel (teFinish E))) (\<lambda>u. ?good None) ?errs"
    by (rule triple_pre [OF finishCancelled_triple [OF S e(4)]]) auto
  note completed = finishCompleted_triple [OF S e(2)]
  have after: "triple (?good None) (if b then finishCompleted C R (teFinish E)
      else if \<not> roWatch R \<or> (0 < roMaxIterations R \<and> roMaxIterations R \<le> i) then ret Returned
      else if teCancelled E then finishCancelled C R (feCancel (teFinish E)) else runLoop C R (i + 1) Es) (\<lambda>u. ?good None) ?errs" for b
    using completed cancelled loop by (simp add: triple_ret)
  have turn: "triple (?good None) (if b then finishCompleted C R (teFinish E)
      else unlessCancelled C R (teDrainCancelled E) (feCancel (teFinish E)) (drain C R False (teDrain E)) (\<lambda>u.
        andDo (liftE (fileExists (roCompletionFile R) (teAfter E))) (\<lambda>completed.
          if completed then finishCompleted C R (teFinish E)
          else if \<not> roWatch R \<or> (0 < roMaxIterations R \<and> roMaxIterations R \<le> i) then ret Returned
          else if teCancelled E then finishCancelled C R (feCancel (teFinish E)) else runLoop C R (i + 1) Es))) (\<lambda>u. ?good None) ?errs" for b
  proof (cases b)
    case True
    then show ?thesis using completed by simp
  next
    case False
    have "triple (?good None) (unlessCancelled C R (teDrainCancelled E) (feCancel (teFinish E)) (drain C R False (teDrain E)) (\<lambda>u.
        andDo (liftE (fileExists (roCompletionFile R) (teAfter E))) (\<lambda>completed.
          if completed then finishCompleted C R (teFinish E)
          else if \<not> roWatch R \<or> (0 < roMaxIterations R \<and> roMaxIterations R \<le> i) then ret Returned
          else if teCancelled E then finishCancelled C R (feCancel (teFinish E)) else runLoop C R (i + 1) Es))) (\<lambda>u. ?good None) ?errs"
      by (rule unlessCancelled_triple [OF S e(4,3) drain_triple [OF S e(1)] triple_bind [OF good_lift after]])
    then show ?thesis using False by simp
  qed
  show ?case unfolding runLoop.simps by (rule triple_bind [OF good_lift turn])
qed

lemma errs_inv: "errs cr C cfg w \<Longrightarrow> spool_inv C cfg w"
  by (simp add: errs_def)

lemma good_inv: "good cr C cfg ch w \<Longrightarrow> spool_inv C cfg w"
  by (rule errs_inv [OF good_errs])

lemma triple_inv: "triple P m Q (errs cr C cfg) \<Longrightarrow> triple P m Q (spool_inv C cfg)"
  unfolding triple_def using post_err errs_inv by blast

text \<open>Taking the baseline: nothing has been checkpointed, the memory gathers the sources.\<close>

definition baselining :: "bool \<Rightarrow> 'a spoolCodec_scheme \<Rightarrow> string \<Rightarrow> world \<Rightarrow> bool" where
  "baselining cr C cfg w \<longleftrightarrow>
     \<not> wCrashed w \<and> faults_ok cr w \<and> state_ok C cfg (freshCheckpoints cfg) None w \<and>
     (\<exists>s. wMemory w = (freshCheckpoints cfg)\<lparr>csSources := s\<rparr> \<and> (\<forall>p \<in> set s. \<not> badSource p))"

lemma baselining_inv: "baselining cr C cfg w \<Longrightarrow> spool_inv C cfg w"
  by (auto simp: baselining_def spool_inv_def)

lemma baselineSource_ok: "baselineSource C path 0 f = Inr cp \<Longrightarrow> \<not> badSource (path, cp)"
  by (auto simp: baselineSource_def badSource_def Let_def split: option.splits sum.splits)

lemma baselineFiles_triple: "triple (baselining cr C cfg) (baselineFiles C pfs) (\<lambda>u. baselining cr C cfg) (spool_inv C cfg)"
proof (induction pfs)
  case Nil
  then show ?case by (simp add: triple_def)
next
  case (Cons pf pfs)
  show ?case
    unfolding triple_def
  proof (intro allI impI)
    fix w assume b: "baselining cr C cfg w"
    then obtain s where s: "wMemory w = (freshCheckpoints cfg)\<lparr>csSources := s\<rparr>" "\<forall>p \<in> set s. \<not> badSource p"
      by (auto simp: baselining_def)
    show "post (\<lambda>u. baselining cr C cfg) (spool_inv C cfg) (baselineFiles C (pf # pfs) w)"
    proof (cases "baselineSource C (fst pf) 0 (snd pf)")
      case (Inl e)
      then show ?thesis using baselining_inv [OF b] s(1) by (simp add: freshCheckpoints_def)
    next
      case (Inr cp)
      have "\<forall>p \<in> set (gm_set (fst pf) cp s). \<not> badSource p"
        using gm_set_subset [of "fst pf" cp s] s(2) baselineSource_ok [OF Inr] by auto
      then have "baselining cr C cfg (w\<lparr>wMemory := (wMemory w)\<lparr>csSources := gm_set (fst pf) cp (csSources (wMemory w))\<rparr>\<rparr>)"
        using b s(1) by (simp add: baselining_def freshCheckpoints_def)
      from tripleD [OF Cons this] show ?thesis using Inr s(1) by (simp add: freshCheckpoints_def)
    qed
  qed
qed

lemma baselining_state:
  assumes b: "baselining cr C cfg w"
  shows "state_ok C cfg (wMemory w) None (w\<lparr>wCheckpoint := Some (Document (checkpointDocOf (wMemory w)))\<rparr>)"
proof -
  obtain s where s: "wMemory w = (freshCheckpoints cfg)\<lparr>csSources := s\<rparr>" "\<forall>p \<in> set s. \<not> badSource p"
    and st: "state_ok C cfg (freshCheckpoints cfg) None w" using b by (auto simp: baselining_def)
  note d = state_okD [OF st]
  have "cp_ok cfg (wMemory w)" using d(1) s by (simp add: cp_ok_def)
  moreover have "\<not> ranged (fst p)" if "p \<in> set (wLog w)" for p
    using d(4) that by (fastforce simp: log_ok_def freshCheckpoints_def gm_empty_def)
  then have "log_ok (wMemory w) None (wLog w)"
    using d(4) s(1) by (simp add: log_ok_def freshCheckpoints_def gm_empty_def)
  ultimately show ?thesis using pendingIs_source [OF d(3)] s(1) by (simp add: state_ok_def diskIs_def)
qed

lemma baseline_triple: "triple (baselining cr C cfg) (baseline C files) (\<lambda>u. good cr C cfg None) (spool_inv C cfg)"
  unfolding baseline_def
proof (rule triple_bind [OF baselineFiles_triple], unfold triple_def, intro allI impI)
  fix u w assume b: "baselining cr C cfg w"
  note st' = baselining_state [OF b]
  have g: "\<not> wCrashed w" "faults_ok cr w" "state_ok C cfg (freshCheckpoints cfg) None w" using b by (auto simp: baselining_def)
  have "post (\<lambda>u. good cr C cfg None) (errs cr C cfg) (writeCheckpoints (wMemory w) w)"
    by (rule durable_checkpoint [OF g(2,3) cp_ok_config [OF state_okD(1) [OF st']] st'])
      (use st' g(1) in \<open>simp add: good_def live_def state_ok_def\<close>)
  then show "post (\<lambda>u. good cr C cfg None) (spool_inv C cfg) (writeCheckpoints (wMemory w) w)"
    by (rule post_err) (rule errs_inv)
qed

lemma prepareRun_triple:
  "triple (\<lambda>w. good cr C (configIdentity C R) None w \<and> (\<not> existed \<and> n = 0 \<longrightarrow> wMemory w = freshCheckpoints (configIdentity C R)))
     (prepareRun C R existed n E) (\<lambda>u. good cr C (configIdentity C R) None) (spool_inv C (configIdentity C R))"
  unfolding triple_def
proof (intro allI impI)
  let ?good = "good cr C (configIdentity C R)" and ?inv = "spool_inv C (configIdentity C R)"
  let ?body = "andDo (liftE (reFiles E)) (\<lambda>files.
    andDo (if roBaselineExistingHistory R \<and> \<not> existed \<and> n = 0 then baseline C files else ret ()) (\<lambda>u. publishReady R))"
  fix w assume pre: "?good None w \<and> (\<not> existed \<and> n = 0 \<longrightarrow> wMemory w = freshCheckpoints (configIdentity C R))"
  have base: "baselining cr C (configIdentity C R) w" if "\<not> existed \<and> n = 0"
    using pre that by (auto simp: baselining_def good_def live_def freshCheckpoints_def gm_empty_def)
  have "post (\<lambda>u. ?good None) ?inv (andDo (if roBaselineExistingHistory R \<and> \<not> existed \<and> n = 0 then baseline C files else ret ())
      (\<lambda>u. publishReady R) w)" for files
  proof (rule post_bind)
    show "post (\<lambda>u. ?good None) ?inv ((if roBaselineExistingHistory R \<and> \<not> existed \<and> n = 0 then baseline C files else ret ()) w)"
      using base pre by (auto simp: ret_def intro!: tripleD [OF baseline_triple])
    show "?good None w' \<Longrightarrow> post (\<lambda>u. ?good None) ?inv (publishReady R w')" for w'
      by (rule tripleD [OF triple_inv [OF publishReady_triple]])
  qed
  then have p: "post (\<lambda>u. ?good None) ?inv (?body w)"
    using good_inv [OF conjunct1 [OF pre]] by (cases "reFiles E") (simp_all add: andDo_def [of "liftE _"] liftE_def)
  obtain r w' where body: "?body w = (r, w')" by (cases "?body w")
  have frame: "?inv (w\<lparr>wResult := res\<rparr>) = ?inv w" for w res by (simp add: spool_inv_def)
  show "post (\<lambda>u. ?good None) ?inv (prepareRun C R existed n E w)"
    using p body by (cases r) (simp_all add: prepareRun_def frame)
qed

lemma startMemory_triple:
  "triple (\<lambda>w. spool_inv C (configIdentity C R) w \<and> \<not> wCrashed w \<and> faults_ok cr w) (startMemory C R)
     (\<lambda>existed w. (\<exists>ch. good cr C (configIdentity C R) ch w) \<and> (\<not> existed \<longrightarrow> wMemory w = freshCheckpoints (configIdentity C R)))
     (spool_inv C (configIdentity C R))"
  unfolding triple_def
proof (intro allI impI)
  fix w assume pre: "spool_inv C (configIdentity C R) w \<and> \<not> wCrashed w \<and> faults_ok cr w"
  then obtain cps ch where st: "state_ok C (configIdentity C R) cps ch w" by (auto simp: spool_inv_def)
  have "\<exists>existed. loadCheckpoints (configIdentity C R) (wCheckpoint w) = Inr (cps, existed) \<and>
      (\<not> existed \<longrightarrow> cps = freshCheckpoints (configIdentity C R))"
    using state_okD(2) [OF st] loadCheckpoints_doc by (auto simp: diskIs_def loadCheckpoints_def)
  then obtain existed where load: "loadCheckpoints (configIdentity C R) (wCheckpoint w) = Inr (cps, existed)"
      "\<not> existed \<longrightarrow> cps = freshCheckpoints (configIdentity C R)" by blast
  have "good cr C (configIdentity C R) ch (w\<lparr>wMemory := cps\<rparr>)" using st pre by (simp add: good_def live_def)
  then show "post (\<lambda>existed w. (\<exists>ch. good cr C (configIdentity C R) ch w) \<and>
        (\<not> existed \<longrightarrow> wMemory w = freshCheckpoints (configIdentity C R))) (spool_inv C (configIdentity C R)) (startMemory C R w)"
    using load by (auto simp: startMemory_def)
qed

lemma run_triple:
  assumes S: "setup_ok textual C R" and E: "runEnv_ok cr E"
  shows "triple (\<lambda>w. spool_inv C (configIdentity C R) w \<and> \<not> wCrashed w \<and> faults_ok cr w) (run C R E)
    (\<lambda>u. good cr C (configIdentity C R) None) (spool_inv C (configIdentity C R))"
proof -
  let ?good = "good cr C (configIdentity C R)" and ?inv = "spool_inv C (configIdentity C R)"
  let ?fresh = "freshCheckpoints (configIdentity C R)"
  have dir: "triple (\<lambda>w. ?inv w \<and> \<not> wCrashed w \<and> faults_ok cr w) (durable (\<lambda>w. w) noTemp)
      (\<lambda>u w. ?inv w \<and> \<not> wCrashed w \<and> faults_ok cr w) ?inv"
    unfolding triple_def
  proof (intro allI impI)
    fix w assume pre: "?inv w \<and> \<not> wCrashed w \<and> faults_ok cr w"
    then obtain cps ch where st: "state_ok C (configIdentity C R) cps ch w" by (auto simp: spool_inv_def)
    have "post (\<lambda>u w. ?inv w \<and> \<not> wCrashed w \<and> faults_ok cr w) (errs cr C (configIdentity C R)) (durable (\<lambda>w. w) noTemp w)"
      by (rule durable_noTemp [OF _ st, where cps' = cps and ch' = ch]) (use pre st in \<open>simp_all add: spool_inv_def\<close>)
    then show "post (\<lambda>u w. ?inv w \<and> \<not> wCrashed w \<and> faults_ok cr w) ?inv (durable (\<lambda>w. w) noTemp w)"
      by (rule post_err) (rule errs_inv)
  qed
  have replay: "triple (\<lambda>w. (\<exists>ch. ?good ch w) \<and> (\<not> existed \<longrightarrow> wMemory w = ?fresh)) (replaySpool C R)
      (\<lambda>n w. ?good None w \<and> (\<not> existed \<and> n = 0 \<longrightarrow> wMemory w = ?fresh)) (errs cr C (configIdentity C R))" for existed
    unfolding triple_def
  proof (intro allI impI, elim conjE exE)
    fix w ch assume g: "?good ch w" and m: "\<not> existed \<longrightarrow> wMemory w = ?fresh"
    show "post (\<lambda>n w. ?good None w \<and> (\<not> existed \<and> n = 0 \<longrightarrow> wMemory w = ?fresh)) (errs cr C (configIdentity C R)) (replaySpool C R w)"
      by (rule post_mono [OF replaySpool_post [OF g]]) (use m in auto)
  qed
  have e: "cancelEnv_ok (reCancel E)" "cr \<or> \<not> reReplayCancelled E" "list_all (turnEnv_ok cr) (reTurns E)"
    using E by (auto simp: runEnv_ok_def)
  have rest: "triple (\<lambda>w. ?good None w \<and> (\<not> existed \<and> n = 0 \<longrightarrow> wMemory w = ?fresh))
      (andDo (prepareRun C R existed n E) (\<lambda>u. runLoop C R 1 (reTurns E))) (\<lambda>u. ?good None) ?inv" for existed n
    by (rule triple_bind [OF prepareRun_triple triple_inv [OF runLoop_triple [OF S e(3)]]])
  show ?thesis
    unfolding run_def
    by (rule triple_bind [OF dir triple_bind [OF startMemory_triple unlessCancelled_weak [OF S e(1,2) replay rest errs_inv]]])
qed

section \<open>Sequences of processes\<close>

text \<open>
  The states the collector with options \<open>R\<close> can leave: a new spool, then processes one after the
  other, each with its own environment, faults and answers of the sink. With \<open>cr\<close> storage faults
  are deaths of the process; without, no process handles a cancelled context after an error.
\<close>

definition emptyWorld :: world where
  "emptyWorld = \<lparr>wCheckpoint = None, wPending = gm_empty, wReady = False, wDone = False, wMemory = freshCheckpoints [],
     wResult = zeroResult, wFaults = [], wAnswers = [], wLog = [], wCrashed = False\<rparr>"

inductive spool_reach :: "'a collectorCodec_scheme \<Rightarrow> runnerOptions \<Rightarrow> world \<Rightarrow> bool" for C R where
  start: "spool_reach C R emptyWorld"
| process: "spool_reach C R w \<Longrightarrow> runEnv_ok cr E \<Longrightarrow> (cr \<Longrightarrow> list_all crashFault faults) \<Longrightarrow>
    spool_reach C R (snd (run C R E (newProcess faults answers w)))"

lemma spool_reach_inv:
  assumes S: "setup_ok textual C R" and "spool_reach C R w"
  shows "spool_inv C (configIdentity C R) w"
  using assms(2)
proof (induction rule: spool_reach.induct)
  case start
  have "configIdentity C R \<noteq> []" using S codec_digest_ne by (auto simp: setup_ok_def configIdentity_def)
  then have "state_ok C (configIdentity C R) (freshCheckpoints (configIdentity C R)) None emptyWorld"
    by (auto simp: state_ok_def diskIs_def emptyWorld_def cp_ok_def pendingIs_def log_ok_def deliveries_ok_def
        freshCheckpoints_def gm_empty_def)
  then show ?case by (auto simp: spool_inv_def)
next
  case (process w cr E faults answers)
  have "state_ok C cfg cps ch (newProcess faults answers w) = state_ok C cfg cps ch w" for cfg cps ch
    by (simp add: newProcess_def)
  then have "spool_inv C (configIdentity C R) (newProcess faults answers w)" using process.IH by (simp add: spool_inv_def)
  moreover have "\<not> wCrashed (newProcess faults answers w)" "faults_ok cr (newProcess faults answers w)"
    using process.hyps by (auto simp: newProcess_def faults_ok_def)
  ultimately have "post (\<lambda>u. good cr C (configIdentity C R) None) (spool_inv C (configIdentity C R)) (run C R E (newProcess faults answers w))"
    using tripleD [OF run_triple [OF S process.hyps(2)]] by simp
  then show ?case
    by (cases "run C R E (newProcess faults answers w)"; cases "fst (run C R E (newProcess faults answers w))")
      (auto simp: post_def intro: good_inv)
qed

end
