(* ===== verification/Metric_Restart.thy ===== *)
theory Metric_Restart
  imports Metric_Runs
begin

text \<open>
  The recovery of the spool by a process that meets no fault, and what the record of the sink's
  calls says in any state a sequence of processes leaves.
\<close>

section \<open>Recovery\<close>

text \<open>A process that meets no fault and whose sink accepts.\<close>

definition quiet :: "world \<Rightarrow> bool" where
  "quiet w \<longleftrightarrow> wFaults w = [] \<and> wAnswers w = []"

lemma quiet_durable: "quiet w \<Longrightarrow> durable f temp w = (Inr (), f w)"
  by (simp add: quiet_def durable_def nextFault_def)

lemma quiet_frame [simp]:
  "quiet (w\<lparr>wPending := p\<rparr>) = quiet w" "quiet (w\<lparr>wCheckpoint := c\<rparr>) = quiet w" "quiet (w\<lparr>wMemory := m\<rparr>) = quiet w"
  "quiet (w\<lparr>wLog := l\<rparr>) = quiet w" "quiet (w\<lparr>wResult := r\<rparr>) = quiet w"
  by (simp_all add: quiet_def)

lemma quiet_remove: "quiet w \<Longrightarrow> gm_lookup (wPending w) n \<noteq> None \<Longrightarrow>
    removeDurable n w = (Inr (), w\<lparr>wPending := gm_delete n (wPending w)\<rparr>)"
  by (auto simp: removeDurable_def quiet_durable)

lemma quiet_deliver: "quiet w \<Longrightarrow> deliverChunk c w = (Inr (), w\<lparr>wLog := wLog w @ [(c, SinkAck (int (length (ckEvents c))))]\<rparr>)"
  by (simp add: quiet_def deliverChunk_def nextAnswer_def Let_def)

lemma quiet_settle:
  assumes q: "quiet w" and look: "gm_lookup (wPending w) name \<noteq> None" and cfg: "csConfig next \<noteq> []"
  shows "\<exists>w'. settleChunk name c next w = (Inr (), w') \<and> wPending w' = gm_delete name (wPending w) \<and> wMemory w' = next"
proof -
  have wr: "writeCheckpoints next v = (Inr (), v\<lparr>wCheckpoint := Some (Document (checkpointDocOf next))\<rparr>)" if "quiet v" for v
    using cfg that by (simp add: writeCheckpoints_def quiet_durable)
  show ?thesis
    using q look by (simp add: settleChunk_def andDo_def quiet_deliver wr setMemory_def quiet_remove countChunk_def)
qed

lemma quiet_walk:
  assumes "quiet w" and "distinct ns" and "\<forall>n \<in> set ns. \<exists>f. gm_lookup (wPending w) n = Some (SpoolFile f)"
  shows "\<exists>w'. spoolWalk ns w = (Inr (filter (\<lambda>n. recognizedAtomicTemp n = None) ns), w') \<and> quiet w' \<and>
    (\<exists>p. w' = w\<lparr>wPending := p\<rparr>) \<and>
    (\<forall>k. gm_lookup (wPending w') k = (if k \<in> set ns \<and> recognizedAtomicTemp k \<noteq> None then None else gm_lookup (wPending w) k))"
  using assms
proof (induction ns arbitrary: w)
  case Nil
  then show ?case by (auto intro: exI [of _ "wPending w"])
next
  case (Cons n ns)
  obtain f where f: "gm_lookup (wPending w) n = Some (SpoolFile f)" using Cons.prems(3) by auto
  show ?case
  proof (cases "recognizedAtomicTemp n")
    case None
    obtain w' where w': "spoolWalk ns w = (Inr (filter (\<lambda>n. recognizedAtomicTemp n = None) ns), w')" "quiet w'"
        "\<exists>p. w' = w\<lparr>wPending := p\<rparr>"
        "\<forall>k. gm_lookup (wPending w') k = (if k \<in> set ns \<and> recognizedAtomicTemp k \<noteq> None then None else gm_lookup (wPending w) k)"
      using Cons.IH [OF Cons.prems(1)] Cons.prems(2,3) by auto
    then show ?thesis using f None by (auto simp: andDo_def ret_def)
  next
    case (Some t)
    let ?v = "w\<lparr>wPending := gm_delete n (wPending w)\<rparr>"
    have other: "\<forall>k \<in> set ns. \<exists>f. gm_lookup (wPending ?v) k = Some (SpoolFile f)" using Cons.prems(2,3) by auto
    have v: "quiet ?v" "distinct ns" using Cons.prems(1,2) by simp_all
    obtain w' where w': "spoolWalk ns ?v = (Inr (filter (\<lambda>n. recognizedAtomicTemp n = None) ns), w')" "quiet w'"
        "\<exists>p. w' = ?v\<lparr>wPending := p\<rparr>"
        "\<forall>k. gm_lookup (wPending w') k = (if k \<in> set ns \<and> recognizedAtomicTemp k \<noteq> None then None else gm_lookup (wPending ?v) k)"
      using Cons.IH [OF v other] by blast
    then show ?thesis
      using f Some Cons.prems(1) by (auto simp: andDo_def quiet_remove)
  qed
qed

lemma recognized_temp:
  "tempEntry cps n \<Longrightarrow> csNext cps < 2 ^ 64 \<Longrightarrow> recognizedAtomicTemp n \<noteq> None"
  by (auto simp: tempEntry_def recognizedAtomicTemp_tempName validPendingName_pendingName)

lemma filter_single: "distinct xs \<Longrightarrow> x \<in> set xs \<Longrightarrow> (\<And>y. y \<in> set xs \<Longrightarrow> P y \<longleftrightarrow> y = x) \<Longrightarrow> filter P xs = [x]"
proof (induction xs)
  case (Cons a xs)
  have "filter P xs = []" if "a = x" using Cons.prems(1,3) that by (auto simp: filter_empty_conv)
  then show ?case using Cons by auto
qed simp

lemma quiet_loadPending:
  assumes q: "quiet w" and p: "pendingIs C cfg cps (wPending w) ch" and bound: "csNext cps < 2 ^ 64"
  shows "\<exists>w'. loadPending C cfg w = (Inr (map_option (\<lambda>m. (manifestName m, m)) ch), w') \<and> quiet w' \<and> (\<exists>p. w' = w\<lparr>wPending := p\<rparr>) \<and>
    (\<forall>k. gm_lookup (wPending w') k = (case ch of None \<Rightarrow> None | Some m \<Rightarrow> if k = manifestName m then Some (SpoolFile (Document m)) else None))"
proof -
  define ns where "ns = sort (gm_keys (wPending w))"
  have keys: "k \<in> set ns \<longleftrightarrow> gm_lookup (wPending w) k \<noteq> None" for k by (simp add: ns_def gm_key_iff)
  have dist: "distinct ns" using p gm_keys_distinct by (auto simp: ns_def pendingIs_def)
  have entry: "\<exists>f. gm_lookup (wPending w) n = Some (SpoolFile f)" if "n \<in> set ns" for n
    using p that keys unfolding pendingIs_def by blast
  have kinds: "tempEntry cps n \<or> (\<exists>m. ch = Some m \<and> n = manifestName m)" if "n \<in> set ns" for n
    using p that keys unfolding pendingIs_def by blast
  have rec: "recognizedAtomicTemp n = None \<longleftrightarrow> (\<exists>m. ch = Some m \<and> n = manifestName m)" if "n \<in> set ns" for n
    using kinds [OF that] recognized_temp [OF _ bound] recognizedAtomicTemp_digit [OF manifestName_digit] by metis
  obtain w' where w': "spoolWalk ns w = (Inr (filter (\<lambda>n. recognizedAtomicTemp n = None) ns), w')" "quiet w'"
      "\<exists>p. w' = w\<lparr>wPending := p\<rparr>"
      "\<forall>k. gm_lookup (wPending w') k = (if k \<in> set ns \<and> recognizedAtomicTemp k \<noteq> None then None else gm_lookup (wPending w) k)"
    using quiet_walk [OF q dist] entry by blast
  show ?thesis
  proof (cases ch)
    case None
    then have "filter (\<lambda>n. recognizedAtomicTemp n = None) ns = []" using rec by (auto simp: filter_empty_conv)
    moreover have "gm_lookup (wPending w') k = None" for k using w'(4) rec keys None by (cases "k \<in> set ns") auto
    ultimately show ?thesis using w'(1-3) None by (simp add: loadPending_def andDo_def spoolFiles_def ns_def [symmetric] ret_def)
  next
    case (Some m)
    have m: "gm_lookup (wPending w) (manifestName m) = Some (SpoolFile (Document m))" "validateManifest C (manifestName m) m cfg" "fits cps m"
      using p Some by (auto simp: pendingIs_def)
    have single: "filter (\<lambda>n. recognizedAtomicTemp n = None) ns = [manifestName m]"
      by (rule filter_single [OF dist]) (use keys m(1) rec Some in auto)
    have "cmSequence m < 2 ^ 64"
      using m(3) bound advance_acknowledged(1) [of cps m] by (auto simp: fits_def)
    then have name: "validPendingName (manifestName m)"
      using validateManifestD(2) [OF m(2)] by (simp add: manifestName_def validPendingName_pendingName)
    have look: "gm_lookup (wPending w') k = (if k = manifestName m then Some (SpoolFile (Document m)) else None)" for k
    proof (cases "k \<in> set ns")
      case True
      then show ?thesis using w'(4) [THEN spec, of k] rec [OF True] Some m(1) by auto
    next
      case False
      moreover have "manifestName m \<in> set ns" using keys m(1) by simp
      ultimately show ?thesis using w'(4) [THEN spec, of k] keys [of k] by auto
    qed
    then have "readPending C cfg (manifestName m) w' = Inr m" using m(2) by (simp add: readPending_def)
    then show ?thesis
      using w'(1-3) Some single name look by (simp add: loadPending_def andDo_def spoolFiles_def ns_def [symmetric])
  qed
qed

lemma quiet_replayManifest:
  assumes q: "quiet w" and st: "state_ok C cfg (wMemory w) (Some m) w"
  shows "\<exists>w'. replayManifest C (manifestName m) m w = (Inr 1, w') \<and> wPending w' = gm_delete (manifestName m) (wPending w) \<and>
    csNext (wMemory w') = Suc (cmSequence m)"
proof -
  note d = state_okD [OF st]
  have v: "validateManifest C (manifestName m) m cfg" and look: "gm_lookup (wPending w) (manifestName m) \<noteq> None" and fits: "fits (wMemory w) m"
    using d(5,6,7) by simp_all
  show ?thesis
  proof (cases "\<exists>next. advanceCheckpointForManifest (wMemory w) m = Inr (Some next)")
    case True
    then obtain next' where adv: "advanceCheckpointForManifest (wMemory w) m = Inr (Some next')" by auto
    have cfg: "csConfig next' \<noteq> []" by (rule cp_ok_config [OF advance_cp_ok [OF d(1) v adv]])
    obtain chunk where chunk: "chunkFromManifest C (manifestName m) m = Inr chunk"
      using validateManifestD(5) [OF v] by (auto simp: chunkFromManifest_def)
    obtain w' where w': "settleChunk (manifestName m) chunk next' w = (Inr (), w')" "wPending w' = gm_delete (manifestName m) (wPending w)"
        "wMemory w' = next'"
      using quiet_settle [OF q look cfg] by blast
    then show ?thesis
      using adv chunk advance_acknowledged(1,2) [OF adv] by (simp add: replayManifest_def Let_def andDo_def liftE_def ret_def)
  next
    case False
    then have "Suc (cmSequence m) = csNext (wMemory w)" "validateAcknowledgedManifest (wMemory w) m = Inr ()"
      using fits by (auto simp: fits_def)
    then show ?thesis
      using quiet_remove [OF q look] by (simp add: replayManifest_def Let_def andDo_def liftE_def ret_def)
  qed
qed

text \<open>The recovery at the start of a process: loading the checkpoints and replaying the spool.\<close>

definition recover :: "'a collectorCodec_scheme \<Rightarrow> runnerOptions \<Rightarrow> nat op" where
  "recover C R = andDo (startMemory C R) (\<lambda>existed. replaySpool C R)"

lemma recover_inv:
  assumes inv: "spool_inv C (configIdentity C R) w"
    and load: "loadCheckpoints (configIdentity C R) (wCheckpoint w) = Inr (cps, existed)" and bound: "csNext cps < 2 ^ 64"
  shows "\<exists>n w'. recover C R (newProcess [] [] w) = (Inr n, w') \<and> (\<forall>name. gm_lookup (wPending w') name = None) \<and>
    csNext cps \<le> csNext (wMemory w') \<and> csNext (wMemory w') \<le> csNext cps + 1"
proof -
  let ?cfg = "configIdentity C R"
  obtain cps' ch where st: "state_ok C ?cfg cps' ch w" using inv by (auto simp: spool_inv_def)
  have "loadCheckpoints ?cfg (wCheckpoint w) = Inr (cps', wCheckpoint w \<noteq> None)"
    using state_okD(2) [OF st] loadCheckpoints_doc by (auto simp: diskIs_def loadCheckpoints_def)
  then have cps: "cps' = cps" using load by simp
  define w0 where "w0 = newProcess [] [] w\<lparr>wMemory := cps\<rparr>"
  have start: "startMemory C R (newProcess [] [] w) = (Inr existed, w0)"
    using load by (simp add: startMemory_def newProcess_def w0_def)
  have q: "quiet w0" and st0: "state_ok C ?cfg (wMemory w0) ch w0" and mem: "wMemory w0 = cps"
    using st cps by (simp_all add: w0_def quiet_def newProcess_def)
  obtain w1 where w1: "loadPending C ?cfg w0 = (Inr (map_option (\<lambda>m. (manifestName m, m)) ch), w1)" "quiet w1" "\<exists>p. w1 = w0\<lparr>wPending := p\<rparr>"
      "\<forall>k. gm_lookup (wPending w1) k = (case ch of None \<Rightarrow> None | Some m \<Rightarrow> if k = manifestName m then Some (SpoolFile (Document m)) else None)"
    using quiet_loadPending [OF q state_okD(3) [OF st0]] mem bound by auto
  show ?thesis
  proof (cases ch)
    case None
    then show ?thesis
      using w1 start mem by (auto simp: recover_def replaySpool_def andDo_def ret_def)
  next
    case (Some m)
    have good: "good False C ?cfg ch w0" using st0 by (simp add: good_def live_def faults_ok_def w0_def newProcess_def)
    have "state_ok C ?cfg (wMemory w1) (Some m) w1"
      using loadPending_post [OF good] w1(1) Some by (auto simp: good_def live_def)
    then obtain w2 where w2: "replayManifest C (manifestName m) m w1 = (Inr 1, w2)" "wPending w2 = gm_delete (manifestName m) (wPending w1)"
        "csNext (wMemory w2) = Suc (cmSequence m)"
      using quiet_replayManifest [OF w1(2)] by blast
    have "cmSequence m = csNext cps \<or> Suc (cmSequence m) = csNext cps"
      using state_okD(7) [OF st0 Some] mem advance_acknowledged(1) [of cps m] by (auto simp: fits_def)
    then show ?thesis
      using w1 w2 start Some by (auto simp: recover_def replaySpool_def andDo_def)
  qed
qed

section \<open>What the sink is given\<close>

lemma reach_log:
  assumes "setup_ok textual C R" and "spool_reach C R w"
  obtains cps existed ch where "loadCheckpoints (configIdentity C R) (wCheckpoint w) = Inr (cps, existed)" "log_ok cps ch (wLog w)"
proof -
  obtain cps ch where st: "state_ok C (configIdentity C R) cps ch w" using spool_reach_inv [OF assms] by (auto simp: spool_inv_def)
  have "loadCheckpoints (configIdentity C R) (wCheckpoint w) = Inr (cps, wCheckpoint w \<noteq> None)"
    using state_okD(2) [OF st] loadCheckpoints_doc by (auto simp: diskIs_def loadCheckpoints_def)
  then show ?thesis using that state_okD(4) [OF st] by blast
qed

end
