(* ===== verification/Metric_Props.thy ===== *)
theory Metric_Props
  imports Metric_Restart
begin

text \<open>
  The properties of the experiment-metrics collector: what the sink is given over any sequence of
  processes, the recovery of the spool, and the one way to lose it. A concrete codec, configuration
  and environments show that what they rely on can hold.
\<close>

section \<open>An instance\<close>

definition exDigest :: "string \<Rightarrow> string" where "exDigest s = replicate 64 (CHR ''a'')"

definition exEvent :: metricEvent where
  "exEvent =
     \<lparr>evSchemaVersion = metricEventSchemaV1, evEventID = ''metric-'' @ exDigest [], evWorkspaceID = [], evCluster = [],
      evNamespace = [], evSourceStoreID = ''tau-metrics-'' @ take 16 (exDigest []), evProject = ''p'', evExperimentID = ''e'',
      evRunGroupID = ''g'', evRunID = ''r'', evMetricName = ''l'', evStep = 0, evWallTime = unixMicro 0, evValue = Fin 0,
      evUnit = [], evSource = ''s'', evSplit = [], evMetricFileID = ''history-'' @ take 16 (exDigest []),
      evMetricFilePath = ''/h'', evTags = map (\<lambda>k. (k, [])) protectedJSONLTagKeys, evExportedAt = 1\<rparr>"

definition exTextual :: "metricEvent \<Rightarrow> bool" where
  "exTextual e \<longleftrightarrow> e\<lparr>evTags := []\<rparr> = exEvent\<lparr>evTags := []\<rparr> \<and> set (gm_keys (evTags e)) = set (gm_keys (evTags exEvent))"

definition exRow :: "string \<Rightarrow> decodedRow" where
  "exRow line =
     (let meta = [(''_step'', AnyInt 0), (''_timestamp'', AnyInt 0)] in
      if line = ''m'' then RowObject (meta @ [(''l'', AnyInt 0)])
      else if line = ''t'' then RowObject meta else RowInvalid)"

definition exCodec :: collectorCodec where
  "exCodec =
     \<lparr>ecDigest = exDigest, ecIdentityJSON = (\<lambda>i. []), ecEventJSON = (\<lambda>e. if exTextual e then Some ''x'' else None),
      ecDecodeEvent = (\<lambda>line. if line = ''x'' then Some exEvent else None), ecParseFloat = (\<lambda>s. None), ecOutOfRange = (\<lambda>x. 0),
      spManifestJSON = (\<lambda>m. []), coConfigJSON = (\<lambda>R. []), coStoreJSON = (\<lambda>a b c d. []), coCompletionJSON = (\<lambda>c. []),
      coDecodeRow = exRow, coClean = (\<lambda>p. p)\<rparr>"

definition exOptions :: runnerOptions where
  "exOptions =
     \<lparr>roRun = ''r'', roProject = ''p'', roExperiment = ''e'', roGroup = ''g'', roSource = ''s'', roOut = ''/o'', roHistory = [''/h''],
      roTags = [], roCompletionFile = [], roInterval = 1, roBaselineExistingHistory = False, roReadyFile = [], roDoneFile = [],
      roStatusArtifactURI = [], roStatusCheckpointURI = [], roWatch = False, roMaxIterations = 0, roSinkName = ''k'', roSinkIdentity = ''k''\<rparr>"

definition exDrain :: "string \<Rightarrow> drainEnv" where
  "exDrain content =
     \<lparr>deFiles = Inr [(''/h'', \<lparr>hfOpenErr = None, hfDev = 1, hfIno = 1, hfContent = content, hfSyncErr = None\<rparr>)], deNow = 1\<rparr>"

definition exCancel :: "string \<Rightarrow> cancelEnv" where
  "exCancel content =
     \<lparr>ceTimeout = Inr 1, ceStat = Inr False, ceWait = [], ceDrain = exDrain content, ceExists = Inr False, ceDrainAgain = exDrain content,
      ceText = CompletionBlank 1, ceNow = 1\<rparr>"

definition exRun :: "string \<Rightarrow> bool \<Rightarrow> string \<Rightarrow> runEnv" where
  "exRun content cancelled later =
     \<lparr>reReplayCancelled = False, reCancel = exCancel later, reFiles = Inr [],
      reTurns = [\<lparr>teBefore = Inr False, teDrain = exDrain content, teDrainCancelled = cancelled, teAfter = Inr False, teCancelled = False,
        teFinish = \<lparr>feTimeout = Inr 1, feStat = Inr (), feDrain = exDrain later, feDrainCancelled = False, feText = CompletionBlank 1,
          feStatusCancelled = False, feCancel = exCancel later\<rparr>\<rparr>]\<rparr>"

definition exLine :: "string \<Rightarrow> string" where
  "exLine s = s @ [CHR 0x0A]"

lemma exCodec_simps [simp]:
  "ecDigest exCodec = exDigest" "ecEventJSON exCodec = (\<lambda>e. if exTextual e then Some ''x'' else None)"
  "ecDecodeEvent exCodec = (\<lambda>line. if line = ''x'' then Some exEvent else None)"
  by (simp_all add: exCodec_def)

lemma exDigest_valid: "validDigest (exDigest s)"
  by (simp add: validDigest_def exDigest_def hexDigitChar_def list_all_iff)

lemma exTextual_exEvent: "exTextual exEvent"
  by (simp add: exTextual_def)

lemma exTextual_decode: "exTextual e \<Longrightarrow> \<exists>tags. exEvent = e\<lparr>evTags := tags\<rparr> \<and> set (gm_keys tags) = set (gm_keys (evTags e))"
proof -
  assume e: "exTextual e"
  have "exEvent = (exEvent\<lparr>evTags := []\<rparr>)\<lparr>evTags := evTags exEvent\<rparr>" by simp
  also have "\<dots> = (e\<lparr>evTags := []\<rparr>)\<lparr>evTags := evTags exEvent\<rparr>" using e by (simp only: exTextual_def)
  finally have "exEvent = e\<lparr>evTags := evTags exEvent\<rparr>" by simp
  then show ?thesis using e by (auto simp: exTextual_def)
qed

lemma exCodec_ok: "codec_ok exTextual exCodec"
  unfolding codec_ok_def
proof (intro conjI allI impI)
  show "validDigest (ecDigest exCodec s)" for s using exDigest_valid by simp
  fix e line assume a: "exTextual e \<and> ecEventJSON exCodec e = Some line"
  then have line: "line = ''x''" by auto
  show "CHR 0x0A \<notin> set line" "trimSpace line \<noteq> []" by (simp_all add: line trimSpace_def asciiSpace_def)
  obtain tags where t: "exEvent = e\<lparr>evTags := tags\<rparr>" "set (gm_keys tags) = set (gm_keys (evTags e))"
    using exTextual_decode a by blast
  have "ecEventJSON exCodec (e\<lparr>evTags := tags\<rparr>) = Some ''x''" using exTextual_exEvent by (simp add: t(1) [symmetric])
  then show "\<exists>tags. ecDecodeEvent exCodec line = Some (e\<lparr>evTags := tags\<rparr>) \<and> set (gm_keys tags) = set (gm_keys (evTags e)) \<and>
      ecEventJSON exCodec (e\<lparr>evTags := tags\<rparr>) = Some line"
    using t line exTextual_exEvent by (intro exI [of _ tags]) auto
qed

lemma exTextual_run: "textual_run exTextual exCodec R"
  unfolding textual_run_def
proof (intro conjI allI impI)
  fix now read es raw assume p: "project exCodec R now read = Inr (es, raw)"
  obtain ls where "length ls = length es" "\<forall>i < length es. ecEventJSON exCodec (es ! i) = Some (ls ! i)"
    using encodeEvents_lines [OF project_encoded [OF p]] by blast
  then show "list_all exTextual es" by (auto simp: list_all_length split: if_splits)
next
  fix status e raw assume "statusEvent exCodec R status = Inr e \<and> encodeMetricNDJSON exCodec e = Inr raw"
  then have "validateEvent exCodec e = None" "encodeMetricNDJSON exCodec e = Inr raw"
    by (auto simp: statusEvent_def Let_def validateEvent_new)
  then show "exTextual e" using encode_valid [of exCodec e raw] by (auto split: if_splits)
qed

lemma exSetup: "setup_ok exTextual exCodec exOptions"
  by (simp add: setup_ok_def exCodec_ok exTextual_run)

section \<open>Two processes\<close>

text \<open>The sink refuses the first chunk; the next process replays it and delivers a second one.\<close>

definition exRefused :: world where
  "exRefused = snd (run exCodec exOptions (exRun (exLine ''m'') False []) (newProcess [] [SinkFails ''x''] emptyWorld))"

definition exResumed :: world where
  "exResumed = snd (run exCodec exOptions (exRun (exLine ''m'' @ exLine ''m'') False []) (newProcess [] [] exRefused))"

lemma exRun_ok: "runEnv_ok False (exRun content False later)"
  by (simp add: runEnv_ok_def exRun_def turnEnv_ok_def finishEnv_ok_def cancelEnv_ok_def drainEnv_ok_def exCancel_def exDrain_def)

lemma exRefused_reach: "spool_reach exCodec exOptions exRefused"
  unfolding exRefused_def by (rule spool_reach.process [OF spool_reach.start exRun_ok]) simp

lemma exResumed_reach: "spool_reach exCodec exOptions exResumed"
  unfolding exResumed_def by (rule spool_reach.process [OF exRefused_reach exRun_ok]) simp

lemma exRefused_load:
  "loadCheckpoints (configIdentity exCodec exOptions) (wCheckpoint exRefused) = Inr (freshCheckpoints (exDigest []), False)"
  by code_simp

lemma exResumed_log: "map (ckSequence \<circ> fst) (wLog exResumed) = [1, 1, 2]"
  by code_simp

lemma exResumed_next: "map_sum id (csNext \<circ> fst) (loadCheckpoints (configIdentity exCodec exOptions) (wCheckpoint exResumed)) = Inr 3"
  by code_simp

text \<open>
  C8. Whatever processes have run before (each either only ever fails in its storage by dying, or does
  not go on after an error because its context is cancelled), a process that starts without faults
  recovers the spool: its checkpoints load and the pending chunk, if any, is replayed or found
  acknowledged, after which no file is left in the pending directory.
\<close>

theorem spool_always_recovers:
  assumes "setup_ok textual C R" and "spool_reach C R w"
    and "loadCheckpoints (configIdentity C R) (wCheckpoint w) = Inr (cps, existed)" and "csNext cps < 2 ^ 64"
  shows "\<exists>n w'. recover C R (newProcess [] [] w) = (Inr n, w') \<and> (\<forall>name. gm_lookup (wPending w') name = None) \<and>
    csNext cps \<le> csNext (wMemory w') \<and> csNext (wMemory w') \<le> csNext cps + 1"
  by (rule recover_inv [OF spool_reach_inv [OF assms(1,2)] assms(3,4)])

theorem spool_always_recovers_witness:
  "\<exists>n w'. recover exCodec exOptions (newProcess [] [] exRefused) = (Inr n, w') \<and> (\<forall>name. gm_lookup (wPending w') name = None) \<and>
    1 \<le> csNext (wMemory w') \<and> csNext (wMemory w') \<le> 1 + 1"
  using spool_always_recovers [OF exSetup exRefused_reach exRefused_load] by (simp add: freshCheckpoints_def)

text \<open>
  C2. Over any sequence of processes, with crashes at any point, storage errors where the process then
  ends, and a sink that accepts, refuses or miscounts: calls of the sink under one sequence number carry the same bytes
  of the same range of the same source (a sink may drop repetitions by the number), numbers never
  go back, and two numbers of one source never cover the same bytes, the later starting where the
  earlier ended or after.
\<close>

theorem deliveries_exactly_once:
  assumes "setup_ok textual C R" and "spool_reach C R w"
    and "i < j" and "j < length (wLog w)" and "c = fst (wLog w ! i)" and "d = fst (wLog w ! j)"
  shows "ckSequence c \<le> ckSequence d \<and> (ckSequence c = ckSequence d \<longrightarrow> sameDelivery c d) \<and>
    (ckSequence c < ckSequence d \<and> ckSourcePath c = ckSourcePath d \<and> ranged c \<and> ranged d \<longrightarrow> ckEndOffset c \<le> ckStartOffset d)"
proof -
  have ok: "deliveries_ok (wLog w)" by (rule reach_log [OF assms(1,2)]) (auto simp: log_ok_def)
  have mem: "wLog w ! i \<in> set (wLog w)" "wLog w ! j \<in> set (wLog w)" using assms(3,4) by simp_all
  have "sorted (map (ckSequence \<circ> fst) (wLog w))" using ok by (simp add: deliveries_ok_def)
  then have "ckSequence c \<le> ckSequence d"
    using sorted_nth_mono [of "map (ckSequence \<circ> fst) (wLog w)" i j] assms(3-6) by simp
  then show ?thesis using ok mem assms(5,6) unfolding deliveries_ok_def by blast
qed

lemma exResumed_length: "length (wLog exResumed) = 3"
  using arg_cong [OF exResumed_log, of length] by simp

lemma exResumed_sequence: "ckSequence (fst (wLog exResumed ! 0)) = 1" "ckSequence (fst (wLog exResumed ! 1)) = 1"
  using arg_cong [OF exResumed_log, of "\<lambda>l. l ! 0"] arg_cong [OF exResumed_log, of "\<lambda>l. l ! 1"] exResumed_length by simp_all

theorem deliveries_exactly_once_witness: "sameDelivery (fst (wLog exResumed ! 0)) (fst (wLog exResumed ! 1))"
  using deliveries_exactly_once [OF exSetup exResumed_reach, of 0 1] exResumed_length exResumed_sequence by simp

text \<open>
  C21. Under the same faults the checkpoint never runs ahead of the sink: it always loads, and every
  sequence number it has passed has been accepted by the sink with its number of samples.
\<close>

theorem checkpoint_behind_sink:
  assumes "setup_ok textual C R" and "spool_reach C R w"
  shows "\<exists>cps existed. loadCheckpoints (configIdentity C R) (wCheckpoint w) = Inr (cps, existed) \<and>
    (\<forall>n. 0 < n \<and> n < csNext cps \<longrightarrow> (\<exists>p \<in> set (wLog w). ckSequence (fst p) = n \<and> accepted p))"
  by (rule reach_log [OF assms]) (auto simp: log_ok_def)

theorem checkpoint_behind_sink_witness:
  "\<exists>p \<in> set (wLog exResumed). ckSequence (fst p) = 2 \<and> accepted p"
proof -
  obtain cps existed where load: "loadCheckpoints (configIdentity exCodec exOptions) (wCheckpoint exResumed) = Inr (cps, existed)"
      and all: "\<forall>n. 0 < n \<and> n < csNext cps \<longrightarrow> (\<exists>p \<in> set (wLog exResumed). ckSequence (fst p) = n \<and> accepted p)"
    using checkpoint_behind_sink [OF exSetup exResumed_reach] by blast
  have "csNext cps = 3" using exResumed_next load by simp
  then show ?thesis using all by simp
qed

section \<open>A spool that cannot be replayed\<close>

text \<open>
  A line without metrics is read, the write of its checkpoint fails, and the context is cancelled:
  \<open>finishCancelled\<close> drains on from the checkpoint in memory and the sink refuses the next chunk.
\<close>

definition exStranded :: world where
  "exStranded = snd (run exCodec exOptions (exRun (exLine ''t'') True (exLine ''t'' @ exLine ''m''))
     (newProcess [IoOk, IoFails None ''io''] [SinkFails ''x''] emptyWorld))"

definition exStrandedEntry :: "string \<times> chunkManifest" where
  "exStrandedEntry = (case wPending exStranded of [(name, SpoolFile (Document m))] \<Rightarrow> (name, m))"

lemma exStranded_disk:
  "wCheckpoint exStranded = None \<and> wPending exStranded = [(fst exStrandedEntry, SpoolFile (Document (snd exStrandedEntry)))]"
  by code_simp

lemma exStranded_entry:
  "recognizedAtomicTemp (fst exStrandedEntry) = None \<and> validPendingName (fst exStrandedEntry) \<and>
   validateManifest exCodec (fst exStrandedEntry) (snd exStrandedEntry) (configIdentity exCodec exOptions) \<and>
   cmSequence (snd exStrandedEntry) = 1 \<and>
   advanceCheckpointForManifest (freshCheckpoints (configIdentity exCodec exOptions)) (snd exStrandedEntry) = Inl (StartsAfterMissing ''/h'')"
  by code_simp

definition strandedDisk :: "world \<Rightarrow> bool" where
  "strandedDisk w \<longleftrightarrow> wCheckpoint w = wCheckpoint exStranded \<and> wPending w = wPending exStranded \<and> wLog w = wLog exStranded"

lemma strandedDisk_frame [simp]:
  "strandedDisk (w\<lparr>wMemory := m\<rparr>) = strandedDisk w" "strandedDisk (w\<lparr>wFaults := f\<rparr>) = strandedDisk w"
  "strandedDisk (w\<lparr>wCrashed := b\<rparr>) = strandedDisk w" "strandedDisk (newProcess faults answers w) = strandedDisk w"
  by (simp_all add: strandedDisk_def newProcess_def)

lemma stranded_replay:
  assumes "strandedDisk w" and "wMemory w = freshCheckpoints (configIdentity exCodec exOptions)"
  shows "replaySpool exCodec exOptions w = (Inl (StartsAfterMissing ''/h''), w)"
proof -
  have walk: "spoolFiles w = (Inr [fst exStrandedEntry], w)"
    using assms(1) exStranded_disk exStranded_entry
    by (simp add: spoolFiles_def strandedDisk_def gm_keys_def gm_lookup_def andDo_def ret_def)
  have "readPending exCodec (configIdentity exCodec exOptions) (fst exStrandedEntry) w = Inr (snd exStrandedEntry)"
    using assms(1) exStranded_disk exStranded_entry by (simp add: readPending_def strandedDisk_def gm_lookup_def)
  then have "loadPending exCodec (configIdentity exCodec exOptions) w = (Inr (Some exStrandedEntry), w)"
    using walk exStranded_entry by (simp add: loadPending_def andDo_def)
  moreover have "replayManifest exCodec (fst exStrandedEntry) (snd exStrandedEntry) w = (Inl (StartsAfterMissing ''/h''), w)"
    using assms(2) exStranded_entry by (simp add: replayManifest_def Let_def freshCheckpoints_def)
  ultimately show ?thesis by (simp add: replaySpool_def andDo_def case_prod_beta)
qed

lemma stranded_cancelled:
  assumes "strandedDisk w" and "wMemory w = freshCheckpoints (configIdentity exCodec exOptions)"
  shows "\<exists>e. finishCancelled exCodec exOptions E w = (Inl e, w)"
  using stranded_replay [OF assms] by (auto simp: finishCancelled_def andDo_def liftE_def split: sum.splits)

lemma stranded_run:
  assumes "strandedDisk w"
  shows "\<exists>e w'. run exCodec exOptions E w = (Inl e, w') \<and> strandedDisk w'"
proof -
  let ?cps = "freshCheckpoints (configIdentity exCodec exOptions)"
  have start: "startMemory exCodec exOptions v = (Inr False, v\<lparr>wMemory := ?cps\<rparr>)" if "strandedDisk v" for v
    using that exStranded_disk by (simp add: startMemory_def strandedDisk_def loadCheckpoints_def)
  have dir: "strandedDisk w'" if "durable (\<lambda>w. w) noTemp w = (r, w')" for r w'
    using that assms
    by (auto simp: durable_def nextFault_def leaveTemp_def noTemp_def split: list.splits ioFault.splits option.splits)
  have rest: "\<exists>e. unlessCancelled exCodec exOptions b E' (replaySpool exCodec exOptions) f (v\<lparr>wMemory := ?cps\<rparr>) = (Inl e, v\<lparr>wMemory := ?cps\<rparr>)"
    if "strandedDisk v" for b E' f v
    using stranded_replay [of "v\<lparr>wMemory := ?cps\<rparr>"] stranded_cancelled [of "v\<lparr>wMemory := ?cps\<rparr>" E'] that
    by (auto simp: unlessCancelled_def orCancelled_def failWith_def)
  show ?thesis
  proof (cases "durable (\<lambda>w. w) noTemp w")
    case (Pair r w')
    have d: "strandedDisk w'" by (rule dir [OF Pair])
    show ?thesis
    proof (cases r)
      case (Inl e)
      then show ?thesis using Pair d by (auto simp: run_def andDo_def)
    next
      case (Inr u)
      then show ?thesis
        using Pair d rest [OF d, of "reReplayCancelled E" "reCancel E"] start [OF d] by (fastforce simp: run_def andDo_def)
    qed
  qed
qed

text \<open>Processes one after the other, each with its environment, its faults and the answers of its sink.\<close>

definition nextProcess :: "runEnv \<times> ioFault list \<times> sinkAnswer list \<Rightarrow> world \<Rightarrow> world" where
  "nextProcess p w = snd (run exCodec exOptions (fst p) (newProcess (fst (snd p)) (snd (snd p)) w))"

lemma stranded_processes: "strandedDisk w \<Longrightarrow> strandedDisk (fold nextProcess ps w)"
proof (induction ps arbitrary: w)
  case (Cons p ps)
  have "strandedDisk (newProcess (fst (snd p)) (snd (snd p)) w)" using Cons.prems by simp
  then have "strandedDisk (nextProcess p w)" using stranded_run unfolding nextProcess_def by (metis snd_conv)
  then show ?case using Cons.IH by simp
qed simp

text \<open>
  C33. One failed write of the checkpoint of a read without metrics, followed by the cancellation of
  the context and one refusal of the sink, strands the spool: however many processes follow, and
  whatever they meet, the next one ends with an error and leaves the pending chunk, which no
  process ever hands to the sink again.
\<close>

theorem cancelled_skip_strands_spool:
  "(\<exists>e. fst (run exCodec exOptions E (newProcess faults answers (fold nextProcess ps exStranded))) = Inl e) \<and>
   wPending (fold nextProcess ps exStranded) = wPending exStranded \<and> length (wPending exStranded) = 1 \<and>
   wLog (fold nextProcess ps exStranded) = wLog exStranded"
proof -
  have st: "strandedDisk (fold nextProcess ps exStranded)" by (rule stranded_processes) (simp add: strandedDisk_def)
  then have "strandedDisk (newProcess faults answers (fold nextProcess ps exStranded))" by simp
  then obtain e w' where "run exCodec exOptions E (newProcess faults answers (fold nextProcess ps exStranded)) = (Inl e, w')"
    using stranded_run by blast
  then show ?thesis using st exStranded_disk by (simp add: strandedDisk_def)
qed

end
