(* ===== verification/Spec2Isabelle.thy ===== *)
theory Spec2Isabelle
  imports Collector Exposition Workspace_Ready Quota_Locks Cluster_Props Flavor_Props Profile_Published Metric_Props
begin

text \<open>
  \<^bold>\<open>TauGrid: the GPU monitoring collector, the quota controllers and the experiment-metrics collector.\<close>

  TauGrid runs GPU workloads on Kubernetes. Two of its programs decide what runs and where, and a
  third delivers what the workloads measure: the GPU metrics collector on every node (\<open>src/monitoring/gpu-metrics-collector\<close>), which turns
  exporter metrics into node conditions; the tau-core controller
  (\<open>src/controllers/tau-core\<close>), which turns teams, workspaces and discovered nodes into Kueue
  quota objects; and the experiment-metrics collector beside a workload
  (\<open>src/metrics/experiment-metrics-collector\<close>), which reads training histories and hands their
  metrics to a sink through a spool on disk. They are modelled here operation by operation.

  \<^bold>\<open>Parts and theories.\<close>

  \<^item> \<open>Go_Prelude\<close>: what Go gives the code. Maps are association lists with distinct keys, so an
    iteration visits insertion order; slices are lists; times and durations are integers with the
    64-bit wrap and saturation of \<open>time\<close>; floats are rounded rationals with NaN and infinities.
    The locale of maps states the laws of assignment and lookup.
  \<^item> \<open>Scraper\<close>, \<open>Rules_Engine\<close>, \<open>Availability\<close>, \<open>Conditions\<close>, \<open>Collector_Config\<close>, \<open>Collector\<close>:
    the collector (\<open>internal/scraper\<close>, \<open>internal/rules\<close>, \<open>internal/availability\<close>,
    \<open>internal/conditions\<close>, \<open>internal/config\<close>, \<open>internal/state\<close>, \<open>cmd\<close>). The engine keeps the
    history of every series; the tracker keeps one timer per target; the writer keeps the last
    acknowledged conditions; the process is a relation of runs, restarts and failures.
    \<open>Rules_Engine_Props\<close> and \<open>Rules_Correct\<close> hold the engine's lemmas and theorems.
  \<^item> \<open>Go_Strconv\<close>, \<open>Exposition\<close>: integers and substrings; the scraper's parser of the text format and
    the redaction of errors (\<open>internal/scraper/scraper.go\<close>), and a writer of the format.
  \<^item> \<open>Kube_Object\<close>, \<open>Tau_Types\<close>: unstructured objects as JSON trees, the custom resources
    (\<open>api/v1alpha1/types.go\<close>), conditions (\<open>conditions.go\<close>), the quota-request controller
    (\<open>quota_request_controller.go\<close>) and the lock order (\<open>quota_lock.go\<close>), with
    \<open>Tau_Conditions\<close> and \<open>Quota_Locks\<close> for their properties.
  \<^item> \<open>Quota_Resources\<close>, \<open>Queue_Merge\<close>: quotas as Kueue resource groups, reading them back, the
    merge with an established queue and the reduction guard (\<open>quota_resources.go\<close>).
  \<^item> \<open>Kube_Api\<close>: the API server as the argument \<open>A\<close>, the guarded write of a managed object and
    the queries for the queue behind a workspace (\<open>workspace_queue.go\<close>,
    \<open>team_controller.go\<close>); an in-memory server \<open>storeApi\<close> is the instance theorems are applied at.
  \<^item> \<open>Team_Quota\<close>: accounting of a team's quota against its workspaces, and its Cohort.
  \<^item> \<open>Capacity_Pool\<close>, \<open>Capacity_Props\<close>: the inventory of GPU nodes and the exclusive pool of one
    team (\<open>capacity_pool.go\<close>, the flavor object of \<open>cluster_flavors.go\<close>).
  \<^item> \<open>Shared_Pool\<close>, \<open>Shared_Props\<close>: the pool shared by all teams (\<open>shared_team_pool.go\<close>).
  \<^item> \<open>Team_Controller\<close>: capacity validation, deletion, status and \<open>Reconcile\<close>
    (\<open>team_controller.go\<close>), which call all of the above.
  \<^item> \<open>Workspace_Queue\<close>, \<open>Workspace_Props\<close>: the ClusterQueue of a workspace under the quota locks,
    its LocalQueue and the compatibility queues (\<open>workspace_queue.go\<close>).
  \<^item> \<open>Workspace_Access\<close>, \<open>Workspace_Cleanup\<close>, \<open>Workspace_Controller\<close>: the target namespace
    (\<open>workspace_namespace.go\<close>), role bindings and the workload identity
    (\<open>workspace_rbac.go\<close>), the removal of stale objects (\<open>workspace_cleanup.go\<close>), the
    synchronisation and \<open>Reconcile\<close> (\<open>workspace_sync.go\<close>, \<open>workspace_controller.go\<close>,
    \<open>workspace_primary_compat.go\<close>), with \<open>Workspace_Safety\<close> and \<open>Workspace_Ready\<close> for their
    properties.
  \<^item> \<open>Go_Text\<close>, \<open>Workload_Profile\<close>, \<open>Profile_Provider\<close>: lower case, trimming and formatting; workload
    profiles, their canonical form, hash and snapshots (\<open>core/resourceprofile/workload.go\<close>), and the
    selection of a profile by a client (\<open>provider.go\<close>), with \<open>Profile_Props\<close> for their properties.
  \<^item> \<open>Cluster_Nodes\<close>, \<open>Cluster_Flavors\<close>, \<open>Profile_Observer\<close>, \<open>Cluster_Controller\<close>: the cluster
    controller: declared and derived node labels and host slots (\<open>cluster_controller.go\<close>,
    \<open>cluster_topology.go\<close>), discovered flavors and the quotas of queues with discovery
    (\<open>cluster_flavors.go\<close>), the observation of workload profiles and of MultiKueue
    (\<open>workload_profile_observer.go\<close>, \<open>multikueue_prerequisites.go\<close>), the topology, the status and
    \<open>Reconcile\<close>. \<open>Cluster_Props\<close> and \<open>Flavor_Props\<close> hold their properties, \<open>Profile_Published\<close> those
    that span the observer and the client.
  \<^item> \<open>Metric_Event\<close>, \<open>Metric_Spool\<close>, \<open>Metric_Collector\<close>, \<open>Metric_Run\<close>: metric events, their identity and
    encoding and the projection of a history row (\<open>core/exptelemetry\<close>); checkpoints, manifests and the
    durable operations (\<open>spool.go\<close>, \<open>types.go\<close>); reading, delivering and replaying (\<open>collector.go\<close>,
    \<open>history.go\<close>); \<open>Run\<close> and its ends, and the drain timeout (\<open>core/metricsoffload/delivery.go\<close>). The
    state \<open>world\<close> is the disk, the memory and the record of the sink's calls. \<open>Metric_Manifest\<close>
    (what is spooled validates), \<open>Metric_Recovery\<close> (checkpoints and manifests), \<open>Metric_Invariant\<close>
    (the invariant of disk, memory and record), \<open>Metric_Steps\<close>, \<open>Metric_Ops\<close>, \<open>Metric_Safety\<close> (triples
    for the operations, also on errors and crashes), \<open>Metric_Runs\<close> (sequences of processes) and
    \<open>Metric_Restart\<close> (recovery) lead to \<open>Metric_Props\<close>.

  \<^bold>\<open>How code becomes definitions.\<close> A method is a function of its receiver's state. A handler of
  the controller takes the state of the server and returns an error or not and the next state;
  its reads before the first write see one state. An \<open>error\<close> is a value of \<open>kerr\<close> with the format
  and its arguments, and every early return is a branch. Names of definitions are the names of
  the functions; a definition for a loop body or a section of a long function is mapped to its
  lines. Quantities are elements of an ordered abelian group.

  \<^bold>\<open>Parameters.\<close> Third-party code is an argument with named laws: \<open>kube_laws\<close> (quantities, nested
  accessors, JSON of key lists, the name hash, selectors), \<open>object_server\<close>, \<open>object_store\<close> and
  \<open>object_lifecycle\<close> (a write is read back and touches one object), \<open>name_laws\<close> and \<open>label_laws\<close> (what validated names
  and label values look like), the digests of specifications and of sets of profiles (\<open>specHash\<close>,
  \<open>digest\<close>), the YAML and URL parsers, the exporter, the file system and the clock of the collector; of the
  experiment-metrics collector SHA-256, the JSON encoder and decoder of events, the JSON of
  configurations and manifests, \<open>filepath.Clean\<close> and \<open>ParseFloat\<close> (\<open>collectorCodec\<close>), with the law
  \<open>codec_ok\<close> (a digest is 64 hexadecimal digits; an encoded event is one line that decodes to it up
  to the order of its tags and encodes again to the same line) for events whose strings are text
  (\<open>textual_run\<close>; the encoder replaces invalid UTF-8).
  A string is a list of bytes; lower case and white space are those of ASCII. \<open>refKube\<close> and \<open>storeApi\<close> satisfy these laws and evaluate.

  \<^bold>\<open>What is shown.\<close>

  \<^item> Collector: a rule fires exactly on a sustained violation and never reports healthy on
    missing input; rates equal the windowed increase; restarts are transparent to the timers;
    the state file is atomic and reads back; every cycle has one owner per condition; the writer
    sends changes and heartbeats.
  \<^item> Locks: no deadlock, mutual exclusion, and every schedule ends.
  \<^item> Quota objects: what is written is read back, merges lose nothing, guards are exact, managed
    objects are only written by their owner and converge.
  \<^item> Accounting: a team's shared quota is exact and non-negative, and a Cohort is written only
    from an accounting that still holds.
  \<^item> Capacity: the inventory is the supply of the eligible nodes; an exclusive pool overlaps no
    other budget; the shared pool is never over-committed; queues never fall under active
    reservations; a failed pool is held; accepted team quotas fit the discovered capacity; a team
    is released only when unused.
  \<^item> Workspaces: a queue is written only as the pool of the cluster, for an admitted team or to give up
    quota; a published Ready means that the canonical LocalQueue leads to the checked ClusterQueue, while
    the queue told to clients may be a compatible one or that of the status before; a namespace is only taken by its owner
    or by an adoption that names it; a deleted workspace removes its own objects only and keeps
    neither its queue nor its namespace.
  \<^item> Profiles: a snapshot decodes to itself; a selection is ready, authorised and unique; what a client
    selects from the published status has every dependency the controller observed; one profile the
    client refuses hides the whole set.
  \<^item> Cluster: outside the mode Reconcile only the status is written; accepted label rules agree on every
    node unless one selects by labels and the other does not; derived labels fit and settle; counts balance; discovery never lowers a GPU quota; Ready
    does not exclude drift of nodes.
  \<^item> Text format: a written page is read back exactly, except label values with a comma or a closing
    brace.
  \<^item> Experiment metrics: over any sequence of processes with crashes, refusals and failing storage, the
    sink is given every range of a history under one number, with the same bytes, and numbers in order;
    the checkpoint never passes what the sink has not accepted; a process without faults always
    recovers the spool. The exception is a process that goes on after a failed write because its
    context is cancelled: one such write strands the spool for good.

  \<^bold>\<open>Bounds.\<close> No fuel is used: loops are structural recursion over lists or folds, and the
  recursive functions on numbers have termination proofs. Runs of the collector, schedules of the
  locks and sequences of processes are inductive relations without a bound; one run of the
  experiment-metrics collector takes the turns its environment lists. Sequence numbers are natural
  numbers; recovery assumes them below \<open>2 ^ 64\<close>, the width of the code's.

  \<^bold>\<open>Not modelled.\<close> HTTP, logging, metrics endpoints and flags; the clients of ADX;
  the order Go chooses for map iteration (results that depend on it are only which of several
  errors is reported); resource versions and concurrent writers between a read and a write other
  than while waiting for a lock; the globbing of history paths, the test hooks and the times of the
  last update of the experiment-metrics collector; the cached client and the uncached reader see one state, except
  where the code compares them (\<open>aCached\<close>); an object is returned by its creation as the server
  stored it; the registration of watches; the command line, the portal and the other shared
  libraries, which render manifests and pages or query services.
\<close>

end
